(* ===== verification/Prelude.thy ===== *)
theory Prelude
  imports Main "HOL-Library.Word"
begin

text \<open>
  Shared vocabulary of the RTL8367C switch-driver development: the C integer types, the error
  codes of \<open>rtl8367c/include/rtk_error.h\<close>, the monad in which every driver function is written,
  and the generic lemmas on lists and machine words that the component theories use.

  A driver function returns an \<open>outcome\<close> and the new state.  \<open>Ok x\<close> is the return code
  \<open>RT_ERR_OK\<close> together with the values the C function stores through its output pointers,
  \<open>Err e\<close> is any other return code, and \<open>Fault\<close> stands for undefined behaviour of the C
  program (a null-pointer dereference, an array index out of range, a shift by 32 or more).
  Registers written before an error stay written: the state is returned in all three cases.
\<close>

unbundle bit_operations_syntax

section \<open>Machine integers and error codes\<close>

type_synonym u16 = "16 word"
type_synonym u32 = "32 word"

text \<open>
  The error codes the modelled functions return, in the order of the enumeration
  \<open>rt_error_code_e\<close>; \<open>rt_code\<close> gives their numbers (\<open>RT_ERR_OK\<close> is 0 and is the outcome
  \<open>Ok\<close>).
\<close>

datatype rt_error =
    RT_ERR_FAILED
  | RT_ERR_INPUT
  | RT_ERR_PORT_ID
  | RT_ERR_PORT_MASK
  | RT_ERR_ENTRY_INDEX
  | RT_ERR_NULL_POINTER
  | RT_ERR_QUEUE_ID
  | RT_ERR_BUSYWAIT_TIMEOUT
  | RT_ERR_MAC
  | RT_ERR_OUT_OF_RANGE
  | RT_ERR_CHIP_NOT_SUPPORTED
  | RT_ERR_SMI
  | RT_ERR_NOT_INIT
  | RT_ERR_CHIP_NOT_FOUND
  | RT_ERR_NOT_ALLOWED
  | RT_ERR_ENABLE
  | RT_ERR_TBL_FULL
  | RT_ERR_VLAN_VID
  | RT_ERR_VLAN_PRIORITY
  | RT_ERR_VLAN_ACCEPT_FRAME_TYPE
  | RT_ERR_VLAN_ENTRY_NOT_FOUND
  | RT_ERR_VLAN_PROTO_AND_PORT
  | RT_ERR_SVLAN_ENTRY_INDEX
  | RT_ERR_SVLAN_TABLE_FULL
  | RT_ERR_SVLAN_ENTRY_NOT_FOUND
  | RT_ERR_SVLAN_VID
  | RT_ERR_MSTI
  | RT_ERR_MSTP_STATE
  | RT_ERR_RATE
  | RT_ERR_RMA_ADDR
  | RT_ERR_LIMITED_L2ENTRY_NUM
  | RT_ERR_L2_FID
  | RT_ERR_L2_VID
  | RT_ERR_L2_ENTRY_NOTFOUND
  | RT_ERR_L2_INDEXTBL_FULL
  | RT_ERR_L2_L2UNI_PARAM
  | RT_ERR_L2_EMPTY_ENTRY
  | RT_ERR_FILTER_METER_ID
  | RT_ERR_LA_TRUNK_ID
  | RT_ERR_LA_HASHMASK
  | RT_ERR_QOS_INT_PRIORITY
  | RT_ERR_QOS_EBW_RATE
  | RT_ERR_PHY_REG_ID
  | RT_ERR_STAT_INVALID_GLOBAL_CNTR
  | RT_ERR_STAT_INVALID_PORT_CNTR
  | RT_ERR_STAT_INVALID_CNTR
  | RT_ERR_STAT_CNTR_FAIL

primrec rt_code :: "rt_error \<Rightarrow> int" where
  "rt_code RT_ERR_FAILED = -1"
| "rt_code RT_ERR_INPUT = 1"
| "rt_code RT_ERR_PORT_ID = 3"
| "rt_code RT_ERR_PORT_MASK = 4"
| "rt_code RT_ERR_ENTRY_INDEX = 6"
| "rt_code RT_ERR_NULL_POINTER = 7"
| "rt_code RT_ERR_QUEUE_ID = 8"
| "rt_code RT_ERR_BUSYWAIT_TIMEOUT = 10"
| "rt_code RT_ERR_MAC = 11"
| "rt_code RT_ERR_OUT_OF_RANGE = 12"
| "rt_code RT_ERR_CHIP_NOT_SUPPORTED = 13"
| "rt_code RT_ERR_SMI = 14"
| "rt_code RT_ERR_NOT_INIT = 15"
| "rt_code RT_ERR_CHIP_NOT_FOUND = 16"
| "rt_code RT_ERR_NOT_ALLOWED = 17"
| "rt_code RT_ERR_ENABLE = 21"
| "rt_code RT_ERR_TBL_FULL = 22"
| "rt_code RT_ERR_VLAN_VID = 0x10000"
| "rt_code RT_ERR_VLAN_PRIORITY = 0x10001"
| "rt_code RT_ERR_VLAN_ACCEPT_FRAME_TYPE = 0x10003"
| "rt_code RT_ERR_VLAN_ENTRY_NOT_FOUND = 0x10005"
| "rt_code RT_ERR_VLAN_PROTO_AND_PORT = 0x10007"
| "rt_code RT_ERR_SVLAN_ENTRY_INDEX = 0x20000"
| "rt_code RT_ERR_SVLAN_TABLE_FULL = 0x20002"
| "rt_code RT_ERR_SVLAN_ENTRY_NOT_FOUND = 0x20003"
| "rt_code RT_ERR_SVLAN_VID = 0x20005"
| "rt_code RT_ERR_MSTI = 0x30000"
| "rt_code RT_ERR_MSTP_STATE = 0x30001"
| "rt_code RT_ERR_RATE = 0x40002"
| "rt_code RT_ERR_RMA_ADDR = 0x50000"
| "rt_code RT_ERR_LIMITED_L2ENTRY_NUM = 0x60005"
| "rt_code RT_ERR_L2_FID = 0x60007"
| "rt_code RT_ERR_L2_VID = 0x60008"
| "rt_code RT_ERR_L2_ENTRY_NOTFOUND = 0x6000a"
| "rt_code RT_ERR_L2_INDEXTBL_FULL = 0x6000b"
| "rt_code RT_ERR_L2_L2UNI_PARAM = 0x6000d"
| "rt_code RT_ERR_L2_EMPTY_ENTRY = 0x60011"
| "rt_code RT_ERR_FILTER_METER_ID = 0x7000e"
| "rt_code RT_ERR_LA_TRUNK_ID = 0x90001"
| "rt_code RT_ERR_LA_HASHMASK = 0x90003"
| "rt_code RT_ERR_QOS_INT_PRIORITY = 0xd0002"
| "rt_code RT_ERR_QOS_EBW_RATE = 0xd0007"
| "rt_code RT_ERR_PHY_REG_ID = 0xe0001"
| "rt_code RT_ERR_STAT_INVALID_GLOBAL_CNTR = 0x100000"
| "rt_code RT_ERR_STAT_INVALID_PORT_CNTR = 0x100001"
| "rt_code RT_ERR_STAT_INVALID_CNTR = 0x100004"
| "rt_code RT_ERR_STAT_CNTR_FAIL = 0x100005"

text \<open>A pointer parameter that is only written through: null or not.\<close>

datatype outptr = NULLP | PTR

section \<open>The driver monad\<close>

datatype 'a outcome = Ok 'a | Err rt_error | Fault

type_synonym ('s, 'a) drv = "'s \<Rightarrow> 'a outcome \<times> 's"

definition okE :: "'a \<Rightarrow> ('s, 'a) drv" where
  "okE x s = (Ok x, s)"

definition errE :: "rt_error \<Rightarrow> ('s, 'a) drv" where
  "errE e s = (Err e, s)"

definition faultE :: "('s, 'a) drv" where
  "faultE s = (Fault, s)"

text \<open>
  \<open>bindE m f\<close> is the driver's idiom \<^verbatim>\<open>if ((retVal = m) != RT_ERR_OK) return retVal;\<close>
  followed by \<open>f\<close>; \<open>thenE\<close> is the same when \<open>m\<close> stores no result.
\<close>

definition bindE :: "('s, 'a) drv \<Rightarrow> ('a \<Rightarrow> ('s, 'b) drv) \<Rightarrow> ('s, 'b) drv" where
  "bindE m f s = (case m s of
     (r, s') \<Rightarrow> (case r of Ok x \<Rightarrow> f x s' | Err e \<Rightarrow> (Err e, s') | Fault \<Rightarrow> (Fault, s')))"

definition thenE :: "('s, unit) drv \<Rightarrow> ('s, 'b) drv \<Rightarrow> ('s, 'b) drv" where
  "thenE m k = bindE m (\<lambda>_. k)"

definition getsE :: "('s \<Rightarrow> 'a) \<Rightarrow> ('s, 'a) drv" where
  "getsE f s = (Ok (f s), s)"

definition modifyE :: "('s \<Rightarrow> 's) \<Rightarrow> ('s, unit) drv" where
  "modifyE f s = (Ok (), f s)"

text \<open>\<^verbatim>\<open>if (m != RT_ERR_OK) return e;\<close>: the callee's error code is replaced.\<close>

definition mapErrE :: "rt_error \<Rightarrow> ('s, 'a) drv \<Rightarrow> ('s, 'a) drv" where
  "mapErrE e m s = (case m s of
     (r, s') \<Rightarrow> (case r of Ok x \<Rightarrow> (Ok x, s') | Err _ \<Rightarrow> (Err e, s') | Fault \<Rightarrow> (Fault, s')))"

text \<open>\<^verbatim>\<open>m == RT_ERR_OK\<close> as a condition.\<close>

definition isOkE :: "('s, 'a) drv \<Rightarrow> ('s, bool) drv" where
  "isOkE m s = (case m s of
     (r, s') \<Rightarrow> (case r of Ok _ \<Rightarrow> (Ok True, s') | Err _ \<Rightarrow> (Ok False, s') | Fault \<Rightarrow> (Fault, s')))"

text \<open>\<^verbatim>\<open>for\<close> loops whose body may return early with an error.\<close>

primrec forE :: "'i list \<Rightarrow> ('i \<Rightarrow> ('s, unit) drv) \<Rightarrow> ('s, unit) drv" where
  "forE [] body = okE ()"
| "forE (i # is) body = thenE (body i) (forE is body)"

text \<open>Loops that fill an array, one element per iteration.\<close>

primrec mapE :: "('i \<Rightarrow> ('s, 'a) drv) \<Rightarrow> 'i list \<Rightarrow> ('s, 'a list) drv" where
  "mapE f [] = okE []"
| "mapE f (i # is) = bindE (f i) (\<lambda>x. bindE (mapE f is) (\<lambda>xs. okE (x # xs)))"

text \<open>Loops that accumulate a local variable.\<close>

primrec foldE :: "('i \<Rightarrow> 'a \<Rightarrow> ('s, 'a) drv) \<Rightarrow> 'i list \<Rightarrow> 'a \<Rightarrow> ('s, 'a) drv" where
  "foldE f [] acc = okE acc"
| "foldE f (i # is) acc = bindE (f i acc) (foldE f is)"

text \<open>Reading a C array: an index past the end is undefined behaviour.\<close>

definition indexE :: "'a list \<Rightarrow> nat \<Rightarrow> ('s, 'a) drv" where
  "indexE xs i = (if i < length xs then okE (xs ! i) else faultE)"

named_theorems drv_simps

declare okE_def [drv_simps] errE_def [drv_simps] faultE_def [drv_simps] bindE_def [drv_simps]
  thenE_def [drv_simps] getsE_def [drv_simps] modifyE_def [drv_simps] mapErrE_def [drv_simps]
  isOkE_def [drv_simps]

lemma indexE_ok [simp]: "i < length xs \<Longrightarrow> indexE xs i = okE (xs ! i)"
  by (simp add: indexE_def)

lemma bindE_assoc: "bindE (bindE m f) g = bindE m (\<lambda>x. bindE (f x) g)"
  by (rule ext) (simp add: bindE_def split: prod.splits outcome.splits)

lemma bindE_run: "m s = (Ok x, s') \<Longrightarrow> bindE m f s = f x s'"
  by (simp add: bindE_def)

lemma bindE_okE [simp]: "bindE (okE x) f = f x"
  by (rule ext) (simp add: drv_simps)

lemma bindE_errE [simp]: "bindE (errE e) f = errE e"
  by (rule ext) (simp add: drv_simps)

lemma thenE_okE [simp]: "thenE (okE u) k = k"
  by (simp add: thenE_def)

lemma forE_append: "forE (is @ js) body = thenE (forE is body) (forE js body)"
  by (induction "is") (simp_all add: thenE_def bindE_assoc)

section \<open>Safety triples\<close>

text \<open>
  \<open>safe P m Q\<close>: started in a state satisfying \<open>P\<close>, \<open>m\<close> never runs into undefined
  behaviour, keeps \<open>P\<close> on success and on error, and its results satisfy \<open>Q\<close>.
\<close>

definition safe :: "('s \<Rightarrow> bool) \<Rightarrow> ('s, 'a) drv \<Rightarrow> ('a \<Rightarrow> bool) \<Rightarrow> bool" where
  "safe P m Q \<longleftrightarrow> (\<forall>s. P s \<longrightarrow>
     P (snd (m s)) \<and> fst (m s) \<noteq> Fault \<and> (\<forall>x. fst (m s) = Ok x \<longrightarrow> Q x))"

lemma safeI:
  assumes "\<And>s r s'. P s \<Longrightarrow> m s = (r, s') \<Longrightarrow> P s' \<and> r \<noteq> Fault \<and> (\<forall>x. r = Ok x \<longrightarrow> Q x)"
  shows "safe P m Q"
  unfolding safe_def by (intro allI impI) (use assms in \<open>metis prod.collapse\<close>)

lemma safeD:
  assumes "safe P m Q" and "P s" and "m s = (r, s')"
  shows "P s'" and "r \<noteq> Fault" and "r = Ok x \<Longrightarrow> Q x"
  using assms unfolding safe_def by (metis fst_conv snd_conv)+

named_theorems safe_rules

lemma safe_okE [safe_rules]: "Q x \<Longrightarrow> safe P (okE x) Q"
  by (simp add: safe_def okE_def)

lemma safe_errE [safe_rules]: "safe P (errE e) Q"
  by (simp add: safe_def errE_def)

lemma safe_bindE:
  assumes m: "safe P m R" and f: "\<And>x. R x \<Longrightarrow> safe P (f x) Q"
  shows "safe P (bindE m f) Q"
proof (rule safeI)
  fix s r s'
  assume s: "P s" and run: "bindE m f s = (r, s')"
  obtain r1 s1 where m1: "m s = (r1, s1)" by (cases "m s")
  note m' = safeD [OF m s m1]
  show "P s' \<and> r \<noteq> Fault \<and> (\<forall>x. r = Ok x \<longrightarrow> Q x)"
  proof (cases r1)
    case (Ok x)
    with m' have "R x" and "P s1" by auto
    moreover from run m1 Ok have "f x s1 = (r, s')" by (simp add: bindE_def)
    ultimately show ?thesis using safeD [OF f] by blast
  qed (use run m1 m' in \<open>auto simp: bindE_def\<close>)
qed

lemma safe_bindT [safe_rules]:
  "safe P m (\<lambda>_. True) \<Longrightarrow> (\<And>x. safe P (f x) Q) \<Longrightarrow> safe P (bindE m f) Q"
  by (rule safe_bindE)

lemma safe_thenE [safe_rules]:
  assumes "safe P m (\<lambda>_. True)" and "safe P k Q"
  shows "safe P (thenE m k) Q"
  unfolding thenE_def by (rule safe_bindE) (use assms in auto)

lemma safe_mapErrE [safe_rules]: "safe P m Q \<Longrightarrow> safe P (mapErrE e m) Q"
  by (rule safeI) (auto simp: mapErrE_def dest: safeD split: prod.splits outcome.splits)

lemma safe_isOkE: "safe P m Q \<Longrightarrow> safe P (isOkE m) (\<lambda>_. True)"
  by (rule safeI) (auto simp: isOkE_def dest: safeD split: prod.splits outcome.splits)

lemma safe_if [safe_rules]:
  "(c \<Longrightarrow> safe P m Q) \<Longrightarrow> (\<not> c \<Longrightarrow> safe P k Q) \<Longrightarrow> safe P (if c then m else k) Q"
  by simp

lemma safe_forE:
  assumes "\<And>i. i \<in> set is \<Longrightarrow> safe P (body i) (\<lambda>_. True)"
  shows "safe P (forE is body) (\<lambda>_. True)"
  using assms by (induction "is") (auto intro: safe_okE safe_thenE)

lemma safe_mapE:
  assumes "\<And>i. i \<in> set is \<Longrightarrow> safe P (f i) Q"
  shows "safe P (mapE f is) (\<lambda>xs. length xs = length is \<and> (\<forall>x \<in> set xs. Q x))"
  using assms
proof (induction "is")
  case (Cons i "is")
  then have "safe P (mapE f is) (\<lambda>xs. length xs = length is \<and> (\<forall>x \<in> set xs. Q x))" by simp
  with Cons.prems [of i] show ?case
    by (auto intro!: safe_bindE [where R = Q] safe_okE
        safe_bindE [where m = "mapE f is" and R = "\<lambda>xs. length xs = length is \<and> (\<forall>x \<in> set xs. Q x)"])
qed (simp add: safe_okE)

lemma safe_foldE:
  assumes "\<And>i acc. i \<in> set is \<Longrightarrow> Q acc \<Longrightarrow> safe P (f i acc) Q" and "Q acc"
  shows "safe P (foldE f is acc) Q"
  using assms by (induction "is" arbitrary: acc) (auto intro: safe_okE safe_bindE)

lemma mapE_run:
  assumes "\<And>i s. i \<in> set is \<Longrightarrow> I s \<Longrightarrow> \<exists>s'. f i s = (Ok (g i), s') \<and> I s'" and "I s"
  shows "\<exists>s'. mapE f is s = (Ok (map g is), s') \<and> I s'"
  using assms
proof (induction "is" arbitrary: s)
  case (Cons i "is")
  from Cons.prems(1) [of i s] Cons.prems(2) obtain s1 where "f i s = (Ok (g i), s1)" "I s1" by auto
  moreover from Cons.IH [of s1] Cons.prems(1) \<open>I s1\<close> obtain s2 where "mapE f is s1 = (Ok (map g is), s2)" "I s2" by auto
  ultimately show ?case by (auto simp: bindE_def okE_def)
qed (simp add: okE_def)

text \<open>A loop whose iterations only compute.\<close>

lemma foldE_pure:
  assumes "\<And>i acc. i \<in> set is \<Longrightarrow> f i acc s = (Ok (g i acc), s)"
  shows "foldE f is acc s = (Ok (fold g is acc), s)"
  using assms by (induction "is" arbitrary: acc) (auto simp: okE_def bindE_def)

lemma safe_modifyE: "(\<And>s. P s \<Longrightarrow> P (f s)) \<Longrightarrow> safe P (modifyE f) (\<lambda>_. True)"
  by (simp add: safe_def modifyE_def)

lemma safe_getsE: "(\<And>s. P s \<Longrightarrow> Q (f s)) \<Longrightarrow> safe P (getsE f) Q"
  by (simp add: safe_def getsE_def)

lemma safe_weaken: "safe P m R \<Longrightarrow> (\<And>x. R x \<Longrightarrow> Q x) \<Longrightarrow> safe P m Q"
  unfolding safe_def by blast

lemma safeD_no_fault: "safe P m Q \<Longrightarrow> P s \<Longrightarrow> fst (m s) \<noteq> Fault"
  unfolding safe_def by blast

section \<open>Word lemmas\<close>

text \<open>Collecting bits: the loops that translate port masks.\<close>

lemma bit_fold_or:
  "bit (fold (\<lambda>i acc. if P i then acc OR push_bit (g i) 1 else acc) is (acc :: 'a::len word)) k \<longleftrightarrow>
     bit acc k \<or> k < LENGTH('a) \<and> (\<exists>i \<in> set is. P i \<and> g i = k)"
proof (induction "is" arbitrary: acc)
  case (Cons i "is")
  show ?case unfolding fold_Cons comp_def Cons.IH
    by (auto simp: bit_simps dest: bit_imp_le_length)
qed (auto dest: bit_imp_le_length)


text \<open>The C test \<^verbatim>\<open>w & (1 << n)\<close>.\<close>

declare and_exp_eq_0_iff_not_bit [simp]

lemma word_le_mask_iff: "(w :: 'a::len word) \<le> mask n \<longleftrightarrow> take_bit n w = w"
proof
  assume "w \<le> mask n"
  then have "uint w \<le> uint (take_bit n (mask n :: 'a word))" by (simp add: word_le_def)
  also have "\<dots> < 2 ^ n" unfolding unsigned_take_bit_eq by (rule take_bit_int_less_exp)
  finally have "take_bit n (uint w) = uint w"
    by (simp add: take_bit_int_eq_self_iff)
  then show "take_bit n w = w"
    by (metis unsigned_take_bit_eq word_uint_eq_iff)
next
  assume "take_bit n w = w"
  then show "w \<le> mask n" by (metis take_bit_eq_mask word_and_le1)
qed

lemma le_mask_iff_bits: "(w :: 'a::len word) \<le> mask n \<longleftrightarrow> (\<forall>k \<ge> n. \<not> bit w k)"
  unfolding word_le_mask_iff
  by (metis (full_types, lifting) bit_take_bit_iff bit_word_eqI linorder_not_le)

text \<open>A fact of all words below a bound, by evaluating it.\<close>

lemma words_below: "list_all (\<lambda>n. P (of_nat n)) [0..<N] \<Longrightarrow> unat w < N \<Longrightarrow> P (w :: 'a::len word)"
  by (auto simp: list_all_iff dest!: bspec [of _ _ "unat w"])

lemma le_FFFF_iff_bits: "(w :: u32) \<le> 0xFFFF \<longleftrightarrow> (\<forall>k \<ge> 16. \<not> bit w k)"
  using le_mask_iff_bits [of w 16] by (simp add: mask_eq_exp_minus_1)

lemma less_10000_iff: "(w :: u32) < 0x10000 \<longleftrightarrow> w \<le> 0xFFFF"
  by (simp add: word_less_nat_alt word_le_nat_alt) linarith

lemma ucast_u16_le [simp]: "(ucast (w :: u16) :: u32) \<le> 0xFFFF"
  unfolding le_FFFF_iff_bits by (auto simp: bit_simps dest: bit_imp_le_length)

lemma ucast_down_up [simp]: "(w :: u32) \<le> 0xFFFF \<Longrightarrow> ucast (ucast w :: u16) = w"
  unfolding le_FFFF_iff_bits by (rule bit_word_eqI, auto simp: bit_simps, meson linorder_not_le)

lemma ucast_up_down [simp]: "(ucast (ucast (w :: u16) :: u32) :: u16) = w"
  by (rule bit_word_eqI) (simp add: bit_simps)

text \<open>
  Packing and unpacking of 16-bit words is decided bit by bit: \<open>word16_bits\<close> turns an equation
  into sixteen equations between bits, and the bound of a field says which of its bits are clear.
\<close>

lemma all_less_16:
  "(\<forall>n<16. P n) \<longleftrightarrow> P 0 \<and> P 1 \<and> P 2 \<and> P 3 \<and> P 4 \<and> P 5 \<and> P 6 \<and> P 7 \<and> P 8 \<and> P 9 \<and> P 10 \<and>
     P 11 \<and> P 12 \<and> P 13 \<and> P 14 \<and> P (15 :: nat)"
  by (simp add: numeral_eq_Suc All_less_Suc conj_ac)

lemma word16_bits: "(a :: u16) = b \<longleftrightarrow> (\<forall>n<16. bit a n = bit b n)"
  by (simp add: bit_eq_iff)

lemma word16_le_mask: "(w :: u16) \<le> mask k \<longleftrightarrow> (\<forall>n<16. k \<le> n \<longrightarrow> \<not> bit w n)"
  unfolding le_mask_iff_bits using bit_imp_le_length [of w] by auto

lemma word16_le_bits:
  "(w :: u16) \<le> 1 \<longleftrightarrow> (\<forall>n<16. 1 \<le> n \<longrightarrow> \<not> bit w n)"
  "(w :: u16) \<le> 3 \<longleftrightarrow> (\<forall>n<16. 2 \<le> n \<longrightarrow> \<not> bit w n)"
  "(w :: u16) \<le> 7 \<longleftrightarrow> (\<forall>n<16. 3 \<le> n \<longrightarrow> \<not> bit w n)"
  "(w :: u16) \<le> 15 \<longleftrightarrow> (\<forall>n<16. 4 \<le> n \<longrightarrow> \<not> bit w n)"
  "(w :: u16) \<le> 31 \<longleftrightarrow> (\<forall>n<16. 5 \<le> n \<longrightarrow> \<not> bit w n)"
  "(w :: u16) \<le> 63 \<longleftrightarrow> (\<forall>n<16. 6 \<le> n \<longrightarrow> \<not> bit w n)"
  "(w :: u16) \<le> 0x7FF \<longleftrightarrow> (\<forall>n<16. 11 \<le> n \<longrightarrow> \<not> bit w n)"
  "(w :: u16) \<le> 0xFFF \<longleftrightarrow> (\<forall>n<16. 12 \<le> n \<longrightarrow> \<not> bit w n)"
  "(w :: u16) \<le> 0x1FFF \<longleftrightarrow> (\<forall>n<16. 13 \<le> n \<longrightarrow> \<not> bit w n)"
  using word16_le_mask [of w 1] word16_le_mask [of w 2] word16_le_mask [of w 3]
    word16_le_mask [of w 4] word16_le_mask [of w 5] word16_le_mask [of w 6]
    word16_le_mask [of w 11] word16_le_mask [of w 12] word16_le_mask [of w 13]
  by (simp_all add: mask_eq_exp_minus_1)

lemmas word16_decide = word16_bits word16_le_bits all_less_16

section \<open>Packing of structures\<close>

text \<open>
  The contract between the two directions of a packing: every structure that passes the range
  checks survives the way to the wire and back.
\<close>

locale packing =
  fixes ok :: "'a \<Rightarrow> bool" and pack :: "'a \<Rightarrow> 'w" and unpack :: "'w \<Rightarrow> 'a"
  assumes unpack_pack: "ok x \<Longrightarrow> unpack (pack x) = x"
begin

lemma pack_inj: "ok x \<Longrightarrow> ok y \<Longrightarrow> pack x = pack y \<longleftrightarrow> x = y"
  using unpack_pack by metis

lemma pack_inj_on: "inj_on pack (Collect ok)"
  by (rule inj_onI) (simp add: pack_inj)

end

end
