(* ===== verification/Gsw.thy ===== *)
theory Gsw
  imports Prelude
begin

text \<open>
  The state of the driver.  \<open>rtk_gsw\<close> of \<open>rtl8367s_mdio.c\<close> holds the MDIO bus; the bus
  operations and the chip behind them are not code of the repository, so they are parameters:
  \<open>mii_bus\<close> is the pair of function pointers \<^verbatim>\<open>bus->read\<close> and \<^verbatim>\<open>bus->write\<close>, acting on
  a device state of arbitrary type \<open>'d\<close>.  The other fields are the file-scope variables of
  \<open>rtk_switch.c\<close>, \<open>vlan.c\<close> and \<open>svlan.c\<close>; the bytes of \<open>svlan_mbrCfgUsage\<close>, which hold
  \<^verbatim>\<open>TRUE\<close> or \<^verbatim>\<open>FALSE\<close>, are booleans.

  C enumerations that a caller may pass are 32-bit words, because the API functions compare them
  with the enumeration's end marker.
\<close>

record 'd mii_bus =
  bus_read :: "u32 \<Rightarrow> u32 \<Rightarrow> 'd \<Rightarrow> u32 \<times> 'd"
  bus_write :: "u32 \<Rightarrow> u32 \<Rightarrow> u32 \<Rightarrow> 'd \<Rightarrow> 'd"

section \<open>Enumerations and constants of \<open>rtk_types.h\<close> and \<open>rtk_switch.h\<close>\<close>

type_synonym rtk_port_t = u32
type_synonym rtk_enable_t = u32
type_synonym rtk_portmask_t = u32  \<comment> \<open>\<^verbatim>\<open>bits[0]\<close>; there is one word\<close>

abbreviation (input) DISABLED :: rtk_enable_t where "DISABLED \<equiv> 0"
abbreviation (input) ENABLED :: rtk_enable_t where "ENABLED \<equiv> 1"
abbreviation (input) RTK_ENABLE_END :: rtk_enable_t where "RTK_ENABLE_END \<equiv> 2"

abbreviation (input) INIT_NOT_COMPLETED :: u32 where "INIT_NOT_COMPLETED \<equiv> 0"
abbreviation (input) INIT_COMPLETED :: u32 where "INIT_COMPLETED \<equiv> 1"
abbreviation (input) INIT_STATE_END :: u32 where "INIT_STATE_END \<equiv> 2"

abbreviation (input) UTP_PORT0 :: rtk_port_t where "UTP_PORT0 \<equiv> 0"
abbreviation (input) UTP_PORT1 :: rtk_port_t where "UTP_PORT1 \<equiv> 1"
abbreviation (input) UTP_PORT2 :: rtk_port_t where "UTP_PORT2 \<equiv> 2"
abbreviation (input) UTP_PORT3 :: rtk_port_t where "UTP_PORT3 \<equiv> 3"
abbreviation (input) UTP_PORT4 :: rtk_port_t where "UTP_PORT4 \<equiv> 4"
abbreviation (input) UTP_PORT5 :: rtk_port_t where "UTP_PORT5 \<equiv> 5"
abbreviation (input) UTP_PORT6 :: rtk_port_t where "UTP_PORT6 \<equiv> 6"
abbreviation (input) UTP_PORT7 :: rtk_port_t where "UTP_PORT7 \<equiv> 7"
abbreviation (input) EXT_PORT0 :: rtk_port_t where "EXT_PORT0 \<equiv> 16"
abbreviation (input) EXT_PORT1 :: rtk_port_t where "EXT_PORT1 \<equiv> 17"
abbreviation (input) EXT_PORT2 :: rtk_port_t where "EXT_PORT2 \<equiv> 18"
abbreviation (input) UNDEFINE_PORT :: rtk_port_t where "UNDEFINE_PORT \<equiv> 30"
abbreviation (input) UNDEFINE_PHY_PORT :: u32 where "UNDEFINE_PHY_PORT \<equiv> 0xFF"
abbreviation (input) RTK_SWITCH_PORT_NUM :: nat where "RTK_SWITCH_PORT_NUM \<equiv> 32"

datatype switch_chip_t = CHIP_RTL8367C | CHIP_RTL8370B | CHIP_RTL8364B | CHIP_RTL8363SC_VB

datatype port_type_t = UTP_PORT | EXT_PORT | UNKNOWN_PORT

record rtk_switch_halCtrl_t =
  switch_type :: switch_chip_t
  l2p_port :: "u32 list"
  p2l_port :: "u32 list"
  log_port_type :: "port_type_t list"
  ptp_port :: "u32 list"
  valid_portmask :: u32
  valid_utp_portmask :: u32
  valid_ext_portmask :: u32
  valid_cpu_portmask :: u32
  min_phy_port :: u32
  max_phy_port :: u32
  phy_portmask :: u32
  combo_logical_port :: u32
  hsg_logical_port :: u32
  sg_logical_portmask :: u32
  max_meter_id :: u32
  max_lut_addr_num :: u32
  trunk_group_mask :: u32

datatype vlan_mbrCfgType_t = MBRCFG_UNUSED | MBRCFG_USED_BY_VLAN

section \<open>The driver state\<close>

record 'd gsw =
  gsw_bus :: "'d mii_bus"
  gsw_dev :: 'd
  init_state :: u32
  halCtrl :: "rtk_switch_halCtrl_t option"
  vlan_mbrCfgVid :: "u32 list"
  vlan_mbrCfgUsage :: "vlan_mbrCfgType_t list"
  svlan_mbrCfgUsage :: "bool list"
  svlan_mbrCfgVid :: "u16 list"
  svlan_lookupType :: u32

end
