(* ===== verification/Smi.thy ===== *)
theory Smi
  imports Gsw
begin

text \<open>
  Register access over MDIO: \<open>mii_mgr_read\<close> and \<open>mii_mgr_write\<close> of \<open>rtl8367s_mdio.c\<close> and
  \<open>smi_read\<close> and \<open>smi_write\<close> of \<open>rtl8367c/smi.c\<close> in the configuration the Makefile selects
  (\<open>MDC_MDIO_OPERATION\<close>, PHY id 29).  The bus lock and the empty driver mutex order accesses of
  several threads and have no effect on one thread's accesses.

  \<open>smi_contract\<close> is what the driver relies on from the chip: through the four-step MDIO
  sequences that \<open>smi.c\<close> documents, the addresses of a set \<open>A\<close> behave as 16-bit storage.
  Registers that the chip changes by itself or that start an action are left out of \<open>A\<close>.
\<close>

section \<open>Bus access\<close>

definition mii_mgr_read :: "u32 \<Rightarrow> u32 \<Rightarrow> ('d gsw, u32) drv" where
  "mii_mgr_read phy_addr phy_register s =
     (case bus_read (gsw_bus s) phy_addr phy_register (gsw_dev s) of
        (read_data, d) \<Rightarrow> (Ok read_data, s\<lparr>gsw_dev := d\<rparr>))"

definition mii_mgr_write :: "u32 \<Rightarrow> u32 \<Rightarrow> u32 \<Rightarrow> ('d gsw, unit) drv" where
  "mii_mgr_write phy_addr phy_register write_data s =
     (Ok (), s\<lparr>gsw_dev := bus_write (gsw_bus s) phy_addr phy_register write_data (gsw_dev s)\<rparr>)"

abbreviation (input) MDC_MDIO_PHY_ID :: u32 where "MDC_MDIO_PHY_ID \<equiv> 29"
abbreviation (input) MDC_MDIO_CTRL0_REG :: u32 where "MDC_MDIO_CTRL0_REG \<equiv> 31"
abbreviation (input) MDC_MDIO_CTRL1_REG :: u32 where "MDC_MDIO_CTRL1_REG \<equiv> 21"
abbreviation (input) MDC_MDIO_ADDRESS_REG :: u32 where "MDC_MDIO_ADDRESS_REG \<equiv> 23"
abbreviation (input) MDC_MDIO_DATA_WRITE_REG :: u32 where "MDC_MDIO_DATA_WRITE_REG \<equiv> 24"
abbreviation (input) MDC_MDIO_DATA_READ_REG :: u32 where "MDC_MDIO_DATA_READ_REG \<equiv> 25"
abbreviation (input) MDC_MDIO_ADDR_OP :: u32 where "MDC_MDIO_ADDR_OP \<equiv> 0xE"
abbreviation (input) MDC_MDIO_READ_OP :: u32 where "MDC_MDIO_READ_OP \<equiv> 1"
abbreviation (input) MDC_MDIO_WRITE_OP :: u32 where "MDC_MDIO_WRITE_OP \<equiv> 3"

definition smi_read :: "u32 \<Rightarrow> outptr \<Rightarrow> ('d gsw, u32) drv" where
  "smi_read mAddrs rData =
     (if mAddrs > 0xFFFF then errE RT_ERR_INPUT
      else if rData = NULLP then errE RT_ERR_NULL_POINTER
      else
        thenE (mii_mgr_write MDC_MDIO_PHY_ID MDC_MDIO_CTRL0_REG MDC_MDIO_ADDR_OP)
        (thenE (mii_mgr_write MDC_MDIO_PHY_ID MDC_MDIO_ADDRESS_REG mAddrs)
        (thenE (mii_mgr_write MDC_MDIO_PHY_ID MDC_MDIO_CTRL1_REG MDC_MDIO_READ_OP)
        (mii_mgr_read MDC_MDIO_PHY_ID MDC_MDIO_DATA_READ_REG))))"

definition smi_write :: "u32 \<Rightarrow> u32 \<Rightarrow> ('d gsw, unit) drv" where
  "smi_write mAddrs rData =
     (if mAddrs > 0xFFFF then errE RT_ERR_INPUT
      else if rData > 0xFFFF then errE RT_ERR_INPUT
      else
        thenE (mii_mgr_write MDC_MDIO_PHY_ID MDC_MDIO_CTRL0_REG MDC_MDIO_ADDR_OP)
        (thenE (mii_mgr_write MDC_MDIO_PHY_ID MDC_MDIO_ADDRESS_REG mAddrs)
        (thenE (mii_mgr_write MDC_MDIO_PHY_ID MDC_MDIO_DATA_WRITE_REG rData)
        (mii_mgr_write MDC_MDIO_PHY_ID MDC_MDIO_CTRL1_REG MDC_MDIO_WRITE_OP))))"

section \<open>The effect of one register access on the device\<close>

definition mdio_rd :: "'d mii_bus \<Rightarrow> u32 \<Rightarrow> 'd \<Rightarrow> u32 \<times> 'd" where
  "mdio_rd B a d = bus_read B MDC_MDIO_PHY_ID MDC_MDIO_DATA_READ_REG
     (bus_write B MDC_MDIO_PHY_ID MDC_MDIO_CTRL1_REG MDC_MDIO_READ_OP
     (bus_write B MDC_MDIO_PHY_ID MDC_MDIO_ADDRESS_REG a
     (bus_write B MDC_MDIO_PHY_ID MDC_MDIO_CTRL0_REG MDC_MDIO_ADDR_OP d)))"

definition mdio_wr :: "'d mii_bus \<Rightarrow> u32 \<Rightarrow> u32 \<Rightarrow> 'd \<Rightarrow> 'd" where
  "mdio_wr B a v d = bus_write B MDC_MDIO_PHY_ID MDC_MDIO_CTRL1_REG MDC_MDIO_WRITE_OP
     (bus_write B MDC_MDIO_PHY_ID MDC_MDIO_DATA_WRITE_REG v
     (bus_write B MDC_MDIO_PHY_ID MDC_MDIO_ADDRESS_REG a
     (bus_write B MDC_MDIO_PHY_ID MDC_MDIO_CTRL0_REG MDC_MDIO_ADDR_OP d)))"

lemma smi_read_run:
  "smi_read a PTR s =
     (if a > 0xFFFF then (Err RT_ERR_INPUT, s)
      else (Ok (fst (mdio_rd (gsw_bus s) a (gsw_dev s))),
            s\<lparr>gsw_dev := snd (mdio_rd (gsw_bus s) a (gsw_dev s))\<rparr>))"
  by (simp add: smi_read_def mii_mgr_read_def mii_mgr_write_def mdio_rd_def drv_simps
      split: prod.splits)

lemma smi_write_run:
  "smi_write a v s =
     (if a > 0xFFFF \<or> v > 0xFFFF then (Err RT_ERR_INPUT, s)
      else (Ok (), s\<lparr>gsw_dev := mdio_wr (gsw_bus s) a v (gsw_dev s)\<rparr>))"
  by (simp add: smi_write_def mii_mgr_write_def mdio_wr_def drv_simps)

section \<open>The storage contract of the chip\<close>

definition smi_contract :: "'d mii_bus \<Rightarrow> ('d \<Rightarrow> u32 \<Rightarrow> u16) \<Rightarrow> u32 set \<Rightarrow> bool" where
  "smi_contract B regs A \<longleftrightarrow>
     (\<forall>a\<in>A. a \<le> 0xFFFF) \<and>
     (\<forall>a\<in>A. \<forall>d. fst (mdio_rd B a d) = ucast (regs d a)) \<and>
     (\<forall>a\<in>A. \<forall>b\<in>A. \<forall>d. regs (snd (mdio_rd B a d)) b = regs d b) \<and>
     (\<forall>a\<in>A. \<forall>b\<in>A. \<forall>d. \<forall>v \<le> 0xFFFF.
        regs (mdio_wr B a v d) b = (if b = a then ucast v else regs d b))"

lemma contract_addr: "smi_contract B regs A \<Longrightarrow> a \<in> A \<Longrightarrow> a \<le> 0xFFFF"
  by (auto simp: smi_contract_def)

lemma contract_rd:
  "smi_contract B regs A \<Longrightarrow> a \<in> A \<Longrightarrow> fst (mdio_rd B a d) = ucast (regs d a)"
  by (simp add: smi_contract_def)

lemma contract_rd_frame:
  "smi_contract B regs A \<Longrightarrow> a \<in> A \<Longrightarrow> b \<in> A \<Longrightarrow> regs (snd (mdio_rd B a d)) b = regs d b"
  by (simp add: smi_contract_def)

lemma contract_wr:
  "smi_contract B regs A \<Longrightarrow> a \<in> A \<Longrightarrow> b \<in> A \<Longrightarrow> v \<le> 0xFFFF \<Longrightarrow>
   regs (mdio_wr B a v d) b = (if b = a then ucast v else regs d b)"
  by (simp add: smi_contract_def)

lemma smi_contract_mono: "smi_contract B regs A \<Longrightarrow> A' \<subseteq> A \<Longrightarrow> smi_contract B regs A'"
  unfolding smi_contract_def by (meson subsetD)

text \<open>Nothing but the device state changes in a register access.\<close>

lemma safe_smi_read: 
  assumes "\<And>s d. P s \<Longrightarrow> P (s\<lparr>gsw_dev := d\<rparr>)"
  shows "safe P (smi_read a PTR) (\<lambda>_. True)"
  by (rule safeI) (auto simp: smi_read_run assms split: if_splits)

lemma safe_smi_write:
  assumes "\<And>s d. P s \<Longrightarrow> P (s\<lparr>gsw_dev := d\<rparr>)"
  shows "safe P (smi_write a v) (\<lambda>_. True)"
  by (rule safeI) (auto simp: smi_write_run assms split: if_splits)

end
