(* ===== verification/Asicdrv.thy ===== *)
theory Asicdrv
  imports Smi
begin

text \<open>
  \<open>rtl8367c/rtl8367c_asicdrv.c\<close>: whole-register, single-bit and bit-field access to the 16-bit
  registers of the chip.  Every other part of the driver reaches the hardware through these six
  functions.  The configuration modelled is the one the Makefile compiles (neither
  \<open>RTK_X86_ASICDRV\<close>, \<open>CONFIG_RTL8367C_ASICDRV_TEST\<close> nor \<open>EMBEDDED_SUPPORT\<close>); the
  register emulation that the same file offers for driver tests is in \<open>Asicdrv_Test\<close>.
\<close>

section \<open>Operations\<close>

abbreviation (input) RTL8367C_REGBITLENGTH :: nat where "RTL8367C_REGBITLENGTH \<equiv> 16"
abbreviation (input) RTL8367C_REGDATAMAX :: u32 where "RTL8367C_REGDATAMAX \<equiv> 0xFFFF"

definition rtl8367c_setAsicRegBit :: "u32 \<Rightarrow> u32 \<Rightarrow> u32 \<Rightarrow> ('d gsw, unit) drv" where
  "rtl8367c_setAsicRegBit reg bitNo value =
     (if unat bitNo \<ge> RTL8367C_REGBITLENGTH then errE RT_ERR_INPUT
      else bindE (mapErrE RT_ERR_SMI (smi_read reg PTR)) (\<lambda>regData.
        mapErrE RT_ERR_SMI (smi_write reg
          (if value \<noteq> 0 then regData OR push_bit (unat bitNo) 1
           else regData AND NOT (push_bit (unat bitNo) 1)))))"

text \<open>The read of a bit has no range check: a shift by 32 or more is undefined.\<close>

definition rtl8367c_getAsicRegBit :: "u32 \<Rightarrow> u32 \<Rightarrow> ('d gsw, u32) drv" where
  "rtl8367c_getAsicRegBit reg bitNo =
     bindE (mapErrE RT_ERR_SMI (smi_read reg PTR)) (\<lambda>regData.
       if unat bitNo \<ge> 32 then faultE
       else okE (drop_bit (unat bitNo) (regData AND push_bit (unat bitNo) 1)))"

text \<open>
  The loop \<^verbatim>\<open>while(!(bits & (1 << bitsShift)))\<close> that finds the lowest bit of a mask; \<open>None\<close> is
  its early return of \<open>RT_ERR_INPUT\<close>.
\<close>

function bitsShift_loop :: "u32 \<Rightarrow> nat \<Rightarrow> nat option" where
  "bitsShift_loop bits bitsShift =
     (if bits AND push_bit bitsShift 1 \<noteq> 0 then Some bitsShift
      else if bitsShift + 1 \<ge> RTL8367C_REGBITLENGTH then None
      else bitsShift_loop bits (bitsShift + 1))"
  by pat_completeness auto
termination
  by (relation "measure (\<lambda>(bits, n). RTL8367C_REGBITLENGTH - n)") auto

declare bitsShift_loop.simps [simp del]

definition rtl8367c_setAsicRegBits :: "u32 \<Rightarrow> u32 \<Rightarrow> u32 \<Rightarrow> ('d gsw, unit) drv" where
  "rtl8367c_setAsicRegBits reg bits value =
     (if bits \<ge> push_bit RTL8367C_REGBITLENGTH 1 then errE RT_ERR_INPUT
      else (case bitsShift_loop bits 0 of
        None \<Rightarrow> errE RT_ERR_INPUT
      | Some bitsShift \<Rightarrow>
          (let valueShifted = push_bit bitsShift value
           in if valueShifted > RTL8367C_REGDATAMAX then errE RT_ERR_INPUT
              else bindE (mapErrE RT_ERR_SMI (smi_read reg PTR)) (\<lambda>regData.
                mapErrE RT_ERR_SMI (smi_write reg
                  ((regData AND NOT bits) OR (valueShifted AND bits)))))))"

definition rtl8367c_getAsicRegBits :: "u32 \<Rightarrow> u32 \<Rightarrow> ('d gsw, u32) drv" where
  "rtl8367c_getAsicRegBits reg bits =
     (if bits \<ge> push_bit RTL8367C_REGBITLENGTH 1 then errE RT_ERR_INPUT
      else (case bitsShift_loop bits 0 of
        None \<Rightarrow> errE RT_ERR_INPUT
      | Some bitsShift \<Rightarrow>
          bindE (mapErrE RT_ERR_SMI (smi_read reg PTR)) (\<lambda>regData.
            okE (drop_bit bitsShift (regData AND bits)))))"

definition rtl8367c_setAsicReg :: "u32 \<Rightarrow> u32 \<Rightarrow> ('d gsw, unit) drv" where
  "rtl8367c_setAsicReg reg value = mapErrE RT_ERR_SMI (smi_write reg value)"

definition rtl8367c_getAsicReg :: "u32 \<Rightarrow> ('d gsw, u32) drv" where
  "rtl8367c_getAsicReg reg = mapErrE RT_ERR_SMI (smi_read reg PTR)"

section \<open>Bit fields of a register\<close>

text \<open>
  \<open>lsb_of m\<close> is the position of the lowest bit of a mask, \<open>fits m v\<close> says that a value fits
  the field a mask describes; \<open>put_field\<close> and \<open>get_field\<close> are the abstract update and read of
  the field in a 16-bit register.
\<close>

definition lsb_of :: "u32 \<Rightarrow> nat" where
  "lsb_of m = (case bitsShift_loop m 0 of None \<Rightarrow> 16 | Some n \<Rightarrow> n)"

definition fits :: "u32 \<Rightarrow> u32 \<Rightarrow> bool" where
  "fits m v \<longleftrightarrow> drop_bit (lsb_of m) (push_bit (lsb_of m) v AND m) = v"

definition put_field :: "u32 \<Rightarrow> u32 \<Rightarrow> u16 \<Rightarrow> u16" where
  "put_field m v w = ucast ((ucast w AND NOT m) OR (push_bit (lsb_of m) v AND m))"

definition get_field :: "u32 \<Rightarrow> u16 \<Rightarrow> u32" where
  "get_field m w = drop_bit (lsb_of m) (ucast w AND m)"

definition mask16 :: "u32 \<Rightarrow> bool" where
  "mask16 m \<longleftrightarrow> m \<noteq> 0 \<and> m < 0x10000"

lemma bitsShift_loop_Some:
  "bitsShift_loop m k = Some n \<Longrightarrow> bit m n \<and> k \<le> n \<and> (\<forall>j. k \<le> j \<and> j < n \<longrightarrow> \<not> bit m j)"
proof (induction m k rule: bitsShift_loop.induct)
  case (1 m k)
  then show ?case
    by (auto simp: bitsShift_loop.simps [of m k] le_Suc_eq split: if_splits)
       (metis Suc_leI le_neq_implies_less)+
qed

lemma bitsShift_loop_None: "bitsShift_loop m k = None \<Longrightarrow> k \<le> j \<Longrightarrow> j < 16 \<Longrightarrow> \<not> bit m j"
proof (induction m k rule: bitsShift_loop.induct)
  case (1 m k)
  then show ?case
    by (cases "j = k") (auto simp: bitsShift_loop.simps [of m k] split: if_splits)
qed

lemma mask16_lsb:
  assumes "mask16 m"
  shows "bitsShift_loop m 0 = Some (lsb_of m)" and "bit m (lsb_of m)"
    and "j < lsb_of m \<Longrightarrow> \<not> bit m j" and "lsb_of m < 16"
proof -
  from assms have hi: "\<not> bit m k" if "k \<ge> 16" for k
    using that by (simp add: mask16_def less_10000_iff le_FFFF_iff_bits)
  from assms have "m \<noteq> 0" by (simp add: mask16_def)
  then obtain k where "bit m k" by (metis bit_0_eq bit_word_eqI bot_apply bot_bool_def)
  with hi have "k < 16" by (meson not_less)
  with \<open>bit m k\<close> obtain n where n: "bitsShift_loop m 0 = Some n"
    using bitsShift_loop_None [of m 0 k] by (cases "bitsShift_loop m 0") auto
  then show "bitsShift_loop m 0 = Some (lsb_of m)" by (simp add: lsb_of_def)
  from n bitsShift_loop_Some [OF n] hi
  show "bit m (lsb_of m)" "j < lsb_of m \<Longrightarrow> \<not> bit m j" "lsb_of m < 16"
    by (auto simp: lsb_of_def not_less) (meson not_less)
qed

lemma mask16_bound: "mask16 m \<Longrightarrow> w \<le> 0xFFFF \<Longrightarrow> (w AND NOT m) OR (x AND m) \<le> 0xFFFF"
  by (auto simp: mask16_def less_10000_iff le_FFFF_iff_bits bit_simps)

lemma ucast_put_field:
  "mask16 m \<Longrightarrow> (ucast (put_field m v w) :: u32) =
     (ucast w AND NOT m) OR (push_bit (lsb_of m) v AND m)"
  by (simp add: put_field_def mask16_bound)

lemma get_put_field:
  assumes "mask16 m" and "fits m v"
  shows "get_field m (put_field m v w) = v"
proof -
  have "((ucast w AND NOT m) OR (push_bit (lsb_of m) v AND m)) AND m = push_bit (lsb_of m) v AND m"
    by (rule bit_word_eqI) (auto simp: bit_simps)
  with assms show ?thesis
    by (simp add: get_field_def ucast_put_field fits_def)
qed

lemma get_put_field_disjoint:
  assumes "mask16 m" and "m AND m' = 0"
  shows "get_field m' (put_field m v w) = get_field m' w"
proof -
  have "\<not> (bit m n \<and> bit m' n)" for n
    using assms(2) by (metis bit_0_eq bit_and_iff bot_apply bot_bool_def)
  then have "((ucast w AND NOT m) OR (push_bit (lsb_of m) v AND m)) AND m' = ucast w AND m'"
    by (intro bit_word_eqI) (auto simp: bit_simps)
  with assms show ?thesis
    by (simp add: get_field_def ucast_put_field)
qed

text \<open>Contiguous masks: \<open>w\<close> bits from position \<open>k\<close>.\<close>

lemma mask16_mask:
  assumes "0 < w" and "k + w \<le> 16"
  shows "mask16 (push_bit k (mask w))" and "lsb_of (push_bit k (mask w)) = k"
proof -
  have bits: "bit (push_bit k (mask w) :: u32) n \<longleftrightarrow> k \<le> n \<and> n < k + w" for n
    using assms by (auto simp: bit_simps)
  have "push_bit k (mask w) \<noteq> (0 :: u32)"
    using bits [of k] assms by (metis add_less_cancel_left bit_0_eq bot_apply bot_bool_def
        le_refl add.right_neutral)
  moreover have "push_bit k (mask w) \<le> (0xFFFF :: u32)"
    using assms by (auto simp: le_FFFF_iff_bits bits)
  ultimately show m: "mask16 (push_bit k (mask w))"
    by (simp add: mask16_def less_10000_iff)
  have "lsb_of (push_bit k (mask w)) = k" if "lsb_of (push_bit k (mask w)) \<noteq> k"
    using mask16_lsb(2,3) [OF m] that bits assms by (metis add_less_cancel_left add.right_neutral
        le_refl linorder_neqE_nat linorder_not_le)
  then show "lsb_of (push_bit k (mask w)) = k" by blast
qed

lemma fits_mask:
  assumes "0 < w" and "k + w \<le> 16" and "v \<le> mask w"
  shows "fits (push_bit k (mask w)) v"
proof -
  have v: "n < w" if "bit v n" for n
    using assms(3) that by (auto simp: le_mask_iff_bits intro: leI ccontr)
  have "drop_bit k (push_bit k v AND push_bit k (mask w)) = v"
  proof (rule bit_word_eqI)
    fix n assume "n < LENGTH(32)"
    show "bit (drop_bit k (push_bit k v AND push_bit k (mask w))) n \<longleftrightarrow> bit v n"
      using v [of n] assms(2) by (auto simp: bit_simps)
  qed
  with mask16_mask [OF assms(1,2)] show ?thesis by (simp add: fits_def)
qed

lemma fits_shift_bound:
  assumes m: "mask16 m" and f: "fits m v"
  shows "push_bit (lsb_of m) v \<le> 0xFFFF"
proof -
  have "bit m (lsb_of m + n)" if "bit v n" for n
  proof -
    from that f have "bit (drop_bit (lsb_of m) (push_bit (lsb_of m) v AND m)) n"
      by (simp add: fits_def)
    then show ?thesis by (simp add: bit_drop_bit_eq bit_and_iff)
  qed
  moreover have "\<not> bit m k" if "k \<ge> 16" for k
    using that m by (simp add: mask16_def less_10000_iff le_FFFF_iff_bits)
  ultimately have "\<not> bit v (k - lsb_of m)" if "k \<ge> 16" "lsb_of m \<le> k" for k
    using that by fastforce
  then show ?thesis by (auto simp: le_FFFF_iff_bits bit_simps)
qed

section \<open>Running the operations against the storage contract\<close>

text \<open>
  \<open>put_reg B a w d\<close> is the device after a 16-bit value was stored, \<open>seen_reg\<close> after a register
  was read; the contract says what they hold.
\<close>

definition put_reg :: "'d mii_bus \<Rightarrow> u32 \<Rightarrow> u16 \<Rightarrow> 'd \<Rightarrow> 'd" where
  "put_reg B a w d = mdio_wr B a (ucast w) d"

definition seen_reg :: "'d mii_bus \<Rightarrow> u32 \<Rightarrow> 'd \<Rightarrow> 'd" where
  "seen_reg B a d = snd (mdio_rd B a d)"

named_theorems asic_run
named_theorems asic_view

lemma regs_put_reg [asic_view]:
  "smi_contract B regs A \<Longrightarrow> a \<in> A \<Longrightarrow> b \<in> A \<Longrightarrow>
   regs (put_reg B a w d) b = (if b = a then w else regs d b)"
  by (simp add: put_reg_def contract_wr)

lemma regs_seen_reg [asic_view]:
  "smi_contract B regs A \<Longrightarrow> a \<in> A \<Longrightarrow> b \<in> A \<Longrightarrow> regs (seen_reg B a d) b = regs d b"
  by (simp add: seen_reg_def contract_rd_frame)

lemma getAsicReg_run [asic_run]:
  assumes "smi_contract (gsw_bus s) regs A" and "a \<in> A"
  shows "rtl8367c_getAsicReg a s =
    (Ok (ucast (regs (gsw_dev s) a)), s\<lparr>gsw_dev := seen_reg (gsw_bus s) a (gsw_dev s)\<rparr>)"
  using contract_addr [OF assms]
  by (simp add: rtl8367c_getAsicReg_def smi_read_run drv_simps contract_rd [OF assms]
      seen_reg_def leD)

lemma setAsicReg_run [asic_run]:
  assumes "smi_contract (gsw_bus s) regs A" and "a \<in> A" and "v \<le> 0xFFFF"
  shows "rtl8367c_setAsicReg a v s =
    (Ok (), s\<lparr>gsw_dev := put_reg (gsw_bus s) a (ucast v) (gsw_dev s)\<rparr>)"
  using contract_addr [OF assms(1,2)] assms(3)
  by (simp add: rtl8367c_setAsicReg_def smi_write_run drv_simps put_reg_def leD)

lemma getAsicRegBits_run [asic_run]:
  assumes "smi_contract (gsw_bus s) regs A" and "a \<in> A" and "mask16 m"
  shows "rtl8367c_getAsicRegBits a m s =
    (Ok (get_field m (regs (gsw_dev s) a)), s\<lparr>gsw_dev := seen_reg (gsw_bus s) a (gsw_dev s)\<rparr>)"
  using contract_addr [OF assms(1,2)] assms(3) mask16_lsb(1) [OF assms(3)]
  by (simp add: rtl8367c_getAsicRegBits_def smi_read_run drv_simps contract_rd [OF assms(1,2)]
      seen_reg_def leD get_field_def mask16_def not_le)

lemma setAsicRegBits_run [asic_run]:
  assumes "smi_contract (gsw_bus s) regs A" and "a \<in> A" and "mask16 m"
    and "push_bit (lsb_of m) v \<le> 0xFFFF"
  shows "rtl8367c_setAsicRegBits a m v s =
    (Ok (), s\<lparr>gsw_dev := put_reg (gsw_bus s) a (put_field m v (regs (gsw_dev s) a))
                (seen_reg (gsw_bus s) a (gsw_dev s))\<rparr>)"
  using contract_addr [OF assms(1,2)] assms(3,4) mask16_lsb(1) [OF assms(3)]
    mask16_bound [OF assms(3) ucast_u16_le]
  by (simp add: rtl8367c_setAsicRegBits_def smi_read_run smi_write_run drv_simps
      contract_rd [OF assms(1,2)] seen_reg_def put_reg_def leD ucast_put_field mask16_def not_le)

text \<open>A single bit is the one-bit field at its position.\<close>

lemma mask16_bit:
  assumes "n < 16"
  shows "mask16 (2 ^ n)" and "lsb_of (2 ^ n) = n" and "fits (2 ^ n) (of_bool b)"
  using assms mask16_mask [of 1 n] fits_mask [of 1 n "of_bool b"] by (simp_all add: mask_Suc_0)

lemma getAsicRegBit_run [asic_run]:
  assumes "smi_contract (gsw_bus s) regs A" and "a \<in> A" and "unat n < 16"
  shows "rtl8367c_getAsicRegBit a n s =
    (Ok (get_field (2 ^ unat n) (regs (gsw_dev s) a)),
     s\<lparr>gsw_dev := seen_reg (gsw_bus s) a (gsw_dev s)\<rparr>)"
  using contract_addr [OF assms(1,2)] assms(3)
  by (simp add: rtl8367c_getAsicRegBit_def smi_read_run drv_simps contract_rd [OF assms(1,2)]
      seen_reg_def leD get_field_def mask16_bit)

lemma setAsicRegBit_run [asic_run]:
  assumes "smi_contract (gsw_bus s) regs A" and "a \<in> A" and "unat n < 16"
  shows "rtl8367c_setAsicRegBit a n v s =
    (Ok (), s\<lparr>gsw_dev := put_reg (gsw_bus s) a
       (put_field (2 ^ unat n) (of_bool (v \<noteq> 0)) (regs (gsw_dev s) a))
       (seen_reg (gsw_bus s) a (gsw_dev s))\<rparr>)"
proof -
  let ?w = "ucast (regs (gsw_dev s) a) :: u32"
  have eq: "(if v \<noteq> 0 then ?w OR 2 ^ unat n else ?w AND NOT (2 ^ unat n)) =
      (?w AND NOT (2 ^ unat n)) OR (push_bit (unat n) (of_bool (v \<noteq> 0)) AND 2 ^ unat n)"
    by (rule bit_word_eqI) (auto simp: bit_simps)
  have "(if v \<noteq> 0 then ?w OR 2 ^ unat n else ?w AND NOT (2 ^ unat n)) \<le> 0xFFFF"
    unfolding eq by (rule mask16_bound [OF mask16_bit(1) [OF assms(3)]]) simp
  then show ?thesis
    using contract_addr [OF assms(1,2)] assms(3) eq
    by (simp add: rtl8367c_setAsicRegBit_def smi_read_run smi_write_run drv_simps
        contract_rd [OF assms(1,2)] seen_reg_def put_reg_def leD ucast_put_field mask16_bit
        split: if_splits)
qed

section \<open>The interface to the feature modules\<close>

text \<open>
  What the feature modules may rely on: a view of the registers at the addresses \<open>A\<close>, and
  reads and writes of whole registers and of bit fields that succeed, agree with the view and
  leave every other register alone.
\<close>

locale reg_interface =
  fixes inv :: "'s \<Rightarrow> bool"
    and A :: "u32 set"
    and view :: "'s \<Rightarrow> u32 \<Rightarrow> u16"
    and get_reg :: "u32 \<Rightarrow> ('s, u32) drv"
    and set_reg :: "u32 \<Rightarrow> u32 \<Rightarrow> ('s, unit) drv"
    and get_bits :: "u32 \<Rightarrow> u32 \<Rightarrow> ('s, u32) drv"
    and set_bits :: "u32 \<Rightarrow> u32 \<Rightarrow> u32 \<Rightarrow> ('s, unit) drv"
  assumes get_reg: "inv s \<Longrightarrow> a \<in> A \<Longrightarrow>
      \<exists>s'. get_reg a s = (Ok (ucast (view s a)), s') \<and> inv s' \<and> (\<forall>b\<in>A. view s' b = view s b)"
    and set_reg: "inv s \<Longrightarrow> a \<in> A \<Longrightarrow> v \<le> 0xFFFF \<Longrightarrow>
      \<exists>s'. set_reg a v s = (Ok (), s') \<and> inv s' \<and>
           (\<forall>b\<in>A. view s' b = (if b = a then ucast v else view s b))"
    and get_bits: "inv s \<Longrightarrow> a \<in> A \<Longrightarrow> mask16 m \<Longrightarrow>
      \<exists>s'. get_bits a m s = (Ok (get_field m (view s a)), s') \<and> inv s' \<and>
           (\<forall>b\<in>A. view s' b = view s b)"
    and set_bits: "inv s \<Longrightarrow> a \<in> A \<Longrightarrow> mask16 m \<Longrightarrow> fits m v \<Longrightarrow>
      \<exists>s'. set_bits a m v s = (Ok (), s') \<and> inv s' \<and>
           (\<forall>b\<in>A. view s' b = (if b = a then put_field m v (view s a) else view s b))"
begin

lemma bits_round_trip:
  assumes "inv s" and "a \<in> A" and "mask16 m" and "fits m v"
  shows "\<exists>s'. thenE (set_bits a m v) (get_bits a m) s = (Ok v, s') \<and> inv s'"
proof -
  obtain s1 where s1: "set_bits a m v s = (Ok (), s1)" "inv s1"
      "view s1 a = put_field m v (view s a)"
    using set_bits [OF assms] assms(2) by auto
  obtain s2 where "get_bits a m s1 = (Ok (get_field m (view s1 a)), s2)" "inv s2"
    using get_bits [OF s1(2) assms(2,3)] by auto
  with s1 show ?thesis
    by (simp add: drv_simps get_put_field [OF assms(3,4)])
qed

lemma bits_independent:
  assumes "inv s" and "a \<in> A" and "mask16 m" and "fits m v"
    and "a' \<in> A" and "mask16 m'" and "a' \<noteq> a \<or> m AND m' = 0"
  shows "\<exists>s'. thenE (set_bits a m v) (get_bits a' m') s = (Ok (get_field m' (view s a')), s')"
proof -
  obtain s1 where s1: "set_bits a m v s = (Ok (), s1)" "inv s1"
      "view s1 a' = (if a' = a then put_field m v (view s a) else view s a')"
    using set_bits [OF assms(1-4)] assms(5) by auto
  obtain s2 where "get_bits a' m' s1 = (Ok (get_field m' (view s1 a')), s2)"
    using get_bits [OF s1(2) assms(5,6)] by auto
  with s1 assms(7) show ?thesis
    by (auto simp: drv_simps get_put_field_disjoint [OF assms(3)])
qed

end

interpretation mdio: reg_interface
  "\<lambda>s. smi_contract (gsw_bus s) regs A" A "\<lambda>s. regs (gsw_dev s)"
  rtl8367c_getAsicReg rtl8367c_setAsicReg rtl8367c_getAsicRegBits rtl8367c_setAsicRegBits
  for regs :: "'d \<Rightarrow> u32 \<Rightarrow> u16" and A
  by unfold_locales (auto simp: asic_run asic_view fits_shift_bound)

section \<open>No access leads to undefined behaviour\<close>

definition dev_closed :: "('d gsw \<Rightarrow> bool) \<Rightarrow> bool" where
  "dev_closed P \<longleftrightarrow> (\<forall>s d. P s \<longrightarrow> P (s\<lparr>gsw_dev := d\<rparr>))"

lemma safe_access:
  assumes "dev_closed P"
  shows "safe P (smi_read a PTR) (\<lambda>_. True)" and "safe P (smi_write a v) (\<lambda>_. True)"
  using assms by (auto simp: dev_closed_def intro!: safe_smi_read safe_smi_write)

lemma safe_asic:
  assumes "dev_closed P"
  shows "safe P (rtl8367c_getAsicReg a) (\<lambda>_. True)"
    and "safe P (rtl8367c_setAsicReg a v) (\<lambda>_. True)"
    and "safe P (rtl8367c_getAsicRegBits a m) (\<lambda>_. True)"
    and "safe P (rtl8367c_setAsicRegBits a m v) (\<lambda>_. True)"
    and "safe P (rtl8367c_setAsicRegBit a n v) (\<lambda>_. True)"
    and "unat n < 32 \<Longrightarrow> safe P (rtl8367c_getAsicRegBit a n) (\<lambda>_. True)"
  unfolding rtl8367c_getAsicReg_def rtl8367c_setAsicReg_def rtl8367c_getAsicRegBits_def
    rtl8367c_setAsicRegBits_def rtl8367c_setAsicRegBit_def rtl8367c_getAsicRegBit_def Let_def
  by (auto intro!: safe_rules safe_access [OF assms] split: option.split)

end
