(* ===== verification/Asic_Table.thy ===== *)
theory Asic_Table
  imports Asicdrv
begin

text \<open>
  The indirect table access of the chip.  A table entry is written by filling the write-data
  registers, the address register and then the command register; it is read by issuing a read
  command, polling the busy flag of the status register and fetching the read-data registers.
  The register names and the command encoding are those of \<open>rtl8367c_base.h\<close> and
  \<open>rtl8367c_asicdrv.h\<close>.

  \<open>table_contract\<close> states what the driver relies on from the chip for the directly addressed
  tables (ACL rules, ACL actions, VLAN table): a write command stores the write-data words, the
  read-data registers show the entry of the last read command once the chip is no longer busy,
  and the chip is busy for fewer than ten polls after a command.
\<close>

section \<open>Registers and commands\<close>

abbreviation (input) RTL8367C_TABLE_ACCESS_CTRL_REG :: u32 where
  "RTL8367C_TABLE_ACCESS_CTRL_REG \<equiv> 0x500"
abbreviation (input) RTL8367C_TABLE_ACCESS_ADDR_REG :: u32 where
  "RTL8367C_TABLE_ACCESS_ADDR_REG \<equiv> 0x501"
abbreviation (input) RTL8367C_TABLE_ACCESS_STATUS_REG :: u32 where
  "RTL8367C_TABLE_ACCESS_STATUS_REG \<equiv> 0x502"
abbreviation (input) RTL8367C_TABLE_ACCESS_WRDATA_BASE :: u32 where
  "RTL8367C_TABLE_ACCESS_WRDATA_BASE \<equiv> 0x510"
abbreviation (input) RTL8367C_TABLE_ACCESS_RDDATA_BASE :: u32 where
  "RTL8367C_TABLE_ACCESS_RDDATA_BASE \<equiv> 0x520"
abbreviation (input) RTL8367C_TABLE_LUT_ADDR_BUSY_FLAG_OFFSET :: u32 where
  "RTL8367C_TABLE_LUT_ADDR_BUSY_FLAG_OFFSET \<equiv> 13"
abbreviation (input) RTL8367C_TABLE_TYPE_MASK :: u32 where "RTL8367C_TABLE_TYPE_MASK \<equiv> 0x7"
abbreviation (input) RTL8367C_COMMAND_TYPE_MASK :: u32 where "RTL8367C_COMMAND_TYPE_MASK \<equiv> 0x8"

abbreviation (input) TB_OP_READ :: u32 where "TB_OP_READ \<equiv> 0"
abbreviation (input) TB_OP_WRITE :: u32 where "TB_OP_WRITE \<equiv> 1"
abbreviation (input) TB_TARGET_ACLRULE :: u32 where "TB_TARGET_ACLRULE \<equiv> 1"
abbreviation (input) TB_TARGET_ACLACT :: u32 where "TB_TARGET_ACLACT \<equiv> 2"
abbreviation (input) TB_TARGET_CVLAN :: u32 where "TB_TARGET_CVLAN \<equiv> 3"
abbreviation (input) TB_TARGET_L2 :: u32 where "TB_TARGET_L2 \<equiv> 4"

definition RTL8367C_TABLE_ACCESS_REG_DATA :: "u32 \<Rightarrow> u32 \<Rightarrow> u32" where
  "RTL8367C_TABLE_ACCESS_REG_DATA op target = (push_bit 3 op) OR target"

text \<open>
  The polling loop \<^verbatim>\<open>while(busyCounter)\<close> that the table functions share: it returns when the busy
  flag is clear and fails when the counter runs out.
\<close>

primrec busy_poll :: "nat \<Rightarrow> ('d gsw, unit) drv" where
  "busy_poll 0 = okE ()"
| "busy_poll (Suc busyCounter) =
     bindE (rtl8367c_getAsicRegBit RTL8367C_TABLE_ACCESS_STATUS_REG
              RTL8367C_TABLE_LUT_ADDR_BUSY_FLAG_OFFSET) (\<lambda>regData.
       if regData = 0 then okE ()
       else if busyCounter = 0 then errE RT_ERR_BUSYWAIT_TIMEOUT
       else busy_poll busyCounter)"

section \<open>The contract of the chip\<close>

definition table_len :: "u32 \<Rightarrow> nat" where
  "table_len t = (if t = TB_TARGET_ACLRULE then 9 else if t = TB_TARGET_ACLACT then 4
                  else if t = TB_TARGET_CVLAN then 3 else 0)"

text \<open>
  The view of a device: its storage registers, the words of its tables (by target and address),
  the read-data registers and the number of polls for which it stays busy.
\<close>

record chip_view =
  v_reg :: "u32 \<Rightarrow> u16"
  v_tbl :: "u32 \<Rightarrow> u16 \<Rightarrow> nat \<Rightarrow> u16"
  v_rdd :: "nat \<Rightarrow> u16"
  v_busy :: nat

definition table_regs :: "u32 set" where
  "table_regs = {RTL8367C_TABLE_ACCESS_CTRL_REG, RTL8367C_TABLE_ACCESS_ADDR_REG} \<union>
     (\<lambda>i. RTL8367C_TABLE_ACCESS_WRDATA_BASE + of_nat i) ` {..<10}"

definition same_view :: "u32 set \<Rightarrow> chip_view \<Rightarrow> chip_view \<Rightarrow> bool" where
  "same_view A c c' \<longleftrightarrow> (\<forall>a\<in>A. v_reg c' a = v_reg c a) \<and> v_tbl c' = v_tbl c \<and> v_rdd c' = v_rdd c"

text \<open>The effect of a value stored in the command register.\<close>

definition cmd_target :: "u32 \<Rightarrow> u32" where
  "cmd_target v = v AND 7"

definition cmd_is_write :: "u32 \<Rightarrow> bool" where
  "cmd_is_write v \<longleftrightarrow> bit v 3"

definition table_write ::
  "u32 \<Rightarrow> (u32 \<Rightarrow> u16) \<Rightarrow> (u32 \<Rightarrow> u16 \<Rightarrow> nat \<Rightarrow> u16) \<Rightarrow> u32 \<Rightarrow> u16 \<Rightarrow> nat \<Rightarrow> u16" where
  "table_write t r tbl = tbl(t := (tbl t)(r RTL8367C_TABLE_ACCESS_ADDR_REG :=
     (\<lambda>i. if i < table_len t then r (RTL8367C_TABLE_ACCESS_WRDATA_BASE + of_nat i)
          else tbl t (r RTL8367C_TABLE_ACCESS_ADDR_REG) i)))"

definition table_contract :: "'d mii_bus \<Rightarrow> ('d \<Rightarrow> chip_view) \<Rightarrow> u32 set \<Rightarrow> bool" where
  "table_contract B view A \<longleftrightarrow>
     smi_contract B (\<lambda>d. v_reg (view d)) A \<and> table_regs \<subseteq> A \<and>
     \<comment> \<open>storage registers other than the command register do not touch the tables\<close>
     (\<forall>a\<in>A. \<forall>d. same_view A (view d) (view (snd (mdio_rd B a d))) \<and>
                v_busy (view (snd (mdio_rd B a d))) = v_busy (view d)) \<and>
     (\<forall>a\<in>A. \<forall>d. \<forall>v \<le> 0xFFFF. a \<noteq> RTL8367C_TABLE_ACCESS_CTRL_REG \<longrightarrow>
        v_tbl (view (mdio_wr B a v d)) = v_tbl (view d) \<and>
        v_rdd (view (mdio_wr B a v d)) = v_rdd (view d) \<and>
        v_busy (view (mdio_wr B a v d)) = v_busy (view d)) \<and>
     \<comment> \<open>commands\<close>
     (\<forall>d. \<forall>v \<le> 0xFFFF. cmd_target v \<in> {1, 2, 3} \<longrightarrow>
        v_tbl (view (mdio_wr B RTL8367C_TABLE_ACCESS_CTRL_REG v d)) =
          (if cmd_is_write v then table_write (cmd_target v) (v_reg (view d)) (v_tbl (view d)) else v_tbl (view d)) \<and>
        (\<not> cmd_is_write v \<longrightarrow> (\<forall>i < table_len (cmd_target v).
           v_rdd (view (mdio_wr B RTL8367C_TABLE_ACCESS_CTRL_REG v d)) i =
             v_tbl (view d) (cmd_target v) (v_reg (view d) RTL8367C_TABLE_ACCESS_ADDR_REG) i)) \<and>
        v_busy (view (mdio_wr B RTL8367C_TABLE_ACCESS_CTRL_REG v d)) < 10) \<and>
     \<comment> \<open>the status register counts the busy time down\<close>
     (\<forall>d. bit (fst (mdio_rd B RTL8367C_TABLE_ACCESS_STATUS_REG d)) 13 = (v_busy (view d) > 0) \<and>
          same_view A (view d) (view (snd (mdio_rd B RTL8367C_TABLE_ACCESS_STATUS_REG d))) \<and>
          v_busy (view (snd (mdio_rd B RTL8367C_TABLE_ACCESS_STATUS_REG d))) = v_busy (view d) - 1) \<and>
     \<comment> \<open>the read-data registers are valid when the chip is idle\<close>
     (\<forall>d. \<forall>i < 10. v_busy (view d) = 0 \<longrightarrow>
        fst (mdio_rd B (RTL8367C_TABLE_ACCESS_RDDATA_BASE + of_nat i) d) = ucast (v_rdd (view d) i) \<and>
        same_view A (view d) (view (snd (mdio_rd B (RTL8367C_TABLE_ACCESS_RDDATA_BASE + of_nat i) d))) \<and>
        v_busy (view (snd (mdio_rd B (RTL8367C_TABLE_ACCESS_RDDATA_BASE + of_nat i) d))) = 0)"


lemma table_smi: "table_contract B view A \<Longrightarrow> smi_contract B (\<lambda>d. v_reg (view d)) A"
  by (simp add: table_contract_def)

lemma table_regs_in: "table_contract B view A \<Longrightarrow> a \<in> table_regs \<Longrightarrow> a \<in> A"
  by (auto simp: table_contract_def)

lemma table_regs_simps [simp]:
  "RTL8367C_TABLE_ACCESS_CTRL_REG \<in> table_regs" "RTL8367C_TABLE_ACCESS_ADDR_REG \<in> table_regs"
  "i < 10 \<Longrightarrow> RTL8367C_TABLE_ACCESS_WRDATA_BASE + of_nat i \<in> table_regs"
  by (auto simp: table_regs_def)

lemma table_seen:
  assumes "table_contract B view A" and "a \<in> A"
  shows "same_view A (view d) (view (seen_reg B a d))"
    and "v_busy (view (seen_reg B a d)) = v_busy (view d)"
  using assms by (auto simp: table_contract_def seen_reg_def)

lemma table_put:
  assumes "table_contract B view A" and "a \<in> A" and "a \<noteq> RTL8367C_TABLE_ACCESS_CTRL_REG"
  shows "v_tbl (view (put_reg B a w d)) = v_tbl (view d)"
    and "v_rdd (view (put_reg B a w d)) = v_rdd (view d)"
    and "v_busy (view (put_reg B a w d)) = v_busy (view d)"
  using assms by (auto simp: table_contract_def put_reg_def)

lemma table_command:
  assumes "table_contract B view A" and "cmd_target (ucast w) \<in> {1, 2, 3}"
  shows "v_tbl (view (put_reg B RTL8367C_TABLE_ACCESS_CTRL_REG w d)) =
      (if cmd_is_write (ucast w)
       then table_write (cmd_target (ucast w)) (v_reg (view d)) (v_tbl (view d)) else v_tbl (view d))"
    and "\<not> cmd_is_write (ucast w) \<Longrightarrow> i < table_len (cmd_target (ucast w)) \<Longrightarrow>
      v_rdd (view (put_reg B RTL8367C_TABLE_ACCESS_CTRL_REG w d)) i =
        v_tbl (view d) (cmd_target (ucast w)) (v_reg (view d) RTL8367C_TABLE_ACCESS_ADDR_REG) i"
    and "v_busy (view (put_reg B RTL8367C_TABLE_ACCESS_CTRL_REG w d)) < 10"
  using assms unfolding table_contract_def put_reg_def by (simp_all del: insert_iff)

lemma table_status:
  assumes "table_contract B view A"
  shows "bit (fst (mdio_rd B RTL8367C_TABLE_ACCESS_STATUS_REG d)) 13 = (v_busy (view d) > 0)"
    and "same_view A (view d) (view (snd (mdio_rd B RTL8367C_TABLE_ACCESS_STATUS_REG d)))"
    and "v_busy (view (snd (mdio_rd B RTL8367C_TABLE_ACCESS_STATUS_REG d))) = v_busy (view d) - 1"
  using assms by (simp_all add: table_contract_def)

lemma table_rddata:
  assumes "table_contract B view A" and "v_busy (view d) = 0" and "i < 10"
  shows "fst (mdio_rd B (RTL8367C_TABLE_ACCESS_RDDATA_BASE + of_nat i) d) = ucast (v_rdd (view d) i)"
    and "same_view A (view d) (view (snd (mdio_rd B (RTL8367C_TABLE_ACCESS_RDDATA_BASE + of_nat i) d)))"
    and "v_busy (view (snd (mdio_rd B (RTL8367C_TABLE_ACCESS_RDDATA_BASE + of_nat i) d))) = 0"
  using assms by (simp_all add: table_contract_def)

section \<open>The abstract switch and weakest preconditions\<close>

text \<open>
  The abstract state of the switch: the contents of the configuration registers and of the
  tables, and the variables of the driver.  \<open>swt_rel view A s c\<close> relates it to a concrete state
  in which the chip keeps its contract.  \<open>wp view A m Q c\<close> says that \<open>m\<close>, started in any
  concrete state related to \<open>c\<close>, ends in a state related to some \<open>c'\<close> with an outcome \<open>r\<close>
  such that \<open>Q r c'\<close>.
\<close>

record swt =
  sw_reg :: "u32 \<Rightarrow> u16"
  sw_tbl :: "u32 \<Rightarrow> u16 \<Rightarrow> nat \<Rightarrow> u16"
  sw_init :: u32
  sw_hal :: "rtk_switch_halCtrl_t option"
  sw_mbrVid :: "u32 list"
  sw_mbrUsage :: "vlan_mbrCfgType_t list"
  sw_sUsage :: "bool list"
  sw_sVid :: "u16 list"
  sw_sLookup :: u32

definition swt_of :: "('d \<Rightarrow> chip_view) \<Rightarrow> 'd gsw \<Rightarrow> swt" where
  "swt_of view s = \<lparr>sw_reg = v_reg (view (gsw_dev s)), sw_tbl = v_tbl (view (gsw_dev s)),
     sw_init = init_state s, sw_hal = halCtrl s,
     sw_mbrVid = vlan_mbrCfgVid s, sw_mbrUsage = vlan_mbrCfgUsage s,
     sw_sUsage = svlan_mbrCfgUsage s, sw_sVid = svlan_mbrCfgVid s, sw_sLookup = svlan_lookupType s\<rparr>"

definition swt_rel :: "('d \<Rightarrow> chip_view) \<Rightarrow> u32 set \<Rightarrow> 'd gsw \<Rightarrow> swt \<Rightarrow> bool" where
  "swt_rel view A s c \<longleftrightarrow>
     table_contract (gsw_bus s) view A \<and> v_busy (view (gsw_dev s)) < 10 \<and>
     (\<forall>a\<in>A. v_reg (view (gsw_dev s)) a = sw_reg c a) \<and> v_tbl (view (gsw_dev s)) = sw_tbl c \<and>
     init_state s = sw_init c \<and> halCtrl s = sw_hal c \<and>
     vlan_mbrCfgVid s = sw_mbrVid c \<and> vlan_mbrCfgUsage s = sw_mbrUsage c \<and>
     svlan_mbrCfgUsage s = sw_sUsage c \<and> svlan_mbrCfgVid s = sw_sVid c \<and> svlan_lookupType s = sw_sLookup c"

definition wp :: "('d \<Rightarrow> chip_view) \<Rightarrow> u32 set \<Rightarrow> ('d gsw, 'a) drv \<Rightarrow>
    ('a outcome \<Rightarrow> swt \<Rightarrow> bool) \<Rightarrow> swt \<Rightarrow> bool" where
  "wp view A m Q c \<longleftrightarrow>
     (\<forall>s. swt_rel view A s c \<longrightarrow> (\<exists>c'. swt_rel view A (snd (m s)) c' \<and> Q (fst (m s)) c'))"

named_theorems wp_rules

lemma swt_rel_contract: "swt_rel view A s c \<Longrightarrow> table_contract (gsw_bus s) view A"
  by (simp add: swt_rel_def)

lemma swt_rel_smi: "swt_rel view A s c \<Longrightarrow> smi_contract (gsw_bus s) (\<lambda>d. v_reg (view d)) A"
  by (simp add: swt_rel_def table_smi)

lemma swt_rel_of:
  "table_contract (gsw_bus s) view A \<Longrightarrow> v_busy (view (gsw_dev s)) < 10 \<Longrightarrow>
   swt_rel view A s (swt_of view s)"
  by (simp add: swt_rel_def swt_of_def)

lemma wpD:
  assumes "wp view A m Q c" and "swt_rel view A s c"
  obtains r s' c' where "m s = (r, s')" and "swt_rel view A s' c'" and "Q r c'"
  using assms unfolding wp_def by (metis prod.collapse)

lemma wp_weaken: "wp view A m R c \<Longrightarrow> (\<And>r c'. R r c' \<Longrightarrow> Q r c') \<Longrightarrow> wp view A m Q c"
  unfolding wp_def by blast

lemma wp_okE [wp_rules]: "Q (Ok x) c \<Longrightarrow> wp view A (okE x) Q c"
  by (auto simp: wp_def okE_def)

lemma wp_errE [wp_rules]: "Q (Err e) c \<Longrightarrow> wp view A (errE e) Q c"
  by (auto simp: wp_def errE_def)

lemma wp_faultE [wp_rules]: "Q Fault c \<Longrightarrow> wp view A faultE Q c"
  by (auto simp: wp_def faultE_def)

lemma wp_bindE [wp_rules]:
  assumes "wp view A m (\<lambda>r c'. case r of Ok x \<Rightarrow> wp view A (f x) Q c'
      | Err e \<Rightarrow> Q (Err e) c' | Fault \<Rightarrow> Q Fault c') c"
  shows "wp view A (bindE m f) Q c"
  unfolding wp_def
proof (intro allI impI)
  fix s assume "swt_rel view A s c"
  with assms obtain r s' c' where "m s = (r, s')" "swt_rel view A s' c'"
      "case r of Ok x \<Rightarrow> wp view A (f x) Q c' | Err e \<Rightarrow> Q (Err e) c' | Fault \<Rightarrow> Q Fault c'"
    by (rule wpD)
  then show "\<exists>c'. swt_rel view A (snd (bindE m f s)) c' \<and> Q (fst (bindE m f s)) c'"
    by (cases r) (auto simp: bindE_def wp_def)
qed

lemma wp_thenE [wp_rules]:
  "wp view A m (\<lambda>r c'. case r of Ok x \<Rightarrow> wp view A k Q c'
      | Err e \<Rightarrow> Q (Err e) c' | Fault \<Rightarrow> Q Fault c') c \<Longrightarrow> wp view A (thenE m k) Q c"
  unfolding thenE_def by (rule wp_bindE)

lemma wp_mapErrE [wp_rules]:
  assumes "wp view A m (\<lambda>r c'. case r of Ok x \<Rightarrow> Q (Ok x) c' | Err _ \<Rightarrow> Q (Err e) c'
      | Fault \<Rightarrow> Q Fault c') c"
  shows "wp view A (mapErrE e m) Q c"
  using assms by (fastforce simp: wp_def mapErrE_def split: prod.splits outcome.splits)

lemma wp_isOkE [wp_rules]:
  assumes "wp view A m (\<lambda>r c'. case r of Ok x \<Rightarrow> Q (Ok True) c' | Err _ \<Rightarrow> Q (Ok False) c'
      | Fault \<Rightarrow> Q Fault c') c"
  shows "wp view A (isOkE m) Q c"
  using assms by (fastforce simp: wp_def isOkE_def split: prod.splits outcome.splits)

lemma wp_if [wp_rules]:
  "(b \<Longrightarrow> wp view A m Q c) \<Longrightarrow> (\<not> b \<Longrightarrow> wp view A k Q c) \<Longrightarrow> wp view A (if b then m else k) Q c"
  by simp

lemma wp_forE:
  assumes "\<And>i c. i \<in> set is \<Longrightarrow> I c \<Longrightarrow> wp view A (body i) (\<lambda>r c'. r = Ok () \<and> c' = g i c) c"
    and "\<And>i c. i \<in> set is \<Longrightarrow> I c \<Longrightarrow> I (g i c)" and "I c"
    and "Q (Ok ()) (fold g is c)"
  shows "wp view A (forE is body) Q c"
  using assms
proof (induction "is" arbitrary: c)
  case (Cons i "is")
  have "wp view A (body i) (\<lambda>r c'. r = Ok () \<and> c' = g i c) c"
    using Cons.prems(1,3) by simp
  moreover have "wp view A (forE is body) Q (g i c)"
    by (rule Cons.IH) (use Cons.prems in auto)
  ultimately show ?case
    by (auto intro!: wp_thenE elim: wp_weaken)
qed (simp add: wp_okE)

text \<open>Variables of the driver.\<close>

lemma wp_getsE_init [wp_rules]: "Q (Ok (sw_init c)) c \<Longrightarrow> wp view A (getsE init_state) Q c"
  by (auto simp: wp_def getsE_def swt_rel_def)

lemma wp_getsE_hal [wp_rules]: "Q (Ok (sw_hal c)) c \<Longrightarrow> wp view A (getsE halCtrl) Q c"
  by (auto simp: wp_def getsE_def swt_rel_def)

lemma wp_getsE_mbrVid [wp_rules]:
  "Q (Ok (sw_mbrVid c)) c \<Longrightarrow> wp view A (getsE vlan_mbrCfgVid) Q c"
  by (auto simp: wp_def getsE_def swt_rel_def)

lemma wp_getsE_mbrUsage [wp_rules]:
  "Q (Ok (sw_mbrUsage c)) c \<Longrightarrow> wp view A (getsE vlan_mbrCfgUsage) Q c"
  by (auto simp: wp_def getsE_def swt_rel_def)

lemma wp_getsE_svlan [wp_rules]:
  "Q1 (Ok (sw_sUsage c)) c \<Longrightarrow> wp view A (getsE svlan_mbrCfgUsage) Q1 c"
  "Q2 (Ok (sw_sVid c)) c \<Longrightarrow> wp view A (getsE svlan_mbrCfgVid) Q2 c"
  "Q3 (Ok (sw_sLookup c)) c \<Longrightarrow> wp view A (getsE svlan_lookupType) Q3 c"
  by (auto simp: wp_def getsE_def swt_rel_def)

lemma wp_modifyE:
  assumes "\<And>s. swt_rel view A s c \<Longrightarrow> swt_rel view A (f s) c'" and "Q (Ok ()) c'"
  shows "wp view A (modifyE f) Q c"
  using assms by (auto simp: wp_def modifyE_def)

section \<open>Register and table access in terms of the abstract switch\<close>

lemma rel_seen:
  assumes "swt_rel view A s c" and "a \<in> A"
  shows "swt_rel view A (s\<lparr>gsw_dev := seen_reg (gsw_bus s) a (gsw_dev s)\<rparr>) c"
  using assms table_seen [OF swt_rel_contract [OF assms(1)] assms(2)]
  by (auto simp: swt_rel_def same_view_def)

lemma rel_put:
  assumes "swt_rel view A s c" and "a \<in> A" and "a \<noteq> RTL8367C_TABLE_ACCESS_CTRL_REG"
  shows "swt_rel view A (s\<lparr>gsw_dev := put_reg (gsw_bus s) a w (gsw_dev s)\<rparr>)
           (c\<lparr>sw_reg := (sw_reg c)(a := w)\<rparr>)"
  using assms table_put [OF swt_rel_contract [OF assms(1)] assms(2,3)]
    regs_put_reg [OF swt_rel_smi [OF assms(1)] assms(2)]
  by (auto simp: swt_rel_def)

lemma rel_reg: "swt_rel view A s c \<Longrightarrow> a \<in> A \<Longrightarrow> v_reg (view (gsw_dev s)) a = sw_reg c a"
  by (simp add: swt_rel_def)

lemma wp_getAsicReg [wp_rules]:
  assumes "a \<in> A" and "Q (Ok (ucast (sw_reg c a))) c"
  shows "wp view A (rtl8367c_getAsicReg a) Q c"
  using assms
  by (auto simp: wp_def getAsicReg_run [OF swt_rel_smi] rel_reg intro!: rel_seen)

lemma wp_getAsicRegBits [wp_rules]:
  assumes "a \<in> A" and "mask16 m" and "Q (Ok (get_field m (sw_reg c a))) c"
  shows "wp view A (rtl8367c_getAsicRegBits a m) Q c"
  using assms
  by (auto simp: wp_def getAsicRegBits_run [OF swt_rel_smi] rel_reg intro!: rel_seen)

lemma wp_getAsicRegBit [wp_rules]:
  assumes "a \<in> A" and "unat n < 16" and "Q (Ok (get_field (2 ^ unat n) (sw_reg c a))) c"
  shows "wp view A (rtl8367c_getAsicRegBit a n) Q c"
  using assms
  by (auto simp: wp_def getAsicRegBit_run [OF swt_rel_smi] rel_reg intro!: rel_seen)

lemma wp_setAsicReg [wp_rules]:
  assumes "a \<in> A" and "a \<noteq> RTL8367C_TABLE_ACCESS_CTRL_REG" and "v \<le> 0xFFFF"
    and "Q (Ok ()) (c\<lparr>sw_reg := (sw_reg c)(a := ucast v)\<rparr>)"
  shows "wp view A (rtl8367c_setAsicReg a v) Q c"
  using assms
  by (auto simp: wp_def setAsicReg_run [OF swt_rel_smi] intro!: rel_put)

lemma rel_seen_put:
  assumes "swt_rel view A s c" and "a \<in> A" and "a \<noteq> RTL8367C_TABLE_ACCESS_CTRL_REG"
  shows "swt_rel view A (s\<lparr>gsw_dev := put_reg (gsw_bus s) a w (seen_reg (gsw_bus s) a (gsw_dev s))\<rparr>)
           (c\<lparr>sw_reg := (sw_reg c)(a := w)\<rparr>)"
  using rel_put [OF rel_seen [OF assms(1,2)] assms(2,3)] by simp

lemma wp_setAsicRegBits [wp_rules]:
  assumes "a \<in> A" and "a \<noteq> RTL8367C_TABLE_ACCESS_CTRL_REG" and "mask16 m"
    and "push_bit (lsb_of m) v \<le> 0xFFFF"
    and "Q (Ok ()) (c\<lparr>sw_reg := (sw_reg c)(a := put_field m v (sw_reg c a))\<rparr>)"
  shows "wp view A (rtl8367c_setAsicRegBits a m v) Q c"
  using assms
  by (auto simp: wp_def setAsicRegBits_run [OF swt_rel_smi] rel_reg intro!: rel_seen_put)

lemma wp_setAsicRegBit [wp_rules]:
  assumes "a \<in> A" and "a \<noteq> RTL8367C_TABLE_ACCESS_CTRL_REG" and "unat n < 16"
    and "Q (Ok ()) (c\<lparr>sw_reg := (sw_reg c)(a := put_field (2 ^ unat n) (of_bool (v \<noteq> 0)) (sw_reg c a))\<rparr>)"
  shows "wp view A (rtl8367c_setAsicRegBit a n v) Q c"
  using assms
  by (auto simp: wp_def setAsicRegBit_run [OF swt_rel_smi] rel_reg intro!: rel_seen_put)

subsection \<open>Commands\<close>

lemma mask_F [simp]: "mask16 0xF" "lsb_of 0xF = 0" "mask16 0xFFFF" "lsb_of 0xFFFF = 0"
  using mask16_mask [of 4 0] mask16_mask [of 16 0] by (simp_all add: mask_eq_exp_minus_1)

lemma cmd_word:
  assumes "v \<le> 0xF"
  shows "cmd_target (ucast (put_field 0xF v w)) = v AND 7"
    and "cmd_is_write (ucast (put_field 0xF v w)) = bit v 3"
proof -
  have w: "(ucast (put_field 0xF v w) :: u32) = (ucast w AND NOT 0xF) OR (v AND 0xF)"
    by (simp add: ucast_put_field)
  have "(NOT 0xF :: u32) AND 7 = 0" and "(0xF :: u32) AND 7 = 7" by simp_all
  then have "((ucast w AND NOT 0xF) OR (v AND 0xF)) AND (7 :: u32) = v AND 7"
    by (simp add: bit.conj_disj_distrib2 and.assoc)
  then show "cmd_target (ucast (put_field 0xF v w)) = v AND 7"
    unfolding cmd_target_def w .
  have "bit (0xF :: u32) 3" by code_simp
  then show "cmd_is_write (ucast (put_field 0xF v w)) = bit v 3"
    unfolding cmd_is_write_def w by (simp add: bit_and_iff bit_or_iff bit_not_iff)
qed

definition is_table :: "u32 \<Rightarrow> bool" where
  "is_table t \<longleftrightarrow> t \<in> {TB_TARGET_ACLRULE, TB_TARGET_ACLACT, TB_TARGET_CVLAN}"

lemma reg_data_simps:
  assumes "is_table t"
  shows "RTL8367C_TABLE_ACCESS_REG_DATA TB_OP_WRITE t \<le> 0xF"
    and "RTL8367C_TABLE_ACCESS_REG_DATA TB_OP_WRITE t AND 7 = t"
    and "bit (RTL8367C_TABLE_ACCESS_REG_DATA TB_OP_WRITE t) 3"
    and "RTL8367C_TABLE_ACCESS_REG_DATA TB_OP_READ t \<le> 0xF"
    and "RTL8367C_TABLE_ACCESS_REG_DATA TB_OP_READ t AND 7 = t"
    and "\<not> bit (RTL8367C_TABLE_ACCESS_REG_DATA TB_OP_READ t) 3"
  using assms by (auto simp: RTL8367C_TABLE_ACCESS_REG_DATA_def is_table_def bit_iff_odd_drop_bit)

text \<open>The last step of a table write, and of a table read.\<close>

abbreviation (input) table_command_mask :: u32 where
  "table_command_mask \<equiv> RTL8367C_TABLE_TYPE_MASK OR RTL8367C_COMMAND_TYPE_MASK"

definition command_reg :: "u32 \<Rightarrow> swt \<Rightarrow> u16" where
  "command_reg v c = put_field 0xF v (sw_reg c RTL8367C_TABLE_ACCESS_CTRL_REG)"

lemma rel_command:
  assumes "swt_rel view A s c" and "is_table t" and "v \<le> 0xF" and "v AND 7 = t"
  shows "swt_rel view A
      (s\<lparr>gsw_dev := put_reg (gsw_bus s) RTL8367C_TABLE_ACCESS_CTRL_REG (command_reg v c) (gsw_dev s)\<rparr>)
      (c\<lparr>sw_reg := (sw_reg c)(RTL8367C_TABLE_ACCESS_CTRL_REG := command_reg v c),
         sw_tbl := (if bit v 3 then table_write t (sw_reg c) (sw_tbl c) else sw_tbl c)\<rparr>)"
    (is "swt_rel _ _ ?s' ?c'")
proof -
  note C = swt_rel_contract [OF assms(1)]
  have in_A: "a \<in> table_regs \<Longrightarrow> a \<in> A" for a using C by (rule table_regs_in)
  have len: "table_len t \<le> 10" by (simp add: table_len_def)
  have regs: "\<And>a. a \<in> A \<Longrightarrow> v_reg (view (gsw_dev s)) a = sw_reg c a"
    using assms(1) by (simp add: swt_rel_def)
  have tw: "table_write t (v_reg (view (gsw_dev s))) tbl = table_write t (sw_reg c) tbl" for tbl
    using len by (auto simp: table_write_def regs in_A fun_eq_iff)
  have t: "cmd_target (ucast (command_reg v c)) = t" "cmd_is_write (ucast (command_reg v c)) = bit v 3"
    using cmd_word [OF assms(3)] assms(4) by (simp_all add: command_reg_def)
  have "cmd_target (ucast (command_reg v c)) \<in> {1, 2, 3}"
    using assms(2) unfolding t is_table_def .
  note cmd = table_command [OF C this, unfolded t]
  show ?thesis
    using assms(1) cmd(1,3) tw regs_put_reg [OF swt_rel_smi [OF assms(1)] in_A [of "0x500"]]
    by (auto simp: swt_rel_def)
qed

lemma wp_table_write_command [wp_rules]:
  assumes "is_table t"
    and "Q (Ok ()) (c\<lparr>sw_reg := (sw_reg c)(RTL8367C_TABLE_ACCESS_CTRL_REG :=
             command_reg (RTL8367C_TABLE_ACCESS_REG_DATA TB_OP_WRITE t) c),
           sw_tbl := table_write t (sw_reg c) (sw_tbl c)\<rparr>)"
  shows "wp view A (rtl8367c_setAsicRegBits RTL8367C_TABLE_ACCESS_CTRL_REG table_command_mask
           (RTL8367C_TABLE_ACCESS_REG_DATA TB_OP_WRITE t)) Q c"
  unfolding wp_def
proof (intro allI impI)
  fix s assume R: "swt_rel view A s c"
  let ?v = "RTL8367C_TABLE_ACCESS_REG_DATA TB_OP_WRITE t"
  have in_A: "RTL8367C_TABLE_ACCESS_CTRL_REG \<in> A"
    by (rule table_regs_in [OF swt_rel_contract [OF R]]) simp
  have le: "?v \<le> 0xFFFF" by (rule order_trans [OF reg_data_simps(1) [OF assms(1)]]) simp
  have w: "put_field 0xF ?v (v_reg (view (gsw_dev s)) RTL8367C_TABLE_ACCESS_CTRL_REG) = command_reg ?v c"
    by (simp add: command_reg_def rel_reg [OF R in_A])
  note rel_command [OF rel_seen [OF R in_A] assms(1) reg_data_simps(1,2) [OF assms(1)]]
  then show "\<exists>c'. swt_rel view A (snd (rtl8367c_setAsicRegBits RTL8367C_TABLE_ACCESS_CTRL_REG
      table_command_mask ?v s)) c' \<and> Q (fst (rtl8367c_setAsicRegBits RTL8367C_TABLE_ACCESS_CTRL_REG
      table_command_mask ?v s)) c'"
    using assms(2) le reg_data_simps(3) [OF assms(1)]
    by (auto simp: setAsicRegBits_run [OF swt_rel_smi [OF R] in_A] w)
qed

subsection \<open>Polling and reading\<close>

lemma smi_status_run:
  "rtl8367c_getAsicRegBit RTL8367C_TABLE_ACCESS_STATUS_REG RTL8367C_TABLE_LUT_ADDR_BUSY_FLAG_OFFSET s =
    (Ok (of_bool (bit (fst (mdio_rd (gsw_bus s) RTL8367C_TABLE_ACCESS_STATUS_REG (gsw_dev s))) 13)),
     s\<lparr>gsw_dev := snd (mdio_rd (gsw_bus s) RTL8367C_TABLE_ACCESS_STATUS_REG (gsw_dev s))\<rparr>)"
proof -
  have "drop_bit 13 (w AND push_bit 13 1) = (of_bool (bit w 13) :: u32)" for w :: u32
    by (rule bit_word_eqI) (auto simp: bit_simps)
  then show ?thesis
    by (simp add: rtl8367c_getAsicRegBit_def smi_read_run drv_simps)
qed

lemma rel_status:
  assumes "swt_rel view A s c"
  shows "swt_rel view A (s\<lparr>gsw_dev := snd (mdio_rd (gsw_bus s) RTL8367C_TABLE_ACCESS_STATUS_REG (gsw_dev s))\<rparr>) c"
  using assms table_status(2,3) [OF swt_rel_contract [OF assms]]
  by (auto simp: swt_rel_def same_view_def)

text \<open>
  Polling ends: when the chip is busy for fewer polls than the counter allows, the loop returns
  with the chip idle and nothing else changed.
\<close>

lemma busy_poll_run:
  assumes "swt_rel view A s c" and "v_busy (view (gsw_dev s)) < n"
  shows "\<exists>s'. busy_poll n s = (Ok (), s') \<and> swt_rel view A s' c \<and> v_busy (view (gsw_dev s')) = 0 \<and>
           v_rdd (view (gsw_dev s')) = v_rdd (view (gsw_dev s))"
  using assms
proof (induction n arbitrary: s)
  case (Suc n)
  let ?s1 = "s\<lparr>gsw_dev := snd (mdio_rd (gsw_bus s) RTL8367C_TABLE_ACCESS_STATUS_REG (gsw_dev s))\<rparr>"
  note st = table_status [OF swt_rel_contract [OF Suc.prems(1)], of "gsw_dev s"]
  have R1: "swt_rel view A ?s1 c" by (rule rel_status [OF Suc.prems(1)])
  have busy: "v_busy (view (gsw_dev ?s1)) = v_busy (view (gsw_dev s)) - 1"
    and rdd: "v_rdd (view (gsw_dev ?s1)) = v_rdd (view (gsw_dev s))"
    using st(2,3) by (simp_all add: same_view_def)
  show ?case
  proof (cases "v_busy (view (gsw_dev s)) = 0")
    case True
    with R1 busy rdd st(1) show ?thesis by (simp add: smi_status_run bindE_def okE_def)
  next
    case False
    with Suc.prems(2) busy have "v_busy (view (gsw_dev ?s1)) < n" and "n \<noteq> 0" by auto
    with Suc.IH [OF R1] False st(1) rdd show ?thesis by (simp add: smi_status_run bindE_def)
  qed
qed simp

text \<open>A chip that stays busy for the whole time makes the loop give up, after \<open>n\<close> polls.\<close>

lemma busy_poll_timeout:
  assumes "\<And>d. bit (fst (mdio_rd (gsw_bus s) RTL8367C_TABLE_ACCESS_STATUS_REG d)) 13" and "n > 0"
  shows "fst (busy_poll n s) = Err RT_ERR_BUSYWAIT_TIMEOUT"
  using assms
proof (induction n arbitrary: s)
  case (Suc n)
  let ?s1 = "s\<lparr>gsw_dev := snd (mdio_rd (gsw_bus s) RTL8367C_TABLE_ACCESS_STATUS_REG (gsw_dev s))\<rparr>"
  have "fst (busy_poll n ?s1) = Err RT_ERR_BUSYWAIT_TIMEOUT" if "n \<noteq> 0"
    by (rule Suc.IH) (use Suc.prems that in auto)
  with Suc.prems(1) show ?case by (auto simp: smi_status_run bindE_def errE_def)
qed simp

lemma wp_busy_poll [wp_rules]:
  assumes "n \<ge> 10" and "Q (Ok ()) c"
  shows "wp view A (busy_poll n) Q c"
  unfolding wp_def
proof (intro allI impI)
  fix s assume R: "swt_rel view A s c"
  then have "v_busy (view (gsw_dev s)) < n" using assms(1) by (simp add: swt_rel_def)
  from busy_poll_run [OF R this] assms(2)
  show "\<exists>c'. swt_rel view A (snd (busy_poll n s)) c' \<and> Q (fst (busy_poll n s)) c'"
    by auto
qed

text \<open>
  The sequence by which a table entry is read: address, read command, polling, and the read-data
  registers one after the other.
\<close>

definition table_read :: "u32 \<Rightarrow> u32 \<Rightarrow> nat \<Rightarrow> nat \<Rightarrow> ('d gsw, u32 list) drv" where
  "table_read target addr len busyCounter =
     thenE (rtl8367c_setAsicReg RTL8367C_TABLE_ACCESS_ADDR_REG addr)
     (thenE (rtl8367c_setAsicRegBits RTL8367C_TABLE_ACCESS_CTRL_REG table_command_mask
               (RTL8367C_TABLE_ACCESS_REG_DATA TB_OP_READ target))
     (thenE (busy_poll busyCounter)
     (mapE (\<lambda>i. rtl8367c_getAsicReg (RTL8367C_TABLE_ACCESS_RDDATA_BASE + of_nat i)) [0..<len])))"

lemma rddata_run:
  assumes "swt_rel view A s c" and "v_busy (view (gsw_dev s)) = 0" and "i < 10"
  shows "\<exists>s'. rtl8367c_getAsicReg (RTL8367C_TABLE_ACCESS_RDDATA_BASE + of_nat i) s =
      (Ok (ucast (v_rdd (view (gsw_dev s)) i)), s') \<and> swt_rel view A s' c \<and>
      v_busy (view (gsw_dev s')) = 0 \<and> v_rdd (view (gsw_dev s')) = v_rdd (view (gsw_dev s))"
proof -
  have "RTL8367C_TABLE_ACCESS_RDDATA_BASE + of_nat i \<le> (0xFFFF :: u32)"
    using assms(3) by (simp add: word_le_nat_alt unat_word_ariths unat_of_nat)
  with assms table_rddata [OF swt_rel_contract [OF assms(1)] assms(2,3)] show ?thesis
    by (auto simp: rtl8367c_getAsicReg_def smi_read_run drv_simps swt_rel_def same_view_def)
qed

lemma rddata_mapE:
  assumes "swt_rel view A s c" and "v_busy (view (gsw_dev s)) = 0" and "set is \<subseteq> {..<10}"
  shows "\<exists>s'. mapE (\<lambda>i. rtl8367c_getAsicReg (RTL8367C_TABLE_ACCESS_RDDATA_BASE + of_nat i)) is s =
      (Ok (map (\<lambda>i. ucast (v_rdd (view (gsw_dev s)) i)) is), s') \<and> swt_rel view A s' c"
  using assms
proof (induction "is" arbitrary: s)
  case (Cons i "is")
  from rddata_run [OF Cons.prems(1,2), of i] Cons.prems(3) obtain s1 where
    "rtl8367c_getAsicReg (RTL8367C_TABLE_ACCESS_RDDATA_BASE + of_nat i) s =
      (Ok (ucast (v_rdd (view (gsw_dev s)) i)), s1)" "swt_rel view A s1 c"
    "v_busy (view (gsw_dev s1)) = 0" "v_rdd (view (gsw_dev s1)) = v_rdd (view (gsw_dev s))"
    by auto
  with Cons.IH [of s1] Cons.prems(3) show ?case by (auto simp: drv_simps)
qed (simp add: okE_def)

definition read_command_state :: "u32 \<Rightarrow> u32 \<Rightarrow> swt \<Rightarrow> swt" where
  "read_command_state t addr c =
     (let c1 = c\<lparr>sw_reg := (sw_reg c)(RTL8367C_TABLE_ACCESS_ADDR_REG := ucast addr)\<rparr>
      in c1\<lparr>sw_reg := (sw_reg c1)(RTL8367C_TABLE_ACCESS_CTRL_REG :=
             command_reg (RTL8367C_TABLE_ACCESS_REG_DATA TB_OP_READ t) c1)\<rparr>)"

lemma table_read_run:
  assumes R: "swt_rel view A s c" and t: "is_table t" and addr: "addr \<le> 0xFFFF"
    and len: "len \<le> table_len t" and n: "n \<ge> 10"
  shows "\<exists>s'. table_read t addr len n s =
      (Ok (map (\<lambda>i. ucast (sw_tbl c t (ucast addr) i)) [0..<len]), s') \<and>
      swt_rel view A s' (read_command_state t addr c)"
proof -
  let ?c1 = "c\<lparr>sw_reg := (sw_reg c)(RTL8367C_TABLE_ACCESS_ADDR_REG := ucast addr)\<rparr>"
  let ?s1 = "s\<lparr>gsw_dev := put_reg (gsw_bus s) RTL8367C_TABLE_ACCESS_ADDR_REG (ucast addr) (gsw_dev s)\<rparr>"
  let ?v = "RTL8367C_TABLE_ACCESS_REG_DATA TB_OP_READ t"
  have in_A: "a \<in> table_regs \<Longrightarrow> a \<in> A" for a
    by (rule table_regs_in [OF swt_rel_contract [OF R]])
  have A1: "RTL8367C_TABLE_ACCESS_ADDR_REG \<in> A" and A0: "RTL8367C_TABLE_ACCESS_CTRL_REG \<in> A"
    by (rule in_A, simp)+
  have run1: "rtl8367c_setAsicReg RTL8367C_TABLE_ACCESS_ADDR_REG addr s = (Ok (), ?s1)"
    by (rule setAsicReg_run [OF swt_rel_smi [OF R] A1 addr])
  have R1: "swt_rel view A ?s1 ?c1" by (rule rel_put [OF R A1]) simp
  define s2 where "s2 = ?s1\<lparr>gsw_dev := put_reg (gsw_bus s) RTL8367C_TABLE_ACCESS_CTRL_REG
     (command_reg ?v ?c1) (seen_reg (gsw_bus s) RTL8367C_TABLE_ACCESS_CTRL_REG (gsw_dev ?s1))\<rparr>"
  have le: "?v \<le> 0xFFFF" by (rule order_trans [OF reg_data_simps(4) [OF t]]) simp
  have run2: "rtl8367c_setAsicRegBits RTL8367C_TABLE_ACCESS_CTRL_REG table_command_mask ?v ?s1 = (Ok (), s2)"
    using setAsicRegBits_run [OF swt_rel_smi [OF R1] A0, of "0xF" ?v] le
    by (simp add: s2_def command_reg_def rel_reg [OF R1 A0, simplified])
  have R2: "swt_rel view A s2 (read_command_state t addr c)"
    using rel_command [OF rel_seen [OF R1 A0] t reg_data_simps(4,5) [OF t]] reg_data_simps(6) [OF t]
    by (simp add: s2_def read_command_state_def Let_def)
  have rdd: "v_rdd (view (gsw_dev s2)) i = sw_tbl c t (ucast addr) i" if "i < len" for i
  proof -
    have tg: "cmd_target (ucast (command_reg ?v ?c1)) = t"
        "cmd_is_write (ucast (command_reg ?v ?c1)) = bit ?v 3"
      using cmd_word [OF reg_data_simps(4) [OF t]] reg_data_simps(5) [OF t]
      by (simp_all add: command_reg_def)
    have t123: "cmd_target (ucast (command_reg ?v ?c1)) \<in> {1, 2, 3}"
      using t unfolding tg is_table_def .
    show ?thesis
      using table_command(2) [OF swt_rel_contract [OF R1] t123, unfolded tg, of i]
        reg_data_simps(6) [OF t] that len rel_seen [OF R1 A0] A1
      by (simp add: s2_def swt_rel_def)
  qed
  have "v_busy (view (gsw_dev s2)) < n" using R2 n by (simp add: swt_rel_def)
  from busy_poll_run [OF R2 this] obtain s3 where s3: "busy_poll n s2 = (Ok (), s3)"
      "swt_rel view A s3 (read_command_state t addr c)" "v_busy (view (gsw_dev s3)) = 0"
      "v_rdd (view (gsw_dev s3)) = v_rdd (view (gsw_dev s2))" by auto
  have "set [0..<len] \<subseteq> {..<10}" using len by (auto simp: table_len_def split: if_splits)
  from rddata_mapE [OF s3(2,3) this] s3(1,4) run1 run2 rdd show ?thesis
    unfolding table_read_def by (auto simp: drv_simps)
qed

lemma wp_table_read [wp_rules]:
  assumes "is_table t" and "addr \<le> 0xFFFF" and "len \<le> table_len t" and "n \<ge> 10"
    and "Q (Ok (map (\<lambda>i. ucast (sw_tbl c t (ucast addr) i)) [0..<len])) (read_command_state t addr c)"
  shows "wp view A (table_read t addr len n) Q c"
  unfolding wp_def using table_read_run [OF _ assms(1-4)] assms(5) by fastforce

lemma read_command_state_simps [simp]:
  "sw_tbl (read_command_state t a c) = sw_tbl c"
  "sw_init (read_command_state t a c) = sw_init c"
  "sw_hal (read_command_state t a c) = sw_hal c"
  "sw_mbrVid (read_command_state t a c) = sw_mbrVid c"
  "sw_mbrUsage (read_command_state t a c) = sw_mbrUsage c"
  "sw_sUsage (read_command_state t a c) = sw_sUsage c"
  "sw_sVid (read_command_state t a c) = sw_sVid c"
  "sw_sLookup (read_command_state t a c) = sw_sLookup c"
  "r \<notin> table_regs \<Longrightarrow> sw_reg (read_command_state t a c) r = sw_reg c r"
  by (auto simp: read_command_state_def Let_def)

end
