(* ===== verification/Chip_Sim.thy ===== *)
theory Chip_Sim
  imports Asic_Table
begin

text \<open>
  A concrete chip behind the MDIO bus, used to evaluate the driver and to show that the contracts
  the theorems assume of the real chip can hold.  It has the address, data and read latches of
  the MDIO access protocol, a register file, the three directly addressed tables and a busy
  counter that needs two polls after each command.
\<close>

record sim_dev =
  latch_addr :: u32
  latch_data :: u32
  latch_out :: u32
  sim_view :: chip_view

definition sim_rddata :: "u32 \<Rightarrow> bool" where
  "sim_rddata a \<longleftrightarrow> 0x520 \<le> a \<and> a < 0x52A"

definition sim_fetch :: "u32 \<Rightarrow> sim_dev \<Rightarrow> sim_dev" where
  "sim_fetch a d = (let c = sim_view d in
     if a = RTL8367C_TABLE_ACCESS_STATUS_REG
     then d\<lparr>latch_out := (if v_busy c > 0 then 2 ^ 13 else 0), sim_view := c\<lparr>v_busy := v_busy c - 1\<rparr>\<rparr>
     else if sim_rddata a
     then d\<lparr>latch_out := ucast (v_rdd c (unat (a - RTL8367C_TABLE_ACCESS_RDDATA_BASE)))\<rparr>
     else d\<lparr>latch_out := ucast (v_reg c a)\<rparr>)"

definition sim_command :: "u32 \<Rightarrow> chip_view \<Rightarrow> chip_view" where
  "sim_command v c = (let t = cmd_target v in
     if cmd_is_write v
     then c\<lparr>v_reg := (v_reg c)(RTL8367C_TABLE_ACCESS_CTRL_REG := ucast v),
            v_tbl := table_write t (v_reg c) (v_tbl c), v_busy := 2\<rparr>
     else c\<lparr>v_reg := (v_reg c)(RTL8367C_TABLE_ACCESS_CTRL_REG := ucast v),
            v_rdd := v_tbl c t (v_reg c RTL8367C_TABLE_ACCESS_ADDR_REG), v_busy := 2\<rparr>)"

definition sim_store :: "u32 \<Rightarrow> u32 \<Rightarrow> chip_view \<Rightarrow> chip_view" where
  "sim_store a v c = (if a = RTL8367C_TABLE_ACCESS_CTRL_REG then sim_command v c
     else c\<lparr>v_reg := (v_reg c)(a := ucast v)\<rparr>)"

definition sim_write :: "u32 \<Rightarrow> u32 \<Rightarrow> u32 \<Rightarrow> sim_dev \<Rightarrow> sim_dev" where
  "sim_write phy r v d =
     (if phy \<noteq> MDC_MDIO_PHY_ID then d
      else if r = MDC_MDIO_ADDRESS_REG then d\<lparr>latch_addr := v\<rparr>
      else if r = MDC_MDIO_DATA_WRITE_REG then d\<lparr>latch_data := v\<rparr>
      else if r = MDC_MDIO_CTRL1_REG \<and> v = MDC_MDIO_READ_OP then sim_fetch (latch_addr d) d
      else if r = MDC_MDIO_CTRL1_REG \<and> v = MDC_MDIO_WRITE_OP
      then d\<lparr>sim_view := sim_store (latch_addr d) (latch_data d) (sim_view d)\<rparr>
      else d)"

definition sim_read :: "u32 \<Rightarrow> u32 \<Rightarrow> sim_dev \<Rightarrow> u32 \<times> sim_dev" where
  "sim_read phy r d = (if phy = MDC_MDIO_PHY_ID \<and> r = MDC_MDIO_DATA_READ_REG then latch_out d else 0, d)"

definition sim_bus :: "sim_dev mii_bus" where
  "sim_bus = \<lparr>bus_read = sim_read, bus_write = sim_write\<rparr>"

definition sim_addrs :: "u32 set" where
  "sim_addrs = {a. a \<le> 0xFFFF \<and> a \<noteq> RTL8367C_TABLE_ACCESS_STATUS_REG \<and> \<not> sim_rddata a}"

lemma sim_rd:
  "mdio_rd sim_bus a d = (latch_out (sim_fetch a (d\<lparr>latch_addr := a\<rparr>)), sim_fetch a (d\<lparr>latch_addr := a\<rparr>))"
  by (simp add: mdio_rd_def sim_bus_def sim_read_def sim_write_def)

lemma sim_wr:
  "mdio_wr sim_bus a v d =
     d\<lparr>latch_addr := a, latch_data := v, sim_view := sim_store a v (sim_view d)\<rparr>"
  by (simp add: mdio_wr_def sim_bus_def sim_write_def)

lemma sim_rddata_index:
  assumes "i < 10"
  shows "sim_rddata (0x520 + of_nat i)" and "unat (of_nat i :: u32) = i" and "0x520 + of_nat i \<noteq> (0x502 :: u32)"
  using assms
  by (auto simp: sim_rddata_def word_le_nat_alt word_less_nat_alt unat_word_ariths unat_of_nat word_unat_eq_iff)

lemma sim_table_regs: "table_regs \<subseteq> sim_addrs"
proof -
  have "(\<forall>i<10. (0x510 :: u32) + of_nat i \<in> sim_addrs)"
    by (auto simp: sim_addrs_def sim_rddata_def word_le_nat_alt word_less_nat_alt unat_word_ariths
        unat_of_nat word_unat_eq_iff)
  then show ?thesis by (auto simp: table_regs_def) (auto simp: sim_addrs_def sim_rddata_def)
qed

lemma sim_smi_contract: "smi_contract sim_bus (\<lambda>d. v_reg (sim_view d)) sim_addrs"
  by (auto simp: smi_contract_def sim_rd sim_wr sim_fetch_def sim_store_def sim_command_def
      sim_addrs_def Let_def)

theorem sim_table_contract: "table_contract sim_bus sim_view sim_addrs"
  unfolding table_contract_def
  using sim_smi_contract sim_table_regs
  by (auto simp: sim_rd sim_wr sim_fetch_def sim_store_def sim_command_def same_view_def
      sim_addrs_def sim_rddata_index Let_def bit_simps)

text \<open>A driver state on this chip, with every register and table word cleared.\<close>

definition sim_view0 :: chip_view where
  "sim_view0 = \<lparr>v_reg = (\<lambda>_. 0), v_tbl = (\<lambda>_ _ _. 0), v_rdd = (\<lambda>_. 0), v_busy = 0\<rparr>"

definition sim_dev0 :: sim_dev where
  "sim_dev0 = \<lparr>latch_addr = 0, latch_data = 0, latch_out = 0, sim_view = sim_view0\<rparr>"

definition sim_gsw :: "u32 \<Rightarrow> rtk_switch_halCtrl_t option \<Rightarrow> sim_dev gsw" where
  "sim_gsw init hal = \<lparr>gsw_bus = sim_bus, gsw_dev = sim_dev0, init_state = init, halCtrl = hal,
     vlan_mbrCfgVid = replicate 32 0, vlan_mbrCfgUsage = replicate 32 MBRCFG_UNUSED,
     svlan_mbrCfgUsage = replicate 64 False, svlan_mbrCfgVid = replicate 64 0, svlan_lookupType = 0\<rparr>"

lemma sim_gsw_simps [simp]:
  "gsw_bus (sim_gsw i h) = sim_bus" "gsw_dev (sim_gsw i h) = sim_dev0"
  "init_state (sim_gsw i h) = i" "halCtrl (sim_gsw i h) = h"
  "vlan_mbrCfgVid (sim_gsw i h) = replicate 32 0"
  "vlan_mbrCfgUsage (sim_gsw i h) = replicate 32 MBRCFG_UNUSED"
  "svlan_mbrCfgUsage (sim_gsw i h) = replicate 64 False"
  "svlan_mbrCfgVid (sim_gsw i h) = replicate 64 0"
  "svlan_lookupType (sim_gsw i h) = 0"
  "v_busy (sim_view sim_dev0) = 0"
  by (simp_all add: sim_gsw_def sim_dev0_def sim_view0_def)

end
