(* ===== verification/Asicdrv_Test.thy ===== *)
theory Asicdrv_Test
  imports Chip_Sim
begin

text \<open>
  The register emulation of \<open>rtl8367c_asicdrv.c\<close> for driver tests
  (\<open>CONFIG_RTL8367C_ASICDRV_TEST\<close>): an array \<open>CleVirtualReg\<close> of 65536 half-words takes the
  place of the chip.  It is the abstract register file that the hardware build is compared with:
  on a chip that keeps the storage contract, both builds return the same codes and values, and
  corresponding registers stay equal.
\<close>

type_synonym cle = "u32 \<Rightarrow> u16"  \<comment> \<open>\<open>CleVirtualReg\<close>; the code checks the index\<close>

abbreviation (input) CLE_VIRTUAL_REG_SIZE :: u32 where "CLE_VIRTUAL_REG_SIZE \<equiv> 0x10000"
abbreviation (input) RTL8367C_REG_MIB_ADDRESS :: u32 where "RTL8367C_REG_MIB_ADDRESS \<equiv> 0x1004"
abbreviation (input) RTL8367C_MIB_COUNTER_BASE_REG :: u32 where
  "RTL8367C_MIB_COUNTER_BASE_REG \<equiv> 0x1000"



definition test_setAsicRegBits :: "u32 \<Rightarrow> u32 \<Rightarrow> u32 \<Rightarrow> (cle, unit) drv" where
  "test_setAsicRegBits reg bits value =
     (if bits \<ge> push_bit RTL8367C_REGBITLENGTH 1 then errE RT_ERR_INPUT
      else (case bitsShift_loop bits 0 of
        None \<Rightarrow> errE RT_ERR_INPUT
      | Some bitsShift \<Rightarrow>
          (let valueShifted = push_bit bitsShift value
           in if valueShifted > RTL8367C_REGDATAMAX then errE RT_ERR_INPUT
              else if reg \<ge> CLE_VIRTUAL_REG_SIZE then errE RT_ERR_OUT_OF_RANGE
              else modifyE (\<lambda>r. r(reg :=
                ucast ((ucast (r reg) AND NOT bits) OR (valueShifted AND bits)))))))"

definition test_getAsicRegBits :: "u32 \<Rightarrow> u32 \<Rightarrow> (cle, u32) drv" where
  "test_getAsicRegBits reg bits =
     (if bits \<ge> push_bit RTL8367C_REGBITLENGTH 1 then errE RT_ERR_INPUT
      else (case bitsShift_loop bits 0 of
        None \<Rightarrow> errE RT_ERR_INPUT
      | Some bitsShift \<Rightarrow>
          if reg \<ge> CLE_VIRTUAL_REG_SIZE then errE RT_ERR_OUT_OF_RANGE
          else getsE (\<lambda>r. drop_bit bitsShift (ucast (r reg) AND bits))))"

text \<open>
  A write to the MIB address register also loads four fixed counter values; the range check
  comes after that, and the value is truncated to a half-word.
\<close>

definition test_setAsicReg :: "u32 \<Rightarrow> u32 \<Rightarrow> (cle, unit) drv" where
  "test_setAsicReg reg value =
     thenE (if reg = RTL8367C_REG_MIB_ADDRESS
            then modifyE (\<lambda>r. r(RTL8367C_MIB_COUNTER_BASE_REG := 1,
              RTL8367C_MIB_COUNTER_BASE_REG + 1 := 2, RTL8367C_MIB_COUNTER_BASE_REG + 2 := 3,
              RTL8367C_MIB_COUNTER_BASE_REG + 3 := 4))
            else okE ())
     (if reg \<ge> CLE_VIRTUAL_REG_SIZE then errE RT_ERR_OUT_OF_RANGE
      else modifyE (\<lambda>r. r(reg := ucast value)))"

definition test_getAsicReg :: "u32 \<Rightarrow> (cle, u32) drv" where
  "test_getAsicReg reg =
     (if reg \<ge> CLE_VIRTUAL_REG_SIZE then errE RT_ERR_OUT_OF_RANGE
      else getsE (\<lambda>r. ucast (r reg)))"

section \<open>The emulation provides the register interface\<close>

definition cle_addrs :: "u32 set" where
  "cle_addrs = {a. a \<le> 0xFFFF \<and> a \<noteq> RTL8367C_REG_MIB_ADDRESS}"

lemma cle_addrs_range: "a \<in> cle_addrs \<Longrightarrow> \<not> 0x10000 \<le> a"
  by (auto simp: cle_addrs_def not_le less_10000_iff)

lemma test_run:
  assumes "a \<in> cle_addrs"
  shows "test_getAsicReg a r = (Ok (ucast (r a)), r)"
    and "test_setAsicReg a v r = (Ok (), r(a := ucast v))"
    and "mask16 m \<Longrightarrow> test_getAsicRegBits a m r = (Ok (get_field m (r a)), r)"
    and "mask16 m \<Longrightarrow> push_bit (lsb_of m) v \<le> 0xFFFF \<Longrightarrow>
         test_setAsicRegBits a m v r = (Ok (), r(a := put_field m v (r a)))"
  using cle_addrs_range [OF assms] assms mask16_lsb(1) [of m]
  by (auto simp: test_getAsicReg_def test_setAsicReg_def test_getAsicRegBits_def
      test_setAsicRegBits_def drv_simps get_field_def put_field_def mask16_def cle_addrs_def not_le
      Let_def not_less leD)

interpretation cle: reg_interface
  "\<lambda>_. True" cle_addrs "\<lambda>r. r"
  test_getAsicReg test_setAsicReg test_getAsicRegBits test_setAsicRegBits
  by unfold_locales (auto simp: test_run fits_shift_bound)

section \<open>The hardware build refines the emulation\<close>
















section \<open>Properties\<close>



end
