(* ===== verification/Switch.thy ===== *)
theory Switch
  imports Chip_Sim
begin

text \<open>
  \<open>rtl8367c/rtk_switch.c\<close>: the per-chip port tables, probing, the initialisation state, and the
  translation between logical ports (what the API takes) and physical ports (what the chip has).
  The automatic probe is the configuration compiled: no \<open>FORCE_PROBE\<close> macro is defined.

  \<open>hal_wf\<close> collects what the rest of the driver relies on from a port table; the locale
  \<open>port_map\<close> derives the facts about port masks from it and is interpreted for the four tables
  of the file.
\<close>

section \<open>Port tables\<close>

definition rtl8367c_hal_Ctrl :: rtk_switch_halCtrl_t where
  "rtl8367c_hal_Ctrl = \<lparr>
     switch_type = CHIP_RTL8367C,
     l2p_port =
       [0, 1, 2, 3, 4, 0xFF, 0xFF, 0xFF,
        0xFF, 0xFF, 0xFF, 0xFF, 0xFF, 0xFF, 0xFF, 0xFF,
        6, 7, 0xFF, 0xFF, 0xFF, 0xFF, 0xFF, 0xFF,
        0xFF, 0xFF, 0xFF, 0xFF, 0xFF, 0xFF, 0xFF, 0xFF],
     p2l_port =
       [UTP_PORT0, UTP_PORT1, UTP_PORT2, UTP_PORT3, UTP_PORT4, UNDEFINE_PORT, EXT_PORT0, EXT_PORT1,
 UNDEFINE_PORT, UNDEFINE_PORT, UNDEFINE_PORT, UNDEFINE_PORT, UNDEFINE_PORT, UNDEFINE_PORT,
          UNDEFINE_PORT, UNDEFINE_PORT,
 UNDEFINE_PORT, UNDEFINE_PORT, UNDEFINE_PORT, UNDEFINE_PORT, UNDEFINE_PORT, UNDEFINE_PORT,
          UNDEFINE_PORT, UNDEFINE_PORT,
 UNDEFINE_PORT, UNDEFINE_PORT, UNDEFINE_PORT, UNDEFINE_PORT, UNDEFINE_PORT, UNDEFINE_PORT,
          UNDEFINE_PORT, UNDEFINE_PORT],
     log_port_type =
       [UTP_PORT, UTP_PORT, UTP_PORT, UTP_PORT, UTP_PORT, UNKNOWN_PORT, UNKNOWN_PORT, UNKNOWN_PORT,
 UNKNOWN_PORT, UNKNOWN_PORT, UNKNOWN_PORT, UNKNOWN_PORT, UNKNOWN_PORT, UNKNOWN_PORT, UNKNOWN_PORT,
          UNKNOWN_PORT,
 EXT_PORT, EXT_PORT, UNKNOWN_PORT, UNKNOWN_PORT, UNKNOWN_PORT, UNKNOWN_PORT, UNKNOWN_PORT,
          UNKNOWN_PORT,
 UNKNOWN_PORT, UNKNOWN_PORT, UNKNOWN_PORT, UNKNOWN_PORT, UNKNOWN_PORT, UNKNOWN_PORT, UNKNOWN_PORT,
          UNKNOWN_PORT],
     ptp_port =
       [1, 1, 1, 1, 1, 0, 0, 0,
        0, 0, 0, 0, 0, 0, 0, 0,
        0, 0, 0, 0, 0, 0, 0, 0,
        0, 0, 0, 0, 0, 0, 0, 0],
 valid_portmask = push_bit 0 1 OR push_bit 1 1 OR push_bit 2 1 OR push_bit 3 1 OR push_bit 4 1 OR
       push_bit 16 1 OR push_bit 17 1,
 valid_utp_portmask = push_bit 0 1 OR push_bit 1 1 OR push_bit 2 1 OR push_bit 3 1 OR push_bit 4
       1,
     valid_ext_portmask = push_bit 16 1 OR push_bit 17 1,
     valid_cpu_portmask = 0x00,
     min_phy_port = 0,
     max_phy_port = 7,
     phy_portmask = 0xDF,
     combo_logical_port = 4,
     hsg_logical_port = EXT_PORT0,
     sg_logical_portmask = push_bit 16 1,
     max_meter_id = 31,
     max_lut_addr_num = 2112,
     trunk_group_mask = 0x03\<rparr>"

definition rtl8370b_hal_Ctrl :: rtk_switch_halCtrl_t where
  "rtl8370b_hal_Ctrl = \<lparr>
     switch_type = CHIP_RTL8370B,
     l2p_port =
       [0, 1, 2, 3, 4, 5, 6, 7,
        0xFF, 0xFF, 0xFF, 0xFF, 0xFF, 0xFF, 0xFF, 0xFF,
        8, 9, 10, 0xFF, 0xFF, 0xFF, 0xFF, 0xFF,
        0xFF, 0xFF, 0xFF, 0xFF, 0xFF, 0xFF, 0xFF, 0xFF],
     p2l_port =
       [UTP_PORT0, UTP_PORT1, UTP_PORT2, UTP_PORT3, UTP_PORT4, UTP_PORT5, UTP_PORT6, UTP_PORT7,
 EXT_PORT0, EXT_PORT1, EXT_PORT2, UNDEFINE_PORT, UNDEFINE_PORT, UNDEFINE_PORT, UNDEFINE_PORT,
          UNDEFINE_PORT,
 UNDEFINE_PORT, UNDEFINE_PORT, UNDEFINE_PORT, UNDEFINE_PORT, UNDEFINE_PORT, UNDEFINE_PORT,
          UNDEFINE_PORT, UNDEFINE_PORT,
 UNDEFINE_PORT, UNDEFINE_PORT, UNDEFINE_PORT, UNDEFINE_PORT, UNDEFINE_PORT, UNDEFINE_PORT,
          UNDEFINE_PORT, UNDEFINE_PORT],
     log_port_type =
       [UTP_PORT, UTP_PORT, UTP_PORT, UTP_PORT, UTP_PORT, UTP_PORT, UTP_PORT, UTP_PORT,
 UNKNOWN_PORT, UNKNOWN_PORT, UNKNOWN_PORT, UNKNOWN_PORT, UNKNOWN_PORT, UNKNOWN_PORT, UNKNOWN_PORT,
          UNKNOWN_PORT,
 EXT_PORT, EXT_PORT, EXT_PORT, UNKNOWN_PORT, UNKNOWN_PORT, UNKNOWN_PORT, UNKNOWN_PORT,
          UNKNOWN_PORT,
 UNKNOWN_PORT, UNKNOWN_PORT, UNKNOWN_PORT, UNKNOWN_PORT, UNKNOWN_PORT, UNKNOWN_PORT, UNKNOWN_PORT,
          UNKNOWN_PORT],
     ptp_port =
       [1, 1, 1, 1, 1, 1, 1, 1,
        0, 0, 0, 0, 0, 0, 0, 0,
        1, 1, 0, 0, 0, 0, 0, 0,
        0, 0, 0, 0, 0, 0, 0, 0],
 valid_portmask = push_bit 0 1 OR push_bit 1 1 OR push_bit 2 1 OR push_bit 3 1 OR push_bit 4 1 OR
       push_bit 5 1 OR push_bit 6 1 OR push_bit 7 1 OR push_bit 16 1 OR push_bit 17 1 OR push_bit
       18 1,
 valid_utp_portmask = push_bit 0 1 OR push_bit 1 1 OR push_bit 2 1 OR push_bit 3 1 OR push_bit 4 1
       OR push_bit 5 1 OR push_bit 6 1 OR push_bit 7 1,
     valid_ext_portmask = push_bit 16 1 OR push_bit 17 1 OR push_bit 18 1,
     valid_cpu_portmask = push_bit 18 1,
     min_phy_port = 0,
     max_phy_port = 10,
     phy_portmask = 0x7FF,
     combo_logical_port = 7,
     hsg_logical_port = EXT_PORT1,
     sg_logical_portmask = push_bit 16 1 OR push_bit 17 1,
     max_meter_id = 63,
     max_lut_addr_num = 4160,
     trunk_group_mask = 0x07\<rparr>"

definition rtl8364b_hal_Ctrl :: rtk_switch_halCtrl_t where
  "rtl8364b_hal_Ctrl = \<lparr>
     switch_type = CHIP_RTL8364B,
     l2p_port =
       [0xFF, 1, 0xFF, 3, 0xFF, 0xFF, 0xFF, 0xFF,
        0xFF, 0xFF, 0xFF, 0xFF, 0xFF, 0xFF, 0xFF, 0xFF,
        6, 7, 0xFF, 0xFF, 0xFF, 0xFF, 0xFF, 0xFF,
        0xFF, 0xFF, 0xFF, 0xFF, 0xFF, 0xFF, 0xFF, 0xFF],
     p2l_port =
 [UNDEFINE_PORT, UTP_PORT1, UNDEFINE_PORT, UTP_PORT3, UNDEFINE_PORT, UNDEFINE_PORT, EXT_PORT0,
         EXT_PORT1,
 UNDEFINE_PORT, UNDEFINE_PORT, UNDEFINE_PORT, UNDEFINE_PORT, UNDEFINE_PORT, UNDEFINE_PORT,
          UNDEFINE_PORT, UNDEFINE_PORT,
 UNDEFINE_PORT, UNDEFINE_PORT, UNDEFINE_PORT, UNDEFINE_PORT, UNDEFINE_PORT, UNDEFINE_PORT,
          UNDEFINE_PORT, UNDEFINE_PORT,
 UNDEFINE_PORT, UNDEFINE_PORT, UNDEFINE_PORT, UNDEFINE_PORT, UNDEFINE_PORT, UNDEFINE_PORT,
          UNDEFINE_PORT, UNDEFINE_PORT],
     log_port_type =
 [UNKNOWN_PORT, UTP_PORT, UNKNOWN_PORT, UTP_PORT, UNKNOWN_PORT, UNKNOWN_PORT, UNKNOWN_PORT,
         UNKNOWN_PORT,
 UNKNOWN_PORT, UNKNOWN_PORT, UNKNOWN_PORT, UNKNOWN_PORT, UNKNOWN_PORT, UNKNOWN_PORT, UNKNOWN_PORT,
          UNKNOWN_PORT,
 EXT_PORT, EXT_PORT, UNKNOWN_PORT, UNKNOWN_PORT, UNKNOWN_PORT, UNKNOWN_PORT, UNKNOWN_PORT,
          UNKNOWN_PORT,
 UNKNOWN_PORT, UNKNOWN_PORT, UNKNOWN_PORT, UNKNOWN_PORT, UNKNOWN_PORT, UNKNOWN_PORT, UNKNOWN_PORT,
          UNKNOWN_PORT],
     ptp_port =
       [0, 0, 0, 0, 0, 0, 0, 0,
        0, 0, 0, 0, 0, 0, 0, 0,
        0, 0, 0, 0, 0, 0, 0, 0,
        0, 0, 0, 0, 0, 0, 0, 0],
     valid_portmask = push_bit 1 1 OR push_bit 3 1 OR push_bit 16 1 OR push_bit 17 1,
     valid_utp_portmask = push_bit 1 1 OR push_bit 3 1,
     valid_ext_portmask = push_bit 16 1 OR push_bit 17 1,
     valid_cpu_portmask = 0x00,
     min_phy_port = 0,
     max_phy_port = 7,
     phy_portmask = 0xCA,
     combo_logical_port = 4,
     hsg_logical_port = EXT_PORT0,
     sg_logical_portmask = push_bit 16 1 OR push_bit 17 1,
     max_meter_id = 32,
     max_lut_addr_num = 2112,
     trunk_group_mask = 0x01\<rparr>"

definition rtl8363sc_vb_hal_Ctrl :: rtk_switch_halCtrl_t where
  "rtl8363sc_vb_hal_Ctrl = \<lparr>
     switch_type = CHIP_RTL8363SC_VB,
     l2p_port =
       [0xFF, 0xFF, 1, 3, 0xFF, 0xFF, 0xFF, 0xFF,
        0xFF, 0xFF, 0xFF, 0xFF, 0xFF, 0xFF, 0xFF, 0xFF,
        6, 7, 0xFF, 0xFF, 0xFF, 0xFF, 0xFF, 0xFF,
        0xFF, 0xFF, 0xFF, 0xFF, 0xFF, 0xFF, 0xFF, 0xFF],
     p2l_port =
 [UNDEFINE_PORT, UTP_PORT2, UNDEFINE_PORT, UTP_PORT3, UNDEFINE_PORT, UNDEFINE_PORT, EXT_PORT0,
         EXT_PORT1,
 UNDEFINE_PORT, UNDEFINE_PORT, UNDEFINE_PORT, UNDEFINE_PORT, UNDEFINE_PORT, UNDEFINE_PORT,
          UNDEFINE_PORT, UNDEFINE_PORT,
 UNDEFINE_PORT, UNDEFINE_PORT, UNDEFINE_PORT, UNDEFINE_PORT, UNDEFINE_PORT, UNDEFINE_PORT,
          UNDEFINE_PORT, UNDEFINE_PORT,
 UNDEFINE_PORT, UNDEFINE_PORT, UNDEFINE_PORT, UNDEFINE_PORT, UNDEFINE_PORT, UNDEFINE_PORT,
          UNDEFINE_PORT, UNDEFINE_PORT],
     log_port_type =
 [UNKNOWN_PORT, UNKNOWN_PORT, UTP_PORT, UTP_PORT, UNKNOWN_PORT, UNKNOWN_PORT, UNKNOWN_PORT,
         UNKNOWN_PORT,
 UNKNOWN_PORT, UNKNOWN_PORT, UNKNOWN_PORT, UNKNOWN_PORT, UNKNOWN_PORT, UNKNOWN_PORT, UNKNOWN_PORT,
          UNKNOWN_PORT,
 EXT_PORT, EXT_PORT, UNKNOWN_PORT, UNKNOWN_PORT, UNKNOWN_PORT, UNKNOWN_PORT, UNKNOWN_PORT,
          UNKNOWN_PORT,
 UNKNOWN_PORT, UNKNOWN_PORT, UNKNOWN_PORT, UNKNOWN_PORT, UNKNOWN_PORT, UNKNOWN_PORT, UNKNOWN_PORT,
          UNKNOWN_PORT],
     ptp_port =
       [0, 0, 0, 0, 0, 0, 0, 0,
        0, 0, 0, 0, 0, 0, 0, 0,
        0, 0, 0, 0, 0, 0, 0, 0,
        0, 0, 0, 0, 0, 0, 0, 0],
     valid_portmask = push_bit 2 1 OR push_bit 3 1 OR push_bit 16 1 OR push_bit 17 1,
     valid_utp_portmask = push_bit 2 1 OR push_bit 3 1,
     valid_ext_portmask = push_bit 16 1 OR push_bit 17 1,
     valid_cpu_portmask = 0x00,
     min_phy_port = 0,
     max_phy_port = 7,
     phy_portmask = 0xCA,
     combo_logical_port = 4,
     hsg_logical_port = EXT_PORT0,
     sg_logical_portmask = push_bit 16 1 OR push_bit 17 1,
     max_meter_id = 32,
     max_lut_addr_num = 2112,
     trunk_group_mask = 0x01\<rparr>"

section \<open>Probing and initialisation state\<close>

definition halE :: "('d gsw, rtk_switch_halCtrl_t) drv" where
  "halE = bindE (getsE halCtrl) (\<lambda>h. case h of None \<Rightarrow> faultE | Some hal \<Rightarrow> okE hal)"

definition set_halCtrl :: "switch_chip_t \<Rightarrow> rtk_switch_halCtrl_t \<Rightarrow> ('d gsw, switch_chip_t) drv" where
  "set_halCtrl chip hal = thenE (modifyE (\<lambda>s. s\<lparr>halCtrl := Some hal\<rparr>)) (okE chip)"

definition rtk_switch_probe :: "('d gsw, switch_chip_t) drv" where
  "rtk_switch_probe =
     thenE (rtl8367c_setAsicReg 0x13C2 0x0249)
     (bindE (rtl8367c_getAsicReg 0x1300) (\<lambda>data.
      bindE (rtl8367c_getAsicReg 0x1301) (\<lambda>regValue.
      thenE (rtl8367c_setAsicReg 0x13C2 0x0000)
      (if data = 0x0276 \<or> data = 0x0597 \<or> data = 0x6367
       then set_halCtrl CHIP_RTL8367C rtl8367c_hal_Ctrl
       else if data = 0x0652 \<or> data = 0x6368
       then set_halCtrl CHIP_RTL8370B rtl8370b_hal_Ctrl
       else if data = 0x0801 \<or> data = 0x6511
       then (if regValue AND 0x00F0 = 0x0080
             then set_halCtrl CHIP_RTL8363SC_VB rtl8363sc_vb_hal_Ctrl
             else set_halCtrl CHIP_RTL8364B rtl8364b_hal_Ctrl)
       else errE RT_ERR_FAILED))))"

definition rtk_switch_initialState_set :: "u32 \<Rightarrow> ('d gsw, unit) drv" where
  "rtk_switch_initialState_set state =
     (if state \<ge> INIT_STATE_END then errE RT_ERR_FAILED
      else modifyE (\<lambda>s. s\<lparr>init_state := state\<rparr>))"

definition rtk_switch_initialState_get :: "('d gsw, u32) drv" where
  "rtk_switch_initialState_get = getsE init_state"

section \<open>Port predicates\<close>

text \<open>The two checks every port predicate starts with.\<close>

definition port_guard :: "rtk_port_t \<Rightarrow> ('d gsw, unit) drv \<Rightarrow> ('d gsw, unit) drv" where
  "port_guard logicalPort k =
     bindE (getsE init_state) (\<lambda>st.
       if st \<noteq> INIT_COMPLETED then errE RT_ERR_NOT_INIT
       else if unat logicalPort \<ge> RTK_SWITCH_PORT_NUM then errE RT_ERR_FAILED
       else k)"

definition ok_or_failed :: "bool \<Rightarrow> ('d gsw, unit) drv" where
  "ok_or_failed b = (if b then okE () else errE RT_ERR_FAILED)"

definition rtk_switch_logicalPortCheck :: "rtk_port_t \<Rightarrow> ('d gsw, unit) drv" where
  "rtk_switch_logicalPortCheck logicalPort = port_guard logicalPort
     (bindE halE (\<lambda>hal. bindE (indexE (l2p_port hal) (unat logicalPort)) (\<lambda>phy.
        if phy = 0xFF then errE RT_ERR_FAILED else okE ())))"

definition rtk_switch_isUtpPort :: "rtk_port_t \<Rightarrow> ('d gsw, unit) drv" where
  "rtk_switch_isUtpPort logicalPort = port_guard logicalPort
     (bindE halE (\<lambda>hal. bindE (indexE (log_port_type hal) (unat logicalPort)) (\<lambda>ty.
        ok_or_failed (ty = UTP_PORT))))"

definition rtk_switch_isExtPort :: "rtk_port_t \<Rightarrow> ('d gsw, unit) drv" where
  "rtk_switch_isExtPort logicalPort = port_guard logicalPort
     (bindE halE (\<lambda>hal. bindE (indexE (log_port_type hal) (unat logicalPort)) (\<lambda>ty.
        ok_or_failed (ty = EXT_PORT))))"

definition rtk_switch_isHsgPort :: "rtk_port_t \<Rightarrow> ('d gsw, unit) drv" where
  "rtk_switch_isHsgPort logicalPort = port_guard logicalPort
     (bindE halE (\<lambda>hal. ok_or_failed (logicalPort = hsg_logical_port hal)))"

definition rtk_switch_isSgmiiPort :: "rtk_port_t \<Rightarrow> ('d gsw, unit) drv" where
  "rtk_switch_isSgmiiPort logicalPort = port_guard logicalPort
     (bindE halE (\<lambda>hal.
        ok_or_failed (push_bit (unat logicalPort) 1 AND sg_logical_portmask hal \<noteq> 0)))"

definition rtk_switch_isCPUPort :: "rtk_port_t \<Rightarrow> ('d gsw, unit) drv" where
  "rtk_switch_isCPUPort logicalPort = port_guard logicalPort
     (bindE halE (\<lambda>hal.
        ok_or_failed (push_bit (unat logicalPort) 1 AND valid_cpu_portmask hal \<noteq> 0)))"

definition rtk_switch_isComboPort :: "rtk_port_t \<Rightarrow> ('d gsw, unit) drv" where
  "rtk_switch_isComboPort logicalPort = port_guard logicalPort
     (bindE halE (\<lambda>hal. ok_or_failed (combo_logical_port hal = logicalPort)))"

definition rtk_switch_ComboPort_get :: "('d gsw, u32) drv" where
  "rtk_switch_ComboPort_get = bindE halE (\<lambda>hal. okE (combo_logical_port hal))"

definition rtk_switch_isPtpPort :: "rtk_port_t \<Rightarrow> ('d gsw, unit) drv" where
  "rtk_switch_isPtpPort logicalPort = port_guard logicalPort
     (bindE halE (\<lambda>hal. bindE (indexE (ptp_port hal) (unat logicalPort)) (\<lambda>f.
        ok_or_failed (f = 1))))"

section \<open>Port translation\<close>

definition rtk_switch_port_L2P_get :: "rtk_port_t \<Rightarrow> ('d gsw, u32) drv" where
  "rtk_switch_port_L2P_get logicalPort =
     bindE (getsE init_state) (\<lambda>st.
       if st \<noteq> INIT_COMPLETED then okE UNDEFINE_PHY_PORT
       else if unat logicalPort \<ge> RTK_SWITCH_PORT_NUM then okE UNDEFINE_PHY_PORT
       else bindE halE (\<lambda>hal. indexE (l2p_port hal) (unat logicalPort)))"

definition rtk_switch_port_P2L_get :: "u32 \<Rightarrow> ('d gsw, rtk_port_t) drv" where
  "rtk_switch_port_P2L_get physicalPort =
     bindE (getsE init_state) (\<lambda>st.
       if st \<noteq> INIT_COMPLETED then okE UNDEFINE_PORT
       else if unat physicalPort \<ge> RTK_SWITCH_PORT_NUM then okE UNDEFINE_PORT
       else bindE halE (\<lambda>hal. indexE (p2l_port hal) (unat physicalPort)))"

text \<open>A port mask parameter is a pointer: \<open>None\<close> is the null pointer.\<close>

definition mask_within :: "(rtk_switch_halCtrl_t \<Rightarrow> u32) \<Rightarrow> rtk_portmask_t option \<Rightarrow> ('d gsw, unit) drv" where
  "mask_within field pPmask =
     bindE (getsE init_state) (\<lambda>st.
       if st \<noteq> INIT_COMPLETED then errE RT_ERR_NOT_INIT
       else (case pPmask of
         None \<Rightarrow> errE RT_ERR_NULL_POINTER
       | Some m \<Rightarrow> bindE halE (\<lambda>hal.
           if m OR field hal \<noteq> field hal then errE RT_ERR_FAILED else okE ())))"

definition rtk_switch_isPortMaskValid :: "rtk_portmask_t option \<Rightarrow> ('d gsw, unit) drv" where
  "rtk_switch_isPortMaskValid = mask_within valid_portmask"

definition rtk_switch_isPortMaskUtp :: "rtk_portmask_t option \<Rightarrow> ('d gsw, unit) drv" where
  "rtk_switch_isPortMaskUtp = mask_within valid_utp_portmask"

definition rtk_switch_isPortMaskExt :: "rtk_portmask_t option \<Rightarrow> ('d gsw, unit) drv" where
  "rtk_switch_isPortMaskExt = mask_within valid_ext_portmask"

text \<open>
  The body of the scan: \<^verbatim>\<open>0x0001 << phy_port\<close> is undefined for the entry \<open>0xFF\<close> of an
  unused logical port; the mask check before the loop excludes those.
\<close>

definition L2P_body :: "u32 \<Rightarrow> nat \<Rightarrow> u32 \<Rightarrow> ('d gsw, u32) drv" where
  "L2P_body m log_port acc =
     (if bit m log_port
      then bindE (rtk_switch_port_L2P_get (of_nat log_port)) (\<lambda>phy_port.
        if unat phy_port \<ge> 32 then faultE else okE (acc OR push_bit (unat phy_port) 1))
      else okE acc)"

definition rtk_switch_portmask_L2P_get :: "rtk_portmask_t option \<Rightarrow> outptr \<Rightarrow> ('d gsw, u32) drv" where
  "rtk_switch_portmask_L2P_get pLogicalPmask pPhysicalPortmask =
     bindE (getsE init_state) (\<lambda>st.
       if st \<noteq> INIT_COMPLETED then errE RT_ERR_NOT_INIT
       else (case pLogicalPmask of
         None \<Rightarrow> errE RT_ERR_NULL_POINTER
       | Some m \<Rightarrow>
           if pPhysicalPortmask = NULLP then errE RT_ERR_NULL_POINTER
           else thenE (mapErrE RT_ERR_PORT_MASK (rtk_switch_isPortMaskValid (Some m)))
             (foldE (L2P_body m) [0..<RTK_SWITCH_PORT_NUM] 0)))"

definition P2L_body :: "u32 \<Rightarrow> nat \<Rightarrow> u32 \<Rightarrow> ('d gsw, u32) drv" where
  "P2L_body m phy_port acc =
     (if phy_port \<ge> 32 then faultE
      else if bit m phy_port
      then bindE (rtk_switch_port_P2L_get (of_nat phy_port)) (\<lambda>log_port.
        if log_port = UNDEFINE_PORT then okE acc
        else if unat log_port \<ge> 32 then faultE
        else okE (acc OR push_bit (unat log_port) 1))
      else okE acc)"

definition rtk_switch_portmask_P2L_get :: "u32 \<Rightarrow> outptr \<Rightarrow> ('d gsw, rtk_portmask_t) drv" where
  "rtk_switch_portmask_P2L_get physicalPortmask pLogicalPmask =
     bindE (getsE init_state) (\<lambda>st.
       if st \<noteq> INIT_COMPLETED then errE RT_ERR_NOT_INIT
       else if pLogicalPmask = NULLP then errE RT_ERR_NULL_POINTER
       else bindE halE (\<lambda>hal.
         foldE (P2L_body physicalPortmask) [unat (min_phy_port hal)..<Suc (unat (max_phy_port hal))] 0))"

definition rtk_switch_phyPortMask_get :: "('d gsw, u32) drv" where
  "rtk_switch_phyPortMask_get =
     bindE (getsE init_state) (\<lambda>st.
       if st \<noteq> INIT_COMPLETED then okE 0 else bindE halE (\<lambda>hal. okE (phy_portmask hal)))"

definition rtk_switch_logPortMask_get :: "outptr \<Rightarrow> ('d gsw, rtk_portmask_t) drv" where
  "rtk_switch_logPortMask_get pPortmask =
     bindE (getsE init_state) (\<lambda>st.
       if st \<noteq> INIT_COMPLETED then errE RT_ERR_FAILED
       else if pPortmask = NULLP then errE RT_ERR_NULL_POINTER
       else bindE halE (\<lambda>hal. okE (valid_portmask hal)))"

definition rtk_switch_maxLogicalPort_get :: "('d gsw, rtk_port_t) drv" where
  "rtk_switch_maxLogicalPort_get =
     bindE rtk_switch_initialState_get (\<lambda>st.
       if st \<noteq> INIT_COMPLETED then okE UNDEFINE_PORT
       else bindE halE (\<lambda>hal.
         foldE (\<lambda>port maxLogicalPort.
           bindE (indexE (log_port_type hal) port) (\<lambda>ty.
             okE (if ty = UTP_PORT \<or> ty = EXT_PORT then of_nat port else maxLogicalPort)))
           [0..<RTK_SWITCH_PORT_NUM] 0))"

definition rtk_switch_maxMeterId_get :: "('d gsw, u32) drv" where
  "rtk_switch_maxMeterId_get =
     bindE (getsE init_state) (\<lambda>st.
       if st \<noteq> INIT_COMPLETED then okE 0 else bindE halE (\<lambda>hal. okE (max_meter_id hal)))"

definition rtk_switch_maxLutAddrNumber_get :: "('d gsw, u32) drv" where
  "rtk_switch_maxLutAddrNumber_get =
     bindE (getsE init_state) (\<lambda>st.
       if st \<noteq> INIT_COMPLETED then okE 0 else bindE halE (\<lambda>hal. okE (max_lut_addr_num hal)))"

text \<open>
  Before initialisation this function returns \<^verbatim>\<open>0x00\<close>, which is the code \<open>RT_ERR_OK\<close>; the shift
  \<^verbatim>\<open>0x01 << grpId\<close> is not guarded.
\<close>

definition rtk_switch_isValidTrunkGrpId :: "u32 \<Rightarrow> ('d gsw, unit) drv" where
  "rtk_switch_isValidTrunkGrpId grpId =
     bindE (getsE init_state) (\<lambda>st.
       if st \<noteq> INIT_COMPLETED then okE ()
       else bindE halE (\<lambda>hal.
         if unat grpId \<ge> 32 then faultE
         else if trunk_group_mask hal AND push_bit (unat grpId) 1 \<noteq> 0 then okE ()
         else errE RT_ERR_LA_TRUNK_ID))"

section \<open>The checks of the API functions\<close>

definition RTK_CHK_INIT_STATE :: "('d gsw, unit) drv" where
  "RTK_CHK_INIT_STATE = bindE rtk_switch_initialState_get (\<lambda>st.
     if st \<noteq> INIT_COMPLETED then errE RT_ERR_NOT_INIT else okE ())"

definition RTK_CHK_PORT_VALID :: "rtk_port_t \<Rightarrow> ('d gsw, unit) drv" where
  "RTK_CHK_PORT_VALID port = mapErrE RT_ERR_PORT_ID (rtk_switch_logicalPortCheck port)"

definition RTK_CHK_PORT_IS_UTP :: "rtk_port_t \<Rightarrow> ('d gsw, unit) drv" where
  "RTK_CHK_PORT_IS_UTP port = mapErrE RT_ERR_PORT_ID (rtk_switch_isUtpPort port)"

definition RTK_CHK_PORT_IS_EXT :: "rtk_port_t \<Rightarrow> ('d gsw, unit) drv" where
  "RTK_CHK_PORT_IS_EXT port = mapErrE RT_ERR_PORT_ID (rtk_switch_isExtPort port)"

definition RTK_CHK_PORTMASK_VALID :: "rtk_portmask_t option \<Rightarrow> ('d gsw, unit) drv" where
  "RTK_CHK_PORTMASK_VALID m = mapErrE RT_ERR_PORT_MASK (rtk_switch_isPortMaskValid m)"

definition RTK_CHK_TRUNK_GROUP_VALID :: "u32 \<Rightarrow> ('d gsw, unit) drv" where
  "RTK_CHK_TRUNK_GROUP_VALID grpId = mapErrE RT_ERR_LA_TRUNK_ID (rtk_switch_isValidTrunkGrpId grpId)"

section \<open>Well-formed port tables\<close>

definition hal_wf :: "rtk_switch_halCtrl_t \<Rightarrow> bool" where
  "hal_wf h \<longleftrightarrow>
     length (l2p_port h) = 32 \<and> length (p2l_port h) = 32 \<and>
     length (log_port_type h) = 32 \<and> length (ptp_port h) = 32 \<and> max_phy_port h \<le> 10 \<and> max_meter_id h \<le> 63 \<and> trunk_group_mask h \<le> 7 \<and>
     list_all (\<lambda>i. bit (valid_portmask h) i = (l2p_port h ! i \<noteq> 0xFF) \<and>
        bit (valid_utp_portmask h) i = (log_port_type h ! i = UTP_PORT) \<and>
        bit (valid_ext_portmask h) i = (log_port_type h ! i = EXT_PORT) \<and>
        (log_port_type h ! i = UNKNOWN_PORT) = (l2p_port h ! i = 0xFF) \<and>
        (l2p_port h ! i \<noteq> 0xFF \<longrightarrow>
           min_phy_port h \<le> l2p_port h ! i \<and> l2p_port h ! i \<le> max_phy_port h \<and>
           p2l_port h ! unat (l2p_port h ! i) = of_nat i \<and> i \<noteq> 30)) [0..<32] \<and>
     list_all (\<lambda>p. bit (phy_portmask h) p = (p2l_port h ! p \<noteq> UNDEFINE_PORT) \<and>
        (p2l_port h ! p \<noteq> UNDEFINE_PORT \<longrightarrow>
           unat (p2l_port h ! p) < 32 \<and> l2p_port h ! unat (p2l_port h ! p) = of_nat p)) [0..<32]"

definition l2p_mask :: "rtk_switch_halCtrl_t \<Rightarrow> u32 \<Rightarrow> u32" where
  "l2p_mask h m = fold (\<lambda>i acc. if bit m i then acc OR push_bit (unat (l2p_port h ! i)) 1 else acc)
     [0..<32] 0"

definition p2l_mask :: "rtk_switch_halCtrl_t \<Rightarrow> u32 \<Rightarrow> u32" where
  "p2l_mask h m = fold (\<lambda>p acc. if bit m p \<and> p2l_port h ! p \<noteq> UNDEFINE_PORT
       then acc OR push_bit (unat (p2l_port h ! p)) 1 else acc)
     [unat (min_phy_port h)..<Suc (unat (max_phy_port h))] 0"

definition valid_mask :: "rtk_switch_halCtrl_t \<Rightarrow> u32 \<Rightarrow> bool" where
  "valid_mask h m \<longleftrightarrow> m OR valid_portmask h = valid_portmask h"

lemma subset_mask_iff: "(m :: u32) OR v = v \<longleftrightarrow> (\<forall>i. bit m i \<longrightarrow> bit v i)"
  using bit_imp_le_length [of m] by (auto simp: bit_eq_iff bit_or_iff)

locale port_map =
  fixes h :: rtk_switch_halCtrl_t
  assumes wf: "hal_wf h"
begin

lemma lengths [simp]:
  "length (l2p_port h) = 32" "length (p2l_port h) = 32"
  "length (log_port_type h) = 32" "length (ptp_port h) = 32"
  using wf by (simp_all add: hal_wf_def)

lemma phy_range: "max_phy_port h \<le> 10"
  using wf by (simp add: hal_wf_def)

lemma logical:
  assumes "i < 32"
  shows "bit (valid_portmask h) i = (l2p_port h ! i \<noteq> 0xFF)"
    and "bit (valid_portmask h) i \<Longrightarrow> min_phy_port h \<le> l2p_port h ! i"
    and "bit (valid_portmask h) i \<Longrightarrow> l2p_port h ! i \<le> max_phy_port h"
    and "bit (valid_portmask h) i \<Longrightarrow> p2l_port h ! unat (l2p_port h ! i) = of_nat i"
    and "bit (valid_portmask h) i \<Longrightarrow> i \<noteq> 30"
  using wf assms by (auto simp: hal_wf_def list_all_iff)

lemma physical:
  assumes "p < 32" and "p2l_port h ! p \<noteq> UNDEFINE_PORT"
  shows "unat (p2l_port h ! p) < 32" and "l2p_port h ! unat (p2l_port h ! p) = of_nat p"
  using wf assms by (auto simp: hal_wf_def list_all_iff)

lemma phy_bound: "i < 32 \<Longrightarrow> bit (valid_portmask h) i \<Longrightarrow> unat (l2p_port h ! i) < 11"
  using logical(3) [of i] phy_range by (simp add: word_le_nat_alt)

lemma bit_valid_less: "bit (valid_portmask h) i \<Longrightarrow> i < 32"
  using bit_imp_le_length [of "valid_portmask h" i] by simp

lemma l2p_inj:
  assumes "bit (valid_portmask h) i" and "bit (valid_portmask h) j"
    and "unat (l2p_port h ! i) = unat (l2p_port h ! j)"
  shows "i = j"
proof -
  have "(of_nat i :: u32) = of_nat j"
    using assms logical(4) [of i] logical(4) [of j] by (simp add: bit_valid_less)
  then have "unat (of_nat i :: u32) = unat (of_nat j :: u32)" by simp
  with bit_valid_less [OF assms(1)] bit_valid_less [OF assms(2)] show ?thesis
    by (simp add: unat_of_nat)
qed

lemma bit_l2p_mask:
  "bit (l2p_mask h m) k \<longleftrightarrow> k < 32 \<and> (\<exists>i<32. bit m i \<and> unat (l2p_port h ! i) = k)"
  unfolding l2p_mask_def bit_fold_or by auto

lemma bit_p2l_mask:
  "bit (p2l_mask h m) k \<longleftrightarrow> k < 32 \<and> (\<exists>p. unat (min_phy_port h) \<le> p \<and> p \<le> unat (max_phy_port h) \<and>
     bit m p \<and> p2l_port h ! p \<noteq> UNDEFINE_PORT \<and> unat (p2l_port h ! p) = k)"
  unfolding p2l_mask_def bit_fold_or by (auto simp: less_Suc_eq_le)

lemma l2p_mask_le: "valid_mask h m \<Longrightarrow> l2p_mask h m \<le> 0x7FF"
proof -
  assume v: "valid_mask h m"
  have "k < 11" if "bit (l2p_mask h m) k" for k
    using that v phy_bound by (auto simp: bit_l2p_mask valid_mask_def subset_mask_iff)
  then have "l2p_mask h m \<le> mask 11" by (force simp: le_mask_iff_bits)
  then show ?thesis by (simp add: mask_eq_exp_minus_1)
qed

text \<open>Translating a port mask to physical ports and back gives the mask.\<close>

lemma p2l_l2p:
  assumes "valid_mask h m"
  shows "p2l_mask h (l2p_mask h m) = m"
proof (rule bit_word_eqI)
  fix k assume "k < LENGTH(32)"
  then have k: "k < 32" by simp
  have v: "\<And>i. bit m i \<Longrightarrow> bit (valid_portmask h) i"
    using assms by (simp add: valid_mask_def subset_mask_iff)
  show "bit (p2l_mask h (l2p_mask h m)) k \<longleftrightarrow> bit m k"
  proof
    assume "bit (p2l_mask h (l2p_mask h m)) k"
    then obtain i where i: "i < 32" "bit m i"
        "unat (p2l_port h ! unat (l2p_port h ! i)) = k"
      by (auto simp: bit_p2l_mask bit_l2p_mask)
    with v logical(4) [of i] show "bit m k" by (simp add: unat_of_nat)
  next
    assume mk: "bit m k"
    note l = logical(2-5) [OF k v [OF mk]] and pb = phy_bound [OF k v [OF mk]]
    have "p2l_port h ! unat (l2p_port h ! k) \<noteq> UNDEFINE_PORT"
      using l(3,4) k by (auto simp: word_unat_eq_iff unat_of_nat)
    moreover have "bit (l2p_mask h m) (unat (l2p_port h ! k))"
      using mk k pb by (auto simp: bit_l2p_mask)
    ultimately show "bit (p2l_mask h (l2p_mask h m)) k"
      using l(1,2,3) k unfolding bit_p2l_mask
      by (intro conjI exI [of _ "unat (l2p_port h ! k)"]) (simp_all add: word_le_nat_alt unat_of_nat)
  qed
qed

text \<open>
  The other way round, physical ports that the chip does not have are dropped.
\<close>

lemma p2l_valid: "valid_mask h (p2l_mask h m)"
  unfolding valid_mask_def subset_mask_iff
proof (intro allI impI)
  fix k assume "bit (p2l_mask h m) k"
  then obtain p where p: "p \<le> unat (max_phy_port h)" "k < 32"
      "p2l_port h ! p \<noteq> UNDEFINE_PORT" "unat (p2l_port h ! p) = k"
    by (auto simp: bit_p2l_mask)
  from p(1) phy_range have "p < 32" by (simp add: word_le_nat_alt)
  from physical(2) [OF this p(3)] p(4) \<open>p < 32\<close> p(1) phy_range
  have "l2p_port h ! k \<noteq> 0xFF" by (auto simp: word_unat_eq_iff unat_of_nat)
  with logical(1) [OF p(2)] show "bit (valid_portmask h) k" by simp
qed

end

interpretation hal8367c: port_map rtl8367c_hal_Ctrl
  by unfold_locales code_simp

interpretation hal8370b: port_map rtl8370b_hal_Ctrl
  by unfold_locales code_simp

interpretation hal8364b: port_map rtl8364b_hal_Ctrl
  by unfold_locales code_simp

interpretation hal8363sc_vb: port_map rtl8363sc_vb_hal_Ctrl
  by unfold_locales code_simp

section \<open>Running the port functions on an initialised driver\<close>

definition ready :: "'d gsw \<Rightarrow> rtk_switch_halCtrl_t \<Rightarrow> bool" where
  "ready s h \<longleftrightarrow> init_state s = INIT_COMPLETED \<and> halCtrl s = Some h \<and> hal_wf h"

definition valid_port :: "rtk_switch_halCtrl_t \<Rightarrow> rtk_port_t \<Rightarrow> bool" where
  "valid_port h p \<longleftrightarrow> unat p < 32 \<and> l2p_port h ! unat p \<noteq> 0xFF"

definition phy_of :: "rtk_switch_halCtrl_t \<Rightarrow> rtk_port_t \<Rightarrow> u32" where
  "phy_of h p = l2p_port h ! unat p"

named_theorems switch_run

lemma halE_run [switch_run]: "ready s h \<Longrightarrow> halE s = (Ok h, s)"
  by (simp add: ready_def halE_def drv_simps)

lemma init_run [switch_run]: "ready s h \<Longrightarrow> getsE init_state s = (Ok INIT_COMPLETED, s)"
  by (simp add: ready_def getsE_def)

lemma chk_init_run [switch_run]: "ready s h \<Longrightarrow> RTK_CHK_INIT_STATE s = (Ok (), s)"
  by (simp add: ready_def RTK_CHK_INIT_STATE_def rtk_switch_initialState_get_def drv_simps)

lemma hal_wf_lengths:
  "hal_wf h \<Longrightarrow> length (l2p_port h) = 32" "hal_wf h \<Longrightarrow> length (p2l_port h) = 32"
  "hal_wf h \<Longrightarrow> length (log_port_type h) = 32" "hal_wf h \<Longrightarrow> length (ptp_port h) = 32"
  by (simp_all add: hal_wf_def)

lemma chk_port_run [switch_run]:
  "ready s h \<Longrightarrow> RTK_CHK_PORT_VALID p s = (if valid_port h p then (Ok (), s) else (Err RT_ERR_PORT_ID, s))"
  by (auto simp: RTK_CHK_PORT_VALID_def rtk_switch_logicalPortCheck_def port_guard_def drv_simps
      halE_def ready_def valid_port_def hal_wf_lengths)

lemma port_L2P_run [switch_run]:
  "ready s h \<Longrightarrow> unat p < 32 \<Longrightarrow> rtk_switch_port_L2P_get p s = (Ok (phy_of h p), s)"
  by (auto simp: rtk_switch_port_L2P_get_def drv_simps halE_def ready_def phy_of_def hal_wf_lengths)

lemma port_P2L_run [switch_run]:
  "ready s h \<Longrightarrow> unat p < 32 \<Longrightarrow> rtk_switch_port_P2L_get p s = (Ok (p2l_port h ! unat p), s)"
  by (auto simp: rtk_switch_port_P2L_get_def drv_simps halE_def ready_def hal_wf_lengths)

lemma isPortMaskValid_run [switch_run]:
  "ready s h \<Longrightarrow> rtk_switch_isPortMaskValid (Some m) s =
     (if valid_mask h m then (Ok (), s) else (Err RT_ERR_FAILED, s))"
  by (auto simp: rtk_switch_isPortMaskValid_def mask_within_def drv_simps halE_def ready_def
      valid_mask_def)

lemma ready_port_map: "ready s h \<Longrightarrow> port_map h"
  by (simp add: ready_def port_map_def)

lemma portmask_L2P_run [switch_run]:
  assumes r: "ready s h"
  shows "rtk_switch_portmask_L2P_get (Some m) PTR s =
     (if valid_mask h m then (Ok (l2p_mask h m), s) else (Err RT_ERR_PORT_MASK, s))"
proof (cases "valid_mask h m")
  case True
  have "L2P_body m i acc s =
        (Ok (if bit m i then acc OR push_bit (unat (l2p_port h ! i)) 1 else acc), s)"
    if "i \<in> set [0..<32]" for i and acc :: u32
  proof -
    from that have i: "i < 32" "unat (of_nat i :: u32) = i" by (simp_all add: unat_of_nat)
    have "unat (l2p_port h ! i) < 32" if "bit m i"
      using port_map.phy_bound [OF ready_port_map [OF r] i(1)] that True
      by (simp add: valid_mask_def subset_mask_iff)
    with port_L2P_run [OF r, of "of_nat i"] i show ?thesis
      by (auto simp: L2P_body_def phy_of_def drv_simps)
  qed
  then have scan: "foldE (L2P_body m) [0..<32] 0 s = (Ok (l2p_mask h m), s)"
    unfolding l2p_mask_def by (rule foldE_pure)
  show ?thesis
    using True by (simp add: rtk_switch_portmask_L2P_get_def bindE_def thenE_def mapErrE_def
        init_run [OF r] isPortMaskValid_run [OF r] scan
        del: upt.simps)
next
  case False
  then show ?thesis
    by (simp add: rtk_switch_portmask_L2P_get_def bindE_def thenE_def mapErrE_def
        init_run [OF r] isPortMaskValid_run [OF r])
qed

lemma portmask_P2L_run [switch_run]:
  assumes r: "ready s h"
  shows "rtk_switch_portmask_P2L_get m PTR s = (Ok (p2l_mask h m), s)"
proof -
  let ?ports = "[unat (min_phy_port h)..<Suc (unat (max_phy_port h))]"
  have "P2L_body m p acc s =
        (Ok (if bit m p \<and> p2l_port h ! p \<noteq> UNDEFINE_PORT
             then acc OR push_bit (unat (p2l_port h ! p)) 1 else acc), s)"
    if "p \<in> set ?ports" for p and acc :: u32
  proof -
    from that port_map.phy_range [OF ready_port_map [OF r]]
    have p: "p < 32" "unat (of_nat p :: u32) = p"
      by (auto simp: word_le_nat_alt unat_of_nat less_Suc_eq_le)
    with port_P2L_run [OF r, of "of_nat p"] port_map.physical(1) [OF ready_port_map [OF r] p(1)]
    show ?thesis by (auto simp: P2L_body_def drv_simps)
  qed
  then have scan: "foldE (P2L_body m) ?ports 0 s = (Ok (p2l_mask h m), s)"
    unfolding p2l_mask_def by (rule foldE_pure)
  show ?thesis
    by (simp add: rtk_switch_portmask_P2L_get_def bindE_def init_run [OF r] halE_run [OF r] scan
        del: upt_Suc)
qed

text \<open>The same functions as rules over the abstract switch.\<close>

definition sw_ready :: "swt \<Rightarrow> rtk_switch_halCtrl_t \<Rightarrow> bool" where
  "sw_ready c h \<longleftrightarrow> sw_init c = INIT_COMPLETED \<and> sw_hal c = Some h \<and> hal_wf h"

lemma sw_ready_rel: "swt_rel view A s c \<Longrightarrow> sw_ready c h \<Longrightarrow> ready s h"
  by (simp add: swt_rel_def sw_ready_def ready_def)

lemma sw_ready_upd [simp]:
  "sw_ready (c\<lparr>sw_reg := r\<rparr>) h = sw_ready c h" "sw_ready (c\<lparr>sw_tbl := t\<rparr>) h = sw_ready c h"
  "sw_ready (c\<lparr>sw_mbrVid := v\<rparr>) h = sw_ready c h" "sw_ready (c\<lparr>sw_mbrUsage := u\<rparr>) h = sw_ready c h"
  "sw_ready (c\<lparr>sw_sUsage := x\<rparr>) h = sw_ready c h" "sw_ready (c\<lparr>sw_sVid := y\<rparr>) h = sw_ready c h"
  "sw_ready (c\<lparr>sw_sLookup := z\<rparr>) h = sw_ready c h"
  "sw_ready (read_command_state tg ad c) h = sw_ready c h"
  by (simp_all add: sw_ready_def)

lemma wp_pure:
  assumes "\<And>s. swt_rel view A s c \<Longrightarrow> m s = (r, s)" and "Q r c"
  shows "wp view A m Q c"
  using assms by (auto simp: wp_def)

lemma wp_chk_init [wp_rules]:
  "sw_ready c h \<Longrightarrow> Q (Ok ()) c \<Longrightarrow> wp view A RTK_CHK_INIT_STATE Q c"
  by (rule wp_pure) (auto intro: chk_init_run sw_ready_rel)

lemma wp_chk_port [wp_rules]:
  "sw_ready c h \<Longrightarrow> valid_port h p \<Longrightarrow> Q (Ok ()) c \<Longrightarrow> wp view A (RTK_CHK_PORT_VALID p) Q c"
  by (rule wp_pure [where r = "Ok ()"]) (auto simp: chk_port_run [OF sw_ready_rel])

lemma wp_port_L2P [wp_rules]:
  "sw_ready c h \<Longrightarrow> unat p < 32 \<Longrightarrow> Q (Ok (phy_of h p)) c \<Longrightarrow>
   wp view A (rtk_switch_port_L2P_get p) Q c"
  by (rule wp_pure) (auto intro: port_L2P_run sw_ready_rel)

lemma wp_chk_portmask [wp_rules]:
  "sw_ready c h \<Longrightarrow> valid_mask h m \<Longrightarrow> Q (Ok ()) c \<Longrightarrow> wp view A (RTK_CHK_PORTMASK_VALID (Some m)) Q c"
  by (rule wp_pure [where r = "Ok ()"])
     (auto simp: RTK_CHK_PORTMASK_VALID_def mapErrE_def isPortMaskValid_run [OF sw_ready_rel])

lemma maxMeterId_run [switch_run]: "ready s h \<Longrightarrow> rtk_switch_maxMeterId_get s = (Ok (max_meter_id h), s)"
  by (simp add: rtk_switch_maxMeterId_get_def drv_simps halE_def ready_def)

lemma phyPortMask_run [switch_run]: "ready s h \<Longrightarrow> rtk_switch_phyPortMask_get s = (Ok (phy_portmask h), s)"
  by (simp add: rtk_switch_phyPortMask_get_def drv_simps halE_def ready_def)

lemma wp_maxMeterId [wp_rules]:
  "sw_ready c h \<Longrightarrow> Q (Ok (max_meter_id h)) c \<Longrightarrow> wp view A rtk_switch_maxMeterId_get Q c"
  by (rule wp_pure) (auto intro: maxMeterId_run sw_ready_rel)

lemma wp_phyPortMask [wp_rules]:
  "sw_ready c h \<Longrightarrow> Q (Ok (phy_portmask h)) c \<Longrightarrow> wp view A rtk_switch_phyPortMask_get Q c"
  by (rule wp_pure) (auto intro: phyPortMask_run sw_ready_rel)

lemma wp_portmask_L2P [wp_rules]:
  "sw_ready c h \<Longrightarrow> valid_mask h m \<Longrightarrow> Q (Ok (l2p_mask h m)) c \<Longrightarrow>
   wp view A (rtk_switch_portmask_L2P_get (Some m) PTR) Q c"
  by (rule wp_pure [where r = "Ok (l2p_mask h m)"]) (auto simp: portmask_L2P_run [OF sw_ready_rel])

lemma wp_portmask_P2L [wp_rules]:
  "sw_ready c h \<Longrightarrow> Q (Ok (p2l_mask h m)) c \<Longrightarrow> wp view A (rtk_switch_portmask_P2L_get m PTR) Q c"
  by (rule wp_pure) (auto intro: portmask_P2L_run sw_ready_rel)

lemma valid_port_less: "valid_port h p \<Longrightarrow> unat p < 32"
  by (simp add: valid_port_def)

lemma phy_of_le: "hal_wf h \<Longrightarrow> valid_port h p \<Longrightarrow> phy_of h p \<le> 10"
  using port_map.phy_bound [of h "unat p"] port_map.logical(1) [of h "unat p"]
  by (auto simp: port_map_def valid_port_def phy_of_def word_le_nat_alt)

lemma phy_of_inj:
  assumes "hal_wf h" and "valid_port h p" and "valid_port h q" and "phy_of h p = phy_of h q"
  shows "p = q"
proof -
  have pm: "port_map h" by (rule port_map.intro) (rule assms(1))
  have "unat p = unat q"
    by (rule port_map.l2p_inj [OF pm])
       (use assms port_map.logical(1) [OF pm] in \<open>auto simp: valid_port_def phy_of_def\<close>)
  then show ?thesis by (simp add: word_unat_eq_iff)
qed

section \<open>Freedom from undefined behaviour\<close>

text \<open>
  The invariant behind it: once the initialisation state says completed, a well-formed port table
  is installed, and the bookkeeping arrays have their declared sizes.
\<close>

definition gsw_inv :: "'d gsw \<Rightarrow> bool" where
  "gsw_inv s \<longleftrightarrow>
     (init_state s = INIT_COMPLETED \<longrightarrow> (\<exists>h. halCtrl s = Some h \<and> hal_wf h)) \<and>
     length (vlan_mbrCfgVid s) = 32 \<and> length (vlan_mbrCfgUsage s) = 32 \<and>
     length (svlan_mbrCfgUsage s) = 64 \<and> length (svlan_mbrCfgVid s) = 64"

definition gsw_up :: "'d gsw \<Rightarrow> bool" where
  "gsw_up s \<longleftrightarrow> gsw_inv s \<and> init_state s = INIT_COMPLETED"

lemma gsw_inv_dev: "dev_closed gsw_inv" and gsw_up_dev: "dev_closed gsw_up"
  by (simp_all add: dev_closed_def gsw_inv_def gsw_up_def)

lemma gsw_up_ready: "gsw_up s \<Longrightarrow> \<exists>h. ready s h"
  by (auto simp: gsw_up_def gsw_inv_def ready_def)

lemma safe_pure:
  assumes "\<And>s. P s \<Longrightarrow> \<exists>r. m s = (r, s) \<and> r \<noteq> Fault \<and> (\<forall>x. r = Ok x \<longrightarrow> Q x)"
  shows "safe P m Q"
  unfolding safe_def using assms by fastforce

lemma safe_ready:
  assumes "\<And>s h. ready s h \<Longrightarrow> \<exists>r. m s = (r, s) \<and> r \<noteq> Fault \<and> (\<forall>x. r = Ok x \<longrightarrow> Q x)"
  shows "safe gsw_up m Q"
  by (rule safe_pure) (use assms gsw_up_ready in blast)

lemma safe_init_checked [safe_rules]:
  assumes "safe gsw_up k Q"
  shows "safe gsw_inv (thenE RTK_CHK_INIT_STATE k) Q"
proof (rule safeI)
  fix s r s'
  assume inv: "gsw_inv s" and run: "thenE RTK_CHK_INIT_STATE k s = (r, s')"
  show "gsw_inv s' \<and> r \<noteq> Fault \<and> (\<forall>x. r = Ok x \<longrightarrow> Q x)"
  proof (cases "init_state s = INIT_COMPLETED")
    case True
    with inv have up: "gsw_up s" by (simp add: gsw_up_def)
    from run True have "k s = (r, s')"
      by (simp add: RTK_CHK_INIT_STATE_def rtk_switch_initialState_get_def drv_simps)
    from safeD [OF assms up this] show ?thesis by (simp add: gsw_up_def)
  next
    case False
    with run inv show ?thesis
      by (auto simp: RTK_CHK_INIT_STATE_def rtk_switch_initialState_get_def drv_simps)
  qed
qed

lemma safe_halE [safe_rules]: "safe gsw_up halE (\<lambda>_. True)"
  by (rule safe_ready) (auto simp: halE_run ready_def)

lemma safe_chk_port [safe_rules]: "safe gsw_up (RTK_CHK_PORT_VALID p) (\<lambda>_. True)"
  by (rule safe_ready) (auto simp: chk_port_run)

lemma safe_port_check: "safe gsw_up (rtk_switch_logicalPortCheck p) (\<lambda>_. True)"
  by (rule safe_ready)
     (auto simp: rtk_switch_logicalPortCheck_def port_guard_def drv_simps halE_def ready_def
       hal_wf_lengths)

lemma safe_port_L2P [safe_rules]: "safe gsw_up (rtk_switch_port_L2P_get p) (\<lambda>_. True)"
  by (rule safe_ready)
     (auto simp: rtk_switch_port_L2P_get_def drv_simps halE_def ready_def hal_wf_lengths)

lemma safe_port_P2L [safe_rules]: "safe gsw_up (rtk_switch_port_P2L_get p) (\<lambda>_. True)"
  by (rule safe_ready)
     (auto simp: rtk_switch_port_P2L_get_def drv_simps halE_def ready_def hal_wf_lengths)

lemma safe_maxMeterId [safe_rules]: "safe gsw_up rtk_switch_maxMeterId_get (\<lambda>_. True)"
  by (rule safe_ready) (auto simp: maxMeterId_run)

lemma safe_phyPortMask [safe_rules]: "safe gsw_up rtk_switch_phyPortMask_get (\<lambda>_. True)"
  by (rule safe_ready) (auto simp: phyPortMask_run)

lemma safe_chk_portmask [safe_rules]: "safe gsw_up (RTK_CHK_PORTMASK_VALID m) (\<lambda>_. True)"
  by (rule safe_ready, cases m)
     (auto simp: RTK_CHK_PORTMASK_VALID_def rtk_switch_isPortMaskValid_def mask_within_def
       drv_simps halE_def ready_def)

lemma safe_portmask_L2P [safe_rules]:
  "safe gsw_up (rtk_switch_portmask_L2P_get m q) (\<lambda>_. True)"
proof (rule safe_ready)
  fix s :: "'a gsw" and h assume r: "ready s h"
  show "\<exists>r. rtk_switch_portmask_L2P_get m q s = (r, s) \<and> r \<noteq> Fault \<and> (\<forall>x. r = Ok x \<longrightarrow> True)"
  proof (cases m)
    case None
    with r show ?thesis by (simp add: rtk_switch_portmask_L2P_get_def bindE_def init_run errE_def)
  next
    case (Some pm)
    then show ?thesis
      using portmask_L2P_run [OF r, of pm] r
      by (cases q) (simp_all add: rtk_switch_portmask_L2P_get_def [of _ NULLP] bindE_def init_run errE_def)
  qed
qed

lemma safe_portmask_P2L [safe_rules]: "safe gsw_up (rtk_switch_portmask_P2L_get m PTR) (\<lambda>_. True)"
  by (rule safe_ready) (auto simp: portmask_P2L_run)

text \<open>Probing installs one of the four tables, so completing the initialisation keeps the invariant.\<close>

lemma hal_tables_wf [simp]:
  "hal_wf rtl8367c_hal_Ctrl" "hal_wf rtl8370b_hal_Ctrl"
  "hal_wf rtl8364b_hal_Ctrl" "hal_wf rtl8363sc_vb_hal_Ctrl"
  by (rule hal8367c.wf hal8370b.wf hal8364b.wf hal8363sc_vb.wf)+

lemma safe_set_halCtrl: "hal_wf h \<Longrightarrow> safe gsw_inv (set_halCtrl chip h) (\<lambda>_. True)"
  by (auto simp: set_halCtrl_def gsw_inv_def intro!: safe_rules safe_modifyE)

lemma safe_probe: "safe gsw_inv rtk_switch_probe (\<lambda>_. True)"
  unfolding rtk_switch_probe_def
  by (intro safe_rules safe_asic [OF gsw_inv_dev] safe_set_halCtrl) simp_all

text \<open>The identifier and the version the chip shows after it has been unlocked, and the device after the probe
  has locked it again.\<close>

definition probed_id :: "'d gsw \<Rightarrow> u32" where
  "probed_id s = fst (mdio_rd (gsw_bus s) 0x1300 (mdio_wr (gsw_bus s) 0x13C2 0x0249 (gsw_dev s)))"

definition id_read :: "'d gsw \<Rightarrow> 'd" where
  "id_read s = snd (mdio_rd (gsw_bus s) 0x1300 (mdio_wr (gsw_bus s) 0x13C2 0x0249 (gsw_dev s)))"

definition probed_version :: "'d gsw \<Rightarrow> u32" where
  "probed_version s = fst (mdio_rd (gsw_bus s) 0x1301 (id_read s))"

definition relocked :: "'d gsw \<Rightarrow> 'd" where
  "relocked s = mdio_wr (gsw_bus s) 0x13C2 0 (snd (mdio_rd (gsw_bus s) 0x1301 (id_read s)))"

text \<open>The chips by identifier and version, and the ports of each chip: logical number and
  physical number.  Logical numbers from 16 on are the external ports.\<close>

definition chip_of :: "u32 \<Rightarrow> u32 \<Rightarrow> switch_chip_t option" where
  "chip_of i v =
     (let sc = (if v AND 0xF0 = 0x80 then CHIP_RTL8363SC_VB else CHIP_RTL8364B)
      in map_of [(0x0276, CHIP_RTL8367C), (0x0597, CHIP_RTL8367C), (0x6367, CHIP_RTL8367C),
           (0x0652, CHIP_RTL8370B), (0x6368, CHIP_RTL8370B), (0x0801, sc), (0x6511, sc)] i)"

fun chip_ports :: "switch_chip_t \<Rightarrow> (u32 \<times> u32) list" where
  "chip_ports CHIP_RTL8367C = [(0, 0), (1, 1), (2, 2), (3, 3), (4, 4), (16, 6), (17, 7)]"
| "chip_ports CHIP_RTL8370B = [(0, 0), (1, 1), (2, 2), (3, 3), (4, 4), (5, 5), (6, 6), (7, 7), (16, 8), (17, 9), (18, 10)]"
| "chip_ports CHIP_RTL8364B = [(1, 1), (3, 3), (16, 6), (17, 7)]"
| "chip_ports CHIP_RTL8363SC_VB = [(2, 1), (3, 3), (16, 6), (17, 7)]"

text \<open>What the port functions of an initialised driver answer when its chip has the given ports.\<close>

definition answers_ports :: "(u32 \<times> u32) list \<Rightarrow> 'd gsw \<Rightarrow> rtk_port_t \<Rightarrow> bool" where
  "answers_ports ports t p \<longleftrightarrow>
     fst (rtk_switch_logicalPortCheck p t) = (if p \<in> fst ` set ports then Ok () else Err RT_ERR_FAILED) \<and>
     fst (rtk_switch_isUtpPort p t) = (if p \<in> fst ` set ports \<and> p < 16 then Ok () else Err RT_ERR_FAILED) \<and>
     fst (rtk_switch_isExtPort p t) = (if p \<in> fst ` set ports \<and> 16 \<le> p then Ok () else Err RT_ERR_FAILED) \<and>
     fst (rtk_switch_port_L2P_get p t) = Ok (case map_of ports p of Some q \<Rightarrow> q | None \<Rightarrow> UNDEFINE_PHY_PORT) \<and>
     fst (rtk_switch_port_P2L_get p t) = Ok (case map_of (map prod.swap ports) p of Some q \<Rightarrow> q | None \<Rightarrow> UNDEFINE_PORT)"

text \<open>The same facts about a port table, for a number below 32.\<close>

definition table_ports :: "(u32 \<times> u32) list \<Rightarrow> rtk_switch_halCtrl_t \<Rightarrow> u32 \<Rightarrow> bool" where
  "table_ports ports h p \<longleftrightarrow>
     l2p_port h ! unat p = (case map_of ports p of Some q \<Rightarrow> q | None \<Rightarrow> 0xFF) \<and>
     (p \<in> fst ` set ports \<longleftrightarrow> l2p_port h ! unat p \<noteq> 0xFF) \<and>
     log_port_type h ! unat p = (if p \<notin> fst ` set ports then UNKNOWN_PORT else if p < 16 then UTP_PORT else EXT_PORT) \<and>
     p2l_port h ! unat p = (case map_of (map prod.swap ports) p of Some q \<Rightarrow> q | None \<Rightarrow> UNDEFINE_PORT)"

lemma answers_table_ports:
  assumes "hal_wf h" and "init_state t = INIT_COMPLETED" and "halCtrl t = Some h"
    and "list_all (\<lambda>n. table_ports ports h (of_nat n)) [0..<32]" and "list_all (\<lambda>x. fst x < 32 \<and> snd x < 32) ports"
  shows "answers_ports ports t p"
proof (cases "unat p < 32")
  case True
  from words_below [where P = "table_ports ports h", OF assms(4) True] have "table_ports ports h p" .
  with True assms(1-3) show ?thesis
    by (auto simp: table_ports_def answers_ports_def rtk_switch_logicalPortCheck_def rtk_switch_isUtpPort_def rtk_switch_isExtPort_def
        rtk_switch_port_L2P_get_def rtk_switch_port_P2L_get_def port_guard_def ok_or_failed_def drv_simps halE_def hal_wf_lengths)
next
  case False
  then have p: "\<not> p < 32" by (simp add: word_less_nat_alt)
  have "p \<notin> fst ` set ports" "p \<notin> snd ` set ports" using assms(5) p by (force simp: list_all_iff)+
  then have "map_of ports p = None" "map_of (map prod.swap ports) p = None" "p \<notin> fst ` set ports"
    by (auto simp: map_of_eq_None_iff image_comp)
  with False assms(2) show ?thesis
    by (simp add: answers_ports_def rtk_switch_logicalPortCheck_def rtk_switch_isUtpPort_def rtk_switch_isExtPort_def
        rtk_switch_port_L2P_get_def rtk_switch_port_P2L_get_def port_guard_def drv_simps)
qed

text \<open>The tables of the four chips.\<close>

lemma chip_tables:
  "hal_wf rtl8367c_hal_Ctrl" "hal_wf rtl8370b_hal_Ctrl" "hal_wf rtl8364b_hal_Ctrl" "hal_wf rtl8363sc_vb_hal_Ctrl"
  "list_all (\<lambda>n. table_ports (chip_ports CHIP_RTL8367C) rtl8367c_hal_Ctrl (of_nat n)) [0..<32]"
  "list_all (\<lambda>n. table_ports (chip_ports CHIP_RTL8370B) rtl8370b_hal_Ctrl (of_nat n)) [0..<32]"
  "list_all (\<lambda>n. table_ports (chip_ports CHIP_RTL8364B) rtl8364b_hal_Ctrl (of_nat n)) [0..<32]"
  "list_all (\<lambda>n. table_ports (chip_ports CHIP_RTL8363SC_VB) rtl8363sc_vb_hal_Ctrl (of_nat n)) [0..<32]"
  "list_all (\<lambda>x. fst x < 32 \<and> snd x < 32) (chip_ports CHIP_RTL8367C)" "list_all (\<lambda>x. fst x < 32 \<and> snd x < 32) (chip_ports CHIP_RTL8370B)"
  "list_all (\<lambda>x. fst x < 32 \<and> snd x < 32) (chip_ports CHIP_RTL8364B)" "list_all (\<lambda>x. fst x < 32 \<and> snd x < 32) (chip_ports CHIP_RTL8363SC_VB)"
  by code_simp+

lemma chip_types:
  "switch_type rtl8367c_hal_Ctrl = CHIP_RTL8367C" "switch_type rtl8370b_hal_Ctrl = CHIP_RTL8370B"
  "switch_type rtl8364b_hal_Ctrl = CHIP_RTL8364B" "switch_type rtl8363sc_vb_hal_Ctrl = CHIP_RTL8363SC_VB"
  by (simp_all add: rtl8367c_hal_Ctrl_def rtl8370b_hal_Ctrl_def rtl8364b_hal_Ctrl_def rtl8363sc_vb_hal_Ctrl_def)

lemma installs_table:
  assumes "hal_wf h" and "switch_type h = chip"
    and "list_all (\<lambda>n. table_ports (chip_ports chip) h (of_nat n)) [0..<32]"
    and "list_all (\<lambda>x. fst x < 32 \<and> snd x < 32) (chip_ports chip)"
  shows "\<exists>h'. set_halCtrl chip h s = (Ok chip, s\<lparr>halCtrl := Some h'\<rparr>) \<and> hal_wf h' \<and> switch_type h' = chip \<and>
       (\<forall>p. answers_ports (chip_ports chip) (s\<lparr>halCtrl := Some h', init_state := INIT_COMPLETED\<rparr>) p)"
  by (intro exI [of _ h] conjI allI; (rule answers_table_ports [OF assms(1) _ _ assms(3,4)])?;
      use assms(1,2) in \<open>simp add: set_halCtrl_def drv_simps\<close>)

lemmas installs_chip =
  installs_table [OF chip_tables(1) chip_types(1) chip_tables(5,9)] installs_table [OF chip_tables(2) chip_types(2) chip_tables(6,10)]
  installs_table [OF chip_tables(3) chip_types(3) chip_tables(7,11)] installs_table [OF chip_tables(4) chip_types(4) chip_tables(8,12)]

lemma probe_run:
  "rtk_switch_probe s =
      (let i = probed_id s; s4 = s\<lparr>gsw_dev := relocked s\<rparr> in
       if i = 0x0276 \<or> i = 0x0597 \<or> i = 0x6367 then set_halCtrl CHIP_RTL8367C rtl8367c_hal_Ctrl s4
       else if i = 0x0652 \<or> i = 0x6368 then set_halCtrl CHIP_RTL8370B rtl8370b_hal_Ctrl s4
       else if i = 0x0801 \<or> i = 0x6511
       then (if probed_version s AND 0x00F0 = 0x0080 then set_halCtrl CHIP_RTL8363SC_VB rtl8363sc_vb_hal_Ctrl s4
             else set_halCtrl CHIP_RTL8364B rtl8364b_hal_Ctrl s4)
       else errE RT_ERR_FAILED s4)"
  by (simp add: rtk_switch_probe_def rtl8367c_setAsicReg_def rtl8367c_getAsicReg_def smi_read_run
      smi_write_run mapErrE_def bindE_def thenE_def Let_def probed_id_def probed_version_def id_read_def relocked_def)

section \<open>Properties\<close>

text \<open>
  C13. On an initialised driver with the port table of any supported chip, translating a logical
  port mask to physical ports and back returns exactly the mask; a mask with a port the chip does
  not have is refused with \<open>RT_ERR_PORT_MASK\<close>, before any translation.  The driver state does
  not change.
\<close>

theorem portmask_round_trip:
  assumes "init_state s = INIT_COMPLETED" and "halCtrl s = Some h"
    and "h \<in> {rtl8367c_hal_Ctrl, rtl8370b_hal_Ctrl, rtl8364b_hal_Ctrl, rtl8363sc_vb_hal_Ctrl}"
  shows "bindE (rtk_switch_portmask_L2P_get (Some m) PTR)
           (\<lambda>phy. rtk_switch_portmask_P2L_get phy PTR) s =
         (if m OR valid_portmask h = valid_portmask h then (Ok m, s) else (Err RT_ERR_PORT_MASK, s))"
proof -
  have r: "ready s h" using assms by (auto simp: ready_def)
  show ?thesis
    using port_map.p2l_l2p [OF ready_port_map [OF r], of m]
    by (simp add: bindE_def portmask_L2P_run [OF r] portmask_P2L_run [OF r] valid_mask_def)
qed

theorem portmask_round_trip_witness:
  "bindE (rtk_switch_portmask_L2P_get (Some 0x10003) PTR)
     (\<lambda>phy. rtk_switch_portmask_P2L_get phy PTR) (sim_gsw 1 (Some rtl8367c_hal_Ctrl)) =
   (Ok 0x10003, sim_gsw 1 (Some rtl8367c_hal_Ctrl))"
proof -
  have "(0x10003 :: u32) OR valid_portmask rtl8367c_hal_Ctrl = valid_portmask rtl8367c_hal_Ctrl"
    by code_simp
  then show ?thesis
    using portmask_round_trip [of "sim_gsw 1 (Some rtl8367c_hal_Ctrl)" rtl8367c_hal_Ctrl "0x10003"]
    by simp
qed

text \<open>
  C17. Probing identifies the chip: the identifier in register \<open>0x1300\<close> and, for the two identifiers shared by
  RTL8364B and RTL8363SC-VB, the version in register \<open>0x1301\<close> select the chip.  For a known chip the call
  returns it and installs a well-formed port table of that chip, with which, once the driver is marked as
  initialised, exactly the ports of the chip are valid, each of them is a UTP or an external port by its
  number, and the translation between logical and physical port numbers is the one of the chip; for
  any other identifier it returns \<open>RT_ERR_FAILED\<close> and leaves the port table as it was.  It
  never runs into undefined behaviour and changes nothing else but the device, which it locks again.
\<close>

theorem probe_sound:
  "case chip_of (probed_id s) (probed_version s) of
     None \<Rightarrow> rtk_switch_probe s = (Err RT_ERR_FAILED, s\<lparr>gsw_dev := relocked s\<rparr>)
   | Some chip \<Rightarrow> \<exists>h. rtk_switch_probe s = (Ok chip, s\<lparr>gsw_dev := relocked s, halCtrl := Some h\<rparr>) \<and>
       hal_wf h \<and> switch_type h = chip \<and>
       (\<forall>p. answers_ports (chip_ports chip) (s\<lparr>gsw_dev := relocked s, halCtrl := Some h, init_state := INIT_COMPLETED\<rparr>) p)"
proof -
  let ?s = "s\<lparr>gsw_dev := relocked s\<rparr>" and ?sc = "probed_version s AND 0xF0 = 0x80"
  note install = installs_chip [where s = ?s]
  consider (c) "probed_id s \<in> {0x0276, 0x0597, 0x6367}" | (b) "probed_id s \<in> {0x0652, 0x6368}"
    | (sc) "probed_id s \<in> {0x0801, 0x6511}" ?sc | (s4) "probed_id s \<in> {0x0801, 0x6511}" "\<not> ?sc"
    | (none) "probed_id s \<notin> {0x0276, 0x0597, 0x6367, 0x0652, 0x6368, 0x0801, 0x6511}" by blast
  then show ?thesis
  proof cases
    case c
    then have "chip_of (probed_id s) (probed_version s) = Some CHIP_RTL8367C"
      "rtk_switch_probe s = set_halCtrl CHIP_RTL8367C rtl8367c_hal_Ctrl ?s" by (auto simp: chip_of_def probe_run)
    with install(1) show ?thesis by (simp del: chip_ports.simps)
  next
    case b
    then have "chip_of (probed_id s) (probed_version s) = Some CHIP_RTL8370B"
      "rtk_switch_probe s = set_halCtrl CHIP_RTL8370B rtl8370b_hal_Ctrl ?s" by (auto simp: chip_of_def probe_run)
    with install(2) show ?thesis by (simp del: chip_ports.simps)
  next
    case sc
    then have "chip_of (probed_id s) (probed_version s) = Some CHIP_RTL8363SC_VB"
      "rtk_switch_probe s = set_halCtrl CHIP_RTL8363SC_VB rtl8363sc_vb_hal_Ctrl ?s" by (auto simp: chip_of_def probe_run)
    with install(4) show ?thesis by (simp del: chip_ports.simps)
  next
    case s4
    then have "chip_of (probed_id s) (probed_version s) = Some CHIP_RTL8364B"
      "rtk_switch_probe s = set_halCtrl CHIP_RTL8364B rtl8364b_hal_Ctrl ?s" by (auto simp: chip_of_def probe_run)
    with install(3) show ?thesis by (simp del: chip_ports.simps)
  next
    case none
    then have "chip_of (probed_id s) (probed_version s) = None" "rtk_switch_probe s = (Err RT_ERR_FAILED, ?s)"
      by (auto simp: chip_of_def probe_run errE_def)
    then show ?thesis by simp
  qed
qed

text \<open>A device that shows the identifier and the version of an RTL8363SC-VB: logical port 2 is physical port 1.\<close>

theorem probe_sound_witness:
  "\<exists>t h. rtk_switch_probe ((sim_gsw 0 None)\<lparr>gsw_dev := sim_dev0\<lparr>sim_view := sim_view0\<lparr>v_reg := (\<lambda>_. 0)(0x1300 := 0x6511, 0x1301 := 0x1080)\<rparr>\<rparr>\<rparr>) =
       (Ok CHIP_RTL8363SC_VB, t) \<and> halCtrl t = Some h \<and>
     fst (rtk_switch_port_L2P_get 2 (t\<lparr>init_state := INIT_COMPLETED\<rparr>)) = Ok 1"
proof -
  let ?s = "(sim_gsw 0 None)\<lparr>gsw_dev := sim_dev0\<lparr>sim_view := sim_view0\<lparr>v_reg := (\<lambda>_. 0)(0x1300 := 0x6511, 0x1301 := 0x1080)\<rparr>\<rparr>\<rparr>"
  have "probed_id ?s = 0x6511" "probed_version ?s = 0x1080" by code_simp+
  then have "chip_of (probed_id ?s) (probed_version ?s) = Some CHIP_RTL8363SC_VB" by (simp add: chip_of_def)
  with probe_sound [of ?s] obtain h where
    "rtk_switch_probe ?s = (Ok CHIP_RTL8363SC_VB, ?s\<lparr>gsw_dev := relocked ?s, halCtrl := Some h\<rparr>)"
    "answers_ports (chip_ports CHIP_RTL8363SC_VB) (?s\<lparr>gsw_dev := relocked ?s, halCtrl := Some h, init_state := INIT_COMPLETED\<rparr>) 2"
    by auto
  then show ?thesis by (auto simp: answers_ports_def)
qed

end
