(* ===== verification/Port_Field.thy ===== *)
theory Port_Field
  imports Switch
begin

text \<open>
  Settings that are bit fields of configuration registers.  \<open>cfg_regs\<close> are the registers of the
  modelled units that the chip only stores; the self-clearing, status and command registers are not
  among them.  Most settings are one field per port, several ports sharing a register.
  \<open>port_field\<close> is the contract of such a setting, and \<open>port_bits\<close> and \<open>port_flag\<close> are the two
  ways in which the code provides it.
\<close>

section \<open>Configuration registers\<close>

text \<open>
  By unit: scheduling and rates (\<open>0x300\<close> to \<open>0x3CF\<close>, \<open>0x1214\<close>, \<open>0x1400\<close> to \<open>0x17B5\<close> without the
  indicators), VLAN (\<open>0x700\<close> to \<open>0x7B9\<close>, \<open>0x851\<close>, \<open>0x8D6\<close>, \<open>0x9D0\<close>, \<open>0xA00\<close>), priority remapping,
  packet lengths and flooding (\<open>0x87F\<close> to \<open>0x892\<close>), trunking and port isolation (\<open>0x8A0\<close>, \<open>0x8CE\<close>, \<open>0xA32\<close>),
  mirroring (\<open>0x9C1\<close>, \<open>0x9DA\<close>, \<open>0x121C\<close>, \<open>0x12FB\<close>), service VLANs (\<open>0xB00\<close> to \<open>0xFFF\<close>, \<open>0x1202\<close>,
  \<open>0x1218\<close>), CPU tag (\<open>0x1219\<close>, \<open>0x121A\<close>) and the miscellaneous and ingress-bandwidth registers of each port.
\<close>

definition cfg_ranges :: "(u32 \<times> u32) list" where
  "cfg_ranges = [(0x300, 0x3CF), (0x700, 0x7B5), (0x7B7, 0x7B9), (0x851, 0x864), (0x87F, 0x892),
     (0x8A0, 0x8AC), (0x8CE, 0x8DE), (0x93A, 0x93E), (0x9C1, 0x9C1), (0x9D0, 0x9DA), (0xA00, 0xA1F),
     (0xA32, 0xA34), (0xB00, 0xB9F), (0xC01, 0xE8E), (0xF00, 0xFFF), (0x1202, 0x1202),
     (0x1214, 0x1214), (0x1218, 0x121C), (0x12FB, 0x12FB), (0x1400, 0x1441), (0x1600, 0x161F),
     (0x1712, 0x1713), (0x1740, 0x1781), (0x1790, 0x17AF), (0x17B4, 0x17B5)]"

definition cfg_reg :: "u32 \<Rightarrow> bool" where
  "cfg_reg a \<longleftrightarrow> list_ex (\<lambda>(lo, hi). lo \<le> a \<and> a \<le> hi) cfg_ranges \<or> (a \<le> 0x150 \<and> 0xE \<le> a AND 0x1F \<and> a AND 0x1F \<le> 0x10)"

lemmas cfg_reg_defs = cfg_reg_def cfg_ranges_def

lemma cfg_range: "(lo, hi) \<in> set cfg_ranges \<Longrightarrow> lo \<le> a \<Longrightarrow> a \<le> hi \<Longrightarrow> cfg_reg a"
  by (auto simp: cfg_reg_def list_ex_iff)

definition cfg_regs :: "u32 set" where
  "cfg_regs = {a. cfg_reg a}"

section \<open>Port fields\<close>

text \<open>
  \<open>port_field\<close> says where the field of a port is, that the accessors update and read exactly that
  field, and that the fields of different ports do not overlap.  From it follow that a setting
  reads back and that no port disturbs another.
\<close>

definition all_port_ids :: "u32 list" where
  "all_port_ids = [0, 1, 2, 3, 4, 5, 6, 7, 8, 9, 10]"

text \<open>The layout of a field: its registers are in the unit, it fits and the ports are apart.\<close>

definition field_layout :: "(u32 \<Rightarrow> u32) \<Rightarrow> (u32 \<Rightarrow> nat) \<Rightarrow> nat \<Rightarrow> bool" where
  "field_layout reg off width \<longleftrightarrow> 0 < width \<and>
     list_all (\<lambda>p. cfg_reg (reg p) \<and> off p + width \<le> 16 \<and>
       list_all (\<lambda>q. p = q \<or> reg p \<noteq> reg q \<or> off p + width \<le> off q \<or> off q + width \<le> off p)
         all_port_ids) all_port_ids"

definition field_mask :: "nat \<Rightarrow> nat \<Rightarrow> u32" where
  "field_mask off width = push_bit off (mask width)"

lemma field_mask_disjoint:
  assumes "o1 + w1 \<le> o2 \<or> o2 + w2 \<le> o1"
  shows "field_mask o1 w1 AND field_mask o2 w2 = 0"
  using assms by (intro bit_word_eqI) (auto simp: field_mask_def bit_simps)

lemma le_10_cases:
  assumes "(p :: u32) \<le> 10"
  shows "p \<in> {0, 1, 2, 3, 4, 5, 6, 7, 8, 9, 10}"
proof -
  have "unat p \<le> 10" using assms by (simp add: word_le_nat_alt)
  then have "unat p \<in> {0, 1, 2, 3, 4, 5, 6, 7, 8, 9, 10}" unfolding insert_iff empty_iff by presburger
  then show ?thesis by (auto simp: word_unat_eq_iff)
qed

lemma port_ids: "p \<le> 10 \<Longrightarrow> p \<in> set all_port_ids"
  using le_10_cases [of p] by (simp add: all_port_ids_def)

lemma all_ports: "list_all P all_port_ids \<Longrightarrow> p \<le> 10 \<Longrightarrow> P p"
  using port_ids by (auto simp: list_all_iff)

lemma field_layoutD:
  assumes "field_layout reg off width" and "p \<le> 10"
  shows "reg p \<in> cfg_regs" and "0 < width" and "off p + width \<le> 16"
    and "q \<le> 10 \<Longrightarrow> p \<noteq> q \<Longrightarrow> reg p \<noteq> reg q \<or> off p + width \<le> off q \<or> off q + width \<le> off p"
  using assms port_ids [of p] port_ids [of q]
  by (auto simp: field_layout_def cfg_regs_def list_all_iff)

definition put_reg_field :: "u32 \<Rightarrow> u32 \<Rightarrow> u32 \<Rightarrow> swt \<Rightarrow> swt" where
  "put_reg_field a m v c = c\<lparr>sw_reg := (sw_reg c)(a := put_field m v (sw_reg c a))\<rparr>"

locale port_field =
  fixes reg :: "u32 \<Rightarrow> u32" and off :: "u32 \<Rightarrow> nat" and width :: nat and vmax :: u32
    and set_f :: "u32 \<Rightarrow> u32 \<Rightarrow> ('d gsw, unit) drv" and get_f :: "u32 \<Rightarrow> ('d gsw, u32) drv"
  assumes layout: "field_layout reg off width"
    and vmax: "vmax \<le> mask width"
    and wp_set: "p \<le> 10 \<Longrightarrow> v \<le> vmax \<Longrightarrow> cfg_regs \<subseteq> A \<Longrightarrow>
      Q (Ok ()) (put_reg_field (reg p) (field_mask (off p) width) v c) \<Longrightarrow> wp view A (set_f p v) Q c"
    and wp_get: "p \<le> 10 \<Longrightarrow> cfg_regs \<subseteq> A \<Longrightarrow>
      Q' (Ok (get_field (field_mask (off p) width) (sw_reg c (reg p)))) c \<Longrightarrow> wp view A (get_f p) Q' c"
begin

lemma field_ok:
  assumes "p \<le> 10"
  shows "mask16 (field_mask (off p) width)"
    and "v \<le> vmax \<Longrightarrow> fits (field_mask (off p) width) v"
  using mask16_mask [OF field_layoutD(2,3) [OF layout assms]]
    fits_mask [OF field_layoutD(2,3) [OF layout assms]] vmax
  by (auto simp: field_mask_def)

lemma field_put:
  assumes "p \<le> 10" and "q \<le> 10" and "v \<le> vmax"
  shows "get_field (field_mask (off q) width)
      (sw_reg (put_reg_field (reg p) (field_mask (off p) width) v c) (reg q)) =
    (if p = q then v else get_field (field_mask (off q) width) (sw_reg c (reg q)))"
proof (cases "p = q")
  case True
  then show ?thesis
    using get_put_field [OF field_ok(1) field_ok(2)] assms by (simp add: put_reg_field_def)
next
  case False
  then show ?thesis
    using field_layoutD(4) [OF layout assms(1,2)]
      get_put_field_disjoint [OF field_ok(1) [OF assms(1)] field_mask_disjoint]
    by (auto simp: put_reg_field_def)
qed

lemma round_trip:
  assumes "p \<le> 10" and "v \<le> vmax" and "cfg_regs \<subseteq> A"
  shows "wp view A (thenE (set_f p v) (get_f p)) (\<lambda>r _. r = Ok v) c"
  using assms by (auto intro!: wp_thenE wp_set wp_get simp: field_put)

lemma other_port:
  assumes "p \<le> 10" and "q \<le> 10" and "p \<noteq> q" and "v \<le> vmax" and "cfg_regs \<subseteq> A"
  shows "wp view A (thenE (set_f p v) (get_f q))
    (\<lambda>r _. r = Ok (get_field (field_mask (off q) width) (sw_reg c (reg q)))) c"
  using assms by (auto intro!: wp_thenE wp_set wp_get simp: field_put)

end

text \<open>The accessors in terms of the field update.\<close>

lemma cfg_not_table:
  assumes "a \<in> cfg_regs"
  shows "a \<notin> table_regs"
proof -
  have "a \<le> 0x3CF \<or> 0x700 \<le> a"
    using assms by (auto simp: cfg_regs_def cfg_reg_defs word_le_nat_alt)
  moreover have "0x500 \<le> a \<and> a \<le> 0x519" if "a \<in> table_regs"
    using that by (auto simp: table_regs_def word_le_nat_alt unat_word_ariths unat_of_nat)
  ultimately show ?thesis by (auto simp: word_le_nat_alt)
qed

lemma cfg_not_ctrl: "a \<in> cfg_regs \<Longrightarrow> a \<noteq> RTL8367C_TABLE_ACCESS_CTRL_REG"
  using cfg_not_table by force

lemma wp_set_field:
  assumes "a \<in> cfg_regs" and "cfg_regs \<subseteq> A" and "0 < w" and "k + w \<le> 16" and "v \<le> mask w"
    and "Q (Ok ()) (put_reg_field a (field_mask k w) v c)"
  shows "wp view A (rtl8367c_setAsicRegBits a (field_mask k w) v) Q c"
  using assms mask16_mask [OF assms(3,4)] fits_mask [OF assms(3-5)] cfg_not_ctrl [OF assms(1)]
  by (intro wp_setAsicRegBits) (auto simp: field_mask_def put_reg_field_def dest: fits_shift_bound)

lemma wp_get_field:
  assumes "a \<in> cfg_regs" and "cfg_regs \<subseteq> A" and "0 < w" and "k + w \<le> 16"
    and "Q (Ok (get_field (field_mask k w) (sw_reg c a))) c"
  shows "wp view A (rtl8367c_getAsicRegBits a (field_mask k w)) Q c"
  using assms mask16_mask [OF assms(3,4)] by (intro wp_getAsicRegBits) (auto simp: field_mask_def)

lemma wp_set_bit:
  assumes "a \<in> cfg_regs" and "cfg_regs \<subseteq> A" and "unat n < 16" and "v \<le> 1"
    and "Q (Ok ()) (put_reg_field a (field_mask (unat n) 1) v c)"
  shows "wp view A (rtl8367c_setAsicRegBit a n v) Q c"
proof -
  have "v = 0 \<or> v = 1" using assms(4) by (auto simp: word_le_nat_alt word_unat_eq_iff)
  then show ?thesis
    using assms cfg_not_ctrl [OF assms(1)]
    by (intro wp_setAsicRegBit) (auto simp: field_mask_def put_reg_field_def mask_Suc_0)
qed

lemma wp_get_bit:
  assumes "a \<in> cfg_regs" and "cfg_regs \<subseteq> A" and "unat n < 16"
    and "Q (Ok (get_field (field_mask (unat n) 1) (sw_reg c a))) c"
  shows "wp view A (rtl8367c_getAsicRegBit a n) Q c"
  using assms by (intro wp_getAsicRegBit) (auto simp: field_mask_def mask_Suc_0)

lemmas field_defs = field_mask_def mask_eq_exp_minus_1

lemma le_10_16: "(p :: u32) \<le> 10 \<Longrightarrow> unat p < 16"
  by (simp add: word_le_nat_alt)

text \<open>Two ways in which the code provides such a setting.\<close>

locale port_bits =
  fixes reg :: "u32 \<Rightarrow> u32" and off :: "u32 \<Rightarrow> nat" and width :: nat and vmax :: u32
    and set_f :: "u32 \<Rightarrow> u32 \<Rightarrow> ('d gsw, unit) drv" and get_f :: "u32 \<Rightarrow> ('d gsw, u32) drv"
  assumes bits_layout: "field_layout reg off width" and bits_vmax: "vmax \<le> mask width"
    and set_code: "p \<le> 10 \<Longrightarrow> v \<le> vmax \<Longrightarrow>
      set_f p v = rtl8367c_setAsicRegBits (reg p) (field_mask (off p) width) v"
    and get_code: "p \<le> 10 \<Longrightarrow> get_f p = rtl8367c_getAsicRegBits (reg p) (field_mask (off p) width)"

sublocale port_bits \<subseteq> port_field
proof
  fix p v :: u32 and A and c :: swt and view :: "'d \<Rightarrow> chip_view" and Q
  assume p: "p \<le> 10" and A: "cfg_regs \<subseteq> A" and v: "v \<le> vmax"
    and Q: "Q (Ok ()) (put_reg_field (reg p) (field_mask (off p) width) v c)"
  show "wp view A (set_f p v) Q c"
    unfolding set_code [OF p v]
    by (rule wp_set_field) (use field_layoutD(1-3) [OF bits_layout p] A Q v bits_vmax in auto)
next
  fix p :: u32 and A and c :: swt and view :: "'d \<Rightarrow> chip_view" and Q
  assume p: "p \<le> 10" and A: "cfg_regs \<subseteq> A"
    and Q: "Q (Ok (get_field (field_mask (off p) width) (sw_reg c (reg p)))) c"
  show "wp view A (get_f p) Q c"
    unfolding get_code [OF p]
    by (rule wp_get_field) (use field_layoutD(1-3) [OF bits_layout p] A Q in auto)
qed (rule bits_layout bits_vmax)+

locale port_flag =
  fixes areg :: u32
    and set_f :: "u32 \<Rightarrow> u32 \<Rightarrow> ('d gsw, unit) drv" and get_f :: "u32 \<Rightarrow> ('d gsw, u32) drv"
  assumes reg_in: "cfg_reg areg"
    and set_code: "p \<le> 10 \<Longrightarrow> set_f p v = rtl8367c_setAsicRegBit areg p v"
    and get_code: "p \<le> 10 \<Longrightarrow> get_f p = rtl8367c_getAsicRegBit areg p"

lemma flag_layout: "cfg_reg a \<Longrightarrow> field_layout (\<lambda>_. a) unat 1"
  by (simp add: field_layout_def all_port_ids_def)

sublocale port_flag \<subseteq> port_field "\<lambda>_. areg" unat 1 1
proof
  fix p v :: u32 and A and c :: swt and view :: "'d \<Rightarrow> chip_view" and Q
  assume p: "p \<le> 10" and A: "cfg_regs \<subseteq> A" and v: "v \<le> 1"
    and Q: "Q (Ok ()) (put_reg_field areg (field_mask (unat p) 1) v c)"
  show "wp view A (set_f p v) Q c"
    unfolding set_code [OF p]
    by (rule wp_set_bit) (use le_10_16 [OF p] A Q v reg_in in \<open>auto simp: cfg_regs_def\<close>)
next
  fix p :: u32 and A and c :: swt and view :: "'d \<Rightarrow> chip_view" and Q
  assume p: "p \<le> 10" and A: "cfg_regs \<subseteq> A"
    and Q: "Q (Ok (get_field (field_mask (unat p) 1) (sw_reg c areg))) c"
  show "wp view A (get_f p) Q c"
    unfolding get_code [OF p]
    by (rule wp_get_bit) (use le_10_16 [OF p] A Q reg_in in \<open>auto simp: cfg_regs_def\<close>)
qed (use flag_layout [OF reg_in] in \<open>simp_all add: mask_Suc_0\<close>)


lemmas word_bounds = not_less not_le word_le_nat_alt word_less_nat_alt

end
