(* ===== verification/AsicVlan.thy ===== *)
theory AsicVlan
  imports Port_Field
begin

text \<open>
  \<open>rtl8367c/rtl8367c_asicdrv_vlan.c\<close>: the register level of the VLAN unit.  The theory holds the
  packing of a member-configuration entry into four registers and of a VLAN-table entry into three
  table words, the access to both, and the per-port VLAN settings.
\<close>

section \<open>Data\<close>

record rtl8367c_vlanconfiguser =
  mc_evid :: u16
  mc_mbr :: u16
  mc_fid_msti :: u16
  mc_envlanpol :: u16
  mc_meteridx :: u16
  mc_vbpen :: u16
  mc_vbpri :: u16

record rtl8367c_user_vlan4kentry =
  v4_vid :: u16
  v4_mbr :: u16
  v4_untag :: u16
  v4_fid_msti :: u16
  v4_envlanpol :: u16
  v4_meteridx :: u16
  v4_vbpen :: u16
  v4_vbpri :: u16
  v4_ivl_svl :: u16

record rtl8367c_protocolgdatacfg =
  pg_frameType :: u32
  pg_etherType :: u32

record rtl8367c_protocolvlancfg =
  pv_valid :: u32
  pv_vlan_idx :: u32
  pv_priority :: u32

abbreviation (input) RTL8367C_CVIDXMAX :: u32 where "RTL8367C_CVIDXMAX \<equiv> 31"
abbreviation (input) RTL8367C_EVIDMAX :: u16 where "RTL8367C_EVIDMAX \<equiv> 0x1FFF"
abbreviation (input) RTL8367C_VIDMAX :: u16 where "RTL8367C_VIDMAX \<equiv> 0xFFF"
abbreviation (input) RTL8367C_PORTIDMAX :: u32 where "RTL8367C_PORTIDMAX \<equiv> 10"
abbreviation (input) RTL8367C_PRIMAX :: u32 where "RTL8367C_PRIMAX \<equiv> 7"
abbreviation (input) RTL8367C_FIDMAX :: u32 where "RTL8367C_FIDMAX \<equiv> 15"
abbreviation (input) RTL8367C_MSTIMAX :: u32 where "RTL8367C_MSTIMAX \<equiv> 15"
abbreviation (input) RTL8367C_METERMAX :: u32 where "RTL8367C_METERMAX \<equiv> 63"
abbreviation (input) RTL8367C_PORTMASK :: u32 where "RTL8367C_PORTMASK \<equiv> 0x7FF"
abbreviation (input) RTL8367C_PROTOVLAN_GIDX_MAX :: u32 where "RTL8367C_PROTOVLAN_GIDX_MAX \<equiv> 3"
abbreviation (input) RTL8367C_VLAN_BUSY_CHECK_NO :: nat where "RTL8367C_VLAN_BUSY_CHECK_NO \<equiv> 10"
abbreviation (input) RTL8367C_VLAN_4KTABLE_LEN :: nat where "RTL8367C_VLAN_4KTABLE_LEN \<equiv> 3"
abbreviation (input) RTL8367C_VLAN_MEMBER_CONFIGURATION_BASE :: u32 where
  "RTL8367C_VLAN_MEMBER_CONFIGURATION_BASE \<equiv> 0x728"

section \<open>Packing\<close>

text \<open>The C functions OR the fields into an array that the caller has cleared.\<close>

definition VlanMCStUser2Smi :: "rtl8367c_vlanconfiguser \<Rightarrow> u16 list \<Rightarrow> u16 list" where
  "VlanMCStUser2Smi c smi =
     [smi ! 0 OR (mc_mbr c AND 0x07FF),
      smi ! 1 OR (mc_fid_msti c AND 0x000F),
      smi ! 2 OR (mc_vbpen c AND 0x0001) OR push_bit 1 (mc_vbpri c AND 0x0007)
        OR push_bit 4 (mc_envlanpol c AND 0x0001) OR push_bit 5 (mc_meteridx c AND 0x003F),
      smi ! 3 OR (mc_evid c AND 0x1FFF)]"

definition VlanMCStSmi2User :: "u16 list \<Rightarrow> rtl8367c_vlanconfiguser" where
  "VlanMCStSmi2User smi = \<lparr>
     mc_evid = smi ! 3 AND 0x1FFF,
     mc_mbr = smi ! 0 AND 0x07FF,
     mc_fid_msti = smi ! 1 AND 0x000F,
     mc_envlanpol = drop_bit 4 (smi ! 2) AND 0x0001,
     mc_meteridx = drop_bit 5 (smi ! 2) AND 0x003F,
     mc_vbpen = smi ! 2 AND 0x0001,
     mc_vbpri = drop_bit 1 (smi ! 2) AND 0x0007\<rparr>"

definition Vlan4kStUser2Smi :: "rtl8367c_user_vlan4kentry \<Rightarrow> u16 list \<Rightarrow> u16 list" where
  "Vlan4kStUser2Smi e smi =
     [smi ! 0 OR (v4_mbr e AND 0x00FF) OR push_bit 8 (v4_untag e AND 0x00FF),
      smi ! 1 OR (v4_fid_msti e AND 0x000F) OR push_bit 4 (v4_vbpen e AND 0x0001)
        OR push_bit 5 (v4_vbpri e AND 0x0007) OR push_bit 8 (v4_envlanpol e AND 0x0001)
        OR push_bit 9 (v4_meteridx e AND 0x001F) OR push_bit 14 (v4_ivl_svl e AND 0x0001),
      smi ! 2 OR drop_bit 8 (v4_mbr e AND 0x0700) OR push_bit 3 (drop_bit 8 (v4_untag e AND 0x0700))
        OR push_bit 6 (drop_bit 5 (v4_meteridx e AND 0x0020))]"

definition Vlan4kStSmi2User :: "u16 list \<Rightarrow> rtl8367c_user_vlan4kentry \<Rightarrow> rtl8367c_user_vlan4kentry" where
  "Vlan4kStSmi2User smi e = e\<lparr>
     v4_mbr := (smi ! 0 AND 0x00FF) OR push_bit 8 (smi ! 2 AND 0x0007),
     v4_untag := drop_bit 8 (smi ! 0 AND 0xFF00) OR push_bit 8 (drop_bit 3 (smi ! 2 AND 0x0038)),
     v4_fid_msti := smi ! 1 AND 0x000F,
     v4_vbpen := drop_bit 4 (smi ! 1 AND 0x0010),
     v4_vbpri := drop_bit 5 (smi ! 1 AND 0x00E0),
     v4_envlanpol := drop_bit 8 (smi ! 1 AND 0x0100),
     v4_meteridx := drop_bit 9 (smi ! 1 AND 0x3E00) OR push_bit 5 (drop_bit 6 (smi ! 2 AND 0x0040)),
     v4_ivl_svl := drop_bit 14 (smi ! 1 AND 0x4000)\<rparr>"

section \<open>Member configuration and VLAN table\<close>

definition mbrcfg_reg :: "u32 \<Rightarrow> nat \<Rightarrow> u32" where
  "mbrcfg_reg index page_idx = RTL8367C_VLAN_MEMBER_CONFIGURATION_BASE + index * 4 + of_nat page_idx"

definition rtl8367c_setAsicVlanMemberConfig :: "u32 \<Rightarrow> rtl8367c_vlanconfiguser \<Rightarrow> ('d gsw, unit) drv" where
  "rtl8367c_setAsicVlanMemberConfig index pVlanCg =
     (if index > RTL8367C_CVIDXMAX then errE RT_ERR_VLAN_ENTRY_NOT_FOUND
      else if mc_evid pVlanCg > RTL8367C_EVIDMAX then errE RT_ERR_INPUT
      else if mc_mbr pVlanCg > 0x7FF then errE RT_ERR_PORT_MASK
      else if mc_fid_msti pVlanCg > 15 then errE RT_ERR_L2_FID
      else if mc_meteridx pVlanCg > 63 then errE RT_ERR_FILTER_METER_ID
      else if mc_vbpri pVlanCg > 7 then errE RT_ERR_QOS_INT_PRIORITY
      else (let smi_vlancfg = VlanMCStUser2Smi pVlanCg (replicate 4 0)
            in forE [0..<4] (\<lambda>page_idx.
                 rtl8367c_setAsicReg (mbrcfg_reg index page_idx) (ucast (smi_vlancfg ! page_idx)))))"

definition rtl8367c_getAsicVlanMemberConfig :: "u32 \<Rightarrow> ('d gsw, rtl8367c_vlanconfiguser) drv" where
  "rtl8367c_getAsicVlanMemberConfig index =
     (if index > RTL8367C_CVIDXMAX then errE RT_ERR_VLAN_ENTRY_NOT_FOUND
      else bindE (mapE (\<lambda>page_idx. rtl8367c_getAsicReg (mbrcfg_reg index page_idx)) [0..<4])
        (\<lambda>regs. okE (VlanMCStSmi2User (map ucast regs))))"

definition rtl8367c_setAsicVlan4kEntry :: "rtl8367c_user_vlan4kentry \<Rightarrow> ('d gsw, unit) drv" where
  "rtl8367c_setAsicVlan4kEntry e =
     (if v4_vid e > RTL8367C_VIDMAX then errE RT_ERR_VLAN_VID
      else if v4_mbr e > 0x7FF then errE RT_ERR_PORT_MASK
      else if v4_untag e > 0x7FF then errE RT_ERR_PORT_MASK
      else if v4_fid_msti e > 15 then errE RT_ERR_L2_FID
      else if v4_meteridx e > 63 then errE RT_ERR_FILTER_METER_ID
      else if v4_vbpri e > 7 then errE RT_ERR_QOS_INT_PRIORITY
      else (let vlan_4k_entry = Vlan4kStUser2Smi e (replicate 3 0)
            in thenE (forE [0..<RTL8367C_VLAN_4KTABLE_LEN] (\<lambda>page_idx.
                 rtl8367c_setAsicReg (RTL8367C_TABLE_ACCESS_WRDATA_BASE + of_nat page_idx)
                   (ucast (vlan_4k_entry ! page_idx))))
               (thenE (rtl8367c_setAsicReg RTL8367C_TABLE_ACCESS_ADDR_REG (ucast (v4_vid e)))
               (rtl8367c_setAsicRegBits RTL8367C_TABLE_ACCESS_CTRL_REG table_command_mask
                  (RTL8367C_TABLE_ACCESS_REG_DATA TB_OP_WRITE TB_TARGET_CVLAN)))))"

definition rtl8367c_getAsicVlan4kEntry ::
  "rtl8367c_user_vlan4kentry \<Rightarrow> ('d gsw, rtl8367c_user_vlan4kentry) drv" where
  "rtl8367c_getAsicVlan4kEntry e =
     (if v4_vid e > RTL8367C_VIDMAX then errE RT_ERR_VLAN_VID
      else thenE (busy_poll RTL8367C_VLAN_BUSY_CHECK_NO)
        (bindE (table_read TB_TARGET_CVLAN (ucast (v4_vid e)) RTL8367C_VLAN_4KTABLE_LEN
                  RTL8367C_VLAN_BUSY_CHECK_NO)
          (\<lambda>regs. okE (Vlan4kStSmi2User (map ucast regs) e))))"

section \<open>Per-port settings\<close>

abbreviation (input) FRAME_TYPE_MAX_BOUND :: u32 where "FRAME_TYPE_MAX_BOUND \<equiv> 3"
abbreviation (input) EG_TAG_MODE_END :: u32 where "EG_TAG_MODE_END \<equiv> 4"
abbreviation (input) PPVLAN_FRAME_TYPE_END :: u32 where "PPVLAN_FRAME_TYPE_END \<equiv> 3"
abbreviation (input) STPST_FORWARDING :: u32 where "STPST_FORWARDING \<equiv> 3"
abbreviation (input) RES_VID_ACT_END :: u32 where "RES_VID_ACT_END \<equiv> 2"

definition RTL8367C_VLAN_ACCEPT_FRAME_TYPE_REG :: "u32 \<Rightarrow> u32" where
  "RTL8367C_VLAN_ACCEPT_FRAME_TYPE_REG port = 0x7AA + drop_bit 3 port"

definition RTL8367C_VLAN_ACCEPT_FRAME_TYPE_MASK :: "u32 \<Rightarrow> u32" where
  "RTL8367C_VLAN_ACCEPT_FRAME_TYPE_MASK port = push_bit (unat (push_bit 1 (port AND 0x7))) 0x3"

definition rtl8367c_setAsicVlanAccpetFrameType :: "u32 \<Rightarrow> u32 \<Rightarrow> ('d gsw, unit) drv" where
  "rtl8367c_setAsicVlanAccpetFrameType port frameType =
     (if port > RTL8367C_PORTIDMAX then errE RT_ERR_PORT_ID
      else if frameType \<ge> FRAME_TYPE_MAX_BOUND then errE RT_ERR_VLAN_ACCEPT_FRAME_TYPE
      else rtl8367c_setAsicRegBits (RTL8367C_VLAN_ACCEPT_FRAME_TYPE_REG port)
             (RTL8367C_VLAN_ACCEPT_FRAME_TYPE_MASK port) frameType)"

definition rtl8367c_getAsicVlanAccpetFrameType :: "u32 \<Rightarrow> ('d gsw, u32) drv" where
  "rtl8367c_getAsicVlanAccpetFrameType port =
     (if port > RTL8367C_PORTIDMAX then errE RT_ERR_PORT_ID
      else rtl8367c_getAsicRegBits (RTL8367C_VLAN_ACCEPT_FRAME_TYPE_REG port)
             (RTL8367C_VLAN_ACCEPT_FRAME_TYPE_MASK port))"

abbreviation (input) RTL8367C_VLAN_INGRESS_REG :: u32 where "RTL8367C_VLAN_INGRESS_REG \<equiv> 0x7A9"

definition rtl8367c_setAsicVlanIngressFilter :: "u32 \<Rightarrow> u32 \<Rightarrow> ('d gsw, unit) drv" where
  "rtl8367c_setAsicVlanIngressFilter port enabled =
     (if port > RTL8367C_PORTIDMAX then errE RT_ERR_PORT_ID
      else rtl8367c_setAsicRegBit RTL8367C_VLAN_INGRESS_REG port enabled)"

definition rtl8367c_getAsicVlanIngressFilter :: "u32 \<Rightarrow> ('d gsw, u32) drv" where
  "rtl8367c_getAsicVlanIngressFilter port =
     (if port > RTL8367C_PORTIDMAX then errE RT_ERR_PORT_ID
      else rtl8367c_getAsicRegBit RTL8367C_VLAN_INGRESS_REG port)"

definition RTL8367C_PORT_MISC_CFG_REG :: "u32 \<Rightarrow> u32" where
  "RTL8367C_PORT_MISC_CFG_REG port = 0xE + push_bit 5 port"

abbreviation (input) RTL8367C_VLAN_EGRESS_MDOE_MASK :: u32 where
  "RTL8367C_VLAN_EGRESS_MDOE_MASK \<equiv> 0x30"

definition rtl8367c_setAsicVlanEgressTagMode :: "u32 \<Rightarrow> u32 \<Rightarrow> ('d gsw, unit) drv" where
  "rtl8367c_setAsicVlanEgressTagMode port tagMode =
     (if port > RTL8367C_PORTIDMAX then errE RT_ERR_PORT_ID
      else if tagMode \<ge> EG_TAG_MODE_END then errE RT_ERR_INPUT
      else rtl8367c_setAsicRegBits (RTL8367C_PORT_MISC_CFG_REG port)
             RTL8367C_VLAN_EGRESS_MDOE_MASK tagMode)"

definition rtl8367c_getAsicVlanEgressTagMode :: "u32 \<Rightarrow> ('d gsw, u32) drv" where
  "rtl8367c_getAsicVlanEgressTagMode port =
     (if port > RTL8367C_PORTIDMAX then errE RT_ERR_PORT_ID
      else rtl8367c_getAsicRegBits (RTL8367C_PORT_MISC_CFG_REG port) RTL8367C_VLAN_EGRESS_MDOE_MASK)"

definition RTL8367C_VLAN_PVID_CTRL_REG :: "u32 \<Rightarrow> u32" where
  "RTL8367C_VLAN_PVID_CTRL_REG port = 0x700 + drop_bit 1 port"

definition RTL8367C_PORT_VIDX_MASK :: "u32 \<Rightarrow> u32" where
  "RTL8367C_PORT_VIDX_MASK port = push_bit (unat (push_bit 3 (port AND 1))) 0x1F"

definition RTL8367C_VLAN_PORTBASED_PRIORITY_REG :: "u32 \<Rightarrow> u32" where
  "RTL8367C_VLAN_PORTBASED_PRIORITY_REG port = 0x851 + drop_bit 2 port"

definition RTL8367C_VLAN_PORTBASED_PRIORITY_MASK :: "u32 \<Rightarrow> u32" where
  "RTL8367C_VLAN_PORTBASED_PRIORITY_MASK port = push_bit (unat (push_bit 2 (port AND 0x3))) 0x7"

definition rtl8367c_setAsicVlanPortBasedVID :: "u32 \<Rightarrow> u32 \<Rightarrow> u32 \<Rightarrow> ('d gsw, unit) drv" where
  "rtl8367c_setAsicVlanPortBasedVID port index pri =
     (if port > RTL8367C_PORTIDMAX then errE RT_ERR_PORT_ID
      else if index > RTL8367C_CVIDXMAX then errE RT_ERR_VLAN_ENTRY_NOT_FOUND
      else if pri > RTL8367C_PRIMAX then errE RT_ERR_QOS_INT_PRIORITY
      else thenE (rtl8367c_setAsicRegBits (RTL8367C_VLAN_PVID_CTRL_REG port)
                    (RTL8367C_PORT_VIDX_MASK port) index)
             (rtl8367c_setAsicRegBits (RTL8367C_VLAN_PORTBASED_PRIORITY_REG port)
                (RTL8367C_VLAN_PORTBASED_PRIORITY_MASK port) pri))"

definition rtl8367c_getAsicVlanPortBasedVID :: "u32 \<Rightarrow> ('d gsw, u32 \<times> u32) drv" where
  "rtl8367c_getAsicVlanPortBasedVID port =
     (if port > RTL8367C_PORTIDMAX then errE RT_ERR_PORT_ID
      else bindE (rtl8367c_getAsicRegBits (RTL8367C_VLAN_PVID_CTRL_REG port)
                    (RTL8367C_PORT_VIDX_MASK port)) (\<lambda>index.
             bindE (rtl8367c_getAsicRegBits (RTL8367C_VLAN_PORTBASED_PRIORITY_REG port)
                (RTL8367C_VLAN_PORTBASED_PRIORITY_MASK port)) (\<lambda>pri. okE (index, pri))))"

section \<open>Protocol-and-port based VLANs\<close>

definition RTL8367C_VLAN_PPB_VALID_REG :: "u32 \<Rightarrow> u32" where
  "RTL8367C_VLAN_PPB_VALID_REG item = 0x708 + push_bit 3 item"

definition RTL8367C_VLAN_PPB_CTRL_REG :: "u32 \<Rightarrow> u32 \<Rightarrow> u32" where
  "RTL8367C_VLAN_PPB_CTRL_REG item port = 0x709 + push_bit 3 item + port div 3"

definition RTL8367C_VLAN_PPB_CTRL_MASK :: "u32 \<Rightarrow> u32" where
  "RTL8367C_VLAN_PPB_CTRL_MASK port = push_bit (unat ((port mod 3) * 5)) 0x1F"

definition RTL8367C_VLAN_PPB_FRAMETYPE_REG :: "u32 \<Rightarrow> u32" where
  "RTL8367C_VLAN_PPB_FRAMETYPE_REG item = 0x70B + push_bit 3 item"

abbreviation (input) RTL8367C_VLAN_PPB_FRAMETYPE_MASK :: u32 where
  "RTL8367C_VLAN_PPB_FRAMETYPE_MASK \<equiv> 0xC00"

definition RTL8367C_VLAN_PPB_ETHERTYPR_REG :: "u32 \<Rightarrow> u32" where
  "RTL8367C_VLAN_PPB_ETHERTYPR_REG item = 0x70F + push_bit 3 item"

definition RTL8367C_VLAN_PPB_PRIORITY_ITEM_REG :: "u32 \<Rightarrow> u32 \<Rightarrow> u32" where
  "RTL8367C_VLAN_PPB_PRIORITY_ITEM_REG port item = 0x855 + push_bit 2 item + drop_bit 2 port"

definition RTL8367C_VLAN_PPB_PRIORITY_ITEM_MASK :: "u32 \<Rightarrow> u32" where
  "RTL8367C_VLAN_PPB_PRIORITY_ITEM_MASK port = push_bit (unat (push_bit 2 (port AND 0x3))) 0x7"

definition rtl8367c_setAsicVlanProtocolBasedGroupData ::
  "u32 \<Rightarrow> rtl8367c_protocolgdatacfg \<Rightarrow> ('d gsw, unit) drv" where
  "rtl8367c_setAsicVlanProtocolBasedGroupData index pPbCfg =
     (if index > RTL8367C_PROTOVLAN_GIDX_MAX then errE RT_ERR_VLAN_PROTO_AND_PORT
      else if pg_frameType pPbCfg \<ge> PPVLAN_FRAME_TYPE_END then errE RT_ERR_INPUT
      else thenE (rtl8367c_setAsicRegBits (RTL8367C_VLAN_PPB_FRAMETYPE_REG index)
                    RTL8367C_VLAN_PPB_FRAMETYPE_MASK (pg_frameType pPbCfg))
             (rtl8367c_setAsicReg (RTL8367C_VLAN_PPB_ETHERTYPR_REG index) (pg_etherType pPbCfg)))"

definition rtl8367c_getAsicVlanProtocolBasedGroupData ::
  "u32 \<Rightarrow> ('d gsw, rtl8367c_protocolgdatacfg) drv" where
  "rtl8367c_getAsicVlanProtocolBasedGroupData index =
     (if index > RTL8367C_PROTOVLAN_GIDX_MAX then errE RT_ERR_VLAN_PROTO_AND_PORT
      else bindE (rtl8367c_getAsicRegBits (RTL8367C_VLAN_PPB_FRAMETYPE_REG index)
                    RTL8367C_VLAN_PPB_FRAMETYPE_MASK) (\<lambda>frameType.
             bindE (rtl8367c_getAsicReg (RTL8367C_VLAN_PPB_ETHERTYPR_REG index)) (\<lambda>etherType.
             okE \<lparr>pg_frameType = frameType, pg_etherType = etherType\<rparr>)))"

text \<open>
  The register and mask of the VLAN index of a port in a group.  For the ports 8 to 10 the code
  takes the register of group 0 whatever the group is.
\<close>

definition ppb_index_reg :: "u32 \<Rightarrow> u32 \<Rightarrow> u32" where
  "ppb_index_reg index port =
     (if port < 8 then RTL8367C_VLAN_PPB_CTRL_REG index port else 0x70C)"

definition ppb_index_mask :: "u32 \<Rightarrow> u32" where
  "ppb_index_mask port =
     (if port < 8 then RTL8367C_VLAN_PPB_CTRL_MASK port
      else if port = 8 then 0x1F else if port = 9 then 0x3E0 else 0x7C00)"

definition rtl8367c_setAsicVlanPortAndProtocolBased ::
  "u32 \<Rightarrow> u32 \<Rightarrow> rtl8367c_protocolvlancfg \<Rightarrow> ('d gsw, unit) drv" where
  "rtl8367c_setAsicVlanPortAndProtocolBased port index pPpbCfg =
     (if port > RTL8367C_PORTIDMAX then errE RT_ERR_PORT_ID
      else if index > RTL8367C_PROTOVLAN_GIDX_MAX then errE RT_ERR_VLAN_PROTO_AND_PORT
      else if pv_valid pPpbCfg \<noteq> 0 \<and> pv_valid pPpbCfg \<noteq> 1 then errE RT_ERR_INPUT
      else if pv_vlan_idx pPpbCfg > RTL8367C_CVIDXMAX then errE RT_ERR_VLAN_ENTRY_NOT_FOUND
      else if pv_priority pPpbCfg > RTL8367C_PRIMAX then errE RT_ERR_QOS_INT_PRIORITY
      else thenE (rtl8367c_setAsicRegBits (RTL8367C_VLAN_PPB_VALID_REG index)
                    (push_bit (unat port) 1) (if pv_valid pPpbCfg = 1 then 1 else 0))
          (thenE (rtl8367c_setAsicRegBits (ppb_index_reg index port) (ppb_index_mask port)
                    (pv_vlan_idx pPpbCfg))
             (rtl8367c_setAsicRegBits (RTL8367C_VLAN_PPB_PRIORITY_ITEM_REG port index)
                (RTL8367C_VLAN_PPB_PRIORITY_ITEM_MASK port) (pv_priority pPpbCfg))))"

definition rtl8367c_getAsicVlanPortAndProtocolBased ::
  "u32 \<Rightarrow> u32 \<Rightarrow> outptr \<Rightarrow> ('d gsw, rtl8367c_protocolvlancfg) drv" where
  "rtl8367c_getAsicVlanPortAndProtocolBased port index pPpbCfg =
     (if port > RTL8367C_PORTIDMAX then errE RT_ERR_PORT_ID
      else if index > RTL8367C_PROTOVLAN_GIDX_MAX then errE RT_ERR_VLAN_PROTO_AND_PORT
      else if pPpbCfg = NULLP then errE RT_ERR_INPUT
      else bindE (rtl8367c_getAsicRegBits (RTL8367C_VLAN_PPB_VALID_REG index)
                    (push_bit (unat port) 1)) (\<lambda>valid.
          bindE (rtl8367c_getAsicRegBits (ppb_index_reg index port) (ppb_index_mask port)) (\<lambda>idx.
          bindE (rtl8367c_getAsicRegBits (RTL8367C_VLAN_PPB_PRIORITY_ITEM_REG port index)
                (RTL8367C_VLAN_PPB_PRIORITY_ITEM_MASK port)) (\<lambda>pri.
          okE \<lparr>pv_valid = valid, pv_vlan_idx = idx, pv_priority = pri\<rparr>))))"

section \<open>Filtering, forwarding identifiers and spanning tree\<close>

abbreviation (input) RTL8367C_REG_VLAN_CTRL :: u32 where "RTL8367C_REG_VLAN_CTRL \<equiv> 0x7A8"
abbreviation (input) RTL8367C_REG_UNTAG_DSCP_PRI_CFG :: u32 where
  "RTL8367C_REG_UNTAG_DSCP_PRI_CFG \<equiv> 0x93A"
abbreviation (input) RTL8367C_REG_PORT_PBFIDEN :: u32 where "RTL8367C_REG_PORT_PBFIDEN \<equiv> 0x7AC"

definition rtl8367c_setAsicVlanFilter :: "u32 \<Rightarrow> ('d gsw, unit) drv" where
  "rtl8367c_setAsicVlanFilter enabled = rtl8367c_setAsicRegBit RTL8367C_REG_VLAN_CTRL 0 enabled"

definition rtl8367c_getAsicVlanFilter :: "('d gsw, u32) drv" where
  "rtl8367c_getAsicVlanFilter = rtl8367c_getAsicRegBit RTL8367C_REG_VLAN_CTRL 0"

definition rtl8367c_setAsicVlanUntagDscpPriorityEn :: "u32 \<Rightarrow> ('d gsw, unit) drv" where
  "rtl8367c_setAsicVlanUntagDscpPriorityEn enabled =
     rtl8367c_setAsicRegBit RTL8367C_REG_UNTAG_DSCP_PRI_CFG 0 enabled"

definition rtl8367c_getAsicVlanUntagDscpPriorityEn :: "('d gsw, u32) drv" where
  "rtl8367c_getAsicVlanUntagDscpPriorityEn = rtl8367c_getAsicRegBit RTL8367C_REG_UNTAG_DSCP_PRI_CFG 0"

definition pbfid_reg :: "u32 \<Rightarrow> u32" where
  "pbfid_reg port = (if port < 8 then 0x7AD + port else 0x7B7 + port - 8)"

definition rtl8367c_setAsicPortBasedFid :: "u32 \<Rightarrow> u32 \<Rightarrow> ('d gsw, unit) drv" where
  "rtl8367c_setAsicPortBasedFid port fid =
     (if port > RTL8367C_PORTIDMAX then errE RT_ERR_PORT_ID
      else if fid > RTL8367C_FIDMAX then errE RT_ERR_L2_FID
      else rtl8367c_setAsicReg (pbfid_reg port) fid)"

definition rtl8367c_getAsicPortBasedFid :: "u32 \<Rightarrow> ('d gsw, u32) drv" where
  "rtl8367c_getAsicPortBasedFid port =
     (if port > RTL8367C_PORTIDMAX then errE RT_ERR_PORT_ID
      else rtl8367c_getAsicReg (pbfid_reg port))"

definition rtl8367c_setAsicPortBasedFidEn :: "u32 \<Rightarrow> u32 \<Rightarrow> ('d gsw, unit) drv" where
  "rtl8367c_setAsicPortBasedFidEn port enabled =
     (if port > RTL8367C_PORTIDMAX then errE RT_ERR_PORT_ID
      else rtl8367c_setAsicRegBit RTL8367C_REG_PORT_PBFIDEN port enabled)"

definition rtl8367c_getAsicPortBasedFidEn :: "u32 \<Rightarrow> ('d gsw, u32) drv" where
  "rtl8367c_getAsicPortBasedFidEn port =
     (if port > RTL8367C_PORTIDMAX then errE RT_ERR_PORT_ID
      else rtl8367c_getAsicRegBit RTL8367C_REG_PORT_PBFIDEN port)"

definition RTL8367C_VLAN_MSTI_REG :: "u32 \<Rightarrow> u32 \<Rightarrow> u32" where
  "RTL8367C_VLAN_MSTI_REG tree port = 0xA00 + push_bit 1 tree + drop_bit 3 port"

definition RTL8367C_VLAN_MSTI_MASK :: "u32 \<Rightarrow> u32" where
  "RTL8367C_VLAN_MSTI_MASK port = push_bit (unat (push_bit 1 (port AND 0x7))) 0x3"

definition msti_mask :: "u32 \<Rightarrow> u32" where
  "msti_mask port =
     (if port < 8 then RTL8367C_VLAN_MSTI_MASK port
      else if port = 8 then 0x3 else if port = 9 then 0xC else 0x30)"

definition rtl8367c_setAsicSpanningTreeStatus :: "u32 \<Rightarrow> u32 \<Rightarrow> u32 \<Rightarrow> ('d gsw, unit) drv" where
  "rtl8367c_setAsicSpanningTreeStatus port msti state =
     (if port > RTL8367C_PORTIDMAX then errE RT_ERR_PORT_ID
      else if msti > RTL8367C_MSTIMAX then errE RT_ERR_MSTI
      else if state > STPST_FORWARDING then errE RT_ERR_MSTP_STATE
      else rtl8367c_setAsicRegBits (RTL8367C_VLAN_MSTI_REG msti port) (msti_mask port) state)"

definition rtl8367c_getAsicSpanningTreeStatus :: "u32 \<Rightarrow> u32 \<Rightarrow> ('d gsw, u32) drv" where
  "rtl8367c_getAsicSpanningTreeStatus port msti =
     (if port > RTL8367C_PORTIDMAX then errE RT_ERR_PORT_ID
      else if msti > RTL8367C_MSTIMAX then errE RT_ERR_MSTI
      else rtl8367c_getAsicRegBits (RTL8367C_VLAN_MSTI_REG msti port) (msti_mask port))"

section \<open>Egress settings\<close>

definition rtl8367c_setAsicVlanTransparent :: "u32 \<Rightarrow> u32 \<Rightarrow> ('d gsw, unit) drv" where
  "rtl8367c_setAsicVlanTransparent port portmask =
     (if port > RTL8367C_PORTIDMAX then errE RT_ERR_PORT_ID
      else if portmask > RTL8367C_PORTMASK then errE RT_ERR_PORT_MASK
      else rtl8367c_setAsicRegBits (0x9D0 + port) 0x7FF portmask)"

definition rtl8367c_getAsicVlanTransparent :: "u32 \<Rightarrow> ('d gsw, u32) drv" where
  "rtl8367c_getAsicVlanTransparent port =
     (if port > RTL8367C_PORTIDMAX then errE RT_ERR_PORT_ID
      else rtl8367c_getAsicRegBits (0x9D0 + port) 0x7FF)"

text \<open>The low eight ports and the high three ports of the keep mask are in different registers.\<close>

definition keep_reg :: "u32 \<Rightarrow> u32" where
  "keep_reg port = (if port < 8 then 0x93B + drop_bit 1 port
     else if port = 8 \<or> port = 9 then 0x8D6 else 0x8D7)"

definition keep_mask :: "u32 \<Rightarrow> u32" where
  "keep_mask port = (if port < 8 then push_bit (unat ((port AND 1) * 8)) 0xFF
     else if port = 8 then 0xFF else if port = 9 then 0xFF00 else 0xFF)"

definition keep_ext_reg :: "u32 \<Rightarrow> u32" where
  "keep_ext_reg port = (if port < 8 then 0x8D8 + drop_bit 1 port
     else if port = 8 \<or> port = 9 then 0x8DC else 0x8DD)"

definition keep_ext_mask :: "u32 \<Rightarrow> u32" where
  "keep_ext_mask port = (if port < 8 then push_bit (unat ((port AND 1) * 3)) 0x7
     else if port = 8 then 0x7 else if port = 9 then 0x38 else 0x7)"

definition rtl8367c_setAsicVlanEgressKeep :: "u32 \<Rightarrow> u32 \<Rightarrow> ('d gsw, unit) drv" where
  "rtl8367c_setAsicVlanEgressKeep port portmask =
     (if port > RTL8367C_PORTIDMAX then errE RT_ERR_PORT_ID
      else if portmask > RTL8367C_PORTMASK then errE RT_ERR_PORT_MASK
      else thenE (rtl8367c_setAsicRegBits (keep_reg port) (keep_mask port) (portmask AND 0xFF))
             (rtl8367c_setAsicRegBits (keep_ext_reg port) (keep_ext_mask port)
                (drop_bit 8 portmask AND 0x7)))"

definition rtl8367c_getAsicVlanEgressKeep :: "u32 \<Rightarrow> ('d gsw, u32) drv" where
  "rtl8367c_getAsicVlanEgressKeep port =
     (if port > RTL8367C_PORTIDMAX then errE RT_ERR_PORT_ID
      else bindE (rtl8367c_getAsicRegBits (keep_reg port) (keep_mask port)) (\<lambda>regval_l.
           bindE (rtl8367c_getAsicRegBits (keep_ext_reg port) (keep_ext_mask port)) (\<lambda>regval_h.
           okE (push_bit 8 regval_h OR regval_l))))"

abbreviation (input) RTL8367C_REG_VLAN_EXT_CTRL :: u32 where "RTL8367C_REG_VLAN_EXT_CTRL \<equiv> 0x7B5"
abbreviation (input) RTL8367C_REG_VLAN_EXT_CTRL2 :: u32 where "RTL8367C_REG_VLAN_EXT_CTRL2 \<equiv> 0x7B6"

definition rtl8367c_setReservedVidAction :: "u32 \<Rightarrow> u32 \<Rightarrow> ('d gsw, unit) drv" where
  "rtl8367c_setReservedVidAction vid0Action vid4095Action =
     (if vid0Action \<ge> RES_VID_ACT_END then errE RT_ERR_INPUT
      else if vid4095Action \<ge> RES_VID_ACT_END then errE RT_ERR_INPUT
      else thenE (rtl8367c_setAsicRegBit RTL8367C_REG_VLAN_EXT_CTRL 0 vid0Action)
             (rtl8367c_setAsicRegBit RTL8367C_REG_VLAN_EXT_CTRL 1 vid4095Action))"

definition rtl8367c_getReservedVidAction :: "outptr \<Rightarrow> outptr \<Rightarrow> ('d gsw, u32 \<times> u32) drv" where
  "rtl8367c_getReservedVidAction pVid0Action pVid4095Action =
     (if pVid0Action = NULLP then errE RT_ERR_NULL_POINTER
      else if pVid4095Action = NULLP then errE RT_ERR_NULL_POINTER
      else bindE (rtl8367c_getAsicRegBit RTL8367C_REG_VLAN_EXT_CTRL 0) (\<lambda>a.
           bindE (rtl8367c_getAsicRegBit RTL8367C_REG_VLAN_EXT_CTRL 1) (\<lambda>b. okE (a, b))))"

definition rtl8367c_setRealKeepRemarkEn :: "u32 \<Rightarrow> ('d gsw, unit) drv" where
  "rtl8367c_setRealKeepRemarkEn enabled = rtl8367c_setAsicRegBit RTL8367C_REG_VLAN_EXT_CTRL 2 enabled"

definition rtl8367c_getRealKeepRemarkEn :: "('d gsw, u32) drv" where
  "rtl8367c_getRealKeepRemarkEn = rtl8367c_getAsicRegBit RTL8367C_REG_VLAN_EXT_CTRL 2"

definition rtl8367c_resetVlan :: "('d gsw, unit) drv" where
  "rtl8367c_resetVlan = rtl8367c_setAsicRegBit RTL8367C_REG_VLAN_EXT_CTRL2 0 1"

section \<open>The packings are faithful\<close>

definition mc_ok :: "rtl8367c_vlanconfiguser \<Rightarrow> bool" where
  "mc_ok c \<longleftrightarrow> mc_evid c \<le> RTL8367C_EVIDMAX \<and> mc_mbr c \<le> 0x7FF \<and> mc_fid_msti c \<le> 15 \<and>
     mc_meteridx c \<le> 63 \<and> mc_vbpri c \<le> 7 \<and> mc_vbpen c \<le> 1 \<and> mc_envlanpol c \<le> 1"

definition v4_ok :: "rtl8367c_user_vlan4kentry \<Rightarrow> bool" where
  "v4_ok e \<longleftrightarrow> v4_vid e \<le> RTL8367C_VIDMAX \<and> v4_mbr e \<le> 0x7FF \<and> v4_untag e \<le> 0x7FF \<and>
     v4_fid_msti e \<le> 15 \<and> v4_meteridx e \<le> 63 \<and> v4_vbpri e \<le> 7 \<and>
     v4_vbpen e \<le> 1 \<and> v4_envlanpol e \<le> 1 \<and> v4_ivl_svl e \<le> 1"

interpretation mc: packing mc_ok "\<lambda>c. VlanMCStUser2Smi c (replicate 4 0)" VlanMCStSmi2User
proof
  fix c assume "mc_ok c"
  then show "VlanMCStSmi2User (VlanMCStUser2Smi c (replicate 4 0)) = c"
    unfolding VlanMCStSmi2User_def VlanMCStUser2Smi_def mc_ok_def
    by (intro rtl8367c_vlanconfiguser.equality) (simp_all add: word16_decide bit_simps del: push_bit_Suc)
qed

interpretation v4: packing v4_ok "\<lambda>e. (v4_vid e, Vlan4kStUser2Smi e (replicate 3 0))"
  "\<lambda>(vid, smi). Vlan4kStSmi2User smi (e0\<lparr>v4_vid := vid\<rparr>)" for e0 :: rtl8367c_user_vlan4kentry
proof
  fix e assume "v4_ok e"
  then show "(\<lambda>(vid, smi). Vlan4kStSmi2User smi (e0\<lparr>v4_vid := vid\<rparr>))
      (v4_vid e, Vlan4kStUser2Smi e (replicate 3 0)) = e"
    unfolding Vlan4kStSmi2User_def Vlan4kStUser2Smi_def v4_ok_def
    by (intro rtl8367c_user_vlan4kentry.equality) (simp_all add: word16_decide bit_simps del: push_bit_Suc)
qed

section \<open>The settings of the unit\<close>

definition two_bit_off :: "u32 \<Rightarrow> nat" where
  "two_bit_off port = unat (push_bit 1 (port AND 0x7))"

definition pri_off :: "u32 \<Rightarrow> nat" where
  "pri_off port = unat (push_bit 2 (port AND 0x3))"

definition vidx_off :: "u32 \<Rightarrow> nat" where
  "vidx_off port = unat (push_bit 3 (port AND 1))"

definition ppb_off :: "u32 \<Rightarrow> nat" where
  "ppb_off port = (if port < 8 then unat ((port mod 3) * 5) else if port = 8 then 0
     else if port = 9 then 5 else 10)"

definition msti_off :: "u32 \<Rightarrow> nat" where
  "msti_off port = (if port < 8 then two_bit_off port else if port = 8 then 0
     else if port = 9 then 2 else 4)"

definition keep_off :: "u32 \<Rightarrow> nat" where
  "keep_off port = (if port < 8 then unat ((port AND 1) * 8) else if port = 9 then 8 else 0)"

definition keep_ext_off :: "u32 \<Rightarrow> nat" where
  "keep_ext_off port = (if port < 8 then unat ((port AND 1) * 3) else if port = 9 then 3 else 0)"

lemma field_masks:
  "RTL8367C_VLAN_ACCEPT_FRAME_TYPE_MASK p = field_mask (two_bit_off p) 2"
  "RTL8367C_PORT_VIDX_MASK p = field_mask (vidx_off p) 5"
  "RTL8367C_VLAN_PORTBASED_PRIORITY_MASK p = field_mask (pri_off p) 3"
  "RTL8367C_VLAN_PPB_PRIORITY_ITEM_MASK p = field_mask (pri_off p) 3"
  "ppb_index_mask p = field_mask (ppb_off p) 5"
  "msti_mask p = field_mask (msti_off p) 2"
  "keep_mask p = field_mask (keep_off p) 8"
  "keep_ext_mask p = field_mask (keep_ext_off p) 3"
  "push_bit (unat p) 1 = field_mask (unat p) 1"
  "RTL8367C_VLAN_EGRESS_MDOE_MASK = field_mask 4 2"
  "RTL8367C_VLAN_PPB_FRAMETYPE_MASK = field_mask 10 2"
  "(0x7FF :: u32) = field_mask 0 11"
  by (simp_all add: field_defs RTL8367C_VLAN_ACCEPT_FRAME_TYPE_MASK_def RTL8367C_PORT_VIDX_MASK_def
      RTL8367C_VLAN_PORTBASED_PRIORITY_MASK_def RTL8367C_VLAN_PPB_PRIORITY_ITEM_MASK_def
      ppb_index_mask_def RTL8367C_VLAN_PPB_CTRL_MASK_def msti_mask_def RTL8367C_VLAN_MSTI_MASK_def
      keep_mask_def keep_ext_mask_def two_bit_off_def vidx_off_def pri_off_def ppb_off_def
      msti_off_def keep_off_def keep_ext_off_def)

lemma layouts:
  "field_layout RTL8367C_VLAN_ACCEPT_FRAME_TYPE_REG two_bit_off 2"
  "field_layout RTL8367C_PORT_MISC_CFG_REG (\<lambda>_. 4) 2"
  "field_layout RTL8367C_VLAN_PVID_CTRL_REG vidx_off 5"
  "field_layout RTL8367C_VLAN_PORTBASED_PRIORITY_REG pri_off 3"
  "field_layout pbfid_reg (\<lambda>_. 0) 16"
  "field_layout (\<lambda>p. 0x9D0 + p) (\<lambda>_. 0) 11"
  "field_layout keep_reg keep_off 8"
  "field_layout keep_ext_reg keep_ext_off 3"
  by code_simp+

lemma le_3_cases: "(i :: u32) \<le> 3 \<Longrightarrow> i = 0 \<or> i = 1 \<or> i = 2 \<or> i = 3"
  using le_10_cases [of i] by (auto simp: word_le_nat_alt)

lemma ppb_valid_layout:
  assumes "i \<le> 3"
  shows "field_layout (\<lambda>_. RTL8367C_VLAN_PPB_VALID_REG i) unat 1"
proof -
  have "cfg_reg (RTL8367C_VLAN_PPB_VALID_REG 0)" "cfg_reg (RTL8367C_VLAN_PPB_VALID_REG 1)"
    "cfg_reg (RTL8367C_VLAN_PPB_VALID_REG 2)" "cfg_reg (RTL8367C_VLAN_PPB_VALID_REG 3)"
    by code_simp+
  then show ?thesis using le_3_cases [OF assms] by (intro flag_layout) auto
qed

lemma ppb_index_layout:
  assumes "i \<le> 3"
  shows "field_layout (ppb_index_reg i) ppb_off 5"
proof -
  have "field_layout (ppb_index_reg 0) ppb_off 5" "field_layout (ppb_index_reg 1) ppb_off 5"
    "field_layout (ppb_index_reg 2) ppb_off 5" "field_layout (ppb_index_reg 3) ppb_off 5"
    by code_simp+
  then show ?thesis using le_3_cases [OF assms] by auto
qed

lemma ppb_pri_layout:
  assumes "i \<le> 3"
  shows "field_layout (\<lambda>p. RTL8367C_VLAN_PPB_PRIORITY_ITEM_REG p i) pri_off 3"
proof -
  have "field_layout (\<lambda>p. RTL8367C_VLAN_PPB_PRIORITY_ITEM_REG p 0) pri_off 3"
    "field_layout (\<lambda>p. RTL8367C_VLAN_PPB_PRIORITY_ITEM_REG p 1) pri_off 3"
    "field_layout (\<lambda>p. RTL8367C_VLAN_PPB_PRIORITY_ITEM_REG p 2) pri_off 3"
    "field_layout (\<lambda>p. RTL8367C_VLAN_PPB_PRIORITY_ITEM_REG p 3) pri_off 3"
    by code_simp+
  then show ?thesis using le_3_cases [OF assms] by auto
qed

lemma msti_layout:
  assumes "m \<le> 15"
  shows "field_layout (RTL8367C_VLAN_MSTI_REG m) msti_off 2"
proof -
  have reg: "RTL8367C_VLAN_MSTI_REG m = (\<lambda>p. (0xA00 + push_bit 1 m) + drop_bit 3 p)"
    by (simp add: fun_eq_iff RTL8367C_VLAN_MSTI_REG_def)
  have in_unit: "cfg_reg ((0xA00 + push_bit 1 m) + k)" if "k \<in> {0, 1}" for k
  proof -
    have "unat ((0xA00 + push_bit 1 m) + k) = 0xA00 + 2 * unat m + unat k"
      using assms that by (auto simp: word_le_nat_alt unat_word_ariths push_bit_eq_mult)
    then show ?thesis
      by (intro cfg_range [of "0xA00" "0xA1F"]) (use assms that in \<open>auto simp: cfg_ranges_def word_le_nat_alt\<close>)
  qed
  have "list_all (\<lambda>p. drop_bit 3 p \<in> {0, 1} \<and> msti_off p + 2 \<le> 16 \<and>
      list_all (\<lambda>q. p = q \<or> drop_bit 3 p \<noteq> drop_bit 3 q \<or> msti_off p + 2 \<le> msti_off q \<or>
        msti_off q + 2 \<le> msti_off p) all_port_ids) all_port_ids"
    by code_simp
  with in_unit show ?thesis unfolding field_layout_def reg by (simp add: list_all_iff)
qed

interpretation aft: port_bits RTL8367C_VLAN_ACCEPT_FRAME_TYPE_REG two_bit_off 2 2
  rtl8367c_setAsicVlanAccpetFrameType rtl8367c_getAsicVlanAccpetFrameType
  by unfold_locales
     (auto simp: layouts rtl8367c_setAsicVlanAccpetFrameType_def field_masks(1) mask_eq_exp_minus_1
       rtl8367c_getAsicVlanAccpetFrameType_def word_bounds)

interpretation igr: port_flag RTL8367C_VLAN_INGRESS_REG
  rtl8367c_setAsicVlanIngressFilter rtl8367c_getAsicVlanIngressFilter
  by unfold_locales
     (simp_all add: cfg_reg_defs rtl8367c_setAsicVlanIngressFilter_def
       rtl8367c_getAsicVlanIngressFilter_def leD)

interpretation etm: port_bits RTL8367C_PORT_MISC_CFG_REG "\<lambda>_. 4" 2 3
  rtl8367c_setAsicVlanEgressTagMode rtl8367c_getAsicVlanEgressTagMode
  by unfold_locales
     (auto simp: layouts rtl8367c_setAsicVlanEgressTagMode_def rtl8367c_getAsicVlanEgressTagMode_def
       field_masks(10) mask_eq_exp_minus_1 word_bounds)

interpretation vidx: port_bits RTL8367C_VLAN_PVID_CTRL_REG vidx_off 5 31
  "\<lambda>p. rtl8367c_setAsicRegBits (RTL8367C_VLAN_PVID_CTRL_REG p) (RTL8367C_PORT_VIDX_MASK p)"
  "\<lambda>p. rtl8367c_getAsicRegBits (RTL8367C_VLAN_PVID_CTRL_REG p) (RTL8367C_PORT_VIDX_MASK p)"
  by unfold_locales (simp_all add: layouts field_masks(2) mask_eq_exp_minus_1)

interpretation vpri: port_bits RTL8367C_VLAN_PORTBASED_PRIORITY_REG pri_off 3 7
  "\<lambda>p. rtl8367c_setAsicRegBits (RTL8367C_VLAN_PORTBASED_PRIORITY_REG p)
         (RTL8367C_VLAN_PORTBASED_PRIORITY_MASK p)"
  "\<lambda>p. rtl8367c_getAsicRegBits (RTL8367C_VLAN_PORTBASED_PRIORITY_REG p)
         (RTL8367C_VLAN_PORTBASED_PRIORITY_MASK p)"
  by unfold_locales (simp_all add: layouts field_masks(3) mask_eq_exp_minus_1)

interpretation fiden: port_flag RTL8367C_REG_PORT_PBFIDEN
  rtl8367c_setAsicPortBasedFidEn rtl8367c_getAsicPortBasedFidEn
  by unfold_locales
     (simp_all add: cfg_reg_defs rtl8367c_setAsicPortBasedFidEn_def
       rtl8367c_getAsicPortBasedFidEn_def leD)

interpretation trans: port_bits "\<lambda>p. 0x9D0 + p" "\<lambda>_. 0" 11 "0x7FF"
  rtl8367c_setAsicVlanTransparent rtl8367c_getAsicVlanTransparent
  by unfold_locales
     (simp_all add: layouts rtl8367c_setAsicVlanTransparent_def rtl8367c_getAsicVlanTransparent_def
       field_defs leD)

interpretation keep_lo: port_bits keep_reg keep_off 8 "0xFF"
  "\<lambda>p. rtl8367c_setAsicRegBits (keep_reg p) (keep_mask p)"
  "\<lambda>p. rtl8367c_getAsicRegBits (keep_reg p) (keep_mask p)"
  by unfold_locales (simp_all add: layouts field_masks(7) mask_eq_exp_minus_1)

interpretation keep_hi: port_bits keep_ext_reg keep_ext_off 3 7
  "\<lambda>p. rtl8367c_setAsicRegBits (keep_ext_reg p) (keep_ext_mask p)"
  "\<lambda>p. rtl8367c_getAsicRegBits (keep_ext_reg p) (keep_ext_mask p)"
  by unfold_locales (simp_all add: layouts field_masks(8) mask_eq_exp_minus_1)

lemma and_15_le: "(m :: u32) AND 15 \<le> 15" and and_3_le: "(m :: u32) AND 3 \<le> 3"
  by (simp_all add: word_and_le1)

interpretation stp: port_bits "RTL8367C_VLAN_MSTI_REG (m AND 15)" msti_off 2 3
  "\<lambda>p. rtl8367c_setAsicSpanningTreeStatus p (m AND 15)"
  "\<lambda>p. rtl8367c_getAsicSpanningTreeStatus p (m AND 15)" for m
  by unfold_locales
     (simp_all add: msti_layout and_15_le rtl8367c_setAsicSpanningTreeStatus_def
       rtl8367c_getAsicSpanningTreeStatus_def field_masks(6) mask_eq_exp_minus_1 leD)

lemma put_whole: "v \<le> 0xFFFF \<Longrightarrow> put_field (field_mask 0 16) v w = ucast v"
proof -
  assume "v \<le> 0xFFFF"
  then have v: "\<forall>k\<ge>16. \<not> bit v k" by (simp add: le_FFFF_iff_bits)
  have "(0xFFFF :: u32) = field_mask 0 16" by (simp add: field_defs)
  then have lsb: "lsb_of (field_mask 0 16) = 0" using mask_F(4) by metis
  show ?thesis unfolding put_field_def lsb
    by (rule bit_word_eqI) (auto simp: field_mask_def bit_simps)
qed

lemma get_whole: "get_field (field_mask 0 16) w = ucast w"
proof -
  have m: "field_mask 0 16 = 0xFFFF" by (simp add: field_defs)
  have "(ucast w :: u32) AND field_mask 0 16 = ucast w"
    by (rule bit_word_eqI) (auto simp: field_mask_def bit_simps dest: bit_imp_le_length)
  then show ?thesis unfolding get_field_def by (simp add: m)
qed

interpretation fid: port_field pbfid_reg "\<lambda>_. 0" 16 15
  rtl8367c_setAsicPortBasedFid rtl8367c_getAsicPortBasedFid
proof
  fix p v :: u32 and A and c :: swt and view :: "'d \<Rightarrow> chip_view" and Q
  assume p: "p \<le> 10" and v: "v \<le> 15" and A: "cfg_regs \<subseteq> A"
    and Q: "Q (Ok ()) (put_reg_field (pbfid_reg p) (field_mask 0 16) v c)"
  have r: "pbfid_reg p \<in> cfg_regs" using field_layoutD(1) [OF layouts(5) p] .
  have v': "v \<le> 0xFFFF" using v by (simp add: word_le_nat_alt)
  show "wp view A (rtl8367c_setAsicPortBasedFid p v) Q c"
    using p v r A Q cfg_not_ctrl [OF r]
    by (auto simp: rtl8367c_setAsicPortBasedFid_def leD put_reg_field_def put_whole [OF v']
        intro!: wp_setAsicReg v')
next
  fix p :: u32 and A and c :: swt and view :: "'d \<Rightarrow> chip_view" and Q
  assume p: "p \<le> 10" and A: "cfg_regs \<subseteq> A"
    and Q: "Q (Ok (get_field (field_mask 0 16) (sw_reg c (pbfid_reg p)))) c"
  have r: "pbfid_reg p \<in> cfg_regs" using field_layoutD(1) [OF layouts(5) p] .
  show "wp view A (rtl8367c_getAsicPortBasedFid p) Q c"
    using p r A Q
    by (auto simp: rtl8367c_getAsicPortBasedFid_def leD get_whole intro!: wp_getAsicReg)
qed (simp_all add: layouts mask_eq_exp_minus_1)

text \<open>The three parts of a protocol-and-port based entry.\<close>

interpretation ppbv: port_bits "\<lambda>_. RTL8367C_VLAN_PPB_VALID_REG (i AND 3)" unat 1 1
  "\<lambda>p. rtl8367c_setAsicRegBits (RTL8367C_VLAN_PPB_VALID_REG (i AND 3)) (push_bit (unat p) 1)"
  "\<lambda>p. rtl8367c_getAsicRegBits (RTL8367C_VLAN_PPB_VALID_REG (i AND 3)) (push_bit (unat p) 1)" for i
  by unfold_locales (simp_all add: ppb_valid_layout [OF and_3_le, simplified] field_defs mask_Suc_0)

interpretation ppbi: port_bits "ppb_index_reg (i AND 3)" ppb_off 5 31
  "\<lambda>p. rtl8367c_setAsicRegBits (ppb_index_reg (i AND 3) p) (ppb_index_mask p)"
  "\<lambda>p. rtl8367c_getAsicRegBits (ppb_index_reg (i AND 3) p) (ppb_index_mask p)" for i
  by unfold_locales (simp_all add: ppb_index_layout [OF and_3_le] field_masks(5) mask_eq_exp_minus_1)

interpretation ppbp: port_bits "\<lambda>p. RTL8367C_VLAN_PPB_PRIORITY_ITEM_REG p (i AND 3)" pri_off 3 7
  "\<lambda>p. rtl8367c_setAsicRegBits (RTL8367C_VLAN_PPB_PRIORITY_ITEM_REG p (i AND 3))
         (RTL8367C_VLAN_PPB_PRIORITY_ITEM_MASK p)"
  "\<lambda>p. rtl8367c_getAsicRegBits (RTL8367C_VLAN_PPB_PRIORITY_ITEM_REG p (i AND 3))
         (RTL8367C_VLAN_PPB_PRIORITY_ITEM_MASK p)" for i
  by unfold_locales (simp_all add: ppb_pri_layout [OF and_3_le] field_masks(4) mask_eq_exp_minus_1)

end
