(* ===== verification/Vlan.thy ===== *)
theory Vlan
  imports AsicVlan
begin

text \<open>
  \<open>rtl8367c/vlan.c\<close>: the VLAN API.  It checks the arguments, translates logical ports, keeps the
  bookkeeping arrays \<open>vlan_mbrCfgVid\<close> and \<open>vlan_mbrCfgUsage\<close> of the 32 member-configuration
  entries, and drives the register level of \<open>AsicVlan\<close>.  A pointer parameter of structure type
  is an \<open>option\<close>, \<open>None\<close> being the null pointer; a pointer that is only written through is an
  \<open>outptr\<close>.
\<close>

section \<open>Data\<close>

record rtk_vlan_cfg_t =
  cfg_mbr :: rtk_portmask_t
  cfg_untag :: rtk_portmask_t
  cfg_ivl_en :: u16
  cfg_fid_msti :: u16
  cfg_envlanpol :: u16
  cfg_meteridx :: u16
  cfg_vbpen :: u16
  cfg_vbpri :: u16

record rtk_vlan_mbrcfg_t =
  mb_evid :: u16
  mb_mbr :: rtk_portmask_t
  mb_fid_msti :: u16
  mb_envlanpol :: u16
  mb_meteridx :: u16
  mb_vbpen :: u16
  mb_vbpri :: u16

record rtk_vlan_protoAndPortInfo_t =
  pi_proto_type :: u32
  pi_frame_type :: u32
  pi_cvid :: u32
  pi_cpri :: u32

abbreviation (input) ACCEPT_FRAME_TYPE_END :: u32 where "ACCEPT_FRAME_TYPE_END \<equiv> 3"
abbreviation (input) FRAME_TYPE_END :: u32 where "FRAME_TYPE_END \<equiv> 3"
abbreviation (input) VLAN_TAG_MODE_END :: u32 where "VLAN_TAG_MODE_END \<equiv> 4"
abbreviation (input) STP_STATE_END :: u32 where "STP_STATE_END \<equiv> 4"
abbreviation (input) RESVID_ACTION_END :: u32 where "RESVID_ACTION_END \<equiv> 2"
abbreviation (input) RTK_MAX_NUM_OF_PROTO_TYPE :: u32 where "RTK_MAX_NUM_OF_PROTO_TYPE \<equiv> 0xFFFF"
abbreviation (input) RTK_MAX_NUM_OF_MSTI :: u32 where "RTK_MAX_NUM_OF_MSTI \<equiv> 0xF"
abbreviation (input) RTK_FID_MAX :: u32 where "RTK_FID_MAX \<equiv> 0xF"
abbreviation (input) EG_TAG_MODE_ORI :: u32 where "EG_TAG_MODE_ORI \<equiv> 0"

text \<open>Structures cleared by \<^verbatim>\<open>memset\<close>.\<close>

definition mc0 :: rtl8367c_vlanconfiguser where
  "mc0 = \<lparr>mc_evid = 0, mc_mbr = 0, mc_fid_msti = 0, mc_envlanpol = 0, mc_meteridx = 0,
     mc_vbpen = 0, mc_vbpri = 0\<rparr>"

definition v40 :: rtl8367c_user_vlan4kentry where
  "v40 = \<lparr>v4_vid = 0, v4_mbr = 0, v4_untag = 0, v4_fid_msti = 0, v4_envlanpol = 0,
     v4_meteridx = 0, v4_vbpen = 0, v4_vbpri = 0, v4_ivl_svl = 0\<rparr>"

section \<open>Bookkeeping\<close>

definition db_entry :: "nat \<Rightarrow> ('d gsw, vlan_mbrCfgType_t \<times> u32) drv" where
  "db_entry idx s =
     (if idx < length (vlan_mbrCfgUsage s) \<and> idx < length (vlan_mbrCfgVid s)
      then (Ok (vlan_mbrCfgUsage s ! idx, vlan_mbrCfgVid s ! idx), s) else (Fault, s))"

definition db_set :: "nat \<Rightarrow> vlan_mbrCfgType_t \<Rightarrow> u32 \<Rightarrow> ('d gsw, unit) drv" where
  "db_set idx usage vid s =
     (if idx < length (vlan_mbrCfgUsage s) \<and> idx < length (vlan_mbrCfgVid s)
      then (Ok (), s\<lparr>vlan_mbrCfgUsage := (vlan_mbrCfgUsage s)[idx := usage],
                     vlan_mbrCfgVid := (vlan_mbrCfgVid s)[idx := vid]\<rparr>)
      else (Fault, s))"

definition scan_phy_ports :: "(u32 \<Rightarrow> ('d gsw, unit) drv) \<Rightarrow> ('d gsw, unit) drv" where
  "scan_phy_ports body = forE [0..<RTK_SWITCH_PORT_NUM] (\<lambda>i.
     bindE rtk_switch_phyPortMask_get (\<lambda>m. if bit m i then body (of_nat i) else okE ()))"

section \<open>Initialisation\<close>

definition rtk_vlan_init :: "('d gsw, unit) drv" where
  "rtk_vlan_init =
     thenE RTK_CHK_INIT_STATE
     (thenE (modifyE (\<lambda>s. s\<lparr>vlan_mbrCfgVid := replicate 32 0,
                            vlan_mbrCfgUsage := replicate 32 MBRCFG_UNUSED\<rparr>))
     (thenE (forE [0..<32] (\<lambda>i. rtl8367c_setAsicVlanMemberConfig (of_nat i) mc0))
     (bindE rtk_switch_phyPortMask_get (\<lambda>pmask.
      thenE (rtl8367c_setAsicVlan4kEntry
               (v40\<lparr>v4_vid := 1, v4_mbr := ucast pmask, v4_untag := ucast pmask, v4_fid_msti := 0\<rparr>))
     (thenE (rtl8367c_setAsicVlanMemberConfig 0
               (mc0\<lparr>mc_evid := 1, mc_mbr := ucast pmask, mc_fid_msti := 0\<rparr>))
     (thenE (scan_phy_ports (\<lambda>i. thenE (rtl8367c_setAsicVlanPortBasedVID i 0 0)
               (rtl8367c_setAsicVlanEgressTagMode i EG_TAG_MODE_ORI)))
     (thenE (db_set 0 MBRCFG_USED_BY_VLAN 1)
     (thenE (scan_phy_ports (\<lambda>i. rtl8367c_setAsicVlanIngressFilter i ENABLED))
     (rtl8367c_setAsicVlanFilter ENABLED)))))))))"

section \<open>VLAN entries\<close>

text \<open>The member-configuration entry that mirrors a VLAN.\<close>

definition mc_of_cfg :: "u32 \<Rightarrow> u32 \<Rightarrow> rtk_vlan_cfg_t \<Rightarrow> rtl8367c_vlanconfiguser" where
  "mc_of_cfg vid phyMbrPmask cfg = \<lparr>
     mc_evid = ucast vid, mc_mbr = ucast phyMbrPmask, mc_fid_msti = cfg_fid_msti cfg,
     mc_envlanpol = cfg_envlanpol cfg, mc_meteridx = cfg_meteridx cfg,
     mc_vbpen = cfg_vbpen cfg, mc_vbpri = cfg_vbpri cfg\<rparr>"

definition mc_of_4k :: "u32 \<Rightarrow> rtl8367c_user_vlan4kentry \<Rightarrow> rtl8367c_vlanconfiguser" where
  "mc_of_4k vid e = \<lparr>
     mc_evid = ucast vid, mc_mbr = v4_mbr e, mc_fid_msti = v4_fid_msti e,
     mc_envlanpol = v4_envlanpol e, mc_meteridx = v4_meteridx e,
     mc_vbpen = v4_vbpen e, mc_vbpri = v4_vbpri e\<rparr>"

definition v4_of_cfg :: "u32 \<Rightarrow> u32 \<Rightarrow> u32 \<Rightarrow> rtk_vlan_cfg_t \<Rightarrow> rtl8367c_user_vlan4kentry" where
  "v4_of_cfg vid phyMbrPmask phyUntagPmask cfg = \<lparr>
     v4_vid = ucast vid, v4_mbr = ucast (phyMbrPmask AND 0xFFFF),
     v4_untag = ucast (phyUntagPmask AND 0xFFFF), v4_fid_msti = cfg_fid_msti cfg,
     v4_envlanpol = cfg_envlanpol cfg, v4_meteridx = cfg_meteridx cfg,
     v4_vbpen = cfg_vbpen cfg, v4_vbpri = cfg_vbpri cfg, v4_ivl_svl = cfg_ivl_en cfg\<rparr>"

text \<open>
  The two searches of \<open>rtk_vlan_set\<close>.  The first stops at the entry of the VLAN.  The second,
  for identifiers above 4095, also remembers the first unused entry; it leaves the loop by
  \<^verbatim>\<open>break\<close> before \<^verbatim>\<open>update_evid\<close> is set when it updates an entry.
\<close>

primrec vlan_set_update :: "u32 \<Rightarrow> u32 \<Rightarrow> rtl8367c_vlanconfiguser \<Rightarrow> nat list \<Rightarrow> ('d gsw, unit) drv" where
  "vlan_set_update vid phyMbrPmask vlanMC [] = okE ()"
| "vlan_set_update vid phyMbrPmask vlanMC (idx # rest) =
     bindE (db_entry idx) (\<lambda>(usage, v).
       if usage = MBRCFG_USED_BY_VLAN \<and> v = vid
       then (if phyMbrPmask = 0
             then thenE (rtl8367c_setAsicVlanMemberConfig (of_nat idx) mc0)
                    (db_set idx MBRCFG_UNUSED 0)
             else rtl8367c_setAsicVlanMemberConfig (of_nat idx) vlanMC)
       else vlan_set_update vid phyMbrPmask vlanMC rest)"

primrec vlan_set_evid :: "u32 \<Rightarrow> u32 \<Rightarrow> rtl8367c_vlanconfiguser \<Rightarrow> nat list \<Rightarrow> bool \<Rightarrow> u32 \<Rightarrow>
    ('d gsw, bool \<times> u32) drv" where
  "vlan_set_evid vid phyMbrPmask vlanMC [] update_evid empty_index = okE (update_evid, empty_index)"
| "vlan_set_evid vid phyMbrPmask vlanMC (idx # rest) update_evid empty_index =
     bindE (db_entry idx) (\<lambda>(usage, v).
       if usage = MBRCFG_USED_BY_VLAN \<and> v = vid
       then (if phyMbrPmask = 0
             then thenE (rtl8367c_setAsicVlanMemberConfig (of_nat idx) mc0)
                  (thenE (db_set idx MBRCFG_UNUSED 0)
                  (vlan_set_evid vid phyMbrPmask vlanMC rest True
                     (if empty_index = 0xffff then of_nat idx else empty_index)))
             else thenE (rtl8367c_setAsicVlanMemberConfig (of_nat idx) vlanMC)
                    (okE (update_evid, empty_index)))
       else vlan_set_evid vid phyMbrPmask vlanMC rest update_evid
              (if usage = MBRCFG_UNUSED \<and> empty_index = 0xffff then of_nat idx else empty_index))"

definition rtk_vlan_set :: "u32 \<Rightarrow> rtk_vlan_cfg_t option \<Rightarrow> ('d gsw, unit) drv" where
  "rtk_vlan_set vid pVlanCfg =
     thenE RTK_CHK_INIT_STATE
     (if vid > 0x1FFF then errE RT_ERR_VLAN_VID
      else (case pVlanCfg of
        None \<Rightarrow> errE RT_ERR_NULL_POINTER
      | Some cfg \<Rightarrow>
        thenE (RTK_CHK_PORTMASK_VALID (Some (cfg_mbr cfg)))
        (thenE (if vid \<le> 0xFFF then RTK_CHK_PORTMASK_VALID (Some (cfg_untag cfg)) else okE ())
        (if cfg_ivl_en cfg \<ge> 2 then errE RT_ERR_ENABLE
         else if cfg_fid_msti cfg > 15 then errE RT_ERR_L2_FID
         else if cfg_envlanpol cfg \<ge> 2 then errE RT_ERR_ENABLE
         else bindE rtk_switch_maxMeterId_get (\<lambda>max_meter.
           if ucast (cfg_meteridx cfg) > max_meter then errE RT_ERR_INPUT
           else if cfg_vbpen cfg \<ge> 2 then errE RT_ERR_ENABLE
           else if cfg_vbpri cfg > 7 then errE RT_ERR_INPUT
           else
             bindE (mapErrE RT_ERR_FAILED (rtk_switch_portmask_L2P_get (Some (cfg_mbr cfg)) PTR))
               (\<lambda>phyMbrPmask.
             bindE (mapErrE RT_ERR_FAILED (rtk_switch_portmask_L2P_get (Some (cfg_untag cfg)) PTR))
               (\<lambda>phyUntagPmask.
             if vid \<le> 0xFFF
             then (let vlan4K = v4_of_cfg vid phyMbrPmask phyUntagPmask cfg
                   in thenE (rtl8367c_setAsicVlan4kEntry vlan4K)
                        (vlan_set_update vid phyMbrPmask (mc_of_4k vid vlan4K) [0..<32]))
             else (let vlanMC = mc_of_cfg vid phyMbrPmask cfg
                   in bindE (vlan_set_evid vid phyMbrPmask vlanMC [0..<32] False 0xffff)
                       (\<lambda>(update_evid, empty_index).
                         if phyMbrPmask \<noteq> 0 \<and> \<not> update_evid \<and> empty_index \<noteq> 0xffff
                         then thenE (rtl8367c_setAsicVlanMemberConfig empty_index vlanMC)
                                (db_set (unat empty_index) MBRCFG_USED_BY_VLAN vid)
                         else okE ())))))))))"

text \<open>
  When no entry has the extended identifier, the caller's structure is returned as it was.
\<close>

definition cfg_of_mc :: "u32 \<Rightarrow> rtl8367c_vlanconfiguser \<Rightarrow> rtk_vlan_cfg_t" where
  "cfg_of_mc mbr mc = \<lparr>cfg_mbr = mbr, cfg_untag = 0, cfg_ivl_en = 0, cfg_fid_msti = mc_fid_msti mc,
     cfg_envlanpol = mc_envlanpol mc, cfg_meteridx = mc_meteridx mc, cfg_vbpen = mc_vbpen mc,
     cfg_vbpri = mc_vbpri mc\<rparr>"

definition vlan_get_evid_body :: "u32 \<Rightarrow> nat \<Rightarrow> rtk_vlan_cfg_t \<Rightarrow> ('d gsw, rtk_vlan_cfg_t) drv" where
  "vlan_get_evid_body vid idx cfg =
     bindE (db_entry idx) (\<lambda>(usage, v).
       if usage = MBRCFG_USED_BY_VLAN \<and> v = vid
       then bindE (rtl8367c_getAsicVlanMemberConfig (of_nat idx)) (\<lambda>vlanMC.
            bindE (mapErrE RT_ERR_FAILED (rtk_switch_portmask_P2L_get (ucast (mc_mbr vlanMC)) PTR))
              (\<lambda>mbr. okE (cfg_of_mc mbr vlanMC)))
       else okE cfg)"

definition rtk_vlan_get :: "u32 \<Rightarrow> rtk_vlan_cfg_t option \<Rightarrow> ('d gsw, rtk_vlan_cfg_t) drv" where
  "rtk_vlan_get vid pVlanCfg =
     thenE RTK_CHK_INIT_STATE
     (if vid > 0x1FFF then errE RT_ERR_VLAN_VID
      else (case pVlanCfg of
        None \<Rightarrow> errE RT_ERR_NULL_POINTER
      | Some cfg \<Rightarrow>
          if vid \<le> 0xFFF
          then bindE (rtl8367c_getAsicVlan4kEntry (v40\<lparr>v4_vid := ucast vid\<rparr>)) (\<lambda>vlan4K.
               bindE (mapErrE RT_ERR_FAILED (rtk_switch_portmask_P2L_get (ucast (v4_mbr vlan4K)) PTR))
                 (\<lambda>mbr.
               bindE (mapErrE RT_ERR_FAILED (rtk_switch_portmask_P2L_get (ucast (v4_untag vlan4K)) PTR))
                 (\<lambda>untag.
               okE \<lparr>cfg_mbr = mbr, cfg_untag = untag, cfg_ivl_en = v4_ivl_svl vlan4K,
                     cfg_fid_msti = v4_fid_msti vlan4K, cfg_envlanpol = v4_envlanpol vlan4K,
                     cfg_meteridx = v4_meteridx vlan4K, cfg_vbpen = v4_vbpen vlan4K,
                     cfg_vbpri = v4_vbpri vlan4K\<rparr>)))
          else foldE (vlan_get_evid_body vid) [0..<32] cfg))"

definition rtk_vlan_egrFilterEnable_set :: "rtk_enable_t \<Rightarrow> ('d gsw, unit) drv" where
  "rtk_vlan_egrFilterEnable_set egrFilter =
     thenE RTK_CHK_INIT_STATE
     (if egrFilter \<ge> RTK_ENABLE_END then errE RT_ERR_ENABLE else rtl8367c_setAsicVlanFilter egrFilter)"

definition rtk_vlan_egrFilterEnable_get :: "outptr \<Rightarrow> ('d gsw, rtk_enable_t) drv" where
  "rtk_vlan_egrFilterEnable_get pEgrFilter =
     thenE RTK_CHK_INIT_STATE
     (if pEgrFilter = NULLP then errE RT_ERR_NULL_POINTER else rtl8367c_getAsicVlanFilter)"

definition rtk_vlan_mbrCfg_set :: "u32 \<Rightarrow> rtk_vlan_mbrcfg_t option \<Rightarrow> ('d gsw, unit) drv" where
  "rtk_vlan_mbrCfg_set idx pMbrcfg =
     thenE RTK_CHK_INIT_STATE
     (case pMbrcfg of
        None \<Rightarrow> errE RT_ERR_NULL_POINTER
      | Some m \<Rightarrow>
        if idx > RTL8367C_CVIDXMAX then errE RT_ERR_INPUT
        else if mb_evid m > RTL8367C_EVIDMAX then errE RT_ERR_INPUT
        else if mb_fid_msti m > 15 then errE RT_ERR_L2_FID
        else if mb_envlanpol m \<ge> 2 then errE RT_ERR_ENABLE
        else bindE rtk_switch_maxMeterId_get (\<lambda>max_meter.
          if ucast (mb_meteridx m) > max_meter then errE RT_ERR_FILTER_METER_ID
          else if mb_vbpen m \<ge> 2 then errE RT_ERR_ENABLE
          else if mb_vbpri m > 7 then errE RT_ERR_QOS_INT_PRIORITY
          else thenE (RTK_CHK_PORTMASK_VALID (Some (mb_mbr m)))
            (bindE (mapErrE RT_ERR_FAILED (rtk_switch_portmask_L2P_get (Some (mb_mbr m)) PTR))
              (\<lambda>phyMbrPmask.
               let mbrCfg = \<lparr>mc_evid = mb_evid m, mc_mbr = ucast phyMbrPmask,
                     mc_fid_msti = mb_fid_msti m, mc_envlanpol = mb_envlanpol m,
                     mc_meteridx = mb_meteridx m, mc_vbpen = mb_vbpen m, mc_vbpri = mb_vbpri m\<rparr>
               in thenE (rtl8367c_setAsicVlanMemberConfig idx mbrCfg)
                    (if mc_evid mbrCfg = 0 \<and> mc_mbr mbrCfg = 0
                     then db_set (unat idx) MBRCFG_UNUSED 0
                     else db_set (unat idx) MBRCFG_USED_BY_VLAN (ucast (mc_evid mbrCfg)))))))"

definition rtk_vlan_mbrCfg_get :: "u32 \<Rightarrow> outptr \<Rightarrow> ('d gsw, rtk_vlan_mbrcfg_t) drv" where
  "rtk_vlan_mbrCfg_get idx pMbrcfg =
     thenE RTK_CHK_INIT_STATE
     (if pMbrcfg = NULLP then errE RT_ERR_NULL_POINTER
      else if idx > RTL8367C_CVIDXMAX then errE RT_ERR_INPUT
      else bindE (rtl8367c_getAsicVlanMemberConfig idx) (\<lambda>mbrCfg.
           bindE (mapErrE RT_ERR_FAILED (rtk_switch_portmask_P2L_get (ucast (mc_mbr mbrCfg)) PTR))
             (\<lambda>mbr. okE \<lparr>mb_evid = mc_evid mbrCfg, mb_mbr = mbr, mb_fid_msti = mc_fid_msti mbrCfg,
                mb_envlanpol = mc_envlanpol mbrCfg, mb_meteridx = mc_meteridx mbrCfg,
                mb_vbpen = mc_vbpen mbrCfg, mb_vbpri = mc_vbpri mbrCfg\<rparr>)))"

section \<open>Finding or creating a member-configuration entry\<close>

primrec find_vid :: "u32 \<Rightarrow> nat list \<Rightarrow> ('d gsw, nat option) drv" where
  "find_vid vid [] = okE None"
| "find_vid vid (idx # rest) =
     bindE (db_entry idx) (\<lambda>(usage, v).
       if usage = MBRCFG_USED_BY_VLAN \<and> v = vid then okE (Some idx) else find_vid vid rest)"

primrec find_empty :: "nat list \<Rightarrow> ('d gsw, nat option) drv" where
  "find_empty [] = okE None"
| "find_empty (idx # rest) =
     bindE (db_entry idx) (\<lambda>(usage, v).
       if usage = MBRCFG_UNUSED then okE (Some idx) else find_empty rest)"

definition refresh_db :: "nat \<Rightarrow> ('d gsw, unit) drv" where
  "refresh_db idx =
     bindE (rtl8367c_getAsicVlanMemberConfig (of_nat idx)) (\<lambda>vlanMC.
       if mc_evid vlanMC = 0 \<and> mc_mbr vlanMC = 0 then db_set idx MBRCFG_UNUSED 0
       else db_set idx MBRCFG_USED_BY_VLAN (ucast (mc_evid vlanMC)))"

definition create_mbr :: "u32 \<Rightarrow> rtl8367c_user_vlan4kentry \<Rightarrow> nat \<Rightarrow> ('d gsw, u32) drv" where
  "create_mbr vid vlan4K empty_idx =
     thenE (rtl8367c_setAsicVlanMemberConfig (of_nat empty_idx)
              (if vid > 0xFFF then mc0\<lparr>mc_evid := ucast vid\<rparr> else mc_of_4k vid vlan4K))
     (thenE (db_set empty_idx MBRCFG_USED_BY_VLAN vid) (okE (of_nat empty_idx)))"

definition rtk_vlan_checkAndCreateMbr :: "u32 \<Rightarrow> outptr \<Rightarrow> ('d gsw, u32) drv" where
  "rtk_vlan_checkAndCreateMbr vid pIndex =
     thenE RTK_CHK_INIT_STATE
     (if vid > 0x1FFF then errE RT_ERR_VLAN_VID
      else if pIndex = NULLP then errE RT_ERR_NULL_POINTER
      else bindE (if vid \<le> 0xFFF then rtl8367c_getAsicVlan4kEntry (v40\<lparr>v4_vid := ucast vid\<rparr>)
                  else okE v40) (\<lambda>vlan4K.
        bindE (find_vid vid [0..<32]) (\<lambda>found.
          case found of Some idx \<Rightarrow> okE (of_nat idx)
          | None \<Rightarrow>
              thenE (forE [0..<32] refresh_db)
              (bindE (find_vid vid [0..<32]) (\<lambda>again.
                case again of Some idx \<Rightarrow> okE (of_nat idx)
                | None \<Rightarrow>
                    bindE (find_empty [0..<32]) (\<lambda>unused.
                      case unused of None \<Rightarrow> errE RT_ERR_TBL_FULL
                      | Some empty_idx \<Rightarrow> create_mbr vid vlan4K empty_idx))))))"

section \<open>Per-port settings\<close>

definition rtk_vlan_portPvid_set :: "rtk_port_t \<Rightarrow> u32 \<Rightarrow> u32 \<Rightarrow> ('d gsw, unit) drv" where
  "rtk_vlan_portPvid_set port pvid priority =
     thenE RTK_CHK_INIT_STATE
     (thenE (RTK_CHK_PORT_VALID port)
     (if pvid > 0x1FFF then errE RT_ERR_VLAN_VID
      else if priority > RTL8367C_PRIMAX then errE RT_ERR_VLAN_PRIORITY
      else bindE (rtk_vlan_checkAndCreateMbr pvid PTR) (\<lambda>index.
           bindE (rtk_switch_port_L2P_get port) (\<lambda>phy.
           rtl8367c_setAsicVlanPortBasedVID phy index priority))))"

definition rtk_vlan_portPvid_get :: "rtk_port_t \<Rightarrow> outptr \<Rightarrow> outptr \<Rightarrow> ('d gsw, u32 \<times> u32) drv" where
  "rtk_vlan_portPvid_get port pPvid pPriority =
     thenE RTK_CHK_INIT_STATE
     (thenE (RTK_CHK_PORT_VALID port)
     (if pPvid = NULLP then errE RT_ERR_NULL_POINTER
      else if pPriority = NULLP then errE RT_ERR_NULL_POINTER
      else bindE (rtk_switch_port_L2P_get port) (\<lambda>phy.
           bindE (rtl8367c_getAsicVlanPortBasedVID phy) (\<lambda>(index, pri).
           bindE (rtl8367c_getAsicVlanMemberConfig index) (\<lambda>mbrCfg.
           okE (ucast (mc_evid mbrCfg), pri))))))"

text \<open>
  The common shape of the other per-port functions: initialisation check, port check, the
  function's own argument check, translation of the port, register access.
\<close>

definition port_op :: "rtk_port_t \<Rightarrow> ('d gsw, unit) drv \<Rightarrow> (u32 \<Rightarrow> ('d gsw, 'a) drv) \<Rightarrow> ('d gsw, 'a) drv" where
  "port_op port checks f =
     thenE RTK_CHK_INIT_STATE
     (thenE (RTK_CHK_PORT_VALID port)
     (thenE checks (bindE (rtk_switch_port_L2P_get port) f)))"

definition check_that :: "bool \<Rightarrow> rt_error \<Rightarrow> ('d gsw, unit) drv" where
  "check_that ok e = (if ok then okE () else errE e)"

definition not_null :: "outptr \<Rightarrow> ('d gsw, unit) drv" where
  "not_null p = check_that (p \<noteq> NULLP) RT_ERR_NULL_POINTER"

definition rtk_vlan_portIgrFilterEnable_set :: "rtk_port_t \<Rightarrow> rtk_enable_t \<Rightarrow> ('d gsw, unit) drv" where
  "rtk_vlan_portIgrFilterEnable_set port igr_filter =
     port_op port (check_that (igr_filter < RTK_ENABLE_END) RT_ERR_ENABLE)
       (\<lambda>phy. rtl8367c_setAsicVlanIngressFilter phy igr_filter)"

definition rtk_vlan_portIgrFilterEnable_get :: "rtk_port_t \<Rightarrow> outptr \<Rightarrow> ('d gsw, rtk_enable_t) drv" where
  "rtk_vlan_portIgrFilterEnable_get port pIgr_filter =
     port_op port (not_null pIgr_filter) rtl8367c_getAsicVlanIngressFilter"

definition rtk_vlan_portAcceptFrameType_set :: "rtk_port_t \<Rightarrow> u32 \<Rightarrow> ('d gsw, unit) drv" where
  "rtk_vlan_portAcceptFrameType_set port accept_frame_type =
     port_op port (check_that (accept_frame_type < ACCEPT_FRAME_TYPE_END) RT_ERR_VLAN_ACCEPT_FRAME_TYPE)
       (\<lambda>phy. rtl8367c_setAsicVlanAccpetFrameType phy accept_frame_type)"

definition rtk_vlan_portAcceptFrameType_get :: "rtk_port_t \<Rightarrow> outptr \<Rightarrow> ('d gsw, u32) drv" where
  "rtk_vlan_portAcceptFrameType_get port pAccept_frame_type =
     port_op port (not_null pAccept_frame_type) rtl8367c_getAsicVlanAccpetFrameType"

definition rtk_vlan_tagMode_set :: "rtk_port_t \<Rightarrow> u32 \<Rightarrow> ('d gsw, unit) drv" where
  "rtk_vlan_tagMode_set port tag_mode =
     port_op port (check_that (tag_mode < VLAN_TAG_MODE_END) RT_ERR_PORT_ID)
       (\<lambda>phy. rtl8367c_setAsicVlanEgressTagMode phy tag_mode)"

definition rtk_vlan_tagMode_get :: "rtk_port_t \<Rightarrow> outptr \<Rightarrow> ('d gsw, u32) drv" where
  "rtk_vlan_tagMode_get port pTag_mode =
     port_op port (not_null pTag_mode) rtl8367c_getAsicVlanEgressTagMode"

definition portmask_set_op ::
  "rtk_port_t \<Rightarrow> rtk_portmask_t option \<Rightarrow> (u32 \<Rightarrow> u32 \<Rightarrow> ('d gsw, unit) drv) \<Rightarrow> ('d gsw, unit) drv" where
  "portmask_set_op egr_port pIgr_pmask set_asic =
     thenE RTK_CHK_INIT_STATE
     (thenE (RTK_CHK_PORT_VALID egr_port)
     (case pIgr_pmask of
        None \<Rightarrow> errE RT_ERR_NULL_POINTER
      | Some m \<Rightarrow>
          thenE (RTK_CHK_PORTMASK_VALID (Some m))
          (bindE (mapErrE RT_ERR_FAILED (rtk_switch_portmask_L2P_get (Some m) PTR)) (\<lambda>pmask.
           bindE (rtk_switch_port_L2P_get egr_port) (\<lambda>phy. set_asic phy pmask)))))"

definition portmask_get_op ::
  "rtk_port_t \<Rightarrow> outptr \<Rightarrow> (u32 \<Rightarrow> ('d gsw, u32) drv) \<Rightarrow> ('d gsw, rtk_portmask_t) drv" where
  "portmask_get_op egr_port pIgr_pmask get_asic =
     port_op egr_port (not_null pIgr_pmask) (\<lambda>phy.
       bindE (get_asic phy) (\<lambda>pmask.
         mapErrE RT_ERR_FAILED (rtk_switch_portmask_P2L_get pmask PTR)))"

definition rtk_vlan_transparent_set :: "rtk_port_t \<Rightarrow> rtk_portmask_t option \<Rightarrow> ('d gsw, unit) drv" where
  "rtk_vlan_transparent_set egr_port pIgr_pmask =
     portmask_set_op egr_port pIgr_pmask rtl8367c_setAsicVlanTransparent"

definition rtk_vlan_transparent_get :: "rtk_port_t \<Rightarrow> outptr \<Rightarrow> ('d gsw, rtk_portmask_t) drv" where
  "rtk_vlan_transparent_get egr_port pIgr_pmask =
     portmask_get_op egr_port pIgr_pmask rtl8367c_getAsicVlanTransparent"

definition rtk_vlan_keep_set :: "rtk_port_t \<Rightarrow> rtk_portmask_t option \<Rightarrow> ('d gsw, unit) drv" where
  "rtk_vlan_keep_set egr_port pIgr_pmask =
     portmask_set_op egr_port pIgr_pmask rtl8367c_setAsicVlanEgressKeep"

definition rtk_vlan_keep_get :: "rtk_port_t \<Rightarrow> outptr \<Rightarrow> ('d gsw, rtk_portmask_t) drv" where
  "rtk_vlan_keep_get egr_port pIgr_pmask =
     portmask_get_op egr_port pIgr_pmask rtl8367c_getAsicVlanEgressKeep"

definition rtk_vlan_portFid_set :: "rtk_port_t \<Rightarrow> rtk_enable_t \<Rightarrow> u32 \<Rightarrow> ('d gsw, unit) drv" where
  "rtk_vlan_portFid_set port enable fid =
     thenE RTK_CHK_INIT_STATE
     (thenE (RTK_CHK_PORT_VALID port)
     (if enable \<ge> RTK_ENABLE_END then errE RT_ERR_ENABLE
      else if fid > RTK_FID_MAX then errE RT_ERR_L2_FID
      else bindE (rtk_switch_port_L2P_get port) (\<lambda>phy.
           thenE (rtl8367c_setAsicPortBasedFidEn phy enable)
             (bindE (rtk_switch_port_L2P_get port) (\<lambda>phy. rtl8367c_setAsicPortBasedFid phy fid)))))"

definition rtk_vlan_portFid_get :: "rtk_port_t \<Rightarrow> outptr \<Rightarrow> outptr \<Rightarrow> ('d gsw, u32 \<times> u32) drv" where
  "rtk_vlan_portFid_get port pEnable pFid =
     port_op port (thenE (not_null pEnable) (not_null pFid)) (\<lambda>phy.
       bindE (rtl8367c_getAsicPortBasedFidEn phy) (\<lambda>en.
       bindE (rtk_switch_port_L2P_get port) (\<lambda>phy.
       bindE (rtl8367c_getAsicPortBasedFid phy) (\<lambda>fid. okE (en, fid)))))"

definition rtk_stp_mstpState_set :: "u32 \<Rightarrow> rtk_port_t \<Rightarrow> u32 \<Rightarrow> ('d gsw, unit) drv" where
  "rtk_stp_mstpState_set msti port stp_state =
     port_op port (thenE (check_that (msti \<le> RTK_MAX_NUM_OF_MSTI) RT_ERR_MSTI)
                         (check_that (stp_state < STP_STATE_END) RT_ERR_MSTP_STATE))
       (\<lambda>phy. rtl8367c_setAsicSpanningTreeStatus phy msti stp_state)"

definition rtk_stp_mstpState_get :: "u32 \<Rightarrow> rtk_port_t \<Rightarrow> outptr \<Rightarrow> ('d gsw, u32) drv" where
  "rtk_stp_mstpState_get msti port pStp_state =
     port_op port (thenE (check_that (msti \<le> RTK_MAX_NUM_OF_MSTI) RT_ERR_MSTI) (not_null pStp_state))
       (\<lambda>phy. rtl8367c_getAsicSpanningTreeStatus phy msti)"

section \<open>Spanning-tree groups and global settings\<close>

definition rtk_vlan_stg_set :: "u32 \<Rightarrow> u32 \<Rightarrow> ('d gsw, unit) drv" where
  "rtk_vlan_stg_set vid stg =
     thenE RTK_CHK_INIT_STATE
     (if vid > 0xFFF then errE RT_ERR_VLAN_VID
      else if stg > RTL8367C_MSTIMAX then errE RT_ERR_MSTI
      else bindE (rtl8367c_getAsicVlan4kEntry (v40\<lparr>v4_vid := ucast vid\<rparr>)) (\<lambda>vlan4K.
           rtl8367c_setAsicVlan4kEntry (vlan4K\<lparr>v4_fid_msti := ucast stg\<rparr>)))"

definition rtk_vlan_stg_get :: "u32 \<Rightarrow> outptr \<Rightarrow> ('d gsw, u32) drv" where
  "rtk_vlan_stg_get vid pStg =
     thenE RTK_CHK_INIT_STATE
     (if vid > 0xFFF then errE RT_ERR_VLAN_VID
      else if pStg = NULLP then errE RT_ERR_NULL_POINTER
      else bindE (rtl8367c_getAsicVlan4kEntry (v40\<lparr>v4_vid := ucast vid\<rparr>)) (\<lambda>vlan4K.
           okE (ucast (v4_fid_msti vlan4K))))"

definition rtk_vlan_UntagDscpPriorityEnable_set :: "rtk_enable_t \<Rightarrow> ('d gsw, unit) drv" where
  "rtk_vlan_UntagDscpPriorityEnable_set enable =
     thenE RTK_CHK_INIT_STATE
     (if enable \<ge> RTK_ENABLE_END then errE RT_ERR_ENABLE
      else rtl8367c_setAsicVlanUntagDscpPriorityEn enable)"

definition rtk_vlan_UntagDscpPriorityEnable_get :: "outptr \<Rightarrow> ('d gsw, rtk_enable_t) drv" where
  "rtk_vlan_UntagDscpPriorityEnable_get pEnable =
     thenE RTK_CHK_INIT_STATE
     (if pEnable = NULLP then errE RT_ERR_NULL_POINTER else rtl8367c_getAsicVlanUntagDscpPriorityEn)"

definition rtk_vlan_reservedVidAction_set :: "u32 \<Rightarrow> u32 \<Rightarrow> ('d gsw, unit) drv" where
  "rtk_vlan_reservedVidAction_set action_vid0 action_vid4095 =
     thenE RTK_CHK_INIT_STATE
     (if action_vid0 \<ge> RESVID_ACTION_END then errE RT_ERR_INPUT
      else if action_vid4095 \<ge> RESVID_ACTION_END then errE RT_ERR_INPUT
      else rtl8367c_setReservedVidAction action_vid0 action_vid4095)"

definition rtk_vlan_reservedVidAction_get :: "outptr \<Rightarrow> outptr \<Rightarrow> ('d gsw, u32 \<times> u32) drv" where
  "rtk_vlan_reservedVidAction_get pAction_vid0 pAction_vid4095 =
     thenE RTK_CHK_INIT_STATE
     (if pAction_vid0 = NULLP then errE RT_ERR_NULL_POINTER
      else if pAction_vid4095 = NULLP then errE RT_ERR_NULL_POINTER
      else rtl8367c_getReservedVidAction pAction_vid0 pAction_vid4095)"

definition rtk_vlan_realKeepRemarkEnable_set :: "rtk_enable_t \<Rightarrow> ('d gsw, unit) drv" where
  "rtk_vlan_realKeepRemarkEnable_set enabled =
     thenE RTK_CHK_INIT_STATE
     (if enabled \<ge> RTK_ENABLE_END then errE RT_ERR_INPUT else rtl8367c_setRealKeepRemarkEn enabled)"

definition rtk_vlan_realKeepRemarkEnable_get :: "outptr \<Rightarrow> ('d gsw, rtk_enable_t) drv" where
  "rtk_vlan_realKeepRemarkEnable_get pEnabled =
     thenE RTK_CHK_INIT_STATE
     (if pEnabled = NULLP then errE RT_ERR_NULL_POINTER else rtl8367c_getRealKeepRemarkEn)"

definition rtk_vlan_reset :: "('d gsw, unit) drv" where
  "rtk_vlan_reset = thenE RTK_CHK_INIT_STATE rtl8367c_resetVlan"

section \<open>Protocol-and-port based VLANs\<close>

text \<open>The search of \<open>add\<close>, from the last group down: the matching group, or the last empty one seen.\<close>

primrec ppb_search :: "rtk_vlan_protoAndPortInfo_t \<Rightarrow> nat list \<Rightarrow> u32 \<Rightarrow> ('d gsw, u32 \<times> u32) drv" where
  "ppb_search info [] empt = okE (0xFF, empt)"
| "ppb_search info (i # rest) empt =
     bindE (rtl8367c_getAsicVlanProtocolBasedGroupData (of_nat i)) (\<lambda>ppb_data_cfg.
       if pg_etherType ppb_data_cfg = pi_proto_type info \<and> pg_frameType ppb_data_cfg = pi_frame_type info
       then okE (of_nat i, empt)
       else ppb_search info rest
              (if pg_etherType ppb_data_cfg = 0 \<and> pg_frameType ppb_data_cfg = 0 then of_nat i else empt))"

definition rtk_vlan_protoAndPortBasedVlan_add ::
  "rtk_port_t \<Rightarrow> rtk_vlan_protoAndPortInfo_t option \<Rightarrow> ('d gsw, unit) drv" where
  "rtk_vlan_protoAndPortBasedVlan_add port pInfo =
     thenE RTK_CHK_INIT_STATE
     (thenE (RTK_CHK_PORT_VALID port)
     (case pInfo of
        None \<Rightarrow> errE RT_ERR_NULL_POINTER
      | Some info \<Rightarrow>
        if pi_proto_type info > RTK_MAX_NUM_OF_PROTO_TYPE then errE RT_ERR_OUT_OF_RANGE
        else if pi_frame_type info \<ge> FRAME_TYPE_END then errE RT_ERR_OUT_OF_RANGE
        else if pi_cvid info > 0xFFF then errE RT_ERR_VLAN_VID
        else if pi_cpri info > RTL8367C_PRIMAX then errE RT_ERR_VLAN_PRIORITY
        else bindE (ppb_search info [3, 2, 1, 0] 0xFF) (\<lambda>(exist, empt).
          bindE (if exist = 0xFF \<and> empt = 0xFF then errE RT_ERR_TBL_FULL
                 else if exist < 4 then okE exist
                 else if empt < 4
                 then thenE (rtl8367c_setAsicVlanProtocolBasedGroupData empt
                        \<lparr>pg_frameType = pi_frame_type info, pg_etherType = pi_proto_type info\<rparr>)
                      (okE empt)
                 else errE RT_ERR_FAILED) (\<lambda>used.
          bindE (rtk_vlan_checkAndCreateMbr (pi_cvid info) PTR) (\<lambda>index.
          bindE (rtk_switch_port_L2P_get port) (\<lambda>phy.
          rtl8367c_setAsicVlanPortAndProtocolBased phy used
            \<lparr>pv_valid = 1, pv_vlan_idx = index, pv_priority = pi_cpri info\<rparr>))))))"

primrec ppb_find :: "u32 \<Rightarrow> u32 \<Rightarrow> nat list \<Rightarrow> ('d gsw, u32) drv" where
  "ppb_find proto_type frame_type [] = errE RT_ERR_TBL_FULL"
| "ppb_find proto_type frame_type (i # rest) =
     bindE (rtl8367c_getAsicVlanProtocolBasedGroupData (of_nat i)) (\<lambda>ppb_data_cfg.
       if pg_frameType ppb_data_cfg = frame_type \<and> pg_etherType ppb_data_cfg = proto_type
       then okE (of_nat i) else ppb_find proto_type frame_type rest)"

text \<open>\<open>pInfo\<close> is written through without a check for null.\<close>

definition rtk_vlan_protoAndPortBasedVlan_get ::
  "rtk_port_t \<Rightarrow> u32 \<Rightarrow> u32 \<Rightarrow> outptr \<Rightarrow> ('d gsw, rtk_vlan_protoAndPortInfo_t) drv" where
  "rtk_vlan_protoAndPortBasedVlan_get port proto_type frame_type pInfo =
     thenE RTK_CHK_INIT_STATE
     (thenE (RTK_CHK_PORT_VALID port)
     (if proto_type > RTK_MAX_NUM_OF_PROTO_TYPE then errE RT_ERR_OUT_OF_RANGE
      else if frame_type \<ge> FRAME_TYPE_END then errE RT_ERR_OUT_OF_RANGE
      else bindE (ppb_find proto_type frame_type [0, 1, 2, 3]) (\<lambda>ppb_idx.
        bindE (rtk_switch_port_L2P_get port) (\<lambda>phy.
        bindE (rtl8367c_getAsicVlanPortAndProtocolBased phy ppb_idx PTR) (\<lambda>ppb_vlan_cfg.
          if pv_valid ppb_vlan_cfg = 0 then errE RT_ERR_FAILED
          else if pInfo = NULLP then faultE
          else bindE (getsE vlan_mbrCfgVid) (\<lambda>vids.
            bindE (indexE vids (unat (pv_vlan_idx ppb_vlan_cfg))) (\<lambda>cvid.
            okE \<lparr>pi_proto_type = proto_type, pi_frame_type = frame_type, pi_cvid = cvid,
                  pi_cpri = pv_priority ppb_vlan_cfg\<rparr>)))))))"

definition ppb_clear :: "rtl8367c_protocolvlancfg" where
  "ppb_clear = \<lparr>pv_valid = 0, pv_vlan_idx = 0, pv_priority = 0\<rparr>"

definition ppb_del_body :: "rtk_port_t \<Rightarrow> u32 \<Rightarrow> u32 \<Rightarrow> nat \<Rightarrow> u32 \<Rightarrow> ('d gsw, u32) drv" where
  "ppb_del_body port proto_type frame_type i ppb_idx =
     bindE (rtl8367c_getAsicVlanProtocolBasedGroupData (of_nat i)) (\<lambda>ppb_data_cfg.
       if pg_frameType ppb_data_cfg = frame_type \<and> pg_etherType ppb_data_cfg = proto_type
       then bindE (rtk_switch_port_L2P_get port) (\<lambda>phy.
            thenE (rtl8367c_setAsicVlanPortAndProtocolBased phy (of_nat i) ppb_clear)
              (okE (of_nat i)))
       else okE ppb_idx)"

primrec ppb_in_use :: "u32 \<Rightarrow> nat list \<Rightarrow> ('d gsw, bool) drv" where
  "ppb_in_use ppb_idx [] = okE False"
| "ppb_in_use ppb_idx (i # rest) =
     bindE rtk_switch_phyPortMask_get (\<lambda>m.
       if bit m i
       then bindE (rtl8367c_getAsicVlanPortAndProtocolBased (of_nat i) ppb_idx PTR) (\<lambda>ppb_vlan_cfg.
         if pv_valid ppb_vlan_cfg = 1 then okE True else ppb_in_use ppb_idx rest)
       else ppb_in_use ppb_idx rest)"

definition pg0 :: rtl8367c_protocolgdatacfg where
  "pg0 = \<lparr>pg_frameType = 0, pg_etherType = 0\<rparr>"

definition rtk_vlan_protoAndPortBasedVlan_del :: "rtk_port_t \<Rightarrow> u32 \<Rightarrow> u32 \<Rightarrow> ('d gsw, unit) drv" where
  "rtk_vlan_protoAndPortBasedVlan_del port proto_type frame_type =
     thenE RTK_CHK_INIT_STATE
     (thenE (RTK_CHK_PORT_VALID port)
     (if proto_type > RTK_MAX_NUM_OF_PROTO_TYPE then errE RT_ERR_OUT_OF_RANGE
      else if frame_type \<ge> FRAME_TYPE_END then errE RT_ERR_OUT_OF_RANGE
      else bindE (foldE (ppb_del_body port proto_type frame_type) [0, 1, 2, 3] 0) (\<lambda>ppb_idx.
        bindE (ppb_in_use ppb_idx [0..<RTK_SWITCH_PORT_NUM]) (\<lambda>bUsed.
        if \<not> bUsed then rtl8367c_setAsicVlanProtocolBasedGroupData ppb_idx pg0 else okE ()))))"

definition ppb_used_body :: "nat \<Rightarrow> bool list \<Rightarrow> ('d gsw, bool list) drv" where
  "ppb_used_body i bUsed =
     bindE rtk_switch_phyPortMask_get (\<lambda>m.
       if bit m i
       then foldE (\<lambda>j used.
         bindE (rtl8367c_getAsicVlanPortAndProtocolBased (of_nat i) (of_nat j) PTR) (\<lambda>ppb_vlan_cfg.
         okE (if pv_valid ppb_vlan_cfg = 1 then used[j := True] else used))) [0..<4] bUsed
       else okE bUsed)"

definition rtk_vlan_protoAndPortBasedVlan_delAll :: "rtk_port_t \<Rightarrow> ('d gsw, unit) drv" where
  "rtk_vlan_protoAndPortBasedVlan_delAll port =
     thenE RTK_CHK_INIT_STATE
     (thenE (RTK_CHK_PORT_VALID port)
     (thenE (forE [0..<4] (\<lambda>i. bindE (rtk_switch_port_L2P_get port) (\<lambda>phy.
               rtl8367c_setAsicVlanPortAndProtocolBased phy (of_nat i) ppb_clear)))
     (bindE (foldE ppb_used_body [0..<RTK_SWITCH_PORT_NUM] (replicate 4 False)) (\<lambda>bUsed.
      forE [0..<4] (\<lambda>i. if \<not> bUsed ! i
        then rtl8367c_setAsicVlanProtocolBasedGroupData (of_nat i) pg0 else okE ())))))"

end
