(* ===== verification/Vlan_Safety.thy ===== *)
theory Vlan_Safety
  imports Vlan
begin

text \<open>
  Freedom from undefined behaviour of the VLAN API.  No assumption is made about the chip: whatever
  the bus returns, no call dereferences a null pointer, indexes an array out of range or shifts by
  too much, in any order of calls and with any arguments.  The one exception is
  \<open>rtk_vlan_protoAndPortBasedVlan_get\<close> with a null result pointer.
\<close>

section \<open>Register level\<close>

lemma port_bit_safe: "(p :: u32) \<le> 10 \<Longrightarrow> unat p < 32"
  by (simp add: word_le_nat_alt)

lemma safe_busy_poll:
  assumes "dev_closed P"
  shows "safe P (busy_poll n) (\<lambda>_. True)"
  by (induction n) (auto intro!: safe_rules safe_asic [OF assms])

lemma safe_mapE_T: "(\<And>i. i \<in> set is \<Longrightarrow> safe P (f i) (\<lambda>_. True)) \<Longrightarrow> safe P (mapE f is) (\<lambda>_. True)"
  by (rule safe_weaken [OF safe_mapE [where Q = "\<lambda>_. True"]]) auto

lemmas asic_vlan_defs =
  rtl8367c_setAsicVlanMemberConfig_def rtl8367c_getAsicVlanMemberConfig_def
  rtl8367c_setAsicVlan4kEntry_def rtl8367c_getAsicVlan4kEntry_def table_read_def
  rtl8367c_setAsicVlanAccpetFrameType_def rtl8367c_getAsicVlanAccpetFrameType_def
  rtl8367c_setAsicVlanIngressFilter_def rtl8367c_getAsicVlanIngressFilter_def
  rtl8367c_setAsicVlanEgressTagMode_def rtl8367c_getAsicVlanEgressTagMode_def
  rtl8367c_setAsicVlanPortBasedVID_def rtl8367c_getAsicVlanPortBasedVID_def
  rtl8367c_setAsicVlanProtocolBasedGroupData_def rtl8367c_getAsicVlanProtocolBasedGroupData_def
  rtl8367c_setAsicVlanPortAndProtocolBased_def
  rtl8367c_setAsicVlanFilter_def rtl8367c_getAsicVlanFilter_def
  rtl8367c_setAsicVlanUntagDscpPriorityEn_def rtl8367c_getAsicVlanUntagDscpPriorityEn_def
  rtl8367c_setAsicPortBasedFid_def rtl8367c_getAsicPortBasedFid_def
  rtl8367c_setAsicPortBasedFidEn_def rtl8367c_getAsicPortBasedFidEn_def
  rtl8367c_setAsicSpanningTreeStatus_def rtl8367c_getAsicSpanningTreeStatus_def
  rtl8367c_setAsicVlanTransparent_def rtl8367c_getAsicVlanTransparent_def
  rtl8367c_setAsicVlanEgressKeep_def rtl8367c_getAsicVlanEgressKeep_def
  rtl8367c_setReservedVidAction_def rtl8367c_getReservedVidAction_def
  rtl8367c_setRealKeepRemarkEn_def rtl8367c_getRealKeepRemarkEn_def rtl8367c_resetVlan_def

lemma safe_asic_vlan:
  assumes "dev_closed P"
  shows "safe P (rtl8367c_setAsicVlanMemberConfig i m) (\<lambda>_. True)"
    and "safe P (rtl8367c_getAsicVlanMemberConfig i) (\<lambda>_. True)"
    and "safe P (rtl8367c_setAsicVlan4kEntry e) (\<lambda>_. True)"
    and "safe P (rtl8367c_getAsicVlan4kEntry e) (\<lambda>_. True)"
    and "safe P (rtl8367c_setAsicVlanAccpetFrameType p v) (\<lambda>_. True)"
    and "safe P (rtl8367c_getAsicVlanAccpetFrameType p) (\<lambda>_. True)"
    and "safe P (rtl8367c_setAsicVlanIngressFilter p v) (\<lambda>_. True)"
    and "safe P (rtl8367c_getAsicVlanIngressFilter p) (\<lambda>_. True)"
    and "safe P (rtl8367c_setAsicVlanEgressTagMode p v) (\<lambda>_. True)"
    and "safe P (rtl8367c_getAsicVlanEgressTagMode p) (\<lambda>_. True)"
    and "safe P (rtl8367c_setAsicVlanPortBasedVID p i v) (\<lambda>_. True)"
    and "safe P (rtl8367c_getAsicVlanPortBasedVID p) (\<lambda>_. True)"
    and "safe P (rtl8367c_setAsicVlanProtocolBasedGroupData i g) (\<lambda>_. True)"
    and "safe P (rtl8367c_getAsicVlanProtocolBasedGroupData i) (\<lambda>_. True)"
    and "safe P (rtl8367c_setAsicVlanPortAndProtocolBased p i b) (\<lambda>_. True)"
    and "safe P (rtl8367c_setAsicVlanFilter v) (\<lambda>_. True)"
    and "safe P rtl8367c_getAsicVlanFilter (\<lambda>_. True)"
    and "safe P (rtl8367c_setAsicVlanUntagDscpPriorityEn v) (\<lambda>_. True)"
    and "safe P rtl8367c_getAsicVlanUntagDscpPriorityEn (\<lambda>_. True)"
    and "safe P (rtl8367c_setAsicPortBasedFid p v) (\<lambda>_. True)"
    and "safe P (rtl8367c_getAsicPortBasedFid p) (\<lambda>_. True)"
    and "safe P (rtl8367c_setAsicPortBasedFidEn p v) (\<lambda>_. True)"
    and "safe P (rtl8367c_getAsicPortBasedFidEn p) (\<lambda>_. True)"
    and "safe P (rtl8367c_setAsicSpanningTreeStatus p i v) (\<lambda>_. True)"
    and "safe P (rtl8367c_getAsicSpanningTreeStatus p i) (\<lambda>_. True)"
    and "safe P (rtl8367c_setAsicVlanTransparent p v) (\<lambda>_. True)"
    and "safe P (rtl8367c_getAsicVlanTransparent p) (\<lambda>_. True)"
    and "safe P (rtl8367c_setAsicVlanEgressKeep p v) (\<lambda>_. True)"
    and "safe P (rtl8367c_getAsicVlanEgressKeep p) (\<lambda>_. True)"
    and "safe P (rtl8367c_setReservedVidAction v v') (\<lambda>_. True)"
    and "safe P (rtl8367c_getReservedVidAction q q') (\<lambda>_. True)"
    and "safe P (rtl8367c_setRealKeepRemarkEn v) (\<lambda>_. True)"
    and "safe P rtl8367c_getRealKeepRemarkEn (\<lambda>_. True)"
    and "safe P rtl8367c_resetVlan (\<lambda>_. True)"
  unfolding asic_vlan_defs Let_def
  by (auto intro!: safe_rules safe_asic [OF assms] safe_busy_poll [OF assms] safe_forE safe_mapE_T
      port_bit_safe simp: not_less)

text \<open>An index read from the chip is at most 31, because the field has five bits.\<close>

lemma safe_getAsicRegBits_le:
  assumes "dev_closed P" and "w + k \<le> 16" and "0 < w"
  shows "safe P (rtl8367c_getAsicRegBits a (field_mask k w)) (\<lambda>v. v \<le> mask w)"
proof -
  have m: "mask16 (field_mask k w)" "lsb_of (field_mask k w) = k"
    using mask16_mask [of w k] assms by (simp_all add: field_mask_def add.commute)
  have shift: "bitsShift_loop (field_mask k w) 0 = Some n \<Longrightarrow> n = k" for n
    using m(2) by (simp add: lsb_of_def)
  have "drop_bit k (v AND field_mask k w) \<le> mask w" for v :: u32
    unfolding le_mask_iff_bits by (simp add: field_mask_def bit_simps)
  then show ?thesis
    unfolding rtl8367c_getAsicRegBits_def
    by (auto intro!: safe_rules safe_access [OF assms(1)] split: option.split dest: shift)
qed

lemma safe_getPPB:
  assumes "dev_closed P"
  shows "safe P (rtl8367c_getAsicVlanPortAndProtocolBased p i q) (\<lambda>b. pv_vlan_idx b \<le> 31)"
proof (cases "p \<le> 10")
  case True
  have "list_all (\<lambda>p. 5 + ppb_off p \<le> 16) all_port_ids" by code_simp
  from safe_getAsicRegBits_le [OF assms all_ports [OF this True], of "ppb_index_reg i p"]
  have "safe P (rtl8367c_getAsicRegBits (ppb_index_reg i p) (ppb_index_mask p)) (\<lambda>v. v \<le> 31)"
    by (simp add: field_masks(5) mask_eq_exp_minus_1)
  then have step: "safe P (bindE (rtl8367c_getAsicRegBits (ppb_index_reg i p) (ppb_index_mask p)) (\<lambda>idx.
      bindE (rtl8367c_getAsicRegBits b m) (\<lambda>pri.
      okE \<lparr>pv_valid = v, pv_vlan_idx = idx, pv_priority = pri\<rparr>))) (\<lambda>b. pv_vlan_idx b \<le> 31)" for b m v
    by (rule safe_bindE) (auto intro!: safe_bindT safe_okE safe_asic [OF assms])
  show ?thesis
    unfolding rtl8367c_getAsicVlanPortAndProtocolBased_def
    by (intro safe_if safe_errE, rule safe_bindT [OF safe_asic(3) [OF assms]], rule step)
qed (simp add: rtl8367c_getAsicVlanPortAndProtocolBased_def not_le safe_errE)

section \<open>API level\<close>

lemmas safe_up = safe_asic [OF gsw_up_dev] safe_asic_vlan [OF gsw_up_dev]
  safe_weaken [OF safe_getPPB [OF gsw_up_dev]]

lemma safe_db_entry: "i < 32 \<Longrightarrow> safe gsw_up (db_entry i) (\<lambda>_. True)"
  by (simp add: safe_def db_entry_def gsw_up_def gsw_inv_def)

lemma safe_db_set: "i < 32 \<Longrightarrow> safe gsw_up (db_set i u v) (\<lambda>_. True)"
  by (simp add: safe_def db_set_def gsw_up_def gsw_inv_def)

lemma safe_split [safe_rules]:
  "(\<And>a b. safe P (f a b) Q) \<Longrightarrow> safe P (case x of (a, b) \<Rightarrow> f a b) Q"
  by (cases x) simp

lemma safe_option [safe_rules]:
  "(x = None \<Longrightarrow> safe P n Q) \<Longrightarrow> (\<And>y. x = Some y \<Longrightarrow> safe P (f y) Q) \<Longrightarrow>
   safe P (case x of None \<Rightarrow> n | Some y \<Rightarrow> f y) Q"
  by (cases x) simp_all

lemma safe_vlan_set_update:
  "set is \<subseteq> {..<32} \<Longrightarrow> safe gsw_up (vlan_set_update vid phy m is) (\<lambda>_. True)"
  by (induction "is") (auto intro!: safe_rules safe_up safe_db_entry safe_db_set)

lemma safe_vlan_set_evid:
  assumes "set is \<subseteq> {..<32}" and "ei = 0xffff \<or> unat ei < 32"
  shows "safe gsw_up (vlan_set_evid vid phy m is u ei) (\<lambda>(_, ei'). ei' = 0xffff \<or> unat ei' < 32)"
  using assms
proof (induction "is" arbitrary: u ei)
  case (Cons i "is")
  then have i: "i < 32" by simp
  have "unat (of_nat i :: u32) < 32" using i by (simp add: unat_of_nat)
  with Cons.prems Cons.IH i show ?case
    by (auto intro!: safe_rules safe_up safe_db_entry safe_db_set)
qed (auto intro!: safe_okE)

lemma safe_find_vid: "set is \<subseteq> {..<32} \<Longrightarrow>
    safe gsw_up (find_vid vid is) (\<lambda>r. \<forall>i. r = Some i \<longrightarrow> i < 32)"
  by (induction "is") (auto intro!: safe_rules safe_db_entry)

lemma safe_find_empty: "set is \<subseteq> {..<32} \<Longrightarrow>
    safe gsw_up (find_empty is) (\<lambda>r. \<forall>i. r = Some i \<longrightarrow> i < 32)"
  by (induction "is") (auto intro!: safe_rules safe_db_entry)

lemma safe_create_mbr: "i < 32 \<Longrightarrow> safe gsw_up (create_mbr vid e i) (\<lambda>_. True)"
  unfolding create_mbr_def by (auto intro!: safe_rules safe_up safe_db_set)

lemma safe_forE_up: "(\<And>i. i \<in> set is \<Longrightarrow> safe gsw_up (f i) (\<lambda>_. True)) \<Longrightarrow> safe gsw_up (forE is f) (\<lambda>_. True)"
  by (rule safe_forE)

text \<open>Inside the API the initialisation check is repeated by nested calls.\<close>

lemma safe_chk_init_up [safe_rules]: "safe gsw_up RTK_CHK_INIT_STATE (\<lambda>_. True)"
  by (rule safe_ready) (auto simp: chk_init_run)

lemma safe_checkAndCreateMbr: "safe gsw_up (rtk_vlan_checkAndCreateMbr vid q) (\<lambda>_. True)"
  unfolding rtk_vlan_checkAndCreateMbr_def refresh_db_def
  by (intro safe_rules safe_up safe_forE_up safe_bindE [OF safe_find_vid] safe_bindE [OF safe_find_empty]
      safe_create_mbr safe_db_set) auto

section \<open>Calls\<close>

text \<open>The calls of the interface; results are discarded.  The arguments are arbitrary, except that the result
  pointer of \<open>rtk_vlan_protoAndPortBasedVlan_get\<close> is not null.\<close>

definition discardE :: "('s, 'a) drv \<Rightarrow> ('s, unit) drv" where
  "discardE m = bindE m (\<lambda>_. okE ())"

inductive vlan_api :: "('d gsw, unit) drv \<Rightarrow> bool" where
  init: "vlan_api (rtk_vlan_init)"
| vset: "vlan_api (rtk_vlan_set vid cfg)"
| vget: "vlan_api (discardE (rtk_vlan_get vid cfg))"
| egrFilterEnable_set: "vlan_api (rtk_vlan_egrFilterEnable_set v)"
| egrFilterEnable_get: "vlan_api (discardE (rtk_vlan_egrFilterEnable_get q))"
| mbrCfg_set: "vlan_api (rtk_vlan_mbrCfg_set i m)"
| mbrCfg_get: "vlan_api (discardE (rtk_vlan_mbrCfg_get i q))"
| checkAndCreateMbr: "vlan_api (discardE (rtk_vlan_checkAndCreateMbr vid q))"
| portPvid_set: "vlan_api (rtk_vlan_portPvid_set p v pri)"
| portPvid_get: "vlan_api (discardE (rtk_vlan_portPvid_get p q1 q2))"
| portIgrFilterEnable_set: "vlan_api (rtk_vlan_portIgrFilterEnable_set p v)"
| portIgrFilterEnable_get: "vlan_api (discardE (rtk_vlan_portIgrFilterEnable_get p q))"
| portAcceptFrameType_set: "vlan_api (rtk_vlan_portAcceptFrameType_set p v)"
| portAcceptFrameType_get: "vlan_api (discardE (rtk_vlan_portAcceptFrameType_get p q))"
| tagMode_set: "vlan_api (rtk_vlan_tagMode_set p v)"
| tagMode_get: "vlan_api (discardE (rtk_vlan_tagMode_get p q))"
| transparent_set: "vlan_api (rtk_vlan_transparent_set p m)"
| transparent_get: "vlan_api (discardE (rtk_vlan_transparent_get p q))"
| keep_set: "vlan_api (rtk_vlan_keep_set p m)"
| keep_get: "vlan_api (discardE (rtk_vlan_keep_get p q))"
| portFid_set: "vlan_api (rtk_vlan_portFid_set p en fid)"
| portFid_get: "vlan_api (discardE (rtk_vlan_portFid_get p q1 q2))"
| mstpState_set: "vlan_api (rtk_stp_mstpState_set t p v)"
| mstpState_get: "vlan_api (discardE (rtk_stp_mstpState_get t p q))"
| stg_set: "vlan_api (rtk_vlan_stg_set vid v)"
| stg_get: "vlan_api (discardE (rtk_vlan_stg_get vid q))"
| UntagDscpPriorityEnable_set: "vlan_api (rtk_vlan_UntagDscpPriorityEnable_set v)"
| UntagDscpPriorityEnable_get: "vlan_api (discardE (rtk_vlan_UntagDscpPriorityEnable_get q))"
| reservedVidAction_set: "vlan_api (rtk_vlan_reservedVidAction_set v w)"
| reservedVidAction_get: "vlan_api (discardE (rtk_vlan_reservedVidAction_get q1 q2))"
| realKeepRemarkEnable_set: "vlan_api (rtk_vlan_realKeepRemarkEnable_set v)"
| realKeepRemarkEnable_get: "vlan_api (discardE (rtk_vlan_realKeepRemarkEnable_get q))"
| reset: "vlan_api (rtk_vlan_reset)"
| protoAndPortBasedVlan_add: "vlan_api (rtk_vlan_protoAndPortBasedVlan_add p info)"
| protoAndPortBasedVlan_get: "vlan_api (discardE (rtk_vlan_protoAndPortBasedVlan_get p t f PTR))"
| protoAndPortBasedVlan_del: "vlan_api (rtk_vlan_protoAndPortBasedVlan_del p t f)"
| protoAndPortBasedVlan_delAll: "vlan_api (rtk_vlan_protoAndPortBasedVlan_delAll p)"

text \<open>The states a client can bring the driver to.\<close>

inductive vlan_reach :: "'d gsw \<Rightarrow> 'd gsw \<Rightarrow> bool" for s where
  start: "vlan_reach s s"
| call: "vlan_reach s t \<Longrightarrow> vlan_api m \<Longrightarrow> m t = (r, u) \<Longrightarrow> vlan_reach s u"

lemma safe_discardE [safe_rules]: "safe P m (\<lambda>_. True) \<Longrightarrow> safe P (discardE m) (\<lambda>_. True)"
  unfolding discardE_def by (auto intro!: safe_rules)

lemma safe_check [safe_rules]: "safe P (check_that b e) (\<lambda>_. True)" "safe P (not_null q) (\<lambda>_. True)"
  by (auto simp: check_that_def not_null_def intro!: safe_rules)

lemma safe_port_op [safe_rules]:
  "safe gsw_up chk (\<lambda>_. True) \<Longrightarrow> (\<And>phy. safe gsw_up (f phy) Q) \<Longrightarrow> safe gsw_inv (port_op p chk f) Q"
  unfolding port_op_def by (intro safe_rules)

lemma safe_scan_phy_ports: "(\<And>p. safe gsw_up (f p) (\<lambda>_. True)) \<Longrightarrow> safe gsw_up (scan_phy_ports f) (\<lambda>_. True)"
  unfolding scan_phy_ports_def by (auto intro!: safe_forE safe_rules)

lemma safe_ppb_search: "safe gsw_up (ppb_search info is e) (\<lambda>_. True)"
  by (induction "is" arbitrary: e) (auto intro!: safe_rules safe_up)

lemma safe_ppb_find: "safe gsw_up (ppb_find t f is) (\<lambda>_. True)"
  by (induction "is") (auto intro!: safe_rules safe_up)

lemma safe_ppb_in_use: "safe gsw_up (ppb_in_use i is) (\<lambda>_. True)"
  by (induction "is") (auto intro!: safe_rules safe_up)

lemma safe_reset_db: "safe gsw_up (modifyE (\<lambda>s. s\<lparr>vlan_mbrCfgVid := replicate 32 0,
    vlan_mbrCfgUsage := replicate 32 MBRCFG_UNUSED\<rparr>)) (\<lambda>_. True)"
  by (auto simp: safe_def modifyE_def gsw_up_def gsw_inv_def)

lemma safe_vlan_init: "safe gsw_inv rtk_vlan_init (\<lambda>_. True)"
  unfolding rtk_vlan_init_def
  by (intro safe_rules safe_reset_db safe_forE safe_up safe_scan_phy_ports safe_db_set) simp_all

lemma safe_vlan_set: "safe gsw_inv (rtk_vlan_set vid cfg) (\<lambda>_. True)"
proof -
  have store: "safe gsw_up (bindE (vlan_set_evid vid phy m [0..<32] False 0xffff) (\<lambda>(update_evid, empty_index).
      if phy \<noteq> 0 \<and> \<not> update_evid \<and> empty_index \<noteq> 0xffff
      then thenE (rtl8367c_setAsicVlanMemberConfig empty_index m)
             (db_set (unat empty_index) MBRCFG_USED_BY_VLAN vid) else okE ())) (\<lambda>_. True)" for phy m
    by (rule safe_bindE [OF safe_vlan_set_evid]) (auto intro!: safe_rules safe_up safe_db_set)
  show ?thesis
    unfolding rtk_vlan_set_def Let_def
    by (intro safe_init_checked safe_if safe_option safe_errE safe_thenE safe_chk_portmask safe_okE
        safe_bindT [OF safe_maxMeterId] safe_bindT [OF safe_mapErrE [OF safe_portmask_L2P]]
        safe_up safe_vlan_set_update store) auto
qed

lemma safe_get_evid: "i < 32 \<Longrightarrow> safe gsw_up (vlan_get_evid_body vid i cfg) (\<lambda>_. True)"
  unfolding vlan_get_evid_body_def by (intro safe_rules safe_up safe_db_entry) simp_all

lemma safe_ppb_get: "safe gsw_inv (rtk_vlan_protoAndPortBasedVlan_get p t f PTR) (\<lambda>_. True)"
proof -
  have idx: "safe gsw_up (bindE (getsE vlan_mbrCfgVid) (\<lambda>vids. bindE (indexE vids (unat i)) g)) (\<lambda>_. True)"
    if "i \<le> 31" and "\<And>x. safe gsw_up (g x) (\<lambda>_. True)" for i :: u32
      and g :: "u32 \<Rightarrow> ('d gsw, rtk_vlan_protoAndPortInfo_t) drv"
  proof (rule safe_bindE [where R = "\<lambda>xs. length xs = 32"])
    show "safe gsw_up (getsE vlan_mbrCfgVid) (\<lambda>xs. length xs = 32)"
      by (rule safe_getsE) (simp add: gsw_up_def gsw_inv_def)
  qed (use that in \<open>simp add: word_le_nat_alt\<close>)
  show ?thesis
    unfolding rtk_vlan_protoAndPortBasedVlan_get_def
    by (intro safe_init_checked safe_thenE safe_chk_port safe_if safe_errE safe_bindT [OF safe_ppb_find]
        safe_bindT [OF safe_port_L2P] safe_bindE [OF safe_getPPB [OF gsw_up_dev]] idx safe_okE) auto
qed

lemma safe_ppb_used_body: "safe gsw_up (ppb_used_body i used) (\<lambda>_. True)"
  unfolding ppb_used_body_def
  by (intro safe_rules safe_foldE safe_up) simp_all

lemma safe_ppb_del_body: "safe gsw_up (ppb_del_body p t f i k) (\<lambda>_. True)"
  unfolding ppb_del_body_def by (intro safe_rules safe_up) simp_all

lemmas vlan_api_defs =
  rtk_vlan_egrFilterEnable_set_def rtk_vlan_egrFilterEnable_get_def
  rtk_vlan_mbrCfg_get_def rtk_vlan_portPvid_set_def rtk_vlan_portPvid_get_def
  rtk_vlan_portIgrFilterEnable_set_def rtk_vlan_portIgrFilterEnable_get_def
  rtk_vlan_portAcceptFrameType_set_def rtk_vlan_portAcceptFrameType_get_def
  rtk_vlan_tagMode_set_def rtk_vlan_tagMode_get_def
  rtk_vlan_transparent_set_def rtk_vlan_transparent_get_def rtk_vlan_keep_set_def rtk_vlan_keep_get_def
  portmask_set_op_def portmask_get_op_def rtk_vlan_portFid_set_def rtk_vlan_portFid_get_def
  rtk_stp_mstpState_set_def rtk_stp_mstpState_get_def rtk_vlan_stg_set_def rtk_vlan_stg_get_def
  rtk_vlan_UntagDscpPriorityEnable_set_def rtk_vlan_UntagDscpPriorityEnable_get_def
  rtk_vlan_reservedVidAction_set_def rtk_vlan_reservedVidAction_get_def
  rtk_vlan_realKeepRemarkEnable_set_def rtk_vlan_realKeepRemarkEnable_get_def rtk_vlan_reset_def
  rtk_vlan_protoAndPortBasedVlan_add_def rtk_vlan_protoAndPortBasedVlan_del_def
  rtk_vlan_protoAndPortBasedVlan_delAll_def rtk_vlan_get_def

lemma safe_mbrCfg_set: "safe gsw_inv (rtk_vlan_mbrCfg_set i m) (\<lambda>_. True)"
  unfolding rtk_vlan_mbrCfg_set_def Let_def
  by (intro safe_rules safe_up safe_db_set) (auto simp: not_less word_le_nat_alt)

lemma safe_checkAndCreateMbr_inv: "safe gsw_inv (rtk_vlan_checkAndCreateMbr vid q) (\<lambda>_. True)"
  unfolding rtk_vlan_checkAndCreateMbr_def refresh_db_def
  by (intro safe_init_checked safe_rules safe_up safe_forE_up safe_bindE [OF safe_find_vid]
      safe_bindE [OF safe_find_empty] safe_create_mbr safe_db_set) auto

lemma vlan_api_safe:
  assumes "vlan_api m"
  shows "safe gsw_inv m (\<lambda>_. True)"
  using assms
proof cases
  case init then show ?thesis by (simp add: safe_vlan_init)
next
  case vset then show ?thesis by (simp add: safe_vlan_set)
next
  case mbrCfg_set then show ?thesis by (simp add: safe_mbrCfg_set)
next
  case checkAndCreateMbr
  then show ?thesis by (auto intro!: safe_discardE safe_checkAndCreateMbr_inv)
next
  case protoAndPortBasedVlan_get then show ?thesis by (auto intro!: safe_discardE safe_ppb_get)
qed (simp only: vlan_api_defs, intro safe_rules safe_up safe_checkAndCreateMbr safe_ppb_search safe_ppb_in_use
      safe_foldE [OF safe_ppb_del_body] safe_foldE [OF safe_ppb_used_body] safe_foldE [OF safe_get_evid]
      safe_forE_up; simp)+

text \<open>A simulated switch in which port 0 has a valid entry in protocol group 0.\<close>

definition sim_ppb :: "sim_dev gsw" where
  "sim_ppb = (let s = sim_gsw 1 (Some rtl8367c_hal_Ctrl); v = sim_view (gsw_dev s) in
     s\<lparr>gsw_dev := (gsw_dev s)\<lparr>sim_view := v\<lparr>v_reg := (v_reg v)(RTL8367C_VLAN_PPB_VALID_REG 0 := 1)\<rparr>\<rparr>\<rparr>)"

text \<open>A run that ends where another run returns a value, but in undefined behaviour; an error of the other run
  is an error of this one.\<close>

definition faults_instead :: "'a outcome \<times> 's \<Rightarrow> 'b outcome \<times> 's \<Rightarrow> bool" where
  "faults_instead x y \<longleftrightarrow> snd y = snd x \<and> fst y = (case fst x of Err e \<Rightarrow> Err e | _ \<Rightarrow> Fault)"

lemma faults_bindE:
  "(\<And>x s. faults_instead (f x s) (g x s)) \<Longrightarrow> faults_instead (bindE m f s) (bindE m g s)"
  by (auto simp: bindE_def faults_instead_def split: prod.split outcome.split)

lemma faults_thenE: "(\<And>s. faults_instead (f s) (g s)) \<Longrightarrow> faults_instead (thenE m f s) (thenE m g s)"
  unfolding thenE_def by (rule faults_bindE)

lemma faults_errE: "faults_instead (errE e s) (errE e s)"
  by (simp add: faults_instead_def errE_def)

lemma ppb_get_null:
  "faults_instead (rtk_vlan_protoAndPortBasedVlan_get port pt ft PTR s) (rtk_vlan_protoAndPortBasedVlan_get port pt ft NULLP s)"
proof -
  have tail: "faults_instead (bindE (getsE vlan_mbrCfgVid) (\<lambda>vids. bindE (indexE vids i) (\<lambda>v. okE (k v))) s) (faultE s)"
    for i k and s :: "'a gsw"
    by (cases "i < length (vlan_mbrCfgVid s)") (simp_all add: faults_instead_def drv_simps indexE_def)
  show ?thesis
    unfolding rtk_vlan_protoAndPortBasedVlan_get_def
    by (intro faults_thenE) (auto intro!: faults_bindE faults_errE tail)
qed

section \<open>Properties\<close>

text \<open>
  C3. No sequence of calls of the VLAN interface, with any behaviour of the bus and the chip and
  with any arguments but one, runs into undefined behaviour; the argument left out is a null result
  pointer of \<open>rtk_vlan_protoAndPortBasedVlan_get\<close>, treated in the next property.  All the while the bookkeeping arrays keep their sizes, an
  initialised driver keeps a well-formed port table, and every further call returns a code.
\<close>

theorem vlan_api_never_faults:
  assumes "gsw_inv s" and "vlan_reach s t" and "vlan_api m"
  shows "gsw_inv t \<and> fst (m t) \<noteq> Fault"
proof -
  from assms(2) have "gsw_inv t"
    by induction (use assms(1) safeD(1) [OF vlan_api_safe] in blast)+
  with safeD_no_fault [OF vlan_api_safe [OF assms(3)]] show ?thesis by simp
qed

theorem vlan_api_never_faults_witness:
  "fst (rtk_vlan_protoAndPortBasedVlan_delAll 77 (sim_gsw 1 (Some rtl8367c_hal_Ctrl))) \<noteq> Fault"
proof -
  have "gsw_inv (sim_gsw 1 (Some rtl8367c_hal_Ctrl))" by (simp add: gsw_inv_def)
  from vlan_api_never_faults [OF this vlan_reach.start vlan_api.protoAndPortBasedVlan_delAll]
  show ?thesis by simp
qed

text \<open>
  C18. The exception: \<open>rtk_vlan_protoAndPortBasedVlan_get\<close> does not check its result pointer.  From any
  driver state that the calls keep, with any arguments and on any bus and chip: where the call with a valid pointer finds
  a valid entry and returns its contents, the call with a null pointer writes through it, after the same register
  accesses; where the call with a valid pointer returns an error code, so does the one with a null pointer.
\<close>

theorem ppb_get_null_faults:
  assumes "gsw_inv s"
  shows "case rtk_vlan_protoAndPortBasedVlan_get port proto_type frame_type PTR s of
     (Ok info, s') \<Rightarrow> rtk_vlan_protoAndPortBasedVlan_get port proto_type frame_type NULLP s = (Fault, s')
   | (Err e, s') \<Rightarrow> rtk_vlan_protoAndPortBasedVlan_get port proto_type frame_type NULLP s = (Err e, s')
   | (Fault, s') \<Rightarrow> False"
proof -
  obtain r t where run: "rtk_vlan_protoAndPortBasedVlan_get port proto_type frame_type PTR s = (r, t)" by fastforce
  with ppb_get_null [of port proto_type frame_type s]
  have null: "rtk_vlan_protoAndPortBasedVlan_get port proto_type frame_type NULLP s = (case r of Err e \<Rightarrow> Err e | _ \<Rightarrow> Fault, t)"
    by (auto simp: faults_instead_def prod_eq_iff)
  have "r \<noteq> Fault" using safeD_no_fault [OF safe_ppb_get assms, of port proto_type frame_type] run by simp
  with run null show ?thesis by (cases r) simp_all
qed

theorem ppb_get_null_faults_witness:
  "fst (rtk_vlan_protoAndPortBasedVlan_get 0 0 0 NULLP sim_ppb) = Fault"
proof -
  have inv: "gsw_inv sim_ppb" by (simp add: sim_ppb_def Let_def gsw_inv_def)
  have "case fst (rtk_vlan_protoAndPortBasedVlan_get 0 0 0 PTR sim_ppb) of Ok info \<Rightarrow> True | _ \<Rightarrow> False" by code_simp
  with ppb_get_null_faults [OF inv, of 0 0 0] show ?thesis by (auto split: prod.splits outcome.splits)
qed

end
