(* ===== verification/AsicVlan_Spec.thy ===== *)
theory AsicVlan_Spec
  imports AsicVlan
begin

text \<open>
  What the accessors of the VLAN unit do to the abstract switch: the member-configuration entries
  and the VLAN table are arrays of structures, a set operation replaces one element, a get
  operation returns it, and neither touches anything else.
\<close>

section \<open>Member configuration\<close>

definition hw_mbrcfg :: "u32 \<Rightarrow> swt \<Rightarrow> rtl8367c_vlanconfiguser" where
  "hw_mbrcfg index c = VlanMCStSmi2User (map (\<lambda>p. sw_reg c (mbrcfg_reg index p)) [0..<4])"

definition put_mbrcfg :: "u32 \<Rightarrow> rtl8367c_vlanconfiguser \<Rightarrow> swt \<Rightarrow> swt" where
  "put_mbrcfg index cfg c = c\<lparr>sw_reg := fold (\<lambda>p r. r(mbrcfg_reg index p :=
     VlanMCStUser2Smi cfg (replicate 4 0) ! p)) [0..<4] (sw_reg c)\<rparr>"

lemma mbrcfg_reg_unat:
  assumes "index \<le> 31" and "p < 4"
  shows "unat (mbrcfg_reg index p) = 0x728 + 4 * unat index + p"
  using assms by (simp add: mbrcfg_reg_def word_le_nat_alt unat_word_ariths unat_of_nat)

lemma mbrcfg_reg_in: "index \<le> 31 \<Longrightarrow> p < 4 \<Longrightarrow> mbrcfg_reg index p \<in> cfg_regs"
  using mbrcfg_reg_unat [of index p]
  by (simp add: cfg_regs_def cfg_reg_defs word_le_nat_alt word_unat_eq_iff)

lemma mbrcfg_reg_eq:
  assumes "i \<le> 31" and "j \<le> 31" and "p < 4" and "q < 4"
  shows "mbrcfg_reg i p = mbrcfg_reg j q \<longleftrightarrow> i = j \<and> p = q"
proof
  assume "mbrcfg_reg i p = mbrcfg_reg j q"
  then have "4 * unat i + p = 4 * unat j + q"
    using mbrcfg_reg_unat [OF assms(1,3)] mbrcfg_reg_unat [OF assms(2,4)] by simp
  with assms(3,4) have "unat i = unat j" and "p = q" by presburger+
  then show "i = j \<and> p = q" by (simp add: word_unat_eq_iff)
qed simp


lemma put_mbrcfg_frame:
  "(\<forall>p<4. a \<noteq> mbrcfg_reg index p) \<Longrightarrow> sw_reg (put_mbrcfg index cfg c) a = sw_reg c a"
  by (simp add: put_mbrcfg_def eval_nat_numeral)

lemma put_mbrcfg_at:
  assumes "index \<le> 31" and "p < 4"
  shows "sw_reg (put_mbrcfg index cfg c) (mbrcfg_reg index p) = VlanMCStUser2Smi cfg (replicate 4 0) ! p"
  using assms mbrcfg_reg_eq [OF assms(1,1,2)]
  by (auto simp: put_mbrcfg_def eval_nat_numeral less_Suc_eq)

lemma put_mbrcfg_fields [simp]:
  "sw_tbl (put_mbrcfg i cfg c) = sw_tbl c" "sw_init (put_mbrcfg i cfg c) = sw_init c"
  "sw_hal (put_mbrcfg i cfg c) = sw_hal c" "sw_mbrVid (put_mbrcfg i cfg c) = sw_mbrVid c"
  "sw_mbrUsage (put_mbrcfg i cfg c) = sw_mbrUsage c"
  by (simp_all add: put_mbrcfg_def)

lemma hw_put_mbrcfg [simp]:
  assumes "i \<le> 31" and "j \<le> 31" and "mc_ok cfg"
  shows "hw_mbrcfg j (put_mbrcfg i cfg c) = (if i = j then cfg else hw_mbrcfg j c)"
proof (cases "i = j")
  case True
  have "map (\<lambda>p. sw_reg (put_mbrcfg i cfg c) (mbrcfg_reg i p)) [0..<4] =
      map (\<lambda>p. VlanMCStUser2Smi cfg (replicate 4 0) ! p) [0..<4]"
    by (rule map_cong) (simp_all add: put_mbrcfg_at [OF assms(1)])
  also have "\<dots> = VlanMCStUser2Smi cfg (replicate 4 0)"
    by (simp add: VlanMCStUser2Smi_def eval_nat_numeral)
  finally show ?thesis
    using True mc.unpack_pack [OF assms(3)] by (simp add: hw_mbrcfg_def)
next
  case False
  have "map (\<lambda>p. sw_reg (put_mbrcfg i cfg c) (mbrcfg_reg j p)) [0..<4] =
      map (\<lambda>p. sw_reg c (mbrcfg_reg j p)) [0..<4]"
    by (rule map_cong [OF refl], rule put_mbrcfg_frame)
       (use False mbrcfg_reg_eq [OF assms(2,1)] in auto)
  with False show ?thesis unfolding hw_mbrcfg_def by (simp only: if_False)
qed

lemma wp_setMbr:
  assumes "index \<le> 31" and "mc_ok cfg" and A: "cfg_regs \<subseteq> A"
    and Q: "Q (Ok ()) (put_mbrcfg index cfg c)"
  shows "wp view A (rtl8367c_setAsicVlanMemberConfig index cfg) Q c"
proof -
  let ?w = "VlanMCStUser2Smi cfg (replicate 4 0)"
  have code: "rtl8367c_setAsicVlanMemberConfig index cfg =
      forE [0..<4] (\<lambda>p. rtl8367c_setAsicReg (mbrcfg_reg index p) (ucast (?w ! p)))"
    using assms(1,2) by (simp add: rtl8367c_setAsicVlanMemberConfig_def mc_ok_def leD Let_def)
  have fold_rec: "fold (\<lambda>p c. c\<lparr>sw_reg := (sw_reg c)(mbrcfg_reg index p := ?w ! p)\<rparr>) ps c =
      c\<lparr>sw_reg := fold (\<lambda>p r. r(mbrcfg_reg index p := ?w ! p)) ps (sw_reg c)\<rparr>" for ps c
    by (induction ps arbitrary: c) simp_all
  show ?thesis
    unfolding code
  proof (rule wp_forE [where I = "\<lambda>_. True" and
        g = "\<lambda>p c. c\<lparr>sw_reg := (sw_reg c)(mbrcfg_reg index p := ?w ! p)\<rparr>"])
    fix p c assume "p \<in> set [0..<4]"
    then have "mbrcfg_reg index p \<in> cfg_regs" using mbrcfg_reg_in [OF assms(1)] by simp
    then show "wp view A (rtl8367c_setAsicReg (mbrcfg_reg index p) (ucast (?w ! p)))
      (\<lambda>r c'. r = Ok () \<and> c' = c\<lparr>sw_reg := (sw_reg c)(mbrcfg_reg index p := ?w ! p)\<rparr>) c"
      using A cfg_not_ctrl by (auto intro!: wp_setAsicReg)
  qed (use Q in \<open>simp_all add: fold_rec put_mbrcfg_def\<close>)
qed

lemma wp_getMbr:
  assumes "index \<le> 31" and A: "cfg_regs \<subseteq> A" and Q: "Q (Ok (hw_mbrcfg index c)) c"
  shows "wp view A (rtl8367c_getAsicVlanMemberConfig index) Q c"
proof -
  have in_A: "mbrcfg_reg index p \<in> A" if "p < 4" for p
    using mbrcfg_reg_in [OF assms(1) that] A by auto
  have read: "wp view A (mapE (\<lambda>p. rtl8367c_getAsicReg (mbrcfg_reg index p)) ps)
      (\<lambda>r c'. r = Ok (map (\<lambda>p. ucast (sw_reg c (mbrcfg_reg index p))) ps) \<and> c' = c) c"
    if "set ps \<subseteq> {..<4}" for ps
    using that
  proof (induction ps)
    case (Cons p ps)
    then have "wp view A (mapE (\<lambda>p. rtl8367c_getAsicReg (mbrcfg_reg index p)) ps)
      (\<lambda>r c'. r = Ok (map (\<lambda>p. ucast (sw_reg c (mbrcfg_reg index p))) ps) \<and> c' = c) c" by simp
    with Cons.prems in_A show ?case
      by (auto intro!: wp_bindE wp_getAsicReg elim!: wp_weaken wp_okE simp: wp_okE)
  qed (simp add: wp_okE)
  have comp: "map ucast (map (\<lambda>p. ucast (sw_reg c (mbrcfg_reg index p)) :: u32) [0..<4]) =
      map (\<lambda>p. sw_reg c (mbrcfg_reg index p)) [0..<4]"
    by simp
  have "set [0..<4] \<subseteq> {..<4 :: nat}" by auto
  from read [OF this] Q assms(1) show ?thesis
    unfolding rtl8367c_getAsicVlanMemberConfig_def
    by (auto simp: leD hw_mbrcfg_def comp simp del: map_map intro!: wp_bindE
        elim!: wp_weaken intro: wp_okE)
qed

section \<open>VLAN table\<close>

lemma upt_3: "[0..<3] = [0, 1, 2 :: nat]"
  by (simp add: upt_rec)

lemma wp_table_regs: "(table_regs \<subseteq> A \<Longrightarrow> wp view A m Q c) \<Longrightarrow> wp view A m Q c"
  unfolding wp_def by (metis subsetI swt_rel_contract table_regs_in)

definition v4_blank :: "u16 \<Rightarrow> rtl8367c_user_vlan4kentry" where
  "v4_blank vid = \<lparr>v4_vid = vid, v4_mbr = 0, v4_untag = 0, v4_fid_msti = 0, v4_envlanpol = 0,
     v4_meteridx = 0, v4_vbpen = 0, v4_vbpri = 0, v4_ivl_svl = 0\<rparr>"

definition hw_4k :: "u16 \<Rightarrow> swt \<Rightarrow> rtl8367c_user_vlan4kentry" where
  "hw_4k vid c = Vlan4kStSmi2User (map (sw_tbl c TB_TARGET_CVLAN vid) [0..<3]) (v4_blank vid)"

definition put_4k :: "rtl8367c_user_vlan4kentry \<Rightarrow> swt \<Rightarrow> swt" where
  "put_4k e c =
     (let w = Vlan4kStUser2Smi e (replicate 3 0);
          c1 = c\<lparr>sw_reg := (sw_reg c)(0x510 := w ! 0, 0x511 := w ! 1, 0x512 := w ! 2,
                   RTL8367C_TABLE_ACCESS_ADDR_REG := v4_vid e)\<rparr>
      in c1\<lparr>sw_reg := (sw_reg c1)(RTL8367C_TABLE_ACCESS_CTRL_REG :=
             command_reg (RTL8367C_TABLE_ACCESS_REG_DATA TB_OP_WRITE TB_TARGET_CVLAN) c1),
           sw_tbl := table_write TB_TARGET_CVLAN (sw_reg c1) (sw_tbl c1)\<rparr>)"

lemma smi2user_vid: "v4_vid e = v4_vid e' \<Longrightarrow> Vlan4kStSmi2User smi e = Vlan4kStSmi2User smi e'"
  by (cases e, cases e') (simp add: Vlan4kStSmi2User_def)

lemma is_table_cvlan [simp]: "is_table TB_TARGET_CVLAN"
  by (simp add: is_table_def)

lemma wrdata_in_table: "(0x510 :: u32) \<in> table_regs" "(0x511 :: u32) \<in> table_regs"
  "(0x512 :: u32) \<in> table_regs"
  using table_regs_simps(3) [of 0] table_regs_simps(3) [of 1] table_regs_simps(3) [of 2] by simp_all

lemma put_4k_fields [simp]:
  "sw_init (put_4k e c) = sw_init c" "sw_hal (put_4k e c) = sw_hal c"
  "sw_mbrVid (put_4k e c) = sw_mbrVid c" "sw_mbrUsage (put_4k e c) = sw_mbrUsage c"
  "a \<notin> table_regs \<Longrightarrow> sw_reg (put_4k e c) a = sw_reg c a"
  using wrdata_in_table by (auto simp: put_4k_def Let_def)

lemma hw_mbrcfg_put_4k [simp]: "i \<le> 31 \<Longrightarrow> hw_mbrcfg i (put_4k e c) = hw_mbrcfg i c"
  unfolding hw_mbrcfg_def
  by (intro arg_cong [where f = VlanMCStSmi2User] map_cong refl put_4k_fields(5) cfg_not_table
      mbrcfg_reg_in) auto

lemma hw_mbrcfg_read_command [simp]:
  "i \<le> 31 \<Longrightarrow> hw_mbrcfg i (read_command_state t a c) = hw_mbrcfg i c"
  unfolding hw_mbrcfg_def
  by (intro arg_cong [where f = VlanMCStSmi2User] map_cong refl read_command_state_simps(9)
      cfg_not_table mbrcfg_reg_in) auto

lemma hw_4k_read_command [simp]: "hw_4k v (read_command_state t a c) = hw_4k v c"
  by (simp add: hw_4k_def)

lemma hw_4k_put_mbrcfg [simp]: "hw_4k v (put_mbrcfg i cfg c) = hw_4k v c"
  by (simp add: hw_4k_def)

lemma put_4k_table:
  "map (sw_tbl (put_4k e c) TB_TARGET_CVLAN v) [0..<3] =
     (if v = v4_vid e then Vlan4kStUser2Smi e (replicate 3 0)
      else map (sw_tbl c TB_TARGET_CVLAN v) [0..<3])"
  by (auto simp: put_4k_def Let_def table_write_def table_len_def upt_3 Vlan4kStUser2Smi_def)

lemma hw_put_4k [simp]:
  assumes "v4_ok e"
  shows "hw_4k v (put_4k e c) = (if v = v4_vid e then e else hw_4k v c)"
  unfolding hw_4k_def put_4k_table
  using v4.unpack_pack [OF assms, of "v4_blank v"] by (auto simp: v4_blank_def)

lemma wp_set4k:
  assumes "v4_ok e" and Q: "Q (Ok ()) (put_4k e c)"
  shows "wp view A (rtl8367c_setAsicVlan4kEntry e) Q c"
proof (rule wp_table_regs)
  assume T: "table_regs \<subseteq> A"
  have "(0x510 :: u32) \<in> A" "(0x511 :: u32) \<in> A" "(0x512 :: u32) \<in> A" "(0x501 :: u32) \<in> A"
    using T wrdata_in_table table_regs_simps(2) by auto
  then show ?thesis
    using assms(1) Q
    by (auto simp: rtl8367c_setAsicVlan4kEntry_def v4_ok_def leD Let_def upt_3 put_4k_def
        intro!: wp_thenE wp_setAsicReg wp_okE wp_table_write_command [where t = 3, simplified])
qed

lemma wp_get4k:
  assumes "v4_vid e \<le> 0xFFF"
    and Q: "Q (Ok (hw_4k (v4_vid e) c)) (read_command_state TB_TARGET_CVLAN (ucast (v4_vid e)) c)"
  shows "wp view A (rtl8367c_getAsicVlan4kEntry e) Q c"
proof -
  have comp: "map ucast (map (\<lambda>i. ucast (sw_tbl c TB_TARGET_CVLAN v i) :: u32) [0..<3]) =
      map (sw_tbl c TB_TARGET_CVLAN v) [0..<3]" for v
    by simp
  have "Vlan4kStSmi2User (map (sw_tbl c TB_TARGET_CVLAN (v4_vid e)) [0..<3]) e = hw_4k (v4_vid e) c"
    unfolding hw_4k_def by (rule smi2user_vid) (simp add: v4_blank_def)
  then show ?thesis
    unfolding rtl8367c_getAsicVlan4kEntry_def
    using assms
    by (auto simp: leD comp table_len_def simp del: map_map
        intro!: wp_thenE wp_bindE wp_busy_poll wp_table_read wp_okE)
qed

section \<open>Port-based VLAN\<close>

lemma put_reg_field_simps [simp]:
  "sw_tbl (put_reg_field a m v c) = sw_tbl c" "sw_init (put_reg_field a m v c) = sw_init c"
  "sw_hal (put_reg_field a m v c) = sw_hal c" "sw_mbrVid (put_reg_field a m v c) = sw_mbrVid c"
  "sw_mbrUsage (put_reg_field a m v c) = sw_mbrUsage c"
  "sw_ready (put_reg_field a m v c) h = sw_ready c h"
  by (simp_all add: put_reg_field_def)

lemma put_reg_field_other: "b \<noteq> a \<Longrightarrow> sw_reg (put_reg_field a m v c) b = sw_reg c b"
  by (simp add: put_reg_field_def)

lemma sw_ready_put [simp]:
  "sw_ready (put_mbrcfg i cfg c) h = sw_ready c h" "sw_ready (put_4k e c) h = sw_ready c h"
  by (simp_all add: sw_ready_def)

lemma not_mbrcfg_reg:
  assumes "a < 0x728 \<or> 0x7A7 < a" and "i \<le> 31" and "p < 4"
  shows "a \<noteq> mbrcfg_reg i p"
  using assms mbrcfg_reg_unat [OF assms(2,3)] by (auto simp: word_less_nat_alt word_le_nat_alt)

lemma hw_mbrcfg_put_reg_field:
  assumes "a < 0x728 \<or> 0x7A7 < a" and "i \<le> 31"
  shows "hw_mbrcfg i (put_reg_field a m v c) = hw_mbrcfg i c"
  unfolding hw_mbrcfg_def
  by (intro arg_cong [where f = VlanMCStSmi2User] map_cong refl put_reg_field_other)
     (use not_mbrcfg_reg [OF assms] in auto)

definition port_vidx :: "u32 \<Rightarrow> swt \<Rightarrow> u32" where
  "port_vidx p c = get_field (RTL8367C_PORT_VIDX_MASK p) (sw_reg c (RTL8367C_VLAN_PVID_CTRL_REG p))"

definition port_vpri :: "u32 \<Rightarrow> swt \<Rightarrow> u32" where
  "port_vpri p c = get_field (RTL8367C_VLAN_PORTBASED_PRIORITY_MASK p)
     (sw_reg c (RTL8367C_VLAN_PORTBASED_PRIORITY_REG p))"

definition put_pvid :: "u32 \<Rightarrow> u32 \<Rightarrow> u32 \<Rightarrow> swt \<Rightarrow> swt" where
  "put_pvid p index pri c =
     put_reg_field (RTL8367C_VLAN_PORTBASED_PRIORITY_REG p) (RTL8367C_VLAN_PORTBASED_PRIORITY_MASK p) pri
       (put_reg_field (RTL8367C_VLAN_PVID_CTRL_REG p) (RTL8367C_PORT_VIDX_MASK p) index c)"

lemma pvid_regs_range:
  assumes "p \<le> 10"
  shows "unat (RTL8367C_VLAN_PVID_CTRL_REG p) \<le> 0x705" and "RTL8367C_VLAN_PVID_CTRL_REG p < 0x728"
    and "0x851 \<le> unat (RTL8367C_VLAN_PORTBASED_PRIORITY_REG p)"
    and "0x7A7 < RTL8367C_VLAN_PORTBASED_PRIORITY_REG p"
proof -
  have "list_all (\<lambda>p. unat (RTL8367C_VLAN_PVID_CTRL_REG p) \<le> 0x705 \<and> RTL8367C_VLAN_PVID_CTRL_REG p < 0x728 \<and>
     0x851 \<le> unat (RTL8367C_VLAN_PORTBASED_PRIORITY_REG p) \<and>
     0x7A7 < RTL8367C_VLAN_PORTBASED_PRIORITY_REG p) all_port_ids" by code_simp
  from all_ports [OF this assms]
  show "unat (RTL8367C_VLAN_PVID_CTRL_REG p) \<le> 0x705" "RTL8367C_VLAN_PVID_CTRL_REG p < 0x728"
    "0x851 \<le> unat (RTL8367C_VLAN_PORTBASED_PRIORITY_REG p)"
    "0x7A7 < RTL8367C_VLAN_PORTBASED_PRIORITY_REG p" by auto
qed

lemma pvid_regs_differ:
  assumes "p \<le> 10" and "q \<le> 10"
  shows "RTL8367C_VLAN_PVID_CTRL_REG p \<noteq> RTL8367C_VLAN_PORTBASED_PRIORITY_REG q"
  using pvid_regs_range(1) [OF assms(1)] pvid_regs_range(3) [OF assms(2)] by auto

lemma put_pvid_simps [simp]:
  "sw_tbl (put_pvid p i r c) = sw_tbl c" "sw_init (put_pvid p i r c) = sw_init c"
  "sw_hal (put_pvid p i r c) = sw_hal c" "sw_mbrVid (put_pvid p i r c) = sw_mbrVid c"
  "sw_mbrUsage (put_pvid p i r c) = sw_mbrUsage c" "sw_ready (put_pvid p i r c) h = sw_ready c h"
  by (simp_all add: put_pvid_def)

lemma hw_mbrcfg_put_pvid [simp]:
  "p \<le> 10 \<Longrightarrow> j \<le> 31 \<Longrightarrow> hw_mbrcfg j (put_pvid p i r c) = hw_mbrcfg j c"
  unfolding put_pvid_def using pvid_regs_range [of p] by (simp add: hw_mbrcfg_put_reg_field)

lemma hw_4k_put_pvid [simp]: "hw_4k v (put_pvid p i r c) = hw_4k v c"
  by (simp add: hw_4k_def)

lemma port_put_pvid:
  assumes "p \<le> 10" and "q \<le> 10" and "i \<le> 31" and "r \<le> 7"
  shows "port_vidx q (put_pvid p i r c) = (if p = q then i else port_vidx q c)"
    and "port_vpri q (put_pvid p i r c) = (if p = q then r else port_vpri q c)"
proof -
  note d = pvid_regs_differ [OF assms(2,1)] pvid_regs_differ [OF assms(1,2)]
  show "port_vidx q (put_pvid p i r c) = (if p = q then i else port_vidx q c)"
    unfolding port_vidx_def put_pvid_def put_reg_field_other [OF d(1)] field_masks(2)
    by (rule vidx.field_put [OF assms(1,2,3)])
  have "port_vpri q (put_pvid p i r c) = (if p = q then r else port_vpri q
      (put_reg_field (RTL8367C_VLAN_PVID_CTRL_REG p) (RTL8367C_PORT_VIDX_MASK p) i c))"
    unfolding port_vpri_def put_pvid_def field_masks(3) by (rule vpri.field_put [OF assms(1,2,4)])
  then show "port_vpri q (put_pvid p i r c) = (if p = q then r else port_vpri q c)"
    unfolding port_vpri_def put_reg_field_other [OF d(2) [symmetric]] .
qed

lemma wp_setPVID:
  assumes "p \<le> 10" and "i \<le> 31" and "r \<le> 7" and "cfg_regs \<subseteq> A"
    and "Q (Ok ()) (put_pvid p i r c)"
  shows "wp view A (rtl8367c_setAsicVlanPortBasedVID p i r) Q c"
proof -
  have "wp view A (rtl8367c_setAsicRegBits (RTL8367C_VLAN_PORTBASED_PRIORITY_REG p)
      (RTL8367C_VLAN_PORTBASED_PRIORITY_MASK p) r) Q
      (put_reg_field (RTL8367C_VLAN_PVID_CTRL_REG p) (RTL8367C_PORT_VIDX_MASK p) i c)"
    by (rule vpri.wp_set [OF assms(1,3,4)]) (use assms(5) in \<open>simp add: put_pvid_def field_masks(3)\<close>)
  then have "wp view A (thenE (rtl8367c_setAsicRegBits (RTL8367C_VLAN_PVID_CTRL_REG p)
      (RTL8367C_PORT_VIDX_MASK p) i) (rtl8367c_setAsicRegBits (RTL8367C_VLAN_PORTBASED_PRIORITY_REG p)
      (RTL8367C_VLAN_PORTBASED_PRIORITY_MASK p) r)) Q c"
    by (intro wp_thenE vidx.wp_set [OF assms(1,2,4)]) (simp add: field_masks(2))
  with assms(1-3) show ?thesis by (simp add: rtl8367c_setAsicVlanPortBasedVID_def leD)
qed

lemma wp_getPVID:
  assumes "p \<le> 10" and "cfg_regs \<subseteq> A" and "Q (Ok (port_vidx p c, port_vpri p c)) c"
  shows "wp view A (rtl8367c_getAsicVlanPortBasedVID p) Q c"
proof -
  have "wp view A (bindE (rtl8367c_getAsicRegBits (RTL8367C_VLAN_PORTBASED_PRIORITY_REG p)
      (RTL8367C_VLAN_PORTBASED_PRIORITY_MASK p)) (\<lambda>pri. okE (port_vidx p c, pri))) Q c"
    by (intro wp_bindE vpri.wp_get [OF assms(1,2)])
       (use assms(3) in \<open>simp add: port_vpri_def field_masks(3) wp_okE\<close>)
  then have "wp view A (bindE (rtl8367c_getAsicRegBits (RTL8367C_VLAN_PVID_CTRL_REG p)
      (RTL8367C_PORT_VIDX_MASK p)) (\<lambda>index. bindE (rtl8367c_getAsicRegBits
        (RTL8367C_VLAN_PORTBASED_PRIORITY_REG p) (RTL8367C_VLAN_PORTBASED_PRIORITY_MASK p))
        (\<lambda>pri. okE (index, pri)))) Q c"
    by (intro wp_bindE [where m = "rtl8367c_getAsicRegBits (RTL8367C_VLAN_PVID_CTRL_REG p)
          (RTL8367C_PORT_VIDX_MASK p)"] vidx.wp_get [OF assms(1,2)])
       (simp add: port_vidx_def field_masks(2))
  with assms(1) show ?thesis by (simp add: rtl8367c_getAsicVlanPortBasedVID_def leD)
qed

text \<open>The index field has five bits, so it always names an entry of the member configuration.\<close>

lemma get_field_le: "w + k \<le> 16 \<Longrightarrow> 0 < w \<Longrightarrow> get_field (field_mask k w) x \<le> mask w"
proof -
  assume *: "w + k \<le> 16" "0 < w"
  then have "lsb_of (field_mask k w) = k" using mask16_mask(2) [of w k] by (simp add: field_mask_def)
  then show ?thesis
    by (simp add: get_field_def le_mask_iff_bits field_mask_def bit_simps)
qed

lemma port_vidx_le: "p \<le> 10 \<Longrightarrow> port_vidx p c \<le> 31"
  using get_field_le [of 5 "vidx_off p"] field_layoutD(3) [OF layouts(3), of p]
  by (simp add: port_vidx_def field_masks(2) mask_eq_exp_minus_1 add.commute)

end
