(* ===== verification/Vlan_Spec.thy ===== *)
theory Vlan_Spec
  imports Vlan AsicVlan_Spec
begin

text \<open>
  Correctness of the VLAN API over the abstract switch: the bookkeeping of member-configuration
  entries agrees with the hardware and every operation keeps it so; what is set is what is read
  back; arguments are rejected before the hardware is touched.
\<close>

section \<open>The bookkeeping invariant\<close>

text \<open>
  An entry marked as used holds the VLAN identifier the driver remembers for it; an entry marked
  as unused is empty in the hardware.
\<close>

definition mc_empty :: "rtl8367c_vlanconfiguser \<Rightarrow> bool" where
  "mc_empty m \<longleftrightarrow> mc_evid m = 0 \<and> mc_mbr m = 0"

definition entry_ok :: "vlan_mbrCfgType_t \<Rightarrow> u32 \<Rightarrow> rtl8367c_vlanconfiguser \<Rightarrow> bool" where
  "entry_ok usage vid m \<longleftrightarrow>
     (case usage of MBRCFG_USED_BY_VLAN \<Rightarrow> ucast (mc_evid m) = vid | MBRCFG_UNUSED \<Rightarrow> mc_empty m)"

definition db_ok :: "swt \<Rightarrow> bool" where
  "db_ok c \<longleftrightarrow> length (sw_mbrUsage c) = 32 \<and> length (sw_mbrVid c) = 32 \<and>
     (\<forall>i<32. entry_ok (sw_mbrUsage c ! i) (sw_mbrVid c ! i) (hw_mbrcfg (of_nat i) c))"

definition db_upd :: "nat \<Rightarrow> vlan_mbrCfgType_t \<Rightarrow> u32 \<Rightarrow> swt \<Rightarrow> swt" where
  "db_upd i u v c = c\<lparr>sw_mbrUsage := (sw_mbrUsage c)[i := u], sw_mbrVid := (sw_mbrVid c)[i := v]\<rparr>"

definition used_for :: "u32 \<Rightarrow> swt \<Rightarrow> nat \<Rightarrow> bool" where
  "used_for vid c i \<longleftrightarrow> sw_mbrUsage c ! i = MBRCFG_USED_BY_VLAN \<and> sw_mbrVid c ! i = vid"

lemma db_upd_simps [simp]:
  "sw_reg (db_upd i u v c) = sw_reg c" "sw_tbl (db_upd i u v c) = sw_tbl c"
  "sw_init (db_upd i u v c) = sw_init c" "sw_hal (db_upd i u v c) = sw_hal c"
  "sw_ready (db_upd i u v c) h = sw_ready c h"
  "sw_mbrUsage (db_upd i u v c) = (sw_mbrUsage c)[i := u]"
  "sw_mbrVid (db_upd i u v c) = (sw_mbrVid c)[i := v]"
  "sw_sUsage (db_upd i u v c) = sw_sUsage c" "sw_sVid (db_upd i u v c) = sw_sVid c"
  "sw_sLookup (db_upd i u v c) = sw_sLookup c"
  "hw_mbrcfg j (db_upd i u v c) = hw_mbrcfg j c" "hw_4k w (db_upd i u v c) = hw_4k w c"
  by (simp_all add: db_upd_def hw_mbrcfg_def hw_4k_def sw_ready_def)

lemma idx_le: "i < 32 \<Longrightarrow> (of_nat i :: u32) \<le> 31"
  by (simp add: word_le_nat_alt unat_of_nat)

lemma idx_eq: "i < 32 \<Longrightarrow> j < 32 \<Longrightarrow> (of_nat i :: u32) = of_nat j \<longleftrightarrow> i = j"
  by (auto simp: word_unat_eq_iff unat_of_nat)

lemma db_ok_lengths: "db_ok c \<Longrightarrow> length (sw_mbrUsage c) = 32" "db_ok c \<Longrightarrow> length (sw_mbrVid c) = 32"
  by (simp_all add: db_ok_def)

text \<open>Replacing an entry in the hardware and in the bookkeeping together keeps the invariant.\<close>

lemma db_ok_replace:
  assumes "db_ok c" and "i < 32" and "mc_ok m" and "entry_ok u v m"
  shows "db_ok (db_upd i u v (put_mbrcfg (of_nat i) m c))"
  using assms unfolding db_ok_def
  by (auto simp: nth_list_update idx_le idx_eq)

text \<open>Entries read from the hardware always have fields in range.\<close>

lemma and_mask_le: "(x AND mask k :: 'a::len word) \<le> mask k"
  by (rule word_and_le1)

lemma hw_mbrcfg_ok: "mc_ok (hw_mbrcfg i c)"
  using and_mask_le [where 'a = 16, of _ 13] and_mask_le [where 'a = 16, of _ 11]
    and_mask_le [where 'a = 16, of _ 4] and_mask_le [where 'a = 16, of _ 6]
    and_mask_le [where 'a = 16, of _ 3] and_mask_le [where 'a = 16, of _ 1]
  by (simp add: mc_ok_def hw_mbrcfg_def VlanMCStSmi2User_def mask_eq_exp_minus_1)

lemma hw_4k_ok: "v \<le> 0xFFF \<Longrightarrow> v4_ok (hw_4k v c)"
  unfolding v4_ok_def hw_4k_def Vlan4kStSmi2User_def v4_blank_def
  by (simp add: word16_decide bit_simps del: push_bit_Suc)

lemma hw_4k_vid [simp]: "v4_vid (hw_4k v c) = v"
  by (simp add: hw_4k_def Vlan4kStSmi2User_def v4_blank_def)

section \<open>Searching the bookkeeping\<close>

lemma wp_db_entry:
  assumes "i < length (sw_mbrUsage c)" and "i < length (sw_mbrVid c)"
    and "Q (Ok (sw_mbrUsage c ! i, sw_mbrVid c ! i)) c"
  shows "wp view A (db_entry i) Q c"
  by (rule wp_pure [where r = "Ok (sw_mbrUsage c ! i, sw_mbrVid c ! i)"])
     (use assms in \<open>auto simp: db_entry_def swt_rel_def\<close>)

lemma wp_db_set:
  assumes "i < length (sw_mbrUsage c)" and "i < length (sw_mbrVid c)"
    and "Q (Ok ()) (db_upd i u v c)"
  shows "wp view A (db_set i u v) Q c"
  unfolding wp_def
proof (intro allI impI)
  fix s assume "swt_rel view A s c"
  with assms show "\<exists>c'. swt_rel view A (snd (db_set i u v s)) c' \<and> Q (fst (db_set i u v s)) c'"
    by (auto simp: db_set_def swt_rel_def intro!: exI [of _ "db_upd i u v c"])
qed

lemma wp_find_vid:
  assumes "length (sw_mbrUsage c) = 32" and "length (sw_mbrVid c) = 32" and "set is \<subseteq> {..<32}"
    and "Q (Ok (List.find (used_for vid c) is)) c"
  shows "wp view A (find_vid vid is) Q c"
  using assms(3,4)
  by (induction "is")
     (auto intro!: wp_okE wp_bindE wp_db_entry simp: assms(1,2) used_for_def split: if_splits)

lemma wp_find_empty:
  assumes "length (sw_mbrUsage c) = 32" and "length (sw_mbrVid c) = 32" and "set is \<subseteq> {..<32}"
    and "Q (Ok (List.find (\<lambda>i. sw_mbrUsage c ! i = MBRCFG_UNUSED) is)) c"
  shows "wp view A (find_empty is) Q c"
  using assms(3,4)
  by (induction "is")
     (auto intro!: wp_okE wp_bindE wp_db_entry simp: assms(1,2) split: if_splits)

text \<open>Rebuilding the bookkeeping from the hardware.\<close>

definition usage_of :: "rtl8367c_vlanconfiguser \<Rightarrow> vlan_mbrCfgType_t" where
  "usage_of m = (if mc_empty m then MBRCFG_UNUSED else MBRCFG_USED_BY_VLAN)"

definition vid_of :: "rtl8367c_vlanconfiguser \<Rightarrow> u32" where
  "vid_of m = (if mc_empty m then 0 else ucast (mc_evid m))"

definition refreshed :: "swt \<Rightarrow> swt" where
  "refreshed c = c\<lparr>sw_mbrUsage := map (\<lambda>i. usage_of (hw_mbrcfg (of_nat i) c)) [0..<32],
                   sw_mbrVid := map (\<lambda>i. vid_of (hw_mbrcfg (of_nat i) c)) [0..<32]\<rparr>"

lemma fold_list_update:
  "n \<le> length xs \<Longrightarrow> fold (\<lambda>i xs. xs[i := f i]) [0..<n] xs = map f [0..<n] @ drop n xs"
proof (induction n)
  case (Suc n)
  then have "drop n xs = xs ! n # drop (Suc n) xs" by (simp add: Cons_nth_drop_Suc)
  with Suc show ?case by (simp add: list_update_append)
qed simp

lemma fold_db_upd:
  "fold (\<lambda>i c. db_upd i (f i) (g i) c) is c =
     c\<lparr>sw_mbrUsage := fold (\<lambda>i xs. xs[i := f i]) is (sw_mbrUsage c),
       sw_mbrVid := fold (\<lambda>i xs. xs[i := g i]) is (sw_mbrVid c)\<rparr>"
  by (induction "is" arbitrary: c) (simp_all add: db_upd_def)

lemma wp_refresh:
  assumes "length (sw_mbrUsage c) = 32" and "length (sw_mbrVid c) = 32" and "cfg_regs \<subseteq> A"
    and "Q (Ok ()) (refreshed c)"
  shows "wp view A (forE [0..<32] refresh_db) Q c"
proof (rule wp_forE [where I = "\<lambda>c'. length (sw_mbrUsage c') = 32 \<and> length (sw_mbrVid c') = 32 \<and>
      (\<forall>i. hw_mbrcfg i c' = hw_mbrcfg i c)" and
      g = "\<lambda>i. db_upd i (usage_of (hw_mbrcfg (of_nat i) c)) (vid_of (hw_mbrcfg (of_nat i) c))"])
  fix i c' assume "i \<in> set [0..<32]" and I: "length (sw_mbrUsage c') = 32 \<and>
      length (sw_mbrVid c') = 32 \<and> (\<forall>i. hw_mbrcfg i c' = hw_mbrcfg i c)"
  then show "wp view A (refresh_db i) (\<lambda>r c''. r = Ok () \<and> c'' =
      db_upd i (usage_of (hw_mbrcfg (of_nat i) c)) (vid_of (hw_mbrcfg (of_nat i) c)) c') c'"
    using assms(3) unfolding refresh_db_def
    by (auto intro!: wp_bindE wp_getMbr wp_db_set simp: idx_le usage_of_def vid_of_def mc_empty_def)
qed (use assms in \<open>simp_all add: fold_db_upd fold_list_update refreshed_def del: upt_Suc\<close>)

lemma hw_refreshed [simp]:
  "hw_mbrcfg i (refreshed c) = hw_mbrcfg i c" "hw_4k v (refreshed c) = hw_4k v c"
  "sw_reg (refreshed c) = sw_reg c" "sw_tbl (refreshed c) = sw_tbl c"
  "sw_ready (refreshed c) h = sw_ready c h"
  by (simp_all add: refreshed_def hw_mbrcfg_def hw_4k_def)

lemma db_ok_refreshed: "db_ok (refreshed c)"
  by (auto simp: db_ok_def hw_refreshed(1) entry_ok_def usage_of_def vid_of_def)
     (auto simp: refreshed_def entry_ok_def usage_of_def vid_of_def)


section \<open>Finding or creating an entry\<close>

text \<open>What an operation on member-configuration entries leaves alone.\<close>

definition mbr_frame :: "swt \<Rightarrow> swt \<Rightarrow> bool" where
  "mbr_frame c c' \<longleftrightarrow> sw_tbl c' = sw_tbl c \<and> sw_init c' = sw_init c \<and> sw_hal c' = sw_hal c \<and>
     (\<forall>a. a \<notin> table_regs \<longrightarrow> a < 0x728 \<or> 0x7A7 < a \<longrightarrow> sw_reg c' a = sw_reg c a)"

definition mbr_post :: "u32 \<Rightarrow> swt \<Rightarrow> u32 outcome \<Rightarrow> swt \<Rightarrow> bool" where
  "mbr_post vid c r c' \<longleftrightarrow> db_ok c' \<and> mbr_frame c c' \<and>
     (case r of
        Ok i \<Rightarrow> i \<le> 31 \<and> ucast (mc_evid (hw_mbrcfg i c')) = vid \<and> used_for vid c' (unat i) \<and>
          (\<forall>j \<le> 31. j \<noteq> i \<or> \<not> mc_empty (hw_mbrcfg j c) \<longrightarrow> hw_mbrcfg j c' = hw_mbrcfg j c)
      | Err e \<Rightarrow> e = RT_ERR_TBL_FULL \<and>
          (\<forall>j \<le> 31. \<not> mc_empty (hw_mbrcfg j c) \<and> hw_mbrcfg j c' = hw_mbrcfg j c)
      | Fault \<Rightarrow> False)"

lemma mbr_frame_refl [simp]: "mbr_frame c c"
  by (simp add: mbr_frame_def)

lemma mbr_frame_intros [simp]:
  "mbr_frame c (read_command_state t a c') \<longleftrightarrow> mbr_frame c c'"
  "mbr_frame c (refreshed c') \<longleftrightarrow> mbr_frame c c'"
  "mbr_frame c (db_upd i u v c') \<longleftrightarrow> mbr_frame c c'"
  "k \<le> 31 \<Longrightarrow> mbr_frame c (put_mbrcfg k m c') \<longleftrightarrow> mbr_frame c c'"
  using not_mbrcfg_reg put_mbrcfg_frame
  by (auto simp: mbr_frame_def refreshed_def)

lemma le31_nat: "(i :: u32) \<le> 31 \<Longrightarrow> unat i < 32 \<and> of_nat (unat i) = i"
  by (simp add: word_le_nat_alt)

lemma unat_idx: "i < 32 \<Longrightarrow> unat (of_nat i :: u32) = i"
  by (simp add: unat_of_nat)

lemma unat_ucast16: "unat (ucast (v :: u32) :: u16) = unat v mod 0x10000"
  by (simp add: unsigned_ucast_eq take_bit_eq_mod)

lemma used_for_evid: "db_ok c \<Longrightarrow> i < 32 \<Longrightarrow> used_for vid c i \<Longrightarrow> ucast (mc_evid (hw_mbrcfg (of_nat i) c)) = vid"
  by (auto simp: db_ok_def used_for_def entry_ok_def split: vlan_mbrCfgType_t.splits)

lemma unused_empty:
  "db_ok c \<Longrightarrow> i < 32 \<Longrightarrow> sw_mbrUsage c ! i = MBRCFG_UNUSED \<Longrightarrow> mc_empty (hw_mbrcfg (of_nat i) c)"
  by (auto simp: db_ok_def entry_ok_def split: vlan_mbrCfgType_t.splits)

lemma find_Some_iff2: "List.find P xs = Some x \<Longrightarrow> P x \<and> x \<in> set xs"
  by (induction xs) (auto split: if_splits)

lemma db_ok_read [simp]: "db_ok (read_command_state t a c) = db_ok c"
  by (simp add: db_ok_def idx_le)

lemma mc_of_4k_ok: "v4_ok e \<Longrightarrow> vid \<le> 0xFFF \<Longrightarrow> mc_ok (mc_of_4k vid e)"
  by (auto simp: mc_ok_def v4_ok_def mc_of_4k_def word_le_nat_alt unat_ucast16)

lemma used_for_upd: "used_for vid (db_upd i MBRCFG_USED_BY_VLAN vid c) i"
  if "i < length (sw_mbrUsage c)" "i < length (sw_mbrVid c)"
  using that by (simp add: used_for_def)

lemma wp_create_mbr:
  assumes "db_ok c" and "cfg_regs \<subseteq> A" and "vid \<le> 0x1FFF" and "vid \<le> 0xFFF \<Longrightarrow> v4_ok e"
    and "i < 32" and "mc_empty (hw_mbrcfg (of_nat i) c)"
  shows "wp view A (create_mbr vid e i) (mbr_post vid c) c"
proof -
  let ?m = "if vid > 0xFFF then mc0\<lparr>mc_evid := ucast vid\<rparr> else mc_of_4k vid e"
  have evid: "mc_evid ?m = ucast vid" by (simp add: mc_of_4k_def)
  have up: "(ucast (ucast vid :: u16) :: u32) = vid"
    using assms(3) by (simp add: word_le_nat_alt)
  have "mc_ok (mc0\<lparr>mc_evid := ucast vid\<rparr>)"
    using assms(3) by (simp add: mc_ok_def mc0_def word_le_nat_alt unat_ucast16)
  then have ok: "mc_ok ?m" using mc_of_4k_ok [OF assms(4), of vid] by (simp add: not_less)
  have post: "mbr_post vid c (Ok (of_nat i))
     (db_upd i MBRCFG_USED_BY_VLAN vid (put_mbrcfg (of_nat i) ?m c))"
    using db_ok_replace [OF assms(1,5) ok, of MBRCFG_USED_BY_VLAN vid] assms ok
    by (auto simp: mbr_post_def idx_le unat_idx evid up entry_ok_def used_for_def db_ok_lengths
        simp del: if_split_asm)
  show ?thesis
    unfolding create_mbr_def
    by (intro wp_thenE wp_setMbr wp_db_set) (use assms ok post in \<open>simp_all add: idx_le wp_okE db_ok_lengths wp_thenE wp_db_set\<close>)
qed

lemma mbr_post_found:
  assumes "db_ok c'" and "mbr_frame c c'" and "\<forall>j \<le> 31. hw_mbrcfg j c' = hw_mbrcfg j c"
    and "i < 32" and "used_for vid c' i"
  shows "mbr_post vid c (Ok (of_nat i)) c'"
  using assms used_for_evid [OF assms(1,4,5)] by (simp add: mbr_post_def idx_le unat_idx)

lemma mbr_post_trans:
  assumes "mbr_post vid c1 r c2" and "mbr_frame c c1" and "\<forall>j \<le> 31. hw_mbrcfg j c1 = hw_mbrcfg j c"
  shows "mbr_post vid c r c2"
  using assms by (auto simp: mbr_post_def mbr_frame_def split: outcome.splits)

lemma mbr_post_full:
  assumes "List.find (\<lambda>i. sw_mbrUsage (refreshed c) ! i = MBRCFG_UNUSED) [0..<32] = None"
  shows "mbr_post vid c (Err RT_ERR_TBL_FULL) (refreshed c)"
proof -
  have "\<not> mc_empty (hw_mbrcfg (of_nat i) c)" if "i < 32" for i
  proof -
    from that assms have "sw_mbrUsage (refreshed c) ! i \<noteq> MBRCFG_UNUSED" by (simp add: find_None_iff)
    with that show ?thesis by (auto simp: refreshed_def usage_of_def)
  qed
  then have "\<not> mc_empty (hw_mbrcfg j c)" if "j \<le> 31" for j
    using le31_nat [OF that] by metis
  then show ?thesis by (simp add: mbr_post_def db_ok_refreshed)
qed

lemma wp_checkAndCreateMbr:
  assumes R: "sw_ready c h" and D: "db_ok c" and A: "cfg_regs \<subseteq> A" and V: "vid \<le> 0x1FFF"
  shows "wp view A (rtk_vlan_checkAndCreateMbr vid PTR) (mbr_post vid c) c"
proof -
  have body: "wp view A (bindE (find_vid vid [0..<32]) (\<lambda>found.
          case found of Some idx \<Rightarrow> okE (of_nat idx)
          | None \<Rightarrow>
              thenE (forE [0..<32] refresh_db)
              (bindE (find_vid vid [0..<32]) (\<lambda>again.
                case again of Some idx \<Rightarrow> okE (of_nat idx)
                | None \<Rightarrow>
                    bindE (find_empty [0..<32]) (\<lambda>unused.
                      case unused of None \<Rightarrow> errE RT_ERR_TBL_FULL
                      | Some empty_idx \<Rightarrow> create_mbr vid e empty_idx))))) (mbr_post vid c) c1"
    if e: "vid \<le> 0xFFF \<Longrightarrow> v4_ok e" and D1: "db_ok c1" and fr: "mbr_frame c c1"
      and same: "\<forall>j \<le> 31. hw_mbrcfg j c1 = hw_mbrcfg j c" for e c1
  proof -
    have found: "wp view A (okE (of_nat i)) (mbr_post vid c) c2"
      if "List.find (used_for vid c2) [0..<32] = Some i" "c2 \<in> {c1, refreshed c1}" for i c2
      using find_Some_iff2 [OF that(1)] that(2) D1 fr same db_ok_refreshed
      by (auto intro!: wp_okE mbr_post_found)
    have make: "wp view A (case u of None \<Rightarrow> errE RT_ERR_TBL_FULL
          | Some i \<Rightarrow> create_mbr vid e i) (mbr_post vid c) (refreshed c1)"
      if u: "u = List.find (\<lambda>i. sw_mbrUsage (refreshed c1) ! i = MBRCFG_UNUSED) [0..<32]" for u
    proof (cases u)
      case None
      with u have "mbr_post vid c1 (Err RT_ERR_TBL_FULL) (refreshed c1)" by (intro mbr_post_full) simp
      with None show ?thesis using mbr_post_trans [OF _ fr same] by (simp add: wp_errE)
    next
      case (Some i)
      with find_Some_iff2 u have "i < 32" "sw_mbrUsage (refreshed c1) ! i = MBRCFG_UNUSED" by fastforce+
      with unused_empty [OF db_ok_refreshed] wp_create_mbr [OF db_ok_refreshed A V e, of i c1]
      have "wp view A (create_mbr vid e i) (mbr_post vid (refreshed c1)) (refreshed c1)" by blast
      then show ?thesis
        by (auto simp: Some elim!: wp_weaken intro: mbr_post_trans simp: fr same)
    qed
    show ?thesis
      using D1 db_ok_refreshed [of c1] found make A
      by (auto intro!: wp_bindE wp_thenE wp_find_vid wp_find_empty wp_refresh
          simp: db_ok_lengths subset_eq split: option.splits)
  qed
  show ?thesis
    unfolding rtk_vlan_checkAndCreateMbr_def
    using V body [of v40 c] body [of "hw_4k (ucast vid) c" "read_command_state TB_TARGET_CVLAN (ucast (ucast vid :: u16)) c"]
    by (auto intro!: wp_thenE wp_bindE wp_chk_init [OF R] wp_get4k wp_okE
        simp: D leD hw_4k_ok word_le_nat_alt unat_ucast16 not_le)
qed


section \<open>Running the driver\<close>

text \<open>
  \<open>driver_up\<close>: the driver is initialised for a supported chip that keeps its contract, and its
  bookkeeping agrees with the hardware.
\<close>

definition driver_up :: "('d \<Rightarrow> chip_view) \<Rightarrow> u32 set \<Rightarrow> rtk_switch_halCtrl_t \<Rightarrow> 'd gsw \<Rightarrow> bool" where
  "driver_up view A h s \<longleftrightarrow> table_contract (gsw_bus s) view A \<and> cfg_regs \<subseteq> A \<and>
     v_busy (view (gsw_dev s)) < 10 \<and> ready s h \<and> db_ok (swt_of view s)"

lemma hw_mbrcfg_cong:
  assumes "i \<le> 31" and "\<And>a. a \<in> cfg_regs \<Longrightarrow> sw_reg c a = sw_reg c' a"
  shows "hw_mbrcfg i c = hw_mbrcfg i c'"
  unfolding hw_mbrcfg_def
  by (intro arg_cong [where f = VlanMCStSmi2User] map_cong refl assms(2) mbrcfg_reg_in assms(1)) simp

lemma swt_rel_hw:
  assumes "swt_rel view A s c" and "cfg_regs \<subseteq> A"
  shows "i \<le> 31 \<Longrightarrow> hw_mbrcfg i (swt_of view s) = hw_mbrcfg i c"
    and "hw_4k v (swt_of view s) = hw_4k v c"
    and "db_ok (swt_of view s) = db_ok c"
    and "sw_ready (swt_of view s) h = sw_ready c h"
proof -
  show mbr: "i \<le> 31 \<Longrightarrow> hw_mbrcfg i (swt_of view s) = hw_mbrcfg i c" for i
    by (rule hw_mbrcfg_cong) (use assms in \<open>auto simp: swt_rel_def swt_of_def\<close>)
  show "hw_4k v (swt_of view s) = hw_4k v c"
    using assms by (simp add: hw_4k_def swt_of_def swt_rel_def)
  show "db_ok (swt_of view s) = db_ok c"
    using assms(1) by (auto simp: db_ok_def mbr idx_le) (auto simp: swt_of_def swt_rel_def)
  show "sw_ready (swt_of view s) h = sw_ready c h"
    using assms(1) by (simp add: sw_ready_def swt_of_def swt_rel_def)
qed

lemma driver_upI:
  "swt_rel view A s c \<Longrightarrow> cfg_regs \<subseteq> A \<Longrightarrow> sw_ready c h \<Longrightarrow> db_ok c \<Longrightarrow> driver_up view A h s"
  unfolding driver_up_def using swt_rel_hw(3) [of view A s c] sw_ready_rel [of view A s c h]
  by (simp add: swt_rel_def)

lemma driver_upD:
  assumes "driver_up view A h s"
  shows "swt_rel view A s (swt_of view s)" and "cfg_regs \<subseteq> A" and "sw_ready (swt_of view s) h"
    and "db_ok (swt_of view s)" and "hal_wf h"
  using assms swt_rel_of [of s view A]
  by (simp_all add: driver_up_def ready_def sw_ready_def) (simp_all add: swt_of_def)

text \<open>An operation that only reads, run in any state of the same switch.\<close>

lemma wp_run_pure:
  assumes "wp view A m (\<lambda>r c'. r = x \<and> c' = c) c" and "swt_rel view A s c"
  shows "fst (m s) = x" and "swt_rel view A (snd (m s)) c"
  using assms unfolding wp_def by auto

section \<open>Port-based VLANs\<close>

definition port_pvid :: "rtk_switch_halCtrl_t \<Rightarrow> rtk_port_t \<Rightarrow> swt \<Rightarrow> u32 \<times> u32" where
  "port_pvid h p c = (ucast (mc_evid (hw_mbrcfg (port_vidx (phy_of h p) c) c)), port_vpri (phy_of h p) c)"

text \<open>The member-configuration entry a port refers to is in use.\<close>

definition pvid_set :: "rtk_switch_halCtrl_t \<Rightarrow> rtk_port_t \<Rightarrow> swt \<Rightarrow> bool" where
  "pvid_set h p c \<longleftrightarrow> \<not> mc_empty (hw_mbrcfg (port_vidx (phy_of h p) c) c)"

lemma mbr_frame_port:
  assumes "mbr_frame c c'" and "p \<le> 10"
  shows "port_vidx p c' = port_vidx p c" and "port_vpri p c' = port_vpri p c"
  using assms(1) pvid_regs_range [OF assms(2)] cfg_not_table [OF field_layoutD(1) [OF layouts(3) assms(2)]]
    cfg_not_table [OF field_layoutD(1) [OF layouts(4) assms(2)]]
  by (simp_all add: mbr_frame_def port_vidx_def port_vpri_def)

lemma db_ok_put_pvid [simp]: "p \<le> 10 \<Longrightarrow> db_ok (put_pvid p i r c) = db_ok c"
  by (simp add: db_ok_def idx_le)

definition pvid_post :: "rtk_switch_halCtrl_t \<Rightarrow> rtk_port_t \<Rightarrow> u32 \<Rightarrow> u32 \<Rightarrow> swt \<Rightarrow> unit outcome \<Rightarrow> swt \<Rightarrow> bool" where
  "pvid_post h p pvid pri c r c' \<longleftrightarrow> db_ok c' \<and> sw_ready c' h \<and> sw_tbl c' = sw_tbl c \<and>
     (case r of
        Ok _ \<Rightarrow> port_pvid h p c' = (pvid, pri) \<and> (\<exists>i. \<forall>j \<le> 31. j \<noteq> i \<longrightarrow> hw_mbrcfg j c' = hw_mbrcfg j c) \<and>
          (\<forall>q. valid_port h q \<longrightarrow> q \<noteq> p \<longrightarrow> pvid_set h q c \<longrightarrow> port_pvid h q c' = port_pvid h q c)
      | Err e \<Rightarrow> e = RT_ERR_TBL_FULL \<and> (\<forall>j \<le> 31. \<not> mc_empty (hw_mbrcfg j c)) \<and>
          (\<forall>q. valid_port h q \<longrightarrow> port_pvid h q c' = port_pvid h q c)
      | Fault \<Rightarrow> False)"

lemma wp_portPvid_set:
  assumes R: "sw_ready c h" and D: "db_ok c" and A: "cfg_regs \<subseteq> A"
    and p: "valid_port h p" and V: "pvid \<le> 0x1FFF" and P: "pri \<le> 7"
  shows "wp view A (rtk_vlan_portPvid_set p pvid pri) (pvid_post h p pvid pri c) c"
proof -
  have wf: "hal_wf h" using R by (simp add: sw_ready_def)
  note le = phy_of_le [OF wf]
  have err: "pvid_post h p pvid pri c (Err e) c1" if "mbr_post pvid c (Err e) c1" for e c1
  proof -
    have c1: "mbr_frame c c1" "db_ok c1" "e = RT_ERR_TBL_FULL"
      "\<And>j. j \<le> 31 \<Longrightarrow> \<not> mc_empty (hw_mbrcfg j c) \<and> hw_mbrcfg j c1 = hw_mbrcfg j c"
      using that by (auto simp: mbr_post_def)
    have "port_pvid h q c1 = port_pvid h q c" if "valid_port h q" for q
      using c1(4) port_vidx_le [OF le [OF that]] mbr_frame_port [OF c1(1) le [OF that]]
      by (simp add: port_pvid_def)
    with c1 R show ?thesis by (simp add: pvid_post_def mbr_frame_def sw_ready_def)
  qed
  have ok: "pvid_post h p pvid pri c (Ok ()) (put_pvid (phy_of h p) i pri c1)"
    if "mbr_post pvid c (Ok i) c1" for i c1
  proof -
    have c1: "db_ok c1" "mbr_frame c c1" "i \<le> 31" "ucast (mc_evid (hw_mbrcfg i c1)) = pvid"
      "\<And>j. j \<le> 31 \<Longrightarrow> \<not> mc_empty (hw_mbrcfg j c) \<Longrightarrow> hw_mbrcfg j c1 = hw_mbrcfg j c"
      "\<And>j. j \<le> 31 \<Longrightarrow> j \<noteq> i \<Longrightarrow> hw_mbrcfg j c1 = hw_mbrcfg j c"
      using that by (auto simp: mbr_post_def)
    have "\<exists>i. \<forall>j \<le> 31. j \<noteq> i \<longrightarrow> hw_mbrcfg j (put_pvid (phy_of h p) i' pri c1) = hw_mbrcfg j c" for i'
      using c1(6) le [OF p] by (intro exI [of _ i]) simp
    moreover have "port_pvid h q (put_pvid (phy_of h p) i pri c1) = port_pvid h q c"
      if "valid_port h q" "q \<noteq> p" "pvid_set h q c" for q
    proof -
      have "phy_of h p \<noteq> phy_of h q" using phy_of_inj [OF wf p that(1)] that(2) by auto
      then show ?thesis
        using c1(5) [OF port_vidx_le [OF le [OF that(1)]]] that(3) mbr_frame_port [OF c1(2) le [OF that(1)]]
          port_vidx_le [OF le [OF that(1)]]
        by (simp add: port_pvid_def pvid_set_def port_put_pvid [OF le [OF p] le [OF that(1)] c1(3) P] le [OF p])
    qed
    moreover have "port_pvid h p (put_pvid (phy_of h p) i pri c1) = (pvid, pri)"
      using c1(3,4) le [OF p] by (simp add: port_pvid_def port_put_pvid [OF le [OF p] le [OF p] c1(3) P])
    ultimately show ?thesis
      using c1(1,2) R le [OF p] by (simp add: pvid_post_def mbr_frame_def sw_ready_def)
  qed
  have step: "wp view A (bindE (rtk_switch_port_L2P_get p) (\<lambda>phy. rtl8367c_setAsicVlanPortBasedVID phy i pri))
      (pvid_post h p pvid pri c) c1" if "mbr_post pvid c (Ok i) c1" for i c1
  proof -
    have "sw_ready c1 h" "i \<le> 31" using that R by (auto simp: mbr_post_def mbr_frame_def sw_ready_def)
    with ok [OF that] A P le [OF p] show ?thesis
      by (auto intro!: wp_bindE wp_port_L2P [OF _ valid_port_less [OF p]] wp_setPVID)
  qed
  have "wp view A (bindE (rtk_vlan_checkAndCreateMbr pvid PTR) (\<lambda>index.
      bindE (rtk_switch_port_L2P_get p) (\<lambda>phy. rtl8367c_setAsicVlanPortBasedVID phy index pri)))
      (pvid_post h p pvid pri c) c"
    by (rule wp_bindE, rule wp_weaken [OF wp_checkAndCreateMbr [OF R D A V]])
       (auto simp: step err mbr_post_def [of _ _ Fault] split: outcome.splits)
  then show ?thesis
    unfolding rtk_vlan_portPvid_set_def
    using V P p R by (auto intro!: wp_thenE wp_chk_init [OF R] wp_chk_port [OF R p] simp: leD)
qed

lemma wp_portPvid_get:
  assumes R: "sw_ready c h" and A: "cfg_regs \<subseteq> A" and p: "valid_port h p"
  shows "wp view A (rtk_vlan_portPvid_get p PTR PTR) (\<lambda>r c'. r = Ok (port_pvid h p c) \<and> c' = c) c"
proof -
  have le: "phy_of h p \<le> 10" using phy_of_le R p by (simp add: sw_ready_def)
  show ?thesis
    unfolding rtk_vlan_portPvid_get_def
    using le A port_vidx_le [OF le]
    by (auto intro!: wp_thenE wp_bindE wp_chk_init [OF R] wp_chk_port [OF R p] wp_getPVID wp_getMbr
        wp_port_L2P [OF R valid_port_less [OF p]] wp_okE simp: port_pvid_def)
qed


section \<open>Properties\<close>

text \<open>The simulated chip with cleared registers satisfies the hypotheses.\<close>

lemma sim_cfg_regs: "cfg_regs \<subseteq> sim_addrs"
proof
  fix a assume a: "a \<in> cfg_regs"
  then have "a \<le> 0x3CF \<or> 0x700 \<le> a" and "a \<le> 0xFFFF"
    by (auto simp: cfg_regs_def cfg_reg_defs word_le_nat_alt)
  then show "a \<in> sim_addrs"
    by (auto simp: sim_addrs_def sim_rddata_def word_le_nat_alt word_less_nat_alt)
qed

lemma hw_mbrcfg_zero: "(\<And>a. sw_reg c a = 0) \<Longrightarrow> hw_mbrcfg i c = mc0"
  by (simp add: hw_mbrcfg_def VlanMCStSmi2User_def mc0_def eval_nat_numeral)

lemma sim_driver_up:
  assumes "hal_wf h"
  shows "driver_up sim_view sim_addrs h (sim_gsw 1 (Some h))"
proof -
  have "hw_mbrcfg i (swt_of sim_view (sim_gsw 1 (Some h))) = mc0" for i
    by (rule hw_mbrcfg_zero) (simp add: swt_of_def sim_dev0_def sim_view0_def)
  then have "db_ok (swt_of sim_view (sim_gsw 1 (Some h)))"
    by (simp add: db_ok_def entry_ok_def mc_empty_def mc0_def) (simp add: swt_of_def mc_empty_def)
  with assms show ?thesis
    by (simp add: driver_up_def sim_table_contract sim_cfg_regs ready_def)
qed

text \<open>
  C1. Setting the port-based VLAN of a port (\<open>rtk_vlan_portPvid_set\<close>): on an initialised driver
  whose bookkeeping agrees with the hardware, with a valid port, a VLAN identifier of at most 13
  bits and a priority of at most 7, either the call succeeds and reading the port's setting back
  gives exactly that identifier and priority, and every other port that points at a member-configuration
  entry in use (\<open>pvid_set\<close>) reads what it read before; or all 32 entries are in use and the call returns
  \<open>RT_ERR_TBL_FULL\<close>.  In both cases the bookkeeping still agrees with the hardware.
\<close>

theorem pvid_round_trip:
  assumes "driver_up view A h s" and "valid_port h p" and "pvid \<le> 0x1FFF" and "pri \<le> 7"
  shows "case rtk_vlan_portPvid_set p pvid pri s of
      (Ok _, s') \<Rightarrow> driver_up view A h s' \<and> fst (rtk_vlan_portPvid_get p PTR PTR s') = Ok (pvid, pri) \<and>
        (\<forall>q. valid_port h q \<and> q \<noteq> p \<and> pvid_set h q (swt_of view s) \<longrightarrow>
           fst (rtk_vlan_portPvid_get q PTR PTR s') = fst (rtk_vlan_portPvid_get q PTR PTR s))
    | (Err e, s') \<Rightarrow> e = RT_ERR_TBL_FULL \<and> driver_up view A h s' \<and>
        (\<forall>i \<le> 31. \<not> mc_empty (hw_mbrcfg i (swt_of view s)))
    | (Fault, s') \<Rightarrow> False"
proof -
  note up = driver_upD [OF assms(1)]
  from wp_portPvid_set [OF up(3,4,2) assms(2-4)] up(1) obtain r s' c' where
    run: "rtk_vlan_portPvid_set p pvid pri s = (r, s')" and rel: "swt_rel view A s' c'"
    and post: "pvid_post h p pvid pri (swt_of view s) r c'" by (rule wpD)
  have c': "sw_ready c' h" "db_ok c'" using post by (simp_all add: pvid_post_def)
  have get': "fst (rtk_vlan_portPvid_get q PTR PTR s') = Ok (port_pvid h q c')" if "valid_port h q" for q
    by (rule wp_run_pure(1) [OF wp_portPvid_get [OF c'(1) up(2) that] rel])
  have get: "fst (rtk_vlan_portPvid_get q PTR PTR s) = Ok (port_pvid h q (swt_of view s))"
    if "valid_port h q" for q
    by (rule wp_run_pure(1) [OF wp_portPvid_get [OF up(3,2) that] up(1)])
  show ?thesis
    using post get get' assms(2) driver_upI [OF rel up(2) c']
    by (cases r) (auto simp: run pvid_post_def)
qed

theorem pvid_round_trip_witness:
  "\<exists>s'. rtk_vlan_portPvid_set 2 5 3 (sim_gsw 1 (Some rtl8367c_hal_Ctrl)) = (Ok (), s') \<and>
     fst (rtk_vlan_portPvid_get 2 PTR PTR s') = Ok (5, 3)"
proof -
  let ?s = "sim_gsw 1 (Some rtl8367c_hal_Ctrl)"
  have port: "valid_port rtl8367c_hal_Ctrl 2" by code_simp
  have "mc_empty (hw_mbrcfg 0 (swt_of sim_view ?s))"
    by (subst hw_mbrcfg_zero) (simp_all add: swt_of_def sim_dev0_def sim_view0_def mc0_def mc_empty_def)
  then have "\<not> (\<forall>i \<le> 31. \<not> mc_empty (hw_mbrcfg i (swt_of sim_view ?s)))"
    by (auto intro!: exI [of _ 0])
  with pvid_round_trip [OF sim_driver_up [OF hal_tables_wf(1)] port, of 5 3] show ?thesis
    by (auto split: prod.splits outcome.splits)
qed

end
