(* ===== verification/Port_Api.thy ===== *)
theory Port_Api
  imports Vlan_Spec
begin

text \<open>
  The per-port settings of the API share one contract, stated as two locales: \<open>port_setting\<close> is what
  the register level promises for a setting, \<open>port_api\<close> what the API function built on it promises,
  and from the latter follow the round trip, the independence of ports and the rejection of bad
  arguments.  A setting leaves the member-configuration registers alone, so that the VLAN
  bookkeeping stays in agreement with the hardware.
\<close>

section \<open>Contracts\<close>

locale port_setting =
  fixes ok :: "'v \<Rightarrow> bool" and get_v :: "u32 \<Rightarrow> swt \<Rightarrow> 'v" and put_v :: "u32 \<Rightarrow> 'v \<Rightarrow> swt \<Rightarrow> swt"
    and set_f :: "u32 \<Rightarrow> 'v \<Rightarrow> ('d gsw, unit) drv" and get_f :: "u32 \<Rightarrow> ('d gsw, 'v) drv"
  assumes wp_set_v: "p \<le> 10 \<Longrightarrow> ok v \<Longrightarrow> cfg_regs \<subseteq> A \<Longrightarrow> Q (Ok ()) (put_v p v c) \<Longrightarrow>
      wp view A (set_f p v) Q c"
    and wp_get_v: "p \<le> 10 \<Longrightarrow> cfg_regs \<subseteq> A \<Longrightarrow> Q' (Ok (get_v p c)) c \<Longrightarrow> wp view A (get_f p) Q' c"
    and get_put_v: "p \<le> 10 \<Longrightarrow> q \<le> 10 \<Longrightarrow> ok v \<Longrightarrow>
      get_v q (put_v p v c) = (if p = q then v else get_v q c)"
    and put_ready: "sw_ready (put_v p v c) h = sw_ready c h"
    and put_db: "p \<le> 10 \<Longrightarrow> db_ok (put_v p v c) = db_ok c"

text \<open>\<open>enc\<close> and \<open>dec\<close> translate between what the caller gives and what the register holds.\<close>

locale port_api = port_setting ok get_v put_v set_f get_f
  for ok :: "'v \<Rightarrow> bool" and get_v put_v and set_f :: "u32 \<Rightarrow> 'v \<Rightarrow> ('d gsw, unit) drv" and get_f +
  fixes ok_api :: "rtk_switch_halCtrl_t \<Rightarrow> 'x \<Rightarrow> bool"
    and enc :: "rtk_switch_halCtrl_t \<Rightarrow> 'x \<Rightarrow> 'v" and dec :: "rtk_switch_halCtrl_t \<Rightarrow> 'v \<Rightarrow> 'x"
    and bad :: "'x \<Rightarrow> rt_error"
    and set_api :: "rtk_port_t \<Rightarrow> 'x \<Rightarrow> ('d gsw, unit) drv" and get_api :: "rtk_port_t \<Rightarrow> ('d gsw, 'x) drv"
  assumes enc_ok: "hal_wf h \<Longrightarrow> ok_api h x \<Longrightarrow> ok (enc h x) \<and> dec h (enc h x) = x"
    and set_api_wp: "sw_ready c h \<Longrightarrow> valid_port h p \<Longrightarrow> ok_api h x \<Longrightarrow> cfg_regs \<subseteq> A \<Longrightarrow>
      Q (Ok ()) (put_v (phy_of h p) (enc h x) c) \<Longrightarrow> wp view A (set_api p x) Q c"
    and get_api_wp: "sw_ready c h \<Longrightarrow> valid_port h p \<Longrightarrow> cfg_regs \<subseteq> A \<Longrightarrow>
      Q' (Ok (dec h (get_v (phy_of h p) c))) c \<Longrightarrow> wp view A (get_api p) Q' c"
    and set_api_bad: "ready s h \<Longrightarrow> \<not> (valid_port h p \<and> ok_api h x) \<Longrightarrow>
      set_api p x s = (Err (if valid_port h p then bad x else RT_ERR_PORT_ID), s)"
begin

lemma api_get:
  assumes "swt_rel view A t d" and "sw_ready d h" and "cfg_regs \<subseteq> A" and "valid_port h q"
  shows "fst (get_api q t) = Ok (dec h (get_v (phy_of h q) d))"
  by (rule wp_run_pure(1) [OF _ assms(1)]) (rule get_api_wp [OF assms(2,4,3)], simp)

lemma api_round_trip:
  assumes "driver_up view A h s" and "valid_port h p" and "ok_api h x"
  shows "\<exists>s'. set_api p x s = (Ok (), s') \<and> driver_up view A h s' \<and> fst (get_api p s') = Ok x \<and>
     (\<forall>q. valid_port h q \<and> q \<noteq> p \<longrightarrow> fst (get_api q s') = fst (get_api q s))"
proof -
  note up = driver_upD [OF assms(1)]
  let ?c = "swt_of view s" and ?c' = "put_v (phy_of h p) (enc h x) (swt_of view s)"
  note le = phy_of_le [OF up(5)]
  have "wp view A (set_api p x) (\<lambda>r d. r = Ok () \<and> d = ?c') ?c"
    by (rule set_api_wp [OF up(3) assms(2,3) up(2)]) simp
  from this up(1) obtain s' where run: "set_api p x s = (Ok (), s')" and rel: "swt_rel view A s' ?c'"
    by (rule wpD) blast
  have ready: "sw_ready ?c' h" and db: "db_ok ?c'" using up(3,4) le [OF assms(2)] by (simp_all add: put_ready put_db)
  have "dec h (get_v (phy_of h q) ?c') = (if q = p then x else dec h (get_v (phy_of h q) ?c))"
    if "valid_port h q" for q
    using enc_ok [OF up(5) assms(3)] get_put_v [OF le [OF assms(2)] le [OF that]]
      phy_of_inj [OF up(5) assms(2) that] by auto
  with run driver_upI [OF rel up(2) ready db] assms(2) show ?thesis
    by (auto simp: api_get [OF rel ready up(2)] api_get [OF up(1,3,2)])
qed

end

section \<open>Settings held in one field\<close>

definition fld :: "(u32 \<Rightarrow> u32) \<Rightarrow> (u32 \<Rightarrow> nat) \<Rightarrow> nat \<Rightarrow> u32 \<Rightarrow> swt \<Rightarrow> u32" where
  "fld reg off width p c = get_field (field_mask (off p) width) (sw_reg c (reg p))"

definition put_fld :: "(u32 \<Rightarrow> u32) \<Rightarrow> (u32 \<Rightarrow> nat) \<Rightarrow> nat \<Rightarrow> u32 \<Rightarrow> u32 \<Rightarrow> swt \<Rightarrow> swt" where
  "put_fld reg off width p v c = put_reg_field (reg p) (field_mask (off p) width) v c"

locale port_field_apart = port_field +
  assumes apart: "p \<le> 10 \<Longrightarrow> reg p < 0x728 \<or> 0x7A7 < reg p"

sublocale port_field_apart \<subseteq> port_setting "\<lambda>v. v \<le> vmax" "fld reg off width" "put_fld reg off width" set_f get_f
  by unfold_locales
     (auto simp: fld_def put_fld_def field_put db_ok_def idx_le hw_mbrcfg_put_reg_field apart
       intro: wp_set wp_get)

lemma apart_ports: "list_all (\<lambda>p. reg p < 0x728 \<or> 0x7A7 < reg p) all_port_ids \<Longrightarrow>
   p \<le> 10 \<Longrightarrow> reg p < 0x728 \<or> 0x7A7 < reg p"
  by (rule all_ports)

lemma fld_other: "reg' q \<noteq> reg p \<Longrightarrow> fld reg' off' w' q (put_fld reg off w p v c) = fld reg' off' w' q c"
  by (simp add: fld_def put_fld_def put_reg_field_other)

section \<open>Running the API functions\<close>

lemma wp_port_op:
  assumes "sw_ready c h" and "valid_port h p" and "wp view A chk (\<lambda>r c'. r = Ok () \<and> c' = c) c"
    and "wp view A (f (phy_of h p)) Q c"
  shows "wp view A (port_op p chk f) Q c"
  unfolding port_op_def
  using assms
  by (auto intro!: wp_thenE wp_bindE wp_chk_init [OF assms(1)] wp_chk_port [OF assms(1,2)]
      wp_weaken [OF assms(3)] wp_port_L2P [OF assms(1) valid_port_less [OF assms(2)]])

lemma wp_check_that: "b \<Longrightarrow> wp view A (check_that b e) (\<lambda>r c'. r = Ok () \<and> c' = c) c"
  by (simp add: check_that_def wp_okE)

lemma wp_not_null: "wp view A (not_null PTR) (\<lambda>r c'. r = Ok () \<and> c' = c) c"
  by (simp add: not_null_def wp_check_that)

lemma check_that_True [simp]: "check_that True e = okE ()"
  by (simp add: check_that_def)

lemma port_op_bad:
  "ready s h \<Longrightarrow> port_op p (check_that b e) f s =
     (if \<not> valid_port h p then (Err RT_ERR_PORT_ID, s) else if \<not> b then (Err e, s)
      else f (phy_of h p) s)"
  by (auto simp: port_op_def thenE_def bindE_def chk_init_run chk_port_run check_that_def errE_def okE_def
      port_L2P_run valid_port_less)

lemma word_less_bounds:
  "(v :: u32) < 2 \<longleftrightarrow> v \<le> 1" "v < 3 \<longleftrightarrow> v \<le> 2" "v < 4 \<longleftrightarrow> v \<le> 3"
  "2 \<le> v \<longleftrightarrow> \<not> v \<le> 1"
  by (auto simp: word_less_nat_alt word_le_nat_alt)

text \<open>Port sets are translated to physical ports and back.\<close>

lemma l2p_mask_bound: "hal_wf h \<Longrightarrow> valid_mask h m \<Longrightarrow> l2p_mask h m \<le> 0x7FF \<and> p2l_mask h (l2p_mask h m) = m"
  using port_map.l2p_mask_le [of h m] port_map.p2l_l2p [of h m] by (simp add: port_map_def)

lemma wp_portmask_set_op:
  assumes "sw_ready c h" and "valid_port h p" and "valid_mask h m" and "wp view A (f (phy_of h p) (l2p_mask h m)) Q c"
  shows "wp view A (portmask_set_op p (Some m) f) Q c"
  unfolding portmask_set_op_def
  using assms
  by (auto intro!: wp_thenE wp_bindE wp_mapErrE wp_chk_init [OF assms(1)] wp_chk_port [OF assms(1,2)]
      wp_chk_portmask [OF assms(1,3)] wp_portmask_L2P [OF assms(1,3)]
      wp_port_L2P [OF assms(1) valid_port_less [OF assms(2)]])

lemma portmask_set_op_bad:
  "ready s h \<Longrightarrow> \<not> (valid_port h p \<and> valid_mask h m) \<Longrightarrow>
   portmask_set_op p (Some m) f s = (Err (if valid_port h p then RT_ERR_PORT_MASK else RT_ERR_PORT_ID), s)"
  by (auto simp: portmask_set_op_def thenE_def bindE_def chk_init_run chk_port_run
      RTK_CHK_PORTMASK_VALID_def mapErrE_def isPortMaskValid_run)

lemma wp_portmask_get_op:
  assumes "sw_ready c h" and "valid_port h p"
    and "wp view A (f (phy_of h p)) (\<lambda>r c'. \<exists>v. r = Ok v \<and> c' = c \<and> Q (Ok (p2l_mask h v)) c) c"
  shows "wp view A (portmask_get_op p PTR f) Q c"
  unfolding portmask_get_op_def
  by (intro wp_port_op [OF assms(1,2) wp_not_null] wp_bindE wp_weaken [OF assms(3)])
     (auto intro!: wp_mapErrE wp_portmask_P2L [OF assms(1)])

end
