(* ===== verification/Vlan_Ports.thy ===== *)
theory Vlan_Ports
  imports Port_Api
begin

text \<open>
  The per-port settings of the VLAN API: ingress filter, accepted frame types, egress tag mode,
  transparent and keep port sets, port-based filtering database and spanning-tree state, each an
  instance of the contracts of \<open>Port_Api\<close>.
\<close>

section \<open>Settings held in one field\<close>

interpretation aft_set: port_field_apart RTL8367C_VLAN_ACCEPT_FRAME_TYPE_REG two_bit_off 2 2
  rtl8367c_setAsicVlanAccpetFrameType rtl8367c_getAsicVlanAccpetFrameType
  by unfold_locales (rule apart_ports, code_simp)

interpretation igr_set: port_field_apart "\<lambda>_. RTL8367C_VLAN_INGRESS_REG" unat 1 1
  rtl8367c_setAsicVlanIngressFilter rtl8367c_getAsicVlanIngressFilter
  by unfold_locales simp

interpretation etm_set: port_field_apart RTL8367C_PORT_MISC_CFG_REG "\<lambda>_. 4" 2 3
  rtl8367c_setAsicVlanEgressTagMode rtl8367c_getAsicVlanEgressTagMode
  by unfold_locales (rule apart_ports, code_simp)

interpretation trans_set: port_field_apart "\<lambda>p. 0x9D0 + p" "\<lambda>_. 0" 11 "0x7FF"
  rtl8367c_setAsicVlanTransparent rtl8367c_getAsicVlanTransparent
  by unfold_locales (rule apart_ports, code_simp)

lemma msti_apart: "p \<le> 10 \<Longrightarrow> RTL8367C_VLAN_MSTI_REG (m AND 15) p < 0x728 \<or>
   0x7A7 < RTL8367C_VLAN_MSTI_REG (m AND 15) p"
proof -
  assume p: "p \<le> 10"
  have "list_all (\<lambda>p :: u32. drop_bit 3 p \<le> 1) all_port_ids" by code_simp
  then have "drop_bit 3 p \<le> 1" using p by (rule all_ports)
  moreover have "unat (m AND 15) \<le> 15" using and_15_le [of m] by (simp add: word_le_nat_alt)
  ultimately have "unat (RTL8367C_VLAN_MSTI_REG (m AND 15) p) \<ge> 0xA00"
    by (simp add: RTL8367C_VLAN_MSTI_REG_def word_le_nat_alt unat_word_ariths push_bit_eq_mult)
  then show ?thesis by (simp add: word_less_nat_alt)
qed

interpretation stp_set: port_field_apart "RTL8367C_VLAN_MSTI_REG (m AND 15)" msti_off 2 3
  "\<lambda>p. rtl8367c_setAsicSpanningTreeStatus p (m AND 15)"
  "\<lambda>p. rtl8367c_getAsicSpanningTreeStatus p (m AND 15)" for m
  by unfold_locales (rule msti_apart)

section \<open>Settings held in two fields\<close>

definition keep_v :: "u32 \<Rightarrow> swt \<Rightarrow> u32" where
  "keep_v p c = push_bit 8 (fld keep_ext_reg keep_ext_off 3 p c) OR fld keep_reg keep_off 8 p c"

definition put_keep :: "u32 \<Rightarrow> u32 \<Rightarrow> swt \<Rightarrow> swt" where
  "put_keep p v c = put_fld keep_ext_reg keep_ext_off 3 p (drop_bit 8 v AND 0x7)
     (put_fld keep_reg keep_off 8 p (v AND 0xFF) c)"

interpretation keep_lo_set: port_field_apart keep_reg keep_off 8 "0xFF"
  "\<lambda>p. rtl8367c_setAsicRegBits (keep_reg p) (keep_mask p)"
  "\<lambda>p. rtl8367c_getAsicRegBits (keep_reg p) (keep_mask p)"
  by unfold_locales (rule apart_ports, code_simp)

interpretation keep_hi_set: port_field_apart keep_ext_reg keep_ext_off 3 7
  "\<lambda>p. rtl8367c_setAsicRegBits (keep_ext_reg p) (keep_ext_mask p)"
  "\<lambda>p. rtl8367c_getAsicRegBits (keep_ext_reg p) (keep_ext_mask p)"
  by unfold_locales (rule apart_ports, code_simp)

lemma keep_regs_differ: "p \<le> 10 \<Longrightarrow> q \<le> 10 \<Longrightarrow> keep_reg p \<noteq> keep_ext_reg q"
proof -
  assume p: "p \<le> 10" and q: "q \<le> 10"
  have "list_all (\<lambda>p. list_all (\<lambda>q. keep_reg p \<noteq> keep_ext_reg q) all_port_ids) all_port_ids" by code_simp
  from all_ports [OF all_ports [OF this p] q] show ?thesis .
qed

lemma keep_split: "(v :: u32) \<le> 0x7FF \<Longrightarrow> push_bit 8 (drop_bit 8 v AND 0x7) OR (v AND 0xFF) = v"
proof -
  assume "v \<le> 0x7FF"
  then have v: "bit v k \<Longrightarrow> k < 11" for k
    using le_mask_iff_bits [of v 11] by (simp add: mask_eq_exp_minus_1 not_le) (meson not_le)
  have "push_bit 8 (drop_bit 8 v AND mask 3) OR (v AND mask 8) = v"
  proof (rule bit_word_eqI)
    fix n assume "n < LENGTH(32)"
    then show "bit (push_bit 8 (drop_bit 8 v AND mask 3) OR (v AND mask 8)) n = bit v n"
      using v [of n] by (cases "n < 8") (auto simp: bit_simps)
  qed
  then show ?thesis by (simp add: mask_eq_exp_minus_1)
qed

interpretation keep_set: port_setting "\<lambda>v. v \<le> 0x7FF" keep_v put_keep
  rtl8367c_setAsicVlanEgressKeep rtl8367c_getAsicVlanEgressKeep
proof
  fix p v :: u32 and A and c :: swt and view :: "'d \<Rightarrow> chip_view" and Q
  assume "p \<le> 10" and "v \<le> 0x7FF" and "cfg_regs \<subseteq> A" and "Q (Ok ()) (put_keep p v c)"
  then show "wp view A (rtl8367c_setAsicVlanEgressKeep p v) Q c"
    unfolding rtl8367c_setAsicVlanEgressKeep_def
    by (auto simp: leD put_keep_def word_and_le1 intro!: wp_thenE keep_lo_set.wp_set_v keep_hi_set.wp_set_v)
next
  fix p :: u32 and A and c :: swt and view :: "'d \<Rightarrow> chip_view" and Q
  assume "p \<le> 10" and "cfg_regs \<subseteq> A" and "Q (Ok (keep_v p c)) c"
  then show "wp view A (rtl8367c_getAsicVlanEgressKeep p) Q c"
    unfolding rtl8367c_getAsicVlanEgressKeep_def
    by (auto simp: leD keep_v_def intro!: wp_bindE wp_okE keep_lo_set.wp_get_v keep_hi_set.wp_get_v)
next
  fix p q v :: u32 and c assume "p \<le> 10" and "q \<le> 10" and "v \<le> 0x7FF"
  then show "keep_v q (put_keep p v c) = (if p = q then v else keep_v q c)"
    using keep_regs_differ [of q p] keep_regs_differ [of p q]
    using keep_split [of v]
    by (simp add: keep_v_def put_keep_def keep_hi_set.get_put_v keep_lo_set.get_put_v fld_other
        word_and_le1)
qed (simp_all add: put_keep_def keep_hi_set.put_ready keep_lo_set.put_ready keep_hi_set.put_db
    keep_lo_set.put_db)

definition fid_v :: "u32 \<Rightarrow> swt \<Rightarrow> u32 \<times> u32" where
  "fid_v p c = (fld (\<lambda>_. RTL8367C_REG_PORT_PBFIDEN) unat 1 p c, fld pbfid_reg (\<lambda>_. 0) 16 p c)"

definition put_fid :: "u32 \<Rightarrow> u32 \<times> u32 \<Rightarrow> swt \<Rightarrow> swt" where
  "put_fid p v c = put_fld pbfid_reg (\<lambda>_. 0) 16 p (snd v)
     (put_fld (\<lambda>_. RTL8367C_REG_PORT_PBFIDEN) unat 1 p (fst v) c)"

interpretation fiden_set: port_field_apart "\<lambda>_. RTL8367C_REG_PORT_PBFIDEN" unat 1 1
  rtl8367c_setAsicPortBasedFidEn rtl8367c_getAsicPortBasedFidEn
  by unfold_locales simp

interpretation fidval_set: port_field_apart pbfid_reg "\<lambda>_. 0" 16 15
  rtl8367c_setAsicPortBasedFid rtl8367c_getAsicPortBasedFid
  by unfold_locales (rule apart_ports, code_simp)

lemma pbfid_differ: "p \<le> 10 \<Longrightarrow> pbfid_reg p \<noteq> RTL8367C_REG_PORT_PBFIDEN"
proof -
  assume p: "p \<le> 10"
  have "list_all (\<lambda>p. pbfid_reg p \<noteq> RTL8367C_REG_PORT_PBFIDEN) all_port_ids" by code_simp
  from all_ports [OF this p] show ?thesis .
qed

interpretation fid_set: port_setting "\<lambda>v. fst v \<le> 1 \<and> snd v \<le> 15" fid_v put_fid
  "\<lambda>p v. thenE (rtl8367c_setAsicPortBasedFidEn p (fst v)) (rtl8367c_setAsicPortBasedFid p (snd v))"
  "\<lambda>p. bindE (rtl8367c_getAsicPortBasedFidEn p) (\<lambda>en. bindE (rtl8367c_getAsicPortBasedFid p) (\<lambda>fid. okE (en, fid)))"
proof
  fix p q :: u32 and v :: "u32 \<times> u32" and c assume "p \<le> 10" and "q \<le> 10" and "fst v \<le> 1 \<and> snd v \<le> 15"
  then show "fid_v q (put_fid p v c) = (if p = q then v else fid_v q c)"
    using pbfid_differ [of p] pbfid_differ [of q]
    by (auto simp: fid_v_def put_fid_def fidval_set.get_put_v fiden_set.get_put_v fld_other
        simp del: One_nat_def)
qed (auto simp: put_fid_def fid_v_def fidval_set.put_ready fiden_set.put_ready fidval_set.put_db fiden_set.put_db
    simp del: One_nat_def intro!: wp_thenE wp_bindE wp_okE fiden_set.wp_set_v fidval_set.wp_set_v fiden_set.wp_get_v fidval_set.wp_get_v)

section \<open>The API functions\<close>

interpretation igr_api: port_api "\<lambda>v. v \<le> 1" "fld (\<lambda>_. RTL8367C_VLAN_INGRESS_REG) unat 1"
  "put_fld (\<lambda>_. RTL8367C_VLAN_INGRESS_REG) unat 1"
  rtl8367c_setAsicVlanIngressFilter rtl8367c_getAsicVlanIngressFilter
  "\<lambda>_ v. v < RTK_ENABLE_END" "\<lambda>_ v. v" "\<lambda>_ v. v" "\<lambda>_. RT_ERR_ENABLE"
  rtk_vlan_portIgrFilterEnable_set "\<lambda>p. rtk_vlan_portIgrFilterEnable_get p PTR"
  by unfold_locales
     (auto simp: rtk_vlan_portIgrFilterEnable_set_def rtk_vlan_portIgrFilterEnable_get_def
       word_less_bounds port_op_bad
       intro!: wp_port_op wp_check_that wp_okE wp_not_null igr_set.wp_set_v igr_set.wp_get_v phy_of_le
       simp: sw_ready_def simp del: One_nat_def)

interpretation aft_api: port_api "\<lambda>v. v \<le> 2" "fld RTL8367C_VLAN_ACCEPT_FRAME_TYPE_REG two_bit_off 2"
  "put_fld RTL8367C_VLAN_ACCEPT_FRAME_TYPE_REG two_bit_off 2"
  rtl8367c_setAsicVlanAccpetFrameType rtl8367c_getAsicVlanAccpetFrameType
  "\<lambda>_ v. v < ACCEPT_FRAME_TYPE_END" "\<lambda>_ v. v" "\<lambda>_ v. v" "\<lambda>_. RT_ERR_VLAN_ACCEPT_FRAME_TYPE"
  rtk_vlan_portAcceptFrameType_set "\<lambda>p. rtk_vlan_portAcceptFrameType_get p PTR"
  by unfold_locales
     (auto simp: rtk_vlan_portAcceptFrameType_set_def rtk_vlan_portAcceptFrameType_get_def
       word_less_bounds port_op_bad
       intro!: wp_port_op wp_check_that wp_okE wp_not_null aft_set.wp_set_v aft_set.wp_get_v phy_of_le
       simp: sw_ready_def)

interpretation etm_api: port_api "\<lambda>v. v \<le> 3" "fld RTL8367C_PORT_MISC_CFG_REG (\<lambda>_. 4) 2"
  "put_fld RTL8367C_PORT_MISC_CFG_REG (\<lambda>_. 4) 2"
  rtl8367c_setAsicVlanEgressTagMode rtl8367c_getAsicVlanEgressTagMode
  "\<lambda>_ v. v < VLAN_TAG_MODE_END" "\<lambda>_ v. v" "\<lambda>_ v. v" "\<lambda>_. RT_ERR_PORT_ID"
  rtk_vlan_tagMode_set "\<lambda>p. rtk_vlan_tagMode_get p PTR"
  by unfold_locales
     (auto simp: rtk_vlan_tagMode_set_def rtk_vlan_tagMode_get_def word_less_bounds port_op_bad
       intro!: wp_port_op wp_check_that wp_okE wp_not_null etm_set.wp_set_v etm_set.wp_get_v phy_of_le
       simp: sw_ready_def)

interpretation stp_api: port_api "\<lambda>v. v \<le> 3" "fld (RTL8367C_VLAN_MSTI_REG (m AND 15)) msti_off 2"
  "put_fld (RTL8367C_VLAN_MSTI_REG (m AND 15)) msti_off 2"
  "\<lambda>p. rtl8367c_setAsicSpanningTreeStatus p (m AND 15)"
  "\<lambda>p. rtl8367c_getAsicSpanningTreeStatus p (m AND 15)"
  "\<lambda>_ v. v < STP_STATE_END" "\<lambda>_ v. v" "\<lambda>_ v. v" "\<lambda>_. RT_ERR_MSTP_STATE"
  "rtk_stp_mstpState_set (m AND 15)" "\<lambda>p. rtk_stp_mstpState_get (m AND 15) p PTR" for m
  by unfold_locales
     (auto simp: rtk_stp_mstpState_set_def rtk_stp_mstpState_get_def word_less_bounds port_op_bad
       not_null_def and_15_le
       intro!: wp_port_op wp_check_that wp_okE stp_set.wp_set_v stp_set.wp_get_v phy_of_le
       simp: sw_ready_def)

interpretation trans_api: port_api "\<lambda>v. v \<le> 0x7FF" "fld (\<lambda>p. 0x9D0 + p) (\<lambda>_. 0) 11"
  "put_fld (\<lambda>p. 0x9D0 + p) (\<lambda>_. 0) 11"
  rtl8367c_setAsicVlanTransparent rtl8367c_getAsicVlanTransparent
  valid_mask l2p_mask p2l_mask "\<lambda>_. RT_ERR_PORT_MASK"
  "\<lambda>p m. rtk_vlan_transparent_set p (Some m)" "\<lambda>p. rtk_vlan_transparent_get p PTR"
  by unfold_locales
     (auto simp: rtk_vlan_transparent_set_def rtk_vlan_transparent_get_def l2p_mask_bound portmask_set_op_bad
       intro!: wp_portmask_set_op wp_portmask_get_op trans_set.wp_set_v trans_set.wp_get_v phy_of_le
       simp: sw_ready_def)

interpretation keep_api: port_api "\<lambda>v. v \<le> 0x7FF" keep_v put_keep
  rtl8367c_setAsicVlanEgressKeep rtl8367c_getAsicVlanEgressKeep
  valid_mask l2p_mask p2l_mask "\<lambda>_. RT_ERR_PORT_MASK"
  "\<lambda>p m. rtk_vlan_keep_set p (Some m)" "\<lambda>p. rtk_vlan_keep_get p PTR"
  by unfold_locales
     (auto simp: rtk_vlan_keep_set_def rtk_vlan_keep_get_def l2p_mask_bound portmask_set_op_bad
       intro!: wp_portmask_set_op wp_portmask_get_op keep_set.wp_set_v keep_set.wp_get_v phy_of_le
       simp: sw_ready_def)

interpretation fid_api: port_api "\<lambda>v. fst v \<le> 1 \<and> snd v \<le> 15" fid_v put_fid
  "\<lambda>p v. thenE (rtl8367c_setAsicPortBasedFidEn p (fst v)) (rtl8367c_setAsicPortBasedFid p (snd v))"
  "\<lambda>p. bindE (rtl8367c_getAsicPortBasedFidEn p) (\<lambda>en. bindE (rtl8367c_getAsicPortBasedFid p) (\<lambda>fid. okE (en, fid)))"
  "\<lambda>_ x. fst x < RTK_ENABLE_END \<and> snd x \<le> RTK_FID_MAX" "\<lambda>_ v. v" "\<lambda>_ v. v"
  "\<lambda>x. if fst x \<ge> RTK_ENABLE_END then RT_ERR_ENABLE else RT_ERR_L2_FID"
  "\<lambda>p x. rtk_vlan_portFid_set p (fst x) (snd x)" "\<lambda>p. rtk_vlan_portFid_get p PTR PTR"
proof (unfold_locales, goal_cases)
  case (2 c h p x A Q view)
  then have le: "phy_of h p \<le> 10" by (simp add: phy_of_le sw_ready_def)
  from 2 le show ?case
    unfolding rtk_vlan_portFid_set_def put_fid_def
    by (auto intro!: wp_thenE wp_bindE wp_chk_init [OF 2(1)] wp_chk_port [OF 2(1,2)] fiden_set.wp_set_v
        fidval_set.wp_set_v wp_port_L2P [where h = h] valid_port_less
        simp: word_less_bounds leD not_le fiden_set.put_ready simp del: One_nat_def)
next
  case (3 c h p A Q view)
  then have le: "phy_of h p \<le> 10" by (simp add: phy_of_le sw_ready_def)
  from 3 le show ?case
    unfolding rtk_vlan_portFid_get_def
    by (auto intro!: wp_port_op [OF 3(1,2)] wp_bindE fiden_set.wp_get_v fidval_set.wp_get_v wp_okE
        wp_port_L2P [OF 3(1)] valid_port_less simp: not_null_def fid_v_def simp del: One_nat_def)
next
  case (4 s h p x)
  then show ?case
    by (auto simp: rtk_vlan_portFid_set_def thenE_def bindE_def chk_init_run chk_port_run errE_def
        word_less_bounds not_le not_less)
qed (auto simp: word_less_bounds)

section \<open>Properties\<close>

text \<open>
  Accepted frame types of a port (\<open>rtk_vlan_portAcceptFrameType_set\<close> and \<open>_get\<close>): for a valid
  port and one of the three types the call succeeds, reading the port gives the type, and every
  other port reads as before although eight ports share a register.
\<close>

theorem accept_frame_type_round_trip:
  assumes "driver_up view A h s" and "valid_port h p" and "v < ACCEPT_FRAME_TYPE_END"
  shows "\<exists>s'. rtk_vlan_portAcceptFrameType_set p v s = (Ok (), s') \<and> driver_up view A h s' \<and>
     fst (rtk_vlan_portAcceptFrameType_get p PTR s') = Ok v \<and>
     (\<forall>q. valid_port h q \<and> q \<noteq> p \<longrightarrow>
        fst (rtk_vlan_portAcceptFrameType_get q PTR s') = fst (rtk_vlan_portAcceptFrameType_get q PTR s))"
  by (rule aft_api.api_round_trip [OF assms])

theorem accept_frame_type_round_trip_witness:
  "\<exists>s'. rtk_vlan_portAcceptFrameType_set 4 2 (sim_gsw 1 (Some rtl8367c_hal_Ctrl)) = (Ok (), s') \<and>
     fst (rtk_vlan_portAcceptFrameType_get 4 PTR s') = Ok 2"
proof -
  have "valid_port rtl8367c_hal_Ctrl 4" by code_simp
  from accept_frame_type_round_trip [OF sim_driver_up [OF hal_tables_wf(1)] this, of 2] show ?thesis by auto
qed

text \<open>
  Ingress filter of a port (\<open>rtk_vlan_portIgrFilterEnable_set\<close> and \<open>_get\<close>): the setting reads
  back and no other port changes.
\<close>

theorem igr_filter_round_trip:
  assumes "driver_up view A h s" and "valid_port h p" and "v < RTK_ENABLE_END"
  shows "\<exists>s'. rtk_vlan_portIgrFilterEnable_set p v s = (Ok (), s') \<and> driver_up view A h s' \<and>
     fst (rtk_vlan_portIgrFilterEnable_get p PTR s') = Ok v \<and>
     (\<forall>q. valid_port h q \<and> q \<noteq> p \<longrightarrow>
        fst (rtk_vlan_portIgrFilterEnable_get q PTR s') = fst (rtk_vlan_portIgrFilterEnable_get q PTR s))"
  by (rule igr_api.api_round_trip [OF assms])

theorem igr_filter_round_trip_witness:
  "\<exists>s'. rtk_vlan_portIgrFilterEnable_set 16 1 (sim_gsw 1 (Some rtl8367c_hal_Ctrl)) = (Ok (), s') \<and>
     fst (rtk_vlan_portIgrFilterEnable_get 16 PTR s') = Ok 1"
proof -
  have "valid_port rtl8367c_hal_Ctrl 16" by code_simp
  from igr_filter_round_trip [OF sim_driver_up [OF hal_tables_wf(1)] this, of 1] show ?thesis by auto
qed

text \<open>
  Egress tag mode of a port (\<open>rtk_vlan_tagMode_set\<close> and \<open>_get\<close>): the mode reads back and no
  other port changes.
\<close>

theorem tag_mode_round_trip:
  assumes "driver_up view A h s" and "valid_port h p" and "v < VLAN_TAG_MODE_END"
  shows "\<exists>s'. rtk_vlan_tagMode_set p v s = (Ok (), s') \<and> driver_up view A h s' \<and>
     fst (rtk_vlan_tagMode_get p PTR s') = Ok v \<and>
     (\<forall>q. valid_port h q \<and> q \<noteq> p \<longrightarrow> fst (rtk_vlan_tagMode_get q PTR s') = fst (rtk_vlan_tagMode_get q PTR s))"
  by (rule etm_api.api_round_trip [OF assms])

theorem tag_mode_round_trip_witness:
  "\<exists>s'. rtk_vlan_tagMode_set 1 3 (sim_gsw 1 (Some rtl8367c_hal_Ctrl)) = (Ok (), s') \<and>
     fst (rtk_vlan_tagMode_get 1 PTR s') = Ok 3"
proof -
  have "valid_port rtl8367c_hal_Ctrl 1" by code_simp
  from tag_mode_round_trip [OF sim_driver_up [OF hal_tables_wf(1)] this, of 3] show ?thesis by auto
qed

text \<open>
  Spanning-tree state of a port in one of the sixteen trees (\<open>rtk_stp_mstpState_set\<close> and
  \<open>_get\<close>): the state reads back and the state of every other port in that tree is kept.
\<close>

theorem mstp_state_round_trip:
  assumes "driver_up view A h s" and "valid_port h p" and "v < STP_STATE_END" and "msti \<le> RTK_MAX_NUM_OF_MSTI"
  shows "\<exists>s'. rtk_stp_mstpState_set msti p v s = (Ok (), s') \<and> driver_up view A h s' \<and>
     fst (rtk_stp_mstpState_get msti p PTR s') = Ok v \<and>
     (\<forall>q. valid_port h q \<and> q \<noteq> p \<longrightarrow>
        fst (rtk_stp_mstpState_get msti q PTR s') = fst (rtk_stp_mstpState_get msti q PTR s))"
proof -
  have "msti \<le> mask 4" using assms(4) by (simp add: mask_eq_exp_minus_1)
  then have "msti AND 15 = msti"
    unfolding word_le_mask_iff by (simp add: take_bit_eq_mask mask_eq_exp_minus_1)
  with stp_api.api_round_trip [OF assms(1-3), of msti] show ?thesis by simp
qed

theorem mstp_state_round_trip_witness:
  "\<exists>s'. rtk_stp_mstpState_set 15 17 3 (sim_gsw 1 (Some rtl8367c_hal_Ctrl)) = (Ok (), s') \<and>
     fst (rtk_stp_mstpState_get 15 17 PTR s') = Ok 3"
proof -
  have "valid_port rtl8367c_hal_Ctrl 17" by code_simp
  from mstp_state_round_trip [OF sim_driver_up [OF hal_tables_wf(1)] this, of 3 15] show ?thesis by auto
qed

text \<open>
  Egress keep set of a port (\<open>rtk_vlan_keep_set\<close> and \<open>_get\<close>): the set of ingress ports, given
  in logical port numbers and stored in two registers of physical ports, reads back as given and
  no other egress port changes.
\<close>

theorem keep_round_trip:
  assumes "driver_up view A h s" and "valid_port h p" and "valid_mask h m"
  shows "\<exists>s'. rtk_vlan_keep_set p (Some m) s = (Ok (), s') \<and> driver_up view A h s' \<and>
     fst (rtk_vlan_keep_get p PTR s') = Ok m \<and>
     (\<forall>q. valid_port h q \<and> q \<noteq> p \<longrightarrow> fst (rtk_vlan_keep_get q PTR s') = fst (rtk_vlan_keep_get q PTR s))"
  by (rule keep_api.api_round_trip [OF assms])

theorem keep_round_trip_witness:
  "\<exists>s'. rtk_vlan_keep_set 3 (Some 0x30003) (sim_gsw 1 (Some rtl8367c_hal_Ctrl)) = (Ok (), s') \<and>
     fst (rtk_vlan_keep_get 3 PTR s') = Ok 0x30003"
proof -
  have "valid_port rtl8367c_hal_Ctrl 3" "valid_mask rtl8367c_hal_Ctrl 0x30003" by code_simp+
  from keep_round_trip [OF sim_driver_up [OF hal_tables_wf(1)] this] show ?thesis by auto
qed

text \<open>
  Port-based filtering database (\<open>rtk_vlan_portFid_set\<close> and \<open>_get\<close>): enable flag and database
  number, held in two registers, read back together and no other port changes.
\<close>

theorem port_fid_round_trip:
  assumes "driver_up view A h s" and "valid_port h p" and "en < RTK_ENABLE_END" and "fid \<le> RTK_FID_MAX"
  shows "\<exists>s'. rtk_vlan_portFid_set p en fid s = (Ok (), s') \<and> driver_up view A h s' \<and>
     fst (rtk_vlan_portFid_get p PTR PTR s') = Ok (en, fid) \<and>
     (\<forall>q. valid_port h q \<and> q \<noteq> p \<longrightarrow>
        fst (rtk_vlan_portFid_get q PTR PTR s') = fst (rtk_vlan_portFid_get q PTR PTR s))"
  using fid_api.api_round_trip [OF assms(1,2), of "(en, fid)"] assms(3,4) by simp

theorem port_fid_round_trip_witness:
  "\<exists>s'. rtk_vlan_portFid_set 0 1 9 (sim_gsw 1 (Some rtl8367c_hal_Ctrl)) = (Ok (), s') \<and>
     fst (rtk_vlan_portFid_get 0 PTR PTR s') = Ok (1, 9)"
proof -
  have "valid_port rtl8367c_hal_Ctrl 0" by code_simp
  from port_fid_round_trip [OF sim_driver_up [OF hal_tables_wf(1)] this, of 1 9] show ?thesis by auto
qed

text \<open>
  The argument checks of the transparent-port function come first: with an invalid egress port
  it returns \<open>RT_ERR_PORT_ID\<close>, with an invalid ingress port set \<open>RT_ERR_PORT_MASK\<close>, and neither
  driver nor chip changes; with valid arguments the set reads back.
\<close>

theorem transparent_checked_round_trip:
  assumes "driver_up view A h s"
  shows "if \<not> valid_port h p then rtk_vlan_transparent_set p (Some m) s = (Err RT_ERR_PORT_ID, s)
     else if \<not> valid_mask h m then rtk_vlan_transparent_set p (Some m) s = (Err RT_ERR_PORT_MASK, s)
     else (\<exists>s'. rtk_vlan_transparent_set p (Some m) s = (Ok (), s') \<and> driver_up view A h s' \<and>
       fst (rtk_vlan_transparent_get p PTR s') = Ok m)"
  using trans_api.set_api_bad [of s h p m] trans_api.api_round_trip [OF assms, of p m] assms
  by (auto simp: driver_up_def)

theorem transparent_checked_round_trip_witness:
  "rtk_vlan_transparent_set 9 (Some 1) (sim_gsw 1 (Some rtl8367c_hal_Ctrl)) =
     (Err RT_ERR_PORT_ID, sim_gsw 1 (Some rtl8367c_hal_Ctrl))"
proof -
  have "\<not> valid_port rtl8367c_hal_Ctrl 9" by code_simp
  with transparent_checked_round_trip [OF sim_driver_up [OF hal_tables_wf(1)], of 9 1] show ?thesis by simp
qed

end
