(* ===== verification/Vlan_Entries.thy ===== *)
theory Vlan_Entries
  imports Vlan_Spec
begin

text \<open>
  VLAN entries: \<open>rtk_vlan_set\<close> and \<open>rtk_vlan_get\<close>, the spanning-tree group of a VLAN, direct access
  to the member configuration, and the state after \<open>rtk_vlan_init\<close>.
\<close>

section \<open>A sample configuration\<close>

definition sample_cfg :: rtk_vlan_cfg_t where
  "sample_cfg = \<lparr>cfg_mbr = 0x10003, cfg_untag = 0x3, cfg_ivl_en = 1, cfg_fid_msti = 2,
     cfg_envlanpol = 0, cfg_meteridx = 31, cfg_vbpen = 1, cfg_vbpri = 5\<rparr>"

definition sample_cfg0 :: rtk_vlan_cfg_t where
  "sample_cfg0 = \<lparr>cfg_mbr = 0, cfg_untag = 0, cfg_ivl_en = 0, cfg_fid_msti = 0,
     cfg_envlanpol = 0, cfg_meteridx = 0, cfg_vbpen = 0, cfg_vbpri = 0\<rparr>"

section \<open>Argument checks\<close>

text \<open>The checks of \<open>rtk_vlan_set\<close>, in the order the code makes them.\<close>

definition vlan_cfg_error :: "rtk_switch_halCtrl_t \<Rightarrow> u32 \<Rightarrow> rtk_vlan_cfg_t option \<Rightarrow> rt_error option" where
  "vlan_cfg_error h vid pcfg =
     (if vid > 0x1FFF then Some RT_ERR_VLAN_VID
      else case pcfg of
        None \<Rightarrow> Some RT_ERR_NULL_POINTER
      | Some cfg \<Rightarrow>
        if \<not> valid_mask h (cfg_mbr cfg) then Some RT_ERR_PORT_MASK
        else if vid \<le> 0xFFF \<and> \<not> valid_mask h (cfg_untag cfg) then Some RT_ERR_PORT_MASK
        else if cfg_ivl_en cfg \<ge> 2 then Some RT_ERR_ENABLE
        else if cfg_fid_msti cfg > 15 then Some RT_ERR_L2_FID
        else if cfg_envlanpol cfg \<ge> 2 then Some RT_ERR_ENABLE
        else if ucast (cfg_meteridx cfg) > max_meter_id h then Some RT_ERR_INPUT
        else if cfg_vbpen cfg \<ge> 2 then Some RT_ERR_ENABLE
        else if cfg_vbpri cfg > 7 then Some RT_ERR_INPUT
        else if \<not> valid_mask h (cfg_untag cfg) then Some RT_ERR_FAILED
        else None)"

definition cfg_ok :: "rtk_switch_halCtrl_t \<Rightarrow> rtk_vlan_cfg_t \<Rightarrow> bool" where
  "cfg_ok h cfg \<longleftrightarrow> valid_mask h (cfg_mbr cfg) \<and> valid_mask h (cfg_untag cfg) \<and>
     cfg_ivl_en cfg \<le> 1 \<and> cfg_fid_msti cfg \<le> 15 \<and> cfg_envlanpol cfg \<le> 1 \<and>
     ucast (cfg_meteridx cfg) \<le> max_meter_id h \<and> cfg_vbpen cfg \<le> 1 \<and> cfg_vbpri cfg \<le> 7"

lemma chk_portmask_run:
  "ready s h \<Longrightarrow> RTK_CHK_PORTMASK_VALID (Some m) s =
     (if valid_mask h m then (Ok (), s) else (Err RT_ERR_PORT_MASK, s))"
  by (simp add: RTK_CHK_PORTMASK_VALID_def mapErrE_def isPortMaskValid_run)

lemma word_ge2: "2 \<le> (w :: u16) \<longleftrightarrow> \<not> w \<le> 1"
  by (simp add: word_le_nat_alt) linarith

lemma unat_ucast32 [simp]: "unat (ucast (w :: u16) :: u32) = unat w"
proof -
  have "unat w < 2 ^ 32" using unsigned_less [of w] by (rule less_le_trans) simp
  then show ?thesis by (simp add: unsigned_ucast_eq take_bit_nat_eq_self)
qed

lemma vlan_cfg_error_None:
  "vlan_cfg_error h vid pcfg = None \<longleftrightarrow> vid \<le> 0x1FFF \<and> (\<exists>cfg. pcfg = Some cfg \<and> cfg_ok h cfg)"
  by (auto simp: vlan_cfg_error_def cfg_ok_def not_less not_le word_ge2 split: option.splits)

section \<open>The abstract VLAN entry\<close>

definition cfg_of_4k :: "rtk_switch_halCtrl_t \<Rightarrow> rtl8367c_user_vlan4kentry \<Rightarrow> rtk_vlan_cfg_t" where
  "cfg_of_4k h e = \<lparr>cfg_mbr = p2l_mask h (ucast (v4_mbr e)), cfg_untag = p2l_mask h (ucast (v4_untag e)),
     cfg_ivl_en = v4_ivl_svl e, cfg_fid_msti = v4_fid_msti e, cfg_envlanpol = v4_envlanpol e,
     cfg_meteridx = v4_meteridx e, cfg_vbpen = v4_vbpen e, cfg_vbpri = v4_vbpri e\<rparr>"

abbreviation v4_for :: "rtk_switch_halCtrl_t \<Rightarrow> u32 \<Rightarrow> rtk_vlan_cfg_t \<Rightarrow> rtl8367c_user_vlan4kentry" where
  "v4_for h vid cfg \<equiv> v4_of_cfg vid (l2p_mask h (cfg_mbr cfg)) (l2p_mask h (cfg_untag cfg)) cfg"

lemma pmask_u16:
  assumes "hal_wf h" and "valid_mask h m"
  shows "unat (l2p_mask h m) \<le> 0x7FF" and "(ucast (ucast (l2p_mask h m) :: u16) :: u32) = l2p_mask h m"
    and "l2p_mask h m AND 0xFFFF = l2p_mask h m"
proof -
  have le: "l2p_mask h m \<le> 0x7FF" by (rule port_map.l2p_mask_le) (simp_all add: port_map_def assms)
  then show "unat (l2p_mask h m) \<le> 0x7FF" by (simp add: word_le_nat_alt)
  then show "(ucast (ucast (l2p_mask h m) :: u16) :: u32) = l2p_mask h m"
    by (simp add: word_le_nat_alt)
  have "l2p_mask h m \<le> mask 16" using le by (simp add: mask_eq_exp_minus_1 word_le_nat_alt)
  then show "l2p_mask h m AND 0xFFFF = l2p_mask h m"
    unfolding word_le_mask_iff by (simp add: take_bit_eq_mask mask_eq_exp_minus_1)
qed

lemma v4_for_ok:
  assumes "hal_wf h" and "cfg_ok h cfg" and "vid \<le> 0xFFF"
  shows "v4_ok (v4_for h vid cfg)"
  using assms pmask_u16 [OF assms(1), of "cfg_mbr cfg"] pmask_u16 [OF assms(1), of "cfg_untag cfg"]
  by (auto simp: v4_ok_def v4_of_cfg_def cfg_ok_def word_le_nat_alt unat_ucast16 hal_wf_def)

lemma cfg_of_v4_for:
  assumes "hal_wf h" and "cfg_ok h cfg"
  shows "cfg_of_4k h (v4_for h vid cfg) = cfg"
proof -
  have pm: "port_map h" by (simp add: port_map_def assms)
  show ?thesis
    using assms pmask_u16 [OF assms(1)] port_map.p2l_l2p [OF pm]
    by (cases cfg) (simp add: cfg_of_4k_def v4_of_cfg_def cfg_ok_def)
qed

lemma l2p_mask_eq_0:
  assumes "hal_wf h" and "valid_mask h m"
  shows "l2p_mask h m = 0 \<longleftrightarrow> m = 0"
proof -
  have pm: "port_map h" by (simp add: port_map_def assms)
  have "p2l_mask h 0 = 0" by (intro bit_word_eqI) (simp add: port_map.bit_p2l_mask [OF pm])
  moreover have "l2p_mask h 0 = 0" by (intro bit_word_eqI) (simp add: port_map.bit_l2p_mask [OF pm])
  ultimately show ?thesis using port_map.p2l_l2p [OF pm assms(2)] by metis
qed

section \<open>Setting a VLAN\<close>

text \<open>
  The first entry that the bookkeeping has for the VLAN is rewritten, or released when the VLAN
  has no member any more.
\<close>

definition mbr_synced :: "u32 \<Rightarrow> u32 \<Rightarrow> rtl8367c_vlanconfiguser \<Rightarrow> swt \<Rightarrow> swt" where
  "mbr_synced vid phyMbrPmask m c =
     (case List.find (used_for vid c) [0..<32] of
        None \<Rightarrow> c
      | Some i \<Rightarrow> if phyMbrPmask = 0 then db_upd i MBRCFG_UNUSED 0 (put_mbrcfg (of_nat i) mc0 c)
                  else put_mbrcfg (of_nat i) m c)"

lemma mc0_ok [simp]: "mc_ok mc0"
  by (simp add: mc_ok_def mc0_def)

lemma wp_vlan_set_update:
  assumes "length (sw_mbrUsage c) = 32" and "length (sw_mbrVid c) = 32" and "set is \<subseteq> {..<32}"
    and "cfg_regs \<subseteq> A" and "mc_ok m"
    and "Q (Ok ()) (case List.find (used_for vid c) is of
        None \<Rightarrow> c
      | Some i \<Rightarrow> if phy = 0 then db_upd i MBRCFG_UNUSED 0 (put_mbrcfg (of_nat i) mc0 c)
                  else put_mbrcfg (of_nat i) m c)"
  shows "wp view A (vlan_set_update vid phy m is) Q c"
  using assms(3,6)
proof (induction "is")
  case (Cons i "is")
  then have i: "i < 32" by simp
  show ?case
  proof (cases "used_for vid c i")
    case True
    with Cons.prems i assms show ?thesis
      by (auto intro!: wp_bindE wp_thenE wp_db_entry wp_setMbr wp_db_set simp: used_for_def idx_le)
  next
    case False
    with Cons have "wp view A (vlan_set_update vid phy m is) Q c" by simp
    with False i assms(1,2) show ?thesis
      by (auto intro!: wp_bindE wp_db_entry simp: used_for_def)
  qed
qed (simp add: wp_okE)

lemma db_ok_put_same:
  assumes "db_ok c" and "i < 32" and "used_for vid c i" and "mc_ok m" and "ucast (mc_evid m) = vid"
  shows "db_ok (put_mbrcfg (of_nat i) m c)"
  using assms unfolding db_ok_def used_for_def
  by (auto simp: idx_le idx_eq entry_ok_def split: vlan_mbrCfgType_t.splits)

lemma mbr_synced_db_ok:
  assumes "db_ok c" and "mc_ok m" and "ucast (mc_evid m) = vid"
  shows "db_ok (mbr_synced vid phy m c)"
proof (cases "List.find (used_for vid c) [0..<32]")
  case (Some i)
  with find_Some_iff2 [OF Some] assms db_ok_replace [OF assms(1), of i mc0 MBRCFG_UNUSED 0]
    db_ok_put_same [OF assms(1) _ _ assms(2,3)]
  show ?thesis by (simp add: mbr_synced_def entry_ok_def mc_empty_def) (simp add: mc0_def)
qed (simp add: mbr_synced_def assms)

lemma mbr_synced_frame: "mbr_frame c (mbr_synced vid phy m c)"
  by (auto simp: mbr_synced_def idx_le dest!: find_Some_iff2 split: option.splits)

lemma mbr_synced_entry:
  assumes "mc_ok m" and "j \<le> 31" and "\<not> used_for vid c (unat j)"
  shows "hw_mbrcfg j (mbr_synced vid phy m c) = hw_mbrcfg j c"
  using assms
  by (auto simp: mbr_synced_def idx_le unat_idx dest!: find_Some_iff2 split: option.splits)

lemma mbr_synced_4k [simp]: "hw_4k v (mbr_synced vid phy m c) = hw_4k v c"
  by (simp add: mbr_synced_def split: option.splits)

lemma mbr_frame_ready: "mbr_frame c c' \<Longrightarrow> sw_ready c' h = sw_ready c h"
  by (simp add: mbr_frame_def sw_ready_def)

lemma db_ok_put_4k [simp]: "db_ok (put_4k e c) = db_ok c"
  by (simp add: db_ok_def idx_le)

lemma mbr_frame_put_4k: "a \<notin> table_regs \<Longrightarrow> sw_reg (put_4k e c) a = sw_reg c a"
  by simp

definition vlan_set_state :: "rtk_switch_halCtrl_t \<Rightarrow> u32 \<Rightarrow> rtk_vlan_cfg_t \<Rightarrow> swt \<Rightarrow> swt" where
  "vlan_set_state h vid cfg c = (let e = v4_for h vid cfg in
     mbr_synced vid (l2p_mask h (cfg_mbr cfg)) (mc_of_4k vid e) (put_4k e c))"

lemma wp_vlan_set:
  assumes R: "sw_ready c h" and D: "db_ok c" and A: "cfg_regs \<subseteq> A" and V: "vid \<le> 0xFFF"
    and cfg: "cfg_ok h cfg" and Q: "Q (Ok ()) (vlan_set_state h vid cfg c)"
  shows "wp view A (rtk_vlan_set vid (Some cfg)) Q c"
proof -
  have wf: "hal_wf h" using R by (simp add: sw_ready_def)
  have V': "vid \<le> 0x1FFF" using V by (simp add: word_le_nat_alt)
  note e = v4_for_ok [OF wf cfg V]
  show ?thesis
    unfolding rtk_vlan_set_def
    using V V' cfg e mc_of_4k_ok [OF e V] Q D A
    by (auto intro!: wp_thenE wp_bindE wp_mapErrE wp_chk_init [OF R] wp_chk_portmask [OF R]
        wp_maxMeterId [OF R] wp_portmask_L2P [OF R] wp_set4k wp_vlan_set_update
        simp: leD word_ge2 not_less cfg_ok_def Let_def db_ok_lengths subset_eq
        vlan_set_state_def mbr_synced_def split: if_splits)
qed

lemma wp_vlan_get:
  assumes R: "sw_ready c h" and V: "vid \<le> 0xFFF"
    and Q: "Q (Ok (cfg_of_4k h (hw_4k (ucast vid) c)))
              (read_command_state TB_TARGET_CVLAN (ucast (ucast vid :: u16)) c)"
  shows "wp view A (rtk_vlan_get vid (Some cfg0)) Q c"
proof -
  have V': "vid \<le> 0x1FFF" using V by (simp add: word_le_nat_alt)
  have R': "sw_ready (read_command_state t a c) h" for t a using R by simp
  show ?thesis
    unfolding rtk_vlan_get_def
    using V V' Q
    by (auto intro!: wp_thenE wp_bindE wp_mapErrE wp_chk_init [OF R] wp_get4k
        wp_portmask_P2L [OF R'] wp_okE simp: leD word_le_nat_alt unat_ucast16 cfg_of_4k_def)
qed


text \<open>What setting a VLAN leaves alone.\<close>

lemma port_put_4k [simp]:
  assumes "p \<le> 10"
  shows "port_vidx p (put_4k e c) = port_vidx p c" and "port_vpri p (put_4k e c) = port_vpri p c"
  using cfg_not_table [OF field_layoutD(1) [OF layouts(3) assms]]
    cfg_not_table [OF field_layoutD(1) [OF layouts(4) assms]]
  by (simp_all add: port_vidx_def port_vpri_def)

lemma vlan_set_state_facts:
  assumes R: "sw_ready c h" and D: "db_ok c" and V: "vid \<le> 0xFFF" and cfg: "cfg_ok h cfg"
  shows "db_ok (vlan_set_state h vid cfg c)" and "sw_ready (vlan_set_state h vid cfg c) h"
    and "cfg_of_4k h (hw_4k (ucast vid) (vlan_set_state h vid cfg c)) = cfg"
    and "v \<le> 0xFFF \<Longrightarrow> v \<noteq> vid \<Longrightarrow> hw_4k (ucast v) (vlan_set_state h vid cfg c) = hw_4k (ucast v) c"
    and "cfg_mbr cfg \<noteq> 0 \<Longrightarrow> valid_port h q \<Longrightarrow>
           port_pvid h q (vlan_set_state h vid cfg c) = port_pvid h q c"
proof -
  let ?e = "v4_for h vid cfg"
  let ?c1 = "put_4k ?e c"
  have wf: "hal_wf h" using R by (simp add: sw_ready_def)
  note e = v4_for_ok [OF wf cfg V]
  note m = mc_of_4k_ok [OF e V]
  have evid: "ucast (mc_evid (mc_of_4k vid ?e)) = vid"
    using V by (simp add: mc_of_4k_def word_le_nat_alt)
  have state: "vlan_set_state h vid cfg c = mbr_synced vid (l2p_mask h (cfg_mbr cfg)) (mc_of_4k vid ?e) ?c1"
    by (simp add: vlan_set_state_def Let_def)
  note fr = mbr_synced_frame [of ?c1 vid "l2p_mask h (cfg_mbr cfg)" "mc_of_4k vid ?e"]
  have vid: "v4_vid ?e = ucast vid" by (simp add: v4_of_cfg_def)
  show db: "db_ok (vlan_set_state h vid cfg c)"
    unfolding state by (rule mbr_synced_db_ok [OF _ m evid]) (simp add: D)
  show "sw_ready (vlan_set_state h vid cfg c) h"
    unfolding state using mbr_frame_ready [OF fr] R by simp
  show "cfg_of_4k h (hw_4k (ucast vid) (vlan_set_state h vid cfg c)) = cfg"
    unfolding state by (simp add: hw_put_4k [OF e] vid cfg_of_v4_for [OF wf cfg])
  show "hw_4k (ucast v) (vlan_set_state h vid cfg c) = hw_4k (ucast v) c" if "v \<le> 0xFFF" "v \<noteq> vid"
  proof -
    have "(ucast v :: u16) \<noteq> ucast vid"
      using that V by (auto simp: word_unat_eq_iff unat_ucast16 word_le_nat_alt)
    then show ?thesis unfolding state by (simp add: hw_put_4k [OF e] vid)
  qed
  show "port_pvid h q (vlan_set_state h vid cfg c) = port_pvid h q c"
    if "cfg_mbr cfg \<noteq> 0" "valid_port h q"
  proof -
    note le = phy_of_le [OF wf that(2)]
    let ?i = "port_vidx (phy_of h q) c"
    have i: "?i \<le> 31" by (rule port_vidx_le [OF le])
    have "mc_evid (hw_mbrcfg ?i (vlan_set_state h vid cfg c)) = mc_evid (hw_mbrcfg ?i c)"
    proof (cases "used_for vid ?c1 (unat ?i)")
      case True
      have phy: "l2p_mask h (cfg_mbr cfg) \<noteq> 0"
        using that(1) l2p_mask_eq_0 [OF wf] cfg by (simp add: cfg_ok_def)
      have "ucast (mc_evid (hw_mbrcfg ?i ?c1)) = vid"
        using used_for_evid [OF _ _ True] D le31_nat [OF i] by simp
      then have "mc_evid (hw_mbrcfg ?i c) = mc_evid (mc_of_4k vid ?e)"
        using evid i by (metis hw_mbrcfg_put_4k ucast_up_down)
      then show ?thesis
        unfolding state using phy i m
        by (auto simp: mbr_synced_def idx_le split: option.splits dest!: find_Some_iff2)
    next
      case False
      then show ?thesis unfolding state by (simp add: mbr_synced_entry [OF m i] i)
    qed
    then show ?thesis
      using mbr_frame_port [OF fr le] le by (simp add: port_pvid_def state)
  qed
qed

section \<open>Extended VLAN identifiers\<close>

text \<open>
  Identifiers above 4095 live in the member configuration only.  With a member present, the first
  entry of the identifier is rewritten; besides, the first unused entry seen before it is filled
  with the same contents, because the search leaves its loop before \<^verbatim>\<open>update_evid\<close> is set.
\<close>

definition first_unused :: "swt \<Rightarrow> nat list \<Rightarrow> u32" where
  "first_unused c is = (case List.find (\<lambda>i. sw_mbrUsage c ! i = MBRCFG_UNUSED) is of
     None \<Rightarrow> 0xffff | Some j \<Rightarrow> of_nat j)"

lemma wp_vlan_set_evid:
  assumes "length (sw_mbrUsage c) = 32" and "length (sw_mbrVid c) = 32" and "set is \<subseteq> {..<32}"
    and "cfg_regs \<subseteq> A" and "mc_ok m" and "phy \<noteq> 0"
    and "Q (Ok (False, if ei = 0xffff then first_unused c (takeWhile (\<lambda>i. \<not> used_for vid c i) is) else ei))
      (case List.find (used_for vid c) is of None \<Rightarrow> c | Some i \<Rightarrow> put_mbrcfg (of_nat i) m c)"
  shows "wp view A (vlan_set_evid vid phy m is False ei) Q c"
  using assms(3,7)
proof (induction "is" arbitrary: ei)
  case (Cons i "is")
  then have i: "i < 32" by simp
  show ?case
  proof (cases "used_for vid c i")
    case True
    with Cons.prems i assms show ?thesis
      by (auto intro!: wp_bindE wp_thenE wp_db_entry wp_setMbr wp_okE
          simp: used_for_def idx_le first_unused_def split: if_splits)
  next
    case False
    have i': "(of_nat i :: u32) \<noteq> 0xffff" using i by (simp add: word_unat_eq_iff unat_of_nat)
    let ?ei = "if sw_mbrUsage c ! i = MBRCFG_UNUSED \<and> ei = 0xffff then of_nat i else ei"
    have "wp view A (vlan_set_evid vid phy m is False ?ei) Q c"
      by (rule Cons.IH) (use Cons.prems False i' in \<open>auto simp: first_unused_def split: if_splits\<close>)
    with False i assms(1,2) show ?thesis
      by (auto intro!: wp_bindE wp_db_entry simp: used_for_def)
  qed
qed (auto intro!: wp_okE simp: first_unused_def split: if_splits)

definition evid_set_state :: "rtk_switch_halCtrl_t \<Rightarrow> u32 \<Rightarrow> rtk_vlan_cfg_t \<Rightarrow> swt \<Rightarrow> swt" where
  "evid_set_state h vid cfg c =
     (let m = mc_of_cfg vid (l2p_mask h (cfg_mbr cfg)) cfg;
          ei = first_unused c (takeWhile (\<lambda>i. \<not> used_for vid c i) [0..<32]);
          c1 = (case List.find (used_for vid c) [0..<32] of None \<Rightarrow> c | Some i \<Rightarrow> put_mbrcfg (of_nat i) m c)
      in if ei \<noteq> 0xffff then db_upd (unat ei) MBRCFG_USED_BY_VLAN vid (put_mbrcfg ei m c1) else c1)"

lemma first_unused_cases:
  assumes "set is \<subseteq> {..<32}"
  obtains "first_unused c is = 0xffff" "\<forall>i \<in> set is. sw_mbrUsage c ! i \<noteq> MBRCFG_UNUSED"
  | j where "first_unused c is = of_nat j" "j \<in> set is" "j < 32" "sw_mbrUsage c ! j = MBRCFG_UNUSED"
      "(of_nat j :: u32) \<noteq> 0xffff"
proof (cases "List.find (\<lambda>i. sw_mbrUsage c ! i = MBRCFG_UNUSED) is")
  case None
  then have "first_unused c is = 0xffff" by (simp add: first_unused_def)
  moreover from None have "\<forall>i \<in> set is. sw_mbrUsage c ! i \<noteq> MBRCFG_UNUSED" by (simp add: find_None_iff)
  ultimately show ?thesis by (rule that(1))
next
  case (Some j)
  from find_Some_iff2 [OF this] assms have j: "j \<in> set is" "j < 32" "sw_mbrUsage c ! j = MBRCFG_UNUSED"
    by auto
  then have "(of_nat j :: u32) \<noteq> 0xffff" by (simp add: word_unat_eq_iff unat_of_nat)
  with j Some show ?thesis using that(2) by (simp add: first_unused_def)
qed

lemma mc_of_cfg_ok:
  assumes "hal_wf h" and "cfg_ok h cfg" and "vid \<le> 0x1FFF"
  shows "mc_ok (mc_of_cfg vid (l2p_mask h (cfg_mbr cfg)) cfg)"
  using assms pmask_u16 [OF assms(1), of "cfg_mbr cfg"]
  by (auto simp: mc_ok_def mc_of_cfg_def cfg_ok_def word_le_nat_alt unat_ucast16 hal_wf_def)

lemma wp_vlan_set_ext:
  assumes R: "sw_ready c h" and D: "db_ok c" and A: "cfg_regs \<subseteq> A" and V: "0xFFF < vid" "vid \<le> 0x1FFF"
    and cfg: "cfg_ok h cfg" "cfg_mbr cfg \<noteq> 0" and Q: "Q (Ok ()) (evid_set_state h vid cfg c)"
  shows "wp view A (rtk_vlan_set vid (Some cfg)) Q c"
proof -
  have wf: "hal_wf h" using R by (simp add: sw_ready_def)
  have phy: "l2p_mask h (cfg_mbr cfg) \<noteq> 0" using l2p_mask_eq_0 [OF wf] cfg by (simp add: cfg_ok_def)
  let ?m = "mc_of_cfg vid (l2p_mask h (cfg_mbr cfg)) cfg"
  let ?ei = "first_unused c (takeWhile (\<lambda>i. \<not> used_for vid c i) [0..<32])"
  let ?c1 = "case List.find (used_for vid c) [0..<32] of None \<Rightarrow> c | Some i \<Rightarrow> put_mbrcfg (of_nat i) ?m c"
  note m = mc_of_cfg_ok [OF wf cfg(1) V(2)]
  have len: "length (sw_mbrUsage ?c1) = 32" "length (sw_mbrVid ?c1) = 32"
    using D by (simp_all add: db_ok_lengths split: option.splits)
  have sub: "set (takeWhile (\<lambda>i. \<not> used_for vid c i) [0..<32]) \<subseteq> {..<32}"
    by (auto dest: set_takeWhileD)
  have store: "wp view A (if l2p_mask h (cfg_mbr cfg) \<noteq> 0 \<and> \<not> False \<and> ?ei \<noteq> 0xffff
     then thenE (rtl8367c_setAsicVlanMemberConfig ?ei ?m) (db_set (unat ?ei) MBRCFG_USED_BY_VLAN vid)
     else okE ()) Q ?c1"
    by (rule first_unused_cases [OF sub, of c])
       (use Q len A m phy in \<open>auto intro!: wp_okE wp_thenE wp_setMbr wp_db_set
          simp: evid_set_state_def Let_def idx_le unat_idx\<close>)
  have "wp view A (bindE (vlan_set_evid vid (l2p_mask h (cfg_mbr cfg)) ?m [0..<32] False 0xffff)
     (\<lambda>(update_evid, empty_index).
        if l2p_mask h (cfg_mbr cfg) \<noteq> 0 \<and> \<not> update_evid \<and> empty_index \<noteq> 0xffff
        then thenE (rtl8367c_setAsicVlanMemberConfig empty_index ?m)
               (db_set (unat empty_index) MBRCFG_USED_BY_VLAN vid) else okE ())) Q c"
    by (intro wp_bindE wp_vlan_set_evid) (use store D A m phy in \<open>auto simp: db_ok_lengths\<close>)
  then show ?thesis
    unfolding rtk_vlan_set_def
    using V cfg
    by (auto intro!: wp_thenE wp_bindE wp_mapErrE wp_chk_init [OF R] wp_chk_portmask [OF R]
        wp_maxMeterId [OF R] wp_portmask_L2P [OF R] wp_okE
        simp: leD word_ge2 not_less cfg_ok_def Let_def split: if_splits)
qed

lemma used_for_put [simp]: "used_for vid (put_mbrcfg i m c) j = used_for vid c j"
  by (simp add: used_for_def)

lemma used_for_db_upd:
  "length (sw_mbrUsage c) = 32 \<Longrightarrow> length (sw_mbrVid c) = 32 \<Longrightarrow> k < 32 \<Longrightarrow>
   used_for vid (db_upd k MBRCFG_USED_BY_VLAN vid c) j \<longleftrightarrow> j = k \<or> used_for vid c j"
  by (cases "j = k") (simp_all add: used_for_def)

lemma idx_ffff: "j < 32 \<Longrightarrow> (of_nat j :: u32) \<noteq> 0xffff"
  by (simp add: word_unat_eq_iff unat_of_nat)

text \<open>The entries of the identifier after the call: the first old one and the first unused one.\<close>

definition evid_slot :: "u32 \<Rightarrow> swt \<Rightarrow> nat \<Rightarrow> bool" where
  "evid_slot vid c j \<longleftrightarrow> List.find (used_for vid c) [0..<32] = Some j \<or>
     first_unused c (takeWhile (\<lambda>i. \<not> used_for vid c i) [0..<32]) = of_nat j"

lemma evid_set_state_facts:
  assumes R: "sw_ready c h" and D: "db_ok c" and V: "vid \<le> 0x1FFF" and cfg: "cfg_ok h cfg"
  defines "m \<equiv> mc_of_cfg vid (l2p_mask h (cfg_mbr cfg)) cfg"
  shows "db_ok (evid_set_state h vid cfg c)" and "mbr_frame c (evid_set_state h vid cfg c)"
    and "j < 32 \<Longrightarrow> evid_slot vid c j \<Longrightarrow>
           hw_mbrcfg (of_nat j) (evid_set_state h vid cfg c) = m \<and> used_for vid (evid_set_state h vid cfg c) j"
    and "j < 32 \<Longrightarrow> \<not> evid_slot vid c j \<Longrightarrow>
           hw_mbrcfg (of_nat j) (evid_set_state h vid cfg c) = hw_mbrcfg (of_nat j) c \<and>
           (used_for vid (evid_set_state h vid cfg c) j \<longleftrightarrow> used_for vid c j)"
proof -
  have wf: "hal_wf h" using R by (simp add: sw_ready_def)
  let ?tw = "takeWhile (\<lambda>i. \<not> used_for vid c i) [0..<32]"
  define c1 where
    "c1 = (case List.find (used_for vid c) [0..<32] of None \<Rightarrow> c | Some i \<Rightarrow> put_mbrcfg (of_nat i) m c)"
  have m: "mc_ok m" unfolding m_def by (rule mc_of_cfg_ok [OF wf cfg V])
  have evid: "ucast (mc_evid m) = vid" using V by (simp add: m_def mc_of_cfg_def word_le_nat_alt)
  have sub: "set ?tw \<subseteq> {..<32}" by (auto dest: set_takeWhileD)
  have state: "evid_set_state h vid cfg c = (if first_unused c ?tw \<noteq> 0xffff
     then db_upd (unat (first_unused c ?tw)) MBRCFG_USED_BY_VLAN vid (put_mbrcfg (first_unused c ?tw) m c1) else c1)"
    unfolding evid_set_state_def c1_def m_def Let_def ..
  have c1: "db_ok c1" "mbr_frame c c1" "length (sw_mbrUsage c1) = 32" "length (sw_mbrVid c1) = 32"
    using D db_ok_put_same [OF D _ _ m evid]
    by (auto simp: c1_def idx_le db_ok_lengths split: option.splits dest!: find_Some_iff2)
  have u1: "used_for vid c1 j = used_for vid c j" for j by (simp add: c1_def split: option.splits)
  have h1: "hw_mbrcfg (of_nat j) c1 =
      (if List.find (used_for vid c) [0..<32] = Some j then m else hw_mbrcfg (of_nat j) c)" if "j < 32" for j
    using that m by (auto simp: c1_def idx_le idx_eq split: option.splits dest!: find_Some_iff2)
  show "db_ok (evid_set_state h vid cfg c)" "mbr_frame c (evid_set_state h vid cfg c)"
    by (rule first_unused_cases [OF sub, of c];
        use c1 db_ok_replace [OF c1(1) _ m, of _ MBRCFG_USED_BY_VLAN vid] evid in
        \<open>simp add: state unat_idx idx_le entry_ok_def\<close>)+
  show "hw_mbrcfg (of_nat j) (evid_set_state h vid cfg c) = m \<and> used_for vid (evid_set_state h vid cfg c) j"
    if "j < 32" "evid_slot vid c j"
    by (rule first_unused_cases [OF sub, of c])
       (use that m c1 in \<open>auto simp: state evid_slot_def h1 u1 unat_idx idx_le idx_eq idx_ffff
          used_for_db_upd dest: find_Some_iff2\<close>)
  show "hw_mbrcfg (of_nat j) (evid_set_state h vid cfg c) = hw_mbrcfg (of_nat j) c \<and>
           (used_for vid (evid_set_state h vid cfg c) j \<longleftrightarrow> used_for vid c j)"
    if "j < 32" "\<not> evid_slot vid c j"
    by (rule first_unused_cases [OF sub, of c])
       (use that m c1 u1 in \<open>auto simp: state evid_slot_def h1 unat_idx idx_le idx_eq idx_ffff
          used_for_db_upd\<close>)
qed

text \<open>Reading: the last entry of the identifier wins.\<close>

lemma find_append: "List.find P (xs @ ys) = (case List.find P xs of None \<Rightarrow> List.find P ys | Some x \<Rightarrow> Some x)"
  by (induction xs) simp_all

lemma wp_foldE_pure:
  assumes "\<And>i acc Q'. i \<in> set is \<Longrightarrow> Q' (Ok (g i acc)) c \<Longrightarrow> wp view A (f i acc) Q' c"
    and "Q (Ok (fold g is acc)) c"
  shows "wp view A (foldE f is acc) Q c"
  using assms by (induction "is" arbitrary: acc) (auto intro!: wp_okE wp_bindE)

definition evid_read :: "rtk_switch_halCtrl_t \<Rightarrow> u32 \<Rightarrow> swt \<Rightarrow> nat \<Rightarrow> rtk_vlan_cfg_t \<Rightarrow> rtk_vlan_cfg_t" where
  "evid_read h vid c i acc = (if used_for vid c i
     then (let m = hw_mbrcfg (of_nat i) c in cfg_of_mc (p2l_mask h (ucast (mc_mbr m))) m) else acc)"

lemma wp_vlan_get_ext:
  assumes R: "sw_ready c h" and D: "db_ok c" and A: "cfg_regs \<subseteq> A" and V: "0xFFF < vid" "vid \<le> 0x1FFF"
    and Q: "Q (Ok (fold (evid_read h vid c) [0..<32] cfg0)) c"
  shows "wp view A (rtk_vlan_get vid (Some cfg0)) Q c"
proof -
  have "wp view A (foldE (vlan_get_evid_body vid) [0..<32] cfg0) Q c"
    by (rule wp_foldE_pure [where g = "evid_read h vid c"])
       (use D A Q in \<open>auto intro!: wp_bindE wp_db_entry wp_getMbr wp_mapErrE wp_portmask_P2L [OF R] wp_okE
          simp: vlan_get_evid_body_def evid_read_def db_ok_lengths used_for_def idx_le Let_def\<close>)
  with V show ?thesis
    unfolding rtk_vlan_get_def by (auto intro!: wp_thenE wp_chk_init [OF R] simp: leD)
qed

lemma fold_evid_read:
  assumes "\<And>i. i \<in> set is \<Longrightarrow> used_for vid c i \<Longrightarrow> hw_mbrcfg (of_nat i) c = m"
    and "\<exists>i \<in> set is. used_for vid c i"
  shows "fold (evid_read h vid c) is cfg0 = cfg_of_mc (p2l_mask h (ucast (mc_mbr m))) m"
proof -
  let ?r = "cfg_of_mc (p2l_mask h (ucast (mc_mbr m))) m"
  have "fold (evid_read h vid c) is acc = ?r"
    if "acc = ?r \<or> (\<exists>i \<in> set is. used_for vid c i)" for acc
    using assms(1) that by (induction "is" arbitrary: acc) (auto simp: evid_read_def)
  with assms(2) show ?thesis by blast
qed

lemma evid_slot_exists:
  assumes "\<exists>i<32. used_for vid c i \<or> sw_mbrUsage c ! i = MBRCFG_UNUSED"
  shows "\<exists>j<32. evid_slot vid c j"
proof (cases "List.find (used_for vid c) [0..<32]")
  case None
  then have tw: "takeWhile (\<lambda>i. \<not> used_for vid c i) [0..<32] = [0..<32]"
    by (simp add: find_None_iff takeWhile_eq_all_conv)
  obtain i where i: "i < 32" "sw_mbrUsage c ! i = MBRCFG_UNUSED"
    using assms None by (auto simp: find_None_iff)
  have "set [0..<32] \<subseteq> {..<32}" by auto
  then show ?thesis
    by (rule first_unused_cases [where c = c])
       (use i in \<open>auto simp: evid_slot_def tw intro: exI [of _ i]\<close>)
next
  case (Some j)
  with find_Some_iff2 [OF Some] show ?thesis by (auto simp: evid_slot_def intro!: exI [of _ j])
qed

lemma cfg_of_mc_of_cfg:
  assumes "hal_wf h" and "cfg_ok h cfg" and "m = mc_of_cfg vid (l2p_mask h (cfg_mbr cfg)) cfg"
  shows "cfg_of_mc (p2l_mask h (ucast (mc_mbr m))) m = cfg\<lparr>cfg_untag := 0, cfg_ivl_en := 0\<rparr>"
proof -
  have pm: "port_map h" by (simp add: port_map_def assms(1))
  show ?thesis
    using assms pmask_u16(2) [OF assms(1)] port_map.p2l_l2p [OF pm]
    by (cases cfg) (simp add: cfg_of_mc_def mc_of_cfg_def cfg_ok_def)
qed

lemma vlan_set_ext_run:
  assumes "driver_up view A h s" and "0xFFF < vid" and "vid \<le> 0x1FFF" and "cfg_ok h cfg" and "cfg_mbr cfg \<noteq> 0"
  defines "c' \<equiv> evid_set_state h vid cfg (swt_of view s)"
  obtains s' where "rtk_vlan_set vid (Some cfg) s = (Ok (), s')" and "swt_rel view A s' c'"
    and "driver_up view A h s'" and "sw_ready c' h"
    and "fst (rtk_vlan_get vid (Some cfg0) s') = Ok (fold (evid_read h vid c') [0..<32] cfg0)"
proof -
  note up = driver_upD [OF assms(1)]
  note facts = evid_set_state_facts(1,2) [OF up(3,4) assms(3,4), folded c'_def]
  have ready: "sw_ready c' h" using mbr_frame_ready [OF facts(2)] up(3) by simp
  have "wp view A (rtk_vlan_set vid (Some cfg)) (\<lambda>r d. r = Ok () \<and> d = c') (swt_of view s)"
    by (rule wp_vlan_set_ext [OF up(3,4,2) assms(2-5)]) (simp add: c'_def)
  from this up(1) obtain s' where run: "rtk_vlan_set vid (Some cfg) s = (Ok (), s')"
    and rel: "swt_rel view A s' c'" by (rule wpD) blast
  have "fst (rtk_vlan_get vid (Some cfg0) s') = Ok (fold (evid_read h vid c') [0..<32] cfg0)"
    by (rule wp_run_pure(1) [OF _ rel]) (rule wp_vlan_get_ext [OF ready facts(1) up(2) assms(2,3)], simp)
  with run rel driver_upI [OF rel up(2) ready facts(1)] ready show ?thesis by (rule that)
qed

lemma used_for_rel: "swt_rel view A s c \<Longrightarrow> used_for vid (swt_of view s) i = used_for vid c i"
  by (simp add: used_for_def swt_of_def swt_rel_def)

section \<open>A simulated switch with one entry\<close>

definition sim_entry :: "nat \<Rightarrow> u32 \<Rightarrow> rtl8367c_vlanconfiguser \<Rightarrow> sim_dev gsw \<Rightarrow> sim_dev gsw" where
  "sim_entry i vid m s = s\<lparr>
     gsw_dev := (gsw_dev s)\<lparr>sim_view := (sim_view (gsw_dev s))\<lparr>v_reg :=
       fold (\<lambda>p r. r(mbrcfg_reg (of_nat i) p := VlanMCStUser2Smi m (replicate 4 0) ! p)) [0..<4]
         (v_reg (sim_view (gsw_dev s)))\<rparr>\<rparr>,
     vlan_mbrCfgUsage := (vlan_mbrCfgUsage s)[i := MBRCFG_USED_BY_VLAN],
     vlan_mbrCfgVid := (vlan_mbrCfgVid s)[i := vid]\<rparr>"

lemma sim_entry_swt:
  "swt_of sim_view (sim_entry i vid m s) =
     db_upd i MBRCFG_USED_BY_VLAN vid (put_mbrcfg (of_nat i) m (swt_of sim_view s))"
  by (simp add: sim_entry_def swt_of_def db_upd_def put_mbrcfg_def)

lemma sim_entry_up:
  assumes "driver_up sim_view sim_addrs h s" and "i < 32" and "mc_ok m" and "ucast (mc_evid m) = vid"
  shows "driver_up sim_view sim_addrs h (sim_entry i vid m s)"
proof -
  have "db_ok (swt_of sim_view (sim_entry i vid m s))"
    unfolding sim_entry_swt using assms
    by (intro db_ok_replace) (simp_all add: driver_up_def entry_ok_def)
  with assms(1) show ?thesis by (simp add: driver_up_def sim_entry_def ready_def)
qed

section \<open>Properties\<close>

text \<open>
  C2. Setting and reading a VLAN (\<open>rtk_vlan_set\<close>, \<open>rtk_vlan_get\<close>): on an initialised driver whose
  bookkeeping agrees with the hardware, for a VLAN identifier of at most 4095 and a configuration
  that passes the argument checks, the call succeeds and reading the VLAN returns exactly the
  configuration, every other VLAN reads as before, the bookkeeping still agrees with the hardware,
  and, unless the VLAN lost its last member, the port-based VLAN of every port is unchanged.
\<close>

theorem vlan_set_round_trip:
  assumes "driver_up view A h s" and "vid \<le> 0xFFF" and "cfg_ok h cfg"
  shows "\<exists>s'. rtk_vlan_set vid (Some cfg) s = (Ok (), s') \<and> driver_up view A h s' \<and>
     fst (rtk_vlan_get vid (Some cfg0) s') = Ok cfg \<and>
     (\<forall>v \<le> 0xFFF. v \<noteq> vid \<longrightarrow> fst (rtk_vlan_get v (Some cfg0) s') = fst (rtk_vlan_get v (Some cfg0) s)) \<and>
     (cfg_mbr cfg \<noteq> 0 \<longrightarrow> (\<forall>q. valid_port h q \<longrightarrow>
        fst (rtk_vlan_portPvid_get q PTR PTR s') = fst (rtk_vlan_portPvid_get q PTR PTR s)))"
proof -
  note up = driver_upD [OF assms(1)]
  let ?c = "swt_of view s" and ?c' = "vlan_set_state h vid cfg (swt_of view s)"
  note facts = vlan_set_state_facts [OF up(3,4) assms(2,3)]
  have "wp view A (rtk_vlan_set vid (Some cfg)) (\<lambda>r c'. r = Ok () \<and> c' = ?c') ?c"
    by (rule wp_vlan_set [OF up(3,4,2) assms(2,3)]) simp
  from this up(1) obtain s' where run: "rtk_vlan_set vid (Some cfg) s = (Ok (), s')"
    and rel: "swt_rel view A s' ?c'" by (rule wpD) blast
  have get: "fst (rtk_vlan_get v (Some cfg0) t) = Ok (cfg_of_4k h (hw_4k (ucast v) d))"
    if "v \<le> 0xFFF" "swt_rel view A t d" "sw_ready d h" for v t d
    using wp_vlan_get [OF that(3,1), of "\<lambda>r _. r = Ok (cfg_of_4k h (hw_4k (ucast v) d))"] that(2)
    unfolding wp_def by blast
  have pvid: "fst (rtk_vlan_portPvid_get q PTR PTR t) = Ok (port_pvid h q d)"
    if "valid_port h q" "swt_rel view A t d" "sw_ready d h" for q t d
    by (rule wp_run_pure(1) [OF wp_portPvid_get [OF that(3) up(2) that(1)] that(2)])
  show ?thesis
    using run driver_upI [OF rel up(2) facts(2,1)] facts(3,4,5) assms(2)
    by (auto simp: get [OF _ rel facts(2)] get [OF _ up(1,3)] pvid [OF _ rel facts(2)] pvid [OF _ up(1,3)])
qed

theorem vlan_set_round_trip_witness:
  "\<exists>s'. rtk_vlan_set 100 (Some sample_cfg) (sim_gsw 1 (Some rtl8367c_hal_Ctrl)) = (Ok (), s') \<and>
     fst (rtk_vlan_get 100 (Some sample_cfg0) s') = Ok sample_cfg"
proof -
  have "cfg_ok rtl8367c_hal_Ctrl sample_cfg" by code_simp
  from vlan_set_round_trip [OF sim_driver_up [OF hal_tables_wf(1)] _ this, of 100 sample_cfg0]
  show ?thesis by auto
qed

lemma vlan_set_refused:
  assumes "ready s h" and "vlan_cfg_error h vid pcfg = Some e"
  shows "rtk_vlan_set vid pcfg s = (Err e, s)"
  using assms(2)
  by (cases pcfg)
     (simp_all add: vlan_cfg_error_def rtk_vlan_set_def thenE_def bindE_def mapErrE_def errE_def okE_def
      chk_init_run [OF assms(1)] chk_portmask_run [OF assms(1)] maxMeterId_run [OF assms(1)]
      portmask_L2P_run [OF assms(1)] split: if_split_asm)

text \<open>
  C14. The argument checks of \<open>rtk_vlan_set\<close> come before any hardware access: whatever check
  fails first in the order of the code, that error is returned and the state of driver and chip is
  exactly what it was.
\<close>

theorem vlan_set_rejects:
  assumes "ready s h" and "vlan_cfg_error h vid pcfg = Some e"
  shows "rtk_vlan_set vid pcfg s = (Err e, s)"
  by (rule vlan_set_refused [OF assms])

theorem vlan_set_rejects_witness:
  "rtk_vlan_set 100 (Some (sample_cfg\<lparr>cfg_fid_msti := 16\<rparr>)) (sim_gsw 1 (Some rtl8367c_hal_Ctrl)) =
     (Err RT_ERR_L2_FID, sim_gsw 1 (Some rtl8367c_hal_Ctrl))"
proof -
  have "vlan_cfg_error rtl8367c_hal_Ctrl 100 (Some (sample_cfg\<lparr>cfg_fid_msti := 16\<rparr>)) = Some RT_ERR_L2_FID"
    by code_simp
  moreover have "ready (sim_gsw 1 (Some rtl8367c_hal_Ctrl)) rtl8367c_hal_Ctrl" by (simp add: ready_def)
  ultimately show ?thesis by (intro vlan_set_rejects)
qed


text \<open>
  C15. Extended VLAN identifiers (4096 to 8191): when at most one member-configuration entry is
  recorded for the identifier and there is such an entry or an unused one, setting the VLAN to a
  configuration that passes the argument checks and has at least one member succeeds and reading it returns the configuration, with the untagged set and the learning
  mode (which the member configuration does not hold) zero.
\<close>

theorem evid_round_trip:
  assumes "driver_up view A h s" and "0xFFF < vid" and "vid \<le> 0x1FFF" and "cfg_ok h cfg" and "cfg_mbr cfg \<noteq> 0"
    and "\<forall>i<32. \<forall>j<32. used_for vid (swt_of view s) i \<and> used_for vid (swt_of view s) j \<longrightarrow> i = j"
    and "\<exists>i<32. used_for vid (swt_of view s) i \<or> vlan_mbrCfgUsage s ! i = MBRCFG_UNUSED"
  shows "\<exists>s'. rtk_vlan_set vid (Some cfg) s = (Ok (), s') \<and> driver_up view A h s' \<and>
     fst (rtk_vlan_get vid (Some cfg0) s') = Ok (cfg\<lparr>cfg_untag := 0, cfg_ivl_en := 0\<rparr>)"
proof -
  note up = driver_upD [OF assms(1)]
  let ?c = "swt_of view s" and ?m = "mc_of_cfg vid (l2p_mask h (cfg_mbr cfg)) cfg"
  let ?c' = "evid_set_state h vid cfg ?c"
  note facts = evid_set_state_facts [OF up(3,4) assms(3,4)]
  from vlan_set_ext_run [OF assms(1-5), of cfg0] obtain s' where s': "rtk_vlan_set vid (Some cfg) s = (Ok (), s')"
    "driver_up view A h s'" "fst (rtk_vlan_get vid (Some cfg0) s') = Ok (fold (evid_read h vid ?c') [0..<32] cfg0)"
    by blast
  have "\<exists>i<32. used_for vid ?c i \<or> sw_mbrUsage ?c ! i = MBRCFG_UNUSED"
    using assms(7) by (simp add: swt_of_def)
  from evid_slot_exists [OF this] facts(3) have "\<exists>i<32. used_for vid ?c' i" by blast
  then have ex: "\<exists>i \<in> set [0..<32]. used_for vid ?c' i" by auto
  have "hw_mbrcfg (of_nat i) ?c' = ?m" if i: "i \<in> set [0..<32]" "used_for vid ?c' i" for i
  proof (cases "evid_slot vid ?c i")
    case False
    with i facts(4) have "used_for vid ?c i" by simp
    with i(1) obtain j where "List.find (used_for vid ?c) [0..<32] = Some j"
      by (cases "List.find (used_for vid ?c) [0..<32]") (auto simp: find_None_iff)
    with find_Some_iff2 [OF this] assms(6) i(1) \<open>used_for vid ?c i\<close> have "evid_slot vid ?c i"
      by (auto simp: evid_slot_def)
    with False show ?thesis by simp
  qed (use i facts(3) in simp)
  from fold_evid_read [OF this ex] s' cfg_of_mc_of_cfg [OF up(5) assms(4) refl] show ?thesis by auto
qed

theorem evid_round_trip_witness:
  "\<exists>s'. rtk_vlan_set 0x1002 (Some sample_cfg) (sim_gsw 1 (Some rtl8367c_hal_Ctrl)) = (Ok (), s') \<and>
     fst (rtk_vlan_get 0x1002 (Some sample_cfg0) s') = Ok (sample_cfg\<lparr>cfg_untag := 0, cfg_ivl_en := 0\<rparr>)"
proof -
  let ?s = "sim_gsw 1 (Some rtl8367c_hal_Ctrl)"
  have cfg: "cfg_ok rtl8367c_hal_Ctrl sample_cfg" "cfg_mbr sample_cfg \<noteq> 0" by code_simp+
  have unused: "\<not> used_for 0x1002 (swt_of sim_view ?s) i" if "i < 32" for i
    using that by (simp add: used_for_def swt_of_def)
  have "\<exists>i<32. used_for 0x1002 (swt_of sim_view ?s) i \<or> vlan_mbrCfgUsage ?s ! i = MBRCFG_UNUSED"
    by (rule exI [of _ 0]) simp
  with evid_round_trip [OF sim_driver_up [OF hal_tables_wf(1)] _ _ cfg, of "0x1002" sample_cfg0] unused
  show ?thesis by auto
qed

text \<open>
  C16. A defect of the same function: when the identifier already has an entry and an earlier
  entry is unused, updating the VLAN stores it a second time, so that two member-configuration
  entries carry the identifier afterwards.
\<close>

theorem evid_update_duplicates:
  assumes "driver_up view A h s" and "0xFFF < vid" and "vid \<le> 0x1FFF" and "cfg_ok h cfg" and "cfg_mbr cfg \<noteq> 0"
    and "i < 32" and "used_for vid (swt_of view s) i" and "\<forall>k<i. \<not> used_for vid (swt_of view s) k"
    and "j < i" and "vlan_mbrCfgUsage s ! j = MBRCFG_UNUSED"
  shows "\<exists>s' k. rtk_vlan_set vid (Some cfg) s = (Ok (), s') \<and> k < 32 \<and> k \<noteq> i \<and>
     used_for vid (swt_of view s') i \<and> used_for vid (swt_of view s') k \<and>
     ucast (mc_evid (hw_mbrcfg (of_nat i) (swt_of view s'))) = vid \<and>
     ucast (mc_evid (hw_mbrcfg (of_nat k) (swt_of view s'))) = vid"
proof -
  note up = driver_upD [OF assms(1)]
  let ?c = "swt_of view s"
  note facts = evid_set_state_facts [OF up(3,4) assms(3,4)]
  from vlan_set_ext_run [OF assms(1-5)] obtain s' where s': "rtk_vlan_set vid (Some cfg) s = (Ok (), s')"
    "swt_rel view A s' (evid_set_state h vid cfg ?c)" "driver_up view A h s'" by metis
  have split: "[0..<32] = [0..<i] @ i # [Suc i..<32]"
    using assms(6) upt_add_eq_append [of 0 i "32 - i"] by (simp add: upt_conv_Cons)
  have "List.find (used_for vid ?c) [0..<i] = None" using assms(8) by (simp add: find_None_iff)
  then have i: "evid_slot vid ?c i"
    unfolding evid_slot_def split using assms(7) by (simp add: find_append)
  have tw: "takeWhile (\<lambda>i. \<not> used_for vid ?c i) [0..<32] = [0..<i]"
    unfolding split using assms(7,8) by (simp add: takeWhile_append)
  have sub: "set [0..<i] \<subseteq> {..<32}" using assms(6) by auto
  obtain k where k: "first_unused ?c [0..<i] = of_nat k" "k < i"
    by (rule first_unused_cases [OF sub, of ?c]) (use assms(9,10) in \<open>auto simp: swt_of_def\<close>)
  then have "evid_slot vid ?c k" and k': "k < 32" "k \<noteq> i" using assms(6) by (auto simp: evid_slot_def tw)
  with i facts(3) assms(6) have "used_for vid (swt_of view s') i" "used_for vid (swt_of view s') k"
    by (simp_all add: used_for_rel [OF s'(2)])
  then show ?thesis
    using s'(1) k' assms(6) used_for_evid [OF driver_upD(4) [OF s'(3)]] by blast
qed

theorem evid_update_duplicates_witness:
  "let s = sim_entry 1 0x1002 (mc0\<lparr>mc_evid := 0x1002\<rparr>) (sim_gsw 1 (Some rtl8367c_hal_Ctrl)) in
   \<exists>s' k. rtk_vlan_set 0x1002 (Some sample_cfg) s = (Ok (), s') \<and> k < 32 \<and> k \<noteq> 1 \<and>
     used_for 0x1002 (swt_of sim_view s') 1 \<and> used_for 0x1002 (swt_of sim_view s') k"
proof -
  let ?m = "mc0\<lparr>mc_evid := 0x1002\<rparr>"
  let ?s = "sim_entry 1 0x1002 ?m (sim_gsw 1 (Some rtl8367c_hal_Ctrl))"
  have cfg: "cfg_ok rtl8367c_hal_Ctrl sample_cfg" "cfg_mbr sample_cfg \<noteq> 0" "mc_ok ?m" by code_simp+
  have up: "driver_up sim_view sim_addrs rtl8367c_hal_Ctrl ?s"
    by (rule sim_entry_up [OF sim_driver_up]) (use cfg(3) in simp_all)
  have db: "used_for 0x1002 (swt_of sim_view ?s) 1" "\<forall>k<1. \<not> used_for 0x1002 (swt_of sim_view ?s) k"
    "vlan_mbrCfgUsage ?s ! 0 = MBRCFG_UNUSED"
    by (simp_all add: sim_entry_swt used_for_def) (simp_all add: swt_of_def sim_entry_def)
  show ?thesis
    unfolding Let_def using evid_update_duplicates [OF up _ _ cfg(1,2) _ db(1,2) _ db(3)] by auto
qed

end
