(* ===== verification/Vlan_Init.thy ===== *)
theory Vlan_Init
  imports Vlan_Ports Vlan_Entries
begin

text \<open>
  Initialisation of the VLAN unit (\<open>rtk_vlan_init\<close>): it clears the member configuration, makes
  every port an untagged member of VLAN 1 and brings the bookkeeping into agreement with the
  hardware, whatever the registers held before.
\<close>

section \<open>Loops over ports\<close>

lemma wp_forE_inv:
  assumes "\<And>pre i post c. is = pre @ i # post \<Longrightarrow> I (set pre) c \<Longrightarrow>
      wp view A (body i) (\<lambda>r c'. r = Ok () \<and> I (insert i (set pre)) c') c"
    and "I {} c" and "\<And>c. I (set is) c \<Longrightarrow> Q (Ok ()) c"
  shows "wp view A (forE is body) Q c"
proof -
  have "wp view A (forE js body) Q c" if "is = pre @ js" and "I (set pre) c" for pre js c
    using that
  proof (induction js arbitrary: pre c)
    case (Cons j js)
    have "wp view A (body j) (\<lambda>r c'. r = Ok () \<and> I (insert j (set pre)) c') c"
      using assms(1) Cons.prems by blast
    moreover have "wp view A (forE js body) Q c'" if "I (insert j (set pre)) c'" for c'
      using Cons.IH [of "pre @ [j]" c'] Cons.prems(1) that by simp
    ultimately show ?case by (auto intro!: wp_thenE elim!: wp_weaken)
  qed (simp add: wp_okE assms(3))
  from this [of "[]" "is" c] assms(2) show ?thesis by simp
qed

text \<open>The physical ports of a chip.\<close>

definition phy_ports :: "rtk_switch_halCtrl_t \<Rightarrow> u32 set" where
  "phy_ports h = {p. bit (phy_portmask h) (unat p)}"

lemma phy_ports_le:
  assumes "hal_wf h" and "p \<in> phy_ports h"
  shows "p \<le> 10"
proof -
  have pm: "port_map h" by (simp add: port_map_def assms)
  from assms(2) have "unat p < 32" unfolding phy_ports_def using bit_imp_le_length [of "phy_portmask h" "unat p"] by simp
  with assms have "p2l_port h ! unat p \<noteq> UNDEFINE_PORT" "l2p_port h ! unat (p2l_port h ! unat p) = p"
      "unat (p2l_port h ! unat p) < 32"
    by (auto simp: hal_wf_def phy_ports_def list_all_iff)
  moreover have "p \<noteq> 0xFF" using \<open>unat p < 32\<close> by auto
  ultimately have "p \<le> max_phy_port h"
    using port_map.logical [OF pm, of "unat (p2l_port h ! unat p)"] by auto
  with assms(1) show ?thesis by (auto simp: hal_wf_def)
qed

lemma phy_of_phy_ports:
  assumes "hal_wf h" and "valid_port h p"
  shows "phy_of h p \<in> phy_ports h"
proof -
  have "phy_of h p \<le> 10" by (rule phy_of_le [OF assms])
  then have lt: "unat (phy_of h p) < 32" by (simp add: word_le_nat_alt)
  have p: "unat p < 32" "l2p_port h ! unat p \<noteq> 0xFF" using assms(2) by (auto simp: valid_port_def)
  then have "p2l_port h ! unat (phy_of h p) = of_nat (unat p)" "unat p \<noteq> 30"
    using assms(1) by (auto simp: hal_wf_def list_all_iff phy_of_def)
  then have "p2l_port h ! unat (phy_of h p) \<noteq> UNDEFINE_PORT" by (auto simp: word_unat_eq_iff)
  with lt show ?thesis using assms(1) by (auto simp: hal_wf_def list_all_iff phy_ports_def)
qed

lemma phy_portmask_le: "hal_wf h \<Longrightarrow> phy_portmask h \<le> 0x7FF"
proof -
  assume wf: "hal_wf h"
  have "\<not> bit (phy_portmask h) k" if "11 \<le> k" for k
  proof
    assume b: "bit (phy_portmask h) k"
    then have k: "k < 32" using bit_imp_le_length [OF b] by simp
    then have "of_nat k \<in> phy_ports h" using b by (simp add: phy_ports_def unat_of_nat)
    from phy_ports_le [OF wf this] that k show False by (simp add: word_le_nat_alt unat_of_nat)
  qed
  then show ?thesis using le_mask_iff_bits [of "phy_portmask h" 11] by (simp add: mask_eq_exp_minus_1)
qed

lemma wp_scan_phy_ports:
  assumes "hal_wf h"
    and step: "\<And>p D c. p \<in> phy_ports h \<Longrightarrow> I D c \<Longrightarrow> wp view A (body p) (\<lambda>r c'. r = Ok () \<and> I (insert p D) c') c"
    and ready: "\<And>D c. I D c \<Longrightarrow> sw_ready c h" and "I {} c" and "\<And>c. I (phy_ports h) c \<Longrightarrow> Q (Ok ()) c"
  shows "wp view A (scan_phy_ports body) Q c"
  unfolding scan_phy_ports_def
proof (rule wp_forE_inv [where I = "\<lambda>S. I {p. unat p \<in> S \<and> bit (phy_portmask h) (unat p)}"])
  fix pre i post c
  assume split: "[0..<32] = pre @ i # post" and c: "I {p. unat p \<in> set pre \<and> bit (phy_portmask h) (unat p)} c"
  have "i \<in> set [0..<32]" unfolding split by simp
  then have i: "i < 32" by simp
  then have i': "unat (of_nat i :: u32) = i" by (simp add: unat_of_nat)
  have ins: "{p :: u32. unat p \<in> insert i (set pre) \<and> bit (phy_portmask h) (unat p)} =
      (if bit (phy_portmask h) i then insert (of_nat i) {p. unat p \<in> set pre \<and> bit (phy_portmask h) (unat p)}
       else {p. unat p \<in> set pre \<and> bit (phy_portmask h) (unat p)})"
    using i' by auto
  show "wp view A (bindE rtk_switch_phyPortMask_get (\<lambda>m. if bit m i then body (of_nat i) else okE ()))
      (\<lambda>r c'. r = Ok () \<and> I {p. unat p \<in> insert i (set pre) \<and> bit (phy_portmask h) (unat p)} c') c"
    unfolding ins
    using step [OF _ c, of "of_nat i"] c i'
    by (auto intro!: wp_bindE wp_phyPortMask [OF ready [OF c]] wp_okE simp: phy_ports_def)
next
  fix c assume "I {p. unat p \<in> set [0..<32] \<and> bit (phy_portmask h) (unat p)} c"
  moreover have "{p. unat p \<in> set [0..<32] \<and> bit (phy_portmask h) (unat p)} = phy_ports h"
    using bit_imp_le_length [of "phy_portmask h"] by (auto simp: phy_ports_def)
  ultimately show "Q (Ok ()) c" using assms(5) by simp
qed (use assms(4) in simp)


section \<open>The initial configuration\<close>

definition init_entry :: "rtk_switch_halCtrl_t \<Rightarrow> rtl8367c_vlanconfiguser" where
  "init_entry h = mc0\<lparr>mc_evid := 1, mc_mbr := ucast (phy_portmask h)\<rparr>"

definition init_4k :: "rtk_switch_halCtrl_t \<Rightarrow> rtl8367c_user_vlan4kentry" where
  "init_4k h = v40\<lparr>v4_vid := 1, v4_mbr := ucast (phy_portmask h), v4_untag := ucast (phy_portmask h)\<rparr>"

text \<open>The configuration a caller reads for VLAN 1: all ports of the chip, untagged.\<close>

definition init_cfg :: "rtk_switch_halCtrl_t \<Rightarrow> rtk_vlan_cfg_t" where
  "init_cfg h = \<lparr>cfg_mbr = p2l_mask h (phy_portmask h), cfg_untag = p2l_mask h (phy_portmask h), cfg_ivl_en = 0,
     cfg_fid_msti = 0, cfg_envlanpol = 0, cfg_meteridx = 0, cfg_vbpen = 0, cfg_vbpri = 0\<rparr>"

text \<open>What holds once the entries are written, whatever is done to the ports afterwards.\<close>

definition init_tables :: "rtk_switch_halCtrl_t \<Rightarrow> swt \<Rightarrow> bool" where
  "init_tables h c \<longleftrightarrow> sw_ready c h \<and> length (sw_mbrUsage c) = 32 \<and> length (sw_mbrVid c) = 32 \<and>
     hw_4k 1 c = init_4k h \<and> hw_mbrcfg 0 c = init_entry h \<and> (\<forall>j \<le> 31. j \<noteq> 0 \<longrightarrow> hw_mbrcfg j c = mc0)"

definition unused_db :: "swt \<Rightarrow> bool" where
  "unused_db c \<longleftrightarrow> sw_mbrUsage c = replicate 32 MBRCFG_UNUSED \<and> sw_mbrVid c = replicate 32 0"

lemma phy_portmask_u16: "hal_wf h \<Longrightarrow> unat (ucast (phy_portmask h) :: u16) \<le> 0x7FF"
  and phy_portmask_up: "hal_wf h \<Longrightarrow> (ucast (ucast (phy_portmask h) :: u16) :: u32) = phy_portmask h"
  using phy_portmask_le [of h] by (simp_all add: word_le_nat_alt unat_ucast16)

lemma init_entries_ok:
  assumes "hal_wf h"
  shows "mc_ok (init_entry h)" and "v4_ok (init_4k h)"
  using phy_portmask_u16 [OF assms]
  by (simp_all add: init_entry_def init_4k_def mc_ok_def v4_ok_def mc0_def v40_def word_le_nat_alt)

lemma cfg_of_init_4k: "hal_wf h \<Longrightarrow> cfg_of_4k h (init_4k h) = init_cfg h"
  by (simp add: cfg_of_4k_def init_4k_def v40_def init_cfg_def phy_portmask_up)

text \<open>Clearing the entries.\<close>

lemma wp_clear_entries:
  assumes "sw_ready c h" and "cfg_regs \<subseteq> A" and "unused_db c"
  shows "wp view A (forE [0..<32] (\<lambda>i. rtl8367c_setAsicVlanMemberConfig (of_nat i) mc0))
     (\<lambda>r c'. r = Ok () \<and> sw_ready c' h \<and> unused_db c' \<and> (\<forall>j \<le> 31. hw_mbrcfg j c' = mc0)) c"
proof (rule wp_forE_inv [where I = "\<lambda>D c'. sw_ready c' h \<and> unused_db c' \<and>
      (\<forall>j \<le> 31. unat j \<in> D \<longrightarrow> hw_mbrcfg j c' = mc0)"])
  fix pre i post c'
  assume split: "[0..<32] = pre @ i # post" and c': "sw_ready c' h \<and> unused_db c' \<and>
    (\<forall>j \<le> 31. unat j \<in> set pre \<longrightarrow> hw_mbrcfg j c' = mc0)"
  have "i \<in> set [0..<32]" unfolding split by simp
  then have i: "i < 32" by simp
  show "wp view A (rtl8367c_setAsicVlanMemberConfig (of_nat i) mc0) (\<lambda>r c''. r = Ok () \<and> sw_ready c'' h \<and>
    unused_db c'' \<and> (\<forall>j \<le> 31. unat j \<in> insert i (set pre) \<longrightarrow> hw_mbrcfg j c'' = mc0)) c'"
    by (rule wp_setMbr) (use c' i assms(2) in \<open>auto simp: idx_le unused_db_def\<close>)
next
  fix c' assume c': "sw_ready c' h \<and> unused_db c' \<and> (\<forall>j \<le> 31. unat j \<in> set [0..<32] \<longrightarrow> hw_mbrcfg j c' = mc0)"
  then show "Ok () = Ok () \<and> sw_ready c' h \<and> unused_db c' \<and> (\<forall>j \<le> 31. hw_mbrcfg j c' = mc0)"
    using le31_nat by auto
qed (use assms in auto)

section \<open>The port settings\<close>

definition port_default :: "u32 \<Rightarrow> swt \<Rightarrow> bool" where
  "port_default p c \<longleftrightarrow> port_vidx p c = 0 \<and> port_vpri p c = 0 \<and> fld RTL8367C_PORT_MISC_CFG_REG (\<lambda>_. 4) 2 p c = 0"

abbreviation igr_fld :: "u32 \<Rightarrow> swt \<Rightarrow> u32" where
  "igr_fld \<equiv> fld (\<lambda>_. RTL8367C_VLAN_INGRESS_REG) unat 1"

lemma misc_reg_apart:
  assumes "p \<le> 10" and "q \<le> 10"
  shows "RTL8367C_PORT_MISC_CFG_REG p \<noteq> RTL8367C_VLAN_PVID_CTRL_REG q"
    and "RTL8367C_PORT_MISC_CFG_REG p \<noteq> RTL8367C_VLAN_PORTBASED_PRIORITY_REG q"
    and "RTL8367C_PORT_MISC_CFG_REG p \<noteq> RTL8367C_VLAN_INGRESS_REG"
    and "RTL8367C_VLAN_PVID_CTRL_REG q \<noteq> RTL8367C_VLAN_INGRESS_REG"
    and "RTL8367C_VLAN_PORTBASED_PRIORITY_REG q \<noteq> RTL8367C_VLAN_INGRESS_REG"
proof -
  have "list_all (\<lambda>p. unat (RTL8367C_PORT_MISC_CFG_REG p) < 0x500) all_port_ids" by code_simp
  from all_ports [OF this assms(1)] have m: "unat (RTL8367C_PORT_MISC_CFG_REG p) < 0x500" .
  have "list_all (\<lambda>q. unat (RTL8367C_VLAN_PVID_CTRL_REG q) \<ge> 0x700 \<and> unat (RTL8367C_VLAN_PVID_CTRL_REG q) < 0x7A9 \<and>
      unat (RTL8367C_VLAN_PORTBASED_PRIORITY_REG q) > 0x7A9) all_port_ids" by code_simp
  from all_ports [OF this assms(2)] m
  show "RTL8367C_PORT_MISC_CFG_REG p \<noteq> RTL8367C_VLAN_PVID_CTRL_REG q"
    "RTL8367C_PORT_MISC_CFG_REG p \<noteq> RTL8367C_VLAN_PORTBASED_PRIORITY_REG q"
    "RTL8367C_PORT_MISC_CFG_REG p \<noteq> RTL8367C_VLAN_INGRESS_REG"
    "RTL8367C_VLAN_PVID_CTRL_REG q \<noteq> RTL8367C_VLAN_INGRESS_REG"
    "RTL8367C_VLAN_PORTBASED_PRIORITY_REG q \<noteq> RTL8367C_VLAN_INGRESS_REG" by auto
qed

lemma port_default_set:
  assumes "p \<le> 10" and "q \<le> 10" and "port_default q c \<or> q = p"
  shows "port_default q (put_fld RTL8367C_PORT_MISC_CFG_REG (\<lambda>_. 4) 2 p 0 (put_pvid p 0 0 c))"
proof -
  let ?c = "put_fld RTL8367C_PORT_MISC_CFG_REG (\<lambda>_. 4) 2 p 0 (put_pvid p 0 0 c)"
  have "port_vidx q ?c = port_vidx q (put_pvid p 0 0 c)" "port_vpri q ?c = port_vpri q (put_pvid p 0 0 c)"
    using misc_reg_apart [OF assms(1,2)] by (simp_all add: port_vidx_def port_vpri_def put_fld_def put_reg_field_other)
  moreover have "fld RTL8367C_PORT_MISC_CFG_REG (\<lambda>_. 4) 2 q ?c =
      (if p = q then 0 else fld RTL8367C_PORT_MISC_CFG_REG (\<lambda>_. 4) 2 q (put_pvid p 0 0 c))"
    by (rule etm_set.get_put_v [OF assms(1,2)]) simp
  moreover have "fld RTL8367C_PORT_MISC_CFG_REG (\<lambda>_. 4) 2 q (put_pvid p 0 0 c) = fld RTL8367C_PORT_MISC_CFG_REG (\<lambda>_. 4) 2 q c"
    using misc_reg_apart [OF assms(2,1)] by (simp add: fld_def put_pvid_def put_reg_field_other)
  ultimately show ?thesis
    using assms(3) by (auto simp: port_default_def port_put_pvid [OF assms(1,2)])
qed

lemma port_default_igr:
  assumes "p \<le> 10" and "q \<le> 10" and "port_default q c"
  shows "port_default q (put_fld (\<lambda>_. RTL8367C_VLAN_INGRESS_REG) unat 1 p 1 c)"
  using assms(3) misc_reg_apart [OF assms(2,2)]
  by (simp add: port_default_def port_vidx_def port_vpri_def put_fld_def put_reg_field_other fld_def del: One_nat_def)

lemma init_tables_put:
  assumes "init_tables h c" and "a < 0x728 \<or> 0x7A7 < a"
  shows "init_tables h (put_reg_field a m v c)"
  using assms hw_mbrcfg_put_reg_field [OF assms(2)] by (simp add: init_tables_def hw_4k_def)

lemma init_tables_fld:
  assumes "init_tables h c" and "reg p < 0x728 \<or> 0x7A7 < reg p"
  shows "init_tables h (put_fld reg off w p v c)"
  unfolding put_fld_def by (rule init_tables_put [OF assms])

lemma init_tables_pvid: "init_tables h c \<Longrightarrow> p \<le> 10 \<Longrightarrow> init_tables h (put_pvid p i r c)"
  unfolding put_pvid_def using pvid_regs_range [of p] by (auto intro!: init_tables_put)

text \<open>All ports of \<open>D\<close> have their defaults; the bookkeeping is as at the start.\<close>

definition ports_done :: "rtk_switch_halCtrl_t \<Rightarrow> u32 set \<Rightarrow> swt \<Rightarrow> bool" where
  "ports_done h D c \<longleftrightarrow> init_tables h c \<and> (\<forall>p\<in>D. p \<le> 10 \<and> port_default p c)"

lemma ports_done_ready: "ports_done h D c \<Longrightarrow> sw_ready c h"
  and ports_done_empty: "ports_done h {} c \<longleftrightarrow> init_tables h c"
  by (simp_all add: ports_done_def init_tables_def)

lemma wp_init_port:
  assumes "cfg_regs \<subseteq> A" and "p \<le> 10" and "ports_done h D c" and "unused_db c"
  shows "wp view A (thenE (rtl8367c_setAsicVlanPortBasedVID p 0 0) (rtl8367c_setAsicVlanEgressTagMode p EG_TAG_MODE_ORI))
     (\<lambda>r c'. r = Ok () \<and> ports_done h (insert p D) c' \<and> unused_db c') c"
proof -
  have misc: "RTL8367C_PORT_MISC_CFG_REG p < 0x728 \<or> 0x7A7 < RTL8367C_PORT_MISC_CFG_REG p"
    by (rule etm_set.apart [OF assms(2)])
  show ?thesis
    using assms misc
    by (auto intro!: wp_thenE wp_setPVID etm_set.wp_set_v port_default_set init_tables_fld init_tables_pvid
        simp: ports_done_def unused_db_def put_fld_def [of _ _ _ _ _ "put_pvid p 0 0 c"])
qed

lemma wp_init_igr:
  assumes "cfg_regs \<subseteq> A" and "p \<le> 10" and "ports_done h P c" and "\<forall>q\<in>D. q \<le> 10 \<and> igr_fld q c = 1" and "db_ok c"
  shows "wp view A (rtl8367c_setAsicVlanIngressFilter p ENABLED)
     (\<lambda>r c'. r = Ok () \<and> ports_done h P c' \<and> (\<forall>q\<in>insert p D. q \<le> 10 \<and> igr_fld q c' = 1) \<and> db_ok c') c"
  by (rule igr_set.wp_set_v [OF assms(2) _ assms(1)])
     (use assms in \<open>auto simp: ports_done_def igr_set.get_put_v igr_set.put_db
        intro!: port_default_igr init_tables_fld simp del: One_nat_def\<close>)

lemma init_db_ok:
  assumes "init_tables h c" and "unused_db c"
  shows "db_ok (db_upd 0 MBRCFG_USED_BY_VLAN 1 c)"
proof -
  have "entry_ok MBRCFG_USED_BY_VLAN 1 (init_entry h)" "entry_ok MBRCFG_UNUSED 0 mc0"
    by (simp_all add: entry_ok_def init_entry_def mc_empty_def mc0_def)
  moreover have "hw_mbrcfg (of_nat i) c = (if i = 0 then init_entry h else mc0)" if "i < 32" for i
    using assms(1) that idx_le [OF that] idx_eq [OF that, of 0] by (auto simp: init_tables_def)
  ultimately show ?thesis
    using assms(2) by (auto simp: db_ok_def unused_db_def nth_list_update)
qed

lemma init_tables_db: "init_tables h c \<Longrightarrow> init_tables h (db_upd i u v c)"
  by (simp add: init_tables_def)

lemma port_default_db [simp]: "port_default p (db_upd i u v c) = port_default p c"
  by (simp add: port_default_def port_vidx_def port_vpri_def fld_def)

definition init_done :: "rtk_switch_halCtrl_t \<Rightarrow> swt \<Rightarrow> bool" where
  "init_done h c \<longleftrightarrow> ports_done h (phy_ports h) c \<and> (\<forall>p\<in>phy_ports h. igr_fld p c = 1) \<and> db_ok c"

lemma wp_init_filter:
  assumes "cfg_regs \<subseteq> A" and "ports_done h (phy_ports h) c" and "\<forall>p\<in>phy_ports h. igr_fld p c = 1" and "db_ok c"
  shows "wp view A (rtl8367c_setAsicVlanFilter ENABLED) (\<lambda>r c'. r = Ok () \<and> init_done h c') c"
proof -
  have reg: "RTL8367C_REG_VLAN_CTRL \<in> cfg_regs" by (simp add: cfg_regs_def cfg_reg_defs)
  have other: "RTL8367C_REG_VLAN_CTRL \<noteq> RTL8367C_VLAN_INGRESS_REG" by simp
  have regs: "RTL8367C_VLAN_PVID_CTRL_REG p \<noteq> RTL8367C_REG_VLAN_CTRL \<and>
      RTL8367C_VLAN_PORTBASED_PRIORITY_REG p \<noteq> RTL8367C_REG_VLAN_CTRL \<and>
      RTL8367C_PORT_MISC_CFG_REG p \<noteq> RTL8367C_REG_VLAN_CTRL" if "p \<le> 10" for p
  proof -
    have "list_all (\<lambda>p. RTL8367C_VLAN_PVID_CTRL_REG p \<noteq> RTL8367C_REG_VLAN_CTRL \<and>
      RTL8367C_VLAN_PORTBASED_PRIORITY_REG p \<noteq> RTL8367C_REG_VLAN_CTRL \<and>
      RTL8367C_PORT_MISC_CFG_REG p \<noteq> RTL8367C_REG_VLAN_CTRL) all_port_ids" by code_simp
    from all_ports [OF this that] show ?thesis .
  qed
  have keep: "port_default p (put_reg_field RTL8367C_REG_VLAN_CTRL m v c) = port_default p c" if "p \<le> 10" for p m v
    using regs [OF that] by (simp add: port_default_def port_vidx_def port_vpri_def fld_def put_reg_field_other)
  have igr: "igr_fld p (put_reg_field RTL8367C_REG_VLAN_CTRL m v c) = igr_fld p c" for p m v
    using other by (simp add: fld_def put_reg_field_other)
  have db: "db_ok (put_reg_field RTL8367C_REG_VLAN_CTRL m v c)" for m v
    using assms(4) hw_mbrcfg_put_reg_field [of RTL8367C_REG_VLAN_CTRL] by (simp add: db_ok_def idx_le)
  show ?thesis
    unfolding rtl8367c_setAsicVlanFilter_def
    by (rule wp_set_bit [OF reg assms(1)])
       (use assms keep igr db in \<open>auto simp: init_done_def ports_done_def intro!: init_tables_put\<close>)
qed

lemma wp_vlan_init:
  assumes R: "sw_ready c h" and A: "cfg_regs \<subseteq> A"
  shows "wp view A rtk_vlan_init (\<lambda>r c'. r = Ok () \<and> init_done h c') c"
proof -
  have wf: "hal_wf h" using R by (simp add: sw_ready_def)
  note le = phy_ports_le [OF wf]
  let ?c0 = "c\<lparr>sw_mbrVid := replicate 32 0, sw_mbrUsage := replicate 32 MBRCFG_UNUSED\<rparr>"
  have scan1: "wp view A (scan_phy_ports (\<lambda>i. thenE (rtl8367c_setAsicVlanPortBasedVID i 0 0)
      (rtl8367c_setAsicVlanEgressTagMode i EG_TAG_MODE_ORI)))
      (\<lambda>r c'. r = Ok () \<and> ports_done h (phy_ports h) c' \<and> unused_db c') c1"
    if "init_tables h c1" "unused_db c1" for c1
    by (rule wp_scan_phy_ports [OF wf, where I = "\<lambda>D c. ports_done h D c \<and> unused_db c"])
       (use that wp_init_port [OF A le] in \<open>auto simp: ports_done_empty ports_done_ready\<close>)
  have scan2: "wp view A (scan_phy_ports (\<lambda>i. rtl8367c_setAsicVlanIngressFilter i ENABLED))
      (\<lambda>r c'. r = Ok () \<and> ports_done h (phy_ports h) c' \<and> (\<forall>q\<in>phy_ports h. igr_fld q c' = 1) \<and> db_ok c') c1"
    if "ports_done h (phy_ports h) c1" "db_ok c1" for c1
    by (rule wp_scan_phy_ports [OF wf, where I = "\<lambda>D c. ports_done h (phy_ports h) c \<and>
          (\<forall>q\<in>D. q \<le> 10 \<and> igr_fld q c = 1) \<and> db_ok c"])
       (use that wp_init_igr [OF A le] in \<open>auto simp: ports_done_ready\<close>)
  have tables: "init_tables h (put_mbrcfg 0 (init_entry h) (put_4k (init_4k h) c1))"
    if "sw_ready c1 h" "unused_db c1" "\<forall>j \<le> 31. hw_mbrcfg j c1 = mc0" for c1
    using that init_entries_ok [OF wf] by (auto simp: init_tables_def unused_db_def) (auto simp: init_4k_def)
  have reset: "wp view A (modifyE (\<lambda>s. s\<lparr>vlan_mbrCfgVid := replicate 32 0, vlan_mbrCfgUsage := replicate 32 MBRCFG_UNUSED\<rparr>))
      (\<lambda>r c'. r = Ok () \<and> c' = ?c0) c"
    by (rule wp_modifyE [where c' = ?c0]) (auto simp: swt_rel_def)
  have R0: "sw_ready ?c0 h" "unused_db ?c0" using R by (simp_all add: unused_db_def)
  have phase3: "wp view A (thenE (db_set 0 MBRCFG_USED_BY_VLAN 1)
      (thenE (scan_phy_ports (\<lambda>i. rtl8367c_setAsicVlanIngressFilter i ENABLED)) (rtl8367c_setAsicVlanFilter ENABLED)))
      (\<lambda>r c'. r = Ok () \<and> init_done h c') c1"
    if "ports_done h (phy_ports h) c1" "unused_db c1" for c1
  proof -
    have "db_ok (db_upd 0 MBRCFG_USED_BY_VLAN 1 c1)" "ports_done h (phy_ports h) (db_upd 0 MBRCFG_USED_BY_VLAN 1 c1)"
      using that init_db_ok [of h c1] by (auto simp: ports_done_def intro: init_tables_db)
    with that wp_init_filter [OF A] show ?thesis
      by (auto intro!: wp_thenE wp_db_set wp_weaken [OF scan2] simp: unused_db_def split: outcome.splits)
  qed
  have phase2: "wp view A (thenE (rtl8367c_setAsicVlan4kEntry (init_4k h))
      (thenE (rtl8367c_setAsicVlanMemberConfig 0 (init_entry h))
      (thenE (scan_phy_ports (\<lambda>i. thenE (rtl8367c_setAsicVlanPortBasedVID i 0 0)
               (rtl8367c_setAsicVlanEgressTagMode i EG_TAG_MODE_ORI))) k)))
      (\<lambda>r c'. r = Ok () \<and> init_done h c') c1"
    if "sw_ready c1 h" "unused_db c1" "\<forall>j \<le> 31. hw_mbrcfg j c1 = mc0"
      and k: "\<And>c2. ports_done h (phy_ports h) c2 \<Longrightarrow> unused_db c2 \<Longrightarrow> wp view A k (\<lambda>r c'. r = Ok () \<and> init_done h c') c2" for c1 k
  proof -
    have "unused_db (put_mbrcfg 0 (init_entry h) (put_4k (init_4k h) c1))" using that(2) by (simp add: unused_db_def)
    with init_entries_ok [OF wf] tables [OF that(1-3)] A k show ?thesis
      by (auto intro!: wp_thenE wp_set4k wp_setMbr wp_weaken [OF scan1] split: outcome.splits)
  qed
  have fold_entries:
    "v40\<lparr>v4_vid := 1, v4_mbr := ucast (phy_portmask h), v4_untag := ucast (phy_portmask h), v4_fid_msti := 0\<rparr> = init_4k h"
    "mc0\<lparr>mc_evid := 1, mc_mbr := ucast (phy_portmask h), mc_fid_msti := 0\<rparr> = init_entry h"
    by (simp_all add: init_4k_def init_entry_def v40_def mc0_def)
  show ?thesis
    unfolding rtk_vlan_init_def
    using phase2 [OF _ _ _ phase3]
    by (auto intro!: wp_thenE wp_bindE wp_chk_init [OF R] wp_weaken [OF reset]
        wp_weaken [OF wp_clear_entries [OF R0(1) A R0(2)]]
        wp_phyPortMask [where h = h] simp: fold_entries simp del: thenE_okE split: outcome.splits)
qed

section \<open>Properties\<close>

text \<open>
  C10. Initialising the VLAN unit (\<open>rtk_vlan_init\<close>) on a chip that keeps its contract succeeds
  whatever the registers and the bookkeeping held before.  Afterwards the bookkeeping agrees with
  the hardware, VLAN 1 has every port of the chip as an untagged member, and every port has VLAN 1
  with priority 0 as its port-based VLAN, ingress filtering on and the original tag mode.
\<close>

theorem vlan_init_establishes:
  assumes "table_contract (gsw_bus s) view A" and "cfg_regs \<subseteq> A" and "v_busy (view (gsw_dev s)) < 10" and "ready s h"
  shows "\<exists>s'. rtk_vlan_init s = (Ok (), s') \<and> driver_up view A h s' \<and>
     fst (rtk_vlan_get 1 (Some cfg0) s') = Ok (init_cfg h) \<and>
     (\<forall>p. valid_port h p \<longrightarrow> fst (rtk_vlan_portPvid_get p PTR PTR s') = Ok (1, 0) \<and>
        fst (rtk_vlan_portIgrFilterEnable_get p PTR s') = Ok ENABLED \<and>
        fst (rtk_vlan_tagMode_get p PTR s') = Ok EG_TAG_MODE_ORI)"
proof -
  have wf: "hal_wf h" using assms(4) by (simp add: ready_def)
  have R: "sw_ready (swt_of view s) h" using assms(4) by (simp add: ready_def sw_ready_def swt_of_def)
  from wp_vlan_init [OF R assms(2)] swt_rel_of [OF assms(1,3)] obtain s' c' where
    run: "rtk_vlan_init s = (Ok (), s')" and rel: "swt_rel view A s' c'" and fin: "init_done h c'"
    by (rule wpD) auto
  then have t: "init_tables h c'" "db_ok c'" by (simp_all add: init_done_def ports_done_def)
  then have R': "sw_ready c' h" by (simp add: init_tables_def)
  have port: "fst (rtk_vlan_portPvid_get p PTR PTR s') = Ok (1, 0)"
    "fst (rtk_vlan_portIgrFilterEnable_get p PTR s') = Ok ENABLED"
    "fst (rtk_vlan_tagMode_get p PTR s') = Ok EG_TAG_MODE_ORI" if p: "valid_port h p" for p
  proof -
    note in_ports = phy_of_phy_ports [OF wf p]
    then have d: "port_default (phy_of h p) c'" "igr_fld (phy_of h p) c' = 1"
      using fin by (simp_all add: init_done_def ports_done_def)
    have "port_pvid h p c' = (1, 0)"
      using d(1) t(1) by (simp add: port_pvid_def port_default_def init_tables_def init_entry_def)
    then show "fst (rtk_vlan_portPvid_get p PTR PTR s') = Ok (1, 0)"
      using wp_run_pure(1) [OF wp_portPvid_get [OF R' assms(2) p] rel] by simp
    show "fst (rtk_vlan_portIgrFilterEnable_get p PTR s') = Ok ENABLED"
      using igr_api.api_get [OF rel R' assms(2) p] d(2) by simp
    show "fst (rtk_vlan_tagMode_get p PTR s') = Ok EG_TAG_MODE_ORI"
      using etm_api.api_get [OF rel R' assms(2) p] d(1) by (simp add: port_default_def)
  qed
  have "wp view A (rtk_vlan_get 1 (Some cfg0)) (\<lambda>r _. r = Ok (init_cfg h)) c'"
    by (rule wp_vlan_get [OF R'])
       (use t(1) in \<open>simp_all add: init_tables_def cfg_of_init_4k [OF wf]\<close>)
  then have "fst (rtk_vlan_get 1 (Some cfg0) s') = Ok (init_cfg h)" using rel by (auto simp: wp_def)
  with run driver_upI [OF rel assms(2) R' t(2)] port show ?thesis by blast
qed

theorem vlan_init_establishes_witness:
  "\<exists>s'. rtk_vlan_init (sim_gsw 1 (Some rtl8367c_hal_Ctrl)) = (Ok (), s') \<and>
     fst (rtk_vlan_portPvid_get 16 PTR PTR s') = Ok (1, 0)"
proof -
  let ?s = "sim_gsw 1 (Some rtl8367c_hal_Ctrl)"
  have "valid_port rtl8367c_hal_Ctrl 16" by code_simp
  moreover have "ready ?s rtl8367c_hal_Ctrl" by (simp add: ready_def)
  ultimately show ?thesis
    using vlan_init_establishes [of ?s sim_view sim_addrs rtl8367c_hal_Ctrl sample_cfg0] sim_table_contract sim_cfg_regs
    by auto
qed

end
