(* ===== verification/Vlan_Model.thy ===== *)
theory Vlan_Model
  imports Vlan_Init
begin

text \<open>
  The abstract specification of the VLAN API that its callers rely on: a switch is a map from VLAN
  identifiers to configurations, a map from ports to port-based VLANs, and a number of
  member-configuration entries that are still free.  \<open>rtk_vlan_set\<close> updates the first map,
  \<open>rtk_vlan_portPvid_set\<close> the second; both refine the concrete driver on the hardware.
\<close>

section \<open>Free entries\<close>

definition free_entries :: "swt \<Rightarrow> u32 set" where
  "free_entries c = {j. j \<le> 31 \<and> mc_empty (hw_mbrcfg j c)}"

lemma free_one_less:
  assumes "\<forall>j \<le> 31. j \<noteq> i \<longrightarrow> hw_mbrcfg j c' = hw_mbrcfg j c"
  shows "card (free_entries c) - 1 \<le> card (free_entries c')"
proof -
  have "free_entries c - {i} \<subseteq> free_entries c'" using assms by (auto simp: free_entries_def)
  then have "card (free_entries c - {i}) \<le> card (free_entries c')" by (intro card_mono) simp_all
  moreover have "card (free_entries c) - 1 \<le> card (free_entries c - {i})"
    by (simp add: card_Diff_singleton_if)
  ultimately show ?thesis by simp
qed

lemma free_vlan_set:
  assumes "db_ok c" and "vid \<noteq> 0" and "vid \<le> 0xFFF" and "hal_wf h" and "cfg_ok h cfg"
  shows "card (free_entries c) \<le> card (free_entries (vlan_set_state h vid cfg c))"
proof -
  let ?e = "v4_for h vid cfg"
  have ok: "mc_ok (mc_of_4k vid ?e)" by (rule mc_of_4k_ok [OF v4_for_ok [OF assms(4,5,3)] assms(3)])
  have "hw_mbrcfg j (vlan_set_state h vid cfg c) = hw_mbrcfg j c" if j: "j \<le> 31" "mc_empty (hw_mbrcfg j c)" for j
  proof -
    have "\<not> used_for vid (put_4k ?e c) (unat j)"
      using used_for_evid [of "put_4k ?e c" "unat j" vid] assms(1,2) le31_nat [OF j(1)] j
      by (auto simp: mc_empty_def)
    from mbr_synced_entry [OF ok j(1) this] j(1) show ?thesis by (simp add: vlan_set_state_def Let_def)
  qed
  then show ?thesis by (intro card_mono) (auto simp: free_entries_def)
qed

section \<open>The abstract switch\<close>

record vlan_switch =
  vs_cfg :: "u32 \<Rightarrow> rtk_vlan_cfg_t"
  vs_pvid :: "rtk_port_t \<Rightarrow> u32 \<times> u32"

definition vs_set :: "u32 \<Rightarrow> rtk_vlan_cfg_t \<Rightarrow> vlan_switch \<Rightarrow> vlan_switch" where
  "vs_set vid cfg v = v\<lparr>vs_cfg := (vs_cfg v)(vid := cfg)\<rparr>"

definition vs_set_pvid :: "rtk_port_t \<Rightarrow> u32 \<Rightarrow> u32 \<Rightarrow> vlan_switch \<Rightarrow> vlan_switch" where
  "vs_set_pvid p vid pri v = v\<lparr>vs_pvid := (vs_pvid v)(p := (vid, pri))\<rparr>"

text \<open>
  The abstraction relation: what the getters of the API return, all port-based VLANs being set,
  with at least \<open>n\<close> entries free.
\<close>

definition vs_rel :: "rtk_switch_halCtrl_t \<Rightarrow> nat \<Rightarrow> vlan_switch \<Rightarrow> swt \<Rightarrow> bool" where
  "vs_rel h n v c \<longleftrightarrow> sw_ready c h \<and> db_ok c \<and> n \<le> card (free_entries c) \<and>
     (\<forall>vid \<le> 0xFFF. cfg_of_4k h (hw_4k (ucast vid) c) = vs_cfg v vid) \<and>
     (\<forall>p. valid_port h p \<longrightarrow> port_pvid h p c = vs_pvid v p \<and> fst (vs_pvid v p) \<noteq> 0)"

lemma vs_rel_weaken: "vs_rel h n v c \<Longrightarrow> m \<le> n \<Longrightarrow> vs_rel h m v c"
  by (auto simp: vs_rel_def)

lemma pvid_nonzero_set: "fst (port_pvid h p c) \<noteq> 0 \<Longrightarrow> pvid_set h p c"
  by (auto simp: port_pvid_def pvid_set_def mc_empty_def)

lemma wp_vs_set:
  assumes V: "vs_rel h n v c" and A: "cfg_regs \<subseteq> A" and "vid \<noteq> 0" and "vid \<le> 0xFFF"
    and "cfg_ok h cfg" and "cfg_mbr cfg \<noteq> 0"
  shows "wp view A (rtk_vlan_set vid (Some cfg)) (\<lambda>r c'. r = Ok () \<and> vs_rel h n (vs_set vid cfg v) c') c"
proof -
  have R: "sw_ready c h" and D: "db_ok c" and wf: "hal_wf h"
    using V by (auto simp: vs_rel_def sw_ready_def)
  note facts = vlan_set_state_facts [OF R D assms(4,5)]
  have "vs_rel h n (vs_set vid cfg v) (vlan_set_state h vid cfg c)"
    using V facts assms(6) free_vlan_set [OF D assms(3,4) wf assms(5)]
    by (auto simp: vs_rel_def vs_set_def)
  then show ?thesis by (intro wp_vlan_set [OF R D A assms(4,5)]) simp
qed

lemma wp_vs_set_pvid:
  assumes V: "vs_rel h (Suc n) v c" and A: "cfg_regs \<subseteq> A" and p: "valid_port h p"
    and "vid \<noteq> 0" and "vid \<le> 0x1FFF" and "pri \<le> 7"
  shows "wp view A (rtk_vlan_portPvid_set p vid pri)
    (\<lambda>r c'. r = Ok () \<and> vs_rel h n (vs_set_pvid p vid pri v) c') c"
proof -
  have R: "sw_ready c h" and D: "db_ok c" using V by (auto simp: vs_rel_def)
  have "free_entries c \<noteq> {}" using V by (auto simp: vs_rel_def)
  then have not_full: "\<not> (\<forall>j \<le> 31. \<not> mc_empty (hw_mbrcfg j c))" by (auto simp: free_entries_def)
  have post: "r = Ok () \<and> vs_rel h n (vs_set_pvid p vid pri v) c'" if Q: "pvid_post h p vid pri c r c'" for r c'
  proof (cases r)
    case (Ok u)
    from Q Ok have c': "db_ok c'" "sw_ready c' h" "sw_tbl c' = sw_tbl c" "port_pvid h p c' = (vid, pri)"
      "\<And>q. valid_port h q \<Longrightarrow> q \<noteq> p \<Longrightarrow> pvid_set h q c \<Longrightarrow> port_pvid h q c' = port_pvid h q c"
      by (auto simp: pvid_post_def)
    from Q Ok obtain i where "\<forall>j \<le> 31. j \<noteq> i \<longrightarrow> hw_mbrcfg j c' = hw_mbrcfg j c" by (auto simp: pvid_post_def)
    from free_one_less [OF this] V have "n \<le> card (free_entries c')" by (auto simp: vs_rel_def)
    moreover have "port_pvid h q c' = vs_pvid (vs_set_pvid p vid pri v) q \<and> fst (vs_pvid (vs_set_pvid p vid pri v) q) \<noteq> 0"
      if "valid_port h q" for q
      using that V c'(4) c'(5) [OF that] pvid_nonzero_set [of h q c] assms(4)
      by (auto simp: vs_rel_def vs_set_pvid_def)
    ultimately show ?thesis
      using V c' Ok by (auto simp: vs_rel_def vs_set_pvid_def hw_4k_def)
  qed (use Q not_full in \<open>auto simp: pvid_post_def\<close>)
  show ?thesis
    by (rule wp_weaken [OF wp_portPvid_set [OF R D A p assms(5,6)]]) (rule post)
qed

lemma vs_get:
  assumes "vs_rel h n v c" and "swt_rel view A s c" and "cfg_regs \<subseteq> A"
  shows "vid \<le> 0xFFF \<Longrightarrow> fst (rtk_vlan_get vid (Some cfg0) s) = Ok (vs_cfg v vid)"
    and "valid_port h p \<Longrightarrow> fst (rtk_vlan_portPvid_get p PTR PTR s) = Ok (vs_pvid v p)"
proof -
  have R: "sw_ready c h" using assms(1) by (simp add: vs_rel_def)
  show "fst (rtk_vlan_get vid (Some cfg0) s) = Ok (vs_cfg v vid)" if "vid \<le> 0xFFF"
    using wp_vlan_get [OF R that, of "\<lambda>r _. r = Ok (vs_cfg v vid)"] assms(1,2) that
    by (auto simp: wp_def vs_rel_def)
  show "fst (rtk_vlan_portPvid_get p PTR PTR s) = Ok (vs_pvid v p)" if "valid_port h p"
    using wp_run_pure(1) [OF wp_portPvid_get [OF R assms(3) that] assms(2)] assms(1) that by (simp add: vs_rel_def)
qed

text \<open>After initialisation, 31 entries are free and every port has VLAN 1.\<close>

definition vs_of :: "rtk_switch_halCtrl_t \<Rightarrow> swt \<Rightarrow> vlan_switch" where
  "vs_of h c = \<lparr>vs_cfg = (\<lambda>vid. cfg_of_4k h (hw_4k (ucast vid) c)), vs_pvid = (\<lambda>p. port_pvid h p c)\<rparr>"

lemma init_free: "init_done h c \<Longrightarrow> card (free_entries c) = 31"
proof -
  assume d: "init_done h c"
  have "free_entries c = {j. j \<le> 31} - {0}"
    using d by (auto simp: init_done_def ports_done_def init_tables_def free_entries_def init_entry_def mc_empty_def mc0_def)
  moreover have "{j :: u32. j \<le> 31} = (\<lambda>i. of_nat i) ` {..<32}"
  proof
    show "{j :: u32. j \<le> 31} \<subseteq> (\<lambda>i. of_nat i) ` {..<32}"
    proof
      fix j :: u32 assume "j \<in> {j. j \<le> 31}"
      with le31_nat [of j] show "j \<in> (\<lambda>i. of_nat i) ` {..<32}" by (intro image_eqI [of _ _ "unat j"]) auto
    qed
  qed (auto simp: idx_le)
  moreover have "card ((\<lambda>i. of_nat i :: u32) ` {..<32}) = 32"
    by (subst card_image) (auto simp: inj_on_def idx_eq)
  moreover have "(0 :: u32) \<in> (\<lambda>i. of_nat i) ` {..<32}" by (rule image_eqI [of _ _ 0]) simp_all
  ultimately show ?thesis by (simp add: card_Diff_singleton_if)
qed

lemma init_vs_rel:
  assumes "init_done h c" and "hal_wf h"
  shows "vs_rel h 31 (vs_of h c) c" and "valid_port h p \<Longrightarrow> vs_pvid (vs_of h c) p = (1, 0)"
    and "vs_cfg (vs_of h c) 1 = init_cfg h"
proof -
  have t: "init_tables h c" "db_ok c" "sw_ready c h"
    using assms(1) by (auto simp: init_done_def ports_done_def init_tables_def)
  show pv: "valid_port h p \<Longrightarrow> vs_pvid (vs_of h c) p = (1, 0)" for p
    using phy_of_phy_ports [OF assms(2), of p] assms(1) t(1)
    by (auto simp: init_done_def ports_done_def port_default_def port_pvid_def init_tables_def init_entry_def vs_of_def)
  show "vs_rel h 31 (vs_of h c) c"
    using t init_free [OF assms(1)] pv by (auto simp: vs_rel_def vs_of_def)
  show "vs_cfg (vs_of h c) 1 = init_cfg h"
    using t(1) cfg_of_init_4k [OF assms(2)] by (simp add: vs_of_def init_tables_def)
qed

section \<open>Refinement\<close>

definition vlan_refines :: "('d \<Rightarrow> chip_view) \<Rightarrow> u32 set \<Rightarrow> rtk_switch_halCtrl_t \<Rightarrow> nat \<Rightarrow> vlan_switch \<Rightarrow> 'd gsw \<Rightarrow> bool" where
  "vlan_refines view A h n v s \<longleftrightarrow> table_contract (gsw_bus s) view A \<and> cfg_regs \<subseteq> A \<and>
     v_busy (view (gsw_dev s)) < 10 \<and> vs_rel h n v (swt_of view s)"

lemma port_fields_rel:
  assumes "swt_rel view A s c" and "cfg_regs \<subseteq> A" and "p \<le> 10"
  shows "port_vidx p (swt_of view s) = port_vidx p c" and "port_vpri p (swt_of view s) = port_vpri p c"
  using assms field_layoutD(1) [OF layouts(3) assms(3)] field_layoutD(1) [OF layouts(4) assms(3)]
  by (auto simp: swt_rel_def swt_of_def port_vidx_def port_vpri_def)

lemma vs_rel_swt_of:
  assumes "swt_rel view A s c" and "cfg_regs \<subseteq> A"
  shows "vs_rel h n v (swt_of view s) = vs_rel h n v c"
proof -
  note hw = swt_rel_hw [OF assms]
  have "free_entries (swt_of view s) = free_entries c" using hw(1) by (auto simp: free_entries_def)
  moreover have "port_pvid h p (swt_of view s) = port_pvid h p c" if "valid_port h p" "hal_wf h" for p
    using port_fields_rel [OF assms phy_of_le [OF that(2,1)]] hw(1) [OF port_vidx_le [OF phy_of_le [OF that(2,1)]]]
    by (simp add: port_pvid_def)
  ultimately show ?thesis using hw(2-4) by (auto simp: vs_rel_def sw_ready_def)
qed

lemma vlan_refinesD:
  assumes "vlan_refines view A h n v s"
  shows "swt_rel view A s (swt_of view s)" and "cfg_regs \<subseteq> A" and "vs_rel h n v (swt_of view s)"
  using assms swt_rel_of by (auto simp: vlan_refines_def)

lemma vlan_refinesI:
  "swt_rel view A s c \<Longrightarrow> cfg_regs \<subseteq> A \<Longrightarrow> vs_rel h n v c \<Longrightarrow> vlan_refines view A h n v s"
  using vs_rel_swt_of [of view A s c h n v] by (simp add: vlan_refines_def swt_rel_def)

lemma vlan_refines_run:
  assumes "vlan_refines view A h n v s" and "wp view A m (\<lambda>r c'. r = Ok x \<and> vs_rel h k w c') (swt_of view s)"
  shows "\<exists>s'. m s = (Ok x, s') \<and> vlan_refines view A h k w s'"
proof -
  note up = vlan_refinesD [OF assms(1)]
  from assms(2) up(1) obtain s' c' where "m s = (Ok x, s')" "swt_rel view A s' c'" "vs_rel h k w c'"
    by (rule wpD) auto
  with vlan_refinesI [OF _ up(2)] show ?thesis by blast
qed

lemma vlan_refines_init:
  assumes "table_contract (gsw_bus s) view A" and "cfg_regs \<subseteq> A" and "v_busy (view (gsw_dev s)) < 10" and "ready s h"
  shows "\<exists>s' v. rtk_vlan_init s = (Ok (), s') \<and> vlan_refines view A h 31 v s' \<and>
     vs_cfg v 1 = init_cfg h \<and> (\<forall>p. valid_port h p \<longrightarrow> vs_pvid v p = (1, 0))"
proof -
  have R: "sw_ready (swt_of view s) h" and wf: "hal_wf h"
    using assms(4) by (auto simp: ready_def sw_ready_def swt_of_def)
  from wp_vlan_init [OF R assms(2)] swt_rel_of [OF assms(1,3)] obtain s' c' where
    "rtk_vlan_init s = (Ok (), s')" "swt_rel view A s' c'" "init_done h c'" by (rule wpD) auto
  with init_vs_rel [OF _ wf] vlan_refinesI [OF _ assms(2)] show ?thesis by blast
qed

section \<open>Properties\<close>

text \<open>
  C4. The VLAN API refines the abstract switch.  In a driver state that represents the abstract
  switch \<open>v\<close> with a free entry left, and for an identifier from 1 to 4095: setting a VLAN to a configuration
  that passes the argument checks and has at least one member, and setting the VLAN of a valid port with a
  priority of at most 7, succeed and lead to states that represent the updated abstract switch (a port-based VLAN uses up
  at most one entry); for the same identifier and port the getters return what the abstract switch says.
\<close>

theorem vlan_switch_refinement:
  assumes "vlan_refines view A h (Suc n) v s" and "vid \<noteq> 0" and "vid \<le> 0xFFF"
    and "cfg_ok h cfg" and "cfg_mbr cfg \<noteq> 0" and "valid_port h p" and "pri \<le> 7"
  shows "(\<exists>s'. rtk_vlan_set vid (Some cfg) s = (Ok (), s') \<and> vlan_refines view A h (Suc n) (vs_set vid cfg v) s') \<and>
     (\<exists>s'. rtk_vlan_portPvid_set p vid pri s = (Ok (), s') \<and> vlan_refines view A h n (vs_set_pvid p vid pri v) s') \<and>
     fst (rtk_vlan_get vid (Some cfg0) s) = Ok (vs_cfg v vid) \<and>
     fst (rtk_vlan_portPvid_get p PTR PTR s) = Ok (vs_pvid v p)"
proof -
  note up = vlan_refinesD [OF assms(1)]
  have "vid \<le> 0x1FFF" using assms(3) by (simp add: word_le_nat_alt)
  with vlan_refines_run [OF assms(1) wp_vs_set [OF up(3,2) assms(2-5)]]
    vlan_refines_run [OF assms(1) wp_vs_set_pvid [OF up(3,2) assms(6,2) _ assms(7)]]
    vs_get [OF up(3,1,2)] assms(3,6)
  show ?thesis by blast
qed

theorem vlan_switch_refinement_witness:
  "\<exists>s s'. rtk_vlan_init (sim_gsw 1 (Some rtl8367c_hal_Ctrl)) = (Ok (), s) \<and>
     rtk_vlan_portPvid_set 3 7 2 s = (Ok (), s')"
proof -
  let ?s = "sim_gsw 1 (Some rtl8367c_hal_Ctrl)"
  have r: "ready ?s rtl8367c_hal_Ctrl" by (simp add: ready_def)
  have port: "valid_port rtl8367c_hal_Ctrl 3" and cfg: "cfg_ok rtl8367c_hal_Ctrl sample_cfg" "cfg_mbr sample_cfg \<noteq> 0"
    by code_simp+
  obtain s' v where s': "rtk_vlan_init ?s = (Ok (), s')" "vlan_refines sim_view sim_addrs rtl8367c_hal_Ctrl (Suc 30) v s'"
    using vlan_refines_init [OF _ _ _ r, of sim_view sim_addrs] sim_table_contract sim_cfg_regs by auto
  from vlan_switch_refinement [OF s'(2) _ _ cfg port, of 7 2 sample_cfg0] s'(1) show ?thesis by auto
qed

end
