(* ===== verification/Board.thy ===== *)
theory Board
  imports Vlan_Model
begin

text \<open>
  The board configuration of \<open>rtl8367s_mdio.c\<close>: \<open>rtl8367s_vlan_config\<close> divides the ports into a LAN
  (VLAN 1) and a WAN (VLAN 2), the WAN port being UTP port 0 or UTP port 4 according to the device
  tree.  The function looks at none of the return codes of the VLAN API.
\<close>

section \<open>Port masks\<close>

definition RTK_PORTMASK_IS_PORT_SET :: "rtk_portmask_t \<Rightarrow> u32 \<Rightarrow> bool" where
  "RTK_PORTMASK_IS_PORT_SET m port \<longleftrightarrow> m AND push_bit (unat port) 1 \<noteq> 0"

definition RTK_PORTMASK_PORT_SET :: "rtk_portmask_t \<Rightarrow> u32 \<Rightarrow> rtk_portmask_t" where
  "RTK_PORTMASK_PORT_SET m port = m OR push_bit (unat port) 1"

definition RTK_PORTMASK_PORT_CLEAR :: "rtk_portmask_t \<Rightarrow> u32 \<Rightarrow> rtk_portmask_t" where
  "RTK_PORTMASK_PORT_CLEAR m port = m AND NOT (push_bit (unat port) 1)"

definition cfg_zero :: rtk_vlan_cfg_t where
  "cfg_zero = \<lparr>cfg_mbr = 0, cfg_untag = 0, cfg_ivl_en = 0, cfg_fid_msti = 0, cfg_envlanpol = 0,
     cfg_meteridx = 0, cfg_vbpen = 0, cfg_vbpri = 0\<rparr>"

text \<open>A call whose return code is not looked at.\<close>

definition ignoreE :: "('s, 'a) drv \<Rightarrow> ('s, unit) drv" where
  "ignoreE m s = (case m s of (r, s') \<Rightarrow> (case r of Fault \<Rightarrow> (Fault, s') | _ \<Rightarrow> (Ok (), s')))"

lemma wp_ignoreE:
  assumes "wp view A m (\<lambda>r c'. case r of Fault \<Rightarrow> Q Fault c' | _ \<Rightarrow> Q (Ok ()) c') c"
  shows "wp view A (ignoreE m) Q c"
  using assms by (fastforce simp: wp_def ignoreE_def split: prod.splits outcome.splits)

lemma safe_ignoreE: "safe P m Q \<Longrightarrow> safe P (ignoreE m) (\<lambda>_. True)"
  by (rule safeI) (auto simp: ignoreE_def dest: safeD split: prod.splits outcome.splits)

section \<open>The VLAN configuration of the board\<close>

definition vlan1 :: "bool \<Rightarrow> rtk_vlan_cfg_t" where
  "vlan1 want_at_p0 =
     (let ports = [EXT_PORT0, UTP_PORT1, UTP_PORT2, UTP_PORT3] @ (if want_at_p0 then [UTP_PORT4] else [UTP_PORT0]);
          pm = fold (\<lambda>p m. RTK_PORTMASK_PORT_SET m p) ports 0
      in cfg_zero\<lparr>cfg_mbr := pm, cfg_untag := pm, cfg_ivl_en := 1\<rparr>)"

definition vlan2 :: "bool \<Rightarrow> rtk_vlan_cfg_t" where
  "vlan2 want_at_p0 =
     (let ports = [EXT_PORT1] @ (if want_at_p0 then [UTP_PORT0] else [UTP_PORT4]);
          pm = fold (\<lambda>p m. RTK_PORTMASK_PORT_SET m p) ports 0
      in cfg_zero\<lparr>cfg_mbr := pm, cfg_untag := pm, cfg_ivl_en := 1\<rparr>)"

definition rtl8367s_vlan_config :: "bool \<Rightarrow> ('d gsw, unit) drv" where
  "rtl8367s_vlan_config want_at_p0 =
     thenE (ignoreE (rtk_vlan_set 1 (Some (vlan1 want_at_p0))))
     (thenE (ignoreE (rtk_vlan_set 2 (Some (vlan2 want_at_p0))))
     (thenE (ignoreE (rtk_vlan_portPvid_set EXT_PORT0 1 0))
     (thenE (ignoreE (rtk_vlan_portPvid_set UTP_PORT1 1 0))
     (thenE (ignoreE (rtk_vlan_portPvid_set UTP_PORT2 1 0))
     (thenE (ignoreE (rtk_vlan_portPvid_set UTP_PORT3 1 0))
     (thenE (ignoreE (rtk_vlan_portPvid_set EXT_PORT1 2 0))
     (if want_at_p0
      then thenE (ignoreE (rtk_vlan_portPvid_set UTP_PORT0 2 0))
             (ignoreE (rtk_vlan_portPvid_set UTP_PORT4 1 0))
      else thenE (ignoreE (rtk_vlan_portPvid_set UTP_PORT0 1 0))
             (ignoreE (rtk_vlan_portPvid_set UTP_PORT4 2 0)))))))))"

section \<open>Correctness\<close>

text \<open>The VLAN a port of the board belongs to.\<close>

definition board_vid :: "bool \<Rightarrow> rtk_port_t \<Rightarrow> u32" where
  "board_vid want_at_p0 p =
     (if p = EXT_PORT1 \<or> p = (if want_at_p0 then UTP_PORT0 else UTP_PORT4) then 2 else 1)"

lemma wp_ignored_set:
  assumes "vs_rel h n v c" and "cfg_regs \<subseteq> A" and "vid \<noteq> 0" and "vid \<le> 0xFFF" and "cfg_ok h cfg" and "cfg_mbr cfg \<noteq> 0"
    and "\<And>c'. vs_rel h n (vs_set vid cfg v) c' \<Longrightarrow> wp view A k Q c'"
  shows "wp view A (thenE (ignoreE (rtk_vlan_set vid (Some cfg))) k) Q c"
  by (intro wp_thenE wp_ignoreE, rule wp_weaken [OF wp_vs_set [OF assms(1-6)]]) (auto simp: assms(7))

lemma wp_ignored_pvid:
  assumes "vs_rel h (Suc n) v c" and "cfg_regs \<subseteq> A" and "valid_port h p" and "vid \<noteq> 0" and "vid \<le> 0x1FFF" and "pri \<le> 7"
  shows "wp view A (ignoreE (rtk_vlan_portPvid_set p vid pri)) (\<lambda>r c'. r = Ok () \<and> vs_rel h n (vs_set_pvid p vid pri v) c') c"
  by (rule wp_ignoreE, rule wp_weaken [OF wp_vs_set_pvid [OF assms]]) auto

text \<open>A sequence of such calls for several ports.\<close>

definition set_pvids :: "(rtk_port_t \<times> u32) list \<Rightarrow> ('d gsw, unit) drv" where
  "set_pvids xs = forE xs (\<lambda>(p, vid). ignoreE (rtk_vlan_portPvid_set p vid 0))"

lemma wp_set_pvids:
  assumes "vs_rel h (n + length xs) v c" and "cfg_regs \<subseteq> A"
    and "\<forall>(p, vid) \<in> set xs. valid_port h p \<and> vid \<noteq> 0 \<and> vid \<le> 0x1FFF"
  shows "wp view A (set_pvids xs)
    (\<lambda>r c'. r = Ok () \<and> vs_rel h n (fold (\<lambda>(p, vid). vs_set_pvid p vid 0) xs v) c') c"
  using assms(1,3)
proof (induction xs arbitrary: v c)
  case (Cons x xs)
  obtain p vid where x: "x = (p, vid)" by (cases x)
  have "wp view A (ignoreE (rtk_vlan_portPvid_set p vid 0))
      (\<lambda>r c'. r = Ok () \<and> vs_rel h (n + length xs) (vs_set_pvid p vid 0 v) c') c"
    by (rule wp_ignored_pvid [OF _ assms(2)]) (use Cons.prems x in auto)
  moreover have "wp view A (forE xs (\<lambda>(p, vid). ignoreE (rtk_vlan_portPvid_set p vid 0)))
      (\<lambda>r c'. r = Ok () \<and> vs_rel h n (fold (\<lambda>(p, vid). vs_set_pvid p vid 0) (x # xs) v) c') c'"
    if "vs_rel h (n + length xs) (vs_set_pvid p vid 0 v) c'" for c'
    using Cons.IH [OF that] Cons.prems by (simp add: set_pvids_def x)
  ultimately show ?case by (auto simp: set_pvids_def x intro!: wp_thenE elim!: wp_weaken)
qed (simp add: set_pvids_def wp_okE)

lemma thenE_ok_unit [simp]: "thenE m (okE ()) = m"
  by (rule ext) (auto simp: drv_simps split: prod.splits outcome.splits)

lemma vlan_config_code:
  "rtl8367s_vlan_config w =
     thenE (ignoreE (rtk_vlan_set 1 (Some (vlan1 w)))) (thenE (ignoreE (rtk_vlan_set 2 (Some (vlan2 w))))
       (set_pvids (map (\<lambda>p. (p, board_vid w p)) [EXT_PORT0, UTP_PORT1, UTP_PORT2, UTP_PORT3, EXT_PORT1, UTP_PORT0, UTP_PORT4])))"
  by (simp add: rtl8367s_vlan_config_def set_pvids_def board_vid_def)

lemma board_ports: "list_all (valid_port rtl8367c_hal_Ctrl) [0, 1, 2, 3, 4, 16, 17]"
  by code_simp

lemma board_only_ports: "valid_port rtl8367c_hal_Ctrl p \<Longrightarrow> p \<in> {0, 1, 2, 3, 4, 16, 17}"
proof -
  assume p: "valid_port rtl8367c_hal_Ctrl p"
  have "list_all (\<lambda>i. valid_port rtl8367c_hal_Ctrl (of_nat i) \<longrightarrow> (of_nat i :: u32) \<in> {0, 1, 2, 3, 4, 16, 17}) [0..<32]"
    by code_simp
  then have "valid_port rtl8367c_hal_Ctrl (of_nat (unat p)) \<longrightarrow> (of_nat (unat p) :: u32) \<in> {0, 1, 2, 3, 4, 16, 17}"
    using valid_port_less [OF p] unfolding list_all_iff by (metis atLeastLessThan_upt atLeastLessThan_iff zero_le)
  with p show ?thesis by simp
qed

lemma board_cfgs:
  "cfg_ok rtl8367c_hal_Ctrl (vlan1 w)" "cfg_mbr (vlan1 w) \<noteq> 0"
  "cfg_ok rtl8367c_hal_Ctrl (vlan2 w)" "cfg_mbr (vlan2 w) \<noteq> 0"
proof -
  have "list_all (\<lambda>w. cfg_ok rtl8367c_hal_Ctrl (vlan1 w) \<and> cfg_mbr (vlan1 w) \<noteq> 0 \<and>
      cfg_ok rtl8367c_hal_Ctrl (vlan2 w) \<and> cfg_mbr (vlan2 w) \<noteq> 0) [True, False]" by code_simp
  then show "cfg_ok rtl8367c_hal_Ctrl (vlan1 w)" "cfg_mbr (vlan1 w) \<noteq> 0"
    "cfg_ok rtl8367c_hal_Ctrl (vlan2 w)" "cfg_mbr (vlan2 w) \<noteq> 0" by (cases w; simp)+
qed

lemma board_bits:
  assumes "valid_port rtl8367c_hal_Ctrl p"
  shows "bit (cfg_untag (vlan1 w)) (unat p) = (board_vid w p = 1)"
    and "bit (cfg_untag (vlan2 w)) (unat p) = (board_vid w p = 2)"
proof -
  have "list_all (\<lambda>w. list_all (\<lambda>p. bit (cfg_untag (vlan1 w)) (unat p) = (board_vid w p = 1) \<and>
      bit (cfg_untag (vlan2 w)) (unat p) = (board_vid w p = 2)) [0, 1, 2, 3, 4, 16, 17]) [True, False]" by code_simp
  moreover have "w \<in> set [True, False]" "p \<in> set [0, 1, 2, 3, 4, 16, 17]" using board_only_ports [OF assms] by auto
  ultimately show "bit (cfg_untag (vlan1 w)) (unat p) = (board_vid w p = 1)"
    "bit (cfg_untag (vlan2 w)) (unat p) = (board_vid w p = 2)" unfolding list_all_iff by blast+
qed

text \<open>The abstract effect of the configuration.\<close>

definition board_switch :: "bool \<Rightarrow> vlan_switch \<Rightarrow> vlan_switch" where
  "board_switch w v = v\<lparr>vs_cfg := (vs_cfg v)(1 := vlan1 w, 2 := vlan2 w),
     vs_pvid := (\<lambda>p. if p \<in> {0, 1, 2, 3, 4, 16, 17} then (board_vid w p, 0) else vs_pvid v p)\<rparr>"

lemma wp_vlan_config:
  assumes "vs_rel rtl8367c_hal_Ctrl (n + 7) v c" and A: "cfg_regs \<subseteq> A"
  shows "wp view A (rtl8367s_vlan_config w)
    (\<lambda>r c'. r = Ok () \<and> vs_rel rtl8367c_hal_Ctrl n (board_switch w v) c') c"
proof -
  let ?xs = "map (\<lambda>p. (p, board_vid w p)) [EXT_PORT0, UTP_PORT1, UTP_PORT2, UTP_PORT3, EXT_PORT1, UTP_PORT0, UTP_PORT4]"
  have xs: "\<forall>(p, vid) \<in> set ?xs. valid_port rtl8367c_hal_Ctrl p \<and> vid \<noteq> 0 \<and> vid \<le> 0x1FFF"
    using board_ports by (auto simp: board_vid_def)
  have final: "fold (\<lambda>(p, vid). vs_set_pvid p vid 0) ?xs (vs_set 2 (vlan2 w) (vs_set 1 (vlan1 w) v)) = board_switch w v"
    by (auto simp: vs_set_pvid_def vs_set_def board_switch_def fun_eq_iff)
  have "wp view A (set_pvids ?xs) (\<lambda>r c'. r = Ok () \<and> vs_rel rtl8367c_hal_Ctrl n (board_switch w v) c') c'"
    if "vs_rel rtl8367c_hal_Ctrl (n + 7) (vs_set 2 (vlan2 w) (vs_set 1 (vlan1 w) v)) c'" for c'
  proof -
    have "n + length ?xs = n + 7" by simp
    with that have "vs_rel rtl8367c_hal_Ctrl (n + length ?xs) (vs_set 2 (vlan2 w) (vs_set 1 (vlan1 w) v)) c'"
      by (simp only:)
    from wp_set_pvids [OF this A xs] show ?thesis unfolding final .
  qed
  then show ?thesis
    unfolding vlan_config_code
    by (intro wp_ignored_set [OF assms(1) A _ _ board_cfgs(1,2)] wp_ignored_set [OF _ A _ _ board_cfgs(3,4)]) simp_all
qed

text \<open>The result: the two VLANs as the board wants them, and every port untagged in exactly its VLAN.\<close>

definition board_partition :: "('d \<Rightarrow> chip_view) \<Rightarrow> u32 set \<Rightarrow> bool \<Rightarrow> 'd gsw \<Rightarrow> bool" where
  "board_partition view A w s \<longleftrightarrow> driver_up view A rtl8367c_hal_Ctrl s \<and>
     (\<forall>cfg0. fst (rtk_vlan_get 1 (Some cfg0) s) = Ok (vlan1 w) \<and> fst (rtk_vlan_get 2 (Some cfg0) s) = Ok (vlan2 w)) \<and>
     (\<forall>p. valid_port rtl8367c_hal_Ctrl p \<longrightarrow>
        fst (rtk_vlan_portPvid_get p PTR PTR s) = Ok (board_vid w p, 0) \<and>
        bit (cfg_untag (vlan1 w)) (unat p) = (board_vid w p = 1) \<and>
        bit (cfg_untag (vlan2 w)) (unat p) = (board_vid w p = 2))"

lemma board_config_run:
  assumes "vlan_refines view A rtl8367c_hal_Ctrl 31 v s1"
  shows "\<exists>s2. rtl8367s_vlan_config w s1 = (Ok (), s2) \<and> board_partition view A w s2"
proof -
  note up = vlan_refinesD [OF assms]
  have A: "cfg_regs \<subseteq> A" using assms by (simp add: vlan_refines_def)
  have "vs_rel rtl8367c_hal_Ctrl (24 + 7) v (swt_of view s1)" using up(3) by simp
  from wp_vlan_config [OF this A, of view w] up(1) obtain s2 c2 where
    s2: "rtl8367s_vlan_config w s1 = (Ok (), s2)" "swt_rel view A s2 c2"
      "vs_rel rtl8367c_hal_Ctrl 24 (board_switch w v) c2" by (rule wpD) auto
  note get = vs_get [OF s2(3,2) A]
  have "driver_up view A rtl8367c_hal_Ctrl s2"
    using driver_upI [OF s2(2) A] s2(3) by (simp add: vs_rel_def)
  moreover have "fst (rtk_vlan_portPvid_get p PTR PTR s2) = Ok (board_vid w p, 0)" if "valid_port rtl8367c_hal_Ctrl p" for p
    using get(2) [OF that] board_only_ports [OF that] by (simp add: board_switch_def)
  moreover have "fst (rtk_vlan_get 1 (Some cfg0) s2) = Ok (vlan1 w)" "fst (rtk_vlan_get 2 (Some cfg0) s2) = Ok (vlan2 w)" for cfg0
    using get(1) [of 1 cfg0] get(1) [of 2 cfg0] by (simp_all add: board_switch_def)
  ultimately show ?thesis using s2(1) board_bits by (auto simp: board_partition_def)
qed

section \<open>Properties\<close>

text \<open>
  C7. Bringing up the VLANs of the board: on a chip of the RTL8367C family that keeps its contract,
  \<open>rtk_vlan_init\<close> followed by \<open>rtl8367s_vlan_config\<close> ends with VLAN 1 and VLAN 2 exactly as the board
  wants them, and every port of the chip is an untagged member of the VLAN that is its port-based
  VLAN and of no other of the two, although the configuration ignores all return codes.
\<close>

theorem board_vlan_bringup:
  assumes "table_contract (gsw_bus s) view A" and "cfg_regs \<subseteq> A" and "v_busy (view (gsw_dev s)) < 10"
    and "ready s rtl8367c_hal_Ctrl"
  shows "\<exists>s'. thenE rtk_vlan_init (rtl8367s_vlan_config w) s = (Ok (), s') \<and> board_partition view A w s'"
proof -
  obtain s1 v where s1: "rtk_vlan_init s = (Ok (), s1)" "vlan_refines view A rtl8367c_hal_Ctrl 31 v s1"
    using vlan_refines_init [OF assms] by auto
  with board_config_run [OF s1(2), of w] show ?thesis by (auto simp: thenE_def bindE_def)
qed

theorem board_vlan_bringup_witness:
  "\<exists>s'. thenE rtk_vlan_init (rtl8367s_vlan_config True) (sim_gsw 1 (Some rtl8367c_hal_Ctrl)) = (Ok (), s') \<and>
     fst (rtk_vlan_portPvid_get 0 PTR PTR s') = Ok (2, 0) \<and> fst (rtk_vlan_portPvid_get 4 PTR PTR s') = Ok (1, 0)"
proof -
  have r: "ready (sim_gsw 1 (Some rtl8367c_hal_Ctrl)) rtl8367c_hal_Ctrl" by (simp add: ready_def)
  have ports: "valid_port rtl8367c_hal_Ctrl 0" "valid_port rtl8367c_hal_Ctrl 4" using board_ports by simp_all
  show ?thesis
    using board_vlan_bringup [OF _ _ _ r, of sim_view sim_addrs True] sim_table_contract sim_cfg_regs ports
    by (auto simp: board_vid_def board_partition_def)
qed

end
