(* ===== verification/Swconfig.thy ===== *)
theory Swconfig
  imports Board
begin

text \<open>
  The swconfig interface of \<open>rtl8367s.c\<close>: the operations by which user space configures VLANs and
  port-based VLANs.  Switch ports 0 to 6 are translated to logical ports by \<open>rtl8367c_port_id\<close>.  The
  functions return an integer, zero for success, a negative \<^verbatim>\<open>errno\<close> or the code of the switch API, so
  here a call returns its code as a value, together with what it stores through its pointers.
  \<^verbatim>\<open>struct switch_val\<close> and \<^verbatim>\<open>struct switch_port\<close> belong to the swconfig framework; of them the
  model has the VLAN number and the array of ports.
\<close>

abbreviation (input) EINVAL :: int where "EINVAL \<equiv> 22"
abbreviation (input) RTL8367C_NUM_PORTS :: nat where "RTL8367C_NUM_PORTS \<equiv> 7"
abbreviation (input) RTL8367C_NUM_VIDS :: u32 where "RTL8367C_NUM_VIDS \<equiv> 4096"
abbreviation (input) SWITCH_PORT_FLAG_TAGGED :: nat where "SWITCH_PORT_FLAG_TAGGED \<equiv> 0"

record switch_port =
  sp_id :: u32
  sp_flags :: u32

record rtl8367_vlan_info =
  vi_vid :: u16
  vi_untag :: u32
  vi_member :: u32
  vi_fid :: "8 word"

text \<open>A call of the API whose code is returned as an integer; \<open>d\<close> is what the result pointers
  point to when the call fails.\<close>

definition codeE :: "'a \<Rightarrow> ('s, 'a) drv \<Rightarrow> ('s, int \<times> 'a) drv" where
  "codeE d m s = (case m s of (r, s') \<Rightarrow>
     (case r of Ok x \<Rightarrow> (Ok (0, x), s') | Err e \<Rightarrow> (Ok (rt_code e, d), s') | Fault \<Rightarrow> (Fault, s')))"

section \<open>Ports\<close>

definition rtl8367c_port_id :: "u32 list" where
  "rtl8367c_port_id = [0, 1, 2, 3, 4, EXT_PORT1, EXT_PORT0]"

definition rtl8367c_sw_to_phy_port :: "int \<Rightarrow> ('d gsw, u32) drv" where
  "rtl8367c_sw_to_phy_port port =
     (if 0 \<le> port \<and> port < int RTL8367C_NUM_PORTS then okE (rtl8367c_port_id ! nat port) else faultE)"

definition rtl8367c_portmask_phy_to_sw :: "rtk_portmask_t \<Rightarrow> u32" where
  "rtl8367c_portmask_phy_to_sw pmask =
     fold (\<lambda>i m. if RTK_PORTMASK_IS_PORT_SET m (rtl8367c_port_id ! i)
                 then RTK_PORTMASK_PORT_SET (RTK_PORTMASK_PORT_CLEAR m (rtl8367c_port_id ! i)) (of_nat i)
                 else m) [0..<RTL8367C_NUM_PORTS] pmask"

section \<open>VLANs\<close>

definition rtl8367c_is_vlan_valid :: "u32 \<Rightarrow> bool" where
  "rtl8367c_is_vlan_valid vlan \<longleftrightarrow> \<not> (vlan = 0 \<or> vlan \<ge> RTL8367C_NUM_VIDS)"

definition vlan_info_zero :: rtl8367_vlan_info where
  "vlan_info_zero = \<lparr>vi_vid = 0, vi_untag = 0, vi_member = 0, vi_fid = 0\<rparr>"

definition rtl8367c_get_vlan :: "u16 \<Rightarrow> ('d gsw, int \<times> rtl8367_vlan_info) drv" where
  "rtl8367c_get_vlan vid =
     (if vid \<ge> 4096 then okE (- EINVAL, vlan_info_zero)
      else bindE (codeE cfg_zero (rtk_vlan_get (ucast vid) (Some cfg_zero))) (\<lambda>(err, vlan_cfg).
        if err \<noteq> 0 then okE (- EINVAL, vlan_info_zero)
        else okE (0, \<lparr>vi_vid = vid, vi_untag = rtl8367c_portmask_phy_to_sw (cfg_untag vlan_cfg),
                      vi_member = rtl8367c_portmask_phy_to_sw (cfg_mbr vlan_cfg),
                      vi_fid = ucast (cfg_fid_msti vlan_cfg)\<rparr>)))"

text \<open>The loop of \<open>rtl8367c_set_vlan\<close> over the switch ports.\<close>

definition set_vlan_masks :: "u32 \<Rightarrow> u32 \<Rightarrow> rtk_portmask_t \<times> rtk_portmask_t" where
  "set_vlan_masks mbr untag =
     fold (\<lambda>i (pm, pu). if bit mbr i
             then (RTK_PORTMASK_PORT_SET pm (rtl8367c_port_id ! i),
                   if bit untag i then RTK_PORTMASK_PORT_SET pu (rtl8367c_port_id ! i) else pu)
             else (pm, pu)) [0..<RTL8367C_NUM_PORTS] (0, 0)"

definition rtl8367c_set_vlan :: "u16 \<Rightarrow> u32 \<Rightarrow> u32 \<Rightarrow> 8 word \<Rightarrow> ('d gsw, int) drv" where
  "rtl8367c_set_vlan vid mbr untag fid =
     (case set_vlan_masks mbr untag of (pm, pu) \<Rightarrow>
        bindE (codeE () (rtk_vlan_set (ucast vid) (Some (cfg_zero\<lparr>cfg_mbr := pm, cfg_untag := pu,
                 cfg_fid_msti := ucast fid, cfg_ivl_en := 1\<rparr>)))) (\<lambda>(err, _). okE err))"

definition rtl8367c_get_pvid :: "int \<Rightarrow> u32 \<Rightarrow> ('d gsw, int \<times> u32) drv" where
  "rtl8367c_get_pvid port pvid =
     (if port \<ge> int RTL8367C_NUM_PORTS then okE (- EINVAL, pvid)
      else bindE (rtl8367c_sw_to_phy_port port) (\<lambda>p.
        bindE (codeE (pvid, 0) (rtk_vlan_portPvid_get p PTR PTR)) (\<lambda>(err, pvid', _). okE (err, pvid'))))"

definition rtl8367c_set_pvid :: "int \<Rightarrow> u32 \<Rightarrow> ('d gsw, int) drv" where
  "rtl8367c_set_pvid port pvid =
     (if port \<ge> int RTL8367C_NUM_PORTS then okE (- EINVAL)
      else bindE (rtl8367c_sw_to_phy_port port) (\<lambda>p.
        bindE (codeE () (rtk_vlan_portPvid_set p pvid 0)) (\<lambda>(err, _). okE err)))"

section \<open>The operations of \<^verbatim>\<open>rtl8367_sw_ops\<close>\<close>

definition rtl8367_sw_get_vlan_ports :: "u32 \<Rightarrow> ('d gsw, int \<times> switch_port list) drv" where
  "rtl8367_sw_get_vlan_ports port_vlan =
     (if \<not> rtl8367c_is_vlan_valid port_vlan then okE (- EINVAL, [])
      else bindE (rtl8367c_get_vlan (ucast port_vlan)) (\<lambda>(err, vlan).
        if err \<noteq> 0 then okE (- EINVAL, [])
        else okE (0, map (\<lambda>i. \<lparr>sp_id = of_nat i, sp_flags = (if bit (vi_untag vlan) i then 0 else 1)\<rparr>)
                       (filter (bit (vi_member vlan)) [0..<RTL8367C_NUM_PORTS]))))"

text \<open>
  The loop of \<open>rtl8367_sw_set_vlan_ports\<close>; \<open>Inl\<close> is an early return.  \<^verbatim>\<open>BIT\<close> shifts an
  \<^verbatim>\<open>unsigned long\<close> of 64 bits.  Only negative codes end the loop.
\<close>

primrec set_vlan_ports_loop :: "u32 \<Rightarrow> switch_port list \<Rightarrow> u32 \<Rightarrow> u32 \<Rightarrow> ('d gsw, int + u32 \<times> u32) drv" where
  "set_vlan_ports_loop port_vlan [] member untag = okE (Inr (member, untag))"
| "set_vlan_ports_loop port_vlan (port # rest) member untag =
     (if unat (sp_id port) \<ge> 64 then faultE
      else (let b = push_bit (unat (sp_id port)) 1;
                member' = member OR b;
                untag' = (if bit (sp_flags port) SWITCH_PORT_FLAG_TAGGED then untag else untag OR b)
        in bindE (rtl8367c_get_pvid (sint (sp_id port)) 0) (\<lambda>(err, pvid).
             if err < 0 then okE (Inl err)
             else if pvid = 0
             then bindE (rtl8367c_set_pvid (sint (sp_id port)) port_vlan) (\<lambda>err.
                    if err < 0 then okE (Inl err)
                    else set_vlan_ports_loop port_vlan rest member' untag')
             else set_vlan_ports_loop port_vlan rest member' untag')))"

definition rtl8367_sw_set_vlan_ports :: "u32 \<Rightarrow> switch_port list \<Rightarrow> ('d gsw, int) drv" where
  "rtl8367_sw_set_vlan_ports port_vlan ports =
     (if \<not> rtl8367c_is_vlan_valid port_vlan then okE (- EINVAL)
      else bindE (set_vlan_ports_loop port_vlan ports 0 0) (\<lambda>r.
        case r of Inl err \<Rightarrow> okE err
        | Inr (member, untag) \<Rightarrow> rtl8367c_set_vlan (ucast port_vlan) member untag 0))"

definition rtl8367_sw_get_port_pvid :: "int \<Rightarrow> u32 \<Rightarrow> ('d gsw, int \<times> u32) drv" where
  "rtl8367_sw_get_port_pvid port val = rtl8367c_get_pvid port val"

definition rtl8367_sw_set_port_pvid :: "int \<Rightarrow> u32 \<Rightarrow> ('d gsw, int) drv" where
  "rtl8367_sw_set_port_pvid port val = rtl8367c_set_pvid port val"

section \<open>Formatting into a buffer\<close>

text \<open>
  \<^verbatim>\<open>len += snprintf(buf + len, size - len, ...)\<close>: at most \<^verbatim>\<open>size - len - 1\<close> characters are
  stored, the length grows by that of the whole text.  Once \<^verbatim>\<open>len\<close> exceeds \<^verbatim>\<open>size\<close> the
  difference wraps around, which counts as a fault.
\<close>

definition snprintf_at :: "nat \<Rightarrow> string \<Rightarrow> string \<times> nat \<Rightarrow> ('s, string \<times> nat) drv" where
  "snprintf_at sz txt b = (case b of (buf, len) \<Rightarrow>
     if len > sz then faultE else okE (buf @ take (sz - len - 1) txt, len + length txt))"

text \<open>The conversions \<^verbatim>\<open>%d\<close> (of a non-negative number), \<^verbatim>\<open>%u\<close> and \<^verbatim>\<open>%x\<close>, and padding as in
  \<^verbatim>\<open>%04x\<close>.\<close>

definition digit_char :: "nat \<Rightarrow> char" where
  "digit_char d = (if d < 10 then char_of (48 + d) else char_of (87 + d))"

fun print_base :: "nat \<Rightarrow> nat \<Rightarrow> string" where
  "print_base b n = (if b < 2 \<or> n < b then [digit_char n] else print_base b (n div b) @ [digit_char (n mod b)])"

declare print_base.simps [simp del]

definition pad0 :: "nat \<Rightarrow> string \<Rightarrow> string" where
  "pad0 w str = replicate (w - length str) CHR ''0'' @ str"

definition info_port :: "rtl8367_vlan_info \<Rightarrow> nat \<Rightarrow> string \<times> nat \<Rightarrow> ('s, string \<times> nat) drv" where
  "info_port vlan i b = (if \<not> bit (vi_member vlan) i then okE b
     else snprintf_at 256 (print_base 10 i @ (if bit (vi_untag vlan) i then [] else ''t'')) b)"

definition rtl8367_sw_get_vlan_info :: "u32 \<Rightarrow> ('d gsw, int \<times> (string \<times> nat)) drv" where
  "rtl8367_sw_get_vlan_info port_vlan =
     (if \<not> rtl8367c_is_vlan_valid port_vlan then okE (- EINVAL, ([], 0))
      else bindE (rtl8367c_get_vlan (ucast port_vlan)) (\<lambda>(err, vlan).
        if err \<noteq> 0 then okE (err, ([], 0))
        else bindE (snprintf_at 256 (''VLAN '' @ print_base 10 (unat (vi_vid vlan)) @ '': Ports: '' @ [CHR 0x27]) ([], 0)) (\<lambda>b.
          bindE (foldE (info_port vlan) [0..<RTL8367C_NUM_PORTS] b) (\<lambda>b.
          bindE (snprintf_at 256 ([CHR 0x27] @ '', members='' @ pad0 4 (print_base 16 (unat (vi_member vlan))) @
                   '', untag='' @ pad0 4 (print_base 16 (unat (vi_untag vlan))) @
                   '', fid='' @ print_base 10 (unat (vi_fid vlan))) b) (\<lambda>b.
          okE (0, b))))))"

section \<open>Translation of port masks\<close>

definition sw_to_log :: "u32 \<Rightarrow> u32" where
  "sw_to_log m = fold (\<lambda>i acc. if bit m i then acc OR push_bit (unat (rtl8367c_port_id ! i)) 1 else acc) [0..<7] 0"

lemma upt_7: "[0..<7] = [0, 1, 2, 3, 4, 5, 6 :: nat]"
  by (simp add: upt_rec)

lemma set_vlan_masks_eq: "set_vlan_masks m u = (sw_to_log m, sw_to_log (m AND u))"
proof -
  have "fold (\<lambda>i (pm, pu). if bit m i
             then (RTK_PORTMASK_PORT_SET pm (rtl8367c_port_id ! i),
                   if bit u i then RTK_PORTMASK_PORT_SET pu (rtl8367c_port_id ! i) else pu)
             else (pm, pu)) is (a, b) =
    (fold (\<lambda>i acc. if bit m i then acc OR push_bit (unat (rtl8367c_port_id ! i)) 1 else acc) is a,
     fold (\<lambda>i acc. if bit (m AND u) i then acc OR push_bit (unat (rtl8367c_port_id ! i)) 1 else acc) is b)" for "is" a b
    by (induction "is" arbitrary: a b) (auto simp: RTK_PORTMASK_PORT_SET_def bit_and_iff)
  then show ?thesis by (simp only: set_vlan_masks_def sw_to_log_def)
qed

lemma bit_sw_to_log:
  "bit (sw_to_log m) k \<longleftrightarrow> k < 5 \<and> bit m k \<or> k = 17 \<and> bit m 5 \<or> k = 16 \<and> bit m 6"
proof -
  have "k < 5 \<longleftrightarrow> k = 0 \<or> k = 1 \<or> k = 2 \<or> k = 3 \<or> k = 4" by auto
  then show ?thesis
    unfolding sw_to_log_def bit_fold_or upt_7 by (auto simp: rtl8367c_port_id_def)
qed

text \<open>One iteration of the translation back: the bit of a logical port moves to its switch port.\<close>

definition move_bit :: "u32 \<Rightarrow> nat \<Rightarrow> u32 \<Rightarrow> u32" where
  "move_bit a i m = (if RTK_PORTMASK_IS_PORT_SET m a
     then RTK_PORTMASK_PORT_SET (RTK_PORTMASK_PORT_CLEAR m a) (of_nat i) else m)"

lemma bit_move_bit:
  assumes "unat a < 32" and "i < 32"
  shows "bit (move_bit a i m) k \<longleftrightarrow>
    (if k = i then bit m (unat a) \<or> bit m i else if k = unat a then False else bit m k)"
proof -
  have i: "unat (of_nat i :: u32) = i" using assms(2) by (simp add: unat_of_nat)
  have set: "RTK_PORTMASK_IS_PORT_SET m a = bit m (unat a)"
    unfolding RTK_PORTMASK_IS_PORT_SET_def push_bit_of_1 by simp
  show ?thesis
    unfolding move_bit_def set
    using assms by (auto simp: RTK_PORTMASK_PORT_SET_def RTK_PORTMASK_PORT_CLEAR_def bit_simps i dest: bit_imp_le_length)
qed

lemma phy_to_sw_moves: "rtl8367c_portmask_phy_to_sw m = fold (\<lambda>i. move_bit (rtl8367c_port_id ! i) i) [0..<7] m"
  by (simp add: rtl8367c_portmask_phy_to_sw_def move_bit_def [abs_def])

lemma bit_phy_to_sw:
  "bit (rtl8367c_portmask_phy_to_sw m) k \<longleftrightarrow>
    (if k = 5 then bit m 17 \<or> bit m 5 else if k = 6 then bit m 16 \<or> bit m 6 else k \<noteq> 16 \<and> k \<noteq> 17 \<and> bit m k)"
  unfolding phy_to_sw_moves upt_7
  by (auto simp: rtl8367c_port_id_def bit_move_bit)

lemma mask7_bits: "(m :: u32) \<le> 127 \<longleftrightarrow> (\<forall>k \<ge> 7. \<not> bit m k)"
  using le_mask_iff_bits [of m 7] by (simp add: mask_eq_exp_minus_1)

lemma phy_to_sw_of_log:
  assumes "m \<le> 127"
  shows "rtl8367c_portmask_phy_to_sw (sw_to_log m) = m"
proof (rule bit_word_eqI)
  fix k
  have "k < 7" if "bit m k" using assms that by (auto simp: mask7_bits not_le intro: ccontr)
  moreover have "k < 7 \<Longrightarrow> k < 5 \<or> k = 5 \<or> k = 6" by auto
  ultimately show "bit (rtl8367c_portmask_phy_to_sw (sw_to_log m)) k = bit m k"
    by (auto simp: bit_phy_to_sw bit_sw_to_log)
qed

lemma sw_to_log_valid: "valid_mask rtl8367c_hal_Ctrl (sw_to_log m)"
proof -
  have "bit (valid_portmask rtl8367c_hal_Ctrl) k" if "k < 5 \<or> k = 16 \<or> k = 17" for k
  proof -
    have "list_all (bit (valid_portmask rtl8367c_hal_Ctrl)) [0, 1, 2, 3, 4, 16, 17]" by code_simp
    moreover from that have "k \<in> set [0, 1, 2, 3, 4, 16, 17]" by auto
    ultimately show ?thesis unfolding list_all_iff by blast
  qed
  then show ?thesis by (auto simp: valid_mask_def subset_mask_iff bit_sw_to_log)
qed

lemma sw_to_log_0: "m \<le> 127 \<Longrightarrow> sw_to_log m = 0 \<longleftrightarrow> m = 0"
proof -
  have "sw_to_log 0 = 0" by (rule bit_word_eqI) (simp add: bit_sw_to_log)
  moreover assume "m \<le> 127"
  ultimately show ?thesis using phy_to_sw_of_log [of m] phy_to_sw_of_log [of 0] by auto
qed


section \<open>Running the operations\<close>

lemma wp_codeE_pure:
  assumes "wp view A m (\<lambda>r c'. \<exists>x. r = Ok x \<and> Q (Ok (0, x)) c') c"
  shows "wp view A (codeE d m) Q c"
  using assms by (fastforce simp: wp_def codeE_def split: prod.splits outcome.splits)

lemma sw_port_ok:
  assumes "i < RTL8367C_NUM_PORTS"
  shows "rtl8367c_sw_to_phy_port (int i) = okE (rtl8367c_port_id ! i)"
    and "valid_port rtl8367c_hal_Ctrl (rtl8367c_port_id ! i)"
proof -
  show "rtl8367c_sw_to_phy_port (int i) = okE (rtl8367c_port_id ! i)"
    using assms by (simp add: rtl8367c_sw_to_phy_port_def)
  have "list_all (\<lambda>i. valid_port rtl8367c_hal_Ctrl (rtl8367c_port_id ! i)) [0, 1, 2, 3, 4, 5, 6]" by code_simp
  moreover have "i \<in> set [0, 1, 2, 3, 4, 5, 6]" using assms by auto
  ultimately show "valid_port rtl8367c_hal_Ctrl (rtl8367c_port_id ! i)" unfolding list_all_iff by blast
qed

lemma sint_port:
  assumes "unat (i :: u32) < 64"
  shows "sint i = int (unat i)"
proof -
  have "uint i < 64" using assms by (metis of_nat_less_numeral_iff of_nat_unat)
  moreover have "- (2 ^ 31) \<le> uint i" by (rule order_trans [OF _ uint_ge_0]) simp
  ultimately have "signed_take_bit 31 (uint i) = uint i" by (simp add: signed_take_bit_int_eq_self)
  then show ?thesis by (simp add: sint_uint)
qed

lemma wp_bind_pure:
  "wp view A m (\<lambda>r c'. r = Ok x \<and> c' = c) c \<Longrightarrow> wp view A (f x) Q c \<Longrightarrow> wp view A (bindE m f) Q c"
  by (rule wp_bindE, erule wp_weaken) auto

text \<open>In a state that represents an abstract switch every port has a port-based VLAN, so the loop
  only collects the two masks.\<close>

definition ports_mask :: "(switch_port \<Rightarrow> bool) \<Rightarrow> switch_port list \<Rightarrow> u32 \<Rightarrow> u32" where
  "ports_mask P ports m = fold (\<lambda>p acc. if P p then acc OR push_bit (unat (sp_id p)) 1 else acc) ports m"

abbreviation untagged :: "switch_port \<Rightarrow> bool" where
  "untagged p \<equiv> \<not> bit (sp_flags p) SWITCH_PORT_FLAG_TAGGED"

lemma wp_get_pvid:
  assumes "vs_rel rtl8367c_hal_Ctrl n v c" and "cfg_regs \<subseteq> A" and "i < 7"
    and "Q (Ok (0, fst (vs_pvid v (rtl8367c_port_id ! i)))) c"
  shows "wp view A (rtl8367c_get_pvid (int i) pv) Q c"
proof -
  have "sw_ready c rtl8367c_hal_Ctrl" using assms(1) by (simp add: vs_rel_def)
  note get = wp_portPvid_get [OF this assms(2) sw_port_ok(2) [OF assms(3)]]
  have "port_pvid rtl8367c_hal_Ctrl (rtl8367c_port_id ! i) c = vs_pvid v (rtl8367c_port_id ! i)"
    using assms(1) sw_port_ok(2) [OF assms(3)] by (simp add: vs_rel_def)
  with assms(3,4) show ?thesis
    by (simp add: rtl8367c_get_pvid_def sw_port_ok(1), intro wp_bindE wp_codeE_pure, intro wp_weaken [OF get])
       (auto intro!: wp_okE split: prod.splits)
qed

lemma wp_set_vlan_ports_loop:
  assumes V: "vs_rel rtl8367c_hal_Ctrl n v c" and A: "cfg_regs \<subseteq> A" and "\<forall>p \<in> set ports. sp_id p < 7"
    and "Q (Ok (Inr (ports_mask (\<lambda>_. True) ports m, ports_mask untagged ports u))) c"
  shows "wp view A (set_vlan_ports_loop vlan ports m u) Q c"
  using assms(3,4)
proof (induction ports arbitrary: m u)
  case (Cons p ports)
  let ?i = "unat (sp_id p)" and ?b = "push_bit (unat (sp_id p)) 1"
  let ?u = "if bit (sp_flags p) 0 then u else u OR ?b"
  have id7: "?i < 7" using Cons.prems(1) by (simp add: word_less_nat_alt)
  have nz: "fst (vs_pvid v (rtl8367c_port_id ! ?i)) \<noteq> 0"
    using V sw_port_ok(2) [OF id7] by (simp add: vs_rel_def)
  have get: "wp view A (rtl8367c_get_pvid (sint (sp_id p)) 0)
      (\<lambda>r c'. r = Ok (0, fst (vs_pvid v (rtl8367c_port_id ! ?i))) \<and> c' = c) c"
    unfolding sint_port [OF less_trans [OF id7, of 64, simplified]] by (rule wp_get_pvid [OF V A id7]) simp
  have "wp view A (set_vlan_ports_loop vlan ports (m OR ?b) ?u) Q c"
    by (rule Cons.IH) (use Cons.prems in \<open>auto simp: ports_mask_def\<close>)
  with nz id7 show ?case
    unfolding set_vlan_ports_loop.simps Let_def by (auto intro!: wp_bind_pure [OF get])
qed (simp add: ports_mask_def wp_okE)


section \<open>VLANs and their ports\<close>

text \<open>What a list of ports says about a switch port, and the listing that reports it.\<close>

definition ports_cfg :: "switch_port list \<Rightarrow> rtk_vlan_cfg_t" where
  "ports_cfg ports = cfg_zero\<lparr>cfg_mbr := sw_to_log (ports_mask (\<lambda>_. True) ports 0),
     cfg_untag := sw_to_log (ports_mask untagged ports 0), cfg_ivl_en := 1\<rparr>"

definition ports_listing :: "switch_port list \<Rightarrow> switch_port list" where
  "ports_listing ports =
     map (\<lambda>i. \<lparr>sp_id = of_nat i, sp_flags = (if \<exists>p \<in> set ports. unat (sp_id p) = i \<and> untagged p then 0 else 1)\<rparr>)
       (filter (\<lambda>i. \<exists>p \<in> set ports. unat (sp_id p) = i) [0..<7])"

lemma bit_ports_mask: "bit (ports_mask P ports m) k \<longleftrightarrow>
    bit m k \<or> k < 32 \<and> (\<exists>p \<in> set ports. P p \<and> unat (sp_id p) = k)"
  unfolding ports_mask_def bit_fold_or by simp

lemma ports_mask_le: "\<forall>p \<in> set ports. sp_id p < 7 \<Longrightarrow> ports_mask P ports 0 \<le> 127"
  by (fastforce simp: mask7_bits bit_ports_mask word_less_nat_alt)

lemma untagged_subset: "ports_mask (\<lambda>_. True) ports 0 AND ports_mask untagged ports 0 = ports_mask untagged ports 0"
  by (rule bit_word_eqI) (auto simp: bit_simps bit_ports_mask)

lemma cfg_ok_ports: "cfg_ok rtl8367c_hal_Ctrl (ports_cfg ports)"
  by (simp add: cfg_ok_def ports_cfg_def cfg_zero_def sw_to_log_valid)

lemma ports_cfg_members:
  assumes "\<forall>p \<in> set ports. sp_id p < 7" and "ports \<noteq> []"
  shows "cfg_mbr (ports_cfg ports) \<noteq> 0"
proof -
  from assms obtain p where p: "p \<in> set ports" "sp_id p < 7" by (cases ports) auto
  then have "bit (ports_mask (\<lambda>_. True) ports 0) (unat (sp_id p))"
    by (auto simp: bit_ports_mask word_less_nat_alt)
  then have "ports_mask (\<lambda>_. True) ports 0 \<noteq> 0" by auto
  with sw_to_log_0 [OF ports_mask_le [OF assms(1)]] show ?thesis by (simp add: ports_cfg_def)
qed

lemma vlan_validD:
  assumes "rtl8367c_is_vlan_valid vlan"
  shows "vlan \<noteq> 0" and "vlan \<le> 0xFFF" and "ucast (ucast vlan :: u16) = vlan" and "\<not> (ucast vlan :: u16) \<ge> 4096"
proof -
  have v: "vlan \<noteq> 0" "unat vlan < 4096"
    using assms by (auto simp: rtl8367c_is_vlan_valid_def word_le_nat_alt)
  then show "vlan \<noteq> 0" "vlan \<le> 0xFFF" by (simp_all add: word_le_nat_alt)
  have u: "unat (ucast vlan :: u16) = unat vlan"
    using v(2) by (simp add: unsigned_ucast_eq unsigned_take_bit_eq take_bit_nat_eq_self_iff)
  with v(2) show "\<not> (ucast vlan :: u16) \<ge> 4096" by (simp add: word_le_nat_alt)
  show "ucast (ucast vlan :: u16) = vlan"
    using v(2) by (simp add: word_unat_eq_iff unsigned_ucast_eq unsigned_take_bit_eq take_bit_nat_eq_self_iff)
qed

lemma wp_sw_set_vlan_ports:
  assumes V: "vs_rel rtl8367c_hal_Ctrl n v c" and A: "cfg_regs \<subseteq> A" and "rtl8367c_is_vlan_valid vlan"
    and ports: "\<forall>p \<in> set ports. sp_id p < 7" "ports \<noteq> []"
  shows "wp view A (rtl8367_sw_set_vlan_ports vlan ports)
    (\<lambda>r c'. r = Ok 0 \<and> vs_rel rtl8367c_hal_Ctrl n (vs_set vlan (ports_cfg ports) v) c') c"
proof -
  note vid = vlan_validD(1,2) [OF assms(3)] and cast = vlan_validD(3) [OF assms(3)]
  have cfg: "cfg_zero\<lparr>cfg_mbr := sw_to_log (ports_mask (\<lambda>_. True) ports 0),
       cfg_untag := sw_to_log (ports_mask untagged ports 0), cfg_fid_msti := ucast (0 :: 8 word), cfg_ivl_en := 1\<rparr> = ports_cfg ports"
    by (simp add: ports_cfg_def cfg_zero_def)
  have "wp view A (rtl8367c_set_vlan (ucast vlan) (ports_mask (\<lambda>_. True) ports 0) (ports_mask untagged ports 0) 0)
      (\<lambda>r c'. r = Ok 0 \<and> vs_rel rtl8367c_hal_Ctrl n (vs_set vlan (ports_cfg ports) v) c') c"
    unfolding rtl8367c_set_vlan_def set_vlan_masks_eq untagged_subset cfg prod.case cast
    by (intro wp_bindE wp_codeE_pure, rule wp_weaken [OF wp_vs_set [OF V A vid cfg_ok_ports ports_cfg_members [OF ports]]])
       (simp add: wp_okE)
  then show ?thesis
    unfolding rtl8367_sw_set_vlan_ports_def
    using assms(3) by (auto intro!: wp_bindE wp_set_vlan_ports_loop [OF V A ports(1)])
qed

definition cfg_listing :: "rtk_vlan_cfg_t \<Rightarrow> switch_port list" where
  "cfg_listing cfg =
     map (\<lambda>i. \<lparr>sp_id = of_nat i, sp_flags = (if bit (rtl8367c_portmask_phy_to_sw (cfg_untag cfg)) i then 0 else 1)\<rparr>)
       (filter (bit (rtl8367c_portmask_phy_to_sw (cfg_mbr cfg))) [0..<7])"

lemma sw_get_vlan_ports_run:
  assumes V: "vs_rel h n v c" and "swt_rel view A s c" and "cfg_regs \<subseteq> A" and "rtl8367c_is_vlan_valid vlan"
  shows "fst (rtl8367_sw_get_vlan_ports vlan s) = Ok (0, cfg_listing (vs_cfg v vlan))"
proof -
  note vid = vlan_validD(2) [OF assms(4)] and cast = vlan_validD(3,4) [OF assms(4)]
  from vs_get(1) [OF assms(1-3) vid, of cfg_zero] cast assms(4) show ?thesis
    by (cases "rtk_vlan_get vlan (Some cfg_zero) s")
       (auto simp: rtl8367_sw_get_vlan_ports_def rtl8367c_get_vlan_def bindE_def codeE_def okE_def cfg_listing_def)
qed

lemma cfg_listing_ports:
  assumes "\<forall>p \<in> set ports. sp_id p < 7"
  shows "cfg_listing (ports_cfg ports) = ports_listing ports"
proof -
  have "bit (ports_mask P ports 0) i \<longleftrightarrow> (\<exists>p \<in> set ports. unat (sp_id p) = i \<and> P p)" if "i < 7" for i P
    using that by (auto simp: bit_ports_mask)
  then show ?thesis
    by (auto simp: cfg_listing_def ports_cfg_def ports_listing_def phy_to_sw_of_log [OF ports_mask_le [OF assms]]
        intro!: map_cong filter_cong)
qed


section \<open>Properties\<close>

text \<open>
  C11. Configuring a VLAN through swconfig: on an initialised RTL8367C, setting the ports of a VLAN
  (1 to 4095) to a non-empty list of switch ports 0 to 6 succeeds and refines the abstract switch;
  reading the ports back lists each of them once, in ascending order, tagged unless the list names it
  untagged, and the ports of every other VLAN read as before.
\<close>

theorem sw_vlan_ports_round_trip:
  assumes "vlan_refines view A rtl8367c_hal_Ctrl n v s" and "rtl8367c_is_vlan_valid vlan"
    and "ports \<noteq> []" and "\<forall>p \<in> set ports. sp_id p < 7"
  shows "\<exists>s'. rtl8367_sw_set_vlan_ports vlan ports s = (Ok 0, s') \<and>
     vlan_refines view A rtl8367c_hal_Ctrl n (vs_set vlan (ports_cfg ports) v) s' \<and>
     fst (rtl8367_sw_get_vlan_ports vlan s') = Ok (0, ports_listing ports) \<and>
     (\<forall>u. rtl8367c_is_vlan_valid u \<and> u \<noteq> vlan \<longrightarrow>
        fst (rtl8367_sw_get_vlan_ports u s') = fst (rtl8367_sw_get_vlan_ports u s))"
proof -
  note up = vlan_refinesD [OF assms(1)]
  from vlan_refines_run [OF assms(1) wp_sw_set_vlan_ports [OF up(3,2) assms(2,4,3)]] obtain s' where
    s': "rtl8367_sw_set_vlan_ports vlan ports s = (Ok 0, s')"
      "vlan_refines view A rtl8367c_hal_Ctrl n (vs_set vlan (ports_cfg ports) v) s'" by blast
  note up' = vlan_refinesD [OF s'(2)]
  note get = sw_get_vlan_ports_run [OF up(3,1,2)] sw_get_vlan_ports_run [OF up'(3,1,2)]
  have "fst (rtl8367_sw_get_vlan_ports vlan s') = Ok (0, ports_listing ports)"
    by (simp add: get(2) [OF assms(2)] vs_set_def cfg_listing_ports [OF assms(4)])
  moreover have "fst (rtl8367_sw_get_vlan_ports u s') = fst (rtl8367_sw_get_vlan_ports u s)"
    if "rtl8367c_is_vlan_valid u" "u \<noteq> vlan" for u
    by (simp add: get [OF that(1)] vs_set_def that(2))
  ultimately show ?thesis using s' by blast
qed

theorem sw_vlan_ports_round_trip_witness:
  "\<exists>s s'. rtk_vlan_init (sim_gsw 1 (Some rtl8367c_hal_Ctrl)) = (Ok (), s) \<and>
     rtl8367_sw_set_vlan_ports 5 [\<lparr>sp_id = 6, sp_flags = 1\<rparr>, \<lparr>sp_id = 2, sp_flags = 0\<rparr>] s = (Ok 0, s') \<and>
     fst (rtl8367_sw_get_vlan_ports 5 s') = Ok (0, [\<lparr>sp_id = 2, sp_flags = 0\<rparr>, \<lparr>sp_id = 6, sp_flags = 1\<rparr>])"
proof -
  let ?s = "sim_gsw 1 (Some rtl8367c_hal_Ctrl)"
  let ?ports = "[\<lparr>sp_id = 6, sp_flags = 1\<rparr>, \<lparr>sp_id = 2, sp_flags = 0\<rparr>]"
  have r: "ready ?s rtl8367c_hal_Ctrl" by (simp add: ready_def)
  have v: "rtl8367c_is_vlan_valid 5" by (simp add: rtl8367c_is_vlan_valid_def)
  have l: "ports_listing ?ports = [\<lparr>sp_id = 2, sp_flags = 0\<rparr>, \<lparr>sp_id = 6, sp_flags = 1\<rparr>]" by code_simp
  obtain s' w where s': "rtk_vlan_init ?s = (Ok (), s')" "vlan_refines sim_view sim_addrs rtl8367c_hal_Ctrl 31 w s'"
    using vlan_refines_init [OF _ _ _ r, of sim_view sim_addrs] sim_table_contract sim_cfg_regs by auto
  from sw_vlan_ports_round_trip [OF s'(2) v, of ?ports] s'(1) l show ?thesis by auto
qed

text \<open>
  The error paths of the swconfig VLAN operations: a VLAN number outside 1 to 4095 is refused with
  \<^verbatim>\<open>-EINVAL\<close> by reading and by setting, whatever the ports, and a list whose first port is not a
  switch port is refused with \<^verbatim>\<open>-EINVAL\<close>; driver and chip are unchanged.
\<close>

theorem sw_vlan_ports_rejects:
  "(\<not> rtl8367c_is_vlan_valid vlan \<longrightarrow>
      rtl8367_sw_set_vlan_ports vlan ports s = (Ok (- EINVAL), s) \<and>
      rtl8367_sw_get_vlan_ports vlan s = (Ok (- EINVAL, []), s)) \<and>
   (rtl8367c_is_vlan_valid vlan \<and> 7 \<le> unat (sp_id p) \<and> unat (sp_id p) < 64 \<longrightarrow>
      rtl8367_sw_set_vlan_ports vlan (p # ports) s = (Ok (- EINVAL), s))"
  using sint_port [of "sp_id p"]
  by (simp add: rtl8367_sw_set_vlan_ports_def rtl8367_sw_get_vlan_ports_def rtl8367c_get_pvid_def Let_def
      okE_def bindE_def del: of_nat_unat)

theorem sw_vlan_ports_rejects_witness:
  "rtl8367_sw_set_vlan_ports 0 [] (sim_gsw 1 None) = (Ok (- EINVAL), sim_gsw 1 None) \<and>
   rtl8367_sw_set_vlan_ports 9 [\<lparr>sp_id = 7, sp_flags = 0\<rparr>] (sim_gsw 1 None) = (Ok (- EINVAL), sim_gsw 1 None)"
  using sw_vlan_ports_rejects [of 0 "[]" "sim_gsw 1 None"]
    sw_vlan_ports_rejects [of 9 "[]" "sim_gsw 1 None" "\<lparr>sp_id = 7, sp_flags = 0\<rparr>"]
  by (simp add: rtl8367c_is_vlan_valid_def)


section \<open>The description of a VLAN\<close>

lemma print_base_length: "2 \<le> b \<Longrightarrow> n < b ^ Suc k \<Longrightarrow> length (print_base b n) \<le> Suc k"
proof (induction k arbitrary: n)
  case (Suc k)
  then have "n div b < b ^ Suc k" by (simp add: less_mult_imp_div_less mult.commute)
  with Suc.IH [OF Suc.prems(1)] show ?case by (subst print_base.simps) auto
qed (simp add: print_base.simps)

lemma print_base_pos: "0 < length (print_base b n)"
  by (subst print_base.simps) simp

lemma snprintf_at_fits: "n = length buf \<Longrightarrow> n + length txt < sz \<Longrightarrow>
   snprintf_at sz txt (buf, n) = okE (buf @ txt, n + length txt)"
  by (simp add: snprintf_at_def)

text \<open>The text the buffer is meant to hold.\<close>

definition port_text :: "rtl8367_vlan_info \<Rightarrow> nat \<Rightarrow> string" where
  "port_text vlan i = (if bit (vi_member vlan) i then print_base 10 i @ (if bit (vi_untag vlan) i then [] else ''t'') else [])"

definition vlan_text :: "rtl8367_vlan_info \<Rightarrow> string" where
  "vlan_text vlan = ''VLAN '' @ print_base 10 (unat (vi_vid vlan)) @ '': Ports: '' @ [CHR 0x27] @
     concat (map (port_text vlan) [0..<7]) @
     [CHR 0x27] @ '', members='' @ pad0 4 (print_base 16 (unat (vi_member vlan))) @
     '', untag='' @ pad0 4 (print_base 16 (unat (vi_untag vlan))) @
     '', fid='' @ print_base 10 (unat (vi_fid vlan))"

lemma port_text_length: "i < 7 \<Longrightarrow> length (port_text vlan i) \<le> 2"
  by (simp add: port_text_def print_base.simps)

lemma ports_text_length: "set is \<subseteq> {..<7} \<Longrightarrow> length (concat (map (port_text vlan) is)) \<le> 2 * length is"
  by (induction "is") (auto dest: port_text_length [of _ vlan])

lemma ports_loop:
  assumes "set is \<subseteq> {..<7}" and "n = length buf" and "n + 2 * length is < 256"
  shows "(foldE (info_port vlan) is (buf, n) :: ('s, string \<times> nat) drv) =
     okE (buf @ concat (map (port_text vlan) is), n + length (concat (map (port_text vlan) is)))"
  using assms
proof (induction "is" arbitrary: buf n)
  case (Cons i "is")
  have "length (port_text vlan i) \<le> 2" by (rule port_text_length) (use Cons.prems in auto)
  moreover have "(info_port vlan i (buf, n) :: ('s, string \<times> nat) drv) =
     okE (buf @ port_text vlan i, n + length (port_text vlan i))"
    using Cons.prems calculation by (auto simp: port_text_def info_port_def snprintf_at_fits)
  ultimately show ?case
    using Cons.prems Cons.IH [of "n + length (port_text vlan i)" "buf @ port_text vlan i"] by (simp add: add.assoc)
qed simp

lemma number_lengths:
  "length (print_base 10 (unat (v :: u16))) \<le> 5" "length (print_base 16 (unat (w :: u32))) \<le> 8"
  "length (print_base 10 (unat (f :: 8 word))) \<le> 3"
proof -
  have "unat v < 2 ^ 16" "unat w < 2 ^ 32" "unat f < 2 ^ 8"
    using unsigned_less [of v] unsigned_less [of w] unsigned_less [of f] by simp_all
  then show "length (print_base 10 (unat v)) \<le> 5" "length (print_base 16 (unat w)) \<le> 8" "length (print_base 10 (unat f)) \<le> 3"
    using print_base_length [of 10 "unat v" 4] print_base_length [of 16 "unat w" 7] print_base_length [of 10 "unat f" 2]
    by simp_all
qed

lemma pad0_length: "length str \<le> n \<Longrightarrow> w \<le> n \<Longrightarrow> length (pad0 w str) \<le> n"
  by (simp add: pad0_def)

lemma three_parts:
  assumes "length a + length c < 242"
  shows "bindE (snprintf_at 256 a ([], 0)) (\<lambda>b. bindE (foldE (info_port vlan) [0..<7] b) (\<lambda>b.
      bindE (snprintf_at 256 c b) (\<lambda>b. okE (0 :: int, b)))) =
    okE (0, (a @ concat (map (port_text vlan) [0..<7]) @ c, length (a @ concat (map (port_text vlan) [0..<7]) @ c)))"
proof -
  have "length (concat (map (port_text vlan) [0..<7])) \<le> 14"
    using ports_text_length [of "[0..<7]" vlan] by (simp add: upt_7)
  moreover have "set [0..<7] \<subseteq> {..<7 :: nat}" by auto
  ultimately show ?thesis using assms by (simp add: snprintf_at_fits ports_loop add.assoc)
qed

lemma sw_get_vlan_info_run:
  assumes "rtl8367c_is_vlan_valid port_vlan" and "rtl8367c_get_vlan (ucast port_vlan) s = (Ok (0, vlan), s')"
  shows "rtl8367_sw_get_vlan_info port_vlan s = (Ok (0, (vlan_text vlan, length (vlan_text vlan))), s')"
    and "length (vlan_text vlan) < 256"
proof -
  note nums = number_lengths(1) [of "vi_vid vlan"] number_lengths(3) [of "vi_fid vlan"]
    pad0_length [OF number_lengths(2) [of "vi_member vlan"], of 4] pad0_length [OF number_lengths(2) [of "vi_untag vlan"], of 4]
  let ?a = "''VLAN '' @ print_base 10 (unat (vi_vid vlan)) @ '': Ports: '' @ [CHR 0x27]"
  let ?c = "[CHR 0x27] @ '', members='' @ pad0 4 (print_base 16 (unat (vi_member vlan))) @
     '', untag='' @ pad0 4 (print_base 16 (unat (vi_untag vlan))) @ '', fid='' @ print_base 10 (unat (vi_fid vlan))"
  have len: "length ?a + length ?c < 242" using nums by simp
  have whole: "vlan_text vlan = ?a @ concat (map (port_text vlan) [0..<7]) @ ?c"
    by (simp add: vlan_text_def)
  have "length (concat (map (port_text vlan) [0..<7])) \<le> 14"
    using ports_text_length [of "[0..<7]" vlan] by (simp add: upt_7)
  with len show "length (vlan_text vlan) < 256" unfolding whole length_append by linarith
  show "rtl8367_sw_get_vlan_info port_vlan s = (Ok (0, (vlan_text vlan, length (vlan_text vlan))), s')"
    using assms(1) unfolding rtl8367_sw_get_vlan_info_def whole
    by (simp only: not_True_eq_False if_False bindE_run [where m = "rtl8367c_get_vlan (ucast port_vlan)" and s = s, OF assms(2)] prod.case simp_thms three_parts [OF len])
       (simp only: okE_def)
qed

text \<open>
  C19. The 256-byte buffer of \<open>rtl8367_sw_get_vlan_info\<close> is large enough: for every valid VLAN number,
  every bus and every driver state in which the driver does not fault, the description is stored in
  full, with its terminating null, and \<^verbatim>\<open>len\<close> is its exact length, whatever the chip returned for
  the VLAN.
\<close>

theorem vlan_info_fits:
  assumes "rtl8367c_is_vlan_valid port_vlan" and "fst (rtl8367c_get_vlan (ucast port_vlan) s) = Ok (0, vlan)"
  shows "fst (rtl8367_sw_get_vlan_info port_vlan s) = Ok (0, (vlan_text vlan, length (vlan_text vlan))) \<and>
     length (vlan_text vlan) < 256"
  using sw_get_vlan_info_run [OF assms(1), of s vlan "snd (rtl8367c_get_vlan (ucast port_vlan) s)"] assms(2)
  by (simp add: prod_eq_iff)

theorem vlan_info_fits_witness:
  "\<exists>s. rtk_vlan_init (sim_gsw 1 (Some rtl8367c_hal_Ctrl)) = (Ok (), s) \<and>
     fst (rtl8367_sw_get_vlan_info 1 s) = Ok (0, (''VLAN 1: Ports: '' @ [CHR 0x27] @ ''0123456'' @ [CHR 0x27] @
       '', members=007f, untag=007f, fid=0'', 57))"
proof -
  let ?s = "sim_gsw 1 (Some rtl8367c_hal_Ctrl)"
  have r: "ready ?s rtl8367c_hal_Ctrl" by (simp add: ready_def)
  obtain s' v where s': "rtk_vlan_init ?s = (Ok (), s')" "vlan_refines sim_view sim_addrs rtl8367c_hal_Ctrl 31 v s'"
    "vs_cfg v 1 = init_cfg rtl8367c_hal_Ctrl"
    using vlan_refines_init [OF _ _ _ r, of sim_view sim_addrs] sim_table_contract sim_cfg_regs by auto
  note up = vlan_refinesD [OF s'(2)]
  let ?vlan = "\<lparr>vi_vid = 1, vi_untag = 0x7F, vi_member = 0x7F, vi_fid = 0\<rparr>"
  have c: "rtl8367c_portmask_phy_to_sw (cfg_untag (init_cfg rtl8367c_hal_Ctrl)) = 0x7F"
    "rtl8367c_portmask_phy_to_sw (cfg_mbr (init_cfg rtl8367c_hal_Ctrl)) = 0x7F"
    "cfg_fid_msti (init_cfg rtl8367c_hal_Ctrl) = 0" by code_simp+
  have g: "fst (rtl8367c_get_vlan (ucast (1 :: u32)) s') = Ok (0, ?vlan)"
    using vs_get(1) [OF up(3,1,2), of 1 cfg_zero] s'(3) c
    by (cases "rtk_vlan_get 1 (Some cfg_zero) s'")
       (auto simp: rtl8367c_get_vlan_def bindE_def codeE_def okE_def word_le_nat_alt)
  have t: "vlan_text ?vlan = ''VLAN 1: Ports: '' @ [CHR 0x27] @ ''0123456'' @ [CHR 0x27] @
       '', members=007f, untag=007f, fid=0''" by code_simp
  show ?thesis
    using vlan_info_fits [OF _ g] s'(1) unfolding t by (auto simp: rtl8367c_is_vlan_valid_def word_le_nat_alt)
qed

end
