(* ===== verification/Stat.thy ===== *)
theory Stat
  imports Port_Api
begin

text \<open>
  The traffic counters: \<open>rtl8367c_asicdrv_mib.c\<close> (register level) and \<open>stat.c\<close> (API).  The chip keeps
  its counters in an SRAM of rows of four 16-bit words.  A counter is read by writing the row number
  to the address register, waiting for the busy flag of \<^verbatim>\<open>MIB_CTRL0\<close> and fetching two or four words
  from the counter registers; where a counter lies follows from the lengths of the counters before
  it.  \<open>mib_contract\<close> is the behaviour that the comment in \<open>rtl8367c_getAsicMIBsCounter\<close> documents:
  after the address is written the chip prepares the 64 bits of the row.
\<close>

type_synonym u64 = "64 word"

section \<open>Register level\<close>

abbreviation (input) RTL8367C_REG_MIB_COUNTER0 :: u32 where "RTL8367C_REG_MIB_COUNTER0 \<equiv> 0x1000"
abbreviation (input) RTL8367C_REG_MIB_ADDRESS :: u32 where "RTL8367C_REG_MIB_ADDRESS \<equiv> 0x1004"
abbreviation (input) RTL8367C_REG_MIB_CTRL0 :: u32 where "RTL8367C_REG_MIB_CTRL0 \<equiv> 0x1005"
abbreviation (input) RTL8367C_REG_MIB_CTRL1 :: u32 where "RTL8367C_REG_MIB_CTRL1 \<equiv> 0x1007"
abbreviation (input) RTL8367C_REG_MIB_CTRL2 :: u32 where "RTL8367C_REG_MIB_CTRL2 \<equiv> 0x1008"
abbreviation (input) RTL8367C_REG_MIB_CTRL3 :: u32 where "RTL8367C_REG_MIB_CTRL3 \<equiv> 0x1009"
abbreviation (input) RTL8367C_REG_MIB_CTRL4 :: u32 where "RTL8367C_REG_MIB_CTRL4 \<equiv> 0x100A"
abbreviation (input) RTL8367C_REG_MIB_CTRL5 :: u32 where "RTL8367C_REG_MIB_CTRL5 \<equiv> 0x100B"
abbreviation (input) RTL8367C_REG_MIB_RMON_LEN_CTRL :: u32 where "RTL8367C_REG_MIB_RMON_LEN_CTRL \<equiv> 0x128A"
abbreviation (input) RTL8367C_MIB_CTRL0_BUSY_FLAG_MASK :: u32 where "RTL8367C_MIB_CTRL0_BUSY_FLAG_MASK \<equiv> 1"
abbreviation (input) RTL8367C_RESET_FLAG_MASK :: u32 where "RTL8367C_RESET_FLAG_MASK \<equiv> 2"
abbreviation (input) RTL8367C_GLOBAL_RESET_MASK :: u32 where "RTL8367C_GLOBAL_RESET_MASK \<equiv> 0x800"
abbreviation (input) RTL8367C_QM_RESET_MASK :: u32 where "RTL8367C_QM_RESET_MASK \<equiv> 0x400"
abbreviation (input) RTL8367C_MIB_PORT07_MASK :: u32 where "RTL8367C_MIB_PORT07_MASK \<equiv> 0x3FC"
abbreviation (input) RTL8367C_MIB_MAX_LOG_CNT_IDX :: u32 where "RTL8367C_MIB_MAX_LOG_CNT_IDX \<equiv> 31"
abbreviation (input) RTL8367C_MIB_MAX_LOG_MODE_IDX :: u32 where "RTL8367C_MIB_MAX_LOG_MODE_IDX \<equiv> 15"

text \<open>The enumeration \<^verbatim>\<open>RTL8367C_MIBCOUNTER\<close>.\<close>

abbreviation (input) ifInOctets :: u32 where "ifInOctets \<equiv> 0"
abbreviation (input) dot3StatsFCSErrors :: u32 where "dot3StatsFCSErrors \<equiv> 1"
abbreviation (input) dot3StatsSymbolErrors :: u32 where "dot3StatsSymbolErrors \<equiv> 2"
abbreviation (input) dot3InPauseFrames :: u32 where "dot3InPauseFrames \<equiv> 3"
abbreviation (input) dot3ControlInUnknownOpcodes :: u32 where "dot3ControlInUnknownOpcodes \<equiv> 4"
abbreviation (input) etherStatsFragments :: u32 where "etherStatsFragments \<equiv> 5"
abbreviation (input) etherStatsJabbers :: u32 where "etherStatsJabbers \<equiv> 6"
abbreviation (input) ifInUcastPkts :: u32 where "ifInUcastPkts \<equiv> 7"
abbreviation (input) etherStatsDropEvents :: u32 where "etherStatsDropEvents \<equiv> 8"
abbreviation (input) ifInMulticastPkts :: u32 where "ifInMulticastPkts \<equiv> 9"
abbreviation (input) ifInBroadcastPkts :: u32 where "ifInBroadcastPkts \<equiv> 10"
abbreviation (input) inMldChecksumError :: u32 where "inMldChecksumError \<equiv> 11"
abbreviation (input) inIgmpChecksumError :: u32 where "inIgmpChecksumError \<equiv> 12"
abbreviation (input) inMldSpecificQuery :: u32 where "inMldSpecificQuery \<equiv> 13"
abbreviation (input) inMldGeneralQuery :: u32 where "inMldGeneralQuery \<equiv> 14"
abbreviation (input) inIgmpSpecificQuery :: u32 where "inIgmpSpecificQuery \<equiv> 15"
abbreviation (input) inIgmpGeneralQuery :: u32 where "inIgmpGeneralQuery \<equiv> 16"
abbreviation (input) inMldLeaves :: u32 where "inMldLeaves \<equiv> 17"
abbreviation (input) inIgmpLeaves :: u32 where "inIgmpLeaves \<equiv> 18"
abbreviation (input) etherStatsOctets :: u32 where "etherStatsOctets \<equiv> 19"
abbreviation (input) etherStatsUnderSizePkts :: u32 where "etherStatsUnderSizePkts \<equiv> 20"
abbreviation (input) etherOversizeStats :: u32 where "etherOversizeStats \<equiv> 21"
abbreviation (input) etherStatsPkts64Octets :: u32 where "etherStatsPkts64Octets \<equiv> 22"
abbreviation (input) etherStatsPkts65to127Octets :: u32 where "etherStatsPkts65to127Octets \<equiv> 23"
abbreviation (input) etherStatsPkts128to255Octets :: u32 where "etherStatsPkts128to255Octets \<equiv> 24"
abbreviation (input) etherStatsPkts256to511Octets :: u32 where "etherStatsPkts256to511Octets \<equiv> 25"
abbreviation (input) etherStatsPkts512to1023Octets :: u32 where "etherStatsPkts512to1023Octets \<equiv> 26"
abbreviation (input) etherStatsPkts1024to1518Octets :: u32 where "etherStatsPkts1024to1518Octets \<equiv> 27"
abbreviation (input) ifOutOctets :: u32 where "ifOutOctets \<equiv> 28"
abbreviation (input) dot3StatsSingleCollisionFrames :: u32 where "dot3StatsSingleCollisionFrames \<equiv> 29"
abbreviation (input) dot3StatMultipleCollisionFrames :: u32 where "dot3StatMultipleCollisionFrames \<equiv> 30"
abbreviation (input) dot3sDeferredTransmissions :: u32 where "dot3sDeferredTransmissions \<equiv> 31"
abbreviation (input) dot3StatsLateCollisions :: u32 where "dot3StatsLateCollisions \<equiv> 32"
abbreviation (input) etherStatsCollisions :: u32 where "etherStatsCollisions \<equiv> 33"
abbreviation (input) dot3StatsExcessiveCollisions :: u32 where "dot3StatsExcessiveCollisions \<equiv> 34"
abbreviation (input) dot3OutPauseFrames :: u32 where "dot3OutPauseFrames \<equiv> 35"
abbreviation (input) ifOutDiscards :: u32 where "ifOutDiscards \<equiv> 36"
abbreviation (input) dot1dTpPortInDiscards :: u32 where "dot1dTpPortInDiscards \<equiv> 37"
abbreviation (input) ifOutUcastPkts :: u32 where "ifOutUcastPkts \<equiv> 38"
abbreviation (input) ifOutMulticastPkts :: u32 where "ifOutMulticastPkts \<equiv> 39"
abbreviation (input) ifOutBroadcastPkts :: u32 where "ifOutBroadcastPkts \<equiv> 40"
abbreviation (input) outOampduPkts :: u32 where "outOampduPkts \<equiv> 41"
abbreviation (input) inOampduPkts :: u32 where "inOampduPkts \<equiv> 42"
abbreviation (input) inIgmpJoinsSuccess :: u32 where "inIgmpJoinsSuccess \<equiv> 43"
abbreviation (input) inIgmpJoinsFail :: u32 where "inIgmpJoinsFail \<equiv> 44"
abbreviation (input) inMldJoinsSuccess :: u32 where "inMldJoinsSuccess \<equiv> 45"
abbreviation (input) inMldJoinsFail :: u32 where "inMldJoinsFail \<equiv> 46"
abbreviation (input) inReportSuppressionDrop :: u32 where "inReportSuppressionDrop \<equiv> 47"
abbreviation (input) inLeaveSuppressionDrop :: u32 where "inLeaveSuppressionDrop \<equiv> 48"
abbreviation (input) outIgmpReports :: u32 where "outIgmpReports \<equiv> 49"
abbreviation (input) outIgmpLeaves :: u32 where "outIgmpLeaves \<equiv> 50"
abbreviation (input) outIgmpGeneralQuery :: u32 where "outIgmpGeneralQuery \<equiv> 51"
abbreviation (input) outIgmpSpecificQuery :: u32 where "outIgmpSpecificQuery \<equiv> 52"
abbreviation (input) outMldReports :: u32 where "outMldReports \<equiv> 53"
abbreviation (input) outMldLeaves :: u32 where "outMldLeaves \<equiv> 54"
abbreviation (input) outMldGeneralQuery :: u32 where "outMldGeneralQuery \<equiv> 55"
abbreviation (input) outMldSpecificQuery :: u32 where "outMldSpecificQuery \<equiv> 56"
abbreviation (input) inKnownMulticastPkts :: u32 where "inKnownMulticastPkts \<equiv> 57"
abbreviation (input) dot1dTpLearnedEntryDiscards :: u32 where "dot1dTpLearnedEntryDiscards \<equiv> 58"
abbreviation (input) RTL8367C_MIBS_NUMBER :: u32 where "RTL8367C_MIBS_NUMBER \<equiv> 59"

definition mibLength :: "u32 list" where
  "mibLength =
    [4,2,2,2,2,2,2,2,2,2,2,2,2,2,2,2,2,2,2,
     4,2,2,2,2,2,2,2,2,
     4,2,2,2,2,2,2,2,2,2,2,2,2,2,2,
     2,2,2,2,2,2,2,2,2,2,2,2,2,2,2,2]"

definition rtl8367c_setAsicMIBsCounterReset :: "u32 \<Rightarrow> u32 \<Rightarrow> u32 \<Rightarrow> ('d gsw, unit) drv" where
  "rtl8367c_setAsicMIBsCounterReset greset qmreset portmask =
     (let regBits = RTL8367C_GLOBAL_RESET_MASK OR RTL8367C_QM_RESET_MASK OR RTL8367C_MIB_PORT07_MASK OR push_bit 13 7;
          regData = (push_bit 11 greset AND RTL8367C_GLOBAL_RESET_MASK) OR
                    (push_bit 10 qmreset AND RTL8367C_QM_RESET_MASK) OR
                    (push_bit 2 (portmask AND 0xFF) AND RTL8367C_MIB_PORT07_MASK) OR
                    push_bit 13 (drop_bit 8 portmask AND 7)
      in rtl8367c_setAsicRegBits RTL8367C_REG_MIB_CTRL0 regBits (drop_bit 2 regData))"

text \<open>The word offset of a counter of a port: the loop adds up the lengths of the counters before it.\<close>

definition mib_offset :: "u32 \<Rightarrow> u32 \<Rightarrow> u32" where
  "mib_offset port mibIdx = fold (\<lambda>i off. off + mibLength ! i) [0..<unat mibIdx]
     (let off = 0x7C * port in if port > 7 then off + 68 else off)"

text \<open>The loop that waits for the busy flag; it hands on the last value read.\<close>

primrec mib_poll :: "nat \<Rightarrow> u32 \<Rightarrow> ('d gsw, u32) drv" where
  "mib_poll 0 regData = okE regData"
| "mib_poll (Suc i) regData = bindE (rtl8367c_getAsicReg RTL8367C_REG_MIB_CTRL0) (\<lambda>regData.
     if regData AND RTL8367C_MIB_CTRL0_BUSY_FLAG_MASK = 0 then okE regData else mib_poll i regData)"

text \<open>The loop that collects the words of a counter, highest word first.\<close>

primrec mib_fetch :: "nat \<Rightarrow> u32 \<Rightarrow> u64 \<Rightarrow> ('d gsw, u64) drv" where
  "mib_fetch 0 regAddr mibCounter = okE mibCounter"
| "mib_fetch (Suc i) regAddr mibCounter = bindE (rtl8367c_getAsicReg regAddr) (\<lambda>regData.
     mib_fetch i (regAddr - 1) (push_bit 16 mibCounter OR ucast (regData AND 0xFFFF)))"

definition rtl8367c_getAsicMIBsCounter :: "u32 \<Rightarrow> u32 \<Rightarrow> ('d gsw, u64) drv" where
  "rtl8367c_getAsicMIBsCounter port mibIdx =
     (if port > RTL8367C_PORTIDMAX then errE RT_ERR_PORT_ID
      else if mibIdx \<ge> RTL8367C_MIBS_NUMBER then errE RT_ERR_STAT_INVALID_CNTR
      else let mibOff = (if mibIdx = dot1dTpLearnedEntryDiscards then 0 else mib_offset port mibIdx);
               mibAddr = (if mibIdx = dot1dTpLearnedEntryDiscards then 0x420 else mibOff)
      in thenE (rtl8367c_setAsicReg RTL8367C_REG_MIB_ADDRESS (drop_bit 2 mibAddr))
         (bindE (mib_poll 100 0) (\<lambda>regData.
            if regData AND RTL8367C_MIB_CTRL0_BUSY_FLAG_MASK \<noteq> 0 then errE RT_ERR_BUSYWAIT_TIMEOUT
            else if regData AND RTL8367C_RESET_FLAG_MASK \<noteq> 0 then errE RT_ERR_STAT_CNTR_FAIL
            else let i = mibLength ! unat mibIdx;
                     regAddr = (if i = 4 then RTL8367C_REG_MIB_COUNTER0 + 3
                                else RTL8367C_REG_MIB_COUNTER0 + (mibOff + 1) mod 4)
            in mib_fetch (unat i) regAddr 0)))"

definition rtl8367c_getAsicMIBsLogCounter :: "u32 \<Rightarrow> ('d gsw, u32) drv" where
  "rtl8367c_getAsicMIBsLogCounter index =
     (if index > RTL8367C_MIB_MAX_LOG_CNT_IDX then errE RT_ERR_ENTRY_INDEX
      else let mibAddr = 0x3E0 + (index div 2) * 4
      in thenE (rtl8367c_setAsicReg RTL8367C_REG_MIB_ADDRESS (drop_bit 2 mibAddr))
         (bindE (rtl8367c_getAsicReg RTL8367C_REG_MIB_CTRL0) (\<lambda>regData.
            if regData AND RTL8367C_MIB_CTRL0_BUSY_FLAG_MASK \<noteq> 0 then errE RT_ERR_BUSYWAIT_TIMEOUT
            else if regData AND RTL8367C_RESET_FLAG_MASK \<noteq> 0 then errE RT_ERR_STAT_CNTR_FAIL
            else bindE (mib_fetch 2 (if index mod 2 = 1 then RTL8367C_REG_MIB_COUNTER0 + 3
                                     else RTL8367C_REG_MIB_COUNTER0 + 1) 0) (\<lambda>mibCounter.
              okE (ucast mibCounter)))))"

definition rtl8367c_getAsicMIBsControl :: "('d gsw, u32) drv" where
  "rtl8367c_getAsicMIBsControl = bindE (rtl8367c_getAsicReg RTL8367C_REG_MIB_CTRL0) (\<lambda>regData.
     okE (regData AND (RTL8367C_MIB_CTRL0_BUSY_FLAG_MASK OR RTL8367C_RESET_FLAG_MASK)))"

definition rtl8367c_setAsicMIBsResetValue :: "u32 \<Rightarrow> ('d gsw, unit) drv" where
  "rtl8367c_setAsicMIBsResetValue value = rtl8367c_setAsicRegBit RTL8367C_REG_MIB_CTRL0 12 value"

definition rtl8367c_getAsicMIBsResetValue :: "('d gsw, u32) drv" where
  "rtl8367c_getAsicMIBsResetValue = rtl8367c_getAsicRegBit RTL8367C_REG_MIB_CTRL0 12"

definition rtl8367c_setAsicMIBsUsageMode :: "u32 \<Rightarrow> ('d gsw, unit) drv" where
  "rtl8367c_setAsicMIBsUsageMode mode = rtl8367c_setAsicRegBit RTL8367C_REG_MIB_CTRL4 8 mode"

definition rtl8367c_getAsicMIBsUsageMode :: "('d gsw, u32) drv" where
  "rtl8367c_getAsicMIBsUsageMode = rtl8367c_getAsicRegBit RTL8367C_REG_MIB_CTRL4 8"

definition rtl8367c_setAsicMIBsTimer :: "u32 \<Rightarrow> ('d gsw, unit) drv" where
  "rtl8367c_setAsicMIBsTimer timer = rtl8367c_setAsicRegBits RTL8367C_REG_MIB_CTRL4 0xFF timer"

definition rtl8367c_getAsicMIBsTimer :: "('d gsw, u32) drv" where
  "rtl8367c_getAsicMIBsTimer = rtl8367c_getAsicRegBits RTL8367C_REG_MIB_CTRL4 0xFF"

definition rtl8367c_setAsicMIBsLoggingMode :: "u32 \<Rightarrow> u32 \<Rightarrow> ('d gsw, unit) drv" where
  "rtl8367c_setAsicMIBsLoggingMode index mode =
     (if index > RTL8367C_MIB_MAX_LOG_MODE_IDX then errE RT_ERR_OUT_OF_RANGE
      else rtl8367c_setAsicRegBit RTL8367C_REG_MIB_CTRL3 index mode)"

definition rtl8367c_getAsicMIBsLoggingMode :: "u32 \<Rightarrow> ('d gsw, u32) drv" where
  "rtl8367c_getAsicMIBsLoggingMode index =
     (if index > RTL8367C_MIB_MAX_LOG_MODE_IDX then errE RT_ERR_OUT_OF_RANGE
      else rtl8367c_getAsicRegBit RTL8367C_REG_MIB_CTRL3 index)"

definition rtl8367c_setAsicMIBsLoggingType :: "u32 \<Rightarrow> u32 \<Rightarrow> ('d gsw, unit) drv" where
  "rtl8367c_setAsicMIBsLoggingType index type =
     (if index > RTL8367C_MIB_MAX_LOG_MODE_IDX then errE RT_ERR_OUT_OF_RANGE
      else rtl8367c_setAsicRegBit RTL8367C_REG_MIB_CTRL5 index type)"

definition rtl8367c_getAsicMIBsLoggingType :: "u32 \<Rightarrow> ('d gsw, u32) drv" where
  "rtl8367c_getAsicMIBsLoggingType index =
     (if index > RTL8367C_MIB_MAX_LOG_MODE_IDX then errE RT_ERR_OUT_OF_RANGE
      else rtl8367c_getAsicRegBit RTL8367C_REG_MIB_CTRL5 index)"

definition rtl8367c_setAsicMIBsResetLoggingCounter :: "u32 \<Rightarrow> ('d gsw, unit) drv" where
  "rtl8367c_setAsicMIBsResetLoggingCounter index =
     (if index > RTL8367C_MIB_MAX_LOG_CNT_IDX then errE RT_ERR_OUT_OF_RANGE
      else if index < 16 then rtl8367c_setAsicReg RTL8367C_REG_MIB_CTRL1 (push_bit (unat index) 1)
      else rtl8367c_setAsicReg RTL8367C_REG_MIB_CTRL2 (push_bit (unat (index - 16)) 1))"

definition rtl8367c_setAsicMIBsLength :: "u32 \<Rightarrow> u32 \<Rightarrow> ('d gsw, unit) drv" where
  "rtl8367c_setAsicMIBsLength txLengthMode rxLengthMode =
     thenE (rtl8367c_setAsicRegBit RTL8367C_REG_MIB_RMON_LEN_CTRL 0 txLengthMode)
       (rtl8367c_setAsicRegBit RTL8367C_REG_MIB_RMON_LEN_CTRL 1 rxLengthMode)"

definition rtl8367c_getAsicMIBsLength :: "('d gsw, u32 \<times> u32) drv" where
  "rtl8367c_getAsicMIBsLength =
     bindE (rtl8367c_getAsicRegBit RTL8367C_REG_MIB_RMON_LEN_CTRL 0) (\<lambda>tx.
     bindE (rtl8367c_getAsicRegBit RTL8367C_REG_MIB_RMON_LEN_CTRL 1) (\<lambda>rx. okE (tx, rx)))"

section \<open>API\<close>

abbreviation (input) MIB_NOT_SUPPORT :: u32 where "MIB_NOT_SUPPORT \<equiv> 0xFFFF"
abbreviation (input) STAT_EtherStatsMulticastPkts :: u32 where "STAT_EtherStatsMulticastPkts \<equiv> 18"
abbreviation (input) STAT_EtherStatsBroadcastPkts :: u32 where "STAT_EtherStatsBroadcastPkts \<equiv> 19"
abbreviation (input) STAT_IfOutMulticastPkts :: u32 where "STAT_IfOutMulticastPkts \<equiv> 31"
abbreviation (input) STAT_IfOutBroadcastPkts :: u32 where "STAT_IfOutBroadcastPkts \<equiv> 32"
abbreviation (input) STAT_PORT_CNTR_END :: u32 where "STAT_PORT_CNTR_END \<equiv> 62"

definition rtk_stat_global_reset :: "('d gsw, unit) drv" where
  "rtk_stat_global_reset = thenE RTK_CHK_INIT_STATE (rtl8367c_setAsicMIBsCounterReset 1 0 0)"

definition rtk_stat_port_reset :: "rtk_port_t \<Rightarrow> ('d gsw, unit) drv" where
  "rtk_stat_port_reset port = thenE RTK_CHK_INIT_STATE (thenE (RTK_CHK_PORT_VALID port)
     (bindE (rtk_switch_port_L2P_get port) (\<lambda>phy.
        if unat phy \<ge> 32 then faultE else rtl8367c_setAsicMIBsCounterReset 0 0 (push_bit (unat phy) 1))))"

definition rtk_stat_queueManage_reset :: "('d gsw, unit) drv" where
  "rtk_stat_queueManage_reset = thenE RTK_CHK_INIT_STATE (rtl8367c_setAsicMIBsCounterReset 0 1 0)"

definition rtk_stat_global_get :: "u32 \<Rightarrow> outptr \<Rightarrow> ('d gsw, u64) drv" where
  "rtk_stat_global_get cntr_idx pCntr = thenE RTK_CHK_INIT_STATE (thenE (not_null pCntr)
     (if cntr_idx \<noteq> 58 then errE RT_ERR_STAT_INVALID_GLOBAL_CNTR
      else rtl8367c_getAsicMIBsCounter 0 cntr_idx))"

definition rtk_stat_global_getAll :: "outptr \<Rightarrow> ('d gsw, u64) drv" where
  "rtk_stat_global_getAll pGlobal_cntrs = thenE RTK_CHK_INIT_STATE (thenE (not_null pGlobal_cntrs)
     (rtl8367c_getAsicMIBsCounter 0 dot1dTpLearnedEntryDiscards))"

definition mib_asic_idx :: "u32 list" where
  "mib_asic_idx =
    [ifInOctets, dot3StatsFCSErrors, dot3StatsSymbolErrors, dot3InPauseFrames,
     dot3ControlInUnknownOpcodes, etherStatsFragments, etherStatsJabbers, ifInUcastPkts,
     etherStatsDropEvents, etherStatsOctets, etherStatsUnderSizePkts, etherOversizeStats,
     etherStatsPkts64Octets, etherStatsPkts65to127Octets, etherStatsPkts128to255Octets,
     etherStatsPkts256to511Octets, etherStatsPkts512to1023Octets,
     etherStatsPkts1024to1518Octets, ifInMulticastPkts, ifInBroadcastPkts, ifOutOctets,
     dot3StatsSingleCollisionFrames, dot3StatMultipleCollisionFrames,
     dot3sDeferredTransmissions, dot3StatsLateCollisions, etherStatsCollisions,
     dot3StatsExcessiveCollisions, dot3OutPauseFrames, MIB_NOT_SUPPORT, dot1dTpPortInDiscards,
     ifOutUcastPkts, ifOutMulticastPkts, ifOutBroadcastPkts, outOampduPkts, inOampduPkts,
     MIB_NOT_SUPPORT, inMldChecksumError, inIgmpChecksumError, inMldSpecificQuery,
     inMldGeneralQuery, inIgmpSpecificQuery, inIgmpGeneralQuery, inMldLeaves, inIgmpLeaves,
     inIgmpJoinsSuccess, inIgmpJoinsFail, inMldJoinsSuccess, inMldJoinsFail,
     inReportSuppressionDrop, inLeaveSuppressionDrop, outIgmpReports, outIgmpLeaves,
     outIgmpGeneralQuery, outIgmpSpecificQuery, outMldReports, outMldLeaves, outMldGeneralQuery,
     outMldSpecificQuery, inKnownMulticastPkts, ifInMulticastPkts, ifInBroadcastPkts,
     ifOutDiscards]"

definition get_asic_mib_idx :: "u32 \<Rightarrow> ('s, u32) drv" where
  "get_asic_mib_idx cnt_idx =
     (if cnt_idx \<ge> STAT_PORT_CNTR_END then errE RT_ERR_STAT_INVALID_PORT_CNTR
      else if mib_asic_idx ! unat cnt_idx = MIB_NOT_SUPPORT then errE RT_ERR_CHIP_NOT_SUPPORTED
      else okE (mib_asic_idx ! unat cnt_idx))"

text \<open>Adding the transmitted frames to the received ones, for two of the counters.\<close>

definition add_second :: "rtk_port_t \<Rightarrow> u32 \<Rightarrow> u64 \<Rightarrow> ('d gsw, u64) drv" where
  "add_second port second cnt = bindE (get_asic_mib_idx second) (\<lambda>mib_idx.
     bindE (rtk_switch_port_L2P_get port) (\<lambda>phy.
     bindE (rtl8367c_getAsicMIBsCounter phy mib_idx) (\<lambda>second_cnt. okE (cnt + second_cnt))))"

definition rtk_stat_port_get :: "rtk_port_t \<Rightarrow> u32 \<Rightarrow> outptr \<Rightarrow> ('d gsw, u64) drv" where
  "rtk_stat_port_get port cntr_idx pCntr =
     thenE RTK_CHK_INIT_STATE
     (thenE (not_null pCntr)
     (thenE (RTK_CHK_PORT_VALID port)
     (if cntr_idx \<ge> STAT_PORT_CNTR_END then errE RT_ERR_STAT_INVALID_PORT_CNTR
      else bindE (get_asic_mib_idx cntr_idx) (\<lambda>mib_idx.
        if mib_idx = MIB_NOT_SUPPORT then errE RT_ERR_CHIP_NOT_SUPPORTED
        else bindE (rtk_switch_port_L2P_get port) (\<lambda>phy.
          bindE (rtl8367c_getAsicMIBsCounter phy mib_idx) (\<lambda>cnt.
          bindE (if cntr_idx = STAT_EtherStatsMulticastPkts then add_second port STAT_IfOutMulticastPkts cnt
                 else okE cnt) (\<lambda>cnt.
          if cntr_idx = STAT_EtherStatsBroadcastPkts then add_second port STAT_IfOutBroadcastPkts cnt
          else okE cnt)))))))"

text \<open>
  \<open>rtk_stat_port_getAll\<close> fills the structure \<open>rtk_stat_port_cntr_t\<close> of the caller through a pointer to
  32-bit words that it advances itself.  The structure is given by the names and sizes of its members in
  the order of the declaration; \<open>struct_layout\<close> places each member at the next multiple of its size, as
  the C compiler of the target does, and yields name, offset and size in bytes.  The memory of the
  structure is a list of 32-bit words in little-endian order: a 64-bit member has its low half
  in the first of its two words.
\<close>

definition rtk_stat_port_cntr_t :: "(string \<times> nat) list" where
  "rtk_stat_port_cntr_t =
    [(''ifInOctets'', 8), (''dot3StatsFCSErrors'', 4), (''dot3StatsSymbolErrors'', 4),
    (''dot3InPauseFrames'', 4), (''dot3ControlInUnknownOpcodes'', 4), (''etherStatsFragments'', 4),
    (''etherStatsJabbers'', 4), (''ifInUcastPkts'', 4), (''etherStatsDropEvents'', 4),
    (''etherStatsOctets'', 8), (''etherStatsUndersizePkts'', 4), (''etherStatsOversizePkts'', 4),
    (''etherStatsPkts64Octets'', 4), (''etherStatsPkts65to127Octets'', 4),
    (''etherStatsPkts128to255Octets'', 4), (''etherStatsPkts256to511Octets'', 4),
    (''etherStatsPkts512to1023Octets'', 4), (''etherStatsPkts1024toMaxOctets'', 4),
    (''etherStatsMcastPkts'', 4), (''etherStatsBcastPkts'', 4), (''ifOutOctets'', 8),
    (''dot3StatsSingleCollisionFrames'', 4), (''dot3StatsMultipleCollisionFrames'', 4),
    (''dot3StatsDeferredTransmissions'', 4), (''dot3StatsLateCollisions'', 4), (''etherStatsCollisions'', 4),
    (''dot3StatsExcessiveCollisions'', 4), (''dot3OutPauseFrames'', 4),
    (''dot1dBasePortDelayExceededDiscards'', 4), (''dot1dTpPortInDiscards'', 4), (''ifOutUcastPkts'', 4),
    (''ifOutMulticastPkts'', 4), (''ifOutBrocastPkts'', 4), (''outOampduPkts'', 4), (''inOampduPkts'', 4),
    (''pktgenPkts'', 4), (''inMldChecksumError'', 4), (''inIgmpChecksumError'', 4),
    (''inMldSpecificQuery'', 4), (''inMldGeneralQuery'', 4), (''inIgmpSpecificQuery'', 4),
    (''inIgmpGeneralQuery'', 4), (''inMldLeaves'', 4), (''inIgmpLeaves'', 4), (''inIgmpJoinsSuccess'', 4),
    (''inIgmpJoinsFail'', 4), (''inMldJoinsSuccess'', 4), (''inMldJoinsFail'', 4),
    (''inReportSuppressionDrop'', 4), (''inLeaveSuppressionDrop'', 4), (''outIgmpReports'', 4),
    (''outIgmpLeaves'', 4), (''outIgmpGeneralQuery'', 4), (''outIgmpSpecificQuery'', 4),
    (''outMldReports'', 4), (''outMldLeaves'', 4), (''outMldGeneralQuery'', 4), (''outMldSpecificQuery'', 4),
    (''inKnownMulticastPkts'', 4), (''ifInMulticastPkts'', 4), (''ifInBroadcastPkts'', 4),
    (''ifOutDiscards'', 4)]"

fun struct_layout :: "nat \<Rightarrow> (string \<times> nat) list \<Rightarrow> (string \<times> nat \<times> nat) list" where
  "struct_layout off [] = []"
| "struct_layout off ((f, w) # fs) = (let a = (off + w - 1) div w * w in (f, a, w) # struct_layout (a + w) fs)"

text \<open>The value of a member in memory.\<close>

definition field_value :: "u32 list \<Rightarrow> nat \<Rightarrow> nat \<Rightarrow> u64" where
  "field_value buf a w =
     (if w = 8 then ucast (buf ! (a div 4)) OR push_bit 32 (ucast (buf ! (a div 4 + 1))) else ucast (buf ! (a div 4)))"

definition stat_mibLength :: "u16 list" where
  "stat_mibLength =
    [2,1,1,1,1,1,1,1,1,
     2,1,1,1,1,1,1,1,1,1,1,
     2,1,1,1,1,1,1,1,1,1,1,1,1,1,1,1,
     1,1,1,1,1,1,1,1,1,1,1,1,1,1,1,1,1,1,1,1,1,1,1,1,1,1]"

definition unsupportedE :: "('s, u64) drv \<Rightarrow> ('s, u64) drv" where
  "unsupportedE m s = (case m s of (r, s') \<Rightarrow> (if r = Err RT_ERR_CHIP_NOT_SUPPORTED then (Ok 0, s') else (r, s')))"

text \<open>
  The store through \<open>accessPtr\<close>, given as the index of a word: a 64-bit store needs an even word (the
  structure is aligned to eight bytes), and both must stay inside the structure; else the behaviour is
  undefined.
\<close>

definition cntr_store :: "u16 \<Rightarrow> nat \<Rightarrow> u64 \<Rightarrow> u32 list \<Rightarrow> ('s, u32 list) drv" where
  "cntr_store len accessPtr mibCounter buf =
     (if len = 2 then
        (if even accessPtr \<and> accessPtr + 1 < length buf
         then okE (buf[accessPtr := ucast mibCounter, accessPtr + 1 := ucast (drop_bit 32 mibCounter)]) else faultE)
      else if len = 1 then (if accessPtr < length buf then okE (buf[accessPtr := ucast mibCounter]) else faultE)
      else errE RT_ERR_FAILED)"

primrec getAll_loop :: "rtk_port_t \<Rightarrow> nat list \<Rightarrow> nat \<Rightarrow> u32 list \<Rightarrow> ('d gsw, u32 list) drv" where
  "getAll_loop port [] accessPtr buf = okE buf"
| "getAll_loop port (mibIndex # is) accessPtr buf =
     bindE (unsupportedE (rtk_stat_port_get port (of_nat mibIndex) PTR)) (\<lambda>mibCounter.
     bindE (cntr_store (stat_mibLength ! mibIndex) accessPtr mibCounter buf)
       (getAll_loop port is (accessPtr + unat (stat_mibLength ! mibIndex))))"

text \<open>The argument is the memory of the caller's structure, \<open>None\<close> for a null pointer; the result is that
  memory after a successful call.\<close>

definition rtk_stat_port_getAll :: "rtk_port_t \<Rightarrow> u32 list option \<Rightarrow> ('d gsw, u32 list) drv" where
  "rtk_stat_port_getAll port pPort_cntrs =
     thenE RTK_CHK_INIT_STATE
     (case pPort_cntrs of None \<Rightarrow> errE RT_ERR_NULL_POINTER
      | Some buf \<Rightarrow> thenE (RTK_CHK_PORT_VALID port) (getAll_loop port [0..<unat STAT_PORT_CNTR_END] 0 buf))"

definition rtk_stat_logging_counterCfg_set :: "u32 \<Rightarrow> u32 \<Rightarrow> u32 \<Rightarrow> ('d gsw, unit) drv" where
  "rtk_stat_logging_counterCfg_set idx mode type = thenE RTK_CHK_INIT_STATE
     (if idx > RTL8367C_MIB_MAX_LOG_CNT_IDX then errE RT_ERR_OUT_OF_RANGE
      else if idx mod 2 = 1 then errE RT_ERR_INPUT
      else if mode \<ge> 2 then errE RT_ERR_OUT_OF_RANGE
      else if type \<ge> 2 then errE RT_ERR_OUT_OF_RANGE
      else thenE (rtl8367c_setAsicMIBsLoggingType (idx div 2) type)
             (rtl8367c_setAsicMIBsLoggingMode (idx div 2) mode))"

definition rtk_stat_logging_counterCfg_get :: "u32 \<Rightarrow> outptr \<Rightarrow> outptr \<Rightarrow> ('d gsw, u32 \<times> u32) drv" where
  "rtk_stat_logging_counterCfg_get idx pMode pType = thenE RTK_CHK_INIT_STATE
     (if idx > RTL8367C_MIB_MAX_LOG_CNT_IDX then errE RT_ERR_OUT_OF_RANGE
      else if idx mod 2 = 1 then errE RT_ERR_INPUT
      else thenE (not_null pMode) (thenE (not_null pType)
        (bindE (rtl8367c_getAsicMIBsLoggingType (idx div 2)) (\<lambda>type.
         bindE (rtl8367c_getAsicMIBsLoggingMode (idx div 2)) (\<lambda>mode. okE (mode, type))))))"

definition rtk_stat_logging_counter_reset :: "u32 \<Rightarrow> ('d gsw, unit) drv" where
  "rtk_stat_logging_counter_reset idx = thenE RTK_CHK_INIT_STATE
     (if idx > RTL8367C_MIB_MAX_LOG_CNT_IDX then errE RT_ERR_OUT_OF_RANGE
      else rtl8367c_setAsicMIBsResetLoggingCounter idx)"

definition rtk_stat_logging_counter_get :: "u32 \<Rightarrow> outptr \<Rightarrow> ('d gsw, u32) drv" where
  "rtk_stat_logging_counter_get idx pCnt = thenE RTK_CHK_INIT_STATE (thenE (not_null pCnt)
     (if idx > RTL8367C_MIB_MAX_LOG_CNT_IDX then errE RT_ERR_OUT_OF_RANGE
      else rtl8367c_getAsicMIBsLogCounter idx))"

definition rtk_stat_lengthMode_set :: "u32 \<Rightarrow> u32 \<Rightarrow> ('d gsw, unit) drv" where
  "rtk_stat_lengthMode_set txMode rxMode = thenE RTK_CHK_INIT_STATE
     (if txMode \<ge> 2 then errE RT_ERR_INPUT
      else if rxMode \<ge> 2 then errE RT_ERR_INPUT
      else rtl8367c_setAsicMIBsLength txMode rxMode)"

definition rtk_stat_lengthMode_get :: "outptr \<Rightarrow> outptr \<Rightarrow> ('d gsw, u32 \<times> u32) drv" where
  "rtk_stat_lengthMode_get pTxMode pRxMode = thenE RTK_CHK_INIT_STATE
     (thenE (not_null pTxMode) (thenE (not_null pRxMode) rtl8367c_getAsicMIBsLength))"

section \<open>Where the counters lie\<close>

text \<open>The words of a counter: those from its offset on, as many as its length says.\<close>

definition counter_words :: "u32 \<Rightarrow> u32 \<Rightarrow> nat set" where
  "counter_words port idx = {unat (mib_offset port idx) ..< unat (mib_offset port idx) + unat (mibLength ! unat idx)}"

definition mib_prefix :: "nat \<Rightarrow> nat" where
  "mib_prefix n = sum_list (take n (map unat mibLength))"

definition mib_base :: "u32 \<Rightarrow> nat" where
  "mib_base port = 124 * unat port + (if port > 7 then 68 else 0)"

lemma mibLength_length: "length mibLength = 59"
  by (simp add: mibLength_def)

lemma mib_prefix_Suc: "n < 59 \<Longrightarrow> mib_prefix (Suc n) = mib_prefix n + unat (mibLength ! n)"
  by (simp add: mib_prefix_def take_Suc_conv_app_nth mibLength_length)

lemma mib_prefix_next: "n < m \<Longrightarrow> m \<le> 58 \<Longrightarrow> mib_prefix n + unat (mibLength ! n) \<le> mib_prefix m"
proof (induction m)
  case (Suc m)
  then show ?case
    using mib_prefix_Suc [of m] by (cases "n = m") auto
qed simp

lemma mib_prefix_58: "mib_prefix 58 = 122"
  by code_simp

text \<open>Every counter lies within one row of four words.\<close>

lemma mib_rows:
  assumes "n < 58"
  shows "mib_prefix n mod 4 + unat (mibLength ! n) \<le> 4" and "even (mib_prefix n)"
    and "mibLength ! n = 2 \<or> mibLength ! n = 4"
proof -
  have "list_all (\<lambda>n. mib_prefix n mod 4 + unat (mibLength ! n) \<le> 4 \<and> even (mib_prefix n) \<and>
      (mibLength ! n = 2 \<or> mibLength ! n = 4)) [0..<58]" by code_simp
  with assms show "mib_prefix n mod 4 + unat (mibLength ! n) \<le> 4" "even (mib_prefix n)"
    "mibLength ! n = 2 \<or> mibLength ! n = 4" by (auto simp: list_all_iff)
qed

lemma mib_prefix_le: "n \<le> 58 \<Longrightarrow> mib_prefix n \<le> 122"
  using mib_prefix_next [of n 58] mib_prefix_58 by (cases "n = 58") auto

lemma unat_fold_add:
  "unat x + sum_list (map (\<lambda>i. unat (f i)) is) < 2 ^ 32 \<Longrightarrow>
   unat (fold (\<lambda>i off. off + f i) is (x :: u32)) = unat x + sum_list (map (\<lambda>i. unat (f i)) is)"
proof (induction "is" arbitrary: x)
  case (Cons i "is")
  then have "unat (x + f i) = unat x + unat (f i)" by (simp add: unat_word_ariths)
  with Cons.IH [of "x + f i"] Cons.prems show ?case by simp
qed simp

lemma mib_offset_nat:
  assumes "port \<le> 10" and "unat idx \<le> 58"
  shows "unat (mib_offset port idx) = mib_base port + mib_prefix (unat idx)"
proof -
  let ?b = "let off = 0x7C * port in if port > 7 then off + 68 else off :: u32"
  have p: "unat port \<le> 10" using assms(1) by (simp add: word_le_nat_alt)
  then have b: "unat ?b = mib_base port"
    by (auto simp: mib_base_def Let_def unat_word_ariths word_less_nat_alt)
  have "map (\<lambda>i. unat (mibLength ! i)) [0..<unat idx] = take (unat idx) (map unat mibLength)"
    using assms(2) by (simp add: list_eq_iff_nth_eq mibLength_length)
  then have s: "sum_list (map (\<lambda>i. unat (mibLength ! i)) [0..<unat idx]) = mib_prefix (unat idx)"
    by (simp add: mib_prefix_def)
  have "mib_base port + mib_prefix (unat idx) < 2 ^ 32"
    using p mib_prefix_le [OF assms(2)] by (simp add: mib_base_def)
  with unat_fold_add [of ?b "\<lambda>i. mibLength ! i" "[0..<unat idx]"] b s show ?thesis
    by (simp add: mib_offset_def)
qed

section \<open>The contract of the counter SRAM\<close>

record mib_view =
  mv_mem :: "u32 \<Rightarrow> nat \<Rightarrow> u16"
  mv_latch :: "nat \<Rightarrow> u16"
  mv_busy :: nat

definition mib_contract :: "'d mii_bus \<Rightarrow> ('d \<Rightarrow> mib_view) \<Rightarrow> bool" where
  "mib_contract B view \<longleftrightarrow>
     \<comment> \<open>writing the address prepares the row\<close>
     (\<forall>d. \<forall>v \<le> 0xFFFF. mv_mem (view (mdio_wr B RTL8367C_REG_MIB_ADDRESS v d)) = mv_mem (view d) \<and>
        mv_latch (view (mdio_wr B RTL8367C_REG_MIB_ADDRESS v d)) = mv_mem (view d) v \<and>
        mv_busy (view (mdio_wr B RTL8367C_REG_MIB_ADDRESS v d)) < 100) \<and>
     \<comment> \<open>the control register counts the busy time down\<close>
     (\<forall>d. (bit (fst (mdio_rd B RTL8367C_REG_MIB_CTRL0 d)) 0 \<longleftrightarrow> mv_busy (view d) > 0) \<and>
        \<not> bit (fst (mdio_rd B RTL8367C_REG_MIB_CTRL0 d)) 1 \<and>
        view (snd (mdio_rd B RTL8367C_REG_MIB_CTRL0 d)) = (view d)\<lparr>mv_busy := mv_busy (view d) - 1\<rparr>) \<and>
     \<comment> \<open>the counter registers show the prepared row\<close>
     (\<forall>d. \<forall>i < 4. mv_busy (view d) = 0 \<longrightarrow>
        fst (mdio_rd B (RTL8367C_REG_MIB_COUNTER0 + of_nat i) d) = ucast (mv_latch (view d) i) \<and>
        view (snd (mdio_rd B (RTL8367C_REG_MIB_COUNTER0 + of_nat i) d)) = view d)"

text \<open>Driver states that differ in the device only.\<close>

definition mib_same :: "('d \<Rightarrow> mib_view) \<Rightarrow> 'd gsw \<Rightarrow> 'd gsw \<Rightarrow> bool" where
  "mib_same view s s' \<longleftrightarrow> (\<exists>d. s' = s\<lparr>gsw_dev := d\<rparr> \<and> mv_mem (view d) = mv_mem (view (gsw_dev s)))"

lemma mib_same_refl [simp]: "mib_same view s s"
  unfolding mib_same_def by (rule exI [of _ "gsw_dev s"]) simp

lemma mib_same_trans: "mib_same view s s' \<Longrightarrow> mib_same view s' s'' \<Longrightarrow> mib_same view s s''"
  by (auto simp: mib_same_def)

lemma mib_same_keeps:
  assumes "mib_same view s s'"
  shows "gsw_bus s' = gsw_bus s" and "ready s' h = ready s h" and "mv_mem (view (gsw_dev s')) = mv_mem (view (gsw_dev s))"
  using assms by (auto simp: mib_same_def ready_def)

lemma mib_poll_run:
  assumes "mib_contract (gsw_bus s) view" and "mv_busy (view (gsw_dev s)) < n"
  shows "\<exists>r s'. mib_poll n x s = (Ok r, s') \<and> \<not> bit r 0 \<and> \<not> bit r 1 \<and> mib_same view s s' \<and>
     mv_latch (view (gsw_dev s')) = mv_latch (view (gsw_dev s)) \<and> mv_busy (view (gsw_dev s')) = 0"
  using assms
proof (induction n arbitrary: s x)
  case (Suc n)
  let ?r = "fst (mdio_rd (gsw_bus s) RTL8367C_REG_MIB_CTRL0 (gsw_dev s))"
  let ?s = "s\<lparr>gsw_dev := snd (mdio_rd (gsw_bus s) RTL8367C_REG_MIB_CTRL0 (gsw_dev s))\<rparr>"
  have rd: "rtl8367c_getAsicReg RTL8367C_REG_MIB_CTRL0 s = (Ok ?r, ?s)"
    by (simp add: rtl8367c_getAsicReg_def mapErrE_def smi_read_run)
  from Suc.prems(1) have c: "bit ?r 0 \<longleftrightarrow> mv_busy (view (gsw_dev s)) > 0" "\<not> bit ?r 1"
    "view (gsw_dev ?s) = (view (gsw_dev s))\<lparr>mv_busy := mv_busy (view (gsw_dev s)) - 1\<rparr>"
    by (simp_all add: mib_contract_def)
  have same: "mib_same view s ?s" using c(3) by (auto simp: mib_same_def)
  have busy: "(?r AND 1 = 0) = (\<not> bit ?r 0)" using and_exp_eq_0_iff_not_bit [of ?r 0] by simp
  show ?case
  proof (cases "mv_busy (view (gsw_dev s)) = 0")
    case True
    with rd c same busy show ?thesis by (auto simp: bindE_def okE_def)
  next
    case False
    with Suc.prems c have "mib_contract (gsw_bus ?s) view" "mv_busy (view (gsw_dev ?s)) < n" by simp_all
    from Suc.IH [OF this, of ?r] obtain r s' where "mib_poll n ?r ?s = (Ok r, s')" "\<not> bit r 0" "\<not> bit r 1"
      "mib_same view ?s s'" "mv_latch (view (gsw_dev s')) = mv_latch (view (gsw_dev ?s))" "mv_busy (view (gsw_dev s')) = 0" by blast
    with rd c same busy False mib_same_trans [OF same] show ?thesis by (auto simp: bindE_def)
  qed
qed simp

lemma shift_or_nat:
  assumes "unat (acc :: u64) < 2 ^ 48"
  shows "unat (push_bit 16 acc OR ucast (w :: u16)) = unat acc * 65536 + unat w"
proof -
  have "push_bit 16 acc AND (ucast w :: u64) = 0"
    by (rule bit_word_eqI) (auto simp: bit_simps dest: bit_imp_le_length)
  then have "push_bit 16 acc OR (ucast w :: u64) = push_bit 16 acc + ucast w"
    by (simp add: disjunctive_add_eq_or)
  moreover have "unat (push_bit 16 acc) = unat acc * 65536"
    using assms by (simp add: push_bit_eq_mult unat_word_ariths)
  moreover have w: "unat w < 65536" using unsigned_less [of w] by simp
  moreover have "unat (ucast w :: u64) = unat w" using w by (simp add: unsigned_ucast_eq take_bit_nat_eq_self_iff)
  ultimately show ?thesis using assms by (simp add: unat_word_ariths)
qed

lemma ucast_and_FFFF: "ucast ((ucast (w :: u16) :: u32) AND 0xFFFF) = (ucast w :: u64)"
proof -
  have m: "(0xFFFF :: u32) = mask 16" by (simp add: mask_eq_exp_minus_1)
  show ?thesis unfolding m by (rule bit_word_eqI) (auto simp: bit_simps dest: bit_imp_le_length)
qed

definition mib_value :: "(nat \<Rightarrow> u16) \<Rightarrow> nat \<Rightarrow> nat \<Rightarrow> nat" where
  "mib_value row lo n = (\<Sum>k<n. unat (row (lo + k)) * 2 ^ (16 * k))"

lemma mib_fetch_run:
  assumes "mib_contract (gsw_bus s) view" and "mv_busy (view (gsw_dev s)) = 0"
    and "lo + n \<le> 4" and "unat acc < 2 ^ (16 * (4 - n))"
  shows "\<exists>r s'. mib_fetch n (RTL8367C_REG_MIB_COUNTER0 + of_nat (lo + n) - 1) acc s = (Ok r, s') \<and>
     mib_same view s s' \<and> unat r = unat acc * 2 ^ (16 * n) + mib_value (mv_latch (view (gsw_dev s))) lo n"
  using assms
proof (induction n arbitrary: s acc)
  case 0
  then show ?case by (auto simp: okE_def mib_value_def intro: mib_same_refl)
next
  case (Suc n)
  let ?a = "RTL8367C_REG_MIB_COUNTER0 + of_nat (lo + n) :: u32" and ?w = "mv_latch (view (gsw_dev s)) (lo + n)"
  let ?s = "s\<lparr>gsw_dev := snd (mdio_rd (gsw_bus s) ?a (gsw_dev s))\<rparr>"
  let ?acc = "push_bit 16 acc OR (ucast ?w :: u64)"
  have i: "lo + n < 4" using Suc.prems(3) by simp
  from Suc.prems(1) have law: "\<And>d i. i < 4 \<Longrightarrow> mv_busy (view d) = 0 \<Longrightarrow>
      fst (mdio_rd (gsw_bus s) (RTL8367C_REG_MIB_COUNTER0 + of_nat i) d) = ucast (mv_latch (view d) i) \<and>
      view (snd (mdio_rd (gsw_bus s) (RTL8367C_REG_MIB_COUNTER0 + of_nat i) d)) = view d"
    unfolding mib_contract_def by blast
  have c: "fst (mdio_rd (gsw_bus s) ?a (gsw_dev s)) = ucast ?w" "view (gsw_dev ?s) = view (gsw_dev s)"
    using law [OF i Suc.prems(2)] by simp_all
  have "?a \<le> 0xFFFF" using i by (simp add: word_le_nat_alt unat_word_ariths unat_of_nat)
  then have rd: "rtl8367c_getAsicReg ?a s = (Ok (ucast ?w), ?s)"
    using c(1) by (simp add: rtl8367c_getAsicReg_def mapErrE_def smi_read_run)
  have wide: "ucast ((ucast ?w :: u32) AND 0xFFFF) = (ucast ?w :: u64)"
    by (rule ucast_and_FFFF)
  have acc48: "unat acc < 2 ^ 48"
    using Suc.prems(4) power_increasing [of "16 * (4 - Suc n)" 48 "2 :: nat"] by simp
  have acc: "unat ?acc = unat acc * 65536 + unat ?w" by (rule shift_or_nat [OF acc48])
  have "unat ?w < 65536" using unsigned_less [of ?w] by simp
  then have "unat ?acc < (unat acc + 1) * 65536" unfolding acc by simp
  also have "\<dots> \<le> 2 ^ (16 * (4 - Suc n)) * 2 ^ 16" using Suc.prems(4) by simp
  also have "\<dots> = 2 ^ (16 * (4 - Suc n) + 16)" by (simp only: power_add)
  also have "16 * (4 - Suc n) + 16 = 16 * (4 - n)" using i by simp
  finally have small: "unat ?acc < 2 ^ (16 * (4 - n))" .
  from Suc.IH [of ?s ?acc] Suc.prems c(2) small obtain r s' where
    r: "mib_fetch n (?a - 1) ?acc ?s = (Ok r, s')" "mib_same view ?s s'"
      "unat r = unat ?acc * 2 ^ (16 * n) + mib_value (mv_latch (view (gsw_dev s))) lo n" by auto
  have "mib_same view s ?s" using c(2) by (auto simp: mib_same_def)
  with r(2) have "mib_same view s s'" by (rule mib_same_trans [rotated])
  moreover have "unat r = unat acc * 2 ^ (16 * Suc n) + mib_value (mv_latch (view (gsw_dev s))) lo (Suc n)"
    unfolding r(3) acc by (simp add: mib_value_def algebra_simps power_add)
  moreover have "mib_fetch (Suc n) (RTL8367C_REG_MIB_COUNTER0 + of_nat (lo + Suc n) - 1) acc s = (Ok r, s')"
    using r(1) rd wide by (simp add: bindE_def algebra_simps)
  ultimately show ?case by blast
qed

text \<open>The value of a counter: its words, the least significant one first.\<close>

definition counter_start :: "u32 \<Rightarrow> u32 \<Rightarrow> nat" where
  "counter_start port idx = (if idx = dot1dTpLearnedEntryDiscards then 0x420 else unat (mib_offset port idx))"

definition sram_word :: "(u32 \<Rightarrow> nat \<Rightarrow> u16) \<Rightarrow> nat \<Rightarrow> u16" where
  "sram_word mem a = mem (of_nat (a div 4)) (a mod 4)"

definition counter_value :: "(u32 \<Rightarrow> nat \<Rightarrow> u16) \<Rightarrow> u32 \<Rightarrow> u32 \<Rightarrow> nat" where
  "counter_value mem port idx =
     (\<Sum>k < unat (mibLength ! unat idx). unat (sram_word mem (counter_start port idx + k)) * 2 ^ (16 * k))"

lemma counter_row:
  assumes "port \<le> 10" and "idx < 59"
  shows "counter_start port idx mod 4 + unat (mibLength ! unat idx) \<le> 4" and "even (counter_start port idx)"
    and "mibLength ! unat idx = 2 \<or> mibLength ! unat idx = 4" and "counter_start port idx < 2000"
proof -
  have i: "unat idx < 59" using assms(2) by (simp add: word_less_nat_alt)
  have last: "mibLength ! 58 = 2" by code_simp
  have base: "mib_base port mod 4 = 0" "mib_base port \<le> 1308"
    using assms(1) by (auto simp: mib_base_def word_le_nat_alt)
  have "counter_start port idx mod 4 + unat (mibLength ! unat idx) \<le> 4 \<and> even (counter_start port idx) \<and>
      (mibLength ! unat idx = 2 \<or> mibLength ! unat idx = 4) \<and> counter_start port idx < 2000"
  proof (cases "idx = 58")
    case False
    with i have n: "unat idx < 58" by (auto simp: word_unat_eq_iff)
    note off = mib_offset_nat [OF assms(1), of idx]
    have "(mib_base port + mib_prefix (unat idx)) mod 4 = mib_prefix (unat idx) mod 4"
      using base(1) by (metis add_0 mod_add_left_eq)
    moreover have "even (mib_base port)" using base(1) by presburger
    ultimately show ?thesis
      using mib_rows [OF n] off n False mib_prefix_le [of "unat idx"] base(2) by (simp add: counter_start_def)
  qed (simp add: counter_start_def last)
  then show "counter_start port idx mod 4 + unat (mibLength ! unat idx) \<le> 4" "even (counter_start port idx)"
    "mibLength ! unat idx = 2 \<or> mibLength ! unat idx = 4" "counter_start port idx < 2000" by simp_all
qed

lemma same_row:
  assumes "a mod 4 + k < (4 :: nat)"
  shows "(a + k) div 4 = a div 4" and "(a + k) mod 4 = a mod 4 + k"
proof -
  obtain q r where a: "a = r + 4 * q" "r < 4" by (metis mod_mult_div_eq mod_less_divisor zero_less_numeral)
  with assms have "(r + k + 4 * q) div 4 = q" "(r + k + 4 * q) mod 4 = r + k" by simp_all
  with a show "(a + k) div 4 = a div 4" "(a + k) mod 4 = a mod 4 + k" by (simp_all add: ac_simps)
qed

lemma counter_value_row:
  assumes "port \<le> 10" and "idx < 59"
  shows "counter_value mem port idx =
    mib_value (mem (of_nat (counter_start port idx div 4))) (counter_start port idx mod 4) (unat (mibLength ! unat idx))"
proof -
  show ?thesis
    using counter_row(1) [OF assms] same_row
    by (auto simp: counter_value_def mib_value_def sram_word_def intro!: sum.cong)
qed

lemma word_inc_mod4:
  assumes "unat (x :: u32) < 2000"
  shows "unat x mod 4 = 0 \<Longrightarrow> (x + 1) mod 4 = 1" and "unat x mod 4 = 2 \<Longrightarrow> (x + 1) mod 4 = 3"
proof -
  have u: "unat ((x + 1) mod 4) = (unat x + 1) mod 4"
    using assms by (simp add: unat_mod_distrib unat_word_ariths)
  show "(x + 1) mod 4 = 1" if "unat x mod 4 = 0"
    using that u mod_Suc [of "unat x" 4] by (simp add: word_unat_eq_iff)
  show "(x + 1) mod 4 = 3" if "unat x mod 4 = 2"
    using that u mod_Suc [of "unat x" 4] by (simp add: word_unat_eq_iff)
qed

lemma counter_reg:
  assumes "port \<le> 10" and "idx < 59"
  shows "(if mibLength ! unat idx = 4 then RTL8367C_REG_MIB_COUNTER0 + 3
       else RTL8367C_REG_MIB_COUNTER0 + ((if idx = 58 then 0 else mib_offset port idx) + 1) mod 4) =
     (RTL8367C_REG_MIB_COUNTER0 + of_nat (counter_start port idx mod 4 + unat (mibLength ! unat idx)) - 1 :: u32)"
proof (cases "mibLength ! unat idx = 4")
  case True
  with counter_row(1) [OF assms] show ?thesis by simp
next
  case False
  let ?x = "if idx = 58 then 0 else mib_offset port idx"
  have len: "mibLength ! unat idx = 2" using False counter_row(3) [OF assms] by simp
  have x: "unat ?x < 2000" "unat ?x mod 4 = counter_start port idx mod 4"
    using counter_row(4) [OF assms] by (auto simp: counter_start_def)
  have "counter_start port idx mod 4 = 0 \<or> counter_start port idx mod 4 = 2"
    using counter_row(2) [OF assms] by presburger
  then have "(?x + 1) mod 4 = of_nat (counter_start port idx mod 4) + 1"
    using word_inc_mod4 [OF x(1)] x(2) by (cases rule: disjE) auto
  with len show ?thesis by simp
qed

lemma getAsicMIBsCounter_run:
  assumes C: "mib_contract (gsw_bus s) view" and "port \<le> 10" and "idx < 59"
  shows "\<exists>r s'. rtl8367c_getAsicMIBsCounter port idx s = (Ok r, s') \<and> mib_same view s s' \<and>
     unat r = counter_value (mv_mem (view (gsw_dev s))) port idx"
proof -
  let ?a = "counter_start port idx" and ?n = "unat (mibLength ! unat idx)"
  let ?v = "drop_bit 2 (if idx = 58 then 0x420 else mib_offset port idx) :: u32"
  let ?d = "mdio_wr (gsw_bus s) RTL8367C_REG_MIB_ADDRESS ?v (gsw_dev s)"
  note row = counter_row [OF assms(2,3)]
  have v: "unat ?v = ?a div 4" unfolding unat_drop_bit_eq by (simp add: counter_start_def drop_bit_eq_div)
  have "unat ?v \<le> 65535" unfolding v using row(4) by simp
  then have "?v \<le> 0xFFFF" unfolding word_le_nat_alt by (simp del: unat_drop_bit_eq)
  moreover have "?v = of_nat (?a div 4)" unfolding v [symmetric] by (simp del: unat_drop_bit_eq)
  ultimately have v': "?v = of_nat (?a div 4)" "?v \<le> 0xFFFF" by blast+
  from C v'(2) have d: "mv_mem (view ?d) = mv_mem (view (gsw_dev s))" "mv_latch (view ?d) = mv_mem (view (gsw_dev s)) ?v"
    "mv_busy (view ?d) < 100" unfolding mib_contract_def by blast+
  let ?s = "s\<lparr>gsw_dev := ?d\<rparr>"
  have wr: "rtl8367c_setAsicReg RTL8367C_REG_MIB_ADDRESS ?v s = (Ok (), ?s)"
    using v'(2) by (simp add: rtl8367c_setAsicReg_def mapErrE_def smi_write_run)
  have s0: "mib_same view s ?s" using d(1) by (auto simp: mib_same_def)
  obtain r1 s1 where p: "mib_poll 100 0 ?s = (Ok r1, s1)" "\<not> bit r1 0" "\<not> bit r1 1" "mib_same view ?s s1"
    "mv_latch (view (gsw_dev s1)) = mv_latch (view ?d)" "mv_busy (view (gsw_dev s1)) = 0"
    using mib_poll_run [of ?s view 100 0] C d(3) by auto
  have C1: "mib_contract (gsw_bus s1) view" using C mib_same_keeps(1) [OF p(4)] by simp
  obtain r s2 where f: "mib_fetch ?n (RTL8367C_REG_MIB_COUNTER0 + of_nat (?a mod 4 + ?n) - 1) 0 s1 = (Ok r, s2)"
    "mib_same view s1 s2" "unat r = mib_value (mv_latch (view (gsw_dev s1))) (?a mod 4) ?n"
    using mib_fetch_run [OF C1 p(6) row(1), of 0] by auto
  have reg: "(if mibLength ! unat idx = 4 then RTL8367C_REG_MIB_COUNTER0 + 3
       else RTL8367C_REG_MIB_COUNTER0 + ((if idx = 58 then 0 else mib_offset port idx) + 1) mod 4) =
     (RTL8367C_REG_MIB_COUNTER0 + of_nat (?a mod 4 + ?n) - 1 :: u32)"
    by (rule counter_reg [OF assms(2,3)])
  have bits: "r1 AND 1 = 0" "r1 AND 2 = 0"
    using p(2,3) and_exp_eq_0_iff_not_bit [of r1 0] and_exp_eq_0_iff_not_bit [of r1 1] by simp_all
  have ifs: "(if idx = 58 then 0x420 else if idx = 58 then 0 else mib_offset port idx) =
     (if idx = 58 then 0x420 else mib_offset port idx)" by simp
  have ok: "(port > 10) = False" "(idx \<ge> 59) = False" using assms(2,3) by simp_all
  have "rtl8367c_getAsicMIBsCounter port idx s = (Ok r, s2)"
    unfolding rtl8367c_getAsicMIBsCounter_def Let_def reg ifs
    by (simp only: ok if_False thenE_def bindE_run [where m = "rtl8367c_setAsicReg _ _", OF wr]
        bindE_run [where m = "mib_poll _ _", OF p(1)] bits f(1) simp_thms)
  moreover have "unat r = counter_value (mv_mem (view (gsw_dev s))) port idx"
    using f(3) p(5) d(2) v'(1) by (simp add: counter_value_row [OF assms(2,3)])
  ultimately show ?thesis using mib_same_trans [OF mib_same_trans [OF s0 p(4)] f(2)] by blast
qed

section \<open>What the API returns\<close>

text \<open>The counters that make up a port counter of the API.\<close>

definition stat_counters :: "nat \<Rightarrow> u32 list" where
  "stat_counters idx =
     (if idx = 18 then [ifInMulticastPkts, ifOutMulticastPkts]
      else if idx = 19 then [ifInBroadcastPkts, ifOutBroadcastPkts] else [mib_asic_idx ! idx])"

definition stat_value :: "(u32 \<Rightarrow> nat \<Rightarrow> u16) \<Rightarrow> u32 \<Rightarrow> nat \<Rightarrow> nat" where
  "stat_value mem phy idx = sum_list (map (counter_value mem phy) (stat_counters idx))"

definition stat_supported :: "nat \<Rightarrow> bool" where
  "stat_supported idx \<longleftrightarrow> mib_asic_idx ! idx \<noteq> MIB_NOT_SUPPORT"

lemma mib_asic_idx_facts:
  "n < 62 \<Longrightarrow> stat_supported n \<Longrightarrow> mib_asic_idx ! n < 58"
  "mib_asic_idx ! 18 = ifInMulticastPkts" "mib_asic_idx ! 19 = ifInBroadcastPkts"
  "mib_asic_idx ! 31 = ifOutMulticastPkts" "mib_asic_idx ! 32 = ifOutBroadcastPkts"
proof -
  have "list_all (\<lambda>n. stat_supported n \<longrightarrow> mib_asic_idx ! n < 58) [0..<62]" by code_simp
  then show "n < 62 \<Longrightarrow> stat_supported n \<Longrightarrow> mib_asic_idx ! n < 58" by (auto simp: list_all_iff)
qed (code_simp)+

lemma counter_run_nat:
  assumes "mib_contract (gsw_bus s) view" and "port \<le> 10" and "idx < 58"
  shows "\<exists>s'. rtl8367c_getAsicMIBsCounter port idx s =
      (Ok (of_nat (counter_value (mv_mem (view (gsw_dev s))) port idx)), s') \<and> mib_same view s s'"
proof -
  have "idx < 59" using assms(3) by (simp add: word_less_nat_alt)
  from getAsicMIBsCounter_run [OF assms(1,2) this] obtain r s' where
    "rtl8367c_getAsicMIBsCounter port idx s = (Ok r, s')" "mib_same view s s'"
    "unat r = counter_value (mv_mem (view (gsw_dev s))) port idx" by blast
  moreover from this(3) have "r = of_nat (counter_value (mv_mem (view (gsw_dev s))) port idx)"
    by (metis of_nat_unat ucast_id)
  ultimately show ?thesis by blast
qed

lemma add_second_run:
  assumes "mib_contract (gsw_bus s) view" and "ready s h" and "valid_port h p" and "i < 62"
    and "stat_supported (unat i)"
  shows "\<exists>s'. add_second p i (of_nat n) s =
      (Ok (of_nat (n + counter_value (mv_mem (view (gsw_dev s))) (phy_of h p) (mib_asic_idx ! unat i))), s') \<and> mib_same view s s'"
proof -
  have phy: "phy_of h p \<le> 10" using assms(2,3) phy_of_le by (auto simp: ready_def)
  have "unat i < 62" using assms(4) by (simp add: word_less_nat_alt)
  note idx = mib_asic_idx_facts(1) [OF this assms(5)]
  from counter_run_nat [OF assms(1) phy idx] assms(4,5) port_L2P_run [OF assms(2) valid_port_less [OF assms(3)]]
  show ?thesis
    by (auto simp: add_second_def get_asic_mib_idx_def stat_supported_def bindE_def okE_def)
qed

lemma stat_port_get_run:
  assumes C: "mib_contract (gsw_bus s) view" and R: "ready s h" and p: "valid_port h p" and n: "n < 62"
  shows "stat_supported n \<Longrightarrow> \<exists>s'. rtk_stat_port_get p (of_nat n) PTR s =
      (Ok (of_nat (stat_value (mv_mem (view (gsw_dev s))) (phy_of h p) n)), s') \<and> mib_same view s s'"
    and "\<not> stat_supported n \<Longrightarrow> rtk_stat_port_get p (of_nat n) PTR s = (Err RT_ERR_CHIP_NOT_SUPPORTED, s)"
proof -
  let ?mem = "mv_mem (view (gsw_dev s))" and ?phy = "phy_of h p"
  have i: "unat (of_nat n :: u32) = n" "\<not> (62 :: u32) \<le> of_nat n"
    "(of_nat n :: u32) = 18 \<longleftrightarrow> n = 18" "(of_nat n :: u32) = 19 \<longleftrightarrow> n = 19"
    using n by (simp_all add: unat_of_nat word_le_nat_alt word_unat_eq_iff)
  note chk = chk_init_run [OF R] chk_port_run [OF R, of p] port_L2P_run [OF R valid_port_less [OF p]]
  show "rtk_stat_port_get p (of_nat n) PTR s = (Err RT_ERR_CHIP_NOT_SUPPORTED, s)" if "\<not> stat_supported n"
    using that chk p i by (simp add: rtk_stat_port_get_def get_asic_mib_idx_def not_null_def
        stat_supported_def thenE_def bindE_def errE_def)
  assume sup: "stat_supported n"
  have phy: "?phy \<le> 10" using R p phy_of_le by (auto simp: ready_def)
  from counter_run_nat [OF C phy mib_asic_idx_facts(1) [OF n sup]] obtain s1 where
    s1: "rtl8367c_getAsicMIBsCounter ?phy (mib_asic_idx ! n) s = (Ok (of_nat (counter_value ?mem ?phy (mib_asic_idx ! n))), s1)"
      "mib_same view s s1" by blast
  note k = mib_same_keeps [OF s1(2)]
  have C1: "mib_contract (gsw_bus s1) view" and R1: "ready s1 h" using k C R by simp_all
  have sup2: "stat_supported 31" "stat_supported 32" by code_simp+
  have second: "\<exists>s'. add_second p i (of_nat a) s1 =
      (Ok (of_nat (a + counter_value ?mem ?phy (mib_asic_idx ! unat i))), s') \<and> mib_same view s s'"
    if "i = 31 \<or> i = 32" for i a
    using that add_second_run [OF C1 R1 p, of i a] sup2 k(3) mib_same_trans [OF s1(2)] by auto
  have "\<exists>s'. bindE (if n = 18 then add_second p 31 (of_nat (counter_value ?mem ?phy (mib_asic_idx ! n)))
       else okE (of_nat (counter_value ?mem ?phy (mib_asic_idx ! n))))
       (\<lambda>cnt. if n = 19 then add_second p 32 cnt else okE cnt) s1 = (Ok (of_nat (stat_value ?mem ?phy n)), s') \<and> mib_same view s s'"
    using second [of 31 "counter_value ?mem ?phy (mib_asic_idx ! n)"] second [of 32 "counter_value ?mem ?phy (mib_asic_idx ! n)"] s1(2)
    by (auto simp: stat_value_def stat_counters_def mib_asic_idx_facts bindE_def okE_def)
  with s1(1) chk p i sup show "\<exists>s'. rtk_stat_port_get p (of_nat n) PTR s =
      (Ok (of_nat (stat_value ?mem ?phy n)), s') \<and> mib_same view s s'"
    by (simp add: rtk_stat_port_get_def get_asic_mib_idx_def not_null_def stat_supported_def thenE_def
        bindE_run [where m = "RTK_CHK_INIT_STATE"] bindE_run [where m = "RTK_CHK_PORT_VALID p"]
        bindE_run [where m = "rtk_switch_port_L2P_get p"] bindE_run [where m = "rtl8367c_getAsicMIBsCounter _ _"])
qed

section \<open>The structure of all counters\<close>

text \<open>The words of a stored counter.\<close>

definition cntr_words :: "nat \<Rightarrow> u64 \<Rightarrow> u32 list" where
  "cntr_words w v = (if w = 8 then [ucast v, ucast (drop_bit 32 v)] else [ucast v])"

text \<open>Members of four or eight bytes that need no padding between them when the first is at word \<open>p\<close>.\<close>

fun unpadded :: "nat \<Rightarrow> nat list \<Rightarrow> bool" where
  "unpadded p [] \<longleftrightarrow> True"
| "unpadded p (w # ws) \<longleftrightarrow> (w = 4 \<or> w = 8 \<and> even p) \<and> unpadded (p + w div 4) ws"

lemma length_cntr_words: "w = 4 \<or> w = 8 \<Longrightarrow> length (cntr_words w v) = w div 4"
  by (auto simp: cntr_words_def)

lemma cntr_store_run:
  assumes "w = 4 \<or> w = 8 \<and> even (length pre)" and "w div 4 \<le> length buf"
  shows "cntr_store (of_nat (w div 4)) (length pre) v (pre @ buf) s = (Ok ((pre @ cntr_words w v) @ drop (w div 4) buf), s)"
proof -
  from assms consider (one) x b where "w = 4" "buf = x # b" | (two) x y b where "w = 8" "buf = x # y # b" "even (length pre)"
    by (cases buf; cases "tl buf") auto
  then show ?thesis
    by cases (simp_all add: cntr_store_def cntr_words_def okE_def list_update_append)
qed

lemma getAll_loop_run:
  assumes get: "\<And>i s1. i \<in> set ms \<Longrightarrow> I s1 \<Longrightarrow>
      \<exists>s2. unsupportedE (rtk_stat_port_get p (of_nat i) PTR) s1 = (Ok (v i), s2) \<and> I s2"
    and len: "\<And>i. i \<in> set ms \<Longrightarrow> stat_mibLength ! i = of_nat (width i div 4)"
    and "I s" and "unpadded (length pre) (map width ms)" and "(\<Sum>i\<leftarrow>ms. width i div 4) \<le> length buf"
  shows "\<exists>s'. getAll_loop p ms (length pre) (pre @ buf) s =
      (Ok (pre @ concat (map (\<lambda>i. cntr_words (width i) (v i)) ms) @ drop (\<Sum>i\<leftarrow>ms. width i div 4) buf), s') \<and> I s'"
  using assms
proof (induction ms arbitrary: pre buf s)
  case Nil
  then show ?case by (simp add: okE_def)
next
  case (Cons i ms)
  from Cons.prems(1) [of i s] Cons.prems(3) obtain s1 where
    s1: "unsupportedE (rtk_stat_port_get p (of_nat i) PTR) s = (Ok (v i), s1)" "I s1" by auto
  let ?w = "width i" and ?pre = "pre @ cntr_words (width i) (v i)" and ?buf = "drop (width i div 4) buf"
  have w: "?w = 4 \<or> ?w = 8 \<and> even (length pre)" "unpadded (length pre + ?w div 4) (map width ms)"
    "?w div 4 \<le> length buf" "(\<Sum>i\<leftarrow>ms. width i div 4) \<le> length ?buf"
    using Cons.prems(4,5) by auto
  have l: "length ?pre = length pre + ?w div 4" using w(1) length_cntr_words [of ?w "v i"] by auto
  have "unat (of_nat (?w div 4) :: u16) = ?w div 4" using w(1) by auto
  then have step: "getAll_loop p (i # ms) (length pre) (pre @ buf) s = getAll_loop p ms (length ?pre) (?pre @ ?buf) s1"
    using s1(1) cntr_store_run [OF w(1,3), of "v i" s1] Cons.prems(2) [of i] l by (simp add: bindE_def)
  have "\<exists>s'. getAll_loop p ms (length ?pre) (?pre @ ?buf) s1 =
      (Ok (?pre @ concat (map (\<lambda>i. cntr_words (width i) (v i)) ms) @ drop (\<Sum>i\<leftarrow>ms. width i div 4) ?buf), s') \<and> I s'"
    by (rule Cons.IH) (use Cons.prems(1,2) s1(2) w(2,4) l in simp_all)
  then show ?case unfolding step by (simp add: add.commute)
qed

lemma take_bit_words: "take_bit 32 v OR push_bit 32 (take_bit 32 (drop_bit 32 v)) = take_bit 64 (v :: u64)"
  by (rule bit_word_eqI) (auto simp: bit_simps)

lemma ucast_32_take_bit: "ucast (ucast (v :: u64) :: u32) = take_bit 32 v"
  by (rule bit_word_eqI) (auto simp: bit_simps)

text \<open>Reading the members at the offsets of the layout gives back what was stored word by word.\<close>

lemma layout_read:
  assumes "unpadded (length pre) (map (\<lambda>x. snd (fst x)) xs)"
    and "buf = pre @ concat (map (\<lambda>((f, w), v). cntr_words w v) xs) @ post"
  shows "map (\<lambda>(f, a, w). (f, field_value buf a w)) (struct_layout (4 * length pre) (map fst xs)) =
     map (\<lambda>((f, w), v). (f, take_bit (8 * w) v)) xs"
  using assms
proof (induction xs arbitrary: pre)
  case (Cons x xs)
  obtain f w v where x: "x = ((f, w), v)" by (metis prod.exhaust)
  have w: "w = 4 \<or> w = 8 \<and> even (length pre)" and rest: "unpadded (length pre + w div 4) (map (\<lambda>x. snd (fst x)) xs)"
    using Cons.prems(1) x by auto
  have l: "length (pre @ cntr_words w v) = length pre + w div 4" using w length_cntr_words [of w v] by auto
  have a: "(4 * length pre + w - 1) div w * w = 4 * length pre" using w by (auto elim!: evenE)
  have "field_value buf (4 * length pre) w = take_bit (8 * w) v"
    using w Cons.prems(2) x by (auto simp: field_value_def cntr_words_def nth_append take_bit_words ucast_32_take_bit)
  moreover have "map (\<lambda>(f, a, w). (f, field_value buf a w)) (struct_layout (4 * length (pre @ cntr_words w v)) (map fst xs)) =
      map (\<lambda>((f, w), v). (f, take_bit (8 * w) v)) xs"
    by (rule Cons.IH) (use rest l Cons.prems(2) x in simp_all)
  moreover have "4 * length (pre @ cntr_words w v) = 4 * length pre + w" using l w by auto
  ultimately show ?case using a x by (simp add: Let_def)
qed simp

text \<open>The lengths that the code advances by are the sizes of the members of the structure.\<close>

lemma stat_port_cntr_facts:
  "length rtk_stat_port_cntr_t = 62"
  "map (\<lambda>x. of_nat (snd x div 4)) rtk_stat_port_cntr_t = stat_mibLength"
  "unpadded 0 (map snd rtk_stat_port_cntr_t)"
  "(\<Sum>x\<leftarrow>rtk_stat_port_cntr_t. snd x div 4) = 65"
  by code_simp+

lemma stat_port_cntr_width: "n < 62 \<Longrightarrow> snd (rtk_stat_port_cntr_t ! n) = 4 \<or> snd (rtk_stat_port_cntr_t ! n) = 8"
proof -
  have "list_all (\<lambda>n. snd (rtk_stat_port_cntr_t ! n) = 4 \<or> snd (rtk_stat_port_cntr_t ! n) = 8) [0..<62]" by code_simp
  then show "n < 62 \<Longrightarrow> ?thesis" by (auto simp: list_all_iff)
qed

lemma stat_members:
  "map (\<lambda>n. rtk_stat_port_cntr_t ! n) [0..<62] = rtk_stat_port_cntr_t"
  "map (\<lambda>n. snd (rtk_stat_port_cntr_t ! n)) [0..<62] = map snd rtk_stat_port_cntr_t"
  "(\<Sum>n\<leftarrow>[0..<62]. snd (rtk_stat_port_cntr_t ! n) div 4) = 65"
  "n < 62 \<Longrightarrow> stat_mibLength ! n = of_nat (snd (rtk_stat_port_cntr_t ! n) div 4)"
proof -
  show m: "map (\<lambda>n. rtk_stat_port_cntr_t ! n) [0..<62] = rtk_stat_port_cntr_t"
    using map_nth [of rtk_stat_port_cntr_t] stat_port_cntr_facts(1) by simp
  show "map (\<lambda>n. snd (rtk_stat_port_cntr_t ! n)) [0..<62] = map snd rtk_stat_port_cntr_t"
    using arg_cong [OF m, of "map snd"] by (simp add: o_def)
  show "(\<Sum>n\<leftarrow>[0..<62]. snd (rtk_stat_port_cntr_t ! n) div 4) = 65"
    using arg_cong [OF m, of "\<lambda>x. sum_list (map (\<lambda>y. snd y div 4) x)"] stat_port_cntr_facts(4) by (simp add: o_def)
  show "n < 62 \<Longrightarrow> stat_mibLength ! n = of_nat (snd (rtk_stat_port_cntr_t ! n) div 4)"
    using stat_port_cntr_facts(1) arg_cong [OF stat_port_cntr_facts(2), of "\<lambda>l. l ! n"] by simp
qed

lemma length_members: "length (concat (map (\<lambda>n. cntr_words (snd (rtk_stat_port_cntr_t ! n)) (v n)) [0..<62])) = 65"
proof -
  have "length (cntr_words (snd (rtk_stat_port_cntr_t ! n)) (v n)) = snd (rtk_stat_port_cntr_t ! n) div 4" if "n \<in> set [0..<62]" for n
    using that stat_port_cntr_width length_cntr_words by simp
  then have "(\<Sum>n\<leftarrow>[0..<62]. length (cntr_words (snd (rtk_stat_port_cntr_t ! n)) (v n))) = (\<Sum>n\<leftarrow>[0..<62]. snd (rtk_stat_port_cntr_t ! n) div 4)"
    by (intro arg_cong [where f = sum_list] map_cong refl)
  then show ?thesis by (simp only: length_concat map_map o_def stat_members(3))
qed

text \<open>What \<open>rtk_stat_port_getAll\<close> puts into a member: zero for a counter the chip does not have.\<close>

definition stat_report :: "(u32 \<Rightarrow> nat \<Rightarrow> u16) \<Rightarrow> u32 \<Rightarrow> nat \<Rightarrow> nat" where
  "stat_report mem phy n = (if stat_supported n then stat_value mem phy n else 0)"

lemma unsupported_get_run:
  assumes "mib_contract (gsw_bus s) view" and "ready s h" and "valid_port h p" and "n < 62" and "mib_same view s s1"
  shows "\<exists>s2. unsupportedE (rtk_stat_port_get p (of_nat n) PTR) s1 =
      (Ok (of_nat (stat_report (mv_mem (view (gsw_dev s))) (phy_of h p) n)), s2) \<and> mib_same view s s2"
proof -
  note k = mib_same_keeps [OF assms(5)]
  have "mib_contract (gsw_bus s1) view" "ready s1 h" using k assms(1,2) by simp_all
  note run = stat_port_get_run [OF this assms(3,4)]
  show ?thesis
  proof (cases "stat_supported n")
    case True
    from run(1) [OF this] obtain s2 where
      "rtk_stat_port_get p (of_nat n) PTR s1 = (Ok (of_nat (stat_value (mv_mem (view (gsw_dev s1))) (phy_of h p) n)), s2)"
      "mib_same view s1 s2" by blast
    with True k(3) mib_same_trans [OF assms(5)] show ?thesis by (auto simp: unsupportedE_def stat_report_def)
  next
    case False
    with run(2) assms(5) show ?thesis by (auto simp: unsupportedE_def stat_report_def)
  qed
qed

section \<open>Resetting counters\<close>

text \<open>The bit of \<^verbatim>\<open>MIB_CTRL0\<close> that resets the counters of a physical port.\<close>

definition reset_bit :: "u32 \<Rightarrow> nat" where
  "reset_bit phy = (if phy < 8 then unat phy + 2 else unat phy + 5)"

definition reset_write :: "nat \<Rightarrow> 'd gsw \<Rightarrow> 'd gsw" where
  "reset_write k s = s\<lparr>gsw_dev := mdio_wr (gsw_bus s) RTL8367C_REG_MIB_CTRL0
     ((fst (mdio_rd (gsw_bus s) RTL8367C_REG_MIB_CTRL0 (gsw_dev s)) AND NOT 0xEFFC) OR 2 ^ k)
     (snd (mdio_rd (gsw_bus s) RTL8367C_REG_MIB_CTRL0 (gsw_dev s)))\<rparr>"

definition reset_data :: "u32 \<Rightarrow> u32 \<Rightarrow> u32 \<Rightarrow> u32" where
  "reset_data g q m = (push_bit 11 g AND RTL8367C_GLOBAL_RESET_MASK) OR (push_bit 10 q AND RTL8367C_QM_RESET_MASK) OR
     (push_bit 2 (m AND 0xFF) AND RTL8367C_MIB_PORT07_MASK) OR push_bit 13 (drop_bit 8 m AND 7)"

lemma counter_reset_run:
  assumes "fst (mdio_rd (gsw_bus s) RTL8367C_REG_MIB_CTRL0 (gsw_dev s)) \<le> 0xFFFF"
    and "push_bit 2 (drop_bit 2 (reset_data g q m)) = 2 ^ k" and "k < 16" and "bit (0xEFFC :: u32) k"
  shows "rtl8367c_setAsicMIBsCounterReset g q m s = (Ok (), reset_write k s)"
proof -
  have shift: "bitsShift_loop 0xEFFC 0 = Some 2" by code_simp
  have bits: "RTL8367C_GLOBAL_RESET_MASK OR RTL8367C_QM_RESET_MASK OR RTL8367C_MIB_PORT07_MASK OR push_bit 13 7 = (0xEFFC :: u32)"
    by code_simp
  have le: "(2 :: u32) ^ k \<le> 0xFFFF"
    using assms(3) by (simp add: le_FFFF_iff_bits bit_exp_iff)
  have conj: "2 ^ k AND 0xEFFC = (2 ^ k :: u32)"
    using assms(4) by (auto intro!: bit_word_eqI simp: bit_and_iff bit_exp_iff)
  let ?r = "fst (mdio_rd (gsw_bus s) RTL8367C_REG_MIB_CTRL0 (gsw_dev s))"
  have fit: "(?r AND NOT 0xEFFC) OR 2 ^ k \<le> 0xFFFF"
    using assms(1) le by (auto simp: le_FFFF_iff_bits bit_simps)
  have code: "rtl8367c_setAsicMIBsCounterReset g q m = rtl8367c_setAsicRegBits RTL8367C_REG_MIB_CTRL0 0xEFFC (drop_bit 2 (reset_data g q m))"
    by (simp only: rtl8367c_setAsicMIBsCounterReset_def Let_def bits reset_data_def)
  show ?thesis
    unfolding code using assms(2) leD [OF le] conj fit shift
    by (simp add: rtl8367c_setAsicRegBits_def Let_def
        bindE_def mapErrE_def smi_read_run smi_write_run reset_write_def del: not_less)
qed

lemma reset_data_port:
  assumes "phy \<le> 10"
  shows "push_bit 2 (drop_bit 2 (reset_data 0 0 (push_bit (unat phy) 1))) = 2 ^ reset_bit phy"
    and "reset_bit phy < 16" and "bit (0xEFFC :: u32) (reset_bit phy)"
proof -
  have "list_all (\<lambda>p. push_bit 2 (drop_bit 2 (reset_data 0 0 (push_bit (unat p) 1))) = 2 ^ reset_bit p \<and>
      reset_bit p < 16 \<and> bit (0xEFFC :: u32) (reset_bit p)) all_port_ids" by code_simp
  from all_ports [OF this assms] show "push_bit 2 (drop_bit 2 (reset_data 0 0 (push_bit (unat phy) 1))) = 2 ^ reset_bit phy"
    "reset_bit phy < 16" "bit (0xEFFC :: u32) (reset_bit phy)" by blast+
qed

section \<open>A chip with counters\<close>

text \<open>A concrete device that keeps \<open>mib_contract\<close>: the latches of the MDIO protocol and a counter
  SRAM that needs one poll; it is used to evaluate the functions at concrete inputs.\<close>

record mib_dev =
  md_addr :: u32
  md_data :: u32
  md_out :: u32
  md_view :: mib_view

definition mib_sim_fetch :: "u32 \<Rightarrow> mib_dev \<Rightarrow> mib_dev" where
  "mib_sim_fetch a d = (let v = md_view d in
     if a = RTL8367C_REG_MIB_CTRL0 then d\<lparr>md_out := of_bool (mv_busy v > 0), md_view := v\<lparr>mv_busy := mv_busy v - 1\<rparr>\<rparr>
     else if a - RTL8367C_REG_MIB_COUNTER0 < 4 then d\<lparr>md_out := ucast (mv_latch v (unat (a - RTL8367C_REG_MIB_COUNTER0)))\<rparr>
     else d\<lparr>md_out := 0\<rparr>)"

definition mib_sim_write :: "u32 \<Rightarrow> u32 \<Rightarrow> u32 \<Rightarrow> mib_dev \<Rightarrow> mib_dev" where
  "mib_sim_write phy r v d =
     (if r = MDC_MDIO_ADDRESS_REG then d\<lparr>md_addr := v\<rparr>
      else if r = MDC_MDIO_DATA_WRITE_REG then d\<lparr>md_data := v\<rparr>
      else if r = MDC_MDIO_CTRL1_REG \<and> v = MDC_MDIO_READ_OP then mib_sim_fetch (md_addr d) d
      else if r = MDC_MDIO_CTRL1_REG \<and> v = MDC_MDIO_WRITE_OP \<and> md_addr d = RTL8367C_REG_MIB_ADDRESS
      then d\<lparr>md_view := (md_view d)\<lparr>mv_latch := mv_mem (md_view d) (md_data d), mv_busy := 1\<rparr>\<rparr>
      else d)"

definition mib_sim_bus :: "mib_dev mii_bus" where
  "mib_sim_bus = \<lparr>bus_read = (\<lambda>phy r d. (md_out d, d)), bus_write = mib_sim_write\<rparr>"

lemma mib_sim_contract: "mib_contract mib_sim_bus md_view"
proof -
  have "unat (RTL8367C_REG_MIB_COUNTER0 + of_nat i - RTL8367C_REG_MIB_COUNTER0 :: u32) = i"
    "(RTL8367C_REG_MIB_COUNTER0 + of_nat i :: u32) \<noteq> RTL8367C_REG_MIB_CTRL0" if "i < 4" for i
    using that by (auto simp: unat_of_nat word_unat_eq_iff unat_word_ariths)
  then show ?thesis
    by (auto simp: mib_contract_def mdio_rd_def mdio_wr_def mib_sim_bus_def mib_sim_write_def mib_sim_fetch_def Let_def
        word_less_nat_alt bit_simps)
qed

text \<open>Every word of row \<open>r\<close> holds \<open>r\<close>.\<close>

definition mib_sim :: "rtk_switch_halCtrl_t \<Rightarrow> mib_dev gsw" where
  "mib_sim h = \<lparr>gsw_bus = mib_sim_bus, gsw_dev = \<lparr>md_addr = 0, md_data = 0, md_out = 0,
       md_view = \<lparr>mv_mem = (\<lambda>r i. ucast r), mv_latch = (\<lambda>_. 0), mv_busy = 0\<rparr>\<rparr>,
     init_state = 1, halCtrl = Some h, vlan_mbrCfgVid = replicate 32 0, vlan_mbrCfgUsage = replicate 32 MBRCFG_UNUSED,
     svlan_mbrCfgUsage = replicate 64 False, svlan_mbrCfgVid = replicate 64 0, svlan_lookupType = 0\<rparr>"

lemma mib_sim_ready: "hal_wf h \<Longrightarrow> ready (mib_sim h) h" "gsw_bus (mib_sim h) = mib_sim_bus"
  "mv_mem (md_view (gsw_dev (mib_sim h))) = (\<lambda>r i. ucast r)"
  by (simp_all add: ready_def mib_sim_def)

section \<open>Properties\<close>

text \<open>
  The layout of the counter SRAM that the address computation assumes: any two counters of ports
  0 to 10 occupy disjoint words unless port and counter coincide, each lies within one row of four
  words, and none reaches into the words of the logging counters or of the global counter.
\<close>

theorem mib_layout:
  assumes "p \<le> 10" and "q \<le> 10" and "i < 58" and "j < 58"
  shows "(counter_words p i \<inter> counter_words q j \<noteq> {} \<longrightarrow> p = q \<and> i = j) \<and>
     (\<forall>a \<in> counter_words p i. a div 4 = unat (mib_offset p i) div 4) \<and>
     counter_words p i \<inter> {0x3E0 ..< 0x422} = {}"
proof -
  have n: "unat i < 58" "unat j < 58" "unat p \<le> 10" "unat q \<le> 10"
    using assms by (simp_all add: word_less_nat_alt word_le_nat_alt)
  have off: "unat (mib_offset p i) = mib_base p + mib_prefix (unat i)" "unat (mib_offset q j) = mib_base q + mib_prefix (unat j)"
    using mib_offset_nat [OF assms(1), of i] mib_offset_nat [OF assms(2), of j] n by simp_all
  have top: "mib_prefix (unat i) + unat (mibLength ! unat i) \<le> 122" "mib_prefix (unat j) + unat (mibLength ! unat j) \<le> 122"
    using mib_prefix_next [of "unat i" 58] mib_prefix_next [of "unat j" 58] n mib_prefix_58 by simp_all
  have base: "mib_base p + 124 \<le> mib_base q \<or> mib_base q + 124 \<le> mib_base p \<or> p = q"
    using n by (auto simp: mib_base_def word_less_nat_alt word_unat_eq_iff)
  have order: "unat i < unat j \<Longrightarrow> mib_prefix (unat i) + unat (mibLength ! unat i) \<le> mib_prefix (unat j)"
    "unat j < unat i \<Longrightarrow> mib_prefix (unat j) + unat (mibLength ! unat j) \<le> mib_prefix (unat i)"
    using mib_prefix_next [of "unat i" "unat j"] mib_prefix_next [of "unat j" "unat i"] n by simp_all
  have "p = q \<and> i = j" if "a \<in> counter_words p i" "a \<in> counter_words q j" for a
  proof -
    have a: "mib_base p + mib_prefix (unat i) \<le> a" "a < mib_base p + mib_prefix (unat i) + unat (mibLength ! unat i)"
      "mib_base q + mib_prefix (unat j) \<le> a" "a < mib_base q + mib_prefix (unat j) + unat (mibLength ! unat j)"
      using that by (simp_all add: counter_words_def off)
    then have "p = q" using base top by linarith
    consider "unat i < unat j" | "unat j < unat i" | "unat i = unat j" by linarith
    then have "unat i = unat j" by cases (use a order \<open>p = q\<close> in auto)
    with \<open>p = q\<close> show ?thesis by (simp add: word_unat_eq_iff)
  qed
  moreover have "a div 4 = unat (mib_offset p i) div 4" if "a \<in> counter_words p i" for a
  proof -
    have "unat (mib_offset p i) mod 4 + unat (mibLength ! unat i) \<le> 4"
    proof -
      have "i \<noteq> 58" "i < 59" using n by (auto simp: word_less_nat_alt)
      with counter_row(1) [OF assms(1), of i] show ?thesis by (simp add: counter_start_def)
    qed
    moreover have "unat (mib_offset p i) \<le> a" "a < unat (mib_offset p i) + unat (mibLength ! unat i)"
      using that by (simp_all add: counter_words_def)
    then obtain k where "a = unat (mib_offset p i) + k" "k < unat (mibLength ! unat i)"
      using le_Suc_ex by fastforce
    ultimately show ?thesis using same_row(1) [of "unat (mib_offset p i)" k] by simp
  qed
  moreover have "counter_words p i \<inter> {0x3E0 ..< 0x422} = {}"
    using top n by (auto simp: counter_words_def off mib_base_def word_less_nat_alt)
  ultimately show ?thesis by blast
qed

theorem mib_layout_witness:
  "counter_words 0 0 \<inter> counter_words 10 57 = {}"
  using mib_layout [of 0 10 0 57] by auto

text \<open>
  C20. \<open>rtk_stat_port_get\<close> returns the counter: on a chip that keeps its contract, for every port of the
  chip and every counter number, the call ends after fewer than 100 polls with the sum of the SRAM
  words that make up the counter (for multicast and broadcast frames the received plus the
  transmitted ones, modulo 2 to the 64), or with \<open>RT_ERR_CHIP_NOT_SUPPORTED\<close> for the two counters the
  chip does not have; the counters and the driver's variables are unchanged.
\<close>

theorem stat_port_get_value:
  assumes "mib_contract (gsw_bus s) view" and "ready s h" and "valid_port h p" and "n < 62"
  shows "\<exists>s'. rtk_stat_port_get p (of_nat n) PTR s =
     (if stat_supported n then Ok (of_nat (stat_value (mv_mem (view (gsw_dev s))) (phy_of h p) n))
      else Err RT_ERR_CHIP_NOT_SUPPORTED, s') \<and> mib_same view s s'"
  using stat_port_get_run [OF assms] by (cases "stat_supported n") auto

theorem stat_port_get_value_witness:
  "fst (rtk_stat_port_get 16 0 PTR (mib_sim rtl8367c_hal_Ctrl)) = Ok (186 * (1 + 2 ^ 16 + 2 ^ 32 + 2 ^ 48)) \<and>
   fst (rtk_stat_port_get 16 28 PTR (mib_sim rtl8367c_hal_Ctrl)) = Err RT_ERR_CHIP_NOT_SUPPORTED"
proof -
  have h: "hal_wf rtl8367c_hal_Ctrl" and p: "valid_port rtl8367c_hal_Ctrl 16" and sup: "stat_supported 0" "\<not> stat_supported 28"
    by code_simp+
  have c0: "counter_start (phy_of rtl8367c_hal_Ctrl 16) 0 = 744" "unat (mibLength ! 0) = 4" "mib_asic_idx ! 0 = 0" by code_simp+
  have "{..<4 :: nat} = {0, 1, 2, 3}" by auto
  with c0 have v: "(of_nat (stat_value (\<lambda>r i. ucast r) (phy_of rtl8367c_hal_Ctrl 16) 0) :: u64) = 186 * (1 + 2 ^ 16 + 2 ^ 32 + 2 ^ 48)"
    by (simp add: stat_value_def stat_counters_def counter_value_def sram_word_def)
  note c = mib_sim_contract [folded mib_sim_ready(2) [of rtl8367c_hal_Ctrl]]
  show ?thesis
    using stat_port_get_value [OF c mib_sim_ready(1) [OF h] p, of 0] stat_port_get_value [OF c mib_sim_ready(1) [OF h] p, of 28]
      sup v by (auto simp: mib_sim_ready(3))
qed

text \<open>
  C23. \<open>rtk_stat_port_getAll\<close> fills every member of the caller's structure: on a chip that keeps its
  contract, for every port of the chip and any previous contents of the 66 words of the structure (its
  members end after 65; the size is rounded up to a multiple of eight bytes), the
  call succeeds without a store outside the structure or a misaligned one, and reading the
  members of the declaration at their offsets gives, for the n-th member, the value that
  \<open>rtk_stat_port_get\<close> reports for the n-th counter (zero for the two counters the chip does not
  have), reduced modulo 2 to the number of bits of the member: the 59 members of four bytes get only the
  low 32 bits.  The word behind the last member keeps its contents, and so do the counters and the driver's
  variables.
\<close>

theorem stat_port_getAll_fields:
  assumes "mib_contract (gsw_bus s) view" and "ready s h" and "valid_port h p" and "length buf = 66"
  shows "\<exists>buf' s'. rtk_stat_port_getAll p (Some buf) s = (Ok buf', s') \<and> mib_same view s s' \<and>
     map (\<lambda>(f, a, w). (f, field_value buf' a w)) (struct_layout 0 rtk_stat_port_cntr_t) =
     map (\<lambda>n. (fst (rtk_stat_port_cntr_t ! n),
               of_nat (stat_report (mv_mem (view (gsw_dev s))) (phy_of h p) n mod 2 ^ (8 * snd (rtk_stat_port_cntr_t ! n))))) [0..<62] \<and>
     length buf' = 66 \<and> buf' ! 65 = buf ! 65"
proof -
  let ?f = rtk_stat_port_cntr_t and ?v = "\<lambda>n. of_nat (stat_report (mv_mem (view (gsw_dev s))) (phy_of h p) n) :: u64"
  let ?xs = "map (\<lambda>n. (?f ! n, ?v n)) [0..<62]"
  have fields: "map fst ?xs = ?f" using stat_members(1) by (simp add: o_def)
  have "stat_mibLength ! n = of_nat (snd (?f ! n) div 4)" if "n \<in> set [0..<62]" for n using that stat_members(4) by simp
  from getAll_loop_run [where I = "mib_same view s" and pre = "[]" and v = ?v and s = s and buf = buf and ms = "[0..<62]" and
      width = "\<lambda>n. snd (?f ! n)", OF unsupported_get_run [OF assms(1-3)] this]
  obtain s' where s': "getAll_loop p [0..<62] 0 buf s = (Ok (concat (map (\<lambda>n. cntr_words (snd (?f ! n)) (?v n)) [0..<62]) @ drop 65 buf), s')"
    "mib_same view s s'"
    using stat_port_cntr_facts(3) stat_members(2,3) assms(4) by auto
  let ?buf = "concat (map (\<lambda>n. cntr_words (snd (?f ! n)) (?v n)) [0..<62]) @ drop 65 buf"
  have "map (\<lambda>(f, a, w). (f, field_value ?buf a w)) (struct_layout (4 * length ([] :: u32 list)) (map fst ?xs)) =
      map (\<lambda>((f, w), v). (f, take_bit (8 * w) v)) ?xs"
    by (rule layout_read [where post = "drop 65 buf"]) (use stat_members(2) stat_port_cntr_facts(3) in \<open>simp_all add: o_def case_prod_beta\<close>)
  then have read: "map (\<lambda>(f, a, w). (f, field_value ?buf a w)) (struct_layout 0 ?f) =
      map (\<lambda>n. (fst (?f ! n), of_nat (stat_report (mv_mem (view (gsw_dev s))) (phy_of h p) n mod 2 ^ (8 * snd (?f ! n))))) [0..<62]"
    unfolding fields by (simp add: o_def case_prod_beta take_bit_of_nat flip: take_bit_eq_mod)
  have "length ?buf = 66 \<and> ?buf ! 65 = buf ! 65" using assms(4) length_members [of ?v] by (simp add: nth_append)
  moreover have "rtk_stat_port_getAll p (Some buf) s = (Ok ?buf, s')"
    using s'(1) chk_init_run [OF assms(2)] chk_port_run [OF assms(2), of p] assms(3)
    by (simp add: rtk_stat_port_getAll_def thenE_def bindE_run [where m = "RTK_CHK_INIT_STATE"]
        bindE_run [where m = "RTK_CHK_PORT_VALID p"])
  ultimately show ?thesis using s'(2) read by blast
qed

text \<open>The low word of \<open>ifInOctets\<close>, at offset 0, and the member \<open>dot1dBasePortDelayExceededDiscards\<close>, at
  offset 124, after a call on a structure full of ones.\<close>

theorem stat_port_getAll_fields_witness:
  "\<exists>buf'. fst (rtk_stat_port_getAll 16 (Some (replicate 66 0xFFFFFFFF)) (mib_sim rtl8367c_hal_Ctrl)) = Ok buf' \<and>
     field_value buf' 0 8 = 186 * (1 + 2 ^ 16 + 2 ^ 32 + 2 ^ 48) \<and> field_value buf' 124 4 = 0 \<and> buf' ! 65 = 0xFFFFFFFF"
proof -
  have h: "hal_wf rtl8367c_hal_Ctrl" and p: "valid_port rtl8367c_hal_Ctrl 16" and sup: "stat_supported 0" "\<not> stat_supported 28"
    by code_simp+
  have c0: "counter_start (phy_of rtl8367c_hal_Ctrl 16) 0 = 744" "unat (mibLength ! 0) = 4" "mib_asic_idx ! 0 = 0" by code_simp+
  have "{..<4 :: nat} = {0, 1, 2, 3}" by auto
  with c0 sup have v: "stat_report (\<lambda>r i. ucast r) (phy_of rtl8367c_hal_Ctrl 16) 0 = 186 * (1 + 2 ^ 16 + 2 ^ 32 + 2 ^ 48)"
    "stat_report (\<lambda>r i. ucast r) (phy_of rtl8367c_hal_Ctrl 16) 28 = 0"
    by (simp_all add: stat_report_def stat_value_def stat_counters_def counter_value_def sram_word_def)
  have layout: "struct_layout 0 rtk_stat_port_cntr_t ! 0 = (''ifInOctets'', 0, 8)"
    "struct_layout 0 rtk_stat_port_cntr_t ! 28 = (''dot1dBasePortDelayExceededDiscards'', 124, 4)"
    "length (struct_layout 0 rtk_stat_port_cntr_t) = 62" "snd (rtk_stat_port_cntr_t ! 0) = 8" "snd (rtk_stat_port_cntr_t ! 28) = 4"
    by code_simp+
  note c = mib_sim_contract [folded mib_sim_ready(2) [of rtl8367c_hal_Ctrl]]
  from stat_port_getAll_fields [OF c mib_sim_ready(1) [OF h] p, of "replicate 66 0xFFFFFFFF"] obtain buf' s' where
    run: "rtk_stat_port_getAll 16 (Some (replicate 66 0xFFFFFFFF)) (mib_sim rtl8367c_hal_Ctrl) = (Ok buf', s')" and
    read: "map (\<lambda>(f, a, w). (f, field_value buf' a w)) (struct_layout 0 rtk_stat_port_cntr_t) =
       map (\<lambda>n. (fst (rtk_stat_port_cntr_t ! n), of_nat (stat_report (\<lambda>r i. ucast r) (phy_of rtl8367c_hal_Ctrl 16) n
               mod 2 ^ (8 * snd (rtk_stat_port_cntr_t ! n))))) [0..<62]" and
    pad: "buf' ! 65 = 0xFFFFFFFF"
    by (auto simp: mib_sim_ready(3))
  have "field_value buf' 0 8 = 186 * (1 + 2 ^ 16 + 2 ^ 32 + 2 ^ 48)" "field_value buf' 124 4 = 0"
    using arg_cong [OF read, of "\<lambda>l. snd (l ! 0)"] arg_cong [OF read, of "\<lambda>l. snd (l ! 28)"] layout v by simp_all
  with run pad show ?thesis by simp
qed

text \<open>
  Resetting counters touches exactly one reset bit: when the control register reads as a 16-bit
  value, \<open>rtk_stat_port_reset\<close> writes it back with all reset bits clear but the one of the physical
  port (bits 2 to 9 for ports 0 to 7, bits 13 to 15 for ports 8 to 10), \<open>rtk_stat_global_reset\<close> with
  bit 11 and \<open>rtk_stat_queueManage_reset\<close> with bit 10.
\<close>

theorem stat_reset_bits:
  assumes "ready s h" and "valid_port h p"
    and "fst (mdio_rd (gsw_bus s) RTL8367C_REG_MIB_CTRL0 (gsw_dev s)) \<le> 0xFFFF"
  shows "rtk_stat_port_reset p s = (Ok (), reset_write (reset_bit (phy_of h p)) s) \<and>
     rtk_stat_global_reset s = (Ok (), reset_write 11 s) \<and>
     rtk_stat_queueManage_reset s = (Ok (), reset_write 10 s)"
proof -
  have phy: "phy_of h p \<le> 10" using assms(1,2) phy_of_le by (auto simp: ready_def)
  have g: "push_bit 2 (drop_bit 2 (reset_data 1 0 0)) = 2 ^ 11" "push_bit 2 (drop_bit 2 (reset_data 0 1 0)) = 2 ^ 10"
    "bit (0xEFFC :: u32) 11" "bit (0xEFFC :: u32) 10" by code_simp+
  note run = counter_reset_run [OF assms(3)]
  have "unat (phy_of h p) < 32" using phy by (simp add: word_le_nat_alt)
  moreover note run [OF reset_data_port [OF phy]] run [OF g(1) _ g(3)] run [OF g(2) _ g(4)]
  ultimately show ?thesis
    using chk_init_run [OF assms(1)] chk_port_run [OF assms(1), of p] assms(2) port_L2P_run [OF assms(1) valid_port_less [OF assms(2)]]
    by (simp add: rtk_stat_port_reset_def rtk_stat_global_reset_def rtk_stat_queueManage_reset_def thenE_def bindE_def)
qed

theorem stat_reset_bits_witness:
  "rtk_stat_port_reset 17 (mib_sim rtl8367c_hal_Ctrl) = (Ok (), reset_write 9 (mib_sim rtl8367c_hal_Ctrl))"
proof -
  have h: "hal_wf rtl8367c_hal_Ctrl" and p: "valid_port rtl8367c_hal_Ctrl 17" and b: "reset_bit (phy_of rtl8367c_hal_Ctrl 17) = 9"
    by code_simp+
  have "fst (mdio_rd (gsw_bus (mib_sim rtl8367c_hal_Ctrl)) RTL8367C_REG_MIB_CTRL0 (gsw_dev (mib_sim rtl8367c_hal_Ctrl))) \<le> 0xFFFF"
    by (simp add: mib_sim_def mib_sim_bus_def mdio_rd_def mib_sim_write_def mib_sim_fetch_def Let_def)
  from stat_reset_bits [OF mib_sim_ready(1) [OF h] p this] b show ?thesis by simp
qed

end
