(* ===== verification/Sw_Mib.thy ===== *)
theory Sw_Mib
  imports Swconfig Stat
begin

text \<open>
  The counter operations of the swconfig interface of \<open>rtl8367s.c\<close>: resetting counters and the text
  report of a port's counters, one line for each, in a buffer of 4096 bytes.
\<close>

section \<open>Operations\<close>

definition rtl8367c_mib_counters :: "string list" where
  "rtl8367c_mib_counters =
    [''ifInOctets'', ''dot3StatsFCSErrors'', ''dot3StatsSymbolErrors'', ''dot3InPauseFrames'',
     ''dot3ControlInUnknownOpcodes'', ''etherStatsFragments'', ''etherStatsJabbers'',
     ''ifInUcastPkts'', ''etherStatsDropEvents'', ''etherStatsOctets'',
     ''etherStatsUndersizePkts'', ''etherStatsOversizePkts'', ''etherStatsPkts64Octets'',
     ''etherStatsPkts65to127Octets'', ''etherStatsPkts128to255Octets'',
     ''etherStatsPkts256to511Octets'', ''etherStatsPkts512to1023Octets'',
     ''etherStatsPkts1024toMaxOctets'', ''etherStatsMcastPkts'', ''etherStatsBcastPkts'',
     ''ifOutOctets'', ''dot3StatsSingleCollisionFrames'', ''dot3StatsMultipleCollisionFrames'',
     ''dot3StatsDeferredTransmissions'', ''dot3StatsLateCollisions'', ''etherStatsCollisions'',
     ''dot3StatsExcessiveCollisions'', ''dot3OutPauseFrames'',
     ''dot1dBasePortDelayExceededDiscards'', ''dot1dTpPortInDiscards'', ''ifOutUcastPkts'',
     ''ifOutMulticastPkts'', ''ifOutBrocastPkts'', ''outOampduPkts'', ''inOampduPkts'',
     ''pktgenPkts'', ''inMldChecksumError'', ''inIgmpChecksumError'', ''inMldSpecificQuery'',
     ''inMldGeneralQuery'', ''inIgmpSpecificQuery'', ''inIgmpGeneralQuery'', ''inMldLeaves'',
     ''inIgmpLeaves'', ''inIgmpJoinsSuccess'', ''inIgmpJoinsFail'', ''inMldJoinsSuccess'',
     ''inMldJoinsFail'', ''inReportSuppressionDrop'', ''inLeaveSuppressionDrop'',
     ''outIgmpReports'', ''outIgmpLeaves'', ''outIgmpGeneralQuery'', ''outIgmpSpecificQuery'',
     ''outMldReports'', ''outMldLeaves'', ''outMldGeneralQuery'', ''outMldSpecificQuery'',
     ''inKnownMulticastPkts'', ''ifInMulticastPkts'', ''ifInBroadcastPkts'', ''ifOutDiscards'']"

definition rtl8367c_reset_mibs :: "('d gsw, int) drv" where
  "rtl8367c_reset_mibs = bindE (codeE () rtk_stat_global_reset) (\<lambda>(err, _). okE err)"

definition rtl8367c_reset_port_mibs :: "int \<Rightarrow> ('d gsw, int) drv" where
  "rtl8367c_reset_port_mibs port = bindE (rtl8367c_sw_to_phy_port port) (\<lambda>p.
     bindE (codeE () (rtk_stat_port_reset p)) (\<lambda>(err, _). okE err))"

definition rtl8367c_get_mibs_num :: nat where
  "rtl8367c_get_mibs_num = length rtl8367c_mib_counters"

definition rtl8367c_get_mib_name :: "nat \<Rightarrow> ('s, string) drv" where
  "rtl8367c_get_mib_name idx = indexE rtl8367c_mib_counters idx"

definition rtl8367c_get_port_mib_counter :: "nat \<Rightarrow> int \<Rightarrow> ('d gsw, int \<times> u64) drv" where
  "rtl8367c_get_port_mib_counter idx port = bindE (rtl8367c_sw_to_phy_port port) (\<lambda>p.
     codeE 0 (rtk_stat_port_get p (of_nat idx) PTR))"

definition rtl8367_sw_reset_mibs :: "('d gsw, int) drv" where
  "rtl8367_sw_reset_mibs = rtl8367c_reset_mibs"

definition rtl8367_sw_reset_port_mibs :: "u32 \<Rightarrow> ('d gsw, int) drv" where
  "rtl8367_sw_reset_port_mibs port_vlan =
     (let port = sint port_vlan
      in if port \<ge> int RTL8367C_NUM_PORTS then okE (- EINVAL) else rtl8367c_reset_port_mibs port)"

text \<open>The conversion \<^verbatim>\<open>%-36s\<close>.\<close>

definition pad_right :: "nat \<Rightarrow> string \<Rightarrow> string" where
  "pad_right w str = str @ replicate (w - length str) CHR '' ''"

definition mib_line :: "u32 \<Rightarrow> nat \<Rightarrow> string \<times> nat \<Rightarrow> ('d gsw, string \<times> nat) drv" where
  "mib_line port_vlan i b =
     bindE (rtl8367c_get_mib_name i) (\<lambda>name.
     bindE (snprintf_at 4096 (pad_right 36 name @ '': '') b) (\<lambda>b.
     bindE (rtl8367c_get_port_mib_counter i (int (unat port_vlan))) (\<lambda>(err, counter).
     if err = 0 then snprintf_at 4096 (print_base 10 (unat counter) @ [CHR 0x0A]) b
     else snprintf_at 4096 (''N/A'' @ [CHR 0x0A]) b)))"

definition rtl8367_sw_get_port_mib :: "u32 \<Rightarrow> ('d gsw, int \<times> (string \<times> nat)) drv" where
  "rtl8367_sw_get_port_mib port_vlan =
     (if port_vlan \<ge> of_nat RTL8367C_NUM_PORTS then okE (- EINVAL, ([], 0))
      else bindE (snprintf_at 4096 (''Port '' @ print_base 10 (unat port_vlan) @ '' MIB counters'' @ [CHR 0x0A]) ([], 0)) (\<lambda>b.
        bindE (foldE (mib_line port_vlan) [0..<rtl8367c_get_mibs_num] b) (\<lambda>b. okE (0, b))))"

section \<open>The text of the report\<close>

definition counter_text :: "(u32 \<Rightarrow> nat \<Rightarrow> u16) \<Rightarrow> u32 \<Rightarrow> nat \<Rightarrow> string" where
  "counter_text mem phy i = pad_right 36 (rtl8367c_mib_counters ! i) @ '': '' @
     (if stat_supported i then print_base 10 (stat_value mem phy i mod 2 ^ 64) else ''N/A'') @ [CHR 0x0A]"

definition mib_report :: "(u32 \<Rightarrow> nat \<Rightarrow> u16) \<Rightarrow> u32 \<Rightarrow> u32 \<Rightarrow> string" where
  "mib_report mem phy port_vlan = ''Port '' @ print_base 10 (unat port_vlan) @ '' MIB counters'' @ [CHR 0x0A] @
     concat (map (counter_text mem phy) [0..<62])"

lemma mib_names: "length rtl8367c_mib_counters = 62" "i < 62 \<Longrightarrow> length (rtl8367c_mib_counters ! i) \<le> 36"
proof -
  show "length rtl8367c_mib_counters = 62" by (simp add: rtl8367c_mib_counters_def)
  have "list_all (\<lambda>x. length x \<le> 36) rtl8367c_mib_counters" by (simp add: rtl8367c_mib_counters_def)
  then show "i < 62 \<Longrightarrow> length (rtl8367c_mib_counters ! i) \<le> 36"
    using \<open>length rtl8367c_mib_counters = 62\<close> by (simp add: list_all_length)
qed

lemma u64_text: "length (print_base 10 (n mod 2 ^ 64)) \<le> 20"
  by (rule print_base_length [of 10 _ 19, simplified]) (auto intro: less_trans [of _ "2 ^ 64"])

lemma length_concat_le: "\<forall>x \<in> set xs. length (f x) \<le> m \<Longrightarrow> length (concat (map f xs)) \<le> m * length xs"
  by (induction xs) (auto simp: add_mono)

lemma counter_text_length: "i < 62 \<Longrightarrow> length (counter_text mem phy i) \<le> 59"
  using mib_names(2) [of i] u64_text [of "stat_value mem phy i"] by (auto simp: counter_text_def pad_right_def)

lemma mib_line_run:
  assumes C: "mib_contract (gsw_bus s) view" and R: "ready s rtl8367c_hal_Ctrl" and p: "unat p < 7" and i: "i < 62"
    and "n = length buf" and "n + 59 < 4096"
  shows "\<exists>s'. mib_line p i (buf, n) s =
     (Ok (buf @ counter_text (mv_mem (view (gsw_dev s))) (phy_of rtl8367c_hal_Ctrl (rtl8367c_port_id ! unat p)) i,
          n + length (counter_text (mv_mem (view (gsw_dev s))) (phy_of rtl8367c_hal_Ctrl (rtl8367c_port_id ! unat p)) i)), s') \<and>
     mib_same view s s'"
proof -
  let ?t = "counter_text (mv_mem (view (gsw_dev s))) (phy_of rtl8367c_hal_Ctrl (rtl8367c_port_id ! unat p)) i"
  let ?v = "stat_value (mv_mem (view (gsw_dev s))) (phy_of rtl8367c_hal_Ctrl (rtl8367c_port_id ! unat p)) i"
  have name: "rtl8367c_get_mib_name i = (okE (rtl8367c_mib_counters ! i) :: ('s, string) drv)"
    using i mib_names(1) by (simp add: rtl8367c_get_mib_name_def)
  have head: "length (pad_right 36 (rtl8367c_mib_counters ! i) @ '': '') = 38"
    using mib_names(2) [OF i] by (simp add: pad_right_def)
  note run = stat_port_get_run [OF C R sw_port_ok(2) [OF p] i]
  have v: "unat (of_nat ?v :: u64) = ?v mod 2 ^ 64" by (simp add: unat_of_nat)
  obtain s' where s': "rtl8367c_get_port_mib_counter i (int (unat p)) s =
      (Ok (if stat_supported i then 0 else 13, if stat_supported i then of_nat ?v else 0), s')" "mib_same view s s'"
    using run by (cases "stat_supported i")
      (auto simp: rtl8367c_get_port_mib_counter_def sw_port_ok(1) [OF p] codeE_def simp del: of_nat_unat)
  have "mib_line p i (buf, n) s = (Ok (buf @ ?t, n + length ?t), s')"
    using assms(5,6) u64_text [of ?v] head
    unfolding mib_line_def name bindE_okE snprintf_at_fits [OF assms(5), of "pad_right 36 (rtl8367c_mib_counters ! i) @ '': ''" 4096]
    by (auto simp: bindE_run [where m = "rtl8367c_get_port_mib_counter _ _", OF s'(1)] snprintf_at_fits v okE_def counter_text_def
        simp del: of_nat_unat)
  with s'(2) show ?thesis by blast
qed

lemma mib_lines_run:
  assumes "mib_contract (gsw_bus s) view" and "ready s rtl8367c_hal_Ctrl" and p: "unat p < 7" and "set is \<subseteq> {..<62}"
    and "n = length buf" and "n + 59 * length is < 4096"
  shows "\<exists>s'. foldE (mib_line p) is (buf, n) s =
     (let t = concat (map (counter_text (mv_mem (view (gsw_dev s))) (phy_of rtl8367c_hal_Ctrl (rtl8367c_port_id ! unat p))) is)
      in (Ok (buf @ t, n + length t), s')) \<and> mib_same view s s'"
  using assms
proof (induction "is" arbitrary: buf n s)
  case (Cons i "is")
  let ?t = "counter_text (mv_mem (view (gsw_dev s))) (phy_of rtl8367c_hal_Ctrl (rtl8367c_port_id ! unat p))"
  have i: "i < 62" and len: "length (?t i) \<le> 59" using Cons.prems(4) counter_text_length by auto
  obtain s1 where s1: "mib_line p i (buf, n) s = (Ok (buf @ ?t i, n + length (?t i)), s1)" "mib_same view s s1"
    using mib_line_run [OF Cons.prems(1,2) p i Cons.prems(5)] Cons.prems(6) by auto
  note k = mib_same_keeps [OF s1(2)]
  from Cons.IH [of s1 "n + length (?t i)" "buf @ ?t i"] Cons.prems k len obtain s2 where
    "foldE (mib_line p) is (buf @ ?t i, n + length (?t i)) s1 =
       (Ok (buf @ ?t i @ concat (map ?t is), n + length (?t i) + length (concat (map ?t is))), s2)" "mib_same view s1 s2"
    by (auto simp: Let_def)
  with s1 mib_same_trans [OF s1(2)] show ?case
    by (auto simp: bindE_run [where m = "mib_line _ _ _", OF s1(1)] Let_def add.assoc)
qed (simp add: okE_def)

section \<open>Properties\<close>

text \<open>
  C21. The counter report of a switch port: on an RTL8367C that keeps its contract the report is complete,
  with its exact length, shorter than the 4096-byte buffer, one line per counter that shows its value
  or that the chip does not have it; the counters are unchanged.
\<close>

theorem mib_report_complete:
  assumes "mib_contract (gsw_bus s) view" and "ready s rtl8367c_hal_Ctrl" and "port_vlan < 7"
  shows "\<exists>s' t. rtl8367_sw_get_port_mib port_vlan s = (Ok (0, (t, length t)), s') \<and> length t < 4096 \<and>
     t = mib_report (mv_mem (view (gsw_dev s))) (phy_of rtl8367c_hal_Ctrl (rtl8367c_port_id ! unat port_vlan)) port_vlan \<and>
     mib_same view s s'"
proof -
  have p: "unat port_vlan < 7" and small: "\<not> port_vlan \<ge> of_nat 7" using assms(3) by (simp add: word_less_nat_alt, simp add: not_le)
  let ?h = "''Port '' @ print_base 10 (unat port_vlan) @ '' MIB counters'' @ [CHR 0x0A]"
  let ?t = "concat (map (counter_text (mv_mem (view (gsw_dev s))) (phy_of rtl8367c_hal_Ctrl (rtl8367c_port_id ! unat port_vlan))) [0..<62])"
  have "length (print_base 10 (unat port_vlan)) = 1" using p by (simp add: print_base.simps)
  then have h: "length ?h = 20" by simp
  have t: "length ?t \<le> 59 * 62"
    using length_concat_le [of "[0..<62]" _ 59] counter_text_length by (metis atLeastLessThan_iff atLeastLessThan_upt diff_zero length_upt)
  obtain s' where s': "foldE (mib_line port_vlan) [0..<62] (?h, 20) s = (Ok (?h @ ?t, 20 + length ?t), s')" "mib_same view s s'"
  proof -
    have "set [0..<62] \<subseteq> {..<62 :: nat}" "20 + 59 * length [0..<62] < (4096 :: nat)" by auto
    from mib_lines_run [OF assms(1,2) p this(1) h [symmetric] this(2)] show ?thesis unfolding Let_def using that by blast
  qed
  have head: "snprintf_at 4096 ?h ([], 0) = (okE (?h, 20) :: ('s, string \<times> nat) drv)"
    using snprintf_at_fits [of 0 "[]" ?h 4096] h by (simp only:) simp
  have report: "mib_report (mv_mem (view (gsw_dev s))) (phy_of rtl8367c_hal_Ctrl (rtl8367c_port_id ! unat port_vlan)) port_vlan = ?h @ ?t"
    by (simp add: mib_report_def)
  have "rtl8367_sw_get_port_mib port_vlan s = (Ok (0, (?h @ ?t, length (?h @ ?t))), s')"
    using small h unfolding rtl8367_sw_get_port_mib_def head bindE_okE rtl8367c_get_mibs_num_def mib_names(1)
    by (simp only: if_False bindE_run [where m = "foldE _ _ _", OF s'(1)] length_append okE_def)
  moreover have "length (?h @ ?t) < 4096" using h t length_append [of ?h ?t] by linarith
  ultimately show ?thesis unfolding report using s'(2) by blast
qed

theorem mib_report_complete_witness:
  "\<exists>s' t. rtl8367_sw_get_port_mib 2 (mib_sim rtl8367c_hal_Ctrl) = (Ok (0, (t, length t)), s') \<and> length t < 4096 \<and>
     take 21 t = ''Port 2 MIB counters'' @ [CHR 0x0A] @ ''i''"
proof -
  have h: "hal_wf rtl8367c_hal_Ctrl" by code_simp
  note c = mib_sim_contract [folded mib_sim_ready(2) [of rtl8367c_hal_Ctrl]]
  obtain s' t where t: "rtl8367_sw_get_port_mib 2 (mib_sim rtl8367c_hal_Ctrl) = (Ok (0, (t, length t)), s')" "length t < 4096"
    "t = mib_report (mv_mem (md_view (gsw_dev (mib_sim rtl8367c_hal_Ctrl)))) (phy_of rtl8367c_hal_Ctrl (rtl8367c_port_id ! unat (2 :: u32))) 2"
    using mib_report_complete [OF c mib_sim_ready(1) [OF h], of 2] by auto
  have two: "print_base 10 2 = ''2''" by code_simp
  have "take 21 t = ''Port 2 MIB counters'' @ [CHR 0x0A] @ ''i''"
    unfolding t(3) by (simp add: mib_report_def two upt_rec [of 0 62] counter_text_def
        rtl8367c_mib_counters_def pad_right_def)
  with t(1,2) show ?thesis by blast
qed

end
