(* ===== verification/Phy.thy ===== *)
theory Phy
  imports Switch
begin

text \<open>
  \<open>rtl8367c_asicdrv_phy.c\<close>: access to the registers of the built-in PHYs and of the SerDes, in the
  configuration \<open>MDC_MDIO_OPERATION\<close>.  A PHY register has a 16-bit OCP address; its upper six bits go
  into the prefix register, the rest and the number of the PHY select a register of the switch.  The
  SerDes registers are accessed by a command; the read polls the busy flag in a loop without bound,
  which is a partial function here: \<open>None\<close> is a call that does not return.
\<close>

section \<open>Operations\<close>

abbreviation (input) RTL8367C_REG_GPHY_OCP_MSB_0 :: u32 where "RTL8367C_REG_GPHY_OCP_MSB_0 \<equiv> 0x1D15"
abbreviation (input) RTL8367C_CFG_CPU_OCPADR_MSB_MASK :: u32 where "RTL8367C_CFG_CPU_OCPADR_MSB_MASK \<equiv> 0xFC0"
abbreviation (input) RTL8367C_PHY_REGNOMAX :: u32 where "RTL8367C_PHY_REGNOMAX \<equiv> 0x1F"
abbreviation (input) RTL8367C_PHY_BASE :: u32 where "RTL8367C_PHY_BASE \<equiv> 0x2000"
abbreviation (input) RTL8367C_REG_SDS_INDACS_CMD :: u32 where "RTL8367C_REG_SDS_INDACS_CMD \<equiv> 0x6600"
abbreviation (input) RTL8367C_REG_SDS_INDACS_ADR :: u32 where "RTL8367C_REG_SDS_INDACS_ADR \<equiv> 0x6601"
abbreviation (input) RTL8367C_REG_SDS_INDACS_DATA :: u32 where "RTL8367C_REG_SDS_INDACS_DATA \<equiv> 0x6602"

text \<open>The address of the switch register through which a PHY register is accessed.\<close>

definition phy_regAddr :: "u32 \<Rightarrow> u32 \<Rightarrow> u32" where
  "phy_regAddr phyNo ocpAddr =
     (let ocpAddr9_6 = drop_bit 6 ocpAddr AND 0xF; ocpAddr5_1 = drop_bit 1 ocpAddr AND 0x1F
      in RTL8367C_PHY_BASE OR push_bit 8 ocpAddr9_6 OR push_bit 5 phyNo OR ocpAddr5_1)"

definition rtl8367c_setAsicPHYOCPReg :: "u32 \<Rightarrow> u32 \<Rightarrow> u32 \<Rightarrow> ('d gsw, unit) drv" where
  "rtl8367c_setAsicPHYOCPReg phyNo ocpAddr ocpData =
     thenE (rtl8367c_setAsicRegBits RTL8367C_REG_GPHY_OCP_MSB_0 RTL8367C_CFG_CPU_OCPADR_MSB_MASK (drop_bit 10 (ocpAddr AND 0xFC00)))
       (rtl8367c_setAsicReg (phy_regAddr phyNo ocpAddr) ocpData)"

definition rtl8367c_getAsicPHYOCPReg :: "u32 \<Rightarrow> u32 \<Rightarrow> ('d gsw, u32) drv" where
  "rtl8367c_getAsicPHYOCPReg phyNo ocpAddr =
     thenE (rtl8367c_setAsicRegBits RTL8367C_REG_GPHY_OCP_MSB_0 RTL8367C_CFG_CPU_OCPADR_MSB_MASK (drop_bit 10 (ocpAddr AND 0xFC00)))
       (rtl8367c_getAsicReg (phy_regAddr phyNo ocpAddr))"

definition rtl8367c_setAsicPHYReg :: "u32 \<Rightarrow> u32 \<Rightarrow> u32 \<Rightarrow> ('d gsw, unit) drv" where
  "rtl8367c_setAsicPHYReg phyNo phyAddr phyData =
     (if phyAddr > RTL8367C_PHY_REGNOMAX then errE RT_ERR_PHY_REG_ID
      else rtl8367c_setAsicPHYOCPReg phyNo (0xA400 + phyAddr * 2) phyData)"

definition rtl8367c_getAsicPHYReg :: "u32 \<Rightarrow> u32 \<Rightarrow> ('d gsw, u32) drv" where
  "rtl8367c_getAsicPHYReg phyNo phyAddr =
     (if phyAddr > RTL8367C_PHY_REGNOMAX then errE RT_ERR_PHY_REG_ID
      else rtl8367c_getAsicPHYOCPReg phyNo (0xA400 + phyAddr * 2))"

definition rtl8367c_setAsicSdsReg :: "u32 \<Rightarrow> u32 \<Rightarrow> u32 \<Rightarrow> u32 \<Rightarrow> ('d gsw, unit) drv" where
  "rtl8367c_setAsicSdsReg sdsId sdsReg sdsPage value =
     thenE (rtl8367c_setAsicReg RTL8367C_REG_SDS_INDACS_DATA value)
     (thenE (rtl8367c_setAsicReg RTL8367C_REG_SDS_INDACS_ADR (push_bit 5 sdsPage OR sdsReg))
       (rtl8367c_setAsicReg RTL8367C_REG_SDS_INDACS_CMD (0x00C0 OR sdsId)))"

text \<open>The loop \<^verbatim>\<open>while(1)\<close> of \<open>rtl8367c_getAsicSdsReg\<close>.\<close>

partial_function (option) sds_wait :: "'d gsw \<Rightarrow> (unit outcome \<times> 'd gsw) option" where
  "sds_wait s = (case rtl8367c_getAsicReg RTL8367C_REG_SDS_INDACS_CMD s of (r, s') \<Rightarrow>
     (case r of Ok busy \<Rightarrow> if busy AND 0x100 = 0 then Some (Ok (), s') else sds_wait s'
      | Err e \<Rightarrow> Some (Err e, s') | Fault \<Rightarrow> Some (Fault, s')))"

definition rtl8367c_getAsicSdsReg :: "u32 \<Rightarrow> u32 \<Rightarrow> u32 \<Rightarrow> 'd gsw \<Rightarrow> (u32 outcome \<times> 'd gsw) option" where
  "rtl8367c_getAsicSdsReg sdsId sdsReg sdsPage s =
     (case thenE (rtl8367c_setAsicReg RTL8367C_REG_SDS_INDACS_ADR (push_bit 5 sdsPage OR sdsReg))
             (rtl8367c_setAsicReg RTL8367C_REG_SDS_INDACS_CMD (0x0080 OR sdsId)) s of
        (Ok _, s1) \<Rightarrow>
          (case sds_wait s1 of None \<Rightarrow> None
           | Some (Ok _, s2) \<Rightarrow> Some (rtl8367c_getAsicReg RTL8367C_REG_SDS_INDACS_DATA s2)
           | Some (Err e, s2) \<Rightarrow> Some (Err e, s2)
           | Some (Fault, s2) \<Rightarrow> Some (Fault, s2))
      | (Err e, s1) \<Rightarrow> Some (Err e, s1)
      | (Fault, s1) \<Rightarrow> Some (Fault, s1))"

section \<open>The contract of the PHYs\<close>

record phy_view =
  pv_msb :: u16
  pv_ocp :: "u32 \<Rightarrow> u32 \<Rightarrow> u16"

text \<open>The OCP address that an access with the given prefix register and switch address reaches.\<close>

definition ocp_of :: "u16 \<Rightarrow> u32 \<Rightarrow> u32" where
  "ocp_of msb ra = push_bit 10 (get_field RTL8367C_CFG_CPU_OCPADR_MSB_MASK msb) OR
     push_bit 6 (drop_bit 8 ra AND 0xF) OR push_bit 1 (ra AND 0x1F)"

definition phy_of_addr :: "u32 \<Rightarrow> u32" where
  "phy_of_addr ra = drop_bit 5 ra AND 7"

definition phy_window :: "u32 set" where
  "phy_window = {ra. 0x2000 \<le> ra \<and> ra \<le> 0x2FFF}"

text \<open>
  Not every PHY register is storage: register 31 selects the page, registers 27 and 28 are a window
  of their own, status registers are read-only, and single bits of a control register act when they
  are written (reset, restart of the auto-negotiation).  The contract therefore has two parameters: \<open>W\<close>
  gives for every OCP address the bits that keep what is written, none for the registers above, and
  \<open>Q\<close> is the set of writes, address and value, that only store: a write that selects a page, resets the PHY or
  goes through the window is not in \<open>Q\<close>.  Nothing is said of the other bits and of other writes.
\<close>

definition phy_same :: "(u32 \<Rightarrow> u16) \<Rightarrow> phy_view \<Rightarrow> phy_view \<Rightarrow> bool" where
  "phy_same W v v' \<longleftrightarrow> pv_msb v' = pv_msb v \<and> (\<forall>p a. pv_ocp v' p a AND W a = pv_ocp v p a AND W a)"

definition phy_contract :: "'d mii_bus \<Rightarrow> ('d \<Rightarrow> phy_view) \<Rightarrow> (u32 \<Rightarrow> u16) \<Rightarrow> (u32 \<times> u32) set \<Rightarrow> bool" where
  "phy_contract B view W Q \<longleftrightarrow>
     (\<forall>d. fst (mdio_rd B RTL8367C_REG_GPHY_OCP_MSB_0 d) = ucast (pv_msb (view d)) \<and>
        phy_same W (view d) (view (snd (mdio_rd B RTL8367C_REG_GPHY_OCP_MSB_0 d)))) \<and>
     (\<forall>d. \<forall>v \<le> 0xFFFF. phy_same W ((view d)\<lparr>pv_msb := ucast v\<rparr>) (view (mdio_wr B RTL8367C_REG_GPHY_OCP_MSB_0 v d))) \<and>
     (\<forall>d. \<forall>ra \<in> phy_window. let a = ocp_of (pv_msb (view d)) ra in W a \<noteq> 0 \<longrightarrow>
        fst (mdio_rd B ra d) AND ucast (W a) = ucast (pv_ocp (view d) (phy_of_addr ra) a AND W a) \<and>
        phy_same W (view d) (view (snd (mdio_rd B ra d)))) \<and>
     (\<forall>d. \<forall>ra \<in> phy_window. \<forall>v \<le> 0xFFFF. let a = ocp_of (pv_msb (view d)) ra in (a, v) \<in> Q \<longrightarrow>
        phy_same W ((view d)\<lparr>pv_ocp := (pv_ocp (view d))(phy_of_addr ra := (pv_ocp (view d) (phy_of_addr ra))(a := ucast v))\<rparr>)
          (view (mdio_wr B ra v d)))"

lemma phy_contractD:
  assumes "phy_contract B view W Q"
  shows "fst (mdio_rd B RTL8367C_REG_GPHY_OCP_MSB_0 d) = ucast (pv_msb (view d))"
    and "phy_same W (view d) (view (snd (mdio_rd B RTL8367C_REG_GPHY_OCP_MSB_0 d)))"
    and "v \<le> 0xFFFF \<Longrightarrow> phy_same W ((view d)\<lparr>pv_msb := ucast v\<rparr>) (view (mdio_wr B RTL8367C_REG_GPHY_OCP_MSB_0 v d))"
    and "ra \<in> phy_window \<Longrightarrow> a = ocp_of (pv_msb (view d)) ra \<Longrightarrow> W a \<noteq> 0 \<Longrightarrow>
      fst (mdio_rd B ra d) AND ucast (W a) = ucast (pv_ocp (view d) (phy_of_addr ra) a AND W a)"
    and "ra \<in> phy_window \<Longrightarrow> v \<le> 0xFFFF \<Longrightarrow> a = ocp_of (pv_msb (view d)) ra \<Longrightarrow> (a, v) \<in> Q \<Longrightarrow>
      phy_same W ((view d)\<lparr>pv_ocp := (pv_ocp (view d))(phy_of_addr ra := (pv_ocp (view d) (phy_of_addr ra))(a := ucast v))\<rparr>)
          (view (mdio_wr B ra v d))"
  using assms unfolding phy_contract_def Let_def by blast+

text \<open>The encoding of PHY number and register number is faithful for the eight PHY numbers.\<close>

definition phy_msb :: "u16 \<Rightarrow> u16" where
  "phy_msb w = put_field RTL8367C_CFG_CPU_OCPADR_MSB_MASK 0x29 w"

lemma phy_ocp_parts:
  assumes "r \<le> (0x1F :: u32)"
  shows "drop_bit 6 (0xA400 + r * 2) AND 0xF = 0" and "drop_bit 1 (0xA400 + r * 2) AND 0x1F = r"
    and "drop_bit 10 ((0xA400 + r * 2) AND 0xFC00) = 0x29"
proof -
  have "list_all (\<lambda>n. drop_bit 6 (0xA400 + of_nat n * 2) AND 0xF = (0 :: u32) \<and> drop_bit 1 (0xA400 + of_nat n * 2) AND 0x1F = (of_nat n :: u32) \<and>
      drop_bit 10 ((0xA400 + of_nat n * 2) AND 0xFC00) = (0x29 :: u32)) [0..<32]" by code_simp
  moreover have "unat r < 32" using assms by (simp add: word_le_nat_alt)
  ultimately have "drop_bit 6 (0xA400 + r * 2) AND 0xF = 0 \<and> drop_bit 1 (0xA400 + r * 2) AND 0x1F = r \<and>
      drop_bit 10 ((0xA400 + r * 2) AND 0xFC00) = 0x29" by (rule words_below)
  then show "drop_bit 6 (0xA400 + r * 2) AND 0xF = 0" "drop_bit 1 (0xA400 + r * 2) AND 0x1F = r"
    "drop_bit 10 ((0xA400 + r * 2) AND 0xFC00) = 0x29" by blast+
qed

lemma phy_encoding:
  assumes "p < 8" and "r \<le> 0x1F"
  shows "phy_regAddr p (0xA400 + r * 2) \<in> phy_window"
    and "phy_of_addr (phy_regAddr p (0xA400 + r * 2)) = p"
    and "drop_bit 8 (phy_regAddr p (0xA400 + r * 2)) AND 0xF = 0"
    and "phy_regAddr p (0xA400 + r * 2) AND 0x1F = r"
proof -
  let ?ra = "phy_regAddr p (0xA400 + r * 2)"
  have "p \<le> mask 3" "r \<le> mask 5"
    using assms by (simp_all add: mask_eq_exp_minus_1 word_le_nat_alt word_less_nat_alt)
  then have small: "3 \<le> k \<Longrightarrow> \<not> bit p k" "5 \<le> k \<Longrightarrow> \<not> bit r k" for k
    by (simp_all add: le_mask_iff_bits)
  define w :: u32 where "w = 0x2000"
  have ra0: "?ra = w OR push_bit 5 p OR r"
    unfolding w_def phy_regAddr_def Let_def phy_ocp_parts [OF assms(2)] by simp
  have b13: "bit w k \<longleftrightarrow> k = 13" for k
    unfolding w_def using bit_exp_iff [of 13 k, where 'a = "32 word"] by (auto dest: bit_imp_le_length)
  have ra: "bit ?ra k \<longleftrightarrow> k = 13 \<or> (5 \<le> k \<and> k < 32 \<and> bit p (k - 5)) \<or> bit r k" for k
    unfolding ra0 by (auto simp: bit_or_iff bit_push_bit_iff b13 dest: bit_imp_le_length)
  have m: "(7 :: u32) = mask 3" "(0xF :: u32) = mask 4" "(0x1F :: u32) = mask 5" by (simp_all add: mask_eq_exp_minus_1)
  have "push_bit 5 p AND r = 0" by (rule bit_word_eqI) (auto simp: bit_simps small)
  then have "push_bit 5 p OR r = push_bit 5 p + r" by (simp add: disjunctive_add_eq_or)
  moreover have "w AND (push_bit 5 p OR r) = 0"
    by (rule bit_word_eqI) (auto simp: bit_and_iff bit_or_iff bit_push_bit_iff b13 small)
  ultimately have "?ra = w + (push_bit 5 p + r)" unfolding ra0 by (simp add: disjunctive_add_eq_or)
  moreover have "unat (push_bit 5 p + r) \<le> 0xFF"
    using assms by (simp add: push_bit_eq_mult unat_word_ariths word_le_nat_alt word_less_nat_alt)
  ultimately show "?ra \<in> phy_window"
    by (simp add: w_def phy_window_def word_le_nat_alt unat_word_ariths)
  show "phy_of_addr ?ra = p" unfolding phy_of_addr_def m
    by (rule bit_word_eqI) (use small in \<open>auto simp: bit_simps ra not_le intro: ccontr\<close>)
  show "drop_bit 8 ?ra AND 0xF = 0" unfolding m
    by (rule bit_word_eqI) (auto simp: bit_simps ra small)
  show "?ra AND 0x1F = r" unfolding m
    by (rule bit_word_eqI) (use small in \<open>auto simp: bit_simps ra not_le intro: ccontr\<close>)
qed

text \<open>The OCP address of a PHY register.\<close>

definition phy_ocp :: "u32 \<Rightarrow> u32" where
  "phy_ocp r = push_bit 10 0x29 OR push_bit 6 0 OR push_bit 1 r"

lemma phy_ocp_inj:
  assumes "r \<le> 0x1F" and "r' \<le> 0x1F" and "phy_ocp r = phy_ocp r'"
  shows "r = r'"
proof -
  have "list_all (\<lambda>n. drop_bit 1 (phy_ocp (of_nat n)) AND 0x1F = of_nat n) [0..<32]" by code_simp
  from words_below [where P = "\<lambda>w. drop_bit 1 (phy_ocp w) AND 0x1F = w", OF this]
  have *: "drop_bit 1 (phy_ocp r) AND 0x1F = r" if "r \<le> 0x1F" for r
    using that by (simp only: word_le_nat_alt) simp
  show ?thesis using * [OF assms(1)] * [OF assms(2)] assms(3) by simp
qed

lemma phy_smi: "phy_contract B view W Q \<Longrightarrow> smi_contract B (\<lambda>d a. pv_msb (view d)) {RTL8367C_REG_GPHY_OCP_MSB_0}"
  using phy_contractD(1-3) by (fastforce simp: phy_same_def smi_contract_def)

lemma mask_FC0: "mask16 RTL8367C_CFG_CPU_OCPADR_MSB_MASK" "lsb_of RTL8367C_CFG_CPU_OCPADR_MSB_MASK = 6"
  using mask16_mask [of 6 6] by (simp_all add: mask_eq_exp_minus_1)

lemma set_prefix:
  assumes C: "phy_contract (gsw_bus s) view W Q"
  shows "\<exists>d. rtl8367c_setAsicRegBits RTL8367C_REG_GPHY_OCP_MSB_0 RTL8367C_CFG_CPU_OCPADR_MSB_MASK 0x29 s = (Ok (), s\<lparr>gsw_dev := d\<rparr>) \<and>
     phy_same W ((view (gsw_dev s))\<lparr>pv_msb := phy_msb (pv_msb (view (gsw_dev s)))\<rparr>) (view d)"
proof -
  let ?B = "gsw_bus s" and ?a = "RTL8367C_REG_GPHY_OCP_MSB_0" and ?d = "gsw_dev s"
  have run: "rtl8367c_setAsicRegBits ?a RTL8367C_CFG_CPU_OCPADR_MSB_MASK 0x29 s =
      (Ok (), s\<lparr>gsw_dev := put_reg ?B ?a (phy_msb (pv_msb (view ?d))) (seen_reg ?B ?a ?d)\<rparr>)"
    using setAsicRegBits_run [OF phy_smi [OF C], where a = ?a and m = RTL8367C_CFG_CPU_OCPADR_MSB_MASK and v = "0x29"] mask_FC0
    by (simp add: phy_msb_def)
  have "phy_same W ((view d)\<lparr>pv_msb := w\<rparr>) (view (mdio_wr ?B ?a (ucast w) d))" for w d
    using phy_contractD(3) [OF C, of "ucast w" d] by simp
  then have "phy_same W ((view ?d)\<lparr>pv_msb := w\<rparr>) (view (put_reg ?B ?a w (seen_reg ?B ?a ?d)))" for w
    using phy_contractD(2) [OF C, of ?d] by (simp add: put_reg_def seen_reg_def phy_same_def)
  then show ?thesis unfolding run by blast
qed

lemma phy_window_addr: "ra \<in> phy_window \<Longrightarrow> ra \<le> 0xFFFF"
  by (simp add: phy_window_def word_le_nat_alt)

lemma msb_ocp: "p < 8 \<Longrightarrow> r \<le> 0x1F \<Longrightarrow> ocp_of (phy_msb w) (phy_regAddr p (0xA400 + r * 2)) = phy_ocp r"
  using fits_mask [where w = 6 and k = 6 and v = "0x29"] mask_FC0
  by (simp add: ocp_of_def phy_encoding phy_ocp_def phy_msb_def get_put_field mask_eq_exp_minus_1)

lemma setAsicPHYReg_run:
  assumes C: "phy_contract (gsw_bus s) view W Q" and "p < 8" and "r \<le> 0x1F" and "v \<le> 0xFFFF" and "(phy_ocp r, v) \<in> Q"
  shows "\<exists>d. rtl8367c_setAsicPHYReg p r v s = (Ok (), s\<lparr>gsw_dev := d\<rparr>) \<and>
     (\<forall>q a. pv_ocp (view d) q a AND W a = (if q = p \<and> a = phy_ocp r then ucast v else pv_ocp (view (gsw_dev s)) q a) AND W a)"
proof -
  let ?ra = "phy_regAddr p (0xA400 + r * 2)"
  obtain d where d: "rtl8367c_setAsicRegBits RTL8367C_REG_GPHY_OCP_MSB_0 RTL8367C_CFG_CPU_OCPADR_MSB_MASK 0x29 s = (Ok (), s\<lparr>gsw_dev := d\<rparr>)"
    "phy_same W ((view (gsw_dev s))\<lparr>pv_msb := phy_msb (pv_msb (view (gsw_dev s)))\<rparr>) (view d)" using set_prefix [OF C] by blast
  note enc = phy_encoding [OF assms(2,3)] and addr = phy_window_addr [OF phy_encoding(1) [OF assms(2,3)]]
  have wr: "rtl8367c_setAsicReg ?ra v (s\<lparr>gsw_dev := d\<rparr>) = (Ok (), s\<lparr>gsw_dev := mdio_wr (gsw_bus s) ?ra v d\<rparr>)"
    using addr assms(4) by (simp add: rtl8367c_setAsicReg_def mapErrE_def smi_write_run not_less)
  have "ocp_of (pv_msb (view d)) ?ra = phy_ocp r" using d(2) msb_ocp [OF assms(2,3)] by (simp add: phy_same_def)
  with phy_contractD(5) [OF C enc(1) assms(4) this [symmetric] assms(5)] enc(2) d(2)
  have "\<forall>q a. pv_ocp (view (mdio_wr (gsw_bus s) ?ra v d)) q a AND W a =
      (if q = p \<and> a = phy_ocp r then ucast v else pv_ocp (view (gsw_dev s)) q a) AND W a"
    by (auto simp: phy_same_def)
  moreover have "rtl8367c_setAsicPHYReg p r v s = (Ok (), s\<lparr>gsw_dev := mdio_wr (gsw_bus s) ?ra v d\<rparr>)"
    using assms(3) wr
    by (simp only: rtl8367c_setAsicPHYReg_def not_less [symmetric] not_True_eq_False if_False rtl8367c_setAsicPHYOCPReg_def
        phy_ocp_parts(3) [OF assms(3)] thenE_def bindE_run [where m = "rtl8367c_setAsicRegBits _ _ _", OF d(1)])
  ultimately show ?thesis by blast
qed

lemma getAsicPHYReg_run:
  assumes C: "phy_contract (gsw_bus s) view W Q" and "p < 8" and "r \<le> 0x1F" and "W (phy_ocp r) \<noteq> 0"
  shows "\<exists>x. fst (rtl8367c_getAsicPHYReg p r s) = Ok x \<and>
     x AND ucast (W (phy_ocp r)) = ucast (pv_ocp (view (gsw_dev s)) p (phy_ocp r) AND W (phy_ocp r))"
proof -
  let ?ra = "phy_regAddr p (0xA400 + r * 2)"
  obtain d where d: "rtl8367c_setAsicRegBits RTL8367C_REG_GPHY_OCP_MSB_0 RTL8367C_CFG_CPU_OCPADR_MSB_MASK 0x29 s = (Ok (), s\<lparr>gsw_dev := d\<rparr>)"
    "phy_same W ((view (gsw_dev s))\<lparr>pv_msb := phy_msb (pv_msb (view (gsw_dev s)))\<rparr>) (view d)" using set_prefix [OF C] by blast
  note enc = phy_encoding [OF assms(2,3)] and addr = phy_window_addr [OF phy_encoding(1) [OF assms(2,3)]]
  have "ocp_of (pv_msb (view d)) ?ra = phy_ocp r" using d(2) msb_ocp [OF assms(2,3)] by (simp add: phy_same_def)
  with phy_contractD(4) [OF C enc(1) this [symmetric] assms(4)] enc(2) d(2)
  have "fst (mdio_rd (gsw_bus s) ?ra d) AND ucast (W (phy_ocp r)) = ucast (pv_ocp (view (gsw_dev s)) p (phy_ocp r) AND W (phy_ocp r))"
    by (simp add: phy_same_def)
  moreover have "fst (rtl8367c_getAsicReg ?ra (s\<lparr>gsw_dev := d\<rparr>)) = Ok (fst (mdio_rd (gsw_bus s) ?ra d))"
    using addr by (simp add: rtl8367c_getAsicReg_def mapErrE_def smi_read_run not_less)
  ultimately show ?thesis
    using assms(3)
    by (simp only: rtl8367c_getAsicPHYReg_def not_less [symmetric] not_True_eq_False if_False rtl8367c_getAsicPHYOCPReg_def
        phy_ocp_parts(3) [OF assms(3)] thenE_def bindE_run [where m = "rtl8367c_setAsicRegBits _ _ _", OF d(1)]) blast
qed

section \<open>The contract of the SerDes\<close>

record sds_view =
  sv_mem :: "u32 \<Rightarrow> u16 \<Rightarrow> u16"
  sv_adr :: u16
  sv_data :: u16
  sv_busy :: nat

text \<open>A command is executed at once as far as the registers are concerned; for how many polls the
  busy flag stays set is left open.\<close>

definition sds_contract :: "'d mii_bus \<Rightarrow> ('d \<Rightarrow> sds_view) \<Rightarrow> bool" where
  "sds_contract B view \<longleftrightarrow>
     (\<forall>d. \<forall>v \<le> 0xFFFF. view (mdio_wr B RTL8367C_REG_SDS_INDACS_DATA v d) = (view d)\<lparr>sv_data := ucast v\<rparr> \<and>
        view (mdio_wr B RTL8367C_REG_SDS_INDACS_ADR v d) = (view d)\<lparr>sv_adr := ucast v\<rparr>) \<and>
     (\<forall>d. \<forall>i \<le> 0x3F. \<exists>n. view (mdio_wr B RTL8367C_REG_SDS_INDACS_CMD (0x00C0 OR i) d) =
        (view d)\<lparr>sv_mem := (sv_mem (view d))(i := (sv_mem (view d) i)(sv_adr (view d) := sv_data (view d))), sv_busy := n\<rparr>) \<and>
     (\<forall>d. \<forall>i \<le> 0x3F. \<exists>n. view (mdio_wr B RTL8367C_REG_SDS_INDACS_CMD (0x0080 OR i) d) =
        (view d)\<lparr>sv_data := sv_mem (view d) i (sv_adr (view d)), sv_busy := n\<rparr>) \<and>
     (\<forall>d. (bit (fst (mdio_rd B RTL8367C_REG_SDS_INDACS_CMD d)) 8 \<longleftrightarrow> sv_busy (view d) > 0) \<and>
        view (snd (mdio_rd B RTL8367C_REG_SDS_INDACS_CMD d)) = (view d)\<lparr>sv_busy := sv_busy (view d) - 1\<rparr>) \<and>
     (\<forall>d. sv_busy (view d) = 0 \<longrightarrow>
        fst (mdio_rd B RTL8367C_REG_SDS_INDACS_DATA d) = ucast (sv_data (view d)) \<and>
        view (snd (mdio_rd B RTL8367C_REG_SDS_INDACS_DATA d)) = view d)"

lemma busy_bit: "(w :: u32) AND 0x100 = 0 \<longleftrightarrow> \<not> bit w 8"
  using and_exp_eq_0_iff_not_bit [of w 8] by simp

lemma getAsicReg_any: "a \<le> 0xFFFF \<Longrightarrow> rtl8367c_getAsicReg a s =
    (Ok (fst (mdio_rd (gsw_bus s) a (gsw_dev s))), s\<lparr>gsw_dev := snd (mdio_rd (gsw_bus s) a (gsw_dev s))\<rparr>)"
  by (simp add: rtl8367c_getAsicReg_def mapErrE_def smi_read_run not_less)

lemma setAsicReg_any: "a \<le> 0xFFFF \<Longrightarrow> v \<le> 0xFFFF \<Longrightarrow> rtl8367c_setAsicReg a v s =
    (Ok (), s\<lparr>gsw_dev := mdio_wr (gsw_bus s) a v (gsw_dev s)\<rparr>)"
  by (simp add: rtl8367c_setAsicReg_def mapErrE_def smi_write_run not_less)

text \<open>The loop returns once the flag is clear.\<close>

lemma sds_wait_run:
  assumes "sds_contract (gsw_bus s) view"
  shows "\<exists>d. sds_wait s = Some (Ok (), s\<lparr>gsw_dev := d\<rparr>) \<and> view d = (view (gsw_dev s))\<lparr>sv_busy := 0\<rparr>"
  using assms
proof (induction "sv_busy (view (gsw_dev s))" arbitrary: s)
  case 0
  from 0(2) have "\<not> bit (fst (mdio_rd (gsw_bus s) RTL8367C_REG_SDS_INDACS_CMD (gsw_dev s))) 8"
    "view (snd (mdio_rd (gsw_bus s) RTL8367C_REG_SDS_INDACS_CMD (gsw_dev s))) = (view (gsw_dev s))\<lparr>sv_busy := 0\<rparr>"
    using 0(1) [symmetric] by (simp_all add: sds_contract_def)
  then show ?case by (subst sds_wait.simps) (auto simp: getAsicReg_any busy_bit)
next
  case (Suc n)
  let ?s = "s\<lparr>gsw_dev := snd (mdio_rd (gsw_bus s) RTL8367C_REG_SDS_INDACS_CMD (gsw_dev s))\<rparr>"
  from Suc(3) have c: "bit (fst (mdio_rd (gsw_bus s) RTL8367C_REG_SDS_INDACS_CMD (gsw_dev s))) 8"
    "view (gsw_dev ?s) = (view (gsw_dev s))\<lparr>sv_busy := n\<rparr>"
    using Suc(2) [symmetric] by (simp_all add: sds_contract_def)
  from Suc(1) [of ?s] c(2) Suc(3) obtain d where "sds_wait ?s = Some (Ok (), ?s\<lparr>gsw_dev := d\<rparr>)"
    "view d = (view (gsw_dev ?s))\<lparr>sv_busy := 0\<rparr>" by auto
  with c show ?case by (subst sds_wait.simps) (auto simp: getAsicReg_any busy_bit)
qed

definition sds_adr :: "u32 \<Rightarrow> u32 \<Rightarrow> u32" where
  "sds_adr page reg = push_bit 5 page OR reg"

lemma sds_adr_bits: "reg \<le> 0x1F \<Longrightarrow> page \<le> 0x7FF \<Longrightarrow> sds_adr page reg \<le> 0xFFFF"
  "reg \<le> 0x1F \<Longrightarrow> page \<le> 0x7FF \<Longrightarrow> reg' \<le> 0x1F \<Longrightarrow> page' \<le> 0x7FF \<Longrightarrow>
   sds_adr page reg = sds_adr page' reg' \<Longrightarrow> page = page' \<and> reg = reg'"
proof -
  have m: "(0x1F :: u32) = mask 5" "(0x7FF :: u32) = mask 11" by (simp_all add: mask_eq_exp_minus_1)
  have b: "bit (sds_adr page reg) k \<longleftrightarrow> (if k < 5 then bit reg k else bit page (k - 5))"
    if "reg \<le> 0x1F" "page \<le> 0x7FF" for reg page k
  proof -
    have "\<not> bit reg k" if "5 \<le> k" for k using \<open>reg \<le> 0x1F\<close> that unfolding m le_mask_iff_bits by blast
    moreover have "\<not> bit page k" if "11 \<le> k" for k using \<open>page \<le> 0x7FF\<close> that unfolding m le_mask_iff_bits by blast
    moreover have "k < 32" if "5 \<le> k" "bit page (k - 5)"
      using that calculation(2) [of "k - 5"] by (cases "k < 32") auto
    ultimately show ?thesis by (auto simp: sds_adr_def bit_simps not_less)
  qed
  show "sds_adr page reg \<le> 0xFFFF" if r: "reg \<le> 0x1F" "page \<le> 0x7FF"
  proof -
    have "\<not> bit page k" if "11 \<le> k" for k using r(2) that unfolding m le_mask_iff_bits by blast
    then show ?thesis unfolding le_FFFF_iff_bits by (auto simp: b [OF r])
  qed
  assume r: "reg \<le> 0x1F" "page \<le> 0x7FF" and r': "reg' \<le> 0x1F" "page' \<le> 0x7FF" and eq: "sds_adr page reg = sds_adr page' reg'"
  have "bit page k = bit page' k" for k using b [OF r, of "k + 5"] b [OF r', of "k + 5"] eq by simp
  moreover have "bit reg k = bit reg' k" for k
  proof (cases "k < 5")
    case True then show ?thesis using b [OF r, of k] b [OF r', of k] eq by simp
  next
    case False then show ?thesis using r(1) r'(1) unfolding m le_mask_iff_bits by simp
  qed
  ultimately show "page = page' \<and> reg = reg'" by (auto intro: bit_word_eqI)
qed

lemma sds_commands: "i \<le> 0x3F \<Longrightarrow> 0x00C0 OR i \<le> (0xFFFF :: u32)" "i \<le> 0x3F \<Longrightarrow> 0x0080 OR i \<le> (0xFFFF :: u32)"
proof -
  have "0x00C0 \<le> (0xFFFF :: u32)" "0x0080 \<le> (0xFFFF :: u32)" by simp_all
  moreover assume "i \<le> 0x3F"
  then have "i \<le> 0xFFFF" by (simp add: word_le_nat_alt)
  ultimately show "0x00C0 OR i \<le> 0xFFFF" "0x0080 OR i \<le> 0xFFFF"
    unfolding le_FFFF_iff_bits bit_or_iff by blast+
qed

lemma getAsicSdsReg_run:
  assumes C: "sds_contract (gsw_bus s) view" and "i \<le> 0x3F" and "reg \<le> 0x1F" and "page \<le> 0x7FF"
  shows "\<exists>s'. rtl8367c_getAsicSdsReg i reg page s = Some (Ok (ucast (sv_mem (view (gsw_dev s)) i (ucast (sds_adr page reg)))), s')"
proof -
  note adr = sds_adr_bits(1) [OF assms(3,4)] and cmd = sds_commands(2) [OF assms(2)]
  let ?d1 = "mdio_wr (gsw_bus s) RTL8367C_REG_SDS_INDACS_ADR (sds_adr page reg) (gsw_dev s)"
  let ?d2 = "mdio_wr (gsw_bus s) RTL8367C_REG_SDS_INDACS_CMD (0x0080 OR i) ?d1"
  have "thenE (rtl8367c_setAsicReg RTL8367C_REG_SDS_INDACS_ADR (push_bit 5 page OR reg))
      (rtl8367c_setAsicReg RTL8367C_REG_SDS_INDACS_CMD (0x0080 OR i)) s = (Ok (), s\<lparr>gsw_dev := ?d2\<rparr>)"
    using adr cmd by (simp add: thenE_def bindE_def setAsicReg_any flip: sds_adr_def)
  moreover from C adr have v1: "view ?d1 = (view (gsw_dev s))\<lparr>sv_adr := ucast (sds_adr page reg)\<rparr>" by (simp add: sds_contract_def)
  moreover from C assms(2) obtain n where "view ?d2 = (view ?d1)\<lparr>sv_data := sv_mem (view ?d1) i (sv_adr (view ?d1)), sv_busy := n\<rparr>"
    unfolding sds_contract_def by blast
  moreover obtain d where "sds_wait (s\<lparr>gsw_dev := ?d2\<rparr>) = Some (Ok (), s\<lparr>gsw_dev := d\<rparr>)" "view d = (view ?d2)\<lparr>sv_busy := 0\<rparr>"
    using sds_wait_run [of "s\<lparr>gsw_dev := ?d2\<rparr>" view] C by auto
  moreover from this(2) C have "fst (mdio_rd (gsw_bus s) RTL8367C_REG_SDS_INDACS_DATA d) = ucast (sv_data (view d))"
    by (simp add: sds_contract_def)
  ultimately show ?thesis by (simp add: rtl8367c_getAsicSdsReg_def getAsicReg_any)
qed

lemma setAsicSdsReg_run:
  assumes C: "sds_contract (gsw_bus s) view" and "i \<le> 0x3F" and "reg \<le> 0x1F" and "page \<le> 0x7FF" and "v \<le> 0xFFFF"
  shows "\<exists>d. rtl8367c_setAsicSdsReg i reg page v s = (Ok (), s\<lparr>gsw_dev := d\<rparr>) \<and>
     sv_mem (view d) = (sv_mem (view (gsw_dev s)))(i := (sv_mem (view (gsw_dev s)) i)(ucast (sds_adr page reg) := ucast v))"
proof -
  note adr = sds_adr_bits(1) [OF assms(3,4)] and cmd = sds_commands(1) [OF assms(2)]
  let ?d0 = "mdio_wr (gsw_bus s) RTL8367C_REG_SDS_INDACS_DATA v (gsw_dev s)"
  let ?d1 = "mdio_wr (gsw_bus s) RTL8367C_REG_SDS_INDACS_ADR (sds_adr page reg) ?d0"
  let ?d2 = "mdio_wr (gsw_bus s) RTL8367C_REG_SDS_INDACS_CMD (0x00C0 OR i) ?d1"
  have "rtl8367c_setAsicSdsReg i reg page v s = (Ok (), s\<lparr>gsw_dev := ?d2\<rparr>)"
    using adr cmd assms(5) by (simp add: rtl8367c_setAsicSdsReg_def thenE_def bindE_def setAsicReg_any flip: sds_adr_def)
  moreover from C adr assms(5) have "view ?d0 = (view (gsw_dev s))\<lparr>sv_data := ucast v\<rparr>"
    "view ?d1 = (view ?d0)\<lparr>sv_adr := ucast (sds_adr page reg)\<rparr>" by (simp_all add: sds_contract_def)
  moreover from C assms(2) obtain n where
    "view ?d2 = (view ?d1)\<lparr>sv_mem := (sv_mem (view ?d1))(i := (sv_mem (view ?d1) i)(sv_adr (view ?d1) := sv_data (view ?d1))), sv_busy := n\<rparr>"
    unfolding sds_contract_def by blast
  ultimately show ?thesis by (intro exI [of _ ?d2]) simp
qed

section \<open>A chip with PHYs and SerDes\<close>

text \<open>A concrete device that keeps both contracts; it is used to evaluate the functions.\<close>

record phy_dev =
  hd_addr :: u32
  hd_data :: u32
  hd_out :: u32
  hd_phy :: phy_view
  hd_sds :: sds_view

definition phy_sim_fetch :: "u32 \<Rightarrow> phy_dev \<Rightarrow> phy_dev" where
  "phy_sim_fetch a d =
     (if a = RTL8367C_REG_GPHY_OCP_MSB_0 then d\<lparr>hd_out := ucast (pv_msb (hd_phy d))\<rparr>
      else if 0x2000 \<le> a \<and> a \<le> 0x2FFF
      then d\<lparr>hd_out := ucast (pv_ocp (hd_phy d) (phy_of_addr a) (ocp_of (pv_msb (hd_phy d)) a))\<rparr>
      else if a = RTL8367C_REG_SDS_INDACS_CMD
      then d\<lparr>hd_out := of_bool (sv_busy (hd_sds d) > 0) * 0x100, hd_sds := (hd_sds d)\<lparr>sv_busy := sv_busy (hd_sds d) - 1\<rparr>\<rparr>
      else d\<lparr>hd_out := ucast (sv_data (hd_sds d))\<rparr>)"

text \<open>The registers of a PHY after a write: bit 15 of the control register resets them all, and its bit 9,
  which restarts the auto-negotiation, is not kept.\<close>

definition phy_sim_put :: "u32 \<Rightarrow> u32 \<Rightarrow> (u32 \<Rightarrow> u16) \<Rightarrow> u32 \<Rightarrow> u16" where
  "phy_sim_put a v m =
     (if a = phy_ocp 0 then (if bit v 15 then (\<lambda>_. 0) else m(a := ucast v AND 0x7DFF)) else m(a := ucast v))"

definition phy_sim_store :: "u32 \<Rightarrow> u32 \<Rightarrow> phy_dev \<Rightarrow> phy_dev" where
  "phy_sim_store a v d =
     (if a = RTL8367C_REG_GPHY_OCP_MSB_0 then d\<lparr>hd_phy := (hd_phy d)\<lparr>pv_msb := ucast v\<rparr>\<rparr>
      else if 0x2000 \<le> a \<and> a \<le> 0x2FFF
      then d\<lparr>hd_phy := (hd_phy d)\<lparr>pv_ocp := (pv_ocp (hd_phy d))(phy_of_addr a :=
          phy_sim_put (ocp_of (pv_msb (hd_phy d)) a) v (pv_ocp (hd_phy d) (phy_of_addr a)))\<rparr>\<rparr>
      else if a = RTL8367C_REG_SDS_INDACS_DATA then d\<lparr>hd_sds := (hd_sds d)\<lparr>sv_data := ucast v\<rparr>\<rparr>
      else if a = RTL8367C_REG_SDS_INDACS_ADR then d\<lparr>hd_sds := (hd_sds d)\<lparr>sv_adr := ucast v\<rparr>\<rparr>
      else if a = RTL8367C_REG_SDS_INDACS_CMD
      then (let i = v AND 0x3F; x = hd_sds d in
        if bit v 6
        then d\<lparr>hd_sds := x\<lparr>sv_mem := (sv_mem x)(i := (sv_mem x i)(sv_adr x := sv_data x)), sv_busy := 3\<rparr>\<rparr>
        else d\<lparr>hd_sds := x\<lparr>sv_data := sv_mem x i (sv_adr x), sv_busy := 3\<rparr>\<rparr>)
      else d)"

definition phy_sim_write :: "u32 \<Rightarrow> u32 \<Rightarrow> u32 \<Rightarrow> phy_dev \<Rightarrow> phy_dev" where
  "phy_sim_write phy r v d =
     (if r = MDC_MDIO_ADDRESS_REG then d\<lparr>hd_addr := v\<rparr>
      else if r = MDC_MDIO_DATA_WRITE_REG then d\<lparr>hd_data := v\<rparr>
      else if r = MDC_MDIO_CTRL1_REG \<and> v = MDC_MDIO_READ_OP then phy_sim_fetch (hd_addr d) d
      else if r = MDC_MDIO_CTRL1_REG \<and> v = MDC_MDIO_WRITE_OP then phy_sim_store (hd_addr d) (hd_data d) d
      else d)"

definition phy_sim_bus :: "phy_dev mii_bus" where
  "phy_sim_bus = \<lparr>bus_read = (\<lambda>phy r d. (hd_out d, d)), bus_write = phy_sim_write\<rparr>"

lemma phy_sim_rd: "mdio_rd phy_sim_bus a d = (hd_out (phy_sim_fetch a (d\<lparr>hd_addr := a\<rparr>)), phy_sim_fetch a (d\<lparr>hd_addr := a\<rparr>))"
  by (simp add: mdio_rd_def phy_sim_bus_def phy_sim_write_def)

lemma phy_sim_wr: "mdio_wr phy_sim_bus a v d = phy_sim_store a v (d\<lparr>hd_addr := a, hd_data := v\<rparr>)"
  by (simp add: mdio_wr_def phy_sim_bus_def phy_sim_write_def)

text \<open>The bits of the device that are storage, in the control register and in the two registers of the
  auto-negotiation advertisement, and the writes that only store.\<close>

definition phy_sim_bits :: "u32 \<Rightarrow> u16" where
  "phy_sim_bits a = (if a = phy_ocp 0 then 0x7DFF else if a = phy_ocp 4 \<or> a = phy_ocp 9 then 0xFFFF else 0)"

definition phy_sim_stores :: "(u32 \<times> u32) set" where
  "phy_sim_stores = {(a, v). (a = phy_ocp 0 \<and> \<not> bit v 15) \<or> a = phy_ocp 4 \<or> a = phy_ocp 9}"

lemma phy_sim_put_stores:
  "(a, v) \<in> phy_sim_stores \<Longrightarrow> phy_sim_put a v m b AND phy_sim_bits b = (m(a := ucast v)) b AND phy_sim_bits b"
  using phy_ocp_inj [of 0 4] phy_ocp_inj [of 0 9]
  by (auto simp: phy_sim_stores_def phy_sim_put_def phy_sim_bits_def and.assoc)

lemma phy_sim_contract: "phy_contract phy_sim_bus hd_phy phy_sim_bits phy_sim_stores"
proof -
  have addr: "ra \<noteq> RTL8367C_REG_GPHY_OCP_MSB_0" "0x2000 \<le> ra \<and> ra \<le> 0x2FFF" if "ra \<in> phy_window" for ra
    using that by (auto simp: phy_window_def)
  show ?thesis
    unfolding phy_contract_def Let_def phy_sim_rd phy_sim_wr
    by (auto simp: phy_sim_fetch_def phy_sim_store_def phy_same_def addr phy_sim_put_stores unsigned_and_eq)
qed

lemma sds_command_bits:
  assumes "i \<le> (0x3F :: u32)"
  shows "(0x00C0 OR i) AND 0x3F = i" and "bit (0x00C0 OR i) 6" and "(0x0080 OR i) AND 0x3F = i" and "\<not> bit (0x0080 OR i) 6"
proof -
  have "list_all (\<lambda>n. (0x00C0 OR of_nat n) AND 0x3F = (of_nat n :: u32) \<and> bit (0x00C0 OR of_nat n :: u32) 6 \<and>
      (0x0080 OR of_nat n) AND 0x3F = (of_nat n :: u32) \<and> \<not> bit (0x0080 OR of_nat n :: u32) 6) [0..<64]" by code_simp
  moreover have "unat i < 64" using assms by (simp add: word_le_nat_alt)
  ultimately have "(0x00C0 OR i) AND 0x3F = i \<and> bit (0x00C0 OR i) 6 \<and> (0x0080 OR i) AND 0x3F = i \<and> \<not> bit (0x0080 OR i) 6"
    by (rule words_below)
  then show "(0x00C0 OR i) AND 0x3F = i" "bit (0x00C0 OR i) 6" "(0x0080 OR i) AND 0x3F = i" "\<not> bit (0x0080 OR i) 6" by blast+
qed

lemma sds_sim_contract: "sds_contract phy_sim_bus hd_sds"
proof -
  have cmd: "hd_sds (mdio_wr phy_sim_bus RTL8367C_REG_SDS_INDACS_CMD (0x00C0 OR i) d) =
        (hd_sds d)\<lparr>sv_mem := (sv_mem (hd_sds d))(i := (sv_mem (hd_sds d) i)(sv_adr (hd_sds d) := sv_data (hd_sds d))), sv_busy := 3\<rparr>"
    "hd_sds (mdio_wr phy_sim_bus RTL8367C_REG_SDS_INDACS_CMD (0x0080 OR i) d) =
        (hd_sds d)\<lparr>sv_data := sv_mem (hd_sds d) i (sv_adr (hd_sds d)), sv_busy := 3\<rparr>" if "i \<le> 0x3F" for i d
    unfolding phy_sim_wr phy_sim_store_def Let_def sds_command_bits [OF that]
    using sds_command_bits(2,4) [OF that] by simp_all
  have "bit (of_bool b * 0x100 :: u32) 8 = b" for b using bit_exp_iff [of 8 8, where 'a = "32 word"] by simp
  then show ?thesis
    unfolding sds_contract_def using cmd by (auto simp: phy_sim_rd phy_sim_wr phy_sim_fetch_def phy_sim_store_def)
qed

definition phy_sim :: "phy_dev gsw" where
  "phy_sim = \<lparr>gsw_bus = phy_sim_bus, gsw_dev = \<lparr>hd_addr = 0, hd_data = 0, hd_out = 0,
       hd_phy = \<lparr>pv_msb = 0, pv_ocp = (\<lambda>_ _. 0)\<rparr>, hd_sds = \<lparr>sv_mem = (\<lambda>_ _. 0), sv_adr = 0, sv_data = 0, sv_busy = 0\<rparr>\<rparr>,
     init_state = 1, halCtrl = None, vlan_mbrCfgVid = replicate 32 0, vlan_mbrCfgUsage = replicate 32 MBRCFG_UNUSED,
     svlan_mbrCfgUsage = replicate 64 False, svlan_mbrCfgVid = replicate 64 0, svlan_lookupType = 0\<rparr>"

section \<open>Properties\<close>

text \<open>
  C22. PHY registers: let \<open>W\<close> be the bits of the PHY registers that are plain storage and \<open>Q\<close> the writes
  that only store.  For the eight PHY numbers, registers 0 to 31 and a write in \<open>Q\<close>: the write succeeds
  and changes only the device, a later read of the register returns what was written in the storage bits,
  and reading any other register that has storage bits, of this or of another PHY, returns the same
  storage bits as before.  Writes outside \<open>Q\<close>, such as one to the page select in register 31, to the
  window in registers 27 and 28 or a reset, are not covered.  A register number above 31 is refused
  with \<open>RT_ERR_PHY_REG_ID\<close> before any access.
\<close>

theorem phy_reg_round_trip:
  assumes "phy_contract (gsw_bus s) view W Q" and "p < 8" and "r \<le> 0x1F" and "v \<le> 0xFFFF" and "(phy_ocp r, v) \<in> Q" and "t > 0x1F"
  shows "(\<exists>d. rtl8367c_setAsicPHYReg p r v s = (Ok (), s\<lparr>gsw_dev := d\<rparr>) \<and>
       (W (phy_ocp r) \<noteq> 0 \<longrightarrow> (\<exists>x. fst (rtl8367c_getAsicPHYReg p r (s\<lparr>gsw_dev := d\<rparr>)) = Ok x \<and>
          x AND ucast (W (phy_ocp r)) = v AND ucast (W (phy_ocp r)))) \<and>
       (\<forall>q < 8. \<forall>u \<le> 0x1F. (q \<noteq> p \<or> u \<noteq> r) \<and> W (phy_ocp u) \<noteq> 0 \<longrightarrow>
          (\<exists>x y. fst (rtl8367c_getAsicPHYReg q u s) = Ok x \<and> fst (rtl8367c_getAsicPHYReg q u (s\<lparr>gsw_dev := d\<rparr>)) = Ok y \<and>
             y AND ucast (W (phy_ocp u)) = x AND ucast (W (phy_ocp u))))) \<and>
     rtl8367c_setAsicPHYReg p t v s = (Err RT_ERR_PHY_REG_ID, s) \<and>
     rtl8367c_getAsicPHYReg p t s = (Err RT_ERR_PHY_REG_ID, s)"
proof -
  obtain d where d: "rtl8367c_setAsicPHYReg p r v s = (Ok (), s\<lparr>gsw_dev := d\<rparr>)"
    "\<And>q a. pv_ocp (view d) q a AND W a = (if q = p \<and> a = phy_ocp r then ucast v else pv_ocp (view (gsw_dev s)) q a) AND W a"
    using setAsicPHYReg_run [OF assms(1-5)] by blast
  have C: "phy_contract (gsw_bus (s\<lparr>gsw_dev := d\<rparr>)) view W Q" using assms(1) by simp
  have "\<exists>x y. fst (rtl8367c_getAsicPHYReg q u s) = Ok x \<and> fst (rtl8367c_getAsicPHYReg q u (s\<lparr>gsw_dev := d\<rparr>)) = Ok y \<and>
      y AND ucast (W (phy_ocp u)) = x AND ucast (W (phy_ocp u))"
    if "q < 8" "u \<le> 0x1F" "(q \<noteq> p \<or> u \<noteq> r) \<and> W (phy_ocp u) \<noteq> 0" for q u
    using getAsicPHYReg_run [OF C that(1,2)] getAsicPHYReg_run [OF assms(1) that(1,2)] that(3) phy_ocp_inj [OF that(2) assms(3)]
    by (auto simp: d(2))
  moreover have "\<exists>x. fst (rtl8367c_getAsicPHYReg p r (s\<lparr>gsw_dev := d\<rparr>)) = Ok x \<and>
      x AND ucast (W (phy_ocp r)) = v AND ucast (W (phy_ocp r))" if "W (phy_ocp r) \<noteq> 0"
    using getAsicPHYReg_run [OF C assms(2,3) that] assms(4) by (auto simp: d(2) unsigned_and_eq)
  moreover have "rtl8367c_setAsicPHYReg p t v s = (Err RT_ERR_PHY_REG_ID, s)" "rtl8367c_getAsicPHYReg p t s = (Err RT_ERR_PHY_REG_ID, s)"
    using assms(6) by (simp_all add: rtl8367c_setAsicPHYReg_def rtl8367c_getAsicPHYReg_def errE_def)
  ultimately show ?thesis using d(1) by blast
qed

text \<open>Restarting the auto-negotiation of PHY 4: the bit that starts it is not read back, the others are.\<close>

theorem phy_reg_round_trip_witness:
  "\<exists>s' x. rtl8367c_setAsicPHYReg 4 0 0x1340 phy_sim = (Ok (), s') \<and> fst (rtl8367c_getAsicPHYReg 4 0 s') = Ok x \<and> x AND 0x7DFF = 0x1140 \<and>
     rtl8367c_getAsicPHYReg 4 32 phy_sim = (Err RT_ERR_PHY_REG_ID, phy_sim)"
proof -
  have c: "phy_contract (gsw_bus phy_sim) hd_phy phy_sim_bits phy_sim_stores" using phy_sim_contract by (simp add: phy_sim_def)
  have q: "(phy_ocp 0, 0x1340) \<in> phy_sim_stores" by (simp add: phy_sim_stores_def)
  have w: "phy_sim_bits (phy_ocp 0) = 0x7DFF" by (simp add: phy_sim_bits_def)
  from phy_reg_round_trip [OF c, of 4 0 "0x1340" 32] q w show ?thesis by auto
qed

text \<open>
  C24. SerDes registers: reading returns as soon as the chip has cleared its busy flag, however many
  polls that takes, and what was written is read back, while other SerDes registers keep their
  contents.
\<close>

theorem sds_reg_round_trip:
  assumes "sds_contract (gsw_bus s) view" and "i \<le> 0x3F" and "reg \<le> 0x1F" and "page \<le> 0x7FF" and "v \<le> 0xFFFF"
  shows "\<exists>s'. rtl8367c_setAsicSdsReg i reg page v s = (Ok (), s') \<and>
     (\<exists>t. rtl8367c_getAsicSdsReg i reg page s' = Some (Ok v, t)) \<and>
     (\<forall>j \<le> 0x3F. \<forall>reg' \<le> 0x1F. \<forall>page' \<le> 0x7FF. j \<noteq> i \<or> reg' \<noteq> reg \<or> page' \<noteq> page \<longrightarrow>
        (\<exists>x t t'. rtl8367c_getAsicSdsReg j reg' page' s' = Some (Ok x, t) \<and> rtl8367c_getAsicSdsReg j reg' page' s = Some (Ok x, t')))"
proof -
  obtain d where d: "rtl8367c_setAsicSdsReg i reg page v s = (Ok (), s\<lparr>gsw_dev := d\<rparr>)"
    "sv_mem (view d) = (sv_mem (view (gsw_dev s)))(i := (sv_mem (view (gsw_dev s)) i)(ucast (sds_adr page reg) := ucast v))"
    using setAsicSdsReg_run [OF assms] by blast
  have C: "sds_contract (gsw_bus (s\<lparr>gsw_dev := d\<rparr>)) view" using assms(1) by simp
  note get = getAsicSdsReg_run [OF C] getAsicSdsReg_run [OF assms(1)]
  have adr: "(ucast (sds_adr page' reg') :: u16) = ucast (sds_adr page reg) \<Longrightarrow> page' = page \<and> reg' = reg"
    if "reg' \<le> 0x1F" "page' \<le> 0x7FF" for reg' page'
  proof -
    have "ucast (ucast a :: u16) = a" if "a \<le> 0xFFFF" for a :: u32
      using that by (auto intro!: bit_word_eqI simp: bit_simps le_FFFF_iff_bits not_less)
    then show "(ucast (sds_adr page' reg') :: u16) = ucast (sds_adr page reg) \<Longrightarrow> page' = page \<and> reg' = reg"
      using sds_adr_bits(1) [OF that] sds_adr_bits(1) [OF assms(3,4)] sds_adr_bits(2) [OF that assms(3,4)] by metis
  qed
  have "\<exists>x t t'. rtl8367c_getAsicSdsReg j reg' page' (s\<lparr>gsw_dev := d\<rparr>) = Some (Ok x, t) \<and> rtl8367c_getAsicSdsReg j reg' page' s = Some (Ok x, t')"
    if "j \<le> 0x3F" "reg' \<le> 0x1F" "page' \<le> 0x7FF" "j \<noteq> i \<or> reg' \<noteq> reg \<or> page' \<noteq> page" for j reg' page'
    using get(1) [OF that(1-3)] get(2) [OF that(1-3)] adr [OF that(2,3)] that(4) by (auto simp: d(2))
  moreover have "\<exists>t. rtl8367c_getAsicSdsReg i reg page (s\<lparr>gsw_dev := d\<rparr>) = Some (Ok v, t)"
    using get(1) [OF assms(2-4)] assms(5) by (simp add: d(2))
  ultimately show ?thesis using d(1) by blast
qed

theorem sds_reg_round_trip_witness:
  "\<exists>s' t. rtl8367c_setAsicSdsReg 1 2 0 0x1234 phy_sim = (Ok (), s') \<and> rtl8367c_getAsicSdsReg 1 2 0 s' = Some (Ok 0x1234, t)"
proof -
  have "sds_contract (gsw_bus phy_sim) hd_sds" using sds_sim_contract by (simp add: phy_sim_def)
  from sds_reg_round_trip [OF this, of 1 2 0 "0x1234"] show ?thesis by auto
qed

text \<open>
  C25. The other side of the unbounded poll: on a chip whose busy flag never clears,
  \<open>rtl8367c_getAsicSdsReg\<close> does not return, whatever register is asked for.
\<close>

theorem sds_read_hangs:
  assumes "\<forall>d. bit (fst (mdio_rd (gsw_bus s) RTL8367C_REG_SDS_INDACS_CMD d)) 8" and "i \<le> 0x3F" and "reg \<le> 0x1F" and "page \<le> 0x7FF"
  shows "rtl8367c_getAsicSdsReg i reg page s = None"
proof -
  have "sds_wait t = Some x \<Longrightarrow> gsw_bus t = gsw_bus s \<longrightarrow> False" for t x
  proof (erule sds_wait.raw_induct [rotated, where P = "\<lambda>t x. gsw_bus t = gsw_bus s \<longrightarrow> False"], rule impI)
    fix f t x
    assume IH: "\<And>t x. f t = Some x \<Longrightarrow> gsw_bus t = gsw_bus s \<longrightarrow> False"
      and body: "(case rtl8367c_getAsicReg RTL8367C_REG_SDS_INDACS_CMD t of (r, s') \<Rightarrow>
         (case r of Ok busy \<Rightarrow> if busy AND 0x100 = 0 then Some (Ok (), s') else f s'
          | Err e \<Rightarrow> Some (Err e, s') | Fault \<Rightarrow> Some (Fault, s'))) = Some x" and t: "gsw_bus t = gsw_bus s"
    have "bit (fst (mdio_rd (gsw_bus s) RTL8367C_REG_SDS_INDACS_CMD (gsw_dev t))) 8" using assms(1) by simp
    with body t have "f (t\<lparr>gsw_dev := snd (mdio_rd (gsw_bus s) RTL8367C_REG_SDS_INDACS_CMD (gsw_dev t))\<rparr>) = Some x"
      by (simp add: getAsicReg_any busy_bit)
    with IH t show False by fastforce
  qed
  then have none: "sds_wait t = None" if "gsw_bus t = gsw_bus s" for t using that by (cases "sds_wait t") auto
  note adr = sds_adr_bits(1) [OF assms(3,4)] and cmd = sds_commands(2) [OF assms(2)]
  show ?thesis
    using adr cmd none by (simp add: rtl8367c_getAsicSdsReg_def thenE_def bindE_def setAsicReg_any flip: sds_adr_def)
qed

definition stuck_bus :: "unit mii_bus" where
  "stuck_bus = \<lparr>bus_read = (\<lambda>phy r d. (0xFFFF, d)), bus_write = (\<lambda>phy r v d. d)\<rparr>"

theorem sds_read_hangs_witness:
  "rtl8367c_getAsicSdsReg 0 0 0 \<lparr>gsw_bus = stuck_bus, gsw_dev = (), init_state = 0, halCtrl = None, vlan_mbrCfgVid = [],
     vlan_mbrCfgUsage = [], svlan_mbrCfgUsage = [], svlan_mbrCfgVid = [], svlan_lookupType = 0\<rparr> = None"
proof -
  have "bit (0xFFFF :: u32) 8" by code_simp
  then show ?thesis by (intro sds_read_hangs) (auto simp: stuck_bus_def mdio_rd_def)
qed

end
