(* ===== verification/Config_Unit.thy ===== *)
theory Config_Unit
  imports Port_Api
begin

text \<open>
  Units with global settings (mirroring, trunking, CPU port, port isolation): the setting is a bit
  field of a configuration register that no port number selects.  \<open>gfld\<close> and \<open>put_gfld\<close> read and
  replace such a field.  \<open>config_unit\<close> is the contract of a unit: seen through the abstraction
  \<open>abs\<close>, every operation has the effect and the return code its specification gives; from it
  follows the same for every sequence of calls.
\<close>

section \<open>Global fields\<close>

definition gfld :: "u32 \<Rightarrow> nat \<Rightarrow> nat \<Rightarrow> swt \<Rightarrow> u32" where
  "gfld a k w c = get_field (field_mask k w) (sw_reg c a)"

definition put_gfld :: "u32 \<Rightarrow> nat \<Rightarrow> nat \<Rightarrow> u32 \<Rightarrow> swt \<Rightarrow> swt" where
  "put_gfld a k w v c = put_reg_field a (field_mask k w) v c"

lemma gfld_put:
  assumes "0 < w" and "k + w \<le> 16" and "v \<le> mask w"
  shows "gfld a k w (put_gfld a k w v c) = v"
  using get_put_field [OF mask16_mask(1) [OF assms(1,2)] fits_mask [OF assms]]
  by (simp add: gfld_def put_gfld_def put_reg_field_def field_mask_def)

lemma gfld_put_other_reg [simp]: "a \<noteq> b \<Longrightarrow> gfld b k' w' (put_gfld a k w v c) = gfld b k' w' c"
  by (simp add: gfld_def put_gfld_def put_reg_field_def)

lemma gfld_put_apart:
  assumes "0 < w" and "k + w \<le> 16" and "k + w \<le> k' \<or> k' + w' \<le> k"
  shows "gfld a k' w' (put_gfld a k w v c) = gfld a k' w' c"
  using get_put_field_disjoint [OF mask16_mask(1) [OF assms(1,2)], folded field_mask_def, OF field_mask_disjoint [OF assms(3)]]
  by (simp add: gfld_def put_gfld_def put_reg_field_def)

lemma put_gfld_simps [simp]:
  "sw_tbl (put_gfld a k w v c) = sw_tbl c" "sw_init (put_gfld a k w v c) = sw_init c"
  "sw_hal (put_gfld a k w v c) = sw_hal c" "sw_mbrVid (put_gfld a k w v c) = sw_mbrVid c"
  "sw_mbrUsage (put_gfld a k w v c) = sw_mbrUsage c" "sw_ready (put_gfld a k w v c) h = sw_ready c h"
  by (simp_all add: put_gfld_def)

lemma db_ok_put_gfld: "a < 0x728 \<or> 0x7A7 < a \<Longrightarrow> db_ok (put_gfld a k w v c) = db_ok c"
  by (simp add: db_ok_def put_gfld_def idx_le hw_mbrcfg_put_reg_field)

text \<open>The accessors on global fields; the mask in the code is a numeral.\<close>

lemma wp_set_gfld:
  assumes "m = field_mask k w" and "cfg_reg a" and "cfg_regs \<subseteq> A" and "0 < w" and "k + w \<le> 16" and "v \<le> mask w"
    and "Q (Ok ()) (put_gfld a k w v c)"
  shows "wp view A (rtl8367c_setAsicRegBits a m v) Q c"
  using assms wp_set_field [of a A w k v Q c view] by (simp add: put_gfld_def cfg_regs_def)

lemma wp_get_gfld:
  assumes "m = field_mask k w" and "cfg_reg a" and "cfg_regs \<subseteq> A" and "0 < w" and "k + w \<le> 16" and "Q (Ok (gfld a k w c)) c"
  shows "wp view A (rtl8367c_getAsicRegBits a m) Q c"
  using assms wp_get_field [of a A w k Q c view] by (simp add: gfld_def cfg_regs_def)

lemma wp_set_gbit:
  assumes "cfg_reg a" and "cfg_regs \<subseteq> A" and "unat n < 16" and "v \<le> 1" and "Q (Ok ()) (put_gfld a (unat n) 1 v c)"
  shows "wp view A (rtl8367c_setAsicRegBit a n v) Q c"
  using assms wp_set_bit [of a A n v Q c view] by (simp add: put_gfld_def cfg_regs_def)

lemma wp_get_gbit:
  assumes "cfg_reg a" and "cfg_regs \<subseteq> A" and "unat n < 16" and "Q (Ok (gfld a (unat n) 1 c)) c"
  shows "wp view A (rtl8367c_getAsicRegBit a n) Q c"
  using assms wp_get_bit [of a A n Q c view] by (simp add: gfld_def cfg_regs_def)

lemma gfld_le: "0 < w \<Longrightarrow> k + w \<le> 16 \<Longrightarrow> gfld a k w c \<le> mask w"
  unfolding gfld_def field_mask_def le_mask_iff_bits
  using mask16_mask(2) [of w k] by (auto simp: get_field_def lsb_of_def bit_simps)

lemma bound1: "(2 :: u32) \<le> v \<longleftrightarrow> \<not> v \<le> 1" "v < 2 \<longleftrightarrow> v \<le> (1 :: u32)"
  by (auto simp: word_le_nat_alt word_less_nat_alt)

lemma gfld_bit_cases: "k < 16 \<Longrightarrow> gfld a k 1 c = 0 \<or> gfld a k 1 c = 1"
  using gfld_le [of 1 k a c] by (auto simp: mask_Suc_0 word_le_nat_alt word_unat_eq_iff)

lemma le_1: "(v :: u32) \<le> 1 \<longleftrightarrow> v = 0 \<or> v = 1"
  by (auto simp: word_le_nat_alt word_unat_eq_iff)

lemma gfld_bit_of_put:
  assumes "k < w" and "w \<le> 16" and "v \<le> mask w"
  shows "gfld a k 1 (put_gfld a 0 w v c) = of_bool (bit v k)"
proof -
  have "lsb_of (field_mask k 1) = k" "lsb_of (field_mask 0 w) = 0"
    using mask16_mask(2) [of 1 k] mask16_mask(2) [of w 0] assms(1,2) by (simp_all add: field_mask_def)
  then show ?thesis
    using assms
    by (intro bit_word_eqI)
       (auto simp: gfld_def put_gfld_def put_reg_field_def get_field_def put_field_def field_mask_def bit_simps mask_Suc_0)
qed

text \<open>Registers written as a whole.\<close>

definition put_word :: "u32 \<Rightarrow> u32 \<Rightarrow> swt \<Rightarrow> swt" where
  "put_word a v c = c\<lparr>sw_reg := (sw_reg c)(a := ucast v)\<rparr>"

lemma put_word_simps [simp]:
  "b \<noteq> a \<Longrightarrow> gfld b k w (put_word a v c) = gfld b k w c" "sw_ready (put_word a v c) h = sw_ready c h"
  "sw_reg (put_word a v c) b = (if b = a then ucast v else sw_reg c b)"
  "b \<noteq> a \<Longrightarrow> sw_reg (put_gfld b k w x c) a = sw_reg c a"
  by (simp_all add: put_word_def gfld_def put_gfld_def put_reg_field_def)

lemma db_ok_put_word:
  assumes "a < 0x728 \<or> 0x7A7 < a"
  shows "db_ok (put_word a v c) = db_ok c"
proof -
  have "hw_mbrcfg (of_nat i) (put_word a v c) = hw_mbrcfg (of_nat i) c" if "i < 32" for i
    unfolding hw_mbrcfg_def put_word_def
    by (intro arg_cong [where f = VlanMCStSmi2User] map_cong refl)
       (use not_mbrcfg_reg [OF assms idx_le [OF that]] in \<open>auto simp: eq_commute\<close>)
  then show ?thesis by (simp add: db_ok_def) (simp add: put_word_def)
qed

lemma wp_set_word:
  assumes "cfg_reg a" and "cfg_regs \<subseteq> A" and "v \<le> 0xFFFF" and "Q (Ok ()) (put_word a v c)"
  shows "wp view A (rtl8367c_setAsicReg a v) Q c"
proof -
  have a: "a \<in> cfg_regs" using assms(1) by (simp add: cfg_regs_def)
  then show ?thesis using wp_setAsicReg [of a A "ucast v" Q c view] cfg_not_ctrl [OF a] assms(2-4) by (auto simp: put_word_def)
qed

lemma wp_get_word:
  assumes "cfg_reg a" and "cfg_regs \<subseteq> A" and "Q (Ok (ucast (sw_reg c a))) c"
  shows "wp view A (rtl8367c_getAsicReg a) Q c"
  using assms by (intro wp_getAsicReg) (auto simp: cfg_regs_def)

text \<open>The port set converted back; the conversion tests the pointer.\<close>

lemma wp_P2L_ptr:
  assumes "sw_ready c h" and "Q (if p = NULLP then Err RT_ERR_NULL_POINTER else Ok (p2l_mask h m)) c"
  shows "wp view A (rtk_switch_portmask_P2L_get m p) Q c"
proof (cases p)
  case NULLP
  with assms(2) show ?thesis
    by (intro wp_pure [where r = "Err RT_ERR_NULL_POINTER"])
       (use assms(1) in \<open>auto simp: rtk_switch_portmask_P2L_get_def bindE_def getsE_def errE_def swt_rel_def sw_ready_def\<close>)
qed (use assms wp_portmask_P2L [OF assms(1)] in auto)

lemma l2p_single:
  assumes "hal_wf h" and "valid_port h p"
  shows "l2p_mask h (push_bit (unat p) 1) = push_bit (unat (phy_of h p)) 1"
    and "p2l_mask h (push_bit (unat (phy_of h p)) 1) = push_bit (unat p) 1" and "valid_mask h (push_bit (unat p) 1)"
proof -
  have pm: "port_map h" using assms(1) by (simp add: port_map_def)
  have p: "unat p < 32" "l2p_port h ! unat p \<noteq> 0xFF" using assms(2) by (auto simp: valid_port_def)
  have b: "unat (phy_of h p) < 32" using phy_of_le [OF assms] by (simp add: word_le_nat_alt)
  show v: "valid_mask h (push_bit (unat p) 1)"
    using port_map.logical(1) [OF pm p(1)] p by (auto simp: valid_mask_def subset_mask_iff bit_simps)
  show l: "l2p_mask h (push_bit (unat p) 1) = push_bit (unat (phy_of h p)) 1"
    using p(1) b by (intro bit_word_eqI) (auto simp: port_map.bit_l2p_mask [OF pm] bit_simps phy_of_def)
  show "p2l_mask h (push_bit (unat (phy_of h p)) 1) = push_bit (unat p) 1"
    using conjunct2 [OF l2p_mask_bound [OF assms(1) v]] unfolding l .
qed

section \<open>Argument checks\<close>

lemma chk_then:
  assumes "ready s h"
  shows "thenE RTK_CHK_INIT_STATE k s = k s"
    and "thenE (RTK_CHK_PORT_VALID p) k s = (if valid_port h p then k s else (Err RT_ERR_PORT_ID, s))"
    and "thenE (RTK_CHK_PORTMASK_VALID (Some m)) k s = (if valid_mask h m then k s else (Err RT_ERR_PORT_MASK, s))"
    and "thenE (check_that b e) k s = (if b then k s else (Err e, s))"
    and "thenE (not_null q) k s = (if q = NULLP then (Err RT_ERR_NULL_POINTER, s) else k s)"
  by (simp_all add: thenE_def bindE_def chk_init_run [OF assms] chk_port_run [OF assms] RTK_CHK_PORTMASK_VALID_def mapErrE_def
      isPortMaskValid_run [OF assms] not_null_def check_that_def okE_def errE_def)

lemma wp_refused:
  fixes m :: "('d gsw, 'r) drv"
  assumes "sw_ready c h" and "\<And>s. ready s h \<Longrightarrow> m s = (r, s)" and "Q r c"
  shows "wp view A m Q c"
  using assms(2) [OF sw_ready_rel [OF _ assms(1)]] assms(3) by (intro wp_pure)

section \<open>Units\<close>

text \<open>The shape of most specifications: the arguments are in range and the call acts, or it is refused.\<close>

definition guarded :: "bool \<Rightarrow> rt_error \<Rightarrow> ('m \<Rightarrow> 'm) \<Rightarrow> 'm \<Rightarrow> unit outcome \<times> 'm" where
  "guarded ok e f m = (if ok then (Ok (), f m) else (Err e, m))"

text \<open>Results as lists: nothing, one value or several.\<close>

definition no_result :: "('s, unit) drv \<Rightarrow> ('s, u32 list) drv" where
  "no_result m = thenE m (okE [])"

definition one_result :: "('s, u32) drv \<Rightarrow> ('s, u32 list) drv" where
  "one_result m = bindE m (\<lambda>v. okE [v])"

definition non_null :: "outptr \<Rightarrow> 'm \<Rightarrow> 'r \<Rightarrow> 'r outcome \<times> 'm" where
  "non_null p m v = (if p = NULLP then (Err RT_ERR_NULL_POINTER, m) else (Ok v, m))"

text \<open>Calls made one after the other, whatever each of them returns.\<close>

primrec run_calls :: "('op \<Rightarrow> ('s, 'r) drv) \<Rightarrow> 'op list \<Rightarrow> 's \<Rightarrow> 'r outcome list \<times> 's" where
  "run_calls f [] s = ([], s)"
| "run_calls f (x # xs) s = (let (r, s1) = f x s; (rs, s2) = run_calls f xs s1 in (r # rs, s2))"

primrec spec_calls :: "('op \<Rightarrow> 'm \<Rightarrow> 'r outcome \<times> 'm) \<Rightarrow> 'op list \<Rightarrow> 'm \<Rightarrow> 'r outcome list \<times> 'm" where
  "spec_calls f [] m = ([], m)"
| "spec_calls f (x # xs) m = (let (r, m1) = f x m; (rs, m2) = spec_calls f xs m1 in (r # rs, m2))"

locale config_unit =
  fixes absn :: "rtk_switch_halCtrl_t \<Rightarrow> swt \<Rightarrow> 'm" and spec :: "rtk_switch_halCtrl_t \<Rightarrow> 'op \<Rightarrow> 'm \<Rightarrow> 'r outcome \<times> 'm"
    and call :: "'op \<Rightarrow> ('d gsw, 'r) drv"
  assumes call_wp: "sw_ready c h \<Longrightarrow> db_ok c \<Longrightarrow> cfg_regs \<subseteq> A \<Longrightarrow>
      wp view A (call x) (\<lambda>r c'. (r, absn h c') = spec h x (absn h c) \<and> sw_ready c' h \<and> db_ok c') c"
begin

lemma calls_rel:
  assumes "swt_rel view A s c" and "sw_ready c h" and "db_ok c" and "cfg_regs \<subseteq> A"
  shows "\<exists>s' c'. run_calls call xs s = (fst (spec_calls (spec h) xs (absn h c)), s') \<and> swt_rel view A s' c' \<and>
     sw_ready c' h \<and> db_ok c' \<and> absn h c' = snd (spec_calls (spec h) xs (absn h c))"
  using assms(1-3)
proof (induction xs arbitrary: s c)
  case (Cons x xs)
  let ?m = "spec h x (absn h c)"
  from call_wp [OF Cons.prems(2,3) assms(4), of view x] Cons.prems(1)
  obtain s1 c1 where 1: "call x s = (fst ?m, s1)" "swt_rel view A s1 c1" "absn h c1 = snd ?m" "sw_ready c1 h" "db_ok c1"
    by (rule wpD) (metis fst_conv snd_conv)
  from Cons.IH [OF 1(2,4,5)] 1 show ?case by (auto simp: split_beta Let_def)
qed auto

text \<open>Where reading is among the calls, the results alone show the refinement.\<close>

lemma calls_observed:
  assumes "driver_up view A h s"
  shows "\<exists>m. \<forall>xs. \<exists>s'. run_calls call xs s = (fst (spec_calls (spec h) xs m), s') \<and> driver_up view A h s'"
proof (rule exI, rule allI)
  fix xs
  note up = driver_upD [OF assms]
  from calls_rel [OF up(1,3,4,2), of xs] show "\<exists>s'. run_calls call xs s =
      (fst (spec_calls (spec h) xs (absn h (swt_of view s))), s') \<and> driver_up view A h s'"
    using driver_upI up(2) by blast
qed

end

text \<open>Otherwise \<open>look\<close> reads the whole configuration through the getters.\<close>

locale readable_unit = config_unit absn spec call
  for absn :: "rtk_switch_halCtrl_t \<Rightarrow> swt \<Rightarrow> 'm" and spec :: "rtk_switch_halCtrl_t \<Rightarrow> 'op \<Rightarrow> 'm \<Rightarrow> 'r outcome \<times> 'm"
    and call :: "'op \<Rightarrow> ('d gsw, 'r) drv" +
  fixes look :: "('d gsw, 'm) drv"
  assumes look_wp: "sw_ready c h \<Longrightarrow> cfg_regs \<subseteq> A \<Longrightarrow> wp view A look (\<lambda>r c'. r = Ok (absn h c) \<and> c' = c) c"
begin

lemma calls_refine:
  assumes "driver_up view A h s" and "fst (look s) = Ok m"
  shows "\<exists>s'. run_calls call xs s = (fst (spec_calls (spec h) xs m), s') \<and> driver_up view A h s' \<and>
     fst (look s') = Ok (snd (spec_calls (spec h) xs m))"
proof -
  note up = driver_upD [OF assms(1)]
  have look: "fst (look t) = Ok (absn h d)" if "swt_rel view A t d" and "sw_ready d h" for t d
    by (rule wp_run_pure(1) [OF look_wp [OF that(2) up(2)] that(1)])
  from look [OF up(1,3)] assms(2) have m: "absn h (swt_of view s) = m" by simp
  from calls_rel [OF up(1,3,4,2), of xs] obtain s' c' where
    1: "run_calls call xs s = (fst (spec_calls (spec h) xs m), s')" "swt_rel view A s' c'" "sw_ready c' h" "db_ok c'"
      "absn h c' = snd (spec_calls (spec h) xs m)" unfolding m by blast
  with look [OF 1(2,3)] driver_upI [OF 1(2) up(2) 1(3,4)] show ?thesis by auto
qed

end

end
