(* ===== verification/Mirror.thy ===== *)
theory Mirror
  imports Config_Unit
begin

text \<open>
  Port mirroring: \<open>rtl8367c_asicdrv_mirror.c\<close> and \<open>mirror.c\<close>.  One port receives a copy of the
  traffic of a set of ports; the hardware has one source set with a receive and a transmit switch,
  which is why the API demands that the two sets it takes agree or that one is empty.  \<open>mirror_cfg\<close>
  is the configuration a caller sees, and every call refines an update of it.
\<close>

section \<open>Registers\<close>

abbreviation (input) RTL8367C_MIRROR_CTRL_REG :: u32 where "RTL8367C_MIRROR_CTRL_REG \<equiv> 0x121C"
abbreviation (input) RTL8367C_MIRROR_SOURCE_PORT_MASK :: u32 where "RTL8367C_MIRROR_SOURCE_PORT_MASK \<equiv> 0xF"
abbreviation (input) RTL8367C_MIRROR_MONITOR_PORT_MASK :: u32 where "RTL8367C_MIRROR_MONITOR_PORT_MASK \<equiv> 0xF0"
abbreviation (input) RTL8367C_MIRROR_RX_OFFSET :: u32 where "RTL8367C_MIRROR_RX_OFFSET \<equiv> 9"
abbreviation (input) RTL8367C_MIRROR_TX_OFFSET :: u32 where "RTL8367C_MIRROR_TX_OFFSET \<equiv> 10"
abbreviation (input) RTL8367C_MIRROR_ISO_OFFSET :: u32 where "RTL8367C_MIRROR_ISO_OFFSET \<equiv> 11"
abbreviation (input) RTL8367C_REG_MIRROR_SRC_PMSK :: u32 where "RTL8367C_REG_MIRROR_SRC_PMSK \<equiv> 0x12FB"
abbreviation (input) RTL8367C_MIRROR_SRC_PMSK_MASK :: u32 where "RTL8367C_MIRROR_SRC_PMSK_MASK \<equiv> 0x7FF"
abbreviation (input) RTL8367C_REG_MIRROR_CTRL2 :: u32 where "RTL8367C_REG_MIRROR_CTRL2 \<equiv> 0x9DA"
abbreviation (input) RTL8367C_MIRROR_TX_VLAN_LEAKY_OFFSET :: u32 where "RTL8367C_MIRROR_TX_VLAN_LEAKY_OFFSET \<equiv> 0"
abbreviation (input) RTL8367C_MIRROR_RX_VLAN_LEAKY_OFFSET :: u32 where "RTL8367C_MIRROR_RX_VLAN_LEAKY_OFFSET \<equiv> 1"
abbreviation (input) RTL8367C_MIRROR_TX_ISOLATION_LEAKY_OFFSET :: u32 where "RTL8367C_MIRROR_TX_ISOLATION_LEAKY_OFFSET \<equiv> 2"
abbreviation (input) RTL8367C_MIRROR_RX_ISOLATION_LEAKY_OFFSET :: u32 where "RTL8367C_MIRROR_RX_ISOLATION_LEAKY_OFFSET \<equiv> 3"
abbreviation (input) RTL8367C_MIRROR_REALKEEP_EN_OFFSET :: u32 where "RTL8367C_MIRROR_REALKEEP_EN_OFFSET \<equiv> 4"
abbreviation (input) RTL8367C_REG_MIRROR_CTRL3 :: u32 where "RTL8367C_REG_MIRROR_CTRL3 \<equiv> 0x9C1"
abbreviation (input) RTL8367C_MIRROR_RX_OVERRIDE_EN_OFFSET :: u32 where "RTL8367C_MIRROR_RX_OVERRIDE_EN_OFFSET \<equiv> 0"
abbreviation (input) RTL8367C_MIRROR_TX_OVERRIDE_EN_OFFSET :: u32 where "RTL8367C_MIRROR_TX_OVERRIDE_EN_OFFSET \<equiv> 1"
abbreviation (input) RTL8367C_MIRROR_ACL_OVERRIDE_EN_OFFSET :: u32 where "RTL8367C_MIRROR_ACL_OVERRIDE_EN_OFFSET \<equiv> 2"
abbreviation (input) MIRROR_KEEP_END :: u32 where "MIRROR_KEEP_END \<equiv> 2"

section \<open>Register level\<close>

definition rtl8367c_setAsicPortMirror :: "u32 \<Rightarrow> u32 \<Rightarrow> ('d gsw, unit) drv" where
  "rtl8367c_setAsicPortMirror source monitor =
     (if source > RTL8367C_PORTIDMAX \<or> monitor > RTL8367C_PORTIDMAX then errE RT_ERR_PORT_ID
      else thenE (rtl8367c_setAsicRegBits RTL8367C_MIRROR_CTRL_REG RTL8367C_MIRROR_SOURCE_PORT_MASK source)
        (rtl8367c_setAsicRegBits RTL8367C_MIRROR_CTRL_REG RTL8367C_MIRROR_MONITOR_PORT_MASK monitor))"

definition rtl8367c_getAsicPortMirror :: "('d gsw, u32 \<times> u32) drv" where
  "rtl8367c_getAsicPortMirror =
     bindE (rtl8367c_getAsicRegBits RTL8367C_MIRROR_CTRL_REG RTL8367C_MIRROR_SOURCE_PORT_MASK) (\<lambda>source.
     bindE (rtl8367c_getAsicRegBits RTL8367C_MIRROR_CTRL_REG RTL8367C_MIRROR_MONITOR_PORT_MASK) (\<lambda>monitor.
     okE (source, monitor)))"

definition rtl8367c_setAsicPortMirrorRxFunction :: "u32 \<Rightarrow> ('d gsw, unit) drv" where
  "rtl8367c_setAsicPortMirrorRxFunction enabled = rtl8367c_setAsicRegBit RTL8367C_MIRROR_CTRL_REG RTL8367C_MIRROR_RX_OFFSET enabled"

definition rtl8367c_getAsicPortMirrorRxFunction :: "('d gsw, u32) drv" where
  "rtl8367c_getAsicPortMirrorRxFunction = rtl8367c_getAsicRegBit RTL8367C_MIRROR_CTRL_REG RTL8367C_MIRROR_RX_OFFSET"

definition rtl8367c_setAsicPortMirrorTxFunction :: "u32 \<Rightarrow> ('d gsw, unit) drv" where
  "rtl8367c_setAsicPortMirrorTxFunction enabled = rtl8367c_setAsicRegBit RTL8367C_MIRROR_CTRL_REG RTL8367C_MIRROR_TX_OFFSET enabled"

definition rtl8367c_getAsicPortMirrorTxFunction :: "('d gsw, u32) drv" where
  "rtl8367c_getAsicPortMirrorTxFunction = rtl8367c_getAsicRegBit RTL8367C_MIRROR_CTRL_REG RTL8367C_MIRROR_TX_OFFSET"

definition rtl8367c_setAsicPortMirrorIsolation :: "u32 \<Rightarrow> ('d gsw, unit) drv" where
  "rtl8367c_setAsicPortMirrorIsolation enabled = rtl8367c_setAsicRegBit RTL8367C_MIRROR_CTRL_REG RTL8367C_MIRROR_ISO_OFFSET enabled"

definition rtl8367c_getAsicPortMirrorIsolation :: "('d gsw, u32) drv" where
  "rtl8367c_getAsicPortMirrorIsolation = rtl8367c_getAsicRegBit RTL8367C_MIRROR_CTRL_REG RTL8367C_MIRROR_ISO_OFFSET"

definition rtl8367c_setAsicPortMirrorMask :: "u32 \<Rightarrow> ('d gsw, unit) drv" where
  "rtl8367c_setAsicPortMirrorMask SourcePortmask =
     (if SourcePortmask > RTL8367C_PORTMASK then errE RT_ERR_PORT_MASK
      else rtl8367c_setAsicRegBits RTL8367C_REG_MIRROR_SRC_PMSK RTL8367C_MIRROR_SRC_PMSK_MASK SourcePortmask)"

definition rtl8367c_getAsicPortMirrorMask :: "('d gsw, u32) drv" where
  "rtl8367c_getAsicPortMirrorMask = rtl8367c_getAsicRegBits RTL8367C_REG_MIRROR_SRC_PMSK RTL8367C_MIRROR_SRC_PMSK_MASK"

definition rtl8367c_setAsicPortMirrorVlanRxLeaky :: "u32 \<Rightarrow> ('d gsw, unit) drv" where
  "rtl8367c_setAsicPortMirrorVlanRxLeaky enabled =
     rtl8367c_setAsicRegBit RTL8367C_REG_MIRROR_CTRL2 RTL8367C_MIRROR_RX_VLAN_LEAKY_OFFSET enabled"

definition rtl8367c_getAsicPortMirrorVlanRxLeaky :: "('d gsw, u32) drv" where
  "rtl8367c_getAsicPortMirrorVlanRxLeaky = rtl8367c_getAsicRegBit RTL8367C_REG_MIRROR_CTRL2 RTL8367C_MIRROR_RX_VLAN_LEAKY_OFFSET"

definition rtl8367c_setAsicPortMirrorVlanTxLeaky :: "u32 \<Rightarrow> ('d gsw, unit) drv" where
  "rtl8367c_setAsicPortMirrorVlanTxLeaky enabled =
     rtl8367c_setAsicRegBit RTL8367C_REG_MIRROR_CTRL2 RTL8367C_MIRROR_TX_VLAN_LEAKY_OFFSET enabled"

definition rtl8367c_getAsicPortMirrorVlanTxLeaky :: "('d gsw, u32) drv" where
  "rtl8367c_getAsicPortMirrorVlanTxLeaky = rtl8367c_getAsicRegBit RTL8367C_REG_MIRROR_CTRL2 RTL8367C_MIRROR_TX_VLAN_LEAKY_OFFSET"

definition rtl8367c_setAsicPortMirrorIsolationRxLeaky :: "u32 \<Rightarrow> ('d gsw, unit) drv" where
  "rtl8367c_setAsicPortMirrorIsolationRxLeaky enabled =
     rtl8367c_setAsicRegBit RTL8367C_REG_MIRROR_CTRL2 RTL8367C_MIRROR_RX_ISOLATION_LEAKY_OFFSET enabled"

definition rtl8367c_getAsicPortMirrorIsolationRxLeaky :: "('d gsw, u32) drv" where
  "rtl8367c_getAsicPortMirrorIsolationRxLeaky =
     rtl8367c_getAsicRegBit RTL8367C_REG_MIRROR_CTRL2 RTL8367C_MIRROR_RX_ISOLATION_LEAKY_OFFSET"

definition rtl8367c_setAsicPortMirrorIsolationTxLeaky :: "u32 \<Rightarrow> ('d gsw, unit) drv" where
  "rtl8367c_setAsicPortMirrorIsolationTxLeaky enabled =
     rtl8367c_setAsicRegBit RTL8367C_REG_MIRROR_CTRL2 RTL8367C_MIRROR_TX_ISOLATION_LEAKY_OFFSET enabled"

definition rtl8367c_getAsicPortMirrorIsolationTxLeaky :: "('d gsw, u32) drv" where
  "rtl8367c_getAsicPortMirrorIsolationTxLeaky =
     rtl8367c_getAsicRegBit RTL8367C_REG_MIRROR_CTRL2 RTL8367C_MIRROR_TX_ISOLATION_LEAKY_OFFSET"

definition rtl8367c_setAsicPortMirrorRealKeep :: "u32 \<Rightarrow> ('d gsw, unit) drv" where
  "rtl8367c_setAsicPortMirrorRealKeep mode = rtl8367c_setAsicRegBit RTL8367C_REG_MIRROR_CTRL2 RTL8367C_MIRROR_REALKEEP_EN_OFFSET mode"

definition rtl8367c_getAsicPortMirrorRealKeep :: "('d gsw, u32) drv" where
  "rtl8367c_getAsicPortMirrorRealKeep = rtl8367c_getAsicRegBit RTL8367C_REG_MIRROR_CTRL2 RTL8367C_MIRROR_REALKEEP_EN_OFFSET"

definition rtl8367c_setAsicPortMirrorOverride :: "u32 \<Rightarrow> u32 \<Rightarrow> u32 \<Rightarrow> ('d gsw, unit) drv" where
  "rtl8367c_setAsicPortMirrorOverride rxMirror txMirror aclMirror =
     thenE (rtl8367c_setAsicRegBit RTL8367C_REG_MIRROR_CTRL3 RTL8367C_MIRROR_RX_OVERRIDE_EN_OFFSET rxMirror)
     (thenE (rtl8367c_setAsicRegBit RTL8367C_REG_MIRROR_CTRL3 RTL8367C_MIRROR_TX_OVERRIDE_EN_OFFSET txMirror)
      (rtl8367c_setAsicRegBit RTL8367C_REG_MIRROR_CTRL3 RTL8367C_MIRROR_ACL_OVERRIDE_EN_OFFSET aclMirror))"

definition rtl8367c_getAsicPortMirrorOverride :: "('d gsw, u32 \<times> u32 \<times> u32) drv" where
  "rtl8367c_getAsicPortMirrorOverride =
     bindE (rtl8367c_getAsicRegBit RTL8367C_REG_MIRROR_CTRL3 RTL8367C_MIRROR_RX_OVERRIDE_EN_OFFSET) (\<lambda>rx.
     bindE (rtl8367c_getAsicRegBit RTL8367C_REG_MIRROR_CTRL3 RTL8367C_MIRROR_TX_OVERRIDE_EN_OFFSET) (\<lambda>tx.
     bindE (rtl8367c_getAsicRegBit RTL8367C_REG_MIRROR_CTRL3 RTL8367C_MIRROR_ACL_OVERRIDE_EN_OFFSET) (\<lambda>acl.
     okE (rx, tx, acl))))"

section \<open>API\<close>

text \<open>The scan for the first logical port in either set.\<close>

primrec mirror_source :: "u32 \<Rightarrow> u32 \<Rightarrow> nat list \<Rightarrow> rtk_port_t \<Rightarrow> ('d gsw, rtk_port_t) drv" where
  "mirror_source tx rx [] source_port = okE source_port"
| "mirror_source tx rx (i # is) source_port =
     bindE (isOkE (rtk_switch_logicalPortCheck (of_nat i))) (\<lambda>is_port.
       if is_port \<and> bit tx i then okE (of_nat i)
       else if is_port \<and> bit rx i then okE (of_nat i)
       else mirror_source tx rx is source_port)"

definition rtk_mirror_portBased_set :: "rtk_port_t \<Rightarrow> rtk_portmask_t option \<Rightarrow> rtk_portmask_t option \<Rightarrow> ('d gsw, unit) drv" where
  "rtk_mirror_portBased_set mirroring_port pMirrored_rx_portmask pMirrored_tx_portmask =
     thenE RTK_CHK_INIT_STATE
     (thenE (RTK_CHK_PORT_VALID mirroring_port)
     (case pMirrored_rx_portmask of None \<Rightarrow> errE RT_ERR_NULL_POINTER | Some rx \<Rightarrow>
      (case pMirrored_tx_portmask of None \<Rightarrow> errE RT_ERR_NULL_POINTER | Some tx \<Rightarrow>
       thenE (RTK_CHK_PORTMASK_VALID (Some rx))
       (thenE (RTK_CHK_PORTMASK_VALID (Some tx))
       (if tx \<noteq> rx \<and> tx \<noteq> 0 \<and> rx \<noteq> 0 then errE RT_ERR_PORT_MASK
        else if bit tx (unat mirroring_port) \<or> bit rx (unat mirroring_port) then errE RT_ERR_PORT_MASK
        else
          bindE rtk_switch_maxLogicalPort_get (\<lambda>max_port.
          bindE (mirror_source tx rx [0..<RTK_SWITCH_PORT_NUM] max_port) (\<lambda>source_port.
          bindE (rtk_switch_port_L2P_get source_port) (\<lambda>source.
          bindE (rtk_switch_port_L2P_get mirroring_port) (\<lambda>monitor.
          thenE (rtl8367c_setAsicPortMirror source monitor)
          (thenE (bindE (rtk_switch_portmask_L2P_get (Some (if rx \<noteq> 0 then rx else tx)) PTR) rtl8367c_setAsicPortMirrorMask)
          (thenE (rtl8367c_setAsicPortMirrorRxFunction (if rx \<noteq> 0 then ENABLED else DISABLED))
           (rtl8367c_setAsicPortMirrorTxFunction (if tx \<noteq> 0 then ENABLED else DISABLED)))))))))))))"

definition mirrored_set :: "u32 \<Rightarrow> rtk_port_t \<Rightarrow> u32 \<Rightarrow> ('d gsw, rtk_portmask_t) drv" where
  "mirrored_set enabled source_port pmask =
     (if enabled = DISABLED then okE 0
      else bindE (rtk_switch_portmask_P2L_get pmask PTR) (\<lambda>m.
        if unat source_port \<ge> 32 then faultE else okE (m OR push_bit (unat source_port) 1)))"

definition rtk_mirror_portBased_get :: "outptr \<Rightarrow> outptr \<Rightarrow> outptr \<Rightarrow> ('d gsw, rtk_port_t \<times> rtk_portmask_t \<times> rtk_portmask_t) drv" where
  "rtk_mirror_portBased_get pMirroring_port pMirrored_rx_portmask pMirrored_tx_portmask =
     thenE RTK_CHK_INIT_STATE
     (thenE (not_null pMirrored_rx_portmask)
     (thenE (not_null pMirrored_tx_portmask)
     (thenE (not_null pMirroring_port)
     (bindE rtl8367c_getAsicPortMirror (\<lambda>(sport, mport).
      bindE (rtk_switch_port_P2L_get sport) (\<lambda>source_port.
      bindE (rtk_switch_port_P2L_get mport) (\<lambda>mirroring_port.
      bindE rtl8367c_getAsicPortMirrorRxFunction (\<lambda>mirRx.
      bindE rtl8367c_getAsicPortMirrorTxFunction (\<lambda>mirTx.
      bindE rtl8367c_getAsicPortMirrorMask (\<lambda>pmask.
      bindE (mirrored_set mirRx source_port pmask) (\<lambda>rx.
      bindE (mirrored_set mirTx source_port pmask) (\<lambda>tx.
      okE (mirroring_port, rx, tx)))))))))))))"

definition rtk_mirror_portIso_set :: "rtk_enable_t \<Rightarrow> ('d gsw, unit) drv" where
  "rtk_mirror_portIso_set enable =
     thenE RTK_CHK_INIT_STATE (thenE (check_that (enable < RTK_ENABLE_END) RT_ERR_ENABLE)
       (rtl8367c_setAsicPortMirrorIsolation enable))"

definition rtk_mirror_portIso_get :: "outptr \<Rightarrow> ('d gsw, rtk_enable_t) drv" where
  "rtk_mirror_portIso_get pEnable =
     thenE RTK_CHK_INIT_STATE (thenE (not_null pEnable) rtl8367c_getAsicPortMirrorIsolation)"

definition rtk_mirror_vlanLeaky_set :: "rtk_enable_t \<Rightarrow> rtk_enable_t \<Rightarrow> ('d gsw, unit) drv" where
  "rtk_mirror_vlanLeaky_set txenable rxenable =
     thenE RTK_CHK_INIT_STATE
     (thenE (check_that (\<not> (txenable \<ge> RTK_ENABLE_END \<or> rxenable \<ge> RTK_ENABLE_END)) RT_ERR_ENABLE)
     (thenE (rtl8367c_setAsicPortMirrorVlanTxLeaky txenable) (rtl8367c_setAsicPortMirrorVlanRxLeaky rxenable)))"

definition rtk_mirror_vlanLeaky_get :: "outptr \<Rightarrow> outptr \<Rightarrow> ('d gsw, rtk_enable_t \<times> rtk_enable_t) drv" where
  "rtk_mirror_vlanLeaky_get pTxenable pRxenable =
     thenE RTK_CHK_INIT_STATE (thenE (not_null pTxenable) (thenE (not_null pRxenable)
     (bindE rtl8367c_getAsicPortMirrorVlanTxLeaky (\<lambda>tx.
      bindE rtl8367c_getAsicPortMirrorVlanRxLeaky (\<lambda>rx. okE (tx, rx))))))"

definition rtk_mirror_isolationLeaky_set :: "rtk_enable_t \<Rightarrow> rtk_enable_t \<Rightarrow> ('d gsw, unit) drv" where
  "rtk_mirror_isolationLeaky_set txenable rxenable =
     thenE RTK_CHK_INIT_STATE
     (thenE (check_that (\<not> (txenable \<ge> RTK_ENABLE_END \<or> rxenable \<ge> RTK_ENABLE_END)) RT_ERR_ENABLE)
     (thenE (rtl8367c_setAsicPortMirrorIsolationTxLeaky txenable) (rtl8367c_setAsicPortMirrorIsolationRxLeaky rxenable)))"

definition rtk_mirror_isolationLeaky_get :: "outptr \<Rightarrow> outptr \<Rightarrow> ('d gsw, rtk_enable_t \<times> rtk_enable_t) drv" where
  "rtk_mirror_isolationLeaky_get pTxenable pRxenable =
     thenE RTK_CHK_INIT_STATE (thenE (not_null pTxenable) (thenE (not_null pRxenable)
     (bindE rtl8367c_getAsicPortMirrorIsolationTxLeaky (\<lambda>tx.
      bindE rtl8367c_getAsicPortMirrorIsolationRxLeaky (\<lambda>rx. okE (tx, rx))))))"

definition rtk_mirror_keep_set :: "u32 \<Rightarrow> ('d gsw, unit) drv" where
  "rtk_mirror_keep_set mode =
     thenE RTK_CHK_INIT_STATE (thenE (check_that (mode < MIRROR_KEEP_END) RT_ERR_ENABLE)
       (rtl8367c_setAsicPortMirrorRealKeep mode))"

definition rtk_mirror_keep_get :: "outptr \<Rightarrow> ('d gsw, u32) drv" where
  "rtk_mirror_keep_get pMode =
     thenE RTK_CHK_INIT_STATE (thenE (not_null pMode) rtl8367c_getAsicPortMirrorRealKeep)"

text \<open>The override functions do not check the initialisation state.\<close>

definition rtk_mirror_override_set :: "rtk_enable_t \<Rightarrow> rtk_enable_t \<Rightarrow> rtk_enable_t \<Rightarrow> ('d gsw, unit) drv" where
  "rtk_mirror_override_set rxMirror txMirror aclMirror =
     (if rxMirror \<ge> RTK_ENABLE_END \<or> txMirror \<ge> RTK_ENABLE_END \<or> aclMirror \<ge> RTK_ENABLE_END
      then errE RT_ERR_ENABLE else rtl8367c_setAsicPortMirrorOverride rxMirror txMirror aclMirror)"

definition rtk_mirror_override_get :: "outptr \<Rightarrow> outptr \<Rightarrow> outptr \<Rightarrow> ('d gsw, u32 \<times> u32 \<times> u32) drv" where
  "rtk_mirror_override_get pRxMirror pTxMirror pAclMirror =
     (if pRxMirror = NULLP \<or> pTxMirror = NULLP \<or> pAclMirror = NULLP then errE RT_ERR_ENABLE
      else rtl8367c_getAsicPortMirrorOverride)"

section \<open>The configuration and its specification\<close>

record mirror_cfg =
  mir_port :: rtk_port_t
  mir_rx :: rtk_portmask_t
  mir_tx :: rtk_portmask_t
  mir_iso :: u32
  mir_vlanLeaky :: "u32 \<times> u32"
  mir_isoLeaky :: "u32 \<times> u32"
  mir_keep :: u32
  mir_override :: "u32 \<times> u32 \<times> u32"

datatype mirror_call =
    PortBased rtk_port_t "rtk_portmask_t option" "rtk_portmask_t option"
  | PortIso u32
  | VlanLeaky u32 u32
  | IsolationLeaky u32 u32
  | Keep u32
  | Override u32 u32 u32

primrec mirror_run :: "mirror_call \<Rightarrow> ('d gsw, unit) drv" where
  "mirror_run (PortBased p rx tx) = rtk_mirror_portBased_set p rx tx"
| "mirror_run (PortIso e) = rtk_mirror_portIso_set e"
| "mirror_run (VlanLeaky tx rx) = rtk_mirror_vlanLeaky_set tx rx"
| "mirror_run (IsolationLeaky tx rx) = rtk_mirror_isolationLeaky_set tx rx"
| "mirror_run (Keep m) = rtk_mirror_keep_set m"
| "mirror_run (Override rx tx acl) = rtk_mirror_override_set rx tx acl"

definition mirror_look :: "('d gsw, mirror_cfg) drv" where
  "mirror_look =
     bindE (rtk_mirror_portBased_get PTR PTR PTR) (\<lambda>(p, rx, tx).
     bindE (rtk_mirror_portIso_get PTR) (\<lambda>iso.
     bindE (rtk_mirror_vlanLeaky_get PTR PTR) (\<lambda>vl.
     bindE (rtk_mirror_isolationLeaky_get PTR PTR) (\<lambda>il.
     bindE (rtk_mirror_keep_get PTR) (\<lambda>k.
     bindE (rtk_mirror_override_get PTR PTR PTR) (\<lambda>ov.
     okE \<lparr>mir_port = p, mir_rx = rx, mir_tx = tx, mir_iso = iso, mir_vlanLeaky = vl, mir_isoLeaky = il,
       mir_keep = k, mir_override = ov\<rparr>))))))"

definition mirror_masks_ok :: "rtk_port_t \<Rightarrow> u32 \<Rightarrow> u32 \<Rightarrow> bool" where
  "mirror_masks_ok p rx tx \<longleftrightarrow> (tx = rx \<or> tx = 0 \<or> rx = 0) \<and> \<not> bit tx (unat p) \<and> \<not> bit rx (unat p)"

primrec mirror_spec :: "rtk_switch_halCtrl_t \<Rightarrow> mirror_call \<Rightarrow> mirror_cfg \<Rightarrow> unit outcome \<times> mirror_cfg" where
  "mirror_spec h (PortBased p rx tx) m =
     (if \<not> valid_port h p then (Err RT_ERR_PORT_ID, m)
      else case (rx, tx) of
        (Some r, Some t) \<Rightarrow> guarded (valid_mask h r \<and> valid_mask h t \<and> mirror_masks_ok p r t) RT_ERR_PORT_MASK
          (\<lambda>m. m\<lparr>mir_port := p, mir_rx := r, mir_tx := t\<rparr>) m
      | _ \<Rightarrow> (Err RT_ERR_NULL_POINTER, m))"
| "mirror_spec h (PortIso e) m = guarded (e \<le> 1) RT_ERR_ENABLE (\<lambda>m. m\<lparr>mir_iso := e\<rparr>) m"
| "mirror_spec h (VlanLeaky tx rx) m = guarded (tx \<le> 1 \<and> rx \<le> 1) RT_ERR_ENABLE (\<lambda>m. m\<lparr>mir_vlanLeaky := (tx, rx)\<rparr>) m"
| "mirror_spec h (IsolationLeaky tx rx) m = guarded (tx \<le> 1 \<and> rx \<le> 1) RT_ERR_ENABLE (\<lambda>m. m\<lparr>mir_isoLeaky := (tx, rx)\<rparr>) m"
| "mirror_spec h (Keep k) m = guarded (k \<le> 1) RT_ERR_ENABLE (\<lambda>m. m\<lparr>mir_keep := k\<rparr>) m"
| "mirror_spec h (Override rx tx acl) m =
     guarded (rx \<le> 1 \<and> tx \<le> 1 \<and> acl \<le> 1) RT_ERR_ENABLE (\<lambda>m. m\<lparr>mir_override := (rx, tx, acl)\<rparr>) m"

text \<open>What the registers say.\<close>

definition mirrored :: "rtk_switch_halCtrl_t \<Rightarrow> nat \<Rightarrow> swt \<Rightarrow> u32" where
  "mirrored h k c = (if gfld RTL8367C_MIRROR_CTRL_REG k 1 c = 0 then 0
     else p2l_mask h (gfld RTL8367C_REG_MIRROR_SRC_PMSK 0 11 c) OR
       push_bit (unat (p2l_port h ! unat (gfld RTL8367C_MIRROR_CTRL_REG 0 4 c))) 1)"

definition mirror_abs :: "rtk_switch_halCtrl_t \<Rightarrow> swt \<Rightarrow> mirror_cfg" where
  "mirror_abs h c =
     \<lparr>mir_port = p2l_port h ! unat (gfld RTL8367C_MIRROR_CTRL_REG 4 4 c), mir_rx = mirrored h 9 c, mir_tx = mirrored h 10 c,
      mir_iso = gfld RTL8367C_MIRROR_CTRL_REG 11 1 c,
      mir_vlanLeaky = (gfld RTL8367C_REG_MIRROR_CTRL2 0 1 c, gfld RTL8367C_REG_MIRROR_CTRL2 1 1 c),
      mir_isoLeaky = (gfld RTL8367C_REG_MIRROR_CTRL2 2 1 c, gfld RTL8367C_REG_MIRROR_CTRL2 3 1 c),
      mir_keep = gfld RTL8367C_REG_MIRROR_CTRL2 4 1 c,
      mir_override = (gfld RTL8367C_REG_MIRROR_CTRL3 0 1 c, gfld RTL8367C_REG_MIRROR_CTRL3 1 1 c, gfld RTL8367C_REG_MIRROR_CTRL3 2 1 c)\<rparr>"

section \<open>The calls refine the specification\<close>

lemma mirror_regs [simp]:
  "cfg_reg 0x121C" "cfg_reg 0x12FB" "cfg_reg 0x9DA" "cfg_reg 0x9C1"
  by (simp_all add: cfg_reg_defs)

lemma mirror_masks:
  "(0xF :: u32) = field_mask 0 4" "(0xF0 :: u32) = field_mask 4 4" "(0x7FF :: u32) = field_mask 0 11"
  by (simp_all add: field_defs)

lemmas mirror_put = mirror_abs_def mirrored_def gfld_put gfld_put_apart db_ok_put_gfld mask_Suc_0 bound1 guarded_def check_that_def

lemma wp_portIso_set:
  "sw_ready c h \<Longrightarrow> db_ok c \<Longrightarrow> cfg_regs \<subseteq> A \<Longrightarrow>
   wp view A (rtk_mirror_portIso_set e) (\<lambda>r c'. (r, mirror_abs h c') = mirror_spec h (PortIso e) (mirror_abs h c) \<and> sw_ready c' h \<and> db_ok c') c"
  unfolding rtk_mirror_portIso_set_def rtl8367c_setAsicPortMirrorIsolation_def
  by (auto intro!: wp_thenE wp_chk_init wp_set_gbit wp_errE simp: mirror_put)

lemma wp_keep_set:
  "sw_ready c h \<Longrightarrow> db_ok c \<Longrightarrow> cfg_regs \<subseteq> A \<Longrightarrow>
   wp view A (rtk_mirror_keep_set k) (\<lambda>r c'. (r, mirror_abs h c') = mirror_spec h (Keep k) (mirror_abs h c) \<and> sw_ready c' h \<and> db_ok c') c"
  unfolding rtk_mirror_keep_set_def rtl8367c_setAsicPortMirrorRealKeep_def
  by (auto intro!: wp_thenE wp_chk_init wp_set_gbit wp_errE simp: mirror_put)

lemma wp_vlanLeaky_set:
  "sw_ready c h \<Longrightarrow> db_ok c \<Longrightarrow> cfg_regs \<subseteq> A \<Longrightarrow>
   wp view A (rtk_mirror_vlanLeaky_set tx rx)
     (\<lambda>r c'. (r, mirror_abs h c') = mirror_spec h (VlanLeaky tx rx) (mirror_abs h c) \<and> sw_ready c' h \<and> db_ok c') c"
  unfolding rtk_mirror_vlanLeaky_set_def rtl8367c_setAsicPortMirrorVlanTxLeaky_def rtl8367c_setAsicPortMirrorVlanRxLeaky_def
  by (auto intro!: wp_thenE wp_chk_init wp_set_gbit wp_errE simp: mirror_put)

lemma wp_isolationLeaky_set:
  "sw_ready c h \<Longrightarrow> db_ok c \<Longrightarrow> cfg_regs \<subseteq> A \<Longrightarrow>
   wp view A (rtk_mirror_isolationLeaky_set tx rx)
     (\<lambda>r c'. (r, mirror_abs h c') = mirror_spec h (IsolationLeaky tx rx) (mirror_abs h c) \<and> sw_ready c' h \<and> db_ok c') c"
  unfolding rtk_mirror_isolationLeaky_set_def rtl8367c_setAsicPortMirrorIsolationTxLeaky_def rtl8367c_setAsicPortMirrorIsolationRxLeaky_def
  by (auto intro!: wp_thenE wp_chk_init wp_set_gbit wp_errE simp: mirror_put)

lemma wp_override_set:
  "sw_ready c h \<Longrightarrow> db_ok c \<Longrightarrow> cfg_regs \<subseteq> A \<Longrightarrow>
   wp view A (rtk_mirror_override_set rx tx acl)
     (\<lambda>r c'. (r, mirror_abs h c') = mirror_spec h (Override rx tx acl) (mirror_abs h c) \<and> sw_ready c' h \<and> db_ok c') c"
  unfolding rtk_mirror_override_set_def rtl8367c_setAsicPortMirrorOverride_def
  by (auto intro!: wp_thenE wp_set_gbit wp_errE simp: mirror_put)

subsection \<open>Port-based mirroring\<close>

lemma logicalPortCheck_run:
  "ready s h \<Longrightarrow> rtk_switch_logicalPortCheck p s = (if valid_port h p then Ok () else Err RT_ERR_FAILED, s)"
  by (auto simp: rtk_switch_logicalPortCheck_def port_guard_def ok_or_failed_def drv_simps
      halE_def ready_def valid_port_def hal_wf_lengths)

lemma mirror_source_run:
  assumes "ready s h" and "set is \<subseteq> {..<32}"
  shows "mirror_source tx rx is d s =
     (Ok (case List.find (\<lambda>i. valid_port h (of_nat i) \<and> bit (tx OR rx) i) is of None \<Rightarrow> d | Some i \<Rightarrow> of_nat i), s)"
  using assms(2)
  by (induction "is") (auto simp: okE_def bindE_def isOkE_def logicalPortCheck_run [OF assms(1)] bit_simps)

definition max_port :: "rtk_switch_halCtrl_t \<Rightarrow> rtk_port_t" where
  "max_port h = fold (\<lambda>i m. if log_port_type h ! i \<noteq> UNKNOWN_PORT then of_nat i else m) [0..<32] 0"

lemma maxLogicalPort_run:
  assumes "ready s h"
  shows "rtk_switch_maxLogicalPort_get s = (Ok (max_port h), s)"
proof -
  have len: "length (log_port_type h) = 32" using assms by (simp add: ready_def hal_wf_lengths)
  have "ty = UTP_PORT \<or> ty = EXT_PORT \<longleftrightarrow> ty \<noteq> UNKNOWN_PORT" for ty by (cases ty) auto
  then have "foldE (\<lambda>port maxLogicalPort. bindE (indexE (log_port_type h) port) (\<lambda>ty.
      okE (if ty = UTP_PORT \<or> ty = EXT_PORT then of_nat port else maxLogicalPort))) [0..<32] 0 s = (Ok (max_port h), s)"
    unfolding max_port_def by (intro foldE_pure) (auto simp: len okE_def)
  with assms show ?thesis
    by (simp add: rtk_switch_maxLogicalPort_get_def rtk_switch_initialState_get_def bindE_def getsE_def halE_run ready_def halE_def drv_simps)
qed

lemma fold_last:
  assumes "\<exists>i \<in> set is. P i"
  shows "\<exists>i \<in> set is. P i \<and> fold (\<lambda>i m. if P i then f i else m) is m0 = f i"
  using assms
proof (induction "is" rule: rev_induct)
  case (snoc i "is")
  then show ?case by (cases "P i") auto
qed simp

lemma max_port_valid:
  assumes "hal_wf h" and "valid_port h p"
  shows "valid_port h (max_port h)"
proof -
  have T: "log_port_type h ! i \<noteq> UNKNOWN_PORT \<longleftrightarrow> l2p_port h ! i \<noteq> 0xFF" if "i < 32" for i
    using assms(1) that by (auto simp: hal_wf_def list_all_iff)
  have "\<exists>i \<in> set [0..<32]. log_port_type h ! i \<noteq> UNKNOWN_PORT"
    using assms(2) T [of "unat p"] by (auto simp: valid_port_def intro!: bexI [of _ "unat p"])
  from fold_last [OF this, of of_nat 0] obtain i where "i < 32" "log_port_type h ! i \<noteq> UNKNOWN_PORT" "max_port h = of_nat i"
    by (auto simp: max_port_def)
  with T [of i] show ?thesis by (simp add: valid_port_def unat_of_nat)
qed

lemma p2l_phy_of: "hal_wf h \<Longrightarrow> valid_port h p \<Longrightarrow> p2l_port h ! unat (phy_of h p) = p"
  using port_map.logical(1,4) [of h "unat p"] by (auto simp: port_map_def valid_port_def phy_of_def)

lemma find_source:
  assumes "hal_wf h" and "valid_mask h m" and "m \<noteq> 0"
  shows "\<exists>i. List.find (\<lambda>i. valid_port h (of_nat i) \<and> bit m i) [0..<32] = Some i \<and> i < 32 \<and> valid_port h (of_nat i) \<and> bit m i"
proof -
  obtain i where i: "bit m i" using assms(3) by (metis bit_0_eq bit_word_eqI bot_apply bot_bool_def)
  then have "i < 32" using bit_imp_le_length [OF i] by simp
  moreover have "bit (valid_portmask h) i" using assms(2) i by (auto simp: valid_mask_def subset_mask_iff)
  ultimately have "valid_port h (of_nat i)"
    using port_map.logical(1) [of h i] assms(1) by (simp add: port_map_def valid_port_def unat_of_nat)
  with \<open>i < 32\<close> i have "\<exists>i \<in> set [0..<32]. valid_port h (of_nat i) \<and> bit m i" by auto
  then obtain j where "List.find (\<lambda>i. valid_port h (of_nat i) \<and> bit m i) [0..<32] = Some j"
    using find_None_iff [of "\<lambda>i. valid_port h (of_nat i) \<and> bit m i" "[0..<32]"] by fastforce
  then show ?thesis by (auto simp: find_Some_iff)
qed

definition source_of :: "rtk_switch_halCtrl_t \<Rightarrow> u32 \<Rightarrow> rtk_port_t" where
  "source_of h m = (case List.find (\<lambda>i. valid_port h (of_nat i) \<and> bit m i) [0..<32] of None \<Rightarrow> max_port h | Some i \<Rightarrow> of_nat i)"

lemma source_of_valid:
  assumes "hal_wf h" and "valid_port h p" and "valid_mask h m"
  shows "valid_port h (source_of h m)" and "m \<noteq> 0 \<Longrightarrow> bit m (unat (source_of h m))"
proof -
  show "m \<noteq> 0 \<Longrightarrow> bit m (unat (source_of h m))"
    using find_source [OF assms(1,3)] by (auto simp: source_of_def unat_of_nat)
  show "valid_port h (source_of h m)"
  proof (cases "m = 0")
    case True
    then have "List.find (\<lambda>i. valid_port h (of_nat i) \<and> bit m i) [0..<32] = None" by (simp add: find_None_iff)
    then show ?thesis using max_port_valid [OF assms(1,2)] by (simp add: source_of_def)
  next
    case False
    with find_source [OF assms(1,3)] show ?thesis by (auto simp: source_of_def)
  qed
qed

lemma set_bit_or: "bit m k \<Longrightarrow> m OR 2 ^ k = (m :: u32)"
  by (rule bit_word_eqI) (auto simp: bit_simps)

lemma wp_mirror_source:
  assumes "sw_ready c h" and "Q (Ok (source_of h (tx OR rx))) c"
  shows "wp view A (bindE rtk_switch_maxLogicalPort_get (mirror_source tx rx [0..<32])) Q c"
  by (rule wp_pure [where r = "Ok (source_of h (tx OR rx))"])
     (use assms in \<open>auto simp: bindE_def maxLogicalPort_run [OF sw_ready_rel] mirror_source_run [OF sw_ready_rel] source_of_def lessThan_atLeast0\<close>)

lemma le_mask4: "(v :: u32) \<le> 10 \<Longrightarrow> v \<le> mask 4"
  by (simp add: mask_eq_exp_minus_1 word_le_nat_alt)

lemma wp_setAsicPortMirror:
  assumes "p \<le> 10" and "q \<le> 10" and "cfg_regs \<subseteq> A"
    and "Q (Ok ()) (put_gfld 0x121C 4 4 q (put_gfld 0x121C 0 4 p c))"
  shows "wp view A (rtl8367c_setAsicPortMirror p q) Q c"
  unfolding rtl8367c_setAsicPortMirror_def
  using assms by (auto intro!: wp_thenE wp_set_gfld [OF mirror_masks(1)] wp_set_gfld [OF mirror_masks(2)] simp: le_mask4 leD)

lemma wp_setAsicPortMirrorMask:
  assumes "m \<le> 0x7FF" and "cfg_regs \<subseteq> A" and "Q (Ok ()) (put_gfld 0x12FB 0 11 m c)"
  shows "wp view A (rtl8367c_setAsicPortMirrorMask m) Q c"
  unfolding rtl8367c_setAsicPortMirrorMask_def
  using assms by (auto intro!: wp_set_gfld [OF mirror_masks(3)] simp: mask_eq_exp_minus_1 leD)

lemma portBased_state:
  fixes c :: swt
  assumes "hal_wf h" and "valid_port h p" and "valid_mask h m" and "rx = m \<and> tx \<in> {0, m} \<or> rx = 0 \<and> tx = m"
  defines "c' \<equiv> put_gfld 0x121C 10 1 (if tx \<noteq> 0 then 1 else 0) (put_gfld 0x121C 9 1 (if rx \<noteq> 0 then 1 else 0)
      (put_gfld 0x12FB 0 11 (l2p_mask h m) (put_gfld 0x121C 4 4 (phy_of h p) (put_gfld 0x121C 0 4 (phy_of h (source_of h m)) c))))"
  shows "mirror_abs h c' = (mirror_abs h c)\<lparr>mir_port := p, mir_rx := rx, mir_tx := tx\<rparr>"
proof -
  have src: "valid_port h (source_of h m)" and bit: "m \<noteq> 0 \<Longrightarrow> bit m (unat (source_of h m))"
    using source_of_valid [OF assms(1-3)] by auto
  note phys = le_mask4 [OF phy_of_le [OF assms(1) src]] le_mask4 [OF phy_of_le [OF assms(1,2)]]
  have l2p: "l2p_mask h m \<le> mask 11" "p2l_mask h (l2p_mask h m) = m"
    using l2p_mask_bound [OF assms(1,3)] by (simp_all add: mask_eq_exp_minus_1)
  have "gfld 0x12FB 0 11 c' = l2p_mask h m" "gfld 0x121C 0 4 c' = phy_of h (source_of h m)" "gfld 0x121C 4 4 c' = phy_of h p"
    "gfld 0x121C 9 1 c' = (if rx \<noteq> 0 then 1 else 0)" "gfld 0x121C 10 1 c' = (if tx \<noteq> 0 then 1 else 0)"
    using l2p(1) phys by (simp_all add: c'_def gfld_put gfld_put_apart mask_Suc_0)
  moreover have "gfld 0x121C 11 1 c' = gfld 0x121C 11 1 c" "gfld 0x9DA k 1 c' = gfld 0x9DA k 1 c" "gfld 0x9C1 k 1 c' = gfld 0x9C1 k 1 c" for k
    by (simp_all add: c'_def gfld_put_apart)
  ultimately show ?thesis
    using assms(4) bit by (auto simp: mirror_abs_def mirrored_def p2l_phy_of [OF assms(1)] src assms(2) l2p(2) set_bit_or)
qed

lemma wp_portBased_ok:
  fixes view :: "'d \<Rightarrow> chip_view"
  assumes "sw_ready c h" and "db_ok c" and "cfg_regs \<subseteq> A" and "valid_port h p" and "valid_mask h rx" and "valid_mask h tx" and "mirror_masks_ok p rx tx"
  shows "wp view A (rtk_mirror_portBased_set p (Some rx) (Some tx))
     (\<lambda>r c'. r = Ok () \<and> mirror_abs h c' = (mirror_abs h c)\<lparr>mir_port := p, mir_rx := rx, mir_tx := tx\<rparr> \<and> sw_ready c' h \<and> db_ok c') c"
proof -
  define m where "m = tx OR rx"
  have h: "hal_wf h" using assms(1) by (simp add: sw_ready_def)
  have m: "m = (if rx \<noteq> 0 then rx else tx)" "valid_mask h m" "rx = m \<and> tx \<in> {0, m} \<or> rx = 0 \<and> tx = m"
    using assms(5-7) by (auto simp: m_def mirror_masks_ok_def)
  note src = source_of_valid [OF h assms(4) m(2)]
  note le = phy_of_le [OF h src(1)] phy_of_le [OF h assms(4)]
  have l2p: "l2p_mask h m \<le> 0x7FF" using l2p_mask_bound [OF h m(2)] by simp
  note state = portBased_state [OF h assms(4) m(2,3), of c]
  have code: "rtk_mirror_portBased_set p (Some rx) (Some tx) = (
     thenE RTK_CHK_INIT_STATE (thenE (RTK_CHK_PORT_VALID p) (thenE (RTK_CHK_PORTMASK_VALID (Some rx)) (thenE (RTK_CHK_PORTMASK_VALID (Some tx))
      (bindE (bindE rtk_switch_maxLogicalPort_get (mirror_source tx rx [0..<RTK_SWITCH_PORT_NUM])) (\<lambda>source_port.
          bindE (rtk_switch_port_L2P_get source_port) (\<lambda>source.
          bindE (rtk_switch_port_L2P_get p) (\<lambda>monitor.
          thenE (rtl8367c_setAsicPortMirror source monitor)
          (thenE (bindE (rtk_switch_portmask_L2P_get (Some m) PTR) rtl8367c_setAsicPortMirrorMask)
          (thenE (rtl8367c_setAsicPortMirrorRxFunction (if rx \<noteq> 0 then ENABLED else DISABLED))
           (rtl8367c_setAsicPortMirrorTxFunction (if tx \<noteq> 0 then ENABLED else DISABLED))))))))))) :: ('d gsw, unit) drv)"
    using assms(7) unfolding rtk_mirror_portBased_set_def bindE_assoc m(1) by (auto simp: mirror_masks_ok_def)
  define a b :: u32 where "a = (if rx \<noteq> 0 then 1 else 0)" and "b = (if tx \<noteq> 0 then 1 else 0)"
  have ab: "a \<le> 1" "b \<le> 1" by (simp_all add: a_def b_def)
  show ?thesis
    unfolding code rtl8367c_setAsicPortMirrorRxFunction_def rtl8367c_setAsicPortMirrorTxFunction_def a_def [symmetric] b_def [symmetric]
    using assms(2,3,5,6) le l2p state [folded a_def b_def] ab
    by (auto intro!: wp_thenE wp_bindE wp_chk_init [OF assms(1)] wp_chk_port [OF assms(1,4)] wp_chk_portmask [OF assms(1)]
        wp_mirror_source [OF assms(1)] wp_port_L2P [OF assms(1)] wp_setAsicPortMirror wp_portmask_L2P [where h = h]
        wp_setAsicPortMirrorMask wp_set_gbit
        simp: m_def [symmetric] valid_port_less [OF src(1)] valid_port_less [OF assms(4)] assms(1,4) m(2) db_ok_put_gfld)
qed

lemma portBased_refused:
  assumes "ready s h" and "\<not> (valid_port h p \<and> (\<exists>r t. rx = Some r \<and> tx = Some t \<and> valid_mask h r \<and> valid_mask h t \<and> mirror_masks_ok p r t))"
  shows "rtk_mirror_portBased_set p rx tx s =
     (Err (if \<not> valid_port h p then RT_ERR_PORT_ID else if rx = None \<or> tx = None then RT_ERR_NULL_POINTER else RT_ERR_PORT_MASK), s)"
proof (cases "\<not> valid_port h p \<or> rx = None \<or> tx = None")
  case True
  then show ?thesis
    by (auto simp: rtk_mirror_portBased_set_def chk_then [OF assms(1)] errE_def split: option.splits)
next
  case False
  then obtain r t where rt: "rx = Some r" "tx = Some t" "valid_port h p" by auto
  have "\<not> valid_mask h r \<or> \<not> valid_mask h t \<or> \<not> mirror_masks_ok p r t" using assms(2) rt by blast
  then show ?thesis
    by (auto simp: rt rtk_mirror_portBased_set_def chk_then [OF assms(1)] mirror_masks_ok_def errE_def)
qed

lemma wp_portBased_set:
  assumes "sw_ready c h" and "db_ok c" and "cfg_regs \<subseteq> A"
  shows "wp view A (rtk_mirror_portBased_set p rx tx)
     (\<lambda>r c'. (r, mirror_abs h c') = mirror_spec h (PortBased p rx tx) (mirror_abs h c) \<and> sw_ready c' h \<and> db_ok c') c"
proof (cases "valid_port h p \<and> (\<exists>r t. rx = Some r \<and> tx = Some t \<and> valid_mask h r \<and> valid_mask h t \<and> mirror_masks_ok p r t)")
  case True
  then obtain r t where rt: "rx = Some r" "tx = Some t" "valid_port h p" "valid_mask h r" "valid_mask h t" "mirror_masks_ok p r t" by blast
  show ?thesis
    unfolding rt(1,2) by (rule wp_weaken [OF wp_portBased_ok [OF assms rt(3-6)]]) (simp add: guarded_def rt(3-6))
next
  case False
  then have "(Err (if \<not> valid_port h p then RT_ERR_PORT_ID else if rx = None \<or> tx = None then RT_ERR_NULL_POINTER else RT_ERR_PORT_MASK),
      mirror_abs h c) = mirror_spec h (PortBased p rx tx) (mirror_abs h c)"
    by (auto simp: guarded_def split: option.splits)
  with assms(1,2) show ?thesis
    by (intro wp_pure [OF portBased_refused [OF sw_ready_rel [OF _ assms(1)] False]]) auto
qed

subsection \<open>Reading the configuration\<close>

lemma wp_port_P2L:
  "sw_ready c h \<Longrightarrow> unat p < 32 \<Longrightarrow> Q (Ok (p2l_port h ! unat p)) c \<Longrightarrow> wp view A (rtk_switch_port_P2L_get p) Q c"
  by (rule wp_pure) (auto intro: port_P2L_run sw_ready_rel)

lemma p2l_less: "hal_wf h \<Longrightarrow> p < 32 \<Longrightarrow> unat (p2l_port h ! p) < 32"
  using port_map.physical(1) [of h p] by (cases "p2l_port h ! p = UNDEFINE_PORT") (auto simp: port_map_def)

lemma wp_mirrored_set:
  assumes "sw_ready c h" and "unat p < 32" and "Q (Ok (if e = 0 then 0 else p2l_mask h m OR push_bit (unat p) 1)) c"
  shows "wp view A (mirrored_set e p m) Q c"
  unfolding mirrored_set_def using assms by (auto intro!: wp_bindE wp_okE wp_portmask_P2L [OF assms(1)])

lemma wp_portBased_get:
  assumes "sw_ready c h" and "cfg_regs \<subseteq> A"
    and "Q (Ok (mir_port (mirror_abs h c), mir_rx (mirror_abs h c), mir_tx (mirror_abs h c))) c"
  shows "wp view A (rtk_mirror_portBased_get PTR PTR PTR) Q c"
proof -
  have h: "hal_wf h" using assms(1) by (simp add: sw_ready_def)
  have f: "unat (gfld 0x121C k 4 c) < 32" if "k \<le> 12" for k
    using gfld_le [of 4 k "0x121C" c] that by (simp add: mask_eq_exp_minus_1 word_le_nat_alt)
  note l = p2l_less [OF h f]
  show ?thesis
    unfolding rtk_mirror_portBased_get_def rtl8367c_getAsicPortMirror_def rtl8367c_getAsicPortMirrorRxFunction_def
      rtl8367c_getAsicPortMirrorTxFunction_def rtl8367c_getAsicPortMirrorMask_def not_null_def
    using assms(2,3)
    by (auto intro!: wp_thenE wp_bindE wp_okE wp_chk_init [OF assms(1)] wp_get_gfld [OF mirror_masks(1)] wp_get_gfld [OF mirror_masks(2)]
        wp_get_gfld [OF mirror_masks(3)] wp_port_P2L [OF assms(1)] wp_get_gbit wp_mirrored_set [OF assms(1)]
        simp: f l mirror_abs_def mirrored_def)
qed

lemmas mirror_get_defs = rtk_mirror_portIso_get_def rtl8367c_getAsicPortMirrorIsolation_def rtk_mirror_vlanLeaky_get_def
  rtl8367c_getAsicPortMirrorVlanTxLeaky_def rtl8367c_getAsicPortMirrorVlanRxLeaky_def rtk_mirror_isolationLeaky_get_def
  rtl8367c_getAsicPortMirrorIsolationTxLeaky_def rtl8367c_getAsicPortMirrorIsolationRxLeaky_def rtk_mirror_keep_get_def
  rtl8367c_getAsicPortMirrorRealKeep_def rtk_mirror_override_get_def rtl8367c_getAsicPortMirrorOverride_def not_null_def

lemma wp_mirror_look:
  assumes "sw_ready c h" and "cfg_regs \<subseteq> A"
  shows "wp view A mirror_look (\<lambda>r c'. r = Ok (mirror_abs h c) \<and> c' = c) c"
  unfolding mirror_look_def mirror_get_defs
  using assms(2)
  by (auto intro!: wp_thenE wp_bindE wp_okE wp_chk_init [OF assms(1)] wp_portBased_get [OF assms] wp_get_gbit)
     (simp add: mirror_abs_def)

interpretation mirror_unit: readable_unit mirror_abs mirror_spec mirror_run mirror_look
proof (unfold_locales, goal_cases)
  case (1 c h A view x)
  then show ?case
    using wp_portBased_set [OF 1] wp_portIso_set [OF 1] wp_vlanLeaky_set [OF 1] wp_isolationLeaky_set [OF 1] wp_keep_set [OF 1] wp_override_set [OF 1]
    by (cases x) (simp_all only: mirror_run.simps)
next
  case (2 c h A view)
  then show ?case by (rule wp_mirror_look)
qed

section \<open>Properties\<close>

text \<open>
  C29. The mirroring API refines the configuration a caller has in mind: for every sequence of calls
  with any arguments, each call returns the code its specification gives (a bad port, a null or
  foreign port set, two different sets, a set with the mirroring port itself or a flag out of range
  are refused), and the configuration read back afterwards is the one obtained by applying the
  successful calls in order; no setting disturbs another.
\<close>

theorem mirror_calls_refine:
  assumes "driver_up view A h s" and "fst (mirror_look s) = Ok m"
  shows "\<exists>s'. run_calls mirror_run xs s = (fst (spec_calls (mirror_spec h) xs m), s') \<and> driver_up view A h s' \<and>
     fst (mirror_look s') = Ok (snd (spec_calls (mirror_spec h) xs m))"
  by (rule mirror_unit.calls_refine [OF assms])

lemma sim_mirror_look:
  "fst (mirror_look (sim_gsw 1 (Some rtl8367c_hal_Ctrl))) =
     Ok \<lparr>mir_port = 0, mir_rx = 0, mir_tx = 0, mir_iso = 0, mir_vlanLeaky = (0, 0), mir_isoLeaky = (0, 0), mir_keep = 0,
       mir_override = (0, 0, 0)\<rparr>"
proof -
  note up = driver_upD [OF sim_driver_up [OF hal_tables_wf(1)]]
  have reg: "sw_reg (swt_of sim_view (sim_gsw 1 (Some rtl8367c_hal_Ctrl))) = (\<lambda>_. 0)"
    by (simp add: swt_of_def sim_dev0_def sim_view0_def)
  have "gfld a k w (swt_of sim_view (sim_gsw 1 (Some rtl8367c_hal_Ctrl))) = 0" for a k w by (simp add: gfld_def reg get_field_def)
  then have "mirror_abs rtl8367c_hal_Ctrl (swt_of sim_view (sim_gsw 1 (Some rtl8367c_hal_Ctrl))) =
     \<lparr>mir_port = 0, mir_rx = 0, mir_tx = 0, mir_iso = 0, mir_vlanLeaky = (0, 0), mir_isoLeaky = (0, 0), mir_keep = 0,
       mir_override = (0, 0, 0)\<rparr>" by (simp add: mirror_abs_def mirrored_def rtl8367c_hal_Ctrl_def)
  with wp_run_pure(1) [OF wp_mirror_look [OF up(3,2)] up(1)] show ?thesis by simp
qed

theorem mirror_calls_refine_witness:
  "\<exists>s'. run_calls mirror_run [PortBased 16 (Some 3) (Some 0), PortIso 1, Keep 7, PortBased 16 (Some 3) (Some 4)]
      (sim_gsw 1 (Some rtl8367c_hal_Ctrl)) = ([Ok (), Ok (), Err RT_ERR_ENABLE, Err RT_ERR_PORT_MASK], s') \<and>
     fst (mirror_look s') = Ok \<lparr>mir_port = 16, mir_rx = 3, mir_tx = 0, mir_iso = 1, mir_vlanLeaky = (0, 0), mir_isoLeaky = (0, 0),
       mir_keep = 0, mir_override = (0, 0, 0)\<rparr>"
proof -
  let ?xs = "[PortBased 16 (Some 3) (Some 0), PortIso 1, Keep 7, PortBased 16 (Some 3) (Some 4)]"
  have "valid_port rtl8367c_hal_Ctrl 16" "valid_mask rtl8367c_hal_Ctrl 3" "valid_mask rtl8367c_hal_Ctrl 0"
    "mirror_masks_ok 16 3 0" "\<not> mirror_masks_ok 16 3 4" "\<not> (7 :: u32) \<le> 1" by code_simp+
  then have "spec_calls (mirror_spec rtl8367c_hal_Ctrl) ?xs \<lparr>mir_port = 0, mir_rx = 0, mir_tx = 0, mir_iso = 0, mir_vlanLeaky = (0, 0),
      mir_isoLeaky = (0, 0), mir_keep = 0, mir_override = (0, 0, 0)\<rparr> =
    ([Ok (), Ok (), Err RT_ERR_ENABLE, Err RT_ERR_PORT_MASK], \<lparr>mir_port = 16, mir_rx = 3, mir_tx = 0, mir_iso = 1, mir_vlanLeaky = (0, 0),
      mir_isoLeaky = (0, 0), mir_keep = 0, mir_override = (0, 0, 0)\<rparr>)" by (simp add: guarded_def)
  with mirror_calls_refine [OF sim_driver_up [OF hal_tables_wf(1)] sim_mirror_look, of ?xs] show ?thesis by auto
qed

text \<open>
  C30. The register of the last transparent-egress mask, computed as base plus port number, is the
  mirror control register: on the RTL8370B, whose \<open>EXT_PORT2\<close> is physical port 10, setting the
  transparent egress set of that port succeeds and overwrites the VLAN and isolation leaky flags and
  the keep mode of the mirror unit with the membership of physical ports 0 to 4.
\<close>

theorem transparent_overwrites_mirror:
  assumes "driver_up view A rtl8370b_hal_Ctrl s" and "valid_mask rtl8370b_hal_Ctrl m"
  shows "let p = l2p_mask rtl8370b_hal_Ctrl m in
     (\<exists>s'. rtk_vlan_transparent_set 18 (Some m) s = (Ok (), s') \<and>
       fst (rtk_mirror_vlanLeaky_get PTR PTR s') = Ok (of_bool (bit p 0), of_bool (bit p 1)) \<and>
       fst (rtk_mirror_isolationLeaky_get PTR PTR s') = Ok (of_bool (bit p 2), of_bool (bit p 3)) \<and>
       fst (rtk_mirror_keep_get PTR s') = Ok (of_bool (bit p 4)))"
proof -
  note up = driver_upD [OF assms(1)]
  let ?c = "swt_of view s" and ?p = "l2p_mask rtl8370b_hal_Ctrl m"
  have port: "valid_port rtl8370b_hal_Ctrl 18" "phy_of rtl8370b_hal_Ctrl 18 = 10" by code_simp+
  have le: "?p \<le> 0x7FF" "?p \<le> mask 11" using l2p_mask_bound [OF up(5) assms(2)] by (simp_all add: mask_eq_exp_minus_1)
  have "wp view A (rtk_vlan_transparent_set 18 (Some m)) (\<lambda>r d. r = Ok () \<and> d = put_gfld 0x9DA 0 11 ?p ?c) ?c"
    unfolding rtk_vlan_transparent_set_def
    by (rule wp_portmask_set_op [OF up(3) port(1) assms(2)])
       (auto simp: rtl8367c_setAsicVlanTransparent_def port(2) leD le intro!: wp_set_gfld [OF mirror_masks(3)] up(2))
  from this up(1) obtain s' where run: "rtk_vlan_transparent_set 18 (Some m) s = (Ok (), s')"
    and rel: "swt_rel view A s' (put_gfld 0x9DA 0 11 ?p ?c)" by (rule wpD) blast
  have ready: "sw_ready (put_gfld 0x9DA 0 11 ?p ?c) rtl8370b_hal_Ctrl" using up(3) by simp
  have fl: "gfld 0x9DA k 1 (put_gfld 0x9DA 0 11 ?p ?c) = of_bool (bit ?p k)" if "k < 11" for k
    by (rule gfld_bit_of_put) (use that le(2) in auto)
  have "fst (rtk_mirror_vlanLeaky_get PTR PTR s') = Ok (of_bool (bit ?p 0), of_bool (bit ?p 1))"
    "fst (rtk_mirror_isolationLeaky_get PTR PTR s') = Ok (of_bool (bit ?p 2), of_bool (bit ?p 3))"
    "fst (rtk_mirror_keep_get PTR s') = Ok (of_bool (bit ?p 4))"
    using fl [of 0] fl [of 1] fl [of 2] fl [of 3] fl [of 4] up(2)
    by (intro wp_run_pure(1) [OF _ rel]; auto intro!: wp_thenE wp_bindE wp_okE wp_chk_init [OF ready] wp_get_gbit simp: mirror_get_defs)+
  with run show ?thesis by (auto simp: Let_def)
qed

theorem transparent_overwrites_mirror_witness:
  "\<exists>s'. rtk_vlan_transparent_set 18 (Some 3) (sim_gsw 1 (Some rtl8370b_hal_Ctrl)) = (Ok (), s') \<and>
     fst (rtk_mirror_vlanLeaky_get PTR PTR s') = Ok (1, 1)"
proof -
  have "valid_mask rtl8370b_hal_Ctrl 3" "l2p_mask rtl8370b_hal_Ctrl 3 = 3" by code_simp+
  with transparent_overwrites_mirror [OF sim_driver_up [OF hal_tables_wf(2)], of 3] show ?thesis by (auto simp: bit_simps Let_def)
qed

end
