(* ===== verification/Row_Table.thy ===== *)
theory Row_Table
  imports Config_Unit
begin

text \<open>
  Tables of entries held in configuration registers: entry \<open>i\<close> occupies the registers
  \<open>cell i 0\<close>, \dots, \<open>cell i (w - 1)\<close>, and a structure is packed into their words.  \<open>row_table\<close> is
  what the code relies on: the registers of different entries are different configuration
  registers, and unpacking undoes packing.  Then the table is an array of structures.
\<close>

lemma upt_below: "set [0..<w] \<subseteq> {..<w}"
  by auto

lemma bindE_okE_right [simp]: "bindE m okE = m"
  by (rule ext) (auto simp: bindE_def okE_def split: prod.splits outcome.splits)

section \<open>Access\<close>

definition write_row :: "(u32 \<Rightarrow> nat \<Rightarrow> u32) \<Rightarrow> nat \<Rightarrow> u32 \<Rightarrow> u16 list \<Rightarrow> ('d gsw, unit) drv" where
  "write_row cell w i ws = forE [0..<w] (\<lambda>p. rtl8367c_setAsicReg (cell i p) (ucast (ws ! p)))"

definition read_row :: "(u32 \<Rightarrow> nat \<Rightarrow> u32) \<Rightarrow> nat \<Rightarrow> u32 \<Rightarrow> ('d gsw, u16 list) drv" where
  "read_row cell w i = mapE (\<lambda>p. bindE (rtl8367c_getAsicReg (cell i p)) (\<lambda>d. okE (ucast d))) [0..<w]"

definition row :: "(u32 \<Rightarrow> nat \<Rightarrow> u32) \<Rightarrow> nat \<Rightarrow> (u16 list \<Rightarrow> 'e) \<Rightarrow> u32 \<Rightarrow> swt \<Rightarrow> 'e" where
  "row cell w dec i c = dec (map (\<lambda>p. sw_reg c (cell i p)) [0..<w])"

definition put_row :: "(u32 \<Rightarrow> nat \<Rightarrow> u32) \<Rightarrow> nat \<Rightarrow> ('e \<Rightarrow> u16 list) \<Rightarrow> u32 \<Rightarrow> 'e \<Rightarrow> swt \<Rightarrow> swt" where
  "put_row cell w enc i e c = c\<lparr>sw_reg := fold (\<lambda>p r. r(cell i p := enc e ! p)) [0..<w] (sw_reg c)\<rparr>"

lemma put_row_simps [simp]:
  "sw_tbl (put_row cell w enc i e c) = sw_tbl c" "sw_init (put_row cell w enc i e c) = sw_init c"
  "sw_hal (put_row cell w enc i e c) = sw_hal c" "sw_mbrVid (put_row cell w enc i e c) = sw_mbrVid c"
  "sw_mbrUsage (put_row cell w enc i e c) = sw_mbrUsage c" "sw_sUsage (put_row cell w enc i e c) = sw_sUsage c"
  "sw_sVid (put_row cell w enc i e c) = sw_sVid c" "sw_sLookup (put_row cell w enc i e c) = sw_sLookup c"
  "sw_ready (put_row cell w enc i e c) h = sw_ready c h"
  by (simp_all add: put_row_def)

lemma put_row_frame:
  assumes "\<And>p. p < w \<Longrightarrow> a \<noteq> cell i p"
  shows "sw_reg (put_row cell w enc i e c) a = sw_reg c a"
proof -
  have "fold (\<lambda>p r. r(cell i p := enc e ! p)) ps r a = r a" if "set ps \<subseteq> {..<w}" for ps r
    using that assms by (induction ps arbitrary: r) auto
  from this [OF upt_below] show ?thesis by (simp add: put_row_def)
qed

lemma row_put_apart:
  assumes "\<And>p q. p < w \<Longrightarrow> q < w' \<Longrightarrow> cell' j q \<noteq> cell i p"
  shows "row cell' w' dec j (put_row cell w enc i e c) = row cell' w' dec j c"
  unfolding row_def
  by (intro arg_cong [where f = dec] map_cong refl put_row_frame) (use assms in auto)

lemma gfld_put_row: "(\<And>p. p < w \<Longrightarrow> a \<noteq> cell i p) \<Longrightarrow> gfld a k n (put_row cell w enc i e c) = gfld a k n c"
  by (simp add: gfld_def put_row_frame)

lemma row_cong: "(\<And>p. p < w \<Longrightarrow> sw_reg c' (cell i p) = sw_reg c (cell i p)) \<Longrightarrow> row cell w dec i c' = row cell w dec i c"
  unfolding row_def by (intro arg_cong [where f = dec] map_cong refl) auto

lemma row_put_gfld: "(\<And>p. p < w \<Longrightarrow> cell i p \<noteq> a) \<Longrightarrow> row cell w dec i (put_gfld a k n v c) = row cell w dec i c"
  by (rule row_cong) (simp add: put_gfld_def put_reg_field_def)

lemma row_put_word: "(\<And>p. p < w \<Longrightarrow> cell i p \<noteq> a) \<Longrightarrow> row cell w dec i (put_word a v c) = row cell w dec i c"
  by (rule row_cong) simp

lemma put_row_put_word: "put_row cell w enc i e c = fold (\<lambda>p c. put_word (cell i p) (ucast (enc e ! p)) c) [0..<w] c"
proof -
  have "fold (\<lambda>p c. put_word (cell i p) (ucast (enc e ! p)) c) ps c = c\<lparr>sw_reg := fold (\<lambda>p r. r(cell i p := enc e ! p)) ps (sw_reg c)\<rparr>" for ps c
    by (induction ps arbitrary: c) (simp_all add: put_word_def)
  then show ?thesis by (simp add: put_row_def)
qed

section \<open>Searching a table\<close>

text \<open>The \<^verbatim>\<open>for\<close> loop that reads entry after entry and stops at the first that qualifies.\<close>

primrec searchE :: "(nat \<Rightarrow> ('s, 'e) drv) \<Rightarrow> ('e \<Rightarrow> bool) \<Rightarrow> nat list \<Rightarrow> ('s, (nat \<times> 'e) option) drv" where
  "searchE f P [] = okE None"
| "searchE f P (i # is) = bindE (f i) (\<lambda>e. if P e then okE (Some (i, e)) else searchE f P is)"

lemma wp_searchE:
  assumes "\<And>i Q. i \<in> set is \<Longrightarrow> Q (Ok (T i)) c \<Longrightarrow> wp view A (f i) Q c"
    and "Q (Ok (map_option (\<lambda>i. (i, T i)) (List.find (\<lambda>i. P (T i)) is))) c"
  shows "wp view A (searchE f P is) Q c"
  using assms
proof (induction "is")
  case (Cons i "is")
  have "wp view A (if P (T i) then okE (Some (i, T i)) else searchE f P is) Q c"
    using Cons by (cases "P (T i)") (auto intro!: wp_okE)
  then show ?case by (auto intro!: wp_bindE Cons.prems(1))
qed (simp add: wp_okE)

section \<open>The contract\<close>

locale row_table =
  fixes cell :: "u32 \<Rightarrow> nat \<Rightarrow> u32" and w :: nat and N :: u32 and enc :: "'e \<Rightarrow> u16 list" and dec :: "u16 list \<Rightarrow> 'e" and ok :: "'e \<Rightarrow> bool"
  assumes cell_cfg: "i \<le> N \<Longrightarrow> p < w \<Longrightarrow> cfg_reg (cell i p)"
    and cell_high: "i \<le> N \<Longrightarrow> p < w \<Longrightarrow> 0x7A7 < cell i p"
    and cell_inj: "i \<le> N \<Longrightarrow> j \<le> N \<Longrightarrow> p < w \<Longrightarrow> q < w \<Longrightarrow> cell i p = cell j q \<Longrightarrow> i = j \<and> p = q"
    and enc_length: "length (enc e) = w"
    and dec_enc: "ok e \<Longrightarrow> dec (enc e) = e"
begin

lemma put_at:
  assumes "i \<le> N" and "p < w"
  shows "sw_reg (put_row cell w enc i e c) (cell i p) = enc e ! p"
proof -
  have "fold (\<lambda>p r. r(cell i p := enc e ! p)) ps r (cell i p) = (if p \<in> set ps then enc e ! p else r (cell i p))" if "set ps \<subseteq> {..<w}" for ps r
    using that cell_inj [OF assms(1,1) assms(2)] by (induction ps arbitrary: r) auto
  from this [OF upt_below] assms(2) show ?thesis by (simp add: put_row_def)
qed

lemma row_put:
  assumes "i \<le> N" and "j \<le> N" and "ok e"
  shows "row cell w dec j (put_row cell w enc i e c) = (if j = i then e else row cell w dec j c)"
proof (cases "j = i")
  case True
  have "map (\<lambda>p. sw_reg (put_row cell w enc i e c) (cell i p)) [0..<w] = map ((!) (enc e)) [0..<w]"
    by (rule map_cong [OF refl]) (simp add: put_at [OF assms(1)])
  also have "\<dots> = enc e" using map_nth [of "enc e"] by (simp add: enc_length)
  finally show ?thesis using True dec_enc [OF assms(3)] by (simp add: row_def)
next
  case False
  have "row cell w dec j (put_row cell w enc i e c) = row cell w dec j c"
    by (rule row_put_apart) (use False cell_inj [OF assms(2,1)] in blast)
  with False show ?thesis by simp
qed

lemma db_ok_put_row:
  assumes "i \<le> N"
  shows "db_ok (put_row cell w enc i e c) = db_ok c"
proof -
  have "db_ok (fold (\<lambda>p c. put_word (cell i p) (ucast (enc e ! p)) c) ps c) = db_ok c" if "set ps \<subseteq> {..<w}" for ps c
    using that by (induction ps arbitrary: c) (auto simp: db_ok_put_word cell_high [OF assms])
  from this [OF upt_below] show ?thesis by (simp add: put_row_put_word)
qed

lemma wp_write_row:
  assumes "i \<le> N" and "cfg_regs \<subseteq> A" and "Q (Ok ()) (put_row cell w enc i e c)"
  shows "wp view A (write_row cell w i (enc e)) Q c"
proof -
  have "wp view A (forE ps (\<lambda>p. rtl8367c_setAsicReg (cell i p) (ucast (enc e ! p)))) Q c"
    if "set ps \<subseteq> {..<w}" and "Q (Ok ()) (fold (\<lambda>p c. put_word (cell i p) (ucast (enc e ! p)) c) ps c)" for ps c
    using that
  proof (induction ps arbitrary: c)
    case (Cons p ps)
    then show ?case by (auto intro!: wp_thenE wp_set_word cell_cfg assms(1,2))
  qed (simp add: wp_okE)
  from this [OF upt_below] assms(3) show ?thesis by (simp add: write_row_def put_row_put_word)
qed

lemma wp_read_row:
  assumes "i \<le> N" and "cfg_regs \<subseteq> A" and "Q (Ok (map (\<lambda>p. sw_reg c (cell i p)) [0..<w])) c"
  shows "wp view A (read_row cell w i) Q c"
proof -
  have "wp view A (mapE (\<lambda>p. bindE (rtl8367c_getAsicReg (cell i p)) (\<lambda>d. okE (ucast d))) ps) Q c"
    if "set ps \<subseteq> {..<w}" and "Q (Ok (map (\<lambda>p. sw_reg c (cell i p)) ps)) c" for ps Q
    using that
  proof (induction ps arbitrary: Q)
    case (Cons p ps)
    then show ?case by (auto intro!: wp_bindE wp_okE wp_get_word cell_cfg assms(1,2) Cons.IH)
  qed (simp add: wp_okE)
  from this [OF upt_below] assms(3) show ?thesis by (simp add: read_row_def)
qed

end

end
