(* ===== verification/Word_Loop.thy ===== *)
theory Word_Loop
  imports Asicdrv
begin

text \<open>
  The loop with which the driver writes a packed array to consecutive registers: it reads the first word,
  and after each register it advances the pointer and reads the next word, also after the last register.
  When the array has as many words as there are registers, that last read is one word past the end of
  the array.  Its value is never used.
\<close>

text \<open>The word at an index; past the end of the array it is unspecified.\<close>

definition word_at :: "u16 list \<Rightarrow> nat \<Rightarrow> u16" where
  "word_at ws i = (if i < length ws then ws ! i else undefined)"

primrec words_loop :: "(nat \<Rightarrow> u32) \<Rightarrow> u16 list \<Rightarrow> nat \<Rightarrow> nat \<Rightarrow> u32 \<Rightarrow> ('d gsw, unit) drv" where
  "words_loop reg ws i 0 regData = okE ()"
| "words_loop reg ws i (Suc n) regData =
     thenE (rtl8367c_setAsicReg (reg i) regData) (words_loop reg ws (Suc i) n (ucast (word_at ws (Suc i))))"

definition write_words :: "(nat \<Rightarrow> u32) \<Rightarrow> nat \<Rightarrow> u16 list \<Rightarrow> ('d gsw, unit) drv" where
  "write_words reg n ws = words_loop reg ws 0 n (ucast (word_at ws 0))"

lemma words_loop_forE:
  "i + n \<le> length ws \<Longrightarrow> (0 < n \<Longrightarrow> regData = ucast (ws ! i)) \<Longrightarrow>
   words_loop reg ws i n regData = forE [i..<i + n] (\<lambda>k. rtl8367c_setAsicReg (reg k) (ucast (ws ! k)))"
proof (induction n arbitrary: i regData)
  case (Suc n)
  have rest: "Suc i + n \<le> length ws" using Suc.prems(1) by simp
  then have "ucast (word_at ws (Suc i)) = ucast (ws ! Suc i)" if "0 < n" using that by (auto simp: word_at_def)
  note IH = Suc.IH [OF rest this]
  have "[i..<i + Suc n] = i # [Suc i..<Suc i + n]" by (simp add: upt_conv_Cons)
  then show ?case using Suc.prems(2) IH by (simp del: upt_Suc add: upt_conv_Cons)
qed simp

text \<open>The registers receive the words of the array, whatever lies behind it.\<close>

lemma write_words_forE:
  assumes "n \<le> length ws"
  shows "write_words reg n ws = forE [0..<n] (\<lambda>i. rtl8367c_setAsicReg (reg i) (ucast (ws ! i)))"
proof -
  have "ucast (word_at ws 0) = ucast (ws ! 0)" if "0 < n" using that assms by (auto simp: word_at_def)
  then show ?thesis using words_loop_forE [of 0 n ws "ucast (word_at ws 0)" reg] assms by (auto simp: write_words_def)
qed

end
