(* ===== verification/AsicSvlan.thy ===== *)
theory AsicSvlan
  imports Row_Table Word_Loop
begin

text \<open>
  \<open>rtl8367c_asicdrv_svlan.c\<close>: the registers of the service-VLAN unit.  Four tables (member
  configuration, C-VLAN to S-VLAN, multicast to S-VLAN, S-VLAN to C-VLAN) are held in registers;
  the structures are packed into 16-bit words.  Their members are C bit fields, so they are words of
  exactly that width and an assignment truncates.
\<close>

section \<open>Constants\<close>

abbreviation (input) RTL8367C_SVIDXMAX :: u32 where "RTL8367C_SVIDXMAX \<equiv> 63"
abbreviation (input) RTL8367C_C2SIDXMAX :: u32 where "RTL8367C_C2SIDXMAX \<equiv> 127"
abbreviation (input) RTL8367C_MC2SIDXMAX :: u32 where "RTL8367C_MC2SIDXMAX \<equiv> 31"
abbreviation (input) RTL8367C_SP2CMAX :: u32 where "RTL8367C_SP2CMAX \<equiv> 127"
abbreviation (input) SPRISEL_CTAGPRI :: u32 where "SPRISEL_CTAGPRI \<equiv> 1"
abbreviation (input) SPRISEL_END :: u32 where "SPRISEL_END \<equiv> 4"
abbreviation (input) RTL8367C_REG_SVLAN_UPLINK_PORTMASK :: u32 where "RTL8367C_REG_SVLAN_UPLINK_PORTMASK \<equiv> 0x1218"
abbreviation (input) RTL8367C_REG_VS_TPID :: u32 where "RTL8367C_REG_VS_TPID \<equiv> 0x1202"
abbreviation (input) RTL8367C_REG_SVLAN_CFG :: u32 where "RTL8367C_REG_SVLAN_CFG \<equiv> 0x0E80"
abbreviation (input) RTL8367C_REG_SVLAN_CFG_EXT :: u32 where "RTL8367C_REG_SVLAN_CFG_EXT \<equiv> 0x0E8D"
abbreviation (input) RTL8367C_REG_QOS_TRAP_PRIORITY0 :: u32 where "RTL8367C_REG_QOS_TRAP_PRIORITY0 \<equiv> 0x0881"
abbreviation (input) RTL8367C_REG_SVLAN_PORTBASED_SVIDX_CTRL0 :: u32 where "RTL8367C_REG_SVLAN_PORTBASED_SVIDX_CTRL0 \<equiv> 0x0E81"
abbreviation (input) RTL8367C_REG_SVLAN_PORTBASED_SVIDX_CTRL4 :: u32 where "RTL8367C_REG_SVLAN_PORTBASED_SVIDX_CTRL4 \<equiv> 0x0E8B"
abbreviation (input) RTL8367C_REG_SVLAN_PORTBASED_SVIDX_CTRL5 :: u32 where "RTL8367C_REG_SVLAN_PORTBASED_SVIDX_CTRL5 \<equiv> 0x0E8C"
abbreviation (input) RTL8367C_REG_SVLAN_UNTAG_UNMAT_CFG :: u32 where "RTL8367C_REG_SVLAN_UNTAG_UNMAT_CFG \<equiv> 0x0E85"
abbreviation (input) RTL8367C_REG_SVLAN_LOOKUP_TYPE :: u32 where "RTL8367C_REG_SVLAN_LOOKUP_TYPE \<equiv> 0x0E86"
abbreviation (input) RTL8367C_REG_SVLAN_MEMBERCFG0_CTRL1 :: u32 where "RTL8367C_REG_SVLAN_MEMBERCFG0_CTRL1 \<equiv> 0x0C01"
abbreviation (input) RTL8367C_REG_SVLAN_MEMBERCFG0_CTRL4 :: u32 where "RTL8367C_REG_SVLAN_MEMBERCFG0_CTRL4 \<equiv> 0x0CC1"
abbreviation (input) RTL8367C_REG_SVLAN_MEMBERCFG63_CTRL4 :: u32 where "RTL8367C_REG_SVLAN_MEMBERCFG63_CTRL4 \<equiv> 0x0E8E"
abbreviation (input) RTL8367C_REG_SVLAN_C2SCFG0_CTRL0 :: u32 where "RTL8367C_REG_SVLAN_C2SCFG0_CTRL0 \<equiv> 0x0D00"
abbreviation (input) RTL8367C_REG_SVLAN_MCAST2S_ENTRY0_CTRL0 :: u32 where "RTL8367C_REG_SVLAN_MCAST2S_ENTRY0_CTRL0 \<equiv> 0x0B00"
abbreviation (input) RTL8367C_REG_SVLAN_SP2C_ENTRY0_CTRL0 :: u32 where "RTL8367C_REG_SVLAN_SP2C_ENTRY0_CTRL0 \<equiv> 0x0F00"
abbreviation (input) RTL8367C_VS_SPRISEL_MASK :: u32 where "RTL8367C_VS_SPRISEL_MASK \<equiv> 0x3"
abbreviation (input) RTL8367C_VS_UNTAG_MASK :: u32 where "RTL8367C_VS_UNTAG_MASK \<equiv> 0xC"
abbreviation (input) RTL8367C_VS_UNMAT_MASK :: u32 where "RTL8367C_VS_UNMAT_MASK \<equiv> 0x30"
abbreviation (input) RTL8367C_VS_UIFSEG_OFFSET :: u32 where "RTL8367C_VS_UIFSEG_OFFSET \<equiv> 6"
abbreviation (input) RTL8367C_VS_PORT0_DMACVIDSEL_OFFSET :: u32 where "RTL8367C_VS_PORT0_DMACVIDSEL_OFFSET \<equiv> 7"
abbreviation (input) RTL8367C_VS_PORT8_DMACVIDSEL_OFFSET :: u32 where "RTL8367C_VS_PORT8_DMACVIDSEL_OFFSET \<equiv> 0"
abbreviation (input) RTL8367C_SVLAN_PRIOIRTY_MASK :: u32 where "RTL8367C_SVLAN_PRIOIRTY_MASK \<equiv> 0x700"
abbreviation (input) RTL8367C_VS_PORT0_SVIDX_MASK :: u32 where "RTL8367C_VS_PORT0_SVIDX_MASK \<equiv> 0x3F"
abbreviation (input) RTL8367C_VS_PORT1_SVIDX_MASK :: u32 where "RTL8367C_VS_PORT1_SVIDX_MASK \<equiv> 0x3F00"
abbreviation (input) RTL8367C_VS_PORT8_SVIDX_MASK :: u32 where "RTL8367C_VS_PORT8_SVIDX_MASK \<equiv> 0x3F"
abbreviation (input) RTL8367C_VS_PORT9_SVIDX_MASK :: u32 where "RTL8367C_VS_PORT9_SVIDX_MASK \<equiv> 0x3F00"
abbreviation (input) RTL8367C_SVLAN_PORTBASED_SVIDX_CTRL5_MASK :: u32 where "RTL8367C_SVLAN_PORTBASED_SVIDX_CTRL5_MASK \<equiv> 0x3F"
abbreviation (input) RTL8367C_VS_UNTAG_SVIDX_MASK :: u32 where "RTL8367C_VS_UNTAG_SVIDX_MASK \<equiv> 0x3F00"
abbreviation (input) RTL8367C_VS_UNMAT_SVIDX_MASK :: u32 where "RTL8367C_VS_UNMAT_SVIDX_MASK \<equiv> 0x3F"
abbreviation (input) RTL8367C_SVLAN_LOOKUP_TYPE_OFFSET :: u32 where "RTL8367C_SVLAN_LOOKUP_TYPE_OFFSET \<equiv> 0"

section \<open>Structures\<close>

record rtl8367c_svlan_memconf_t =
  vs_member :: "11 word"
  vs_untag :: "11 word"
  vs_fid_msti :: "4 word"
  vs_priority :: "3 word"
  vs_force_fid :: "1 word"
  vs_svid :: "12 word"
  vs_efiden :: "1 word"
  vs_efid :: "3 word"

record rtl8367c_svlan_mc2s_t =
  m2_valid :: "1 word"
  m2_format :: "1 word"
  m2_svidx :: "6 word"
  m2_sdata :: u32
  m2_smask :: u32

record rtl8367c_svlan_s2c_t =
  s2_valid :: "1 word"
  s2_svidx :: "6 word"
  s2_dstport :: "4 word"
  s2_vid :: "12 word"

text \<open>The structures after \<^verbatim>\<open>memset\<close>.\<close>

definition memconf0 :: rtl8367c_svlan_memconf_t where
  "memconf0 = \<lparr>vs_member = 0, vs_untag = 0, vs_fid_msti = 0, vs_priority = 0, vs_force_fid = 0, vs_svid = 0, vs_efiden = 0, vs_efid = 0\<rparr>"

definition mc2s0 :: rtl8367c_svlan_mc2s_t where
  "mc2s0 = \<lparr>m2_valid = 0, m2_format = 0, m2_svidx = 0, m2_sdata = 0, m2_smask = 0\<rparr>"

definition s2c0 :: rtl8367c_svlan_s2c_t where
  "s2c0 = \<lparr>s2_valid = 0, s2_svidx = 0, s2_dstport = 0, s2_vid = 0\<rparr>"

text \<open>
  Packing.  The packed array is cleared before, so \<^verbatim>\<open>|=\<close> stores; the operands of the C expressions
  are promoted to \<^verbatim>\<open>int\<close>.
\<close>

definition svlanConfStUser2Smi :: "rtl8367c_svlan_memconf_t \<Rightarrow> u16 list" where
  "svlanConfStUser2Smi u = [
     (ucast (vs_member u) AND 0x00FF) OR push_bit 8 (ucast (vs_untag u) AND 0x00FF),
     (ucast (vs_fid_msti u) AND 0x000F) OR push_bit 4 (ucast (vs_priority u) AND 0x0007) OR push_bit 7 (ucast (vs_force_fid u) AND 0x0001),
     (ucast (vs_svid u) AND 0x0FFF) OR push_bit 12 (ucast (vs_efiden u) AND 0x0001) OR push_bit 13 (ucast (vs_efid u) AND 0x0007),
     drop_bit 8 (ucast (vs_member u) AND 0x0700) OR push_bit 3 (drop_bit 8 (ucast (vs_untag u) AND 0x0700))]"

definition svlanConfStSmi2User :: "u16 list \<Rightarrow> rtl8367c_svlan_memconf_t" where
  "svlanConfStSmi2User s =
     \<lparr>vs_member = ucast ((s ! 0 AND 0x00FF) OR push_bit 8 (s ! 3 AND 0x0007)),
      vs_untag = ucast (drop_bit 8 (s ! 0 AND 0xFF00) OR push_bit 8 (drop_bit 3 (s ! 3 AND 0x0038))),
      vs_fid_msti = ucast (s ! 1 AND 0x000F), vs_priority = ucast (drop_bit 4 (s ! 1 AND 0x0070)),
      vs_force_fid = ucast (drop_bit 7 (s ! 1 AND 0x0080)),
      vs_svid = ucast (s ! 2 AND 0x0FFF), vs_efiden = ucast (drop_bit 12 (s ! 2 AND 0x1000)), vs_efid = ucast (drop_bit 13 (s ! 2 AND 0xE000))\<rparr>"

definition svlanMc2sStUser2Smi :: "rtl8367c_svlan_mc2s_t \<Rightarrow> u16 list" where
  "svlanMc2sStUser2Smi u = [
     (ucast (m2_svidx u) AND 0x003F) OR push_bit 6 (ucast (m2_format u) AND 0x0001) OR push_bit 7 (ucast (m2_valid u) AND 0x0001),
     ucast (m2_smask u AND 0x0000FFFF), ucast (drop_bit 16 (m2_smask u AND 0xFFFF0000)),
     ucast (m2_sdata u AND 0x0000FFFF), ucast (drop_bit 16 (m2_sdata u AND 0xFFFF0000))]"

definition svlanMc2sStSmi2User :: "u16 list \<Rightarrow> rtl8367c_svlan_mc2s_t" where
  "svlanMc2sStSmi2User s =
     \<lparr>m2_valid = ucast (drop_bit 7 (s ! 0 AND 0x0080)), m2_format = ucast (drop_bit 6 (s ! 0 AND 0x0040)), m2_svidx = ucast (s ! 0 AND 0x003F),
      m2_sdata = ucast (s ! 3) OR push_bit 16 (ucast (s ! 4)), m2_smask = ucast (s ! 1) OR push_bit 16 (ucast (s ! 2))\<rparr>"

definition svlanSp2cStUser2Smi :: "rtl8367c_svlan_s2c_t \<Rightarrow> u16 list" where
  "svlanSp2cStUser2Smi u = [
     (ucast (s2_dstport u) AND 0x0007) OR push_bit 3 (ucast (s2_svidx u) AND 0x003F) OR push_bit 9 (drop_bit 3 (ucast (s2_dstport u) AND 0x0008)),
     (ucast (s2_vid u) AND 0x0FFF) OR push_bit 12 (ucast (s2_valid u) AND 0x0001)]"

definition svlanSp2cStSmi2User :: "u16 list \<Rightarrow> rtl8367c_svlan_s2c_t" where
  "svlanSp2cStSmi2User s =
     \<lparr>s2_valid = ucast (drop_bit 12 (s ! 1 AND 0x1000)), s2_svidx = ucast (drop_bit 3 (s ! 0 AND 0x01F8)),
      s2_dstport = ucast (push_bit 3 (drop_bit 9 (s ! 0 AND 0x0200)) OR (s ! 0 AND 0x0007)), s2_vid = ucast (s ! 1 AND 0x0FFF)\<rparr>"

text \<open>An entry of the C-VLAN table is three registers without packing: index, port set and VLAN.\<close>

type_synonym c2s = "u32 \<times> u32 \<times> u32"  \<comment> \<open>evid, portmask, svidx\<close>

definition c2s_words :: "c2s \<Rightarrow> u16 list" where
  "c2s_words e = (case e of (evid, portmask, svidx) \<Rightarrow> [ucast svidx, ucast portmask, ucast evid])"

definition c2s_entry :: "u16 list \<Rightarrow> c2s" where
  "c2s_entry s = (ucast (s ! 2), ucast (s ! 1), ucast (s ! 0))"

section \<open>Addresses\<close>

text \<open>Three words of a member configuration are consecutive; the fourth is in another block, and for the last entry elsewhere again.\<close>

definition svmbr_cell :: "u32 \<Rightarrow> nat \<Rightarrow> u32" where
  "svmbr_cell index p =
     (if p < 3 then RTL8367C_REG_SVLAN_MEMBERCFG0_CTRL1 + index * 3 + of_nat p
      else if index < 63 then RTL8367C_REG_SVLAN_MEMBERCFG0_CTRL4 + index else RTL8367C_REG_SVLAN_MEMBERCFG63_CTRL4)"

definition c2s_cell :: "u32 \<Rightarrow> nat \<Rightarrow> u32" where
  "c2s_cell index p = RTL8367C_REG_SVLAN_C2SCFG0_CTRL0 + index * 3 + of_nat p"

definition mc2s_cell :: "u32 \<Rightarrow> nat \<Rightarrow> u32" where
  "mc2s_cell index p = RTL8367C_REG_SVLAN_MCAST2S_ENTRY0_CTRL0 + index * 5 + of_nat p"

definition sp2c_cell :: "u32 \<Rightarrow> nat \<Rightarrow> u32" where
  "sp2c_cell index p = RTL8367C_REG_SVLAN_SP2C_ENTRY0_CTRL0 + index * 2 + of_nat p"

section \<open>Global settings\<close>

definition rtl8367c_setAsicSvlanUplinkPortMask :: "u32 \<Rightarrow> ('d gsw, unit) drv" where
  "rtl8367c_setAsicSvlanUplinkPortMask portMask = rtl8367c_setAsicReg RTL8367C_REG_SVLAN_UPLINK_PORTMASK portMask"

definition rtl8367c_getAsicSvlanUplinkPortMask :: "('d gsw, u32) drv" where
  "rtl8367c_getAsicSvlanUplinkPortMask = rtl8367c_getAsicReg RTL8367C_REG_SVLAN_UPLINK_PORTMASK"

definition rtl8367c_setAsicSvlanTpid :: "u32 \<Rightarrow> ('d gsw, unit) drv" where
  "rtl8367c_setAsicSvlanTpid protocolType = rtl8367c_setAsicReg RTL8367C_REG_VS_TPID protocolType"

definition rtl8367c_getAsicSvlanTpid :: "('d gsw, u32) drv" where
  "rtl8367c_getAsicSvlanTpid = rtl8367c_getAsicReg RTL8367C_REG_VS_TPID"

definition rtl8367c_setAsicSvlanPrioritySel :: "u32 \<Rightarrow> ('d gsw, unit) drv" where
  "rtl8367c_setAsicSvlanPrioritySel priSel =
     (if priSel \<ge> SPRISEL_END then errE RT_ERR_QOS_INT_PRIORITY else rtl8367c_setAsicRegBits RTL8367C_REG_SVLAN_CFG RTL8367C_VS_SPRISEL_MASK priSel)"

definition rtl8367c_getAsicSvlanPrioritySel :: "('d gsw, u32) drv" where
  "rtl8367c_getAsicSvlanPrioritySel = rtl8367c_getAsicRegBits RTL8367C_REG_SVLAN_CFG RTL8367C_VS_SPRISEL_MASK"

definition rtl8367c_setAsicSvlanTrapPriority :: "u32 \<Rightarrow> ('d gsw, unit) drv" where
  "rtl8367c_setAsicSvlanTrapPriority priority =
     (if priority > RTL8367C_PRIMAX then errE RT_ERR_QOS_INT_PRIORITY
      else rtl8367c_setAsicRegBits RTL8367C_REG_QOS_TRAP_PRIORITY0 RTL8367C_SVLAN_PRIOIRTY_MASK priority)"

definition rtl8367c_getAsicSvlanTrapPriority :: "('d gsw, u32) drv" where
  "rtl8367c_getAsicSvlanTrapPriority = rtl8367c_getAsicRegBits RTL8367C_REG_QOS_TRAP_PRIORITY0 RTL8367C_SVLAN_PRIOIRTY_MASK"

text \<open>Register and mask of a port's default entry.\<close>

definition svidx_field :: "u32 \<Rightarrow> u32 \<times> u32" where
  "svidx_field port =
     (if port < 8 then (RTL8367C_REG_SVLAN_PORTBASED_SVIDX_CTRL0 + drop_bit 1 port,
        if port AND 1 \<noteq> 0 then RTL8367C_VS_PORT1_SVIDX_MASK else RTL8367C_VS_PORT0_SVIDX_MASK)
      else if port = 8 then (RTL8367C_REG_SVLAN_PORTBASED_SVIDX_CTRL4, RTL8367C_VS_PORT8_SVIDX_MASK)
      else if port = 9 then (RTL8367C_REG_SVLAN_PORTBASED_SVIDX_CTRL4, RTL8367C_VS_PORT9_SVIDX_MASK)
      else (RTL8367C_REG_SVLAN_PORTBASED_SVIDX_CTRL5, RTL8367C_SVLAN_PORTBASED_SVIDX_CTRL5_MASK))"

definition rtl8367c_setAsicSvlanDefaultVlan :: "u32 \<Rightarrow> u32 \<Rightarrow> ('d gsw, unit) drv" where
  "rtl8367c_setAsicSvlanDefaultVlan port index =
     (if port > RTL8367C_PORTIDMAX then errE RT_ERR_PORT_ID
      else if index > RTL8367C_SVIDXMAX then errE RT_ERR_SVLAN_ENTRY_INDEX
      else (case svidx_field port of (a, m) \<Rightarrow> rtl8367c_setAsicRegBits a m index))"

definition rtl8367c_getAsicSvlanDefaultVlan :: "u32 \<Rightarrow> ('d gsw, u32) drv" where
  "rtl8367c_getAsicSvlanDefaultVlan port =
     (if port > RTL8367C_PORTIDMAX then errE RT_ERR_PORT_ID else (case svidx_field port of (a, m) \<Rightarrow> rtl8367c_getAsicRegBits a m))"

definition rtl8367c_setAsicSvlanIngressUntag :: "u32 \<Rightarrow> ('d gsw, unit) drv" where
  "rtl8367c_setAsicSvlanIngressUntag mode = rtl8367c_setAsicRegBits RTL8367C_REG_SVLAN_CFG RTL8367C_VS_UNTAG_MASK mode"

definition rtl8367c_getAsicSvlanIngressUntag :: "('d gsw, u32) drv" where
  "rtl8367c_getAsicSvlanIngressUntag = rtl8367c_getAsicRegBits RTL8367C_REG_SVLAN_CFG RTL8367C_VS_UNTAG_MASK"

definition rtl8367c_setAsicSvlanIngressUnmatch :: "u32 \<Rightarrow> ('d gsw, unit) drv" where
  "rtl8367c_setAsicSvlanIngressUnmatch mode = rtl8367c_setAsicRegBits RTL8367C_REG_SVLAN_CFG RTL8367C_VS_UNMAT_MASK mode"

definition rtl8367c_getAsicSvlanIngressUnmatch :: "('d gsw, u32) drv" where
  "rtl8367c_getAsicSvlanIngressUnmatch = rtl8367c_getAsicRegBits RTL8367C_REG_SVLAN_CFG RTL8367C_VS_UNMAT_MASK"

definition rtl8367c_setAsicSvlanEgressUnassign :: "u32 \<Rightarrow> ('d gsw, unit) drv" where
  "rtl8367c_setAsicSvlanEgressUnassign enabled = rtl8367c_setAsicRegBit RTL8367C_REG_SVLAN_CFG RTL8367C_VS_UIFSEG_OFFSET enabled"

definition rtl8367c_getAsicSvlanEgressUnassign :: "('d gsw, u32) drv" where
  "rtl8367c_getAsicSvlanEgressUnassign = rtl8367c_getAsicRegBit RTL8367C_REG_SVLAN_CFG RTL8367C_VS_UIFSEG_OFFSET"

definition rtl8367c_setAsicSvlanDmacCvidSel :: "u32 \<Rightarrow> u32 \<Rightarrow> ('d gsw, unit) drv" where
  "rtl8367c_setAsicSvlanDmacCvidSel port enabled =
     (if port > RTL8367C_PORTIDMAX then errE RT_ERR_PORT_ID
      else if port < 8 then rtl8367c_setAsicRegBit RTL8367C_REG_SVLAN_CFG (RTL8367C_VS_PORT0_DMACVIDSEL_OFFSET + port) enabled
      else rtl8367c_setAsicRegBit RTL8367C_REG_SVLAN_CFG_EXT (RTL8367C_VS_PORT8_DMACVIDSEL_OFFSET + (port - 8)) enabled)"

definition rtl8367c_getAsicSvlanDmacCvidSel :: "u32 \<Rightarrow> ('d gsw, u32) drv" where
  "rtl8367c_getAsicSvlanDmacCvidSel port =
     (if port > RTL8367C_PORTIDMAX then errE RT_ERR_PORT_ID
      else if port < 8 then rtl8367c_getAsicRegBit RTL8367C_REG_SVLAN_CFG (RTL8367C_VS_PORT0_DMACVIDSEL_OFFSET + port)
      else rtl8367c_getAsicRegBit RTL8367C_REG_SVLAN_CFG_EXT (RTL8367C_VS_PORT8_DMACVIDSEL_OFFSET + (port - 8)))"

definition rtl8367c_setAsicSvlanUntagVlan :: "u32 \<Rightarrow> ('d gsw, unit) drv" where
  "rtl8367c_setAsicSvlanUntagVlan index =
     (if index > RTL8367C_SVIDXMAX then errE RT_ERR_SVLAN_ENTRY_INDEX
      else rtl8367c_setAsicRegBits RTL8367C_REG_SVLAN_UNTAG_UNMAT_CFG RTL8367C_VS_UNTAG_SVIDX_MASK index)"

definition rtl8367c_getAsicSvlanUntagVlan :: "('d gsw, u32) drv" where
  "rtl8367c_getAsicSvlanUntagVlan = rtl8367c_getAsicRegBits RTL8367C_REG_SVLAN_UNTAG_UNMAT_CFG RTL8367C_VS_UNTAG_SVIDX_MASK"

definition rtl8367c_setAsicSvlanUnmatchVlan :: "u32 \<Rightarrow> ('d gsw, unit) drv" where
  "rtl8367c_setAsicSvlanUnmatchVlan index =
     (if index > RTL8367C_SVIDXMAX then errE RT_ERR_SVLAN_ENTRY_INDEX
      else rtl8367c_setAsicRegBits RTL8367C_REG_SVLAN_UNTAG_UNMAT_CFG RTL8367C_VS_UNMAT_SVIDX_MASK index)"

definition rtl8367c_getAsicSvlanUnmatchVlan :: "('d gsw, u32) drv" where
  "rtl8367c_getAsicSvlanUnmatchVlan = rtl8367c_getAsicRegBits RTL8367C_REG_SVLAN_UNTAG_UNMAT_CFG RTL8367C_VS_UNMAT_SVIDX_MASK"

definition rtl8367c_setAsicSvlanLookupType :: "u32 \<Rightarrow> ('d gsw, unit) drv" where
  "rtl8367c_setAsicSvlanLookupType type = rtl8367c_setAsicRegBit RTL8367C_REG_SVLAN_LOOKUP_TYPE RTL8367C_SVLAN_LOOKUP_TYPE_OFFSET type"

definition rtl8367c_getAsicSvlanLookupType :: "('d gsw, u32) drv" where
  "rtl8367c_getAsicSvlanLookupType = rtl8367c_getAsicRegBit RTL8367C_REG_SVLAN_LOOKUP_TYPE RTL8367C_SVLAN_LOOKUP_TYPE_OFFSET"

section \<open>Tables\<close>

text \<open>
  The write loops fetch the next word of the packed array at the end of every iteration; the word
  fetched last (for two of the tables one past the end of the array) is never written, and the model
  leaves it out.
\<close>

definition rtl8367c_setAsicSvlanMemberConfiguration :: "u32 \<Rightarrow> rtl8367c_svlan_memconf_t \<Rightarrow> ('d gsw, unit) drv" where
  "rtl8367c_setAsicSvlanMemberConfiguration index pSvlanMemCfg =
     (if index > RTL8367C_SVIDXMAX then errE RT_ERR_SVLAN_ENTRY_INDEX else write_row svmbr_cell 4 index (svlanConfStUser2Smi pSvlanMemCfg))"

definition rtl8367c_getAsicSvlanMemberConfiguration :: "u32 \<Rightarrow> ('d gsw, rtl8367c_svlan_memconf_t) drv" where
  "rtl8367c_getAsicSvlanMemberConfiguration index =
     (if index > RTL8367C_SVIDXMAX then errE RT_ERR_SVLAN_ENTRY_INDEX else bindE (read_row svmbr_cell 4 index) (\<lambda>s. okE (svlanConfStSmi2User s)))"

definition rtl8367c_setAsicSvlanC2SConf :: "u32 \<Rightarrow> u32 \<Rightarrow> u32 \<Rightarrow> u32 \<Rightarrow> ('d gsw, unit) drv" where
  "rtl8367c_setAsicSvlanC2SConf index evid portmask svidx =
     (if index > RTL8367C_C2SIDXMAX then errE RT_ERR_ENTRY_INDEX
      else thenE (rtl8367c_setAsicReg (c2s_cell index 0) svidx)
        (thenE (rtl8367c_setAsicReg (c2s_cell index 1) portmask) (rtl8367c_setAsicReg (c2s_cell index 2) evid)))"

definition rtl8367c_getAsicSvlanC2SConf :: "u32 \<Rightarrow> ('d gsw, c2s) drv" where
  "rtl8367c_getAsicSvlanC2SConf index =
     (if index > RTL8367C_C2SIDXMAX then errE RT_ERR_ENTRY_INDEX
      else bindE (rtl8367c_getAsicReg (c2s_cell index 0)) (\<lambda>svidx.
        bindE (rtl8367c_getAsicReg (c2s_cell index 1)) (\<lambda>portmask.
        bindE (rtl8367c_getAsicReg (c2s_cell index 2)) (\<lambda>evid. okE (evid, portmask, svidx)))))"

definition rtl8367c_setAsicSvlanMC2SConf :: "u32 \<Rightarrow> rtl8367c_svlan_mc2s_t \<Rightarrow> ('d gsw, unit) drv" where
  "rtl8367c_setAsicSvlanMC2SConf index pSvlanMc2sCfg =
     (if index > RTL8367C_MC2SIDXMAX then errE RT_ERR_ENTRY_INDEX else write_words (mc2s_cell index) 5 (svlanMc2sStUser2Smi pSvlanMc2sCfg))"

definition rtl8367c_getAsicSvlanMC2SConf :: "u32 \<Rightarrow> ('d gsw, rtl8367c_svlan_mc2s_t) drv" where
  "rtl8367c_getAsicSvlanMC2SConf index =
     (if index > RTL8367C_MC2SIDXMAX then errE RT_ERR_ENTRY_INDEX else bindE (read_row mc2s_cell 5 index) (\<lambda>s. okE (svlanMc2sStSmi2User s)))"

definition rtl8367c_setAsicSvlanSP2CConf :: "u32 \<Rightarrow> rtl8367c_svlan_s2c_t \<Rightarrow> ('d gsw, unit) drv" where
  "rtl8367c_setAsicSvlanSP2CConf index pSvlanSp2cCfg =
     (if index > RTL8367C_SP2CMAX then errE RT_ERR_ENTRY_INDEX else write_words (sp2c_cell index) 2 (svlanSp2cStUser2Smi pSvlanSp2cCfg))"

definition rtl8367c_getAsicSvlanSP2CConf :: "u32 \<Rightarrow> ('d gsw, rtl8367c_svlan_s2c_t) drv" where
  "rtl8367c_getAsicSvlanSP2CConf index =
     (if index > RTL8367C_SP2CMAX then errE RT_ERR_ENTRY_INDEX else bindE (read_row sp2c_cell 2 index) (\<lambda>s. okE (svlanSp2cStSmi2User s)))"

text \<open>The write loops write the rows of the packed arrays.\<close>

lemma set_mc2s_row:
  "rtl8367c_setAsicSvlanMC2SConf i e =
     (if i > RTL8367C_MC2SIDXMAX then errE RT_ERR_ENTRY_INDEX else write_row mc2s_cell 5 i (svlanMc2sStUser2Smi e))"
  by (simp add: rtl8367c_setAsicSvlanMC2SConf_def write_row_def write_words_forE svlanMc2sStUser2Smi_def)

lemma set_sp2c_row:
  "rtl8367c_setAsicSvlanSP2CConf i e =
     (if i > RTL8367C_SP2CMAX then errE RT_ERR_ENTRY_INDEX else write_row sp2c_cell 2 i (svlanSp2cStUser2Smi e))"
  by (simp add: rtl8367c_setAsicSvlanSP2CConf_def write_row_def write_words_forE svlanSp2cStUser2Smi_def)

section \<open>The tables as arrays of structures\<close>

abbreviation hw_svmbr :: "u32 \<Rightarrow> swt \<Rightarrow> rtl8367c_svlan_memconf_t" where "hw_svmbr \<equiv> row svmbr_cell 4 svlanConfStSmi2User"
abbreviation put_svmbr :: "u32 \<Rightarrow> rtl8367c_svlan_memconf_t \<Rightarrow> swt \<Rightarrow> swt" where "put_svmbr \<equiv> put_row svmbr_cell 4 svlanConfStUser2Smi"
abbreviation hw_c2s :: "u32 \<Rightarrow> swt \<Rightarrow> c2s" where "hw_c2s \<equiv> row c2s_cell 3 c2s_entry"
abbreviation put_c2s :: "u32 \<Rightarrow> c2s \<Rightarrow> swt \<Rightarrow> swt" where "put_c2s \<equiv> put_row c2s_cell 3 c2s_words"
abbreviation hw_mc2s :: "u32 \<Rightarrow> swt \<Rightarrow> rtl8367c_svlan_mc2s_t" where "hw_mc2s \<equiv> row mc2s_cell 5 svlanMc2sStSmi2User"
abbreviation put_mc2s :: "u32 \<Rightarrow> rtl8367c_svlan_mc2s_t \<Rightarrow> swt \<Rightarrow> swt" where "put_mc2s \<equiv> put_row mc2s_cell 5 svlanMc2sStUser2Smi"
abbreviation hw_sp2c :: "u32 \<Rightarrow> swt \<Rightarrow> rtl8367c_svlan_s2c_t" where "hw_sp2c \<equiv> row sp2c_cell 2 svlanSp2cStSmi2User"
abbreviation put_sp2c :: "u32 \<Rightarrow> rtl8367c_svlan_s2c_t \<Rightarrow> swt \<Rightarrow> swt" where "put_sp2c \<equiv> put_row sp2c_cell 2 svlanSp2cStUser2Smi"

text \<open>The masks of the packing expressions as bit ranges.\<close>

lemma svlan_masks:
  "(0x0001 :: u16) = mask 1" "(0x0007 :: u16) = mask 3" "(0x000F :: u16) = mask 4" "(0x00FF :: u16) = mask 8" "(0x003F :: u16) = mask 6"
  "(0x0FFF :: u16) = mask 12" "(0x0700 :: u16) = push_bit 8 (mask 3)" "(0xFF00 :: u16) = push_bit 8 (mask 8)" "(0x0038 :: u16) = push_bit 3 (mask 3)"
  "(0x0070 :: u16) = push_bit 4 (mask 3)" "(0x0080 :: u16) = push_bit 7 (mask 1)" "(0x1000 :: u16) = push_bit 12 (mask 1)"
  "(0xE000 :: u16) = push_bit 13 (mask 3)" "(0x0040 :: u16) = push_bit 6 (mask 1)" "(0x01F8 :: u16) = push_bit 3 (mask 6)"
  "(0x0200 :: u16) = push_bit 9 (mask 1)" "(0x0008 :: u16) = push_bit 3 (mask 1)"
  "(0xFFFF :: u32) = mask 16" "(0xFFFF0000 :: u32) = push_bit 16 (mask 16)"
  by (simp_all add: mask_eq_exp_minus_1)

lemma svmbr_cell_unat:
  assumes "i \<le> 63" and "p < 4"
  shows "unat (svmbr_cell i p) = (if p < 3 then 0xC01 + 3 * unat i + p else if unat i < 63 then 0xCC1 + unat i else 0xE8E)"
  using assms by (simp add: svmbr_cell_def word_le_nat_alt word_less_nat_alt unat_word_ariths unat_of_nat)

lemma c2s_cell_unat: "i \<le> 127 \<Longrightarrow> p < 3 \<Longrightarrow> unat (c2s_cell i p) = 0xD00 + 3 * unat i + p"
  by (simp add: c2s_cell_def word_le_nat_alt unat_word_ariths unat_of_nat)

lemma mc2s_cell_unat: "i \<le> 31 \<Longrightarrow> p < 5 \<Longrightarrow> unat (mc2s_cell i p) = 0xB00 + 5 * unat i + p"
  by (simp add: mc2s_cell_def word_le_nat_alt unat_word_ariths unat_of_nat)

lemma sp2c_cell_unat: "i \<le> 127 \<Longrightarrow> p < 2 \<Longrightarrow> unat (sp2c_cell i p) = 0xF00 + 2 * unat i + p"
  by (simp add: sp2c_cell_def word_le_nat_alt unat_word_ariths unat_of_nat)

text \<open>Blocks of the four tables.\<close>

lemma svlan_blocks:
  "i \<le> 63 \<Longrightarrow> p < 4 \<Longrightarrow> 0xC01 \<le> unat (svmbr_cell i p) \<and> unat (svmbr_cell i p) \<le> 0xCFF \<or> unat (svmbr_cell i p) = 0xE8E"
  "i \<le> 127 \<Longrightarrow> p < 3 \<Longrightarrow> 0xD00 \<le> unat (c2s_cell i p) \<and> unat (c2s_cell i p) \<le> 0xE7F"
  "i \<le> 31 \<Longrightarrow> p < 5 \<Longrightarrow> 0xB00 \<le> unat (mc2s_cell i p) \<and> unat (mc2s_cell i p) \<le> 0xB9F"
  "i \<le> 127 \<Longrightarrow> p < 2 \<Longrightarrow> 0xF00 \<le> unat (sp2c_cell i p) \<and> unat (sp2c_cell i p) \<le> 0xFFF"
  using svmbr_cell_unat [of i p] c2s_cell_unat [of i p] mc2s_cell_unat [of i p] sp2c_cell_unat [of i p]
  by (auto simp: word_le_nat_alt)

lemma block_cfg: "0xB00 \<le> unat a \<and> unat a \<le> 0xB9F \<or> 0xC01 \<le> unat a \<and> unat a \<le> 0xE8E \<or> 0xF00 \<le> unat a \<and> unat a \<le> 0xFFF \<Longrightarrow>
   cfg_reg a \<and> 0x7A7 < a"
  by (auto simp: cfg_reg_defs word_le_nat_alt word_less_nat_alt)

interpretation svmbr_t: row_table svmbr_cell 4 63 svlanConfStUser2Smi svlanConfStSmi2User "\<lambda>_. True"
proof (unfold_locales, goal_cases)
  case (1 i p)
  then show ?case using svlan_blocks(1) [of i p] block_cfg [of "svmbr_cell i p"] by auto
next
  case (2 i p)
  then show ?case using svlan_blocks(1) [of i p] block_cfg [of "svmbr_cell i p"] by auto
next
  case (3 i j p q)
  then have "unat i = unat j \<and> p = q"
    using svmbr_cell_unat [of i p] svmbr_cell_unat [of j q] by (auto simp: word_le_nat_alt split: if_splits) presburger
  then show ?case by (simp add: word_unat_eq_iff)
next
  case (5 e)
  show ?case
    unfolding svlanConfStSmi2User_def svlanConfStUser2Smi_def svlan_masks
    by (cases e) (auto intro!: bit_word_eqI simp: bit_simps)
qed (simp add: svlanConfStUser2Smi_def)

interpretation c2s_t: row_table c2s_cell 3 127 c2s_words c2s_entry "\<lambda>(evid, portmask, svidx). evid \<le> 0xFFFF \<and> portmask \<le> 0xFFFF \<and> svidx \<le> 0xFFFF"
proof (unfold_locales, goal_cases)
  case (1 i p)
  then show ?case using svlan_blocks(2) [of i p] block_cfg [of "c2s_cell i p"] by auto
next
  case (2 i p)
  then show ?case using svlan_blocks(2) [of i p] block_cfg [of "c2s_cell i p"] by auto
next
  case (3 i j p q)
  then have "3 * unat i + p = 3 * unat j + q" using c2s_cell_unat [of i p] c2s_cell_unat [of j q] by simp
  with 3 have "unat i = unat j" "p = q" by presburger+
  then show ?case by (simp add: word_unat_eq_iff)
qed (auto simp: c2s_words_def c2s_entry_def split: prod.splits)

interpretation mc2s_t: row_table mc2s_cell 5 31 svlanMc2sStUser2Smi svlanMc2sStSmi2User "\<lambda>_. True"
proof (unfold_locales, goal_cases)
  case (1 i p)
  then show ?case using svlan_blocks(3) [of i p] block_cfg [of "mc2s_cell i p"] by auto
next
  case (2 i p)
  then show ?case using svlan_blocks(3) [of i p] block_cfg [of "mc2s_cell i p"] by auto
next
  case (3 i j p q)
  then have "5 * unat i + p = 5 * unat j + q" using mc2s_cell_unat [of i p] mc2s_cell_unat [of j q] by simp
  with 3 have "unat i = unat j" "p = q" by presburger+
  then show ?case by (simp add: word_unat_eq_iff)
next
  case (5 e)
  show ?case
    unfolding svlanMc2sStSmi2User_def svlanMc2sStUser2Smi_def svlan_masks
    by (cases e) (auto intro!: bit_word_eqI simp: bit_simps)
qed (simp add: svlanMc2sStUser2Smi_def)

interpretation sp2c_t: row_table sp2c_cell 2 127 svlanSp2cStUser2Smi svlanSp2cStSmi2User "\<lambda>_. True"
proof (unfold_locales, goal_cases)
  case (1 i p)
  then show ?case using svlan_blocks(4) [of i p] block_cfg [of "sp2c_cell i p"] by auto
next
  case (2 i p)
  then show ?case using svlan_blocks(4) [of i p] block_cfg [of "sp2c_cell i p"] by auto
next
  case (3 i j p q)
  then have "2 * unat i + p = 2 * unat j + q" using sp2c_cell_unat [of i p] sp2c_cell_unat [of j q] by simp
  with 3 have "unat i = unat j" "p = q" by presburger+
  then show ?case by (simp add: word_unat_eq_iff)
next
  case (5 e)
  have less4: "n < 4 \<longleftrightarrow> n < 3 \<or> n = 3" for n :: nat by auto
  show ?case
    unfolding svlanSp2cStSmi2User_def svlanSp2cStUser2Smi_def svlan_masks
    by (cases e) (auto intro!: bit_word_eqI simp: bit_simps less4)
qed (simp add: svlanSp2cStUser2Smi_def)

text \<open>The accessors of the tables.\<close>

lemma wp_setSvMbr:
  "i \<le> 63 \<Longrightarrow> cfg_regs \<subseteq> A \<Longrightarrow> Q (Ok ()) (put_svmbr i e c) \<Longrightarrow> wp view A (rtl8367c_setAsicSvlanMemberConfiguration i e) Q c"
  by (auto simp: rtl8367c_setAsicSvlanMemberConfiguration_def leD intro!: svmbr_t.wp_write_row)

lemma wp_getSvMbr:
  "i \<le> 63 \<Longrightarrow> cfg_regs \<subseteq> A \<Longrightarrow> Q (Ok (hw_svmbr i c)) c \<Longrightarrow> wp view A (rtl8367c_getAsicSvlanMemberConfiguration i) Q c"
  by (auto simp: rtl8367c_getAsicSvlanMemberConfiguration_def leD row_def intro!: wp_bindE wp_okE svmbr_t.wp_read_row)

lemma wp_setC2S:
  assumes "i \<le> 127" and "cfg_regs \<subseteq> A" and "evid \<le> 0xFFFF" and "pm \<le> 0xFFFF" and "svidx \<le> 0xFFFF" and "Q (Ok ()) (put_c2s i (evid, pm, svidx) c)"
  shows "wp view A (rtl8367c_setAsicSvlanC2SConf i evid pm svidx) Q c"
proof -
  have "rtl8367c_setAsicSvlanC2SConf i evid pm svidx = (write_row c2s_cell 3 i (c2s_words (evid, pm, svidx)) :: ('a gsw, unit) drv)"
    using assms(1,3-5) by (simp add: rtl8367c_setAsicSvlanC2SConf_def leD write_row_def c2s_words_def numeral_eq_Suc thenE_def okE_def)
  with c2s_t.wp_write_row [of i A Q "(evid, pm, svidx)" c view] assms show ?thesis by metis
qed

lemma wp_getC2S:
  assumes "i \<le> 127" and "cfg_regs \<subseteq> A" and "Q (Ok (hw_c2s i c)) c"
  shows "wp view A (rtl8367c_getAsicSvlanC2SConf i) Q c"
  using assms
  by (auto simp: rtl8367c_getAsicSvlanC2SConf_def leD row_def c2s_entry_def numeral_eq_Suc intro!: wp_bindE wp_okE wp_get_word c2s_t.cell_cfg)

lemma wp_setMC2S:
  "i \<le> 31 \<Longrightarrow> cfg_regs \<subseteq> A \<Longrightarrow> Q (Ok ()) (put_mc2s i e c) \<Longrightarrow> wp view A (rtl8367c_setAsicSvlanMC2SConf i e) Q c"
  by (auto simp: set_mc2s_row leD intro!: mc2s_t.wp_write_row)

lemma wp_getMC2S:
  "i \<le> 31 \<Longrightarrow> cfg_regs \<subseteq> A \<Longrightarrow> Q (Ok (hw_mc2s i c)) c \<Longrightarrow> wp view A (rtl8367c_getAsicSvlanMC2SConf i) Q c"
  by (auto simp: rtl8367c_getAsicSvlanMC2SConf_def leD row_def intro!: wp_bindE wp_okE mc2s_t.wp_read_row)

lemma wp_setSP2C:
  "i \<le> 127 \<Longrightarrow> cfg_regs \<subseteq> A \<Longrightarrow> Q (Ok ()) (put_sp2c i e c) \<Longrightarrow> wp view A (rtl8367c_setAsicSvlanSP2CConf i e) Q c"
  by (auto simp: set_sp2c_row leD intro!: sp2c_t.wp_write_row)

lemma wp_getSP2C:
  "i \<le> 127 \<Longrightarrow> cfg_regs \<subseteq> A \<Longrightarrow> Q (Ok (hw_sp2c i c)) c \<Longrightarrow> wp view A (rtl8367c_getAsicSvlanSP2CConf i) Q c"
  by (auto simp: rtl8367c_getAsicSvlanSP2CConf_def leD row_def intro!: wp_bindE wp_okE sp2c_t.wp_read_row)

end
