(* ===== verification/Svlan.thy ===== *)
theory Svlan
  imports AsicSvlan
begin

text \<open>
  \<open>rtl8367c/svlan.c\<close>: the service-VLAN API.  The arrays \<open>svlan_mbrCfgUsage\<close> and \<open>svlan_mbrCfgVid\<close>
  of the driver say which of the 64 member-configuration entries are in use and for which service
  VLAN; the three translation tables are searched in the chip itself.
\<close>

section \<open>Data\<close>

record rtk_svlan_memberCfg_t =
  sc_svid :: u32
  sc_memberport :: rtk_portmask_t
  sc_untagport :: rtk_portmask_t
  sc_fiden :: u32
  sc_fid :: u32
  sc_priority :: u32
  sc_efiden :: u32
  sc_efid :: u32

abbreviation (input) SVLAN_VIDMAX :: u32 where "SVLAN_VIDMAX \<equiv> 0xFFF"
abbreviation (input) RTL8367C_FIDMAX :: u32 where "RTL8367C_FIDMAX \<equiv> 0xF"
abbreviation (input) RTL8367C_EFIDMAX :: u32 where "RTL8367C_EFIDMAX \<equiv> 0x7"
abbreviation (input) REF_PRI_END :: u32 where "REF_PRI_END \<equiv> 4"
abbreviation (input) UNTAG_DROP :: u32 where "UNTAG_DROP \<equiv> 0"
abbreviation (input) UNTAG_ASSIGN :: u32 where "UNTAG_ASSIGN \<equiv> 2"
abbreviation (input) UNTAG_END :: u32 where "UNTAG_END \<equiv> 3"
abbreviation (input) UNMATCH_DROP :: u32 where "UNMATCH_DROP \<equiv> 0"
abbreviation (input) UNMATCH_ASSIGN :: u32 where "UNMATCH_ASSIGN \<equiv> 2"
abbreviation (input) UNMATCH_END :: u32 where "UNMATCH_END \<equiv> 3"
abbreviation (input) UNASSIGN_END :: u32 where "UNASSIGN_END \<equiv> 2"
abbreviation (input) SVLAN_LOOKUP_S64MBRCGF :: u32 where "SVLAN_LOOKUP_S64MBRCGF \<equiv> 0"
abbreviation (input) SVLAN_LOOKUP_C4KVLAN :: u32 where "SVLAN_LOOKUP_C4KVLAN \<equiv> 1"
abbreviation (input) SVLAN_LOOKUP_END :: u32 where "SVLAN_LOOKUP_END \<equiv> 2"
abbreviation (input) SVLAN_MC2S_MODE_MAC :: "1 word" where "SVLAN_MC2S_MODE_MAC \<equiv> 0"
abbreviation (input) SVLAN_MC2S_MODE_IP :: "1 word" where "SVLAN_MC2S_MODE_IP \<equiv> 1"

text \<open>A MAC address by its octets.\<close>

type_synonym rtk_mac_t = "8 word list"

section \<open>Bookkeeping\<close>

definition svdb_entry :: "nat \<Rightarrow> ('d gsw, bool \<times> u16) drv" where
  "svdb_entry i s =
     (if i < length (svlan_mbrCfgUsage s) \<and> i < length (svlan_mbrCfgVid s)
      then (Ok (svlan_mbrCfgUsage s ! i, svlan_mbrCfgVid s ! i), s) else (Fault, s))"

definition svdb_set :: "nat \<Rightarrow> bool \<Rightarrow> u16 \<Rightarrow> ('d gsw, unit) drv" where
  "svdb_set i usage vid s =
     (if i < length (svlan_mbrCfgUsage s) \<and> i < length (svlan_mbrCfgVid s)
      then (Ok (), s\<lparr>svlan_mbrCfgUsage := (svlan_mbrCfgUsage s)[i := usage], svlan_mbrCfgVid := (svlan_mbrCfgVid s)[i := vid]\<rparr>)
      else (Fault, s))"

definition svdb_clear :: "nat \<Rightarrow> ('d gsw, unit) drv" where
  "svdb_clear i s =
     (if i < length (svlan_mbrCfgUsage s) then (Ok (), s\<lparr>svlan_mbrCfgUsage := (svlan_mbrCfgUsage s)[i := False]\<rparr>) else (Fault, s))"

text \<open>The entry is recorded first and then written.\<close>

definition sv_store :: "nat \<Rightarrow> bool \<Rightarrow> u16 \<Rightarrow> rtl8367c_svlan_memconf_t \<Rightarrow> ('d gsw, unit) drv" where
  "sv_store i used vid m = thenE (svdb_set i used vid) (rtl8367c_setAsicSvlanMemberConfiguration (of_nat i) m)"

text \<open>
  The loop over the bookkeeping arrays: it stops at the entry in use for the service VLAN, and
  otherwise ends with the first free entry, if there is one.
\<close>

datatype svslot = Found nat | Free nat | Full

primrec svdb_search :: "u32 \<Rightarrow> nat list \<Rightarrow> nat option \<Rightarrow> ('d gsw, svslot) drv" where
  "svdb_search svid [] empty_idx = okE (case empty_idx of None \<Rightarrow> Full | Some i \<Rightarrow> Free i)"
| "svdb_search svid (i # is) empty_idx =
     bindE (svdb_entry i) (\<lambda>(used, vid).
       if svid = ucast vid \<and> used then okE (Found i)
       else svdb_search svid is (if \<not> used \<and> empty_idx = None then Some i else empty_idx))"

text \<open>The loop that looks for a member configuration in the chip.\<close>

definition svidx_of :: "u32 \<Rightarrow> rt_error \<Rightarrow> ('d gsw, nat) drv" where
  "svidx_of svid e =
     bindE (searchE (\<lambda>i. rtl8367c_getAsicSvlanMemberConfiguration (of_nat i)) (\<lambda>m. svid = ucast (vs_svid m)) [0..<64])
       (\<lambda>r. case r of None \<Rightarrow> errE e | Some (i, _) \<Rightarrow> okE i)"

section \<open>Lookup type, initialisation and global settings\<close>

definition rtk_svlan_lookupType_set :: "u32 \<Rightarrow> ('d gsw, unit) drv" where
  "rtk_svlan_lookupType_set type =
     thenE RTK_CHK_INIT_STATE
     (thenE (check_that (type < SVLAN_LOOKUP_END) RT_ERR_CHIP_NOT_SUPPORTED)
     (thenE (modifyE (\<lambda>s. s\<lparr>svlan_lookupType := type\<rparr>)) (rtl8367c_setAsicSvlanLookupType type)))"

definition rtk_svlan_lookupType_get :: "outptr \<Rightarrow> ('d gsw, u32) drv" where
  "rtk_svlan_lookupType_get pType =
     thenE RTK_CHK_INIT_STATE
     (thenE (not_null pType)
     (bindE rtl8367c_getAsicSvlanLookupType (\<lambda>t. thenE (modifyE (\<lambda>s. s\<lparr>svlan_lookupType := t\<rparr>)) (okE t))))"

definition rtk_svlan_init :: "('d gsw, unit) drv" where
  "rtk_svlan_init =
     thenE RTK_CHK_INIT_STATE
     (thenE (rtl8367c_setAsicSvlanPrioritySel SPRISEL_CTAGPRI)
     (thenE (rtl8367c_setAsicSvlanIngressUntag UNTAG_DROP)
     (thenE (rtl8367c_setAsicSvlanIngressUnmatch UNMATCH_DROP)
     (thenE (rtl8367c_setAsicSvlanTpid 0x88A8)
     (thenE (rtl8367c_setAsicSvlanUplinkPortMask 0)
     (thenE (forE [0..<64] (\<lambda>i. rtl8367c_setAsicSvlanMemberConfiguration (of_nat i) memconf0))
     (thenE (forE [0..<128] (\<lambda>i. rtl8367c_setAsicSvlanC2SConf (of_nat i) 0 0 0))
     (thenE (forE [0..<128] (\<lambda>i. rtl8367c_setAsicSvlanSP2CConf (of_nat i) s2c0))
     (thenE (forE [0..<32] (\<lambda>i. rtl8367c_setAsicSvlanMC2SConf (of_nat i) mc2s0))
     (thenE (rtk_svlan_lookupType_set SVLAN_LOOKUP_S64MBRCGF)
      (forE [0..<64] svdb_clear)))))))))))"

definition rtk_svlan_servicePort_add :: "rtk_port_t \<Rightarrow> ('d gsw, unit) drv" where
  "rtk_svlan_servicePort_add port =
     thenE RTK_CHK_INIT_STATE
     (thenE (RTK_CHK_PORT_VALID port)
     (bindE rtl8367c_getAsicSvlanUplinkPortMask (\<lambda>pmsk.
      bindE (rtk_switch_port_L2P_get port) (\<lambda>phy.
      rtl8367c_setAsicSvlanUplinkPortMask (pmsk OR push_bit (unat phy) 1)))))"

definition rtk_svlan_servicePort_get :: "outptr \<Rightarrow> ('d gsw, rtk_portmask_t) drv" where
  "rtk_svlan_servicePort_get pSvlan_portmask =
     thenE RTK_CHK_INIT_STATE
     (thenE (not_null pSvlan_portmask)
     (bindE rtl8367c_getAsicSvlanUplinkPortMask (\<lambda>m. mapErrE RT_ERR_FAILED (rtk_switch_portmask_P2L_get m pSvlan_portmask))))"

definition rtk_svlan_servicePort_del :: "rtk_port_t \<Rightarrow> ('d gsw, unit) drv" where
  "rtk_svlan_servicePort_del port =
     thenE RTK_CHK_INIT_STATE
     (thenE (RTK_CHK_PORT_VALID port)
     (bindE rtl8367c_getAsicSvlanUplinkPortMask (\<lambda>pmsk.
      bindE (rtk_switch_port_L2P_get port) (\<lambda>phy.
      rtl8367c_setAsicSvlanUplinkPortMask (pmsk AND NOT (push_bit (unat phy) 1))))))"

definition rtk_svlan_tpidEntry_set :: "u32 \<Rightarrow> ('d gsw, unit) drv" where
  "rtk_svlan_tpidEntry_set svlan_tag_id =
     thenE RTK_CHK_INIT_STATE
     (thenE (check_that (\<not> svlan_tag_id > RTK_MAX_NUM_OF_PROTO_TYPE) RT_ERR_INPUT) (rtl8367c_setAsicSvlanTpid svlan_tag_id))"

definition rtk_svlan_tpidEntry_get :: "outptr \<Rightarrow> ('d gsw, u32) drv" where
  "rtk_svlan_tpidEntry_get pSvlan_tag_id = thenE RTK_CHK_INIT_STATE (thenE (not_null pSvlan_tag_id) rtl8367c_getAsicSvlanTpid)"

definition rtk_svlan_priorityRef_set :: "u32 \<Rightarrow> ('d gsw, unit) drv" where
  "rtk_svlan_priorityRef_set ref =
     thenE RTK_CHK_INIT_STATE (thenE (check_that (ref < REF_PRI_END) RT_ERR_INPUT) (rtl8367c_setAsicSvlanPrioritySel ref))"

definition rtk_svlan_priorityRef_get :: "outptr \<Rightarrow> ('d gsw, u32) drv" where
  "rtk_svlan_priorityRef_get pRef = thenE RTK_CHK_INIT_STATE (thenE (not_null pRef) rtl8367c_getAsicSvlanPrioritySel)"

definition rtk_svlan_unassign_action_set :: "u32 \<Rightarrow> ('d gsw, unit) drv" where
  "rtk_svlan_unassign_action_set action =
     thenE RTK_CHK_INIT_STATE (thenE (check_that (action < UNASSIGN_END) RT_ERR_OUT_OF_RANGE) (rtl8367c_setAsicSvlanEgressUnassign action))"

definition rtk_svlan_unassign_action_get :: "outptr \<Rightarrow> ('d gsw, u32) drv" where
  "rtk_svlan_unassign_action_get pAction = thenE RTK_CHK_INIT_STATE (thenE (not_null pAction) rtl8367c_getAsicSvlanEgressUnassign)"

definition rtk_svlan_dmac_vidsel_set :: "rtk_port_t \<Rightarrow> rtk_enable_t \<Rightarrow> ('d gsw, unit) drv" where
  "rtk_svlan_dmac_vidsel_set port enable =
     thenE RTK_CHK_INIT_STATE
     (thenE (RTK_CHK_PORT_VALID port)
     (thenE (check_that (enable < RTK_ENABLE_END) RT_ERR_ENABLE)
     (bindE (rtk_switch_port_L2P_get port) (\<lambda>phy. rtl8367c_setAsicSvlanDmacCvidSel phy enable))))"

definition rtk_svlan_dmac_vidsel_get :: "rtk_port_t \<Rightarrow> outptr \<Rightarrow> ('d gsw, rtk_enable_t) drv" where
  "rtk_svlan_dmac_vidsel_get port pEnable =
     thenE RTK_CHK_INIT_STATE
     (thenE (not_null pEnable)
     (thenE (RTK_CHK_PORT_VALID port) (bindE (rtk_switch_port_L2P_get port) rtl8367c_getAsicSvlanDmacCvidSel)))"

definition rtk_svlan_trapPri_set :: "u32 \<Rightarrow> ('d gsw, unit) drv" where
  "rtk_svlan_trapPri_set priority =
     thenE RTK_CHK_INIT_STATE
     (thenE (check_that (\<not> priority > RTL8367C_PRIMAX) RT_ERR_OUT_OF_RANGE) (rtl8367c_setAsicSvlanTrapPriority priority))"

definition rtk_svlan_trapPri_get :: "outptr \<Rightarrow> ('d gsw, u32) drv" where
  "rtk_svlan_trapPri_get pPriority = thenE RTK_CHK_INIT_STATE (thenE (not_null pPriority) rtl8367c_getAsicSvlanTrapPriority)"

section \<open>Member configuration\<close>

definition svcfg_check :: "rtk_svlan_memberCfg_t \<Rightarrow> ('d gsw, unit) drv" where
  "svcfg_check cfg =
     thenE (RTK_CHK_PORTMASK_VALID (Some (sc_memberport cfg)))
     (thenE (RTK_CHK_PORTMASK_VALID (Some (sc_untagport cfg)))
     (thenE (check_that (\<not> sc_fiden cfg > ENABLED) RT_ERR_ENABLE)
     (thenE (check_that (\<not> sc_fid cfg > RTL8367C_FIDMAX) RT_ERR_L2_FID)
     (thenE (check_that (\<not> sc_priority cfg > RTL8367C_PRIMAX) RT_ERR_VLAN_PRIORITY)
     (thenE (check_that (\<not> sc_efiden cfg > ENABLED) RT_ERR_ENABLE)
      (check_that (\<not> sc_efid cfg > RTL8367C_EFIDMAX) RT_ERR_L2_FID))))))"

text \<open>The entry written in C-VLAN lookup mode: the ports are in the VLAN table, only the filtering fields are here.\<close>

definition sv4k_entry :: "u32 \<Rightarrow> rtk_svlan_memberCfg_t \<Rightarrow> rtl8367c_svlan_memconf_t" where
  "sv4k_entry svid cfg =
     memconf0\<lparr>vs_svid := ucast svid, vs_efiden := ucast (sc_efiden cfg),
       vs_efid := (if (ucast (sc_efiden cfg) :: 1 word) = 0 \<and> (ucast (sc_efid cfg) :: 3 word) = 0 then 1 else ucast (sc_efid cfg)),
       vs_priority := ucast (sc_priority cfg)\<rparr>"

definition sv_entry :: "u32 \<Rightarrow> rtk_svlan_memberCfg_t \<Rightarrow> ('d gsw, rtl8367c_svlan_memconf_t) drv" where
  "sv_entry svid cfg =
     bindE (mapErrE RT_ERR_FAILED (rtk_switch_portmask_L2P_get (Some (sc_memberport cfg)) PTR)) (\<lambda>m.
     bindE (mapErrE RT_ERR_FAILED (rtk_switch_portmask_L2P_get (Some (sc_untagport cfg)) PTR)) (\<lambda>u.
     okE \<lparr>vs_member = ucast m, vs_untag = ucast u, vs_fid_msti = ucast (sc_fid cfg), vs_priority = ucast (sc_priority cfg),
       vs_force_fid = ucast (sc_fiden cfg), vs_svid = ucast svid, vs_efiden = ucast (sc_efiden cfg), vs_efid = ucast (sc_efid cfg)\<rparr>))"

text \<open>The fields other than the service VLAN are all zero.\<close>

definition sv_blank :: "rtl8367c_svlan_memconf_t \<Rightarrow> bool" where
  "sv_blank m \<longleftrightarrow> vs_member m = 0 \<and> vs_untag m = 0 \<and> vs_force_fid m = 0 \<and> vs_fid_msti m = 0 \<and> vs_priority m = 0 \<and>
     vs_efiden m = 0 \<and> vs_efid m = 0"

text \<open>Service VLAN 0 needs a filtering identifier, or the entry would look unused.\<close>

definition sv_mark :: "rtl8367c_svlan_memconf_t \<Rightarrow> rtl8367c_svlan_memconf_t" where
  "sv_mark m = (if vs_svid m = 0 \<and> vs_efiden m = 0 \<and> vs_efid m = 0 then m\<lparr>vs_efid := 1\<rparr> else m)"

text \<open>The local structure the VLAN is read into; for these VLANs \<open>rtk_vlan_get\<close> fills every field.\<close>

definition vlan_cfg0 :: rtk_vlan_cfg_t where
  "vlan_cfg0 = \<lparr>cfg_mbr = 0, cfg_untag = 0, cfg_ivl_en = 0, cfg_fid_msti = 0, cfg_envlanpol = 0, cfg_meteridx = 0, cfg_vbpen = 0, cfg_vbpri = 0\<rparr>"

definition sv_set_4k :: "u32 \<Rightarrow> rtk_svlan_memberCfg_t \<Rightarrow> ('d gsw, unit) drv" where
  "sv_set_4k svid cfg =
     bindE (rtk_vlan_get svid (Some vlan_cfg0)) (\<lambda>vlanCfg.
     thenE (rtk_vlan_set svid (Some (vlanCfg\<lparr>cfg_mbr := sc_memberport cfg, cfg_untag := sc_untagport cfg\<rparr>)))
     (bindE (svdb_search svid [0..<64] None) (\<lambda>slot. case slot of
        Found i \<Rightarrow> rtl8367c_setAsicSvlanMemberConfiguration (of_nat i) (sv4k_entry svid cfg)
      | Free i \<Rightarrow> sv_store i True (ucast svid) (sv4k_entry svid cfg)
      | Full \<Rightarrow> okE ())))"

definition sv_set_64 :: "u32 \<Rightarrow> rtk_svlan_memberCfg_t \<Rightarrow> ('d gsw, unit) drv" where
  "sv_set_64 svid cfg =
     bindE (svdb_search svid [0..<64] None) (\<lambda>slot. case slot of
       Found i \<Rightarrow> bindE (sv_entry svid cfg) (\<lambda>m.
         if sv_blank m
         then sv_store i False 0 (m\<lparr>vs_svid := 0\<rparr>)
         else sv_store i True (ucast (vs_svid m)) (sv_mark m))
     | Free i \<Rightarrow> bindE (sv_entry svid cfg) (\<lambda>m.
         sv_store i True (ucast (vs_svid m)) (sv_mark m))
     | Full \<Rightarrow> errE RT_ERR_SVLAN_TABLE_FULL)"

definition rtk_svlan_memberPortEntry_set :: "u32 \<Rightarrow> rtk_svlan_memberCfg_t option \<Rightarrow> ('d gsw, unit) drv" where
  "rtk_svlan_memberPortEntry_set svid pSvlan_cfg =
     thenE RTK_CHK_INIT_STATE
     (case pSvlan_cfg of None \<Rightarrow> errE RT_ERR_NULL_POINTER
      | Some cfg \<Rightarrow>
        thenE (check_that (\<not> svid > SVLAN_VIDMAX) RT_ERR_SVLAN_VID)
        (thenE (svcfg_check cfg)
        (bindE (getsE svlan_lookupType) (\<lambda>t. if t = SVLAN_LOOKUP_C4KVLAN then sv_set_4k svid cfg else sv_set_64 svid cfg))))"

definition svcfg_of :: "rtl8367c_svlan_memconf_t \<Rightarrow> ('d gsw, rtk_svlan_memberCfg_t) drv" where
  "svcfg_of m =
     bindE (mapErrE RT_ERR_FAILED (rtk_switch_portmask_P2L_get (ucast (vs_member m)) PTR)) (\<lambda>mbr.
     bindE (mapErrE RT_ERR_FAILED (rtk_switch_portmask_P2L_get (ucast (vs_untag m)) PTR)) (\<lambda>untag.
     okE \<lparr>sc_svid = ucast (vs_svid m), sc_memberport = mbr, sc_untagport = untag, sc_fiden = ucast (vs_force_fid m),
       sc_fid = ucast (vs_fid_msti m), sc_priority = ucast (vs_priority m), sc_efiden = ucast (vs_efiden m), sc_efid = ucast (vs_efid m)\<rparr>))"

definition rtk_svlan_memberPortEntry_get :: "u32 \<Rightarrow> outptr \<Rightarrow> ('d gsw, rtk_svlan_memberCfg_t) drv" where
  "rtk_svlan_memberPortEntry_get svid pSvlan_cfg =
     thenE RTK_CHK_INIT_STATE
     (thenE (not_null pSvlan_cfg)
     (thenE (check_that (\<not> svid > SVLAN_VIDMAX) RT_ERR_SVLAN_VID)
     (bindE (searchE (\<lambda>i. rtl8367c_getAsicSvlanMemberConfiguration (of_nat i)) (\<lambda>m. svid = ucast (vs_svid m)) [0..<64])
        (\<lambda>r. case r of None \<Rightarrow> errE RT_ERR_SVLAN_ENTRY_NOT_FOUND | Some (_, m) \<Rightarrow> svcfg_of m))))"

definition rtk_svlan_memberPortEntry_adv_set :: "u32 \<Rightarrow> rtk_svlan_memberCfg_t option \<Rightarrow> ('d gsw, unit) drv" where
  "rtk_svlan_memberPortEntry_adv_set idx pSvlan_cfg =
     thenE RTK_CHK_INIT_STATE
     (case pSvlan_cfg of None \<Rightarrow> errE RT_ERR_NULL_POINTER
      | Some cfg \<Rightarrow>
        thenE (check_that (\<not> idx > RTL8367C_SVIDXMAX) RT_ERR_SVLAN_ENTRY_INDEX)
        (thenE (check_that (\<not> sc_svid cfg > SVLAN_VIDMAX) RT_ERR_SVLAN_VID)
        (thenE (svcfg_check cfg)
        (bindE (sv_entry (sc_svid cfg) cfg) (\<lambda>m.
         if vs_svid m = 0 \<and> sv_blank m then sv_store (unat idx) False 0 m else sv_store (unat idx) True (ucast (vs_svid m)) m)))))"

definition rtk_svlan_memberPortEntry_adv_get :: "u32 \<Rightarrow> outptr \<Rightarrow> ('d gsw, rtk_svlan_memberCfg_t) drv" where
  "rtk_svlan_memberPortEntry_adv_get idx pSvlan_cfg =
     thenE RTK_CHK_INIT_STATE
     (thenE (not_null pSvlan_cfg)
     (thenE (check_that (\<not> idx > RTL8367C_SVIDXMAX) RT_ERR_SVLAN_ENTRY_INDEX)
     (bindE (rtl8367c_getAsicSvlanMemberConfiguration idx) svcfg_of)))"

definition rtk_svlan_checkAndCreateMbr :: "u32 \<Rightarrow> outptr \<Rightarrow> ('d gsw, u32) drv" where
  "rtk_svlan_checkAndCreateMbr vid pIndex =
     thenE RTK_CHK_INIT_STATE
     (thenE (check_that (\<not> vid > SVLAN_VIDMAX) RT_ERR_VLAN_VID)
     (thenE (not_null pIndex)
     (bindE (svdb_search vid [0..<64] None) (\<lambda>slot. case slot of
        Found i \<Rightarrow> okE (of_nat i)
      | Full \<Rightarrow> errE RT_ERR_TBL_FULL
      | Free i \<Rightarrow>
          thenE (sv_store i True (ucast vid) (memconf0\<lparr>vs_svid := ucast vid, vs_efid := (if vid = 0 then 1 else 0)\<rparr>)) (okE (of_nat i))))))"

section \<open>Default entries\<close>

definition rtk_svlan_defaultSvlan_set :: "rtk_port_t \<Rightarrow> u32 \<Rightarrow> ('d gsw, unit) drv" where
  "rtk_svlan_defaultSvlan_set port svid =
     thenE RTK_CHK_INIT_STATE
     (thenE (RTK_CHK_PORT_VALID port)
     (thenE (check_that (\<not> svid > SVLAN_VIDMAX) RT_ERR_SVLAN_VID)
     (bindE (svidx_of svid RT_ERR_SVLAN_ENTRY_NOT_FOUND) (\<lambda>i.
      bindE (rtk_switch_port_L2P_get port) (\<lambda>phy. rtl8367c_setAsicSvlanDefaultVlan phy (of_nat i))))))"

definition rtk_svlan_defaultSvlan_get :: "rtk_port_t \<Rightarrow> outptr \<Rightarrow> ('d gsw, u32) drv" where
  "rtk_svlan_defaultSvlan_get port pSvid =
     thenE RTK_CHK_INIT_STATE
     (thenE (not_null pSvid)
     (thenE (RTK_CHK_PORT_VALID port)
     (bindE (rtk_switch_port_L2P_get port) (\<lambda>phy.
      bindE (rtl8367c_getAsicSvlanDefaultVlan phy) (\<lambda>idx.
      bindE (rtl8367c_getAsicSvlanMemberConfiguration idx) (\<lambda>m. okE (ucast (vs_svid m))))))))"

definition rtk_svlan_untag_action_set :: "u32 \<Rightarrow> u32 \<Rightarrow> ('d gsw, unit) drv" where
  "rtk_svlan_untag_action_set action svid =
     thenE RTK_CHK_INIT_STATE
     (thenE (check_that (action < UNTAG_END) RT_ERR_OUT_OF_RANGE)
     (thenE (check_that (\<not> (action = UNTAG_ASSIGN \<and> svid > SVLAN_VIDMAX)) RT_ERR_SVLAN_VID)
     (thenE (rtl8367c_setAsicSvlanIngressUntag action)
     (if action = UNTAG_ASSIGN
      then bindE (svidx_of svid RT_ERR_SVLAN_ENTRY_NOT_FOUND) (\<lambda>i. rtl8367c_setAsicSvlanUntagVlan (of_nat i)) else okE ()))))"

text \<open>The second result is \<open>None\<close> where the code leaves \<^verbatim>\<open>*pSvid\<close> as it is.\<close>

definition rtk_svlan_untag_action_get :: "outptr \<Rightarrow> outptr \<Rightarrow> ('d gsw, u32 \<times> u32 option) drv" where
  "rtk_svlan_untag_action_get pAction pSvid =
     thenE RTK_CHK_INIT_STATE
     (thenE (check_that (\<not> (pAction = NULLP \<or> pSvid = NULLP)) RT_ERR_NULL_POINTER)
     (bindE rtl8367c_getAsicSvlanIngressUntag (\<lambda>action.
      if action = UNTAG_ASSIGN
      then bindE rtl8367c_getAsicSvlanUntagVlan (\<lambda>svidx.
        bindE (rtl8367c_getAsicSvlanMemberConfiguration svidx) (\<lambda>m. okE (action, Some (ucast (vs_svid m)))))
      else okE (action, None))))"

definition rtk_svlan_unmatch_action_set :: "u32 \<Rightarrow> u32 \<Rightarrow> ('d gsw, unit) drv" where
  "rtk_svlan_unmatch_action_set action svid =
     thenE RTK_CHK_INIT_STATE
     (thenE (check_that (action < UNMATCH_END) RT_ERR_OUT_OF_RANGE)
     (thenE (check_that (\<not> (action = UNMATCH_ASSIGN \<and> svid > SVLAN_VIDMAX)) RT_ERR_SVLAN_VID)
     (thenE (rtl8367c_setAsicSvlanIngressUnmatch action)
     (if action = UNMATCH_ASSIGN
      then bindE (svidx_of svid RT_ERR_SVLAN_ENTRY_NOT_FOUND) (\<lambda>i. rtl8367c_setAsicSvlanUnmatchVlan (of_nat i)) else okE ()))))"

definition rtk_svlan_unmatch_action_get :: "outptr \<Rightarrow> outptr \<Rightarrow> ('d gsw, u32 \<times> u32 option) drv" where
  "rtk_svlan_unmatch_action_get pAction pSvid =
     thenE RTK_CHK_INIT_STATE
     (thenE (check_that (\<not> (pAction = NULLP \<or> pSvid = NULLP)) RT_ERR_NULL_POINTER)
     (bindE rtl8367c_getAsicSvlanIngressUnmatch (\<lambda>action.
      if action = UNMATCH_ASSIGN
      then bindE rtl8367c_getAsicSvlanUnmatchVlan (\<lambda>svidx.
        bindE (rtl8367c_getAsicSvlanMemberConfiguration svidx) (\<lambda>m. okE (action, Some (ucast (vs_svid m)))))
      else okE (action, None))))"

section \<open>C-VLAN to service VLAN\<close>

text \<open>
  One iteration of the loop of \<open>rtk_svlan_c2s_add\<close>, which goes from the last entry to the first:
  the local variables are the last empty entry seen and \<open>doneFlag\<close>.  The shift \<^verbatim>\<open>1 << phyPort\<close> is
  defined: the port was checked, and the physical ports are at most 10.
\<close>

definition c2s_add_step :: "u32 \<Rightarrow> u32 \<Rightarrow> u32 \<Rightarrow> nat \<Rightarrow> nat option \<times> bool \<Rightarrow> ('d gsw, nat option \<times> bool) drv" where
  "c2s_add_step vid phyPort svidx i st = (case st of (empty_idx, doneFlag) \<Rightarrow>
     bindE (rtl8367c_getAsicSvlanC2SConf (of_nat i)) (\<lambda>(evid, pmsk, c2s_svidx).
       if evid = vid
       then (if pmsk AND push_bit (unat phyPort) 1 \<noteq> 0
             then (if c2s_svidx = svidx then okE (empty_idx, doneFlag)
                   else (let pmsk = pmsk AND NOT (push_bit (unat phyPort) 1)
                         in thenE (rtl8367c_setAsicSvlanC2SConf (of_nat i) vid pmsk (if pmsk = 0 then 0 else c2s_svidx)) (okE (empty_idx, doneFlag))))
             else (if c2s_svidx = svidx \<and> \<not> doneFlag
                   then thenE (rtl8367c_setAsicSvlanC2SConf (of_nat i) vid (pmsk OR push_bit (unat phyPort) 1) svidx) (okE (empty_idx, True))
                   else okE (empty_idx, doneFlag)))
       else if evid = 0 \<and> pmsk = 0 then okE (Some i, doneFlag)
       else okE (empty_idx, doneFlag)))"

definition rtk_svlan_c2s_add :: "u32 \<Rightarrow> rtk_port_t \<Rightarrow> u32 \<Rightarrow> ('d gsw, unit) drv" where
  "rtk_svlan_c2s_add vid src_port svid =
     thenE RTK_CHK_INIT_STATE
     (thenE (check_that (\<not> vid > SVLAN_VIDMAX) RT_ERR_VLAN_VID)
     (thenE (check_that (\<not> svid > SVLAN_VIDMAX) RT_ERR_SVLAN_VID)
     (thenE (RTK_CHK_PORT_VALID src_port)
     (bindE (rtk_switch_port_L2P_get src_port) (\<lambda>phyPort.
      bindE (svidx_of svid RT_ERR_SVLAN_VID) (\<lambda>svidx.
      bindE (foldE (c2s_add_step vid phyPort (of_nat svidx)) (rev [0..<128]) (None, False)) (\<lambda>(empty_idx, doneFlag).
        case empty_idx of
          Some e \<Rightarrow> if \<not> doneFlag then rtl8367c_setAsicSvlanC2SConf (of_nat e) vid (push_bit (unat phyPort) 1) (of_nat svidx) else okE ()
        | None \<Rightarrow> if doneFlag then okE () else errE RT_ERR_OUT_OF_RANGE)))))))"

text \<open>The entry of a VLAN and a port.\<close>

definition c2s_maps :: "u32 \<Rightarrow> u32 \<Rightarrow> c2s \<Rightarrow> bool" where
  "c2s_maps vid phyPort e = (case e of (evid, pmsk, svidx) \<Rightarrow> evid = vid \<and> pmsk AND push_bit (unat phyPort) 1 \<noteq> 0)"

definition rtk_svlan_c2s_del :: "u32 \<Rightarrow> rtk_port_t \<Rightarrow> ('d gsw, unit) drv" where
  "rtk_svlan_c2s_del vid src_port =
     thenE RTK_CHK_INIT_STATE
     (thenE (check_that (\<not> vid > 0x1FFF) RT_ERR_VLAN_VID)
     (thenE (RTK_CHK_PORT_VALID src_port)
     (bindE (rtk_switch_port_L2P_get src_port) (\<lambda>phyPort.
      bindE (searchE (\<lambda>i. rtl8367c_getAsicSvlanC2SConf (of_nat i)) (c2s_maps vid phyPort) [0..<128]) (\<lambda>r. case r of
        None \<Rightarrow> errE RT_ERR_OUT_OF_RANGE
      | Some (i, (evid, pmsk, svidx)) \<Rightarrow>
          (let pmsk = pmsk AND NOT (push_bit (unat phyPort) 1)
           in rtl8367c_setAsicSvlanC2SConf (of_nat i) (if pmsk = 0 then 0 else vid) pmsk (if pmsk = 0 then 0 else svidx)))))))"

definition rtk_svlan_c2s_get :: "u32 \<Rightarrow> rtk_port_t \<Rightarrow> outptr \<Rightarrow> ('d gsw, u32) drv" where
  "rtk_svlan_c2s_get vid src_port pSvid =
     thenE RTK_CHK_INIT_STATE
     (thenE (not_null pSvid)
     (thenE (check_that (\<not> vid > SVLAN_VIDMAX) RT_ERR_VLAN_VID)
     (thenE (RTK_CHK_PORT_VALID src_port)
     (bindE (rtk_switch_port_L2P_get src_port) (\<lambda>phyPort.
      bindE (searchE (\<lambda>i. rtl8367c_getAsicSvlanC2SConf (of_nat i)) (c2s_maps vid phyPort) [0..<128]) (\<lambda>r. case r of
        None \<Rightarrow> errE RT_ERR_OUT_OF_RANGE
      | Some (i, (evid, pmsk, svidx)) \<Rightarrow>
          bindE (rtl8367c_getAsicSvlanMemberConfiguration svidx) (\<lambda>m. okE (ucast (vs_svid m)))))))))"

section \<open>Multicast address to service VLAN\<close>

text \<open>The loops of the IP and the MAC variant are the same but for the format and the address.\<close>

definition mc2s_match :: "1 word \<Rightarrow> u32 \<Rightarrow> u32 \<Rightarrow> rtl8367c_svlan_mc2s_t \<Rightarrow> bool" where
  "mc2s_match fmt sdata smask e \<longleftrightarrow> m2_valid e = 1 \<and> m2_format e = fmt \<and> m2_sdata e = sdata \<and> m2_smask e = smask"

definition mc2s_add_step :: "1 word \<Rightarrow> u32 \<Rightarrow> u32 \<Rightarrow> nat \<Rightarrow> nat \<Rightarrow> nat option \<Rightarrow> ('d gsw, nat option) drv" where
  "mc2s_add_step fmt sdata smask svidx i empty_idx =
     bindE (rtl8367c_getAsicSvlanMC2SConf (of_nat i)) (\<lambda>e.
       if m2_valid e = 1
       then (if mc2s_match fmt sdata smask e
             then thenE (rtl8367c_setAsicSvlanMC2SConf (of_nat i) (e\<lparr>m2_svidx := of_nat svidx\<rparr>)) (okE empty_idx) else okE empty_idx)
       else okE (Some i))"

definition mc2s_add :: "1 word \<Rightarrow> u32 \<Rightarrow> u32 \<Rightarrow> u32 \<Rightarrow> ('d gsw, unit) drv" where
  "mc2s_add fmt sdata smask svid =
     bindE (svidx_of svid RT_ERR_SVLAN_ENTRY_NOT_FOUND) (\<lambda>svidx.
     bindE (foldE (mc2s_add_step fmt sdata smask svidx) (rev [0..<32]) None) (\<lambda>empty_idx. case empty_idx of
       None \<Rightarrow> errE RT_ERR_OUT_OF_RANGE
     | Some i \<Rightarrow> rtl8367c_setAsicSvlanMC2SConf (of_nat i)
         \<lparr>m2_valid = 1, m2_format = fmt, m2_svidx = of_nat svidx, m2_sdata = sdata, m2_smask = smask\<rparr>))"

definition mc2s_del :: "1 word \<Rightarrow> u32 \<Rightarrow> u32 \<Rightarrow> ('d gsw, unit) drv" where
  "mc2s_del fmt sdata smask =
     bindE (searchE (\<lambda>i. rtl8367c_getAsicSvlanMC2SConf (of_nat i)) (mc2s_match fmt sdata smask) [0..<32]) (\<lambda>r. case r of
       None \<Rightarrow> errE RT_ERR_OUT_OF_RANGE | Some (i, _) \<Rightarrow> rtl8367c_setAsicSvlanMC2SConf (of_nat i) mc2s0)"

definition mc2s_get :: "1 word \<Rightarrow> u32 \<Rightarrow> u32 \<Rightarrow> ('d gsw, u32) drv" where
  "mc2s_get fmt sdata smask =
     bindE (searchE (\<lambda>i. rtl8367c_getAsicSvlanMC2SConf (of_nat i)) (mc2s_match fmt sdata smask) [0..<32]) (\<lambda>r. case r of
       None \<Rightarrow> errE RT_ERR_OUT_OF_RANGE
     | Some (_, e) \<Rightarrow> bindE (rtl8367c_getAsicSvlanMemberConfiguration (ucast (m2_svidx e))) (\<lambda>m. okE (ucast (vs_svid m))))"

definition ipmc_addr :: "u32 \<Rightarrow> bool" where
  "ipmc_addr ipmc \<longleftrightarrow> ipmc AND 0xF0000000 = 0xE0000000"

definition rtk_svlan_ipmc2s_add :: "u32 \<Rightarrow> u32 \<Rightarrow> u32 \<Rightarrow> ('d gsw, unit) drv" where
  "rtk_svlan_ipmc2s_add ipmc ipmcMsk svid =
     thenE RTK_CHK_INIT_STATE
     (thenE (check_that (\<not> svid > SVLAN_VIDMAX) RT_ERR_SVLAN_VID)
     (thenE (check_that (ipmc_addr ipmc) RT_ERR_INPUT) (mc2s_add SVLAN_MC2S_MODE_IP ipmc ipmcMsk svid)))"

definition rtk_svlan_ipmc2s_del :: "u32 \<Rightarrow> u32 \<Rightarrow> ('d gsw, unit) drv" where
  "rtk_svlan_ipmc2s_del ipmc ipmcMsk =
     thenE RTK_CHK_INIT_STATE (thenE (check_that (ipmc_addr ipmc) RT_ERR_INPUT) (mc2s_del SVLAN_MC2S_MODE_IP ipmc ipmcMsk))"

definition rtk_svlan_ipmc2s_get :: "u32 \<Rightarrow> u32 \<Rightarrow> outptr \<Rightarrow> ('d gsw, u32) drv" where
  "rtk_svlan_ipmc2s_get ipmc ipmcMsk pSvid =
     thenE RTK_CHK_INIT_STATE
     (thenE (not_null pSvid) (thenE (check_that (ipmc_addr ipmc) RT_ERR_INPUT) (mc2s_get SVLAN_MC2S_MODE_IP ipmc ipmcMsk)))"

text \<open>The test the code makes of a MAC address refuses it only if its first octet is not 1 \<^emph>\<open>and\<close> its second is not 0.\<close>

definition l2mc_addr :: "rtk_mac_t \<Rightarrow> bool" where
  "l2mc_addr mac \<longleftrightarrow> \<not> (mac ! 0 \<noteq> 1 \<and> mac ! 1 \<noteq> 0)"

definition mac_low :: "rtk_mac_t \<Rightarrow> u32" where
  "mac_low mac = push_bit 24 (ucast (mac ! 2)) OR push_bit 16 (ucast (mac ! 3)) OR push_bit 8 (ucast (mac ! 4)) OR ucast (mac ! 5)"

definition rtk_svlan_l2mc2s_add :: "rtk_mac_t \<Rightarrow> rtk_mac_t \<Rightarrow> u32 \<Rightarrow> ('d gsw, unit) drv" where
  "rtk_svlan_l2mc2s_add mac macMsk svid =
     thenE RTK_CHK_INIT_STATE
     (thenE (check_that (\<not> svid > SVLAN_VIDMAX) RT_ERR_SVLAN_VID)
     (thenE (check_that (l2mc_addr mac) RT_ERR_INPUT) (mc2s_add SVLAN_MC2S_MODE_MAC (mac_low mac) (mac_low macMsk) svid)))"

definition rtk_svlan_l2mc2s_del :: "rtk_mac_t \<Rightarrow> rtk_mac_t \<Rightarrow> ('d gsw, unit) drv" where
  "rtk_svlan_l2mc2s_del mac macMsk =
     thenE RTK_CHK_INIT_STATE (thenE (check_that (l2mc_addr mac) RT_ERR_INPUT) (mc2s_del SVLAN_MC2S_MODE_MAC (mac_low mac) (mac_low macMsk)))"

definition rtk_svlan_l2mc2s_get :: "rtk_mac_t \<Rightarrow> rtk_mac_t \<Rightarrow> outptr \<Rightarrow> ('d gsw, u32) drv" where
  "rtk_svlan_l2mc2s_get mac macMsk pSvid =
     thenE RTK_CHK_INIT_STATE
     (thenE (not_null pSvid) (thenE (check_that (l2mc_addr mac) RT_ERR_INPUT) (mc2s_get SVLAN_MC2S_MODE_MAC (mac_low mac) (mac_low macMsk))))"

section \<open>Service VLAN and port to C-VLAN\<close>

definition sp2c_maps :: "nat \<Rightarrow> u32 \<Rightarrow> rtl8367c_svlan_s2c_t \<Rightarrow> bool" where
  "sp2c_maps svidx port e \<longleftrightarrow> ucast (s2_svidx e) = (of_nat svidx :: u32) \<and> ucast (s2_dstport e) = port \<and> s2_valid e = 1"

text \<open>
  The loop of \<open>rtk_svlan_sp2c_add\<close> goes from the last entry to the first and stops at the entry of
  the pair; otherwise the last free entry seen is taken.
\<close>

primrec sp2c_slot :: "nat \<Rightarrow> u32 \<Rightarrow> nat list \<Rightarrow> nat option \<Rightarrow> ('d gsw, nat option) drv" where
  "sp2c_slot svidx port [] empty_idx = okE empty_idx"
| "sp2c_slot svidx port (i # is) empty_idx =
     bindE (rtl8367c_getAsicSvlanSP2CConf (of_nat i)) (\<lambda>e.
       if sp2c_maps svidx port e then okE (Some i)
       else sp2c_slot svidx port is (if s2_valid e = 0 then Some i else empty_idx))"

definition rtk_svlan_sp2c_add :: "u32 \<Rightarrow> rtk_port_t \<Rightarrow> u32 \<Rightarrow> ('d gsw, unit) drv" where
  "rtk_svlan_sp2c_add svid dst_port cvid =
     thenE RTK_CHK_INIT_STATE
     (thenE (check_that (\<not> svid > SVLAN_VIDMAX) RT_ERR_SVLAN_VID)
     (thenE (check_that (\<not> cvid > SVLAN_VIDMAX) RT_ERR_VLAN_VID)
     (thenE (RTK_CHK_PORT_VALID dst_port)
     (bindE (rtk_switch_port_L2P_get dst_port) (\<lambda>port.
      bindE (svidx_of svid RT_ERR_SVLAN_ENTRY_NOT_FOUND) (\<lambda>svidx.
      bindE (sp2c_slot svidx port (rev [0..<128]) None) (\<lambda>empty_idx. case empty_idx of
        None \<Rightarrow> errE RT_ERR_OUT_OF_RANGE
      | Some i \<Rightarrow> rtl8367c_setAsicSvlanSP2CConf (of_nat i)
          \<lparr>s2_valid = 1, s2_svidx = of_nat svidx, s2_dstport = ucast port, s2_vid = ucast cvid\<rparr>)))))))"

definition rtk_svlan_sp2c_get :: "u32 \<Rightarrow> rtk_port_t \<Rightarrow> outptr \<Rightarrow> ('d gsw, u32) drv" where
  "rtk_svlan_sp2c_get svid dst_port pCvid =
     thenE RTK_CHK_INIT_STATE
     (thenE (not_null pCvid)
     (thenE (check_that (\<not> svid > SVLAN_VIDMAX) RT_ERR_SVLAN_VID)
     (thenE (RTK_CHK_PORT_VALID dst_port)
     (bindE (rtk_switch_port_L2P_get dst_port) (\<lambda>port.
      bindE (svidx_of svid RT_ERR_SVLAN_ENTRY_NOT_FOUND) (\<lambda>svidx.
      bindE (searchE (\<lambda>i. rtl8367c_getAsicSvlanSP2CConf (of_nat i)) (sp2c_maps svidx port) [0..<128]) (\<lambda>r. case r of
        None \<Rightarrow> errE RT_ERR_OUT_OF_RANGE | Some (_, e) \<Rightarrow> okE (ucast (s2_vid e)))))))))"

definition rtk_svlan_sp2c_del :: "u32 \<Rightarrow> rtk_port_t \<Rightarrow> ('d gsw, unit) drv" where
  "rtk_svlan_sp2c_del svid dst_port =
     thenE RTK_CHK_INIT_STATE
     (thenE (check_that (\<not> svid > SVLAN_VIDMAX) RT_ERR_SVLAN_VID)
     (thenE (RTK_CHK_PORT_VALID dst_port)
     (bindE (rtk_switch_port_L2P_get dst_port) (\<lambda>port.
      bindE (svidx_of svid RT_ERR_SVLAN_ENTRY_NOT_FOUND) (\<lambda>svidx.
      bindE (searchE (\<lambda>i. rtl8367c_getAsicSvlanSP2CConf (of_nat i)) (sp2c_maps svidx port) [0..<128]) (\<lambda>r. case r of
        None \<Rightarrow> errE RT_ERR_OUT_OF_RANGE | Some (i, _) \<Rightarrow> rtl8367c_setAsicSvlanSP2CConf (of_nat i) s2c0))))))"

end
