(* ===== verification/Svlan_Spec.thy ===== *)
theory Svlan_Spec
  imports Svlan Vlan_Entries Vlan_Safety Vlan_Init
begin

text \<open>
  The bookkeeping of the service VLANs and the member configurations in the chip.  \<open>sv_ok\<close> is the
  invariant: an entry is in use exactly if its registers are not all zero, and then they hold the
  service VLAN the driver recorded.
\<close>

section \<open>The invariant\<close>

definition sv_used :: "u32 \<Rightarrow> swt \<Rightarrow> nat \<Rightarrow> bool" where
  "sv_used svid c i \<longleftrightarrow> svid = ucast (sw_sVid c ! i) \<and> sw_sUsage c ! i"

definition sv_entry_ok :: "bool \<Rightarrow> u16 \<Rightarrow> rtl8367c_svlan_memconf_t \<Rightarrow> bool" where
  "sv_entry_ok used vid m \<longleftrightarrow> (if used then m \<noteq> memconf0 \<and> vid = ucast (vs_svid m) else m = memconf0)"

definition sv_ok :: "swt \<Rightarrow> bool" where
  "sv_ok c \<longleftrightarrow> length (sw_sUsage c) = 64 \<and> length (sw_sVid c) = 64 \<and>
     (\<forall>i<64. sv_entry_ok (sw_sUsage c ! i) (sw_sVid c ! i) (hw_svmbr (of_nat i) c))"

definition sv_upd :: "nat \<Rightarrow> bool \<Rightarrow> u16 \<Rightarrow> swt \<Rightarrow> swt" where
  "sv_upd i u v c = c\<lparr>sw_sUsage := (sw_sUsage c)[i := u], sw_sVid := (sw_sVid c)[i := v]\<rparr>"

lemma sv_upd_simps [simp]:
  "sw_reg (sv_upd i u v c) = sw_reg c" "sw_tbl (sv_upd i u v c) = sw_tbl c" "sw_init (sv_upd i u v c) = sw_init c"
  "sw_hal (sv_upd i u v c) = sw_hal c" "sw_mbrVid (sv_upd i u v c) = sw_mbrVid c" "sw_mbrUsage (sv_upd i u v c) = sw_mbrUsage c"
  "sw_sUsage (sv_upd i u v c) = (sw_sUsage c)[i := u]" "sw_sVid (sv_upd i u v c) = (sw_sVid c)[i := v]"
  "sw_sLookup (sv_upd i u v c) = sw_sLookup c" "sw_ready (sv_upd i u v c) h = sw_ready c h"
  by (simp_all add: sv_upd_def sw_ready_def)

lemma row_regs: "sw_reg c' = sw_reg c \<Longrightarrow> row cell w dec i c' = row cell w dec i c"
  by (simp add: row_def)

lemma hw_mbrcfg_regs: "sw_reg c' = sw_reg c \<Longrightarrow> hw_mbrcfg i c' = hw_mbrcfg i c"
  by (simp add: hw_mbrcfg_def)

lemma db_ok_regs:
  assumes "sw_reg c' = sw_reg c" and "sw_mbrUsage c' = sw_mbrUsage c" and "sw_mbrVid c' = sw_mbrVid c"
  shows "db_ok c' = db_ok c"
  by (simp only: db_ok_def hw_mbrcfg_regs [OF assms(1)] assms(2,3))

lemma db_ok_sv_upd [simp]: "db_ok (sv_upd i u v c) = db_ok c"
  by (rule db_ok_regs) simp_all

lemma idx64: "i < 64 \<Longrightarrow> (of_nat i :: u32) \<le> 63" "i < 128 \<Longrightarrow> (of_nat i :: u32) \<le> 127" "i < 32 \<Longrightarrow> (of_nat i :: u32) \<le> 31"
  by (simp_all add: word_le_nat_alt unat_of_nat)

lemma idx64_eq: "i < 128 \<Longrightarrow> j < 128 \<Longrightarrow> (of_nat i :: u32) = of_nat j \<longleftrightarrow> i = j"
  by (simp add: word_unat_eq_iff unat_of_nat)

lemma sv_ok_put:
  assumes "sv_ok c" and "i < 64" and "sv_entry_ok u v m"
  shows "sv_ok (put_svmbr (of_nat i) m (sv_upd i u v c))"
proof -
  have "hw_svmbr (of_nat j) (put_svmbr (of_nat i) m (sv_upd i u v c)) = (if j = i then m else hw_svmbr (of_nat j) c)" if "j < 64" for j
    using that assms(2) svmbr_t.row_put [of "of_nat i" "of_nat j" m "sv_upd i u v c"]
    by (simp add: idx64 idx64_eq row_regs [of "sv_upd i u v c" c])
  with assms show ?thesis by (auto simp: sv_ok_def nth_list_update)
qed

lemma sv_ok_cong:
  assumes "\<And>i p. i < 64 \<Longrightarrow> p < 4 \<Longrightarrow> sw_reg c' (svmbr_cell (of_nat i) p) = sw_reg c (svmbr_cell (of_nat i) p)"
    and "sw_sUsage c' = sw_sUsage c" and "sw_sVid c' = sw_sVid c"
  shows "sv_ok c' = sv_ok c"
proof -
  have "hw_svmbr (of_nat i) c' = hw_svmbr (of_nat i) c" if "i < 64" for i by (rule row_cong) (use that assms(1) in simp)
  with assms(2,3) show ?thesis by (simp add: sv_ok_def)
qed

text \<open>A configuration register outside the member configurations of both units.\<close>

definition plain_reg :: "u32 \<Rightarrow> bool" where
  "plain_reg a \<longleftrightarrow> cfg_reg a \<and> 0x7A7 < a \<and> \<not> (0xC01 \<le> a \<and> a \<le> 0xCFF) \<and> a \<noteq> 0xE8E"

lemma plain_not_cell:
  assumes "plain_reg a" and "i < 64" and "p < 4"
  shows "svmbr_cell (of_nat i) p \<noteq> a"
  using svlan_blocks(1) [OF idx64(1) [OF assms(2)] assms(3)] assms(1) by (auto simp: plain_reg_def word_le_nat_alt word_unat_eq_iff)

definition svlan_inv :: "rtk_switch_halCtrl_t \<Rightarrow> swt \<Rightarrow> bool" where
  "svlan_inv h c \<longleftrightarrow> sw_ready c h \<and> db_ok c \<and> sv_ok c"

lemma svlan_inv_put_word:
  assumes "plain_reg a"
  shows "svlan_inv h (put_word a v c) = svlan_inv h c"
proof -
  have "sv_ok (put_word a v c) = sv_ok c"
  proof (rule sv_ok_cong)
    fix i p :: nat assume "i < 64" "p < 4"
    with plain_not_cell [OF assms this] show "sw_reg (put_word a v c) (svmbr_cell (of_nat i) p) = sw_reg c (svmbr_cell (of_nat i) p)" by simp
  qed (simp_all add: put_word_def)
  with assms show ?thesis by (simp add: svlan_inv_def db_ok_put_word plain_reg_def)
qed

section \<open>Writes that keep it\<close>

definition svlan_up :: "('d \<Rightarrow> chip_view) \<Rightarrow> u32 set \<Rightarrow> rtk_switch_halCtrl_t \<Rightarrow> 'd gsw \<Rightarrow> bool" where
  "svlan_up view A h s \<longleftrightarrow> driver_up view A h s \<and> sv_ok (swt_of view s)"

lemma swt_rel_row:
  assumes "swt_rel view A s c" and "\<And>p. p < w \<Longrightarrow> cell i p \<in> A"
  shows "row cell w dec i (swt_of view s) = row cell w dec i c"
  by (rule row_cong) (use assms in \<open>auto simp: swt_rel_def swt_of_def\<close>)

lemma svlan_upI:
  assumes "swt_rel view A s c" and "cfg_regs \<subseteq> A" and "svlan_inv h c"
  shows "svlan_up view A h s"
proof -
  have "sv_ok (swt_of view s) = sv_ok c"
    using assms(1,2) by (intro sv_ok_cong) (auto simp: swt_rel_def swt_of_def cfg_regs_def svmbr_t.cell_cfg idx64 subset_iff)
  with assms driver_upI [OF assms(1,2)] show ?thesis by (auto simp: svlan_up_def svlan_inv_def)
qed

lemma svlan_upD:
  assumes "svlan_up view A h s"
  shows "swt_rel view A s (swt_of view s)" and "cfg_regs \<subseteq> A" and "svlan_inv h (swt_of view s)" and "hal_wf h" and "ready s h"
  using assms driver_upD [of view A h s] sw_ready_rel [of view A s "swt_of view s" h] by (auto simp: svlan_up_def svlan_inv_def)

lemma safe_wp:
  assumes "\<And>c. cfg_regs \<subseteq> A \<Longrightarrow> svlan_inv h c \<Longrightarrow> wp view A m (\<lambda>r c'. svlan_inv h c' \<and> r \<noteq> Fault \<and> (\<forall>x. r = Ok x \<longrightarrow> Q x)) c"
  shows "safe (svlan_up view A h) m Q"
proof (rule safeI)
  fix s r s' assume s: "svlan_up view A h s" and run: "m s = (r, s')"
  note up = svlan_upD [OF s]
  from assms [OF up(2,3)] up(1) obtain c' where "swt_rel view A s' c'" "svlan_inv h c'" "r \<noteq> Fault" "\<forall>x. r = Ok x \<longrightarrow> Q x"
    by (rule wpD) (use run in auto)
  with svlan_upI [OF _ up(2)] show "svlan_up view A h s' \<and> r \<noteq> Fault \<and> (\<forall>x. r = Ok x \<longrightarrow> Q x)" by blast
qed

lemma setAsicReg_too_big: "\<not> v \<le> 0xFFFF \<Longrightarrow> rtl8367c_setAsicReg a v s = (Err RT_ERR_SMI, s)"
  by (simp add: rtl8367c_setAsicReg_def mapErrE_def smi_write_def errE_def not_le)

lemma wp_set_plain:
  fixes view :: "'d \<Rightarrow> chip_view"
  assumes "cfg_reg a" and "cfg_regs \<subseteq> A" and "\<And>e. Q (Err e) c" and "\<And>v. Q (Ok ()) (put_word a v c)"
  shows "wp view A (rtl8367c_setAsicReg a v) Q c"
    and "wp view A (rtl8367c_setAsicRegBits a m v) Q c"
    and "wp view A (rtl8367c_setAsicRegBit a n v) Q c"
proof -
  have reg: "wp view A (rtl8367c_setAsicReg a x) Q c" for x
  proof (cases "x \<le> 0xFFFF")
    case False
    then show ?thesis by (intro wp_pure [where r = "Err RT_ERR_SMI"]) (auto simp: setAsicReg_too_big assms(3))
  qed (use assms in \<open>auto intro!: wp_set_word\<close>)
  then show "wp view A (rtl8367c_setAsicReg a v) Q c" .
  have "rtl8367c_setAsicRegBits a m v = ((if m \<ge> push_bit RTL8367C_REGBITLENGTH 1 then errE RT_ERR_INPUT
      else (case bitsShift_loop m 0 of None \<Rightarrow> errE RT_ERR_INPUT
      | Some b \<Rightarrow> if push_bit b v > RTL8367C_REGDATAMAX then errE RT_ERR_INPUT
          else bindE (rtl8367c_getAsicReg a) (\<lambda>d. rtl8367c_setAsicReg a ((d AND NOT m) OR (push_bit b v AND m))))) :: ('d gsw, unit) drv)"
    by (simp add: rtl8367c_setAsicRegBits_def rtl8367c_getAsicReg_def rtl8367c_setAsicReg_def Let_def split: option.splits)
  then show "wp view A (rtl8367c_setAsicRegBits a m v) Q c"
    by (simp only:) (auto intro!: wp_bindE wp_get_word wp_errE reg assms split: option.splits)
  have "rtl8367c_setAsicRegBit a n v = ((if unat n \<ge> RTL8367C_REGBITLENGTH then errE RT_ERR_INPUT
      else bindE (rtl8367c_getAsicReg a) (\<lambda>d. rtl8367c_setAsicReg a
        (if v \<noteq> 0 then d OR push_bit (unat n) 1 else d AND NOT (push_bit (unat n) 1)))) :: ('d gsw, unit) drv)"
    by (simp add: rtl8367c_setAsicRegBit_def rtl8367c_getAsicReg_def rtl8367c_setAsicReg_def)
  then show "wp view A (rtl8367c_setAsicRegBit a n v) Q c"
    by (simp only:) (auto intro!: wp_bindE wp_get_word wp_errE reg assms)
qed

lemma safe_set_plain:
  assumes "plain_reg a"
  shows "safe (svlan_up view A h) (rtl8367c_setAsicReg a v) (\<lambda>_. True)"
    and "safe (svlan_up view A h) (rtl8367c_setAsicRegBits a m v) (\<lambda>_. True)"
    and "safe (svlan_up view A h) (rtl8367c_setAsicRegBit a n v) (\<lambda>_. True)"
  using assms by (auto intro!: safe_wp wp_set_plain simp: svlan_inv_put_word) (auto simp: plain_reg_def)

lemma safe_get_cfg:
  assumes "cfg_reg a"
  shows "safe (svlan_up view A h) (rtl8367c_getAsicReg a) (\<lambda>_. True)"
  using assms by (auto intro!: safe_wp wp_get_word)

lemma safe_get_field:
  assumes "cfg_reg a"
  shows "m = field_mask k w \<Longrightarrow> 0 < w \<Longrightarrow> k + w \<le> 16 \<Longrightarrow> safe (svlan_up view A h) (rtl8367c_getAsicRegBits a m) (\<lambda>_. True)"
    and "unat n < 16 \<Longrightarrow> safe (svlan_up view A h) (rtl8367c_getAsicRegBit a n) (\<lambda>_. True)"
  using assms by (auto intro!: safe_wp wp_get_gfld wp_get_gbit)

named_theorems sv_safe

declare safe_okE [sv_safe] safe_errE [sv_safe] safe_thenE [sv_safe] safe_mapErrE [sv_safe] safe_if [sv_safe] safe_check [sv_safe]

lemma safe_no_fault: "safe P m Q \<Longrightarrow> safe P m (\<lambda>_. True)"
  by (erule safe_weaken) simp

text \<open>Checks of the core.\<close>

lemma safe_same:
  assumes "\<And>s. ready s h \<Longrightarrow> \<exists>r. m s = (r, s) \<and> r \<noteq> Fault"
  shows "safe (svlan_up view A h) m (\<lambda>_. True)"
proof (rule safeI)
  fix s r s' assume s: "svlan_up view A h s" and run: "m s = (r, s')"
  with assms [OF svlan_upD(5) [OF s]] show "svlan_up view A h s' \<and> r \<noteq> Fault \<and> (\<forall>x. r = Ok x \<longrightarrow> True)" by auto
qed

lemma safe_sv_checks [sv_safe]:
  "safe (svlan_up view A h) RTK_CHK_INIT_STATE (\<lambda>_. True)"
  "safe (svlan_up view A h) (RTK_CHK_PORT_VALID p) (\<lambda>_. True)"
  "safe (svlan_up view A h) (RTK_CHK_PORTMASK_VALID (Some m)) (\<lambda>_. True)"
  by (rule safe_same, auto simp: chk_init_run chk_port_run chk_portmask_run)+

lemma safe_sv_maps [sv_safe]:
  "safe (svlan_up view A h) (rtk_switch_portmask_L2P_get (Some m) PTR) (\<lambda>_. True)"
  "safe (svlan_up view A h) (rtk_switch_portmask_P2L_get x q) (\<lambda>_. True)"
proof -
  show "safe (svlan_up view A h) (rtk_switch_portmask_L2P_get (Some m) PTR) (\<lambda>_. True)"
    by (rule safe_same) (auto simp: portmask_L2P_run)
  show "safe (svlan_up view A h) (rtk_switch_portmask_P2L_get x q) (\<lambda>_. True)"
    by (rule safe_wp) (auto simp: svlan_inv_def split: if_splits intro!: wp_P2L_ptr)
qed

text \<open>After the port check the translated port is a physical port.\<close>

lemma safe_valid_port:
  assumes "valid_port h p \<Longrightarrow> safe (svlan_up view A h) k Q"
  shows "safe (svlan_up view A h) (thenE (RTK_CHK_PORT_VALID p) k) Q"
proof (rule safeI)
  fix s r s' assume s: "svlan_up view A h s" and run: "thenE (RTK_CHK_PORT_VALID p) k s = (r, s')"
  note port = chk_port_run [OF svlan_upD(5) [OF s], of p]
  show "svlan_up view A h s' \<and> r \<noteq> Fault \<and> (\<forall>x. r = Ok x \<longrightarrow> Q x)"
  proof (cases "valid_port h p")
    case True
    with run have "k s = (r, s')" by (simp add: thenE_def bindE_def port)
    with safeD [OF assms [OF True] s] show ?thesis by blast
  qed (use run s in \<open>auto simp: thenE_def bindE_def port\<close>)
qed

lemma safe_L2P:
  assumes "valid_port h p" and "\<And>phy. phy \<le> 10 \<Longrightarrow> safe (svlan_up view A h) (f phy) Q"
  shows "safe (svlan_up view A h) (bindE (rtk_switch_port_L2P_get p) f) Q"
proof (rule safeI)
  fix s r s' assume s: "svlan_up view A h s" and run: "bindE (rtk_switch_port_L2P_get p) f s = (r, s')"
  note up = svlan_upD [OF s]
  from run up(5) assms(1) have "f (phy_of h p) s = (r, s')" by (simp add: bindE_def port_L2P_run valid_port_less)
  with safeD [OF assms(2) [OF phy_of_le [OF up(4) assms(1)]] s]
  show "svlan_up view A h s' \<and> r \<noteq> Fault \<and> (\<forall>x. r = Ok x \<longrightarrow> Q x)" by blast
qed

subsection \<open>The register level\<close>

lemma plain_regs [simp]:
  "plain_reg 0x0E80" "plain_reg 0x0E8D" "plain_reg 0x0881" "plain_reg 0x0E85" "plain_reg 0x0E86" "plain_reg 0x1218" "plain_reg 0x1202"
  "plain_reg 0x0E81" "plain_reg 0x0E82" "plain_reg 0x0E83" "plain_reg 0x0E84" "plain_reg 0x0E8B" "plain_reg 0x0E8C"
  by (simp_all add: plain_reg_def cfg_reg_defs)

lemma plain_cfg: "plain_reg a \<Longrightarrow> cfg_reg a"
  by (simp add: plain_reg_def)

lemma plain_tables:
  "i \<le> 127 \<Longrightarrow> p < 3 \<Longrightarrow> plain_reg (c2s_cell i p)" "i \<le> 31 \<Longrightarrow> p < 5 \<Longrightarrow> plain_reg (mc2s_cell i p)"
  "i \<le> 127 \<Longrightarrow> p < 2 \<Longrightarrow> plain_reg (sp2c_cell i p)"
  using svlan_blocks(2) [of i p] svlan_blocks(3) [of i p] svlan_blocks(4) [of i p] c2s_t.cell_cfg [of i p] mc2s_t.cell_cfg [of i p] sp2c_t.cell_cfg [of i p]
  by (auto simp: plain_reg_def word_le_nat_alt word_less_nat_alt word_unat_eq_iff)

lemma safe_write_row:
  "(\<And>p. p < w \<Longrightarrow> plain_reg (cell i p)) \<Longrightarrow> safe (svlan_up view A h) (write_row cell w i ws) (\<lambda>_. True)"
  unfolding write_row_def by (auto intro!: safe_forE safe_set_plain)

lemma safe_read_row:
  "(\<And>p. p < w \<Longrightarrow> cfg_reg (cell i p)) \<Longrightarrow> safe (svlan_up view A h) (read_row cell w i) (\<lambda>_. True)"
  unfolding read_row_def by (auto intro!: safe_no_fault [OF safe_mapE [where Q = "\<lambda>_. True"]] safe_bindT safe_get_cfg safe_okE)

lemma svidx_field_ok:
  assumes "port \<le> 10"
  shows "plain_reg (fst (svidx_field port))" and "\<exists>k. snd (svidx_field port) = field_mask k 6 \<and> k + 6 \<le> 16"
proof -
  have m: "(0x3F :: u32) = field_mask 0 6" "(0x3F00 :: u32) = field_mask 8 6" by (simp_all add: field_defs)
  show "plain_reg (fst (svidx_field port))" and "\<exists>k. snd (svidx_field port) = field_mask k 6 \<and> k + 6 \<le> 16"
    using le_10_cases [OF assms] by (auto simp: svidx_field_def m)
qed

lemma sv_field_masks:
  "(0x3 :: u32) = field_mask 0 2" "(0xC :: u32) = field_mask 2 2" "(0x30 :: u32) = field_mask 4 2" "(0x700 :: u32) = field_mask 8 3"
  "(0x3F00 :: u32) = field_mask 8 6" "(0x3F :: u32) = field_mask 0 6"
  by (simp_all add: field_defs)

lemmas sv_asic_set_defs = rtl8367c_setAsicSvlanUplinkPortMask_def rtl8367c_setAsicSvlanTpid_def rtl8367c_setAsicSvlanPrioritySel_def
  rtl8367c_setAsicSvlanTrapPriority_def rtl8367c_setAsicSvlanIngressUntag_def rtl8367c_setAsicSvlanIngressUnmatch_def
  rtl8367c_setAsicSvlanEgressUnassign_def rtl8367c_setAsicSvlanUntagVlan_def rtl8367c_setAsicSvlanUnmatchVlan_def
  rtl8367c_setAsicSvlanLookupType_def rtl8367c_setAsicSvlanDmacCvidSel_def

lemmas sv_asic_get_defs = rtl8367c_getAsicSvlanUplinkPortMask_def rtl8367c_getAsicSvlanTpid_def rtl8367c_getAsicSvlanPrioritySel_def
  rtl8367c_getAsicSvlanTrapPriority_def rtl8367c_getAsicSvlanIngressUntag_def rtl8367c_getAsicSvlanIngressUnmatch_def
  rtl8367c_getAsicSvlanEgressUnassign_def rtl8367c_getAsicSvlanUntagVlan_def rtl8367c_getAsicSvlanUnmatchVlan_def
  rtl8367c_getAsicSvlanLookupType_def

lemma safe_sv_set [sv_safe]:
  "safe (svlan_up view A h) (rtl8367c_setAsicSvlanUplinkPortMask v) (\<lambda>_. True)"
  "safe (svlan_up view A h) (rtl8367c_setAsicSvlanTpid v) (\<lambda>_. True)"
  "safe (svlan_up view A h) (rtl8367c_setAsicSvlanPrioritySel v) (\<lambda>_. True)"
  "safe (svlan_up view A h) (rtl8367c_setAsicSvlanTrapPriority v) (\<lambda>_. True)"
  "safe (svlan_up view A h) (rtl8367c_setAsicSvlanIngressUntag v) (\<lambda>_. True)"
  "safe (svlan_up view A h) (rtl8367c_setAsicSvlanIngressUnmatch v) (\<lambda>_. True)"
  "safe (svlan_up view A h) (rtl8367c_setAsicSvlanEgressUnassign v) (\<lambda>_. True)"
  "safe (svlan_up view A h) (rtl8367c_setAsicSvlanUntagVlan v) (\<lambda>_. True)"
  "safe (svlan_up view A h) (rtl8367c_setAsicSvlanUnmatchVlan v) (\<lambda>_. True)"
  "safe (svlan_up view A h) (rtl8367c_setAsicSvlanLookupType v) (\<lambda>_. True)"
  "safe (svlan_up view A h) (rtl8367c_setAsicSvlanDmacCvidSel port v) (\<lambda>_. True)"
  unfolding sv_asic_set_defs by (intro safe_if safe_errE safe_set_plain plain_regs)+

lemma safe_sv_get [sv_safe]:
  "safe (svlan_up view A h) rtl8367c_getAsicSvlanUplinkPortMask (\<lambda>_. True)"
  "safe (svlan_up view A h) rtl8367c_getAsicSvlanTpid (\<lambda>_. True)"
  "safe (svlan_up view A h) rtl8367c_getAsicSvlanPrioritySel (\<lambda>_. True)"
  "safe (svlan_up view A h) rtl8367c_getAsicSvlanTrapPriority (\<lambda>_. True)"
  "safe (svlan_up view A h) rtl8367c_getAsicSvlanIngressUntag (\<lambda>_. True)"
  "safe (svlan_up view A h) rtl8367c_getAsicSvlanIngressUnmatch (\<lambda>_. True)"
  "safe (svlan_up view A h) rtl8367c_getAsicSvlanEgressUnassign (\<lambda>_. True)"
  "safe (svlan_up view A h) rtl8367c_getAsicSvlanUntagVlan (\<lambda>_. True)"
  "safe (svlan_up view A h) rtl8367c_getAsicSvlanUnmatchVlan (\<lambda>_. True)"
  "safe (svlan_up view A h) rtl8367c_getAsicSvlanLookupType (\<lambda>_. True)"
  unfolding sv_asic_get_defs
  by (auto intro!: safe_get_cfg safe_get_field(2) safe_get_field(1) [OF _ sv_field_masks(1)] safe_get_field(1) [OF _ sv_field_masks(2)]
      safe_get_field(1) [OF _ sv_field_masks(3)] safe_get_field(1) [OF _ sv_field_masks(4)] safe_get_field(1) [OF _ sv_field_masks(5)]
      safe_get_field(1) [OF _ sv_field_masks(6)] plain_cfg)

lemma safe_sv_tables [sv_safe]:
  "safe (svlan_up view A h) (rtl8367c_getAsicSvlanMemberConfiguration i) (\<lambda>_. True)"
  "safe (svlan_up view A h) (rtl8367c_setAsicSvlanC2SConf i a b d) (\<lambda>_. True)"
  "safe (svlan_up view A h) (rtl8367c_getAsicSvlanC2SConf i) (\<lambda>_. True)"
  "safe (svlan_up view A h) (rtl8367c_setAsicSvlanMC2SConf i e) (\<lambda>_. True)"
  "safe (svlan_up view A h) (rtl8367c_getAsicSvlanMC2SConf i) (\<lambda>_. True)"
  "safe (svlan_up view A h) (rtl8367c_setAsicSvlanSP2CConf i e2) (\<lambda>_. True)"
  "safe (svlan_up view A h) (rtl8367c_getAsicSvlanSP2CConf i) (\<lambda>_. True)"
  unfolding rtl8367c_getAsicSvlanMemberConfiguration_def rtl8367c_setAsicSvlanC2SConf_def rtl8367c_getAsicSvlanC2SConf_def
    set_mc2s_row rtl8367c_getAsicSvlanMC2SConf_def set_sp2c_row rtl8367c_getAsicSvlanSP2CConf_def
  by (auto intro!: safe_if safe_errE safe_okE safe_bindT safe_thenE safe_set_plain safe_get_cfg safe_write_row safe_read_row plain_tables
      svmbr_t.cell_cfg c2s_t.cell_cfg mc2s_t.cell_cfg sp2c_t.cell_cfg simp: not_less)

lemma safe_sv_port [sv_safe]:
  "port \<le> 10 \<Longrightarrow> safe (svlan_up view A h) (rtl8367c_setAsicSvlanDefaultVlan port v) (\<lambda>_. True)"
  "port \<le> 10 \<Longrightarrow> safe (svlan_up view A h) (rtl8367c_getAsicSvlanDefaultVlan port) (\<lambda>_. True)"
  "port \<le> 10 \<Longrightarrow> safe (svlan_up view A h) (rtl8367c_getAsicSvlanDmacCvidSel port) (\<lambda>_. True)"
proof -
  assume p: "port \<le> 10"
  obtain a m where am: "svidx_field port = (a, m)" by (cases "svidx_field port")
  with svidx_field_ok [OF p] obtain k where a: "plain_reg a" and k: "m = field_mask k 6" "k + 6 \<le> 16" by auto
  show "safe (svlan_up view A h) (rtl8367c_setAsicSvlanDefaultVlan port v) (\<lambda>_. True)"
    "safe (svlan_up view A h) (rtl8367c_getAsicSvlanDefaultVlan port) (\<lambda>_. True)"
    unfolding rtl8367c_setAsicSvlanDefaultVlan_def rtl8367c_getAsicSvlanDefaultVlan_def am prod.case
    using safe_get_field(1) [OF plain_cfg [OF a] k(1) _ k(2)] by (auto intro!: safe_if safe_errE safe_set_plain a)
  have "unat (7 + port) < 16 \<or> \<not> port < 8" "unat (port - 8) < 16 \<or> port < 8"
    using le_10_cases [OF p] by auto
  then show "safe (svlan_up view A h) (rtl8367c_getAsicSvlanDmacCvidSel port) (\<lambda>_. True)"
    unfolding rtl8367c_getAsicSvlanDmacCvidSel_def by (auto intro!: safe_if safe_errE safe_get_field(2) plain_cfg)
qed

subsection \<open>Searches\<close>

lemma safe_searchE:
  assumes "\<And>i. safe P (f i) (\<lambda>_. True)"
  shows "safe P (searchE f p is) (\<lambda>r. \<forall>i e. r = Some (i, e) \<longrightarrow> i \<in> set is)"
proof (induction "is")
  case (Cons i "is")
  show ?case
    by (auto intro!: safe_bindE [OF assms] safe_if safe_okE intro: safe_weaken [OF Cons.IH])
qed (simp add: safe_okE)

lemma safe_svidx_of: "safe (svlan_up view A h) (svidx_of svid e) (\<lambda>i. i < 64)"
  unfolding svidx_of_def
  by (auto intro!: safe_bindE [OF safe_searchE] sv_safe split: option.splits)

lemma safe_bind_svidx [sv_safe]:
  "(\<And>i. i < 64 \<Longrightarrow> safe (svlan_up view A h) (f i) Q) \<Longrightarrow> safe (svlan_up view A h) (bindE (svidx_of svid e) f) Q"
  by (rule safe_bindE [OF safe_svidx_of])

lemma safe_search [sv_safe]: "(\<And>i. safe P (f i) (\<lambda>_. True)) \<Longrightarrow> safe P (searchE f p is) (\<lambda>_. True)"
  by (rule safe_no_fault [OF safe_searchE])

lemma wp_svdb_entry:
  assumes "sv_ok c" and "i < 64" and "Q (Ok (sw_sUsage c ! i, sw_sVid c ! i)) c"
  shows "wp view A (svdb_entry i) Q c"
  by (rule wp_pure [where r = "Ok (sw_sUsage c ! i, sw_sVid c ! i)"])
     (use assms in \<open>auto simp: svdb_entry_def swt_rel_def sv_ok_def\<close>)

lemma wp_svdb_set:
  assumes "length (sw_sUsage c) = 64" and "length (sw_sVid c) = 64" and "i < 64" and "Q (Ok ()) (sv_upd i u v c)"
  shows "wp view A (svdb_set i u v) Q c"
  unfolding wp_def
proof (intro allI impI)
  fix s assume "swt_rel view A s c"
  with assms show "\<exists>c'. swt_rel view A (snd (svdb_set i u v s)) c' \<and> Q (fst (svdb_set i u v s)) c'"
    by (auto simp: svdb_set_def swt_rel_def intro!: exI [of _ "sv_upd i u v c"])
qed

text \<open>What the search through the bookkeeping finds.\<close>

definition sv_slot :: "u32 \<Rightarrow> swt \<Rightarrow> svslot" where
  "sv_slot svid c = (case List.find (sv_used svid c) [0..<64] of Some i \<Rightarrow> Found i
     | None \<Rightarrow> (case List.find (\<lambda>i. \<not> sw_sUsage c ! i) [0..<64] of Some i \<Rightarrow> Free i | None \<Rightarrow> Full))"

lemma wp_svdb_search:
  assumes "sv_ok c" and "Q (Ok (sv_slot svid c)) c"
  shows "wp view A (svdb_search svid [0..<64] None) Q c"
proof -
  have "wp view A (svdb_search svid is e) Q c"
    if "set is \<subseteq> {..<64}" and "Q (Ok (case List.find (sv_used svid c) is of Some i \<Rightarrow> Found i
        | None \<Rightarrow> (case e of Some i \<Rightarrow> Free i | None \<Rightarrow> (case List.find (\<lambda>i. \<not> sw_sUsage c ! i) is of Some i \<Rightarrow> Free i | None \<Rightarrow> Full)))) c"
    for "is" e
    using that
  proof (induction "is" arbitrary: e)
    case (Cons i "is")
    have i: "i < 64" using Cons.prems(1) by simp
    show ?case
    proof (cases "sv_used svid c i")
      case True
      with Cons.prems i show ?thesis by (auto intro!: wp_bindE wp_svdb_entry [OF assms(1)] wp_okE simp: sv_used_def)
    next
      case False
      have "wp view A (svdb_search svid is (if \<not> sw_sUsage c ! i \<and> e = None then Some i else e)) Q c"
        by (rule Cons.IH) (use Cons.prems False in \<open>auto split: option.splits if_splits\<close>)
      with False i show ?thesis by (auto intro!: wp_bindE wp_svdb_entry [OF assms(1)] simp: sv_used_def)
    qed
  qed (auto intro!: wp_okE split: option.splits)
  from this [OF upt_below, of None] assms(2) show ?thesis by (simp add: sv_slot_def cong: option.case_cong)
qed

lemma sv_slotD:
  "sv_slot svid c = Found i \<Longrightarrow> i < 64 \<and> sv_used svid c i \<and> (\<forall>j<i. \<not> sv_used svid c j)"
  "sv_slot svid c = Free i \<Longrightarrow> i < 64 \<and> \<not> sw_sUsage c ! i \<and> (\<forall>j<64. \<not> sv_used svid c j)"
  "sv_slot svid c = Full \<Longrightarrow> (\<forall>j<64. \<not> sv_used svid c j \<and> sw_sUsage c ! j)"
  by (auto simp: sv_slot_def find_Some_iff find_None_iff split: option.splits)

subsection \<open>Member configurations\<close>

lemma safe_sv_store [sv_safe]:
  assumes "i < 64" and "sv_entry_ok u v m"
  shows "safe (svlan_up view A h) (sv_store i u v m) (\<lambda>_. True)"
proof (rule safe_wp)
  fix c assume A: "cfg_regs \<subseteq> A" and c: "svlan_inv h c"
  from c have "length (sw_sUsage c) = 64" "length (sw_sVid c) = 64" by (simp_all add: svlan_inv_def sv_ok_def)
  moreover have "svlan_inv h (put_svmbr (of_nat i) m (sv_upd i u v c))"
    using c sv_ok_put [OF _ assms] svmbr_t.db_ok_put_row [of "of_nat i"] by (simp add: svlan_inv_def idx64 assms(1))
  ultimately show "wp view A (sv_store i u v m)
      (\<lambda>r c'. svlan_inv h c' \<and> r \<noteq> Fault \<and> (\<forall>x. r = Ok x \<longrightarrow> True)) c"
    unfolding sv_store_def using A assms(1) by (auto intro!: wp_thenE wp_svdb_set wp_setSvMbr simp: idx64)
qed

lemma sv_blank_iff: "sv_blank m \<longleftrightarrow> m\<lparr>vs_svid := 0\<rparr> = memconf0"
  by (cases m) (auto simp: sv_blank_def memconf0_def)

lemma sv_mark_props [simp]: "sv_mark m \<noteq> memconf0" "vs_svid (sv_mark m) = vs_svid m"
  by (cases m, auto simp: sv_mark_def memconf0_def)+

lemma sv_entry_oks [simp]:
  "sv_entry_ok False 0 memconf0" "sv_entry_ok True (ucast (vs_svid m)) m \<longleftrightarrow> m \<noteq> memconf0"
  "sv_entry_ok True (ucast (vs_svid m)) (sv_mark m)"
  by (simp_all add: sv_entry_ok_def)

lemma safe_svdb_search_bind:
  assumes "\<And>i. i < 64 \<Longrightarrow> safe (svlan_up view A h) (f (Found i)) Q" and "\<And>i. i < 64 \<Longrightarrow> safe (svlan_up view A h) (f (Free i)) Q"
    and "safe (svlan_up view A h) (f Full) Q"
  shows "safe (svlan_up view A h) (bindE (svdb_search svid [0..<64] None) f) Q"
proof (rule safe_bindE [where R = "\<lambda>r. \<forall>i. r = Found i \<or> r = Free i \<longrightarrow> i < 64"])
  show "safe (svlan_up view A h) (svdb_search svid [0..<64] None) (\<lambda>r. \<forall>i. r = Found i \<or> r = Free i \<longrightarrow> i < 64)"
    by (rule safe_wp) (auto intro!: wp_svdb_search simp: svlan_inv_def dest: sv_slotD)
  show "safe (svlan_up view A h) (f x) Q" if "\<forall>i. x = Found i \<or> x = Free i \<longrightarrow> i < 64" for x
    using that assms by (cases x) auto
qed

lemma safe_sv_entry: "safe (svlan_up view A h) (sv_entry svid cfg) (\<lambda>m. vs_svid m = ucast svid)"
  unfolding sv_entry_def by (auto intro!: safe_bindT safe_mapErrE safe_sv_maps safe_okE)

lemma safe_sv_set_64 [sv_safe]: "safe (svlan_up view A h) (sv_set_64 svid cfg) (\<lambda>_. True)"
  unfolding sv_set_64_def
  by (rule safe_svdb_search_bind)
     (auto intro!: safe_bindT [OF safe_no_fault [OF safe_sv_entry]] sv_safe simp: sv_blank_iff)

lemma safe_svcfg_of [sv_safe]: "safe (svlan_up view A h) (svcfg_of m) (\<lambda>_. True)"
  unfolding svcfg_of_def by (auto intro!: safe_bindT sv_safe)

text \<open>In C-VLAN lookup mode the VLAN table is written as well; it does not touch the service-VLAN registers.\<close>

definition sv_frame :: "swt \<Rightarrow> swt \<Rightarrow> bool" where
  "sv_frame c c' \<longleftrightarrow> (\<forall>a. 0x7A7 < a \<and> cfg_reg a \<longrightarrow> sw_reg c' a = sw_reg c a) \<and> sw_sUsage c' = sw_sUsage c \<and> sw_sVid c' = sw_sVid c \<and>
     sw_sLookup c' = sw_sLookup c"

lemma cfg_not_table_reg: "cfg_reg a \<Longrightarrow> a \<notin> table_regs"
  using cfg_not_table by (auto simp: cfg_regs_def)

lemma sv_frame_read [simp]: "sv_frame c (read_command_state t x c)"
  using cfg_not_table_reg by (auto simp: sv_frame_def)

lemma sv_frame_vlan_set: "sv_frame c (vlan_set_state h vid cfg c)"
proof -
  have mbr: "sv_frame d (put_mbrcfg (of_nat i) m d)" if "i < 32" for i m d
  proof -
    have "a \<noteq> mbrcfg_reg (of_nat i) p" if "0x7A7 < a" "p < 4" for a p
      using mbrcfg_reg_unat [OF idx64(3) [OF \<open>i < 32\<close>] that(2)] that \<open>i < 32\<close> by (auto simp: word_less_nat_alt unat_of_nat)
    then show ?thesis by (auto simp: sv_frame_def put_mbrcfg_frame) (simp_all add: put_mbrcfg_def)
  qed
  have 4: "sv_frame d (put_4k e d)" for e d
    using cfg_not_table_reg by (auto simp: sv_frame_def mbr_frame_put_4k) (simp_all add: put_4k_def Let_def)
  have trans: "sv_frame a b \<Longrightarrow> sv_frame b d \<Longrightarrow> sv_frame a d" for a b d by (auto simp: sv_frame_def)
  have upd: "sv_frame d (db_upd i u v e) = sv_frame d e" for d e i u v by (simp add: sv_frame_def db_upd_def)
  show ?thesis
    unfolding vlan_set_state_def mbr_synced_def Let_def
    by (auto split: option.split if_split simp: upd find_Some_iff intro!: trans [OF 4 mbr] 4)
qed

lemma sv_frame_ok: "sv_frame c c' \<Longrightarrow> sv_ok c' = sv_ok c"
  by (rule sv_ok_cong) (auto simp: sv_frame_def svmbr_t.cell_cfg svmbr_t.cell_high idx64)

lemma sv4k_entry_ok:
  assumes "svid \<le> 0xFFF"
  shows "sv_entry_ok True (ucast svid) (sv4k_entry svid cfg)"
proof -
  have "(ucast svid :: u16) = ucast (ucast svid :: 12 word)"
    using assms unfolding le_mask_iff_bits [of svid 12, simplified mask_eq_exp_minus_1, simplified]
    by (intro bit_word_eqI) (auto simp: bit_simps not_le [symmetric])
  moreover have "sv4k_entry svid cfg \<noteq> memconf0" by (auto simp: sv4k_entry_def memconf0_def split: if_splits)
  moreover have "vs_svid (sv4k_entry svid cfg) = ucast svid" by (simp add: sv4k_entry_def)
  ultimately show ?thesis by (simp add: sv_entry_ok_def)
qed

lemma sv_upd_same: "sw_sUsage c ! i = u \<Longrightarrow> sw_sVid c ! i = v \<Longrightarrow> sv_upd i u v c = c"
proof -
  have "sv_upd i (sw_sUsage c ! i) (sw_sVid c ! i) c = c" by (simp add: sv_upd_def)
  then show "sw_sUsage c ! i = u \<Longrightarrow> sw_sVid c ! i = v \<Longrightarrow> sv_upd i u v c = c" by blast
qed

lemma wp_sv4k_store:
  assumes "cfg_regs \<subseteq> A" and "svlan_inv h c" and "svid \<le> 0xFFF"
  shows "wp view A (bindE (svdb_search svid [0..<64] None) (\<lambda>slot. case slot of
        Found i \<Rightarrow> rtl8367c_setAsicSvlanMemberConfiguration (of_nat i) (sv4k_entry svid cfg)
      | Free i \<Rightarrow> sv_store i True (ucast svid) (sv4k_entry svid cfg)
      | Full \<Rightarrow> okE ())) (\<lambda>r c'. svlan_inv h c' \<and> r = Ok ()) c"
proof -
  have ok: "sv_ok c" and len: "length (sw_sUsage c) = 64" "length (sw_sVid c) = 64"
    using assms(2) by (simp_all add: svlan_inv_def sv_ok_def)
  have inv: "svlan_inv h (put_svmbr (of_nat i) (sv4k_entry svid cfg) (sv_upd i True (ucast svid) c))" if "i < 64" for i
    using assms(2) sv_ok_put [OF ok that sv4k_entry_ok [OF assms(3)]] svmbr_t.db_ok_put_row [of "of_nat i"]
    by (simp add: svlan_inv_def idx64 that)
  have same: "sv_upd i True (ucast svid) c = c" if "sv_used svid c i" for i
    using that by (intro sv_upd_same) (auto simp: sv_used_def)
  show ?thesis
    using assms(1,2) inv same len
    by (auto intro!: wp_bindE wp_svdb_search [OF ok] wp_okE wp_setSvMbr wp_thenE wp_svdb_set simp: sv_store_def idx64 split: svslot.split
        dest!: sv_slotD) (metis idx64(1))
qed

lemma safe_sv_set_4k:
  assumes "svid \<le> 0xFFF"
  shows "safe (svlan_up view A h) (sv_set_4k svid cfg) (\<lambda>_. True)"
proof (rule safe_wp)
  fix c assume A: "cfg_regs \<subseteq> A" and c: "svlan_inv h c"
  let ?c1 = "read_command_state TB_TARGET_CVLAN (ucast (ucast svid :: u16)) c"
  let ?cfg = "cfg_of_4k h (hw_4k (ucast svid) c)\<lparr>cfg_mbr := sc_memberport cfg, cfg_untag := sc_untagport cfg\<rparr>"
  have inv1: "svlan_inv h ?c1" and R: "sw_ready c h" "sw_ready ?c1 h" "db_ok ?c1"
    using c sv_frame_ok [OF sv_frame_read [of c]] by (auto simp: svlan_inv_def)
  have set: "wp view A (rtk_vlan_set svid (Some ?cfg)) (\<lambda>r c'. svlan_inv h c' \<and> r \<noteq> Fault) ?c1"
  proof (cases "vlan_cfg_error h svid (Some ?cfg)")
    case None
    then have "cfg_ok h ?cfg" by (simp add: vlan_cfg_error_None)
    moreover have "svlan_inv h (vlan_set_state h svid ?cfg ?c1)"
      using inv1 vlan_set_state_facts(1,2) [OF R(2,3) assms \<open>cfg_ok h ?cfg\<close>] sv_frame_ok [OF sv_frame_vlan_set, of h svid ?cfg ?c1] by (simp add: svlan_inv_def)
    ultimately show ?thesis by (intro wp_vlan_set [OF R(2,3) A assms]) auto
  next
    case (Some e)
    then show ?thesis using inv1 by (intro wp_refused [OF R(2) vlan_set_refused]) auto
  qed
  show "wp view A (sv_set_4k svid cfg) (\<lambda>r c'. svlan_inv h c' \<and> r \<noteq> Fault \<and> (\<forall>x. r = Ok x \<longrightarrow> True)) c"
    unfolding sv_set_4k_def
    by (intro wp_bindE wp_vlan_get [OF R(1) assms])
       (auto intro!: wp_thenE wp_weaken [OF set] wp_weaken [OF wp_sv4k_store [OF A _ assms]] split: outcome.split)
qed

section \<open>Initialisation\<close>

text \<open>The first \<open>K\<close> member configurations are cleared.\<close>

definition sv_cleared :: "rtk_switch_halCtrl_t \<Rightarrow> nat set \<Rightarrow> swt \<Rightarrow> bool" where
  "sv_cleared h K c \<longleftrightarrow> sw_ready c h \<and> db_ok c \<and> length (sw_sUsage c) = 64 \<and> length (sw_sVid c) = 64 \<and>
     (\<forall>i<64. i \<in> K \<longrightarrow> hw_svmbr (of_nat i) c = memconf0)"

lemma sv_cleared_put_word:
  assumes "plain_reg a" and "sv_cleared h K c"
  shows "sv_cleared h K (put_word a v c)"
proof -
  have "hw_svmbr (of_nat i) (put_word a v c) = hw_svmbr (of_nat i) c" if "i < 64" for i
    by (rule row_put_word) (use plain_not_cell [OF assms(1) that] in auto)
  then show ?thesis
    using assms by (simp add: sv_cleared_def db_ok_put_word plain_reg_def) (simp add: put_word_def)
qed

lemma put_gfld_word: "\<exists>x. put_gfld a k w v c = put_word a x c"
proof -
  have "put_gfld a k w v c = put_word a (ucast (put_field (field_mask k w) v (sw_reg c a))) c"
    by (simp add: put_gfld_def put_reg_field_def put_word_def)
  then show ?thesis by blast
qed

lemma sv_cleared_put_gfld: "plain_reg a \<Longrightarrow> sv_cleared h K c \<Longrightarrow> sv_cleared h K (put_gfld a k w v c)"
  using put_gfld_word [of a k w v c] sv_cleared_put_word by metis

lemma wp_clear_rows:
  fixes view :: "'d \<Rightarrow> chip_view"
  assumes A: "cfg_regs \<subseteq> A" and "\<And>i p. i < n \<Longrightarrow> p < w \<Longrightarrow> plain_reg (cell (of_nat i) p)" and "\<And>p. p < w \<Longrightarrow> ws ! p = 0"
    and "sv_cleared h K c" and "\<And>c. sv_cleared h K c \<Longrightarrow> Q (Ok ()) c"
    and f: "\<And>i. i < n \<Longrightarrow> f i = (write_row cell w (of_nat i) ws :: ('d gsw, unit) drv)"
  shows "wp view A (forE [0..<n] f) Q c"
proof (rule wp_forE_inv [where I = "\<lambda>_. sv_cleared h K"])
  fix pre i post and c :: swt
  assume split: "[0..<n] = pre @ i # post" and c: "sv_cleared h K c"
  have i: "i < n" using arg_cong [OF split, of set] by auto
  have "wp view A (write_row cell w (of_nat i) ws :: ('d gsw, unit) drv) (\<lambda>r c'. r = Ok () \<and> sv_cleared h K c') c"
    unfolding write_row_def
  proof (rule wp_forE_inv [where I = "\<lambda>_. sv_cleared h K"])
    fix pre p post and c :: swt
    assume split: "[0..<w] = pre @ p # post" and c: "sv_cleared h K c"
    have p: "p < w" using arg_cong [OF split, of set] by auto
    show "wp view A (rtl8367c_setAsicReg (cell (of_nat i) p) (ucast (ws ! p))) (\<lambda>r c'. r = Ok () \<and> sv_cleared h K c') c"
      using A assms(2) [OF i p] sv_cleared_put_word [OF assms(2) [OF i p] c] by (auto intro!: wp_set_word plain_cfg)
  qed (use c in auto)
  then show "wp view A (f i) (\<lambda>r c'. r = Ok () \<and> sv_cleared h K c') c" by (simp add: f [OF i])
qed (use assms in auto)

lemma sv_codes_zero:
  "svlanConfStUser2Smi memconf0 = replicate 4 0" "svlanMc2sStUser2Smi mc2s0 = replicate 5 0" "svlanSp2cStUser2Smi s2c0 = replicate 2 0"
  by code_simp+

lemma wp_clear_members:
  assumes "cfg_regs \<subseteq> A" and "sv_cleared h {} c" and "\<And>c. sv_cleared h {..<64} c \<Longrightarrow> Q (Ok ()) c"
  shows "wp view A (forE [0..<64] (\<lambda>i. rtl8367c_setAsicSvlanMemberConfiguration (of_nat i) memconf0)) Q c"
proof (rule wp_forE_inv [where I = "sv_cleared h"])
  fix pre i post and c :: swt
  assume split: "[0..<64] = pre @ i # post" and c: "sv_cleared h (set pre) c"
  have i: "i < 64" using arg_cong [OF split, of set] by auto
  have "hw_svmbr (of_nat j) (put_svmbr (of_nat i) memconf0 c) = (if j = i then memconf0 else hw_svmbr (of_nat j) c)" if "j < 64" for j
    using that i svmbr_t.row_put [of "of_nat i" "of_nat j"] by (simp add: idx64 idx64_eq)
  then have "sv_cleared h (insert i (set pre)) (put_svmbr (of_nat i) memconf0 c)"
    using c i svmbr_t.db_ok_put_row [of "of_nat i"] by (auto simp: sv_cleared_def idx64)
  with i assms(1) show "wp view A (rtl8367c_setAsicSvlanMemberConfiguration (of_nat i) memconf0) (\<lambda>r c'. r = Ok () \<and> sv_cleared h (insert i (set pre)) c') c"
    by (intro wp_setSvMbr) (auto simp: idx64)
qed (use assms in \<open>auto simp: atLeast0LessThan\<close>)

lemma wp_clear_usage:
  assumes "sv_cleared h {..<64} c" and "\<And>c. svlan_inv h c \<Longrightarrow> Q (Ok ()) c"
  shows "wp view A (forE [0..<64] svdb_clear) Q c"
proof (rule wp_forE_inv [where I = "\<lambda>K c. sv_cleared h {..<64} c \<and> (\<forall>i<64. i \<in> K \<longrightarrow> \<not> sw_sUsage c ! i)"])
  fix pre i post and c :: swt
  assume split: "[0..<64] = pre @ i # post" and c: "sv_cleared h {..<64} c \<and> (\<forall>i<64. i \<in> set pre \<longrightarrow> \<not> sw_sUsage c ! i)"
  have i: "i < 64" using arg_cong [OF split, of set] by auto
  let ?c = "c\<lparr>sw_sUsage := (sw_sUsage c)[i := False]\<rparr>"
  have db: "db_ok ?c = db_ok c" by (rule db_ok_regs) simp_all
  have "row cell w dec j ?c = row cell w dec j c" for cell w j and dec :: "u16 list \<Rightarrow> rtl8367c_svlan_memconf_t" by (rule row_regs) simp
  with c db i have inv: "sv_cleared h {..<64} ?c \<and> (\<forall>j<64. j \<in> insert i (set pre) \<longrightarrow> \<not> sw_sUsage ?c ! j)"
    by (auto simp: sv_cleared_def nth_list_update)
  have rel: "swt_rel view A (snd (svdb_clear i s)) ?c \<and> fst (svdb_clear i s) = Ok ()" if "swt_rel view A s c" for s
    using that c i by (auto simp: svdb_clear_def swt_rel_def sv_cleared_def)
  show "wp view A (svdb_clear i) (\<lambda>r c'. r = Ok () \<and> sv_cleared h {..<64} c' \<and> (\<forall>j<64. j \<in> insert i (set pre) \<longrightarrow> \<not> sw_sUsage c' ! j)) c"
    unfolding wp_def using rel inv by blast
next
  fix c assume "sv_cleared h {..<64} c \<and> (\<forall>i<64. i \<in> set [0..<64] \<longrightarrow> \<not> sw_sUsage c ! i)"
  then have "svlan_inv h c" by (auto simp: svlan_inv_def sv_cleared_def sv_ok_def sv_entry_ok_def)
  then show "Q (Ok ()) c" by (rule assms(2))
qed (use assms in auto)

lemma wp_svlan_init:
  assumes "cfg_regs \<subseteq> A" and "sw_ready c h" and "db_ok c" and "length (sw_sUsage c) = 64" and "length (sw_sVid c) = 64"
  shows "wp view A rtk_svlan_init (\<lambda>r c'. r = Ok () \<and> svlan_inv h c') c"
proof -
  note A = assms(1)
  have c0: "sv_cleared h {} c" using assms by (simp add: sv_cleared_def)
  have look: "sv_cleared h K (c\<lparr>sw_sLookup := t\<rparr>) = sv_cleared h K c" for c K t
    by (simp add: sv_cleared_def db_ok_regs [of "c\<lparr>sw_sLookup := t\<rparr>" c] row_regs [of "c\<lparr>sw_sLookup := t\<rparr>" c])
  have tables: "wp view A (forE [0..<128] (\<lambda>i. rtl8367c_setAsicSvlanC2SConf (of_nat i) 0 0 0)) Q c"
    "wp view A (forE [0..<128] (\<lambda>i. rtl8367c_setAsicSvlanSP2CConf (of_nat i) s2c0)) Q c"
    "wp view A (forE [0..<32] (\<lambda>i. rtl8367c_setAsicSvlanMC2SConf (of_nat i) mc2s0)) Q c"
    if "sv_cleared h {..<64} c" and "\<And>c. sv_cleared h {..<64} c \<Longrightarrow> Q (Ok ()) c" for c Q
  proof -
    have z: "replicate 3 (0 :: u16) ! p = 0" if "p < 3" for p using that by simp
    show "wp view A (forE [0..<128] (\<lambda>i. rtl8367c_setAsicSvlanC2SConf (of_nat i) 0 0 0)) Q c"
      by (rule wp_clear_rows [where cell = c2s_cell and w = 3 and ws = "replicate 3 0" and h = h and K = "{..<64}", OF A _ z])
         (use that in \<open>auto simp: idx64 plain_tables rtl8367c_setAsicSvlanC2SConf_def leD write_row_def numeral_eq_Suc thenE_def okE_def\<close>)
    show "wp view A (forE [0..<128] (\<lambda>i. rtl8367c_setAsicSvlanSP2CConf (of_nat i) s2c0)) Q c"
      by (rule wp_clear_rows [where cell = sp2c_cell and w = 2 and ws = "replicate 2 0" and h = h and K = "{..<64}", OF A])
         (use that in \<open>auto simp: idx64 plain_tables set_sp2c_row leD sv_codes_zero\<close>)
    show "wp view A (forE [0..<32] (\<lambda>i. rtl8367c_setAsicSvlanMC2SConf (of_nat i) mc2s0)) Q c"
      by (rule wp_clear_rows [where cell = mc2s_cell and w = 5 and ws = "replicate 5 0" and h = h and K = "{..<64}", OF A])
         (use that in \<open>auto simp: idx64 plain_tables set_mc2s_row leD sv_codes_zero\<close>)
  qed
  have look_set: "wp view A (rtk_svlan_lookupType_set 0) Q c"
    if "sv_cleared h {..<64} c" and "\<And>c. sv_cleared h {..<64} c \<Longrightarrow> Q (Ok ()) c" for c Q
  proof -
    have m: "wp view A (modifyE (\<lambda>s. s\<lparr>svlan_lookupType := 0\<rparr>)) R c" if "R (Ok ()) (c\<lparr>sw_sLookup := 0\<rparr>)" for R
      by (rule wp_modifyE [where c' = "c\<lparr>sw_sLookup := 0\<rparr>"]) (simp_all add: swt_rel_def that)
    have R: "sw_ready c h" using that by (simp add: sv_cleared_def)
    show ?thesis
      unfolding rtk_svlan_lookupType_set_def rtl8367c_setAsicSvlanLookupType_def check_that_def
      using that A by (auto intro!: wp_thenE wp_chk_init [OF R] wp_okE m wp_set_gbit that(2) sv_cleared_put_gfld plain_cfg simp: look)
  qed
  have m: "wp view A (rtl8367c_setAsicRegBits 0xE80 mk v) Q c"
    if "sv_cleared h {} c" "\<And>c. sv_cleared h {} c \<Longrightarrow> Q (Ok ()) c" "mk = field_mask k 2" "k + 2 \<le> 16" "v \<le> 1" for c Q mk v k
    using that A by (intro wp_set_gfld [OF that(3)]) (auto intro!: that(2) sv_cleared_put_gfld plain_cfg simp: word_le_nat_alt mask_eq_exp_minus_1)
  have w: "wp view A (rtl8367c_setAsicReg a v) Q c"
    if "sv_cleared h {} c" "\<And>c. sv_cleared h {} c \<Longrightarrow> Q (Ok ()) c" "plain_reg a" "v \<le> 0xFFFF" for c Q a v
    using that A by (intro wp_set_word) (auto intro!: that(2) sv_cleared_put_word plain_cfg)
  have n4: "\<not> (4 :: u32) \<le> 1" by code_simp
  show ?thesis
    unfolding rtk_svlan_init_def rtl8367c_setAsicSvlanPrioritySel_def rtl8367c_setAsicSvlanIngressUntag_def
      rtl8367c_setAsicSvlanIngressUnmatch_def rtl8367c_setAsicSvlanTpid_def rtl8367c_setAsicSvlanUplinkPortMask_def
    by (auto intro!: wp_thenE wp_chk_init [OF assms(2)] c0 m [OF _ _ sv_field_masks(1)] m [OF _ _ sv_field_masks(2)]
        m [OF _ _ sv_field_masks(3)] w wp_clear_members [OF A] tables look_set wp_clear_usage simp: n4)
qed

section \<open>Every call keeps the invariant\<close>

inductive svlan_api :: "('d gsw, unit) drv \<Rightarrow> bool" where
  init: "svlan_api rtk_svlan_init"
| servicePort_add: "svlan_api (rtk_svlan_servicePort_add p)"
| servicePort_get: "svlan_api (discardE (rtk_svlan_servicePort_get q))"
| servicePort_del: "svlan_api (rtk_svlan_servicePort_del p)"
| tpidEntry_set: "svlan_api (rtk_svlan_tpidEntry_set v)"
| tpidEntry_get: "svlan_api (discardE (rtk_svlan_tpidEntry_get q))"
| priorityRef_set: "svlan_api (rtk_svlan_priorityRef_set v)"
| priorityRef_get: "svlan_api (discardE (rtk_svlan_priorityRef_get q))"
| memberPortEntry_set: "svlan_api (rtk_svlan_memberPortEntry_set svid cfg)"
| memberPortEntry_get: "svlan_api (discardE (rtk_svlan_memberPortEntry_get svid q))"
| memberPortEntry_adv_set: "svlan_api (rtk_svlan_memberPortEntry_adv_set i cfg)"
| memberPortEntry_adv_get: "svlan_api (discardE (rtk_svlan_memberPortEntry_adv_get i q))"
| checkAndCreateMbr: "svlan_api (discardE (rtk_svlan_checkAndCreateMbr svid q))"
| defaultSvlan_set: "svlan_api (rtk_svlan_defaultSvlan_set p svid)"
| defaultSvlan_get: "svlan_api (discardE (rtk_svlan_defaultSvlan_get p q))"
| untag_action_set: "svlan_api (rtk_svlan_untag_action_set v svid)"
| untag_action_get: "svlan_api (discardE (rtk_svlan_untag_action_get q1 q2))"
| unmatch_action_set: "svlan_api (rtk_svlan_unmatch_action_set v svid)"
| unmatch_action_get: "svlan_api (discardE (rtk_svlan_unmatch_action_get q1 q2))"
| unassign_action_set: "svlan_api (rtk_svlan_unassign_action_set v)"
| unassign_action_get: "svlan_api (discardE (rtk_svlan_unassign_action_get q))"
| dmac_vidsel_set: "svlan_api (rtk_svlan_dmac_vidsel_set p v)"
| dmac_vidsel_get: "svlan_api (discardE (rtk_svlan_dmac_vidsel_get p q))"
| c2s_add: "svlan_api (rtk_svlan_c2s_add vid p svid)"
| c2s_del: "svlan_api (rtk_svlan_c2s_del vid p)"
| c2s_get: "svlan_api (discardE (rtk_svlan_c2s_get vid p q))"
| ipmc2s_add: "svlan_api (rtk_svlan_ipmc2s_add ip msk svid)"
| ipmc2s_del: "svlan_api (rtk_svlan_ipmc2s_del ip msk)"
| ipmc2s_get: "svlan_api (discardE (rtk_svlan_ipmc2s_get ip msk q))"
| l2mc2s_add: "svlan_api (rtk_svlan_l2mc2s_add mac mmsk svid)"
| l2mc2s_del: "svlan_api (rtk_svlan_l2mc2s_del mac mmsk)"
| l2mc2s_get: "svlan_api (discardE (rtk_svlan_l2mc2s_get mac mmsk q))"
| sp2c_add: "svlan_api (rtk_svlan_sp2c_add svid p cvid)"
| sp2c_get: "svlan_api (discardE (rtk_svlan_sp2c_get svid p q))"
| sp2c_del: "svlan_api (rtk_svlan_sp2c_del svid p)"
| lookupType_set: "svlan_api (rtk_svlan_lookupType_set v)"
| lookupType_get: "svlan_api (discardE (rtk_svlan_lookupType_get q))"
| trapPri_set: "svlan_api (rtk_svlan_trapPri_set v)"
| trapPri_get: "svlan_api (discardE (rtk_svlan_trapPri_get q))"

inductive svlan_reach :: "'d gsw \<Rightarrow> 'd gsw \<Rightarrow> bool" for s where
  start: "svlan_reach s s"
| call: "svlan_reach s t \<Longrightarrow> svlan_api m \<Longrightarrow> m t = (r, u) \<Longrightarrow> svlan_reach s u"

lemma safe_svlan_init: "safe (svlan_up view A h) rtk_svlan_init (\<lambda>_. True)"
  by (rule safe_wp) (auto simp: svlan_inv_def sv_ok_def intro!: wp_weaken [OF wp_svlan_init])

lemma svlan_inv_lookup: "svlan_inv h (c\<lparr>sw_sLookup := t\<rparr>) = svlan_inv h c"
  by (simp add: svlan_inv_def db_ok_regs [of "c\<lparr>sw_sLookup := t\<rparr>" c] sv_ok_def row_regs [of "c\<lparr>sw_sLookup := t\<rparr>" c])

lemma safe_set_lookup [sv_safe]: "safe (svlan_up view A h) (modifyE (\<lambda>s. s\<lparr>svlan_lookupType := t\<rparr>)) (\<lambda>_. True)"
proof (rule safe_wp)
  fix c assume "svlan_inv h c"
  then show "wp view A (modifyE (\<lambda>s. s\<lparr>svlan_lookupType := t\<rparr>)) (\<lambda>r c'. svlan_inv h c' \<and> r \<noteq> Fault \<and> (\<forall>x. r = Ok x \<longrightarrow> True)) c"
    by (intro wp_modifyE [where c' = "c\<lparr>sw_sLookup := t\<rparr>"]) (simp_all add: swt_rel_def svlan_inv_lookup)
qed

lemma safe_lookup_type: "safe (svlan_up view A h) (getsE svlan_lookupType) (\<lambda>_. True)"
  by (simp add: safe_getsE)

text \<open>A check restricts what follows.\<close>

lemma safe_check_then:
  assumes "b \<Longrightarrow> safe P k Q"
  shows "safe P (thenE (check_that b e) k) Q"
  using assms by (cases b) (auto simp: check_that_def safe_errE thenE_def)

lemma safe_foldE_any:
  assumes "\<And>i acc. i \<in> set is \<Longrightarrow> safe P (f i acc) (\<lambda>_. True)"
  shows "safe P (foldE f is acc) (\<lambda>_. True)"
  by (rule safe_foldE) (use assms in auto)

lemma safe_c2s_add_step [sv_safe]: "safe (svlan_up view A h) (c2s_add_step vid phy svidx i st) (\<lambda>_. True)"
  unfolding c2s_add_step_def Let_def by (auto intro!: safe_bindT sv_safe split: prod.split)

lemma safe_mc2s_add_step [sv_safe]: "safe (svlan_up view A h) (mc2s_add_step fmt d k svidx i st) (\<lambda>_. True)"
  unfolding mc2s_add_step_def by (auto intro!: safe_bindT sv_safe)

lemma safe_mc2s [sv_safe]:
  "safe (svlan_up view A h) (mc2s_add fmt d k svid) (\<lambda>_. True)" "safe (svlan_up view A h) (mc2s_del fmt d k) (\<lambda>_. True)"
  "safe (svlan_up view A h) (mc2s_get fmt d k) (\<lambda>_. True)"
  unfolding mc2s_add_def mc2s_del_def mc2s_get_def
  by (auto intro!: sv_safe safe_bindT safe_foldE_any split: option.split)

lemma safe_sp2c_slot [sv_safe]: "safe (svlan_up view A h) (sp2c_slot svidx port is e) (\<lambda>_. True)"
  by (induction "is" arbitrary: e) (auto intro!: safe_bindT sv_safe)

lemma safe_svcfg_check [sv_safe]: "safe (svlan_up view A h) (svcfg_check cfg) (\<lambda>_. True)"
  unfolding svcfg_check_def by (intro sv_safe)

lemma safe_members:
  "safe (svlan_up view A h) (rtk_svlan_memberPortEntry_set svid cfg) (\<lambda>_. True)"
  "safe (svlan_up view A h) (rtk_svlan_memberPortEntry_get svid q) (\<lambda>_. True)"
  "safe (svlan_up view A h) (rtk_svlan_memberPortEntry_adv_set idx cfg) (\<lambda>_. True)"
  "safe (svlan_up view A h) (rtk_svlan_memberPortEntry_adv_get idx q) (\<lambda>_. True)"
  "safe (svlan_up view A h) (rtk_svlan_checkAndCreateMbr svid q) (\<lambda>_. True)"
proof -
  show "safe (svlan_up view A h) (rtk_svlan_memberPortEntry_set svid cfg) (\<lambda>_. True)"
    unfolding rtk_svlan_memberPortEntry_set_def
    by (auto intro!: safe_check_then sv_safe safe_bindT safe_lookup_type safe_sv_set_4k simp: not_less split: option.split)
  show "safe (svlan_up view A h) (rtk_svlan_memberPortEntry_get svid q) (\<lambda>_. True)"
    "safe (svlan_up view A h) (rtk_svlan_memberPortEntry_adv_get idx q) (\<lambda>_. True)"
    unfolding rtk_svlan_memberPortEntry_get_def rtk_svlan_memberPortEntry_adv_get_def
    by (auto intro!: sv_safe safe_bindT split: option.split)
  have i: "unat idx < 64" if "\<not> 63 < idx" using that by (simp add: not_less word_le_nat_alt)
  have blank: "vs_svid m = 0 \<and> sv_blank m \<longleftrightarrow> m = memconf0" for m
    by (cases m) (auto simp: sv_blank_def memconf0_def)
  show "safe (svlan_up view A h) (rtk_svlan_memberPortEntry_adv_set idx cfg) (\<lambda>_. True)"
    unfolding rtk_svlan_memberPortEntry_adv_set_def blank
    by (auto intro!: safe_check_then safe_bindT [OF safe_no_fault [OF safe_sv_entry]] sv_safe i split: option.split)
  have u: "(ucast svid :: u16) = ucast (ucast svid :: 12 word)" if "\<not> 0xFFF < svid"
    using that unfolding not_less le_mask_iff_bits [of svid 12, simplified mask_eq_exp_minus_1, simplified]
    by (intro bit_word_eqI) (auto simp: bit_simps not_le [symmetric])
  have z: "svid \<noteq> 0 \<Longrightarrow> \<not> 0xFFF < svid \<Longrightarrow> (ucast svid :: 12 word) \<noteq> 0"
    unfolding not_less le_mask_iff_bits [of svid 12, simplified mask_eq_exp_minus_1, simplified]
    by (auto simp: bit_eq_iff bit_simps not_le [symmetric])
  have ok: "sv_entry_ok True 0 (memconf0\<lparr>vs_svid := 0, vs_efid := 1\<rparr>)" by code_simp
  have ok': "sv_entry_ok True (ucast svid) (memconf0\<lparr>vs_svid := ucast svid, vs_efid := 0\<rparr>)" if "svid \<noteq> 0" "\<not> 0xFFF < svid"
    using u [OF that(2)] z [OF that] by (auto simp: sv_entry_ok_def memconf0_def)
  show "safe (svlan_up view A h) (rtk_svlan_checkAndCreateMbr svid q) (\<lambda>_. True)"
    unfolding rtk_svlan_checkAndCreateMbr_def
    by (auto intro!: safe_check_then safe_svdb_search_bind sv_safe ok ok')
qed

lemmas sv_simple_defs = rtk_svlan_servicePort_add_def rtk_svlan_servicePort_get_def rtk_svlan_servicePort_del_def
  rtk_svlan_tpidEntry_set_def rtk_svlan_tpidEntry_get_def rtk_svlan_priorityRef_set_def rtk_svlan_priorityRef_get_def
  rtk_svlan_unassign_action_set_def rtk_svlan_unassign_action_get_def rtk_svlan_dmac_vidsel_set_def rtk_svlan_dmac_vidsel_get_def
  rtk_svlan_trapPri_set_def rtk_svlan_trapPri_get_def rtk_svlan_lookupType_set_def rtk_svlan_lookupType_get_def

lemma safe_sv_simple:
  "safe (svlan_up view A h) (rtk_svlan_servicePort_add p) (\<lambda>_. True)" "safe (svlan_up view A h) (rtk_svlan_servicePort_get q) (\<lambda>_. True)"
  "safe (svlan_up view A h) (rtk_svlan_servicePort_del p) (\<lambda>_. True)" "safe (svlan_up view A h) (rtk_svlan_tpidEntry_set v) (\<lambda>_. True)"
  "safe (svlan_up view A h) (rtk_svlan_tpidEntry_get q) (\<lambda>_. True)" "safe (svlan_up view A h) (rtk_svlan_priorityRef_set v) (\<lambda>_. True)"
  "safe (svlan_up view A h) (rtk_svlan_priorityRef_get q) (\<lambda>_. True)" "safe (svlan_up view A h) (rtk_svlan_unassign_action_set v) (\<lambda>_. True)"
  "safe (svlan_up view A h) (rtk_svlan_unassign_action_get q) (\<lambda>_. True)" "safe (svlan_up view A h) (rtk_svlan_dmac_vidsel_set p v) (\<lambda>_. True)"
  "safe (svlan_up view A h) (rtk_svlan_dmac_vidsel_get p q) (\<lambda>_. True)" "safe (svlan_up view A h) (rtk_svlan_trapPri_set v) (\<lambda>_. True)"
  "safe (svlan_up view A h) (rtk_svlan_trapPri_get q) (\<lambda>_. True)" "safe (svlan_up view A h) (rtk_svlan_lookupType_set v) (\<lambda>_. True)"
  "safe (svlan_up view A h) (rtk_svlan_lookupType_get q) (\<lambda>_. True)"
  unfolding sv_simple_defs by (auto intro!: safe_valid_port safe_bindT safe_L2P sv_safe)

lemma safe_sv_default:
  "safe (svlan_up view A h) (rtk_svlan_defaultSvlan_set p svid) (\<lambda>_. True)" "safe (svlan_up view A h) (rtk_svlan_defaultSvlan_get p q) (\<lambda>_. True)"
  "safe (svlan_up view A h) (rtk_svlan_untag_action_set v svid) (\<lambda>_. True)" "safe (svlan_up view A h) (rtk_svlan_untag_action_get q1 q2) (\<lambda>_. True)"
  "safe (svlan_up view A h) (rtk_svlan_unmatch_action_set v svid) (\<lambda>_. True)" "safe (svlan_up view A h) (rtk_svlan_unmatch_action_get q1 q2) (\<lambda>_. True)"
  unfolding rtk_svlan_defaultSvlan_set_def rtk_svlan_defaultSvlan_get_def rtk_svlan_untag_action_set_def rtk_svlan_untag_action_get_def
    rtk_svlan_unmatch_action_set_def rtk_svlan_unmatch_action_get_def
  by (auto intro!: safe_valid_port safe_bindT safe_L2P sv_safe)

lemma safe_sv_tables_api:
  "safe (svlan_up view A h) (rtk_svlan_c2s_add vid p svid) (\<lambda>_. True)" "safe (svlan_up view A h) (rtk_svlan_c2s_del vid p) (\<lambda>_. True)"
  "safe (svlan_up view A h) (rtk_svlan_c2s_get vid p q) (\<lambda>_. True)" "safe (svlan_up view A h) (rtk_svlan_ipmc2s_add ip msk svid) (\<lambda>_. True)"
  "safe (svlan_up view A h) (rtk_svlan_ipmc2s_del ip msk) (\<lambda>_. True)" "safe (svlan_up view A h) (rtk_svlan_ipmc2s_get ip msk q) (\<lambda>_. True)"
  "safe (svlan_up view A h) (rtk_svlan_l2mc2s_add mac mmsk svid) (\<lambda>_. True)" "safe (svlan_up view A h) (rtk_svlan_l2mc2s_del mac mmsk) (\<lambda>_. True)"
  "safe (svlan_up view A h) (rtk_svlan_l2mc2s_get mac mmsk q) (\<lambda>_. True)" "safe (svlan_up view A h) (rtk_svlan_sp2c_add svid p cvid) (\<lambda>_. True)"
  "safe (svlan_up view A h) (rtk_svlan_sp2c_get svid p q) (\<lambda>_. True)" "safe (svlan_up view A h) (rtk_svlan_sp2c_del svid p) (\<lambda>_. True)"
  unfolding rtk_svlan_c2s_add_def rtk_svlan_c2s_del_def rtk_svlan_c2s_get_def rtk_svlan_ipmc2s_add_def rtk_svlan_ipmc2s_del_def
    rtk_svlan_ipmc2s_get_def rtk_svlan_l2mc2s_add_def rtk_svlan_l2mc2s_del_def rtk_svlan_l2mc2s_get_def rtk_svlan_sp2c_add_def
    rtk_svlan_sp2c_get_def rtk_svlan_sp2c_del_def Let_def
  by (auto intro!: safe_valid_port safe_foldE_any safe_bindT safe_L2P sv_safe
      split: option.split prod.split)

lemma safe_svlan_api:
  assumes "svlan_api m"
  shows "safe (svlan_up view A h) m (\<lambda>_. True)"
  using assms
  by (induction rule: svlan_api.induct)
     (intro safe_discardE safe_svlan_init safe_sv_simple safe_sv_default safe_sv_tables_api safe_members)+

lemma svlan_reach_up:
  assumes "svlan_reach s t" and "svlan_up view A h s"
  shows "svlan_up view A h t"
  using assms
proof (induction rule: svlan_reach.induct)
  case (call t m r u)
  then show ?case using safeD(1) [OF safe_svlan_api] by blast
qed

text \<open>
  C40. After \<open>rtk_svlan_init\<close> the bookkeeping of the service VLANs describes the chip: whatever calls
  of the API a client makes, with whatever arguments, at
  every point each of the 64 member-configuration entries is recorded as in use exactly if its
  registers are not all zero, and is then recorded for the service VLAN these registers hold; and no call
  ends in \<open>Fault\<close>: no null pointer, no index out of range in the tables and arrays and no shift by too much.
  The last is not freedom from undefined behaviour: initialisation and the calls that write the
  multicast and the S-VLAN to C-VLAN tables read one word past a local array and do not use it
  (\<open>Word_Loop\<close>); the model gives that read an unspecified value and no \<open>Fault\<close>.
\<close>

theorem svlan_invariant:
  assumes "driver_up view A h s" and "length (svlan_mbrCfgUsage s) = 64" and "length (svlan_mbrCfgVid s) = 64"
    and "rtk_svlan_init s = (r, s1)" and "svlan_reach s1 t" and "svlan_api m" and "i < 64"
  shows "r = Ok () \<and> fst (m t) \<noteq> Fault \<and>
     (let e = hw_svmbr (of_nat i) (swt_of view t)
      in if svlan_mbrCfgUsage t ! i then e \<noteq> memconf0 \<and> svlan_mbrCfgVid t ! i = ucast (vs_svid e) else e = memconf0)"
proof -
  note up = driver_upD [OF assms(1)]
  have "length (sw_sUsage (swt_of view s)) = 64" "length (sw_sVid (swt_of view s)) = 64" using assms(2,3) by (simp_all add: swt_of_def)
  from wp_svlan_init [OF up(2,3,4) this, of view] up(1) obtain c' where c': "swt_rel view A s1 c'" "r = Ok ()" "svlan_inv h c'"
    by (rule wpD) (use assms(4) in auto)
  then have t: "svlan_up view A h t" using svlan_reach_up [OF assms(5)] svlan_upI [OF c'(1) up(2) c'(3)] by blast
  then have "sv_ok (swt_of view t)" by (simp add: svlan_up_def)
  then have "sv_entry_ok (svlan_mbrCfgUsage t ! i) (svlan_mbrCfgVid t ! i) (hw_svmbr (of_nat i) (swt_of view t))"
    using assms(7) by (simp add: sv_ok_def) (simp add: swt_of_def)
  with c'(2) safeD_no_fault [OF safe_svlan_api [OF assms(6)] t] show ?thesis by (simp add: sv_entry_ok_def Let_def)
qed

theorem svlan_invariant_witness:
  "\<exists>s1. rtk_svlan_init (sim_gsw 1 (Some rtl8367c_hal_Ctrl)) = (Ok (), s1) \<and>
     fst (rtk_svlan_c2s_add 7 2 5 s1) \<noteq> Fault \<and> (\<not> svlan_mbrCfgUsage s1 ! 3 \<longrightarrow> hw_svmbr 3 (swt_of sim_view s1) = memconf0)"
proof -
  obtain r s1 where run: "rtk_svlan_init (sim_gsw 1 (Some rtl8367c_hal_Ctrl)) = (r, s1)" by (cases "rtk_svlan_init (sim_gsw 1 (Some rtl8367c_hal_Ctrl))")
  have len: "length (svlan_mbrCfgUsage (sim_gsw 1 (Some rtl8367c_hal_Ctrl))) = 64" "length (svlan_mbrCfgVid (sim_gsw 1 (Some rtl8367c_hal_Ctrl))) = 64"
    by simp_all
  from svlan_invariant [OF sim_driver_up [OF hal_tables_wf(1)] len run svlan_reach.start svlan_api.c2s_add [of 7 2 5], of 3] run
  show ?thesis by (auto simp: Let_def split: if_splits)
qed

end
