(* ===== verification/Svlan_Maps.thy ===== *)
theory Svlan_Maps
  imports Svlan_Spec
begin

text \<open>
  The translation tables of the service VLANs as finite maps: what the search loops of the API compute
  on the contents of the tables, and what a caller observes.
\<close>

section \<open>The state the tables live in\<close>

text \<open>The invariant together with the contents of the member configurations.\<close>

definition svx :: "rtk_switch_halCtrl_t \<Rightarrow> (nat \<Rightarrow> rtl8367c_svlan_memconf_t) \<Rightarrow> swt \<Rightarrow> bool" where
  "svx h M c \<longleftrightarrow> svlan_inv h c \<and> (\<forall>i<64. hw_svmbr (of_nat i) c = M i)"

abbreviation c2s_tab :: "swt \<Rightarrow> nat \<Rightarrow> c2s" where "c2s_tab c i \<equiv> hw_c2s (of_nat i) c"
abbreviation mc2s_tab :: "swt \<Rightarrow> nat \<Rightarrow> rtl8367c_svlan_mc2s_t" where "mc2s_tab c i \<equiv> hw_mc2s (of_nat i) c"
abbreviation sp2c_tab :: "swt \<Rightarrow> nat \<Rightarrow> rtl8367c_svlan_s2c_t" where "sp2c_tab c i \<equiv> hw_sp2c (of_nat i) c"

lemma cells_apart:
  "j < 64 \<Longrightarrow> q < 4 \<Longrightarrow> i \<le> 127 \<Longrightarrow> p < 3 \<Longrightarrow> svmbr_cell (of_nat j) q \<noteq> c2s_cell i p"
  "j < 64 \<Longrightarrow> q < 4 \<Longrightarrow> i' \<le> 31 \<Longrightarrow> p < 5 \<Longrightarrow> svmbr_cell (of_nat j) q \<noteq> mc2s_cell i' p"
  "j < 64 \<Longrightarrow> q < 4 \<Longrightarrow> i \<le> 127 \<Longrightarrow> p < 2 \<Longrightarrow> svmbr_cell (of_nat j) q \<noteq> sp2c_cell i p"
  using svlan_blocks(1) [of "of_nat j" q] svlan_blocks(2) [of i p] svlan_blocks(3) [of i' p] svlan_blocks(4) [of i p]
  by (auto simp: idx64)

lemma svlan_inv_put_row:
  assumes "\<And>p. p < w \<Longrightarrow> plain_reg (cell i p)" and "svlan_inv h c"
  shows "svlan_inv h (put_row cell w enc i e c)"
proof -
  have "svlan_inv h (fold (\<lambda>p c. put_word (cell i p) (ucast (enc e ! p)) c) ps c)" if "set ps \<subseteq> {..<w}" "svlan_inv h c" for ps c
    using that by (induction ps arbitrary: c) (auto simp: svlan_inv_put_word assms(1))
  from this [OF upt_below assms(2)] show ?thesis by (simp add: put_row_put_word)
qed

lemma svx_put:
  "svx h M c \<Longrightarrow> i < 128 \<Longrightarrow> svx h M (put_c2s (of_nat i) e c)"
  "svx h M c \<Longrightarrow> i' < 32 \<Longrightarrow> svx h M (put_mc2s (of_nat i') e2 c)"
  "svx h M c \<Longrightarrow> i < 128 \<Longrightarrow> svx h M (put_sp2c (of_nat i) e3 c)"
  by (auto simp: svx_def row_put_apart cells_apart idx64 intro!: svlan_inv_put_row plain_tables)

text \<open>The first entry of a service VLAN.\<close>

definition svid_index :: "(nat \<Rightarrow> rtl8367c_svlan_memconf_t) \<Rightarrow> u32 \<Rightarrow> nat option" where
  "svid_index M svid = List.find (\<lambda>i. svid = ucast (vs_svid (M i))) [0..<64]"

lemma wp_svidx_of:
  assumes "cfg_regs \<subseteq> A" and "svx h M c" and "Q (case svid_index M svid of None \<Rightarrow> Err e | Some i \<Rightarrow> Ok i) c"
  shows "wp view A (svidx_of svid e) Q c"
proof -
  have find: "List.find (\<lambda>i. svid = ucast (vs_svid (hw_svmbr (of_nat i) c))) [0..<64] = svid_index M svid"
    unfolding svid_index_def by (rule find_cong) (use assms(2) in \<open>auto simp: svx_def\<close>)
  show ?thesis
    unfolding svidx_of_def
    using assms(1,3)
    by (intro wp_bindE wp_searchE [where T = "\<lambda>i. hw_svmbr (of_nat i) c"] wp_getSvMbr)
       (auto simp: idx64 find split: option.splits intro!: wp_errE wp_okE)
qed

lemma svid_indexD: "svid_index M svid = Some i \<Longrightarrow> i < 64 \<and> svid = ucast (vs_svid (M i))"
  by (auto simp: svid_index_def find_Some_iff)

section \<open>C-VLAN to service VLAN\<close>

definition c2s_new :: "u32 \<Rightarrow> u32 \<Rightarrow> u32 \<Rightarrow> bool \<Rightarrow> c2s \<Rightarrow> c2s \<times> bool" where
  "c2s_new vid b sv d e = (case e of (evid, pm, sx) \<Rightarrow>
     if evid = vid
     then (if pm AND b \<noteq> 0
           then (if sx = sv then (e, d) else ((vid, pm AND NOT b, if pm AND NOT b = 0 then 0 else sx), d))
           else (if sx = sv \<and> \<not> d then ((vid, pm OR b, sv), True) else (e, d)))
     else (e, d))"

definition c2s_empty :: "u32 \<Rightarrow> c2s \<Rightarrow> bool" where
  "c2s_empty vid e = (case e of (evid, pm, sx) \<Rightarrow> evid \<noteq> vid \<and> evid = 0 \<and> pm = 0)"

primrec c2s_scan :: "u32 \<Rightarrow> u32 \<Rightarrow> u32 \<Rightarrow> nat list \<Rightarrow> (nat \<Rightarrow> c2s) \<Rightarrow> nat option \<Rightarrow> bool \<Rightarrow> (nat \<Rightarrow> c2s) \<times> nat option \<times> bool" where
  "c2s_scan vid b sv [] T e d = (T, e, d)"
| "c2s_scan vid b sv (i # is) T e d =
     c2s_scan vid b sv is (T(i := fst (c2s_new vid b sv d (T i)))) (if c2s_empty vid (T i) then Some i else e) (snd (c2s_new vid b sv d (T i)))"

lemma c2s_scan_other: "i \<notin> set is \<Longrightarrow> fst (c2s_scan vid b sv is T e d) i = T i"
  by (induction "is" arbitrary: T e d) auto

lemma c2s_scan_cong: "(\<And>i. i \<in> set is \<Longrightarrow> T i = T' i) \<Longrightarrow> distinct is \<Longrightarrow>
   snd (c2s_scan vid b sv is T e d) = snd (c2s_scan vid b sv is T' e d) \<and>
   (\<forall>i \<in> set is. fst (c2s_scan vid b sv is T e d) i = fst (c2s_scan vid b sv is T' e d) i)"
proof (induction "is" arbitrary: T T' e d)
  case (Cons i "is")
  then have same: "T i = T' i" by simp
  have "snd (c2s_scan vid b sv is (T(i := x)) f g) = snd (c2s_scan vid b sv is (T'(i := x)) f g) \<and>
      (\<forall>j \<in> set is. fst (c2s_scan vid b sv is (T(i := x)) f g) j = fst (c2s_scan vid b sv is (T'(i := x)) f g) j)" for x f g
    by (rule Cons.IH) (use Cons.prems in auto)
  with same Cons.prems(2) show ?case by (auto simp: c2s_scan_other)
qed simp

text \<open>The loop of the code on the table.\<close>

lemma c2s_tab_le: "c2s_tab c i = (evid, pm, sx) \<Longrightarrow> evid \<le> 0xFFFF \<and> pm \<le> 0xFFFF \<and> sx \<le> 0xFFFF"
  by (auto simp: row_def c2s_entry_def)

lemma and_le_FFFF: "(pm :: u32) \<le> 0xFFFF \<Longrightarrow> pm AND x \<le> 0xFFFF"
  by (auto simp: le_FFFF_iff_bits bit_simps)

lemma or_le_FFFF: "(pm :: u32) \<le> 0xFFFF \<Longrightarrow> x \<le> 0xFFFF \<Longrightarrow> pm OR x \<le> 0xFFFF"
  by (auto simp: le_FFFF_iff_bits bit_simps)

lemma c2s_tab_put: "i < 128 \<Longrightarrow> j < 128 \<Longrightarrow> evid \<le> 0xFFFF \<Longrightarrow> pm \<le> 0xFFFF \<Longrightarrow> sx \<le> 0xFFFF \<Longrightarrow>
   c2s_tab (put_c2s (of_nat i) (evid, pm, sx) c) j = (if j = i then (evid, pm, sx) else c2s_tab c j)"
  by (subst c2s_t.row_put) (auto simp: idx64 idx64_eq)

lemma wp_c2s_step:
  assumes A: "cfg_regs \<subseteq> A" and c: "svx h M c" and i: "i < 128"
    and vid: "vid \<le> 0xFFFF" and b: "b = push_bit (unat phy) 1" "b \<le> 0xFFFF" and sv: "sv \<le> 0xFFFF"
    and R: "\<And>c1. svx h M c1 \<Longrightarrow> (\<And>j. j < 128 \<Longrightarrow> c2s_tab c1 j = ((c2s_tab c)(i := fst (c2s_new vid b sv d (c2s_tab c i)))) j) \<Longrightarrow>
      R (Ok (if c2s_empty vid (c2s_tab c i) then Some i else e, snd (c2s_new vid b sv d (c2s_tab c i)))) c1"
  shows "wp view A (c2s_add_step vid phy sv i (e, d)) R c"
proof -
  obtain evid pm sx where T: "c2s_tab c i = (evid, pm, sx)" by (cases "c2s_tab c i")
  note le = c2s_tab_le [OF T]
  let ?new = "c2s_new vid b sv d (evid, pm, sx)" and ?e = "if c2s_empty vid (evid, pm, sx) then Some i else e"
  have put: "R (Ok (?e, snd ?new)) (put_c2s (of_nat i) (x, y, z) c)" if "fst ?new = (x, y, z)" "x \<le> 0xFFFF" "y \<le> 0xFFFF" "z \<le> 0xFFFF" for x y z
    using R [OF svx_put(1) [OF c i]] that i by (simp add: c2s_tab_put T)
  have same: "R (Ok (?e, snd ?new)) c" if "fst ?new = (evid, pm, sx)"
    using R [OF c] that by (simp add: T)
  have le': "pm AND NOT b \<le> 0xFFFF" "pm OR b \<le> 0xFFFF" using le b by (auto intro!: and_le_FFFF or_le_FFFF)
  consider (other) "evid \<noteq> vid" | (there) "evid = vid" "pm AND b \<noteq> 0" "sx = sv" | (moved) "evid = vid" "pm AND b \<noteq> 0" "sx \<noteq> sv"
    | (join) "evid = vid" "pm AND b = 0" "sx = sv" "\<not> d" | (skip) "evid = vid" "pm AND b = 0" "sx \<noteq> sv \<or> d" by blast
  then have "wp view A (if evid = vid
       then (if pm AND b \<noteq> 0
             then (if sx = sv then okE (e, d)
                   else thenE (rtl8367c_setAsicSvlanC2SConf (of_nat i) vid (pm AND NOT b) (if pm AND NOT b = 0 then 0 else sx)) (okE (e, d)))
             else (if sx = sv \<and> \<not> d
                   then thenE (rtl8367c_setAsicSvlanC2SConf (of_nat i) vid (pm OR b) sv) (okE (e, True)) else okE (e, d)))
       else if evid = 0 \<and> pm = 0 then okE (Some i, d) else okE (e, d)) R c"
  proof cases
    case other
    then show ?thesis using same by (auto intro!: wp_okE simp: c2s_new_def c2s_empty_def)
  next
    case there
    then show ?thesis using same by (auto intro!: wp_okE simp: c2s_new_def c2s_empty_def)
  next
    case moved
    then show ?thesis using put le le' vid A i by (auto intro!: wp_okE wp_thenE wp_setC2S simp: c2s_new_def c2s_empty_def idx64)
  next
    case join
    then show ?thesis using put le le' vid sv A i by (auto intro!: wp_okE wp_thenE wp_setC2S simp: c2s_new_def c2s_empty_def idx64)
  next
    case skip
    then show ?thesis using same by (auto intro!: wp_okE simp: c2s_new_def c2s_empty_def)
  qed
  then show ?thesis
    unfolding c2s_add_step_def prod.case Let_def b(1) [symmetric]
    using A i by (auto intro!: wp_bindE wp_getC2S simp: T idx64)
qed

lemma wp_c2s_loop:
  assumes A: "cfg_regs \<subseteq> A" and "svx h M c" and "set is \<subseteq> {..<128}" and "distinct is"
    and vid: "vid \<le> 0xFFFF" and b: "b = push_bit (unat phy) 1" "b \<le> 0xFFFF" and sv: "sv \<le> 0xFFFF"
    and Q: "\<And>c'. svx h M c' \<Longrightarrow> (\<And>i. i < 128 \<Longrightarrow> c2s_tab c' i = fst (c2s_scan vid b sv is (c2s_tab c) e d) i) \<Longrightarrow>
      Q (Ok (snd (c2s_scan vid b sv is (c2s_tab c) e d))) c'"
  shows "wp view A (foldE (c2s_add_step vid phy sv) is (e, d)) Q c"
  using assms(2-4) Q
proof (induction "is" arbitrary: c e d)
  case Nil
  then show ?case by (auto intro!: wp_okE)
next
  case (Cons i "is")
  from Cons.prems have i: "i < 128" "i \<notin> set is" "set is \<subseteq> {..<128}" "distinct is" by auto
  let ?new = "c2s_new vid b sv d (c2s_tab c i)" and ?e = "if c2s_empty vid (c2s_tab c i) then Some i else e"
  have step: "wp view A (foldE (c2s_add_step vid phy sv) is (?e, snd ?new)) Q c1"
    if c1: "svx h M c1" "\<And>j. j < 128 \<Longrightarrow> c2s_tab c1 j = ((c2s_tab c)(i := fst ?new)) j" for c1
  proof (rule Cons.IH [OF c1(1) i(3,4)])
    fix c' assume c': "svx h M c'" "\<And>j. j < 128 \<Longrightarrow> c2s_tab c' j = fst (c2s_scan vid b sv is (c2s_tab c1) ?e (snd ?new)) j"
    have cong: "snd (c2s_scan vid b sv is (c2s_tab c1) ?e (snd ?new)) = snd (c2s_scan vid b sv is ((c2s_tab c)(i := fst ?new)) ?e (snd ?new)) \<and>
        (\<forall>j \<in> set is. fst (c2s_scan vid b sv is (c2s_tab c1) ?e (snd ?new)) j = fst (c2s_scan vid b sv is ((c2s_tab c)(i := fst ?new)) ?e (snd ?new)) j)"
      by (rule c2s_scan_cong) (use i c1(2) in auto)
    have "Q (Ok (snd (c2s_scan vid b sv (i # is) (c2s_tab c) e d))) c'"
    proof (rule Cons.prems(4) [OF c'(1)])
      fix j :: nat assume j: "j < 128"
      show "c2s_tab c' j = fst (c2s_scan vid b sv (i # is) (c2s_tab c) e d) j"
        using c'(2) [OF j] cong c1(2) [OF j] by (cases "j \<in> set is") (auto simp: c2s_scan_other)
    qed
    with cong show "Q (Ok (snd (c2s_scan vid b sv is (c2s_tab c1) ?e (snd ?new)))) c'" by simp
  qed
  then show ?case
    by (auto intro!: wp_bindE wp_c2s_step [OF A Cons.prems(1) i(1) vid b sv])
qed


text \<open>What the table says of a VLAN and a port, by the first entry that maps them.\<close>

definition c2s_hits :: "u32 \<Rightarrow> u32 \<Rightarrow> c2s \<Rightarrow> bool" where
  "c2s_hits vid b e = (case e of (evid, pm, sx) \<Rightarrow> evid = vid \<and> pm AND b \<noteq> 0)"

definition c2s_at :: "(nat \<Rightarrow> c2s) \<Rightarrow> u32 \<Rightarrow> u32 \<Rightarrow> u32 option" where
  "c2s_at T vid b = map_option (\<lambda>i. snd (snd (T i))) (List.find (\<lambda>i. c2s_hits vid b (T i)) [0..<128])"

lemma c2s_at_cong:
  assumes "\<And>i. i < 128 \<Longrightarrow> c2s_hits vid b (T' i) = c2s_hits vid b (T i)"
    and "\<And>i. i < 128 \<Longrightarrow> c2s_hits vid b (T i) \<Longrightarrow> snd (snd (T' i)) = snd (snd (T i))"
  shows "c2s_at T' vid b = c2s_at T vid b"
proof -
  have "List.find (\<lambda>i. c2s_hits vid b (T' i)) [0..<128] = List.find (\<lambda>i. c2s_hits vid b (T i)) [0..<128]"
    by (rule find_cong) (use assms(1) in auto)
  then show ?thesis using assms(2) by (auto simp: c2s_at_def find_Some_iff option.map_sel split: option.splits intro!: map_option_cong)
qed

lemma c2s_at_some:
  assumes "i < 128" and "c2s_hits vid b (T i)" and "\<And>i. i < 128 \<Longrightarrow> c2s_hits vid b (T i) \<Longrightarrow> snd (snd (T i)) = sv"
  shows "c2s_at T vid b = Some sv"
proof -
  have "List.find (\<lambda>i. c2s_hits vid b (T i)) [0..<128] \<noteq> None" using assms(1,2) by (auto simp: find_None_iff)
  then obtain j where "List.find (\<lambda>i. c2s_hits vid b (T i)) [0..<128] = Some j" by blast
  then show ?thesis using assms(3) [of j] by (auto simp: c2s_at_def find_Some_iff)
qed

text \<open>One entry.\<close>

lemma c2s_new_other:
  assumes "vid' \<noteq> vid \<or> b AND b' = 0"
  shows "c2s_hits vid' b' (fst (c2s_new vid b sv d e)) = c2s_hits vid' b' e"
    and "c2s_hits vid' b' e \<Longrightarrow> snd (snd (fst (c2s_new vid b sv d e))) = snd (snd e)"
proof -
  have bits: "(pm AND NOT b) AND b' = pm AND b'" "(pm OR b) AND b' = pm AND b'" if "b AND b' = 0" for pm
    using that by (auto simp: bit_eq_iff bit_simps)
  have zero: "pm AND b' = 0" if "b AND b' = 0" "pm AND NOT b = 0" for pm
    using bits(1) [OF that(1), of pm] that(2) by simp
  show "c2s_hits vid' b' (fst (c2s_new vid b sv d e)) = c2s_hits vid' b' e"
    using assms bits by (auto simp: c2s_hits_def c2s_new_def split: prod.splits if_splits)
  show "c2s_hits vid' b' e \<Longrightarrow> snd (snd (fst (c2s_new vid b sv d e))) = snd (snd e)"
    using assms zero by (auto simp: c2s_hits_def c2s_new_def split: prod.splits if_splits)
qed

lemma c2s_hits_iff: "c2s_hits vid b e \<longleftrightarrow> fst e = vid \<and> fst (snd e) AND b \<noteq> 0"
  by (simp add: c2s_hits_def split: prod.splits)

lemma and_NOT_and: "((x :: u32) AND NOT b) AND b = 0" "((x :: u32) OR b) AND b = b"
  by (auto simp: bit_eq_iff bit_simps)

lemma c2s_new_same:
  "c2s_hits vid b (fst (c2s_new vid b sv d e)) \<Longrightarrow> snd (snd (fst (c2s_new vid b sv d e))) = sv"
  "c2s_hits vid b e \<Longrightarrow> snd (snd e) = sv \<Longrightarrow> fst (c2s_new vid b sv d e) = e"
  "snd (c2s_new vid b sv d e) \<Longrightarrow> b \<noteq> 0 \<Longrightarrow> d \<or> c2s_hits vid b (fst (c2s_new vid b sv d e)) \<and> \<not> c2s_hits vid b e"
  by (cases e; auto simp: c2s_hits_def c2s_new_def and_NOT_and split: if_splits)+

text \<open>The whole scan.\<close>

lemma c2s_scan_each:
  assumes "distinct is" and "i \<in> set is"
  shows "\<exists>d'. fst (c2s_scan vid b sv is T e d) i = fst (c2s_new vid b sv d' (T i))"
  using assms
proof (induction "is" arbitrary: T e d)
  case (Cons k "is")
  show ?case
  proof (cases "k = i")
    case True
    with Cons.prems show ?thesis by (auto simp: c2s_scan_other)
  next
    case False
    with Cons.prems have "distinct is" "i \<in> set is" by auto
    have "\<exists>d'. fst (c2s_scan vid b sv is (T(k := x)) f g) i = fst (c2s_new vid b sv d' ((T(k := x)) i))" for x f g
      by (rule Cons.IH) fact+
    with False show ?thesis by (simp del: fun_upd_apply) (simp add: fun_upd_other)
  qed
qed simp

lemma c2s_scan_done:
  "distinct is \<Longrightarrow> b \<noteq> 0 \<Longrightarrow> snd (snd (c2s_scan vid b sv is T e d)) \<Longrightarrow>
   d \<or> (\<exists>i \<in> set is. c2s_hits vid b (fst (c2s_scan vid b sv is T e d) i) \<and> \<not> c2s_hits vid b (T i))"
proof (induction "is" arbitrary: T e d)
  case (Cons i "is")
  let ?T = "T(i := fst (c2s_new vid b sv d (T i)))" and ?d = "snd (c2s_new vid b sv d (T i))"
  let ?scan = "c2s_scan vid b sv is ?T (if c2s_empty vid (T i) then Some i else e) ?d"
  have "?d \<or> (\<exists>j \<in> set is. c2s_hits vid b (fst ?scan j) \<and> \<not> c2s_hits vid b (?T j))"
    by (rule Cons.IH) (use Cons.prems in \<open>simp_all only: distinct.simps c2s_scan.simps simp_thms\<close>)
  then show ?case
  proof
    assume ?d
    from c2s_new_same(3) [OF this Cons.prems(2)] Cons.prems(1) show ?thesis by (auto simp: c2s_scan_other)
  next
    assume "\<exists>j \<in> set is. c2s_hits vid b (fst ?scan j) \<and> \<not> c2s_hits vid b (?T j)"
    with Cons.prems(1) show ?thesis by (auto split: if_splits)
  qed
qed simp

lemma c2s_scan_free:
  "distinct is \<Longrightarrow> fst (snd (c2s_scan vid b sv is T e d)) = Some k \<Longrightarrow> e = Some k \<or> k \<in> set is \<and> c2s_empty vid (T k)"
proof (induction "is" arbitrary: T e d)
  case (Cons i "is")
  from Cons.IH [OF _ Cons.prems(2) [unfolded c2s_scan.simps]] Cons.prems(1) show ?case by (auto split: if_splits)
qed simp


text \<open>The table after a mapping was added.\<close>

definition c2s_added :: "u32 \<Rightarrow> u32 \<Rightarrow> u32 \<Rightarrow> (nat \<Rightarrow> c2s) \<Rightarrow> (nat \<Rightarrow> c2s) option" where
  "c2s_added vid b sv T = (case c2s_scan vid b sv (rev [0..<128]) T None False of (T', e, d) \<Rightarrow>
     if d then Some T' else map_option (\<lambda>i. T'(i := (vid, b, sv))) e)"

lemma c2s_added_hit:
  assumes "c2s_added vid b sv T = Some T'" and "b \<noteq> 0"
  shows "i < 128 \<Longrightarrow> c2s_hits vid b (T' i) \<Longrightarrow> snd (snd (T' i)) = sv"
    and "\<exists>j<128. c2s_hits vid b (T' j) \<and> \<not> c2s_hits vid b (T j)"
    and "i < 128 \<Longrightarrow> c2s_hits vid b (T i) \<Longrightarrow> snd (snd (T i)) = sv \<Longrightarrow> T' i = T i"
    and "i < 128 \<Longrightarrow> vid' \<noteq> vid \<or> b AND b' = 0 \<Longrightarrow> c2s_hits vid' b' (T' i) = c2s_hits vid' b' (T i)"
    and "i < 128 \<Longrightarrow> vid' \<noteq> vid \<or> b AND b' = 0 \<Longrightarrow> c2s_hits vid' b' (T i) \<Longrightarrow> snd (snd (T' i)) = snd (snd (T i))"
proof -
  obtain T1 e d where scan: "c2s_scan vid b sv (rev [0..<128]) T None False = (T1, e, d)"
    by (cases "c2s_scan vid b sv (rev [0..<128]) T None False") auto
  have each: "\<exists>d'. T1 j = fst (c2s_new vid b sv d' (T j))" if "j < 128" for j
    using c2s_scan_each [of "rev [0..<128]" j vid b sv T None False] that scan by simp
  have T': "T' = (if d then T1 else T1(the e := (vid, b, sv)))" "d \<or> (\<exists>k. e = Some k \<and> k < 128 \<and> c2s_empty vid (T k))"
    using assms(1) c2s_scan_free [of "rev [0..<128]" vid b sv T None False] scan by (auto simp: c2s_added_def split: if_splits)
  have free: "\<not> c2s_hits vid' b' (T k)" if "c2s_empty vid (T k)" for k vid' b'
    using that by (auto simp: c2s_empty_def c2s_hits_def split: prod.splits)
  show "\<exists>j<128. c2s_hits vid b (T' j) \<and> \<not> c2s_hits vid b (T j)"
  proof (cases d)
    case True
    with c2s_scan_done [of "rev [0..<128]" b vid sv T None False] scan assms(2) T'(1) show ?thesis by auto
  next
    case False
    with T' free assms(2) show ?thesis by (auto simp: c2s_hits_def)
  qed
  assume i: "i < 128"
  from each [OF i] obtain d' where d': "T1 i = fst (c2s_new vid b sv d' (T i))" by blast
  show "c2s_hits vid b (T' i) \<Longrightarrow> snd (snd (T' i)) = sv"
    using c2s_new_same(1) [of vid b sv d' "T i"] d' T'(1) by (auto split: if_splits)
  show "c2s_hits vid b (T i) \<Longrightarrow> snd (snd (T i)) = sv \<Longrightarrow> T' i = T i"
    using c2s_new_same(2) [of vid b "T i" sv d'] d' T' free by auto
  assume other: "vid' \<noteq> vid \<or> b AND b' = 0"
  note new = c2s_new_other [OF other, where sv = sv and d = d' and e = "T i"]
  have put: "\<not> c2s_hits vid' b' (vid, b, sv)" using other by (auto simp: c2s_hits_def)
  show "c2s_hits vid' b' (T' i) = c2s_hits vid' b' (T i)"
    using new(1) d' T' free put by auto
  show "c2s_hits vid' b' (T i) \<Longrightarrow> snd (snd (T' i)) = snd (snd (T i))"
    using new(2) d' T' free by auto
qed

lemma c2s_added_at:
  assumes "c2s_added vid b sv T = Some T'" and "b \<noteq> 0"
  shows "c2s_at T' vid b = Some sv" and "vid' \<noteq> vid \<or> b AND b' = 0 \<Longrightarrow> c2s_at T' vid' b' = c2s_at T vid' b'"
  using c2s_added_hit(1,2) [OF assms] c2s_added_hit(4,5) [OF assms] by (blast intro: c2s_at_some c2s_at_cong)+

section \<open>The calls\<close>

text \<open>Ports are bits of the sets.\<close>

definition port_bit :: "rtk_switch_halCtrl_t \<Rightarrow> u32 \<Rightarrow> u32" where
  "port_bit h p = push_bit (unat (phy_of h p)) 1"

lemma port_bit_bounds:
  assumes "hal_wf h" and "valid_port h p"
  shows "port_bit h p \<le> 0xFFFF" and "port_bit h p \<noteq> 0" and "valid_port h q \<Longrightarrow> q \<noteq> p \<Longrightarrow> port_bit h p AND port_bit h q = 0"
proof -
  have le: "unat (phy_of h p) \<le> 10" using phy_of_le [OF assms] by (simp add: word_le_nat_alt)
  then show "port_bit h p \<le> 0xFFFF" by (auto simp: port_bit_def le_FFFF_iff_bits bit_simps)
  have "bit (port_bit h p) (unat (phy_of h p))" using le by (simp add: port_bit_def bit_simps)
  then show "port_bit h p \<noteq> 0" by (metis bit_0_eq bot_apply bot_bool_def)
  show "port_bit h p AND port_bit h q = 0" if "valid_port h q" "q \<noteq> p"
    using phy_of_inj [OF assms that(1)] that(2) by (auto simp: port_bit_def bit_eq_iff bit_simps word_unat_eq_iff)
qed

lemma wp_same_run:
  fixes m :: "('d gsw, 'r) drv"
  assumes "sw_ready c h" and "\<And>s. ready s h \<Longrightarrow> m s = m' s" and "wp view A m' Q c"
  shows "wp view A m Q c"
  using assms(2) [OF sw_ready_rel [OF _ assms(1)]] assms(3) by (simp add: wp_def)

lemma L2P_bind: "ready s h \<Longrightarrow> valid_port h p \<Longrightarrow> bindE (rtk_switch_port_L2P_get p) k s = k (phy_of h p) s"
  by (simp add: bindE_def port_L2P_run valid_port_less)

text \<open>What the chip holds for a pair, as the caller sees it.\<close>

definition c2s_answer :: "(nat \<Rightarrow> rtl8367c_svlan_memconf_t) \<Rightarrow> u32 option \<Rightarrow> u32 outcome" where
  "c2s_answer M x = (case x of None \<Rightarrow> Err RT_ERR_OUT_OF_RANGE
     | Some sx \<Rightarrow> if sx > 63 then Err RT_ERR_SVLAN_ENTRY_INDEX else Ok (ucast (vs_svid (M (unat sx)))))"

lemma c2s_maps_hits: "c2s_maps vid (phy_of h p) = c2s_hits vid (port_bit h p)"
  by (auto simp: c2s_maps_def c2s_hits_def fun_eq_iff port_bit_def)

lemma wp_c2s_get:
  assumes A: "cfg_regs \<subseteq> A" and c: "svx h M c" and args: "vid \<le> 0xFFF" "valid_port h p"
  shows "wp view A (rtk_svlan_c2s_get vid p PTR) (\<lambda>r c'. r = c2s_answer M (c2s_at (c2s_tab c) vid (port_bit h p)) \<and> c' = c) c"
proof (rule wp_same_run)
  show ready: "sw_ready c h" using c by (auto simp: svx_def svlan_inv_def)
  show "rtk_svlan_c2s_get vid p PTR s = bindE (searchE (\<lambda>i. rtl8367c_getAsicSvlanC2SConf (of_nat i)) (c2s_maps vid (phy_of h p)) [0..<128])
      (\<lambda>r. case r of None \<Rightarrow> errE RT_ERR_OUT_OF_RANGE
        | Some (i, (evid, pmsk, svidx)) \<Rightarrow> bindE (rtl8367c_getAsicSvlanMemberConfiguration svidx) (\<lambda>m. okE (ucast (vs_svid m)))) s"
    if "ready s h" for s
    using args by (simp add: rtk_svlan_c2s_get_def chk_then [OF that] L2P_bind [OF that] not_less)
  have mbr: "wp view A (bindE (rtl8367c_getAsicSvlanMemberConfiguration sx) (\<lambda>m. okE (ucast (vs_svid m)))) (\<lambda>r c'. r = c2s_answer M (Some sx) \<and> c' = c) c" for sx
  proof (cases "sx \<le> 63")
    case True
    then have "unat sx < 64" "of_nat (unat sx) = sx" by (simp_all add: word_le_nat_alt)
    with c A True show ?thesis by (auto intro!: wp_bindE wp_getSvMbr wp_okE simp: c2s_answer_def svx_def)
  next
    case False
    then show ?thesis by (auto intro!: wp_bindE wp_errE simp: rtl8367c_getAsicSvlanMemberConfiguration_def c2s_answer_def)
  qed
  let ?find = "List.find (\<lambda>i. c2s_hits vid (port_bit h p) (c2s_tab c i)) [0..<128]"
  have "wp view A (case map_option (\<lambda>i. (i, c2s_tab c i)) ?find of None \<Rightarrow> errE RT_ERR_OUT_OF_RANGE
        | Some (i, (evid, pmsk, svidx)) \<Rightarrow> bindE (rtl8367c_getAsicSvlanMemberConfiguration svidx) (\<lambda>m. okE (ucast (vs_svid m))))
      (\<lambda>r c'. r = c2s_answer M (c2s_at (c2s_tab c) vid (port_bit h p)) \<and> c' = c) c"
  proof (cases ?find)
    case (Some i)
    obtain x y z where "c2s_tab c i = (x, y, z)" by (cases "c2s_tab c i")
    with Some mbr [of z] show ?thesis by (simp add: c2s_at_def)
  qed (simp add: c2s_at_def c2s_answer_def wp_errE)
  then show "wp view A (bindE (searchE (\<lambda>i. rtl8367c_getAsicSvlanC2SConf (of_nat i)) (c2s_maps vid (phy_of h p)) [0..<128])
      (\<lambda>r. case r of None \<Rightarrow> errE RT_ERR_OUT_OF_RANGE
        | Some (i, (evid, pmsk, svidx)) \<Rightarrow> bindE (rtl8367c_getAsicSvlanMemberConfiguration svidx) (\<lambda>m. okE (ucast (vs_svid m)))))
      (\<lambda>r c'. r = c2s_answer M (c2s_at (c2s_tab c) vid (port_bit h p)) \<and> c' = c) c"
    by (intro wp_bindE wp_searchE [where T = "c2s_tab c"] wp_getC2S A) (simp_all add: idx64 c2s_maps_hits)
qed

lemma wp_c2s_add:
  assumes A: "cfg_regs \<subseteq> A" and c: "svx h M c" and h: "hal_wf h" and args: "vid \<le> 0xFFF" "svid \<le> 0xFFF" "valid_port h p"
  shows "wp view A (rtk_svlan_c2s_add vid p svid) (\<lambda>r c'. svx h M c' \<and>
     (case svid_index M svid of None \<Rightarrow> r = Err RT_ERR_SVLAN_VID
      | Some k \<Rightarrow> (case c2s_added vid (port_bit h p) (of_nat k) (c2s_tab c) of None \<Rightarrow> r = Err RT_ERR_OUT_OF_RANGE
        | Some T \<Rightarrow> r = Ok () \<and> (\<forall>j<128. c2s_tab c' j = T j)))) c" (is "wp _ _ _ ?Q _")
proof (rule wp_same_run)
  show ready: "sw_ready c h" using c by (auto simp: svx_def svlan_inv_def)
  show "rtk_svlan_c2s_add vid p svid s = bindE (svidx_of svid RT_ERR_SVLAN_VID) (\<lambda>svidx.
      bindE (foldE (c2s_add_step vid (phy_of h p) (of_nat svidx)) (rev [0..<128]) (None, False)) (\<lambda>(empty_idx, doneFlag).
        case empty_idx of
          Some e \<Rightarrow> if \<not> doneFlag then rtl8367c_setAsicSvlanC2SConf (of_nat e) vid (push_bit (unat (phy_of h p)) 1) (of_nat svidx) else okE ()
        | None \<Rightarrow> if doneFlag then okE () else errE RT_ERR_OUT_OF_RANGE)) s"
    if "ready s h" for s
    using args by (simp add: rtk_svlan_c2s_add_def chk_then [OF that] L2P_bind [OF that] not_less)
  note b = port_bit_bounds(1,2) [OF h args(3)]
  have vid: "vid \<le> 0xFFFF" using args(1) by (auto elim: order_trans)
  show "wp view A (bindE (svidx_of svid RT_ERR_SVLAN_VID) (\<lambda>svidx.
      bindE (foldE (c2s_add_step vid (phy_of h p) (of_nat svidx)) (rev [0..<128]) (None, False)) (\<lambda>(empty_idx, doneFlag).
        case empty_idx of
          Some e \<Rightarrow> if \<not> doneFlag then rtl8367c_setAsicSvlanC2SConf (of_nat e) vid (push_bit (unat (phy_of h p)) 1) (of_nat svidx) else okE ()
        | None \<Rightarrow> if doneFlag then okE () else errE RT_ERR_OUT_OF_RANGE))) ?Q c"
    unfolding port_bit_def [symmetric]
  proof (intro wp_bindE wp_svidx_of [OF A c])
    show "case case svid_index M svid of None \<Rightarrow> Err RT_ERR_SVLAN_VID | Some i \<Rightarrow> Ok i of
        Ok svidx \<Rightarrow> wp view A (bindE (foldE (c2s_add_step vid (phy_of h p) (of_nat svidx)) (rev [0..<128]) (None, False)) (\<lambda>(empty_idx, doneFlag).
          case empty_idx of
            Some e \<Rightarrow> if \<not> doneFlag then rtl8367c_setAsicSvlanC2SConf (of_nat e) vid (port_bit h p) (of_nat svidx) else okE ()
          | None \<Rightarrow> if doneFlag then okE () else errE RT_ERR_OUT_OF_RANGE)) ?Q c
      | Err e \<Rightarrow> ?Q (Err e) c | Fault \<Rightarrow> ?Q Fault c"
    proof (cases "svid_index M svid")
      case None
      with c show ?thesis by simp
    next
      case (Some k)
      with svid_indexD have k: "k < 64" by blast
      then have sv: "(of_nat k :: u32) \<le> 0xFFFF" by (auto intro: order_trans [OF idx64(1)])
      obtain T e d where scan: "c2s_scan vid (port_bit h p) (of_nat k) (rev [0..<128]) (c2s_tab c) None False = (T, e, d)"
        by (cases "c2s_scan vid (port_bit h p) (of_nat k) (rev [0..<128]) (c2s_tab c) None False") auto
      have e: "i < 128" if "e = Some i" for i
        using c2s_scan_free [of "rev [0..<128]" vid "port_bit h p" "of_nat k" "c2s_tab c" None False i] scan that by simp
      have "wp view A (foldE (c2s_add_step vid (phy_of h p) (of_nat k)) (rev [0..<128]) (None, False))
          (\<lambda>r c'. r = Ok (e, d) \<and> svx h M c' \<and> (\<forall>j<128. c2s_tab c' j = T j)) c"
        by (rule wp_c2s_loop [OF A c _ _ vid _ b(1) sv]) (use scan in \<open>auto simp: port_bit_def\<close>)
      then have "wp view A (bindE (foldE (c2s_add_step vid (phy_of h p) (of_nat k)) (rev [0..<128]) (None, False)) (\<lambda>(empty_idx, doneFlag).
          case empty_idx of
            Some e \<Rightarrow> if \<not> doneFlag then rtl8367c_setAsicSvlanC2SConf (of_nat e) vid (port_bit h p) (of_nat k) else okE ()
          | None \<Rightarrow> if doneFlag then okE () else errE RT_ERR_OUT_OF_RANGE)) ?Q c"
        by (intro wp_bindE, elim wp_weaken)
           (auto simp: Some c2s_added_def scan idx64 c2s_tab_put svx_put e vid b sv split: option.splits intro!: wp_okE wp_errE wp_setC2S A)
      with Some show ?thesis by simp
    qed
  qed
qed


text \<open>Deleting clears the bit in the first entry of the pair.\<close>

definition c2s_cut :: "u32 \<Rightarrow> c2s \<Rightarrow> c2s" where
  "c2s_cut b e = (case e of (evid, pm, sx) \<Rightarrow> if pm AND NOT b = 0 then (0, 0, 0) else (evid, pm AND NOT b, sx))"

lemma wp_c2s_del:
  assumes A: "cfg_regs \<subseteq> A" and c: "svx h M c" and args: "vid \<le> 0xFFF" "valid_port h p"
  shows "wp view A (rtk_svlan_c2s_del vid p) (\<lambda>r c'. svx h M c' \<and>
     (case List.find (\<lambda>i. c2s_hits vid (port_bit h p) (c2s_tab c i)) [0..<128] of None \<Rightarrow> r = Err RT_ERR_OUT_OF_RANGE \<and> c' = c
      | Some i \<Rightarrow> r = Ok () \<and> (\<forall>j<128. c2s_tab c' j = ((c2s_tab c)(i := c2s_cut (port_bit h p) (c2s_tab c i))) j))) c" (is "wp _ _ _ ?Q _")
proof (rule wp_same_run)
  show ready: "sw_ready c h" using c by (auto simp: svx_def svlan_inv_def)
  have vid: "\<not> vid > 0x1FFF" using args(1) by (auto simp: not_less elim: order_trans)
  show "rtk_svlan_c2s_del vid p s = bindE (searchE (\<lambda>i. rtl8367c_getAsicSvlanC2SConf (of_nat i)) (c2s_maps vid (phy_of h p)) [0..<128]) (\<lambda>r. case r of
        None \<Rightarrow> errE RT_ERR_OUT_OF_RANGE
      | Some (i, (evid, pmsk, svidx)) \<Rightarrow>
          (let pmsk = pmsk AND NOT (push_bit (unat (phy_of h p)) 1)
           in rtl8367c_setAsicSvlanC2SConf (of_nat i) (if pmsk = 0 then 0 else vid) pmsk (if pmsk = 0 then 0 else svidx))) s"
    if "ready s h" for s
    using args vid by (simp add: rtk_svlan_c2s_del_def chk_then [OF that] L2P_bind [OF that] del: push_bit_of_1)
  let ?find = "List.find (\<lambda>i. c2s_hits vid (port_bit h p) (c2s_tab c i)) [0..<128]"
  have "wp view A (case map_option (\<lambda>i. (i, c2s_tab c i)) ?find of
        None \<Rightarrow> errE RT_ERR_OUT_OF_RANGE
      | Some (i, (evid, pmsk, svidx)) \<Rightarrow>
          (let pmsk = pmsk AND NOT (port_bit h p)
           in rtl8367c_setAsicSvlanC2SConf (of_nat i) (if pmsk = 0 then 0 else vid) pmsk (if pmsk = 0 then 0 else svidx))) ?Q c"
  proof (cases ?find)
    case (Some i)
    obtain x y z where e: "c2s_tab c i = (x, y, z)" by (cases "c2s_tab c i")
    with Some have i: "i < 128" "x = vid" by (auto simp: find_Some_iff c2s_hits_def)
    note le = c2s_tab_le [OF e]
    from le have "y AND NOT (port_bit h p) \<le> 0xFFFF" by (simp add: and_le_FFFF)
    with Some e i le c A show ?thesis
      by (auto simp: Let_def c2s_cut_def idx64 c2s_tab_put svx_put intro!: wp_setC2S)
  qed (use c in \<open>simp add: wp_errE\<close>)
  then show "wp view A (bindE (searchE (\<lambda>i. rtl8367c_getAsicSvlanC2SConf (of_nat i)) (c2s_maps vid (phy_of h p)) [0..<128]) (\<lambda>r. case r of
        None \<Rightarrow> errE RT_ERR_OUT_OF_RANGE
      | Some (i, (evid, pmsk, svidx)) \<Rightarrow>
          (let pmsk = pmsk AND NOT (push_bit (unat (phy_of h p)) 1)
           in rtl8367c_setAsicSvlanC2SConf (of_nat i) (if pmsk = 0 then 0 else vid) pmsk (if pmsk = 0 then 0 else svidx)))) ?Q c"
    unfolding port_bit_def [symmetric]
    by (intro wp_bindE wp_searchE [where T = "c2s_tab c"] wp_getC2S A) (simp_all add: idx64 c2s_maps_hits)
qed

lemma c2s_cut_other:
  assumes "vid' \<noteq> vid \<or> b AND b' = 0" and "c2s_hits vid b e"
  shows "c2s_hits vid' b' (c2s_cut b e) = c2s_hits vid' b' e" and "c2s_hits vid' b' e \<Longrightarrow> snd (snd (c2s_cut b e)) = snd (snd e)"
proof -
  have bits: "(pm AND NOT b) AND b' = pm AND b'" if "b AND b' = 0" for pm
    using that by (auto simp: bit_eq_iff bit_simps)
  have zero: "pm AND b' = 0" if "b AND b' = 0" "pm AND NOT b = 0" for pm
    using bits [OF that(1), of pm] that(2) by simp
  show "c2s_hits vid' b' (c2s_cut b e) = c2s_hits vid' b' e"
    using assms bits zero by (auto simp: c2s_hits_def c2s_cut_def split: prod.splits if_splits)
  show "c2s_hits vid' b' e \<Longrightarrow> snd (snd (c2s_cut b e)) = snd (snd e)"
    using assms zero by (auto simp: c2s_hits_def c2s_cut_def split: prod.splits if_splits)
qed

text \<open>In the driver's states.\<close>

lemma svx_up: "svlan_up view A h s \<Longrightarrow> svx h (\<lambda>i. hw_svmbr (of_nat i) (swt_of view s)) (swt_of view s)"
  by (simp add: svx_def svlan_upD)

lemma svx_upI: "swt_rel view A s c \<Longrightarrow> cfg_regs \<subseteq> A \<Longrightarrow> svx h M c \<Longrightarrow> svlan_up view A h s"
  by (auto simp: svx_def intro: svlan_upI)

lemma c2s_add_args:
  assumes "ready s h" and "rtk_svlan_c2s_add vid p svid s = (Ok (), s')"
  shows "vid \<le> 0xFFF" and "svid \<le> 0xFFF" and "valid_port h p"
  using assms(2) by (auto simp: rtk_svlan_c2s_add_def chk_then [OF assms(1)] not_less split: if_splits)

lemma c2s_add_run:
  assumes s: "swt_rel view A s c" and A: "cfg_regs \<subseteq> A" and h: "hal_wf h" and c: "svx h M c" and run: "rtk_svlan_c2s_add vid p svid s = (Ok (), s')"
  obtains k c' where "svid_index M svid = Some k" and "swt_rel view A s' c'" and "svx h M c'" and "vid \<le> 0xFFF" and "svid \<le> 0xFFF" and "valid_port h p"
    and "c2s_added vid (port_bit h p) (of_nat k) (c2s_tab c) \<noteq> None"
    and "\<And>j. j < 128 \<Longrightarrow> c2s_tab c' j = the (c2s_added vid (port_bit h p) (of_nat k) (c2s_tab c)) j"
proof -
  have ready: "ready s h" using sw_ready_rel [OF s] c by (simp add: svx_def svlan_inv_def)
  note args = c2s_add_args [OF ready run]
  from wp_c2s_add [OF A c h args] s obtain r s1 c' where 1: "rtk_svlan_c2s_add vid p svid s = (r, s1)" "swt_rel view A s1 c'"
    "svx h M c' \<and> (case svid_index M svid of None \<Rightarrow> r = Err RT_ERR_SVLAN_VID
      | Some k \<Rightarrow> (case c2s_added vid (port_bit h p) (of_nat k) (c2s_tab c) of None \<Rightarrow> r = Err RT_ERR_OUT_OF_RANGE
        | Some T \<Rightarrow> r = Ok () \<and> (\<forall>j<128. c2s_tab c' j = T j)))" by (rule wpD)
  with run that [OF _ _ _ args] show thesis by (simp split: option.splits)
qed


lemma c2s_get_val:
  assumes "swt_rel view A s c" and "cfg_regs \<subseteq> A" and "svx h M c" and "vid \<le> 0xFFF" and "valid_port h p"
  shows "fst (rtk_svlan_c2s_get vid p PTR s) = c2s_answer M (c2s_at (c2s_tab c) vid (port_bit h p))"
  by (rule wp_run_pure(1) [OF wp_c2s_get [OF assms(2-5)] assms(1)])

lemma c2s_at_tab: "(\<And>j. j < 128 \<Longrightarrow> T' j = T j) \<Longrightarrow> c2s_at T' vid b = c2s_at T vid b"
  by (rule c2s_at_cong) simp_all

lemma c2s_answer_index:
  assumes "svid_index M svid = Some k"
  shows "c2s_answer M (Some (of_nat k)) = Ok svid"
proof -
  have k: "k < 64" "svid = ucast (vs_svid (M k))" using svid_indexD [OF assms] by auto
  then have "\<not> (of_nat k :: u32) > 63" "unat (of_nat k :: u32) = k" using idx64(1) by (auto simp: not_less unat_of_nat)
  with k(2) show ?thesis by (simp add: c2s_answer_def)
qed

lemma c2s_added_None_cong:
  assumes "\<And>j. j < 128 \<Longrightarrow> T j = T' j"
  shows "c2s_added vid b sv T = None \<longleftrightarrow> c2s_added vid b sv T' = None"
proof -
  have "snd (c2s_scan vid b sv (rev [0..<128]) T None False) = snd (c2s_scan vid b sv (rev [0..<128]) T' None False)"
    using c2s_scan_cong [of "rev [0..<128]" T T'] assms by simp
  then show ?thesis by (auto simp: c2s_added_def split: prod.splits if_splits)
qed

lemma c2s_add_ok:
  assumes s: "swt_rel view A s c" and A: "cfg_regs \<subseteq> A" and h: "hal_wf h" and c: "svx h M c"
    and args: "vid \<le> 0xFFF" "svid \<le> 0xFFF" "valid_port h p" and k: "svid_index M svid = Some k"
    and T: "\<And>j. j < 128 \<Longrightarrow> c2s_tab c j = T j" "c2s_added vid (port_bit h p) (of_nat k) T \<noteq> None"
  shows "\<exists>s'. rtk_svlan_c2s_add vid p svid s = (Ok (), s')"
proof -
  have "c2s_added vid (port_bit h p) (of_nat k) (c2s_tab c) = None \<longleftrightarrow> c2s_added vid (port_bit h p) (of_nat k) T = None"
    by (rule c2s_added_None_cong) (rule T(1))
  with T(2) obtain T' where T': "c2s_added vid (port_bit h p) (of_nat k) (c2s_tab c) = Some T'"
    by (cases "c2s_added vid (port_bit h p) (of_nat k) (c2s_tab c)") auto
  from wp_c2s_add [OF A c h args] s obtain r s1 c' where "rtk_svlan_c2s_add vid p svid s = (r, s1)"
    "svx h M c' \<and> (case svid_index M svid of None \<Rightarrow> r = Err RT_ERR_SVLAN_VID
      | Some k \<Rightarrow> (case c2s_added vid (port_bit h p) (of_nat k) (c2s_tab c) of None \<Rightarrow> r = Err RT_ERR_OUT_OF_RANGE
        | Some T \<Rightarrow> r = Ok () \<and> (\<forall>j<128. c2s_tab c' j = T j)))" by (rule wpD)
  with k T' show ?thesis by simp
qed

lemma sim_svlan_up:
  assumes "hal_wf h"
  shows "svlan_up sim_view sim_addrs h (sim_gsw 1 (Some h))"
    and "hw_svmbr i (swt_of sim_view (sim_gsw 1 (Some h))) = memconf0" and "hw_c2s i (swt_of sim_view (sim_gsw 1 (Some h))) = (0, 0, 0)"
proof -
  have reg: "sw_reg (swt_of sim_view (sim_gsw 1 (Some h))) = (\<lambda>_. 0)" by (simp add: swt_of_def sim_dev0_def sim_view0_def)
  show m: "hw_svmbr i (swt_of sim_view (sim_gsw 1 (Some h))) = memconf0" for i
    by (simp add: row_def reg svlanConfStSmi2User_def memconf0_def)
  show "hw_c2s i (swt_of sim_view (sim_gsw 1 (Some h))) = (0, 0, 0)"
    by (simp add: row_def reg c2s_entry_def)
  show "svlan_up sim_view sim_addrs h (sim_gsw 1 (Some h))"
    using sim_driver_up [OF assms] by (simp add: svlan_up_def sv_ok_def m sv_entry_ok_def) (auto simp: swt_of_def)
qed

lemma c2s_scan_blank:
  "(\<forall>i \<in> set is. T i = (0, 0, 0)) \<Longrightarrow> vid \<noteq> 0 \<Longrightarrow> c2s_scan vid b sv is T e d = (T, if is = [] then e else Some (last is), d)"
proof (induction "is" arbitrary: e d)
  case (Cons i "is")
  then have "T(i := fst (c2s_new vid b sv d (T i))) = T" "snd (c2s_new vid b sv d (T i)) = d" "c2s_empty vid (T i)"
    by (auto simp: c2s_new_def c2s_empty_def)
  with Cons show ?case by auto
qed simp

lemma c2s_scan_append:
  "c2s_scan vid b sv (is @ js) T e d = (case c2s_scan vid b sv is T e d of (T, e, d) \<Rightarrow> c2s_scan vid b sv js T e d)"
  by (induction "is" arbitrary: T e d) auto

lemma c2s_added_first:
  assumes "vid \<noteq> 0"
  shows "c2s_added vid b sv (\<lambda>_. (0, 0, 0)) = Some ((\<lambda>_. (0, 0, 0))(0 := (vid, b, sv)))"
  using assms by (simp add: c2s_added_def c2s_scan_blank last_rev)

lemma c2s_added_again:
  assumes "vid \<noteq> 0" and "b \<noteq> 0"
  shows "c2s_added vid b sv ((\<lambda>_. (0, 0, 0))(0 := (vid, b, sv))) \<noteq> None"
proof -
  have split: "rev [0..<128] = rev [1..<128] @ [0 :: nat]" by (simp add: upt_conv_Cons)
  have "c2s_scan vid b sv (rev [1..<128]) ((\<lambda>_. (0, 0, 0))(0 := (vid, b, sv))) None False = ((\<lambda>_. (0, 0, 0))(0 := (vid, b, sv)), Some 1, False)"
    using assms by (subst c2s_scan_blank) (auto simp: last_rev)
  then show ?thesis using assms unfolding c2s_added_def split c2s_scan_append by (simp add: c2s_new_def c2s_empty_def)
qed

lemma sim_c2s_add:
  assumes "hal_wf h" and "valid_port h p"
  shows "\<exists>s'. rtk_svlan_c2s_add 7 p 0 (sim_gsw 1 (Some h)) = (Ok (), s')"
proof -
  note up = svlan_upD [OF sim_svlan_up(1) [OF assms(1)]]
  show ?thesis
    by (rule c2s_add_ok [OF up(1,2,4) svx_up [OF sim_svlan_up(1) [OF assms(1)]] _ _ assms(2), where k = 0 and T = "\<lambda>_. (0, 0, 0)"])
      (simp_all add: sim_svlan_up [OF assms(1)] svid_index_def upt_conv_Cons memconf0_def c2s_added_first)
qed

text \<open>
  C38. Whenever \<open>rtk_svlan_c2s_add\<close> reports success, the table afterwards maps the C-VLAN and port to
  the given service VLAN, and every other pair to what it was mapped to before: moving a port from
  one service VLAN to another, joining an existing entry and claiming a free one all keep the other
  ports of the entries involved.
\<close>

theorem c2s_add_maps:
  assumes "svlan_up view A h s" and "rtk_svlan_c2s_add vid p svid s = (Ok (), s')" and "vid' \<le> 0xFFF" and "valid_port h q"
  shows "svlan_up view A h s' \<and>
     fst (rtk_svlan_c2s_get vid' q PTR s') = (if vid' = vid \<and> q = p then Ok svid else fst (rtk_svlan_c2s_get vid' q PTR s))"
proof -
  note up = svlan_upD [OF assms(1)] and c = svx_up [OF assms(1)]
  let ?M = "\<lambda>i. hw_svmbr (of_nat i) (swt_of view s)" and ?T = "c2s_tab (swt_of view s)" and ?b = "port_bit h p"
  from c2s_add_run [OF up(1,2,4) c assms(2)] obtain k c' where
    k: "svid_index ?M svid = Some k" and c': "swt_rel view A s' c'" "svx h ?M c'" and args: "vid \<le> 0xFFF" "valid_port h p"
    and ok: "c2s_added vid ?b (of_nat k) ?T \<noteq> None" and tab: "\<And>j. j < 128 \<Longrightarrow> c2s_tab c' j = the (c2s_added vid ?b (of_nat k) ?T) j" by metis
  note get = c2s_get_val [OF c'(1) up(2) c'(2) assms(3,4)] c2s_get_val [OF up(1,2) c assms(3,4)]
  from ok obtain T where T: "c2s_added vid ?b (of_nat k) ?T = Some T" by blast
  have at: "c2s_at (c2s_tab c') v b = c2s_at T v b" for v b by (rule c2s_at_tab) (simp add: tab T)
  note added = c2s_added_at [OF T port_bit_bounds(2) [OF up(4) args(2)]]
  have "fst (rtk_svlan_c2s_get vid' q PTR s') = (if vid' = vid \<and> q = p then Ok svid else fst (rtk_svlan_c2s_get vid' q PTR s))"
  proof (cases "vid' = vid \<and> q = p")
    case True
    with get(1) at added(1) c2s_answer_index [OF k] show ?thesis by simp
  next
    case False
    then have "vid' \<noteq> vid \<or> ?b AND port_bit h q = 0" using port_bit_bounds(3) [OF up(4) args(2) assms(4)] by blast
    from added(2) [OF this] get at show ?thesis unfolding if_not_P [OF False] by simp
  qed
  with svx_upI [OF c'(1) up(2) c'(2)] show ?thesis by blast
qed

theorem c2s_add_maps_witness:
  "\<exists>s'. rtk_svlan_c2s_add 7 2 0 (sim_gsw 1 (Some rtl8367c_hal_Ctrl)) = (Ok (), s') \<and> fst (rtk_svlan_c2s_get 7 2 PTR s') = Ok 0 \<and>
     fst (rtk_svlan_c2s_get 7 3 PTR s') = fst (rtk_svlan_c2s_get 7 3 PTR (sim_gsw 1 (Some rtl8367c_hal_Ctrl)))"
proof -
  have h: "hal_wf rtl8367c_hal_Ctrl" "valid_port rtl8367c_hal_Ctrl 2" "valid_port rtl8367c_hal_Ctrl 3"
    using hal_tables_wf(1) by code_simp+
  from sim_c2s_add [OF h(1,2)] obtain s' where s': "rtk_svlan_c2s_add 7 2 0 (sim_gsw 1 (Some rtl8367c_hal_Ctrl)) = (Ok (), s')" by blast
  from c2s_add_maps [OF sim_svlan_up(1) [OF h(1)] s', of 7] h(2,3) s' show ?thesis by auto
qed

text \<open>
  C39. Adding a mapping that is already there makes a second entry of it, because the loop does not
  remember that it met the mapping (\<open>svlan.c\<close>, lines 1008 to 1011); deleting then removes only one of
  the two, and the VLAN is still translated.
\<close>

theorem c2s_readd_survives_delete:
  assumes "svlan_up view A h s" and "rtk_svlan_c2s_add vid p svid s = (Ok (), s1)" and "rtk_svlan_c2s_add vid p svid s1 = (Ok (), s2)"
    and "rtk_svlan_c2s_del vid p s2 = (r, s3)"
  shows "r = Ok () \<and> fst (rtk_svlan_c2s_get vid p PTR s3) = Ok svid"
proof -
  note up = svlan_upD [OF assms(1)] and c = svx_up [OF assms(1)]
  let ?M = "\<lambda>i. hw_svmbr (of_nat i) (swt_of view s)" and ?T = "c2s_tab (swt_of view s)" and ?b = "port_bit h p"
  from c2s_add_run [OF up(1,2,4) c assms(2)] obtain k c1 where
    k: "svid_index ?M svid = Some k" and c1: "swt_rel view A s1 c1" "svx h ?M c1" and args: "vid \<le> 0xFFF" "valid_port h p"
    and ok: "c2s_added vid ?b (of_nat k) ?T \<noteq> None" and tab: "\<And>j. j < 128 \<Longrightarrow> c2s_tab c1 j = the (c2s_added vid ?b (of_nat k) ?T) j" by metis
  from c2s_add_run [OF c1(1) up(2,4) c1(2) assms(3)] obtain k2 c2 where k2: "svid_index ?M svid = Some k2" and c2: "swt_rel view A s2 c2" "svx h ?M c2"
    and ok2: "c2s_added vid ?b (of_nat k2) (c2s_tab c1) \<noteq> None"
    and tab2: "\<And>j. j < 128 \<Longrightarrow> c2s_tab c2 j = the (c2s_added vid ?b (of_nat k2) (c2s_tab c1)) j" by metis
  note b = port_bit_bounds(2) [OF up(4) args(2)]
  from ok obtain T where T: "c2s_added vid ?b (of_nat k) ?T = Some T" by blast
  from ok2 obtain T2 where T2: "c2s_added vid ?b (of_nat k) (c2s_tab c1) = Some T2" and k2': "k2 = k" using k k2 by auto
  from c2s_added_hit(2) [OF T b] obtain i where i: "i < 128" "c2s_hits vid ?b (c2s_tab c1 i)" by (auto simp: tab T)
  then have "snd (snd (c2s_tab c1 i)) = of_nat k" using c2s_added_hit(1) [OF T b, of i] by (simp add: tab T)
  with c2s_added_hit(3) [OF T2 b, of i] i have i2: "c2s_hits vid ?b (c2s_tab c2 i)" by (simp add: tab2 T2 k2')
  from c2s_added_hit(2) [OF T2 b] i obtain j where j: "j < 128" "c2s_hits vid ?b (c2s_tab c2 j)" "j \<noteq> i" by (auto simp: tab2 T2 k2')
  have sv: "snd (snd (c2s_tab c2 n)) = of_nat k" if "n < 128" "c2s_hits vid ?b (c2s_tab c2 n)" for n
    using c2s_added_hit(1) [OF T2 b that(1)] that by (simp add: tab2 T2 k2')
  from i(1) i2 obtain n where n: "List.find (\<lambda>i. c2s_hits vid ?b (c2s_tab c2 i)) [0..<128] = Some n"
    by (cases "List.find (\<lambda>i. c2s_hits vid ?b (c2s_tab c2 i)) [0..<128]") (auto simp: find_None_iff)
  from wp_c2s_del [OF up(2) c2(2) args] c2(1) obtain c3 where c3: "swt_rel view A s3 c3" "svx h ?M c3" "r = Ok ()"
    and tab3: "\<And>j. j < 128 \<Longrightarrow> c2s_tab c3 j = ((c2s_tab c2)(n := c2s_cut ?b (c2s_tab c2 n))) j"
    by (rule wpD) (use assms(4) n in auto)
  obtain m where m: "m < 128" "m \<noteq> n" "c2s_hits vid ?b (c2s_tab c2 m)" using i(1) i2 j by metis
  have cut: "\<not> c2s_hits vid ?b (c2s_cut ?b e)" for e by (auto simp: c2s_cut_def c2s_hits_def and_NOT_and split: prod.splits if_splits)
  have "c2s_at (c2s_tab c3) vid ?b = Some (of_nat k)"
    by (rule c2s_at_some [OF m(1)]) (use m cut sv in \<open>auto simp: tab3 split: if_splits\<close>)
  with c2s_get_val [OF c3(1) up(2) c3(2) args] c2s_answer_index [OF k] c3(3) show ?thesis by simp
qed


theorem c2s_readd_survives_delete_witness:
  "\<exists>s1 s2 s3. rtk_svlan_c2s_add 7 2 0 (sim_gsw 1 (Some rtl8367c_hal_Ctrl)) = (Ok (), s1) \<and> rtk_svlan_c2s_add 7 2 0 s1 = (Ok (), s2) \<and>
     rtk_svlan_c2s_del 7 2 s2 = (Ok (), s3) \<and> fst (rtk_svlan_c2s_get 7 2 PTR s3) = Ok 0"
proof -
  let ?h = rtl8367c_hal_Ctrl and ?s = "sim_gsw 1 (Some rtl8367c_hal_Ctrl)"
  have h: "hal_wf ?h" "valid_port ?h 2" using hal_tables_wf(1) by code_simp+
  note up = svlan_upD [OF sim_svlan_up(1) [OF h(1)]] and b = port_bit_bounds(2) [OF h]
  let ?M = "\<lambda>i. hw_svmbr (of_nat i) (swt_of sim_view ?s)"
  have k: "svid_index ?M 0 = Some 0" by (simp add: sim_svlan_up [OF h(1)] svid_index_def upt_conv_Cons memconf0_def)
  from sim_c2s_add [OF h] obtain s1 where s1: "rtk_svlan_c2s_add 7 2 0 ?s = (Ok (), s1)" by blast
  from c2s_add_run [OF up(1,2,4) svx_up [OF sim_svlan_up(1) [OF h(1)]] s1] obtain n c1 where n: "svid_index ?M 0 = Some n"
    and c1: "swt_rel sim_view sim_addrs s1 c1" "svx ?h ?M c1"
    and run: "\<And>j. j < 128 \<Longrightarrow> c2s_tab c1 j = the (c2s_added 7 (port_bit ?h 2) (of_nat n) (c2s_tab (swt_of sim_view ?s))) j" by metis
  have tab: "c2s_tab c1 j = ((\<lambda>_. (0, 0, 0))(0 := (7, port_bit ?h 2, of_nat 0))) j" if "j < 128" for j
    using run [OF that] n k by (simp add: sim_svlan_up [OF h(1)] c2s_added_first)
  have "\<exists>s2. rtk_svlan_c2s_add 7 2 0 s1 = (Ok (), s2)"
    by (rule c2s_add_ok [OF c1(1) up(2,4) c1(2) _ _ h(2) k tab])
      (simp_all del: fun_upd_apply add: c2s_added_again [OF _ b])
  then obtain s2 where s2: "rtk_svlan_c2s_add 7 2 0 s1 = (Ok (), s2)" by blast
  obtain r s3 where s3: "rtk_svlan_c2s_del 7 2 s2 = (r, s3)" by (cases "rtk_svlan_c2s_del 7 2 s2")
  from c2s_readd_survives_delete [OF sim_svlan_up(1) [OF h(1)] s1 s2 s3] s1 s2 s3 show ?thesis by auto
qed

end
