(* ===== verification/Svlan_Sp2c.thy ===== *)
theory Svlan_Sp2c
  imports Svlan_Maps
begin

text \<open>
  The table that gives frames of a service VLAN a C-VLAN by destination port.  The calls refine a
  finite map from pairs of service VLAN and port to C-VLANs, of at most 128 entries.
\<close>

section \<open>Simulation\<close>

text \<open>
  A unit whose registers are related to an abstract state, rather than a function of it: which slot of
  the table an entry is in does not matter.
\<close>

locale simulated_unit =
  fixes R :: "'m \<Rightarrow> swt \<Rightarrow> bool" and spec :: "'op \<Rightarrow> 'm \<Rightarrow> 'r outcome \<times> 'm" and call :: "'op \<Rightarrow> ('d gsw, 'r) drv"
    and view :: "'d \<Rightarrow> chip_view" and A :: "u32 set"
  assumes call_wp: "R m c \<Longrightarrow> wp view A (call x) (\<lambda>r c'. r = fst (spec x m) \<and> R (snd (spec x m)) c') c"
begin

lemma calls_rel:
  assumes "swt_rel view A s c" and "R m c"
  shows "\<exists>s' c'. run_calls call xs s = (fst (spec_calls spec xs m), s') \<and> swt_rel view A s' c' \<and> R (snd (spec_calls spec xs m)) c'"
  using assms
proof (induction xs arbitrary: s c m)
  case (Cons x xs)
  from call_wp [OF Cons.prems(2), of x] Cons.prems(1)
  obtain s1 c1 where 1: "call x s = (fst (spec x m), s1)" "swt_rel view A s1 c1" "R (snd (spec x m)) c1"
    by (rule wpD) blast
  from Cons.IH [OF 1(2,3)] 1 show ?case by (auto simp: split_beta Let_def)
qed auto

end

section \<open>The abstract map\<close>

datatype sp2c_op = Sp2cAdd u32 u32 u32 | Sp2cGet u32 u32 outptr | Sp2cDel u32 u32

type_synonym sp2c_map = "u32 \<times> u32 \<Rightarrow> u32 option"

definition sp2c_checked :: "rtk_switch_halCtrl_t \<Rightarrow> u32 set \<Rightarrow> u32 \<Rightarrow> u32 \<Rightarrow> u32 \<Rightarrow> rt_error option" where
  "sp2c_checked h S svid cvid p =
     (if svid > 0xFFF then Some RT_ERR_SVLAN_VID else if cvid > 0xFFF then Some RT_ERR_VLAN_VID
      else if \<not> valid_port h p then Some RT_ERR_PORT_ID
      else if svid \<notin> S then Some RT_ERR_SVLAN_ENTRY_NOT_FOUND else None)"

fun sp2c_spec :: "rtk_switch_halCtrl_t \<Rightarrow> u32 set \<Rightarrow> sp2c_op \<Rightarrow> sp2c_map \<Rightarrow> u32 list outcome \<times> sp2c_map" where
  "sp2c_spec h S (Sp2cAdd svid p cvid) m = (case sp2c_checked h S svid cvid p of
     Some e \<Rightarrow> (Err e, m)
   | None \<Rightarrow> if m (svid, p) = None \<and> card (dom m) = 128 then (Err RT_ERR_OUT_OF_RANGE, m) else (Ok [], m((svid, p) \<mapsto> cvid)))"
| "sp2c_spec h S (Sp2cGet svid p q) m =
     (if q = NULLP then (Err RT_ERR_NULL_POINTER, m)
      else case sp2c_checked h S svid 0 p of Some e \<Rightarrow> (Err e, m)
        | None \<Rightarrow> (case m (svid, p) of None \<Rightarrow> Err RT_ERR_OUT_OF_RANGE | Some v \<Rightarrow> Ok [v], m))"
| "sp2c_spec h S (Sp2cDel svid p) m = (case sp2c_checked h S svid 0 p of
     Some e \<Rightarrow> (Err e, m)
   | None \<Rightarrow> if m (svid, p) = None then (Err RT_ERR_OUT_OF_RANGE, m) else (Ok [], m((svid, p) := None)))"

fun sp2c_call :: "sp2c_op \<Rightarrow> ('d gsw, u32 list) drv" where
  "sp2c_call (Sp2cAdd svid p cvid) = no_result (rtk_svlan_sp2c_add svid p cvid)"
| "sp2c_call (Sp2cGet svid p q) = one_result (rtk_svlan_sp2c_get svid p q)"
| "sp2c_call (Sp2cDel svid p) = no_result (rtk_svlan_sp2c_del svid p)"

section \<open>The relation\<close>

text \<open>An entry is of the pair \<open>k = (svid, p)\<close>.\<close>

definition sp2c_of :: "rtk_switch_halCtrl_t \<Rightarrow> (nat \<Rightarrow> rtl8367c_svlan_memconf_t) \<Rightarrow> rtl8367c_svlan_s2c_t \<Rightarrow> u32 \<times> u32 \<Rightarrow> bool" where
  "sp2c_of h M e k \<longleftrightarrow> s2_valid e = 1 \<and> svid_index M (fst k) = Some (unat (s2_svidx e)) \<and>
     valid_port h (snd k) \<and> ucast (s2_dstport e) = phy_of h (snd k)"

definition sp2c_rep :: "rtk_switch_halCtrl_t \<Rightarrow> (nat \<Rightarrow> rtl8367c_svlan_memconf_t) \<Rightarrow> sp2c_map \<Rightarrow> (nat \<Rightarrow> rtl8367c_svlan_s2c_t) \<Rightarrow> bool" where
  "sp2c_rep h M m T \<longleftrightarrow>
     (\<forall>k v. m k = Some v \<longleftrightarrow> (\<exists>i<128. sp2c_of h M (T i) k \<and> v = ucast (s2_vid (T i)))) \<and>
     (\<forall>i<128. s2_valid (T i) = 1 \<longrightarrow> (\<exists>k. sp2c_of h M (T i) k)) \<and>
     (\<forall>i<128. \<forall>j<128. \<forall>k. sp2c_of h M (T i) k \<and> sp2c_of h M (T j) k \<longrightarrow> i = j)"

lemma sp2c_repD:
  assumes "sp2c_rep h M m T"
  shows "m k = Some v \<longleftrightarrow> (\<exists>i<128. sp2c_of h M (T i) k \<and> v = ucast (s2_vid (T i)))"
    and "i < 128 \<Longrightarrow> s2_valid (T i) = 1 \<Longrightarrow> \<exists>k. sp2c_of h M (T i) k"
    and "i < 128 \<Longrightarrow> j < 128 \<Longrightarrow> sp2c_of h M (T i) k \<Longrightarrow> sp2c_of h M (T j) k \<Longrightarrow> i = j"
  using assms unfolding sp2c_rep_def by blast+

lemma sp2c_of_key:
  assumes "hal_wf h" and "sp2c_of h M e k" and "sp2c_of h M e k'"
  shows "k = k'"
proof (rule prod_eqI)
  show "fst k = fst k'" using assms(2,3) svid_indexD [of M "fst k"] svid_indexD [of M "fst k'"] by (auto simp: sp2c_of_def)
  show "snd k = snd k'" using assms(2,3) phy_of_inj [OF assms(1), of "snd k" "snd k'"] by (auto simp: sp2c_of_def)
qed

lemma sp2c_rep_dom: "sp2c_rep h M m T \<Longrightarrow> k \<in> dom m \<longleftrightarrow> (\<exists>i<128. sp2c_of h M (T i) k)"
  using sp2c_repD(1) [of h M m T k] by (auto simp del: split_paired_Ex split_paired_All)

lemma sp2c_rep_card:
  assumes "hal_wf h" and "sp2c_rep h M m T"
  shows "card (dom m) = card {i. i < 128 \<and> s2_valid (T i) = 1}"
proof -
  let ?V = "{i. i < 128 \<and> s2_valid (T i) = 1}" and ?key = "\<lambda>i. SOME k. sp2c_of h M (T i) k"
  have key: "sp2c_of h M (T i) (?key i)" if "i \<in> ?V" for i
    using that sp2c_repD(2) [OF assms(2), of i] by (blast intro: someI_ex)
  have "bij_betw ?key ?V (dom m)"
  proof (rule bij_betw_imageI)
    show "inj_on ?key ?V"
    proof (rule inj_onI)
      fix i j assume ij: "i \<in> ?V" "j \<in> ?V" "?key i = ?key j"
      from key [OF ij(1)] key [OF ij(2)] have "sp2c_of h M (T i) (?key j)" "sp2c_of h M (T j) (?key j)" unfolding ij(3) .
      with sp2c_repD(3) [OF assms(2)] ij(1,2) show "i = j" by blast
    qed
    show "?key ` ?V = dom m"
    proof (intro equalityI subsetI)
      fix k assume "k \<in> ?key ` ?V"
      then show "k \<in> dom m" using key unfolding sp2c_rep_dom [OF assms(2)] by blast
    next
      fix k assume "k \<in> dom m"
      then obtain i where i: "i < 128" "sp2c_of h M (T i) k" unfolding sp2c_rep_dom [OF assms(2)] by blast
      then have "i \<in> ?V" by (simp add: sp2c_of_def)
      with sp2c_of_key [OF assms(1) i(2) key [OF this]] show "k \<in> ?key ` ?V" by blast
    qed
  qed
  then show ?thesis by (simp add: bij_betw_same_card)
qed

lemma sp2c_rep_full:
  assumes "hal_wf h" and "sp2c_rep h M m T"
  shows "card (dom m) = 128 \<longleftrightarrow> (\<forall>i<128. s2_valid (T i) = 1)"
proof
  assume "card (dom m) = 128"
  then have "card {i. i < 128 \<and> s2_valid (T i) = 1} = card {i. i < (128 :: nat)}" by (simp add: sp2c_rep_card [OF assms])
  then have "{i. i < 128 \<and> s2_valid (T i) = 1} = {i. i < 128}" by (intro card_subset_eq) auto
  then show "\<forall>i<128. s2_valid (T i) = 1" by blast
next
  assume "\<forall>i<128. s2_valid (T i) = 1"
  then have "{i. i < 128 \<and> s2_valid (T i) = 1} = {i. i < 128}" by auto
  then show "card (dom m) = 128" by (simp add: sp2c_rep_card [OF assms])
qed

text \<open>Writing an entry for a pair, into its own slot or into a free one, and clearing it.\<close>

lemma sp2c_rep_put:
  assumes "hal_wf h" and "sp2c_rep h M m T" and "i < 128" and e: "sp2c_of h M e k"
    and free: "sp2c_of h M (T i) k \<or> s2_valid (T i) = 0 \<and> m k = None"
  shows "sp2c_rep h M (m(k \<mapsto> ucast (s2_vid e))) (T(i := e))"
proof -
  note rep = sp2c_repD [OF assms(2)]
  have only: "j = i" if "j < 128" "sp2c_of h M (T j) k" for j
    using free
  proof
    assume "sp2c_of h M (T i) k"
    with rep(3) that assms(3) show ?thesis by blast
  next
    assume "s2_valid (T i) = 0 \<and> m k = None"
    then have "k \<notin> dom m" by auto
    with sp2c_rep_dom [OF assms(2), of k] that show ?thesis by blast
  qed
  have other: "k' = k" if "sp2c_of h M (T i) k'" for k'
    using free that sp2c_of_key [OF assms(1) that] by (auto simp: sp2c_of_def)
  show ?thesis
    unfolding sp2c_rep_def
  proof (intro conjI allI impI)
    fix k' v
    show "(m(k \<mapsto> ucast (s2_vid e))) k' = Some v \<longleftrightarrow> (\<exists>j<128. sp2c_of h M ((T(i := e)) j) k' \<and> v = ucast (s2_vid ((T(i := e)) j)))"
    proof (cases "k' = k")
      case True
      with only e assms(3) show ?thesis by auto
    next
      case False
      have "sp2c_of h M ((T(i := e)) j) k' \<and> v = ucast (s2_vid ((T(i := e)) j)) \<longleftrightarrow> sp2c_of h M (T j) k' \<and> v = ucast (s2_vid (T j))" for j
        using False other [of k'] sp2c_of_key [OF assms(1) e, of k'] by (cases "j = i") auto
      with rep(1) [of k' v] False show ?thesis by simp
    qed
  next
    fix j assume "j < 128" "s2_valid ((T(i := e)) j) = 1"
    then show "\<exists>k. sp2c_of h M ((T(i := e)) j) k"
    proof (cases "j = i")
      case True
      with e show ?thesis by (intro exI [of _ k]) simp
    next
      case False
      with rep(2) [of j] \<open>j < 128\<close> \<open>s2_valid ((T(i := e)) j) = 1\<close> show ?thesis by (simp del: split_paired_Ex)
    qed
  next
    fix a b k' assume ab: "a < 128" "b < 128" "sp2c_of h M ((T(i := e)) a) k' \<and> sp2c_of h M ((T(i := e)) b) k'"
    show "a = b"
    proof (cases "a = i \<or> b = i")
      case True
      with ab have "sp2c_of h M e k'" by auto
      with sp2c_of_key [OF assms(1) e] have "k' = k" by blast
      moreover have "x = i" if "x < 128" "sp2c_of h M ((T(i := e)) x) k" for x using only that by (cases "x = i") auto
      ultimately show ?thesis using ab by metis
    next
      case False
      with ab rep(3) [of a b k'] show ?thesis by simp
    qed
  qed
qed

lemma sp2c_rep_clear:
  assumes "hal_wf h" and "sp2c_rep h M m T" and "i < 128" and "sp2c_of h M (T i) k"
  shows "sp2c_rep h M (m(k := None)) (T(i := s2c0))"
proof -
  note rep = sp2c_repD [OF assms(2)]
  have blank: "\<not> sp2c_of h M s2c0 k'" for k' by (simp add: sp2c_of_def s2c0_def)
  have only: "j = i" if "j < 128" "sp2c_of h M (T j) k" for j using rep(3) that assms(3,4) by blast
  show ?thesis
    unfolding sp2c_rep_def
  proof (intro conjI allI impI)
    fix k' v
    show "(m(k := None)) k' = Some v \<longleftrightarrow> (\<exists>j<128. sp2c_of h M ((T(i := s2c0)) j) k' \<and> v = ucast (s2_vid ((T(i := s2c0)) j)))"
    proof (cases "k' = k")
      case True
      with only blank show ?thesis by auto
    next
      case False
      have "sp2c_of h M ((T(i := s2c0)) j) k' \<and> v = ucast (s2_vid ((T(i := s2c0)) j)) \<longleftrightarrow> sp2c_of h M (T j) k' \<and> v = ucast (s2_vid (T j))" for j
        using False blank sp2c_of_key [OF assms(1,4), of k'] by (cases "j = i") auto
      with rep(1) [of k' v] False show ?thesis by simp
    qed
  next
    fix j assume "j < 128" "s2_valid ((T(i := s2c0)) j) = 1"
    with rep(2) show "\<exists>k. sp2c_of h M ((T(i := s2c0)) j) k" by (cases "j = i") (auto simp: s2c0_def)
  next
    fix a b k' assume "a < 128" "b < 128" "sp2c_of h M ((T(i := s2c0)) a) k' \<and> sp2c_of h M ((T(i := s2c0)) b) k'"
    with rep(3) [of a b k'] blank show "a = b" by (cases "a = i"; cases "b = i") simp_all
  qed
qed


section \<open>The loops\<close>

lemma word1_cases: "(v :: 1 word) = 0 \<or> v = 1"
proof -
  have "unat v < 2" using unsigned_less [of v] by simp
  then show ?thesis by (auto simp: word_unat_eq_iff less_2_cases_iff)
qed

primrec sp2c_pick :: "(nat \<Rightarrow> rtl8367c_svlan_s2c_t) \<Rightarrow> (nat \<Rightarrow> bool) \<Rightarrow> nat list \<Rightarrow> nat option \<Rightarrow> nat option" where
  "sp2c_pick T P [] e = e"
| "sp2c_pick T P (i # is) e = (if P i then Some i else sp2c_pick T P is (if s2_valid (T i) = 0 then Some i else e))"

lemma sp2c_pick_there: "\<exists>i \<in> set is. P i \<Longrightarrow> \<exists>i \<in> set is. P i \<and> sp2c_pick T P is e = Some i"
  by (induction "is" arbitrary: e) auto

lemma sp2c_pick_free:
  "\<forall>i \<in> set is. \<not> P i \<Longrightarrow> sp2c_pick T P is e = Some k \<Longrightarrow> e = Some k \<or> k \<in> set is \<and> s2_valid (T k) = 0"
proof (induction "is" arbitrary: e)
  case (Cons i "is")
  from Cons.IH [of "if s2_valid (T i) = 0 then Some i else e"] Cons.prems show ?case by (auto split: if_splits)
qed simp

lemma sp2c_pick_None: "sp2c_pick T P is e = None \<Longrightarrow> e = None \<and> (\<forall>i \<in> set is. s2_valid (T i) \<noteq> 0)"
  by (induction "is" arbitrary: e) (auto split: if_splits)

lemma wp_sp2c_slot:
  assumes "cfg_regs \<subseteq> A" and "set is \<subseteq> {..<128}" and "Q (Ok (sp2c_pick (sp2c_tab c) (\<lambda>i. sp2c_maps k port (sp2c_tab c i)) is e)) c"
  shows "wp view A (sp2c_slot k port is e) Q c"
  using assms(2,3)
proof (induction "is" arbitrary: e)
  case (Cons i "is")
  have "wp view A (if sp2c_maps k port (sp2c_tab c i) then okE (Some i)
      else sp2c_slot k port is (if s2_valid (sp2c_tab c i) = 0 then Some i else e)) Q c"
    using Cons by (auto intro!: wp_okE)
  with Cons.prems(1) assms(1) show ?case by (auto intro!: wp_bindE wp_getSP2C simp: idx64)
qed (simp add: wp_okE)

lemma sp2c_maps_of:
  assumes "svid_index M svid = Some k" and "valid_port h p"
  shows "sp2c_maps k (phy_of h p) e \<longleftrightarrow> sp2c_of h M e (svid, p)"
proof -
  have "k < 64" using svid_indexD [OF assms(1)] by blast
  moreover have "unat (s2_svidx e) < 64" using unsigned_less [of "s2_svidx e"] by simp
  moreover from this have "take_bit 32 (unat (s2_svidx e)) = unat (s2_svidx e)" by (simp add: take_bit_nat_eq_self)
  ultimately have "ucast (s2_svidx e) = (of_nat k :: u32) \<longleftrightarrow> k = unat (s2_svidx e)"
    by (auto simp: word_unat_eq_iff unat_of_nat unsigned_ucast_eq)
  with assms show ?thesis by (auto simp: sp2c_maps_def sp2c_of_def)
qed

section \<open>The calls\<close>

definition sp2c_rel :: "rtk_switch_halCtrl_t \<Rightarrow> u32 set \<Rightarrow> (nat \<Rightarrow> rtl8367c_svlan_memconf_t) \<Rightarrow> sp2c_map \<Rightarrow> swt \<Rightarrow> bool" where
  "sp2c_rel h A M m c \<longleftrightarrow> cfg_regs \<subseteq> A \<and> hal_wf h \<and> svx h M c \<and> sp2c_rep h M m (sp2c_tab c)"

definition sv_known :: "(nat \<Rightarrow> rtl8367c_svlan_memconf_t) \<Rightarrow> u32 set" where
  "sv_known M = {svid. svid_index M svid \<noteq> None}"

lemma sp2c_tab_put: "i < 128 \<Longrightarrow> j < 128 \<Longrightarrow> sp2c_tab (put_sp2c (of_nat i) e c) j = ((sp2c_tab c)(i := e)) j"
  by (subst sp2c_t.row_put) (auto simp: idx64 idx64_eq)

lemma sp2c_rep_tab: "(\<And>j. j < 128 \<Longrightarrow> T' j = T j) \<Longrightarrow> sp2c_rep h M m T' = sp2c_rep h M m T"
  by (simp add: sp2c_rep_def del: split_paired_All split_paired_Ex cong: conj_cong)

lemma sp2c_rel_put:
  assumes "sp2c_rel h A M m c" and "i < 128" and "sp2c_rep h M m' ((sp2c_tab c)(i := e))"
  shows "sp2c_rel h A M m' (put_sp2c (of_nat i) e c)"
proof -
  have "sp2c_rep h M m' (sp2c_tab (put_sp2c (of_nat i) e c))"
    using assms(3) sp2c_rep_tab [of "sp2c_tab (put_sp2c (of_nat i) e c)" "(sp2c_tab c)(i := e)"] sp2c_tab_put [OF assms(2)] by blast
  with assms(1,2) show ?thesis by (simp add: sp2c_rel_def svx_put)
qed

text \<open>The common shape: the arguments are checked, the service VLAN is looked up.\<close>

lemma wp_sp2c_checked:
  fixes m :: "('d gsw, 'r) drv"
  assumes rel: "sp2c_rel h A M mm c"
    and m: "\<And>s. ready s h \<Longrightarrow> m s = (if svid > 0xFFF then (Err RT_ERR_SVLAN_VID, s) else if cvid > 0xFFF then (Err RT_ERR_VLAN_VID, s)
      else if \<not> valid_port h p then (Err RT_ERR_PORT_ID, s) else bindE (svidx_of svid RT_ERR_SVLAN_ENTRY_NOT_FOUND) k s)"
    and bad: "\<And>e. sp2c_checked h (sv_known M) svid cvid p = Some e \<Longrightarrow> Q (Err e) c"
    and good: "\<And>i. sp2c_checked h (sv_known M) svid cvid p = None \<Longrightarrow> svid_index M svid = Some i \<Longrightarrow> wp view A (k i) Q c"
  shows "wp view A m Q c"
proof -
  have ready: "sw_ready c h" and A: "cfg_regs \<subseteq> A" and c: "svx h M c" using rel by (auto simp: sp2c_rel_def svx_def svlan_inv_def)
  have refused: ?thesis if "sp2c_checked h (sv_known M) svid cvid p = Some e" and "\<And>s. ready s h \<Longrightarrow> m s = (Err e, s)" for e
  proof (rule wp_refused [OF ready])
    show "\<And>s. ready s h \<Longrightarrow> m s = (Err e, s)" by fact
    show "Q (Err e) c" by (rule bad [OF that(1)])
  qed
  consider "svid > 0xFFF" | "\<not> svid > 0xFFF" "cvid > 0xFFF" | "\<not> svid > 0xFFF" "\<not> cvid > 0xFFF" "\<not> valid_port h p"
    | "\<not> svid > 0xFFF" "\<not> cvid > 0xFFF" "valid_port h p" by blast
  then show ?thesis
  proof cases
    case 1
    with m show ?thesis by (intro refused) (simp_all add: sp2c_checked_def)
  next
    case 2
    with m show ?thesis by (intro refused) (simp_all add: sp2c_checked_def)
  next
    case 3
    with m show ?thesis by (intro refused) (simp_all add: sp2c_checked_def)
  next
    case 4
    have "wp view A (bindE (svidx_of svid RT_ERR_SVLAN_ENTRY_NOT_FOUND) k) Q c"
    proof (intro wp_bindE wp_svidx_of [OF A c], cases "svid_index M svid")
      case None
      with 4 bad [of RT_ERR_SVLAN_ENTRY_NOT_FOUND] show "case case svid_index M svid of None \<Rightarrow> Err RT_ERR_SVLAN_ENTRY_NOT_FOUND | Some i \<Rightarrow> Ok i of
          Ok a \<Rightarrow> wp view A (k a) Q c | Err x \<Rightarrow> Q (Err x) c | Fault \<Rightarrow> Q Fault c"
        by (simp add: sp2c_checked_def sv_known_def not_less)
    next
      case (Some i)
      with 4 good [of i] show "case case svid_index M svid of None \<Rightarrow> Err RT_ERR_SVLAN_ENTRY_NOT_FOUND | Some i \<Rightarrow> Ok i of
          Ok a \<Rightarrow> wp view A (k a) Q c | Err x \<Rightarrow> Q (Err x) c | Fault \<Rightarrow> Q Fault c"
        by (simp add: sp2c_checked_def sv_known_def not_less)
    qed
    then show ?thesis by (rule wp_same_run [OF ready, rotated]) (use m 4 in auto)
  qed
qed


lemma wp_sp2c_search:
  assumes "cfg_regs \<subseteq> A" and "Q (Ok (map_option (\<lambda>i. (i, sp2c_tab c i)) (List.find (\<lambda>i. P (sp2c_tab c i)) [0..<128]))) c"
  shows "wp view A (searchE (\<lambda>i. rtl8367c_getAsicSvlanSP2CConf (of_nat i)) P [0..<128]) Q c"
  using assms by (intro wp_searchE [where T = "sp2c_tab c"] wp_getSP2C) (auto simp: idx64)

lemma sp2c_find:
  assumes "sp2c_rep h M m T"
  shows "List.find (\<lambda>i. sp2c_of h M (T i) k) [0..<128] = None \<Longrightarrow> m k = None"
    and "List.find (\<lambda>i. sp2c_of h M (T i) k) [0..<128] = Some i \<Longrightarrow> i < 128 \<and> sp2c_of h M (T i) k \<and> m k = Some (ucast (s2_vid (T i)))"
proof -
  assume "List.find (\<lambda>i. sp2c_of h M (T i) k) [0..<128] = None"
  then show "m k = None" using sp2c_repD(1) [OF assms, of k] by (cases "m k") (auto simp: find_None_iff)
next
  assume "List.find (\<lambda>i. sp2c_of h M (T i) k) [0..<128] = Some i"
  then have "i < 128" "sp2c_of h M (T i) k" by (auto simp: find_Some_iff)
  with sp2c_repD(1) [OF assms, of k "ucast (s2_vid (T i))"] show "i < 128 \<and> sp2c_of h M (T i) k \<and> m k = Some (ucast (s2_vid (T i)))" by blast
qed

lemma sp2c_entry:
  fixes cvid :: u32
  assumes "hal_wf h" and "svid_index M svid = Some k" and "valid_port h p" and "cvid \<le> 0xFFF"
  defines "e \<equiv> \<lparr>s2_valid = 1, s2_svidx = of_nat k, s2_dstport = ucast (phy_of h p), s2_vid = ucast cvid\<rparr>"
  shows "ucast (s2_vid e) = cvid" and "sp2c_of h M e (svid, p)"
proof -
  have "k < 64" using svid_indexD [OF assms(2)] by blast
  then have k: "unat (of_nat k :: 6 word) = k" by (simp add: unat_of_nat)
  have "unat (phy_of h p) < 16" using phy_of_le [OF assms(1,3)] by (simp add: word_le_nat_alt)
  then have "unat (ucast (ucast (phy_of h p) :: 4 word) :: u32) = unat (phy_of h p)" by (simp add: unsigned_ucast_eq unsigned_take_bit_eq take_bit_nat_eq_self)
  then have p: "ucast (ucast (phy_of h p) :: 4 word) = phy_of h p" by (simp only: word_unat_eq_iff)
  have "unat cvid < 4096" using assms(4) by (simp add: word_le_nat_alt)
  then have "unat (ucast (ucast cvid :: 12 word) :: u32) = unat cvid" by (simp add: unsigned_ucast_eq unsigned_take_bit_eq take_bit_nat_eq_self)
  then show "ucast (s2_vid e) = cvid" by (simp only: word_unat_eq_iff) (simp add: e_def)
  show "sp2c_of h M e (svid, p)" using assms(2,3) k p by (simp add: sp2c_of_def e_def)
qed

lemma wp_sp2c_add:
  assumes "sp2c_rel h A M m c"
  shows "wp view A (sp2c_call (Sp2cAdd svid p cvid))
     (\<lambda>r c'. r = fst (sp2c_spec h (sv_known M) (Sp2cAdd svid p cvid) m) \<and> sp2c_rel h A M (snd (sp2c_spec h (sv_known M) (Sp2cAdd svid p cvid) m)) c') c"
    (is "wp _ _ _ ?Q _")
  unfolding sp2c_call.simps no_result_def
proof (rule wp_thenE, rule wp_sp2c_checked [OF assms, where svid = svid and cvid = cvid and p = p])
  fix s :: "'a gsw" assume ready: "ready s h"
  show "rtk_svlan_sp2c_add svid p cvid s = (if svid > 0xFFF then (Err RT_ERR_SVLAN_VID, s) else if cvid > 0xFFF then (Err RT_ERR_VLAN_VID, s)
      else if \<not> valid_port h p then (Err RT_ERR_PORT_ID, s) else bindE (svidx_of svid RT_ERR_SVLAN_ENTRY_NOT_FOUND) (\<lambda>svidx.
        bindE (sp2c_slot svidx (phy_of h p) (rev [0..<128]) None) (\<lambda>empty_idx. case empty_idx of
          None \<Rightarrow> errE RT_ERR_OUT_OF_RANGE
        | Some i \<Rightarrow> rtl8367c_setAsicSvlanSP2CConf (of_nat i)
          \<lparr>s2_valid = 1, s2_svidx = of_nat svidx, s2_dstport = ucast (phy_of h p), s2_vid = ucast cvid\<rparr>)) s)"
    by (simp add: rtk_svlan_sp2c_add_def chk_then [OF ready] L2P_bind [OF ready])
next
  fix k assume ok: "sp2c_checked h (sv_known M) svid cvid p = None" and k: "svid_index M svid = Some k"
  from ok have args: "cvid \<le> 0xFFF" "valid_port h p" by (auto simp: sp2c_checked_def not_less split: if_splits)
  have A: "cfg_regs \<subseteq> A" and h: "hal_wf h" and rep: "sp2c_rep h M m (sp2c_tab c)" using assms by (auto simp: sp2c_rel_def)
  let ?e = "\<lparr>s2_valid = 1, s2_svidx = of_nat k, s2_dstport = ucast (phy_of h p), s2_vid = ucast cvid\<rparr>"
  let ?P = "\<lambda>i. sp2c_of h M (sp2c_tab c i) (svid, p)"
  note e = sp2c_entry [OF h k args(2,1)]
  let ?pick = "sp2c_pick (sp2c_tab c) (\<lambda>i. sp2c_maps k (phy_of h p) (sp2c_tab c i)) (rev [0..<128]) None"
  have put: "wp view A (rtl8367c_setAsicSvlanSP2CConf (of_nat i) ?e)
      (\<lambda>r c'. case r of Ok a \<Rightarrow> wp view A (okE []) ?Q c' | Err e \<Rightarrow> ?Q (Err e) c' | Fault \<Rightarrow> ?Q Fault c') c"
    if "i < 128" and "?P i \<or> s2_valid (sp2c_tab c i) = 0 \<and> m (svid, p) = None" and "m (svid, p) = None \<Longrightarrow> card (dom m) \<noteq> 128" for i
    using sp2c_rel_put [OF assms that(1) sp2c_rep_put [OF h rep that(1) e(2) that(2)]] that(1,3) A
    by (auto intro!: wp_setSP2C wp_okE simp: idx64 ok e(1) [simplified])
  have "wp view A (case ?pick of None \<Rightarrow> errE RT_ERR_OUT_OF_RANGE | Some i \<Rightarrow> rtl8367c_setAsicSvlanSP2CConf (of_nat i) ?e)
      (\<lambda>r c'. case r of Ok a \<Rightarrow> wp view A (okE []) ?Q c' | Err e \<Rightarrow> ?Q (Err e) c' | Fault \<Rightarrow> ?Q Fault c') c"
  proof (cases "\<exists>i<128. ?P i")
    case True
    then have "\<exists>i \<in> set (rev [0..<128]). ?P i" by auto
    from sp2c_pick_there [OF this, of "sp2c_tab c" None] obtain i where i: "i < 128" "?P i" "?pick = Some i"
      by (auto simp: sp2c_maps_of [OF k args(2)])
    with put [OF i(1)] sp2c_rep_dom [OF rep, of "(svid, p)"] show ?thesis by auto
  next
    case False
    with sp2c_rep_dom [OF rep, of "(svid, p)"] have none: "m (svid, p) = None" by auto
    show ?thesis
    proof (cases ?pick)
      case None
      from sp2c_pick_None [OF this] have "\<forall>i<128. s2_valid (sp2c_tab c i) \<noteq> 0" by simp
      then have "\<forall>i<128. s2_valid (sp2c_tab c i) = 1" using word1_cases by blast
      with None assms ok none show ?thesis by (auto intro!: wp_errE simp: sp2c_rep_full [OF h rep])
    next
      case (Some i)
      with False sp2c_pick_free [of "rev [0..<128]" ?P "sp2c_tab c" None i] have i: "i < 128" "s2_valid (sp2c_tab c i) = 0"
        by (auto simp: sp2c_maps_of [OF k args(2)])
      with put [OF i(1)] none Some sp2c_rep_full [OF h rep] show ?thesis by auto
    qed
  qed
  then show "wp view A (bindE (sp2c_slot k (phy_of h p) (rev [0..<128]) None) (\<lambda>empty_idx. case empty_idx of
          None \<Rightarrow> errE RT_ERR_OUT_OF_RANGE
        | Some i \<Rightarrow> rtl8367c_setAsicSvlanSP2CConf (of_nat i) ?e))
      (\<lambda>r c'. case r of Ok a \<Rightarrow> wp view A (okE []) ?Q c' | Err e \<Rightarrow> ?Q (Err e) c' | Fault \<Rightarrow> ?Q Fault c') c"
    by (intro wp_bindE wp_sp2c_slot A) (simp_all, auto)
qed (use assms in auto)

lemma wp_sp2c_del:
  assumes "sp2c_rel h A M m c"
  shows "wp view A (sp2c_call (Sp2cDel svid p))
     (\<lambda>r c'. r = fst (sp2c_spec h (sv_known M) (Sp2cDel svid p) m) \<and> sp2c_rel h A M (snd (sp2c_spec h (sv_known M) (Sp2cDel svid p) m)) c') c"
    (is "wp _ _ _ ?Q _")
  unfolding sp2c_call.simps no_result_def
proof (rule wp_thenE, rule wp_sp2c_checked [OF assms, where svid = svid and cvid = 0 and p = p])
  fix s :: "'a gsw" assume ready: "ready s h"
  show "rtk_svlan_sp2c_del svid p s = (if svid > 0xFFF then (Err RT_ERR_SVLAN_VID, s) else if (0 :: u32) > 0xFFF then (Err RT_ERR_VLAN_VID, s)
      else if \<not> valid_port h p then (Err RT_ERR_PORT_ID, s) else bindE (svidx_of svid RT_ERR_SVLAN_ENTRY_NOT_FOUND) (\<lambda>svidx.
        bindE (searchE (\<lambda>i. rtl8367c_getAsicSvlanSP2CConf (of_nat i)) (sp2c_maps svidx (phy_of h p)) [0..<128]) (\<lambda>r. case r of
        None \<Rightarrow> errE RT_ERR_OUT_OF_RANGE | Some (i, _) \<Rightarrow> rtl8367c_setAsicSvlanSP2CConf (of_nat i) s2c0)) s)"
    by (simp add: rtk_svlan_sp2c_del_def chk_then [OF ready] L2P_bind [OF ready])
next
  fix k assume ok: "sp2c_checked h (sv_known M) svid 0 p = None" and k: "svid_index M svid = Some k"
  from ok have args: "valid_port h p" by (auto simp: sp2c_checked_def split: if_splits)
  have A: "cfg_regs \<subseteq> A" and h: "hal_wf h" and rep: "sp2c_rep h M m (sp2c_tab c)" using assms by (auto simp: sp2c_rel_def)
  let ?find = "List.find (\<lambda>i. sp2c_of h M (sp2c_tab c i) (svid, p)) [0..<128]"
  have "wp view A (case map_option (\<lambda>i. (i, sp2c_tab c i)) ?find of None \<Rightarrow> errE RT_ERR_OUT_OF_RANGE | Some (i, _) \<Rightarrow> rtl8367c_setAsicSvlanSP2CConf (of_nat i) s2c0)
      (\<lambda>r c'. case r of Ok a \<Rightarrow> wp view A (okE []) ?Q c' | Err e \<Rightarrow> ?Q (Err e) c' | Fault \<Rightarrow> ?Q Fault c') c"
  proof (cases ?find)
    case None
    with sp2c_find(1) [OF rep None] assms ok show ?thesis by (auto intro!: wp_errE)
  next
    case (Some i)
    from sp2c_find(2) [OF rep Some] have i: "i < 128" "sp2c_of h M (sp2c_tab c i) (svid, p)" "m (svid, p) \<noteq> None" by auto
    with sp2c_rel_put [OF assms i(1) sp2c_rep_clear [OF h rep i(1,2)]] Some ok A show ?thesis
      by (auto intro!: wp_setSP2C wp_okE simp: idx64)
  qed
  then show "wp view A (bindE (searchE (\<lambda>i. rtl8367c_getAsicSvlanSP2CConf (of_nat i)) (sp2c_maps k (phy_of h p)) [0..<128]) (\<lambda>r. case r of
        None \<Rightarrow> errE RT_ERR_OUT_OF_RANGE | Some (i, _) \<Rightarrow> rtl8367c_setAsicSvlanSP2CConf (of_nat i) s2c0))
      (\<lambda>r c'. case r of Ok a \<Rightarrow> wp view A (okE []) ?Q c' | Err e \<Rightarrow> ?Q (Err e) c' | Fault \<Rightarrow> ?Q Fault c') c"
    by (intro wp_bindE wp_sp2c_search A) (simp add: sp2c_maps_of [OF k args])
qed (use assms in auto)

lemma wp_sp2c_get:
  assumes "sp2c_rel h A M m c"
  shows "wp view A (sp2c_call (Sp2cGet svid p q))
     (\<lambda>r c'. r = fst (sp2c_spec h (sv_known M) (Sp2cGet svid p q) m) \<and> sp2c_rel h A M (snd (sp2c_spec h (sv_known M) (Sp2cGet svid p q) m)) c') c"
    (is "wp _ _ _ ?Q _")
proof (cases "q = NULLP")
  case True
  have ready: "sw_ready c h" using assms by (auto simp: sp2c_rel_def svx_def svlan_inv_def)
  show ?thesis
    by (rule wp_refused [OF ready, where r = "Err RT_ERR_NULL_POINTER"])
      (use True assms in \<open>simp_all add: one_result_def bindE_def rtk_svlan_sp2c_get_def chk_then\<close>)
next
  case False
  have A: "cfg_regs \<subseteq> A" and h: "hal_wf h" and rep: "sp2c_rep h M m (sp2c_tab c)" using assms by (auto simp: sp2c_rel_def)
  show ?thesis
    unfolding sp2c_call.simps one_result_def
  proof (rule wp_bindE, rule wp_sp2c_checked [OF assms, where svid = svid and cvid = 0 and p = p])
    fix s :: "'a gsw" assume ready: "ready s h"
    show "rtk_svlan_sp2c_get svid p q s = (if svid > 0xFFF then (Err RT_ERR_SVLAN_VID, s) else if (0 :: u32) > 0xFFF then (Err RT_ERR_VLAN_VID, s)
        else if \<not> valid_port h p then (Err RT_ERR_PORT_ID, s) else bindE (svidx_of svid RT_ERR_SVLAN_ENTRY_NOT_FOUND) (\<lambda>svidx.
          bindE (searchE (\<lambda>i. rtl8367c_getAsicSvlanSP2CConf (of_nat i)) (sp2c_maps svidx (phy_of h p)) [0..<128]) (\<lambda>r. case r of
          None \<Rightarrow> errE RT_ERR_OUT_OF_RANGE | Some (_, e) \<Rightarrow> okE (ucast (s2_vid e)))) s)"
      using False by (simp add: rtk_svlan_sp2c_get_def chk_then [OF ready] L2P_bind [OF ready])
  next
    fix k assume ok: "sp2c_checked h (sv_known M) svid 0 p = None" and k: "svid_index M svid = Some k"
    from ok have args: "valid_port h p" by (auto simp: sp2c_checked_def split: if_splits)
    let ?find = "List.find (\<lambda>i. sp2c_of h M (sp2c_tab c i) (svid, p)) [0..<128]"
    have "wp view A (case map_option (\<lambda>i. (i, sp2c_tab c i)) ?find of None \<Rightarrow> errE RT_ERR_OUT_OF_RANGE | Some (_, e) \<Rightarrow> okE (ucast (s2_vid e)))
        (\<lambda>r c'. case r of Ok v \<Rightarrow> wp view A (okE [v]) ?Q c' | Err e \<Rightarrow> ?Q (Err e) c' | Fault \<Rightarrow> ?Q Fault c') c"
      using sp2c_find [OF rep, of "(svid, p)"] assms ok False by (cases ?find) (auto intro!: wp_errE wp_okE)
    then show "wp view A (bindE (searchE (\<lambda>i. rtl8367c_getAsicSvlanSP2CConf (of_nat i)) (sp2c_maps k (phy_of h p)) [0..<128]) (\<lambda>r. case r of
          None \<Rightarrow> errE RT_ERR_OUT_OF_RANGE | Some (_, e) \<Rightarrow> okE (ucast (s2_vid e))))
        (\<lambda>r c'. case r of Ok v \<Rightarrow> wp view A (okE [v]) ?Q c' | Err e \<Rightarrow> ?Q (Err e) c' | Fault \<Rightarrow> ?Q Fault c') c"
      by (intro wp_bindE wp_sp2c_search A) (simp add: sp2c_maps_of [OF k args])
  qed (use assms False in auto)
qed

interpretation sp2c_unit: simulated_unit "sp2c_rel h A M" "sp2c_spec h (sv_known M)" sp2c_call view A for h A M and view :: "'d \<Rightarrow> chip_view"
proof
  show "wp view A (sp2c_call x) (\<lambda>r c'. r = fst (sp2c_spec h (sv_known M) x m) \<and> sp2c_rel h A M (snd (sp2c_spec h (sv_known M) x m)) c') c"
    if "sp2c_rel h A M m c" for m c x
    by (cases x) (use that in \<open>simp_all only: wp_sp2c_add wp_sp2c_del wp_sp2c_get\<close>)
qed

text \<open>
  C37. From a table without entries, every sequence of calls that add, delete and look up the C-VLAN of
  a service VLAN and port returns what a finite map of at most 128 pairs returns: a mapping that was
  added is found until it is deleted or replaced, other pairs are unaffected, and only when 128 pairs
  are mapped is a new one refused.  The service VLANs that can be named are those with a member
  configuration.
\<close>

theorem sp2c_calls_refine:
  assumes "svlan_up view A h s" and "\<forall>i<128. s2_valid (hw_sp2c (of_nat i) (swt_of view s)) = 0"
  shows "\<exists>s'. run_calls sp2c_call xs s =
     (fst (spec_calls (sp2c_spec h {svid. \<exists>i<64. ucast (vs_svid (hw_svmbr (of_nat i) (swt_of view s))) = svid}) xs (\<lambda>_. None)), s')"
proof -
  note up = svlan_upD [OF assms(1)]
  let ?M = "\<lambda>i. hw_svmbr (of_nat i) (swt_of view s)"
  have known: "sv_known ?M = {svid. \<exists>i<64. ucast (vs_svid (?M i)) = svid}"
    by (auto simp: sv_known_def svid_index_def find_None_iff)
  have "sp2c_rep h ?M (\<lambda>_. None) (sp2c_tab (swt_of view s))"
    using assms(2) by (auto simp: sp2c_rep_def sp2c_of_def)
  then have "sp2c_rel h A ?M (\<lambda>_. None) (swt_of view s)" by (simp add: sp2c_rel_def up svx_up [OF assms(1)])
  from sp2c_unit.calls_rel [OF up(1) this, of xs] show ?thesis unfolding known by blast
qed

theorem sp2c_calls_refine_witness:
  "\<exists>s'. run_calls sp2c_call [Sp2cAdd 0 2 7, Sp2cGet 0 2 PTR, Sp2cGet 0 3 PTR, Sp2cAdd 0 2 9, Sp2cGet 0 2 PTR, Sp2cDel 0 2, Sp2cGet 0 2 PTR]
      (sim_gsw 1 (Some rtl8367c_hal_Ctrl)) =
     ([Ok [], Ok [7], Err RT_ERR_OUT_OF_RANGE, Ok [], Ok [9], Ok [], Err RT_ERR_OUT_OF_RANGE], s')"
proof -
  have h: "hal_wf rtl8367c_hal_Ctrl" "valid_port rtl8367c_hal_Ctrl 2" "valid_port rtl8367c_hal_Ctrl 3"
    using hal_tables_wf(1) by code_simp+
  have known: "{svid :: u32. \<exists>i<64. ucast (vs_svid (hw_svmbr (of_nat i) (swt_of sim_view (sim_gsw 1 (Some rtl8367c_hal_Ctrl))))) = svid} = {0}"
    by (auto simp: sim_svlan_up [OF h(1)] memconf0_def intro: exI [of _ 0])
  have blank: "\<forall>i<128. s2_valid (hw_sp2c (of_nat i) (swt_of sim_view (sim_gsw 1 (Some rtl8367c_hal_Ctrl)))) = 0"
    by (simp add: row_def swt_of_def sim_dev0_def sim_view0_def svlanSp2cStSmi2User_def)
  let ?xs = "[Sp2cAdd 0 2 7, Sp2cGet 0 2 PTR, Sp2cGet 0 3 PTR, Sp2cAdd 0 2 9, Sp2cGet 0 2 PTR, Sp2cDel 0 2, Sp2cGet 0 2 PTR]"
  have "fst (spec_calls (sp2c_spec rtl8367c_hal_Ctrl {0}) ?xs (\<lambda>_. None)) =
      [Ok [], Ok [7], Err RT_ERR_OUT_OF_RANGE, Ok [], Ok [9], Ok [], Err RT_ERR_OUT_OF_RANGE]"
    by (simp add: sp2c_checked_def h)
  with sp2c_calls_refine [OF sim_svlan_up(1) [OF h(1)] blank, of ?xs] show ?thesis unfolding known by simp
qed

end
