(* ===== verification/Cpu.thy ===== *)
theory Cpu
  imports Mirror
begin

text \<open>
  The CPU port: \<open>rtl8367c_asicdrv_cputag.c\<close> and \<open>cpu.c\<close>.  Frames trapped to the port of the host
  carry a tag; the unit holds the port, the set of ports that understand the tag, and the format of
  the tag.
\<close>

section \<open>Registers\<close>

abbreviation (input) RTL8367C_REG_CPU_CTRL :: u32 where "RTL8367C_REG_CPU_CTRL \<equiv> 0x121A"
abbreviation (input) RTL8367C_CPU_PORT_MASK_REG :: u32 where "RTL8367C_CPU_PORT_MASK_REG \<equiv> 0x1219"
abbreviation (input) RTL8367C_CPU_EN_OFFSET :: u32 where "RTL8367C_CPU_EN_OFFSET \<equiv> 0"
abbreviation (input) RTL8367C_CPU_INSERTMODE_MASK :: u32 where "RTL8367C_CPU_INSERTMODE_MASK \<equiv> 0x6"
abbreviation (input) RTL8367C_CPU_TRAP_PORT_MASK :: u32 where "RTL8367C_CPU_TRAP_PORT_MASK \<equiv> 0x38"
abbreviation (input) RTL8367C_CPU_TAG_POSITION_OFFSET :: u32 where "RTL8367C_CPU_TAG_POSITION_OFFSET \<equiv> 6"
abbreviation (input) RTL8367C_CPU_TAG_RXBYTECOUNT_OFFSET :: u32 where "RTL8367C_CPU_TAG_RXBYTECOUNT_OFFSET \<equiv> 7"
abbreviation (input) RTL8367C_CPU_TAG_FORMAT_OFFSET :: u32 where "RTL8367C_CPU_TAG_FORMAT_OFFSET \<equiv> 9"
abbreviation (input) RTL8367C_CPU_TRAP_PORT_EXT_MASK :: u32 where "RTL8367C_CPU_TRAP_PORT_EXT_MASK \<equiv> 0x400"
abbreviation (input) RTL8367C_QOS_PRIPORITY_REMAPPING_IN_CPU_BASE :: u32 where "RTL8367C_QOS_PRIPORITY_REMAPPING_IN_CPU_BASE \<equiv> 0x87F"
abbreviation (input) CPUTAG_INSERT_END :: u32 where "CPUTAG_INSERT_END \<equiv> 3"
abbreviation (input) CPU_INSERT_END :: u32 where "CPU_INSERT_END \<equiv> 3"
abbreviation (input) CPU_POS_END :: u32 where "CPU_POS_END \<equiv> 2"
abbreviation (input) CPU_LEN_END :: u32 where "CPU_LEN_END \<equiv> 2"
abbreviation (input) CPU_RX_END :: u32 where "CPU_RX_END \<equiv> 2"
abbreviation (input) RTL8367C_PORTNO :: u32 where "RTL8367C_PORTNO \<equiv> 11"

definition RTL8367C_QOS_PRIPORITY_REMAPPING_IN_CPU_REG :: "u32 \<Rightarrow> u32" where
  "RTL8367C_QOS_PRIPORITY_REMAPPING_IN_CPU_REG pri = RTL8367C_QOS_PRIPORITY_REMAPPING_IN_CPU_BASE + drop_bit 2 pri"

definition RTL8367C_QOS_PRIPORITY_REMAPPING_IN_CPU_MASK :: "u32 \<Rightarrow> u32" where
  "RTL8367C_QOS_PRIPORITY_REMAPPING_IN_CPU_MASK pri = push_bit (unat (push_bit 2 (pri AND 0x3))) 0x7"

section \<open>Register level\<close>

definition rtl8367c_setAsicCputagEnable :: "u32 \<Rightarrow> ('d gsw, unit) drv" where
  "rtl8367c_setAsicCputagEnable enabled =
     (if enabled > 1 then errE RT_ERR_ENABLE else rtl8367c_setAsicRegBit RTL8367C_REG_CPU_CTRL RTL8367C_CPU_EN_OFFSET enabled)"

definition rtl8367c_getAsicCputagEnable :: "('d gsw, u32) drv" where
  "rtl8367c_getAsicCputagEnable = rtl8367c_getAsicRegBit RTL8367C_REG_CPU_CTRL RTL8367C_CPU_EN_OFFSET"

definition rtl8367c_setAsicCputagTrapPort :: "u32 \<Rightarrow> ('d gsw, unit) drv" where
  "rtl8367c_setAsicCputagTrapPort port =
     (if port \<ge> RTL8367C_PORTNO then errE RT_ERR_PORT_ID
      else thenE (rtl8367c_setAsicRegBits RTL8367C_REG_CPU_CTRL RTL8367C_CPU_TRAP_PORT_MASK (port AND 7))
        (rtl8367c_setAsicRegBits RTL8367C_REG_CPU_CTRL RTL8367C_CPU_TRAP_PORT_EXT_MASK (drop_bit 3 port AND 1)))"

definition rtl8367c_getAsicCputagTrapPort :: "('d gsw, u32) drv" where
  "rtl8367c_getAsicCputagTrapPort =
     bindE (rtl8367c_getAsicRegBits RTL8367C_REG_CPU_CTRL RTL8367C_CPU_TRAP_PORT_MASK) (\<lambda>pPort.
     bindE (rtl8367c_getAsicRegBits RTL8367C_REG_CPU_CTRL RTL8367C_CPU_TRAP_PORT_EXT_MASK) (\<lambda>tmpPort.
     okE (pPort OR push_bit 3 (tmpPort AND 1))))"

definition rtl8367c_setAsicCputagPortmask :: "u32 \<Rightarrow> ('d gsw, unit) drv" where
  "rtl8367c_setAsicCputagPortmask portmask =
     (if portmask > RTL8367C_PORTMASK then errE RT_ERR_PORT_MASK else rtl8367c_setAsicReg RTL8367C_CPU_PORT_MASK_REG portmask)"

definition rtl8367c_getAsicCputagPortmask :: "('d gsw, u32) drv" where
  "rtl8367c_getAsicCputagPortmask = rtl8367c_getAsicReg RTL8367C_CPU_PORT_MASK_REG"

definition rtl8367c_setAsicCputagInsertMode :: "u32 \<Rightarrow> ('d gsw, unit) drv" where
  "rtl8367c_setAsicCputagInsertMode mode =
     (if mode \<ge> CPUTAG_INSERT_END then errE RT_ERR_NOT_ALLOWED
      else rtl8367c_setAsicRegBits RTL8367C_REG_CPU_CTRL RTL8367C_CPU_INSERTMODE_MASK mode)"

definition rtl8367c_getAsicCputagInsertMode :: "('d gsw, u32) drv" where
  "rtl8367c_getAsicCputagInsertMode = rtl8367c_getAsicRegBits RTL8367C_REG_CPU_CTRL RTL8367C_CPU_INSERTMODE_MASK"

definition rtl8367c_setAsicCputagPriorityRemapping :: "u32 \<Rightarrow> u32 \<Rightarrow> ('d gsw, unit) drv" where
  "rtl8367c_setAsicCputagPriorityRemapping srcPri newPri =
     (if srcPri > RTL8367C_PRIMAX \<or> newPri > RTL8367C_PRIMAX then errE RT_ERR_QOS_INT_PRIORITY
      else rtl8367c_setAsicRegBits (RTL8367C_QOS_PRIPORITY_REMAPPING_IN_CPU_REG srcPri)
        (RTL8367C_QOS_PRIPORITY_REMAPPING_IN_CPU_MASK srcPri) newPri)"

definition rtl8367c_getAsicCputagPriorityRemapping :: "u32 \<Rightarrow> ('d gsw, u32) drv" where
  "rtl8367c_getAsicCputagPriorityRemapping srcPri =
     (if srcPri > RTL8367C_PRIMAX then errE RT_ERR_QOS_INT_PRIORITY
      else rtl8367c_getAsicRegBits (RTL8367C_QOS_PRIPORITY_REMAPPING_IN_CPU_REG srcPri)
        (RTL8367C_QOS_PRIPORITY_REMAPPING_IN_CPU_MASK srcPri))"

definition rtl8367c_setAsicCputagPosition :: "u32 \<Rightarrow> ('d gsw, unit) drv" where
  "rtl8367c_setAsicCputagPosition position = rtl8367c_setAsicRegBit RTL8367C_REG_CPU_CTRL RTL8367C_CPU_TAG_POSITION_OFFSET position"

definition rtl8367c_getAsicCputagPosition :: "('d gsw, u32) drv" where
  "rtl8367c_getAsicCputagPosition = rtl8367c_getAsicRegBit RTL8367C_REG_CPU_CTRL RTL8367C_CPU_TAG_POSITION_OFFSET"

definition rtl8367c_setAsicCputagMode :: "u32 \<Rightarrow> ('d gsw, unit) drv" where
  "rtl8367c_setAsicCputagMode mode =
     (if mode > 1 then errE RT_ERR_INPUT else rtl8367c_setAsicRegBit RTL8367C_REG_CPU_CTRL RTL8367C_CPU_TAG_FORMAT_OFFSET mode)"

definition rtl8367c_getAsicCputagMode :: "('d gsw, u32) drv" where
  "rtl8367c_getAsicCputagMode = rtl8367c_getAsicRegBit RTL8367C_REG_CPU_CTRL RTL8367C_CPU_TAG_FORMAT_OFFSET"

definition rtl8367c_setAsicCputagRxMinLength :: "u32 \<Rightarrow> ('d gsw, unit) drv" where
  "rtl8367c_setAsicCputagRxMinLength mode =
     (if mode > 1 then errE RT_ERR_INPUT else rtl8367c_setAsicRegBit RTL8367C_REG_CPU_CTRL RTL8367C_CPU_TAG_RXBYTECOUNT_OFFSET mode)"

definition rtl8367c_getAsicCputagRxMinLength :: "('d gsw, u32) drv" where
  "rtl8367c_getAsicCputagRxMinLength = rtl8367c_getAsicRegBit RTL8367C_REG_CPU_CTRL RTL8367C_CPU_TAG_RXBYTECOUNT_OFFSET"

section \<open>API\<close>

definition rtk_cpu_enable_set :: "rtk_enable_t \<Rightarrow> ('d gsw, unit) drv" where
  "rtk_cpu_enable_set enable =
     thenE RTK_CHK_INIT_STATE
     (thenE (check_that (enable < RTK_ENABLE_END) RT_ERR_ENABLE)
     (thenE (rtl8367c_setAsicCputagEnable enable)
     (if enable = DISABLED then rtl8367c_setAsicCputagPortmask 0 else okE ())))"

definition rtk_cpu_enable_get :: "outptr \<Rightarrow> ('d gsw, rtk_enable_t) drv" where
  "rtk_cpu_enable_get pEnable = thenE RTK_CHK_INIT_STATE (thenE (not_null pEnable) rtl8367c_getAsicCputagEnable)"

text \<open>The shift by the physical port is undefined for a port number the chip does not have; the port check excludes it.\<close>

definition rtk_cpu_tagPort_set :: "rtk_port_t \<Rightarrow> u32 \<Rightarrow> ('d gsw, unit) drv" where
  "rtk_cpu_tagPort_set port mode =
     thenE RTK_CHK_INIT_STATE
     (thenE (RTK_CHK_PORT_VALID port)
     (thenE (check_that (mode < CPU_INSERT_END) RT_ERR_INPUT)
     (thenE (bindE (rtk_switch_port_L2P_get port) (\<lambda>phy.
        if unat phy \<ge> 32 then faultE else rtl8367c_setAsicCputagPortmask (push_bit (unat phy) 1)))
     (thenE (bindE (rtk_switch_port_L2P_get port) rtl8367c_setAsicCputagTrapPort)
      (rtl8367c_setAsicCputagInsertMode mode)))))"

definition rtk_cpu_tagPort_get :: "outptr \<Rightarrow> outptr \<Rightarrow> ('d gsw, rtk_port_t \<times> u32) drv" where
  "rtk_cpu_tagPort_get pPort pMode =
     thenE RTK_CHK_INIT_STATE
     (thenE (not_null pPort)
     (thenE (not_null pMode)
     (bindE rtl8367c_getAsicCputagPortmask (\<lambda>pmsk.
      bindE rtl8367c_getAsicCputagTrapPort (\<lambda>port.
      bindE (rtk_switch_port_P2L_get port) (\<lambda>lport.
      bindE rtl8367c_getAsicCputagInsertMode (\<lambda>mode. okE (lport, mode))))))))"

definition rtk_cpu_awarePort_set :: "rtk_portmask_t option \<Rightarrow> ('d gsw, unit) drv" where
  "rtk_cpu_awarePort_set pPortmask =
     thenE RTK_CHK_INIT_STATE
     (case pPortmask of None \<Rightarrow> errE RT_ERR_NULL_POINTER | Some m \<Rightarrow>
      thenE (RTK_CHK_PORTMASK_VALID (Some m))
      (bindE (mapErrE RT_ERR_FAILED (rtk_switch_portmask_L2P_get (Some m) PTR)) rtl8367c_setAsicCputagPortmask))"

definition rtk_cpu_awarePort_get :: "outptr \<Rightarrow> ('d gsw, rtk_portmask_t) drv" where
  "rtk_cpu_awarePort_get pPortmask =
     thenE RTK_CHK_INIT_STATE
     (thenE (not_null pPortmask)
     (bindE rtl8367c_getAsicCputagPortmask (\<lambda>pmsk. mapErrE RT_ERR_FAILED (rtk_switch_portmask_P2L_get pmsk pPortmask))))"

definition rtk_cpu_tagPosition_set :: "u32 \<Rightarrow> ('d gsw, unit) drv" where
  "rtk_cpu_tagPosition_set position =
     thenE RTK_CHK_INIT_STATE (thenE (check_that (position < CPU_POS_END) RT_ERR_INPUT) (rtl8367c_setAsicCputagPosition position))"

definition rtk_cpu_tagPosition_get :: "outptr \<Rightarrow> ('d gsw, u32) drv" where
  "rtk_cpu_tagPosition_get pPosition = thenE RTK_CHK_INIT_STATE (thenE (not_null pPosition) rtl8367c_getAsicCputagPosition)"

definition rtk_cpu_tagLength_set :: "u32 \<Rightarrow> ('d gsw, unit) drv" where
  "rtk_cpu_tagLength_set len =
     thenE RTK_CHK_INIT_STATE (thenE (check_that (len < CPU_LEN_END) RT_ERR_INPUT) (rtl8367c_setAsicCputagMode len))"

definition rtk_cpu_tagLength_get :: "outptr \<Rightarrow> ('d gsw, u32) drv" where
  "rtk_cpu_tagLength_get pLength = thenE RTK_CHK_INIT_STATE (thenE (not_null pLength) rtl8367c_getAsicCputagMode)"

definition rtk_cpu_priRemap_set :: "u32 \<Rightarrow> u32 \<Rightarrow> ('d gsw, unit) drv" where
  "rtk_cpu_priRemap_set int_pri new_pri =
     thenE RTK_CHK_INIT_STATE
     (thenE (check_that (\<not> (new_pri > RTL8367C_PRIMAX \<or> int_pri > RTL8367C_PRIMAX)) RT_ERR_VLAN_PRIORITY)
      (rtl8367c_setAsicCputagPriorityRemapping int_pri new_pri))"

definition rtk_cpu_priRemap_get :: "u32 \<Rightarrow> outptr \<Rightarrow> ('d gsw, u32) drv" where
  "rtk_cpu_priRemap_get int_pri pNew_pri =
     thenE RTK_CHK_INIT_STATE
     (thenE (not_null pNew_pri)
     (thenE (check_that (\<not> int_pri > RTL8367C_PRIMAX) RT_ERR_QOS_INT_PRIORITY)
      (rtl8367c_getAsicCputagPriorityRemapping int_pri)))"

definition rtk_cpu_acceptLength_set :: "u32 \<Rightarrow> ('d gsw, unit) drv" where
  "rtk_cpu_acceptLength_set len =
     thenE RTK_CHK_INIT_STATE (thenE (check_that (len < CPU_RX_END) RT_ERR_INPUT) (rtl8367c_setAsicCputagRxMinLength len))"

definition rtk_cpu_acceptLength_get :: "outptr \<Rightarrow> ('d gsw, u32) drv" where
  "rtk_cpu_acceptLength_get pLength = thenE RTK_CHK_INIT_STATE (thenE (not_null pLength) rtl8367c_getAsicCputagRxMinLength)"

section \<open>The configuration and its specification\<close>

record cpu_cfg =
  cpu_en :: u32
  cpu_port :: rtk_port_t
  cpu_mode :: u32
  cpu_aware :: rtk_portmask_t
  cpu_pos :: u32
  cpu_len :: u32
  cpu_rx :: u32
  cpu_pri :: "u32 \<Rightarrow> u32"

datatype cpu_call =
    EnableSet u32 | EnableGet outptr
  | TagPortSet rtk_port_t u32 | TagPortGet outptr outptr
  | AwareSet "rtk_portmask_t option" | AwareGet outptr
  | PositionSet u32 | PositionGet outptr
  | LengthSet u32 | LengthGet outptr
  | AcceptSet u32 | AcceptGet outptr
  | PriRemapSet u32 u32 | PriRemapGet u32 outptr

primrec cpu_run :: "cpu_call \<Rightarrow> ('d gsw, u32 list) drv" where
  "cpu_run (EnableSet e) = no_result (rtk_cpu_enable_set e)"
| "cpu_run (EnableGet p) = one_result (rtk_cpu_enable_get p)"
| "cpu_run (TagPortSet port m) = no_result (rtk_cpu_tagPort_set port m)"
| "cpu_run (TagPortGet p q) = bindE (rtk_cpu_tagPort_get p q) (\<lambda>(port, m). okE [port, m])"
| "cpu_run (AwareSet m) = no_result (rtk_cpu_awarePort_set m)"
| "cpu_run (AwareGet p) = one_result (rtk_cpu_awarePort_get p)"
| "cpu_run (PositionSet v) = no_result (rtk_cpu_tagPosition_set v)"
| "cpu_run (PositionGet p) = one_result (rtk_cpu_tagPosition_get p)"
| "cpu_run (LengthSet v) = no_result (rtk_cpu_tagLength_set v)"
| "cpu_run (LengthGet p) = one_result (rtk_cpu_tagLength_get p)"
| "cpu_run (AcceptSet v) = no_result (rtk_cpu_acceptLength_set v)"
| "cpu_run (AcceptGet p) = one_result (rtk_cpu_acceptLength_get p)"
| "cpu_run (PriRemapSet i n) = no_result (rtk_cpu_priRemap_set i n)"
| "cpu_run (PriRemapGet i p) = one_result (rtk_cpu_priRemap_get i p)"

definition storing :: "bool \<Rightarrow> rt_error \<Rightarrow> ('m \<Rightarrow> 'm) \<Rightarrow> 'm \<Rightarrow> u32 list outcome \<times> 'm" where
  "storing ok e f m = (if ok then (Ok [], f m) else (Err e, m))"

text \<open>Disabling the unit empties the set of aware ports; naming the CPU port makes it the only one.\<close>

primrec cpu_spec :: "rtk_switch_halCtrl_t \<Rightarrow> cpu_call \<Rightarrow> cpu_cfg \<Rightarrow> u32 list outcome \<times> cpu_cfg" where
  "cpu_spec h (EnableSet e) m = storing (e \<le> 1) RT_ERR_ENABLE
     (\<lambda>m. m\<lparr>cpu_en := e, cpu_aware := if e = 0 then 0 else cpu_aware m\<rparr>) m"
| "cpu_spec h (EnableGet p) m = non_null p m [cpu_en m]"
| "cpu_spec h (TagPortSet port v) m = (if \<not> valid_port h port then (Err RT_ERR_PORT_ID, m)
     else storing (v \<le> 2) RT_ERR_INPUT (\<lambda>m. m\<lparr>cpu_port := port, cpu_mode := v, cpu_aware := push_bit (unat port) 1\<rparr>) m)"
| "cpu_spec h (TagPortGet p q) m = (if p = NULLP \<or> q = NULLP then (Err RT_ERR_NULL_POINTER, m) else (Ok [cpu_port m, cpu_mode m], m))"
| "cpu_spec h (AwareSet a) m = (case a of None \<Rightarrow> (Err RT_ERR_NULL_POINTER, m)
     | Some v \<Rightarrow> storing (valid_mask h v) RT_ERR_PORT_MASK (\<lambda>m. m\<lparr>cpu_aware := v\<rparr>) m)"
| "cpu_spec h (AwareGet p) m = non_null p m [cpu_aware m]"
| "cpu_spec h (PositionSet v) m = storing (v \<le> 1) RT_ERR_INPUT (\<lambda>m. m\<lparr>cpu_pos := v\<rparr>) m"
| "cpu_spec h (PositionGet p) m = non_null p m [cpu_pos m]"
| "cpu_spec h (LengthSet v) m = storing (v \<le> 1) RT_ERR_INPUT (\<lambda>m. m\<lparr>cpu_len := v\<rparr>) m"
| "cpu_spec h (LengthGet p) m = non_null p m [cpu_len m]"
| "cpu_spec h (AcceptSet v) m = storing (v \<le> 1) RT_ERR_INPUT (\<lambda>m. m\<lparr>cpu_rx := v\<rparr>) m"
| "cpu_spec h (AcceptGet p) m = non_null p m [cpu_rx m]"
| "cpu_spec h (PriRemapSet i n) m = storing (i \<le> 7 \<and> n \<le> 7) RT_ERR_VLAN_PRIORITY (\<lambda>m. m\<lparr>cpu_pri := (cpu_pri m)(i := n)\<rparr>) m"
| "cpu_spec h (PriRemapGet i p) m = (if p = NULLP then (Err RT_ERR_NULL_POINTER, m)
     else if i \<le> 7 then (Ok [cpu_pri m i], m) else (Err RT_ERR_QOS_INT_PRIORITY, m))"

definition trap_port :: "swt \<Rightarrow> u32" where
  "trap_port c = gfld 0x121A 3 3 c OR push_bit 3 (gfld 0x121A 10 1 c)"

definition remap_reg :: "u32 \<Rightarrow> u32" where "remap_reg i = 0x87F + drop_bit 2 i"
definition remap_off :: "u32 \<Rightarrow> nat" where "remap_off i = 4 * (unat i mod 4)"

definition cpu_abs :: "rtk_switch_halCtrl_t \<Rightarrow> swt \<Rightarrow> cpu_cfg" where
  "cpu_abs h c =
     \<lparr>cpu_en = gfld 0x121A 0 1 c, cpu_port = p2l_port h ! unat (trap_port c), cpu_mode = gfld 0x121A 1 2 c,
      cpu_aware = p2l_mask h (ucast (sw_reg c 0x1219)), cpu_pos = gfld 0x121A 6 1 c, cpu_len = gfld 0x121A 9 1 c, cpu_rx = gfld 0x121A 7 1 c,
      cpu_pri = (\<lambda>i. if i \<le> 7 then gfld (remap_reg i) (remap_off i) 3 c else 0)\<rparr>"

section \<open>The calls refine the specification\<close>

lemma cpu_regs [simp]: "cfg_reg 0x1219" "cfg_reg 0x121A"
  by (simp_all add: cfg_reg_defs)

lemma cpu_masks: "(0x6 :: u32) = field_mask 1 2" "(0x38 :: u32) = field_mask 3 3" "(0x400 :: u32) = field_mask 10 1"
  by (simp_all add: field_defs)

definition pris :: "u32 list" where
  "pris = [0, 1, 2, 3, 4, 5, 6, 7]"

lemma pri_in: "i \<le> 7 \<Longrightarrow> i \<in> set pris"
proof -
  assume "i \<le> (7 :: u32)"
  then have "unat i \<le> 7" by (simp add: word_le_nat_alt)
  then have "unat i \<in> {0, 1, 2, 3, 4, 5, 6, 7}" by auto
  then show ?thesis by (auto simp: pris_def word_unat_eq_iff)
qed

lemma remap_layout:
  "list_all (\<lambda>i. RTL8367C_QOS_PRIPORITY_REMAPPING_IN_CPU_REG i = remap_reg i \<and>
     RTL8367C_QOS_PRIPORITY_REMAPPING_IN_CPU_MASK i = field_mask (remap_off i) 3 \<and> cfg_reg (remap_reg i) \<and> 0x7A7 < remap_reg i \<and>
     remap_reg i \<noteq> 0x1219 \<and> remap_reg i \<noteq> 0x121A \<and> remap_off i + 3 \<le> 16 \<and>
     list_all (\<lambda>j. i = j \<or> remap_reg i \<noteq> remap_reg j \<or> remap_off i + 3 \<le> remap_off j \<or> remap_off j + 3 \<le> remap_off i) pris) pris"
  by code_simp

lemma remapD:
  assumes "i \<le> 7"
  shows "RTL8367C_QOS_PRIPORITY_REMAPPING_IN_CPU_REG i = remap_reg i" "RTL8367C_QOS_PRIPORITY_REMAPPING_IN_CPU_MASK i = field_mask (remap_off i) 3"
    "cfg_reg (remap_reg i)" "0x7A7 < remap_reg i" "remap_reg i \<noteq> 0x1219" "remap_reg i \<noteq> 0x121A" "remap_off i + 3 \<le> 16"
    "j \<le> 7 \<Longrightarrow> i = j \<or> remap_reg i \<noteq> remap_reg j \<or> remap_off i + 3 \<le> remap_off j \<or> remap_off j + 3 \<le> remap_off i"
  using bspec [OF remap_layout [unfolded list_all_iff] pri_in [OF assms]] pri_in [of j] by auto

lemma pri_mask: "(n :: u32) \<le> 7 \<longleftrightarrow> n \<le> mask 3"
  by (simp add: mask_eq_exp_minus_1)

lemma remap_put:
  assumes "i \<le> 7" and "j \<le> 7" and "n \<le> 7"
  shows "gfld (remap_reg j) (remap_off j) 3 (put_gfld (remap_reg i) (remap_off i) 3 n c) = (if j = i then n else gfld (remap_reg j) (remap_off j) 3 c)"
proof (cases "j = i")
  case False
  show ?thesis
  proof (cases "remap_reg i = remap_reg j")
    case True
    with False remapD(8) [OF assms(1,2)] remapD(7) [OF assms(1)] show ?thesis by (auto simp: gfld_put_apart)
  qed (simp add: False)
qed (use remapD(7) [OF assms(1)] assms(3) in \<open>simp add: gfld_put pri_mask\<close>)

definition cpu_eff :: "rtk_switch_halCtrl_t \<Rightarrow> cpu_call \<Rightarrow> swt \<Rightarrow> u32 list outcome \<Rightarrow> swt \<Rightarrow> bool" where
  "cpu_eff h x c r c' \<longleftrightarrow> (r, cpu_abs h c') = cpu_spec h x (cpu_abs h c) \<and> sw_ready c' h \<and> db_ok c'"

lemmas cpu_flag_defs = rtk_cpu_enable_get_def rtl8367c_getAsicCputagEnable_def
  rtk_cpu_tagPosition_set_def rtk_cpu_tagPosition_get_def rtl8367c_setAsicCputagPosition_def rtl8367c_getAsicCputagPosition_def
  rtk_cpu_tagLength_set_def rtk_cpu_tagLength_get_def rtl8367c_setAsicCputagMode_def rtl8367c_getAsicCputagMode_def
  rtk_cpu_acceptLength_set_def rtk_cpu_acceptLength_get_def rtl8367c_setAsicCputagRxMinLength_def rtl8367c_getAsicCputagRxMinLength_def

lemmas cpu_simps = cpu_abs_def trap_port_def gfld_put gfld_put_apart db_ok_put_gfld db_ok_put_word mask_Suc_0 bound1 check_that_def
  not_null_def no_result_def one_result_def non_null_def storing_def not_less

lemma cpu_pri_other:
  "a = 0x121A \<or> a = 0x1219 \<Longrightarrow> (\<lambda>i. if i \<le> 7 then gfld (remap_reg i) (remap_off i) 3 (put_gfld a k w v c) else 0) =
     (\<lambda>i. if i \<le> 7 then gfld (remap_reg i) (remap_off i) 3 c else 0)"
  "a = 0x121A \<or> a = 0x1219 \<Longrightarrow> (\<lambda>i. if i \<le> 7 then gfld (remap_reg i) (remap_off i) 3 (put_word a v c) else 0) =
     (\<lambda>i. if i \<le> 7 then gfld (remap_reg i) (remap_off i) 3 c else 0)"
  using remapD(5,6) by (auto simp: fun_eq_iff)

lemma wp_cpu_flags:
  assumes "sw_ready c h" and "db_ok c" and "cfg_regs \<subseteq> A"
  shows "wp view A (cpu_run (EnableGet p)) (cpu_eff h (EnableGet p) c) c"
    "wp view A (cpu_run (PositionSet v)) (cpu_eff h (PositionSet v) c) c"
    "wp view A (cpu_run (PositionGet p)) (cpu_eff h (PositionGet p) c) c"
    "wp view A (cpu_run (LengthSet v)) (cpu_eff h (LengthSet v) c) c"
    "wp view A (cpu_run (LengthGet p)) (cpu_eff h (LengthGet p) c) c"
    "wp view A (cpu_run (AcceptSet v)) (cpu_eff h (AcceptSet v) c) c"
    "wp view A (cpu_run (AcceptGet p)) (cpu_eff h (AcceptGet p) c) c"
  using assms
  by (auto intro!: wp_thenE wp_bindE wp_okE wp_errE wp_chk_init wp_set_gbit wp_get_gbit
      simp: cpu_flag_defs cpu_simps cpu_eff_def cpu_pri_other)

lemma wp_cpu_enable:
  assumes "sw_ready c h" and "db_ok c" and "cfg_regs \<subseteq> A"
  shows "wp view A (cpu_run (EnableSet e)) (cpu_eff h (EnableSet e) c) c"
proof -
  have "p2l_mask h 0 = 0" unfolding p2l_mask_def by (rule fold_invariant [where Q = "\<lambda>_. True"]) auto
  with assms show ?thesis
    by (auto intro!: wp_thenE wp_okE wp_errE wp_chk_init wp_set_gbit wp_set_word
        simp: rtk_cpu_enable_set_def rtl8367c_setAsicCputagEnable_def rtl8367c_setAsicCputagPortmask_def cpu_simps cpu_eff_def cpu_pri_other le_1)
qed

lemma wp_cpu_pri:
  assumes "sw_ready c h" and "db_ok c" and "cfg_regs \<subseteq> A"
  shows "wp view A (cpu_run (PriRemapSet i n)) (cpu_eff h (PriRemapSet i n) c) c"
    and "wp view A (cpu_run (PriRemapGet i p)) (cpu_eff h (PriRemapGet i p) c) c"
proof -
  have *: "wp view A (cpu_run (PriRemapSet i n)) (cpu_eff h (PriRemapSet i n) c) c" if "i \<le> 7" "n \<le> 7"
    using that assms remapD [OF that(1)]
    by (auto intro!: wp_thenE wp_okE wp_errE wp_chk_init wp_set_gfld [OF refl]
        simp: rtk_cpu_priRemap_set_def rtl8367c_setAsicCputagPriorityRemapping_def cpu_simps cpu_eff_def pri_mask [symmetric] remap_put fun_eq_iff)
  then show "wp view A (cpu_run (PriRemapSet i n)) (cpu_eff h (PriRemapSet i n) c) c"
    using assms
    by (cases "i \<le> 7 \<and> n \<le> 7")
       (auto intro!: wp_thenE wp_errE wp_chk_init simp: rtk_cpu_priRemap_set_def cpu_simps cpu_eff_def not_le)
  show "wp view A (cpu_run (PriRemapGet i p)) (cpu_eff h (PriRemapGet i p) c) c"
    using assms remapD [of i]
    by (cases "i \<le> 7")
       (auto intro!: wp_thenE wp_bindE wp_okE wp_errE wp_chk_init wp_get_gfld [OF refl]
        simp: rtk_cpu_priRemap_get_def rtl8367c_getAsicCputagPriorityRemapping_def cpu_simps cpu_eff_def not_le)
qed


lemma trap_split:
  assumes "v \<le> (10 :: u32)"
  shows "(v AND 7) OR push_bit 3 (drop_bit 3 v AND 1) = v \<and> v AND 7 \<le> mask 3 \<and> drop_bit 3 v AND 1 \<le> 1"
proof -
  have "list_all (\<lambda>n. ((of_nat n :: u32) AND 7) OR push_bit 3 (drop_bit 3 (of_nat n) AND 1) = of_nat n \<and> (of_nat n :: u32) AND 7 \<le> mask 3 \<and>
     drop_bit 3 (of_nat n :: u32) AND 1 \<le> 1) [0..<11]" by code_simp
  then show ?thesis by (rule words_below) (use assms in \<open>simp add: word_le_nat_alt\<close>)
qed

lemma bound2: "v < 3 \<longleftrightarrow> v \<le> (2 :: u32)"
  by (auto simp: word_le_nat_alt word_less_nat_alt)

lemma push_le: "n \<le> 10 \<Longrightarrow> push_bit n (1 :: u32) \<le> 0x7FF"
proof -
  assume "n \<le> 10"
  then have "push_bit n (1 :: u32) \<le> mask 11" by (auto simp: le_mask_iff_bits bit_simps)
  then show ?thesis by (simp add: mask_eq_exp_minus_1)
qed

lemma wp_tagPort_set:
  fixes view :: "'d \<Rightarrow> chip_view"
  assumes "sw_ready c h" and "db_ok c" and "cfg_regs \<subseteq> A"
  shows "wp view A (cpu_run (TagPortSet port v)) (cpu_eff h (TagPortSet port v) c) c"
proof (cases "valid_port h port \<and> v \<le> 2")
  case True
  have h: "hal_wf h" using assms(1) by (simp add: sw_ready_def)
  define phy where "phy = phy_of h port"
  have phy: "phy \<le> 10" "unat phy \<le> 10" using phy_of_le [OF h] True by (simp_all add: phy_def word_le_nat_alt)
  note tp = trap_split [OF phy(1)]
  have lim: "\<not> 3 \<le> v" "v < 3" "\<not> 0x7FF < (2 ^ unat phy :: u32)" "(2 ^ unat phy :: u32) \<le> 0xFFFF" "\<not> 11 \<le> phy" "\<not> 32 \<le> unat phy"
    using True phy push_le [OF phy(2)] by (auto simp: word_le_nat_alt word_less_nat_alt)
  have m2: "v \<le> mask 2" using True by (simp add: mask_eq_exp_minus_1 word_le_nat_alt)
  let ?c = "put_gfld 0x121A 1 2 v (put_gfld 0x121A 10 1 (drop_bit 3 phy AND 1) (put_gfld 0x121A 3 3 (phy AND 7) (put_word 0x1219 (push_bit (unat phy) 1) c)))"
  have u: "ucast (ucast (2 ^ unat phy :: u32) :: 16 word) = (2 ^ unat phy :: u32)"
    using phy(2) by (intro bit_word_eqI) (auto simp: bit_simps)
  have abs: "cpu_abs h ?c = (cpu_abs h c)\<lparr>cpu_port := port, cpu_mode := v, cpu_aware := push_bit (unat port) 1\<rparr>"
    using tp m2 l2p_single(2) [OF h, of port] p2l_phy_of [OF h, of port] True
    by (simp add: cpu_simps cpu_pri_other phy_def [symmetric] u)
  show ?thesis
    using assms(2,3) True phy tp m2 lim
    by (auto intro!: wp_thenE wp_bindE wp_okE wp_chk_init [OF assms(1)] wp_chk_port [OF assms(1)] wp_port_L2P [where h = h] wp_set_word
          wp_set_gfld [OF cpu_masks(1)] wp_set_gfld [OF cpu_masks(2)] wp_set_gfld [OF cpu_masks(3)]
        simp: rtk_cpu_tagPort_set_def rtl8367c_setAsicCputagPortmask_def rtl8367c_setAsicCputagTrapPort_def rtl8367c_setAsicCputagInsertMode_def
          cpu_eff_def phy_def [symmetric] abs [simplified] valid_port_less assms(1) no_result_def check_that_def storing_def db_ok_put_gfld db_ok_put_word mask_Suc_0)
next
  case False
  have "cpu_run (TagPortSet port v) s = (Err (if valid_port h port then RT_ERR_INPUT else RT_ERR_PORT_ID), s)" if "ready s h" for s :: "'d gsw"
    using False by (auto simp: rtk_cpu_tagPort_set_def no_result_def thenE_def bindE_def chk_init_run [OF that] chk_port_run [OF that]
        check_that_def okE_def errE_def bound2)
  then show ?thesis
    by (rule wp_refused [OF assms(1)]) (use assms(1,2) False in \<open>auto simp: cpu_eff_def storing_def\<close>)
qed

lemma trap_port_less: "unat (trap_port c) < 32"
proof -
  have "gfld 0x121A 3 3 c \<le> mask 3" "gfld 0x121A 10 1 c \<le> mask 1" by (rule gfld_le; simp)+
  then have "trap_port c \<le> mask 4"
    unfolding trap_port_def le_mask_iff_bits by (auto simp: bit_simps)
  then show ?thesis by (simp add: mask_eq_exp_minus_1 word_le_nat_alt)
qed

lemma wp_tagPort_get:
  assumes "sw_ready c h" and "db_ok c" and "cfg_regs \<subseteq> A"
  shows "wp view A (cpu_run (TagPortGet p q)) (cpu_eff h (TagPortGet p q) c) c"
proof -
  have "gfld 0x121A 10 1 c AND 1 = gfld 0x121A 10 1 c" using gfld_bit_cases [of 10 "0x121A" c] by auto
  then have trap: "trap_port c = gfld 0x121A 3 3 c OR push_bit 3 (gfld 0x121A 10 1 c AND 1)" by (simp only: trap_port_def)
  show ?thesis
    using assms(2,3) trap_port_less [of c]
    by (auto intro!: wp_thenE wp_bindE wp_okE wp_errE wp_chk_init [OF assms(1)] wp_port_P2L [OF assms(1)] wp_get_word
          wp_get_gfld [OF cpu_masks(1)] wp_get_gfld [OF cpu_masks(2)] wp_get_gfld [OF cpu_masks(3)]
        simp: rtk_cpu_tagPort_get_def rtl8367c_getAsicCputagPortmask_def rtl8367c_getAsicCputagTrapPort_def rtl8367c_getAsicCputagInsertMode_def
          cpu_eff_def trap cpu_abs_def not_null_def check_that_def assms(1))
qed

lemma wp_aware:
  fixes view :: "'d \<Rightarrow> chip_view"
  assumes "sw_ready c h" and "db_ok c" and "cfg_regs \<subseteq> A"
  shows "wp view A (cpu_run (AwareSet m)) (cpu_eff h (AwareSet m) c) c"
    and "wp view A (cpu_run (AwareGet p)) (cpu_eff h (AwareGet p) c) c"
proof -
  have h: "hal_wf h" using assms(1) by (simp add: sw_ready_def)
  show "wp view A (cpu_run (AwareGet p)) (cpu_eff h (AwareGet p) c) c"
    using assms(2,3)
    by (auto intro!: wp_thenE wp_bindE wp_okE wp_errE wp_chk_init [OF assms(1)] wp_get_word wp_mapErrE wp_P2L_ptr [OF assms(1)]
        simp: rtk_cpu_awarePort_get_def rtl8367c_getAsicCputagPortmask_def cpu_eff_def cpu_abs_def not_null_def check_that_def non_null_def one_result_def assms(1))
  show "wp view A (cpu_run (AwareSet m)) (cpu_eff h (AwareSet m) c) c"
  proof (cases "\<exists>v. m = Some v \<and> valid_mask h v")
    case True
    then obtain v where v: "m = Some v" "valid_mask h v" by blast
    note b = l2p_mask_bound [OF h v(2)]
    have le: "l2p_mask h v \<le> 0xFFFF" by (rule order_trans [OF conjunct1 [OF b]]) simp
    then have u: "ucast (ucast (l2p_mask h v) :: 16 word) = l2p_mask h v"
      by (rule ucast_down_up)
    have abs: "cpu_abs h (put_word 0x1219 (l2p_mask h v) c) = (cpu_abs h c)\<lparr>cpu_aware := v\<rparr>"
      using b by (simp add: cpu_simps cpu_pri_other u)
    show ?thesis
      using assms(2,3) b v le
      by (auto intro!: wp_thenE wp_bindE wp_okE wp_errE wp_chk_init [OF assms(1)] wp_chk_portmask [OF assms(1)] wp_mapErrE wp_portmask_L2P [OF assms(1)] wp_set_word
          simp: rtk_cpu_awarePort_set_def rtl8367c_setAsicCputagPortmask_def cpu_eff_def abs no_result_def storing_def db_ok_put_word assms(1)
            leD)
  next
    case False
    then have "cpu_run (AwareSet m) s = (Err (if m = None then RT_ERR_NULL_POINTER else RT_ERR_PORT_MASK), s)" if "ready s h" for s :: "'d gsw"
      by (auto simp: rtk_cpu_awarePort_set_def no_result_def thenE_def [of "thenE _ _"] bindE_def chk_then [OF that] errE_def split: option.splits)
    then show ?thesis
      by (rule wp_refused [OF assms(1)]) (use assms(1,2) False in \<open>auto simp: cpu_eff_def storing_def split: option.splits\<close>)
  qed
qed

interpretation cpu_unit: config_unit cpu_abs cpu_spec cpu_run
proof
  fix c :: swt and h A and x :: cpu_call and view :: "'a \<Rightarrow> chip_view"
  assume "sw_ready c h" and "db_ok c" and "cfg_regs \<subseteq> A"
  note a = this
  have "wp view A (cpu_run x) (cpu_eff h x c) c"
    by (cases x) (simp_all only: wp_cpu_flags [OF a] wp_cpu_enable [OF a] wp_cpu_pri [OF a] wp_tagPort_set [OF a] wp_tagPort_get [OF a] wp_aware [OF a])
  then show "wp view A (cpu_run x) (\<lambda>r c'. (r, cpu_abs h c') = cpu_spec h x (cpu_abs h c) \<and> sw_ready c' h \<and> db_ok c') c"
    by (simp add: cpu_eff_def [abs_def])
qed

section \<open>Properties\<close>

text \<open>
  C36. The CPU-port API refines an abstract configuration: there is a configuration from which every
  sequence of calls with any arguments returns exactly what the specification says, values and error
  codes.  Naming the CPU port also makes it the only port that understands the tag, whatever was set
  before; disabling the unit empties that set; the port number, split over two fields of the control
  register, reads back whole; the remapped priorities of the eight internal priorities are independent.
\<close>

theorem cpu_calls_refine:
  assumes "driver_up view A h s"
  shows "\<exists>m. \<forall>xs. \<exists>s'. run_calls cpu_run xs s = (fst (spec_calls (cpu_spec h) xs m), s') \<and> driver_up view A h s'"
  by (rule cpu_unit.calls_observed [OF assms])

theorem cpu_calls_refine_witness:
  "\<exists>s'. run_calls cpu_run [AwareSet (Some 3), TagPortSet 16 1, AwareGet PTR, TagPortGet PTR PTR, PriRemapSet 5 2, PriRemapSet 6 3, PriRemapGet 5 PTR,
       EnableSet 0, AwareGet PTR, EnableSet 2]
      (sim_gsw 1 (Some rtl8367c_hal_Ctrl)) = ([Ok [], Ok [], Ok [0x10000], Ok [16, 1], Ok [], Ok [], Ok [2], Ok [], Ok [0], Err RT_ERR_ENABLE], s')"
proof -
  let ?xs = "[AwareSet (Some 3), TagPortSet 16 1, AwareGet PTR, TagPortGet PTR PTR, PriRemapSet 5 2, PriRemapSet 6 3, PriRemapGet 5 PTR,
       EnableSet 0, AwareGet PTR, EnableSet 2]"
  have "valid_mask rtl8367c_hal_Ctrl 3" "valid_port rtl8367c_hal_Ctrl 16" by code_simp+
  then have "fst (spec_calls (cpu_spec rtl8367c_hal_Ctrl) ?xs m) =
      [Ok [], Ok [], Ok [0x10000], Ok [16, 1], Ok [], Ok [], Ok [2], Ok [], Ok [0], Err RT_ERR_ENABLE]" for m
    by (simp add: storing_def non_null_def le_1)
  with cpu_calls_refine [OF sim_driver_up [OF hal_tables_wf(1)]] show ?thesis by metis
qed

end
