(* ===== verification/Trunk.thy ===== *)
theory Trunk
  imports Config_Unit
begin

text \<open>
  Link aggregation: \<open>rtl8367c_asicdrv_trunking.c\<close> and \<open>trunk.c\<close>.  Up to three groups of ports act
  as one link; a hash of the frame, through a mapping table of sixteen entries (one table for groups
  0 and 1, one for grp 2), selects the port of the grp.
\<close>

section \<open>Registers\<close>

abbreviation (input) RTL8367C_REG_PORT_TRUNK_CTRL :: u32 where "RTL8367C_REG_PORT_TRUNK_CTRL \<equiv> 0x8CF"
abbreviation (input) RTL8367C_PORT_TRUNK_DUMB_OFFSET :: u32 where "RTL8367C_PORT_TRUNK_DUMB_OFFSET \<equiv> 8"
abbreviation (input) RTL8367C_PORT_TRUNK_FLOOD_OFFSET :: u32 where "RTL8367C_PORT_TRUNK_FLOOD_OFFSET \<equiv> 7"
abbreviation (input) RTL8367C_PORT_TRUNK_HASH_MASK :: u32 where "RTL8367C_PORT_TRUNK_HASH_MASK \<equiv> 0x7F"
abbreviation (input) RTL8367C_REG_PORT_TRUNK_DROP_CTRL :: u32 where "RTL8367C_REG_PORT_TRUNK_DROP_CTRL \<equiv> 0x8CE"
abbreviation (input) RTL8367C_PORT_TRUNK_DROP_CTRL_OFFSET :: u32 where "RTL8367C_PORT_TRUNK_DROP_CTRL_OFFSET \<equiv> 0"
abbreviation (input) RTL8367C_REG_PORT_TRUNK_GROUP_MASK :: u32 where "RTL8367C_REG_PORT_TRUNK_GROUP_MASK \<equiv> 0x8D0"
abbreviation (input) RTL8367C_PORT_TRUNK_GROUP0_MASK_MASK :: u32 where "RTL8367C_PORT_TRUNK_GROUP0_MASK_MASK \<equiv> 0xF"
abbreviation (input) RTL8367C_REG_PORT_TRUNK_FLOWCTRL :: u32 where "RTL8367C_REG_PORT_TRUNK_FLOWCTRL \<equiv> 0x8D1"
abbreviation (input) RTL8367C_EN_FLOWCTRL_TG0_OFFSET :: u32 where "RTL8367C_EN_FLOWCTRL_TG0_OFFSET \<equiv> 0"
abbreviation (input) RTL8367C_REG_PORT_TRUNK_HASH_MAPPING_CTRL0 :: u32 where "RTL8367C_REG_PORT_TRUNK_HASH_MAPPING_CTRL0 \<equiv> 0x8D2"
abbreviation (input) RTL8367C_REG_PORT_TRUNK_HASH_MAPPING_CTRL1 :: u32 where "RTL8367C_REG_PORT_TRUNK_HASH_MAPPING_CTRL1 \<equiv> 0x8D3"
abbreviation (input) RTL8367C_REG_PORT_TRUNK_HASH_MAPPING_CTRL2 :: u32 where "RTL8367C_REG_PORT_TRUNK_HASH_MAPPING_CTRL2 \<equiv> 0x8A0"
abbreviation (input) RTL8367C_REG_PORT_TRUNK_HASH_MAPPING_CTRL3 :: u32 where "RTL8367C_REG_PORT_TRUNK_HASH_MAPPING_CTRL3 \<equiv> 0x8A1"
abbreviation (input) RTL8367C_PORT_TRUNK_HASH_MAPPING_MASK :: u32 where "RTL8367C_PORT_TRUNK_HASH_MAPPING_MASK \<equiv> 0x3"
abbreviation (input) RTL8367C_REG_PORT_QEMPTY :: u32 where "RTL8367C_REG_PORT_QEMPTY \<equiv> 0x22D"
abbreviation (input) RTL8367C_MAX_TRUNK_GID :: u32 where "RTL8367C_MAX_TRUNK_GID \<equiv> 2"
abbreviation (input) RTL8367C_TRUNKING_PORTNO :: u32 where "RTL8367C_TRUNKING_PORTNO \<equiv> 4"
abbreviation (input) RTL8367C_TRUNKING1_PORTN0 :: u32 where "RTL8367C_TRUNKING1_PORTN0 \<equiv> 2"
abbreviation (input) RTL8367C_TRUNKING_HASHVALUE_MAX :: u32 where "RTL8367C_TRUNKING_HASHVALUE_MAX \<equiv> 15"
abbreviation (input) RTK_WHOLE_SYSTEM :: u32 where "RTK_WHOLE_SYSTEM \<equiv> 0xFF"
abbreviation (input) RTK_MAX_NUM_OF_TRUNK_HASH_VAL :: nat where "RTK_MAX_NUM_OF_TRUNK_HASH_VAL \<equiv> 16"
abbreviation (input) TRUNK_GROUP1 :: u32 where "TRUNK_GROUP1 \<equiv> 1"
abbreviation (input) SEPARATE_NONE :: u32 where "SEPARATE_NONE \<equiv> 0"
abbreviation (input) SEPARATE_FLOOD :: u32 where "SEPARATE_FLOOD \<equiv> 1"
abbreviation (input) SEPARATE_END :: u32 where "SEPARATE_END \<equiv> 2"
abbreviation (input) TRUNK_MODE_END :: u32 where "TRUNK_MODE_END \<equiv> 2"

definition RTL8367C_PORT_TRUNK_GROUP_MASK_OFFSET :: "u32 \<Rightarrow> u32" where
  "RTL8367C_PORT_TRUNK_GROUP_MASK_OFFSET grp = push_bit 2 grp"

definition RTL8367C_PORT_TRUNK_GROUP_MASK_MASK :: "u32 \<Rightarrow> u32" where
  "RTL8367C_PORT_TRUNK_GROUP_MASK_MASK grp =
     push_bit (unat (RTL8367C_PORT_TRUNK_GROUP_MASK_OFFSET grp)) RTL8367C_PORT_TRUNK_GROUP0_MASK_MASK"

section \<open>Register level\<close>

definition rtl8367c_setAsicTrunkingMode :: "u32 \<Rightarrow> ('d gsw, unit) drv" where
  "rtl8367c_setAsicTrunkingMode mode = rtl8367c_setAsicRegBit RTL8367C_REG_PORT_TRUNK_CTRL RTL8367C_PORT_TRUNK_DUMB_OFFSET mode"

definition rtl8367c_getAsicTrunkingMode :: "('d gsw, u32) drv" where
  "rtl8367c_getAsicTrunkingMode = rtl8367c_getAsicRegBit RTL8367C_REG_PORT_TRUNK_CTRL RTL8367C_PORT_TRUNK_DUMB_OFFSET"

definition rtl8367c_setAsicTrunkingFc :: "u32 \<Rightarrow> u32 \<Rightarrow> ('d gsw, unit) drv" where
  "rtl8367c_setAsicTrunkingFc grp enabled =
     (if grp > RTL8367C_MAX_TRUNK_GID then errE RT_ERR_LA_TRUNK_ID
      else thenE (rtl8367c_setAsicRegBit RTL8367C_REG_PORT_TRUNK_DROP_CTRL RTL8367C_PORT_TRUNK_DROP_CTRL_OFFSET ENABLED)
        (rtl8367c_setAsicRegBit RTL8367C_REG_PORT_TRUNK_FLOWCTRL (RTL8367C_EN_FLOWCTRL_TG0_OFFSET + grp) enabled))"

definition rtl8367c_getAsicTrunkingFc :: "u32 \<Rightarrow> ('d gsw, u32) drv" where
  "rtl8367c_getAsicTrunkingFc grp =
     (if grp > RTL8367C_MAX_TRUNK_GID then errE RT_ERR_LA_TRUNK_ID
      else rtl8367c_getAsicRegBit RTL8367C_REG_PORT_TRUNK_FLOWCTRL (RTL8367C_EN_FLOWCTRL_TG0_OFFSET + grp))"

definition rtl8367c_setAsicTrunkingGroup :: "u32 \<Rightarrow> u32 \<Rightarrow> ('d gsw, unit) drv" where
  "rtl8367c_setAsicTrunkingGroup grp portmask =
     (if grp > RTL8367C_MAX_TRUNK_GID then errE RT_ERR_LA_TRUNK_ID
      else rtl8367c_setAsicRegBits RTL8367C_REG_PORT_TRUNK_GROUP_MASK
        (push_bit (unat (grp * 4)) RTL8367C_PORT_TRUNK_GROUP0_MASK_MASK) portmask)"

definition rtl8367c_getAsicTrunkingGroup :: "u32 \<Rightarrow> ('d gsw, u32) drv" where
  "rtl8367c_getAsicTrunkingGroup grp =
     (if grp > RTL8367C_MAX_TRUNK_GID then errE RT_ERR_LA_TRUNK_ID
      else rtl8367c_getAsicRegBits RTL8367C_REG_PORT_TRUNK_GROUP_MASK
        (push_bit (unat (grp * 4)) RTL8367C_PORT_TRUNK_GROUP0_MASK_MASK))"

definition rtl8367c_setAsicTrunkingFlood :: "u32 \<Rightarrow> ('d gsw, unit) drv" where
  "rtl8367c_setAsicTrunkingFlood enabled = rtl8367c_setAsicRegBit RTL8367C_REG_PORT_TRUNK_CTRL RTL8367C_PORT_TRUNK_FLOOD_OFFSET enabled"

definition rtl8367c_getAsicTrunkingFlood :: "('d gsw, u32) drv" where
  "rtl8367c_getAsicTrunkingFlood = rtl8367c_getAsicRegBit RTL8367C_REG_PORT_TRUNK_CTRL RTL8367C_PORT_TRUNK_FLOOD_OFFSET"

definition rtl8367c_setAsicTrunkingHashSelect :: "u32 \<Rightarrow> ('d gsw, unit) drv" where
  "rtl8367c_setAsicTrunkingHashSelect hashsel = rtl8367c_setAsicRegBits RTL8367C_REG_PORT_TRUNK_CTRL RTL8367C_PORT_TRUNK_HASH_MASK hashsel"

definition rtl8367c_getAsicTrunkingHashSelect :: "('d gsw, u32) drv" where
  "rtl8367c_getAsicTrunkingHashSelect = rtl8367c_getAsicRegBits RTL8367C_REG_PORT_TRUNK_CTRL RTL8367C_PORT_TRUNK_HASH_MASK"

definition rtl8367c_getAsicQeueuEmptyStatus :: "('d gsw, u32) drv" where
  "rtl8367c_getAsicQeueuEmptyStatus = rtl8367c_getAsicReg RTL8367C_REG_PORT_QEMPTY"

definition rtl8367c_setAsicTrunkingHashTable :: "u32 \<Rightarrow> u32 \<Rightarrow> ('d gsw, unit) drv" where
  "rtl8367c_setAsicTrunkingHashTable hashval portId =
     (if hashval > RTL8367C_TRUNKING_HASHVALUE_MAX then errE RT_ERR_OUT_OF_RANGE
      else if portId \<ge> RTL8367C_TRUNKING_PORTNO then errE RT_ERR_PORT_ID
      else if hashval \<ge> 8
      then rtl8367c_setAsicRegBits RTL8367C_REG_PORT_TRUNK_HASH_MAPPING_CTRL1
        (push_bit (unat ((hashval - 8) * 2)) RTL8367C_PORT_TRUNK_HASH_MAPPING_MASK) portId
      else rtl8367c_setAsicRegBits RTL8367C_REG_PORT_TRUNK_HASH_MAPPING_CTRL0
        (push_bit (unat (hashval * 2)) RTL8367C_PORT_TRUNK_HASH_MAPPING_MASK) portId)"

definition rtl8367c_getAsicTrunkingHashTable :: "u32 \<Rightarrow> ('d gsw, u32) drv" where
  "rtl8367c_getAsicTrunkingHashTable hashval =
     (if hashval > RTL8367C_TRUNKING_HASHVALUE_MAX then errE RT_ERR_OUT_OF_RANGE
      else if hashval \<ge> 8
      then rtl8367c_getAsicRegBits RTL8367C_REG_PORT_TRUNK_HASH_MAPPING_CTRL1
        (push_bit (unat ((hashval - 8) * 2)) RTL8367C_PORT_TRUNK_HASH_MAPPING_MASK)
      else rtl8367c_getAsicRegBits RTL8367C_REG_PORT_TRUNK_HASH_MAPPING_CTRL0
        (push_bit (unat (hashval * 2)) RTL8367C_PORT_TRUNK_HASH_MAPPING_MASK))"

definition rtl8367c_setAsicTrunkingHashTable1 :: "u32 \<Rightarrow> u32 \<Rightarrow> ('d gsw, unit) drv" where
  "rtl8367c_setAsicTrunkingHashTable1 hashval portId =
     (if hashval > RTL8367C_TRUNKING_HASHVALUE_MAX then errE RT_ERR_OUT_OF_RANGE
      else if portId \<ge> RTL8367C_TRUNKING1_PORTN0 then errE RT_ERR_PORT_ID
      else if hashval \<ge> 8
      then rtl8367c_setAsicRegBits RTL8367C_REG_PORT_TRUNK_HASH_MAPPING_CTRL3
        (push_bit (unat ((hashval - 8) * 2)) RTL8367C_PORT_TRUNK_HASH_MAPPING_MASK) portId
      else rtl8367c_setAsicRegBits RTL8367C_REG_PORT_TRUNK_HASH_MAPPING_CTRL2
        (push_bit (unat (hashval * 2)) RTL8367C_PORT_TRUNK_HASH_MAPPING_MASK) portId)"

definition rtl8367c_getAsicTrunkingHashTable1 :: "u32 \<Rightarrow> ('d gsw, u32) drv" where
  "rtl8367c_getAsicTrunkingHashTable1 hashval =
     (if hashval > RTL8367C_TRUNKING_HASHVALUE_MAX then errE RT_ERR_OUT_OF_RANGE
      else if hashval \<ge> 8
      then rtl8367c_getAsicRegBits RTL8367C_REG_PORT_TRUNK_HASH_MAPPING_CTRL3
        (push_bit (unat ((hashval - 8) * 2)) RTL8367C_PORT_TRUNK_HASH_MAPPING_MASK)
      else rtl8367c_getAsicRegBits RTL8367C_REG_PORT_TRUNK_HASH_MAPPING_CTRL2
        (push_bit (unat (hashval * 2)) RTL8367C_PORT_TRUNK_HASH_MAPPING_MASK))"

section \<open>API\<close>

text \<open>The chip family by the identifier in register \<open>0x1300\<close>, read before any check.\<close>

definition trunk_type :: "u32 \<Rightarrow> ('s, u32) drv" where
  "trunk_type regValue =
     (if regValue = 0x0276 \<or> regValue = 0x0597 \<or> regValue = 0x6367 then okE 0
      else if regValue = 0x0652 \<or> regValue = 0x6368 then okE 1
      else if regValue = 0x0801 \<or> regValue = 0x6511 then okE 2
      else errE RT_ERR_FAILED)"

definition trunk_pmsk2 :: "u32 \<Rightarrow> u32" where
  "trunk_pmsk2 pmsk =
     (let tmp = (if pmsk AND 0x2 \<noteq> 0 then 1 else 0);
          tmp = (if pmsk AND 0x8 \<noteq> 0 then tmp OR 2 else tmp)
      in if pmsk AND 0x80 \<noteq> 0 then tmp OR 8 else tmp)"

definition trunk_port_body :: "u32 \<Rightarrow> u32 \<Rightarrow> rtk_portmask_t option \<Rightarrow> ('d gsw, unit) drv" where
  "trunk_port_body type trk_gid pTrunk_member_portmask =
     thenE RTK_CHK_INIT_STATE
     (thenE (RTK_CHK_TRUNK_GROUP_VALID trk_gid)
     (case pTrunk_member_portmask of None \<Rightarrow> errE RT_ERR_NULL_POINTER | Some m \<Rightarrow>
      thenE (RTK_CHK_PORTMASK_VALID (Some m))
      (bindE (rtk_switch_portmask_L2P_get (Some m) PTR) (\<lambda>pmsk.
       let group_mask = RTL8367C_PORT_TRUNK_GROUP_MASK_MASK trk_gid in
       if type = 0 \<or> type = 1
       then (if pmsk OR group_mask \<noteq> group_mask then errE RT_ERR_PORT_MASK
             else rtl8367c_setAsicTrunkingGroup trk_gid
               (drop_bit (unat (RTL8367C_PORT_TRUNK_GROUP_MASK_OFFSET trk_gid)) (pmsk AND group_mask)))
       else if type = 2 then rtl8367c_setAsicTrunkingGroup trk_gid (trunk_pmsk2 pmsk)
       else rtl8367c_setAsicTrunkingGroup trk_gid pmsk))))"

definition rtk_trunk_port_set :: "u32 \<Rightarrow> rtk_portmask_t option \<Rightarrow> ('d gsw, unit) drv" where
  "rtk_trunk_port_set trk_gid pTrunk_member_portmask =
     thenE (rtl8367c_setAsicReg 0x13C2 0x0249)
     (bindE (rtl8367c_getAsicReg 0x1300) (\<lambda>regValue.
      thenE (rtl8367c_setAsicReg 0x13C2 0x0000)
      (bindE (trunk_type regValue) (\<lambda>type. trunk_port_body type trk_gid pTrunk_member_portmask))))"

definition rtk_trunk_port_get :: "u32 \<Rightarrow> outptr \<Rightarrow> ('d gsw, rtk_portmask_t) drv" where
  "rtk_trunk_port_get trk_gid pTrunk_member_portmask =
     thenE RTK_CHK_INIT_STATE
     (thenE (RTK_CHK_TRUNK_GROUP_VALID trk_gid)
     (bindE (rtl8367c_getAsicTrunkingGroup trk_gid) (\<lambda>pmsk.
      rtk_switch_portmask_P2L_get (push_bit (unat (RTL8367C_PORT_TRUNK_GROUP_MASK_OFFSET trk_gid)) pmsk) pTrunk_member_portmask)))"

definition rtk_trunk_distributionAlgorithm_set :: "u32 \<Rightarrow> u32 \<Rightarrow> ('d gsw, unit) drv" where
  "rtk_trunk_distributionAlgorithm_set trk_gid algo_bitmask =
     thenE RTK_CHK_INIT_STATE
     (thenE (check_that (trk_gid = RTK_WHOLE_SYSTEM) RT_ERR_LA_TRUNK_ID)
     (thenE (check_that (algo_bitmask < 128) RT_ERR_LA_HASHMASK)
      (rtl8367c_setAsicTrunkingHashSelect algo_bitmask)))"

definition rtk_trunk_distributionAlgorithm_get :: "u32 \<Rightarrow> outptr \<Rightarrow> ('d gsw, u32) drv" where
  "rtk_trunk_distributionAlgorithm_get trk_gid pAlgo_bitmask =
     thenE RTK_CHK_INIT_STATE
     (thenE (check_that (trk_gid = RTK_WHOLE_SYSTEM) RT_ERR_LA_TRUNK_ID)
     (thenE (not_null pAlgo_bitmask) rtl8367c_getAsicTrunkingHashSelect))"

definition rtk_trunk_trafficSeparate_set :: "u32 \<Rightarrow> u32 \<Rightarrow> ('d gsw, unit) drv" where
  "rtk_trunk_trafficSeparate_set trk_gid separateType =
     thenE RTK_CHK_INIT_STATE
     (thenE (check_that (trk_gid = RTK_WHOLE_SYSTEM) RT_ERR_LA_TRUNK_ID)
     (thenE (check_that (separateType < SEPARATE_END) RT_ERR_INPUT)
      (rtl8367c_setAsicTrunkingFlood (if separateType = SEPARATE_FLOOD then ENABLED else DISABLED))))"

definition rtk_trunk_trafficSeparate_get :: "u32 \<Rightarrow> outptr \<Rightarrow> ('d gsw, u32) drv" where
  "rtk_trunk_trafficSeparate_get trk_gid pSeparateType =
     thenE RTK_CHK_INIT_STATE
     (thenE (check_that (trk_gid = RTK_WHOLE_SYSTEM) RT_ERR_LA_TRUNK_ID)
     (thenE (not_null pSeparateType)
     (bindE rtl8367c_getAsicTrunkingFlood (\<lambda>enabled. okE (if enabled = ENABLED then SEPARATE_FLOOD else SEPARATE_NONE)))))"

definition rtk_trunk_mode_set :: "u32 \<Rightarrow> ('d gsw, unit) drv" where
  "rtk_trunk_mode_set mode =
     thenE RTK_CHK_INIT_STATE
     (thenE (check_that (mode < TRUNK_MODE_END) RT_ERR_INPUT) (rtl8367c_setAsicTrunkingMode mode))"

definition rtk_trunk_mode_get :: "outptr \<Rightarrow> ('d gsw, u32) drv" where
  "rtk_trunk_mode_get pMode = thenE RTK_CHK_INIT_STATE (thenE (not_null pMode) rtl8367c_getAsicTrunkingMode)"

definition rtk_trunk_trafficPause_set :: "u32 \<Rightarrow> rtk_enable_t \<Rightarrow> ('d gsw, unit) drv" where
  "rtk_trunk_trafficPause_set trk_gid enable =
     thenE RTK_CHK_INIT_STATE
     (thenE (RTK_CHK_TRUNK_GROUP_VALID trk_gid)
     (thenE (check_that (enable < RTK_ENABLE_END) RT_ERR_INPUT) (rtl8367c_setAsicTrunkingFc trk_gid enable)))"

definition rtk_trunk_trafficPause_get :: "u32 \<Rightarrow> outptr \<Rightarrow> ('d gsw, rtk_enable_t) drv" where
  "rtk_trunk_trafficPause_get trk_gid pEnable =
     thenE RTK_CHK_INIT_STATE
     (thenE (RTK_CHK_TRUNK_GROUP_VALID trk_gid) (thenE (not_null pEnable) (rtl8367c_getAsicTrunkingFc trk_gid)))"

text \<open>The mapping array, sixteen bytes of a structure, is a function of the index.\<close>

type_synonym rtk_trunk_hashVal2Port_t = "nat \<Rightarrow> 8 word"

definition rtk_trunk_hashMappingTable_set :: "u32 \<Rightarrow> rtk_trunk_hashVal2Port_t option \<Rightarrow> ('d gsw, unit) drv" where
  "rtk_trunk_hashMappingTable_set trk_gid pHash2Port_array =
     thenE RTK_CHK_INIT_STATE
     (thenE (RTK_CHK_TRUNK_GROUP_VALID trk_gid)
     (case pHash2Port_array of None \<Rightarrow> errE RT_ERR_NULL_POINTER | Some v \<Rightarrow>
      if trk_gid \<le> TRUNK_GROUP1
      then forE [0..<RTK_MAX_NUM_OF_TRUNK_HASH_VAL] (\<lambda>hashValue.
        rtl8367c_setAsicTrunkingHashTable (of_nat hashValue) (ucast (v hashValue)))
      else forE [0..<RTK_MAX_NUM_OF_TRUNK_HASH_VAL] (\<lambda>hashValue.
        rtl8367c_setAsicTrunkingHashTable1 (of_nat hashValue) (ucast (v hashValue)))))"

definition rtk_trunk_hashMappingTable_get :: "u32 \<Rightarrow> outptr \<Rightarrow> ('d gsw, 8 word list) drv" where
  "rtk_trunk_hashMappingTable_get trk_gid pHash2Port_array =
     thenE RTK_CHK_INIT_STATE
     (thenE (RTK_CHK_TRUNK_GROUP_VALID trk_gid)
     (thenE (not_null pHash2Port_array)
     (if trk_gid \<le> TRUNK_GROUP1
      then mapE (\<lambda>hashValue. bindE (rtl8367c_getAsicTrunkingHashTable (of_nat hashValue)) (\<lambda>hashPort. okE (ucast hashPort)))
        [0..<RTK_MAX_NUM_OF_TRUNK_HASH_VAL]
      else mapE (\<lambda>hashValue. bindE (rtl8367c_getAsicTrunkingHashTable1 (of_nat hashValue)) (\<lambda>hashPort. okE (ucast hashPort)))
        [0..<RTK_MAX_NUM_OF_TRUNK_HASH_VAL])))"

definition rtk_trunk_portQueueEmpty_get :: "outptr \<Rightarrow> ('d gsw, rtk_portmask_t) drv" where
  "rtk_trunk_portQueueEmpty_get pEmpty_portmask =
     thenE RTK_CHK_INIT_STATE (thenE (not_null pEmpty_portmask)
     (bindE rtl8367c_getAsicQeueuEmptyStatus (\<lambda>pmask. rtk_switch_portmask_P2L_get pmask pEmpty_portmask)))"

section \<open>The configuration and its specification\<close>

record trunk_cfg =
  trk_algo :: u32
  trk_flood :: u32
  trk_mode :: u32
  trk_pause :: "u32 \<Rightarrow> u32"
  trk_ports :: "u32 \<Rightarrow> u32"
  trk_table :: "bool \<Rightarrow> nat \<Rightarrow> u32"

datatype trunk_call =
    AlgorithmSet u32 u32 | AlgorithmGet u32 outptr
  | SeparateSet u32 u32 | SeparateGet u32 outptr
  | ModeSet u32 | ModeGet outptr
  | PauseSet u32 u32 | PauseGet u32 outptr
  | TableSet u32 "rtk_trunk_hashVal2Port_t option" | TableGet u32 outptr
  | PortsGet u32 outptr

primrec trunk_run :: "trunk_call \<Rightarrow> ('d gsw, u32 list) drv" where
  "trunk_run (AlgorithmSet g v) = no_result (rtk_trunk_distributionAlgorithm_set g v)"
| "trunk_run (AlgorithmGet g p) = one_result (rtk_trunk_distributionAlgorithm_get g p)"
| "trunk_run (SeparateSet g v) = no_result (rtk_trunk_trafficSeparate_set g v)"
| "trunk_run (SeparateGet g p) = one_result (rtk_trunk_trafficSeparate_get g p)"
| "trunk_run (ModeSet v) = no_result (rtk_trunk_mode_set v)"
| "trunk_run (ModeGet p) = one_result (rtk_trunk_mode_get p)"
| "trunk_run (PauseSet g v) = no_result (rtk_trunk_trafficPause_set g v)"
| "trunk_run (PauseGet g p) = one_result (rtk_trunk_trafficPause_get g p)"
| "trunk_run (TableSet g a) = no_result (rtk_trunk_hashMappingTable_set g a)"
| "trunk_run (TableGet g p) = bindE (rtk_trunk_hashMappingTable_get g p) (\<lambda>vs. okE (map ucast vs))"
| "trunk_run (PortsGet g p) = one_result (rtk_trunk_port_get g p)"

text \<open>
  A group number is checked by shifting: beyond 31 the shift is undefined.  Then it must be a group
  of the chip.
\<close>

definition in_group :: "rtk_switch_halCtrl_t \<Rightarrow> u32 \<Rightarrow> 'm \<Rightarrow> 'r outcome \<times> 'm \<Rightarrow> 'r outcome \<times> 'm" where
  "in_group h g m r = (if unat g \<ge> 32 then (Fault, m) else if bit (trunk_group_mask h) (unat g) then r else (Err RT_ERR_LA_TRUNK_ID, m))"

definition whole_system :: "u32 \<Rightarrow> 'm \<Rightarrow> 'r outcome \<times> 'm \<Rightarrow> 'r outcome \<times> 'm" where
  "whole_system g m r = (if g = RTK_WHOLE_SYSTEM then r else (Err RT_ERR_LA_TRUNK_ID, m))"

text \<open>
  Writing the table stores the entries one by one and stops at the first port number the table
  cannot hold: the entries before it stay written.
\<close>

definition entry_limit :: "bool \<Rightarrow> u32" where
  "entry_limit t = (if t then RTL8367C_TRUNKING1_PORTN0 else RTL8367C_TRUNKING_PORTNO)"

definition good_entries :: "bool \<Rightarrow> rtk_trunk_hashVal2Port_t \<Rightarrow> nat list" where
  "good_entries t v = takeWhile (\<lambda>i. ucast (v i) < entry_limit t) [0..<16]"

primrec trunk_spec :: "rtk_switch_halCtrl_t \<Rightarrow> trunk_call \<Rightarrow> trunk_cfg \<Rightarrow> u32 list outcome \<times> trunk_cfg" where
  "trunk_spec h (AlgorithmSet g v) m = whole_system g m
     (if v < 128 then (Ok [], m\<lparr>trk_algo := v\<rparr>) else (Err RT_ERR_LA_HASHMASK, m))"
| "trunk_spec h (AlgorithmGet g p) m = whole_system g m (non_null p m [trk_algo m])"
| "trunk_spec h (SeparateSet g v) m = whole_system g m
     (if v < 2 then (Ok [], m\<lparr>trk_flood := v\<rparr>) else (Err RT_ERR_INPUT, m))"
| "trunk_spec h (SeparateGet g p) m = whole_system g m (non_null p m [trk_flood m])"
| "trunk_spec h (ModeSet v) m = (if v < 2 then (Ok [], m\<lparr>trk_mode := v\<rparr>) else (Err RT_ERR_INPUT, m))"
| "trunk_spec h (ModeGet p) m = non_null p m [trk_mode m]"
| "trunk_spec h (PauseSet g v) m = in_group h g m
     (if v < 2 then (Ok [], m\<lparr>trk_pause := (trk_pause m)(g := v)\<rparr>) else (Err RT_ERR_INPUT, m))"
| "trunk_spec h (PauseGet g p) m = in_group h g m (non_null p m [trk_pause m g])"
| "trunk_spec h (TableSet g a) m = in_group h g m
     (case a of None \<Rightarrow> (Err RT_ERR_NULL_POINTER, m)
      | Some v \<Rightarrow> (if length (good_entries (g > 1) v) = 16 then Ok [] else Err RT_ERR_PORT_ID,
          m\<lparr>trk_table := (trk_table m)(g > 1 :=
            (\<lambda>i. if i \<in> set (good_entries (g > 1) v) then ucast (v i) else trk_table m (g > 1) i))\<rparr>))"
| "trunk_spec h (TableGet g p) m = in_group h g m (non_null p m (map (trk_table m (g > 1)) [0..<16]))"
| "trunk_spec h (PortsGet g p) m = in_group h g m (non_null p m [p2l_mask h (push_bit (4 * unat g) (trk_ports m g))])"

definition tab_reg :: "bool \<Rightarrow> nat \<Rightarrow> u32" where
  "tab_reg t i = (if i \<ge> 8 then (if t then 0x8A1 else 0x8D3) else (if t then 0x8A0 else 0x8D2))"

definition tab_off :: "nat \<Rightarrow> nat" where
  "tab_off i = 2 * (i mod 8)"

definition trunk_abs :: "rtk_switch_halCtrl_t \<Rightarrow> swt \<Rightarrow> trunk_cfg" where
  "trunk_abs h c =
     \<lparr>trk_algo = gfld 0x8CF 0 7 c, trk_flood = gfld 0x8CF 7 1 c, trk_mode = gfld 0x8CF 8 1 c,
      trk_pause = (\<lambda>g. if g \<le> 2 then gfld 0x8D1 (unat g) 1 c else 0),
      trk_ports = (\<lambda>g. if g \<le> 2 then gfld 0x8D0 (4 * unat g) 4 c else 0),
      trk_table = (\<lambda>t i. if i < 16 then gfld (tab_reg t i) (tab_off i) 2 c else 0)\<rparr>"

section \<open>The calls refine the specification\<close>

lemma trunk_regs [simp]:
  "cfg_reg 0x8CF" "cfg_reg 0x8CE" "cfg_reg 0x8D0" "cfg_reg 0x8D1" "cfg_reg 0x8D2" "cfg_reg 0x8D3" "cfg_reg 0x8A0" "cfg_reg 0x8A1"
  by (simp_all add: cfg_reg_defs)

lemma tab_reg_in: "cfg_reg (tab_reg t i)" "0x7A7 < tab_reg t i" "tab_reg t i \<noteq> 0x8CF" "tab_reg t i \<noteq> 0x8D0" "tab_reg t i \<noteq> 0x8D1" "tab_reg t i \<noteq> 0x8CE"
  by (simp_all add: tab_reg_def)

lemma tab_off_le: "tab_off i + 2 \<le> 16"
proof -
  have "i mod 8 < 8" by simp
  then show ?thesis unfolding tab_off_def by linarith
qed

lemma tab_offs_apart:
  "list_all (\<lambda>i. list_all (\<lambda>j. i = j \<or> (8 \<le> i) \<noteq> (8 \<le> j) \<or> tab_off i + 2 \<le> tab_off j \<or> tab_off j + 2 \<le> tab_off i) [0..<16]) [0..<16]"
  by code_simp

lemma tab_put:
  assumes "i < 16" and "j < 16" and "v \<le> mask 2"
  shows "gfld (tab_reg t' j) (tab_off j) 2 (put_gfld (tab_reg t i) (tab_off i) 2 v c) =
     (if t = t' \<and> i = j then v else gfld (tab_reg t' j) (tab_off j) 2 c)"
proof (cases "tab_reg t i = tab_reg t' j")
  case True
  then have t: "t = t'" and hi: "8 \<le> i \<longleftrightarrow> 8 \<le> j" by (auto simp: tab_reg_def split: if_splits)
  show ?thesis
  proof (cases "i = j")
    case False
    then have "tab_off i + 2 \<le> tab_off j \<or> tab_off j + 2 \<le> tab_off i"
      using hi tab_offs_apart [unfolded list_all_iff, rule_format, of i j] assms(1,2) by auto
    then show ?thesis using False True tab_off_le [of i] by (simp add: gfld_put_apart)
  qed (use t assms(3) tab_off_le [of i] in \<open>simp add: gfld_put\<close>)
qed auto

lemma group_le:
  assumes "hal_wf h" and "bit (trunk_group_mask h) (unat g)"
  shows "g \<le> (2 :: u32)"
proof -
  have "trunk_group_mask h \<le> mask 3" using assms(1) by (simp add: hal_wf_def mask_eq_exp_minus_1)
  then have "unat g < 3" using assms(2) unfolding le_mask_iff_bits by (meson linorder_not_le)
  then show ?thesis by (simp add: word_le_nat_alt)
qed

lemma chk_group_run:
  assumes "ready s h"
  shows "RTK_CHK_TRUNK_GROUP_VALID g s = (if unat g \<ge> 32 then (Fault, s)
     else if bit (trunk_group_mask h) (unat g) then (Ok (), s) else (Err RT_ERR_LA_TRUNK_ID, s))"
  using assms
  by (simp add: bindE_def RTK_CHK_TRUNK_GROUP_VALID_def mapErrE_def rtk_switch_isValidTrunkGrpId_def
      getsE_def ready_def halE_def okE_def errE_def faultE_def)

lemma wp_chk_group:
  assumes "sw_ready c h" and "32 \<le> unat g \<Longrightarrow> Q Fault c"
    and "unat g < 32 \<Longrightarrow> bit (trunk_group_mask h) (unat g) \<Longrightarrow> Q (Ok ()) c"
    and "unat g < 32 \<Longrightarrow> \<not> bit (trunk_group_mask h) (unat g) \<Longrightarrow> Q (Err RT_ERR_LA_TRUNK_ID) c"
  shows "wp view A (RTK_CHK_TRUNK_GROUP_VALID g) Q c"
  using assms(2-) by (auto simp: wp_def chk_group_run [OF sw_ready_rel [OF _ assms(1)]] not_le)

lemma hash_masks:
  "list_all (\<lambda>i. (of_nat i :: u32) \<le> 15 \<and> ((of_nat i :: u32) \<ge> 8 \<longleftrightarrow> 8 \<le> i) \<and>
     (if 8 \<le> i then push_bit (unat (((of_nat i :: u32) - 8) * 2)) 3 = field_mask (tab_off i) 2
      else push_bit (unat ((of_nat i :: u32) * 2)) 3 = field_mask (tab_off i) 2)) [0..<16]"
  by code_simp

lemma hash_mask:
  assumes "i < 16"
  shows "\<not> (15 :: u32) < of_nat i" "(8 :: u32) \<le> of_nat i \<longleftrightarrow> 8 \<le> i"
    "8 \<le> i \<Longrightarrow> push_bit (unat (((of_nat i :: u32) - 8) * 2)) 3 = field_mask (tab_off i) 2"
    "\<not> 8 \<le> i \<Longrightarrow> push_bit (unat ((of_nat i :: u32) * 2)) 3 = field_mask (tab_off i) 2"
  using hash_masks assms by (auto simp: list_all_iff Ball_def not_less)

definition set_entry :: "bool \<Rightarrow> nat \<Rightarrow> u32 \<Rightarrow> ('d gsw, unit) drv" where
  "set_entry t i v = (if t then rtl8367c_setAsicTrunkingHashTable1 (of_nat i) v else rtl8367c_setAsicTrunkingHashTable (of_nat i) v)"

definition get_entry :: "bool \<Rightarrow> nat \<Rightarrow> ('d gsw, u32) drv" where
  "get_entry t i = (if t then rtl8367c_getAsicTrunkingHashTable1 (of_nat i) else rtl8367c_getAsicTrunkingHashTable (of_nat i))"

lemma entry_limit_mask: "v < entry_limit t \<Longrightarrow> v \<le> mask 2"
  by (auto simp: entry_limit_def mask_eq_exp_minus_1 word_le_nat_alt word_less_nat_alt split: if_splits)

lemma wp_set_entry:
  fixes view :: "'d \<Rightarrow> chip_view"
  assumes "i < 16" and "cfg_regs \<subseteq> A"
    and "v < entry_limit t \<Longrightarrow> Q (Ok ()) (put_gfld (tab_reg t i) (tab_off i) 2 v c)"
    and "\<not> v < entry_limit t \<Longrightarrow> Q (Err RT_ERR_PORT_ID) c"
  shows "wp view A (set_entry t i v) Q c"
proof (cases "v < entry_limit t")
  case True
  then have "set_entry t i v = (rtl8367c_setAsicRegBits (tab_reg t i) (field_mask (tab_off i) 2) v :: ('d gsw, unit) drv)"
    using hash_mask [OF assms(1)]
    by (auto simp: set_entry_def rtl8367c_setAsicTrunkingHashTable_def rtl8367c_setAsicTrunkingHashTable1_def tab_reg_def
        entry_limit_def leD simp del: push_bit_numeral split: if_splits)
  with assms True show ?thesis
    by (auto intro!: wp_set_gfld [OF refl] simp: tab_reg_in tab_off_le [simplified] entry_limit_mask)
next
  case False
  then have "set_entry t i v = (errE RT_ERR_PORT_ID :: ('d gsw, unit) drv)"
    using hash_mask(1) [OF assms(1)]
    by (auto simp: set_entry_def rtl8367c_setAsicTrunkingHashTable_def rtl8367c_setAsicTrunkingHashTable1_def
        entry_limit_def not_less split: if_splits)
  with assms False show ?thesis by (simp add: wp_errE)
qed

lemma wp_get_entry:
  fixes view :: "'d \<Rightarrow> chip_view"
  assumes "i < 16" and "cfg_regs \<subseteq> A" and "Q (Ok (gfld (tab_reg t i) (tab_off i) 2 c)) c"
  shows "wp view A (get_entry t i) Q c"
proof -
  have "get_entry t i = (rtl8367c_getAsicRegBits (tab_reg t i) (field_mask (tab_off i) 2) :: ('d gsw, u32) drv)"
    using hash_mask [OF assms(1)]
    by (auto simp: get_entry_def rtl8367c_getAsicTrunkingHashTable_def rtl8367c_getAsicTrunkingHashTable1_def tab_reg_def
        simp del: push_bit_numeral)
  with assms show ?thesis by (auto intro!: wp_get_gfld [OF refl] simp: tab_reg_in tab_off_le [simplified])
qed

text \<open>The loop that fills the table.\<close>

definition put_entries :: "bool \<Rightarrow> (nat \<Rightarrow> u32) \<Rightarrow> nat list \<Rightarrow> swt \<Rightarrow> swt" where
  "put_entries t v = fold (\<lambda>i. put_gfld (tab_reg t i) (tab_off i) 2 (v i))"

lemma wp_set_entries:
  assumes "set is \<subseteq> {..<16}" and "cfg_regs \<subseteq> A"
    and "Q (if list_all (\<lambda>i. v i < entry_limit t) is then Ok () else Err RT_ERR_PORT_ID)
      (put_entries t v (takeWhile (\<lambda>i. v i < entry_limit t) is) c)"
  shows "wp view A (forE is (\<lambda>i. set_entry t i (v i))) Q c"
  using assms(1,3)
proof (induction "is" arbitrary: c)
  case (Cons i "is")
  then show ?case
    using assms(2) by (auto intro!: wp_thenE wp_set_entry simp: put_entries_def)
qed (simp add: wp_okE put_entries_def)

lemma wp_get_entries:
  assumes "set is \<subseteq> {..<16}" and "cfg_regs \<subseteq> A"
    and "Q (Ok (map (\<lambda>i. ucast (gfld (tab_reg t i) (tab_off i) 2 c)) is)) c"
  shows "wp view A (mapE (\<lambda>i. bindE (get_entry t i) (\<lambda>p. okE (ucast p :: 8 word))) is) Q c"
  using assms(1,3)
proof (induction "is" arbitrary: Q)
  case (Cons i "is")
  then show ?case
    using assms(2) by (auto intro!: wp_bindE wp_get_entry wp_okE Cons.IH)
qed (simp add: wp_okE)

lemma put_entries_other:
  assumes "a \<in> {0x8CF, 0x8D0, 0x8D1}"
  shows "gfld a k w (put_entries t v is c) = gfld a k w c"
  unfolding put_entries_def using assms
  by (induction "is" arbitrary: c) (auto simp: tab_reg_in)

lemma put_entries_table:
  assumes "set is \<subseteq> {..<16}" and "j < 16" and "\<forall>i \<in> set is. v i < entry_limit t"
  shows "gfld (tab_reg t' j) (tab_off j) 2 (put_entries t v is c) =
    (if t = t' \<and> j \<in> set is then v j else gfld (tab_reg t' j) (tab_off j) 2 c)"
  unfolding put_entries_def using assms
  by (induction "is" arbitrary: c) (auto simp: tab_put entry_limit_mask)

lemma put_entries_keeps: "sw_ready (put_entries t v is c) h = sw_ready c h" "db_ok (put_entries t v is c) = db_ok c"
  unfolding put_entries_def by (induction "is" arbitrary: c) (simp_all add: db_ok_put_gfld tab_reg_in)

lemmas trunk_set_defs = rtk_trunk_distributionAlgorithm_set_def rtl8367c_setAsicTrunkingHashSelect_def rtk_trunk_trafficSeparate_set_def
  rtl8367c_setAsicTrunkingFlood_def rtk_trunk_mode_set_def rtl8367c_setAsicTrunkingMode_def rtk_trunk_trafficPause_set_def
  rtl8367c_setAsicTrunkingFc_def

lemmas trunk_get_defs = rtk_trunk_distributionAlgorithm_get_def rtl8367c_getAsicTrunkingHashSelect_def rtk_trunk_trafficSeparate_get_def
  rtl8367c_getAsicTrunkingFlood_def rtk_trunk_mode_get_def rtl8367c_getAsicTrunkingMode_def rtk_trunk_trafficPause_get_def
  rtl8367c_getAsicTrunkingFc_def not_null_def

lemmas trunk_simps = trunk_abs_def gfld_put gfld_put_apart db_ok_put_gfld mask_Suc_0 bound1 check_that_def no_result_def one_result_def
  whole_system_def in_group_def non_null_def fun_eq_iff tab_reg_in tab_reg_in(3-6) [symmetric]

lemma algo_mask: "(0x7F :: u32) = field_mask 0 7" "(v :: u32) < 128 \<Longrightarrow> v \<le> mask 7"
  by (auto simp: field_defs mask_eq_exp_minus_1 word_less_nat_alt word_le_nat_alt)

definition trunk_eff :: "rtk_switch_halCtrl_t \<Rightarrow> trunk_call \<Rightarrow> swt \<Rightarrow> u32 list outcome \<Rightarrow> swt \<Rightarrow> bool" where
  "trunk_eff h x c r c' \<longleftrightarrow> (r, trunk_abs h c') = trunk_spec h x (trunk_abs h c) \<and> sw_ready c' h \<and> db_ok c'"

lemma wp_algorithm:
  assumes "sw_ready c h" and "db_ok c" and "cfg_regs \<subseteq> A"
  shows "wp view A (trunk_run (AlgorithmSet g v)) (trunk_eff h (AlgorithmSet g v) c) c"
    and "wp view A (trunk_run (AlgorithmGet g p)) (trunk_eff h (AlgorithmGet g p) c) c"
  using assms
  by (auto intro!: wp_thenE wp_bindE wp_okE wp_errE wp_chk_init wp_set_gfld [OF algo_mask(1)] wp_get_gfld [OF algo_mask(1)]
      simp: trunk_set_defs trunk_get_defs trunk_simps trunk_eff_def algo_mask(2) tab_reg_in)

lemma wp_separate:
  assumes "sw_ready c h" and "db_ok c" and "cfg_regs \<subseteq> A"
  shows "wp view A (trunk_run (SeparateSet g v)) (trunk_eff h (SeparateSet g v) c) c"
    and "wp view A (trunk_run (SeparateGet g p)) (trunk_eff h (SeparateGet g p) c) c"
  using assms gfld_bit_cases [of 7 "0x8CF" c]
  by (auto intro!: wp_thenE wp_bindE wp_okE wp_errE wp_chk_init wp_set_gbit wp_get_gbit
      simp: trunk_set_defs trunk_get_defs trunk_simps trunk_eff_def le_1)

lemma wp_mode:
  assumes "sw_ready c h" and "db_ok c" and "cfg_regs \<subseteq> A"
  shows "wp view A (trunk_run (ModeSet v)) (trunk_eff h (ModeSet v) c) c"
    and "wp view A (trunk_run (ModeGet p)) (trunk_eff h (ModeGet p) c) c"
  using assms
  by (auto intro!: wp_thenE wp_bindE wp_okE wp_errE wp_chk_init wp_set_gbit wp_get_gbit
      simp: trunk_set_defs trunk_get_defs trunk_simps trunk_eff_def)

lemma pause_put:
  assumes "g \<le> (2 :: u32)" and "v \<le> 1"
  shows "gfld 0x8D1 (unat g') 1 (put_gfld 0x8D1 (unat g) 1 v c) = (if g' = g then v else gfld 0x8D1 (unat g') 1 c)"
proof -
  have "unat g \<le> 2" using assms(1) by (simp add: word_le_nat_alt)
  moreover have "unat g < unat g' \<or> unat g' < unat g" if "g' \<noteq> g" using that by (simp add: word_unat_eq_iff linorder_neq_iff disj_commute)
  ultimately show ?thesis
    using assms(2) gfld_put_apart [of 1 "unat g" "unat g'" 1 "0x8D1" v c] by (cases "g' = g") (auto simp: gfld_put mask_Suc_0)
qed

lemma wp_pause:
  assumes "sw_ready c h" and "db_ok c" and "cfg_regs \<subseteq> A"
  shows "wp view A (trunk_run (PauseSet g v)) (trunk_eff h (PauseSet g v) c) c"
    and "wp view A (trunk_run (PauseGet g p)) (trunk_eff h (PauseGet g p) c) c"
proof -
  have g: "g \<le> 2" "\<not> 2 < g" "unat g < 16" if "bit (trunk_group_mask h) (unat g)"
    using group_le [OF _ that] assms(1) by (auto simp: sw_ready_def word_le_nat_alt not_less)
  show "wp view A (trunk_run (PauseSet g v)) (trunk_eff h (PauseSet g v) c) c"
    using assms(2,3) pause_put [OF g(1)]
    by (auto intro!: wp_thenE wp_okE wp_errE wp_chk_init [OF assms(1)] wp_chk_group [OF assms(1)] wp_set_gbit
        simp: trunk_set_defs trunk_simps trunk_eff_def g assms(1))
  show "wp view A (trunk_run (PauseGet g p)) (trunk_eff h (PauseGet g p) c) c"
    using assms(2,3)
    by (auto intro!: wp_thenE wp_bindE wp_okE wp_errE wp_chk_init [OF assms(1)] wp_chk_group [OF assms(1)] wp_get_gbit
        simp: trunk_get_defs trunk_simps trunk_eff_def g assms(1))
qed

lemma takeWhile_full: "length (takeWhile P xs) = length xs \<longleftrightarrow> list_all P xs"
  by (induction xs) auto

lemma good_entries_all: "list_all (\<lambda>i. ucast (v i) < entry_limit t) [0..<16] \<longleftrightarrow> length (good_entries t v) = 16"
  using takeWhile_full [of "\<lambda>i. ucast (v i) < entry_limit t" "[0..<16]"] by (simp only: good_entries_def length_upt diff_zero)

lemma good_entriesD:
  "set (good_entries t v) \<subseteq> {..<16}" "\<forall>i \<in> set (good_entries t v). ucast (v i) < entry_limit t"
  unfolding good_entries_def by (auto dest: set_takeWhileD)

lemma table_code:
  "rtk_trunk_hashMappingTable_set g (Some v) = thenE RTK_CHK_INIT_STATE (thenE (RTK_CHK_TRUNK_GROUP_VALID g)
     (forE [0..<16] (\<lambda>i. set_entry (g > 1) i (ucast (v i)))))"
  "rtk_trunk_hashMappingTable_get g p = thenE RTK_CHK_INIT_STATE (thenE (RTK_CHK_TRUNK_GROUP_VALID g) (thenE (not_null p)
     (mapE (\<lambda>i. bindE (get_entry (g > 1) i) (\<lambda>x. okE (ucast x))) [0..<16])))"
  by (cases "g \<le> 1"; simp add: rtk_trunk_hashMappingTable_set_def rtk_trunk_hashMappingTable_get_def set_entry_def get_entry_def not_le [symmetric])+

lemma trunk_group_small:
  fixes g :: u32
  assumes "sw_ready c h" and "bit (trunk_group_mask h) (unat g)"
  shows "g \<le> 2" "\<not> 2 < g" "unat g \<le> 2" "unat g \<le> 3" "unat (g * 4) = 4 * unat g" "unat (push_bit 2 g) = 4 * unat g"
proof -
  show "g \<le> 2" using group_le [OF _ assms(2)] assms(1) by (simp add: sw_ready_def)
  then show "\<not> 2 < g" and u: "unat g \<le> 2" "unat g \<le> 3" by (simp_all add: word_le_nat_alt not_less)
  then have "unat g = 0 \<or> unat g = 1 \<or> unat g = 2" by linarith
  then have "g = 0 \<or> g = 1 \<or> g = 2" by (auto simp: word_unat_eq_iff)
  then show "unat (g * 4) = 4 * unat g" "unat (push_bit 2 g) = 4 * unat g" by auto
qed

lemma table_state:
  "trunk_abs h (put_entries t (\<lambda>i. ucast (v i)) (good_entries t v) c) = (trunk_abs h c)\<lparr>trk_table := (trk_table (trunk_abs h c))(t :=
     (\<lambda>i. if i \<in> set (good_entries t v) then ucast (v i) else trk_table (trunk_abs h c) t i))\<rparr>"
  using put_entries_table [OF good_entriesD(1) _ good_entriesD(2)] good_entriesD(1) [of t v]
  by (auto simp: trunk_abs_def put_entries_other fun_eq_iff)

lemma wp_table:
  assumes "sw_ready c h" and "db_ok c" and "cfg_regs \<subseteq> A"
  shows "wp view A (trunk_run (TableSet g a)) (trunk_eff h (TableSet g a) c) c"
    and "wp view A (trunk_run (TableGet g p)) (trunk_eff h (TableGet g p) c) c"
proof -
  have idx: "set [0..<16] \<subseteq> {..<16}" by auto
  show "wp view A (trunk_run (TableSet g a)) (trunk_eff h (TableSet g a) c) c"
  proof (cases a)
    case None
    then show ?thesis
      by (auto intro!: wp_thenE wp_errE wp_chk_init [OF assms(1)] wp_chk_group [OF assms(1)]
          simp: rtk_trunk_hashMappingTable_set_def no_result_def in_group_def trunk_eff_def assms)
  next
    case (Some v)
    show ?thesis
      unfolding Some trunk_run.simps no_result_def table_code
      using assms
      by (intro wp_thenE wp_chk_init [OF assms(1)])
         (auto intro!: wp_thenE wp_okE wp_chk_group [OF assms(1)] wp_set_entries [OF idx assms(3)]
           simp: in_group_def trunk_eff_def good_entries_all table_state put_entries_keeps good_entries_def [symmetric] simp del: upt_Suc upt_conv_Cons)
  qed
  have ucast2: "ucast (ucast (gfld a k 2 c) :: 8 word) = gfld a k 2 c" if "k + 2 \<le> 16" for a k
  proof -
    have nb: "\<not> bit (gfld a k 2 c) n" if "8 \<le> n" for n
      using gfld_le [of 2 k a c] \<open>k + 2 \<le> 16\<close> that by (auto simp: le_mask_iff_bits)
    show ?thesis by (intro bit_word_eqI, auto simp: bit_simps, metis nb linorder_not_le)
  qed
  show "wp view A (trunk_run (TableGet g p)) (trunk_eff h (TableGet g p) c) c"
    unfolding trunk_run.simps table_code
    using assms
    by (auto intro!: wp_thenE wp_bindE wp_okE wp_errE wp_chk_init [OF assms(1)] wp_chk_group [OF assms(1)] wp_get_entries [OF idx assms(3)]
        simp: in_group_def trunk_eff_def non_null_def not_null_def check_that_def trunk_abs_def ucast2 [OF tab_off_le] simp del: upt_Suc upt_conv_Cons)
qed

lemma wp_ports_get:
  assumes "sw_ready c h" and "db_ok c" and "cfg_regs \<subseteq> A"
  shows "wp view A (trunk_run (PortsGet g p)) (trunk_eff h (PortsGet g p) c) c"
proof -
  note small = trunk_group_small [OF assms(1)]
  show ?thesis
    using assms(2,3)
    by (auto intro!: wp_thenE wp_bindE wp_okE wp_chk_init [OF assms(1)] wp_chk_group [OF assms(1)] wp_get_gfld [where w = 4 and k = "4 * unat g"] wp_P2L_ptr [OF assms(1)]
        simp: rtk_trunk_port_get_def rtl8367c_getAsicTrunkingGroup_def RTL8367C_PORT_TRUNK_GROUP_MASK_OFFSET_def one_result_def in_group_def
          trunk_eff_def non_null_def trunk_abs_def small assms(1) field_defs)
qed

interpretation trunk_unit: config_unit trunk_abs trunk_spec trunk_run
proof
  fix c :: swt and h A and x :: trunk_call and view :: "'a \<Rightarrow> chip_view"
  assume "sw_ready c h" and "db_ok c" and "cfg_regs \<subseteq> A"
  note a = this
  have "wp view A (trunk_run x) (trunk_eff h x c) c"
    by (cases x) (simp_all only: wp_algorithm [OF a] wp_separate [OF a] wp_mode [OF a] wp_pause [OF a] wp_table [OF a] wp_ports_get [OF a])
  then show "wp view A (trunk_run x) (\<lambda>r c'. (r, trunk_abs h c') = trunk_spec h x (trunk_abs h c) \<and> sw_ready c' h \<and> db_ok c') c"
    by (simp add: trunk_eff_def [abs_def])
qed

section \<open>Setting the ports of a group\<close>

text \<open>
  \<open>rtk_trunk_port_set\<close> reads the chip identifier first, through the lock register \<open>0x13C2\<close>.  The
  theorems assume that this leaves the rest of the chip as it is: \<open>probe_dev\<close> is the device
  afterwards.
\<close>

definition probe_dev :: "'d gsw \<Rightarrow> 'd" where
  "probe_dev s = mdio_wr (gsw_bus s) 0x13C2 0 (snd (mdio_rd (gsw_bus s) 0x1300 (mdio_wr (gsw_bus s) 0x13C2 0x0249 (gsw_dev s))))"

definition probe_keeps :: "('d \<Rightarrow> chip_view) \<Rightarrow> u32 set \<Rightarrow> 'd gsw \<Rightarrow> bool" where
  "probe_keeps view A s \<longleftrightarrow> same_view A (view (gsw_dev s)) (view (probe_dev s)) \<and> v_busy (view (probe_dev s)) = v_busy (view (gsw_dev s))"

lemma trunk_port_set_run:
  "rtk_trunk_port_set g pm s =
     bindE (trunk_type (probed_id s)) (\<lambda>t. trunk_port_body t g pm) (s\<lparr>gsw_dev := probe_dev s\<rparr>)"
  by (simp add: rtk_trunk_port_set_def rtl8367c_setAsicReg_def rtl8367c_getAsicReg_def smi_read_run smi_write_run mapErrE_def
      thenE_def bindE_def probe_dev_def probed_id_def)

lemma probe_rel:
  assumes "driver_up view A h s" and "probe_keeps view A s"
  shows "swt_rel view A (s\<lparr>gsw_dev := probe_dev s\<rparr>) (swt_of view s)"
  using driver_upD(1) [OF assms(1)] assms(2) by (simp add: swt_rel_def probe_keeps_def same_view_def)

lemma wp_set_group:
  assumes "sw_ready c h" and "bit (trunk_group_mask h) (unat g)" and "cfg_regs \<subseteq> A" and "v \<le> mask 4"
    and "Q (Ok ()) (put_gfld 0x8D0 (4 * unat g) 4 v c)"
  shows "wp view A (rtl8367c_setAsicTrunkingGroup g v) Q c"
  unfolding rtl8367c_setAsicTrunkingGroup_def
  using trunk_group_small [OF assms(1,2)] assms(3-5)
  by (auto intro!: wp_set_gfld [where k = "4 * unat g" and w = 4] simp: field_defs)

lemma port_get_after:
  assumes "swt_rel view A t d" and "sw_ready d h" and "db_ok d" and "cfg_regs \<subseteq> A" and "bit (trunk_group_mask h) (unat g)"
  shows "fst (rtk_trunk_port_get g PTR t) = Ok (p2l_mask h (push_bit (4 * unat g) (gfld 0x8D0 (4 * unat g) 4 d)))"
proof -
  note small = trunk_group_small [OF assms(2,5)]
  show ?thesis
    by (rule wp_run_pure(1) [OF _ assms(1)])
       (use assms(4,5) small in \<open>auto intro!: wp_thenE wp_bindE wp_okE wp_chk_init [OF assms(2)] wp_chk_group [OF assms(2)]
          wp_get_gfld [where w = 4 and k = "4 * unat g"] wp_portmask_P2L [OF assms(2)]
          simp: rtk_trunk_port_get_def rtl8367c_getAsicTrunkingGroup_def RTL8367C_PORT_TRUNK_GROUP_MASK_OFFSET_def field_defs\<close>)
qed

definition group_fld :: "u32 \<Rightarrow> u32" where
  "group_fld g = push_bit (4 * unat g) (mask 4)"

lemma in_group_fld:
  assumes "p OR group_fld g = group_fld g" and "unat g \<le> 2"
  shows "drop_bit (4 * unat g) p \<le> mask 4" "push_bit (4 * unat g) (drop_bit (4 * unat g) p) = p" "p AND group_fld g = p"
proof -
  have b: "4 * unat g \<le> k \<and> k < 4 * unat g + 4" if "bit p k" for k
    using assms(1) that by (auto simp: subset_mask_iff group_fld_def bit_simps)
  have b4: "n - 4 * unat g < 4 \<and> n - 4 * unat g < 32" if "bit p n" for n using b [OF that] by linarith
  show "drop_bit (4 * unat g) p \<le> mask 4" unfolding le_mask_iff_bits using b by (auto simp: bit_simps dest: b)
  show "push_bit (4 * unat g) (drop_bit (4 * unat g) p) = p" "p AND group_fld g = p"
    using b b4 assms(2) by (auto intro!: bit_word_eqI simp: bit_simps group_fld_def dest: b)
qed

lemma trunk_port_body_code:
  assumes "t = 0 \<or> t = 1" and "sw_ready c h" and "bit (trunk_group_mask h) (unat g)"
  shows "trunk_port_body t g (Some m) = thenE RTK_CHK_INIT_STATE (thenE (RTK_CHK_TRUNK_GROUP_VALID g) (thenE (RTK_CHK_PORTMASK_VALID (Some m))
     (bindE (rtk_switch_portmask_L2P_get (Some m) PTR) (\<lambda>p. if p OR group_fld g \<noteq> group_fld g then errE RT_ERR_PORT_MASK
        else rtl8367c_setAsicTrunkingGroup g (drop_bit (4 * unat g) (p AND group_fld g))))))"
  using assms(1) trunk_group_small [OF assms(2,3)]
  by (auto simp: trunk_port_body_def Let_def RTL8367C_PORT_TRUNK_GROUP_MASK_MASK_def RTL8367C_PORT_TRUNK_GROUP_MASK_OFFSET_def
      group_fld_def mask_eq_exp_minus_1 cong: if_cong)

lemma group_put:
  assumes "unat g \<le> 2" and "v \<le> mask 4"
  shows "gfld 0x8D0 (4 * unat g') 4 (put_gfld 0x8D0 (4 * unat g) 4 v c) = (if g' = g then v else gfld 0x8D0 (4 * unat g') 4 c)"
proof (cases "g' = g")
  case False
  then have "unat g < unat g' \<or> unat g' < unat g" by (simp add: word_unat_eq_iff linorder_neq_iff disj_commute)
  then have "4 * unat g + 4 \<le> 4 * unat g' \<or> 4 * unat g' + 4 \<le> 4 * unat g" by linarith
  with False assms show ?thesis by (simp add: gfld_put_apart)
qed (use assms in \<open>simp add: gfld_put\<close>)

lemma wp_port_body:
  assumes "sw_ready c h" and "db_ok c" and "cfg_regs \<subseteq> A" and "bit (trunk_group_mask h) (unat g)" and "valid_mask h m" and "t = 0 \<or> t = 1"
  shows "wp view A (trunk_port_body t g (Some m)) (\<lambda>r c'. sw_ready c' h \<and> db_ok c' \<and>
     (if l2p_mask h m OR group_fld g = group_fld g
      then r = Ok () \<and> c' = put_gfld 0x8D0 (4 * unat g) 4 (drop_bit (4 * unat g) (l2p_mask h m)) c
      else r = Err RT_ERR_PORT_MASK \<and> c' = c)) c"
proof -
  note small = trunk_group_small(3) [OF assms(1,4)]
  show ?thesis
    unfolding trunk_port_body_code [OF assms(6,1,4)]
    using assms(2,3,5) small
    by (auto intro!: wp_thenE wp_bindE wp_okE wp_errE wp_chk_init [OF assms(1)] wp_chk_group [OF assms(1)] wp_chk_portmask [OF assms(1)]
        wp_portmask_L2P [OF assms(1)] wp_set_group [OF assms(1,4)] in_group_fld(1) [OF _ small]
        simp: assms(1,4) db_ok_put_gfld in_group_fld(3) [OF _ small])
qed








section \<open>Properties\<close>

text \<open>
  C31. The settings of the aggregation unit refine an abstract configuration: there is a configuration
  from which every sequence of calls that set or read the algorithm, flood separation, mode,
  flow control and mapping tables or read the ports of a group, with any arguments, returns exactly what the
  specification says, values and error codes.  A mapping table with a port number the hardware cannot
  hold is written up to that entry and refused.  Setting the ports of a group (\<open>rtk_trunk_port_set\<close>, which probes the chip
  first) and reading the queue-empty status, which the chip changes by itself, are not among these calls.
\<close>

theorem trunk_calls_refine:
  assumes "driver_up view A h s"
  shows "\<exists>m. \<forall>xs. \<exists>s'. run_calls trunk_run xs s = (fst (spec_calls (trunk_spec h) xs m), s') \<and> driver_up view A h s'"
  by (rule trunk_unit.calls_observed [OF assms])

theorem trunk_calls_refine_witness:
  "\<exists>s'. run_calls trunk_run [AlgorithmSet 0xFF 3, AlgorithmGet 0xFF PTR, TableSet 2 (Some (\<lambda>_. 0)), TableGet 2 PTR, ModeSet 9]
      (sim_gsw 1 (Some rtl8370b_hal_Ctrl)) = ([Ok [], Ok [3], Ok [], Ok (replicate 16 0), Err RT_ERR_INPUT], s')"
proof -
  let ?xs = "[AlgorithmSet 0xFF 3, AlgorithmGet 0xFF PTR, TableSet 2 (Some (\<lambda>_. 0)), TableGet 2 PTR, ModeSet 9]"
  have good: "good_entries True (\<lambda>_. 0) = [0..<16]" by code_simp
  have tab: "map (\<lambda>i. if i < 16 then ucast (0 :: 8 word) else f i) [0..<16] = replicate 16 (0 :: u32)" for f
    by (rule nth_equalityI) auto
  have "bit (trunk_group_mask rtl8370b_hal_Ctrl) 2" "\<not> (9 :: u32) < 2" by code_simp+
  then have "fst (spec_calls (trunk_spec rtl8370b_hal_Ctrl) ?xs m) = [Ok [], Ok [3], Ok [], Ok (replicate 16 0), Err RT_ERR_INPUT]" for m
    by (simp add: whole_system_def non_null_def in_group_def good tab del: upt_Suc upt_conv_Cons)
  with trunk_calls_refine [OF sim_driver_up [OF hal_tables_wf(2)]] show ?thesis by metis
qed

text \<open>A simulated chip that shows an identifier in register \<open>0x1300\<close>.\<close>

definition sim_chip :: "u16 \<Rightarrow> rtk_switch_halCtrl_t \<Rightarrow> sim_dev gsw" where
  "sim_chip i h = (sim_gsw 1 (Some h))\<lparr>gsw_dev := sim_dev0\<lparr>sim_view := sim_view0\<lparr>v_reg := (\<lambda>_. 0)(0x1300 := i)\<rparr>\<rparr>\<rparr>"

lemma sim_chip_up:
  assumes "hal_wf h"
  shows "driver_up sim_view sim_addrs h (sim_chip i h)" "probed_id (sim_chip i h) = ucast i" "probe_keeps sim_view sim_addrs (sim_chip i h)"
proof -
  let ?c = "swt_of sim_view (sim_chip i h)"
  have hw: "hw_mbrcfg j ?c = mc0" if "j \<le> 31" for j
  proof -
    have "hw_mbrcfg j ?c = hw_mbrcfg j (?c\<lparr>sw_reg := \<lambda>_. 0\<rparr>)"
      by (rule hw_mbrcfg_cong [OF that]) (auto simp: swt_of_def sim_chip_def cfg_regs_def cfg_reg_defs)
    then show ?thesis using hw_mbrcfg_zero [of "?c\<lparr>sw_reg := \<lambda>_. 0\<rparr>"] by simp
  qed
  then have "db_ok ?c"
    by (simp add: db_ok_def entry_ok_def mc_empty_def mc0_def idx_le) (simp add: swt_of_def sim_chip_def mc_empty_def)
  with assms show "driver_up sim_view sim_addrs h (sim_chip i h)"
    by (simp add: driver_up_def sim_table_contract sim_cfg_regs ready_def sim_chip_def sim_view0_def)
  show "probed_id (sim_chip i h) = ucast i"
    by (simp add: probed_id_def sim_chip_def sim_rd sim_wr sim_fetch_def sim_store_def sim_rddata_def)
  show "probe_keeps sim_view sim_addrs (sim_chip i h)"
    by (auto simp: probe_keeps_def probe_dev_def same_view_def sim_chip_def sim_rd sim_wr sim_fetch_def sim_store_def sim_rddata_def
        sim_dev0_def sim_view0_def)
qed

text \<open>
  Setting the ports of a group on the RTL8367C and RTL8370B families, when reading the chip
  identifier leaves the rest of the chip as it is: a set within the four physical ports of the group
  is stored and read back exactly, any other set of valid ports is refused with
  \<open>RT_ERR_PORT_MASK\<close>; the other groups of the chip keep their ports in both cases.
\<close>

theorem trunk_ports_round_trip:
  fixes s :: "'d gsw"
  assumes "driver_up view A h s" and "probe_keeps view A s" and "probed_id s \<in> {0x0276, 0x0597, 0x6367, 0x0652, 0x6368}"
    and "bit (trunk_group_mask h) (unat g)" and "valid_mask h m"
  shows "\<exists>s'. rtk_trunk_port_set g (Some m) s = (if l2p_mask h m OR group_fld g = group_fld g then Ok () else Err RT_ERR_PORT_MASK, s') \<and>
     driver_up view A h s' \<and>
     fst (rtk_trunk_port_get g PTR s') = (if l2p_mask h m OR group_fld g = group_fld g then Ok m else fst (rtk_trunk_port_get g PTR s)) \<and>
     (\<forall>g'. g' \<noteq> g \<and> bit (trunk_group_mask h) (unat g') \<longrightarrow> fst (rtk_trunk_port_get g' PTR s') = fst (rtk_trunk_port_get g' PTR s))"
proof -
  note up = driver_upD [OF assms(1)]
  let ?c = "swt_of view s" and ?p = "l2p_mask h m" and ?s = "s\<lparr>gsw_dev := probe_dev s\<rparr>"
  note small = trunk_group_small(3) [OF up(3) assms(4)]
  obtain t where t: "trunk_type (probed_id s) = (okE t :: ('d gsw, u32) drv)" "t = 0 \<or> t = 1"
    using assms(3) by (auto simp: trunk_type_def)
  have run: "rtk_trunk_port_set g (Some m) s = trunk_port_body t g (Some m) ?s"
    unfolding trunk_port_set_run t(1) by simp
  from wp_port_body [OF up(3,4,2) assms(4,5) t(2), of view] probe_rel [OF assms(1,2)]
  obtain r s' c' where 1: "trunk_port_body t g (Some m) ?s = (r, s')" "swt_rel view A s' c'" "sw_ready c' h" "db_ok c'"
    and eff: "if ?p OR group_fld g = group_fld g then r = Ok () \<and> c' = put_gfld 0x8D0 (4 * unat g) 4 (drop_bit (4 * unat g) ?p) ?c
      else r = Err RT_ERR_PORT_MASK \<and> c' = ?c" by (rule wpD) blast
  note get = port_get_after [OF 1(2-4) up(2)] port_get_after [OF up(1,3,4,2)]
  show ?thesis
  proof (cases "?p OR group_fld g = group_fld g")
    case True
    note fld = in_group_fld [OF True small]
    have c': "r = Ok ()" "c' = put_gfld 0x8D0 (4 * unat g) 4 (drop_bit (4 * unat g) ?p) ?c" using eff True by auto
    have "fst (rtk_trunk_port_get g PTR s') = Ok m"
      using get(1) [OF assms(4)] l2p_mask_bound [OF up(5) assms(5)] small fld(1,2) by (simp add: c'(2) group_put)
    moreover have "fst (rtk_trunk_port_get g' PTR s') = fst (rtk_trunk_port_get g' PTR s)"
      if "g' \<noteq> g" and "bit (trunk_group_mask h) (unat g')" for g'
      using get [OF that(2)] that(1) small fld(1) by (simp add: c'(2) group_put)
    ultimately show ?thesis using True run 1 c'(1) driver_upI [OF 1(2) up(2) 1(3,4)] by auto
  next
    case False
    with eff have "r = Err RT_ERR_PORT_MASK" "c' = ?c" by auto
    with get False run 1 driver_upI [OF 1(2) up(2) 1(3,4)] assms(4) show ?thesis by auto
  qed
qed

theorem trunk_ports_round_trip_witness:
  "\<exists>s'. rtk_trunk_port_set 1 (Some 0x30) (sim_chip 0x6368 rtl8370b_hal_Ctrl) = (Ok (), s') \<and> fst (rtk_trunk_port_get 1 PTR s') = Ok 0x30"
proof -
  have h: "hal_wf rtl8370b_hal_Ctrl" by simp
  have "bit (trunk_group_mask rtl8370b_hal_Ctrl) (unat (1 :: u32))" "valid_mask rtl8370b_hal_Ctrl 0x30"
    "l2p_mask rtl8370b_hal_Ctrl 0x30 OR group_fld 1 = group_fld 1" by code_simp+
  with trunk_ports_round_trip [OF sim_chip_up(1) [OF h, of "0x6368"] sim_chip_up(3) [OF h], of 1 "0x30"] sim_chip_up(2) [OF h, of "0x6368"]
  show ?thesis by auto
qed



end
