(* ===== verification/Rate.thy ===== *)
theory Rate
  imports Cpu Trunk
begin

text \<open>
  Rates: \<open>rate.c\<close>, \<open>rtl8367c_asicdrv_inbwctrl.c\<close>, \<open>rtl8367c_asicdrv_meter.c\<close> and the rate functions of
  \<open>rtl8367c_asicdrv_scheduling.c\<close>.  A rate has 19 bits in units of 8 kbps, the lower 16 in one register and
  the upper three in the next; the meters 0 to 31 and 32 to 63 are in different banks of registers.
\<close>

section \<open>Registers\<close>

abbreviation (input) RTL8367C_QOS_GRANULARTY_MAX :: u32 where "RTL8367C_QOS_GRANULARTY_MAX \<equiv> 0x7FFFF"
abbreviation (input) RTL8367C_QOS_GRANULARTY_LSB_MASK :: u32 where "RTL8367C_QOS_GRANULARTY_LSB_MASK \<equiv> 0xFFFF"
abbreviation (input) RTL8367C_QOS_GRANULARTY_MSB_MASK :: u32 where "RTL8367C_QOS_GRANULARTY_MSB_MASK \<equiv> 0x70000"
abbreviation (input) RTL8367C_QOS_GRANULARTY_MSB_OFFSET :: nat where "RTL8367C_QOS_GRANULARTY_MSB_OFFSET \<equiv> 16"
abbreviation (input) RTL8367C_QOS_RATE_INPUT_MAX :: u32 where "RTL8367C_QOS_RATE_INPUT_MAX \<equiv> 0x1FFFF * 8"
abbreviation (input) RTL8367C_QOS_RATE_INPUT_MAX_HSG :: u32 where "RTL8367C_QOS_RATE_INPUT_MAX_HSG \<equiv> 0x7FFFF * 8"
abbreviation (input) RTL8367C_QOS_RATE_INPUT_MIN :: u32 where "RTL8367C_QOS_RATE_INPUT_MIN \<equiv> 8"
abbreviation (input) RTL8367C_QOS_PPS_INPUT_MAX :: u32 where "RTL8367C_QOS_PPS_INPUT_MAX \<equiv> 0x7FFFF"
abbreviation (input) RTL8367C_QOS_PPS_INPUT_MIN :: u32 where "RTL8367C_QOS_PPS_INPUT_MIN \<equiv> 1"
abbreviation (input) RTL8367C_METERBUCKETSIZEMAX :: u32 where "RTL8367C_METERBUCKETSIZEMAX \<equiv> 0xFFFF"
abbreviation (input) RTL8367C_QIDMAX :: u32 where "RTL8367C_QIDMAX \<equiv> 7"
abbreviation (input) RTL8367C_PORT_QUEUE_METER_INDEX_MAX :: u32 where "RTL8367C_PORT_QUEUE_METER_INDEX_MAX \<equiv> 7"
abbreviation (input) RTK_MAX_NUM_OF_QUEUE :: u32 where "RTK_MAX_NUM_OF_QUEUE \<equiv> 8"
abbreviation (input) METER_TYPE_KBPS :: u32 where "METER_TYPE_KBPS \<equiv> 0"
abbreviation (input) METER_TYPE_PPS :: u32 where "METER_TYPE_PPS \<equiv> 1"
abbreviation (input) METER_TYPE_END :: u32 where "METER_TYPE_END \<equiv> 2"

definition RTL8367C_INGRESSBW_PORT_RATE_LSB_REG :: "u32 \<Rightarrow> u32" where
  "RTL8367C_INGRESSBW_PORT_RATE_LSB_REG port = 0x000F + push_bit 5 port"

abbreviation (input) RTL8367C_INGRESSBW_RATE16_MASK :: u32 where "RTL8367C_INGRESSBW_RATE16_MASK \<equiv> 0x7"
abbreviation (input) RTL8367C_INGRESSBW_IFG_OFFSET :: u32 where "RTL8367C_INGRESSBW_IFG_OFFSET \<equiv> 10"
abbreviation (input) RTL8367C_INGRESSBW_FLOWCTRL_OFFSET :: u32 where "RTL8367C_INGRESSBW_FLOWCTRL_OFFSET \<equiv> 11"
abbreviation (input) RTL8367C_REG_SW_DUMMY0 :: u32 where "RTL8367C_REG_SW_DUMMY0 \<equiv> 0x1214"
abbreviation (input) RTL8367C_INGRESSBW_BYPASS_EN_OFFSET :: u32 where "RTL8367C_INGRESSBW_BYPASS_EN_OFFSET \<equiv> 2"

definition RTL8367C_PORT_EGRESSBW_LSB_REG :: "u32 \<Rightarrow> u32" where
  "RTL8367C_PORT_EGRESSBW_LSB_REG port = 0x038C + push_bit 1 port"

definition RTL8367C_PORT_EGRESSBW_MSB_REG :: "u32 \<Rightarrow> u32" where
  "RTL8367C_PORT_EGRESSBW_MSB_REG port = 0x038D + push_bit 1 port"

abbreviation (input) RTL8367C_PORT6_EGRESSBW_CTRL1_MASK :: u32 where "RTL8367C_PORT6_EGRESSBW_CTRL1_MASK \<equiv> 0x7"
abbreviation (input) RTL8367C_REG_SCHEDULE_WFQ_CTRL :: u32 where "RTL8367C_REG_SCHEDULE_WFQ_CTRL \<equiv> 0x0300"
abbreviation (input) RTL8367C_SCHEDULE_WFQ_CTRL_OFFSET :: u32 where "RTL8367C_SCHEDULE_WFQ_CTRL_OFFSET \<equiv> 0"
abbreviation (input) RTL8367C_SCHEDULE_APR_CTRL_REG :: u32 where "RTL8367C_SCHEDULE_APR_CTRL_REG \<equiv> 0x030A"
abbreviation (input) RTL8367C_REG_SCHEDULE_PORT8_APR_METER_CTRL0 :: u32 where "RTL8367C_REG_SCHEDULE_PORT8_APR_METER_CTRL0 \<equiv> 0x03CA"

definition RTL8367C_SCHEDULE_PORT_APR_METER_REG :: "u32 \<Rightarrow> u32 \<Rightarrow> u32" where
  "RTL8367C_SCHEDULE_PORT_APR_METER_REG port queue = 0x03AC + push_bit 2 port + queue div 5"

definition RTL8367C_SCHEDULE_PORT_APR_METER_MASK :: "u32 \<Rightarrow> u32" where
  "RTL8367C_SCHEDULE_PORT_APR_METER_MASK queue = push_bit (3 * (unat queue mod 5)) 0x7"

definition RTL8367C_METER_RATE_REG :: "u32 \<Rightarrow> u32" where
  "RTL8367C_METER_RATE_REG meter = push_bit 1 meter + 0x1400"

definition RTL8367C_METER_BUCKET_SIZE_REG :: "u32 \<Rightarrow> u32" where
  "RTL8367C_METER_BUCKET_SIZE_REG meter = 0x1600 + meter"

definition RTL8367C_METER_IFG_CTRL_REG :: "u32 \<Rightarrow> u32" where
  "RTL8367C_METER_IFG_CTRL_REG meter = 0x1712 + drop_bit 4 meter"

definition RTL8367C_METER_IFG_OFFSET :: "u32 \<Rightarrow> u32" where
  "RTL8367C_METER_IFG_OFFSET meter = meter AND 0xF"

definition RTL8367C_METER_OVERRATE_INDICATOR_REG :: "u32 \<Rightarrow> u32" where
  "RTL8367C_METER_OVERRATE_INDICATOR_REG meter = 0x1702 + drop_bit 4 meter"

definition RTL8367C_METER_EXCEED_OFFSET :: "u32 \<Rightarrow> u32" where
  "RTL8367C_METER_EXCEED_OFFSET meter = meter AND 0xF"

abbreviation (input) RTL8367C_REG_METER32_RATE_CTRL0 :: u32 where "RTL8367C_REG_METER32_RATE_CTRL0 \<equiv> 0x1740"
abbreviation (input) RTL8367C_REG_METER_IFG_CTRL2 :: u32 where "RTL8367C_REG_METER_IFG_CTRL2 \<equiv> 0x17B4"
abbreviation (input) RTL8367C_REG_METER32_BUCKET_SIZE :: u32 where "RTL8367C_REG_METER32_BUCKET_SIZE \<equiv> 0x1790"
abbreviation (input) RTL8367C_REG_METER_MODE_SETTING0 :: u32 where "RTL8367C_REG_METER_MODE_SETTING0 \<equiv> 0x1440"
abbreviation (input) RTL8367C_REG_METER_MODE_SETTING2 :: u32 where "RTL8367C_REG_METER_MODE_SETTING2 \<equiv> 0x1780"
abbreviation (input) RTL8367C_REG_METER_OVERRATE_INDICATOR2 :: u32 where "RTL8367C_REG_METER_OVERRATE_INDICATOR2 \<equiv> 0x17B0"

section \<open>Ingress bandwidth\<close>

definition rtl8367c_setAsicPortIngressBandwidth :: "u32 \<Rightarrow> u32 \<Rightarrow> u32 \<Rightarrow> u32 \<Rightarrow> ('d gsw, unit) drv" where
  "rtl8367c_setAsicPortIngressBandwidth port bandwidth preifg enableFC =
     (if port \<ge> RTL8367C_PORTNO then errE RT_ERR_PORT_ID
      else if bandwidth > RTL8367C_QOS_GRANULARTY_MAX then errE RT_ERR_OUT_OF_RANGE
      else
        thenE (rtl8367c_setAsicReg (RTL8367C_INGRESSBW_PORT_RATE_LSB_REG port) (bandwidth AND RTL8367C_QOS_GRANULARTY_LSB_MASK))
        (thenE (rtl8367c_setAsicRegBits (RTL8367C_INGRESSBW_PORT_RATE_LSB_REG port + 1) RTL8367C_INGRESSBW_RATE16_MASK
            (drop_bit RTL8367C_QOS_GRANULARTY_MSB_OFFSET (bandwidth AND RTL8367C_QOS_GRANULARTY_MSB_MASK)))
        (thenE (rtl8367c_setAsicRegBit (RTL8367C_PORT_MISC_CFG_REG port) RTL8367C_INGRESSBW_IFG_OFFSET preifg)
        (rtl8367c_setAsicRegBit (RTL8367C_PORT_MISC_CFG_REG port) RTL8367C_INGRESSBW_FLOWCTRL_OFFSET enableFC))))"

definition rtl8367c_getAsicPortIngressBandwidth :: "u32 \<Rightarrow> ('d gsw, u32 \<times> u32 \<times> u32) drv" where
  "rtl8367c_getAsicPortIngressBandwidth port =
     (if port \<ge> RTL8367C_PORTNO then errE RT_ERR_PORT_ID
      else
        bindE (rtl8367c_getAsicReg (RTL8367C_INGRESSBW_PORT_RATE_LSB_REG port)) (\<lambda>lsb.
        bindE (rtl8367c_getAsicRegBits (RTL8367C_INGRESSBW_PORT_RATE_LSB_REG port + 1) RTL8367C_INGRESSBW_RATE16_MASK) (\<lambda>msb.
        bindE (rtl8367c_getAsicRegBit (RTL8367C_PORT_MISC_CFG_REG port) RTL8367C_INGRESSBW_IFG_OFFSET) (\<lambda>ifg.
        bindE (rtl8367c_getAsicRegBit (RTL8367C_PORT_MISC_CFG_REG port) RTL8367C_INGRESSBW_FLOWCTRL_OFFSET) (\<lambda>fc.
        okE (lsb OR push_bit RTL8367C_QOS_GRANULARTY_MSB_OFFSET msb, ifg, fc))))))"

definition rtl8367c_setAsicPortIngressBandwidthBypass :: "u32 \<Rightarrow> ('d gsw, unit) drv" where
  "rtl8367c_setAsicPortIngressBandwidthBypass enabled = rtl8367c_setAsicRegBit RTL8367C_REG_SW_DUMMY0 RTL8367C_INGRESSBW_BYPASS_EN_OFFSET enabled"

definition rtl8367c_getAsicPortIngressBandwidthBypass :: "('d gsw, u32) drv" where
  "rtl8367c_getAsicPortIngressBandwidthBypass = rtl8367c_getAsicRegBit RTL8367C_REG_SW_DUMMY0 RTL8367C_INGRESSBW_BYPASS_EN_OFFSET"

section \<open>Egress bandwidth\<close>

definition rtl8367c_setAsicPortEgressRate :: "u32 \<Rightarrow> u32 \<Rightarrow> ('d gsw, unit) drv" where
  "rtl8367c_setAsicPortEgressRate port rate =
     (if port > RTL8367C_PORTIDMAX then errE RT_ERR_PORT_ID
      else if rate > RTL8367C_QOS_GRANULARTY_MAX then errE RT_ERR_QOS_EBW_RATE
      else
        thenE (rtl8367c_setAsicReg (RTL8367C_PORT_EGRESSBW_LSB_REG port) (RTL8367C_QOS_GRANULARTY_LSB_MASK AND rate))
        (rtl8367c_setAsicRegBits (RTL8367C_PORT_EGRESSBW_MSB_REG port) RTL8367C_PORT6_EGRESSBW_CTRL1_MASK
          (drop_bit RTL8367C_QOS_GRANULARTY_MSB_OFFSET (RTL8367C_QOS_GRANULARTY_MSB_MASK AND rate))))"

definition rtl8367c_getAsicPortEgressRate :: "u32 \<Rightarrow> ('d gsw, u32) drv" where
  "rtl8367c_getAsicPortEgressRate port =
     (if port > RTL8367C_PORTIDMAX then errE RT_ERR_PORT_ID
      else
        bindE (rtl8367c_getAsicReg (RTL8367C_PORT_EGRESSBW_LSB_REG port)) (\<lambda>regData.
        bindE (rtl8367c_getAsicRegBits (RTL8367C_PORT_EGRESSBW_MSB_REG port) RTL8367C_PORT6_EGRESSBW_CTRL1_MASK) (\<lambda>regData2.
        okE (regData OR push_bit RTL8367C_QOS_GRANULARTY_MSB_OFFSET regData2))))"

definition rtl8367c_setAsicPortEgressRateIfg :: "u32 \<Rightarrow> ('d gsw, unit) drv" where
  "rtl8367c_setAsicPortEgressRateIfg ifg = rtl8367c_setAsicRegBit RTL8367C_REG_SCHEDULE_WFQ_CTRL RTL8367C_SCHEDULE_WFQ_CTRL_OFFSET ifg"

definition rtl8367c_getAsicPortEgressRateIfg :: "('d gsw, u32) drv" where
  "rtl8367c_getAsicPortEgressRateIfg = rtl8367c_getAsicRegBit RTL8367C_REG_SCHEDULE_WFQ_CTRL RTL8367C_SCHEDULE_WFQ_CTRL_OFFSET"

section \<open>Average packet rate of a queue\<close>

definition rtl8367c_setAsicAprMeter :: "u32 \<Rightarrow> u32 \<Rightarrow> u32 \<Rightarrow> ('d gsw, unit) drv" where
  "rtl8367c_setAsicAprMeter port qid apridx =
     (if port > RTL8367C_PORTIDMAX then errE RT_ERR_PORT_ID
      else if qid > RTL8367C_QIDMAX then errE RT_ERR_QUEUE_ID
      else if apridx > RTL8367C_PORT_QUEUE_METER_INDEX_MAX then errE RT_ERR_FILTER_METER_ID
      else if port < 8
      then rtl8367c_setAsicRegBits (RTL8367C_SCHEDULE_PORT_APR_METER_REG port qid) (RTL8367C_SCHEDULE_PORT_APR_METER_MASK qid) apridx
      else rtl8367c_setAsicRegBits (RTL8367C_REG_SCHEDULE_PORT8_APR_METER_CTRL0 + push_bit 1 (port - 8) + qid div 5)
        (RTL8367C_SCHEDULE_PORT_APR_METER_MASK qid) apridx)"

definition rtl8367c_getAsicAprMeter :: "u32 \<Rightarrow> u32 \<Rightarrow> ('d gsw, u32) drv" where
  "rtl8367c_getAsicAprMeter port qid =
     (if port > RTL8367C_PORTIDMAX then errE RT_ERR_PORT_ID
      else if qid > RTL8367C_QIDMAX then errE RT_ERR_QUEUE_ID
      else if port < 8
      then rtl8367c_getAsicRegBits (RTL8367C_SCHEDULE_PORT_APR_METER_REG port qid) (RTL8367C_SCHEDULE_PORT_APR_METER_MASK qid)
      else rtl8367c_getAsicRegBits (RTL8367C_REG_SCHEDULE_PORT8_APR_METER_CTRL0 + push_bit 1 (port - 8) + qid div 5)
        (RTL8367C_SCHEDULE_PORT_APR_METER_MASK qid))"

definition rtl8367c_setAsicAprEnable :: "u32 \<Rightarrow> u32 \<Rightarrow> ('d gsw, unit) drv" where
  "rtl8367c_setAsicAprEnable port aprEnable =
     (if port > RTL8367C_PORTIDMAX then errE RT_ERR_PORT_ID
      else rtl8367c_setAsicRegBit RTL8367C_SCHEDULE_APR_CTRL_REG port aprEnable)"

definition rtl8367c_getAsicAprEnable :: "u32 \<Rightarrow> ('d gsw, u32) drv" where
  "rtl8367c_getAsicAprEnable port =
     (if port > RTL8367C_PORTIDMAX then errE RT_ERR_PORT_ID
      else rtl8367c_getAsicRegBit RTL8367C_SCHEDULE_APR_CTRL_REG port)"

section \<open>Shared meters\<close>

definition rtl8367c_setAsicShareMeter :: "u32 \<Rightarrow> u32 \<Rightarrow> u32 \<Rightarrow> ('d gsw, unit) drv" where
  "rtl8367c_setAsicShareMeter index rate ifg =
     (if index > RTL8367C_METERMAX then errE RT_ERR_FILTER_METER_ID
      else if index < 32
      then
        thenE (rtl8367c_setAsicReg (RTL8367C_METER_RATE_REG index) (rate AND 0xFFFF))
        (thenE (rtl8367c_setAsicReg (RTL8367C_METER_RATE_REG index + 1) (drop_bit 16 (rate AND 0x70000)))
        (rtl8367c_setAsicRegBit (RTL8367C_METER_IFG_CTRL_REG index) (RTL8367C_METER_IFG_OFFSET index) ifg))
      else
        thenE (rtl8367c_setAsicReg (RTL8367C_REG_METER32_RATE_CTRL0 + push_bit 1 (index - 32)) (rate AND 0xFFFF))
        (thenE (rtl8367c_setAsicReg (RTL8367C_REG_METER32_RATE_CTRL0 + push_bit 1 (index - 32) + 1) (drop_bit 16 (rate AND 0x70000)))
        (rtl8367c_setAsicRegBit (RTL8367C_REG_METER_IFG_CTRL2 + drop_bit 4 (index - 32)) (RTL8367C_METER_IFG_OFFSET index) ifg)))"

definition rtl8367c_getAsicShareMeter :: "u32 \<Rightarrow> ('d gsw, u32 \<times> u32) drv" where
  "rtl8367c_getAsicShareMeter index =
     (if index > RTL8367C_METERMAX then errE RT_ERR_FILTER_METER_ID
      else if index < 32
      then
        bindE (rtl8367c_getAsicReg (RTL8367C_METER_RATE_REG index)) (\<lambda>regData.
        bindE (rtl8367c_getAsicReg (RTL8367C_METER_RATE_REG index + 1)) (\<lambda>regData2.
        bindE (rtl8367c_getAsicRegBit (RTL8367C_METER_IFG_CTRL_REG index) (RTL8367C_METER_IFG_OFFSET index)) (\<lambda>ifg.
        okE ((push_bit 16 regData2 AND 0x70000) OR regData, ifg))))
      else
        bindE (rtl8367c_getAsicReg (RTL8367C_REG_METER32_RATE_CTRL0 + push_bit 1 (index - 32))) (\<lambda>regData.
        bindE (rtl8367c_getAsicReg (RTL8367C_REG_METER32_RATE_CTRL0 + push_bit 1 (index - 32) + 1)) (\<lambda>regData2.
        bindE (rtl8367c_getAsicRegBit (RTL8367C_REG_METER_IFG_CTRL2 + drop_bit 4 (index - 32)) (RTL8367C_METER_IFG_OFFSET index)) (\<lambda>ifg.
        okE ((push_bit 16 regData2 AND 0x70000) OR regData, ifg)))))"

definition rtl8367c_setAsicShareMeterBucketSize :: "u32 \<Rightarrow> u32 \<Rightarrow> ('d gsw, unit) drv" where
  "rtl8367c_setAsicShareMeterBucketSize index lbthreshold =
     (if index > RTL8367C_METERMAX then errE RT_ERR_FILTER_METER_ID
      else if index < 32 then rtl8367c_setAsicReg (RTL8367C_METER_BUCKET_SIZE_REG index) lbthreshold
      else rtl8367c_setAsicReg (RTL8367C_REG_METER32_BUCKET_SIZE + index - 32) lbthreshold)"

definition rtl8367c_getAsicShareMeterBucketSize :: "u32 \<Rightarrow> ('d gsw, u32) drv" where
  "rtl8367c_getAsicShareMeterBucketSize index =
     (if index > RTL8367C_METERMAX then errE RT_ERR_FILTER_METER_ID
      else if index < 32 then rtl8367c_getAsicReg (RTL8367C_METER_BUCKET_SIZE_REG index)
      else rtl8367c_getAsicReg (RTL8367C_REG_METER32_BUCKET_SIZE + index - 32))"

definition meter_mode_reg :: "u32 \<Rightarrow> u32" where
  "meter_mode_reg index = (if index < 32 then RTL8367C_REG_METER_MODE_SETTING0 + index div 16
     else RTL8367C_REG_METER_MODE_SETTING2 + (index - 32) div 16)"

definition rtl8367c_setAsicShareMeterType :: "u32 \<Rightarrow> u32 \<Rightarrow> ('d gsw, unit) drv" where
  "rtl8367c_setAsicShareMeterType index ty =
     (if index > RTL8367C_METERMAX then errE RT_ERR_FILTER_METER_ID
      else rtl8367c_setAsicRegBit (meter_mode_reg index) (index mod 16) ty)"

definition rtl8367c_getAsicShareMeterType :: "u32 \<Rightarrow> outptr \<Rightarrow> ('d gsw, u32) drv" where
  "rtl8367c_getAsicShareMeterType index pType =
     (if index > RTL8367C_METERMAX then errE RT_ERR_FILTER_METER_ID
      else if pType = NULLP then errE RT_ERR_NULL_POINTER
      else rtl8367c_getAsicRegBit (meter_mode_reg index) (index mod 16))"

definition meter_exceed_reg :: "u32 \<Rightarrow> u32" where
  "meter_exceed_reg index = (if index < 32 then RTL8367C_METER_OVERRATE_INDICATOR_REG index
     else RTL8367C_REG_METER_OVERRATE_INDICATOR2 + drop_bit 4 (index - 32))"

definition rtl8367c_setAsicMeterExceedStatus :: "u32 \<Rightarrow> ('d gsw, unit) drv" where
  "rtl8367c_setAsicMeterExceedStatus index =
     (if index > RTL8367C_METERMAX then errE RT_ERR_FILTER_METER_ID
      else rtl8367c_setAsicRegBit (meter_exceed_reg index) (RTL8367C_METER_EXCEED_OFFSET index) 1)"

definition rtl8367c_getAsicMeterExceedStatus :: "u32 \<Rightarrow> ('d gsw, u32) drv" where
  "rtl8367c_getAsicMeterExceedStatus index =
     (if index > RTL8367C_METERMAX then errE RT_ERR_FILTER_METER_ID
      else rtl8367c_getAsicRegBit (meter_exceed_reg index) (RTL8367C_METER_EXCEED_OFFSET index))"

section \<open>API\<close>

definition RTK_MAX_METER_ID :: "('d gsw, u32) drv" where
  "RTK_MAX_METER_ID = rtk_switch_maxMeterId_get"

definition rtk_rate_shareMeter_set :: "u32 \<Rightarrow> u32 \<Rightarrow> u32 \<Rightarrow> rtk_enable_t \<Rightarrow> ('d gsw, unit) drv" where
  "rtk_rate_shareMeter_set index ty rate ifg_include =
     thenE RTK_CHK_INIT_STATE
     (bindE RTK_MAX_METER_ID (\<lambda>max_id.
      if index > max_id then errE RT_ERR_FILTER_METER_ID
      else if ty \<ge> METER_TYPE_END then errE RT_ERR_INPUT
      else if ifg_include \<ge> RTK_ENABLE_END then errE RT_ERR_INPUT
      else
        thenE
          (if ty = METER_TYPE_KBPS
           then (if rate > RTL8367C_QOS_RATE_INPUT_MAX_HSG \<or> rate < RTL8367C_QOS_RATE_INPUT_MIN then errE RT_ERR_RATE
             else rtl8367c_setAsicShareMeter index (drop_bit 3 rate) ifg_include)
           else if ty = METER_TYPE_PPS
           then (if rate > RTL8367C_QOS_PPS_INPUT_MAX \<or> rate < RTL8367C_QOS_PPS_INPUT_MIN then errE RT_ERR_RATE
             else rtl8367c_setAsicShareMeter index rate ifg_include)
           else errE RT_ERR_INPUT)
          (rtl8367c_setAsicShareMeterType index ty)))"

definition rtk_rate_shareMeter_get :: "u32 \<Rightarrow> outptr \<Rightarrow> outptr \<Rightarrow> outptr \<Rightarrow> ('d gsw, u32 \<times> u32 \<times> u32) drv" where
  "rtk_rate_shareMeter_get index pType pRate pIfg_include =
     thenE RTK_CHK_INIT_STATE
     (bindE RTK_MAX_METER_ID (\<lambda>max_id.
      if index > max_id then errE RT_ERR_FILTER_METER_ID
      else
        thenE (not_null pType) (thenE (not_null pRate) (thenE (not_null pIfg_include)
        (bindE (rtl8367c_getAsicShareMeter index) (\<lambda>(regData, ifg).
         bindE (rtl8367c_getAsicShareMeterType index pType) (\<lambda>ty.
         okE (ty, if ty = METER_TYPE_KBPS then push_bit 3 regData else regData, ifg))))))))"

definition rtk_rate_shareMeterBucket_set :: "u32 \<Rightarrow> u32 \<Rightarrow> ('d gsw, unit) drv" where
  "rtk_rate_shareMeterBucket_set index bucket_size =
     thenE RTK_CHK_INIT_STATE
     (bindE RTK_MAX_METER_ID (\<lambda>max_id.
      if index > max_id then errE RT_ERR_FILTER_METER_ID
      else if bucket_size > RTL8367C_METERBUCKETSIZEMAX then errE RT_ERR_INPUT
      else rtl8367c_setAsicShareMeterBucketSize index bucket_size))"

definition rtk_rate_shareMeterBucket_get :: "u32 \<Rightarrow> outptr \<Rightarrow> ('d gsw, u32) drv" where
  "rtk_rate_shareMeterBucket_get index pBucket_size =
     thenE RTK_CHK_INIT_STATE
     (bindE RTK_MAX_METER_ID (\<lambda>max_id.
      if index > max_id then errE RT_ERR_FILTER_METER_ID
      else thenE (not_null pBucket_size) (rtl8367c_getAsicShareMeterBucketSize index)))"

text \<open>The rates a port admits: the fast port of the chip has the whole range.\<close>

definition check_port_rate :: "rtk_port_t \<Rightarrow> u32 \<Rightarrow> ('d gsw, unit) drv" where
  "check_port_rate port rate =
     bindE (isOkE (rtk_switch_isHsgPort port)) (\<lambda>hsg.
       if hsg
       then (if rate > RTL8367C_QOS_RATE_INPUT_MAX_HSG \<or> rate < RTL8367C_QOS_RATE_INPUT_MIN then errE RT_ERR_QOS_EBW_RATE else okE ())
       else (if rate > RTL8367C_QOS_RATE_INPUT_MAX \<or> rate < RTL8367C_QOS_RATE_INPUT_MIN then errE RT_ERR_QOS_EBW_RATE else okE ()))"

definition rtk_rate_igrBandwidthCtrlRate_set :: "rtk_port_t \<Rightarrow> u32 \<Rightarrow> rtk_enable_t \<Rightarrow> rtk_enable_t \<Rightarrow> ('d gsw, unit) drv" where
  "rtk_rate_igrBandwidthCtrlRate_set port rate ifg_include fc_enable =
     thenE RTK_CHK_INIT_STATE
     (thenE (RTK_CHK_PORT_VALID port)
     (thenE (check_that (ifg_include < RTK_ENABLE_END) RT_ERR_INPUT)
     (thenE (check_that (fc_enable < RTK_ENABLE_END) RT_ERR_INPUT)
     (thenE (check_port_rate port rate)
     (bindE (rtk_switch_port_L2P_get port) (\<lambda>phy.
      rtl8367c_setAsicPortIngressBandwidth phy (drop_bit 3 rate) ifg_include fc_enable))))))"

text \<open>The pointer for the rate is not checked.\<close>

definition rtk_rate_igrBandwidthCtrlRate_get :: "rtk_port_t \<Rightarrow> outptr \<Rightarrow> outptr \<Rightarrow> outptr \<Rightarrow> ('d gsw, u32 \<times> u32 \<times> u32) drv" where
  "rtk_rate_igrBandwidthCtrlRate_get port pRate pIfg_include pFc_enable =
     thenE RTK_CHK_INIT_STATE
     (thenE (RTK_CHK_PORT_VALID port)
     (thenE (not_null pIfg_include)
     (thenE (not_null pFc_enable)
     (bindE (rtk_switch_port_L2P_get port) (\<lambda>phy.
      bindE (rtl8367c_getAsicPortIngressBandwidth phy) (\<lambda>(regData, ifg, fc).
      if pRate = NULLP then faultE else okE (push_bit 3 regData, ifg, fc)))))))"

definition rtk_rate_egrBandwidthCtrlRate_set :: "rtk_port_t \<Rightarrow> u32 \<Rightarrow> rtk_enable_t \<Rightarrow> ('d gsw, unit) drv" where
  "rtk_rate_egrBandwidthCtrlRate_set port rate ifg_include =
     thenE RTK_CHK_INIT_STATE
     (thenE (RTK_CHK_PORT_VALID port)
     (thenE (check_port_rate port rate)
     (thenE (check_that (ifg_include < RTK_ENABLE_END) RT_ERR_ENABLE)
     (thenE (bindE (rtk_switch_port_L2P_get port) (\<lambda>phy. rtl8367c_setAsicPortEgressRate phy (drop_bit 3 rate)))
       (rtl8367c_setAsicPortEgressRateIfg ifg_include)))))"

definition rtk_rate_egrBandwidthCtrlRate_get :: "rtk_port_t \<Rightarrow> outptr \<Rightarrow> outptr \<Rightarrow> ('d gsw, u32 \<times> u32) drv" where
  "rtk_rate_egrBandwidthCtrlRate_get port pRate pIfg_include =
     thenE RTK_CHK_INIT_STATE
     (thenE (RTK_CHK_PORT_VALID port)
     (thenE (not_null pRate)
     (thenE (not_null pIfg_include)
     (bindE (rtk_switch_port_L2P_get port) (\<lambda>phy.
      bindE (rtl8367c_getAsicPortEgressRate phy) (\<lambda>regData.
      bindE rtl8367c_getAsicPortEgressRateIfg (\<lambda>ifg.
      okE (push_bit 3 regData, ifg))))))))"

definition rtk_rate_egrQueueBwCtrlEnable_get :: "rtk_port_t \<Rightarrow> u32 \<Rightarrow> outptr \<Rightarrow> ('d gsw, u32) drv" where
  "rtk_rate_egrQueueBwCtrlEnable_get port queue pEnable =
     thenE RTK_CHK_INIT_STATE
     (thenE (RTK_CHK_PORT_VALID port)
     (thenE (check_that (queue = RTK_WHOLE_SYSTEM) RT_ERR_QUEUE_ID)
     (thenE (not_null pEnable)
     (bindE (rtk_switch_port_L2P_get port) rtl8367c_getAsicAprEnable))))"

definition rtk_rate_egrQueueBwCtrlEnable_set :: "rtk_port_t \<Rightarrow> u32 \<Rightarrow> rtk_enable_t \<Rightarrow> ('d gsw, unit) drv" where
  "rtk_rate_egrQueueBwCtrlEnable_set port queue enable =
     thenE RTK_CHK_INIT_STATE
     (thenE (RTK_CHK_PORT_VALID port)
     (thenE (check_that (queue = RTK_WHOLE_SYSTEM) RT_ERR_QUEUE_ID)
     (thenE (check_that (enable < RTK_ENABLE_END) RT_ERR_INPUT)
     (bindE (rtk_switch_port_L2P_get port) (\<lambda>phy. rtl8367c_setAsicAprEnable phy enable)))))"

definition rtk_rate_egrQueueBwCtrlRate_get :: "rtk_port_t \<Rightarrow> u32 \<Rightarrow> outptr \<Rightarrow> ('d gsw, u32) drv" where
  "rtk_rate_egrQueueBwCtrlRate_get port queue pIndex =
     thenE RTK_CHK_INIT_STATE
     (thenE (RTK_CHK_PORT_VALID port)
     (thenE (check_that (queue < RTK_MAX_NUM_OF_QUEUE) RT_ERR_QUEUE_ID)
     (thenE (not_null pIndex)
     (bindE (rtk_switch_port_L2P_get port) (\<lambda>phy_port.
      bindE (rtl8367c_getAsicAprMeter phy_port queue) (\<lambda>offset_idx.
      okE (offset_idx + (phy_port mod 4) * 8)))))))"

definition rtk_rate_egrQueueBwCtrlRate_set :: "rtk_port_t \<Rightarrow> u32 \<Rightarrow> u32 \<Rightarrow> ('d gsw, unit) drv" where
  "rtk_rate_egrQueueBwCtrlRate_set port queue index =
     thenE RTK_CHK_INIT_STATE
     (thenE (RTK_CHK_PORT_VALID port)
     (thenE (check_that (queue < RTK_MAX_NUM_OF_QUEUE) RT_ERR_QUEUE_ID)
     (bindE RTK_MAX_METER_ID (\<lambda>max_id.
      thenE (check_that (\<not> index > max_id) RT_ERR_FILTER_METER_ID)
     (bindE (rtk_switch_port_L2P_get port) (\<lambda>phy_port.
      if index < (phy_port mod 4) * 8 \<or> index > 7 + (phy_port mod 4) * 8 then errE RT_ERR_FILTER_METER_ID
      else rtl8367c_setAsicAprMeter phy_port queue (index - (phy_port mod 4) * 8)))))))"

end
