(* ===== verification/Rate_Spec.thy ===== *)
theory Rate_Spec
  imports Rate
begin

text \<open>
  What the rate API promises: a configuration of bandwidths per port and one of shared meters, and
  every call refines an update or a read of it.  Rates lose their three lowest bits, because the chip
  counts in units of 8 kbps.
\<close>

section \<open>Rates in two registers\<close>

definition wide :: "u32 \<Rightarrow> u32 \<Rightarrow> swt \<Rightarrow> u32" where
  "wide lo hi c = ucast (sw_reg c lo) OR push_bit 16 (gfld hi 0 3 c)"

definition put_wide :: "u32 \<Rightarrow> u32 \<Rightarrow> u32 \<Rightarrow> swt \<Rightarrow> swt" where
  "put_wide lo hi v c = put_gfld hi 0 3 (drop_bit 16 (v AND 0x70000)) (put_word lo (v AND 0xFFFF) c)"

lemma wide_parts:
  "drop_bit 16 (v AND 0x70000) = drop_bit 16 v AND mask 3" "v AND (0xFFFF :: u32) = v AND mask 16"
  "drop_bit 16 (v AND 0x70000) \<le> (mask 3 :: u32)" "v AND 0xFFFF \<le> (0xFFFF :: u32)"
proof -
  have k: "(0x70000 :: u32) = push_bit 16 (mask 3)" "(0xFFFF :: u32) = mask 16"
    by (simp_all add: mask_eq_exp_minus_1 push_bit_eq_mult)
  show "drop_bit 16 (v AND 0x70000) = drop_bit 16 v AND mask 3" "v AND (0xFFFF :: u32) = v AND mask 16"
    unfolding k by (auto intro!: bit_word_eqI simp: bit_simps)
  then show "drop_bit 16 (v AND 0x70000) \<le> (mask 3 :: u32)" "v AND 0xFFFF \<le> (0xFFFF :: u32)"
    by (simp_all add: word_and_le1 k(2))
qed

lemma wide_put:
  assumes "lo \<noteq> hi" and "v \<le> 0x7FFFF"
  shows "wide lo hi (put_wide lo hi v c) = v"
proof -
  have v: "n < 19" if "bit v n" for n
    using assms(2) that le_mask_iff_bits [of v 19] by (auto simp: mask_eq_exp_minus_1 not_le [symmetric])
  have "wide lo hi (put_wide lo hi v c) = ucast (ucast (v AND 0xFFFF) :: u16) OR push_bit 16 (drop_bit 16 (v AND 0x70000))"
    using assms(1) gfld_put [of 3 0 "drop_bit 16 (v AND 0x70000)" hi] wide_parts(3) [of v]
    by (simp add: wide_def put_wide_def)
  also have "\<dots> = v"
    unfolding wide_parts(1,2)
  proof (rule bit_word_eqI)
    fix n :: nat assume "n < LENGTH(32)"
    show "bit (ucast (ucast (v AND mask 16) :: u16) OR push_bit 16 (drop_bit 16 v AND mask 3)) n = bit v n"
    proof (cases "n < 16")
      case False
      then obtain m where "n = 16 + m" by (metis le_iff_add not_le)
      with v [of n] show ?thesis by (auto simp: bit_simps)
    qed (simp add: bit_simps)
  qed
  finally show ?thesis .
qed

lemma put_wide_other [simp]:
  "a \<noteq> lo \<Longrightarrow> a \<noteq> hi \<Longrightarrow> gfld a k w (put_wide lo hi v c) = gfld a k w c"
  "a \<noteq> lo \<Longrightarrow> a \<noteq> hi \<Longrightarrow> sw_reg (put_wide lo hi v c) a = sw_reg c a"
  "sw_ready (put_wide lo hi v c) h = sw_ready c h"
  by (simp_all add: put_wide_def)

lemma wide_other [simp]:
  "a \<noteq> lo \<Longrightarrow> a \<noteq> hi \<Longrightarrow> wide lo hi (put_gfld a k w v c) = wide lo hi c"
  "a \<noteq> lo \<Longrightarrow> a \<noteq> hi \<Longrightarrow> wide lo hi (put_word a v c) = wide lo hi c"
  "lo' \<noteq> lo \<Longrightarrow> lo' \<noteq> hi \<Longrightarrow> hi' \<noteq> lo \<Longrightarrow> hi' \<noteq> hi \<Longrightarrow> wide lo hi (put_wide lo' hi' v c) = wide lo hi c"
  by (auto simp: wide_def put_wide_def)

lemma db_ok_put_wide: "lo < 0x728 \<or> 0x7A7 < lo \<Longrightarrow> hi < 0x728 \<or> 0x7A7 < hi \<Longrightarrow> db_ok (put_wide lo hi v c) = db_ok c"
  by (simp add: put_wide_def db_ok_put_gfld db_ok_put_word)

section \<open>Bandwidths\<close>

record bandwidth_cfg =
  bw_in :: "rtk_port_t \<Rightarrow> u32 \<times> u32 \<times> u32"
  bw_out :: "rtk_port_t \<Rightarrow> u32"
  bw_ifg :: u32
  bw_aprOn :: "rtk_port_t \<Rightarrow> u32"
  bw_apr :: "rtk_port_t \<Rightarrow> u32 \<Rightarrow> u32"

datatype bw_call =
    IgrSet rtk_port_t u32 u32 u32 | IgrGet rtk_port_t outptr outptr outptr
  | EgrSet rtk_port_t u32 u32 | EgrGet rtk_port_t outptr outptr
  | AprOnSet rtk_port_t u32 u32 | AprOnGet rtk_port_t u32 outptr
  | AprSet rtk_port_t u32 u32 | AprGet rtk_port_t u32 outptr

primrec bw_run :: "bw_call \<Rightarrow> ('d gsw, u32 list) drv" where
  "bw_run (IgrSet p r i f) = no_result (rtk_rate_igrBandwidthCtrlRate_set p r i f)"
| "bw_run (IgrGet p q1 q2 q3) = bindE (rtk_rate_igrBandwidthCtrlRate_get p q1 q2 q3) (\<lambda>(r, i, f). okE [r, i, f])"
| "bw_run (EgrSet p r i) = no_result (rtk_rate_egrBandwidthCtrlRate_set p r i)"
| "bw_run (EgrGet p q1 q2) = bindE (rtk_rate_egrBandwidthCtrlRate_get p q1 q2) (\<lambda>(r, i). okE [r, i])"
| "bw_run (AprOnSet p q e) = no_result (rtk_rate_egrQueueBwCtrlEnable_set p q e)"
| "bw_run (AprOnGet p q e) = one_result (rtk_rate_egrQueueBwCtrlEnable_get p q e)"
| "bw_run (AprSet p q x) = no_result (rtk_rate_egrQueueBwCtrlRate_set p q x)"
| "bw_run (AprGet p q x) = one_result (rtk_rate_egrQueueBwCtrlRate_get p q x)"

definition rate_ok :: "rtk_switch_halCtrl_t \<Rightarrow> rtk_port_t \<Rightarrow> u32 \<Rightarrow> bool" where
  "rate_ok h p r \<longleftrightarrow> 8 \<le> r \<and> r \<le> (if p = hsg_logical_port h then RTL8367C_QOS_RATE_INPUT_MAX_HSG else RTL8367C_QOS_RATE_INPUT_MAX)"

text \<open>The meters a port can use for its queues: eight, by the physical port modulo 4.\<close>

definition port_meters :: "rtk_switch_halCtrl_t \<Rightarrow> rtk_port_t \<Rightarrow> u32" where
  "port_meters h p = (phy_of h p mod 4) * 8"

primrec bw_spec :: "rtk_switch_halCtrl_t \<Rightarrow> bw_call \<Rightarrow> bandwidth_cfg \<Rightarrow> u32 list outcome \<times> bandwidth_cfg" where
  "bw_spec h (IgrSet p r i f) m =
     (if \<not> valid_port h p then (Err RT_ERR_PORT_ID, m)
      else if \<not> (i \<le> 1 \<and> f \<le> 1) then (Err RT_ERR_INPUT, m)
      else storing (rate_ok h p r) RT_ERR_QOS_EBW_RATE (\<lambda>m. m\<lparr>bw_in := (bw_in m)(p := (r AND NOT 7, i, f))\<rparr>) m)"
| "bw_spec h (IgrGet p q1 q2 q3) m =
     (if \<not> valid_port h p then (Err RT_ERR_PORT_ID, m)
      else if q2 = NULLP \<or> q3 = NULLP then (Err RT_ERR_NULL_POINTER, m)
      else if q1 = NULLP then (Fault, m)
      else (Ok [fst (bw_in m p), fst (snd (bw_in m p)), snd (snd (bw_in m p))], m))"
| "bw_spec h (EgrSet p r i) m =
     (if \<not> valid_port h p then (Err RT_ERR_PORT_ID, m)
      else if \<not> rate_ok h p r then (Err RT_ERR_QOS_EBW_RATE, m)
      else storing (i \<le> 1) RT_ERR_ENABLE (\<lambda>m. m\<lparr>bw_out := (bw_out m)(p := r AND NOT 7), bw_ifg := i\<rparr>) m)"
| "bw_spec h (EgrGet p q1 q2) m =
     (if \<not> valid_port h p then (Err RT_ERR_PORT_ID, m)
      else if q1 = NULLP \<or> q2 = NULLP then (Err RT_ERR_NULL_POINTER, m)
      else (Ok [bw_out m p, bw_ifg m], m))"
| "bw_spec h (AprOnSet p q e) m =
     (if \<not> valid_port h p then (Err RT_ERR_PORT_ID, m)
      else if q \<noteq> RTK_WHOLE_SYSTEM then (Err RT_ERR_QUEUE_ID, m)
      else storing (e \<le> 1) RT_ERR_INPUT (\<lambda>m. m\<lparr>bw_aprOn := (bw_aprOn m)(p := e)\<rparr>) m)"
| "bw_spec h (AprOnGet p q e) m =
     (if \<not> valid_port h p then (Err RT_ERR_PORT_ID, m)
      else if q \<noteq> RTK_WHOLE_SYSTEM then (Err RT_ERR_QUEUE_ID, m)
      else non_null e m [bw_aprOn m p])"
| "bw_spec h (AprSet p q x) m =
     (if \<not> valid_port h p then (Err RT_ERR_PORT_ID, m)
      else if \<not> q \<le> 7 then (Err RT_ERR_QUEUE_ID, m)
      else storing (x \<le> max_meter_id h \<and> port_meters h p \<le> x \<and> x \<le> 7 + port_meters h p) RT_ERR_FILTER_METER_ID
        (\<lambda>m. m\<lparr>bw_apr := (bw_apr m)(p := (bw_apr m p)(q := x))\<rparr>) m)"
| "bw_spec h (AprGet p q x) m =
     (if \<not> valid_port h p then (Err RT_ERR_PORT_ID, m)
      else if \<not> q \<le> 7 then (Err RT_ERR_QUEUE_ID, m)
      else non_null x m [bw_apr m p q])"

text \<open>
  The registers of physical port \<open>p\<close>: ingress rate (0 and 1), miscellaneous (2), egress rate (3 and 4),
  queue meters (5 and 6).
\<close>

definition bw_reg :: "nat \<Rightarrow> u32 \<Rightarrow> u32" where
  "bw_reg k p =
     (if k = 0 then 0x000F + push_bit 5 p else if k = 1 then 0x0010 + push_bit 5 p else if k = 2 then 0x000E + push_bit 5 p
      else if k = 3 then 0x038C + push_bit 1 p else if k = 4 then 0x038D + push_bit 1 p
      else (if p < 8 then 0x03AC + push_bit 2 p else 0x03CA + push_bit 1 (p - 8)) + of_nat (k - 5))"

definition apr_reg :: "u32 \<Rightarrow> u32 \<Rightarrow> u32" where "apr_reg p q = bw_reg (if q < 5 then 5 else 6) p"
definition apr_off :: "u32 \<Rightarrow> nat" where "apr_off q = 3 * (unat q mod 5)"

definition bw_abs :: "rtk_switch_halCtrl_t \<Rightarrow> swt \<Rightarrow> bandwidth_cfg" where
  "bw_abs h c =
     \<lparr>bw_in = (\<lambda>p. if valid_port h p then (let x = phy_of h p in
        (push_bit 3 (wide (bw_reg 0 x) (bw_reg 1 x) c), gfld (bw_reg 2 x) 10 1 c, gfld (bw_reg 2 x) 11 1 c)) else (0, 0, 0)),
      bw_out = (\<lambda>p. if valid_port h p then (let x = phy_of h p in push_bit 3 (wide (bw_reg 3 x) (bw_reg 4 x) c)) else 0),
      bw_ifg = gfld 0x300 0 1 c,
      bw_aprOn = (\<lambda>p. if valid_port h p then gfld 0x30A (unat (phy_of h p)) 1 c else 0),
      bw_apr = (\<lambda>p q. if valid_port h p \<and> q \<le> 7
        then gfld (apr_reg (phy_of h p) q) (apr_off q) 3 c + port_meters h p else 0)\<rparr>"


text \<open>The registers of different ports, and of one port, are all different.\<close>

lemma concat_apart:
  assumes "distinct (concat (map f xs))" and "x \<in> set xs" and "y \<in> set xs" and "i < length (f x)" and "j < length (f y)" and "f x ! i = f y ! j"
  shows "x = y \<and> i = j"
  using assms
proof (induction xs)
  case (Cons a xs)
  have m: "f x ! i \<in> set (f x)" "f y ! j \<in> set (f y)" using Cons.prems(4,5) by simp_all
  show ?case
  proof (cases "x = y")
    case True
    have "distinct (f x)" using Cons.prems(1,2) by (auto simp: distinct_concat_iff)
    with True Cons.prems(4-6) show ?thesis by (simp add: nth_eq_iff_index_eq)
  next
    case False
    from Cons.prems(1) have apart: "set (f a) \<inter> (\<Union>z\<in>set xs. set (f z)) = {}" "distinct (concat (map f xs))" by auto
    have "x \<noteq> a" using False Cons.prems(3,6) m apart(1) by (metis UN_I disjoint_iff set_ConsD)
    moreover have "y \<noteq> a" using False Cons.prems(2,6) m apart(1) by (metis UN_I disjoint_iff set_ConsD)
    ultimately show ?thesis using Cons apart(2) by auto
  qed
qed simp

lemma port_id_in: "p \<le> 10 \<Longrightarrow> p \<in> set all_port_ids"
  by (rule port_ids)

lemma bw_layout:
  "distinct (concat (map (\<lambda>p. map (\<lambda>k. bw_reg k p) [0..<7]) all_port_ids))"
  "list_all (\<lambda>p. list_all (\<lambda>k. cfg_reg (bw_reg k p) \<and> bw_reg k p < 0x728 \<and> bw_reg k p \<noteq> 0x300 \<and> bw_reg k p \<noteq> 0x30A) [0..<7]) all_port_ids"
  by code_simp+

lemma bw_reg_eq [simp]:
  assumes "p \<le> 10" and "q \<le> 10" and "k < 7" and "l < 7"
  shows "bw_reg k p = bw_reg l q \<longleftrightarrow> k = l \<and> p = q"
  using concat_apart [OF bw_layout(1) port_id_in [OF assms(1)] port_id_in [OF assms(2)], of k l] assms(3,4)
  by auto

lemma bw_regD [simp]:
  assumes "p \<le> 10" and "k < 7"
  shows "cfg_reg (bw_reg k p)" "bw_reg k p < 0x728" "bw_reg k p \<noteq> 0x300" "bw_reg k p \<noteq> 0x30A" "0x300 \<noteq> bw_reg k p" "0x30A \<noteq> bw_reg k p"
  using bw_layout(2) port_id_in [OF assms(1)] assms(2) by (auto simp: list_all_iff)

lemma bw_code_regs:
  "RTL8367C_INGRESSBW_PORT_RATE_LSB_REG p = bw_reg 0 p" "bw_reg 0 p + 1 = bw_reg 1 p" "RTL8367C_PORT_MISC_CFG_REG p = bw_reg 2 p"
  "RTL8367C_PORT_EGRESSBW_LSB_REG p = bw_reg 3 p" "RTL8367C_PORT_EGRESSBW_MSB_REG p = bw_reg 4 p"
  by (simp_all add: RTL8367C_INGRESSBW_PORT_RATE_LSB_REG_def RTL8367C_PORT_MISC_CFG_REG_def RTL8367C_PORT_EGRESSBW_LSB_REG_def
      RTL8367C_PORT_EGRESSBW_MSB_REG_def bw_reg_def)

lemma apr_layout:
  "list_all (\<lambda>q. RTL8367C_SCHEDULE_PORT_APR_METER_MASK q = field_mask (apr_off q) 3 \<and> apr_off q + 3 \<le> 16 \<and>
     list_all (\<lambda>p. (if p < 8 then RTL8367C_SCHEDULE_PORT_APR_METER_REG p q
        else RTL8367C_REG_SCHEDULE_PORT8_APR_METER_CTRL0 + push_bit 1 (p - 8) + q div 5) = apr_reg p q) all_port_ids \<and>
     list_all (\<lambda>r. r = q \<or> (q < 5) \<noteq> (r < 5) \<or> apr_off q + 3 \<le> apr_off r \<or> apr_off r + 3 \<le> apr_off q) pris) pris"
  by code_simp

lemma aprD:
  assumes "q \<le> 7"
  shows "RTL8367C_SCHEDULE_PORT_APR_METER_MASK q = field_mask (apr_off q) 3" "apr_off q + 3 \<le> 16"
    "p \<le> 10 \<Longrightarrow> (if p < 8 then RTL8367C_SCHEDULE_PORT_APR_METER_REG p q
        else RTL8367C_REG_SCHEDULE_PORT8_APR_METER_CTRL0 + push_bit 1 (p - 8) + q div 5) = apr_reg p q"
    "r \<le> 7 \<Longrightarrow> r \<noteq> q \<Longrightarrow> (q < 5) = (r < 5) \<Longrightarrow> apr_off q + 3 \<le> apr_off r \<or> apr_off r + 3 \<le> apr_off q"
  using bspec [OF apr_layout [unfolded list_all_iff] pri_in [OF assms]] pri_in [of r] port_id_in [of p] by (auto simp: list_all_iff)

lemma apr_regD:
  assumes "p \<le> 10"
  shows "cfg_reg (apr_reg p q)" "apr_reg p q < 0x728" "apr_reg p q \<noteq> 0x300" "apr_reg p q \<noteq> 0x30A" "0x300 \<noteq> apr_reg p q" "0x30A \<noteq> apr_reg p q"
    "p' \<le> 10 \<Longrightarrow> k < 5 \<Longrightarrow> apr_reg p q \<noteq> bw_reg k p'" "p' \<le> 10 \<Longrightarrow> k < 5 \<Longrightarrow> bw_reg k p' \<noteq> apr_reg p q"
    "p' \<le> 10 \<Longrightarrow> apr_reg p q = apr_reg p' q' \<longleftrightarrow> p = p' \<and> (q < 5) = (q' < 5)"
  using assms by (auto simp: apr_reg_def)

lemma apr_put:
  assumes "p \<le> 10" and "p' \<le> 10" and "q \<le> 7" and "q' \<le> 7" and "v \<le> 7"
  shows "gfld (apr_reg p' q') (apr_off q') 3 (put_gfld (apr_reg p q) (apr_off q) 3 v c) =
     (if p' = p \<and> q' = q then v else gfld (apr_reg p' q') (apr_off q') 3 c)"
proof (cases "p' = p \<and> q' = q")
  case False
  show ?thesis
  proof (cases "apr_reg p q = apr_reg p' q'")
    case True
    with apr_regD(9) [OF assms(1,2)] have "p = p'" "(q < 5) = (q' < 5)" by blast+
    with False aprD(4) [OF assms(3,4)] aprD(2) [OF assms(3)] True show ?thesis by (auto simp: gfld_put_apart)
  qed (use False in auto)
qed (use aprD(2) [OF assms(3)] assms(5) in \<open>auto simp: gfld_put pri_mask\<close>)

section \<open>Accesses\<close>

lemma mask_7: "(0x7 :: u32) = field_mask 0 3"
  by (simp add: field_defs)

lemma wp_set_wide:
  assumes "cfg_reg lo" and "cfg_reg hi" and "cfg_regs \<subseteq> A" and "wp view A k Q (put_wide lo hi v c)"
  shows "wp view A (thenE (rtl8367c_setAsicReg lo (v AND 0xFFFF)) (thenE (rtl8367c_setAsicRegBits hi 0x7 (drop_bit 16 (v AND 0x70000))) k)) Q c"
  by (rule wp_thenE, rule wp_set_word [OF assms(1,3) wide_parts(4)], simp only: outcome.case,
      rule wp_thenE, rule wp_set_gfld [OF mask_7 assms(2,3) _ _ wide_parts(3)], simp, simp, simp only: outcome.case assms(4) [unfolded put_wide_def])

lemma wp_set_wide_last:
  assumes "cfg_reg lo" and "cfg_reg hi" and "cfg_regs \<subseteq> A" and "Q (Ok ()) (put_wide lo hi v c)"
  shows "wp view A (thenE (rtl8367c_setAsicReg lo (0xFFFF AND v)) (rtl8367c_setAsicRegBits hi 0x7 (drop_bit 16 (0x70000 AND v)))) Q c"
proof -
  have comm: "0xFFFF AND v = v AND 0xFFFF" "0x70000 AND v = v AND 0x70000" by (simp_all only: and.commute)
  show ?thesis
    unfolding comm
    by (rule wp_thenE, rule wp_set_word [OF assms(1,3) wide_parts(4)], simp only: outcome.case,
      rule wp_set_gfld [OF mask_7 assms(2,3) _ _ wide_parts(3)], simp, simp, rule assms(4) [unfolded put_wide_def])
qed

lemma wp_get_wide:
  assumes "cfg_reg lo" and "cfg_reg hi" and "cfg_regs \<subseteq> A" and "wp view A (k (ucast (sw_reg c lo)) (gfld hi 0 3 c)) Q c"
  shows "wp view A (bindE (rtl8367c_getAsicReg lo) (\<lambda>l. bindE (rtl8367c_getAsicRegBits hi 0x7) (k l))) Q c"
  by (auto intro!: wp_bindE wp_get_word wp_get_gfld [where k = 0 and w = 3] assms simp: field_defs)

lemma check_port_rate_run:
  assumes "ready s h" and "valid_port h p"
  shows "check_port_rate p r s = (if rate_ok h p r then Ok () else Err RT_ERR_QOS_EBW_RATE, s)"
proof -
  have "isOkE (rtk_switch_isHsgPort p) s = (Ok (p = hsg_logical_port h), s)"
    using assms valid_port_less [OF assms(2)]
    by (auto simp: rtk_switch_isHsgPort_def port_guard_def ok_or_failed_def drv_simps halE_def ready_def)
  then show ?thesis
    by (auto simp: check_port_rate_def bindE_def rate_ok_def okE_def errE_def not_le)
qed

lemma wp_check_port_rate:
  assumes "sw_ready c h" and "valid_port h p" and "rate_ok h p r" and "Q (Ok ()) c"
  shows "wp view A (check_port_rate p r) Q c"
  by (rule wp_pure [OF check_port_rate_run [OF sw_ready_rel [OF _ assms(1)] assms(2)], of view A]) (use assms(3,4) in auto)

lemma rate_okD:
  assumes "rate_ok h p r"
  shows "drop_bit 3 r \<le> 0x7FFFF" "push_bit 3 (drop_bit 3 r) = r AND NOT 7"
proof -
  have "r \<le> 0x7FFFF * 8" using assms by (auto simp: rate_ok_def word_le_nat_alt split: if_splits)
  then show "drop_bit 3 r \<le> 0x7FFFF" by (simp add: word_le_nat_alt drop_bit_eq_div unat_div)
  have "(7 :: u32) = mask 3" by (simp add: mask_eq_exp_minus_1)
  then show "push_bit 3 (drop_bit 3 r) = r AND NOT 7" by (simp add: bit_eq_iff bit_simps) auto
qed

lemma bw_eq:
  assumes "sw_ready c h" and "valid_port h p" and "valid_port h q"
  shows "phy_of h p = phy_of h q \<longleftrightarrow> p = q"
  using phy_of_inj [of h p q] assms by (auto simp: sw_ready_def)

definition bw_eff :: "rtk_switch_halCtrl_t \<Rightarrow> bw_call \<Rightarrow> swt \<Rightarrow> u32 list outcome \<Rightarrow> swt \<Rightarrow> bool" where
  "bw_eff h x c r c' \<longleftrightarrow> (r, bw_abs h c') = bw_spec h x (bw_abs h c) \<and> sw_ready c' h \<and> db_ok c'"


section \<open>The calls refine the specification\<close>

lemma bw_ready_facts:
  assumes "sw_ready c h" and "valid_port h p"
  shows "unat p < 32" "phy_of h p \<le> 10" "\<not> 11 \<le> phy_of h p" "\<not> 10 < phy_of h p" "unat (phy_of h p) < 16"
  using phy_of_le [of h p] assms by (auto simp: sw_ready_def valid_port_def word_le_nat_alt word_less_nat_alt)

lemma bw_abs_in:
  assumes "sw_ready c h" and "valid_port h p" and "v \<le> 0x7FFFF" and "i \<le> 1" and "f \<le> 1"
  shows "bw_abs h (put_gfld (bw_reg 2 (phy_of h p)) 11 1 f (put_gfld (bw_reg 2 (phy_of h p)) 10 1 i
      (put_wide (bw_reg 0 (phy_of h p)) (bw_reg 1 (phy_of h p)) v c))) =
    (bw_abs h c)\<lparr>bw_in := (bw_in (bw_abs h c))(p := (push_bit 3 v, i, f))\<rparr>"
  using assms bw_ready_facts [OF assms(1)] bw_eq [OF assms(1)]
  by (auto simp: bw_abs_def fun_eq_iff Let_def wide_put gfld_put gfld_put_apart mask_Suc_0 apr_regD)

lemma bw_abs_out:
  assumes "sw_ready c h" and "valid_port h p" and "v \<le> 0x7FFFF" and "i \<le> 1"
  shows "bw_abs h (put_gfld 0x300 0 1 i (put_wide (bw_reg 3 (phy_of h p)) (bw_reg 4 (phy_of h p)) v c)) =
    (bw_abs h c)\<lparr>bw_out := (bw_out (bw_abs h c))(p := push_bit 3 v), bw_ifg := i\<rparr>"
  using assms bw_ready_facts [OF assms(1)] bw_eq [OF assms(1)]
  by (auto simp: bw_abs_def fun_eq_iff Let_def wide_put gfld_put gfld_put_apart mask_Suc_0 apr_regD)

lemma bw_abs_aprOn:
  assumes "sw_ready c h" and "valid_port h p" and "i \<le> 1"
  shows "bw_abs h (put_gfld 0x30A (unat (phy_of h p)) 1 i c) = (bw_abs h c)\<lparr>bw_aprOn := (bw_aprOn (bw_abs h c))(p := i)\<rparr>"
proof -
  have "unat (phy_of h q) \<noteq> unat (phy_of h p)" if "valid_port h q" "q \<noteq> p" for q
    using bw_eq [OF assms(1,2) that(1)] that(2) by (auto simp: word_unat_eq_iff)
  then have "gfld 0x30A (unat (phy_of h q)) 1 (put_gfld 0x30A (unat (phy_of h p)) 1 i c) = (if q = p then i else gfld 0x30A (unat (phy_of h q)) 1 c)"
    if "valid_port h q" for q
    using that assms bw_ready_facts [OF assms(1,2)]
    by (cases "q = p") (auto simp: gfld_put mask_Suc_0 intro!: gfld_put_apart, metis linorder_neqE_nat Suc_leI)
  then show ?thesis
    using assms bw_ready_facts [OF assms(1)]
    by (auto simp: bw_abs_def fun_eq_iff Let_def apr_regD wide_other)
qed

lemma bw_abs_apr:
  assumes "sw_ready c h" and "valid_port h p" and "q \<le> 7" and "v \<le> 7"
  shows "bw_abs h (put_gfld (apr_reg (phy_of h p) q) (apr_off q) 3 v c) =
    (bw_abs h c)\<lparr>bw_apr := (bw_apr (bw_abs h c))(p := (bw_apr (bw_abs h c) p)(q := v + port_meters h p))\<rparr>"
  using assms bw_ready_facts [OF assms(1)] bw_eq [OF assms(1)]
  by (auto simp: bw_abs_def fun_eq_iff Let_def apr_regD apr_put)


lemma db_ok_bw:
  assumes "p \<le> 10"
  shows "k < 7 \<Longrightarrow> db_ok (put_gfld (bw_reg k p) n w v c) = db_ok c" "db_ok (put_gfld (apr_reg p q) n w v c) = db_ok c"
    "k < 7 \<Longrightarrow> l < 7 \<Longrightarrow> db_ok (put_wide (bw_reg k p) (bw_reg l p) v c) = db_ok c"
    "db_ok (put_gfld 0x300 n w v c) = db_ok c" "db_ok (put_gfld 0x30A n w v c) = db_ok c"
  using assms by (simp_all add: db_ok_put_gfld db_ok_put_wide apr_regD)

lemma bw_cfg_regs: "cfg_reg 0x300" "cfg_reg 0x30A"
  by (rule cfg_range [of "0x300" "0x3CF"]; simp add: cfg_ranges_def)+

lemma wp_asic_set:
  fixes view :: "'d \<Rightarrow> chip_view"
  assumes "p \<le> 10" and A: "cfg_regs \<subseteq> A"
  shows "v \<le> 0x7FFFF \<Longrightarrow> i \<le> 1 \<Longrightarrow> f \<le> 1 \<Longrightarrow>
      Q (Ok ()) (put_gfld (bw_reg 2 p) 11 1 f (put_gfld (bw_reg 2 p) 10 1 i (put_wide (bw_reg 0 p) (bw_reg 1 p) v c))) \<Longrightarrow>
      wp view A (rtl8367c_setAsicPortIngressBandwidth p v i f) Q c"
    and "v \<le> 0x7FFFF \<Longrightarrow> Q (Ok ()) (put_wide (bw_reg 3 p) (bw_reg 4 p) v c) \<Longrightarrow> wp view A (rtl8367c_setAsicPortEgressRate p v) Q c"
    and "i \<le> 1 \<Longrightarrow> Q (Ok ()) (put_gfld 0x300 0 1 i c) \<Longrightarrow> wp view A (rtl8367c_setAsicPortEgressRateIfg i) Q c"
    and "i \<le> 1 \<Longrightarrow> Q (Ok ()) (put_gfld 0x30A (unat p) 1 i c) \<Longrightarrow> wp view A (rtl8367c_setAsicAprEnable p i) Q c"
    and "q \<le> 7 \<Longrightarrow> v \<le> 7 \<Longrightarrow> Q (Ok ()) (put_gfld (apr_reg p q) (apr_off q) 3 v c) \<Longrightarrow> wp view A (rtl8367c_setAsicAprMeter p q v) Q c"
proof -
  have p: "\<not> 11 \<le> p" "\<not> 10 < p" "unat p < 16" using assms(1) by (auto simp: word_le_nat_alt word_less_nat_alt)
  have v: "\<not> 0x7FFFF < v" if "v \<le> 0x7FFFF" for v :: u32 using that by (simp add: not_less)
  have q: "\<not> 7 < q" if "q \<le> 7" for q :: u32 using that by (simp add: not_less)
  note regs = bw_regD [OF assms(1)]
  show "v \<le> 0x7FFFF \<Longrightarrow> i \<le> 1 \<Longrightarrow> f \<le> 1 \<Longrightarrow>
      Q (Ok ()) (put_gfld (bw_reg 2 p) 11 1 f (put_gfld (bw_reg 2 p) 10 1 i (put_wide (bw_reg 0 p) (bw_reg 1 p) v c))) \<Longrightarrow>
      wp view A (rtl8367c_setAsicPortIngressBandwidth p v i f) Q c"
    unfolding rtl8367c_setAsicPortIngressBandwidth_def bw_code_regs if_not_P [OF p(1)] if_not_P [OF v]
    by (rule wp_set_wide [OF regs(1) regs(1) A]) (auto intro!: wp_thenE wp_set_gbit regs A)
  show "v \<le> 0x7FFFF \<Longrightarrow> Q (Ok ()) (put_wide (bw_reg 3 p) (bw_reg 4 p) v c) \<Longrightarrow> wp view A (rtl8367c_setAsicPortEgressRate p v) Q c"
    unfolding rtl8367c_setAsicPortEgressRate_def bw_code_regs if_not_P [OF p(2)] if_not_P [OF v]
    by (rule wp_set_wide_last [OF regs(1) regs(1) A]) auto
  show "i \<le> 1 \<Longrightarrow> Q (Ok ()) (put_gfld 0x300 0 1 i c) \<Longrightarrow> wp view A (rtl8367c_setAsicPortEgressRateIfg i) Q c"
    unfolding rtl8367c_setAsicPortEgressRateIfg_def by (rule wp_set_gbit [OF bw_cfg_regs(1) A]) auto
  show "i \<le> 1 \<Longrightarrow> Q (Ok ()) (put_gfld 0x30A (unat p) 1 i c) \<Longrightarrow> wp view A (rtl8367c_setAsicAprEnable p i) Q c"
    unfolding rtl8367c_setAsicAprEnable_def if_not_P [OF p(2)] by (rule wp_set_gbit [OF bw_cfg_regs(2) A p(3)]) auto
  show "wp view A (rtl8367c_setAsicAprMeter p q v) Q c"
    if "q \<le> 7" "v \<le> 7" "Q (Ok ()) (put_gfld (apr_reg p q) (apr_off q) 3 v c)"
  proof -
    have "(rtl8367c_setAsicAprMeter p q v :: ('d gsw, unit) drv) = rtl8367c_setAsicRegBits (apr_reg p q) (field_mask (apr_off q) 3) v"
      using aprD(3) [OF that(1) assms(1)] aprD(1) [OF that(1)] q [OF that(1)] q [OF that(2)] p
      by (auto simp: rtl8367c_setAsicAprMeter_def)
    then show ?thesis
      using wp_set_gfld [OF refl apr_regD(1) [OF assms(1), of q] A _ aprD(2) [OF that(1)], where v = v and Q = Q and c = c and view = view] that by (simp add: pri_mask [symmetric])
  qed
qed

lemma wp_asic_get:
  fixes view :: "'d \<Rightarrow> chip_view"
  assumes "p \<le> 10" and A: "cfg_regs \<subseteq> A"
  shows "T (Ok (wide (bw_reg 0 p) (bw_reg 1 p) c, gfld (bw_reg 2 p) 10 1 c, gfld (bw_reg 2 p) 11 1 c)) c \<Longrightarrow>
      wp view A (rtl8367c_getAsicPortIngressBandwidth p) T c"
    and "Q (Ok (wide (bw_reg 3 p) (bw_reg 4 p) c)) c \<Longrightarrow> wp view A (rtl8367c_getAsicPortEgressRate p) Q c"
    and "Q (Ok (gfld 0x300 0 1 c)) c \<Longrightarrow> wp view A rtl8367c_getAsicPortEgressRateIfg Q c"
    and "Q (Ok (gfld 0x30A (unat p) 1 c)) c \<Longrightarrow> wp view A (rtl8367c_getAsicAprEnable p) Q c"
    and "q \<le> 7 \<Longrightarrow> Q (Ok (gfld (apr_reg p q) (apr_off q) 3 c)) c \<Longrightarrow> wp view A (rtl8367c_getAsicAprMeter p q) Q c"
proof -
  have p: "\<not> 11 \<le> p" "\<not> 10 < p" "unat p < 16" using assms(1) by (auto simp: word_le_nat_alt word_less_nat_alt)
  have q: "\<not> 7 < q" if "q \<le> 7" for q :: u32 using that by (simp add: not_less)
  note regs = bw_regD [OF assms(1)]
  show "T (Ok (wide (bw_reg 0 p) (bw_reg 1 p) c, gfld (bw_reg 2 p) 10 1 c, gfld (bw_reg 2 p) 11 1 c)) c \<Longrightarrow>
      wp view A (rtl8367c_getAsicPortIngressBandwidth p) T c"
    unfolding rtl8367c_getAsicPortIngressBandwidth_def bw_code_regs if_not_P [OF p(1)]
    by (rule wp_get_wide [OF regs(1) regs(1) A]) (auto intro!: wp_bindE wp_okE wp_get_gbit regs A simp: wide_def)
  show "Q (Ok (wide (bw_reg 3 p) (bw_reg 4 p) c)) c \<Longrightarrow> wp view A (rtl8367c_getAsicPortEgressRate p) Q c"
    unfolding rtl8367c_getAsicPortEgressRate_def bw_code_regs if_not_P [OF p(2)]
    by (rule wp_get_wide [OF regs(1) regs(1) A]) (auto intro!: wp_okE simp: wide_def)
  show "Q (Ok (gfld 0x300 0 1 c)) c \<Longrightarrow> wp view A rtl8367c_getAsicPortEgressRateIfg Q c"
    unfolding rtl8367c_getAsicPortEgressRateIfg_def by (rule wp_get_gbit [OF bw_cfg_regs(1) A]) auto
  show "Q (Ok (gfld 0x30A (unat p) 1 c)) c \<Longrightarrow> wp view A (rtl8367c_getAsicAprEnable p) Q c"
    unfolding rtl8367c_getAsicAprEnable_def if_not_P [OF p(2)] by (rule wp_get_gbit [OF bw_cfg_regs(2) A p(3)]) auto
  show "wp view A (rtl8367c_getAsicAprMeter p q) Q c" if "q \<le> 7" "Q (Ok (gfld (apr_reg p q) (apr_off q) 3 c)) c"
  proof -
    have "(rtl8367c_getAsicAprMeter p q :: ('d gsw, u32) drv) = rtl8367c_getAsicRegBits (apr_reg p q) (field_mask (apr_off q) 3)"
      using aprD(3) [OF that(1) assms(1)] aprD(1) [OF that(1)] q [OF that(1)] p
      by (auto simp: rtl8367c_getAsicAprMeter_def)
    then show ?thesis
      using wp_get_gfld [OF refl apr_regD(1) [OF assms(1), of q] A _ aprD(2) [OF that(1)], where Q = Q and c = c and view = view] that by simp
  qed
qed

lemma wp_bw_set:
  assumes "sw_ready c h" and "db_ok c" and A: "cfg_regs \<subseteq> A" and p: "valid_port h p"
  shows "i \<le> 1 \<Longrightarrow> f \<le> 1 \<Longrightarrow> rate_ok h p r \<Longrightarrow> wp view A (bw_run (IgrSet p r i f)) (bw_eff h (IgrSet p r i f) c) c"
    and "i \<le> 1 \<Longrightarrow> rate_ok h p r \<Longrightarrow> wp view A (bw_run (EgrSet p r i)) (bw_eff h (EgrSet p r i) c) c"
    and "i \<le> 1 \<Longrightarrow> wp view A (bw_run (AprOnSet p RTK_WHOLE_SYSTEM i)) (bw_eff h (AprOnSet p RTK_WHOLE_SYSTEM i) c) c"
proof -
  note b = bw_ready_facts [OF assms(1) p]
  show "wp view A (bw_run (IgrSet p r i f)) (bw_eff h (IgrSet p r i f) c) c" if r: "i \<le> 1" "f \<le> 1" "rate_ok h p r"
    using assms b(1) r bw_abs_in [OF assms(1) p rate_okD(1) [OF r(3)] r(1,2)] rate_okD(2) [OF r(3)] db_ok_bw [OF b(2)]
    unfolding bw_run.simps no_result_def rtk_rate_igrBandwidthCtrlRate_set_def
    by (auto intro!: wp_thenE wp_bindE wp_okE wp_chk_init [OF assms(1)] wp_chk_port [OF assms(1) p] wp_port_L2P [OF assms(1) b(1)] wp_check_port_rate [OF assms(1) p] wp_asic_set [OF b(2) A]
        simp: check_that_def bound1 bw_eff_def storing_def rate_okD(1) simp del: drop_bit_drop_bit)
  show "wp view A (bw_run (EgrSet p r i)) (bw_eff h (EgrSet p r i) c) c" if r: "i \<le> 1" "rate_ok h p r"
    using assms b(1) r bw_abs_out [OF assms(1) p rate_okD(1) [OF r(2)] r(1)] rate_okD(2) [OF r(2)] db_ok_bw [OF b(2)]
    unfolding bw_run.simps no_result_def rtk_rate_egrBandwidthCtrlRate_set_def
    by (auto intro!: wp_thenE wp_bindE wp_okE wp_chk_init [OF assms(1)] wp_chk_port [OF assms(1) p] wp_port_L2P [OF assms(1) b(1)] wp_check_port_rate [OF assms(1) p] wp_asic_set [OF b(2) A]
        simp: check_that_def bound1 bw_eff_def storing_def rate_okD(1))
  show "wp view A (bw_run (AprOnSet p RTK_WHOLE_SYSTEM i)) (bw_eff h (AprOnSet p RTK_WHOLE_SYSTEM i) c) c" if "i \<le> 1"
    using assms b(1) that bw_abs_aprOn [OF assms(1) p that] db_ok_bw [OF b(2)]
    unfolding bw_run.simps no_result_def rtk_rate_egrQueueBwCtrlEnable_set_def
    by (auto intro!: wp_thenE wp_bindE wp_okE wp_chk_init [OF assms(1)] wp_chk_port [OF assms(1) p] wp_port_L2P [OF assms(1) b(1)] wp_asic_set [OF b(2) A]
        simp: check_that_def bound1 bw_eff_def storing_def)
qed

lemma wp_bw_get:
  assumes "sw_ready c h" and "db_ok c" and A: "cfg_regs \<subseteq> A" and p: "valid_port h p"
  shows "wp view A (bw_run (IgrGet p q1 q2 q3)) (bw_eff h (IgrGet p q1 q2 q3) c) c"
    and "wp view A (bw_run (EgrGet p q1 q2)) (bw_eff h (EgrGet p q1 q2) c) c"
    and "wp view A (bw_run (AprOnGet p RTK_WHOLE_SYSTEM e)) (bw_eff h (AprOnGet p RTK_WHOLE_SYSTEM e) c) c"
    and "q \<le> 7 \<Longrightarrow> wp view A (bw_run (AprGet p q e)) (bw_eff h (AprGet p q e) c) c"
proof -
  note b = bw_ready_facts [OF assms(1) p]
  note rules = wp_thenE wp_bindE wp_okE wp_errE wp_faultE wp_chk_init [OF assms(1)] wp_chk_port [OF assms(1) p] wp_port_L2P [OF assms(1) b(1)] wp_asic_get [OF b(2) A]
  note facts = check_that_def not_null_def bw_eff_def non_null_def bw_abs_def Let_def port_meters_def one_result_def
  show "wp view A (bw_run (IgrGet p q1 q2 q3)) (bw_eff h (IgrGet p q1 q2 q3) c) c"
    using assms b(1) unfolding bw_run.simps rtk_rate_igrBandwidthCtrlRate_get_def by (auto intro!: rules simp: facts)
  show "wp view A (bw_run (EgrGet p q1 q2)) (bw_eff h (EgrGet p q1 q2) c) c"
    using assms b(1) unfolding bw_run.simps rtk_rate_egrBandwidthCtrlRate_get_def by (auto intro!: rules simp: facts)
  show "wp view A (bw_run (AprOnGet p RTK_WHOLE_SYSTEM e)) (bw_eff h (AprOnGet p RTK_WHOLE_SYSTEM e) c) c"
    using assms b(1) unfolding bw_run.simps rtk_rate_egrQueueBwCtrlEnable_get_def by (auto intro!: rules simp: facts)
  show "wp view A (bw_run (AprGet p q e)) (bw_eff h (AprGet p q e) c) c" if "q \<le> 7"
    using assms b(1) that unfolding bw_run.simps rtk_rate_egrQueueBwCtrlRate_get_def
    by (auto intro!: rules simp: facts word_le_nat_alt word_less_nat_alt)
qed


text \<open>Refused calls return before any access.\<close>

lemma maxMeter_then: "ready s h \<Longrightarrow> bindE RTK_MAX_METER_ID f s = f (max_meter_id h) s"
  by (simp add: RTK_MAX_METER_ID_def bindE_def maxMeterId_run)

definition bw_accepts :: "rtk_switch_halCtrl_t \<Rightarrow> bw_call \<Rightarrow> bool" where
  "bw_accepts h x \<longleftrightarrow> (case x of
     IgrSet p r i f \<Rightarrow> valid_port h p \<and> i \<le> 1 \<and> f \<le> 1 \<and> rate_ok h p r
   | EgrSet p r i \<Rightarrow> valid_port h p \<and> i \<le> 1 \<and> rate_ok h p r
   | AprOnSet p q e \<Rightarrow> valid_port h p \<and> q = RTK_WHOLE_SYSTEM \<and> e \<le> 1
   | AprSet p q x \<Rightarrow> valid_port h p \<and> q \<le> 7 \<and> x \<le> max_meter_id h \<and> port_meters h p \<le> x \<and> x \<le> 7 + port_meters h p
   | IgrGet p _ _ _ \<Rightarrow> valid_port h p | EgrGet p _ _ \<Rightarrow> valid_port h p
   | AprOnGet p q _ \<Rightarrow> valid_port h p \<and> q = RTK_WHOLE_SYSTEM | AprGet p q _ \<Rightarrow> valid_port h p \<and> q \<le> 7)"

lemma bound7: "(q :: u32) < 8 \<longleftrightarrow> q \<le> 7" "8 \<le> (q :: u32) \<longleftrightarrow> \<not> q \<le> 7"
  by (auto simp: word_le_nat_alt word_less_nat_alt)

lemma wp_bw_refused:
  assumes "sw_ready c h" and "db_ok c" and no: "\<not> bw_accepts h x"
  shows "wp view A (bw_run x) (bw_eff h x c) c"
proof -
  have "bw_run x s = (fst (bw_spec h x (bw_abs h c)), s)" if s: "ready s h" for s :: "'a gsw"
  proof -
    note run = thenE_def [of "thenE _ _"] bindE_def [of "thenE _ _"] chk_then [OF s]
    have p: "bindE (rtk_switch_port_L2P_get p) f s = f (phy_of h p) s" if "valid_port h p" for p and f :: "u32 \<Rightarrow> ('a gsw, unit) drv"
      by (simp add: bindE_def port_L2P_run [OF s valid_port_less [OF that]])
    have rate: "thenE (check_port_rate p r) k s = (if rate_ok h p r then k s else (Err RT_ERR_QOS_EBW_RATE, s))" if "valid_port h p"
      for p r and k :: "('a gsw, unit) drv"
      by (simp add: thenE_def bindE_def check_port_rate_run [OF s that])
    show ?thesis
      using no
      by (cases x; simp add: bw_accepts_def no_result_def one_result_def rtk_rate_igrBandwidthCtrlRate_set_def rtk_rate_igrBandwidthCtrlRate_get_def
           rtk_rate_egrBandwidthCtrlRate_set_def rtk_rate_egrBandwidthCtrlRate_get_def rtk_rate_egrQueueBwCtrlEnable_set_def
           rtk_rate_egrQueueBwCtrlEnable_get_def rtk_rate_egrQueueBwCtrlRate_set_def rtk_rate_egrQueueBwCtrlRate_get_def
           run bound1 bound7 storing_def rate maxMeter_then [OF s] p port_meters_def errE_def not_le [symmetric] del: de_Morgan_conj; auto)
  qed
  moreover have "snd (bw_spec h x (bw_abs h c)) = bw_abs h c"
    using no by (cases x) (auto simp: bw_accepts_def storing_def non_null_def)
  ultimately show ?thesis
    by (intro wp_refused [OF assms(1)]) (use assms(1,2) in \<open>auto simp: bw_eff_def prod_eq_iff\<close>)
qed


lemma wp_maxMeter:
  assumes "sw_ready c h" and "Q (Ok (max_meter_id h)) c"
  shows "wp view A RTK_MAX_METER_ID Q c"
  unfolding RTK_MAX_METER_ID_def
  by (rule wp_pure [OF maxMeterId_run [OF sw_ready_rel [OF _ assms(1)]]]) (use assms(2) in auto)

lemma wp_bw_aprSet:
  assumes "sw_ready c h" and "db_ok c" and A: "cfg_regs \<subseteq> A" and p: "valid_port h p" and q: "q \<le> 7"
    and "x \<le> max_meter_id h" and "port_meters h p \<le> x" and "x \<le> 7 + port_meters h p"
  shows "wp view A (bw_run (AprSet p q x)) (bw_eff h (AprSet p q x) c) c"
proof -
  note b = bw_ready_facts [OF assms(1) p]
  have "phy_of h p mod 4 * 8 \<le> 24" by (simp add: word_le_nat_alt unat_word_ariths unat_mod)
  then have v: "x - port_meters h p \<le> 7" "x - port_meters h p + port_meters h p = x"
    using assms(7,8) by (simp_all add: word_le_nat_alt unat_sub unat_word_ariths port_meters_def)
  have "\<not> (x < phy_of h p mod 4 * 8 \<or> 7 + phy_of h p mod 4 * 8 < x)" "\<not> max_meter_id h < x" "q < 8"
    using assms(6-8) by (simp_all add: port_meters_def not_less bound7 q)
  then show ?thesis
    using assms b(1) v bw_abs_apr [OF assms(1) p q v(1)] db_ok_bw [OF b(2)]
    unfolding bw_run.simps no_result_def rtk_rate_egrQueueBwCtrlRate_set_def
    by (auto intro!: wp_thenE wp_bindE wp_okE wp_chk_init [OF assms(1)] wp_chk_port [OF assms(1) p] wp_port_L2P [OF assms(1) b(1)] wp_maxMeter [OF assms(1)] wp_asic_set(5) [OF b(2) A q]
        simp: check_that_def bw_eff_def storing_def port_meters_def)
qed

interpretation bw_unit: config_unit bw_abs bw_spec bw_run
proof
  fix c :: swt and h A and x :: bw_call and view :: "'a \<Rightarrow> chip_view"
  assume a: "sw_ready c h" "db_ok c" "cfg_regs \<subseteq> A"
  have "wp view A (bw_run x) (bw_eff h x c) c"
  proof (cases "bw_accepts h x")
    case True
    then show ?thesis
      by (cases x)
         (simp_all only: bw_accepts_def bw_call.case wp_bw_set [OF a] wp_bw_get [OF a] wp_bw_aprSet [OF a])
  qed (rule wp_bw_refused [OF a(1,2)])
  then show "wp view A (bw_run x) (\<lambda>r c'. (r, bw_abs h c') = bw_spec h x (bw_abs h c) \<and> sw_ready c' h \<and> db_ok c') c"
    by (simp add: bw_eff_def [abs_def])
qed

end
