(* ===== verification/Meter_Spec.thy ===== *)
theory Meter_Spec
  imports Rate_Spec
begin

text \<open>
  The shared meters as a map from the meter number to its type, rate, whether the inter-frame gap
  counts, and bucket size.  The chip spreads a meter over five registers in two banks and keeps the
  type and the gap flag of sixteen meters in one register.
\<close>

section \<open>Specification\<close>

record meter =
  mt_type :: u32
  mt_rate :: u32
  mt_ifg :: u32
  mt_bucket :: u32

type_synonym meter_cfg = "u32 \<Rightarrow> meter"

datatype meter_call =
    MeterSet u32 u32 u32 u32 | MeterGet u32 outptr outptr outptr
  | BucketSet u32 u32 | BucketGet u32 outptr

primrec meter_run :: "meter_call \<Rightarrow> ('d gsw, u32 list) drv" where
  "meter_run (MeterSet i t r g) = no_result (rtk_rate_shareMeter_set i t r g)"
| "meter_run (MeterGet i p q o') = bindE (rtk_rate_shareMeter_get i p q o') (\<lambda>(t, r, g). okE [t, r, g])"
| "meter_run (BucketSet i b) = no_result (rtk_rate_shareMeterBucket_set i b)"
| "meter_run (BucketGet i p) = one_result (rtk_rate_shareMeterBucket_get i p)"

text \<open>A rate in kbps counts in units of 8; a rate in packets per second is exact.\<close>

definition meter_rate_ok :: "u32 \<Rightarrow> u32 \<Rightarrow> bool" where
  "meter_rate_ok t r \<longleftrightarrow> (if t = METER_TYPE_KBPS then 8 \<le> r \<and> r \<le> RTL8367C_QOS_RATE_INPUT_MAX_HSG
     else 1 \<le> r \<and> r \<le> RTL8367C_QOS_PPS_INPUT_MAX)"

definition meter_raw :: "u32 \<Rightarrow> u32 \<Rightarrow> u32" where
  "meter_raw t r = (if t = METER_TYPE_KBPS then drop_bit 3 r else r)"

definition meter_shown :: "u32 \<Rightarrow> u32 \<Rightarrow> u32" where
  "meter_shown t w = (if t = METER_TYPE_KBPS then push_bit 3 w else w)"

primrec meter_spec :: "rtk_switch_halCtrl_t \<Rightarrow> meter_call \<Rightarrow> meter_cfg \<Rightarrow> u32 list outcome \<times> meter_cfg" where
  "meter_spec h (MeterSet i t r g) m =
     (if \<not> i \<le> max_meter_id h then (Err RT_ERR_FILTER_METER_ID, m)
      else if \<not> (t \<le> 1 \<and> g \<le> 1) then (Err RT_ERR_INPUT, m)
      else storing (meter_rate_ok t r) RT_ERR_RATE
        (\<lambda>m. m(i := (m i)\<lparr>mt_type := t, mt_rate := if t = METER_TYPE_KBPS then r AND NOT 7 else r, mt_ifg := g\<rparr>)) m)"
| "meter_spec h (MeterGet i p q o') m =
     (if \<not> i \<le> max_meter_id h then (Err RT_ERR_FILTER_METER_ID, m)
      else if p = NULLP \<or> q = NULLP \<or> o' = NULLP then (Err RT_ERR_NULL_POINTER, m)
      else (Ok [mt_type (m i), mt_rate (m i), mt_ifg (m i)], m))"
| "meter_spec h (BucketSet i b) m =
     (if \<not> i \<le> max_meter_id h then (Err RT_ERR_FILTER_METER_ID, m)
      else storing (b \<le> 0xFFFF) RT_ERR_INPUT (\<lambda>m. m(i := (m i)\<lparr>mt_bucket := b\<rparr>)) m)"
| "meter_spec h (BucketGet i p) m =
     (if \<not> i \<le> max_meter_id h then (Err RT_ERR_FILTER_METER_ID, m) else non_null p m [mt_bucket (m i)])"

section \<open>Layout\<close>

text \<open>The registers of meter \<open>i\<close>: rate (0 and 1) and bucket (2).\<close>

definition mt_reg :: "nat \<Rightarrow> u32 \<Rightarrow> u32" where
  "mt_reg k i =
     (if i < 32 then (if k = 2 then RTL8367C_METER_BUCKET_SIZE_REG i else RTL8367C_METER_RATE_REG i + of_nat k)
      else (if k = 2 then RTL8367C_REG_METER32_BUCKET_SIZE + i - 32 else RTL8367C_REG_METER32_RATE_CTRL0 + push_bit 1 (i - 32) + of_nat k))"

definition mt_gap_reg :: "u32 \<Rightarrow> u32" where
  "mt_gap_reg i = (if i < 32 then RTL8367C_METER_IFG_CTRL_REG i else RTL8367C_REG_METER_IFG_CTRL2 + drop_bit 4 (i - 32))"

definition mt_bit :: "u32 \<Rightarrow> nat" where "mt_bit i = unat i mod 16"

text \<open>The addresses as numbers.\<close>

definition mt_addr :: "nat \<Rightarrow> nat \<Rightarrow> nat" where
  "mt_addr k n = (if k = 2 then (if n < 32 then 0x1600 + n else 0x1770 + n)
     else (if n < 32 then 0x1400 + 2 * n + k else 0x1700 + 2 * n + k))"

lemma mt_addr_inj:
  assumes "mt_addr k n = mt_addr l m" and "k < 3" and "l < 3" and "n \<le> 63" and "m \<le> 63"
  shows "k = l \<and> n = m"
  using assms unfolding mt_addr_def
  by (cases "k = 2"; cases "l = 2"; cases "n < 32"; cases "m < 32"; simp; presburger)

lemma mt_nat:
  assumes "i \<le> 63"
  shows "unat i \<le> 63" and "k < 3 \<Longrightarrow> unat (mt_reg k i) = mt_addr k (unat i)"
    and "unat (mt_gap_reg i) = (if unat i < 32 then 0x1712 + unat i div 16 else 0x17B2 + unat i div 16)"
    and "unat (meter_mode_reg i) = (if unat i < 32 then 0x1440 + unat i div 16 else 0x177E + unat i div 16)"
proof -
  show n: "unat i \<le> 63" using assms by (simp add: word_le_nat_alt)
  have sub: "unat (i - 32) = unat i - 32" if "\<not> i < 32" using that by (simp add: unat_sub not_less)
  have p: "push_bit 1 w = 2 * (w :: u32)" "drop_bit 4 w = w div 16" for w
    by (simp_all add: push_bit_eq_mult drop_bit_eq_div)
  show "unat (mt_reg k i) = mt_addr k (unat i)" if "k < 3"
  proof -
    have k: "unat (of_nat k :: u32) = k" using that by (simp add: unat_of_nat take_bit_eq_mod)
    have "RTL8367C_REG_METER32_BUCKET_SIZE + i - 32 = RTL8367C_REG_METER32_BUCKET_SIZE + (i - 32)" by simp
    then show ?thesis
      using n that sub k
      by (auto simp: mt_reg_def mt_addr_def RTL8367C_METER_BUCKET_SIZE_REG_def RTL8367C_METER_RATE_REG_def p unat_word_ariths word_less_nat_alt)
  qed
  show "unat (mt_gap_reg i) = (if unat i < 32 then 0x1712 + unat i div 16 else 0x17B2 + unat i div 16)"
    using n sub by (auto simp: mt_gap_reg_def RTL8367C_METER_IFG_CTRL_REG_def p unat_word_ariths unat_div word_less_nat_alt)
  show "unat (meter_mode_reg i) = (if unat i < 32 then 0x1440 + unat i div 16 else 0x177E + unat i div 16)"
    using n sub by (auto simp: meter_mode_reg_def unat_word_ariths unat_div word_less_nat_alt)
qed

lemma mt_reg_eq [simp]:
  assumes "i \<le> 63" and "j \<le> 63" and "k < 3" and "l < 3"
  shows "mt_reg k i = mt_reg l j \<longleftrightarrow> k = l \<and> i = j"
  using mt_addr_inj [OF _ assms(3,4) mt_nat(1) [OF assms(1)] mt_nat(1) [OF assms(2)]] mt_nat(2) [OF assms(1,3)] mt_nat(2) [OF assms(2,4)]
  by (metis word_unat_eq_iff)

lemma mt_regD [simp]:
  assumes "i \<le> 63" and "k < 3"
  shows "cfg_reg (mt_reg k i)" "0x7A7 < mt_reg k i"
    "j \<le> 63 \<Longrightarrow> mt_reg k i \<noteq> mt_gap_reg j" "j \<le> 63 \<Longrightarrow> mt_reg k i \<noteq> meter_mode_reg j"
    "j \<le> 63 \<Longrightarrow> mt_gap_reg j \<noteq> mt_reg k i" "j \<le> 63 \<Longrightarrow> meter_mode_reg j \<noteq> mt_reg k i"
proof -
  note f = mt_nat(2) [OF assms] mt_nat(1) [OF assms(1)]
  have "0x1400 \<le> mt_reg k i \<and> mt_reg k i \<le> 0x1441 \<or> 0x1600 \<le> mt_reg k i \<and> mt_reg k i \<le> 0x161F \<or>
      0x1740 \<le> mt_reg k i \<and> mt_reg k i \<le> 0x1781 \<or> 0x1790 \<le> mt_reg k i \<and> mt_reg k i \<le> 0x17AF"
    using f assms(2) by (auto simp: word_le_nat_alt mt_addr_def)
  then show "cfg_reg (mt_reg k i)"
    using cfg_range [of "0x1400" "0x1441"] cfg_range [of "0x1600" "0x161F"] cfg_range [of "0x1740" "0x1781"] cfg_range [of "0x1790" "0x17AF"]
    unfolding cfg_ranges_def by fastforce
  show "0x7A7 < mt_reg k i" using f assms(2) by (auto simp: word_less_nat_alt mt_addr_def)
  have "unat (mt_reg k i) \<noteq> unat (mt_gap_reg j) \<and> unat (mt_reg k i) \<noteq> unat (meter_mode_reg j)" if "j \<le> 63"
    using f mt_nat(3,4,1) [OF that] assms(2) by (auto simp: mt_addr_def)
  then show "j \<le> 63 \<Longrightarrow> mt_reg k i \<noteq> mt_gap_reg j" "j \<le> 63 \<Longrightarrow> mt_reg k i \<noteq> meter_mode_reg j"
    "j \<le> 63 \<Longrightarrow> mt_gap_reg j \<noteq> mt_reg k i" "j \<le> 63 \<Longrightarrow> meter_mode_reg j \<noteq> mt_reg k i" by metis+
qed

lemma mt_flagD [simp]:
  assumes "i \<le> 63"
  shows "cfg_reg (mt_gap_reg i)" "cfg_reg (meter_mode_reg i)" "0x7A7 < mt_gap_reg i" "0x7A7 < meter_mode_reg i" "mt_bit i < 16"
    "unat (i AND 0xF) = mt_bit i" "unat (i mod 16) = mt_bit i"
proof -
  note f = mt_nat(3,4,1) [OF assms]
  have "0x1712 \<le> mt_gap_reg i \<and> mt_gap_reg i \<le> 0x1713 \<or> 0x17B4 \<le> mt_gap_reg i \<and> mt_gap_reg i \<le> 0x17B5"
    using f by (auto simp: word_le_nat_alt)
  then show "cfg_reg (mt_gap_reg i)"
    using cfg_range [of "0x1712" "0x1713"] cfg_range [of "0x17B4" "0x17B5"] unfolding cfg_ranges_def by fastforce
  have "0x1400 \<le> meter_mode_reg i \<and> meter_mode_reg i \<le> 0x1441 \<or> 0x1740 \<le> meter_mode_reg i \<and> meter_mode_reg i \<le> 0x1781"
    using f by (auto simp: word_le_nat_alt)
  then show "cfg_reg (meter_mode_reg i)"
    using cfg_range [of "0x1400" "0x1441"] cfg_range [of "0x1740" "0x1781"] unfolding cfg_ranges_def by fastforce
  show "0x7A7 < mt_gap_reg i" "0x7A7 < meter_mode_reg i" using f by (auto simp: word_less_nat_alt)
  show "mt_bit i < 16" "unat (i mod 16) = mt_bit i" by (simp_all add: mt_bit_def unat_mod)
  have "i AND 0xF = take_bit 4 i" by (simp add: take_bit_eq_mask mask_eq_exp_minus_1)
  then show "unat (i AND 0xF) = mt_bit i" by (simp only: unsigned_take_bit_eq) (simp add: take_bit_eq_mod mt_bit_def)
qed

text \<open>The flags of two meters share no bit, and the two kinds of flags share no register.\<close>

lemma mt_flag_apart:
  assumes "i \<le> 63" and "j \<le> 63"
  shows "mt_gap_reg i = mt_gap_reg j \<Longrightarrow> mt_bit i = mt_bit j \<Longrightarrow> i = j"
    "meter_mode_reg i = meter_mode_reg j \<Longrightarrow> mt_bit i = mt_bit j \<Longrightarrow> i = j" "mt_gap_reg i \<noteq> meter_mode_reg j"
proof -
  note f = mt_nat(3,4,1) [OF assms(1)] and g = mt_nat(3,4,1) [OF assms(2)]
  have eq: "i = j" if "unat i div 16 = unat j div 16" "mt_bit i = mt_bit j"
    using that by (metis div_mod_decomp mt_bit_def word_unat_eq_iff)
  show "mt_gap_reg i = mt_gap_reg j \<Longrightarrow> mt_bit i = mt_bit j \<Longrightarrow> i = j"
    by (rule eq) (use f g in \<open>auto split: if_splits\<close>)
  show "meter_mode_reg i = meter_mode_reg j \<Longrightarrow> mt_bit i = mt_bit j \<Longrightarrow> i = j"
    by (rule eq) (use f g in \<open>auto split: if_splits\<close>)
  have "unat (mt_gap_reg i) \<noteq> unat (meter_mode_reg j)" using f g by (auto split: if_splits)
  then show "mt_gap_reg i \<noteq> meter_mode_reg j" by metis
qed

lemma flag_put:
  assumes "f i = f j \<Longrightarrow> mt_bit i = mt_bit j \<Longrightarrow> i = j" and "mt_bit i < 16" and "v \<le> 1"
  shows "gfld (f j) (mt_bit j) 1 (put_gfld (f i) (mt_bit i) 1 v c) = (if j = i then v else gfld (f j) (mt_bit j) 1 c)"
proof (cases "j = i")
  case False
  show ?thesis
  proof (cases "f i = f j")
    case True
    with assms(1) False have "mt_bit i \<noteq> mt_bit j" by blast
    then have "mt_bit i + 1 \<le> mt_bit j \<or> mt_bit j + 1 \<le> mt_bit i" by arith
    with gfld_put_apart [OF _ _ this, of "f i" v c] True False assms(2) show ?thesis by simp
  qed (simp add: False)
qed (use assms(2,3) in \<open>simp add: gfld_put mask_Suc_0\<close>)

lemma mt_flag_put:
  assumes "i \<le> 63" and "j \<le> 63"
  shows "v \<le> 1 \<Longrightarrow> gfld (mt_gap_reg j) (mt_bit j) 1 (put_gfld (mt_gap_reg i) (mt_bit i) 1 v c) = (if j = i then v else gfld (mt_gap_reg j) (mt_bit j) 1 c)"
    "v \<le> 1 \<Longrightarrow> gfld (meter_mode_reg j) (mt_bit j) 1 (put_gfld (meter_mode_reg i) (mt_bit i) 1 v c) = (if j = i then v else gfld (meter_mode_reg j) (mt_bit j) 1 c)"
    "gfld (mt_gap_reg j) (mt_bit j) 1 (put_gfld (meter_mode_reg i) (mt_bit i) 1 v c) = gfld (mt_gap_reg j) (mt_bit j) 1 c"
    "gfld (meter_mode_reg j) (mt_bit j) 1 (put_gfld (mt_gap_reg i) (mt_bit i) 1 v c) = gfld (meter_mode_reg j) (mt_bit j) 1 c"
  by (rule flag_put [OF mt_flag_apart(1) [OF assms] mt_flagD(5) [OF assms(1)]]; assumption)
     (rule flag_put [OF mt_flag_apart(2) [OF assms] mt_flagD(5) [OF assms(1)]], assumption,
       use mt_flag_apart(3) [OF assms] mt_flag_apart(3) [OF assms(2,1)] in simp_all)

section \<open>The calls refine the specification\<close>

definition meter_word :: "u32 \<Rightarrow> swt \<Rightarrow> u32" where
  "meter_word i c = (push_bit 16 (ucast (sw_reg c (mt_reg 1 i))) AND 0x70000) OR ucast (sw_reg c (mt_reg 0 i))"

definition meter_no :: meter where
  "meter_no = \<lparr>mt_type = 0, mt_rate = 0, mt_ifg = 0, mt_bucket = 0\<rparr>"

definition meter_at :: "u32 \<Rightarrow> swt \<Rightarrow> meter" where
  "meter_at i c = (let t = gfld (meter_mode_reg i) (mt_bit i) 1 c in
     \<lparr>mt_type = t, mt_rate = meter_shown t (meter_word i c), mt_ifg = gfld (mt_gap_reg i) (mt_bit i) 1 c,
      mt_bucket = ucast (sw_reg c (mt_reg 2 i))\<rparr>)"

definition meter_abs :: "rtk_switch_halCtrl_t \<Rightarrow> swt \<Rightarrow> meter_cfg" where
  "meter_abs h c = (\<lambda>i. if i \<le> max_meter_id h then meter_at i c else meter_no)"

definition put_rate :: "u32 \<Rightarrow> u32 \<Rightarrow> swt \<Rightarrow> swt" where
  "put_rate i v c = put_word (mt_reg 1 i) (drop_bit 16 (v AND 0x70000)) (put_word (mt_reg 0 i) (v AND 0xFFFF) c)"

lemma meter_word_put:
  assumes "i \<le> 63" and "v \<le> 0x7FFFF"
  shows "meter_word i (put_rate i v c) = v"
proof -
  have v: "n < 19" if "bit v n" for n
    using assms(2) that le_mask_iff_bits [of v 19] by (auto simp: mask_eq_exp_minus_1 not_le [symmetric])
  have k: "(0x70000 :: u32) = push_bit 16 (mask 3)" by (simp add: mask_eq_exp_minus_1 push_bit_eq_mult)
  have "meter_word i (put_rate i v c) =
      (push_bit 16 (ucast (ucast (drop_bit 16 (v AND 0x70000)) :: u16)) AND 0x70000) OR ucast (ucast (v AND 0xFFFF) :: u16)"
    using assms(1) by (simp add: meter_word_def put_rate_def)
  also have "\<dots> = v"
    unfolding wide_parts(1,2) unfolding k
  proof (rule bit_word_eqI)
    fix n :: nat assume "n < LENGTH(32)"
    show "bit (push_bit 16 (ucast (ucast (drop_bit 16 v AND mask 3) :: u16)) AND push_bit 16 (mask 3) OR ucast (ucast (v AND mask 16) :: u16) :: u32) n = bit v n"
    proof (cases "n < 16")
      case False
      then obtain m where "n = 16 + m" by (metis le_iff_add not_le)
      with v [of n] show ?thesis by (auto simp: bit_simps)
    qed (simp add: bit_simps)
  qed
  finally show ?thesis .
qed

lemma meter_word_other [simp]:
  assumes "i \<le> 63" and "j \<le> 63"
  shows "i \<noteq> j \<Longrightarrow> meter_word j (put_rate i v c) = meter_word j c"
    "meter_word j (put_word (mt_reg 2 i) v c) = meter_word j c"
    "meter_word j (put_gfld (mt_gap_reg i) k w v c) = meter_word j c"
    "meter_word j (put_gfld (meter_mode_reg i) k w v c) = meter_word j c"
  using assms by (auto simp: meter_word_def put_rate_def)

lemma meter_at_set:
  assumes "i \<le> 63" and "j \<le> 63" and "v \<le> 0x7FFFF" and "g \<le> 1" and "t \<le> 1"
  shows "meter_at j (put_gfld (meter_mode_reg i) (mt_bit i) 1 t (put_gfld (mt_gap_reg i) (mt_bit i) 1 g (put_rate i v c))) =
    (if j = i then (meter_at i c)\<lparr>mt_type := t, mt_rate := meter_shown t v, mt_ifg := g\<rparr> else meter_at j c)"
proof -
  have [simp]: "gfld (mt_gap_reg j) k w (put_rate i v c) = gfld (mt_gap_reg j) k w c"
    "gfld (meter_mode_reg j) k w (put_rate i v c) = gfld (meter_mode_reg j) k w c"
    "sw_reg (put_rate i v c) (mt_reg 2 j) = sw_reg c (mt_reg 2 j)" for k w
    using assms(1,2) by (simp_all add: put_rate_def)
  show ?thesis
    using assms by (simp add: meter_at_def Let_def mt_flag_put meter_word_put del: One_nat_def)
qed

lemma meter_at_bucket:
  assumes "i \<le> 63" and "j \<le> 63" and "b \<le> 0xFFFF"
  shows "meter_at j (put_word (mt_reg 2 i) b c) = (if j = i then (meter_at i c)\<lparr>mt_bucket := b\<rparr> else meter_at j c)"
  using assms by (simp add: meter_at_def Let_def ucast_down_up)

definition meter_eff :: "rtk_switch_halCtrl_t \<Rightarrow> meter_call \<Rightarrow> swt \<Rightarrow> u32 list outcome \<Rightarrow> swt \<Rightarrow> bool" where
  "meter_eff h x c r c' \<longleftrightarrow> (r, meter_abs h c') = meter_spec h x (meter_abs h c) \<and> sw_ready c' h \<and> db_ok c'"

lemma meter_ready:
  assumes "sw_ready c h" and "i \<le> max_meter_id h"
  shows "i \<le> 63"
  by (rule order_trans [OF assms(2)]) (use assms(1) in \<open>simp add: sw_ready_def hal_wf_def\<close>)

lemma meter_code:
  assumes "i \<le> 63"
  shows "(rtl8367c_setAsicShareMeter i v g :: ('d gsw, unit) drv) =
      thenE (rtl8367c_setAsicReg (mt_reg 0 i) (v AND 0xFFFF)) (thenE (rtl8367c_setAsicReg (mt_reg 1 i) (drop_bit 16 (v AND 0x70000)))
        (rtl8367c_setAsicRegBit (mt_gap_reg i) (RTL8367C_METER_IFG_OFFSET i) g))"
    and "(rtl8367c_getAsicShareMeter i :: ('d gsw, u32 \<times> u32) drv) =
      bindE (rtl8367c_getAsicReg (mt_reg 0 i)) (\<lambda>regData. bindE (rtl8367c_getAsicReg (mt_reg 1 i)) (\<lambda>regData2.
        bindE (rtl8367c_getAsicRegBit (mt_gap_reg i) (RTL8367C_METER_IFG_OFFSET i)) (\<lambda>ifg.
        okE ((push_bit 16 regData2 AND 0x70000) OR regData, ifg))))"
    and "(rtl8367c_setAsicShareMeterBucketSize i b :: ('d gsw, unit) drv) = rtl8367c_setAsicReg (mt_reg 2 i) b"
    and "(rtl8367c_getAsicShareMeterBucketSize i :: ('d gsw, u32) drv) = rtl8367c_getAsicReg (mt_reg 2 i)"
    and "(rtl8367c_setAsicShareMeterType i t :: ('d gsw, unit) drv) = rtl8367c_setAsicRegBit (meter_mode_reg i) (i mod 16) t"
    and "p \<noteq> NULLP \<Longrightarrow> (rtl8367c_getAsicShareMeterType i p :: ('d gsw, u32) drv) = rtl8367c_getAsicRegBit (meter_mode_reg i) (i mod 16)"
proof -
  have i: "\<not> 63 < i" using assms by (simp add: not_less)
  then show "(rtl8367c_setAsicShareMeter i v g :: ('d gsw, unit) drv) =
      thenE (rtl8367c_setAsicReg (mt_reg 0 i) (v AND 0xFFFF)) (thenE (rtl8367c_setAsicReg (mt_reg 1 i) (drop_bit 16 (v AND 0x70000)))
        (rtl8367c_setAsicRegBit (mt_gap_reg i) (RTL8367C_METER_IFG_OFFSET i) g))"
    and "(rtl8367c_getAsicShareMeter i :: ('d gsw, u32 \<times> u32) drv) =
      bindE (rtl8367c_getAsicReg (mt_reg 0 i)) (\<lambda>regData. bindE (rtl8367c_getAsicReg (mt_reg 1 i)) (\<lambda>regData2.
        bindE (rtl8367c_getAsicRegBit (mt_gap_reg i) (RTL8367C_METER_IFG_OFFSET i)) (\<lambda>ifg.
        okE ((push_bit 16 regData2 AND 0x70000) OR regData, ifg))))"
    and "(rtl8367c_setAsicShareMeterBucketSize i b :: ('d gsw, unit) drv) = rtl8367c_setAsicReg (mt_reg 2 i) b"
    and "(rtl8367c_getAsicShareMeterBucketSize i :: ('d gsw, u32) drv) = rtl8367c_getAsicReg (mt_reg 2 i)"
    and "(rtl8367c_setAsicShareMeterType i t :: ('d gsw, unit) drv) = rtl8367c_setAsicRegBit (meter_mode_reg i) (i mod 16) t"
    and "p \<noteq> NULLP \<Longrightarrow> (rtl8367c_getAsicShareMeterType i p :: ('d gsw, u32) drv) = rtl8367c_getAsicRegBit (meter_mode_reg i) (i mod 16)"
    by (simp_all add: rtl8367c_setAsicShareMeter_def rtl8367c_getAsicShareMeter_def rtl8367c_setAsicShareMeterBucketSize_def
        rtl8367c_getAsicShareMeterBucketSize_def rtl8367c_setAsicShareMeterType_def rtl8367c_getAsicShareMeterType_def mt_reg_def mt_gap_reg_def)
qed

lemma wp_asic_meter:
  assumes i: "i \<le> 63" and A: "cfg_regs \<subseteq> A"
  shows "g \<le> 1 \<Longrightarrow> Q (Ok ()) (put_gfld (mt_gap_reg i) (mt_bit i) 1 g (put_rate i v c)) \<Longrightarrow> wp view A (rtl8367c_setAsicShareMeter i v g) Q c"
    and "t \<le> 1 \<Longrightarrow> Q (Ok ()) (put_gfld (meter_mode_reg i) (mt_bit i) 1 t c) \<Longrightarrow> wp view A (rtl8367c_setAsicShareMeterType i t) Q c"
    and "b \<le> 0xFFFF \<Longrightarrow> Q (Ok ()) (put_word (mt_reg 2 i) b c) \<Longrightarrow> wp view A (rtl8367c_setAsicShareMeterBucketSize i b) Q c"
    and "T (Ok (meter_word i c, gfld (mt_gap_reg i) (mt_bit i) 1 c)) c \<Longrightarrow> wp view A (rtl8367c_getAsicShareMeter i) T c"
    and "p \<noteq> NULLP \<Longrightarrow> R (Ok (gfld (meter_mode_reg i) (mt_bit i) 1 c)) c \<Longrightarrow> wp view A (rtl8367c_getAsicShareMeterType i p) R c"
    and "R (Ok (ucast (sw_reg c (mt_reg 2 i)))) c \<Longrightarrow> wp view A (rtl8367c_getAsicShareMeterBucketSize i) R c"
proof -
  note regs = mt_regD(1) [OF i] mt_flagD(1,2,5) [OF i]
  have off: "unat (RTL8367C_METER_IFG_OFFSET i) = mt_bit i" using mt_flagD(6) [OF i] by (simp add: RTL8367C_METER_IFG_OFFSET_def)
  have hi: "drop_bit 16 (v AND 0x70000) \<le> (0xFFFF :: u32)"
    by (rule order_trans [OF wide_parts(3)]) (simp add: mask_eq_exp_minus_1)
  show "wp view A (rtl8367c_setAsicShareMeter i v g) Q c"
    if "g \<le> 1" "Q (Ok ()) (put_gfld (mt_gap_reg i) (mt_bit i) 1 g (put_rate i v c))"
    unfolding meter_code(1) [OF i]
    by (rule wp_thenE, rule wp_set_word [OF regs(1) A wide_parts(4)], simp, simp only: outcome.case,
        rule wp_thenE, rule wp_set_word [OF regs(1) A hi], simp, simp only: outcome.case,
        rule wp_set_gbit [OF regs(2) A], simp only: off regs(4), rule that(1), use that(2) in \<open>simp only: put_rate_def off\<close>)
  show "wp view A (rtl8367c_setAsicShareMeterType i t) Q c"
    if "t \<le> 1" "Q (Ok ()) (put_gfld (meter_mode_reg i) (mt_bit i) 1 t c)"
    unfolding meter_code(5) [OF i]
    by (rule wp_set_gbit [OF regs(3) A], simp only: mt_flagD(7) [OF i] regs(4), rule that(1), use that(2) in \<open>simp only: mt_flagD(7) [OF i]\<close>)
  show "b \<le> 0xFFFF \<Longrightarrow> Q (Ok ()) (put_word (mt_reg 2 i) b c) \<Longrightarrow> wp view A (rtl8367c_setAsicShareMeterBucketSize i b) Q c"
    unfolding meter_code(3) [OF i] by (rule wp_set_word [OF regs(1) A]) simp_all
  show "wp view A (rtl8367c_getAsicShareMeter i) T c" if "T (Ok (meter_word i c, gfld (mt_gap_reg i) (mt_bit i) 1 c)) c"
    unfolding meter_code(2) [OF i]
    by (rule wp_bindE, rule wp_get_word [OF regs(1) A], simp, simp only: outcome.case,
        rule wp_bindE, rule wp_get_word [OF regs(1) A], simp, simp only: outcome.case,
        rule wp_bindE, rule wp_get_gbit [OF regs(2) A], simp only: off regs(4), simp only: outcome.case,
        rule wp_okE, use that in \<open>simp only: meter_word_def off\<close>)
  show "wp view A (rtl8367c_getAsicShareMeterType i p) R c" if "p \<noteq> NULLP" "R (Ok (gfld (meter_mode_reg i) (mt_bit i) 1 c)) c"
    unfolding meter_code(6) [OF i that(1)]
    by (rule wp_get_gbit [OF regs(3) A], simp only: mt_flagD(7) [OF i] regs(4), use that(2) in \<open>simp only: mt_flagD(7) [OF i]\<close>)
  show "R (Ok (ucast (sw_reg c (mt_reg 2 i)))) c \<Longrightarrow> wp view A (rtl8367c_getAsicShareMeterBucketSize i) R c"
    unfolding meter_code(4) [OF i] by (rule wp_get_word [OF regs(1) A]) simp_all
qed

lemma meter_rateD:
  assumes "meter_rate_ok t r" and "t \<le> 1"
  shows "meter_raw t r \<le> 0x7FFFF" "meter_shown t (meter_raw t r) = (if t = METER_TYPE_KBPS then r AND NOT 7 else r)"
proof -
  have "(7 :: u32) = mask 3" by (simp add: mask_eq_exp_minus_1)
  then have "push_bit 3 (drop_bit 3 r) = r AND NOT 7" by (simp add: bit_eq_iff bit_simps) auto
  then show "meter_shown t (meter_raw t r) = (if t = METER_TYPE_KBPS then r AND NOT 7 else r)" by (simp add: meter_shown_def meter_raw_def)
  show "meter_raw t r \<le> 0x7FFFF"
    using assms by (auto simp: meter_rate_ok_def meter_raw_def word_le_nat_alt drop_bit_eq_div unat_div)
qed

lemma meter_effI:
  assumes "sw_ready c h" and "db_ok c" and "i \<le> max_meter_id h"
  shows "v \<le> 0x7FFFF \<Longrightarrow> g \<le> 1 \<Longrightarrow> t \<le> 1 \<Longrightarrow> (let c' = put_gfld (meter_mode_reg i) (mt_bit i) 1 t (put_gfld (mt_gap_reg i) (mt_bit i) 1 g (put_rate i v c)) in
      meter_abs h c' = (meter_abs h c)(i := (meter_abs h c i)\<lparr>mt_type := t, mt_rate := meter_shown t v, mt_ifg := g\<rparr>) \<and> sw_ready c' h \<and> db_ok c')"
    and "b \<le> 0xFFFF \<Longrightarrow> (let c' = put_word (mt_reg 2 i) b c in
      meter_abs h c' = (meter_abs h c)(i := (meter_abs h c i)\<lparr>mt_bucket := b\<rparr>) \<and> sw_ready c' h \<and> db_ok c')"
proof -
  have i: "i \<le> 63" by (rule meter_ready [OF assms(1,3)])
  have j: "j \<le> 63" if "j \<le> max_meter_id h" for j by (rule meter_ready [OF assms(1) that])
  show "let c' = put_gfld (meter_mode_reg i) (mt_bit i) 1 t (put_gfld (mt_gap_reg i) (mt_bit i) 1 g (put_rate i v c)) in
      meter_abs h c' = (meter_abs h c)(i := (meter_abs h c i)\<lparr>mt_type := t, mt_rate := meter_shown t v, mt_ifg := g\<rparr>) \<and> sw_ready c' h \<and> db_ok c'"
    if "v \<le> 0x7FFFF" "g \<le> 1" "t \<le> 1"
    using assms meter_at_set [OF i j that, of _ c]
    by (auto simp: Let_def meter_abs_def fun_eq_iff db_ok_put_gfld db_ok_put_word put_rate_def i simp del: One_nat_def)
  show "let c' = put_word (mt_reg 2 i) b c in
      meter_abs h c' = (meter_abs h c)(i := (meter_abs h c i)\<lparr>mt_bucket := b\<rparr>) \<and> sw_ready c' h \<and> db_ok c'" if "b \<le> 0xFFFF"
    using assms meter_at_bucket [OF i j that, of _ c] by (auto simp: Let_def meter_abs_def fun_eq_iff db_ok_put_word i)
qed

lemma meter_set_code:
  assumes "t \<le> 1" and "g \<le> 1" and v: "meter_rate_ok t v"
  shows "rtk_rate_shareMeter_set i t v g = thenE RTK_CHK_INIT_STATE (bindE RTK_MAX_METER_ID (\<lambda>max_id.
        if i > max_id then errE RT_ERR_FILTER_METER_ID
        else thenE (rtl8367c_setAsicShareMeter i (meter_raw t v) g) (rtl8367c_setAsicShareMeterType i t)))"
proof -
  have num: "\<not> 2 \<le> (1 :: u32)" by code_simp
  have "t = 0 \<or> t = 1" "\<not> 2 \<le> g" using assms(1,2) by (auto simp: le_1 bound1)
  moreover have "t = 0 \<Longrightarrow> \<not> (0x3FFFF8 < v \<or> v < 8)" "t = 1 \<Longrightarrow> \<not> (0x7FFFF < v \<or> v < 1)"
    using v by (auto simp: meter_rate_ok_def)
  ultimately show ?thesis
    unfolding rtk_rate_shareMeter_set_def by (elim disjE) (simp_all add: meter_raw_def num cong: if_cong)
qed

lemma wp_meter_set:
  assumes r: "sw_ready c h" and "db_ok c" and A: "cfg_regs \<subseteq> A" and i: "i \<le> max_meter_id h"
  shows "t \<le> 1 \<Longrightarrow> g \<le> 1 \<Longrightarrow> meter_rate_ok t v \<Longrightarrow> wp view A (meter_run (MeterSet i t v g)) (meter_eff h (MeterSet i t v g) c) c"
    and "b \<le> 0xFFFF \<Longrightarrow> wp view A (meter_run (BucketSet i b)) (meter_eff h (BucketSet i b) c) c"
proof -
  have i63: "i \<le> 63" by (rule meter_ready [OF r i])
  have lim: "\<not> max_meter_id h < i" using i by (simp add: not_less)
  show "wp view A (meter_run (BucketSet i b)) (meter_eff h (BucketSet i b) c) c" if b: "b \<le> 0xFFFF"
    using b lim i meter_effI(2) [OF assms(1,2) i b]
    unfolding meter_run.simps no_result_def rtk_rate_shareMeterBucket_set_def
    by (auto intro!: wp_thenE wp_bindE wp_okE wp_chk_init [OF r] wp_maxMeter [OF r] wp_asic_meter [OF i63 A]
        simp: meter_eff_def storing_def Let_def)
  show "wp view A (meter_run (MeterSet i t v g)) (meter_eff h (MeterSet i t v g) c) c" if t: "t \<le> 1" "g \<le> 1" and v: "meter_rate_ok t v"
  proof -
    note raw = meter_rateD [OF v t(1)]
    have body: "wp view A (thenE (rtl8367c_setAsicShareMeter i (meter_raw t v) g) (rtl8367c_setAsicShareMeterType i t))
        (\<lambda>r c'. r = Ok () \<and> meter_abs h c' = (meter_abs h c)(i := (meter_abs h c i)\<lparr>mt_type := t, mt_rate := meter_shown t (meter_raw t v), mt_ifg := g\<rparr>)
           \<and> sw_ready c' h \<and> db_ok c') c"
      using t meter_effI(1) [OF assms(1,2) i raw(1) t(2,1)]
      by (auto intro!: wp_thenE wp_asic_meter [OF i63 A] simp: Let_def simp del: One_nat_def)
    note code = meter_set_code [OF t v]
    show ?thesis
      using lim i t v raw(2)
      by (auto intro!: wp_thenE wp_bindE wp_chk_init [OF r] wp_maxMeter [OF r] wp_weaken [OF body] wp_okE
          simp: code no_result_def meter_eff_def storing_def)
  qed
qed

lemma wp_meter_get:
  assumes r: "sw_ready c h" and "db_ok c" and A: "cfg_regs \<subseteq> A" and i: "i \<le> max_meter_id h"
  shows "wp view A (meter_run (MeterGet i p q o')) (meter_eff h (MeterGet i p q o') c) c"
    and "wp view A (meter_run (BucketGet i p)) (meter_eff h (BucketGet i p) c) c"
proof -
  have i63: "i \<le> 63" by (rule meter_ready [OF r i])
  have lim: "\<not> max_meter_id h < i" using i by (simp add: not_less)
  show "wp view A (meter_run (MeterGet i p q o')) (meter_eff h (MeterGet i p q o') c) c"
    "wp view A (meter_run (BucketGet i p)) (meter_eff h (BucketGet i p) c) c"
    using lim i assms(1,2)
    unfolding meter_run.simps one_result_def rtk_rate_shareMeter_get_def rtk_rate_shareMeterBucket_get_def
    by (auto intro!: wp_thenE wp_bindE wp_okE wp_errE wp_chk_init [OF r] wp_maxMeter [OF r] wp_asic_meter [OF i63 A]
        simp: meter_eff_def meter_abs_def meter_at_def Let_def meter_shown_def not_null_def check_that_def non_null_def)
qed

definition meter_accepts :: "rtk_switch_halCtrl_t \<Rightarrow> meter_call \<Rightarrow> bool" where
  "meter_accepts h x \<longleftrightarrow> (case x of
     MeterSet i t r g \<Rightarrow> i \<le> max_meter_id h \<and> t \<le> 1 \<and> g \<le> 1 \<and> meter_rate_ok t r
   | BucketSet i b \<Rightarrow> i \<le> max_meter_id h \<and> b \<le> 0xFFFF
   | MeterGet i _ _ _ \<Rightarrow> i \<le> max_meter_id h | BucketGet i _ \<Rightarrow> i \<le> max_meter_id h)"

lemma wp_meter_refused:
  assumes "sw_ready c h" and "db_ok c" and no: "\<not> meter_accepts h x"
  shows "wp view A (meter_run x) (meter_eff h x c) c"
proof -
  have "meter_run x s = (fst (meter_spec h x (meter_abs h c)), s)" if s: "ready s h" for s :: "'a gsw"
    using no
    by (cases x; simp add: meter_accepts_def no_result_def one_result_def rtk_rate_shareMeter_set_def rtk_rate_shareMeter_get_def
          rtk_rate_shareMeterBucket_set_def rtk_rate_shareMeterBucket_get_def thenE_def [of "thenE _ _"] bindE_def [of "thenE _ _"] chk_then [OF s]
          maxMeter_then [OF s] bound1 storing_def meter_rate_ok_def errE_def not_le [symmetric] del: de_Morgan_conj; auto simp: thenE_def bindE_def le_1 errE_def)
  moreover have "snd (meter_spec h x (meter_abs h c)) = meter_abs h c"
    using no by (cases x) (auto simp: meter_accepts_def storing_def non_null_def)
  ultimately show ?thesis
    by (intro wp_refused [OF assms(1)]) (use assms(1,2) in \<open>auto simp: meter_eff_def prod_eq_iff\<close>)
qed

interpretation meter_unit: config_unit meter_abs meter_spec meter_run
proof
  fix c :: swt and h A and x :: meter_call and view :: "'a \<Rightarrow> chip_view"
  assume a: "sw_ready c h" "db_ok c" "cfg_regs \<subseteq> A"
  have "wp view A (meter_run x) (meter_eff h x c) c"
  proof (cases "meter_accepts h x")
    case True
    then show ?thesis
      by (cases x) (simp_all only: meter_accepts_def meter_call.case wp_meter_set [OF a] wp_meter_get [OF a])
  qed (rule wp_meter_refused [OF a(1,2)])
  then show "wp view A (meter_run x) (\<lambda>r c'. (r, meter_abs h c') = meter_spec h x (meter_abs h c) \<and> sw_ready c' h \<and> db_ok c') c"
    by (simp add: meter_eff_def [abs_def])
qed

section \<open>Properties\<close>

text \<open>
  C33. The bandwidth API refines an abstract configuration of ingress and egress rates per port, the
  gap flag that all ports share, and the meters of the eight queues of each port: every sequence of
  calls with any arguments returns exactly what the specification says.  A rate reads back rounded
  down to a multiple of 8, the settings of one port never disturb another's, and a queue of a port
  takes only the eight meters that belong to the port.
\<close>

theorem bw_calls_refine:
  assumes "driver_up view A h s"
  shows "\<exists>m. \<forall>xs. \<exists>s'. run_calls bw_run xs s = (fst (spec_calls (bw_spec h) xs m), s') \<and> driver_up view A h s'"
  by (rule bw_unit.calls_observed [OF assms])

theorem bw_calls_refine_witness:
  "\<exists>s'. run_calls bw_run [IgrSet 16 0x3FFFF5 1 0, IgrSet 2 1003 0 1, EgrSet 2 80 1, IgrGet 16 PTR PTR PTR, IgrGet 2 PTR PTR PTR, EgrGet 2 PTR PTR,
       IgrSet 2 0x100000 0 0, AprSet 1 6 11, AprGet 1 6 PTR, AprSet 1 6 16]
      (sim_gsw 1 (Some rtl8367c_hal_Ctrl)) =
    ([Ok [], Ok [], Ok [], Ok [0x3FFFF0, 1, 0], Ok [1000, 0, 1], Ok [80, 1], Err RT_ERR_QOS_EBW_RATE, Ok [], Ok [11], Err RT_ERR_FILTER_METER_ID], s')"
proof -
  let ?xs = "[IgrSet 16 0x3FFFF5 1 0, IgrSet 2 1003 0 1, EgrSet 2 80 1, IgrGet 16 PTR PTR PTR, IgrGet 2 PTR PTR PTR, EgrGet 2 PTR PTR,
       IgrSet 2 0x100000 0 0, AprSet 1 6 11, AprGet 1 6 PTR, AprSet 1 6 16]"
  have "valid_port rtl8367c_hal_Ctrl 1" "valid_port rtl8367c_hal_Ctrl 2" "valid_port rtl8367c_hal_Ctrl 16" "port_meters rtl8367c_hal_Ctrl 1 = 8"
    "max_meter_id rtl8367c_hal_Ctrl = 31" "hsg_logical_port rtl8367c_hal_Ctrl = 16" by code_simp+
  then have "fst (spec_calls (bw_spec rtl8367c_hal_Ctrl) ?xs m) =
      [Ok [], Ok [], Ok [], Ok [0x3FFFF0, 1, 0], Ok [1000, 0, 1], Ok [80, 1], Err RT_ERR_QOS_EBW_RATE, Ok [], Ok [11], Err RT_ERR_FILTER_METER_ID]" for m
    by (simp add: storing_def non_null_def rate_ok_def)
  with bw_calls_refine [OF sim_driver_up [OF hal_tables_wf(1)]] show ?thesis by metis
qed

text \<open>
  C34. The shared meters refine a map from meter numbers to type, rate, gap flag and bucket size: a
  meter that was set reads back with its type, rate (rounded down to a multiple of 8 when it counts
  kbps, exact when it counts packets) and flag, although the flags of sixteen meters share a register
  and the meters lie in two banks; no call disturbs another meter, and numbers the chip does not have
  are refused.
\<close>

theorem meter_calls_refine:
  assumes "driver_up view A h s"
  shows "\<exists>m. \<forall>xs. \<exists>s'. run_calls meter_run xs s = (fst (spec_calls (meter_spec h) xs m), s') \<and> driver_up view A h s'"
  by (rule meter_unit.calls_observed [OF assms])

theorem meter_calls_refine_witness:
  "\<exists>s'. run_calls meter_run [MeterSet 31 0 1001 1, MeterSet 15 1 0x7FFFF 0, BucketSet 31 500, MeterGet 31 PTR PTR PTR, MeterGet 15 PTR PTR PTR,
       BucketGet 31 PTR, MeterSet 32 0 80 0, MeterSet 3 1 0 0]
      (sim_gsw 1 (Some rtl8367c_hal_Ctrl)) =
    ([Ok [], Ok [], Ok [], Ok [0, 1000, 1], Ok [1, 0x7FFFF, 0], Ok [500], Err RT_ERR_FILTER_METER_ID, Err RT_ERR_RATE], s')"
proof -
  let ?xs = "[MeterSet 31 0 1001 1, MeterSet 15 1 0x7FFFF 0, BucketSet 31 500, MeterGet 31 PTR PTR PTR, MeterGet 15 PTR PTR PTR,
       BucketGet 31 PTR, MeterSet 32 0 80 0, MeterSet 3 1 0 0]"
  have "max_meter_id rtl8367c_hal_Ctrl = 31" by code_simp
  then have "fst (spec_calls (meter_spec rtl8367c_hal_Ctrl) ?xs m) =
      [Ok [], Ok [], Ok [], Ok [0, 1000, 1], Ok [1, 0x7FFFF, 0], Ok [500], Err RT_ERR_FILTER_METER_ID, Err RT_ERR_RATE]" for m
    by (simp add: storing_def non_null_def meter_rate_ok_def)
  with meter_calls_refine [OF sim_driver_up [OF hal_tables_wf(1)]] show ?thesis by metis
qed

end
