(* ===== verification/Lut.thy ===== *)
theory Lut
  imports Trunk AsicVlan Word_Loop
begin

text \<open>
  The lookup table: \<open>rtl8367c_asicdrv_lut.c\<close>.  The chip finds the ports of a destination address in a
  hash table of six-word entries.  The theory holds the structure \<open>rtl8367c_luttb\<close> of an entry with its
  packing into words, the two table commands (store an entry, read an entry by one of eight methods)
  and the registers that control learning, ageing and flushing.

  The six words are computed in 16 bits: the shifts of the code stay within them.  The local
  array of the two table functions has six elements, and the loops that fill the write-data registers
  fetch a seventh one that they never use; this fetch is left out.
\<close>

section \<open>Registers\<close>

abbreviation (input) RTL8367C_REG_LUT_CFG :: u32 where "RTL8367C_REG_LUT_CFG \<equiv> 0xA30"
abbreviation (input) RTL8367C_REG_LUT_CFG2 :: u32 where "RTL8367C_REG_LUT_CFG2 \<equiv> 0xA3A"
abbreviation (input) RTL8367C_LUT_IPMC_HASH_OFFSET :: u32 where "RTL8367C_LUT_IPMC_HASH_OFFSET \<equiv> 4"
abbreviation (input) RTL8367C_LUT_IPMC_VID_HASH_OFFSET :: u32 where "RTL8367C_LUT_IPMC_VID_HASH_OFFSET \<equiv> 0"
abbreviation (input) RTL8367C_LUT_IPMC_LOOKUP_OP_OFFSET :: u32 where "RTL8367C_LUT_IPMC_LOOKUP_OP_OFFSET \<equiv> 3"
abbreviation (input) RTL8367C_AGE_TIMER_OFFSET :: nat where "RTL8367C_AGE_TIMER_OFFSET \<equiv> 0"
abbreviation (input) RTL8367C_AGE_TIMER_MASK :: u32 where "RTL8367C_AGE_TIMER_MASK \<equiv> 0x7"
abbreviation (input) RTL8367C_AGE_SPEED_OFFSET :: nat where "RTL8367C_AGE_SPEED_OFFSET \<equiv> 8"
abbreviation (input) RTL8367C_AGE_SPEED_MASK :: u32 where "RTL8367C_AGE_SPEED_MASK \<equiv> 0x300"
abbreviation (input) RTL8367C_BCAM_DISABLE_OFFSET :: u32 where "RTL8367C_BCAM_DISABLE_OFFSET \<equiv> 6"
abbreviation (input) RTL8367C_LINKDOWN_AGEOUT_OFFSET :: u32 where "RTL8367C_LINKDOWN_AGEOUT_OFFSET \<equiv> 5"
abbreviation (input) RTL8367C_LUT_IPMC_FWD_RPORT_OFFSET :: u32 where "RTL8367C_LUT_IPMC_FWD_RPORT_OFFSET \<equiv> 1"
abbreviation (input) RTL8367C_LUT_PORT_LEARN_LIMITNO_BASE :: u32 where "RTL8367C_LUT_PORT_LEARN_LIMITNO_BASE \<equiv> 0xA20"
abbreviation (input) RTL8367C_REG_LUT_PORT8_LEARN_LIMITNO :: u32 where "RTL8367C_REG_LUT_PORT8_LEARN_LIMITNO \<equiv> 0xA2A"
abbreviation (input) RTL8367C_REG_LUT_SYS_LEARN_LIMITNO :: u32 where "RTL8367C_REG_LUT_SYS_LEARN_LIMITNO \<equiv> 0xA28"
abbreviation (input) RTL8367C_REG_LUT_LRN_SYS_LMT_CTRL :: u32 where "RTL8367C_REG_LUT_LRN_SYS_LMT_CTRL \<equiv> 0xA29"
abbreviation (input) RTL8367C_LUT_SYSTEM_LEARN_PMASK1_MASK :: u32 where "RTL8367C_LUT_SYSTEM_LEARN_PMASK1_MASK \<equiv> 0x7000"
abbreviation (input) RTL8367C_LUT_SYSTEM_LEARN_OVER_ACT_MASK :: u32 where "RTL8367C_LUT_SYSTEM_LEARN_OVER_ACT_MASK \<equiv> 0xC00"
abbreviation (input) RTL8367C_LUT_SYSTEM_LEARN_PMASK_MASK :: u32 where "RTL8367C_LUT_SYSTEM_LEARN_PMASK_MASK \<equiv> 0xFF"
abbreviation (input) RTL8367C_REG_PORT_SECURITY_CTRL :: u32 where "RTL8367C_REG_PORT_SECURITY_CTRL \<equiv> 0x8C8"
abbreviation (input) RTL8367C_LUT_LEARN_OVER_ACT_MASK :: u32 where "RTL8367C_LUT_LEARN_OVER_ACT_MASK \<equiv> 0x30"
abbreviation (input) RTL8367C_REG_L2_LRN_CNT_BASE :: u32 where "RTL8367C_REG_L2_LRN_CNT_BASE \<equiv> 0xA87"
abbreviation (input) RTL8367C_REG_L2_LRN_CNT_CTRL10 :: u32 where "RTL8367C_REG_L2_LRN_CNT_CTRL10 \<equiv> 0xA92"
abbreviation (input) RTL8367C_REG_L2_FLUSH_CTRL1 :: u32 where "RTL8367C_REG_L2_FLUSH_CTRL1 \<equiv> 0xA37"
abbreviation (input) RTL8367C_REG_L2_FLUSH_CTRL2 :: u32 where "RTL8367C_REG_L2_FLUSH_CTRL2 \<equiv> 0xA38"
abbreviation (input) RTL8367C_REG_L2_FLUSH_CTRL3 :: u32 where "RTL8367C_REG_L2_FLUSH_CTRL3 \<equiv> 0xA39"
abbreviation (input) RTL8367C_L2_FLUSH_CTRL3_OFFSET :: u32 where "RTL8367C_L2_FLUSH_CTRL3_OFFSET \<equiv> 0"
abbreviation (input) RTL8367C_REG_FORCE_FLUSH1 :: u32 where "RTL8367C_REG_FORCE_FLUSH1 \<equiv> 0xA35"
abbreviation (input) RTL8367C_FORCE_FLUSH_REG :: u32 where "RTL8367C_FORCE_FLUSH_REG \<equiv> 0xA36"
abbreviation (input) RTL8367C_FORCE_FLUSH_PORTMASK_MASK :: u32 where "RTL8367C_FORCE_FLUSH_PORTMASK_MASK \<equiv> 0xFF"
abbreviation (input) RTL8367C_PORTMASK1_MASK :: u32 where "RTL8367C_PORTMASK1_MASK \<equiv> 0x7"
abbreviation (input) RTL8367C_BUSY_STATUS1_MASK :: u32 where "RTL8367C_BUSY_STATUS1_MASK \<equiv> 0x38"
abbreviation (input) RTL8367C_BUSY_STATUS_MASK :: u32 where "RTL8367C_BUSY_STATUS_MASK \<equiv> 0xFF00"
abbreviation (input) RTL8367C_LUT_FLUSH_FID_MASK :: u32 where "RTL8367C_LUT_FLUSH_FID_MASK \<equiv> 0xF000"
abbreviation (input) RTL8367C_LUT_FLUSH_VID_MASK :: u32 where "RTL8367C_LUT_FLUSH_VID_MASK \<equiv> 0xFFF"
abbreviation (input) RTL8367C_LUT_FLUSH_TYPE_OFFSET :: u32 where "RTL8367C_LUT_FLUSH_TYPE_OFFSET \<equiv> 2"
abbreviation (input) RTL8367C_LUT_FLUSH_MODE_MASK :: u32 where "RTL8367C_LUT_FLUSH_MODE_MASK \<equiv> 0x3"
abbreviation (input) RTL8367C_LUT_AGEOUT_CTRL_REG :: u32 where "RTL8367C_LUT_AGEOUT_CTRL_REG \<equiv> 0xA31"
abbreviation (input) RTL8367C_REG_IPMC_GROUP_ENTRY0_H :: u32 where "RTL8367C_REG_IPMC_GROUP_ENTRY0_H \<equiv> 0x940"
abbreviation (input) RTL8367C_REG_IPMC_GROUP_PMSK_00 :: u32 where "RTL8367C_REG_IPMC_GROUP_PMSK_00 \<equiv> 0xAC0"
abbreviation (input) RTL8367C_REG_IPMC_GROUP_VALID_15_0 :: u32 where "RTL8367C_REG_IPMC_GROUP_VALID_15_0 \<equiv> 0xE87"
abbreviation (input) RTL8367C_REG_IPMC_GROUP_VID_00 :: u32 where "RTL8367C_REG_IPMC_GROUP_VID_00 \<equiv> 0xEB0"
abbreviation (input) RTL8367C_HIT_STATUS_OFFSET :: u32 where "RTL8367C_HIT_STATUS_OFFSET \<equiv> 12"
abbreviation (input) RTL8367C_ACCESS_METHOD_OFFSET :: nat where "RTL8367C_ACCESS_METHOD_OFFSET \<equiv> 4"
abbreviation (input) RTL8367C_ACCESS_METHOD_MASK :: u32 where "RTL8367C_ACCESS_METHOD_MASK \<equiv> 0x70"
abbreviation (input) RTL8367C_TABLE_ACCESS_CTRL_SPA_OFFSET :: nat where "RTL8367C_TABLE_ACCESS_CTRL_SPA_OFFSET \<equiv> 8"
abbreviation (input) RTL8367C_TABLE_ACCESS_CTRL_SPA_MASK :: u32 where "RTL8367C_TABLE_ACCESS_CTRL_SPA_MASK \<equiv> 0xF00"
abbreviation (input) RTL8367C_LUT_AGETIMERMAX :: u32 where "RTL8367C_LUT_AGETIMERMAX \<equiv> 7"
abbreviation (input) RTL8367C_LUT_AGESPEEDMAX :: u32 where "RTL8367C_LUT_AGESPEEDMAX \<equiv> 3"
abbreviation (input) RTL8367C_LUT_LEARNLIMITMAX :: u32 where "RTL8367C_LUT_LEARNLIMITMAX \<equiv> 0x1040"
abbreviation (input) RTL8367C_LUT_IPMCGRP_TABLE_MAX :: u32 where "RTL8367C_LUT_IPMCGRP_TABLE_MAX \<equiv> 0x3F"
abbreviation (input) RTL8367C_LUT_ENTRY_SIZE :: nat where "RTL8367C_LUT_ENTRY_SIZE \<equiv> 6"
abbreviation (input) RTL8367C_LUT_TABLE_SIZE :: nat where "RTL8367C_LUT_TABLE_SIZE \<equiv> 6"
abbreviation (input) RTL8367C_LUT_BUSY_CHECK_NO :: nat where "RTL8367C_LUT_BUSY_CHECK_NO \<equiv> 10"
abbreviation (input) LRNOVERACT_END :: u32 where "LRNOVERACT_END \<equiv> 3"
abbreviation (input) LUTREADMETHOD_MAC :: u32 where "LUTREADMETHOD_MAC \<equiv> 0"
abbreviation (input) LUTREADMETHOD_ADDRESS :: u32 where "LUTREADMETHOD_ADDRESS \<equiv> 1"
abbreviation (input) LUTREADMETHOD_NEXT_ADDRESS :: u32 where "LUTREADMETHOD_NEXT_ADDRESS \<equiv> 2"
abbreviation (input) LUTREADMETHOD_NEXT_L2UC :: u32 where "LUTREADMETHOD_NEXT_L2UC \<equiv> 3"
abbreviation (input) LUTREADMETHOD_NEXT_L2MC :: u32 where "LUTREADMETHOD_NEXT_L2MC \<equiv> 4"
abbreviation (input) LUTREADMETHOD_NEXT_L3MC :: u32 where "LUTREADMETHOD_NEXT_L3MC \<equiv> 5"
abbreviation (input) LUTREADMETHOD_NEXT_L2L3MC :: u32 where "LUTREADMETHOD_NEXT_L2L3MC \<equiv> 6"
abbreviation (input) LUTREADMETHOD_NEXT_L2UCSPA :: u32 where "LUTREADMETHOD_NEXT_L2UCSPA \<equiv> 7"
abbreviation (input) FLUSHMDOE_PORT :: u32 where "FLUSHMDOE_PORT \<equiv> 0"
abbreviation (input) FLUSHMDOE_VID :: u32 where "FLUSHMDOE_VID \<equiv> 1"
abbreviation (input) FLUSHMDOE_FID :: u32 where "FLUSHMDOE_FID \<equiv> 2"
abbreviation (input) FLUSHMDOE_END :: u32 where "FLUSHMDOE_END \<equiv> 3"
abbreviation (input) FLUSHTYPE_DYNAMIC :: u32 where "FLUSHTYPE_DYNAMIC \<equiv> 0"
abbreviation (input) FLUSHTYPE_BOTH :: u32 where "FLUSHTYPE_BOTH \<equiv> 1"

section \<open>Entries\<close>

text \<open>The structure \<open>rtl8367c_luttb\<close>; its bit fields are words of their width.\<close>

type_synonym mac_t = "8 word list"

record rtl8367c_luttb =
  lt_sip :: u32
  lt_dip :: u32
  lt_mac :: mac_t
  lt_ivl_svl :: "1 word"
  lt_cvid_fid :: "12 word"
  lt_fid :: "4 word"
  lt_efid :: "3 word"
  lt_nosalearn :: "1 word"
  lt_da_block :: "1 word"
  lt_sa_block :: "1 word"
  lt_auth :: "1 word"
  lt_lut_pri :: "3 word"
  lt_sa_en :: "1 word"
  lt_fwd_en :: "1 word"
  lt_mbr :: "11 word"
  lt_spa :: "4 word"
  lt_age :: "3 word"
  lt_l3lookup :: "1 word"
  lt_igmp_asic :: "1 word"
  lt_igmpidx :: "8 word"
  lt_lookup_hit :: "1 word"
  lt_lookup_busy :: "1 word"
  lt_address :: "13 word"
  lt_l3vidlookup :: "1 word"
  lt_l3_vid :: "12 word"
  lt_wait_time :: u16

text \<open>\<^verbatim>\<open>memset(&l2Table, 0, sizeof(rtl8367c_luttb))\<close>\<close>

definition luttb_zero :: rtl8367c_luttb where
  "luttb_zero = \<lparr>lt_sip = 0, lt_dip = 0, lt_mac = replicate 6 0, lt_ivl_svl = 0, lt_cvid_fid = 0, lt_fid = 0, lt_efid = 0,
     lt_nosalearn = 0, lt_da_block = 0, lt_sa_block = 0, lt_auth = 0, lt_lut_pri = 0, lt_sa_en = 0, lt_fwd_en = 0,
     lt_mbr = 0, lt_spa = 0, lt_age = 0, lt_l3lookup = 0, lt_igmp_asic = 0, lt_igmpidx = 0, lt_lookup_hit = 0,
     lt_lookup_busy = 0, lt_address = 0, lt_l3vidlookup = 0, lt_l3_vid = 0, lt_wait_time = 0\<rparr>"

text \<open>The words of an entry, the contents \<open>b\<close> of the array before included.\<close>

definition fdbStUser2Smi :: "rtl8367c_luttb \<Rightarrow> u16 list \<Rightarrow> u16 list" where
  "fdbStUser2Smi l b =
     (if lt_l3lookup l \<noteq> 0 then
        (if lt_l3vidlookup l \<noteq> 0 then
           [ucast (lt_sip l AND 0x0000FFFF),
            ucast (drop_bit 16 (lt_sip l AND 0xFFFF0000)),
            ucast (lt_dip l AND 0x0000FFFF),
            ucast (drop_bit 16 (lt_dip l AND 0x0FFF0000)) OR push_bit 12 (ucast (lt_l3lookup l) AND 0x0001)
              OR push_bit 13 (ucast (lt_l3vidlookup l) AND 0x0001) OR push_bit 14 (drop_bit 8 (ucast (lt_mbr l) AND 0x0300)),
            b ! 4 OR (ucast (lt_mbr l) AND 0x00FF) OR push_bit 8 (ucast (lt_l3_vid l) AND 0x00FF),
            b ! 5 OR drop_bit 8 (ucast (lt_l3_vid l) AND 0x0F00) OR push_bit 5 (ucast (lt_nosalearn l) AND 0x0001)
              OR push_bit 7 (drop_bit 10 (ucast (lt_mbr l) AND 0x0400))]
         else
           [ucast (lt_sip l AND 0x0000FFFF),
            ucast (drop_bit 16 (lt_sip l AND 0xFFFF0000)),
            ucast (lt_dip l AND 0x0000FFFF),
            ucast (drop_bit 16 (lt_dip l AND 0x0FFF0000)) OR push_bit 12 (ucast (lt_l3lookup l) AND 0x0001)
              OR push_bit 13 (ucast (lt_l3vidlookup l) AND 0x0001) OR push_bit 14 (drop_bit 8 (ucast (lt_mbr l) AND 0x0300)),
            b ! 4 OR (ucast (lt_mbr l) AND 0x00FF) OR push_bit 8 (ucast (lt_igmpidx l) AND 0x00FF),
            b ! 5 OR (ucast (lt_igmp_asic l) AND 0x0001) OR push_bit 1 (ucast (lt_lut_pri l) AND 0x0007)
              OR push_bit 4 (ucast (lt_fwd_en l) AND 0x0001) OR push_bit 5 (ucast (lt_nosalearn l) AND 0x0001)
              OR push_bit 7 (drop_bit 10 (ucast (lt_mbr l) AND 0x0400))])
      else if lt_mac l ! 0 AND 0x01 \<noteq> 0 then
        [b ! 0 OR ucast (lt_mac l ! 5) OR push_bit 8 (ucast (lt_mac l ! 4)),
         b ! 1 OR ucast (lt_mac l ! 3) OR push_bit 8 (ucast (lt_mac l ! 2)),
         b ! 2 OR ucast (lt_mac l ! 1) OR push_bit 8 (ucast (lt_mac l ! 0)),
         b ! 3 OR ucast (lt_cvid_fid l) OR push_bit 12 (ucast (lt_l3lookup l) AND 0x0001)
           OR push_bit 13 (ucast (lt_ivl_svl l) AND 0x0001) OR push_bit 14 (drop_bit 8 (ucast (lt_mbr l) AND 0x0300)),
         b ! 4 OR (ucast (lt_mbr l) AND 0x00FF) OR push_bit 8 (ucast (lt_igmpidx l) AND 0x00FF),
         b ! 5 OR ucast (lt_igmp_asic l) OR push_bit 1 (ucast (lt_lut_pri l) AND 0x0007)
           OR push_bit 4 (ucast (lt_fwd_en l) AND 0x0001) OR push_bit 5 (ucast (lt_nosalearn l) AND 0x0001)
           OR push_bit 7 (drop_bit 10 (ucast (lt_mbr l) AND 0x0400))]
      else
        [b ! 0 OR ucast (lt_mac l ! 5) OR push_bit 8 (ucast (lt_mac l ! 4)),
         b ! 1 OR ucast (lt_mac l ! 3) OR push_bit 8 (ucast (lt_mac l ! 2)),
         b ! 2 OR ucast (lt_mac l ! 1) OR push_bit 8 (ucast (lt_mac l ! 0)),
         b ! 3 OR ucast (lt_cvid_fid l) OR push_bit 12 (ucast (lt_l3lookup l) AND 0x0001)
           OR push_bit 13 (ucast (lt_ivl_svl l) AND 0x0001) OR push_bit 15 (drop_bit 3 (ucast (lt_spa l) AND 0x0008)),
         b ! 4 OR ucast (lt_efid l) OR push_bit 3 (ucast (lt_fid l) AND 0x000F) OR push_bit 7 (ucast (lt_sa_en l) AND 0x0001)
           OR push_bit 8 (ucast (lt_spa l) AND 0x0007) OR push_bit 11 (ucast (lt_age l) AND 0x0007)
           OR push_bit 14 (ucast (lt_auth l) AND 0x0001) OR push_bit 15 (ucast (lt_sa_block l) AND 0x0001),
         b ! 5 OR ucast (lt_da_block l) OR push_bit 1 (ucast (lt_lut_pri l) AND 0x0007)
           OR push_bit 4 (ucast (lt_fwd_en l) AND 0x0001) OR push_bit 5 (ucast (lt_nosalearn l) AND 0x0001)])"

text \<open>The member ports of a multicast entry are spread over three words.\<close>

definition smi_mbr :: "u16 list \<Rightarrow> 11 word" where
  "smi_mbr w = ucast ((w ! 4 AND 0x00FF) OR push_bit 8 (drop_bit 14 (w ! 3 AND 0xC000)) OR push_bit 10 (drop_bit 7 (w ! 5 AND 0x0080)))"

definition smi_mac :: "u16 list \<Rightarrow> mac_t" where
  "smi_mac w = [ucast (drop_bit 8 (w ! 2 AND 0xFF00)), ucast (w ! 2 AND 0x00FF), ucast (drop_bit 8 (w ! 1 AND 0xFF00)),
     ucast (w ! 1 AND 0x00FF), ucast (drop_bit 8 (w ! 0 AND 0xFF00)), ucast (w ! 0 AND 0x00FF)]"

text \<open>The fields that are not assigned keep their values.\<close>

definition fdbStSmi2User :: "rtl8367c_luttb \<Rightarrow> u16 list \<Rightarrow> rtl8367c_luttb" where
  "fdbStSmi2User l w =
     (if w ! 3 AND 0x1000 \<noteq> 0 then
        (if w ! 3 AND 0x2000 \<noteq> 0 then
           l\<lparr>lt_sip := ucast (w ! 0) OR push_bit 16 (ucast (w ! 1)),
             lt_dip := ucast (w ! 2) OR push_bit 16 (ucast (w ! 3 AND 0x0FFF)),
             lt_mbr := smi_mbr w,
             lt_l3_vid := ucast (drop_bit 8 (w ! 4 AND 0xFF00) OR (w ! 5 AND 0x000F)),
             lt_l3lookup := ucast (drop_bit 12 (w ! 3 AND 0x1000)),
             lt_l3vidlookup := ucast (drop_bit 13 (w ! 3 AND 0x2000)),
             lt_nosalearn := ucast (drop_bit 5 (w ! 5 AND 0x0020))\<rparr>
         else
           l\<lparr>lt_sip := ucast (w ! 0) OR push_bit 16 (ucast (w ! 1)),
             lt_dip := ucast (w ! 2) OR push_bit 16 (ucast (w ! 3 AND 0x0FFF)),
             lt_lut_pri := ucast (drop_bit 1 (w ! 5 AND 0x000E)),
             lt_fwd_en := ucast (drop_bit 4 (w ! 5 AND 0x0010)),
             lt_mbr := smi_mbr w,
             lt_igmpidx := ucast (drop_bit 8 (w ! 4 AND 0xFF00)),
             lt_igmp_asic := ucast (w ! 5 AND 0x0001),
             lt_l3lookup := ucast (drop_bit 12 (w ! 3 AND 0x1000)),
             lt_nosalearn := ucast (drop_bit 5 (w ! 5 AND 0x0020))\<rparr>)
      else if w ! 2 AND 0x0100 \<noteq> 0 then
        l\<lparr>lt_mac := smi_mac w,
          lt_cvid_fid := ucast (w ! 3 AND 0x0FFF),
          lt_lut_pri := ucast (drop_bit 1 (w ! 5 AND 0x000E)),
          lt_fwd_en := ucast (drop_bit 4 (w ! 5 AND 0x0010)),
          lt_mbr := smi_mbr w,
          lt_igmpidx := ucast (drop_bit 8 (w ! 4 AND 0xFF00)),
          lt_igmp_asic := ucast (w ! 5 AND 0x0001),
          lt_l3lookup := ucast (drop_bit 12 (w ! 3 AND 0x1000)),
          lt_ivl_svl := ucast (drop_bit 13 (w ! 3 AND 0x2000)),
          lt_nosalearn := ucast (drop_bit 5 (w ! 5 AND 0x0020))\<rparr>
      else
        l\<lparr>lt_mac := smi_mac w,
          lt_cvid_fid := ucast (w ! 3 AND 0x0FFF),
          lt_lut_pri := ucast (drop_bit 1 (w ! 5 AND 0x000E)),
          lt_fwd_en := ucast (drop_bit 4 (w ! 5 AND 0x0010)),
          lt_sa_en := ucast (drop_bit 7 (w ! 4 AND 0x0080)),
          lt_auth := ucast (drop_bit 14 (w ! 4 AND 0x4000)),
          lt_spa := ucast (drop_bit 8 (w ! 4 AND 0x0700) OR push_bit 3 (drop_bit 15 (w ! 3 AND 0x8000))),
          lt_age := ucast (drop_bit 11 (w ! 4 AND 0x3800)),
          lt_fid := ucast (drop_bit 3 (w ! 4 AND 0x0078)),
          lt_efid := ucast (w ! 4 AND 0x0007),
          lt_sa_block := ucast (drop_bit 15 (w ! 4 AND 0x8000)),
          lt_da_block := ucast (w ! 5 AND 0x0001),
          lt_l3lookup := ucast (drop_bit 12 (w ! 3 AND 0x1000)),
          lt_ivl_svl := ucast (drop_bit 13 (w ! 3 AND 0x2000)),
          lt_nosalearn := ucast (drop_bit 5 (w ! 3 AND 0x0020))\<rparr>)"

section \<open>The table commands\<close>

text \<open>
  The polling loop runs \<open>wait_time\<close> times, ten times when that is zero.  Both functions update the
  structure they are given; \<open>lookup_busy\<close> and \<open>lookup_hit\<close> record the last status they read.
\<close>

definition lut_busy_wait :: "rtl8367c_luttb \<Rightarrow> ('d gsw, unit) drv" where
  "lut_busy_wait pL2Table =
     busy_poll (if lt_wait_time pL2Table = 0 then RTL8367C_LUT_BUSY_CHECK_NO else unat (lt_wait_time pL2Table))"

definition lut_write_data :: "rtl8367c_luttb \<Rightarrow> ('d gsw, unit) drv" where
  "lut_write_data pL2Table =
     write_words (\<lambda>i. RTL8367C_TABLE_ACCESS_WRDATA_BASE + of_nat i) RTL8367C_LUT_ENTRY_SIZE
       (fdbStUser2Smi pL2Table (replicate RTL8367C_LUT_TABLE_SIZE 0))"

definition lut_address :: "u32 \<Rightarrow> 13 word" where
  "lut_address regData = ucast ((regData AND 0x7FF) OR drop_bit 3 (regData AND 0x4000) OR push_bit 1 (regData AND 0x800))"

definition rtl8367c_setAsicL2LookupTb :: "rtl8367c_luttb \<Rightarrow> ('d gsw, rtl8367c_luttb) drv" where
  "rtl8367c_setAsicL2LookupTb pL2Table =
     thenE (lut_busy_wait pL2Table)
     (thenE (lut_write_data pL2Table)
     (thenE (rtl8367c_setAsicReg RTL8367C_TABLE_ACCESS_CTRL_REG
        (RTL8367C_TABLE_ACCESS_REG_DATA TB_OP_WRITE TB_TARGET_L2 AND (RTL8367C_TABLE_TYPE_MASK OR RTL8367C_COMMAND_TYPE_MASK)))
     (thenE (lut_busy_wait pL2Table)
     (bindE (rtl8367c_getAsicRegBit RTL8367C_TABLE_ACCESS_STATUS_REG RTL8367C_HIT_STATUS_OFFSET) (\<lambda>hit.
        if (ucast hit :: 1 word) = 0 then errE RT_ERR_FAILED
        else bindE (rtl8367c_getAsicReg RTL8367C_TABLE_ACCESS_STATUS_REG) (\<lambda>regData.
          okE (pL2Table\<lparr>lt_lookup_hit := ucast hit, lt_address := lut_address regData, lt_lookup_busy := 0\<rparr>)))))))"

definition rtl8367c_getAsicL2LookupTb :: "u32 \<Rightarrow> rtl8367c_luttb \<Rightarrow> ('d gsw, rtl8367c_luttb) drv" where
  "rtl8367c_getAsicL2LookupTb method pL2Table =
     thenE (lut_busy_wait pL2Table)
     (let tblCmd = push_bit RTL8367C_ACCESS_METHOD_OFFSET method AND RTL8367C_ACCESS_METHOD_MASK;
          set_address = rtl8367c_setAsicReg RTL8367C_TABLE_ACCESS_ADDR_REG (ucast (lt_address pL2Table))
      in bindE
        (if method \<in> {LUTREADMETHOD_ADDRESS, LUTREADMETHOD_NEXT_ADDRESS, LUTREADMETHOD_NEXT_L2UC, LUTREADMETHOD_NEXT_L2MC,
              LUTREADMETHOD_NEXT_L3MC, LUTREADMETHOD_NEXT_L2L3MC}
         then thenE set_address (okE tblCmd)
         else if method = LUTREADMETHOD_MAC then thenE (lut_write_data pL2Table) (okE tblCmd)
         else if method = LUTREADMETHOD_NEXT_L2UCSPA
         then thenE set_address (okE (tblCmd OR
                (push_bit RTL8367C_TABLE_ACCESS_CTRL_SPA_OFFSET (ucast (lt_spa pL2Table)) AND RTL8367C_TABLE_ACCESS_CTRL_SPA_MASK)))
         else errE RT_ERR_INPUT)
        (\<lambda>tblCmd.
          thenE (rtl8367c_setAsicReg RTL8367C_TABLE_ACCESS_CTRL_REG
            (tblCmd OR (RTL8367C_TABLE_ACCESS_REG_DATA TB_OP_READ TB_TARGET_L2 AND
               (RTL8367C_TABLE_TYPE_MASK OR RTL8367C_COMMAND_TYPE_MASK))))
          (thenE (lut_busy_wait pL2Table)
          (bindE (rtl8367c_getAsicRegBit RTL8367C_TABLE_ACCESS_STATUS_REG RTL8367C_HIT_STATUS_OFFSET) (\<lambda>hit.
             if (ucast hit :: 1 word) = 0 then errE RT_ERR_L2_ENTRY_NOTFOUND
             else bindE (rtl8367c_getAsicReg RTL8367C_TABLE_ACCESS_STATUS_REG) (\<lambda>regData.
               bindE (mapE (\<lambda>i. rtl8367c_getAsicReg (RTL8367C_TABLE_ACCESS_RDDATA_BASE + of_nat i))
                 [0..<RTL8367C_LUT_ENTRY_SIZE]) (\<lambda>regs.
                 okE (fdbStSmi2User
                   (pL2Table\<lparr>lt_lookup_busy := 0, lt_lookup_hit := ucast hit, lt_address := lut_address regData\<rparr>)
                   (map ucast regs)))))))))"

section \<open>Lookup mode, ageing and learning\<close>

definition rtl8367c_setAsicLutIpMulticastLookup :: "u32 \<Rightarrow> ('d gsw, unit) drv" where
  "rtl8367c_setAsicLutIpMulticastLookup enabled = rtl8367c_setAsicRegBit RTL8367C_REG_LUT_CFG RTL8367C_LUT_IPMC_HASH_OFFSET enabled"

definition rtl8367c_getAsicLutIpMulticastLookup :: "('d gsw, u32) drv" where
  "rtl8367c_getAsicLutIpMulticastLookup = rtl8367c_getAsicRegBit RTL8367C_REG_LUT_CFG RTL8367C_LUT_IPMC_HASH_OFFSET"

definition rtl8367c_setAsicLutIpMulticastVidLookup :: "u32 \<Rightarrow> ('d gsw, unit) drv" where
  "rtl8367c_setAsicLutIpMulticastVidLookup enabled = rtl8367c_setAsicRegBit RTL8367C_REG_LUT_CFG2 RTL8367C_LUT_IPMC_VID_HASH_OFFSET enabled"

definition rtl8367c_getAsicLutIpMulticastVidLookup :: "('d gsw, u32) drv" where
  "rtl8367c_getAsicLutIpMulticastVidLookup = rtl8367c_getAsicRegBit RTL8367C_REG_LUT_CFG2 RTL8367C_LUT_IPMC_VID_HASH_OFFSET"

definition rtl8367c_setAsicLutIpLookupMethod :: "u32 \<Rightarrow> ('d gsw, unit) drv" where
  "rtl8367c_setAsicLutIpLookupMethod type = rtl8367c_setAsicRegBit RTL8367C_REG_LUT_CFG RTL8367C_LUT_IPMC_LOOKUP_OP_OFFSET type"

definition rtl8367c_getAsicLutIpLookupMethod :: "('d gsw, u32) drv" where
  "rtl8367c_getAsicLutIpLookupMethod = rtl8367c_getAsicRegBit RTL8367C_REG_LUT_CFG RTL8367C_LUT_IPMC_LOOKUP_OP_OFFSET"

definition rtl8367c_setAsicLutAgeTimerSpeed :: "u32 \<Rightarrow> u32 \<Rightarrow> ('d gsw, unit) drv" where
  "rtl8367c_setAsicLutAgeTimerSpeed timer speed =
     (if timer > RTL8367C_LUT_AGETIMERMAX then errE RT_ERR_OUT_OF_RANGE
      else if speed > RTL8367C_LUT_AGESPEEDMAX then errE RT_ERR_OUT_OF_RANGE
      else rtl8367c_setAsicRegBits RTL8367C_REG_LUT_CFG (RTL8367C_AGE_TIMER_MASK OR RTL8367C_AGE_SPEED_MASK)
             (push_bit RTL8367C_AGE_TIMER_OFFSET timer OR push_bit RTL8367C_AGE_SPEED_OFFSET speed))"

definition rtl8367c_getAsicLutAgeTimerSpeed :: "('d gsw, u32 \<times> u32) drv" where
  "rtl8367c_getAsicLutAgeTimerSpeed =
     bindE (rtl8367c_getAsicReg RTL8367C_REG_LUT_CFG) (\<lambda>regData.
       okE (drop_bit RTL8367C_AGE_TIMER_OFFSET (regData AND RTL8367C_AGE_TIMER_MASK),
            drop_bit RTL8367C_AGE_SPEED_OFFSET (regData AND RTL8367C_AGE_SPEED_MASK)))"

definition rtl8367c_setAsicLutCamTbUsage :: "u32 \<Rightarrow> ('d gsw, unit) drv" where
  "rtl8367c_setAsicLutCamTbUsage enabled =
     rtl8367c_setAsicRegBit RTL8367C_REG_LUT_CFG RTL8367C_BCAM_DISABLE_OFFSET (if enabled \<noteq> 0 then 0 else 1)"

definition rtl8367c_getAsicLutCamTbUsage :: "('d gsw, u32) drv" where
  "rtl8367c_getAsicLutCamTbUsage =
     bindE (rtl8367c_getAsicRegBit RTL8367C_REG_LUT_CFG RTL8367C_BCAM_DISABLE_OFFSET) (\<lambda>regData.
       okE (if regData \<noteq> 0 then 0 else 1))"

definition RTL8367C_LUT_PORT_LEARN_LIMITNO_REG :: "u32 \<Rightarrow> u32" where
  "RTL8367C_LUT_PORT_LEARN_LIMITNO_REG port = RTL8367C_LUT_PORT_LEARN_LIMITNO_BASE + port"

definition rtl8367c_setAsicLutLearnLimitNo :: "u32 \<Rightarrow> u32 \<Rightarrow> ('d gsw, unit) drv" where
  "rtl8367c_setAsicLutLearnLimitNo port number =
     (if port > RTL8367C_PORTIDMAX then errE RT_ERR_PORT_ID
      else if number > RTL8367C_LUT_LEARNLIMITMAX then errE RT_ERR_LIMITED_L2ENTRY_NUM
      else if port < 8 then rtl8367c_setAsicReg (RTL8367C_LUT_PORT_LEARN_LIMITNO_REG port) number
      else rtl8367c_setAsicReg (RTL8367C_REG_LUT_PORT8_LEARN_LIMITNO + port - 8) number)"

definition rtl8367c_getAsicLutLearnLimitNo :: "u32 \<Rightarrow> ('d gsw, u32) drv" where
  "rtl8367c_getAsicLutLearnLimitNo port =
     (if port > RTL8367C_PORTIDMAX then errE RT_ERR_PORT_ID
      else if port < 8 then rtl8367c_getAsicReg (RTL8367C_LUT_PORT_LEARN_LIMITNO_REG port)
      else rtl8367c_getAsicReg (RTL8367C_REG_LUT_PORT8_LEARN_LIMITNO + port - 8))"

definition rtl8367c_setAsicSystemLutLearnLimitNo :: "u32 \<Rightarrow> ('d gsw, unit) drv" where
  "rtl8367c_setAsicSystemLutLearnLimitNo number =
     (if number > RTL8367C_LUT_LEARNLIMITMAX then errE RT_ERR_LIMITED_L2ENTRY_NUM
      else rtl8367c_setAsicReg RTL8367C_REG_LUT_SYS_LEARN_LIMITNO number)"

definition rtl8367c_getAsicSystemLutLearnLimitNo :: "outptr \<Rightarrow> ('d gsw, u32) drv" where
  "rtl8367c_getAsicSystemLutLearnLimitNo pNumber =
     thenE (not_null pNumber) (rtl8367c_getAsicReg RTL8367C_REG_LUT_SYS_LEARN_LIMITNO)"

definition rtl8367c_setAsicLutLearnOverAct :: "u32 \<Rightarrow> ('d gsw, unit) drv" where
  "rtl8367c_setAsicLutLearnOverAct action =
     (if action \<ge> LRNOVERACT_END then errE RT_ERR_NOT_ALLOWED
      else rtl8367c_setAsicRegBits RTL8367C_REG_PORT_SECURITY_CTRL RTL8367C_LUT_LEARN_OVER_ACT_MASK action)"

definition rtl8367c_getAsicLutLearnOverAct :: "('d gsw, u32) drv" where
  "rtl8367c_getAsicLutLearnOverAct = rtl8367c_getAsicRegBits RTL8367C_REG_PORT_SECURITY_CTRL RTL8367C_LUT_LEARN_OVER_ACT_MASK"

definition rtl8367c_setAsicSystemLutLearnOverAct :: "u32 \<Rightarrow> ('d gsw, unit) drv" where
  "rtl8367c_setAsicSystemLutLearnOverAct action =
     (if action \<ge> LRNOVERACT_END then errE RT_ERR_NOT_ALLOWED
      else rtl8367c_setAsicRegBits RTL8367C_REG_LUT_LRN_SYS_LMT_CTRL RTL8367C_LUT_SYSTEM_LEARN_OVER_ACT_MASK action)"

definition rtl8367c_getAsicSystemLutLearnOverAct :: "outptr \<Rightarrow> ('d gsw, u32) drv" where
  "rtl8367c_getAsicSystemLutLearnOverAct pAction =
     thenE (not_null pAction)
       (rtl8367c_getAsicRegBits RTL8367C_REG_LUT_LRN_SYS_LMT_CTRL RTL8367C_LUT_SYSTEM_LEARN_OVER_ACT_MASK)"

definition rtl8367c_setAsicSystemLutLearnPortMask :: "u32 \<Rightarrow> ('d gsw, unit) drv" where
  "rtl8367c_setAsicSystemLutLearnPortMask portmask =
     (if portmask > RTL8367C_PORTMASK then errE RT_ERR_PORT_MASK
      else thenE (rtl8367c_setAsicRegBits RTL8367C_REG_LUT_LRN_SYS_LMT_CTRL RTL8367C_LUT_SYSTEM_LEARN_PMASK_MASK (portmask AND 0xFF))
        (rtl8367c_setAsicRegBits RTL8367C_REG_LUT_LRN_SYS_LMT_CTRL RTL8367C_LUT_SYSTEM_LEARN_PMASK1_MASK
           (drop_bit 8 portmask AND 0x7)))"

definition rtl8367c_getAsicSystemLutLearnPortMask :: "outptr \<Rightarrow> ('d gsw, u32) drv" where
  "rtl8367c_getAsicSystemLutLearnPortMask pPortmask =
     thenE (not_null pPortmask)
     (bindE (rtl8367c_getAsicRegBits RTL8367C_REG_LUT_LRN_SYS_LMT_CTRL RTL8367C_LUT_SYSTEM_LEARN_PMASK_MASK) (\<lambda>lo.
      bindE (rtl8367c_getAsicRegBits RTL8367C_REG_LUT_LRN_SYS_LMT_CTRL RTL8367C_LUT_SYSTEM_LEARN_PMASK1_MASK) (\<lambda>hi.
        okE ((lo AND 0xFF) OR push_bit 8 (hi AND 0x7)))))"

definition RTL8367C_REG_L2_LRN_CNT_REG :: "u32 \<Rightarrow> u32" where
  "RTL8367C_REG_L2_LRN_CNT_REG port = RTL8367C_REG_L2_LRN_CNT_BASE + port"

definition rtl8367c_getAsicLutLearnNo :: "u32 \<Rightarrow> ('d gsw, u32) drv" where
  "rtl8367c_getAsicLutLearnNo port =
     (if port > RTL8367C_PORTIDMAX then errE RT_ERR_PORT_ID
      else if port < 10 then rtl8367c_getAsicReg (RTL8367C_REG_L2_LRN_CNT_REG port)
      else rtl8367c_getAsicReg RTL8367C_REG_L2_LRN_CNT_CTRL10)"

section \<open>Flushing\<close>

definition rtl8367c_setAsicLutFlushAll :: "('d gsw, unit) drv" where
  "rtl8367c_setAsicLutFlushAll = rtl8367c_setAsicRegBit RTL8367C_REG_L2_FLUSH_CTRL3 RTL8367C_L2_FLUSH_CTRL3_OFFSET 1"

definition rtl8367c_getAsicLutFlushAllStatus :: "outptr \<Rightarrow> ('d gsw, u32) drv" where
  "rtl8367c_getAsicLutFlushAllStatus pBusyStatus =
     thenE (not_null pBusyStatus) (rtl8367c_getAsicRegBit RTL8367C_REG_L2_FLUSH_CTRL3 RTL8367C_L2_FLUSH_CTRL3_OFFSET)"

definition rtl8367c_setAsicLutForceFlush :: "u32 \<Rightarrow> ('d gsw, unit) drv" where
  "rtl8367c_setAsicLutForceFlush portmask =
     (if portmask > RTL8367C_PORTMASK then errE RT_ERR_PORT_MASK
      else thenE (rtl8367c_setAsicRegBits RTL8367C_FORCE_FLUSH_REG RTL8367C_FORCE_FLUSH_PORTMASK_MASK (portmask AND 0xFF))
        (rtl8367c_setAsicRegBits RTL8367C_REG_FORCE_FLUSH1 RTL8367C_PORTMASK1_MASK (drop_bit 8 portmask AND 0x7)))"

definition rtl8367c_getAsicLutForceFlushStatus :: "('d gsw, u32) drv" where
  "rtl8367c_getAsicLutForceFlushStatus =
     bindE (rtl8367c_getAsicRegBits RTL8367C_FORCE_FLUSH_REG RTL8367C_BUSY_STATUS_MASK) (\<lambda>lo.
     bindE (rtl8367c_getAsicRegBits RTL8367C_REG_FORCE_FLUSH1 RTL8367C_BUSY_STATUS1_MASK) (\<lambda>hi.
       okE ((lo AND 0xFF) OR push_bit 8 (hi AND 7))))"

definition rtl8367c_setAsicLutFlushMode :: "u32 \<Rightarrow> ('d gsw, unit) drv" where
  "rtl8367c_setAsicLutFlushMode mode =
     (if mode \<ge> FLUSHMDOE_END then errE RT_ERR_NOT_ALLOWED
      else rtl8367c_setAsicRegBits RTL8367C_REG_L2_FLUSH_CTRL2 RTL8367C_LUT_FLUSH_MODE_MASK mode)"

definition rtl8367c_getAsicLutFlushMode :: "('d gsw, u32) drv" where
  "rtl8367c_getAsicLutFlushMode = rtl8367c_getAsicRegBits RTL8367C_REG_L2_FLUSH_CTRL2 RTL8367C_LUT_FLUSH_MODE_MASK"

definition rtl8367c_setAsicLutFlushType :: "u32 \<Rightarrow> ('d gsw, unit) drv" where
  "rtl8367c_setAsicLutFlushType type = rtl8367c_setAsicRegBit RTL8367C_REG_L2_FLUSH_CTRL2 RTL8367C_LUT_FLUSH_TYPE_OFFSET type"

definition rtl8367c_getAsicLutFlushType :: "('d gsw, u32) drv" where
  "rtl8367c_getAsicLutFlushType = rtl8367c_getAsicRegBit RTL8367C_REG_L2_FLUSH_CTRL2 RTL8367C_LUT_FLUSH_TYPE_OFFSET"

definition rtl8367c_setAsicLutFlushVid :: "u32 \<Rightarrow> ('d gsw, unit) drv" where
  "rtl8367c_setAsicLutFlushVid vid =
     (if vid > 0xFFF then errE RT_ERR_VLAN_VID
      else rtl8367c_setAsicRegBits RTL8367C_REG_L2_FLUSH_CTRL1 RTL8367C_LUT_FLUSH_VID_MASK vid)"

definition rtl8367c_getAsicLutFlushVid :: "('d gsw, u32) drv" where
  "rtl8367c_getAsicLutFlushVid = rtl8367c_getAsicRegBits RTL8367C_REG_L2_FLUSH_CTRL1 RTL8367C_LUT_FLUSH_VID_MASK"

definition rtl8367c_setAsicLutFlushFid :: "u32 \<Rightarrow> ('d gsw, unit) drv" where
  "rtl8367c_setAsicLutFlushFid fid =
     (if fid > RTL8367C_FIDMAX then errE RT_ERR_L2_FID
      else rtl8367c_setAsicRegBits RTL8367C_REG_L2_FLUSH_CTRL1 RTL8367C_LUT_FLUSH_FID_MASK fid)"

definition rtl8367c_getAsicLutFlushFid :: "('d gsw, u32) drv" where
  "rtl8367c_getAsicLutFlushFid = rtl8367c_getAsicRegBits RTL8367C_REG_L2_FLUSH_CTRL1 RTL8367C_LUT_FLUSH_FID_MASK"

definition rtl8367c_setAsicLutDisableAging :: "u32 \<Rightarrow> u32 \<Rightarrow> ('d gsw, unit) drv" where
  "rtl8367c_setAsicLutDisableAging port disabled =
     (if port > RTL8367C_PORTIDMAX then errE RT_ERR_PORT_ID
      else rtl8367c_setAsicRegBit RTL8367C_LUT_AGEOUT_CTRL_REG port disabled)"

definition rtl8367c_getAsicLutDisableAging :: "u32 \<Rightarrow> ('d gsw, u32) drv" where
  "rtl8367c_getAsicLutDisableAging port =
     (if port > RTL8367C_PORTIDMAX then errE RT_ERR_PORT_ID
      else rtl8367c_getAsicRegBit RTL8367C_LUT_AGEOUT_CTRL_REG port)"

definition rtl8367c_setAsicLutLinkDownForceAging :: "u32 \<Rightarrow> ('d gsw, unit) drv" where
  "rtl8367c_setAsicLutLinkDownForceAging enable =
     (if enable > 1 then errE RT_ERR_ENABLE
      else rtl8367c_setAsicRegBit RTL8367C_REG_LUT_CFG RTL8367C_LINKDOWN_AGEOUT_OFFSET (if enable \<noteq> 0 then 0 else 1))"

definition rtl8367c_getAsicLutLinkDownForceAging :: "('d gsw, u32) drv" where
  "rtl8367c_getAsicLutLinkDownForceAging =
     bindE (rtl8367c_getAsicRegBit RTL8367C_REG_LUT_CFG RTL8367C_LINKDOWN_AGEOUT_OFFSET) (\<lambda>value.
       okE (if value \<noteq> 0 then 0 else 1))"

section \<open>IP multicast groups\<close>

text \<open>
  The 64 groups are held in configuration registers: two for the address, one for the VLAN, one for
  the ports and a bit that says whether the group is in use.
\<close>

definition rtl8367c_setAsicLutIPMCGroup :: "u32 \<Rightarrow> u32 \<Rightarrow> u32 \<Rightarrow> u32 \<Rightarrow> u32 \<Rightarrow> ('d gsw, unit) drv" where
  "rtl8367c_setAsicLutIPMCGroup index group_addr vid pmask valid =
     (if index > RTL8367C_LUT_IPMCGRP_TABLE_MAX then errE RT_ERR_INPUT
      else if vid > 0xFFF then errE RT_ERR_VLAN_VID
      else if group_addr AND 0xF0000000 \<noteq> 0xE0000000 then errE RT_ERR_INPUT
      else
        thenE (rtl8367c_setAsicReg (RTL8367C_REG_IPMC_GROUP_ENTRY0_H + index * 2) (drop_bit 16 (group_addr AND 0x0FFFFFFF)))
        (thenE (rtl8367c_setAsicReg (RTL8367C_REG_IPMC_GROUP_ENTRY0_H + index * 2 + 1) (group_addr AND 0x0000FFFF))
        (thenE (rtl8367c_setAsicReg (RTL8367C_REG_IPMC_GROUP_VID_00 + index) vid)
        (thenE (rtl8367c_setAsicReg (RTL8367C_REG_IPMC_GROUP_PMSK_00 + index) pmask)
        (rtl8367c_setAsicRegBit (RTL8367C_REG_IPMC_GROUP_VALID_15_0 + index div 16) (index mod 16) valid)))))"

text \<open>The result is the group address, the VLAN, the ports and the flag.\<close>

definition rtl8367c_getAsicLutIPMCGroup ::
  "u32 \<Rightarrow> outptr \<Rightarrow> outptr \<Rightarrow> outptr \<Rightarrow> ('d gsw, u32 \<times> u32 \<times> u32 \<times> u32) drv" where
  "rtl8367c_getAsicLutIPMCGroup index pGroup_addr pVid pPmask =
     (if index > RTL8367C_LUT_IPMCGRP_TABLE_MAX then errE RT_ERR_INPUT
      else thenE (not_null pGroup_addr) (thenE (not_null pVid) (thenE (not_null pPmask)
        (bindE (rtl8367c_getAsicReg (RTL8367C_REG_IPMC_GROUP_ENTRY0_H + index * 2)) (\<lambda>hi.
         bindE (rtl8367c_getAsicReg (RTL8367C_REG_IPMC_GROUP_ENTRY0_H + index * 2 + 1)) (\<lambda>lo.
         bindE (rtl8367c_getAsicReg (RTL8367C_REG_IPMC_GROUP_VID_00 + index)) (\<lambda>vid.
         bindE (rtl8367c_getAsicReg (RTL8367C_REG_IPMC_GROUP_PMSK_00 + index)) (\<lambda>pmask.
         bindE (rtl8367c_getAsicRegBit (RTL8367C_REG_IPMC_GROUP_VALID_15_0 + index div 16) (index mod 16)) (\<lambda>valid.
           okE ((push_bit 16 (hi AND 0x00000FFF) OR 0xE0000000) OR (lo AND 0x0000FFFF), vid, pmask, valid))))))))))"

definition rtl8367c_setAsicLutIpmcFwdRouterPort :: "u32 \<Rightarrow> ('d gsw, unit) drv" where
  "rtl8367c_setAsicLutIpmcFwdRouterPort enable =
     (if enable > 1 then errE RT_ERR_ENABLE
      else rtl8367c_setAsicRegBit RTL8367C_REG_LUT_CFG2 RTL8367C_LUT_IPMC_FWD_RPORT_OFFSET enable)"

definition rtl8367c_getAsicLutIpmcFwdRouterPort :: "outptr \<Rightarrow> ('d gsw, u32) drv" where
  "rtl8367c_getAsicLutIpmcFwdRouterPort pEnable =
     thenE (not_null pEnable) (rtl8367c_getAsicRegBit RTL8367C_REG_LUT_CFG2 RTL8367C_LUT_IPMC_FWD_RPORT_OFFSET)"

end
