(* ===== verification/Switch_Init.thy ===== *)
theory Switch_Init
  imports Rate Phy Board Lut
begin

text \<open>
  Bringing up the switch: \<open>rtk_switch_init\<close> of \<open>rtk_switch.c\<close> with its four chip-specific sequences,
  the functions it uses of \<open>rtl8367c_asicdrv_lut.c\<close> and \<open>rtl8367c_asicdrv_rma.c\<close>, and
  \<open>rtl8367s_hw_init\<close> of \<open>rtl8367s_mdio.c\<close>.  Two of the sequences read SerDes registers, which polls
  without bound, so the initialisation is a partial function: \<open>None\<close> is a call that does not return.
  The pin that resets the chip belongs to the kernel; its effect on the chip is the parameter
  \<open>gpio_reset\<close>.
\<close>

section \<open>Functions that may not return\<close>

type_synonym ('s, 'a) pdrv = "'s \<Rightarrow> ('a outcome \<times> 's) option"

definition liftP :: "('s, 'a) drv \<Rightarrow> ('s, 'a) pdrv" where
  "liftP m s = Some (m s)"

definition bindP :: "('s, 'a) pdrv \<Rightarrow> ('a \<Rightarrow> ('s, 'b) pdrv) \<Rightarrow> ('s, 'b) pdrv" where
  "bindP m f s = (case m s of None \<Rightarrow> None
     | Some (r, s') \<Rightarrow> (case r of Ok x \<Rightarrow> f x s' | Err e \<Rightarrow> Some (Err e, s') | Fault \<Rightarrow> Some (Fault, s')))"

definition thenP :: "('s, unit) pdrv \<Rightarrow> ('s, 'b) pdrv \<Rightarrow> ('s, 'b) pdrv" where
  "thenP m k = bindP m (\<lambda>_. k)"

section \<open>Registers\<close>

abbreviation (input) RTL8367C_REG_PORT0_EEECFG :: u32 where "RTL8367C_REG_PORT0_EEECFG \<equiv> 0x0018"
abbreviation (input) RTL8367C_PORT0_EEECFG_EEE_100M_OFFSET :: u32 where "RTL8367C_PORT0_EEECFG_EEE_100M_OFFSET \<equiv> 11"
abbreviation (input) RTL8367C_PORT0_EEECFG_EEE_GIGA_500M_OFFSET :: u32 where "RTL8367C_PORT0_EEECFG_EEE_GIGA_500M_OFFSET \<equiv> 10"
abbreviation (input) RTL8367C_PORT0_EEECFG_EEE_TX_OFFSET :: u32 where "RTL8367C_PORT0_EEECFG_EEE_TX_OFFSET \<equiv> 9"
abbreviation (input) RTL8367C_PORT0_EEECFG_EEE_RX_OFFSET :: u32 where "RTL8367C_PORT0_EEECFG_EEE_RX_OFFSET \<equiv> 8"
abbreviation (input) RTL8367C_REG_UTP_FIB_DET :: u32 where "RTL8367C_REG_UTP_FIB_DET \<equiv> 0x13EB"
abbreviation (input) RTL8367C_REG_MAX_LENGTH_LIMINT_IPG :: u32 where "RTL8367C_REG_MAX_LENGTH_LIMINT_IPG \<equiv> 0x1200"
abbreviation (input) RTL8367C_MAX_LENTH_CTRL_MASK :: u32 where "RTL8367C_MAX_LENTH_CTRL_MASK \<equiv> 0x6000"
abbreviation (input) RTL8367C_REG_MAX_LEN_RX_TX :: u32 where "RTL8367C_REG_MAX_LEN_RX_TX \<equiv> 0x0884"
abbreviation (input) RTL8367C_MAX_LEN_RX_TX_MASK :: u32 where "RTL8367C_MAX_LEN_RX_TX_MASK \<equiv> 0x3"
abbreviation (input) RTL8367C_REG_ACL_ACCESS_MODE :: u32 where "RTL8367C_REG_ACL_ACCESS_MODE \<equiv> 0x06EB"
abbreviation (input) RTL8367C_ACL_ACCESS_MODE_MASK :: u32 where "RTL8367C_ACL_ACCESS_MODE_MASK \<equiv> 0x1"
abbreviation (input) RTL8367C_PORT_SECURIT_CTRL_REG :: u32 where "RTL8367C_PORT_SECURIT_CTRL_REG \<equiv> 0x08C8"
abbreviation (input) RTL8367C_UNKNOWN_UNICAST_DA_BEHAVE_MASK :: u32 where "RTL8367C_UNKNOWN_UNICAST_DA_BEHAVE_MASK \<equiv> 0xC0"
abbreviation (input) RTL8367C_REG_RMA_CTRL00 :: u32 where "RTL8367C_REG_RMA_CTRL00 \<equiv> 0x0800"
abbreviation (input) RTL8367C_TRAP_PRIORITY_MASK :: u32 where "RTL8367C_TRAP_PRIORITY_MASK \<equiv> 0x38"
abbreviation (input) RTL8367C_REG_IO_MISC_FUNC :: u32 where "RTL8367C_REG_IO_MISC_FUNC \<equiv> 0x1D32"
abbreviation (input) RTL8367C_INT_EN_OFFSET :: u32 where "RTL8367C_INT_EN_OFFSET \<equiv> 1"
abbreviation (input) RTL8367C_RMAMAX :: u32 where "RTL8367C_RMAMAX \<equiv> 0x2F"

section \<open>Reserved multicast addresses\<close>

record rtl8367c_rma_t =
  rma_operation :: u16
  rma_discard_storm_filter :: u16
  rma_trap_priority :: u16
  rma_keep_format :: u16
  rma_vlan_leaky :: u16
  rma_portiso_leaky :: u16

text \<open>Addresses the chip treats alike share one register.\<close>

definition rma_index :: "u32 \<Rightarrow> u32" where
  "rma_index index =
     (if (index \<ge> 0x4 \<and> index \<le> 0x7) \<or> (index \<ge> 0x9 \<and> index \<le> 0x0C) \<or> 0x0F = index then 0x04
      else if (index \<ge> 0x13 \<and> index \<le> 0x17) \<or> 0x19 = index \<or> (index \<ge> 0x1B \<and> index \<le> 0x1F) then 0x13
      else if index \<ge> 0x22 \<and> index \<le> 0x2F then 0x22
      else index)"

definition rma_word :: "rtl8367c_rma_t \<Rightarrow> u32" where
  "rma_word cfg =
     (ucast (rma_portiso_leaky cfg) AND 0x0001) OR
     push_bit 1 (ucast (rma_vlan_leaky cfg) AND 0x0001) OR
     push_bit 2 (ucast (rma_keep_format cfg) AND 0x0001) OR
     push_bit 3 (ucast (rma_trap_priority cfg) AND 0x0007) OR
     push_bit 6 (ucast (rma_discard_storm_filter cfg) AND 0x0001) OR
     push_bit 7 (ucast (rma_operation cfg) AND 0x0003)"

definition rtl8367c_setAsicRma :: "u32 \<Rightarrow> rtl8367c_rma_t \<Rightarrow> ('d gsw, unit) drv" where
  "rtl8367c_setAsicRma index pRmacfg =
     (if index > RTL8367C_RMAMAX then errE RT_ERR_RMA_ADDR
      else thenE (rtl8367c_setAsicRegBits RTL8367C_REG_RMA_CTRL00 RTL8367C_TRAP_PRIORITY_MASK (ucast (rma_trap_priority pRmacfg)))
        (rtl8367c_setAsicReg (RTL8367C_REG_RMA_CTRL00 + rma_index index) (rma_word pRmacfg)))"

section \<open>Chip-specific initialisation\<close>

text \<open>A run of register writes.\<close>

definition write_regs :: "(u32 \<times> u32) list \<Rightarrow> ('d gsw, unit) drv" where
  "write_regs avs = forE avs (\<lambda>(a, v). rtl8367c_setAsicReg a v)"

text \<open>\<open>RTK_SCAN_ALL_LOG_PORT\<close>\<close>

definition scan_log_ports :: "(u32 \<Rightarrow> ('d gsw, unit) drv) \<Rightarrow> ('d gsw, unit) drv" where
  "scan_log_ports body = forE [0..<RTK_SWITCH_PORT_NUM] (\<lambda>i.
     bindE (isOkE (rtk_switch_logicalPortCheck (of_nat i))) (\<lambda>ok. if ok then body (of_nat i) else okE ()))"

definition init_utp_port :: "u32 \<Rightarrow> u32 \<Rightarrow> ('d gsw, unit) drv" where
  "init_utp_port regValue port =
     (let eee = RTL8367C_REG_PORT0_EEECFG + 0x20 * port in
      thenE (rtl8367c_setAsicRegBit eee RTL8367C_PORT0_EEECFG_EEE_100M_OFFSET 1)
      (thenE (rtl8367c_setAsicRegBit eee RTL8367C_PORT0_EEECFG_EEE_GIGA_500M_OFFSET 1)
      (thenE (rtl8367c_setAsicRegBit eee RTL8367C_PORT0_EEECFG_EEE_TX_OFFSET 1)
      (thenE (rtl8367c_setAsicRegBit eee RTL8367C_PORT0_EEECFG_EEE_RX_OFFSET 1)
      (bindE (rtl8367c_getAsicPHYOCPReg port 0xA428) (\<lambda>regData.
       thenE (rtl8367c_setAsicPHYOCPReg port 0xA428 (regData AND NOT 0x0200))
       (if regValue AND 0x00F0 = 0x00A0
        then bindE (rtl8367c_getAsicPHYOCPReg port 0xA5D0) (\<lambda>regData.
          rtl8367c_setAsicPHYOCPReg port 0xA5D0 (regData OR 0x0006))
        else okE ())))))))"

definition rtk_switch_init_8367c :: "('d gsw, unit) drv" where
  "rtk_switch_init_8367c =
     thenE (rtl8367c_setAsicReg 0x13C2 0x0249)
     (bindE (rtl8367c_getAsicReg 0x1301) (\<lambda>regValue.
     thenE (rtl8367c_setAsicReg 0x13C2 0x0000)
     (thenE (scan_log_ports (\<lambda>port.
        bindE (isOkE (rtk_switch_isUtpPort port)) (\<lambda>utp. if utp then init_utp_port regValue port else okE ())))
     (thenE (write_regs [(RTL8367C_REG_UTP_FIB_DET, 0x15BB), (0x1303, 0x06D6), (0x1304, 0x0700), (0x13E2, 0x003F),
        (0x13F9, 0x0090), (0x121E, 0x03CA), (0x1233, 0x0352), (0x1237, 0x00A0), (0x123A, 0x0030), (0x1239, 0x0084),
        (0x0301, 0x1000), (0x1349, 0x001F)])
     (thenE (rtl8367c_setAsicRegBit 0x18E0 0 0)
     (thenE (rtl8367c_setAsicRegBit 0x122B 14 1)
     (rtl8367c_setAsicRegBits 0x1305 0xC000 3)))))))"

definition PatchChipData :: "(u32 \<times> u32) list" where
  "PatchChipData =
    [(0xa436, 0x8028), (0xa438, 0x6800), (0xb82e, 0x0001), (0xa436, 0xb820), (0xa438, 0x0090), (0xa436, 0xa012), (0xa438, 0x0000), (0xa436, 0xa014),
     (0xa438, 0x2c04), (0xa438, 0x2c6c), (0xa438, 0x2c75), (0xa438, 0x2c77), (0xa438, 0x1414), (0xa438, 0x1579), (0xa438, 0x1536), (0xa438, 0xc432),
     (0xa438, 0x32c0), (0xa438, 0x42d6), (0xa438, 0x32b5), (0xa438, 0x003e), (0xa438, 0x614c), (0xa438, 0x1569), (0xa438, 0xd705), (0xa438, 0x318c),
     (0xa438, 0x42d6), (0xa438, 0xd702), (0xa438, 0x31ef), (0xa438, 0x42d6), (0xa438, 0x629c), (0xa438, 0x2c04), (0xa438, 0x653c), (0xa438, 0x422a),
     (0xa438, 0x5d83), (0xa438, 0xd06a), (0xa438, 0xd1b0), (0xa438, 0x1536), (0xa438, 0xc43a), (0xa438, 0x32c0), (0xa438, 0x42d6), (0xa438, 0x32b5),
     (0xa438, 0x003e), (0xa438, 0x314a), (0xa438, 0x42fe), (0xa438, 0x337b), (0xa438, 0x02d6), (0xa438, 0x3063), (0xa438, 0x0c1b), (0xa438, 0x22fe),
     (0xa438, 0xc435), (0xa438, 0xd0be), (0xa438, 0xd1f7), (0xa438, 0xe0f0), (0xa438, 0x1a40), (0xa438, 0xa320), (0xa438, 0xd702), (0xa438, 0x154a),
     (0xa438, 0xc434), (0xa438, 0x32c0), (0xa438, 0x42d6), (0xa438, 0x32b5), (0xa438, 0x003e), (0xa438, 0x60ec), (0xa438, 0x1569), (0xa438, 0xd705),
     (0xa438, 0x619f), (0xa438, 0xd702), (0xa438, 0x414f), (0xa438, 0x2c2e), (0xa438, 0x610a), (0xa438, 0xd705), (0xa438, 0x5e1f), (0xa438, 0xc43f),
     (0xa438, 0xc88b), (0xa438, 0xd702), (0xa438, 0x7fe0), (0xa438, 0x22f3), (0xa438, 0xd0a0), (0xa438, 0xd1b2), (0xa438, 0xd0c3), (0xa438, 0xd1c3),
     (0xa438, 0x8d01), (0xa438, 0x1536), (0xa438, 0xc438), (0xa438, 0xe0f0), (0xa438, 0x1a80), (0xa438, 0xd706), (0xa438, 0x60c0), (0xa438, 0xd710),
     (0xa438, 0x409e), (0xa438, 0xa804), (0xa438, 0xad01), (0xa438, 0x8804), (0xa438, 0xd702), (0xa438, 0x32c0), (0xa438, 0x42d6), (0xa438, 0x32b5),
     (0xa438, 0x003e), (0xa438, 0x405b), (0xa438, 0x1576), (0xa438, 0x7c9c), (0xa438, 0x60ec), (0xa438, 0x1569), (0xa438, 0xd702), (0xa438, 0x5d43),
     (0xa438, 0x31ef), (0xa438, 0x02fe), (0xa438, 0x22d6), (0xa438, 0x590a), (0xa438, 0xd706), (0xa438, 0x5c80), (0xa438, 0xd702), (0xa438, 0x5c44),
     (0xa438, 0x3063), (0xa438, 0x02d6), (0xa438, 0x5be2), (0xa438, 0x22fb), (0xa438, 0xa240), (0xa438, 0xa104), (0xa438, 0x8c03), (0xa438, 0x8178),
     (0xa438, 0xd701), (0xa438, 0x31ad), (0xa438, 0x4917), (0xa438, 0x8102), (0xa438, 0x2917), (0xa438, 0xc302), (0xa438, 0x268a), (0xa436, 0xA01A),
     (0xa438, 0x0000), (0xa436, 0xA006), (0xa438, 0x0fff), (0xa436, 0xA004), (0xa438, 0x0689), (0xa436, 0xA002), (0xa438, 0x0911), (0xa436, 0xA000),
     (0xa438, 0x7302), (0xa436, 0xB820), (0xa438, 0x0010), (0xa436, 0x8412), (0xa438, 0xaf84), (0xa438, 0x1eaf), (0xa438, 0x8427), (0xa438, 0xaf84),
     (0xa438, 0x27af), (0xa438, 0x8427), (0xa438, 0x0251), (0xa438, 0x6802), (0xa438, 0x8427), (0xa438, 0xaf04), (0xa438, 0x0af8), (0xa438, 0xf9bf),
     (0xa438, 0x5581), (0xa438, 0x0255), (0xa438, 0x27ef), (0xa438, 0x310d), (0xa438, 0x345b), (0xa438, 0x0fa3), (0xa438, 0x032a), (0xa438, 0xe087),
     (0xa438, 0xffac), (0xa438, 0x2040), (0xa438, 0xbf56), (0xa438, 0x7402), (0xa438, 0x5527), (0xa438, 0xef31), (0xa438, 0xef20), (0xa438, 0xe787),
     (0xa438, 0xfee6), (0xa438, 0x87fd), (0xa438, 0xd488), (0xa438, 0x88bf), (0xa438, 0x5674), (0xa438, 0x0254), (0xa438, 0xe3e0), (0xa438, 0x87ff),
     (0xa438, 0xf720), (0xa438, 0xe487), (0xa438, 0xffaf), (0xa438, 0x847e), (0xa438, 0xe087), (0xa438, 0xffad), (0xa438, 0x2016), (0xa438, 0xe387),
     (0xa438, 0xfee2), (0xa438, 0x87fd), (0xa438, 0xef45), (0xa438, 0xbf56), (0xa438, 0x7402), (0xa438, 0x54e3), (0xa438, 0xe087), (0xa438, 0xfff6),
     (0xa438, 0x20e4), (0xa438, 0x87ff), (0xa438, 0xfdfc), (0xa438, 0x0400), (0xa436, 0xb818), (0xa438, 0x0407), (0xa436, 0xb81a), (0xa438, 0xfffd),
     (0xa436, 0xb81c), (0xa438, 0xfffd), (0xa436, 0xb81e), (0xa438, 0xfffd), (0xa436, 0xb832), (0xa438, 0x0001), (0xb820, 0x0000), (0xb82e, 0x0000),
     (0xa436, 0x8028), (0xa438, 0x0000)]"

definition long_link :: "u32 list" where
  "long_link = [0x0210, 0x03E8, 0x0218, 0x03F0, 0x0220, 0x03F8, 0x0208, 0x03E0]"

text \<open>The loops \<^verbatim>\<open>do ... while (counter < 20)\<close>: at most 20 polls, and no error when they all fail.\<close>

primrec patch_poll :: "u32 \<Rightarrow> bool \<Rightarrow> nat \<Rightarrow> ('d gsw, unit) drv" where
  "patch_poll phy stop_when_set 0 = okE ()"
| "patch_poll phy stop_when_set (Suc n) =
     bindE (rtl8367c_getAsicPHYOCPReg phy 0xB800) (\<lambda>regData.
       if (regData AND 0x40 \<noteq> 0) = stop_when_set then okE () else patch_poll phy stop_when_set n)"

text \<open>
  The local variable \<open>prf\<close> is set only when a PHY reports state 3; \<open>None\<close> is its indeterminate
  initial value, and reading it is undefined.
\<close>

definition patch_open :: "nat \<Rightarrow> u32 option \<Rightarrow> ('d gsw, u32 option) drv" where
  "patch_open n prf =
     (let i = of_nat n in
      bindE (rtl8367c_getAsicPHYOCPReg i 0xA420) (\<lambda>regData.
      if regData AND 0x7 = 0x3
      then thenE (rtl8367c_setAsicPHYOCPReg i 0xB83E 0x6FA9)
        (thenE (rtl8367c_setAsicPHYOCPReg i 0xB840 0xA9)
        (bindE (rtl8367c_getAsicPHYOCPReg i 0xB820) (\<lambda>regData.
         thenE (rtl8367c_setAsicPHYOCPReg i 0xB820 (regData OR 0x10))
        (thenE (patch_poll i True 20) (okE (Some 1))))))
      else okE prf))"

definition patch_close :: "nat \<Rightarrow> ('d gsw, unit) drv" where
  "patch_close n =
     (let i = of_nat n in
      bindE (rtl8367c_getAsicPHYOCPReg i 0xB820) (\<lambda>regData.
      thenE (rtl8367c_setAsicPHYOCPReg i 0xB820 (regData AND 0xFFEF))
      (thenE (patch_poll i False 20)
      (thenE (rtl8367c_setAsicPHYOCPReg i 0xB83E 0x6F48)
      (rtl8367c_setAsicPHYOCPReg i 0xB840 0xFA)))))"

definition restart_link :: "nat \<Rightarrow> ('d gsw, unit) drv" where
  "restart_link n =
     (let i = of_nat n in
      bindE (rtl8367c_getAsicPHYOCPReg i 0xA400) (\<lambda>regData.
      if regData AND 0x800 = 0x0 then rtl8367c_setAsicPHYOCPReg i 0xA400 (regData OR 0x200) else okE ()))"

definition rtk_switch_init_8370b :: "('d gsw, unit) drv" where
  "rtk_switch_init_8370b =
     thenE (rtl8367c_setAsicRegBits 0x1205 0x0300 3)
     (bindE (foldE patch_open [0..<8] None) (\<lambda>prf.
      bindE (rtl8367c_getAsicReg 0x1D01) (\<lambda>regData.
      thenE (rtl8367c_setAsicReg 0x1D01 ((regData OR 0x3BE0) AND 0xFFE0))
     (thenE (forE PatchChipData (\<lambda>(a, v). rtl8367c_setAsicPHYOCPReg 0 a v))
     (thenE (rtl8367c_setAsicReg 0x1D01 regData)
     (thenE (forE [0..<8] (\<lambda>n. rtl8367c_setAsicPHYOCPReg (of_nat n) 0xA4B4 (long_link ! n)))
     (thenE (case prf of None \<Rightarrow> faultE | Some v \<Rightarrow> if v = 0x1 then forE [0..<8] patch_close else okE ())
     (forE [0..<8] restart_link))))))))"

text \<open>The two sequences for the chips of the RTL8364B family differ in nothing.\<close>

definition init_8364b_macs :: "('d gsw, unit) drv" where
  "init_8364b_macs =
     thenE (rtl8367c_setAsicRegBits 0x38 0x300 3)
     (thenE (rtl8367c_setAsicRegBits 0x78 0x300 3)
     (thenE (rtl8367c_setAsicRegBits 0xD8 0x300 0)
     (thenE (rtl8367c_setAsicRegBits 0xF8 0x300 0)
     (thenE (rtl8367c_setAsicPHYOCPReg 1 0xA5D0 6)
     (thenE (rtl8367c_setAsicPHYOCPReg 3 0xA5D0 6)
     (bindE (rtl8367c_getAsicReg 0x1303) (\<lambda>regData.
      thenE (rtl8367c_setAsicReg 0x1303 ((regData AND 0xFFFFFFFE) OR 0x250))
     (thenE (rtl8367c_setAsicRegBits 0x1304 0x7000 0)
     (thenE (rtl8367c_setAsicRegBits 0x1304 0x700 7)
     (thenE (rtl8367c_setAsicRegBits 0x13F9 0x38 0)
     (thenE (rtl8367c_setAsicRegBit 0x1303 10 1)
     (thenE (rtl8367c_setAsicRegBits 0x13E2 0x1FF 0x26)
     (rtl8367c_setAsicRegBits 0x13F9 0x1C0 0)))))))))))))"

definition init_8364b_serdes :: "('d gsw, unit) pdrv" where
  "init_8364b_serdes =
     bindP (rtl8367c_getAsicSdsReg 0 4 0) (\<lambda>regData.
     thenP (liftP (rtl8367c_setAsicSdsReg 0 4 0 (regData OR 0x4)))
     (bindP (rtl8367c_getAsicSdsReg 0 1 0) (\<lambda>regData.
      liftP (rtl8367c_setAsicSdsReg 0 1 0 (regData OR 0x20)))))"

definition rtk_switch_init_8364b :: "('d gsw, unit) pdrv" where
  "rtk_switch_init_8364b = thenP (liftP init_8364b_macs) init_8364b_serdes"

definition rtk_switch_init_8363sc_vb :: "('d gsw, unit) pdrv" where
  "rtk_switch_init_8363sc_vb = thenP (liftP init_8364b_macs) init_8364b_serdes"

section \<open>Initialisation\<close>

definition init_common :: "('d gsw, unit) drv" where
  "init_common =
     thenE (rtl8367c_setAsicRegBits RTL8367C_REG_MAX_LENGTH_LIMINT_IPG RTL8367C_MAX_LENTH_CTRL_MASK 3)
     (thenE (rtl8367c_setAsicRegBits RTL8367C_REG_MAX_LEN_RX_TX RTL8367C_MAX_LEN_RX_TX_MASK 3)
     (thenE (rtl8367c_setAsicRegBits RTL8367C_REG_ACL_ACCESS_MODE RTL8367C_ACL_ACCESS_MODE_MASK 1)
     (thenE (bindE halE (\<lambda>hal. rtk_rate_igrBandwidthCtrlRate_set (hsg_logical_port hal) RTL8367C_QOS_RATE_INPUT_MAX_HSG DISABLED ENABLED))
     (thenE (bindE halE (\<lambda>hal. rtk_rate_egrBandwidthCtrlRate_set (hsg_logical_port hal) RTL8367C_QOS_RATE_INPUT_MAX_HSG ENABLED))
     (thenE (rtl8367c_setAsicReg 0x03FA 0x0007)
     (thenE (rtl8367c_setAsicRegBits RTL8367C_PORT_SECURIT_CTRL_REG RTL8367C_UNKNOWN_UNICAST_DA_BEHAVE_MASK 3)
     (thenE (rtl8367c_setAsicLutIpLookupMethod 1)
     (thenE (rtl8367c_setAsicRma 2 \<lparr>rma_operation = 0, rma_discard_storm_filter = 0, rma_trap_priority = 0, rma_keep_format = 0,
         rma_vlan_leaky = 0, rma_portiso_leaky = 0\<rparr>)
     (thenE (rtl8367c_setAsicPortMirrorIsolationTxLeaky ENABLED)
     (rtl8367c_setAsicRegBit RTL8367C_REG_IO_MISC_FUNC RTL8367C_INT_EN_OFFSET 1))))))))))"

definition init_chip :: "switch_chip_t \<Rightarrow> ('d gsw, unit) pdrv" where
  "init_chip switchChip =
     (case switchChip of
        CHIP_RTL8367C \<Rightarrow> liftP rtk_switch_init_8367c
      | CHIP_RTL8370B \<Rightarrow> liftP rtk_switch_init_8370b
      | CHIP_RTL8364B \<Rightarrow> rtk_switch_init_8364b
      | CHIP_RTL8363SC_VB \<Rightarrow> rtk_switch_init_8363sc_vb)"

definition rtk_switch_init :: "('d gsw, unit) pdrv" where
  "rtk_switch_init =
     bindP (liftP rtk_switch_probe) (\<lambda>switchChip.
     thenP (liftP (rtk_switch_initialState_set INIT_COMPLETED))
     (thenP (init_chip switchChip) (liftP init_common)))"

text \<open>
  \<open>rtl8367s_hw_init\<close> returns \<open>-1\<close> when a step fails.  A negative pin number means that the board has
  no reset pin.
\<close>

definition rtl8367s_hw_reset :: "('d \<Rightarrow> 'd) \<Rightarrow> int \<Rightarrow> ('d gsw, unit) drv" where
  "rtl8367s_hw_reset gpio_reset reset_pin =
     (if reset_pin < 0 then okE () else modifyE (\<lambda>s. s\<lparr>gsw_dev := gpio_reset (gsw_dev s)\<rparr>))"

definition or_minus_one :: "('s, unit) pdrv \<Rightarrow> ('s, int) pdrv \<Rightarrow> ('s, int) pdrv" where
  "or_minus_one m k s = (case m s of None \<Rightarrow> None
     | Some (r, s') \<Rightarrow> (case r of Ok _ \<Rightarrow> k s' | Err _ \<Rightarrow> Some (Ok (-1), s') | Fault \<Rightarrow> Some (Fault, s')))"

definition rtl8367s_hw_init :: "('d \<Rightarrow> 'd) \<Rightarrow> int \<Rightarrow> ('d gsw, int) pdrv" where
  "rtl8367s_hw_init gpio_reset reset_pin =
     thenP (liftP (rtl8367s_hw_reset gpio_reset reset_pin))
     (or_minus_one rtk_switch_init
     (or_minus_one (liftP rtk_vlan_reset)
     (or_minus_one (liftP rtk_vlan_init)
     (liftP (okE 0)))))"

end
