(* ===== verification/Switch_Up.thy ===== *)
theory Switch_Up
  imports Switch_Init Vlan_Safety
begin

text \<open>
  What bringing up the switch achieves.  \<open>quiet\<close> is the statement about a function that it succeeds and
  changes nothing but the device; it holds of every run of register accesses on a bus that delivers
  16-bit values, whatever the chip does.  The chip-specific sequences are such runs.
\<close>

section \<open>Accesses that only change the device\<close>

definition access_closed :: "('d gsw \<Rightarrow> bool) \<Rightarrow> bool" where
  "access_closed P \<longleftrightarrow>
     (\<forall>s a. P s \<longrightarrow> fst (mdio_rd (gsw_bus s) a (gsw_dev s)) \<le> 0xFFFF \<and> P (s\<lparr>gsw_dev := snd (mdio_rd (gsw_bus s) a (gsw_dev s))\<rparr>)) \<and>
     (\<forall>s a v. P s \<longrightarrow> v \<le> 0xFFFF \<longrightarrow> P (s\<lparr>gsw_dev := mdio_wr (gsw_bus s) a v (gsw_dev s)\<rparr>))"

definition quiet :: "('d gsw \<Rightarrow> bool) \<Rightarrow> ('d gsw, 'a) drv \<Rightarrow> ('a \<Rightarrow> bool) \<Rightarrow> bool" where
  "quiet P m Q \<longleftrightarrow> (\<forall>s. P s \<longrightarrow> (\<exists>x d. m s = (Ok x, s\<lparr>gsw_dev := d\<rparr>) \<and> P (s\<lparr>gsw_dev := d\<rparr>) \<and> Q x))"

lemma quietE:
  assumes "quiet P m Q" and "P s"
  obtains x d where "m s = (Ok x, s\<lparr>gsw_dev := d\<rparr>)" "P (s\<lparr>gsw_dev := d\<rparr>)" "Q x"
  using assms unfolding quiet_def by blast

lemma quiet_bindE:
  assumes "quiet P m R" and "\<And>x. R x \<Longrightarrow> quiet P (f x) Q"
  shows "quiet P (bindE m f) Q"
  unfolding quiet_def
proof (intro allI impI)
  fix s assume "P s"
  from quietE [OF assms(1) this] obtain x d where 1: "m s = (Ok x, s\<lparr>gsw_dev := d\<rparr>)" "P (s\<lparr>gsw_dev := d\<rparr>)" "R x" .
  from quietE [OF assms(2) [OF 1(3)] 1(2)] obtain y e where "f x (s\<lparr>gsw_dev := d\<rparr>) = (Ok y, s\<lparr>gsw_dev := e\<rparr>)" "P (s\<lparr>gsw_dev := e\<rparr>)" "Q y"
    by auto
  then have "bindE m f s = (Ok y, s\<lparr>gsw_dev := e\<rparr>) \<and> P (s\<lparr>gsw_dev := e\<rparr>) \<and> Q y" by (simp add: bindE_def 1(1))
  then show "\<exists>x d. bindE m f s = (Ok x, s\<lparr>gsw_dev := d\<rparr>) \<and> P (s\<lparr>gsw_dev := d\<rparr>) \<and> Q x" by blast
qed

lemma quiet_thenE: "quiet P m (\<lambda>_. True) \<Longrightarrow> quiet P k Q \<Longrightarrow> quiet P (thenE m k) Q"
  unfolding thenE_def by (rule quiet_bindE)

lemma quiet_pure:
  assumes "\<And>s. P s \<Longrightarrow> m s = (Ok x, s)" and "Q x"
  shows "quiet P m Q"
  unfolding quiet_def
proof (intro allI impI)
  fix s assume "P s"
  with assms have "m s = (Ok x, s\<lparr>gsw_dev := gsw_dev s\<rparr>) \<and> P (s\<lparr>gsw_dev := gsw_dev s\<rparr>) \<and> Q x" by simp
  then show "\<exists>x d. m s = (Ok x, s\<lparr>gsw_dev := d\<rparr>) \<and> P (s\<lparr>gsw_dev := d\<rparr>) \<and> Q x" by blast
qed

lemma quiet_okE: "Q x \<Longrightarrow> quiet P (okE x) Q"
  by (rule quiet_pure) (simp_all add: okE_def)

lemma quiet_if: "(b \<Longrightarrow> quiet P m Q) \<Longrightarrow> (\<not> b \<Longrightarrow> quiet P k Q) \<Longrightarrow> quiet P (if b then m else k) Q"
  by simp

lemma quiet_forE:
  assumes "\<And>i. i \<in> set is \<Longrightarrow> quiet P (f i) (\<lambda>_. True)"
  shows "quiet P (forE is f) (\<lambda>_. True)"
  using assms by (induction "is") (auto intro: quiet_okE quiet_thenE)

lemma quiet_foldE:
  assumes "\<And>i a. i \<in> set is \<Longrightarrow> Q a \<Longrightarrow> quiet P (f i a) Q" and "Q a"
  shows "quiet P (foldE f is a) Q"
  using assms by (induction "is" arbitrary: a) (auto intro: quiet_okE quiet_bindE)

lemma quiet_weaken: "quiet P m R \<Longrightarrow> (\<And>x. R x \<Longrightarrow> Q x) \<Longrightarrow> quiet P m Q"
  unfolding quiet_def by meson

section \<open>Register accesses\<close>

lemma quiet_getAsicReg:
  assumes "access_closed P" and "a \<le> 0xFFFF"
  shows "quiet P (rtl8367c_getAsicReg a) (\<lambda>x. x \<le> 0xFFFF)"
  using assms by (auto simp: quiet_def access_closed_def rtl8367c_getAsicReg_def smi_read_run mapErrE_def not_less)

lemma quiet_setAsicReg:
  assumes "access_closed P" and "a \<le> 0xFFFF" and "v \<le> 0xFFFF"
  shows "quiet P (rtl8367c_setAsicReg a v) (\<lambda>_. True)"
  using assms by (auto simp: quiet_def access_closed_def rtl8367c_setAsicReg_def smi_write_run mapErrE_def not_less)

lemma quiet_smi_read:
  "access_closed P \<Longrightarrow> a \<le> 0xFFFF \<Longrightarrow> quiet P (mapErrE e (smi_read a PTR)) (\<lambda>x. x \<le> 0xFFFF)"
  by (auto simp: quiet_def access_closed_def smi_read_run mapErrE_def not_less)

lemma quiet_smi_write:
  "access_closed P \<Longrightarrow> a \<le> 0xFFFF \<Longrightarrow> v \<le> 0xFFFF \<Longrightarrow> quiet P (mapErrE e (smi_write a v)) (\<lambda>_. True)"
  by (auto simp: quiet_def access_closed_def smi_write_run mapErrE_def not_less)

lemma quiet_setAsicRegBits:
  assumes "access_closed P" and "a \<le> 0xFFFF" and "mask16 m" and "push_bit (lsb_of m) v \<le> 0xFFFF"
  shows "quiet P (rtl8367c_setAsicRegBits a m v) (\<lambda>_. True)"
proof -
  have "\<not> m \<ge> push_bit 16 1" using assms(3) by (simp add: mask16_def not_le)
  then show ?thesis
    using mask16_lsb(1) [OF assms(3)] assms(4)
    by (auto simp: rtl8367c_setAsicRegBits_def Let_def not_less
        intro!: quiet_bindE [OF quiet_smi_read] quiet_smi_write assms(1,2) mask16_bound [OF assms(3)])
qed

lemma quiet_setAsicRegBit:
  assumes "access_closed P" and "a \<le> 0xFFFF" and "unat n < 16"
  shows "quiet P (rtl8367c_setAsicRegBit a n v) (\<lambda>_. True)"
proof -
  have *: "x OR push_bit (unat n) 1 \<le> 0xFFFF" "x AND NOT (push_bit (unat n) 1) \<le> 0xFFFF" if "x \<le> 0xFFFF" for x :: u32
    using that assms(3) unfolding le_FFFF_iff_bits by (auto simp: bit_simps simp del: push_bit_of_1)
  have "\<not> 16 \<le> unat n" using assms(3) by simp
  then show ?thesis
    unfolding rtl8367c_setAsicRegBit_def
    by (intro quiet_if quiet_bindE [OF quiet_smi_read] quiet_smi_write assms(1,2)) (use * in \<open>auto simp del: push_bit_of_1\<close>)
qed

lemma phy_reg_bound:
  assumes "p < 8"
  shows "phy_regAddr p a \<le> 0xFFFF"
proof -
  have "p \<le> mask 3" using assms by (simp add: mask_eq_exp_minus_1 word_le_nat_alt word_less_nat_alt)
  then have small: "3 \<le> k \<Longrightarrow> \<not> bit p k" for k by (simp add: le_mask_iff_bits)
  have m: "(0xF :: u32) = mask 4" "(0x1F :: u32) = mask 5" by (simp_all add: mask_eq_exp_minus_1)
  have "(0x2000 :: u32) \<le> 0xFFFF" by simp
  then show ?thesis
    unfolding phy_regAddr_def Let_def m le_FFFF_iff_bits
    by (auto simp: bit_simps) (use small in \<open>auto simp: bit_simps\<close>)
qed

lemma ocp_prefix: "mask16 0xFC0" "push_bit (lsb_of 0xFC0) (drop_bit 10 (a AND 0xFC00)) \<le> (0xFFFF :: u32)"
proof -
  have k: "(0xFC00 :: u32) = push_bit 10 (mask 6)" by (simp add: mask_eq_exp_minus_1 push_bit_eq_mult)
  show "push_bit (lsb_of 0xFC0) (drop_bit 10 (a AND 0xFC00)) \<le> (0xFFFF :: u32)"
    unfolding k le_FFFF_iff_bits mask_FC0(2) by (auto simp: bit_simps)
qed (rule mask_FC0)

lemma quiet_setPHY:
  assumes "access_closed P" and "p < 8" and "v \<le> 0xFFFF"
  shows "quiet P (rtl8367c_setAsicPHYOCPReg p a v) (\<lambda>_. True)"
  unfolding rtl8367c_setAsicPHYOCPReg_def
  by (intro quiet_thenE quiet_setAsicRegBits quiet_setAsicReg assms phy_reg_bound ocp_prefix) simp

lemma quiet_getPHY:
  assumes "access_closed P" and "p < 8"
  shows "quiet P (rtl8367c_getAsicPHYOCPReg p a) (\<lambda>x. x \<le> 0xFFFF)"
  unfolding rtl8367c_getAsicPHYOCPReg_def
  by (intro quiet_thenE quiet_setAsicRegBits quiet_getAsicReg assms phy_reg_bound ocp_prefix) simp

section \<open>The initialisation sequences\<close>

lemma le_16_bits: "v \<le> 0xFFFF \<Longrightarrow> (v AND x) \<le> (0xFFFF :: u32)" "x \<le> 0xFFFF \<Longrightarrow> (v AND x) \<le> (0xFFFF :: u32)"
  by (auto simp: le_FFFF_iff_bits bit_simps)

lemma or_16_bits: "v \<le> 0xFFFF \<Longrightarrow> x \<le> 0xFFFF \<Longrightarrow> (v OR x) \<le> (0xFFFF :: u32)"
  by (auto simp: le_FFFF_iff_bits bit_simps)

lemma quiet_write_regs:
  assumes "access_closed P" and "list_all (\<lambda>(a, v). a \<le> 0xFFFF \<and> v \<le> 0xFFFF) avs"
  shows "quiet P (write_regs avs) (\<lambda>_. True)"
  unfolding write_regs_def
  by (rule quiet_forE) (use assms(2) in \<open>auto simp: list_all_iff intro!: quiet_setAsicReg assms(1)\<close>)

text \<open>The calls that only look at the port table.\<close>

definition at_ready :: "('d gsw \<Rightarrow> bool) \<Rightarrow> rtk_switch_halCtrl_t \<Rightarrow> bool" where
  "at_ready P h \<longleftrightarrow> access_closed P \<and> (\<forall>s. P s \<longrightarrow> ready s h)"

lemma at_readyD: "at_ready P h \<Longrightarrow> access_closed P" "at_ready P h \<Longrightarrow> P s \<Longrightarrow> ready s h"
  by (auto simp: at_ready_def)

lemma port_checks_run:
  assumes "ready s h"
  shows "isOkE (rtk_switch_logicalPortCheck p) s = (Ok (valid_port h p), s)"
    and "unat p < 32 \<Longrightarrow> isOkE (rtk_switch_isUtpPort p) s = (Ok (log_port_type h ! unat p = UTP_PORT), s)"
    and "unat p < 32 \<Longrightarrow> isOkE (rtk_switch_isHsgPort p) s = (Ok (p = hsg_logical_port h), s)"
  using assms
  by (auto simp: rtk_switch_logicalPortCheck_def rtk_switch_isUtpPort_def rtk_switch_isHsgPort_def port_guard_def
      ok_or_failed_def drv_simps halE_def ready_def valid_port_def hal_wf_lengths)

lemma quiet_chk:
  assumes "at_ready P h"
  shows "quiet P RTK_CHK_INIT_STATE (\<lambda>_. True)" and "quiet P halE (\<lambda>x. x = h)"
    and "valid_port h p \<Longrightarrow> quiet P (RTK_CHK_PORT_VALID p) (\<lambda>_. True)"
    and "unat p < 32 \<Longrightarrow> quiet P (rtk_switch_port_L2P_get p) (\<lambda>x. x = phy_of h p)"
    and "quiet P (isOkE (rtk_switch_logicalPortCheck p)) (\<lambda>b. b = valid_port h p)"
    and "unat p < 32 \<Longrightarrow> quiet P (isOkE (rtk_switch_isUtpPort p)) (\<lambda>b. b = (log_port_type h ! unat p = UTP_PORT))"
    and "unat p < 32 \<Longrightarrow> quiet P (isOkE (rtk_switch_isHsgPort p)) (\<lambda>b. b = (p = hsg_logical_port h))"
proof -
  note r = at_readyD(2) [OF assms]
  show "quiet P RTK_CHK_INIT_STATE (\<lambda>_. True)" by (rule quiet_pure [OF chk_init_run [where h = h]]) (simp_all add: r)
  show "quiet P halE (\<lambda>x. x = h)" by (rule quiet_pure [OF halE_run [where h = h]]) (simp_all add: r)
  show "quiet P (RTK_CHK_PORT_VALID p) (\<lambda>_. True)" if "valid_port h p"
    by (rule quiet_pure [where x = "()"]) (use that chk_port_run [where h = h, OF r] in auto)
  show "quiet P (rtk_switch_port_L2P_get p) (\<lambda>x. x = phy_of h p)" if "unat p < 32"
    by (rule quiet_pure [OF port_L2P_run [where h = h]]) (simp_all add: r that)
  show "quiet P (isOkE (rtk_switch_logicalPortCheck p)) (\<lambda>b. b = valid_port h p)"
    by (rule quiet_pure [OF port_checks_run(1) [where h = h]]) (simp_all add: r)
  show "quiet P (isOkE (rtk_switch_isUtpPort p)) (\<lambda>b. b = (log_port_type h ! unat p = UTP_PORT))" if "unat p < 32"
    by (rule quiet_pure [OF port_checks_run(2) [where h = h]]) (simp_all add: r that)
  show "quiet P (isOkE (rtk_switch_isHsgPort p)) (\<lambda>b. b = (p = hsg_logical_port h))" if "unat p < 32"
    by (rule quiet_pure [OF port_checks_run(3) [where h = h]]) (simp_all add: r that)
qed

lemma quiet_scan:
  assumes "at_ready P h" and "\<And>p. valid_port h p \<Longrightarrow> quiet P (body p) (\<lambda>_. True)"
  shows "quiet P (scan_log_ports body) (\<lambda>_. True)"
  unfolding scan_log_ports_def
  by (intro quiet_forE quiet_bindE [OF quiet_chk(5) [OF assms(1)]] quiet_if quiet_okE assms(2)) simp_all

lemma quiet_init_utp:
  assumes "access_closed P" and "p < 8"
  shows "quiet P (init_utp_port v p) (\<lambda>_. True)"
proof -
  have "RTL8367C_REG_PORT0_EEECFG + 0x20 * p \<le> (0xFFFF :: u32)"
    using assms(2) by (simp add: word_le_nat_alt word_less_nat_alt unat_word_ariths)
  then show ?thesis
    unfolding init_utp_port_def Let_def
    by (intro quiet_thenE quiet_setAsicRegBit quiet_bindE [OF quiet_getPHY] quiet_setPHY quiet_if quiet_okE assms
        le_16_bits or_16_bits) simp_all
qed

lemma mask_lsbs:
  "list_all (\<lambda>(m, n). mask16 m \<and> lsb_of m = n) [(0xC000, 14), (0x6000, 13), (0x3, 0), (0x1, 0), (0xC0, 6), (0x38, 3), (0x7, 0), (0x300, 8)]"
  unfolding mask16_def by code_simp

lemma quiet_init_8367c:
  assumes "at_ready P rtl8367c_hal_Ctrl"
  shows "quiet P rtk_switch_init_8367c (\<lambda>_. True)"
proof -
  note C = at_readyD(1) [OF assms]
  have utp: "p < 8" if "valid_port rtl8367c_hal_Ctrl p" "log_port_type rtl8367c_hal_Ctrl ! unat p = UTP_PORT" for p
  proof -
    have "list_all (\<lambda>p. log_port_type rtl8367c_hal_Ctrl ! unat p = UTP_PORT \<longrightarrow> p < 8) [0 :: u32, 1, 2, 3, 4, 16, 17]" by code_simp
    then show ?thesis using board_only_ports [OF that(1)] that(2) by auto
  qed
  have scan: "quiet P (scan_log_ports (\<lambda>port. bindE (isOkE (rtk_switch_isUtpPort port))
      (\<lambda>utp. if utp then init_utp_port v port else okE ()))) (\<lambda>_. True)" for v
  proof (rule quiet_scan [OF assms])
    fix p assume p: "valid_port rtl8367c_hal_Ctrl p"
    show "quiet P (bindE (isOkE (rtk_switch_isUtpPort p)) (\<lambda>utp. if utp then init_utp_port v p else okE ())) (\<lambda>_. True)"
      by (rule quiet_bindE [OF quiet_chk(6) [OF assms valid_port_less [OF p]]])
         (use utp [OF p] in \<open>auto intro!: quiet_init_utp [OF C] quiet_okE\<close>)
  qed
  have "push_bit (lsb_of 0xC000) 3 \<le> (0xFFFF :: u32)" using mask_lsbs by (simp add: push_bit_eq_mult)
  with mask_lsbs show ?thesis
    unfolding rtk_switch_init_8367c_def
    by (intro quiet_thenE quiet_bindE [OF quiet_getAsicReg] quiet_setAsicReg quiet_setAsicRegBit quiet_setAsicRegBits
        quiet_write_regs scan C) simp_all
qed

lemma hsg_8367c:
  "hsg_logical_port rtl8367c_hal_Ctrl = EXT_PORT0" "valid_port rtl8367c_hal_Ctrl EXT_PORT0" "phy_of rtl8367c_hal_Ctrl EXT_PORT0 = 6"
  by code_simp+

lemma max_rate_regs:
  "drop_bit 3 (RTL8367C_QOS_RATE_INPUT_MAX_HSG) = 0x7FFFF" "0x7FFFF AND 0xFFFF = (0xFFFF :: u32)" "drop_bit 16 (0x7FFFF AND 0x70000) = (7 :: u32)"
  "0xFFFF AND 0x7FFFF = (0xFFFF :: u32)" "drop_bit 16 (0x70000 AND 0x7FFFF) = (7 :: u32)"
  "RTL8367C_INGRESSBW_PORT_RATE_LSB_REG 6 = 0xCF" "RTL8367C_PORT_MISC_CFG_REG 6 = 0xCE" "RTL8367C_PORT_EGRESSBW_LSB_REG 6 = 0x398" "RTL8367C_PORT_EGRESSBW_MSB_REG 6 = 0x399"
  by code_simp+

lemma quiet_init_common:
  assumes "at_ready P rtl8367c_hal_Ctrl"
  shows "quiet P init_common (\<lambda>_. True)"
proof -
  note C = at_readyD(1) [OF assms] and h = quiet_chk [OF assms]
  have p32: "unat (EXT_PORT0 :: u32) < 32" by simp
  have rate: "quiet P (check_port_rate EXT_PORT0 RTL8367C_QOS_RATE_INPUT_MAX_HSG) (\<lambda>_. True)"
    unfolding check_port_rate_def by (rule quiet_bindE [OF h(7) [OF p32]]) (simp add: hsg_8367c quiet_okE)
  have bits: "push_bit (lsb_of 0x7) 7 \<le> (0xFFFF :: u32)" "mask16 7" using mask_lsbs by simp_all
  have "quiet P (rtl8367c_setAsicPortIngressBandwidth 6 0x7FFFF 0 1) (\<lambda>_. True)"
    unfolding rtl8367c_setAsicPortIngressBandwidth_def max_rate_regs using bits
    by (auto intro!: quiet_thenE quiet_setAsicReg quiet_setAsicRegBit quiet_setAsicRegBits C)
  then have "quiet P (rtk_rate_igrBandwidthCtrlRate_set EXT_PORT0 RTL8367C_QOS_RATE_INPUT_MAX_HSG DISABLED ENABLED) (\<lambda>_. True)"
    unfolding rtk_rate_igrBandwidthCtrlRate_set_def check_that_def
    by (intro quiet_thenE h(1) h(3) rate quiet_bindE [OF h(4) [OF p32]] quiet_if quiet_okE hsg_8367c(2)) (simp_all add: max_rate_regs(1) hsg_8367c(3))
  then have igr: "quiet P (bindE halE (\<lambda>hal. rtk_rate_igrBandwidthCtrlRate_set (hsg_logical_port hal) RTL8367C_QOS_RATE_INPUT_MAX_HSG DISABLED ENABLED)) (\<lambda>_. True)"
    by (intro quiet_bindE [OF h(2)]) (simp add: hsg_8367c(1))
  have "quiet P (rtl8367c_setAsicPortEgressRate 6 0x7FFFF) (\<lambda>_. True)" "quiet P (rtl8367c_setAsicPortEgressRateIfg 1) (\<lambda>_. True)"
    unfolding rtl8367c_setAsicPortEgressRate_def rtl8367c_setAsicPortEgressRateIfg_def max_rate_regs using bits
    by (auto intro!: quiet_thenE quiet_setAsicReg quiet_setAsicRegBit quiet_setAsicRegBits C)
  then have "quiet P (rtk_rate_egrBandwidthCtrlRate_set EXT_PORT0 RTL8367C_QOS_RATE_INPUT_MAX_HSG ENABLED) (\<lambda>_. True)"
    unfolding rtk_rate_egrBandwidthCtrlRate_set_def check_that_def
    by (intro quiet_thenE h(1) h(3) rate quiet_bindE [OF h(4) [OF p32]] quiet_if quiet_okE hsg_8367c(2)) (simp_all add: max_rate_regs(1) hsg_8367c(3))
  then have egr: "quiet P (bindE halE (\<lambda>hal. rtk_rate_egrBandwidthCtrlRate_set (hsg_logical_port hal) RTL8367C_QOS_RATE_INPUT_MAX_HSG ENABLED)) (\<lambda>_. True)"
    by (intro quiet_bindE [OF h(2)]) (simp add: hsg_8367c(1))
  have rma: "quiet P (rtl8367c_setAsicRma 2 \<lparr>rma_operation = 0, rma_discard_storm_filter = 0, rma_trap_priority = 0, rma_keep_format = 0,
         rma_vlan_leaky = 0, rma_portiso_leaky = 0\<rparr>) (\<lambda>_. True)"
    unfolding rtl8367c_setAsicRma_def using mask_lsbs
    by (auto simp: rma_word_def rma_index_def intro!: quiet_thenE quiet_setAsicReg quiet_setAsicRegBits C)
  have "push_bit (lsb_of 0x6000) 3 \<le> (0xFFFF :: u32)" "push_bit (lsb_of 0x3) 3 \<le> (0xFFFF :: u32)"
    "push_bit (lsb_of 0x1) 1 \<le> (0xFFFF :: u32)" "push_bit (lsb_of 0xC0) 3 \<le> (0xFFFF :: u32)"
    using mask_lsbs by (simp_all add: push_bit_eq_mult)
  with mask_lsbs show ?thesis
    unfolding init_common_def rtl8367c_setAsicLutIpLookupMethod_def rtl8367c_setAsicPortMirrorIsolationTxLeaky_def
    by (intro quiet_thenE quiet_setAsicReg quiet_setAsicRegBit quiet_setAsicRegBits igr egr rma C) simp_all
qed


section \<open>The whole initialisation on a chip of the RTL8367C family\<close>

text \<open>A set of device states that every access keeps and whose registers read as 16-bit values.\<close>

definition device_closed :: "'d mii_bus \<Rightarrow> 'd set \<Rightarrow> bool" where
  "device_closed B D \<longleftrightarrow> (\<forall>d \<in> D. \<forall>a.
     fst (mdio_rd B a d) \<le> 0xFFFF \<and> snd (mdio_rd B a d) \<in> D \<and> (\<forall>v \<le> 0xFFFF. mdio_wr B a v d \<in> D))"

definition on_device :: "'d mii_bus \<Rightarrow> 'd set \<Rightarrow> 'd gsw \<Rightarrow> bool" where
  "on_device B D s \<longleftrightarrow> gsw_bus s = B \<and> gsw_dev s \<in> D"

lemma on_device_closed: "device_closed B D \<Longrightarrow> access_closed (on_device B D)"
  by (auto simp: access_closed_def on_device_def device_closed_def)

lemma on_device_ready: "device_closed B D \<Longrightarrow> at_ready (\<lambda>s. on_device B D s \<and> ready s h) h"
  by (auto simp: at_ready_def access_closed_def on_device_def device_closed_def ready_def)

definition rtl8367c_ids :: "u32 set" where
  "rtl8367c_ids = {0x0276, 0x0597, 0x6367}"

lemma probe_run_8367c:
  assumes "device_closed B D" and "on_device B D s" and "probed_id s \<in> rtl8367c_ids"
  shows "\<exists>d \<in> D. rtk_switch_probe s = (Ok CHIP_RTL8367C, s\<lparr>gsw_dev := d, halCtrl := Some rtl8367c_hal_Ctrl\<rparr>)"
proof -
  define d1 d2 d3 where "d1 = mdio_wr B 0x13C2 0x0249 (gsw_dev s)" and "d2 = snd (mdio_rd B 0x1300 d1)" and "d3 = snd (mdio_rd B 0x1301 d2)"
  have D: "gsw_bus s = B" "d1 \<in> D" "d2 \<in> D" "d3 \<in> D" "mdio_wr B 0x13C2 0 d3 \<in> D"
    using assms(1,2) by (simp_all add: device_closed_def on_device_def d1_def d2_def d3_def)
  have "rtk_switch_probe s = (Ok CHIP_RTL8367C, s\<lparr>gsw_dev := mdio_wr B 0x13C2 0 d3, halCtrl := Some rtl8367c_hal_Ctrl\<rparr>)"
    using assms(3)
    by (auto simp: rtk_switch_probe_def getAsicReg_any setAsicReg_any bindE_def thenE_def D(1) d1_def d2_def d3_def probed_id_def
        rtl8367c_ids_def set_halCtrl_def modifyE_def okE_def)
  with D(5) show ?thesis by blast
qed

lemma switch_init_run:
  assumes C: "device_closed B D" and s: "on_device B D s" and "probed_id s \<in> rtl8367c_ids"
  shows "\<exists>t. rtk_switch_init s = Some (Ok (), t) \<and> on_device B D t \<and> ready t rtl8367c_hal_Ctrl"
proof -
  let ?P = "\<lambda>s. on_device B D s \<and> ready s rtl8367c_hal_Ctrl"
  obtain d where d: "d \<in> D" "rtk_switch_probe s = (Ok CHIP_RTL8367C, s\<lparr>gsw_dev := d, halCtrl := Some rtl8367c_hal_Ctrl\<rparr>)"
    using probe_run_8367c [OF assms] by blast
  let ?s1 = "s\<lparr>gsw_dev := d, halCtrl := Some rtl8367c_hal_Ctrl, init_state := 1\<rparr>"
  have 1: "?P ?s1" using s d(1) by (simp add: on_device_def ready_def)
  from quietE [OF quiet_init_8367c [OF on_device_ready [OF C]] 1] obtain e where
    2: "rtk_switch_init_8367c ?s1 = (Ok (), ?s1\<lparr>gsw_dev := e\<rparr>)" "?P (?s1\<lparr>gsw_dev := e\<rparr>)" by auto
  from quietE [OF quiet_init_common [OF on_device_ready [OF C]] 2(2)] obtain f where
    3: "init_common (?s1\<lparr>gsw_dev := e\<rparr>) = (Ok (), ?s1\<lparr>gsw_dev := f\<rparr>)" "?P (?s1\<lparr>gsw_dev := f\<rparr>)" by auto
  have "\<not> 2 \<le> (1 :: u32)" by code_simp
  then have "rtk_switch_init s = Some (Ok (), ?s1\<lparr>gsw_dev := f\<rparr>)"
    using d(2) 2(1) 3(1)
    by (simp add: rtk_switch_init_def bindP_def thenP_def liftP_def init_chip_def rtk_switch_initialState_set_def modifyE_def)
  with 3(2) show ?thesis by blast
qed

lemma vlan_reset_run:
  assumes C: "device_closed B D" and s: "on_device B D s" "ready s h"
  shows "\<exists>t. rtk_vlan_reset s = (Ok (), t) \<and> on_device B D t \<and> ready t h"
proof -
  have "quiet (\<lambda>s. on_device B D s \<and> ready s h) rtk_vlan_reset (\<lambda>_. True)"
    unfolding rtk_vlan_reset_def rtl8367c_resetVlan_def
    by (intro quiet_thenE quiet_chk [OF on_device_ready [OF C]] quiet_setAsicRegBit at_readyD(1) [OF on_device_ready [OF C]]) simp_all
  from quietE [OF this] s show ?thesis by auto
qed

lemma hw_init_run:
  assumes C: "device_closed (gsw_bus s) D" and "gsw_dev s0 \<in> D" and "probed_id s0 \<in> rtl8367c_ids"
    and s0: "s0 = snd (rtl8367s_hw_reset gpio_reset reset_pin s)"
  obtains t where "on_device (gsw_bus s) D t" "ready t rtl8367c_hal_Ctrl"
    "rtl8367s_hw_init gpio_reset reset_pin s = or_minus_one (liftP rtk_vlan_init) (liftP (okE 0)) t"
proof -
  have r: "rtl8367s_hw_reset gpio_reset reset_pin s = (Ok (), s0)"
    by (simp add: s0 rtl8367s_hw_reset_def okE_def modifyE_def)
  have "gsw_bus s0 = gsw_bus s" by (simp add: s0 rtl8367s_hw_reset_def okE_def modifyE_def)
  with assms(2) have "on_device (gsw_bus s) D s0" by (simp add: on_device_def)
  from switch_init_run [OF C this assms(3)] obtain t where
    1: "rtk_switch_init s0 = Some (Ok (), t)" "on_device (gsw_bus s) D t" "ready t rtl8367c_hal_Ctrl" by blast
  from vlan_reset_run [OF C 1(2,3)] obtain u where
    2: "rtk_vlan_reset t = (Ok (), u)" "on_device (gsw_bus s) D u" "ready u rtl8367c_hal_Ctrl" by blast
  show thesis
    by (rule that [OF 2(2,3)])
       (simp add: rtl8367s_hw_init_def thenP_def bindP_def liftP_def r or_minus_one_def [of rtk_switch_init] or_minus_one_def [of "liftP rtk_vlan_reset"]
          1(1) 2(1))
qed

section \<open>Typing of the state\<close>

definition safeP :: "('s \<Rightarrow> bool) \<Rightarrow> ('s, 'a) pdrv \<Rightarrow> bool" where
  "safeP P m \<longleftrightarrow> (\<forall>s r s'. P s \<longrightarrow> m s = Some (r, s') \<longrightarrow> P s' \<and> r \<noteq> Fault)"

lemma safeP_lift: "safe P m (\<lambda>_. True) \<Longrightarrow> safeP P (liftP m)"
  by (auto simp: safeP_def liftP_def safe_def)

lemma safeP_bind:
  assumes "safeP P m" and "\<And>x. safeP P (f x)"
  shows "safeP P (bindP m f)"
  unfolding safeP_def
proof (intro allI impI)
  fix s r s' assume s: "P s" and run: "bindP m f s = Some (r, s')"
  then obtain q t where t: "m s = Some (q, t)" by (auto simp: bindP_def split: option.splits)
  with assms(1) s have "P t" "q \<noteq> Fault" unfolding safeP_def by blast+
  with run t show "P s' \<and> r \<noteq> Fault"
    using assms(2) unfolding safeP_def by (cases q) (auto simp: bindP_def)
qed

lemma safeP_then: "safeP P m \<Longrightarrow> safeP P k \<Longrightarrow> safeP P (thenP m k)"
  unfolding thenP_def by (rule safeP_bind)

lemma safeP_getSds:
  assumes "dev_closed P"
  shows "safeP P (rtl8367c_getAsicSdsReg i reg page)"
proof -
  have wait: "sds_wait t = Some x \<Longrightarrow> P t \<longrightarrow> P (snd x) \<and> fst x \<noteq> Fault" for t x
  proof (erule sds_wait.raw_induct [rotated, where P = "\<lambda>t x. P t \<longrightarrow> P (snd x) \<and> fst x \<noteq> Fault"], rule impI)
    fix f t x
    assume IH: "\<And>t x. f t = Some x \<Longrightarrow> P t \<longrightarrow> P (snd x) \<and> fst x \<noteq> Fault"
      and body: "(case rtl8367c_getAsicReg RTL8367C_REG_SDS_INDACS_CMD t of (r, s') \<Rightarrow>
         (case r of Ok busy \<Rightarrow> if busy AND 0x100 = 0 then Some (Ok (), s') else f s'
          | Err e \<Rightarrow> Some (Err e, s') | Fault \<Rightarrow> Some (Fault, s'))) = Some x" and t: "P t"
    obtain r s' where run: "rtl8367c_getAsicReg RTL8367C_REG_SDS_INDACS_CMD t = (r, s')" by fastforce
    from safeD [OF safe_asic(1) [OF assms] t this] have "P s'" "r \<noteq> Fault" by auto
    with body run IH show "P (snd x) \<and> fst x \<noteq> Fault" by (cases r) (auto split: if_splits)
  qed
  show ?thesis
    unfolding safeP_def
  proof (intro allI impI)
    fix s r s' assume s: "P s" and run: "rtl8367c_getAsicSdsReg i reg page s = Some (r, s')"
    obtain q t where t: "thenE (rtl8367c_setAsicReg RTL8367C_REG_SDS_INDACS_ADR (push_bit 5 page OR reg))
             (rtl8367c_setAsicReg RTL8367C_REG_SDS_INDACS_CMD (0x0080 OR i)) s = (q, t)" by fastforce
    from safeD [OF safe_thenE [OF safe_asic(2) [OF assms] safe_asic(2) [OF assms]] s this] have "P t" "q \<noteq> Fault" by auto
    then show "P s' \<and> r \<noteq> Fault"
      using run t wait [of t] safeD [OF safe_asic(1) [OF assms]]
      by (cases q) (fastforce simp: rtl8367c_getAsicSdsReg_def split: option.splits prod.splits outcome.splits)+
  qed
qed

lemma safe_switch_asic:
  assumes "dev_closed P"
  shows "safe P (rtl8367c_setAsicPHYOCPReg p a v) (\<lambda>_. True)" "safe P (rtl8367c_getAsicPHYOCPReg p a) (\<lambda>_. True)"
    "safe P (rtl8367c_setAsicSdsReg i reg page v) (\<lambda>_. True)"
    "safe P (rtl8367c_setAsicRma n cfg) (\<lambda>_. True)" "safe P (rtl8367c_setAsicLutIpLookupMethod v) (\<lambda>_. True)"
    "safe P (rtl8367c_setAsicPortMirrorIsolationTxLeaky v) (\<lambda>_. True)"
    "safe P (rtl8367c_setAsicPortIngressBandwidth p a v w) (\<lambda>_. True)"
    "safe P (rtl8367c_setAsicPortEgressRate p v) (\<lambda>_. True)" "safe P (rtl8367c_setAsicPortEgressRateIfg v) (\<lambda>_. True)"
  unfolding rtl8367c_setAsicPHYOCPReg_def rtl8367c_getAsicPHYOCPReg_def rtl8367c_setAsicSdsReg_def rtl8367c_setAsicRma_def
    rtl8367c_setAsicLutIpLookupMethod_def rtl8367c_setAsicPortMirrorIsolationTxLeaky_def rtl8367c_setAsicPortIngressBandwidth_def
    rtl8367c_setAsicPortEgressRate_def rtl8367c_setAsicPortEgressRateIfg_def
  by (intro safe_rules safe_asic [OF assms])+

lemma safe_isOk_port: "safe gsw_up (isOkE (rtk_switch_logicalPortCheck p)) (\<lambda>_. True)"
  "unat p < 32 \<Longrightarrow> safe gsw_up (isOkE (rtk_switch_isUtpPort p)) (\<lambda>_. True)"
  "unat p < 32 \<Longrightarrow> safe gsw_up (isOkE (rtk_switch_isHsgPort p)) (\<lambda>_. True)"
  by (rule safe_ready, simp add: port_checks_run)+

lemma safe_init_8367c: "safe gsw_up rtk_switch_init_8367c (\<lambda>_. True)"
  unfolding rtk_switch_init_8367c_def scan_log_ports_def init_utp_port_def write_regs_def Let_def
  by (intro safe_rules safe_forE safe_isOk_port safe_asic [OF gsw_up_dev] safe_switch_asic [OF gsw_up_dev])
    (simp_all add: unat_of_nat take_bit_eq_mod)

text \<open>The sequence of the RTL8370B can fault; otherwise it keeps the typing.\<close>

definition keeps :: "('s \<Rightarrow> bool) \<Rightarrow> ('s, 'a) drv \<Rightarrow> bool" where
  "keeps P m \<longleftrightarrow> (\<forall>s. P s \<longrightarrow> fst (m s) \<noteq> Fault \<longrightarrow> P (snd (m s)))"

lemma keeps_safe: "safe P m Q \<Longrightarrow> keeps P m"
  by (auto simp: keeps_def safe_def)

lemma keeps_bindE: "keeps P m \<Longrightarrow> (\<And>x. keeps P (f x)) \<Longrightarrow> keeps P (bindE m f)"
  by (simp add: keeps_def bindE_def split: prod.split outcome.split) (metis fst_conv outcome.distinct(1,3,5) snd_conv)

lemma keeps_thenE: "keeps P m \<Longrightarrow> keeps P k \<Longrightarrow> keeps P (thenE m k)"
  unfolding thenE_def by (rule keeps_bindE)

lemma safe_patch_poll: "safe gsw_up (patch_poll p b n) (\<lambda>_. True)"
  by (induction n) (auto intro!: safe_rules safe_switch_asic [OF gsw_up_dev])

lemma safe_patch:
  "safe gsw_up (patch_open n prf) (\<lambda>_. True)" "safe gsw_up (patch_close n) (\<lambda>_. True)" "safe gsw_up (restart_link n) (\<lambda>_. True)"
  unfolding patch_open_def patch_close_def restart_link_def Let_def
  by (intro safe_rules safe_patch_poll safe_switch_asic [OF gsw_up_dev] TrueI)+

lemma safe_up_switch: "safe gsw_up (rtl8367c_setAsicPHYOCPReg p a v) (\<lambda>_. True)"
  by (rule safe_switch_asic [OF gsw_up_dev])

lemma keeps_init_8370b: "keeps gsw_up (rtk_switch_init_8370b)"
proof -
  have "keeps gsw_up (case x of None \<Rightarrow> faultE | Some v \<Rightarrow> if v = 0x1 then forE [0..<8] patch_close else okE ())" for x :: "u32 option"
    by (cases x) (simp add: keeps_def faultE_def, simp only: option.case, intro keeps_safe [where Q = "\<lambda>_. True"] safe_rules safe_forE safe_patch TrueI)
  then show ?thesis
    unfolding rtk_switch_init_8370b_def
    by (intro keeps_thenE keeps_bindE keeps_safe [OF safe_asic(4) [OF gsw_up_dev]] keeps_safe [OF safe_asic(2) [OF gsw_up_dev]]
        keeps_safe [OF safe_asic(1) [OF gsw_up_dev]] keeps_safe [OF safe_foldE [where Q = "\<lambda>_. True"]] keeps_safe [OF safe_forE])
      (auto intro!: safe_patch safe_up_switch)
qed

lemma safeP_init_8364b: "safeP gsw_up init_8364b_serdes" "safe gsw_up init_8364b_macs (\<lambda>_. True)"
  unfolding init_8364b_serdes_def init_8364b_macs_def
  by (intro safeP_bind safeP_then safeP_lift safeP_getSds safe_rules safe_asic safe_switch_asic gsw_up_dev)+

lemma safe_isHsg: "safe gsw_up (isOkE (rtk_switch_isHsgPort p)) (\<lambda>_. True)"
  by (rule safe_ready)
     (auto simp: rtk_switch_isHsgPort_def port_guard_def ok_or_failed_def drv_simps halE_def ready_def)

lemma safe_init_common: "safe gsw_up init_common (\<lambda>_. True)"
  unfolding init_common_def rtk_rate_igrBandwidthCtrlRate_set_def rtk_rate_egrBandwidthCtrlRate_set_def check_port_rate_def check_that_def
  by (intro safe_rules safe_isHsg safe_asic [OF gsw_up_dev] safe_switch_asic [OF gsw_up_dev] TrueI)

lemma probe_up:
  assumes "gsw_inv s" and "rtk_switch_probe s = (Ok chip, s1)"
  shows "gsw_up (s1\<lparr>init_state := INIT_COMPLETED\<rparr>)"
proof -
  have "(case rtk_switch_probe s of (Ok chip, s') \<Rightarrow> \<exists>h. halCtrl s' = Some h \<and> hal_wf h | _ \<Rightarrow> True)"
    by (simp add: rtk_switch_probe_def getAsicReg_any setAsicReg_any bindE_def thenE_def set_halCtrl_def modifyE_def okE_def errE_def)
  moreover from safeD [OF safe_probe assms] have "gsw_inv s1" by blast
  ultimately show ?thesis using assms(2) by (auto simp: gsw_up_def gsw_inv_def)
qed

lemma init_chip_typed:
  assumes "gsw_up s" and "bindP (init_chip chip) (\<lambda>_. liftP init_common) s = Some (r, s')"
  shows "r = Fault \<and> chip = CHIP_RTL8370B \<or> r \<noteq> Fault \<and> gsw_up s'"
proof (cases "chip = CHIP_RTL8370B")
  case True
  obtain q t where q: "rtk_switch_init_8370b s = (q, t)" by fastforce
  with keeps_init_8370b assms(1) have "q \<noteq> Fault \<Longrightarrow> gsw_up t" by (auto simp: keeps_def)
  with True q assms(2) safeD [OF safe_init_common, of t r s'] show ?thesis
    by (cases q) (auto simp: init_chip_def bindP_def liftP_def)
next
  case False
  then have "safeP gsw_up (bindP (init_chip chip) (\<lambda>_. liftP init_common))"
    by (cases chip)
       (auto simp: init_chip_def rtk_switch_init_8364b_def rtk_switch_init_8363sc_vb_def
         intro!: safeP_bind safeP_then safeP_lift safe_init_8367c safeP_init_8364b safe_init_common)
  with assms show ?thesis unfolding safeP_def by blast
qed

section \<open>The indeterminate variable of the RTL8370B sequence\<close>

lemma quiet_fault:
  assumes "quiet P m R" and "P s" and "\<And>x t. R x \<Longrightarrow> P t \<Longrightarrow> fst (f x t) = Fault"
  shows "fst (bindE m f s) = Fault"
proof -
  from quietE [OF assms(1,2)] obtain x d where "m s = (Ok x, s\<lparr>gsw_dev := d\<rparr>)" "P (s\<lparr>gsw_dev := d\<rparr>)" "R x" by blast
  with assms(3) show ?thesis by (simp add: bindE_def)
qed

lemma quiet_fault_then:
  assumes "quiet P m R" and "P s" and "\<And>t. P t \<Longrightarrow> fst (k t) = Fault"
  shows "fst (thenE m k s) = Fault"
  unfolding thenE_def by (rule quiet_fault [OF assms(1,2)]) (rule assms(3))

text \<open>No PHY shows state 3 in register \<^verbatim>\<open>0xA420\<close>.\<close>

definition no_phy_patchable :: "'d mii_bus \<Rightarrow> 'd set \<Rightarrow> bool" where
  "no_phy_patchable B D \<longleftrightarrow> (\<forall>d \<in> D. \<forall>p < 8. fst (mdio_rd B (phy_regAddr p 0xA420) d) AND 7 \<noteq> 3)"

lemma quiet_state_read:
  assumes C: "device_closed B D" and N: "no_phy_patchable B D" and p: "p < 8"
  shows "quiet (on_device B D) (rtl8367c_getAsicPHYOCPReg p 0xA420) (\<lambda>x. x AND 7 \<noteq> 3)"
proof -
  have "quiet (on_device B D) (rtl8367c_getAsicReg (phy_regAddr p 0xA420)) (\<lambda>x. x AND 7 \<noteq> 3)"
    unfolding quiet_def using C N p phy_reg_bound [OF p]
    by (auto simp: getAsicReg_any on_device_def device_closed_def no_phy_patchable_def)
  then show ?thesis
    unfolding rtl8367c_getAsicPHYOCPReg_def
    by (intro quiet_thenE quiet_setAsicRegBits on_device_closed C ocp_prefix) simp_all
qed

lemma patch_data_16: "list_all (\<lambda>(a, v). v \<le> 0xFFFF) PatchChipData" "list_all (\<lambda>v. v \<le> 0xFFFF) long_link" "length long_link = 8"
  by code_simp+

lemma quiet_open:
  assumes C: "device_closed B D" and N: "no_phy_patchable B D"
  shows "quiet (on_device B D) (foldE patch_open [0..<8] None) (\<lambda>x. x = None)"
proof (rule quiet_foldE)
  fix n :: nat and x :: "u32 option" assume "n \<in> set [0..<8]" and x: "x = None"
  then have p: "(of_nat n :: u32) < 8" by (auto simp: word_less_nat_alt unat_of_nat take_bit_eq_mod)
  show "quiet (on_device B D) (patch_open n x) (\<lambda>x. x = None)"
    unfolding patch_open_def Let_def by (rule quiet_bindE [OF quiet_state_read [OF C N p]]) (simp add: x quiet_okE)
qed simp

lemma quiet_phy_words:
  assumes C: "device_closed B D"
  shows "quiet (on_device B D) (forE PatchChipData (\<lambda>(a, v). rtl8367c_setAsicPHYOCPReg 0 a v)) (\<lambda>_. True)"
    and "quiet (on_device B D) (forE [0..<8] (\<lambda>n. rtl8367c_setAsicPHYOCPReg (of_nat n) 0xA4B4 (long_link ! n))) (\<lambda>_. True)"
proof -
  show "quiet (on_device B D) (forE PatchChipData (\<lambda>(a, v). rtl8367c_setAsicPHYOCPReg 0 a v)) (\<lambda>_. True)"
    by (rule quiet_forE) (use patch_data_16(1) in \<open>auto simp: list_all_iff intro!: quiet_setPHY on_device_closed C\<close>)
  show "quiet (on_device B D) (forE [0..<8] (\<lambda>n. rtl8367c_setAsicPHYOCPReg (of_nat n) 0xA4B4 (long_link ! n))) (\<lambda>_. True)"
  proof (rule quiet_forE)
    fix n :: nat assume n: "n \<in> set [0..<8]"
    then have "(of_nat n :: u32) < 8" by (auto simp: word_less_nat_alt unat_of_nat take_bit_eq_mod)
    moreover have "long_link ! n \<le> 0xFFFF" using patch_data_16(2,3) n by (auto simp: list_all_length)
    ultimately show "quiet (on_device B D) (rtl8367c_setAsicPHYOCPReg (of_nat n) 0xA4B4 (long_link ! n)) (\<lambda>_. True)"
      by (rule quiet_setPHY [OF on_device_closed [OF C]])
  qed
qed

text \<open>The device states of the simulated chip.\<close>

definition sim_devices :: "sim_dev set" where
  "sim_devices = {d. v_busy (sim_view d) < 10}"

lemma sim_devices_closed: "device_closed sim_bus sim_devices"
proof -
  have "ucast (w :: u16) \<le> (0xFFFF :: u32)" for w by (auto simp: le_FFFF_iff_bits bit_simps dest: bit_imp_le_length)
  then show ?thesis
    by (auto simp: device_closed_def sim_devices_def sim_rd sim_wr sim_fetch_def sim_store_def sim_command_def Let_def)
qed

lemma sim_devices_busy: "d \<in> sim_devices \<Longrightarrow> v_busy (sim_view d) < 10"
  by (simp add: sim_devices_def)

section \<open>Properties\<close>

text \<open>
  C8. Bringing up the board from an arbitrary state of the driver: when the chip, after its reset,
  identifies itself as one of the RTL8367C family and its tables keep their contract,
  \<open>rtl8367s_hw_init\<close> returns 0 whatever the other registers hold, and \<open>rtl8367s_vlan_config\<close> after it
  leaves every port of the board untagged in exactly its VLAN, with that VLAN as its port-based VLAN.
\<close>

theorem hw_init_bringup:
  assumes "table_contract (gsw_bus s) view A" and "cfg_regs \<subseteq> A"
    and "device_closed (gsw_bus s) D" and "\<And>d. d \<in> D \<Longrightarrow> v_busy (view d) < 10"
    and "gsw_dev (snd (rtl8367s_hw_reset gpio_reset pin s)) \<in> D"
    and "probed_id (snd (rtl8367s_hw_reset gpio_reset pin s)) \<in> rtl8367c_ids"
  shows "\<exists>s1 s2. rtl8367s_hw_init gpio_reset pin s = Some (Ok 0, s1) \<and> rtl8367s_vlan_config w s1 = (Ok (), s2) \<and>
     board_partition view A w s2"
proof -
  obtain t where t: "on_device (gsw_bus s) D t" "ready t rtl8367c_hal_Ctrl"
    "rtl8367s_hw_init gpio_reset pin s = or_minus_one (liftP rtk_vlan_init) (liftP (okE 0)) t"
    by (rule hw_init_run [OF assms(3) assms(5,6) refl]) blast
  have "table_contract (gsw_bus t) view A" "v_busy (view (gsw_dev t)) < 10"
    using t(1) assms(1,4) by (auto simp: on_device_def)
  from vlan_refines_init [OF this(1) assms(2) this(2) t(2)] obtain s1 v where
    s1: "rtk_vlan_init t = (Ok (), s1)" "vlan_refines view A rtl8367c_hal_Ctrl 31 v s1" by blast
  then have "rtl8367s_hw_init gpio_reset pin s = Some (Ok 0, s1)"
    by (simp add: t(3) or_minus_one_def liftP_def okE_def)
  with board_config_run [OF s1(2)] show ?thesis by blast
qed

theorem hw_init_bringup_witness:
  "\<exists>s1 s2. rtl8367s_hw_init (\<lambda>d. d) 7 ((sim_chip 0x6367 rtl8367c_hal_Ctrl)\<lparr>init_state := 0, halCtrl := None\<rparr>) = Some (Ok 0, s1) \<and>
     rtl8367s_vlan_config True s1 = (Ok (), s2) \<and> board_partition sim_view sim_addrs True s2"
proof -
  let ?s = "(sim_chip 0x6367 rtl8367c_hal_Ctrl)\<lparr>init_state := 0, halCtrl := None\<rparr>"
  have r: "snd (rtl8367s_hw_reset (\<lambda>d. d) 7 ?s) = ?s" by (simp add: rtl8367s_hw_reset_def modifyE_def)
  have "gsw_dev ?s \<in> sim_devices" by (simp add: sim_devices_def sim_chip_def sim_dev0_def sim_view0_def)
  moreover have "probed_id ?s \<in> rtl8367c_ids"
    using sim_chip_up(2) [of rtl8367c_hal_Ctrl "0x6367"] by (simp add: probed_id_def rtl8367c_ids_def)
  moreover have "gsw_bus ?s = sim_bus" by (simp add: sim_chip_def)
  ultimately show ?thesis
    by (intro hw_init_bringup [where D = sim_devices]) (simp_all only: r sim_table_contract sim_cfg_regs sim_devices_closed sim_devices_busy)
qed

text \<open>
  C9. Typing: from a well-typed state of the driver, an initialisation that returns leaves a
  well-typed state (the tables have their lengths, an initialised driver has a well-formed port
  table) on any chip and any bus.  It runs into undefined behaviour only on an RTL8370B.
\<close>

theorem switch_init_typed:
  assumes "gsw_inv s" and "rtk_switch_init s = Some (r, s')"
  shows "if r = Fault then \<exists>s1. rtk_switch_probe s = (Ok CHIP_RTL8370B, s1) else gsw_inv s'"
proof -
  obtain q s1 where q: "rtk_switch_probe s = (q, s1)" by fastforce
  have lim: "\<not> 2 \<le> (1 :: u32)" by code_simp
  show ?thesis
  proof (cases q)
    case (Ok chip)
    with q have p: "rtk_switch_probe s = (Ok chip, s1)" by simp
    with assms(2) lim have "bindP (init_chip chip) (\<lambda>_. liftP init_common) (s1\<lparr>init_state := INIT_COMPLETED\<rparr>) = Some (r, s')"
      by (simp add: rtk_switch_init_def bindP_def thenP_def liftP_def rtk_switch_initialState_set_def modifyE_def)
    from init_chip_typed [OF probe_up [OF assms(1) p] this] p show ?thesis by (auto simp: gsw_up_def)
  qed (use safeD [OF safe_probe assms(1) q] assms(2) q in \<open>auto simp: rtk_switch_init_def bindP_def liftP_def\<close>)
qed

theorem switch_init_typed_witness:
  "\<exists>r s'. rtk_switch_init (sim_chip 0x6367 rtl8367c_hal_Ctrl) = Some (r, s') \<and>
     (if r = Fault then \<exists>s1. rtk_switch_probe (sim_chip 0x6367 rtl8367c_hal_Ctrl) = (Ok CHIP_RTL8370B, s1) else gsw_inv s')"
proof -
  let ?s = "sim_chip 0x6367 rtl8367c_hal_Ctrl"
  have "on_device sim_bus sim_devices ?s" by (simp add: on_device_def sim_devices_def sim_chip_def sim_dev0_def sim_view0_def)
  moreover have "probed_id ?s \<in> rtl8367c_ids"
    using sim_chip_up(2) [of rtl8367c_hal_Ctrl "0x6367"] by (simp add: rtl8367c_ids_def)
  ultimately obtain t where t: "rtk_switch_init ?s = Some (Ok (), t)" using switch_init_run [OF sim_devices_closed] by blast
  have "gsw_inv ?s" by (simp add: gsw_inv_def sim_chip_def)
  from switch_init_typed [OF this t] t show ?thesis by blast
qed

text \<open>
  C35. The sequence of the RTL8370B reads an uninitialised variable when no PHY reports that it is
  ready for a patch: the variable is set only in that case, but always tested.
\<close>

theorem init_8370b_indeterminate:
  assumes "device_closed (gsw_bus s) D" and "gsw_dev s \<in> D" and "no_phy_patchable (gsw_bus s) D"
  shows "fst (rtk_switch_init_8370b s) = Fault"
proof -
  let ?P = "on_device (gsw_bus s) D"
  note C = on_device_closed [OF assms(1)]
  have bits: "mask16 0x0300" "push_bit (lsb_of 0x0300) 3 \<le> (0xFFFF :: u32)" using mask_lsbs by (simp_all add: push_bit_eq_mult)
  have s: "?P s" using assms(2) by (simp add: on_device_def)
  show ?thesis
    unfolding rtk_switch_init_8370b_def
    by (rule quiet_fault_then [OF quiet_setAsicRegBits [OF C _ bits] s], simp,
        rule quiet_fault [OF quiet_open [OF assms(1,3)]], assumption,
        rule quiet_fault [OF quiet_getAsicReg [OF C]], simp, assumption,
        rule quiet_fault_then [OF quiet_setAsicReg [OF C]], simp, simp add: le_16_bits, assumption,
        rule quiet_fault_then [OF quiet_phy_words(1) [OF assms(1)]], assumption,
        rule quiet_fault_then [OF quiet_setAsicReg [OF C]], simp, assumption, assumption,
        rule quiet_fault_then [OF quiet_phy_words(2) [OF assms(1)]], assumption,
        simp add: thenE_def bindE_def faultE_def)
qed

theorem init_8370b_indeterminate_witness:
  "fst (rtk_switch_init_8370b \<lparr>gsw_bus = \<lparr>bus_read = (\<lambda>_ _ d. (0, d)), bus_write = (\<lambda>_ _ _ d. d)\<rparr>, gsw_dev = (), init_state = 1,
     halCtrl = Some rtl8370b_hal_Ctrl, vlan_mbrCfgVid = [], vlan_mbrCfgUsage = [], svlan_mbrCfgUsage = [], svlan_mbrCfgVid = [],
     svlan_lookupType = 0\<rparr>) = Fault"
  by (rule init_8370b_indeterminate [where D = UNIV]) (simp_all add: device_closed_def no_phy_patchable_def mdio_rd_def)

end
