(* ===== verification/L2.thy ===== *)
theory L2
  imports Switch_Init
begin

text \<open>
  \<open>l2.c\<close>: the API of the address table.  Unicast, multicast, IP multicast and IP multicast with VLAN
  entries are added, looked up, enumerated and deleted; the rest sets learning limits, ageing, flooding
  and the table of IP multicast groups.  The functions of \<open>rtl8367c_asicdrv_port.c\<close> that it uses are
  here, too.

  A function that updates a structure returns the updated structure; on an error the caller's
  structure is not part of the result.
\<close>

section \<open>Structures\<close>

record rtk_l2_ucastAddr_t =
  uc_mac :: mac_t
  uc_ivl :: u32
  uc_cvid :: u32
  uc_fid :: u32
  uc_efid :: u32
  uc_port :: u32
  uc_sa_block :: u32
  uc_da_block :: u32
  uc_auth :: u32
  uc_is_static :: u32
  uc_priority :: u32
  uc_sa_pri_en :: u32
  uc_fwd_pri_en :: u32
  uc_address :: u32

record rtk_l2_mcastAddr_t =
  mcs_vid :: u32
  mcs_mac :: mac_t
  mcs_fid :: u32
  mcs_portmask :: rtk_portmask_t
  mcs_ivl :: u32
  mcs_priority :: u32
  mcs_fwd_pri_en :: u32
  mcs_igmp_asic :: u32
  mcs_igmp_index :: u32
  mcs_address :: u32

record rtk_l2_ipMcastAddr_t =
  ipm_dip :: u32
  ipm_sip :: u32
  ipm_portmask :: rtk_portmask_t
  ipm_priority :: u32
  ipm_fwd_pri_en :: u32
  ipm_igmp_asic :: u32
  ipm_igmp_index :: u32
  ipm_address :: u32

record rtk_l2_ipVidMcastAddr_t =
  ivm_dip :: u32
  ivm_sip :: u32
  ivm_vid :: u32
  ivm_portmask :: rtk_portmask_t
  ivm_address :: u32

record rtk_l2_addr_table_t =
  at_index :: u32
  at_sip :: u32
  at_dip :: u32
  at_mac :: mac_t
  at_sa_block :: u32
  at_auth :: u32
  at_portmask :: rtk_portmask_t
  at_age :: u32
  at_ivl :: u32
  at_cvid :: u32
  at_fid :: u32
  at_is_ipmul :: u32
  at_is_static :: u32
  at_is_ipvidmul :: u32
  at_l3_vid :: u32

record rtk_l2_flushCfg_t =
  fl_flushByVid :: u32
  fl_vid :: u32
  fl_flushByFid :: u32
  fl_fid :: u32
  fl_flushByPort :: u32
  fl_port :: u32
  fl_flushByMac :: u32
  fl_ucastAddr :: mac_t
  fl_flushStaticAddr :: u32
  fl_flushAddrOnAllPorts :: u32

abbreviation (input) READMETHOD_NEXT_L2UC :: u32 where "READMETHOD_NEXT_L2UC \<equiv> 3"
abbreviation (input) READMETHOD_NEXT_L2UCSPA :: u32 where "READMETHOD_NEXT_L2UCSPA \<equiv> 7"
abbreviation (input) LIMIT_LEARN_CNT_ACTION_DROP :: u32 where "LIMIT_LEARN_CNT_ACTION_DROP \<equiv> 0"
abbreviation (input) LIMIT_LEARN_CNT_ACTION_FORWARD :: u32 where "LIMIT_LEARN_CNT_ACTION_FORWARD \<equiv> 1"
abbreviation (input) LIMIT_LEARN_CNT_ACTION_TO_CPU :: u32 where "LIMIT_LEARN_CNT_ACTION_TO_CPU \<equiv> 2"
abbreviation (input) LOOKUP_MAC :: u32 where "LOOKUP_MAC \<equiv> 0"
abbreviation (input) LOOKUP_IP :: u32 where "LOOKUP_IP \<equiv> 1"
abbreviation (input) LOOKUP_IP_VID :: u32 where "LOOKUP_IP_VID \<equiv> 2"
abbreviation (input) FLOOD_UNKNOWNDA :: u32 where "FLOOD_UNKNOWNDA \<equiv> 0"
abbreviation (input) FLOOD_UNKNOWNMC :: u32 where "FLOOD_UNKNOWNMC \<equiv> 1"
abbreviation (input) FLOOD_BC :: u32 where "FLOOD_BC \<equiv> 2"
abbreviation (input) FLOOD_END :: u32 where "FLOOD_END \<equiv> 3"
abbreviation (input) RTL8367C_EFIDMAX :: u32 where "RTL8367C_EFIDMAX \<equiv> 0x7"

definition RTK_MAX_LUT_ADDR_ID :: "('d gsw, u32) drv" where
  "RTK_MAX_LUT_ADDR_ID = bindE rtk_switch_maxLutAddrNumber_get (\<lambda>n. okE (n - 1))"

text \<open>A pointer to a structure whose fields are read: null is undefined behaviour, or is tested.\<close>

definition derefE :: "'a option \<Rightarrow> ('s, 'a) drv" where
  "derefE p = (case p of None \<Rightarrow> faultE | Some x \<Rightarrow> okE x)"

definition not_nullE :: "rt_error \<Rightarrow> 'a option \<Rightarrow> ('s, 'a) drv" where
  "not_nullE e p = (case p of None \<Rightarrow> errE e | Some x \<Rightarrow> okE x)"

section \<open>Initialisation\<close>

definition rtk_l2_init :: "('d gsw, unit) drv" where
  "rtk_l2_init =
     thenE RTK_CHK_INIT_STATE
     (thenE (rtl8367c_setAsicLutIpMulticastLookup DISABLED)
     (thenE (rtl8367c_setAsicLutCamTbUsage ENABLED)
     (thenE (rtl8367c_setAsicLutAgeTimerSpeed 6 2)
     (scan_log_ports (\<lambda>port.
        bindE (rtk_switch_port_L2P_get port) (\<lambda>phy.
        bindE rtk_switch_maxLutAddrNumber_get (\<lambda>n. rtl8367c_setAsicLutLearnLimitNo phy n)))))))"

section \<open>Entries in general\<close>

text \<open>
  The three outcomes of a lookup that the functions distinguish: the entry is there, it is not there
  (\<open>RT_ERR_L2_ENTRY_NOTFOUND\<close>), or the access failed.
\<close>

definition lookup_cases :: "('s, 'a) drv \<Rightarrow> ('a \<Rightarrow> ('s, 'b) drv) \<Rightarrow> ('s, 'b) drv \<Rightarrow> ('s, 'b) drv" where
  "lookup_cases m f g s = (case m s of (r, s') \<Rightarrow>
     (case r of Ok x \<Rightarrow> f x s'
      | Err e \<Rightarrow> if e = RT_ERR_L2_ENTRY_NOTFOUND then g s' else (Err e, s')
      | Fault \<Rightarrow> (Fault, s')))"

text \<open>
  The body that the four functions to add an entry share.  \<open>key\<close> fills in the key and \<open>fill\<close> all fields; an entry
  that is there is read and overwritten, otherwise a cleared one is written and looked up again.
  The result is the address of the entry.
\<close>

definition lut_add ::
  "(rtl8367c_luttb \<Rightarrow> rtl8367c_luttb) \<Rightarrow> (rtl8367c_luttb \<Rightarrow> ('d gsw, rtl8367c_luttb) drv) \<Rightarrow> ('d gsw, u32) drv" where
  "lut_add key fill =
     lookup_cases (rtl8367c_getAsicL2LookupTb LUTREADMETHOD_MAC (key luttb_zero))
       (\<lambda>l2Table. bindE (fill l2Table) (\<lambda>l2Table.
          bindE (rtl8367c_setAsicL2LookupTb l2Table) (\<lambda>l2Table. okE (ucast (lt_address l2Table)))))
       (bindE (fill luttb_zero) (\<lambda>l2Table.
          bindE (rtl8367c_setAsicL2LookupTb l2Table) (\<lambda>l2Table.
          lookup_cases (rtl8367c_getAsicL2LookupTb LUTREADMETHOD_MAC l2Table)
            (\<lambda>_. okE (ucast (lt_address l2Table)))
            (errE RT_ERR_L2_INDEXTBL_FULL))))"

text \<open>The body of the functions that delete an entry: \<open>wipe\<close> fills in the key and clears the rest.\<close>

definition lut_del :: "(rtl8367c_luttb \<Rightarrow> rtl8367c_luttb) \<Rightarrow> (rtl8367c_luttb \<Rightarrow> rtl8367c_luttb) \<Rightarrow> ('d gsw, u32) drv" where
  "lut_del key wipe =
     bindE (rtl8367c_getAsicL2LookupTb LUTREADMETHOD_MAC (key luttb_zero)) (\<lambda>l2Table.
     bindE (rtl8367c_setAsicL2LookupTb (wipe l2Table)) (\<lambda>l2Table. okE (ucast (lt_address l2Table))))"

section \<open>Unicast entries\<close>

definition unicast_mac :: "mac_t option \<Rightarrow> ('s, mac_t) drv" where
  "unicast_mac pMac = (case pMac of None \<Rightarrow> errE RT_ERR_MAC
     | Some mac \<Rightarrow> if mac ! 0 AND 0x1 \<noteq> 0 then errE RT_ERR_MAC else okE mac)"

definition uc_key :: "mac_t \<Rightarrow> rtk_l2_ucastAddr_t \<Rightarrow> rtl8367c_luttb \<Rightarrow> rtl8367c_luttb" where
  "uc_key mac d l = l\<lparr>lt_mac := mac, lt_ivl_svl := ucast (uc_ivl d), lt_fid := ucast (uc_fid d),
     lt_cvid_fid := ucast (uc_cvid d), lt_efid := ucast (uc_efid d)\<rparr>"

definition uc_fill :: "mac_t \<Rightarrow> rtk_l2_ucastAddr_t \<Rightarrow> u32 \<Rightarrow> rtl8367c_luttb \<Rightarrow> rtl8367c_luttb" where
  "uc_fill mac d phy l = (uc_key mac d l)\<lparr>lt_spa := ucast phy, lt_nosalearn := ucast (uc_is_static d),
     lt_sa_block := ucast (uc_sa_block d), lt_da_block := ucast (uc_da_block d), lt_l3lookup := 0,
     lt_auth := ucast (uc_auth d), lt_age := 6, lt_lut_pri := ucast (uc_priority d),
     lt_sa_en := ucast (uc_sa_pri_en d), lt_fwd_en := ucast (uc_fwd_pri_en d)\<rparr>"

definition uc_wipe :: "mac_t \<Rightarrow> rtk_l2_ucastAddr_t \<Rightarrow> rtl8367c_luttb \<Rightarrow> rtl8367c_luttb" where
  "uc_wipe mac d l = (uc_key mac d l)\<lparr>lt_spa := 0, lt_nosalearn := 0, lt_sa_block := 0, lt_da_block := 0,
     lt_auth := 0, lt_age := 0, lt_lut_pri := 0, lt_sa_en := 0, lt_fwd_en := 0\<rparr>"

text \<open>The fields of an entry as the caller sees them; \<open>port\<close> is the logical port of \<open>spa\<close>.\<close>

definition uc_of_lut :: "mac_t \<Rightarrow> u32 \<Rightarrow> rtl8367c_luttb \<Rightarrow> rtk_l2_ucastAddr_t" where
  "uc_of_lut mac port l = \<lparr>uc_mac = mac, uc_ivl = ucast (lt_ivl_svl l), uc_cvid = ucast (lt_cvid_fid l),
     uc_fid = ucast (lt_fid l), uc_efid = ucast (lt_efid l), uc_port = port, uc_sa_block = ucast (lt_sa_block l),
     uc_da_block = ucast (lt_da_block l), uc_auth = ucast (lt_auth l), uc_is_static = ucast (lt_nosalearn l),
     uc_priority = ucast (lt_lut_pri l), uc_sa_pri_en = ucast (lt_sa_en l), uc_fwd_pri_en = ucast (lt_fwd_en l),
     uc_address = ucast (lt_address l)\<rparr>"

definition rtk_l2_addr_add :: "mac_t option \<Rightarrow> rtk_l2_ucastAddr_t option \<Rightarrow> ('d gsw, rtk_l2_ucastAddr_t) drv" where
  "rtk_l2_addr_add pMac pL2_data =
     thenE RTK_CHK_INIT_STATE
     (bindE (unicast_mac pMac) (\<lambda>mac.
      bindE (not_nullE RT_ERR_MAC pL2_data) (\<lambda>d.
      thenE (RTK_CHK_PORT_VALID (uc_port d))
      (if uc_ivl d \<ge> RTK_ENABLE_END then errE RT_ERR_INPUT
       else if uc_cvid d > 0xFFF then errE RT_ERR_L2_VID
       else if uc_fid d > RTL8367C_FIDMAX then errE RT_ERR_L2_FID
       else if uc_is_static d \<ge> RTK_ENABLE_END then errE RT_ERR_INPUT
       else if uc_sa_block d \<ge> RTK_ENABLE_END then errE RT_ERR_INPUT
       else if uc_da_block d \<ge> RTK_ENABLE_END then errE RT_ERR_INPUT
       else if uc_auth d \<ge> RTK_ENABLE_END then errE RT_ERR_INPUT
       else if uc_efid d > RTL8367C_EFIDMAX then errE RT_ERR_INPUT
       else if uc_priority d > RTL8367C_PRIMAX then errE RT_ERR_INPUT
       else if uc_sa_pri_en d \<ge> RTK_ENABLE_END then errE RT_ERR_INPUT
       else if uc_fwd_pri_en d \<ge> RTK_ENABLE_END then errE RT_ERR_INPUT
       else bindE (lut_add (uc_key mac d)
               (\<lambda>l2Table. bindE (rtk_switch_port_L2P_get (uc_port d)) (\<lambda>phy. okE (uc_fill mac d phy l2Table))))
              (\<lambda>address. okE (d\<lparr>uc_address := address\<rparr>))))))"

definition rtk_l2_addr_get :: "mac_t option \<Rightarrow> rtk_l2_ucastAddr_t option \<Rightarrow> ('d gsw, rtk_l2_ucastAddr_t) drv" where
  "rtk_l2_addr_get pMac pL2_data =
     thenE RTK_CHK_INIT_STATE
     (bindE (unicast_mac pMac) (\<lambda>mac.
      bindE (derefE pL2_data) (\<lambda>d.
      if uc_fid d > RTL8367C_FIDMAX \<or> uc_efid d > RTL8367C_EFIDMAX then errE RT_ERR_L2_FID
      else
        bindE (rtl8367c_getAsicL2LookupTb LUTREADMETHOD_MAC (uc_key mac d luttb_zero)) (\<lambda>l2Table.
        bindE (rtk_switch_port_P2L_get (ucast (lt_spa l2Table))) (\<lambda>port.
          okE (uc_of_lut mac port l2Table))))))"

definition rtk_l2_addr_next_get ::
  "u32 \<Rightarrow> rtk_port_t \<Rightarrow> u32 option \<Rightarrow> outptr \<Rightarrow> ('d gsw, u32 \<times> rtk_l2_ucastAddr_t) drv" where
  "rtk_l2_addr_next_get read_method port pAddress pL2_data =
     thenE RTK_CHK_INIT_STATE
     (thenE (check_that (pL2_data \<noteq> NULLP) RT_ERR_MAC)
     (bindE (not_nullE RT_ERR_MAC pAddress) (\<lambda>address.
      bindE (if read_method = READMETHOD_NEXT_L2UC then okE LUTREADMETHOD_NEXT_L2UC
             else if read_method = READMETHOD_NEXT_L2UCSPA then okE LUTREADMETHOD_NEXT_L2UCSPA
             else errE RT_ERR_INPUT) (\<lambda>method.
      thenE (RTK_CHK_PORT_VALID port)
      (bindE RTK_MAX_LUT_ADDR_ID (\<lambda>max_id.
       if address > max_id then errE RT_ERR_L2_L2UNI_PARAM
       else
         bindE (if read_method = READMETHOD_NEXT_L2UCSPA
                then bindE (rtk_switch_port_L2P_get port) (\<lambda>phy.
                       okE (luttb_zero\<lparr>lt_address := ucast address, lt_spa := ucast phy\<rparr>))
                else okE (luttb_zero\<lparr>lt_address := ucast address\<rparr>)) (\<lambda>l2Table.
         bindE (rtl8367c_getAsicL2LookupTb method l2Table) (\<lambda>l2Table.
         if ucast (lt_address l2Table) < address then errE RT_ERR_L2_ENTRY_NOTFOUND
         else bindE (rtk_switch_port_P2L_get (ucast (lt_spa l2Table))) (\<lambda>port.
           okE (ucast (lt_address l2Table), uc_of_lut (lt_mac l2Table) port l2Table))))))))))"

definition rtk_l2_addr_del :: "mac_t option \<Rightarrow> rtk_l2_ucastAddr_t option \<Rightarrow> ('d gsw, rtk_l2_ucastAddr_t) drv" where
  "rtk_l2_addr_del pMac pL2_data =
     thenE RTK_CHK_INIT_STATE
     (bindE (unicast_mac pMac) (\<lambda>mac.
      bindE (derefE pL2_data) (\<lambda>d.
      if uc_fid d > RTL8367C_FIDMAX \<or> uc_efid d > RTL8367C_EFIDMAX then errE RT_ERR_L2_FID
      else bindE (lut_del (uc_key mac d) (uc_wipe mac d)) (\<lambda>address. okE (d\<lparr>uc_address := address\<rparr>)))))"

section \<open>Multicast entries\<close>

definition mcs_chk_key :: "rtk_l2_mcastAddr_t \<Rightarrow> ('d gsw, unit) drv" where
  "mcs_chk_key d =
     (if mcs_ivl d = 1 then check_that (mcs_vid d \<le> 0xFFF) RT_ERR_L2_VID
      else if mcs_ivl d = 0 then check_that (mcs_fid d \<le> RTL8367C_FIDMAX) RT_ERR_L2_FID
      else errE RT_ERR_INPUT)"

definition mcs_chk_mac :: "rtk_l2_mcastAddr_t \<Rightarrow> ('d gsw, unit) drv" where
  "mcs_chk_mac d = check_that (mcs_mac d ! 0 AND 0x01 = 0x01) RT_ERR_MAC"

definition mcs_key :: "rtk_l2_mcastAddr_t \<Rightarrow> rtl8367c_luttb \<Rightarrow> rtl8367c_luttb" where
  "mcs_key d l = l\<lparr>lt_mac := mcs_mac d, lt_ivl_svl := ucast (mcs_ivl d),
     lt_cvid_fid := (if mcs_ivl d \<noteq> 0 then ucast (mcs_vid d) else ucast (mcs_fid d))\<rparr>"

definition mcs_fill :: "rtk_l2_mcastAddr_t \<Rightarrow> u32 \<Rightarrow> rtl8367c_luttb \<Rightarrow> rtl8367c_luttb" where
  "mcs_fill d pmask l = (mcs_key d l)\<lparr>lt_mbr := ucast pmask, lt_nosalearn := 1, lt_l3lookup := 0,
     lt_lut_pri := ucast (mcs_priority d), lt_fwd_en := ucast (mcs_fwd_pri_en d)\<rparr>"

definition mcs_wipe :: "rtk_l2_mcastAddr_t \<Rightarrow> rtl8367c_luttb \<Rightarrow> rtl8367c_luttb" where
  "mcs_wipe d l = (mcs_key d l)\<lparr>lt_mbr := 0, lt_nosalearn := 0, lt_sa_block := 0, lt_l3lookup := 0,
     lt_lut_pri := 0, lt_fwd_en := 0\<rparr>"

text \<open>The fields that both read functions assign last, the ports among them.\<close>

definition mcs_of_lut :: "rtl8367c_luttb \<Rightarrow> rtk_l2_mcastAddr_t \<Rightarrow> ('d gsw, rtk_l2_mcastAddr_t) drv" where
  "mcs_of_lut l d =
     bindE (rtk_switch_portmask_P2L_get (ucast (lt_mbr l)) PTR) (\<lambda>portmask.
       okE (d\<lparr>mcs_priority := ucast (lt_lut_pri l), mcs_fwd_pri_en := ucast (lt_fwd_en l),
              mcs_igmp_asic := ucast (lt_igmp_asic l), mcs_igmp_index := ucast (lt_igmpidx l),
              mcs_address := ucast (lt_address l), mcs_portmask := portmask\<rparr>))"

definition rtk_l2_mcastAddr_add :: "rtk_l2_mcastAddr_t option \<Rightarrow> ('d gsw, rtk_l2_mcastAddr_t) drv" where
  "rtk_l2_mcastAddr_add pMcastAddr =
     thenE RTK_CHK_INIT_STATE
     (bindE (not_nullE RT_ERR_NULL_POINTER pMcastAddr) (\<lambda>d.
      thenE (mcs_chk_mac d)
      (thenE (RTK_CHK_PORTMASK_VALID (Some (mcs_portmask d)))
      (thenE (mcs_chk_key d)
      (if mcs_fwd_pri_en d \<ge> RTK_ENABLE_END then errE RT_ERR_INPUT
       else if mcs_priority d > RTL8367C_PRIMAX then errE RT_ERR_INPUT
       else bindE (rtk_switch_portmask_L2P_get (Some (mcs_portmask d)) PTR) (\<lambda>pmask.
            bindE (lut_add (mcs_key d) (\<lambda>l2Table. okE (mcs_fill d pmask l2Table))) (\<lambda>address.
              okE (d\<lparr>mcs_address := address\<rparr>))))))))"

definition rtk_l2_mcastAddr_get :: "rtk_l2_mcastAddr_t option \<Rightarrow> ('d gsw, rtk_l2_mcastAddr_t) drv" where
  "rtk_l2_mcastAddr_get pMcastAddr =
     thenE RTK_CHK_INIT_STATE
     (bindE (not_nullE RT_ERR_NULL_POINTER pMcastAddr) (\<lambda>d.
      thenE (mcs_chk_mac d)
      (thenE (mcs_chk_key d)
      (bindE (rtl8367c_getAsicL2LookupTb LUTREADMETHOD_MAC (mcs_key d luttb_zero)) (\<lambda>l2Table.
        mcs_of_lut l2Table d)))))"

definition rtk_l2_mcastAddr_next_get ::
  "u32 option \<Rightarrow> rtk_l2_mcastAddr_t option \<Rightarrow> ('d gsw, u32 \<times> rtk_l2_mcastAddr_t) drv" where
  "rtk_l2_mcastAddr_next_get pAddress pMcastAddr =
     thenE RTK_CHK_INIT_STATE
     (bindE (not_nullE RT_ERR_INPUT pAddress) (\<lambda>address.
      bindE (not_nullE RT_ERR_INPUT pMcastAddr) (\<lambda>d.
      bindE RTK_MAX_LUT_ADDR_ID (\<lambda>max_id.
      if address > max_id then errE RT_ERR_L2_L2UNI_PARAM
      else
        bindE (rtl8367c_getAsicL2LookupTb LUTREADMETHOD_NEXT_L2MC (luttb_zero\<lparr>lt_address := ucast address\<rparr>)) (\<lambda>l2Table.
        if ucast (lt_address l2Table) < address then errE RT_ERR_L2_ENTRY_NOTFOUND
        else
          (let d1 = d\<lparr>mcs_mac := lt_mac l2Table, mcs_ivl := ucast (lt_ivl_svl l2Table)\<rparr>;
               d2 = (if mcs_ivl d1 \<noteq> 0 then d1\<lparr>mcs_vid := ucast (lt_cvid_fid l2Table)\<rparr>
                     else d1\<lparr>mcs_fid := ucast (lt_cvid_fid l2Table)\<rparr>)
           in bindE (mcs_of_lut l2Table d2) (\<lambda>d3. okE (ucast (lt_address l2Table), d3))))))))"

definition rtk_l2_mcastAddr_del :: "rtk_l2_mcastAddr_t option \<Rightarrow> ('d gsw, rtk_l2_mcastAddr_t) drv" where
  "rtk_l2_mcastAddr_del pMcastAddr =
     thenE RTK_CHK_INIT_STATE
     (bindE (not_nullE RT_ERR_NULL_POINTER pMcastAddr) (\<lambda>d.
      thenE (mcs_chk_mac d)
      (thenE (mcs_chk_key d)
      (bindE (lut_del (mcs_key d) (mcs_wipe d)) (\<lambda>address. okE (d\<lparr>mcs_address := address\<rparr>))))))"

section \<open>IP multicast entries\<close>

definition chk_dip :: "u32 \<Rightarrow> ('s, unit) drv" where
  "chk_dip dip = (if dip AND 0xF0000000 \<noteq> 0xE0000000 then errE RT_ERR_INPUT else okE ())"

definition ipm_key :: "rtk_l2_ipMcastAddr_t \<Rightarrow> rtl8367c_luttb \<Rightarrow> rtl8367c_luttb" where
  "ipm_key d l = l\<lparr>lt_sip := ipm_sip d, lt_dip := ipm_dip d, lt_l3lookup := 1, lt_l3vidlookup := 0\<rparr>"

definition ipm_fill :: "rtk_l2_ipMcastAddr_t \<Rightarrow> u32 \<Rightarrow> rtl8367c_luttb \<Rightarrow> rtl8367c_luttb" where
  "ipm_fill d pmask l = (ipm_key d l)\<lparr>lt_mbr := ucast pmask, lt_nosalearn := 1,
     lt_lut_pri := ucast (ipm_priority d), lt_fwd_en := ucast (ipm_fwd_pri_en d)\<rparr>"

definition ipm_wipe :: "rtk_l2_ipMcastAddr_t \<Rightarrow> rtl8367c_luttb \<Rightarrow> rtl8367c_luttb" where
  "ipm_wipe d l = (ipm_key d l)\<lparr>lt_mbr := 0, lt_nosalearn := 0, lt_lut_pri := 0, lt_fwd_en := 0\<rparr>"

definition ipm_of_lut :: "rtl8367c_luttb \<Rightarrow> u32 \<Rightarrow> u32 \<Rightarrow> ('d gsw, rtk_l2_ipMcastAddr_t) drv" where
  "ipm_of_lut l sip dip =
     bindE (rtk_switch_portmask_P2L_get (ucast (lt_mbr l)) PTR) (\<lambda>portmask.
       okE \<lparr>ipm_dip = dip, ipm_sip = sip, ipm_portmask = portmask, ipm_priority = ucast (lt_lut_pri l),
            ipm_fwd_pri_en = ucast (lt_fwd_en l), ipm_igmp_asic = ucast (lt_igmp_asic l),
            ipm_igmp_index = ucast (lt_igmpidx l), ipm_address = ucast (lt_address l)\<rparr>)"

definition rtk_l2_ipMcastAddr_add :: "rtk_l2_ipMcastAddr_t option \<Rightarrow> ('d gsw, rtk_l2_ipMcastAddr_t) drv" where
  "rtk_l2_ipMcastAddr_add pIpMcastAddr =
     thenE RTK_CHK_INIT_STATE
     (bindE (not_nullE RT_ERR_NULL_POINTER pIpMcastAddr) (\<lambda>d.
      thenE (RTK_CHK_PORTMASK_VALID (Some (ipm_portmask d)))
      (thenE (chk_dip (ipm_dip d))
      (if ipm_fwd_pri_en d \<ge> RTK_ENABLE_END then errE RT_ERR_ENABLE
       else if ipm_priority d > RTL8367C_PRIMAX then errE RT_ERR_INPUT
       else bindE (rtk_switch_portmask_L2P_get (Some (ipm_portmask d)) PTR) (\<lambda>pmask.
            bindE (lut_add (ipm_key d) (\<lambda>l2Table. okE (ipm_fill d pmask l2Table))) (\<lambda>address.
              okE (d\<lparr>ipm_address := address\<rparr>)))))))"

definition rtk_l2_ipMcastAddr_get :: "rtk_l2_ipMcastAddr_t option \<Rightarrow> ('d gsw, rtk_l2_ipMcastAddr_t) drv" where
  "rtk_l2_ipMcastAddr_get pIpMcastAddr =
     thenE RTK_CHK_INIT_STATE
     (bindE (not_nullE RT_ERR_NULL_POINTER pIpMcastAddr) (\<lambda>d.
      thenE (chk_dip (ipm_dip d))
      (bindE (rtl8367c_getAsicL2LookupTb LUTREADMETHOD_MAC (ipm_key d luttb_zero)) (\<lambda>l2Table.
        ipm_of_lut l2Table (ipm_sip d) (ipm_dip d)))))"

text \<open>
  The loop of the two functions that enumerate IP multicast entries: it looks for the next entry
  whose \<open>l3vidlookup\<close> is not \<open>skip\<close>.  Nothing bounds it.
\<close>

partial_function (option) l3mc_scan ::
  "1 word \<Rightarrow> u32 \<Rightarrow> rtl8367c_luttb \<Rightarrow> 'd gsw \<Rightarrow> (rtl8367c_luttb outcome \<times> 'd gsw) option" where
  "l3mc_scan skip address l s = (case rtl8367c_getAsicL2LookupTb LUTREADMETHOD_NEXT_L3MC l s of (r, s') \<Rightarrow>
     (case r of Ok l2Table \<Rightarrow>
          if ucast (lt_address l2Table) < address then Some (Err RT_ERR_L2_ENTRY_NOTFOUND, s')
          else if lt_l3vidlookup l2Table = skip then l3mc_scan skip address l2Table s'
          else Some (Ok l2Table, s')
      | Err e \<Rightarrow> Some (Err e, s') | Fault \<Rightarrow> Some (Fault, s')))"

definition l3mc_next_checks :: "u32 option \<Rightarrow> outptr \<Rightarrow> ('d gsw, u32) drv" where
  "l3mc_next_checks pAddress p =
     thenE RTK_CHK_INIT_STATE
     (bindE (not_nullE RT_ERR_INPUT pAddress) (\<lambda>address.
      thenE (check_that (p \<noteq> NULLP) RT_ERR_INPUT)
      (bindE RTK_MAX_LUT_ADDR_ID (\<lambda>max_id.
       if address > max_id then errE RT_ERR_L2_L2UNI_PARAM else okE address))))"

definition rtk_l2_ipMcastAddr_next_get ::
  "u32 option \<Rightarrow> outptr \<Rightarrow> ('d gsw, u32 \<times> rtk_l2_ipMcastAddr_t) pdrv" where
  "rtk_l2_ipMcastAddr_next_get pAddress pIpMcastAddr =
     bindP (liftP (l3mc_next_checks pAddress pIpMcastAddr)) (\<lambda>address.
     bindP (l3mc_scan 1 address (luttb_zero\<lparr>lt_address := ucast address\<rparr>)) (\<lambda>l2Table.
       liftP (bindE (ipm_of_lut l2Table (lt_sip l2Table) (lt_dip l2Table)) (\<lambda>d.
         okE (ucast (lt_address l2Table), d)))))"

definition rtk_l2_ipMcastAddr_del :: "rtk_l2_ipMcastAddr_t option \<Rightarrow> ('d gsw, rtk_l2_ipMcastAddr_t) drv" where
  "rtk_l2_ipMcastAddr_del pIpMcastAddr =
     thenE RTK_CHK_INIT_STATE
     (bindE (not_nullE RT_ERR_INPUT pIpMcastAddr) (\<lambda>d.
      thenE (chk_dip (ipm_dip d))
      (bindE (lut_del (ipm_key d) (ipm_wipe d)) (\<lambda>address. okE (d\<lparr>ipm_address := address\<rparr>)))))"

section \<open>IP multicast entries with VLAN\<close>

definition ivm_key :: "rtk_l2_ipVidMcastAddr_t \<Rightarrow> rtl8367c_luttb \<Rightarrow> rtl8367c_luttb" where
  "ivm_key d l = l\<lparr>lt_sip := ivm_sip d, lt_dip := ivm_dip d, lt_l3lookup := 1, lt_l3vidlookup := 1,
     lt_l3_vid := ucast (ivm_vid d)\<rparr>"

definition ivm_fill :: "rtk_l2_ipVidMcastAddr_t \<Rightarrow> u32 \<Rightarrow> rtl8367c_luttb \<Rightarrow> rtl8367c_luttb" where
  "ivm_fill d pmask l = (ivm_key d l)\<lparr>lt_mbr := ucast pmask, lt_nosalearn := 1\<rparr>"

definition ivm_wipe :: "rtk_l2_ipVidMcastAddr_t \<Rightarrow> rtl8367c_luttb \<Rightarrow> rtl8367c_luttb" where
  "ivm_wipe d l = (ivm_key d l)\<lparr>lt_mbr := 0, lt_nosalearn := 0\<rparr>"

definition rtk_l2_ipVidMcastAddr_add :: "rtk_l2_ipVidMcastAddr_t option \<Rightarrow> ('d gsw, rtk_l2_ipVidMcastAddr_t) drv" where
  "rtk_l2_ipVidMcastAddr_add pIpVidMcastAddr =
     thenE RTK_CHK_INIT_STATE
     (bindE (not_nullE RT_ERR_NULL_POINTER pIpVidMcastAddr) (\<lambda>d.
      thenE (RTK_CHK_PORTMASK_VALID (Some (ivm_portmask d)))
      (if ivm_vid d > 0xFFF then errE RT_ERR_L2_VID
       else thenE (chk_dip (ivm_dip d))
         (bindE (rtk_switch_portmask_L2P_get (Some (ivm_portmask d)) PTR) (\<lambda>pmask.
          bindE (lut_add (ivm_key d) (\<lambda>l2Table. okE (ivm_fill d pmask l2Table))) (\<lambda>address.
            okE (d\<lparr>ivm_address := address\<rparr>)))))))"

definition rtk_l2_ipVidMcastAddr_get :: "rtk_l2_ipVidMcastAddr_t option \<Rightarrow> ('d gsw, rtk_l2_ipVidMcastAddr_t) drv" where
  "rtk_l2_ipVidMcastAddr_get pIpVidMcastAddr =
     thenE RTK_CHK_INIT_STATE
     (bindE (not_nullE RT_ERR_NULL_POINTER pIpVidMcastAddr) (\<lambda>d.
      if ivm_vid d > 0xFFF then errE RT_ERR_L2_VID
      else thenE (chk_dip (ivm_dip d))
        (bindE (rtl8367c_getAsicL2LookupTb LUTREADMETHOD_MAC (ivm_key d luttb_zero)) (\<lambda>l2Table.
         bindE (rtk_switch_portmask_P2L_get (ucast (lt_mbr l2Table)) PTR) (\<lambda>portmask.
           okE (d\<lparr>ivm_address := ucast (lt_address l2Table), ivm_portmask := portmask\<rparr>))))))"

definition rtk_l2_ipVidMcastAddr_next_get ::
  "u32 option \<Rightarrow> outptr \<Rightarrow> ('d gsw, u32 \<times> rtk_l2_ipVidMcastAddr_t) pdrv" where
  "rtk_l2_ipVidMcastAddr_next_get pAddress pIpVidMcastAddr =
     bindP (liftP (l3mc_next_checks pAddress pIpVidMcastAddr)) (\<lambda>address.
     bindP (l3mc_scan 0 address (luttb_zero\<lparr>lt_address := ucast address\<rparr>)) (\<lambda>l2Table.
       liftP (bindE (rtk_switch_portmask_P2L_get (ucast (lt_mbr l2Table)) PTR) (\<lambda>portmask.
         okE (ucast (lt_address l2Table),
              \<lparr>ivm_dip = lt_dip l2Table, ivm_sip = lt_sip l2Table, ivm_vid = ucast (lt_l3_vid l2Table),
               ivm_portmask = portmask, ivm_address = ucast (lt_address l2Table)\<rparr>)))))"

definition rtk_l2_ipVidMcastAddr_del :: "rtk_l2_ipVidMcastAddr_t option \<Rightarrow> ('d gsw, rtk_l2_ipVidMcastAddr_t) drv" where
  "rtk_l2_ipVidMcastAddr_del pIpVidMcastAddr =
     thenE RTK_CHK_INIT_STATE
     (bindE (not_nullE RT_ERR_NULL_POINTER pIpVidMcastAddr) (\<lambda>d.
      if ivm_vid d > 0xFFF then errE RT_ERR_L2_VID
      else thenE (chk_dip (ivm_dip d))
        (bindE (lut_del (ivm_key d) (ivm_wipe d)) (\<lambda>address. okE (d\<lparr>ivm_address := address\<rparr>)))))"

section \<open>Any entry by its address\<close>

definition at_no_l3 :: "rtk_l2_addr_table_t \<Rightarrow> rtl8367c_luttb \<Rightarrow> rtk_portmask_t \<Rightarrow> rtk_l2_addr_table_t" where
  "at_no_l3 d l portmask = d\<lparr>at_sip := 0, at_dip := 0, at_mac := lt_mac l, at_is_ipmul := ucast (lt_l3lookup l),
     at_is_static := ucast (lt_nosalearn l), at_portmask := portmask, at_ivl := ucast (lt_ivl_svl l),
     at_auth := ucast (lt_auth l), at_sa_block := ucast (lt_sa_block l), at_is_ipvidmul := 0, at_l3_vid := 0\<rparr>"

definition rtk_l2_entry_get :: "rtk_l2_addr_table_t option \<Rightarrow> ('d gsw, rtk_l2_addr_table_t) drv" where
  "rtk_l2_entry_get pL2_entry =
     thenE RTK_CHK_INIT_STATE
     (bindE (derefE pL2_entry) (\<lambda>d.
      bindE rtk_switch_maxLutAddrNumber_get (\<lambda>n.
      if at_index d \<ge> n then errE RT_ERR_INPUT
      else
        bindE (rtl8367c_getAsicL2LookupTb LUTREADMETHOD_ADDRESS (luttb_zero\<lparr>lt_address := ucast (at_index d)\<rparr>)) (\<lambda>l.
        if at_index d > 0x800 \<and> lt_lookup_hit l = 0 then errE RT_ERR_L2_EMPTY_ENTRY
        else if lt_l3lookup l \<noteq> 0 then
          bindE (rtk_switch_portmask_P2L_get (ucast (lt_mbr l)) PTR) (\<lambda>portmask.
            okE (d\<lparr>at_mac := replicate 6 0, at_is_ipmul := ucast (lt_l3lookup l), at_sip := lt_sip l, at_dip := lt_dip l,
                   at_is_static := ucast (lt_nosalearn l), at_portmask := portmask, at_fid := 0, at_age := 0,
                   at_auth := 0, at_sa_block := 0, at_is_ipvidmul := (if lt_l3vidlookup l \<noteq> 0 then 1 else 0),
                   at_l3_vid := (if lt_l3vidlookup l \<noteq> 0 then ucast (lt_l3_vid l) else 0)\<rparr>))
        else if lt_mac l ! 0 AND 0x01 \<noteq> 0 then
          bindE (rtk_switch_portmask_P2L_get (ucast (lt_mbr l)) PTR) (\<lambda>portmask.
            okE ((at_no_l3 d l portmask)\<lparr>at_cvid := (if lt_ivl_svl l = 1 then ucast (lt_cvid_fid l) else 0),
                   at_fid := (if lt_ivl_svl l = 1 then 0 else ucast (lt_cvid_fid l)), at_age := 0\<rparr>))
        else if lt_age l \<noteq> 0 \<or> lt_nosalearn l = 1 then
          bindE (rtk_switch_portmask_P2L_get (push_bit (unat (lt_spa l)) 1) PTR) (\<lambda>portmask.
            okE ((at_no_l3 d l portmask)\<lparr>at_cvid := ucast (lt_cvid_fid l), at_fid := ucast (lt_fid l),
                   at_age := ucast (lt_age l)\<rparr>))
        else errE RT_ERR_L2_EMPTY_ENTRY))))"

section \<open>Flushing\<close>

definition flush_type :: "rtk_l2_flushCfg_t \<Rightarrow> u32" where
  "flush_type c = (if fl_flushStaticAddr c = ENABLED then FLUSHTYPE_BOTH else FLUSHTYPE_DYNAMIC)"

definition flush_port :: "rtk_l2_flushCfg_t \<Rightarrow> ('d gsw, unit) drv" where
  "flush_port c = bindE (rtk_switch_port_L2P_get (fl_port c)) (\<lambda>phy. rtl8367c_setAsicLutForceFlush (push_bit (unat phy) 1))"

text \<open>The ports whose entries of a VLAN or database are removed.\<close>

definition flush_scope :: "rtk_l2_flushCfg_t \<Rightarrow> ('d gsw, unit) drv" where
  "flush_scope c =
     (if fl_flushAddrOnAllPorts c = ENABLED then rtl8367c_setAsicLutForceFlush RTL8367C_PORTMASK
      else if fl_flushByPort c = ENABLED then flush_port c
      else errE RT_ERR_INPUT)"

definition rtk_l2_ucastAddr_flush :: "rtk_l2_flushCfg_t option \<Rightarrow> ('d gsw, unit) drv" where
  "rtk_l2_ucastAddr_flush pConfig =
     thenE RTK_CHK_INIT_STATE
     (bindE (not_nullE RT_ERR_NULL_POINTER pConfig) (\<lambda>c.
      if fl_flushByVid c \<ge> RTK_ENABLE_END then errE RT_ERR_ENABLE
      else if fl_flushByFid c \<ge> RTK_ENABLE_END then errE RT_ERR_ENABLE
      else if fl_flushByPort c \<ge> RTK_ENABLE_END then errE RT_ERR_ENABLE
      else if fl_flushByMac c \<ge> RTK_ENABLE_END then errE RT_ERR_ENABLE
      else if fl_flushStaticAddr c \<ge> RTK_ENABLE_END then errE RT_ERR_ENABLE
      else if fl_flushAddrOnAllPorts c \<ge> RTK_ENABLE_END then errE RT_ERR_ENABLE
      else if fl_vid c > 0xFFF then errE RT_ERR_VLAN_VID
      else if fl_fid c > RTL8367C_FIDMAX then errE RT_ERR_INPUT
      else thenE (RTK_CHK_PORT_VALID (fl_port c))
        (if fl_flushByVid c = ENABLED then
           thenE (rtl8367c_setAsicLutFlushMode FLUSHMDOE_VID)
           (thenE (rtl8367c_setAsicLutFlushVid (fl_vid c))
           (thenE (rtl8367c_setAsicLutFlushType (flush_type c)) (flush_scope c)))
         else if fl_flushByFid c = ENABLED then
           thenE (rtl8367c_setAsicLutFlushMode FLUSHMDOE_FID)
           (thenE (rtl8367c_setAsicLutFlushFid (fl_fid c))
           (thenE (rtl8367c_setAsicLutFlushType (flush_type c)) (flush_scope c)))
         else if fl_flushByPort c = ENABLED then
           thenE (rtl8367c_setAsicLutFlushType (flush_type c))
           (thenE (rtl8367c_setAsicLutFlushMode FLUSHMDOE_PORT) (flush_port c))
         else if fl_flushByMac c = ENABLED then errE RT_ERR_CHIP_NOT_SUPPORTED
         else errE RT_ERR_INPUT)))"

definition rtk_l2_table_clear :: "('d gsw, unit) drv" where
  "rtk_l2_table_clear = thenE RTK_CHK_INIT_STATE rtl8367c_setAsicLutFlushAll"

definition rtk_l2_table_clearStatus_get :: "outptr \<Rightarrow> ('d gsw, u32) drv" where
  "rtk_l2_table_clearStatus_get pStatus =
     thenE RTK_CHK_INIT_STATE (thenE (not_null pStatus) (rtl8367c_getAsicLutFlushAllStatus pStatus))"

definition rtk_l2_flushLinkDownPortAddrEnable_set :: "rtk_port_t \<Rightarrow> rtk_enable_t \<Rightarrow> ('d gsw, unit) drv" where
  "rtk_l2_flushLinkDownPortAddrEnable_set port enable =
     thenE RTK_CHK_INIT_STATE
     (if port \<noteq> RTK_WHOLE_SYSTEM then errE RT_ERR_PORT_ID
      else if enable \<ge> RTK_ENABLE_END then errE RT_ERR_ENABLE
      else rtl8367c_setAsicLutLinkDownForceAging enable)"

definition rtk_l2_flushLinkDownPortAddrEnable_get :: "rtk_port_t \<Rightarrow> outptr \<Rightarrow> ('d gsw, rtk_enable_t) drv" where
  "rtk_l2_flushLinkDownPortAddrEnable_get port pEnable =
     thenE RTK_CHK_INIT_STATE
     (if port \<noteq> RTK_WHOLE_SYSTEM then errE RT_ERR_PORT_ID
      else thenE (not_null pEnable) rtl8367c_getAsicLutLinkDownForceAging)"

section \<open>Ageing and learning limits\<close>

definition rtk_l2_agingEnable_set :: "rtk_port_t \<Rightarrow> rtk_enable_t \<Rightarrow> ('d gsw, unit) drv" where
  "rtk_l2_agingEnable_set port enable =
     thenE RTK_CHK_INIT_STATE
     (thenE (RTK_CHK_PORT_VALID port)
     (if enable \<ge> RTK_ENABLE_END then errE RT_ERR_ENABLE
      else bindE (rtk_switch_port_L2P_get port) (\<lambda>phy.
        rtl8367c_setAsicLutDisableAging phy (if enable = 1 then 0 else 1))))"

definition rtk_l2_agingEnable_get :: "rtk_port_t \<Rightarrow> outptr \<Rightarrow> ('d gsw, rtk_enable_t) drv" where
  "rtk_l2_agingEnable_get port pEnable =
     thenE RTK_CHK_INIT_STATE
     (thenE (RTK_CHK_PORT_VALID port)
     (thenE (not_null pEnable)
     (bindE (rtk_switch_port_L2P_get port) (\<lambda>phy.
      bindE (rtl8367c_getAsicLutDisableAging phy) (\<lambda>disabled. okE (if disabled = 1 then 0 else 1))))))"

definition rtk_l2_limitLearningCnt_set :: "rtk_port_t \<Rightarrow> u32 \<Rightarrow> ('d gsw, unit) drv" where
  "rtk_l2_limitLearningCnt_set port mac_cnt =
     thenE RTK_CHK_INIT_STATE
     (thenE (RTK_CHK_PORT_VALID port)
     (bindE rtk_switch_maxLutAddrNumber_get (\<lambda>n.
      if mac_cnt > n then errE RT_ERR_LIMITED_L2ENTRY_NUM
      else bindE (rtk_switch_port_L2P_get port) (\<lambda>phy. rtl8367c_setAsicLutLearnLimitNo phy mac_cnt))))"

definition rtk_l2_limitLearningCnt_get :: "rtk_port_t \<Rightarrow> outptr \<Rightarrow> ('d gsw, u32) drv" where
  "rtk_l2_limitLearningCnt_get port pMac_cnt =
     thenE RTK_CHK_INIT_STATE
     (thenE (RTK_CHK_PORT_VALID port)
     (thenE (not_null pMac_cnt)
     (bindE (rtk_switch_port_L2P_get port) rtl8367c_getAsicLutLearnLimitNo)))"

definition rtk_l2_limitSystemLearningCnt_set :: "u32 \<Rightarrow> ('d gsw, unit) drv" where
  "rtk_l2_limitSystemLearningCnt_set mac_cnt =
     thenE RTK_CHK_INIT_STATE
     (bindE rtk_switch_maxLutAddrNumber_get (\<lambda>n.
      if mac_cnt > n then errE RT_ERR_LIMITED_L2ENTRY_NUM else rtl8367c_setAsicSystemLutLearnLimitNo mac_cnt))"

definition rtk_l2_limitSystemLearningCnt_get :: "outptr \<Rightarrow> ('d gsw, u32) drv" where
  "rtk_l2_limitSystemLearningCnt_get pMac_cnt =
     thenE RTK_CHK_INIT_STATE (thenE (not_null pMac_cnt) (rtl8367c_getAsicSystemLutLearnLimitNo pMac_cnt))"

text \<open>The numbers of an action in the API and in the chip.\<close>

definition limit_action :: "u32 \<Rightarrow> ('s, u32) drv" where
  "limit_action action =
     (if LIMIT_LEARN_CNT_ACTION_DROP = action then okE 1
      else if LIMIT_LEARN_CNT_ACTION_FORWARD = action then okE 0
      else if LIMIT_LEARN_CNT_ACTION_TO_CPU = action then okE 2
      else errE RT_ERR_NOT_ALLOWED)"

definition limit_action_of :: "u32 \<Rightarrow> u32" where
  "limit_action_of action =
     (if 1 = action then LIMIT_LEARN_CNT_ACTION_DROP
      else if 0 = action then LIMIT_LEARN_CNT_ACTION_FORWARD
      else if 2 = action then LIMIT_LEARN_CNT_ACTION_TO_CPU
      else action)"

definition rtk_l2_limitLearningCntAction_set :: "rtk_port_t \<Rightarrow> u32 \<Rightarrow> ('d gsw, unit) drv" where
  "rtk_l2_limitLearningCntAction_set port action =
     thenE RTK_CHK_INIT_STATE
     (if port \<noteq> RTK_WHOLE_SYSTEM then errE RT_ERR_PORT_ID
      else bindE (limit_action action) rtl8367c_setAsicLutLearnOverAct)"

definition rtk_l2_limitLearningCntAction_get :: "rtk_port_t \<Rightarrow> outptr \<Rightarrow> ('d gsw, u32) drv" where
  "rtk_l2_limitLearningCntAction_get port pAction =
     thenE RTK_CHK_INIT_STATE
     (if port \<noteq> RTK_WHOLE_SYSTEM then errE RT_ERR_PORT_ID
      else thenE (not_null pAction) (bindE rtl8367c_getAsicLutLearnOverAct (\<lambda>action. okE (limit_action_of action))))"

definition rtk_l2_limitSystemLearningCntAction_set :: "u32 \<Rightarrow> ('d gsw, unit) drv" where
  "rtk_l2_limitSystemLearningCntAction_set action =
     thenE RTK_CHK_INIT_STATE (bindE (limit_action action) rtl8367c_setAsicSystemLutLearnOverAct)"

definition rtk_l2_limitSystemLearningCntAction_get :: "outptr \<Rightarrow> ('d gsw, u32) drv" where
  "rtk_l2_limitSystemLearningCntAction_get pAction =
     thenE RTK_CHK_INIT_STATE
     (thenE (not_null pAction)
     (bindE (rtl8367c_getAsicSystemLutLearnOverAct PTR) (\<lambda>action. okE (limit_action_of action))))"

definition rtk_l2_limitSystemLearningCntPortMask_set :: "rtk_portmask_t option \<Rightarrow> ('d gsw, unit) drv" where
  "rtk_l2_limitSystemLearningCntPortMask_set pPortmask =
     thenE RTK_CHK_INIT_STATE
     (bindE (not_nullE RT_ERR_NULL_POINTER pPortmask) (\<lambda>_.
      thenE (RTK_CHK_PORTMASK_VALID pPortmask)
      (bindE (rtk_switch_portmask_L2P_get pPortmask PTR) rtl8367c_setAsicSystemLutLearnPortMask)))"

definition rtk_l2_limitSystemLearningCntPortMask_get :: "outptr \<Rightarrow> ('d gsw, rtk_portmask_t) drv" where
  "rtk_l2_limitSystemLearningCntPortMask_get pPortmask =
     thenE RTK_CHK_INIT_STATE
     (thenE (not_null pPortmask)
     (bindE (rtl8367c_getAsicSystemLutLearnPortMask PTR) (\<lambda>pmask. rtk_switch_portmask_P2L_get pmask pPortmask)))"

definition rtk_l2_learningCnt_get :: "rtk_port_t \<Rightarrow> outptr \<Rightarrow> ('d gsw, u32) drv" where
  "rtk_l2_learningCnt_get port pMac_cnt =
     thenE RTK_CHK_INIT_STATE
     (thenE (RTK_CHK_PORT_VALID port)
     (thenE (not_null pMac_cnt)
     (bindE (rtk_switch_port_L2P_get port) rtl8367c_getAsicLutLearnNo)))"

text \<open>
  The ageing times the chip can be set to, in seconds, with the speed and the timer value.
\<close>

definition agePara :: "(u32 \<times> u32 \<times> u32) list" where
  "agePara = [(45, 0, 1), (88, 0, 2), (133, 0, 3), (177, 0, 4), (221, 0, 5), (266, 0, 6), (310, 0, 7),
     (354, 2, 6), (413, 2, 7), (458, 3, 7)]"

definition rtk_l2_aging_set :: "u32 \<Rightarrow> ('d gsw, unit) drv" where
  "rtk_l2_aging_set aging_time =
     thenE RTK_CHK_INIT_STATE
     (if aging_time > fst (agePara ! 9) then errE RT_ERR_OUT_OF_RANGE
      else case find (\<lambda>(t, speed, timer). aging_time \<le> t) agePara of
        Some (t, speed, timer) \<Rightarrow> rtl8367c_setAsicLutAgeTimerSpeed timer speed
      | None \<Rightarrow> errE RT_ERR_FAILED)"

definition rtk_l2_aging_get :: "outptr \<Rightarrow> ('d gsw, u32) drv" where
  "rtk_l2_aging_get pAging_time =
     thenE RTK_CHK_INIT_STATE
     (thenE (not_null pAging_time)
     (bindE rtl8367c_getAsicLutAgeTimerSpeed (\<lambda>(tmr, spd).
      case find (\<lambda>(t, speed, timer). tmr = timer \<and> spd = speed) agePara of
        Some (t, speed, timer) \<Rightarrow> okE t
      | None \<Rightarrow> errE RT_ERR_FAILED)))"

section \<open>Flooding\<close>

abbreviation (input) RTL8367C_UNUCAST_FLOADING_PMSK_REG :: u32 where "RTL8367C_UNUCAST_FLOADING_PMSK_REG \<equiv> 0x890"
abbreviation (input) RTL8367C_UNMCAST_FLOADING_PMSK_REG :: u32 where "RTL8367C_UNMCAST_FLOADING_PMSK_REG \<equiv> 0x891"
abbreviation (input) RTL8367C_BCAST_FLOADING_PMSK_REG :: u32 where "RTL8367C_BCAST_FLOADING_PMSK_REG \<equiv> 0x892"
abbreviation (input) RTL8367C_SOURCE_PORT_BLOCK_REG :: u32 where "RTL8367C_SOURCE_PORT_BLOCK_REG \<equiv> 0x8C5"
abbreviation (input) RTL8367C_PORTNO :: u32 where "RTL8367C_PORTNO \<equiv> 11"

definition rtl8367c_setAsicPortUnknownDaFloodingPortmask :: "u32 \<Rightarrow> ('d gsw, unit) drv" where
  "rtl8367c_setAsicPortUnknownDaFloodingPortmask portmask =
     (if portmask > RTL8367C_PORTMASK then errE RT_ERR_PORT_MASK
      else rtl8367c_setAsicReg RTL8367C_UNUCAST_FLOADING_PMSK_REG portmask)"

definition rtl8367c_getAsicPortUnknownDaFloodingPortmask :: "('d gsw, u32) drv" where
  "rtl8367c_getAsicPortUnknownDaFloodingPortmask = rtl8367c_getAsicReg RTL8367C_UNUCAST_FLOADING_PMSK_REG"

definition rtl8367c_setAsicPortUnknownMulticastFloodingPortmask :: "u32 \<Rightarrow> ('d gsw, unit) drv" where
  "rtl8367c_setAsicPortUnknownMulticastFloodingPortmask portmask =
     (if portmask > RTL8367C_PORTMASK then errE RT_ERR_PORT_MASK
      else rtl8367c_setAsicReg RTL8367C_UNMCAST_FLOADING_PMSK_REG portmask)"

definition rtl8367c_getAsicPortUnknownMulticastFloodingPortmask :: "('d gsw, u32) drv" where
  "rtl8367c_getAsicPortUnknownMulticastFloodingPortmask = rtl8367c_getAsicReg RTL8367C_UNMCAST_FLOADING_PMSK_REG"

definition rtl8367c_setAsicPortBcastFloodingPortmask :: "u32 \<Rightarrow> ('d gsw, unit) drv" where
  "rtl8367c_setAsicPortBcastFloodingPortmask portmask =
     (if portmask > RTL8367C_PORTMASK then errE RT_ERR_PORT_MASK
      else rtl8367c_setAsicReg RTL8367C_BCAST_FLOADING_PMSK_REG portmask)"

definition rtl8367c_getAsicPortBcastFloodingPortmask :: "('d gsw, u32) drv" where
  "rtl8367c_getAsicPortBcastFloodingPortmask = rtl8367c_getAsicReg RTL8367C_BCAST_FLOADING_PMSK_REG"

definition rtl8367c_setAsicPortBlockSpa :: "u32 \<Rightarrow> u32 \<Rightarrow> ('d gsw, unit) drv" where
  "rtl8367c_setAsicPortBlockSpa port permit =
     (if port \<ge> RTL8367C_PORTNO then errE RT_ERR_PORT_ID
      else rtl8367c_setAsicRegBit RTL8367C_SOURCE_PORT_BLOCK_REG port permit)"

definition rtl8367c_getAsicPortBlockSpa :: "u32 \<Rightarrow> ('d gsw, u32) drv" where
  "rtl8367c_getAsicPortBlockSpa port =
     (if port \<ge> RTL8367C_PORTNO then errE RT_ERR_PORT_ID
      else rtl8367c_getAsicRegBit RTL8367C_SOURCE_PORT_BLOCK_REG port)"

definition rtk_l2_floodPortMask_set :: "u32 \<Rightarrow> rtk_portmask_t option \<Rightarrow> ('d gsw, unit) drv" where
  "rtk_l2_floodPortMask_set floood_type pFlood_portmask =
     thenE RTK_CHK_INIT_STATE
     (if floood_type \<ge> FLOOD_END then errE RT_ERR_INPUT
      else thenE (RTK_CHK_PORTMASK_VALID pFlood_portmask)
        (bindE (rtk_switch_portmask_L2P_get pFlood_portmask PTR) (\<lambda>pmask.
          if floood_type = FLOOD_UNKNOWNDA then rtl8367c_setAsicPortUnknownDaFloodingPortmask pmask
          else if floood_type = FLOOD_UNKNOWNMC then rtl8367c_setAsicPortUnknownMulticastFloodingPortmask pmask
          else rtl8367c_setAsicPortBcastFloodingPortmask pmask)))"

definition rtk_l2_floodPortMask_get :: "u32 \<Rightarrow> outptr \<Rightarrow> ('d gsw, rtk_portmask_t) drv" where
  "rtk_l2_floodPortMask_get floood_type pFlood_portmask =
     thenE RTK_CHK_INIT_STATE
     (if floood_type \<ge> FLOOD_END then errE RT_ERR_INPUT
      else thenE (not_null pFlood_portmask)
        (bindE (if floood_type = FLOOD_UNKNOWNDA then rtl8367c_getAsicPortUnknownDaFloodingPortmask
                else if floood_type = FLOOD_UNKNOWNMC then rtl8367c_getAsicPortUnknownMulticastFloodingPortmask
                else rtl8367c_getAsicPortBcastFloodingPortmask) (\<lambda>pmask.
          rtk_switch_portmask_P2L_get pmask pFlood_portmask)))"

definition rtk_l2_localPktPermit_set :: "rtk_port_t \<Rightarrow> rtk_enable_t \<Rightarrow> ('d gsw, unit) drv" where
  "rtk_l2_localPktPermit_set port permit =
     thenE RTK_CHK_INIT_STATE
     (thenE (RTK_CHK_PORT_VALID port)
     (if permit \<ge> RTK_ENABLE_END then errE RT_ERR_ENABLE
      else bindE (rtk_switch_port_L2P_get port) (\<lambda>phy. rtl8367c_setAsicPortBlockSpa phy permit)))"

definition rtk_l2_localPktPermit_get :: "rtk_port_t \<Rightarrow> outptr \<Rightarrow> ('d gsw, rtk_enable_t) drv" where
  "rtk_l2_localPktPermit_get port pPermit =
     thenE RTK_CHK_INIT_STATE
     (thenE (RTK_CHK_PORT_VALID port)
     (thenE (not_null pPermit)
     (bindE (rtk_switch_port_L2P_get port) rtl8367c_getAsicPortBlockSpa)))"

section \<open>Looking up IP multicast\<close>

definition rtk_l2_ipMcastAddrLookup_set :: "u32 \<Rightarrow> ('d gsw, unit) drv" where
  "rtk_l2_ipMcastAddrLookup_set type =
     thenE RTK_CHK_INIT_STATE
     (if type = LOOKUP_MAC then rtl8367c_setAsicLutIpMulticastLookup DISABLED
      else if type = LOOKUP_IP then
        thenE (rtl8367c_setAsicLutIpMulticastLookup ENABLED)
        (thenE (rtl8367c_setAsicLutIpMulticastVidLookup DISABLED) (rtl8367c_setAsicLutIpLookupMethod 1))
      else if type = LOOKUP_IP_VID then
        thenE (rtl8367c_setAsicLutIpMulticastLookup ENABLED)
        (thenE (rtl8367c_setAsicLutIpMulticastVidLookup ENABLED) (rtl8367c_setAsicLutIpLookupMethod 1))
      else errE RT_ERR_INPUT)"

definition rtk_l2_ipMcastAddrLookup_get :: "outptr \<Rightarrow> ('d gsw, u32) drv" where
  "rtk_l2_ipMcastAddrLookup_get pType =
     thenE RTK_CHK_INIT_STATE
     (thenE (not_null pType)
     (bindE rtl8367c_getAsicLutIpMulticastLookup (\<lambda>enabled.
      bindE rtl8367c_getAsicLutIpMulticastVidLookup (\<lambda>vid_lookup.
        okE (if enabled = ENABLED then (if vid_lookup = ENABLED then LOOKUP_IP_VID else LOOKUP_IP) else LOOKUP_MAC)))))"

definition rtk_l2_ipMcastForwardRouterPort_set :: "rtk_enable_t \<Rightarrow> ('d gsw, unit) drv" where
  "rtk_l2_ipMcastForwardRouterPort_set enabled =
     thenE RTK_CHK_INIT_STATE
     (if enabled \<ge> RTK_ENABLE_END then errE RT_ERR_ENABLE else rtl8367c_setAsicLutIpmcFwdRouterPort enabled)"

definition rtk_l2_ipMcastForwardRouterPort_get :: "outptr \<Rightarrow> ('d gsw, rtk_enable_t) drv" where
  "rtk_l2_ipMcastForwardRouterPort_get pEnabled =
     thenE RTK_CHK_INIT_STATE (thenE (not_null pEnabled) (rtl8367c_getAsicLutIpmcFwdRouterPort pEnabled))"

section \<open>IP multicast groups\<close>

definition ipmc_indices :: "u32 list" where
  "ipmc_indices = map of_nat [0..<64]"

text \<open>
  The loop that looks for a group and remembers the first unused entry in \<open>empty_idx\<close>, with the code
  after it.
\<close>

primrec ipmc_add_scan :: "u32 \<Rightarrow> u32 \<Rightarrow> u32 \<Rightarrow> u32 list \<Rightarrow> u32 \<Rightarrow> ('d gsw, unit) drv" where
  "ipmc_add_scan ip_addr vid physicalPortmask [] empty_idx =
     (if empty_idx = 0xFFFF then errE RT_ERR_TBL_FULL
      else rtl8367c_setAsicLutIPMCGroup empty_idx ip_addr vid physicalPortmask ENABLED)"
| "ipmc_add_scan ip_addr vid physicalPortmask (index # is) empty_idx =
     bindE (rtl8367c_getAsicLutIPMCGroup index PTR PTR PTR) (\<lambda>(group_addr, group_vid, pmask, valid).
       if valid = ENABLED \<and> group_addr = ip_addr \<and> group_vid = vid then
         (if pmask \<noteq> physicalPortmask then rtl8367c_setAsicLutIPMCGroup index ip_addr vid physicalPortmask valid else okE ())
       else ipmc_add_scan ip_addr vid physicalPortmask is
              (if valid = DISABLED \<and> empty_idx = 0xFFFF then index else empty_idx))"

text \<open>The loop of the other two functions: what is done at the group's entry is \<open>found\<close>.\<close>

primrec ipmc_find :: "u32 \<Rightarrow> u32 \<Rightarrow> (u32 \<Rightarrow> u32 \<Rightarrow> ('d gsw, 'a) drv) \<Rightarrow> u32 list \<Rightarrow> ('d gsw, 'a) drv" where
  "ipmc_find ip_addr vid found [] = errE RT_ERR_FAILED"
| "ipmc_find ip_addr vid found (index # is) =
     bindE (rtl8367c_getAsicLutIPMCGroup index PTR PTR PTR) (\<lambda>(group_addr, group_vid, pmask, valid).
       if valid = ENABLED \<and> group_addr = ip_addr \<and> group_vid = vid then found index pmask
       else ipmc_find ip_addr vid found is)"

definition rtk_l2_ipMcastGroupEntry_add :: "u32 \<Rightarrow> u32 \<Rightarrow> rtk_portmask_t option \<Rightarrow> ('d gsw, unit) drv" where
  "rtk_l2_ipMcastGroupEntry_add ip_addr vid pPortmask =
     thenE RTK_CHK_INIT_STATE
     (if vid > 0xFFF then errE RT_ERR_L2_VID
      else bindE (not_nullE RT_ERR_NULL_POINTER pPortmask) (\<lambda>_.
        thenE (chk_dip ip_addr)
        (bindE (rtk_switch_portmask_L2P_get pPortmask PTR) (\<lambda>physicalPortmask.
          ipmc_add_scan ip_addr vid physicalPortmask ipmc_indices 0xFFFF))))"

definition rtk_l2_ipMcastGroupEntry_del :: "u32 \<Rightarrow> u32 \<Rightarrow> ('d gsw, unit) drv" where
  "rtk_l2_ipMcastGroupEntry_del ip_addr vid =
     thenE RTK_CHK_INIT_STATE
     (if vid > 0xFFF then errE RT_ERR_L2_VID
      else thenE (chk_dip ip_addr)
        (ipmc_find ip_addr vid (\<lambda>index _. rtl8367c_setAsicLutIPMCGroup index 0xE0000000 0 0 DISABLED) ipmc_indices))"

definition rtk_l2_ipMcastGroupEntry_get :: "u32 \<Rightarrow> u32 \<Rightarrow> outptr \<Rightarrow> ('d gsw, rtk_portmask_t) drv" where
  "rtk_l2_ipMcastGroupEntry_get ip_addr vid pPortmask =
     thenE RTK_CHK_INIT_STATE
     (thenE (chk_dip ip_addr)
     (if vid > 0xFFF then errE RT_ERR_L2_VID
      else thenE (not_null pPortmask)
        (ipmc_find ip_addr vid (\<lambda>_ pmask. rtk_switch_portmask_P2L_get pmask pPortmask) ipmc_indices)))"

end
