(* ===== verification/Lut_Spec.thy ===== *)
theory Lut_Spec
  imports Lut Phy
begin

text \<open>
  What the driver relies on from the lookup table of the chip, and what the two table commands do
  on a chip that keeps the contract.  The table is a memory of six-word entries.  Where an entry goes is
  the chip's choice: it hashes a part of the entry, the key, which the contract leaves open, and may give
  an entry the place of a dynamic one, as the comments of \<open>l2.c\<close> say.
\<close>

section \<open>The words of an entry\<close>

definition lut_l3 :: "u16 list \<Rightarrow> bool" where
  "lut_l3 w \<longleftrightarrow> bit (w ! 3) 12"

definition lut_l3vid :: "u16 list \<Rightarrow> bool" where
  "lut_l3vid w \<longleftrightarrow> lut_l3 w \<and> bit (w ! 3) 13"

definition lut_mc :: "u16 list \<Rightarrow> bool" where
  "lut_mc w \<longleftrightarrow> \<not> lut_l3 w \<and> bit (w ! 2) 8"

definition lut_uc :: "u16 list \<Rightarrow> bool" where
  "lut_uc w \<longleftrightarrow> \<not> lut_l3 w \<and> \<not> bit (w ! 2) 8"

definition lut_static :: "u16 list \<Rightarrow> bool" where
  "lut_static w \<longleftrightarrow> bit (w ! 5) 5"

text \<open>An entry that the chip has learned may make room for another one.\<close>

definition lut_dynamic :: "u16 list \<Rightarrow> bool" where
  "lut_dynamic w \<longleftrightarrow> lut_uc w \<and> \<not> lut_static w"

text \<open>
  Writing an entry that is not static and has no age (unicast) or no member (multicast) removes it.
\<close>

definition lut_live :: "u16 list \<Rightarrow> bool" where
  "lut_live w \<longleftrightarrow> lut_static w \<or>
     (if lut_uc w then w ! 4 AND 0x3800 \<noteq> 0
      else w ! 4 AND 0x00FF \<noteq> 0 \<or> w ! 3 AND 0xC000 \<noteq> 0 \<or> w ! 5 AND 0x0080 \<noteq> 0)"

text \<open>
  The fields that the driver fills in for a lookup: the addresses, the VLAN or database of the entry,
  and for unicast entries the filtering databases.
\<close>

definition key_fields :: "u16 list \<Rightarrow> u16 list" where
  "key_fields w = take 3 w @ [w ! 3 AND 0x3FFF] @
     (if lut_l3vid w then [w ! 4 AND 0xFF00, w ! 5 AND 0x000F]
      else if lut_uc w then [w ! 4 AND 0x007F] else [])"

section \<open>The contract\<close>

record lut_view =
  lv_addr :: u16
  lv_wr :: "nat \<Rightarrow> u16"
  lv_mem :: "nat \<Rightarrow> u16 list option"
  lv_hit :: bool
  lv_found :: nat
  lv_rd :: "nat \<Rightarrow> u16"
  lv_busy :: nat

definition lut_words :: "lut_view \<Rightarrow> u16 list" where
  "lut_words v = map (lv_wr v) [0..<6]"

text \<open>
  A key is computed from the fields of a lookup, all of them or some, and tells entries of different
  kinds or addresses apart.
\<close>

definition lut_key :: "(u16 list \<Rightarrow> 'k) \<Rightarrow> bool" where
  "lut_key key \<longleftrightarrow>
     (\<forall>w w'. length w = 6 \<longrightarrow> length w' = 6 \<longrightarrow> key_fields w = key_fields w' \<longrightarrow> key w = key w') \<and>
     (\<forall>w w'. length w = 6 \<longrightarrow> length w' = 6 \<longrightarrow> key w = key w' \<longrightarrow> take 3 w = take 3 w' \<and> w ! 3 AND 0x3000 = w' ! 3 AND 0x3000)"

definition lut_has :: "(u16 list \<Rightarrow> 'k) \<Rightarrow> (nat \<Rightarrow> u16 list option) \<Rightarrow> 'k \<Rightarrow> nat \<Rightarrow> bool" where
  "lut_has key mem k a \<longleftrightarrow> (case mem a of None \<Rightarrow> False | Some e \<Rightarrow> key e = k)"

text \<open>The memory after the command to write \<open>w\<close>: the entry of the key is replaced; an entry with a new key
  takes a free place or that of a dynamic entry, or there is no place for it.\<close>

definition lut_written ::
  "(u16 list \<Rightarrow> 'k) \<Rightarrow> (nat \<Rightarrow> u16 list option) \<Rightarrow> u16 list \<Rightarrow> (nat \<Rightarrow> u16 list option) \<Rightarrow> bool \<Rightarrow> nat \<Rightarrow> bool" where
  "lut_written key mem w mem' hit a \<longleftrightarrow>
     (let stored = hit \<and> mem' = mem(a := if lut_live w then Some w else None)
      in if \<exists>b. lut_has key mem (key w) b then stored \<and> lut_has key mem (key w) a
         else (stored \<and> a < 2 ^ 13 \<and> (case mem a of None \<Rightarrow> True | Some e \<Rightarrow> lut_dynamic e)) \<or> mem' = mem)"

text \<open>The entry that a command to read finds.\<close>

definition lut_next :: "(nat \<Rightarrow> u16 list option) \<Rightarrow> (u16 list \<Rightarrow> bool) \<Rightarrow> nat \<Rightarrow> nat \<Rightarrow> bool" where
  "lut_next mem P lo a \<longleftrightarrow>
     (let S = {b. \<exists>e. mem b = Some e \<and> P e}
      in a \<in> S \<and> (if \<exists>b\<in>S. lo \<le> b then lo \<le> a \<and> (\<forall>b\<in>S. lo \<le> b \<longrightarrow> a \<le> b) else \<forall>b\<in>S. a \<le> b))"

definition lut_spa :: "u16 list \<Rightarrow> u32" where
  "lut_spa w = ucast (drop_bit 8 (w ! 4 AND 0x0700) OR push_bit 3 (drop_bit 15 (w ! 3 AND 0x8000)))"

definition lut_wanted :: "u32 \<Rightarrow> u32 \<Rightarrow> u16 list \<Rightarrow> bool" where
  "lut_wanted method spa w \<longleftrightarrow>
     (if method = LUTREADMETHOD_NEXT_L2UC then lut_uc w
      else if method = LUTREADMETHOD_NEXT_L2MC then lut_mc w
      else if method = LUTREADMETHOD_NEXT_L3MC then lut_l3 w
      else method = LUTREADMETHOD_NEXT_L2UCSPA \<and> lut_uc w \<and> lut_spa w = spa)"

definition lut_read :: "(u16 list \<Rightarrow> 'k) \<Rightarrow> u32 \<Rightarrow> u32 \<Rightarrow> lut_view \<Rightarrow> nat \<Rightarrow> bool" where
  "lut_read key method spa v a \<longleftrightarrow>
     (if method = LUTREADMETHOD_MAC then lut_has key (lv_mem v) (key (lut_words v)) a
      else lut_next (lv_mem v) (lut_wanted method spa) (unat (lv_addr v)) a)"

abbreviation (input) LUT_WRITE :: u32 where "LUT_WRITE \<equiv> 0xC"

definition lut_read_cmd :: "u32 \<Rightarrow> u32 \<Rightarrow> u32" where
  "lut_read_cmd method spa = push_bit 8 spa OR push_bit 4 method OR 4"

definition lut_methods :: "(u32 \<times> u32) set" where
  "lut_methods = {(m, s). m \<in> {LUTREADMETHOD_MAC, LUTREADMETHOD_NEXT_L2UC, LUTREADMETHOD_NEXT_L2MC, LUTREADMETHOD_NEXT_L3MC} \<and> s = 0
     \<or> m = LUTREADMETHOD_NEXT_L2UCSPA \<and> s \<le> 15}"

text \<open>The status register holds the address of the entry in three parts.\<close>

definition status_shows :: "u32 \<Rightarrow> nat \<Rightarrow> bool" where
  "status_shows r a \<longleftrightarrow> (\<forall>k \<le> 10. bit r k = bit a k) \<and> bit r 14 = bit a 11 \<and> bit r 11 = bit a 12"

definition lut_contract :: "'d mii_bus \<Rightarrow> ('d \<Rightarrow> lut_view) \<Rightarrow> (u16 list \<Rightarrow> 'k) \<Rightarrow> bool" where
  "lut_contract B view key \<longleftrightarrow>
     lut_key key \<and>
     \<comment> \<open>the registers a command works on\<close>
     (\<forall>d. \<forall>v \<le> 0xFFFF. view (mdio_wr B RTL8367C_TABLE_ACCESS_ADDR_REG v d) = (view d)\<lparr>lv_addr := ucast v\<rparr>) \<and>
     (\<forall>d. \<forall>v \<le> 0xFFFF. \<forall>i < 6. view (mdio_wr B (RTL8367C_TABLE_ACCESS_WRDATA_BASE + of_nat i) v d) =
        (view d)\<lparr>lv_wr := (lv_wr (view d))(i := ucast v)\<rparr>) \<and>
     \<comment> \<open>the command to write\<close>
     (\<forall>d. let v = view (mdio_wr B RTL8367C_TABLE_ACCESS_CTRL_REG LUT_WRITE d) in lv_busy v < 10 \<and>
        lut_written key (lv_mem (view d)) (lut_words (view d)) (lv_mem v) (lv_hit v) (lv_found v)) \<and>
     \<comment> \<open>the commands to read\<close>
     (\<forall>d. \<forall>(m, s) \<in> lut_methods. let v = view (mdio_wr B RTL8367C_TABLE_ACCESS_CTRL_REG (lut_read_cmd m s) d) in
        lv_busy v < 10 \<and> lv_mem v = lv_mem (view d) \<and> (lv_hit v \<longleftrightarrow> (\<exists>a. lut_read key m s (view d) a)) \<and>
        (lv_hit v \<longrightarrow> lut_read key m s (view d) (lv_found v) \<and> Some (map (lv_rd v) [0..<6]) = lv_mem v (lv_found v))) \<and>
     \<comment> \<open>the status register counts the busy time down and shows the result\<close>
     (\<forall>d. (bit (fst (mdio_rd B RTL8367C_TABLE_ACCESS_STATUS_REG d)) 13 \<longleftrightarrow> lv_busy (view d) > 0) \<and>
        view (snd (mdio_rd B RTL8367C_TABLE_ACCESS_STATUS_REG d)) = (view d)\<lparr>lv_busy := lv_busy (view d) - 1\<rparr> \<and>
        (lv_busy (view d) = 0 \<longrightarrow> (bit (fst (mdio_rd B RTL8367C_TABLE_ACCESS_STATUS_REG d)) 12 \<longleftrightarrow> lv_hit (view d)) \<and>
           (lv_hit (view d) \<longrightarrow> status_shows (fst (mdio_rd B RTL8367C_TABLE_ACCESS_STATUS_REG d)) (lv_found (view d))))) \<and>
     \<comment> \<open>the read-data registers show the entry\<close>
     (\<forall>d. \<forall>i < 6. lv_busy (view d) = 0 \<longrightarrow>
        fst (mdio_rd B (RTL8367C_TABLE_ACCESS_RDDATA_BASE + of_nat i) d) = ucast (lv_rd (view d) i) \<and>
        view (snd (mdio_rd B (RTL8367C_TABLE_ACCESS_RDDATA_BASE + of_nat i) d)) = view d)"

text \<open>
  A table is well formed if no two entries have the same key; it then stands for a finite map from keys to
  entries.
\<close>

definition lut_wf :: "(u16 list \<Rightarrow> 'k) \<Rightarrow> (nat \<Rightarrow> u16 list option) \<Rightarrow> bool" where
  "lut_wf key mem \<longleftrightarrow>
     (\<forall>a e. mem a = Some e \<longrightarrow> a < 2 ^ 13 \<and> length e = 6) \<and>
     (\<forall>a b e e'. mem a = Some e \<longrightarrow> mem b = Some e' \<longrightarrow> key e = key e' \<longrightarrow> a = b)"

definition lut_rep :: "(u16 list \<Rightarrow> 'k) \<Rightarrow> (nat \<Rightarrow> u16 list option) \<Rightarrow> ('k \<Rightarrow> u16 list option) \<Rightarrow> bool" where
  "lut_rep key mem M \<longleftrightarrow> (\<forall>k e. M k = Some e \<longleftrightarrow> (\<exists>a. mem a = Some e \<and> key e = k))"

text \<open>The driver on such a chip, with no command running longer than the driver polls.\<close>

definition lut_ok :: "('d \<Rightarrow> lut_view) \<Rightarrow> (u16 list \<Rightarrow> 'k) \<Rightarrow> (nat \<Rightarrow> u16 list option) \<Rightarrow> 'd gsw \<Rightarrow> bool" where
  "lut_ok view key mem s \<longleftrightarrow> lut_contract (gsw_bus s) view key \<and> lv_busy (view (gsw_dev s)) < 10 \<and>
     lv_mem (view (gsw_dev s)) = mem \<and> lut_wf key mem"

section \<open>The steps of a command\<close>

lemma unat_ucast_up:
  assumes "LENGTH('a) \<le> LENGTH('b)"
  shows "unat (ucast (x :: 'a :: len word) :: 'b :: len word) = unat x"
proof -
  have "unat x < 2 ^ LENGTH('a)" by (rule unsigned_less)
  also have "\<dots> \<le> 2 ^ LENGTH('b)" by (rule power_increasing [OF assms]) simp
  finally have "unat x < 2 ^ LENGTH('b)" .
  then show ?thesis by (simp add: unsigned_ucast_eq take_bit_nat_eq_self)
qed

lemma bit_value: "drop_bit n ((r :: u32) AND push_bit n 1) = of_bool (bit r n)" if "n < 32"
  by (rule bit_word_eqI) (use that in \<open>auto simp: bit_simps\<close>)

lemma getAsicRegBit_any:
  "a \<le> 0xFFFF \<Longrightarrow> unat n < 32 \<Longrightarrow> rtl8367c_getAsicRegBit a n s =
     (Ok (of_bool (bit (fst (mdio_rd (gsw_bus s) a (gsw_dev s))) (unat n))),
      s\<lparr>gsw_dev := snd (mdio_rd (gsw_bus s) a (gsw_dev s))\<rparr>)"
  by (simp add: rtl8367c_getAsicRegBit_def bindE_def mapErrE_def smi_read_run okE_def not_less bit_value del: push_bit_of_1 drop_bit_and)

lemma lut_status:
  assumes "lut_contract B view key"
  shows "bit (fst (mdio_rd B RTL8367C_TABLE_ACCESS_STATUS_REG d)) 13 \<longleftrightarrow> lv_busy (view d) > 0"
    and "view (snd (mdio_rd B RTL8367C_TABLE_ACCESS_STATUS_REG d)) = (view d)\<lparr>lv_busy := lv_busy (view d) - 1\<rparr>"
    and "lv_busy (view d) = 0 \<Longrightarrow> bit (fst (mdio_rd B RTL8367C_TABLE_ACCESS_STATUS_REG d)) 12 \<longleftrightarrow> lv_hit (view d)"
    and "lv_busy (view d) = 0 \<Longrightarrow> lv_hit (view d) \<Longrightarrow> status_shows (fst (mdio_rd B RTL8367C_TABLE_ACCESS_STATUS_REG d)) (lv_found (view d))"
  using assms unfolding lut_contract_def by blast+

lemma lut_poll_run:
  assumes "lut_contract (gsw_bus s) view key" and "lv_busy (view (gsw_dev s)) < n"
  shows "\<exists>d. busy_poll n s = (Ok (), s\<lparr>gsw_dev := d\<rparr>) \<and> view d = (view (gsw_dev s))\<lparr>lv_busy := 0\<rparr>"
  using assms
proof (induction n arbitrary: s)
  case (Suc n)
  let ?s = "s\<lparr>gsw_dev := snd (mdio_rd (gsw_bus s) RTL8367C_TABLE_ACCESS_STATUS_REG (gsw_dev s))\<rparr>"
  note st = lut_status [OF Suc.prems(1)]
  have rd: "rtl8367c_getAsicRegBit RTL8367C_TABLE_ACCESS_STATUS_REG RTL8367C_TABLE_LUT_ADDR_BUSY_FLAG_OFFSET s =
      (Ok (of_bool (lv_busy (view (gsw_dev s)) > 0)), ?s)"
    using st(1) by (simp add: getAsicRegBit_any)
  show ?case
  proof (cases "lv_busy (view (gsw_dev s)) = 0")
    case True
    with rd st(2) [of "gsw_dev s"] show ?thesis by (auto simp: bindE_def okE_def)
  next
    case False
    with Suc.prems st(2) [of "gsw_dev s"] have "lut_contract (gsw_bus ?s) view key" "lv_busy (view (gsw_dev ?s)) < n" by auto
    from Suc.IH [OF this] st(2) [of "gsw_dev s"] obtain d where
      "busy_poll n ?s = (Ok (), s\<lparr>gsw_dev := d\<rparr>)" "view d = (view (gsw_dev s))\<lparr>lv_busy := 0\<rparr>" by auto
    with rd False Suc.prems(2) show ?thesis by (auto simp: bindE_def)
  qed
qed simp

lemma lut_wait_run:
  assumes "lut_ok view key mem s" and "lt_wait_time l = 0"
  shows "\<exists>d. lut_busy_wait l s = (Ok (), s\<lparr>gsw_dev := d\<rparr>) \<and> view d = (view (gsw_dev s))\<lparr>lv_busy := 0\<rparr>"
  using assms lut_poll_run [of s view key 10] by (simp add: lut_ok_def lut_busy_wait_def)

lemma lut_data_reg:
  assumes "lut_contract B view key" and "i < 6" and "v \<le> 0xFFFF"
  shows "view (mdio_wr B (RTL8367C_TABLE_ACCESS_WRDATA_BASE + of_nat i) v d) = (view d)\<lparr>lv_wr := (lv_wr (view d))(i := ucast v)\<rparr>"
    and "RTL8367C_TABLE_ACCESS_WRDATA_BASE + of_nat i \<le> (0xFFFF :: u32)"
proof -
  show "view (mdio_wr B (RTL8367C_TABLE_ACCESS_WRDATA_BASE + of_nat i) v d) = (view d)\<lparr>lv_wr := (lv_wr (view d))(i := ucast v)\<rparr>"
    using assms unfolding lut_contract_def by blast
  show "RTL8367C_TABLE_ACCESS_WRDATA_BASE + of_nat i \<le> (0xFFFF :: u32)"
    using assms(2) by (simp add: word_le_nat_alt unat_word_ariths unat_of_nat)
qed

lemma lut_write_words_run:
  assumes "lut_contract (gsw_bus s) view key" and "set is \<subseteq> {..<6}"
  shows "\<exists>d f. forE is (\<lambda>i. rtl8367c_setAsicReg (RTL8367C_TABLE_ACCESS_WRDATA_BASE + of_nat i) (ucast (w ! i :: u16))) s =
       (Ok (), s\<lparr>gsw_dev := d\<rparr>) \<and>
     view d = (view (gsw_dev s))\<lparr>lv_wr := f\<rparr> \<and> (\<forall>i. f i = (if i \<in> set is then w ! i else lv_wr (view (gsw_dev s)) i))"
  using assms
proof (induction "is" arbitrary: s)
  case Nil
  show ?case by (intro exI [of _ "gsw_dev s"] exI [of _ "lv_wr (view (gsw_dev s))"]) (simp add: okE_def)
next
  case (Cons i "is")
  let ?v = "ucast (w ! i) :: u32" and ?wr = "\<lambda>i. rtl8367c_setAsicReg (RTL8367C_TABLE_ACCESS_WRDATA_BASE + of_nat i) (ucast (w ! i :: u16))"
  let ?s = "s\<lparr>gsw_dev := mdio_wr (gsw_bus s) (RTL8367C_TABLE_ACCESS_WRDATA_BASE + of_nat i) ?v (gsw_dev s)\<rparr>"
  have i: "i < 6" using Cons.prems(2) by simp
  have v: "?v \<le> 0xFFFF" "(ucast ?v :: u16) = w ! i" by simp_all
  note reg = lut_data_reg [OF Cons.prems(1) i v(1)]
  have "lut_contract (gsw_bus ?s) view key" "set is \<subseteq> {..<6}" using Cons.prems by simp_all
  from Cons.IH [OF this] obtain d f where d: "forE is ?wr ?s = (Ok (), ?s\<lparr>gsw_dev := d\<rparr>)"
    "view d = (view (gsw_dev ?s))\<lparr>lv_wr := f\<rparr>" "\<And>j. f j = (if j \<in> set is then w ! j else lv_wr (view (gsw_dev ?s)) j)" by blast
  have "rtl8367c_setAsicReg (RTL8367C_TABLE_ACCESS_WRDATA_BASE + of_nat i) ?v s = (Ok (), ?s)"
    by (rule setAsicReg_any [OF reg(2) v(1)])
  with d(1) have "forE (i # is) ?wr s = (Ok (), s\<lparr>gsw_dev := d\<rparr>)" by (simp add: thenE_def bindE_def)
  moreover have "view d = (view (gsw_dev s))\<lparr>lv_wr := f\<rparr>" using d(2) reg(1) by simp
  moreover have "f j = (if j \<in> set (i # is) then w ! j else lv_wr (view (gsw_dev s)) j)" for j
    using d(3) [of j] reg(1) v(2) by auto
  ultimately show ?case by blast
qed

lemma length_fdb [simp]: "length (fdbStUser2Smi l b) = 6"
  by (simp add: fdbStUser2Smi_def)

text \<open>The words that the driver writes for a structure.\<close>

definition lut_enc :: "rtl8367c_luttb \<Rightarrow> u16 list" where
  "lut_enc l = fdbStUser2Smi l (replicate 6 0)"

lemma length_lut_enc [simp]: "length (lut_enc l) = 6"
  by (simp add: lut_enc_def)

lemma lut_write_data_words:
  "lut_write_data l = forE [0..<6] (\<lambda>i. rtl8367c_setAsicReg (RTL8367C_TABLE_ACCESS_WRDATA_BASE + of_nat i) (ucast (lut_enc l ! i)))"
  by (simp add: lut_write_data_def write_words_forE flip: lut_enc_def)

lemma lut_write_data_run:
  assumes "lut_contract (gsw_bus s) view key"
  shows "\<exists>d. lut_write_data l s = (Ok (), s\<lparr>gsw_dev := d\<rparr>) \<and>
     view d = (view (gsw_dev s))\<lparr>lv_wr := lv_wr (view d)\<rparr> \<and> lut_words (view d) = lut_enc l"
proof -
  obtain d f where d: "lut_write_data l s = (Ok (), s\<lparr>gsw_dev := d\<rparr>)" "view d = (view (gsw_dev s))\<lparr>lv_wr := f\<rparr>"
    "\<And>i. f i = (if i \<in> set [0..<6] then lut_enc l ! i else lv_wr (view (gsw_dev s)) i)"
    using lut_write_words_run [OF assms, of "[0..<6]" "lut_enc l"] by (auto simp: lut_write_data_words lessThan_atLeast0)
  have "lut_words (view d) = map (\<lambda>i. lut_enc l ! i) [0..<6]"
    unfolding d(2) by (auto simp: lut_words_def d(3))
  also have "\<dots> = lut_enc l" using map_nth [of "lut_enc l"] by (simp del: map_nth)
  finally show ?thesis using d(1,2) by auto
qed

lemma lut_address_bits:
  assumes "status_shows r a"
  shows "lut_address r = of_nat a"
proof (rule bit_word_eqI)
  fix n assume "n < LENGTH(13)"
  then have n: "n < 13" by simp
  define lo hi hi2 :: u32 where "lo = 0x7FF" and "hi = 0x4000" and "hi2 = 0x800"
  have m: "bit lo k \<longleftrightarrow> k \<le> 10" "bit hi k \<longleftrightarrow> k = 14" "bit hi2 k \<longleftrightarrow> k = 11" for k
    using bit_mask_iff [of 11 k, where 'a = "32 word"] bit_exp_iff [of 14 k, where 'a = "32 word"] bit_exp_iff [of 11 k, where 'a = "32 word"]
    by (auto simp: lo_def hi_def hi2_def mask_eq_exp_minus_1 dest: bit_imp_le_length)
  have "bit (lut_address r) n \<longleftrightarrow> n < 13 \<and> (bit r n \<and> n \<le> 10 \<or> bit r (3 + n) \<and> 3 + n = 14 \<or>
      1 \<le> n \<and> n < 32 \<and> bit r (n - 1) \<and> n - 1 = 11)"
    unfolding lut_address_def lo_def [symmetric] hi_def [symmetric] hi2_def [symmetric]
    by (simp only: bit_unsigned_iff bit_or_iff bit_and_iff bit_drop_bit_eq bit_push_bit_iff m o_def) simp
  then have "bit (lut_address r) n \<longleftrightarrow> (bit r n \<and> n \<le> 10) \<or> (bit r 14 \<and> n = 11) \<or> (bit r 11 \<and> n = 12)"
    using n by auto
  moreover have "n \<le> 10 \<or> n = 11 \<or> n = 12" using n by auto
  ultimately show "bit (lut_address r) n = bit (of_nat a :: 13 word) n"
    using assms n by (auto simp: status_shows_def bit_of_nat_iff)
qed

lemma status_shows_less: "status_shows r a \<Longrightarrow> a < 2 ^ 13 \<Longrightarrow> ucast (lut_address r) = (of_nat a :: u32)"
  by (simp add: lut_address_bits unsigned_of_nat take_bit_nat_eq_self)

text \<open>The results that a command leaves in the status register.\<close>

lemma lut_result_run:
  assumes "lut_contract (gsw_bus s) view key" and "lv_busy (view (gsw_dev s)) = 0"
  shows "\<exists>d. rtl8367c_getAsicRegBit RTL8367C_TABLE_ACCESS_STATUS_REG RTL8367C_HIT_STATUS_OFFSET s =
       (Ok (of_bool (lv_hit (view (gsw_dev s)))), s\<lparr>gsw_dev := d\<rparr>) \<and> view d = view (gsw_dev s)"
    and "lv_hit (view (gsw_dev s)) \<Longrightarrow> \<exists>r d. rtl8367c_getAsicReg RTL8367C_TABLE_ACCESS_STATUS_REG s = (Ok r, s\<lparr>gsw_dev := d\<rparr>) \<and>
       view d = view (gsw_dev s) \<and> lut_address r = of_nat (lv_found (view (gsw_dev s)))"
proof -
  have "(view (gsw_dev s))\<lparr>lv_busy := lv_busy (view (gsw_dev s)) - 1\<rparr> = view (gsw_dev s)" using assms(2) by simp
  with lut_status(2) [OF assms(1), of "gsw_dev s"]
  have same: "view (snd (mdio_rd (gsw_bus s) RTL8367C_TABLE_ACCESS_STATUS_REG (gsw_dev s))) = view (gsw_dev s)" by simp
  show "\<exists>d. rtl8367c_getAsicRegBit RTL8367C_TABLE_ACCESS_STATUS_REG RTL8367C_HIT_STATUS_OFFSET s =
       (Ok (of_bool (lv_hit (view (gsw_dev s)))), s\<lparr>gsw_dev := d\<rparr>) \<and> view d = view (gsw_dev s)"
    using lut_status(3) [OF assms] same by (intro exI) (auto simp: getAsicRegBit_any)
  show "\<exists>r d. rtl8367c_getAsicReg RTL8367C_TABLE_ACCESS_STATUS_REG s = (Ok r, s\<lparr>gsw_dev := d\<rparr>) \<and>
       view d = view (gsw_dev s) \<and> lut_address r = of_nat (lv_found (view (gsw_dev s)))" if "lv_hit (view (gsw_dev s))"
    using lut_address_bits [OF lut_status(4) [OF assms that]] same by (intro exI) (auto simp: getAsicReg_any)
qed

lemma lut_commands:
  "RTL8367C_TABLE_ACCESS_REG_DATA TB_OP_WRITE TB_TARGET_L2 AND (RTL8367C_TABLE_TYPE_MASK OR RTL8367C_COMMAND_TYPE_MASK) = LUT_WRITE"
  "RTL8367C_TABLE_ACCESS_REG_DATA TB_OP_READ TB_TARGET_L2 AND (RTL8367C_TABLE_TYPE_MASK OR RTL8367C_COMMAND_TYPE_MASK) = 4"
  by (simp_all add: RTL8367C_TABLE_ACCESS_REG_DATA_def)

lemma lut_write_cmd:
  assumes "lut_contract B view key"
  shows "lv_busy (view (mdio_wr B RTL8367C_TABLE_ACCESS_CTRL_REG LUT_WRITE d)) < 10"
    and "lut_written key (lv_mem (view d)) (lut_words (view d)) (lv_mem (view (mdio_wr B RTL8367C_TABLE_ACCESS_CTRL_REG LUT_WRITE d)))
      (lv_hit (view (mdio_wr B RTL8367C_TABLE_ACCESS_CTRL_REG LUT_WRITE d)))
      (lv_found (view (mdio_wr B RTL8367C_TABLE_ACCESS_CTRL_REG LUT_WRITE d)))"
  using assms by (simp_all add: lut_contract_def Let_def)

text \<open>A write keeps the table well formed.\<close>

lemma lut_written_wf:
  assumes "lut_wf key mem" and "lut_written key mem w mem' hit a" and "length w = 6"
  shows "lut_wf key mem'"
proof -
  have upd: "lut_wf key (mem(a := if lut_live w then Some w else None))"
    if "a < 2 ^ 13" and "\<And>b e. mem b = Some e \<Longrightarrow> key e = key w \<Longrightarrow> b = a"
    using assms(1,3) that by (auto simp: lut_wf_def)
  show ?thesis
  proof (cases "\<exists>b. lut_has key mem (key w) b")
    case True
    with assms(2) have a: "mem' = mem(a := if lut_live w then Some w else None)" "lut_has key mem (key w) a"
      by (auto simp: lut_written_def Let_def)
    from a(2) obtain e where "mem a = Some e" "key e = key w" by (auto simp: lut_has_def split: option.splits)
    with upd assms(1) show ?thesis unfolding a(1) lut_wf_def [of _ mem] by metis
  next
    case False
    then have none: "mem b = Some e \<Longrightarrow> key e \<noteq> key w" for b e by (auto simp: lut_has_def split: option.splits)
    from False assms(2) consider "mem' = mem(a := if lut_live w then Some w else None)" "a < 2 ^ 13" | "mem' = mem"
      by (auto simp: lut_written_def Let_def)
    then show ?thesis by cases (use upd none assms(1) in blast)+
  qed
qed

lemma setAsicL2LookupTb_run:
  assumes ok: "lut_ok view key mem s" and "lt_wait_time l = 0"
  shows "\<exists>d mem' hit a. lut_written key mem (lut_enc l) mem' hit a \<and>
     lut_ok view key mem' (s\<lparr>gsw_dev := d\<rparr>) \<and>
     rtl8367c_setAsicL2LookupTb l s =
       (if hit then Ok (l\<lparr>lt_lookup_hit := 1, lt_address := of_nat a, lt_lookup_busy := 0\<rparr>) else Err RT_ERR_FAILED, s\<lparr>gsw_dev := d\<rparr>)"
proof -
  let ?B = "gsw_bus s"
  have C: "lut_contract ?B view key" using ok by (simp add: lut_ok_def)
  obtain d1 where d1: "lut_busy_wait l s = (Ok (), s\<lparr>gsw_dev := d1\<rparr>)" "view d1 = (view (gsw_dev s))\<lparr>lv_busy := 0\<rparr>"
    using lut_wait_run [OF ok assms(2)] by blast
  obtain d2 where d2: "lut_write_data l (s\<lparr>gsw_dev := d1\<rparr>) = (Ok (), s\<lparr>gsw_dev := d2\<rparr>)"
    "view d2 = (view d1)\<lparr>lv_wr := lv_wr (view d2)\<rparr>" "lut_words (view d2) = lut_enc l"
    using lut_write_data_run [of "s\<lparr>gsw_dev := d1\<rparr>" view key l] C by auto
  let ?d3 = "mdio_wr ?B RTL8367C_TABLE_ACCESS_CTRL_REG LUT_WRITE d2" and ?w = "lut_enc l"
  have "lv_mem (view d2) = lv_mem (view d1)" by (subst d2(2)) simp
  with ok d1(2) have mem2: "lv_mem (view d2) = mem" by (simp add: lut_ok_def)
  note wr = lut_write_cmd [OF C, where d = d2, unfolded mem2 d2(3)]
  have d3: "rtl8367c_setAsicReg RTL8367C_TABLE_ACCESS_CTRL_REG LUT_WRITE (s\<lparr>gsw_dev := d2\<rparr>) = (Ok (), s\<lparr>gsw_dev := ?d3\<rparr>)"
    by (simp add: setAsicReg_any)
  have wf: "lut_wf key (lv_mem (view ?d3))" using lut_written_wf [OF _ wr(2)] ok by (simp add: lut_ok_def)
  have ok3: "lut_ok view key (lv_mem (view ?d3)) (s\<lparr>gsw_dev := ?d3\<rparr>)" using C wr(1) wf by (simp add: lut_ok_def)
  obtain d4 where d4: "lut_busy_wait l (s\<lparr>gsw_dev := ?d3\<rparr>) = (Ok (), s\<lparr>gsw_dev := d4\<rparr>)" "view d4 = (view ?d3)\<lparr>lv_busy := 0\<rparr>"
    using lut_wait_run [OF ok3 assms(2)] by auto
  obtain d5 where d5: "rtl8367c_getAsicRegBit RTL8367C_TABLE_ACCESS_STATUS_REG RTL8367C_HIT_STATUS_OFFSET (s\<lparr>gsw_dev := d4\<rparr>) =
       (Ok (of_bool (lv_hit (view ?d3))), s\<lparr>gsw_dev := d5\<rparr>)" "view d5 = view d4"
    using lut_result_run(1) [of "s\<lparr>gsw_dev := d4\<rparr>" view key] C d4(2) by auto
  let ?k = "bindE (rtl8367c_getAsicReg RTL8367C_TABLE_ACCESS_STATUS_REG) (\<lambda>regData.
          okE (l\<lparr>lt_lookup_hit := 1, lt_address := lut_address regData, lt_lookup_busy := 0\<rparr>))"
  have run: "rtl8367c_setAsicL2LookupTb l s = (if lv_hit (view ?d3) then ?k else errE RT_ERR_FAILED) (s\<lparr>gsw_dev := d5\<rparr>)"
    unfolding rtl8367c_setAsicL2LookupTb_def lut_commands
    by (simp add: thenE_def bindE_run [where m = "lut_busy_wait l", OF d1(1)]
        bindE_run [where m = "lut_write_data l", OF d2(1)] bindE_run [where m = "rtl8367c_setAsicReg _ _", OF d3]
        bindE_run [where m = "lut_busy_wait l", OF d4(1)] bindE_run [where m = "rtl8367c_getAsicRegBit _ _", OF d5(1)])
  have same: "lut_ok view key (lv_mem (view ?d3)) (s\<lparr>gsw_dev := d\<rparr>)" if "view d = view d5" for d
    using C wf that d5(2) d4(2) by (simp add: lut_ok_def)
  show ?thesis
  proof (cases "lv_hit (view ?d3)")
    case True
    then obtain r d where "rtl8367c_getAsicReg RTL8367C_TABLE_ACCESS_STATUS_REG (s\<lparr>gsw_dev := d5\<rparr>) = (Ok r, s\<lparr>gsw_dev := d\<rparr>)"
       "view d = view d5" "lut_address r = of_nat (lv_found (view ?d3))"
      using lut_result_run(2) [of "s\<lparr>gsw_dev := d5\<rparr>" view key] C d5(2) d4(2) by auto
    with True run same [of d] wr(2) show ?thesis by (fastforce simp: bindE_run okE_def)
  next
    case False
    with run same [of d5] wr(2) show ?thesis by (fastforce simp: errE_def)
  qed
qed

text \<open>Reading the words of the entry a command has found.\<close>

lemma lut_rddata:
  assumes "lut_contract B view key" and "lv_busy (view d) = 0" and "i < 6"
  shows "fst (mdio_rd B (RTL8367C_TABLE_ACCESS_RDDATA_BASE + of_nat i) d) = ucast (lv_rd (view d) i)"
    and "view (snd (mdio_rd B (RTL8367C_TABLE_ACCESS_RDDATA_BASE + of_nat i) d)) = view d"
  using assms unfolding lut_contract_def by blast+

lemma lut_fetch_run:
  assumes "lut_contract (gsw_bus s) view key" and "lv_busy (view (gsw_dev s)) = 0"
  shows "\<exists>d. mapE (\<lambda>i. rtl8367c_getAsicReg (RTL8367C_TABLE_ACCESS_RDDATA_BASE + of_nat i)) [0..<6] s =
     (Ok (map (\<lambda>i. ucast (lv_rd (view (gsw_dev s)) i)) [0..<6]), s\<lparr>gsw_dev := d\<rparr>) \<and> view d = view (gsw_dev s)"
proof -
  let ?I = "\<lambda>t. \<exists>d. t = s\<lparr>gsw_dev := d\<rparr> \<and> view d = view (gsw_dev s)"
  have "\<exists>t'. rtl8367c_getAsicReg (RTL8367C_TABLE_ACCESS_RDDATA_BASE + of_nat i) t = (Ok (ucast (lv_rd (view (gsw_dev s)) i)), t') \<and> ?I t'"
    if i: "i \<in> set [0..<6]" and t: "?I t" for i t
  proof -
    from t obtain d where d: "t = s\<lparr>gsw_dev := d\<rparr>" "view d = view (gsw_dev s)" by blast
    have "RTL8367C_TABLE_ACCESS_RDDATA_BASE + of_nat i \<le> (0xFFFF :: u32)"
      using i by (simp add: word_le_nat_alt unat_word_ariths unat_of_nat)
    then show ?thesis using lut_rddata [OF assms(1), of d i] d assms(2) i by (auto simp: getAsicReg_any)
  qed
  moreover have "?I s" by (rule exI [of _ "gsw_dev s"]) simp
  ultimately have "\<exists>t'. mapE (\<lambda>i. rtl8367c_getAsicReg (RTL8367C_TABLE_ACCESS_RDDATA_BASE + of_nat i)) [0..<6] s =
      (Ok (map (\<lambda>i. ucast (lv_rd (view (gsw_dev s)) i)) [0..<6]), t') \<and> ?I t'" by (rule mapE_run)
  then show ?thesis by blast
qed

lemma lut_read_cmd_law:
  assumes "lut_contract B view key" and "(m, sp) \<in> lut_methods"
  shows "lv_busy (view (mdio_wr B RTL8367C_TABLE_ACCESS_CTRL_REG (lut_read_cmd m sp) d)) < 10"
    and "lv_mem (view (mdio_wr B RTL8367C_TABLE_ACCESS_CTRL_REG (lut_read_cmd m sp) d)) = lv_mem (view d)"
    and "lv_hit (view (mdio_wr B RTL8367C_TABLE_ACCESS_CTRL_REG (lut_read_cmd m sp) d)) \<longleftrightarrow> (\<exists>a. lut_read key m sp (view d) a)"
    and "lv_hit (view (mdio_wr B RTL8367C_TABLE_ACCESS_CTRL_REG (lut_read_cmd m sp) d)) \<Longrightarrow>
      lut_read key m sp (view d) (lv_found (view (mdio_wr B RTL8367C_TABLE_ACCESS_CTRL_REG (lut_read_cmd m sp) d))) \<and>
      lv_mem (view d) (lv_found (view (mdio_wr B RTL8367C_TABLE_ACCESS_CTRL_REG (lut_read_cmd m sp) d))) =
        Some (map (lv_rd (view (mdio_wr B RTL8367C_TABLE_ACCESS_CTRL_REG (lut_read_cmd m sp) d))) [0..<6])"
proof -
  from assms(1) have "\<forall>(m, s) \<in> lut_methods. let v = view (mdio_wr B RTL8367C_TABLE_ACCESS_CTRL_REG (lut_read_cmd m s) d) in
        lv_busy v < 10 \<and> lv_mem v = lv_mem (view d) \<and> (lv_hit v \<longleftrightarrow> (\<exists>a. lut_read key m s (view d) a)) \<and>
        (lv_hit v \<longrightarrow> lut_read key m s (view d) (lv_found v) \<and> Some (map (lv_rd v) [0..<6]) = lv_mem v (lv_found v))"
    unfolding lut_contract_def by blast
  from bspec [OF this assms(2)] show "lv_busy (view (mdio_wr B RTL8367C_TABLE_ACCESS_CTRL_REG (lut_read_cmd m sp) d)) < 10"
    "lv_mem (view (mdio_wr B RTL8367C_TABLE_ACCESS_CTRL_REG (lut_read_cmd m sp) d)) = lv_mem (view d)"
    "lv_hit (view (mdio_wr B RTL8367C_TABLE_ACCESS_CTRL_REG (lut_read_cmd m sp) d)) \<longleftrightarrow> (\<exists>a. lut_read key m sp (view d) a)"
    "lv_hit (view (mdio_wr B RTL8367C_TABLE_ACCESS_CTRL_REG (lut_read_cmd m sp) d)) \<Longrightarrow>
      lut_read key m sp (view d) (lv_found (view (mdio_wr B RTL8367C_TABLE_ACCESS_CTRL_REG (lut_read_cmd m sp) d))) \<and>
      lv_mem (view d) (lv_found (view (mdio_wr B RTL8367C_TABLE_ACCESS_CTRL_REG (lut_read_cmd m sp) d))) =
        Some (map (lv_rd (view (mdio_wr B RTL8367C_TABLE_ACCESS_CTRL_REG (lut_read_cmd m sp) d))) [0..<6])"
    by (simp_all add: Let_def)
qed

text \<open>A command to read, from its issue to the end of the function.\<close>

definition lut_read_tail :: "u32 \<Rightarrow> rtl8367c_luttb \<Rightarrow> ('d gsw, rtl8367c_luttb) drv" where
  "lut_read_tail cmd l =
     thenE (rtl8367c_setAsicReg RTL8367C_TABLE_ACCESS_CTRL_REG cmd)
     (thenE (lut_busy_wait l)
     (bindE (rtl8367c_getAsicRegBit RTL8367C_TABLE_ACCESS_STATUS_REG RTL8367C_HIT_STATUS_OFFSET) (\<lambda>hit.
        if (ucast hit :: 1 word) = 0 then errE RT_ERR_L2_ENTRY_NOTFOUND
        else bindE (rtl8367c_getAsicReg RTL8367C_TABLE_ACCESS_STATUS_REG) (\<lambda>regData.
          bindE (mapE (\<lambda>i. rtl8367c_getAsicReg (RTL8367C_TABLE_ACCESS_RDDATA_BASE + of_nat i)) [0..<RTL8367C_LUT_ENTRY_SIZE]) (\<lambda>regs.
            okE (fdbStSmi2User (l\<lparr>lt_lookup_busy := 0, lt_lookup_hit := ucast hit, lt_address := lut_address regData\<rparr>)
              (map ucast regs)))))))"

text \<open>What the driver has read: the entry in the structure, with the address.\<close>

definition lut_dec :: "rtl8367c_luttb \<Rightarrow> nat \<Rightarrow> u16 list \<Rightarrow> rtl8367c_luttb" where
  "lut_dec l a e = fdbStSmi2User (l\<lparr>lt_lookup_busy := 0, lt_lookup_hit := 1, lt_address := of_nat a\<rparr>) e"

lemma lut_read_tail_run:
  assumes ok: "lut_ok view key mem s" and "lt_wait_time l = 0" and ms: "(m, sp) \<in> lut_methods" and "sp \<le> 15"
  shows "\<exists>d r. lut_read_tail (lut_read_cmd m sp) l s = (r, s\<lparr>gsw_dev := d\<rparr>) \<and> lut_ok view key mem (s\<lparr>gsw_dev := d\<rparr>) \<and>
     ((\<exists>a e. mem a = Some e \<and> lut_read key m sp (view (gsw_dev s)) a \<and> r = Ok (lut_dec l a e)) \<or>
      (\<nexists>a. lut_read key m sp (view (gsw_dev s)) a) \<and> r = Err RT_ERR_L2_ENTRY_NOTFOUND)"
proof -
  let ?B = "gsw_bus s" and ?cmd = "lut_read_cmd m sp"
  have C: "lut_contract ?B view key" and wf: "lut_wf key mem" and mem: "lv_mem (view (gsw_dev s)) = mem" using ok by (simp_all add: lut_ok_def)
  let ?d3 = "mdio_wr ?B RTL8367C_TABLE_ACCESS_CTRL_REG ?cmd (gsw_dev s)"
  note law = lut_read_cmd_law [OF C ms, where d = "gsw_dev s", unfolded mem]
  have "?cmd \<le> 0xFFFF"
  proof -
    have "list_all (\<lambda>m. list_all (\<lambda>s. push_bit 8 s OR push_bit 4 m OR 4 \<le> (0xFFFF :: u32)) (map of_nat [0..<16])) [0, 3, 4, 5, 7]"
      by code_simp
    moreover have "m \<in> set [0, 3, 4, 5, 7]" using ms by (auto simp: lut_methods_def)
    moreover have "sp \<in> set (map of_nat [0..<16])" using assms(4) by (auto simp: word_le_nat_alt intro!: image_eqI [where x = "unat sp"])
    ultimately show ?thesis unfolding lut_read_cmd_def by (simp only: list_all_iff)
  qed
  then have d3: "rtl8367c_setAsicReg RTL8367C_TABLE_ACCESS_CTRL_REG ?cmd s = (Ok (), s\<lparr>gsw_dev := ?d3\<rparr>)"
    by (simp add: setAsicReg_any)
  have ok3: "lut_ok view key mem (s\<lparr>gsw_dev := ?d3\<rparr>)" using C law(1,2) wf by (simp add: lut_ok_def)
  obtain d4 where d4: "lut_busy_wait l (s\<lparr>gsw_dev := ?d3\<rparr>) = (Ok (), s\<lparr>gsw_dev := d4\<rparr>)" "view d4 = (view ?d3)\<lparr>lv_busy := 0\<rparr>"
    using lut_wait_run [OF ok3 assms(2)] by auto
  obtain d5 where d5: "rtl8367c_getAsicRegBit RTL8367C_TABLE_ACCESS_STATUS_REG RTL8367C_HIT_STATUS_OFFSET (s\<lparr>gsw_dev := d4\<rparr>) =
       (Ok (of_bool (lv_hit (view ?d3))), s\<lparr>gsw_dev := d5\<rparr>)" "view d5 = view d4"
    using lut_result_run(1) [of "s\<lparr>gsw_dev := d4\<rparr>" view key] C d4(2) by auto
  let ?k = "bindE (rtl8367c_getAsicReg RTL8367C_TABLE_ACCESS_STATUS_REG) (\<lambda>regData.
          bindE (mapE (\<lambda>i. rtl8367c_getAsicReg (RTL8367C_TABLE_ACCESS_RDDATA_BASE + of_nat i)) [0..<RTL8367C_LUT_ENTRY_SIZE]) (\<lambda>regs.
            okE (fdbStSmi2User (l\<lparr>lt_lookup_busy := 0, lt_lookup_hit := 1, lt_address := lut_address regData\<rparr>) (map ucast regs))))"
  have run: "lut_read_tail ?cmd l s = (if lv_hit (view ?d3) then ?k else errE RT_ERR_L2_ENTRY_NOTFOUND) (s\<lparr>gsw_dev := d5\<rparr>)"
    by (simp add: lut_read_tail_def thenE_def bindE_run [where m = "rtl8367c_setAsicReg _ _", OF d3]
        bindE_run [where m = "lut_busy_wait l", OF d4(1)] bindE_run [where m = "rtl8367c_getAsicRegBit _ _", OF d5(1)])
  have same: "lut_ok view key mem (s\<lparr>gsw_dev := d\<rparr>)" if "view d = view d5" for d
    using C wf that d5(2) d4(2) law(2) by (simp add: lut_ok_def)
  show ?thesis
  proof (cases "lv_hit (view ?d3)")
    case True
    then obtain r d where 6: "rtl8367c_getAsicReg RTL8367C_TABLE_ACCESS_STATUS_REG (s\<lparr>gsw_dev := d5\<rparr>) = (Ok r, s\<lparr>gsw_dev := d\<rparr>)"
       "view d = view d5" "lut_address r = of_nat (lv_found (view ?d3))"
      using lut_result_run(2) [of "s\<lparr>gsw_dev := d5\<rparr>" view key] C d5(2) d4(2) by auto
    obtain d' where 7: "mapE (\<lambda>i. rtl8367c_getAsicReg (RTL8367C_TABLE_ACCESS_RDDATA_BASE + of_nat i)) [0..<6] (s\<lparr>gsw_dev := d\<rparr>) =
       (Ok (map (\<lambda>i. ucast (lv_rd (view d) i)) [0..<6]), s\<lparr>gsw_dev := d'\<rparr>)" "view d' = view d"
      using lut_fetch_run [of "s\<lparr>gsw_dev := d\<rparr>" view key] C 6(2) d5(2) d4(2) by auto
    have e: "map (ucast \<circ> (\<lambda>i. ucast (lv_rd (view d) i) :: u32)) [0..<6] = map (lv_rd (view ?d3)) [0..<6]"
      using 6(2) d5(2) d4(2) by (simp add: comp_def)
    have "lut_read_tail ?cmd l s = (Ok (lut_dec l (lv_found (view ?d3)) (map (lv_rd (view ?d3)) [0..<6])), s\<lparr>gsw_dev := d'\<rparr>)"
      unfolding run using True
      by (simp only: if_True bindE_run [where m = "rtl8367c_getAsicReg _", OF 6(1)] bindE_run [where m = "mapE _ _", OF 7(1)]
          map_map e 6(3) lut_dec_def okE_def)
    with law(4) [OF True] same [of d'] 6(2) 7(2) show ?thesis by auto
  next
    case False
    with run same [of d5] law(3) show ?thesis by (auto simp: errE_def)
  qed
qed

lemma read_cmds:
  "push_bit RTL8367C_ACCESS_METHOD_OFFSET LUTREADMETHOD_MAC AND RTL8367C_ACCESS_METHOD_MASK OR 4 = lut_read_cmd LUTREADMETHOD_MAC 0"
  "push_bit RTL8367C_ACCESS_METHOD_OFFSET LUTREADMETHOD_NEXT_L2UC AND RTL8367C_ACCESS_METHOD_MASK OR 4 = lut_read_cmd LUTREADMETHOD_NEXT_L2UC 0"
  "push_bit RTL8367C_ACCESS_METHOD_OFFSET LUTREADMETHOD_NEXT_L2MC AND RTL8367C_ACCESS_METHOD_MASK OR 4 = lut_read_cmd LUTREADMETHOD_NEXT_L2MC 0"
  "push_bit RTL8367C_ACCESS_METHOD_OFFSET LUTREADMETHOD_NEXT_L3MC AND RTL8367C_ACCESS_METHOD_MASK OR 4 = lut_read_cmd LUTREADMETHOD_NEXT_L3MC 0"
  by (simp_all add: lut_read_cmd_def)

text \<open>Looking up an entry by its key.\<close>

lemma get_mac_run:
  assumes ok: "lut_ok view key mem s" and "lt_wait_time l = 0"
  shows "\<exists>d r. rtl8367c_getAsicL2LookupTb LUTREADMETHOD_MAC l s = (r, s\<lparr>gsw_dev := d\<rparr>) \<and> lut_ok view key mem (s\<lparr>gsw_dev := d\<rparr>) \<and>
     ((\<exists>a e. mem a = Some e \<and> key e = key (lut_enc l) \<and> r = Ok (lut_dec l a e)) \<or>
      (\<forall>a e. mem a = Some e \<longrightarrow> key e \<noteq> key (lut_enc l)) \<and> r = Err RT_ERR_L2_ENTRY_NOTFOUND)"
proof -
  have C: "lut_contract (gsw_bus s) view key" using ok by (simp add: lut_ok_def)
  obtain d1 where d1: "lut_busy_wait l s = (Ok (), s\<lparr>gsw_dev := d1\<rparr>)" "view d1 = (view (gsw_dev s))\<lparr>lv_busy := 0\<rparr>"
    using lut_wait_run [OF assms] by blast
  obtain d2 where d2: "lut_write_data l (s\<lparr>gsw_dev := d1\<rparr>) = (Ok (), s\<lparr>gsw_dev := d2\<rparr>)"
    "view d2 = (view d1)\<lparr>lv_wr := lv_wr (view d2)\<rparr>" "lut_words (view d2) = lut_enc l"
    using lut_write_data_run [of "s\<lparr>gsw_dev := d1\<rparr>" view key l] C by auto
  have "lv_mem (view d2) = lv_mem (view d1)" "lv_busy (view d2) = lv_busy (view d1)" by (subst d2(2), simp)+
  with ok d1(2) have ok2: "lut_ok view key mem (s\<lparr>gsw_dev := d2\<rparr>)" by (simp add: lut_ok_def)
  have ms: "(LUTREADMETHOD_MAC, 0) \<in> lut_methods" by (simp add: lut_methods_def)
  have "rtl8367c_getAsicL2LookupTb LUTREADMETHOD_MAC l s = lut_read_tail (lut_read_cmd LUTREADMETHOD_MAC 0) l (s\<lparr>gsw_dev := d2\<rparr>)"
    unfolding rtl8367c_getAsicL2LookupTb_def Let_def lut_commands read_cmds(1) [symmetric] lut_read_tail_def
    by (simp add: thenE_def bindE_assoc bindE_run [where m = "lut_busy_wait l", OF d1(1)] bindE_run [where m = "lut_write_data l", OF d2(1)])
  with lut_read_tail_run [OF ok2 assms(2) ms] d2(3) ok2 show ?thesis
    by (auto simp: lut_read_def lut_has_def lut_ok_def split: option.splits; blast)
qed

text \<open>Looking for the next entry of a kind, from an address on.\<close>

definition read_spa :: "u32 \<Rightarrow> rtl8367c_luttb \<Rightarrow> u32" where
  "read_spa m l = (if m = LUTREADMETHOD_NEXT_L2UCSPA then ucast (lt_spa l) else 0)"

lemma get_next_run:
  assumes ok: "lut_ok view key mem s" and "lt_wait_time l = 0"
    and m: "m \<in> {LUTREADMETHOD_NEXT_L2UC, LUTREADMETHOD_NEXT_L2MC, LUTREADMETHOD_NEXT_L3MC, LUTREADMETHOD_NEXT_L2UCSPA}"
  shows "\<exists>d r. rtl8367c_getAsicL2LookupTb m l s = (r, s\<lparr>gsw_dev := d\<rparr>) \<and> lut_ok view key mem (s\<lparr>gsw_dev := d\<rparr>) \<and>
     ((\<exists>a e. mem a = Some e \<and> lut_next mem (lut_wanted m (read_spa m l)) (unat (lt_address l)) a \<and> r = Ok (lut_dec l a e)) \<or>
      (\<nexists>a. lut_next mem (lut_wanted m (read_spa m l)) (unat (lt_address l)) a) \<and> r = Err RT_ERR_L2_ENTRY_NOTFOUND)"
proof -
  have C: "lut_contract (gsw_bus s) view key" using ok by (simp add: lut_ok_def)
  let ?a = "ucast (lt_address l) :: u32"
  have "unat (lt_address l) < 2 ^ 13" using unsigned_less [of "lt_address l"] by simp
  then have "?a \<le> 0xFFFF" by (simp add: word_le_nat_alt unat_ucast_up)
  moreover have "(ucast ?a :: u16) = ucast (lt_address l)"
    by (rule bit_word_eqI) (auto simp: bit_simps dest: bit_imp_le_length)
  ultimately have a: "?a \<le> 0xFFFF" "unat (ucast ?a :: u16) = unat (lt_address l)"
    by (simp_all add: unat_ucast_up)
  obtain d1 where d1: "lut_busy_wait l s = (Ok (), s\<lparr>gsw_dev := d1\<rparr>)" "view d1 = (view (gsw_dev s))\<lparr>lv_busy := 0\<rparr>"
    using lut_wait_run [OF assms(1,2)] by blast
  let ?d2 = "mdio_wr (gsw_bus s) RTL8367C_TABLE_ACCESS_ADDR_REG ?a d1"
  have d2: "rtl8367c_setAsicReg RTL8367C_TABLE_ACCESS_ADDR_REG ?a (s\<lparr>gsw_dev := d1\<rparr>) = (Ok (), s\<lparr>gsw_dev := ?d2\<rparr>)"
    using a(1) by (simp add: setAsicReg_any)
  have "\<forall>v \<le> 0xFFFF. view (mdio_wr (gsw_bus s) RTL8367C_TABLE_ACCESS_ADDR_REG v d1) = (view d1)\<lparr>lv_addr := ucast v\<rparr>"
    using C unfolding lut_contract_def by blast
  with a(1) have v2: "view ?d2 = (view d1)\<lparr>lv_addr := ucast ?a\<rparr>" by blast
  have ok2: "lut_ok view key mem (s\<lparr>gsw_dev := ?d2\<rparr>)" using ok v2 d1(2) by (simp add: lut_ok_def)
  have "unat (lt_spa l) < 2 ^ 4" using unsigned_less [of "lt_spa l"] by simp
  then have le: "read_spa m l \<le> 15" by (simp add: read_spa_def word_le_nat_alt unat_ucast_up)
  then have ms: "(m, read_spa m l) \<in> lut_methods" using m by (auto simp: lut_methods_def read_spa_def)
  have spa: "push_bit 8 (ucast (lt_spa l)) AND 0xF00 = (push_bit 8 (ucast (lt_spa l)) :: u32)"
  proof -
    have m: "(0xF00 :: u32) = push_bit 8 (mask 4)" by (simp add: mask_eq_exp_minus_1)
    have "bit (lt_spa l) n \<Longrightarrow> n < 4" for n using bit_imp_le_length [of "lt_spa l" n] by simp
    then show ?thesis unfolding m by (auto intro!: bit_word_eqI simp: bit_simps simp del: push_bit_mask_eq)
  qed
  have cmd7: "((push_bit RTL8367C_ACCESS_METHOD_OFFSET LUTREADMETHOD_NEXT_L2UCSPA AND RTL8367C_ACCESS_METHOD_MASK) OR
      (push_bit 8 (ucast (lt_spa l)) AND 0xF00)) OR 4 = lut_read_cmd LUTREADMETHOD_NEXT_L2UCSPA (ucast (lt_spa l))"
    unfolding spa lut_read_cmd_def or.assoc [symmetric] or.commute [of _ "push_bit 8 (ucast (lt_spa l))"] by (simp add: or.assoc)
  have ne: "LUTREADMETHOD_NEXT_L2UC \<noteq> LUTREADMETHOD_NEXT_L2UCSPA" "LUTREADMETHOD_NEXT_L2MC \<noteq> LUTREADMETHOD_NEXT_L2UCSPA"
    "LUTREADMETHOD_NEXT_L3MC \<noteq> LUTREADMETHOD_NEXT_L2UCSPA" "LUTREADMETHOD_NEXT_L2UCSPA \<noteq> LUTREADMETHOD_MAC"
    "(7 :: u32) \<noteq> 1" "(7 :: u32) \<noteq> 2" "(7 :: u32) \<noteq> 3" "(7 :: u32) \<noteq> 4" "(7 :: u32) \<noteq> 5" "(7 :: u32) \<noteq> 6" by simp_all
  have "rtl8367c_getAsicL2LookupTb m l s = lut_read_tail (lut_read_cmd m (read_spa m l)) l (s\<lparr>gsw_dev := ?d2\<rparr>)"
    using m unfolding rtl8367c_getAsicL2LookupTb_def Let_def lut_commands lut_read_tail_def
    by (elim insertE emptyE; hypsubst)
       (simp_all only: ne if_True if_False insert_iff empty_iff simp_thms thenE_def bindE_assoc bindE_okE
          bindE_run [where m = "lut_busy_wait l", OF d1(1)]
          bindE_run [where m = "rtl8367c_setAsicReg _ _", OF d2] read_cmds cmd7 read_spa_def)
  with lut_read_tail_run [OF ok2 assms(2) ms le] v2 d1(2) a(2) m ok show ?thesis
    by (fastforce simp: lut_read_def lut_ok_def)
qed

end
