(* ===== verification/Lut_Pack.thy ===== *)
theory Lut_Pack
  imports Lut_Spec
begin

text \<open>
  The packing of an entry of the lookup table into six words: what comes back when the words that the
  driver writes are read, for each of the four kinds of entries, and which of the fields make up the key.
\<close>

section \<open>Fields, bit by bit\<close>

lemma bit_outside: "LENGTH('a) \<le> n \<Longrightarrow> bit (w :: 'a :: len word) n \<longleftrightarrow> False"
  using bit_imp_le_length [of w n] by auto

lemma field_bits:
  "(a :: 1 word) = a' \<longleftrightarrow> (\<forall>n<1. bit a n = bit a' n)"
  "(b :: 3 word) = b' \<longleftrightarrow> (\<forall>n<3. bit b n = bit b' n)"
  "(c :: 4 word) = c' \<longleftrightarrow> (\<forall>n<4. bit c n = bit c' n)"
  "(d :: 8 word) = d' \<longleftrightarrow> (\<forall>n<8. bit d n = bit d' n)"
  "(e :: 11 word) = e' \<longleftrightarrow> (\<forall>n<11. bit e n = bit e' n)"
  "(f :: 12 word) = f' \<longleftrightarrow> (\<forall>n<12. bit f n = bit f' n)"
  by (simp_all add: bit_eq_iff)

lemma all_less_field:
  "(\<forall>n<1. K n) \<longleftrightarrow> K (0 :: nat)"
  "(\<forall>n<3. L n) \<longleftrightarrow> L 0 \<and> L 1 \<and> L (2 :: nat)"
  "(\<forall>n<4. M n) \<longleftrightarrow> M 0 \<and> M 1 \<and> M 2 \<and> M (3 :: nat)"
  "(\<forall>n<8. P n) \<longleftrightarrow> P 0 \<and> P 1 \<and> P 2 \<and> P 3 \<and> P 4 \<and> P 5 \<and> P 6 \<and> P (7 :: nat)"
  "(\<forall>n<11. Q n) \<longleftrightarrow> Q 0 \<and> Q 1 \<and> Q 2 \<and> Q 3 \<and> Q 4 \<and> Q 5 \<and> Q 6 \<and> Q 7 \<and> Q 8 \<and> Q 9 \<and> Q (10 :: nat)"
  "(\<forall>n<12. R n) \<longleftrightarrow> R 0 \<and> R 1 \<and> R 2 \<and> R 3 \<and> R 4 \<and> R 5 \<and> R 6 \<and> R 7 \<and> R 8 \<and> R 9 \<and> R 10 \<and> R (11 :: nat)"
  by (simp_all add: numeral_eq_Suc All_less_Suc conj_ac)

lemmas field_decide = field_bits all_less_field word16_decide bit_simps bit_outside

lemma even_octet: "(w :: 8 word) AND 1 = 0 \<longleftrightarrow> \<not> bit w 0"
  by (simp add: field_decide)

lemma word32_bits: "(a :: u32) = b \<longleftrightarrow> (\<forall>n<16. bit a n = bit b n) \<and> (\<forall>n<16. bit a (n + 16) = bit b (n + 16))"
proof -
  have "a = b \<longleftrightarrow> (\<forall>n<32. bit a n = bit b n)" by (simp add: bit_eq_iff)
  also have "\<dots> \<longleftrightarrow> (\<forall>n<16. bit a n = bit b n) \<and> (\<forall>n<16. bit a (n + 16) = bit b (n + 16))"
  proof safe
    fix n :: nat assume "\<forall>n<16. bit a n = bit b n" "\<forall>n<16. bit a (n + 16) = bit b (n + 16)" "n < 32" 
    then show "bit a n \<Longrightarrow> bit b n" "bit b n \<Longrightarrow> bit a n"
      by (metis add.commute le_add_diff_inverse less_diff_conv2 linorder_not_le numeral_Bit0)+
  qed simp_all
  finally show ?thesis .
qed

section \<open>Kinds of entries\<close>

text \<open>Structures that stand for a unicast and for a multicast entry.\<close>

definition uc_form :: "rtl8367c_luttb \<Rightarrow> bool" where
  "uc_form l \<longleftrightarrow> length (lt_mac l) = 6 \<and> lt_mac l ! 0 AND 1 = 0 \<and> lt_l3lookup l = 0"

definition mc_form :: "rtl8367c_luttb \<Rightarrow> bool" where
  "mc_form l \<longleftrightarrow> length (lt_mac l) = 6 \<and> lt_mac l ! 0 AND 1 \<noteq> 0 \<and> lt_l3lookup l = 0"

lemma length_6: "length xs = 6 \<longleftrightarrow> (\<exists>a b c d e f. xs = [a, b, c, d, e, f])"
  by (auto simp: length_Suc_conv numeral_eq_Suc)

section \<open>Reading what was written\<close>

text \<open>The static flag of a unicast entry comes back as a bit of the VLAN.\<close>

lemma uc_decode:
  assumes "uc_form l"
  shows "fdbStSmi2User l0 (lut_enc l) = l0\<lparr>lt_mac := lt_mac l, lt_cvid_fid := lt_cvid_fid l, lt_lut_pri := lt_lut_pri l,
    lt_fwd_en := lt_fwd_en l, lt_sa_en := lt_sa_en l, lt_auth := lt_auth l, lt_spa := lt_spa l, lt_age := lt_age l,
    lt_fid := lt_fid l, lt_efid := lt_efid l, lt_sa_block := lt_sa_block l, lt_da_block := lt_da_block l, lt_l3lookup := 0,
    lt_ivl_svl := lt_ivl_svl l, lt_nosalearn := of_bool (bit (lt_cvid_fid l) 5)\<rparr>"
proof -
  from assms obtain a b c d e f where m: "lt_mac l = [a, b, c, d, e, f]" "\<not> bit a 0" "lt_l3lookup l = 0"
    by (auto simp: uc_form_def length_6 even_octet)
  from m show ?thesis
    unfolding lut_enc_def fdbStUser2Smi_def fdbStSmi2User_def smi_mac_def
    by (intro rtl8367c_luttb.equality) (simp_all add: field_decide m even_octet del: push_bit_Suc)
qed

lemma mc_decode:
  assumes "mc_form l"
  shows "fdbStSmi2User l0 (lut_enc l) = l0\<lparr>lt_mac := lt_mac l, lt_cvid_fid := lt_cvid_fid l, lt_lut_pri := lt_lut_pri l,
    lt_fwd_en := lt_fwd_en l, lt_mbr := lt_mbr l, lt_igmpidx := lt_igmpidx l, lt_igmp_asic := lt_igmp_asic l, lt_l3lookup := 0,
    lt_ivl_svl := lt_ivl_svl l, lt_nosalearn := lt_nosalearn l\<rparr>"
proof -
  from assms obtain a b c d e f where m: "lt_mac l = [a, b, c, d, e, f]" "bit a 0" "lt_l3lookup l = 0"
    by (auto simp: mc_form_def length_6 even_octet)
  from m show ?thesis
    unfolding lut_enc_def fdbStUser2Smi_def fdbStSmi2User_def smi_mac_def smi_mbr_def
    by (intro rtl8367c_luttb.equality) (simp_all add: field_decide m even_octet del: push_bit_Suc)
qed

text \<open>The leading four bits of a group address are not kept; they are 0xE in every group address.\<close>

lemma ip_decode:
  assumes "lt_l3lookup l = 1" "lt_l3vidlookup l = 0"
  shows "fdbStSmi2User l0 (lut_enc l) = l0\<lparr>lt_sip := lt_sip l, lt_dip := lt_dip l AND 0x0FFFFFFF, lt_lut_pri := lt_lut_pri l,
    lt_fwd_en := lt_fwd_en l, lt_mbr := lt_mbr l, lt_igmpidx := lt_igmpidx l, lt_igmp_asic := lt_igmp_asic l, lt_l3lookup := 1,
    lt_nosalearn := lt_nosalearn l\<rparr>"
  using assms
    unfolding lut_enc_def fdbStUser2Smi_def fdbStSmi2User_def smi_mac_def smi_mbr_def
    by (intro rtl8367c_luttb.equality) (simp_all add: field_decide word32_bits del: push_bit_Suc)

text \<open>The upper bits of the VLAN come back in the place of the lower ones.\<close>

lemma iv_decode:
  assumes "lt_l3lookup l = 1" "lt_l3vidlookup l = 1"
  shows "fdbStSmi2User l0 (lut_enc l) = l0\<lparr>lt_sip := lt_sip l, lt_dip := lt_dip l AND 0x0FFFFFFF,
     lt_mbr := lt_mbr l, lt_l3_vid := (lt_l3_vid l AND 0xFF) OR drop_bit 8 (lt_l3_vid l), lt_l3lookup := 1, lt_l3vidlookup := 1,
    lt_nosalearn := lt_nosalearn l\<rparr>"
  using assms
    unfolding lut_enc_def fdbStUser2Smi_def fdbStSmi2User_def smi_mac_def smi_mbr_def
    by (intro rtl8367c_luttb.equality) (simp_all add: field_decide word32_bits del: push_bit_Suc)

section \<open>Kind, life and key of an entry\<close>

lemma form_kind:
  "uc_form l \<Longrightarrow> lut_uc (lut_enc l)" "mc_form l \<Longrightarrow> lut_mc (lut_enc l)"
  "lt_l3lookup l = 1 \<Longrightarrow> lut_l3 (lut_enc l)" 
  "lt_l3lookup l = 1 \<Longrightarrow> lut_l3vid (lut_enc l) \<longleftrightarrow> lt_l3vidlookup l = 1"
  by (simp_all add: uc_form_def mc_form_def lut_uc_def lut_mc_def lut_l3_def lut_l3vid_def
     lut_enc_def fdbStUser2Smi_def field_decide even_octet del: push_bit_Suc)

lemma enc_static: "lut_static (lut_enc l) \<longleftrightarrow> lt_nosalearn l = 1"
  by (simp add: lut_static_def lut_enc_def fdbStUser2Smi_def field_decide del: push_bit_Suc)

lemma enc_live:
  "uc_form l \<Longrightarrow> lut_live (lut_enc l) \<longleftrightarrow> lt_nosalearn l = 1 \<or> lt_age l \<noteq> 0" 
  "mc_form l \<Longrightarrow> lut_live (lut_enc l) \<longleftrightarrow> lt_nosalearn l = 1 \<or> lt_mbr l \<noteq> 0" 
  "lt_l3lookup l = 1 \<Longrightarrow> lut_live (lut_enc l) \<longleftrightarrow> lt_nosalearn l = 1 \<or> lt_mbr l \<noteq> 0" 
  unfolding lut_live_def enc_static lut_uc_def lut_l3_def
  by (simp_all add: uc_form_def mc_form_def 
     lut_enc_def fdbStUser2Smi_def field_decide even_octet del: push_bit_Suc)

lemma enc_key:
  "uc_form l \<Longrightarrow> uc_form l' \<Longrightarrow> lt_mac l = lt_mac l' \<Longrightarrow> lt_cvid_fid l = lt_cvid_fid l' \<Longrightarrow> lt_ivl_svl l = lt_ivl_svl l' \<Longrightarrow>
     lt_fid l = lt_fid l' \<Longrightarrow> lt_efid l = lt_efid l' \<Longrightarrow> key_fields (lut_enc l) = key_fields (lut_enc l')"
  "mc_form l \<Longrightarrow> mc_form l' \<Longrightarrow> lt_mac l = lt_mac l' \<Longrightarrow> lt_cvid_fid l = lt_cvid_fid l' \<Longrightarrow> lt_ivl_svl l = lt_ivl_svl l' \<Longrightarrow>
     key_fields (lut_enc l) = key_fields (lut_enc l')"
  "lt_l3lookup l = 1 \<Longrightarrow> lt_l3lookup l' = 1 \<Longrightarrow> lt_sip l = lt_sip l' \<Longrightarrow> lt_dip l = lt_dip l' \<Longrightarrow>
     lt_l3vidlookup l = lt_l3vidlookup l' \<Longrightarrow> lt_l3vidlookup l = 0 \<or> lt_l3_vid l = lt_l3_vid l' \<Longrightarrow>
     key_fields (lut_enc l) = key_fields (lut_enc l')"
  unfolding key_fields_def lut_l3vid_def lut_l3_def lut_uc_def
  by (auto simp: uc_form_def mc_form_def lut_enc_def fdbStUser2Smi_def field_decide even_octet simp del: push_bit_Suc)

text \<open>Entries with the same key are of the same kind, and the decoded structure shows the kind.\<close>

definition same_kind :: "u16 list \<Rightarrow> u16 list \<Rightarrow> bool" where
  "same_kind w w' \<longleftrightarrow> take 3 w = take 3 w' \<and> w ! 3 AND 0x3000 = w' ! 3 AND 0x3000"

lemma same_kindD:
  assumes "same_kind w w'" "length w = 6" "length w' = 6"
  shows "lut_uc w = lut_uc w'" "lut_mc w = lut_mc w'" "lut_l3 w = lut_l3 w'" "lut_l3vid w = lut_l3vid w'"
proof -
  from assms(1) have "take 3 w ! 2 = take 3 w' ! 2" by (simp add: same_kind_def)
  then have 2: "w ! 2 = w' ! 2" using assms(2,3) by simp
  have "bit (w ! 3 AND 0x3000) n = bit (w' ! 3 AND 0x3000) n" for n using assms(1) by (simp add: same_kind_def)
  from this [of 12] this [of 13] have "bit (w ! 3) 12 = bit (w' ! 3) 12" "bit (w ! 3) 13 = bit (w' ! 3) 13"
    by (simp_all add: bit_simps)
  with 2 show "lut_uc w = lut_uc w'" "lut_mc w = lut_mc w'" "lut_l3 w = lut_l3 w'" "lut_l3vid w = lut_l3vid w'"
    by (simp_all add: lut_uc_def lut_mc_def lut_l3_def lut_l3vid_def)
qed

lemma mask_bits: "(w :: u16) AND 0x1000 = 0 \<longleftrightarrow> \<not> bit w 12" "w AND 0x2000 = 0 \<longleftrightarrow> \<not> bit w 13" "w AND 0x0100 = 0 \<longleftrightarrow> \<not> bit w 8"
  by (simp_all add: field_decide)

lemma lut_dec_uc: "lut_uc e \<Longrightarrow> lt_l3lookup (lut_dec l a e) = 0"
  unfolding lut_dec_def fdbStSmi2User_def lut_uc_def lut_l3_def by (simp add: mask_bits field_decide)

lemma lut_dec_address [simp]: "lt_address (lut_dec l a e) = of_nat a" "lt_wait_time (lut_dec l a e) = lt_wait_time l"
  by (simp_all add: lut_dec_def fdbStSmi2User_def)

lemma lut_enc_result [simp]: "lut_enc (l\<lparr>lt_lookup_hit := h, lt_address := a, lt_lookup_busy := b\<rparr>) = lut_enc l"
  by (simp add: lut_enc_def fdbStUser2Smi_def)

end
