(* ===== verification/Lut_Entry.thy ===== *)
theory Lut_Entry
  imports L2 Lut_Pack
begin

text \<open>
  The two operations that the API builds its entry functions on: \<open>lut_add\<close> and \<open>lut_del\<close>, on a chip that keeps
  the contract.  What a kind of entries must promise is the locale \<open>lut_entry\<close>; the four kinds of \<open>l2.c\<close> are
  interpretations.
\<close>

section \<open>The table\<close>

definition lut_absent :: "(u16 list \<Rightarrow> 'k) \<Rightarrow> (nat \<Rightarrow> u16 list option) \<Rightarrow> 'k \<Rightarrow> bool" where
  "lut_absent key mem k \<longleftrightarrow> (\<forall>a. \<not> lut_has key mem k a)"

text \<open>\<open>w\<close> is stored at \<open>a\<close>: where its key already is, or at a place that is free or taken by a learned entry.\<close>

definition lut_put ::
  "(u16 list \<Rightarrow> 'k) \<Rightarrow> (nat \<Rightarrow> u16 list option) \<Rightarrow> u16 list \<Rightarrow> nat \<Rightarrow> (nat \<Rightarrow> u16 list option) \<Rightarrow> bool" where
  "lut_put key mem w a mem' \<longleftrightarrow> mem' = mem(a \<mapsto> w) \<and> a < 2 ^ 13 \<and>
     (lut_has key mem (key w) a \<or> lut_absent key mem (key w) \<and> (\<forall>e. mem a = Some e \<longrightarrow> lut_dynamic e))"

lemma lut_has_iff: "lut_has key mem k a \<longleftrightarrow> (\<exists>e. mem a = Some e \<and> key e = k)"
  by (simp add: lut_has_def split: option.splits)

lemma lut_okD:
  assumes "lut_ok view key mem s"
  shows "lut_key key" and "mem a = Some e \<Longrightarrow> a < 2 ^ 13" and "mem a = Some e \<Longrightarrow> length e = 6"
    and "mem a = Some e \<Longrightarrow> mem b = Some e' \<Longrightarrow> key e = key e' \<Longrightarrow> a = b"
proof -
  show "lut_key key" using assms by (simp add: lut_ok_def lut_contract_def)
  have wf: "lut_wf key mem" using assms by (simp add: lut_ok_def)
  then show "mem a = Some e \<Longrightarrow> a < 2 ^ 13" "mem a = Some e \<Longrightarrow> length e = 6" unfolding lut_wf_def by blast+
  from wf show "mem a = Some e \<Longrightarrow> mem b = Some e' \<Longrightarrow> key e = key e' \<Longrightarrow> a = b" unfolding lut_wf_def by blast
qed

lemma key_cong:
  "lut_key key \<Longrightarrow> length w = 6 \<Longrightarrow> length w' = 6 \<Longrightarrow> key_fields w = key_fields w' \<Longrightarrow> key w = key w'"
  unfolding lut_key_def by blast

lemma key_kind: "lut_key key \<Longrightarrow> length w = 6 \<Longrightarrow> length w' = 6 \<Longrightarrow> key w = key w' \<Longrightarrow> same_kind w w'"
  unfolding lut_key_def same_kind_def by blast

lemma address_up: "a < 2 ^ 13 \<Longrightarrow> ucast (of_nat a :: 13 word) = (of_nat a :: u32)"
  by (rule word_unat_eq_iff [THEN iffD2]) (simp add: unat_ucast_up unat_of_nat take_bit_nat_eq_self)

lemma dev_upd [simp]: "(s :: 'd gsw)\<lparr>gsw_dev := d\<rparr>\<lparr>gsw_dev := d'\<rparr> = s\<lparr>gsw_dev := d'\<rparr>"
  by simp

text \<open>The two outcomes of a lookup.\<close>

lemma lookup_outcome:
  assumes "lut_ok view key mem s" and "lt_wait_time l = 0"
  obtains (found) d a e where "rtl8367c_getAsicL2LookupTb LUTREADMETHOD_MAC l s = (Ok (lut_dec l a e), s\<lparr>gsw_dev := d\<rparr>)"
      "lut_ok view key mem (s\<lparr>gsw_dev := d\<rparr>)" "mem a = Some e" "key e = key (lut_enc l)"
    | (missing) d where "rtl8367c_getAsicL2LookupTb LUTREADMETHOD_MAC l s = (Err RT_ERR_L2_ENTRY_NOTFOUND, s\<lparr>gsw_dev := d\<rparr>)"
      "lut_ok view key mem (s\<lparr>gsw_dev := d\<rparr>)" "lut_absent key mem (key (lut_enc l))"
proof -
  from get_mac_run [OF assms] show ?thesis
  proof (elim exE conjE disjE)
    fix d r assume run: "rtl8367c_getAsicL2LookupTb LUTREADMETHOD_MAC l s = (r, s\<lparr>gsw_dev := d\<rparr>)" "lut_ok view key mem (s\<lparr>gsw_dev := d\<rparr>)"
      and none: "\<forall>a e. mem a = Some e \<longrightarrow> key e \<noteq> key (lut_enc l)" and r: "r = Err RT_ERR_L2_ENTRY_NOTFOUND"
    have "lut_absent key mem (key (lut_enc l))" using none by (simp add: lut_absent_def lut_has_iff)
    with missing run r show ?thesis by simp
  qed (use found in simp)
qed

text \<open>Storing an entry that lives.\<close>

lemma store_run:
  assumes ok: "lut_ok view key mem s" and "lt_wait_time l = 0" and live: "lut_live (lut_enc l)"
  shows "\<exists>d mem' r. rtl8367c_setAsicL2LookupTb l s = (r, s\<lparr>gsw_dev := d\<rparr>) \<and> lut_ok view key mem' (s\<lparr>gsw_dev := d\<rparr>) \<and>
    ((\<exists>a. r = Ok (l\<lparr>lt_lookup_hit := 1, lt_address := of_nat a, lt_lookup_busy := 0\<rparr>) \<and> lut_put key mem (lut_enc l) a mem') \<or>
     mem' = mem \<and> lut_absent key mem (key (lut_enc l)) \<and>
       (r = Err RT_ERR_FAILED \<or> (\<exists>a. r = Ok (l\<lparr>lt_lookup_hit := 1, lt_address := of_nat a, lt_lookup_busy := 0\<rparr>))))"
proof -
  let ?w = "lut_enc l"
  obtain d mem' hit a where w: "lut_written key mem ?w mem' hit a" and ok': "lut_ok view key mem' (s\<lparr>gsw_dev := d\<rparr>)"
    and run: "rtl8367c_setAsicL2LookupTb l s =
      (if hit then Ok (l\<lparr>lt_lookup_hit := 1, lt_address := of_nat a, lt_lookup_busy := 0\<rparr>) else Err RT_ERR_FAILED, s\<lparr>gsw_dev := d\<rparr>)"
    using setAsicL2LookupTb_run [OF ok assms(2)] by blast
  have "hit \<and> lut_put key mem ?w a mem' \<or> mem' = mem \<and> lut_absent key mem (key ?w)"
  proof (cases "\<exists>b. lut_has key mem (key ?w) b")
    case True
    with w live have "hit" "mem' = mem(a \<mapsto> ?w)" "lut_has key mem (key ?w) a" by (auto simp: lut_written_def Let_def)
    with lut_okD(2) [OF ok] show ?thesis by (auto simp: lut_put_def lut_has_iff)
  next
    case False
    with w live show ?thesis by (auto simp: lut_written_def Let_def lut_put_def lut_absent_def split: option.splits)
  qed
  then consider "hit" "lut_put key mem ?w a mem'" | "mem' = mem" "lut_absent key mem (key ?w)" by blast
  then show ?thesis using run ok'
    by cases (intro exI [of _ d] exI [of _ mem'] exI [of _ "fst (rtl8367c_setAsicL2LookupTb l s)"], auto)+
qed

text \<open>Storing an entry that does not live removes the one with its key.\<close>

lemma remove_run:
  assumes ok: "lut_ok view key mem s" and "lt_wait_time l = 0" and "\<not> lut_live (lut_enc l)" and has: "lut_has key mem (key (lut_enc l)) b"
  shows "\<exists>d. rtl8367c_setAsicL2LookupTb l s = (Ok (l\<lparr>lt_lookup_hit := 1, lt_address := of_nat b, lt_lookup_busy := 0\<rparr>), s\<lparr>gsw_dev := d\<rparr>) \<and>
    lut_ok view key (mem(b := None)) (s\<lparr>gsw_dev := d\<rparr>)"
proof -
  let ?w = "lut_enc l"
  obtain d mem' hit a where w: "lut_written key mem ?w mem' hit a" and ok': "lut_ok view key mem' (s\<lparr>gsw_dev := d\<rparr>)"
    and run: "rtl8367c_setAsicL2LookupTb l s =
      (if hit then Ok (l\<lparr>lt_lookup_hit := 1, lt_address := of_nat a, lt_lookup_busy := 0\<rparr>) else Err RT_ERR_FAILED, s\<lparr>gsw_dev := d\<rparr>)"
    using setAsicL2LookupTb_run [OF ok assms(2)] by blast
  have "\<exists>b. lut_has key mem (key ?w) b" using has by blast
  with w assms(3) have "hit" "mem' = mem(a := None)" "lut_has key mem (key ?w) a"
    by (simp_all add: lut_written_def Let_def)
  moreover have "a = b" using lut_okD(4) [OF ok, of a _ b] has \<open>lut_has key mem (key ?w) a\<close> by (auto simp: lut_has_iff)
  ultimately show ?thesis using run ok' by auto
qed

section \<open>Kinds of entries\<close>

text \<open>
  \<open>ky\<close> fills in the key of a datum, \<open>fill\<close> all its fields, \<open>wipe\<close> the key with everything else cleared.  The laws
  say that the filled structure has the same key and lives, and that the wiped one has the same key and
  does not live; the structure that is wiped has been read under the key.
\<close>

locale lut_entry =
  fixes ky :: "'c \<Rightarrow> rtl8367c_luttb \<Rightarrow> rtl8367c_luttb"
    and fill :: "'c \<Rightarrow> u32 \<Rightarrow> rtl8367c_luttb \<Rightarrow> rtl8367c_luttb"
    and wipe :: "'c \<Rightarrow> rtl8367c_luttb \<Rightarrow> rtl8367c_luttb"
    and proper :: "'c \<Rightarrow> bool"
  assumes no_wait: "lt_wait_time (ky c l) = lt_wait_time l" "lt_wait_time (fill c p l) = lt_wait_time l"
      "lt_wait_time (wipe c l) = lt_wait_time l"
    and fill_key: "proper c \<Longrightarrow> key_fields (lut_enc (fill c p l)) = key_fields (lut_enc (ky c luttb_zero))"
    and fill_live: "proper c \<Longrightarrow> lut_live (lut_enc (fill c p l))"
    and wipe_key: "proper c \<Longrightarrow> length e = 6 \<Longrightarrow> same_kind e (lut_enc (ky c luttb_zero)) \<Longrightarrow>
      key_fields (lut_enc (wipe c (lut_dec (ky c luttb_zero) a e))) = key_fields (lut_enc (ky c luttb_zero))"
    and wipe_dead: "proper c \<Longrightarrow> length e = 6 \<Longrightarrow> same_kind e (lut_enc (ky c luttb_zero)) \<Longrightarrow>
      \<not> lut_live (lut_enc (wipe c (lut_dec (ky c luttb_zero) a e)))"
begin

definition looked_up :: "'c \<Rightarrow> rtl8367c_luttb" where
  "looked_up c = ky c luttb_zero"

lemma looked_up_wait: "lt_wait_time (looked_up c) = 0"
  by (simp add: looked_up_def no_wait luttb_zero_def)

lemma add_run:
  assumes ok: "lut_ok view key mem s" and c: "proper c"
    and fm: "\<And>l d. fm l (s\<lparr>gsw_dev := d\<rparr>) = (Ok (fill c p l), s\<lparr>gsw_dev := d\<rparr>)"
  shows "\<exists>d mem' r. lut_add (ky c) fm s = (r, s\<lparr>gsw_dev := d\<rparr>) \<and> lut_ok view key mem' (s\<lparr>gsw_dev := d\<rparr>) \<and>
    ((\<exists>a l. r = Ok (of_nat a) \<and> lut_put key mem (lut_enc (fill c p l)) a mem') \<or>
     r \<in> {Err RT_ERR_FAILED, Err RT_ERR_L2_INDEXTBL_FULL} \<and> mem' = mem \<and> lut_absent key mem (key (lut_enc (looked_up c))))"
proof -
  let ?k = "key (lut_enc (looked_up c))"
  have key: "key (lut_enc (fill c p l)) = ?k" for l
    using key_cong [OF lut_okD(1) [OF ok]] fill_key [OF c] by (simp add: looked_up_def)
  from ok looked_up_wait [of c] show ?thesis
  proof (cases rule: lookup_outcome)
    case (found d1 a e)
    note get = found(1) and ok1 = found(2) and e = found(3,4)
    let ?l = "fill c p (lut_dec (looked_up c) a e)"
    have w: "lt_wait_time ?l = 0" by (simp add: no_wait looked_up_wait)
    have "\<not> lut_absent key mem (key (lut_enc ?l))" using e by (auto simp: lut_absent_def lut_has_iff key)
    then obtain d2 mem' b where "rtl8367c_setAsicL2LookupTb ?l (s\<lparr>gsw_dev := d1\<rparr>) =
        (Ok (?l\<lparr>lt_lookup_hit := 1, lt_address := of_nat b, lt_lookup_busy := 0\<rparr>), s\<lparr>gsw_dev := d2\<rparr>)"
      "lut_ok view key mem' (s\<lparr>gsw_dev := d2\<rparr>)" "lut_put key mem (lut_enc ?l) b mem'"
      using store_run [OF ok1 w fill_live [OF c]] by auto
    then show ?thesis using get fm
      by (intro exI [of _ d2] exI [of _ mem'] exI [of _ "Ok (of_nat b)"])
         (auto simp: lut_add_def lookup_cases_def looked_up_def bindE_def okE_def address_up lut_put_def)
  next
    case (missing d1)
    note get = missing(1) and ok1 = missing(2) and absent = missing(3)
    let ?l = "fill c p luttb_zero"
    have w: "lt_wait_time ?l = 0" by (simp add: no_wait luttb_zero_def)
    from store_run [OF ok1 w fill_live [OF c]] obtain d2 mem' r2
      where set: "rtl8367c_setAsicL2LookupTb ?l (s\<lparr>gsw_dev := d1\<rparr>) = (r2, s\<lparr>gsw_dev := d2\<rparr>)"
        and ok2: "lut_ok view key mem' (s\<lparr>gsw_dev := d2\<rparr>)"
        and r2: "(\<exists>a. r2 = Ok (?l\<lparr>lt_lookup_hit := 1, lt_address := of_nat a, lt_lookup_busy := 0\<rparr>) \<and> lut_put key mem (lut_enc ?l) a mem') \<or>
          mem' = mem \<and> (r2 = Err RT_ERR_FAILED \<or> (\<exists>a. r2 = Ok (?l\<lparr>lt_lookup_hit := 1, lt_address := of_nat a, lt_lookup_busy := 0\<rparr>)))"
      by auto
    have add: "lut_add (ky c) fm s = (case r2 of Ok l \<Rightarrow>
        lookup_cases (rtl8367c_getAsicL2LookupTb LUTREADMETHOD_MAC l) (\<lambda>_. okE (ucast (lt_address l))) (errE RT_ERR_L2_INDEXTBL_FULL)
          (s\<lparr>gsw_dev := d2\<rparr>) | Err e \<Rightarrow> (Err e, s\<lparr>gsw_dev := d2\<rparr>) | Fault \<Rightarrow> (Fault, s\<lparr>gsw_dev := d2\<rparr>))"
      using get set fm [of luttb_zero d1] by (simp add: lut_add_def lookup_cases_def looked_up_def bindE_def split: outcome.splits)
    have again: "\<exists>d3 r3. rtl8367c_getAsicL2LookupTb LUTREADMETHOD_MAC l (s\<lparr>gsw_dev := d2\<rparr>) = (r3, s\<lparr>gsw_dev := d3\<rparr>) \<and>
        lut_ok view key mem' (s\<lparr>gsw_dev := d3\<rparr>) \<and>
        (if lut_absent key mem' ?k then r3 = Err RT_ERR_L2_ENTRY_NOTFOUND else \<exists>x. r3 = Ok x)"
      if "l = ?l\<lparr>lt_lookup_hit := 1, lt_address := a, lt_lookup_busy := 0\<rparr>" for l a
    proof -
      have "lt_wait_time l = 0" "key (lut_enc l) = ?k" using w key that by simp_all
      then show ?thesis
        by (cases rule: lookup_outcome [OF ok2, of l]) (auto simp: lut_absent_def lut_has_iff)
    qed
    from r2 consider (put) a where "r2 = Ok (?l\<lparr>lt_lookup_hit := 1, lt_address := of_nat a, lt_lookup_busy := 0\<rparr>)" "lut_put key mem (lut_enc ?l) a mem'"
      | (failed) "mem' = mem" "r2 = Err RT_ERR_FAILED"
      | (lost) a where "mem' = mem" "r2 = Ok (?l\<lparr>lt_lookup_hit := 1, lt_address := of_nat a, lt_lookup_busy := 0\<rparr>)"
      by blast
    then show ?thesis
    proof cases
      case put
      then have "\<not> lut_absent key mem' ?k" "a < 2 ^ 13" by (auto simp: lut_put_def lut_absent_def lut_has_iff key intro!: exI [of _ a])
      with again [OF refl, of "of_nat a"] obtain d3 x where
        "rtl8367c_getAsicL2LookupTb LUTREADMETHOD_MAC (?l\<lparr>lt_lookup_hit := 1, lt_address := of_nat a, lt_lookup_busy := 0\<rparr>) (s\<lparr>gsw_dev := d2\<rparr>) =
           (Ok x, s\<lparr>gsw_dev := d3\<rparr>)" "lut_ok view key mem' (s\<lparr>gsw_dev := d3\<rparr>)" by auto
      with put add \<open>a < 2 ^ 13\<close> show ?thesis
        by (intro exI [of _ d3] exI [of _ mem'] exI [of _ "Ok (of_nat a)"]) (auto simp: lookup_cases_def okE_def address_up)
    next
      case failed
      with add ok2 absent show ?thesis by (intro exI [of _ d2] exI [of _ mem] exI [of _ "Err RT_ERR_FAILED"]) auto
    next
      case lost
      with again [OF refl, of "of_nat a"] absent obtain d3 where
        "rtl8367c_getAsicL2LookupTb LUTREADMETHOD_MAC (?l\<lparr>lt_lookup_hit := 1, lt_address := of_nat a, lt_lookup_busy := 0\<rparr>) (s\<lparr>gsw_dev := d2\<rparr>) =
           (Err RT_ERR_L2_ENTRY_NOTFOUND, s\<lparr>gsw_dev := d3\<rparr>)" "lut_ok view key mem (s\<lparr>gsw_dev := d3\<rparr>)" by auto
      with lost add absent show ?thesis
        by (intro exI [of _ d3] exI [of _ mem] exI [of _ "Err RT_ERR_L2_INDEXTBL_FULL"]) (auto simp: lookup_cases_def errE_def)
    qed
  qed
qed

lemma del_run:
  assumes ok: "lut_ok view key mem s" and c: "proper c"
  shows "\<exists>d mem' r. lut_del (ky c) (wipe c) s = (r, s\<lparr>gsw_dev := d\<rparr>) \<and> lut_ok view key mem' (s\<lparr>gsw_dev := d\<rparr>) \<and>
    ((\<exists>a. lut_has key mem (key (lut_enc (looked_up c))) a \<and> r = Ok (of_nat a) \<and> mem' = mem(a := None)) \<or>
     lut_absent key mem (key (lut_enc (looked_up c))) \<and> r = Err RT_ERR_L2_ENTRY_NOTFOUND \<and> mem' = mem)"
proof -
  let ?k = "key (lut_enc (looked_up c))"
  note lk = lut_okD(1) [OF ok]
  from ok looked_up_wait [of c] show ?thesis
  proof (cases rule: lookup_outcome)
    case (found d1 a e)
    note get = found(1) and ok1 = found(2) and e = found(3,4)
    let ?l = "wipe c (lut_dec (looked_up c) a e)"
    have len: "length e = 6" "a < 2 ^ 13" using lut_okD(3,2) [OF ok e(1)] .
    have kind: "same_kind e (lut_enc (ky c luttb_zero))" using key_kind [OF lk len(1) _ e(2)] by (simp add: looked_up_def)
    have "key (lut_enc ?l) = ?k" using key_cong [OF lk] wipe_key [OF c len(1) kind] by (simp add: looked_up_def)
    then have has: "lut_has key mem (key (lut_enc ?l)) a" using e by (simp add: lut_has_iff)
    have "lt_wait_time ?l = 0" by (simp add: no_wait looked_up_wait)
    from remove_run [OF ok1 this _ has] wipe_dead [OF c len(1) kind]
    obtain d2 where "rtl8367c_setAsicL2LookupTb ?l (s\<lparr>gsw_dev := d1\<rparr>) =
        (Ok (?l\<lparr>lt_lookup_hit := 1, lt_address := of_nat a, lt_lookup_busy := 0\<rparr>), s\<lparr>gsw_dev := d2\<rparr>)"
      "lut_ok view key (mem(a := None)) (s\<lparr>gsw_dev := d2\<rparr>)" by (auto simp: looked_up_def)
    then show ?thesis using get e len
      by (intro exI [of _ d2] exI [of _ "mem(a := None)"] exI [of _ "Ok (of_nat a)"])
         (auto simp: lut_del_def looked_up_def bindE_def okE_def address_up lut_has_iff)
  next
    case (missing d1)
    then show ?thesis
      by (intro exI [of _ d1] exI [of _ mem] exI [of _ "Err RT_ERR_L2_ENTRY_NOTFOUND"])
         (simp add: lut_del_def looked_up_def bindE_def)
  qed
qed

end

section \<open>The four kinds\<close>

interpretation uc: lut_entry "\<lambda>(mac, d). uc_key mac d" "\<lambda>(mac, d) phy. uc_fill mac d phy" "\<lambda>(mac, d). uc_wipe mac d"
  "\<lambda>(mac, d). length mac = 6 \<and> mac ! 0 AND 1 = 0"
proof
  fix c :: "mac_t \<times> rtk_l2_ucastAddr_t" and l :: rtl8367c_luttb and p e a
  obtain mac d where c: "c = (mac, d)" by (cases c)
  note defs = uc_key_def uc_fill_def uc_wipe_def luttb_zero_def uc_form_def
  show "lt_wait_time ((case c of (mac, d) \<Rightarrow> uc_key mac d) l) = lt_wait_time l"
    "lt_wait_time ((case c of (mac, d) \<Rightarrow> uc_fill mac d) p l) = lt_wait_time l"
    "lt_wait_time ((case c of (mac, d) \<Rightarrow> uc_wipe mac d) l) = lt_wait_time l" by (simp_all add: c defs)
  assume "case c of (mac, d) \<Rightarrow> length mac = 6 \<and> mac ! 0 AND 1 = 0"
  then have m: "length mac = 6" "mac ! 0 AND 1 = 0" by (simp_all add: c)
  then have f: "uc_form (uc_fill mac d p l)" "uc_form (uc_key mac d luttb_zero)" by (simp_all add: defs)
  then show "key_fields (lut_enc ((case c of (mac, d) \<Rightarrow> uc_fill mac d) p l)) = key_fields (lut_enc ((case c of (mac, d) \<Rightarrow> uc_key mac d) luttb_zero))"
    unfolding c split by (intro enc_key(1)) (simp_all add: defs)
  show "lut_live (lut_enc ((case c of (mac, d) \<Rightarrow> uc_fill mac d) p l))"
    unfolding c split enc_live(1) [OF f(1)] by (simp add: defs)
  assume "length e = 6" "same_kind e (lut_enc ((case c of (mac, d) \<Rightarrow> uc_key mac d) luttb_zero))"
  with same_kindD(1) form_kind(1) [OF f(2)] have "lut_uc e" by (simp add: c)
  then have w: "uc_form (uc_wipe mac d (lut_dec (uc_key mac d luttb_zero) a e))"
    using m lut_dec_uc by (simp add: uc_wipe_def uc_key_def uc_form_def)
  then show "key_fields (lut_enc ((case c of (mac, d) \<Rightarrow> uc_wipe mac d) (lut_dec ((case c of (mac, d) \<Rightarrow> uc_key mac d) luttb_zero) a e))) =
      key_fields (lut_enc ((case c of (mac, d) \<Rightarrow> uc_key mac d) luttb_zero))"
    unfolding c split using f(2) by (intro enc_key(1)) (simp_all add: uc_wipe_def uc_key_def)
  show "\<not> lut_live (lut_enc ((case c of (mac, d) \<Rightarrow> uc_wipe mac d) (lut_dec ((case c of (mac, d) \<Rightarrow> uc_key mac d) luttb_zero) a e)))"
    unfolding c split enc_live(1) [OF w] by (simp add: uc_wipe_def)
qed

interpretation mc: lut_entry mcs_key mcs_fill mcs_wipe "\<lambda>d. length (mcs_mac d) = 6 \<and> mcs_mac d ! 0 AND 1 \<noteq> 0"
proof
  fix d :: rtk_l2_mcastAddr_t and l l' :: rtl8367c_luttb and p e a
  show "lt_wait_time (mcs_key d l) = lt_wait_time l" "lt_wait_time (mcs_fill d p l) = lt_wait_time l"
    "lt_wait_time (mcs_wipe d l) = lt_wait_time l" by (simp_all add: mcs_key_def mcs_fill_def mcs_wipe_def)
  assume "length (mcs_mac d) = 6 \<and> mcs_mac d ! 0 AND 1 \<noteq> 0"
  then have f: "mc_form (mcs_fill d p l)" "mc_form (mcs_key d luttb_zero)" "mc_form (mcs_wipe d (lut_dec (mcs_key d luttb_zero) a e))"
    by (simp_all add: mcs_key_def mcs_fill_def mcs_wipe_def luttb_zero_def mc_form_def)
  show "key_fields (lut_enc (mcs_fill d p l)) = key_fields (lut_enc (mcs_key d luttb_zero))"
    using f(1,2) by (intro enc_key(2)) (simp_all add: mcs_key_def mcs_fill_def)
  show "lut_live (lut_enc (mcs_fill d p l))" unfolding enc_live(2) [OF f(1)] by (simp add: mcs_fill_def)
  show "key_fields (lut_enc (mcs_wipe d (lut_dec (mcs_key d luttb_zero) a e))) = key_fields (lut_enc (mcs_key d luttb_zero))"
    using f(2,3) by (intro enc_key(2)) (simp_all add: mcs_key_def mcs_wipe_def)
  show "\<not> lut_live (lut_enc (mcs_wipe d (lut_dec (mcs_key d luttb_zero) a e)))" unfolding enc_live(2) [OF f(3)] by (simp add: mcs_wipe_def)
qed

interpretation ip: lut_entry ipm_key ipm_fill ipm_wipe "\<lambda>_. True"
proof
  fix d :: rtk_l2_ipMcastAddr_t and l l' :: rtl8367c_luttb and p e a
  show "lt_wait_time (ipm_key d l) = lt_wait_time l" "lt_wait_time (ipm_fill d p l) = lt_wait_time l"
    "lt_wait_time (ipm_wipe d l) = lt_wait_time l" by (simp_all add: ipm_key_def ipm_fill_def ipm_wipe_def)
  show "key_fields (lut_enc (ipm_fill d p l)) = key_fields (lut_enc (ipm_key d luttb_zero))"
    by (intro enc_key(3)) (simp_all add: ipm_key_def ipm_fill_def)
  show "lut_live (lut_enc (ipm_fill d p l))" by (subst enc_live(3)) (simp_all add: ipm_fill_def ipm_key_def)
  show "key_fields (lut_enc (ipm_wipe d (lut_dec (ipm_key d luttb_zero) a e))) = key_fields (lut_enc (ipm_key d luttb_zero))"
    by (intro enc_key(3)) (simp_all add: ipm_key_def ipm_wipe_def)
  show "\<not> lut_live (lut_enc (ipm_wipe d (lut_dec (ipm_key d luttb_zero) a e)))" by (subst enc_live(3)) (simp_all add: ipm_wipe_def ipm_key_def)
qed

interpretation iv: lut_entry ivm_key ivm_fill ivm_wipe "\<lambda>_. True"
proof
  fix d :: rtk_l2_ipVidMcastAddr_t and l l' :: rtl8367c_luttb and p e a
  show "lt_wait_time (ivm_key d l) = lt_wait_time l" "lt_wait_time (ivm_fill d p l) = lt_wait_time l"
    "lt_wait_time (ivm_wipe d l) = lt_wait_time l" by (simp_all add: ivm_key_def ivm_fill_def ivm_wipe_def)
  show "key_fields (lut_enc (ivm_fill d p l)) = key_fields (lut_enc (ivm_key d luttb_zero))"
    by (intro enc_key(3)) (simp_all add: ivm_key_def ivm_fill_def)
  show "lut_live (lut_enc (ivm_fill d p l))" by (subst enc_live(3)) (simp_all add: ivm_fill_def ivm_key_def)
  show "key_fields (lut_enc (ivm_wipe d (lut_dec (ivm_key d luttb_zero) a e))) = key_fields (lut_enc (ivm_key d luttb_zero))"
    by (intro enc_key(3)) (simp_all add: ivm_key_def ivm_wipe_def)
  show "\<not> lut_live (lut_enc (ivm_wipe d (lut_dec (ivm_key d luttb_zero) a e)))" by (subst enc_live(3)) (simp_all add: ivm_wipe_def ivm_key_def)
qed

end
