(* ===== verification/L2_Spec.thy ===== *)
theory L2_Spec
  imports Lut_Entry Vlan_Entries
begin

text \<open>
  The entry functions of \<open>l2.c\<close> against an abstract table.  A call adds, looks up or deletes an entry of one
  of the four kinds; the relation \<open>l2_step\<close> says what it returns and how it changes the memory of the chip.  The
  relation leaves open where the chip puts a new entry and which learned entry gives way.
\<close>

section \<open>Calls\<close>

datatype l2_data = Uc mac_t rtk_l2_ucastAddr_t | Mc rtk_l2_mcastAddr_t | Ip rtk_l2_ipMcastAddr_t | Iv rtk_l2_ipVidMcastAddr_t

datatype l2_call = Add l2_data | Look l2_data | Del l2_data

definition asE :: "('a \<Rightarrow> l2_data) \<Rightarrow> ('s, 'a) drv \<Rightarrow> ('s, l2_data) drv" where
  "asE f m = bindE m (\<lambda>x. okE (f x))"

fun l2_do :: "l2_call \<Rightarrow> ('d gsw, l2_data) drv" where
  "l2_do (Add (Uc mac d)) = asE (Uc mac) (rtk_l2_addr_add (Some mac) (Some d))"
| "l2_do (Add (Mc d)) = asE Mc (rtk_l2_mcastAddr_add (Some d))"
| "l2_do (Add (Ip d)) = asE Ip (rtk_l2_ipMcastAddr_add (Some d))"
| "l2_do (Add (Iv d)) = asE Iv (rtk_l2_ipVidMcastAddr_add (Some d))"
| "l2_do (Look (Uc mac d)) = asE (Uc mac) (rtk_l2_addr_get (Some mac) (Some d))"
| "l2_do (Look (Mc d)) = asE Mc (rtk_l2_mcastAddr_get (Some d))"
| "l2_do (Look (Ip d)) = asE Ip (rtk_l2_ipMcastAddr_get (Some d))"
| "l2_do (Look (Iv d)) = asE Iv (rtk_l2_ipVidMcastAddr_get (Some d))"
| "l2_do (Del (Uc mac d)) = asE (Uc mac) (rtk_l2_addr_del (Some mac) (Some d))"
| "l2_do (Del (Mc d)) = asE Mc (rtk_l2_mcastAddr_del (Some d))"
| "l2_do (Del (Ip d)) = asE Ip (rtk_l2_ipMcastAddr_del (Some d))"
| "l2_do (Del (Iv d)) = asE Iv (rtk_l2_ipVidMcastAddr_del (Some d))"

primrec l2_run :: "l2_call list \<Rightarrow> 'd gsw \<Rightarrow> l2_data outcome list \<times> 'd gsw" where
  "l2_run [] s = ([], s)"
| "l2_run (c # cs) s = (case l2_do c s of (r, s1) \<Rightarrow> (case l2_run cs s1 of (rs, s2) \<Rightarrow> (r # rs, s2)))"

text \<open>An address has six octets.\<close>

primrec data_wf :: "l2_data \<Rightarrow> bool" where
  "data_wf (Uc mac d) \<longleftrightarrow> length mac = 6"
| "data_wf (Mc d) \<longleftrightarrow> length (mcs_mac d) = 6"
| "data_wf (Ip d) \<longleftrightarrow> True"
| "data_wf (Iv d) \<longleftrightarrow> True"

primrec call_data :: "l2_call \<Rightarrow> l2_data" where
  "call_data (Add x) = x"
| "call_data (Look x) = x"
| "call_data (Del x) = x"

section \<open>The abstract table\<close>

text \<open>The structure a call looks up, the structure it stores, and the datum with its address.\<close>

primrec l2_key :: "l2_data \<Rightarrow> rtl8367c_luttb" where
  "l2_key (Uc mac d) = uc_key mac d luttb_zero"
| "l2_key (Mc d) = mcs_key d luttb_zero"
| "l2_key (Ip d) = ipm_key d luttb_zero"
| "l2_key (Iv d) = ivm_key d luttb_zero"

primrec l2_fill :: "rtk_switch_halCtrl_t \<Rightarrow> l2_data \<Rightarrow> rtl8367c_luttb \<Rightarrow> rtl8367c_luttb" where
  "l2_fill h (Uc mac d) = uc_fill mac d (phy_of h (uc_port d))"
| "l2_fill h (Mc d) = mcs_fill d (l2p_mask h (mcs_portmask d))"
| "l2_fill h (Ip d) = ipm_fill d (l2p_mask h (ipm_portmask d))"
| "l2_fill h (Iv d) = ivm_fill d (l2p_mask h (ivm_portmask d))"

primrec l2_at :: "l2_data \<Rightarrow> nat \<Rightarrow> l2_data" where
  "l2_at (Uc mac d) a = Uc mac (d\<lparr>uc_address := of_nat a\<rparr>)"
| "l2_at (Mc d) a = Mc (d\<lparr>mcs_address := of_nat a\<rparr>)"
| "l2_at (Ip d) a = Ip (d\<lparr>ipm_address := of_nat a\<rparr>)"
| "l2_at (Iv d) a = Iv (d\<lparr>ivm_address := of_nat a\<rparr>)"

text \<open>What the caller is told of a structure read from the table.\<close>

primrec l2_seen :: "rtk_switch_halCtrl_t \<Rightarrow> l2_data \<Rightarrow> rtl8367c_luttb \<Rightarrow> l2_data" where
  "l2_seen h (Uc mac d) l = Uc mac (uc_of_lut mac (p2l_port h ! unat (lt_spa l)) l)"
| "l2_seen h (Mc d) l = Mc (d\<lparr>mcs_priority := ucast (lt_lut_pri l), mcs_fwd_pri_en := ucast (lt_fwd_en l),
     mcs_igmp_asic := ucast (lt_igmp_asic l), mcs_igmp_index := ucast (lt_igmpidx l),
     mcs_address := ucast (lt_address l), mcs_portmask := p2l_mask h (ucast (lt_mbr l))\<rparr>)"
| "l2_seen h (Ip d) l = Ip (d\<lparr>ipm_portmask := p2l_mask h (ucast (lt_mbr l)), ipm_priority := ucast (lt_lut_pri l),
     ipm_fwd_pri_en := ucast (lt_fwd_en l), ipm_igmp_asic := ucast (lt_igmp_asic l),
     ipm_igmp_index := ucast (lt_igmpidx l), ipm_address := ucast (lt_address l)\<rparr>)"
| "l2_seen h (Iv d) l = Iv (d\<lparr>ivm_address := ucast (lt_address l), ivm_portmask := p2l_mask h (ucast (lt_mbr l))\<rparr>)"

text \<open>The arguments that are accepted; a unicast datum is looked up whatever its VLAN and mode.\<close>

primrec l2_found_by :: "l2_data \<Rightarrow> bool" where
  "l2_found_by (Uc mac d) \<longleftrightarrow> mac ! 0 AND 1 = 0 \<and> uc_fid d \<le> 15 \<and> uc_efid d \<le> 7"
| "l2_found_by (Mc d) \<longleftrightarrow> mcs_mac d ! 0 AND 1 \<noteq> 0 \<and> (mcs_ivl d = 1 \<and> mcs_vid d \<le> 0xFFF \<or> mcs_ivl d = 0 \<and> mcs_fid d \<le> 15)"
| "l2_found_by (Ip d) \<longleftrightarrow> ipm_dip d AND 0xF0000000 = 0xE0000000"
| "l2_found_by (Iv d) \<longleftrightarrow> ivm_dip d AND 0xF0000000 = 0xE0000000 \<and> ivm_vid d \<le> 0xFFF"

primrec l2_addable :: "rtk_switch_halCtrl_t \<Rightarrow> l2_data \<Rightarrow> bool" where
  "l2_addable h (Uc mac d) \<longleftrightarrow> valid_port h (uc_port d) \<and> uc_ivl d \<le> 1 \<and> uc_cvid d \<le> 0xFFF \<and> uc_is_static d \<le> 1 \<and>
     uc_sa_block d \<le> 1 \<and> uc_da_block d \<le> 1 \<and> uc_auth d \<le> 1 \<and> uc_priority d \<le> 7 \<and> uc_sa_pri_en d \<le> 1 \<and> uc_fwd_pri_en d \<le> 1"
| "l2_addable h (Mc d) \<longleftrightarrow> valid_mask h (mcs_portmask d) \<and> mcs_fwd_pri_en d \<le> 1 \<and> mcs_priority d \<le> 7"
| "l2_addable h (Ip d) \<longleftrightarrow> valid_mask h (ipm_portmask d) \<and> ipm_fwd_pri_en d \<le> 1 \<and> ipm_priority d \<le> 7"
| "l2_addable h (Iv d) \<longleftrightarrow> valid_mask h (ivm_portmask d)"

primrec l2_ok :: "rtk_switch_halCtrl_t \<Rightarrow> l2_call \<Rightarrow> bool" where
  "l2_ok h (Add x) \<longleftrightarrow> l2_found_by x \<and> l2_addable h x"
| "l2_ok h (Look x) \<longleftrightarrow> l2_found_by x"
| "l2_ok h (Del x) \<longleftrightarrow> l2_found_by x"

abbreviation key_of :: "(u16 list \<Rightarrow> 'k) \<Rightarrow> l2_data \<Rightarrow> 'k" where
  "key_of key x \<equiv> key (lut_enc (l2_key x))"

inductive l2_step ::
  "(u16 list \<Rightarrow> 'k) \<Rightarrow> rtk_switch_halCtrl_t \<Rightarrow> (nat \<Rightarrow> u16 list option) \<Rightarrow> l2_call \<Rightarrow> l2_data outcome \<Rightarrow> (nat \<Rightarrow> u16 list option) \<Rightarrow> bool"
  for key :: "u16 list \<Rightarrow> 'k" and h :: rtk_switch_halCtrl_t where
  refused: "\<not> l2_ok h c \<Longrightarrow> l2_step key h mem c (Err e) mem"
| stored: "l2_ok h (Add x) \<Longrightarrow> lut_put key mem (lut_enc (l2_fill h x l)) a mem' \<Longrightarrow> l2_step key h mem (Add x) (Ok (l2_at x a)) mem'"
| full: "l2_ok h (Add x) \<Longrightarrow> lut_absent key mem (key_of key x) \<Longrightarrow> e = RT_ERR_FAILED \<or> e = RT_ERR_L2_INDEXTBL_FULL \<Longrightarrow>
    l2_step key h mem (Add x) (Err e) mem"
| seen: "l2_ok h (Look x) \<Longrightarrow> mem a = Some e \<Longrightarrow> key e = key_of key x \<Longrightarrow>
    l2_step key h mem (Look x) (Ok (l2_seen h x (lut_dec (l2_key x) a e))) mem"
| unseen: "l2_ok h (Look x) \<Longrightarrow> lut_absent key mem (key_of key x) \<Longrightarrow> l2_step key h mem (Look x) (Err RT_ERR_L2_ENTRY_NOTFOUND) mem"
| removed: "l2_ok h (Del x) \<Longrightarrow> lut_has key mem (key_of key x) a \<Longrightarrow> l2_step key h mem (Del x) (Ok (l2_at x a)) (mem(a := None))"
| unremoved: "l2_ok h (Del x) \<Longrightarrow> lut_absent key mem (key_of key x) \<Longrightarrow> l2_step key h mem (Del x) (Err RT_ERR_L2_ENTRY_NOTFOUND) mem"

inductive l2_trace ::
  "(u16 list \<Rightarrow> 'k) \<Rightarrow> rtk_switch_halCtrl_t \<Rightarrow> (nat \<Rightarrow> u16 list option) \<Rightarrow> l2_call list \<Rightarrow> l2_data outcome list \<Rightarrow> (nat \<Rightarrow> u16 list option) \<Rightarrow> bool"
  for key :: "u16 list \<Rightarrow> 'k" and h :: rtk_switch_halCtrl_t where
  none: "l2_trace key h mem [] [] mem"
| call: "l2_step key h mem c r mem1 \<Longrightarrow> l2_trace key h mem1 cs rs mem2 \<Longrightarrow> l2_trace key h mem (c # cs) (r # rs) mem2"

section \<open>The driver refines it\<close>

text \<open>What a call must show: it runs to an end that the relation allows.\<close>

definition l2_runs :: "('d \<Rightarrow> lut_view) \<Rightarrow> (u16 list \<Rightarrow> 'k) \<Rightarrow> rtk_switch_halCtrl_t \<Rightarrow> (nat \<Rightarrow> u16 list option) \<Rightarrow> l2_call \<Rightarrow> 'd gsw \<Rightarrow> bool" where
  "l2_runs view key h mem c s \<longleftrightarrow> (\<exists>d mem' r. l2_do c s = (r, s\<lparr>gsw_dev := d\<rparr>) \<and>
     lut_ok view key mem' (s\<lparr>gsw_dev := d\<rparr>) \<and> l2_step key h mem c r mem')"

lemma ready_dev [simp]: "ready (s\<lparr>gsw_dev := d\<rparr>) h = ready s h"
  by (simp add: ready_def)

lemma l2_runs_refused:
  assumes "lut_ok view key mem s" and "\<not> l2_ok h c" and "\<exists>e. l2_do c s = (Err e, s)"
  shows "l2_runs view key h mem c s"
  using assms refused [of h c key mem] unfolding l2_runs_def by (metis gsw.surjective gsw.update_convs(2))

lemma l2_runs_add:
  assumes c: "l2_ok h (Add x)"
    and run: "\<exists>d mem' r. m s = (r, s\<lparr>gsw_dev := d\<rparr>) \<and> lut_ok view key mem' (s\<lparr>gsw_dev := d\<rparr>) \<and>
    ((\<exists>a l. r = Ok (of_nat a) \<and> lut_put key mem (lut_enc (l2_fill h x l)) a mem') \<or>
     r \<in> {Err RT_ERR_FAILED, Err RT_ERR_L2_INDEXTBL_FULL} \<and> mem' = mem \<and> lut_absent key mem (key_of key x))"
    and "l2_do (Add x) s = bindE m (\<lambda>a. okE (f a)) s" and f: "\<And>a. f (of_nat a) = l2_at x a"
  shows "l2_runs view key h mem (Add x) s"
proof -
  from run obtain d mem' r where r: "m s = (r, s\<lparr>gsw_dev := d\<rparr>)" "lut_ok view key mem' (s\<lparr>gsw_dev := d\<rparr>)"
    "(\<exists>a l. r = Ok (of_nat a) \<and> lut_put key mem (lut_enc (l2_fill h x l)) a mem') \<or>
     r \<in> {Err RT_ERR_FAILED, Err RT_ERR_L2_INDEXTBL_FULL} \<and> mem' = mem \<and> lut_absent key mem (key_of key x)" by blast
  from r(3) show ?thesis
  proof (elim disjE exE conjE)
    fix a l assume a: "r = Ok (of_nat a)" and p: "lut_put key mem (lut_enc (l2_fill h x l)) a mem'"
    from a assms(3) r(1) f have "l2_do (Add x) s = (Ok (l2_at x a), s\<lparr>gsw_dev := d\<rparr>)" by (simp add: bindE_def okE_def)
    with stored [OF c p] r(2) show ?thesis unfolding l2_runs_def by blast
  next
    assume e: "r \<in> {Err RT_ERR_FAILED, Err RT_ERR_L2_INDEXTBL_FULL}" "mem' = mem" "lut_absent key mem (key_of key x)"
    then obtain e where "r = Err e" "e = RT_ERR_FAILED \<or> e = RT_ERR_L2_INDEXTBL_FULL" by blast
    moreover from this assms(3) r(1) have "l2_do (Add x) s = (Err e, s\<lparr>gsw_dev := d\<rparr>)" by (simp add: bindE_def)
    ultimately show ?thesis using full [OF c e(3)] r(2) e(2) unfolding l2_runs_def by blast
  qed
qed

lemma l2_runs_del:
  assumes c: "l2_ok h (Del x)"
    and run: "\<exists>d mem' r. m s = (r, s\<lparr>gsw_dev := d\<rparr>) \<and> lut_ok view key mem' (s\<lparr>gsw_dev := d\<rparr>) \<and>
    ((\<exists>a. lut_has key mem (key_of key x) a \<and> r = Ok (of_nat a) \<and> mem' = mem(a := None)) \<or>
     lut_absent key mem (key_of key x) \<and> r = Err RT_ERR_L2_ENTRY_NOTFOUND \<and> mem' = mem)"
    and "l2_do (Del x) s = bindE m (\<lambda>a. okE (f a)) s" and f: "\<And>a. f (of_nat a) = l2_at x a"
  shows "l2_runs view key h mem (Del x) s"
proof -
  from run obtain d mem' r where r: "m s = (r, s\<lparr>gsw_dev := d\<rparr>)" "lut_ok view key mem' (s\<lparr>gsw_dev := d\<rparr>)"
    "(\<exists>a. lut_has key mem (key_of key x) a \<and> r = Ok (of_nat a) \<and> mem' = mem(a := None)) \<or>
     lut_absent key mem (key_of key x) \<and> r = Err RT_ERR_L2_ENTRY_NOTFOUND \<and> mem' = mem" by blast
  from r(3) show ?thesis
  proof (elim disjE exE conjE)
    fix a assume a: "lut_has key mem (key_of key x) a" "r = Ok (of_nat a)" "mem' = mem(a := None)"
    from a assms(3) r(1) f have "l2_do (Del x) s = (Ok (l2_at x a), s\<lparr>gsw_dev := d\<rparr>)" by (simp add: bindE_def okE_def)
    with removed [OF c a(1)] r(2) a(3) show ?thesis unfolding l2_runs_def by blast
  next
    assume e: "lut_absent key mem (key_of key x)" "r = Err RT_ERR_L2_ENTRY_NOTFOUND" "mem' = mem"
    from e assms(3) r(1) have "l2_do (Del x) s = (Err RT_ERR_L2_ENTRY_NOTFOUND, s\<lparr>gsw_dev := d\<rparr>)" by (simp add: bindE_def)
    with unremoved [OF c e(1)] r(2) e(3) show ?thesis unfolding l2_runs_def by blast
  qed
qed

lemma l2_key_wait: "lt_wait_time (l2_key x) = 0"
  by (cases x) (simp_all add: uc_key_def mcs_key_def ipm_key_def ivm_key_def luttb_zero_def)

lemma l2_runs_look:
  assumes ok: "lut_ok view key mem s" and c: "l2_ok h (Look x)"
    and "l2_do (Look x) s = bindE (rtl8367c_getAsicL2LookupTb LUTREADMETHOD_MAC (l2_key x)) f s"
    and f: "\<And>l d. f l (s\<lparr>gsw_dev := d\<rparr>) = (Ok (l2_seen h x l), s\<lparr>gsw_dev := d\<rparr>)"
  shows "l2_runs view key h mem (Look x) s"
proof -
  from ok l2_key_wait [of x] show ?thesis
  proof (cases rule: lookup_outcome)
    case (found d a e)
    with f assms(3) have "l2_do (Look x) s = (Ok (l2_seen h x (lut_dec (l2_key x) a e)), s\<lparr>gsw_dev := d\<rparr>)"
      by (simp add: bindE_def)
    with seen [where key = key, OF c, of mem, OF found(3,4)] found(2) show ?thesis unfolding l2_runs_def by blast
  next
    case (missing d)
    with assms(3) have "l2_do (Look x) s = (Err RT_ERR_L2_ENTRY_NOTFOUND, s\<lparr>gsw_dev := d\<rparr>)" by (simp add: bindE_def)
    with unseen [OF c missing(3)] missing(2) show ?thesis unfolding l2_runs_def by blast
  qed
qed

section \<open>The calls one by one\<close>

lemma asE_simps:
  "asE f (thenE m k) = thenE m (asE f k)" "asE f (bindE n g) = bindE n (\<lambda>x. asE f (g x))"
  "asE f (okE x) = okE (f x)" "asE f (errE e) = errE e" "asE f (if b then k else k') = (if b then asE f k else asE f k')"
  by (simp_all add: asE_def thenE_def bindE_assoc)

lemma asE_Err [simp]: "asE f (Pair (Err e)) s = (Err e, s)"
  by (simp add: asE_def bindE_def)

lemma check_then: "thenE (check_that b e) k = (if b then k else errE e)" "thenE (errE e) k = errE e"
  by (simp_all add: check_that_def thenE_def)

lemma L2P_mask_bind:
  "ready s h \<Longrightarrow> bindE (rtk_switch_portmask_L2P_get (Some m) PTR) k s = (if valid_mask h m then k (l2p_mask h m) s else (Err RT_ERR_PORT_MASK, s))"
  by (simp add: bindE_def portmask_L2P_run)

lemma one_octet: "(w :: 8 word) AND 1 = 1 \<longleftrightarrow> w AND 1 \<noteq> 0"
  by (simp add: field_decide)

lemma two_le: "(2 :: u32) \<le> x \<longleftrightarrow> \<not> x \<le> 1" "x \<noteq> 1 \<Longrightarrow> x \<noteq> 0 \<Longrightarrow> \<not> x \<le> (1 :: u32)"
  by (simp_all add: word_le_nat_alt unat_eq_0 [symmetric]) (linarith, metis One_nat_def Suc_lessI less_one linorder_not_le unat_1 unat_eq_0 word_unat_eq_iff)

lemmas l2_checks = asE_simps unicast_mac_def not_nullE_def derefE_def bindE_okE bindE_errE check_then mcs_chk_mac_def mcs_chk_key_def
  chk_dip_def one_octet two_le(1) not_le [symmetric]

lemma uc_add_runs:
  assumes ok: "lut_ok view key mem s" and r: "ready s h" and wf: "length mac = 6"
  shows "l2_runs view key h mem (Add (Uc mac d)) s"
proof (cases "l2_ok h (Add (Uc mac d))")
  case True
  let ?fm = "\<lambda>l2Table. bindE (rtk_switch_port_L2P_get (uc_port d)) (\<lambda>phy. okE (uc_fill mac d phy l2Table))"
  have "?fm l (s\<lparr>gsw_dev := d'\<rparr>) = (Ok (uc_fill mac d (phy_of h (uc_port d)) l), s\<lparr>gsw_dev := d'\<rparr>)" for l d'
    using True r by (simp add: bindE_def okE_def port_L2P_run valid_port_def)
  with uc.add_run [OF ok, where c = "(mac, d)" and fm = ?fm and p = "phy_of h (uc_port d)"] True wf
  have "\<exists>d' mem' r. lut_add (uc_key mac d) ?fm s = (r, s\<lparr>gsw_dev := d'\<rparr>) \<and> lut_ok view key mem' (s\<lparr>gsw_dev := d'\<rparr>) \<and>
    ((\<exists>a l. r = Ok (of_nat a) \<and> lut_put key mem (lut_enc (l2_fill h (Uc mac d) l)) a mem') \<or>
     r \<in> {Err RT_ERR_FAILED, Err RT_ERR_L2_INDEXTBL_FULL} \<and> mem' = mem \<and> lut_absent key mem (key_of key (Uc mac d)))"
    by (simp add: uc.looked_up_def)
  moreover have "l2_do (Add (Uc mac d)) s = bindE (lut_add (uc_key mac d) ?fm) (\<lambda>a. okE (Uc mac (d\<lparr>uc_address := a\<rparr>))) s"
    using True by (simp add: rtk_l2_addr_add_def l2_checks chk_then [OF r])
  ultimately show ?thesis by (rule l2_runs_add [OF True]) simp
next
  case False
  show ?thesis
    by (rule l2_runs_refused [OF ok False]) (use False in \<open>auto simp: rtk_l2_addr_add_def l2_checks chk_then [OF r] errE_def\<close>)
qed

lemma mc_add_runs:
  assumes ok: "lut_ok view key mem s" and r: "ready s h" and wf: "length (mcs_mac d) = 6"
  shows "l2_runs view key h mem (Add (Mc d)) s"
proof (cases "l2_ok h (Add (Mc d))")
  case True
  let ?fm = "\<lambda>l. okE (mcs_fill d (l2p_mask h (mcs_portmask d)) l) :: ('a gsw, _) drv"
  from mc.add_run [OF ok, where c = d and fm = ?fm and p = "l2p_mask h (mcs_portmask d)"] True wf
  have "\<exists>d' mem' r. lut_add (mcs_key d) ?fm s = (r, s\<lparr>gsw_dev := d'\<rparr>) \<and> lut_ok view key mem' (s\<lparr>gsw_dev := d'\<rparr>) \<and>
    ((\<exists>a l. r = Ok (of_nat a) \<and> lut_put key mem (lut_enc (l2_fill h (Mc d) l)) a mem') \<or>
     r \<in> {Err RT_ERR_FAILED, Err RT_ERR_L2_INDEXTBL_FULL} \<and> mem' = mem \<and> lut_absent key mem (key_of key (Mc d)))"
    by (simp add: mc.looked_up_def okE_def)
  moreover have "l2_do (Add (Mc d)) s = bindE (lut_add (mcs_key d) ?fm) (\<lambda>a. okE (Mc (d\<lparr>mcs_address := a\<rparr>))) s"
    using True by (auto simp: rtk_l2_mcastAddr_add_def l2_checks chk_then [OF r] L2P_mask_bind [OF r])
  ultimately show ?thesis by (rule l2_runs_add [OF True]) simp
next
  case False
  show ?thesis
    by (rule l2_runs_refused [OF ok False])
       (use False in \<open>auto simp: rtk_l2_mcastAddr_add_def l2_checks chk_then [OF r] L2P_mask_bind [OF r] errE_def\<close>)
qed

lemma ip_add_runs:
  assumes ok: "lut_ok view key mem s" and r: "ready s h"
  shows "l2_runs view key h mem (Add (Ip d)) s"
proof (cases "l2_ok h (Add (Ip d))")
  case True
  let ?fm = "\<lambda>l. okE (ipm_fill d (l2p_mask h (ipm_portmask d)) l) :: ('a gsw, _) drv"
  from ip.add_run [OF ok, where c = d and fm = ?fm and p = "l2p_mask h (ipm_portmask d)"]
  have "\<exists>d' mem' r. lut_add (ipm_key d) ?fm s = (r, s\<lparr>gsw_dev := d'\<rparr>) \<and> lut_ok view key mem' (s\<lparr>gsw_dev := d'\<rparr>) \<and>
    ((\<exists>a l. r = Ok (of_nat a) \<and> lut_put key mem (lut_enc (l2_fill h (Ip d) l)) a mem') \<or>
     r \<in> {Err RT_ERR_FAILED, Err RT_ERR_L2_INDEXTBL_FULL} \<and> mem' = mem \<and> lut_absent key mem (key_of key (Ip d)))"
    by (simp add: ip.looked_up_def okE_def)
  moreover have "l2_do (Add (Ip d)) s = bindE (lut_add (ipm_key d) ?fm) (\<lambda>a. okE (Ip (d\<lparr>ipm_address := a\<rparr>))) s"
    using True by (simp add: rtk_l2_ipMcastAddr_add_def l2_checks chk_then [OF r] L2P_mask_bind [OF r])
  ultimately show ?thesis by (rule l2_runs_add [OF True]) simp
next
  case False
  show ?thesis
    by (rule l2_runs_refused [OF ok False])
       (use False in \<open>auto simp: rtk_l2_ipMcastAddr_add_def l2_checks chk_then [OF r] L2P_mask_bind [OF r] errE_def\<close>)
qed

lemma iv_add_runs:
  assumes ok: "lut_ok view key mem s" and r: "ready s h"
  shows "l2_runs view key h mem (Add (Iv d)) s"
proof (cases "l2_ok h (Add (Iv d))")
  case True
  let ?fm = "\<lambda>l. okE (ivm_fill d (l2p_mask h (ivm_portmask d)) l) :: ('a gsw, _) drv"
  from iv.add_run [OF ok, where c = d and fm = ?fm and p = "l2p_mask h (ivm_portmask d)"]
  have "\<exists>d' mem' r. lut_add (ivm_key d) ?fm s = (r, s\<lparr>gsw_dev := d'\<rparr>) \<and> lut_ok view key mem' (s\<lparr>gsw_dev := d'\<rparr>) \<and>
    ((\<exists>a l. r = Ok (of_nat a) \<and> lut_put key mem (lut_enc (l2_fill h (Iv d) l)) a mem') \<or>
     r \<in> {Err RT_ERR_FAILED, Err RT_ERR_L2_INDEXTBL_FULL} \<and> mem' = mem \<and> lut_absent key mem (key_of key (Iv d)))"
    by (simp add: iv.looked_up_def okE_def)
  moreover have "l2_do (Add (Iv d)) s = bindE (lut_add (ivm_key d) ?fm) (\<lambda>a. okE (Iv (d\<lparr>ivm_address := a\<rparr>))) s"
    using True by (simp add: rtk_l2_ipVidMcastAddr_add_def l2_checks chk_then [OF r] L2P_mask_bind [OF r])
  ultimately show ?thesis by (rule l2_runs_add [OF True]) simp
next
  case False
  show ?thesis
    by (rule l2_runs_refused [OF ok False])
       (use False in \<open>auto simp: rtk_l2_ipVidMcastAddr_add_def l2_checks chk_then [OF r] L2P_mask_bind [OF r] errE_def\<close>)
qed

lemma uc_look_runs:
  assumes ok: "lut_ok view key mem s" and r: "ready s h"
  shows "l2_runs view key h mem (Look (Uc mac d)) s"
proof (cases "l2_ok h (Look (Uc mac d))")
  case True
  let ?g = "\<lambda>l. bindE (rtk_switch_port_P2L_get (ucast (lt_spa l))) (\<lambda>port. okE (Uc mac (uc_of_lut mac port l))) :: ('a gsw, _) drv"
  have "unat (lt_spa l) < 16" for l :: rtl8367c_luttb using unsigned_less [of "lt_spa l"] by simp
  then have "?g l (s\<lparr>gsw_dev := d'\<rparr>) = (Ok (l2_seen h (Uc mac d) l), s\<lparr>gsw_dev := d'\<rparr>)" for l d'
    using r by (simp add: bindE_def okE_def port_P2L_run unat_ucast_up less_trans [of _ 16 32])
  moreover have "l2_do (Look (Uc mac d)) s = bindE (rtl8367c_getAsicL2LookupTb LUTREADMETHOD_MAC (l2_key (Uc mac d))) ?g s"
    using True by (simp add: rtk_l2_addr_get_def l2_checks chk_then [OF r])
  ultimately show ?thesis using l2_runs_look [OF ok True] by blast
next
  case False
  show ?thesis
    by (rule l2_runs_refused [OF ok False]) (use False in \<open>auto simp: rtk_l2_addr_get_def l2_checks chk_then [OF r] errE_def\<close>)
qed

lemma P2L_mask_bind: "ready s h \<Longrightarrow> bindE (rtk_switch_portmask_P2L_get m PTR) k (s\<lparr>gsw_dev := d\<rparr>) = k (p2l_mask h m) (s\<lparr>gsw_dev := d\<rparr>)"
  by (simp add: bindE_def portmask_P2L_run [where h = h])

lemma mc_look_runs:
  assumes ok: "lut_ok view key mem s" and r: "ready s h"
  shows "l2_runs view key h mem (Look (Mc d)) s"
proof (cases "l2_ok h (Look (Mc d))")
  case True
  let ?g = "\<lambda>l. asE Mc (mcs_of_lut l d) :: ('a gsw, _) drv"
  have "?g l (s\<lparr>gsw_dev := d'\<rparr>) = (Ok (l2_seen h (Mc d) l), s\<lparr>gsw_dev := d'\<rparr>)" for l d'
    by (simp add: mcs_of_lut_def asE_simps P2L_mask_bind [OF r]) (simp add: okE_def)
  moreover have "l2_do (Look (Mc d)) s = bindE (rtl8367c_getAsicL2LookupTb LUTREADMETHOD_MAC (l2_key (Mc d))) ?g s"
    using True by (auto simp: rtk_l2_mcastAddr_get_def l2_checks chk_then [OF r])
  ultimately show ?thesis using l2_runs_look [OF ok True] by blast
next
  case False
  show ?thesis
    by (rule l2_runs_refused [OF ok False]) (use False in \<open>auto simp: rtk_l2_mcastAddr_get_def l2_checks chk_then [OF r] errE_def\<close>)
qed

lemma ip_look_runs:
  assumes ok: "lut_ok view key mem s" and r: "ready s h"
  shows "l2_runs view key h mem (Look (Ip d)) s"
proof (cases "l2_ok h (Look (Ip d))")
  case True
  let ?g = "\<lambda>l. asE Ip (ipm_of_lut l (ipm_sip d) (ipm_dip d)) :: ('a gsw, _) drv"
  have "?g l (s\<lparr>gsw_dev := d'\<rparr>) = (Ok (l2_seen h (Ip d) l), s\<lparr>gsw_dev := d'\<rparr>)" for l d'
    by (simp add: ipm_of_lut_def asE_simps P2L_mask_bind [OF r]) (simp add: okE_def)
  moreover have "l2_do (Look (Ip d)) s = bindE (rtl8367c_getAsicL2LookupTb LUTREADMETHOD_MAC (l2_key (Ip d))) ?g s"
    using True by (simp add: rtk_l2_ipMcastAddr_get_def l2_checks chk_then [OF r])
  ultimately show ?thesis using l2_runs_look [OF ok True] by blast
next
  case False
  show ?thesis
    by (rule l2_runs_refused [OF ok False]) (use False in \<open>auto simp: rtk_l2_ipMcastAddr_get_def l2_checks chk_then [OF r] errE_def\<close>)
qed

lemma iv_look_runs:
  assumes ok: "lut_ok view key mem s" and r: "ready s h"
  shows "l2_runs view key h mem (Look (Iv d)) s"
proof (cases "l2_ok h (Look (Iv d))")
  case True
  let ?g = "\<lambda>l. bindE (rtk_switch_portmask_P2L_get (ucast (lt_mbr l)) PTR) (\<lambda>portmask.
     okE (Iv (d\<lparr>ivm_address := ucast (lt_address l), ivm_portmask := portmask\<rparr>))) :: ('a gsw, _) drv"
  have "?g l (s\<lparr>gsw_dev := d'\<rparr>) = (Ok (l2_seen h (Iv d) l), s\<lparr>gsw_dev := d'\<rparr>)" for l d'
    by (simp add: P2L_mask_bind [OF r]) (simp add: okE_def)
  moreover have "l2_do (Look (Iv d)) s = bindE (rtl8367c_getAsicL2LookupTb LUTREADMETHOD_MAC (l2_key (Iv d))) ?g s"
    using True by (simp add: rtk_l2_ipVidMcastAddr_get_def l2_checks chk_then [OF r])
  ultimately show ?thesis using l2_runs_look [OF ok True] by blast
next
  case False
  show ?thesis
    by (rule l2_runs_refused [OF ok False]) (use False in \<open>auto simp: rtk_l2_ipVidMcastAddr_get_def l2_checks chk_then [OF r] errE_def\<close>)
qed

lemma del_runs:
  assumes ok: "lut_ok view key mem s" and r: "ready s h" and wf: "data_wf x"
  shows "l2_runs view key h mem (Del x) s"
proof (cases "l2_ok h (Del x)")
  case True
  show ?thesis
  proof (cases x)
    case (Uc mac d)
    show ?thesis
    proof (rule l2_runs_del [OF True, where m = "lut_del (uc_key mac d) (uc_wipe mac d)" and f = "\<lambda>a. Uc mac (d\<lparr>uc_address := a\<rparr>)"])
      show "\<exists>d' mem' r. lut_del (uc_key mac d) (uc_wipe mac d) s = (r, s\<lparr>gsw_dev := d'\<rparr>) \<and> lut_ok view key mem' (s\<lparr>gsw_dev := d'\<rparr>) \<and>
        ((\<exists>a. lut_has key mem (key_of key x) a \<and> r = Ok (of_nat a) \<and> mem' = mem(a := None)) \<or>
         lut_absent key mem (key_of key x) \<and> r = Err RT_ERR_L2_ENTRY_NOTFOUND \<and> mem' = mem)"
        using uc.del_run [OF ok, of "(mac, d)"] True wf by (simp add: Uc uc.looked_up_def)
    qed (use True in \<open>simp_all add: Uc rtk_l2_addr_del_def l2_checks chk_then [OF r]\<close>)
  next
    case (Mc d)
    show ?thesis
    proof (rule l2_runs_del [OF True, where m = "lut_del (mcs_key d) (mcs_wipe d)" and f = "\<lambda>a. Mc (d\<lparr>mcs_address := a\<rparr>)"])
      show "\<exists>d' mem' r. lut_del (mcs_key d) (mcs_wipe d) s = (r, s\<lparr>gsw_dev := d'\<rparr>) \<and> lut_ok view key mem' (s\<lparr>gsw_dev := d'\<rparr>) \<and>
        ((\<exists>a. lut_has key mem (key_of key x) a \<and> r = Ok (of_nat a) \<and> mem' = mem(a := None)) \<or>
         lut_absent key mem (key_of key x) \<and> r = Err RT_ERR_L2_ENTRY_NOTFOUND \<and> mem' = mem)"
        using mc.del_run [OF ok, of d] True wf by (simp add: Mc mc.looked_up_def)
    qed (use True in \<open>auto simp: Mc rtk_l2_mcastAddr_del_def l2_checks chk_then [OF r]\<close>)
  next
    case (Ip d)
    show ?thesis
    proof (rule l2_runs_del [OF True, where m = "lut_del (ipm_key d) (ipm_wipe d)" and f = "\<lambda>a. Ip (d\<lparr>ipm_address := a\<rparr>)"])
      show "\<exists>d' mem' r. lut_del (ipm_key d) (ipm_wipe d) s = (r, s\<lparr>gsw_dev := d'\<rparr>) \<and> lut_ok view key mem' (s\<lparr>gsw_dev := d'\<rparr>) \<and>
        ((\<exists>a. lut_has key mem (key_of key x) a \<and> r = Ok (of_nat a) \<and> mem' = mem(a := None)) \<or>
         lut_absent key mem (key_of key x) \<and> r = Err RT_ERR_L2_ENTRY_NOTFOUND \<and> mem' = mem)"
        using ip.del_run [OF ok, where c = d] by (simp add: Ip ip.looked_up_def)
    qed (use True in \<open>simp_all add: Ip rtk_l2_ipMcastAddr_del_def l2_checks chk_then [OF r]\<close>)
  next
    case (Iv d)
    show ?thesis
    proof (rule l2_runs_del [OF True, where m = "lut_del (ivm_key d) (ivm_wipe d)" and f = "\<lambda>a. Iv (d\<lparr>ivm_address := a\<rparr>)"])
      show "\<exists>d' mem' r. lut_del (ivm_key d) (ivm_wipe d) s = (r, s\<lparr>gsw_dev := d'\<rparr>) \<and> lut_ok view key mem' (s\<lparr>gsw_dev := d'\<rparr>) \<and>
        ((\<exists>a. lut_has key mem (key_of key x) a \<and> r = Ok (of_nat a) \<and> mem' = mem(a := None)) \<or>
         lut_absent key mem (key_of key x) \<and> r = Err RT_ERR_L2_ENTRY_NOTFOUND \<and> mem' = mem)"
        using iv.del_run [OF ok, where c = d] by (simp add: Iv iv.looked_up_def)
    qed (use True in \<open>simp_all add: Iv rtk_l2_ipVidMcastAddr_del_def l2_checks chk_then [OF r]\<close>)
  qed
next
  case False
  have "\<exists>e. l2_do (Del x) s = (Err e, s)"
    using False by (cases x) (auto simp: rtk_l2_addr_del_def rtk_l2_mcastAddr_del_def rtk_l2_ipMcastAddr_del_def
        rtk_l2_ipVidMcastAddr_del_def l2_checks chk_then [OF r] errE_def)
  then show ?thesis by (rule l2_runs_refused [OF ok False])
qed

text \<open>Every call, with whatever arguments.\<close>

lemma l2_call_runs:
  assumes "lut_ok view key mem s" and "ready s h" and "data_wf (call_data c)"
  shows "l2_runs view key h mem c s"
proof (cases c)
  case (Add x)
  with assms show ?thesis by (cases x) (simp_all add: uc_add_runs mc_add_runs ip_add_runs iv_add_runs)
next
  case (Look x)
  with assms show ?thesis by (cases x) (simp_all add: uc_look_runs mc_look_runs ip_look_runs iv_look_runs)
next
  case (Del x)
  with assms show ?thesis by (simp add: del_runs)
qed

lemma l2_run_trace:
  assumes "lut_ok view key mem s" and "ready s h" and "\<forall>c \<in> set cs. data_wf (call_data c)"
  shows "\<exists>d mem' rs. l2_run cs s = (rs, s\<lparr>gsw_dev := d\<rparr>) \<and> lut_ok view key mem' (s\<lparr>gsw_dev := d\<rparr>) \<and> l2_trace key h mem cs rs mem'"
  using assms
proof (induction cs arbitrary: s mem)
  case Nil
  then show ?case by (intro exI [of _ "gsw_dev s"] exI [of _ mem] exI [of _ "[]"]) (simp add: l2_trace.none)
next
  case (Cons c cs)
  obtain d mem1 r where 1: "l2_do c s = (r, s\<lparr>gsw_dev := d\<rparr>)" "lut_ok view key mem1 (s\<lparr>gsw_dev := d\<rparr>)" "l2_step key h mem c r mem1"
    using l2_call_runs [OF Cons.prems(1,2), of c] Cons.prems(3) unfolding l2_runs_def by auto
  obtain d' mem2 rs where "l2_run cs (s\<lparr>gsw_dev := d\<rparr>) = (rs, s\<lparr>gsw_dev := d'\<rparr>)" "lut_ok view key mem2 (s\<lparr>gsw_dev := d'\<rparr>)"
      "l2_trace key h mem1 cs rs mem2"
    using Cons.IH [OF 1(2)] Cons.prems(2,3) by auto
  with 1 l2_trace.call [OF 1(3)] show ?case
    by (intro exI [of _ d'] exI [of _ mem2] exI [of _ "r # rs"]) simp
qed

end
