(* ===== verification/Lut_Sim.thy ===== *)
theory Lut_Sim
  imports Lut_Spec
begin

text \<open>
  A concrete chip that keeps the contract of the lookup table: the key is the whole of the fields of a lookup, a new entry
  takes the first free place, and each command keeps the chip busy for two polls.  It is used to evaluate
  the functions.
\<close>

record lut_dev =
  ld_addr :: u32
  ld_data :: u32
  ld_out :: u32
  ld_tab :: "u16 list option list"
  ld_regs :: lut_view

definition lut_mem :: "u16 list option list \<Rightarrow> nat \<Rightarrow> u16 list option" where
  "lut_mem tab a = (if a < length tab then case tab ! a of Some e \<Rightarrow> if length e = 6 then Some e else None | None \<Rightarrow> None else None)"

definition lut_dev_view :: "lut_dev \<Rightarrow> lut_view" where
  "lut_dev_view d = (ld_regs d)\<lparr>lv_mem := lut_mem (ld_tab d)\<rparr>"

definition lut_sim_done :: "nat option \<Rightarrow> (nat \<Rightarrow> u16) \<Rightarrow> lut_dev \<Rightarrow> lut_dev" where
  "lut_sim_done p rd d = d\<lparr>ld_regs := (case p of
      None \<Rightarrow> (ld_regs d)\<lparr>lv_hit := False, lv_busy := 2\<rparr>
    | Some a \<Rightarrow> (ld_regs d)\<lparr>lv_hit := True, lv_found := a, lv_rd := rd, lv_busy := 2\<rparr>)\<rparr>"

definition lut_sim_place :: "u16 list \<Rightarrow> u16 list option list \<Rightarrow> nat option" where
  "lut_sim_place w tab = (case find (lut_has key_fields (lut_mem tab) (key_fields w)) [0..<length tab] of
      Some a \<Rightarrow> Some a
    | None \<Rightarrow> find (\<lambda>a. lut_mem tab a = None) [0..<min (length tab) (2 ^ 13)])"

definition lut_sim_write :: "lut_dev \<Rightarrow> lut_dev" where
  "lut_sim_write d = (let w = lut_words (ld_regs d); p = lut_sim_place w (ld_tab d)
     in lut_sim_done p (lv_rd (ld_regs d)) (case p of None \<Rightarrow> d
       | Some a \<Rightarrow> d\<lparr>ld_tab := (ld_tab d)[a := (if lut_live w then Some w else None)]\<rparr>))"

definition lut_sim_find :: "u32 \<Rightarrow> u32 \<Rightarrow> lut_dev \<Rightarrow> nat option" where
  "lut_sim_find m sp d = (let mem = lut_mem (ld_tab d); n = length (ld_tab d) in
     if m = LUTREADMETHOD_MAC then find (lut_has key_fields mem (key_fields (lut_words (ld_regs d)))) [0..<n]
     else let P = (\<lambda>a. case mem a of None \<Rightarrow> False | Some e \<Rightarrow> lut_wanted m sp e)
       in case find P [unat (lv_addr (ld_regs d))..<n] of Some a \<Rightarrow> Some a | None \<Rightarrow> find P [0..<n])"

definition lut_sim_read :: "u32 \<Rightarrow> u32 \<Rightarrow> lut_dev \<Rightarrow> lut_dev" where
  "lut_sim_read m sp d = (let p = lut_sim_find m sp d
     in lut_sim_done p (case p of None \<Rightarrow> lv_rd (ld_regs d) | Some a \<Rightarrow> (\<lambda>i. the (lut_mem (ld_tab d) a) ! i)) d)"

definition lut_sim_status :: "lut_view \<Rightarrow> u32" where
  "lut_sim_status v = (of_nat (lv_found v) AND 0x7FF) OR (if bit (lv_found v) 11 then 0x4000 else 0) OR
     (if bit (lv_found v) 12 then 0x800 else 0) OR (if lv_hit v then 0x1000 else 0) OR (if lv_busy v > 0 then 0x2000 else 0)"

definition lut_sim_fetch :: "u32 \<Rightarrow> lut_dev \<Rightarrow> lut_dev" where
  "lut_sim_fetch a d =
     (if a = RTL8367C_TABLE_ACCESS_STATUS_REG
      then d\<lparr>ld_out := lut_sim_status (ld_regs d), ld_regs := (ld_regs d)\<lparr>lv_busy := lv_busy (ld_regs d) - 1\<rparr>\<rparr>
      else d\<lparr>ld_out := ucast (lv_rd (ld_regs d) (unat (a - RTL8367C_TABLE_ACCESS_RDDATA_BASE)))\<rparr>)"

definition lut_sim_store :: "u32 \<Rightarrow> u32 \<Rightarrow> lut_dev \<Rightarrow> lut_dev" where
  "lut_sim_store a v d =
     (if a = RTL8367C_TABLE_ACCESS_ADDR_REG then d\<lparr>ld_regs := (ld_regs d)\<lparr>lv_addr := ucast v\<rparr>\<rparr>
      else if a = RTL8367C_TABLE_ACCESS_CTRL_REG
      then (if v = LUT_WRITE then lut_sim_write d else lut_sim_read (drop_bit 4 v AND 7) (drop_bit 8 v AND 15) d)
      else d\<lparr>ld_regs := (ld_regs d)\<lparr>lv_wr := (lv_wr (ld_regs d))(unat (a - RTL8367C_TABLE_ACCESS_WRDATA_BASE) := ucast v)\<rparr>\<rparr>)"

definition lut_sim_bus_write :: "u32 \<Rightarrow> u32 \<Rightarrow> u32 \<Rightarrow> lut_dev \<Rightarrow> lut_dev" where
  "lut_sim_bus_write phy r v d =
     (if r = MDC_MDIO_ADDRESS_REG then d\<lparr>ld_addr := v\<rparr>
      else if r = MDC_MDIO_DATA_WRITE_REG then d\<lparr>ld_data := v\<rparr>
      else if r = MDC_MDIO_CTRL1_REG \<and> v = MDC_MDIO_READ_OP then lut_sim_fetch (ld_addr d) d
      else if r = MDC_MDIO_CTRL1_REG \<and> v = MDC_MDIO_WRITE_OP then lut_sim_store (ld_addr d) (ld_data d) d
      else d)"

definition lut_sim_bus :: "lut_dev mii_bus" where
  "lut_sim_bus = \<lparr>bus_read = (\<lambda>phy r d. (ld_out d, d)), bus_write = lut_sim_bus_write\<rparr>"

section \<open>It keeps the contract\<close>

lemma lut_sim_rd: "mdio_rd lut_sim_bus a d = (ld_out (lut_sim_fetch a (d\<lparr>ld_addr := a\<rparr>)), lut_sim_fetch a (d\<lparr>ld_addr := a\<rparr>))"
  by (simp add: mdio_rd_def lut_sim_bus_def lut_sim_bus_write_def)

lemma lut_sim_wr: "mdio_wr lut_sim_bus a v d = lut_sim_store a v (d\<lparr>ld_addr := a, ld_data := v\<rparr>)"
  by (simp add: mdio_wr_def lut_sim_bus_def lut_sim_bus_write_def)

lemma find_upt_Some:
  "find P [m..<n] = Some a \<Longrightarrow> m \<le> a \<and> a < n \<and> P a \<and> (\<forall>b. m \<le> b \<longrightarrow> b < a \<longrightarrow> \<not> P b)"
proof -
  assume "find P [m..<n] = Some a"
  then obtain i where i: "i < n - m" "P (m + i)" "a = m + i" "\<forall>j<i. \<not> P (m + j)" by (auto simp: find_Some_iff)
  have "\<not> P b" if "m \<le> b" "b < a" for b using i(3,4) that spec [OF i(4), of "b - m"] by simp
  with i show ?thesis by auto
qed

lemma find_upt_None: "find P [m..<n] = None \<longleftrightarrow> (\<forall>b. m \<le> b \<longrightarrow> b < n \<longrightarrow> \<not> P b)"
  by (auto simp: find_None_iff)

lemma lut_mem_less: "lut_mem tab a = Some e \<Longrightarrow> a < length tab" "lut_mem tab a = Some e \<Longrightarrow> length e = 6"
  by (auto simp: lut_mem_def split: if_splits option.splits)

lemma lut_mem_update: "a < length tab \<Longrightarrow> (\<And>w. x = Some w \<Longrightarrow> length w = 6) \<Longrightarrow> lut_mem (tab[a := x]) = (lut_mem tab)(a := x)"
  by (rule ext) (auto simp: lut_mem_def nth_list_update split: option.splits)

lemma lut_key_fields: "lut_key key_fields"
  unfolding lut_key_def
proof (intro conjI allI impI)
  fix w w' :: "u16 list" assume l: "length w = 6" "length w' = 6" and k: "key_fields w = key_fields w'"
  from k have "take 3 (key_fields w) = take 3 (key_fields w')" by simp
  then show t: "take 3 w = take 3 w'" using l by (simp add: key_fields_def)
  from k have "key_fields w ! 3 = key_fields w' ! 3" by simp
  then have "w ! 3 AND 0x3FFF = w' ! 3 AND 0x3FFF" using l by (simp add: key_fields_def nth_append)
  then have "(w ! 3 AND 0x3FFF) AND 0x3000 = (w' ! 3 AND 0x3FFF) AND 0x3000" by simp
  then show "w ! 3 AND 0x3000 = w' ! 3 AND 0x3000" by (simp add: and.assoc)
qed

lemma lut_sim_status_bits:
  "status_shows (lut_sim_status v) (lv_found v)" "bit (lut_sim_status v) 12 \<longleftrightarrow> lv_hit v" "bit (lut_sim_status v) 13 \<longleftrightarrow> lv_busy v > 0"
proof -
  have b: "bit (0x7FF :: u32) k \<longleftrightarrow> k \<le> 10" for k
    using bit_mask_iff [of 11 k, where 'a = "32 word"] by (auto simp: mask_eq_exp_minus_1)
  have "bit (0x4000 :: u32) k \<longleftrightarrow> k = 14" "bit (0x800 :: u32) k \<longleftrightarrow> k = 11"
    "bit (0x1000 :: u32) k \<longleftrightarrow> k = 12" "bit (0x2000 :: u32) k \<longleftrightarrow> k = 13" for k
    using bit_exp_iff [of 14 k, where 'a = "32 word"] bit_exp_iff [of 11 k, where 'a = "32 word"]
      bit_exp_iff [of 12 k, where 'a = "32 word"] bit_exp_iff [of 13 k, where 'a = "32 word"] by auto
  note b = b this
  have i: "bit (if c then w else 0) k \<longleftrightarrow> c \<and> bit w k" for c k and w :: u32 by simp
  note bits = lut_sim_status_def bit_or_iff bit_and_iff b i
  show "bit (lut_sim_status v) 12 \<longleftrightarrow> lv_hit v" by (simp only: bits) simp
  show "bit (lut_sim_status v) 13 \<longleftrightarrow> lv_busy v > 0" by (simp only: bits) simp
  have "bit (lut_sim_status v) k = bit (lv_found v) k" if "k \<le> 10" for k
    using that by (simp only: bits) (auto simp: bit_of_nat_iff)
  moreover have "bit (lut_sim_status v) 14 = bit (lv_found v) 11" "bit (lut_sim_status v) 11 = bit (lv_found v) 12"
    by (simp_all only: bits) simp_all
  ultimately show "status_shows (lut_sim_status v) (lv_found v)" by (simp add: status_shows_def)
qed

lemma lut_sim_written:
  assumes "w = lut_words (ld_regs d)"
  shows "lut_written key_fields (lut_mem (ld_tab d)) w (lv_mem (lut_dev_view (lut_sim_write d)))
     (lv_hit (ld_regs (lut_sim_write d))) (lv_found (ld_regs (lut_sim_write d)))"
proof -
  let ?mem = "lut_mem (ld_tab d)" and ?e = "if lut_live w then Some w else None"
  have len: "\<And>x. ?e = Some x \<Longrightarrow> length x = 6" using assms by (auto simp: lut_words_def split: if_splits)
  have run: "lv_mem (lut_dev_view (lut_sim_write d)) = ?mem(a := ?e) \<and> lv_hit (ld_regs (lut_sim_write d)) \<and>
      lv_found (ld_regs (lut_sim_write d)) = a" if "lut_sim_place w (ld_tab d) = Some a" "a < length (ld_tab d)" for a
    using that(1) assms lut_mem_update [OF that(2) len]
    by (simp add: lut_sim_write_def lut_sim_done_def lut_dev_view_def Let_def)
  show ?thesis
  proof (cases "find (lut_has key_fields ?mem (key_fields w)) [0..<length (ld_tab d)]")
    case (Some a)
    from find_upt_Some [OF Some] run [of a] Some show ?thesis by (auto simp: lut_written_def Let_def lut_sim_place_def)
  next
    case None
    then have none: "\<not> lut_has key_fields ?mem (key_fields w) b" for b
      by (cases "b < length (ld_tab d)") (auto simp: find_upt_None lut_has_def lut_mem_def)
    show ?thesis
    proof (cases "find (\<lambda>a. ?mem a = None) [0..<min (length (ld_tab d)) (2 ^ 13)]")
      case (Some a)
      from find_upt_Some [OF Some] run [of a] Some None none show ?thesis by (auto simp: lut_written_def Let_def lut_sim_place_def)
    next
      case n: None
      then have "lut_sim_place w (ld_tab d) = None" using None by (simp add: lut_sim_place_def)
      then have "lv_mem (lut_dev_view (lut_sim_write d)) = ?mem"
        using assms by (simp add: lut_sim_write_def lut_sim_done_def lut_dev_view_def Let_def)
      with none show ?thesis by (simp add: lut_written_def Let_def)
    qed
  qed
qed

lemma lut_next_iff:
  assumes "\<And>b. Q b \<longleftrightarrow> (\<exists>e. mem b = Some e \<and> P e)"
  shows "lut_next mem P lo a \<longleftrightarrow> Q a \<and> (if \<exists>b. Q b \<and> lo \<le> b then lo \<le> a \<and> (\<forall>b. Q b \<longrightarrow> lo \<le> b \<longrightarrow> a \<le> b) else \<forall>b. Q b \<longrightarrow> a \<le> b)"
  unfolding lut_next_def Let_def assms [symmetric] by auto

lemma lut_sim_found:
  assumes "v = lut_dev_view d"
  shows "(\<exists>a. lut_read key_fields m sp v a) \<longleftrightarrow> lut_sim_find m sp d \<noteq> None"
    and "lut_sim_find m sp d = Some a \<Longrightarrow> lut_read key_fields m sp v a \<and> (\<exists>e. lut_mem (ld_tab d) a = Some e)"
proof -
  let ?mem = "lut_mem (ld_tab d)" and ?n = "length (ld_tab d)" and ?lo = "unat (lv_addr (ld_regs d))"
  let ?P = "\<lambda>a. case ?mem a of None \<Rightarrow> False | Some e \<Rightarrow> lut_wanted m sp e"
  have v: "lv_mem v = ?mem" "lut_words v = lut_words (ld_regs d)" "lv_addr v = lv_addr (ld_regs d)"
    by (simp_all add: assms lut_dev_view_def lut_words_def)
  have P: "?P b \<longleftrightarrow> (\<exists>e. ?mem b = Some e \<and> lut_wanted m sp e)" "?P b \<Longrightarrow> b < ?n" for b
    by (auto simp: lut_mem_def split: option.splits if_splits)
  have H: "lut_has key_fields ?mem k b \<Longrightarrow> b < ?n \<and> (\<exists>e. ?mem b = Some e)" for k b
    by (auto simp: lut_has_def lut_mem_def split: option.splits if_splits)
  have "(case lut_sim_find m sp d of None \<Rightarrow> \<nexists>a. lut_read key_fields m sp v a
    | Some a \<Rightarrow> lut_read key_fields m sp v a \<and> (\<exists>e. ?mem a = Some e))"
  proof (cases "m = LUTREADMETHOD_MAC")
    case True
    then have f: "lut_sim_find m sp d = find (lut_has key_fields ?mem (key_fields (lut_words v))) [0..<?n]" by (simp add: lut_sim_find_def v)
    have r: "lut_read key_fields m sp v a \<longleftrightarrow> lut_has key_fields ?mem (key_fields (lut_words v)) a" for a
      using True by (simp add: lut_read_def v)
    show ?thesis
    proof (cases "find (lut_has key_fields ?mem (key_fields (lut_words v))) [0..<?n]")
      case None
      then have "\<not> lut_has key_fields ?mem (key_fields (lut_words v)) b" for b
        using H [of "key_fields (lut_words v)" b] by (auto simp: find_upt_None)
      with None show ?thesis unfolding f r by simp
    next
      case (Some a)
      with find_upt_Some [OF Some] H [of "key_fields (lut_words v)" a] show ?thesis unfolding f r by simp
    qed
  next
    case False
    then have f: "lut_sim_find m sp d = (case find ?P [?lo..<?n] of Some a \<Rightarrow> Some a | None \<Rightarrow> find ?P [0..<?n])"
      by (simp add: lut_sim_find_def Let_def)
    have nxt: "lut_read key_fields m sp v a \<longleftrightarrow> ?P a \<and>
        (if \<exists>b. ?P b \<and> ?lo \<le> b then ?lo \<le> a \<and> (\<forall>b. ?P b \<longrightarrow> ?lo \<le> b \<longrightarrow> a \<le> b) else \<forall>b. ?P b \<longrightarrow> a \<le> b)" for a
    proof -
      have "lut_read key_fields m sp v a \<longleftrightarrow> lut_next ?mem (lut_wanted m sp) ?lo a" using False by (simp add: lut_read_def v)
      then show ?thesis using lut_next_iff [where Q = ?P, OF P(1), where lo = ?lo and a = a] by (rule trans)
    qed
    show ?thesis
    proof (cases "find ?P [?lo..<?n]")
      case (Some a)
      from find_upt_Some [OF Some] have "lut_read key_fields m sp v a" unfolding nxt by (auto simp: not_less [symmetric])
      with find_upt_Some [OF Some] Some P(1) [of a] show ?thesis unfolding f by auto
    next
      case None
      then have no: "\<not> (\<exists>b. ?P b \<and> ?lo \<le> b)" using P(2) by (auto simp: find_upt_None)
      show ?thesis
      proof (cases "find ?P [0..<?n]")
        case (Some a)
        from find_upt_Some [OF Some] no have "lut_read key_fields m sp v a" unfolding nxt by (auto simp: not_less [symmetric])
        with find_upt_Some [OF Some] Some None P(1) [of a] show ?thesis unfolding f by auto
      next
        case n: None
        then have "\<not> ?P b" for b using P(2) by (auto simp: find_upt_None)
        then show ?thesis unfolding f nxt using None n by simp
      qed
    qed
  qed
  then show "(\<exists>a. lut_read key_fields m sp v a) \<longleftrightarrow> lut_sim_find m sp d \<noteq> None"
    "lut_sim_find m sp d = Some a \<Longrightarrow> lut_read key_fields m sp v a \<and> (\<exists>e. lut_mem (ld_tab d) a = Some e)"
    by (auto split: option.splits)
qed

lemma lut_sim_read_law:
  fixes d m sp
  defines "v \<equiv> lut_dev_view d" and "v' \<equiv> lut_dev_view (lut_sim_read m sp d)"
  shows "lv_busy v' < 10 \<and> lv_mem v' = lv_mem v \<and> (lv_hit v' \<longleftrightarrow> (\<exists>a. lut_read key_fields m sp v a)) \<and>
     (lv_hit v' \<longrightarrow> lut_read key_fields m sp v (lv_found v') \<and> Some (map (lv_rd v') [0..<6]) = lv_mem v' (lv_found v'))"
proof (cases "lut_sim_find m sp d")
  case None
  with lut_sim_found(1) [of v d m sp] show ?thesis
    by (simp add: v_def v'_def lut_sim_read_def lut_sim_done_def lut_dev_view_def)
next
  case (Some a)
  with lut_sim_found(2) [OF refl Some] obtain e where e: "lut_read key_fields m sp v a" "lut_mem (ld_tab d) a = Some e" unfolding v_def by blast
  have "map ((!) e) [0..<6] = e" using lut_mem_less(2) [OF e(2)] map_nth [of e] by simp
  with Some e show ?thesis
    by (auto simp: v_def v'_def lut_sim_read_def lut_sim_done_def lut_dev_view_def Let_def)
qed

lemma lut_sim_decode:
  assumes "(m, sp) \<in> lut_methods"
  shows "lut_read_cmd m sp \<noteq> LUT_WRITE" "drop_bit 4 (lut_read_cmd m sp) AND 7 = m" "drop_bit 8 (lut_read_cmd m sp) AND 15 = sp"
proof -
  have "list_all (\<lambda>m. list_all (\<lambda>s. lut_read_cmd m s \<noteq> LUT_WRITE \<and> drop_bit 4 (lut_read_cmd m s) AND 7 = m \<and>
      drop_bit 8 (lut_read_cmd m s) AND 15 = s) (map of_nat [0..<16])) [0, 3, 4, 5, 7]" by code_simp
  moreover have "m \<in> set [0, 3, 4, 5, 7]" using assms by (auto simp: lut_methods_def)
  moreover have "sp \<in> set (map of_nat [0..<16])"
    using assms by (auto simp: lut_methods_def word_le_nat_alt intro!: image_eqI [where x = "unat sp"])
  ultimately show "lut_read_cmd m sp \<noteq> LUT_WRITE" "drop_bit 4 (lut_read_cmd m sp) AND 7 = m" "drop_bit 8 (lut_read_cmd m sp) AND 15 = sp"
    by (simp_all only: list_all_iff) blast+
qed

lemma lut_sim_regs:
  assumes "i < 6"
  shows "unat (RTL8367C_TABLE_ACCESS_WRDATA_BASE + of_nat i - RTL8367C_TABLE_ACCESS_WRDATA_BASE :: u32) = i"
    "RTL8367C_TABLE_ACCESS_WRDATA_BASE + of_nat i \<noteq> (RTL8367C_TABLE_ACCESS_ADDR_REG :: u32)"
    "RTL8367C_TABLE_ACCESS_WRDATA_BASE + of_nat i \<noteq> (RTL8367C_TABLE_ACCESS_CTRL_REG :: u32)"
    "RTL8367C_TABLE_ACCESS_RDDATA_BASE + of_nat i \<noteq> (RTL8367C_TABLE_ACCESS_STATUS_REG :: u32)"
    "unat (RTL8367C_TABLE_ACCESS_RDDATA_BASE + of_nat i - RTL8367C_TABLE_ACCESS_RDDATA_BASE :: u32) = i"
  using assms by (auto simp: unat_of_nat word_unat_eq_iff unat_word_ariths)

lemma lut_sim_contract: "lut_contract lut_sim_bus lut_dev_view key_fields"
  unfolding lut_contract_def
proof (intro conjI allI impI ballI)
  show "lut_key key_fields" by (rule lut_key_fields)
next
  fix d :: lut_dev and v show "lut_dev_view (mdio_wr lut_sim_bus RTL8367C_TABLE_ACCESS_ADDR_REG v d) = (lut_dev_view d)\<lparr>lv_addr := ucast v\<rparr>"
    by (simp add: lut_sim_wr lut_sim_store_def lut_dev_view_def)
next
  fix d :: lut_dev and v and i :: nat assume "i < 6"
  then show "lut_dev_view (mdio_wr lut_sim_bus (RTL8367C_TABLE_ACCESS_WRDATA_BASE + of_nat i) v d) =
      (lut_dev_view d)\<lparr>lv_wr := (lv_wr (lut_dev_view d))(i := ucast v)\<rparr>"
    using lut_sim_regs [of i] by (simp add: lut_sim_wr lut_sim_store_def lut_dev_view_def)
next
  fix d :: lut_dev
  let ?d = "d\<lparr>ld_addr := RTL8367C_TABLE_ACCESS_CTRL_REG, ld_data := LUT_WRITE\<rparr>"
  have "lut_words (ld_regs ?d) = lut_words (lut_dev_view d)" by (simp add: lut_words_def lut_dev_view_def)
  from lut_sim_written [OF this [symmetric]]
  show "let v = lut_dev_view (mdio_wr lut_sim_bus RTL8367C_TABLE_ACCESS_CTRL_REG LUT_WRITE d) in lv_busy v < 10 \<and>
        lut_written key_fields (lv_mem (lut_dev_view d)) (lut_words (lut_dev_view d)) (lv_mem v) (lv_hit v) (lv_found v)"
    by (simp add: lut_sim_wr lut_sim_store_def Let_def lut_dev_view_def)
       (simp add: lut_sim_write_def lut_sim_done_def Let_def split: option.splits)
next
  fix d :: lut_dev and x assume "x \<in> lut_methods"
  then show "case x of (m, s) \<Rightarrow> let v = lut_dev_view (mdio_wr lut_sim_bus RTL8367C_TABLE_ACCESS_CTRL_REG (lut_read_cmd m s) d) in
        lv_busy v < 10 \<and> lv_mem v = lv_mem (lut_dev_view d) \<and> (lv_hit v \<longleftrightarrow> (\<exists>a. lut_read key_fields m s (lut_dev_view d) a)) \<and>
        (lv_hit v \<longrightarrow> lut_read key_fields m s (lut_dev_view d) (lv_found v) \<and> Some (map (lv_rd v) [0..<6]) = lv_mem v (lv_found v))"
    using lut_sim_read_law [of m sp "d\<lparr>ld_addr := RTL8367C_TABLE_ACCESS_CTRL_REG, ld_data := lut_read_cmd m sp\<rparr>" for m sp]
    by (cases x) (simp add: lut_sim_wr lut_sim_store_def lut_sim_decode Let_def, simp add: lut_dev_view_def)
next
  fix d :: lut_dev
  show "bit (fst (mdio_rd lut_sim_bus RTL8367C_TABLE_ACCESS_STATUS_REG d)) 13 \<longleftrightarrow> lv_busy (lut_dev_view d) > 0"
    "lut_dev_view (snd (mdio_rd lut_sim_bus RTL8367C_TABLE_ACCESS_STATUS_REG d)) = (lut_dev_view d)\<lparr>lv_busy := lv_busy (lut_dev_view d) - 1\<rparr>"
    "bit (fst (mdio_rd lut_sim_bus RTL8367C_TABLE_ACCESS_STATUS_REG d)) 12 \<longleftrightarrow> lv_hit (lut_dev_view d)"
    "status_shows (fst (mdio_rd lut_sim_bus RTL8367C_TABLE_ACCESS_STATUS_REG d)) (lv_found (lut_dev_view d))"
    using lut_sim_status_bits [of "ld_regs d"] by (simp_all add: lut_sim_rd lut_sim_fetch_def lut_dev_view_def)
next
  fix d :: lut_dev and i :: nat assume "i < 6"
  then show "fst (mdio_rd lut_sim_bus (RTL8367C_TABLE_ACCESS_RDDATA_BASE + of_nat i) d) = ucast (lv_rd (lut_dev_view d) i)"
    "lut_dev_view (snd (mdio_rd lut_sim_bus (RTL8367C_TABLE_ACCESS_RDDATA_BASE + of_nat i) d)) = lut_dev_view d"
    using lut_sim_regs [of i] by (simp_all add: lut_sim_rd lut_sim_fetch_def lut_dev_view_def)
qed

text \<open>An initialised driver of an RTL8367C on this chip, with the given table.\<close>

definition lut_sim :: "u16 list option list \<Rightarrow> lut_dev gsw" where
  "lut_sim tab = \<lparr>gsw_bus = lut_sim_bus, gsw_dev = \<lparr>ld_addr = 0, ld_data = 0, ld_out = 0, ld_tab = tab,
       ld_regs = \<lparr>lv_addr = 0, lv_wr = (\<lambda>_. 0), lv_mem = (\<lambda>_. None), lv_hit = False, lv_found = 0, lv_rd = (\<lambda>_. 0), lv_busy = 0\<rparr>\<rparr>,
     init_state = 1, halCtrl = Some rtl8367c_hal_Ctrl, vlan_mbrCfgVid = replicate 32 0, vlan_mbrCfgUsage = replicate 32 MBRCFG_UNUSED,
     svlan_mbrCfgUsage = replicate 64 False, svlan_mbrCfgVid = replicate 64 0, svlan_lookupType = 0\<rparr>"

lemma lut_sim_ok: "lut_wf key_fields (lut_mem tab) \<Longrightarrow> lut_ok lut_dev_view key_fields (lut_mem tab) (lut_sim tab)"
  using lut_sim_contract by (simp add: lut_ok_def lut_sim_def lut_dev_view_def)

lemma lut_sim_ready: "ready (lut_sim tab) rtl8367c_hal_Ctrl"
  using hal_tables_wf(1) by (simp add: ready_def lut_sim_def)

end
