(* ===== verification/L2_Props.thy ===== *)
theory L2_Props
  imports L2_Spec Lut_Sim
begin

text \<open>
  What the refinement gives: any calls run to an end that the abstract table allows, and a stored entry
  stays and is told as it was given.
\<close>

section \<open>What is told of a stored entry\<close>

lemma ucast_back: "unat v < 2 ^ LENGTH('b) \<Longrightarrow> LENGTH('b) \<le> 32 \<Longrightarrow> ucast (ucast (v :: u32) :: 'b :: len word) = v"
  by (simp add: word_unat_eq_iff unat_ucast_up unsigned_ucast_eq unsigned_take_bit_eq take_bit_nat_eq_self)

lemma ucast_fields:
  "v \<le> 1 \<Longrightarrow> ucast (ucast v :: 1 word) = (v :: u32)" "v \<le> 7 \<Longrightarrow> ucast (ucast v :: 3 word) = (v :: u32)"
  "v \<le> 15 \<Longrightarrow> ucast (ucast v :: 4 word) = (v :: u32)" "v \<le> 0x7FF \<Longrightarrow> ucast (ucast v :: 11 word) = (v :: u32)"
  "v \<le> 0xFFF \<Longrightarrow> ucast (ucast v :: 12 word) = (v :: u32)"
  by (rule ucast_back; simp add: word_le_nat_alt)+

text \<open>
  \<open>z\<close> repeats \<open>x\<close> but for the address, the IGMP fields, which are not stored from the datum, and the static flag of a unicast
  entry, which is read from the wrong word and is bit 5 of the VLAN.
\<close>

primrec l2_same :: "l2_data \<Rightarrow> l2_data \<Rightarrow> bool" where
  "l2_same (Uc mac d) z \<longleftrightarrow> (\<exists>a. z = Uc mac (d\<lparr>uc_mac := mac, uc_is_static := of_bool (bit (uc_cvid d) 5), uc_address := a\<rparr>))"
| "l2_same (Mc d) z \<longleftrightarrow> (\<exists>a i j. z = Mc (d\<lparr>mcs_igmp_asic := i, mcs_igmp_index := j, mcs_address := a\<rparr>))"
| "l2_same (Ip d) z \<longleftrightarrow> (\<exists>a i j. z = Ip (d\<lparr>ipm_igmp_asic := i, ipm_igmp_index := j, ipm_address := a\<rparr>))"
| "l2_same (Iv d) z \<longleftrightarrow> (\<exists>a. z = Iv (d\<lparr>ivm_address := a\<rparr>))"

lemma port_back:
  assumes "hal_wf h" and "valid_port h p"
  shows "p2l_port h ! unat (ucast (phy_of h p) :: 4 word) = p"
proof -
  have pm: "port_map h" using assms(1) by (simp add: port_map_def)
  have i: "unat p < 32" "bit (valid_portmask h) (unat p)"
    using assms(2) port_map.logical(1) [OF pm, of "unat p"] by (simp_all add: valid_port_def)
  have "unat (phy_of h p) < 11" using port_map.phy_bound [OF pm i] by (simp add: phy_of_def)
  then have "unat (ucast (phy_of h p) :: 4 word) = unat (phy_of h p)"
    by (simp add: unsigned_ucast_eq unsigned_take_bit_eq take_bit_nat_eq_self)
  with port_map.logical(4) [OF pm i] show ?thesis by (simp add: phy_of_def)
qed

lemma mask_back:
  assumes "hal_wf h" and "valid_mask h m"
  shows "p2l_mask h (ucast (ucast (l2p_mask h m) :: 11 word)) = m"
proof -
  have "port_map h" using assms(1) by (simp add: port_map_def)
  from port_map.l2p_mask_le [OF this assms(2)] port_map.p2l_l2p [OF this assms(2)] show ?thesis by (simp add: ucast_fields)
qed

lemma seen_stored:
  assumes "l2_ok h (Add x)" and "data_wf x" and h: "hal_wf h"
  shows "l2_same x (l2_seen h x (lut_dec (l2_key x) a (lut_enc (l2_fill h x l))))"
proof (cases x)
  case (Uc mac d)
  with assms have f: "uc_form (uc_fill mac d (phy_of h (uc_port d)) l)" by (simp add: uc_form_def uc_fill_def uc_key_def)
  have "(ucast (of_bool (bit (ucast (uc_cvid d) :: 12 word) 5) :: 1 word) :: u32) = of_bool (bit (uc_cvid d) 5)"
    by (simp add: bit_simps)
  with assms(1) [unfolded Uc] port_back [OF h, of "uc_port d"] show ?thesis
    unfolding Uc l2_key.simps l2_fill.simps lut_dec_def uc_decode [OF f]
    by (cases d) (simp add: uc_of_lut_def uc_fill_def uc_key_def ucast_fields)
next
  case (Mc d)
  with assms have f: "mc_form (mcs_fill d (l2p_mask h (mcs_portmask d)) l)" by (simp add: mc_form_def mcs_fill_def mcs_key_def)
  from assms(1) [unfolded Mc] mask_back [OF h, of "mcs_portmask d"] show ?thesis
    unfolding Mc l2_key.simps l2_fill.simps lut_dec_def mc_decode [OF f]
    by (cases d) (auto simp: mcs_fill_def mcs_key_def ucast_fields)
next
  case (Ip d)
  have f: "lt_l3lookup (ipm_fill d p l) = 1" "lt_l3vidlookup (ipm_fill d p l) = 0" for p by (simp_all add: ipm_fill_def ipm_key_def)
  from assms(1) [unfolded Ip] mask_back [OF h, of "ipm_portmask d"] show ?thesis
    unfolding Ip l2_key.simps l2_fill.simps lut_dec_def ip_decode [OF f]
    by (cases d) (auto simp: ipm_fill_def ipm_key_def ucast_fields)
next
  case (Iv d)
  have f: "lt_l3lookup (ivm_fill d p l) = 1" "lt_l3vidlookup (ivm_fill d p l) = 1" for p by (simp_all add: ivm_fill_def ivm_key_def)
  from assms(1) [unfolded Iv] mask_back [OF h, of "ivm_portmask d"] show ?thesis
    unfolding Iv l2_key.simps l2_fill.simps lut_dec_def iv_decode [OF f]
    by (cases d) (auto simp: ivm_fill_def ivm_key_def ucast_fields)
qed

section \<open>Stored entries stay\<close>

text \<open>The entry of a key is not touched by calls with other keys, unless it may make room for others.\<close>

definition spares :: "(u16 list \<Rightarrow> 'k) \<Rightarrow> 'k \<Rightarrow> l2_call \<Rightarrow> bool" where
  "spares key k c \<longleftrightarrow> (case c of Look x \<Rightarrow> True | _ \<Rightarrow> key_of key (call_data c) \<noteq> k)"

lemma fill_key_of:
  assumes "lut_key key" and "l2_found_by x" and "data_wf x"
  shows "key (lut_enc (l2_fill h x l)) = key_of key x"
proof (rule key_cong [OF assms(1) length_lut_enc length_lut_enc])
  show "key_fields (lut_enc (l2_fill h x l)) = key_fields (lut_enc (l2_key x))"
    using assms(2,3) uc.fill_key mc.fill_key ip.fill_key iv.fill_key by (cases x) fastforce+
qed

lemma step_spares:
  assumes "l2_step key h mem c r mem'" and "lut_key key" and "data_wf (call_data c)"
    and "mem a = Some w" and "\<not> lut_dynamic w" and "spares key (key w) c"
  shows "mem' a = Some w"
  using assms
proof (cases rule: l2_step.cases)
  case (stored x l b)
  then have "key (lut_enc (l2_fill h x l)) \<noteq> key w"
    using assms(2,3,6) fill_key_of [of key x h l] by (simp add: spares_def)
  with stored assms(4,5) show ?thesis by (auto simp: lut_put_def lut_has_iff)
next
  case (removed x b)
  with assms(4,6) show ?thesis by (auto simp: spares_def lut_has_iff)
qed simp_all

lemma trace_spares:
  assumes "l2_trace key h mem cs rs mem'" and "lut_key key"
  shows "mem a = Some w \<Longrightarrow> \<not> lut_dynamic w \<Longrightarrow> \<forall>c \<in> set cs. data_wf (call_data c) \<and> spares key (key w) c \<Longrightarrow> mem' a = Some w"
  using assms
proof (induction rule: l2_trace.induct)
  case (call mem c r mem1 cs rs mem2)
  from step_spares [OF call.hyps(1) call.prems(4) _ call.prems(1,2)] call.prems(3) have "mem1 a = Some w" by simp
  with call.IH call.prems show ?case by simp
qed

text \<open>Entries that the driver stores as static ones, or for several ports, are kept.\<close>

primrec lasting :: "l2_data \<Rightarrow> bool" where
  "lasting (Uc mac d) \<longleftrightarrow> uc_is_static d = 1"
| "lasting (Mc d) \<longleftrightarrow> True"
| "lasting (Ip d) \<longleftrightarrow> True"
| "lasting (Iv d) \<longleftrightarrow> True"

lemma fill_lasting: "lasting x \<Longrightarrow> \<not> lut_dynamic (lut_enc (l2_fill h x l))"
  unfolding lut_dynamic_def enc_static
  by (cases x) (simp_all add: uc_fill_def mcs_fill_def ipm_fill_def ivm_fill_def)

section \<open>A table with one entry\<close>

definition sample_uc :: "u32 \<Rightarrow> l2_data" where
  "sample_uc vid = Uc [2, 0, 0, 0, 0, 1] \<lparr>uc_mac = [2, 0, 0, 0, 0, 1], uc_ivl = 1, uc_cvid = vid, uc_fid = 0, uc_efid = 0,
     uc_port = 1, uc_sa_block = 0, uc_da_block = 0, uc_auth = 0, uc_is_static = 1, uc_priority = 0, uc_sa_pri_en = 0,
     uc_fwd_pri_en = 0, uc_address = 0\<rparr>"

definition sample_ip :: l2_data where
  "sample_ip = Ip \<lparr>ipm_dip = 0xE1020304, ipm_sip = 0x0A000001, ipm_portmask = 6, ipm_priority = 0, ipm_fwd_pri_en = 0,
     ipm_igmp_asic = 0, ipm_igmp_index = 0, ipm_address = 0\<rparr>"

definition sample_iv :: l2_data where
  "sample_iv = Iv \<lparr>ivm_dip = 0xE1020304, ivm_sip = 0x0A000001, ivm_vid = 0x102, ivm_portmask = 6, ivm_address = 0\<rparr>"

lemma sample_ports: "valid_port rtl8367c_hal_Ctrl 1" "valid_mask rtl8367c_hal_Ctrl 6"
  by code_simp+

lemma sample_ok:
  "vid \<le> 0xFFF \<Longrightarrow> l2_ok rtl8367c_hal_Ctrl (Add (sample_uc vid))" "l2_ok rtl8367c_hal_Ctrl (Add sample_ip)"
  "l2_ok rtl8367c_hal_Ctrl (Add sample_iv)" "data_wf (sample_uc vid)" "lasting (sample_uc vid)" "data_wf sample_ip"
  by (simp_all add: sample_uc_def sample_ip_def sample_iv_def sample_ports)

lemma one_entry: "lut_mem [Some (lut_enc l)] a = (if a = 0 then Some (lut_enc l) else None)"
  by (simp add: lut_mem_def length_lut_enc)

lemma one_entry_ok: "lut_ok lut_dev_view key_fields (lut_mem [Some (lut_enc l)]) (lut_sim [Some (lut_enc l)])"
  by (rule lut_sim_ok) (simp add: lut_wf_def one_entry length_lut_enc)

section \<open>The properties\<close>

text \<open>
  C5. Any sequence of calls that add, look up or delete entries of the four kinds runs to its end on a chip that
  keeps the contract, and what the calls return is what the abstract table may return: arguments out of range are
  refused and change nothing, an entry with the key is replaced, found or removed, another one is stored at a place that
  is free or held by a learned entry, and \<open>RT_ERR_L2_ENTRY_NOTFOUND\<close> is returned only when the key is not in the table.
\<close>

theorem l2_calls_refine:
  assumes "lut_ok view key mem s" and "ready s h" and "\<forall>c \<in> set cs. data_wf (call_data c)"
  shows "\<exists>d mem' rs. l2_run cs s = (rs, s\<lparr>gsw_dev := d\<rparr>) \<and> lut_ok view key mem' (s\<lparr>gsw_dev := d\<rparr>) \<and> l2_trace key h mem cs rs mem'"
  using assms by (rule l2_run_trace)

theorem l2_calls_refine_witness:
  "let tab = [Some (lut_enc (l2_key sample_ip))]; cs = [Add (sample_uc 1), Look (sample_uc 1), Del sample_ip, Add sample_iv, Look sample_ip]
   in \<exists>d mem' rs. l2_run cs (lut_sim tab) = (rs, (lut_sim tab)\<lparr>gsw_dev := d\<rparr>) \<and>
     lut_ok lut_dev_view key_fields mem' ((lut_sim tab)\<lparr>gsw_dev := d\<rparr>) \<and> l2_trace key_fields rtl8367c_hal_Ctrl (lut_mem tab) cs rs mem'"
  unfolding Let_def
  by (rule l2_calls_refine [OF one_entry_ok lut_sim_ready]) (simp add: sample_uc_def sample_ip_def sample_iv_def)

lemma look_told:
  assumes ok: "lut_ok view key mem s" and r: "ready s h" and x: "l2_ok h (Add x)" "data_wf x"
    and a: "mem a = Some (lut_enc (l2_fill h x l))"
  shows "\<exists>z. fst (l2_do (Look x) s) = Ok z \<and> l2_same x z"
proof -
  have found: "l2_found_by x" "l2_ok h (Look x)" using x(1) by simp_all
  have k: "key (lut_enc (l2_fill h x l)) = key_of key x" by (rule fill_key_of [OF lut_okD(1) [OF ok] found(1) x(2)])
  have h: "hal_wf h" using r by (simp add: ready_def)
  from l2_call_runs [OF ok r, of "Look x"] x(2) obtain d mem' y
    where run: "l2_do (Look x) s = (y, s\<lparr>gsw_dev := d\<rparr>)" and st: "l2_step key h mem (Look x) y mem'"
    unfolding l2_runs_def by auto
  from st show ?thesis
  proof (cases rule: l2_step.cases)
    case (seen b e)
    then have "b = a" using lut_okD(4) [OF ok _ a, of b e] k by simp
    with seen a run seen_stored [OF x h, of b l] show ?thesis by simp
  qed (use found a k in \<open>auto simp: lut_absent_def lut_has_iff\<close>)
qed

text \<open>
  C6. A static unicast entry or a multicast entry that \<open>rtk_l2_addr_add\<close> or one of its three siblings
  stored is found by the lookup function after any calls with other keys, and is told as it was given: the
  fields of the caller come back, ports included, through the packing into six words and the
  translation to physical ports.  The static flag of a unicast entry is the exception: it comes back as bit 5 of the VLAN.
  The entry is not stored only when the key is new and the chip has no place, and this is reported.
\<close>

theorem stored_entry_stays:
  assumes "lut_ok view key mem s" and "ready s h" and "data_wf x" and "lasting x" and "l2_ok h (Add x)"
    and "\<forall>c \<in> set cs. data_wf (call_data c) \<and> spares key (key_of key x) c"
  shows "case l2_do (Add x) s of (r, s1) \<Rightarrow> (case r of
      Ok y \<Rightarrow> (\<exists>a. y = l2_at x a) \<and> (\<exists>z. fst (l2_do (Look x) (snd (l2_run cs s1))) = Ok z \<and> l2_same x z)
    | Err e \<Rightarrow> (e = RT_ERR_FAILED \<or> e = RT_ERR_L2_INDEXTBL_FULL) \<and> lut_absent key mem (key_of key x)
    | Fault \<Rightarrow> False)"
proof -
  from l2_call_runs [OF assms(1,2), of "Add x"] assms(3) obtain d mem1 r
    where run: "l2_do (Add x) s = (r, s\<lparr>gsw_dev := d\<rparr>)" and ok1: "lut_ok view key mem1 (s\<lparr>gsw_dev := d\<rparr>)"
      and st: "l2_step key h mem (Add x) r mem1"
    unfolding l2_runs_def by auto
  have r1: "ready (s\<lparr>gsw_dev := d\<rparr>) h" using assms(2) by simp
  from st show ?thesis
  proof (cases rule: l2_step.cases)
    case (stored l a)
    let ?w = "lut_enc (l2_fill h x l)"
    have w: "mem1 a = Some ?w" "key ?w = key_of key x"
      using stored fill_key_of [OF lut_okD(1) [OF assms(1)], of x] assms(3,5) by (simp_all add: lut_put_def)
    from l2_run_trace [OF ok1 r1, of cs] assms(6) obtain d2 mem2 rs
      where cs: "l2_run cs (s\<lparr>gsw_dev := d\<rparr>) = (rs, s\<lparr>gsw_dev := d2\<rparr>)" "lut_ok view key mem2 (s\<lparr>gsw_dev := d2\<rparr>)"
        and tr: "l2_trace key h mem1 cs rs mem2" by auto
    have "mem2 a = Some ?w"
      using trace_spares [OF tr lut_okD(1) [OF assms(1)] w(1) fill_lasting [OF assms(4)]] assms(6) w(2) by simp
    from look_told [OF cs(2) _ assms(5,3) this] assms(2) stored(1,2) run cs(1) show ?thesis by auto
  qed (use assms(5) run in auto)
qed

theorem stored_entry_stays_witness:
  "let tab = [Some (lut_enc (l2_fill rtl8367c_hal_Ctrl (sample_uc 1) luttb_zero))]; x = sample_uc 1; cs = [Add sample_iv, Look x, Del sample_iv]
   in fst (l2_do (Look x) (snd (l2_run cs (snd (l2_do (Add x) (lut_sim tab)))))) \<noteq> Err RT_ERR_L2_ENTRY_NOTFOUND"
proof -
  let ?x = "sample_uc 1" and ?h = rtl8367c_hal_Ctrl
  let ?w = "lut_enc (l2_fill ?h ?x luttb_zero)"
  let ?cs = "[Add sample_iv, Look ?x, Del sample_iv]"
  have k: "key_of key_fields ?x = key_fields ?w"
    by (rule fill_key_of [symmetric, OF lut_key_fields]) (simp_all add: sample_uc_def)
  have has: "\<not> lut_absent key_fields (lut_mem [Some ?w]) (key_of key_fields ?x)"
    unfolding k by (auto simp: lut_absent_def lut_has_iff one_entry)
  have spare: "\<forall>c \<in> set ?cs. data_wf (call_data c) \<and> spares key_fields (key_of key_fields ?x) c"
  proof -
    have "lut_l3 (lut_enc (l2_key sample_iv))" by (rule form_kind(3)) (simp add: sample_iv_def ivm_key_def)
    moreover have "lut_uc (lut_enc (l2_key ?x))" by (rule form_kind(1)) (simp add: sample_uc_def uc_key_def uc_form_def luttb_zero_def)
    moreover have "same_kind (lut_enc (l2_key sample_iv)) (lut_enc (l2_key ?x))" if "key_of key_fields sample_iv = key_of key_fields ?x"
      using key_kind [OF lut_key_fields length_lut_enc length_lut_enc that] .
    ultimately have "key_of key_fields sample_iv \<noteq> key_of key_fields ?x"
      using same_kindD(3) [OF _ length_lut_enc length_lut_enc] by (auto simp: lut_uc_def)
    then show ?thesis by (simp add: spares_def sample_uc_def sample_iv_def)
  qed
  from stored_entry_stays [OF one_entry_ok lut_sim_ready sample_ok(4,5,1) spare, of "l2_fill ?h ?x luttb_zero"] has show ?thesis
    unfolding Let_def by (auto split: prod.splits outcome.splits)
qed

end
