(* ===== verification/L2_Walk.thy ===== *)
theory L2_Walk
  imports L2_Props
begin

text \<open>
  Walking through the table: unicast entries are listed one by one; the two walks through IP multicast entries may not
  end, and what they tell cannot be used to look an entry up.
\<close>

section \<open>Walking through the unicast entries\<close>

text \<open>The comment of \<open>rtk_l2_addr_next_get\<close> says how: call it again with the address it returned plus one, to the first error.\<close>

primrec uc_walk :: "nat \<Rightarrow> rtk_port_t \<Rightarrow> u32 \<Rightarrow> ('d gsw, rtk_l2_ucastAddr_t list) drv" where
  "uc_walk 0 port address s = (Ok [], s)"
| "uc_walk (Suc n) port address s = (case rtk_l2_addr_next_get READMETHOD_NEXT_L2UC port (Some address) PTR s of (r, s') \<Rightarrow>
     (case r of Ok (a, d) \<Rightarrow> bindE (uc_walk n port (a + 1)) (\<lambda>ds. okE (d # ds)) s' | Err e \<Rightarrow> (Ok [], s') | Fault \<Rightarrow> (Fault, s')))"

definition uc_view :: "rtk_switch_halCtrl_t \<Rightarrow> nat \<Rightarrow> u16 list \<Rightarrow> rtk_l2_ucastAddr_t" where
  "uc_view h a e = (let l = lut_dec luttb_zero a e in uc_of_lut (lt_mac l) (p2l_port h ! unat (lt_spa l)) l)"

definition uc_here :: "(nat \<Rightarrow> u16 list option) \<Rightarrow> nat \<Rightarrow> bool" where
  "uc_here mem a \<longleftrightarrow> (case mem a of None \<Rightarrow> False | Some e \<Rightarrow> lut_uc e)"

lemma uc_here_iff: "uc_here mem a \<longleftrightarrow> (\<exists>e. mem a = Some e \<and> lut_uc e)"
  by (simp add: uc_here_def split: option.splits)

lemma lut_dec_start: "lut_dec (l\<lparr>lt_address := x\<rparr>) a e = lut_dec l a e"
  by (simp add: lut_dec_def)

lemma max_id_run: "ready s h \<Longrightarrow> RTK_MAX_LUT_ADDR_ID s = (Ok (max_lut_addr_num h - 1), s)"
  by (auto simp: RTK_MAX_LUT_ADDR_ID_def rtk_switch_maxLutAddrNumber_get_def drv_simps ready_def halE_def)

lemma address_down: "a < 2 ^ 13 \<Longrightarrow> unat (of_nat a :: 13 word) = a"
  by (simp add: unat_of_nat)

lemma narrow_address: "unat (v :: u32) < 2 ^ 13 \<Longrightarrow> unat (ucast v :: 13 word) = unat v"
  by (simp add: unsigned_ucast_eq unsigned_take_bit_eq take_bit_nat_eq_self)

lemma max_id_bounds:
  assumes "0 < max_lut_addr_num h" and "max_lut_addr_num h \<le> 0x2000" 
  shows "(v :: u32) > max_lut_addr_num h - 1 \<longleftrightarrow> unat (max_lut_addr_num h) \<le> unat v"
    and "unat (max_lut_addr_num h) \<le> 2 ^ 13"
proof -
  have "unat (max_lut_addr_num h - 1) = unat (max_lut_addr_num h) - 1" using assms(1) by (simp add: unat_minus_one word_greater_zero_iff)
  then show "v > max_lut_addr_num h - 1 \<longleftrightarrow> unat (max_lut_addr_num h) \<le> unat v"
    using assms(1) by (auto simp: word_less_nat_alt word_le_nat_alt)
  show "unat (max_lut_addr_num h) \<le> 2 ^ 13" using assms(2) by (simp add: word_le_nat_alt)
qed

lemma next_address: "a < 2 ^ 13 \<Longrightarrow> (of_nat a :: u32) < v \<longleftrightarrow> a < unat v"
  by (simp add: word_less_nat_alt unat_of_nat)

lemma uc_next_run:
  assumes ok: "lut_ok view key mem s" and r: "ready s h" and p: "valid_port h port"
    and m: "0 < max_lut_addr_num h" "max_lut_addr_num h \<le> 0x2000" and lo: "unat address < unat (max_lut_addr_num h)"
  shows "\<exists>d. lut_ok view key mem (s\<lparr>gsw_dev := d\<rparr>) \<and>
    (if \<exists>b\<ge>unat address. uc_here mem b
     then \<exists>a e. unat address \<le> a \<and> mem a = Some e \<and> lut_uc e \<and> (\<forall>b. unat address \<le> b \<longrightarrow> b < a \<longrightarrow> \<not> uc_here mem b) \<and>
       rtk_l2_addr_next_get READMETHOD_NEXT_L2UC port (Some address) PTR s = (Ok (of_nat a, uc_view h a e), s\<lparr>gsw_dev := d\<rparr>)
     else rtk_l2_addr_next_get READMETHOD_NEXT_L2UC port (Some address) PTR s = (Err RT_ERR_L2_ENTRY_NOTFOUND, s\<lparr>gsw_dev := d\<rparr>))"
proof -
  let ?l = "luttb_zero\<lparr>lt_address := ucast address\<rparr>"
  have lo13: "unat (lt_address ?l) = unat address" using lo max_id_bounds(2) [OF m] by (simp add: narrow_address)
  have start: "rtk_l2_addr_next_get READMETHOD_NEXT_L2UC port (Some address) PTR s =
     bindE (rtl8367c_getAsicL2LookupTb LUTREADMETHOD_NEXT_L2UC ?l) (\<lambda>l2Table.
         if ucast (lt_address l2Table) < address then errE RT_ERR_L2_ENTRY_NOTFOUND
         else bindE (rtk_switch_port_P2L_get (ucast (lt_spa l2Table))) (\<lambda>port.
           okE (ucast (lt_address l2Table), uc_of_lut (lt_mac l2Table) port l2Table))) s"
    using p lo max_id_bounds(1) [OF m, of address]
    by (simp add: rtk_l2_addr_next_get_def not_nullE_def chk_then [OF r] bindE_run [where m = RTK_MAX_LUT_ADDR_ID, OF max_id_run [OF r]] not_le)
  have wanted: "lut_wanted LUTREADMETHOD_NEXT_L2UC x = lut_uc" for x by (rule ext) (simp add: lut_wanted_def)
  obtain d r where get: "rtl8367c_getAsicL2LookupTb LUTREADMETHOD_NEXT_L2UC ?l s = (r, s\<lparr>gsw_dev := d\<rparr>)"
    and ok': "lut_ok view key mem (s\<lparr>gsw_dev := d\<rparr>)"
    and r: "(\<exists>a e. mem a = Some e \<and> lut_next mem lut_uc (unat address) a \<and> r = Ok (lut_dec luttb_zero a e)) \<or>
      (\<nexists>a. lut_next mem lut_uc (unat address) a) \<and> r = Err RT_ERR_L2_ENTRY_NOTFOUND"
    using get_next_run [OF ok, of ?l LUTREADMETHOD_NEXT_L2UC] unfolding wanted lo13 lut_dec_start by (auto simp: luttb_zero_def)
  note nxt = lut_next_iff [of "uc_here mem" mem lut_uc, OF uc_here_iff]
  from r show ?thesis
  proof (elim disjE exE conjE)
    fix a e assume e: "mem a = Some e" "lut_next mem lut_uc (unat address) a" "r = Ok (lut_dec luttb_zero a e)"
    have a: "a < 2 ^ 13" using lut_okD(2) [OF ok e(1)] .
    let ?dec = "lut_dec luttb_zero a e"
    have "unat (lt_spa ?dec) < 16" using unsigned_less [of "lt_spa ?dec"] by simp
    then have P2L: "rtk_switch_port_P2L_get (ucast (lt_spa ?dec)) (s\<lparr>gsw_dev := d\<rparr>) = (Ok (p2l_port h ! unat (lt_spa ?dec)), s\<lparr>gsw_dev := d\<rparr>)"
      using assms(2) by (simp add: port_P2L_run unat_ucast_up)
    have run: "rtk_l2_addr_next_get READMETHOD_NEXT_L2UC port (Some address) PTR s =
        (if a < unat address then Err RT_ERR_L2_ENTRY_NOTFOUND else Ok (of_nat a, uc_view h a e), s\<lparr>gsw_dev := d\<rparr>)"
      unfolding start bindE_run [where m = "rtl8367c_getAsicL2LookupTb _ _", OF get [unfolded e(3)]]
      by (simp add: bindE_run [where m = "rtk_switch_port_P2L_get _", OF P2L] next_address [OF a] address_up [OF a] okE_def errE_def uc_view_def Let_def)
    from e(2) have "uc_here mem a" by (simp add: nxt)
    with e run ok' nxt [of "unat address" a] show ?thesis
      by (intro exI [of _ d]) (auto simp: uc_here_iff not_less [symmetric] split: if_splits)
  next
    assume none: "\<nexists>a. lut_next mem lut_uc (unat address) a" and "r = Err RT_ERR_L2_ENTRY_NOTFOUND"
    with get have run: "rtk_l2_addr_next_get READMETHOD_NEXT_L2UC port (Some address) PTR s = (Err RT_ERR_L2_ENTRY_NOTFOUND, s\<lparr>gsw_dev := d\<rparr>)"
      unfolding start by (simp add: bindE_def)
    have "\<not> uc_here mem b" if "unat address \<le> b" for b
    proof
      assume b: "uc_here mem b"
      let ?a = "LEAST b. unat address \<le> b \<and> uc_here mem b"
      have "unat address \<le> ?a \<and> uc_here mem ?a" by (rule LeastI [of _ b]) (use that b in simp)
      moreover have "?a \<le> c" if "unat address \<le> c" "uc_here mem c" for c by (rule Least_le) (use that in simp)
      ultimately have "lut_next mem lut_uc (unat address) ?a" unfolding nxt by auto
      with none show False by blast
    qed
    with run ok' show ?thesis by (intro exI [of _ d]) auto
  qed
qed

lemma filter_first:
  assumes "U a" and "lo \<le> a" and "a < n" and "\<And>b. lo \<le> b \<Longrightarrow> b < a \<Longrightarrow> \<not> U b"
  shows "filter U [lo..<n] = a # filter U [Suc a..<n]"
proof -
  have "[lo..<n] = [lo..<a] @ a # [Suc a..<n]" using assms(2,3) by (metis le_add_diff_inverse less_imp_le_nat upt_add_eq_append upt_conv_Cons)
  moreover have "filter U [lo..<a] = []" using assms(4) by (simp add: filter_empty_conv)
  ultimately show ?thesis using assms(1) by simp
qed

lemma uc_walk_run:
  assumes "lut_ok view key mem s" and "ready s h" and p: "valid_port h port"
    and m: "0 < max_lut_addr_num h" "max_lut_addr_num h \<le> 0x2000"
    and small: "\<And>a e. mem a = Some e \<Longrightarrow> a < unat (max_lut_addr_num h)"
    and "lo \<le> unat (max_lut_addr_num h)" and "unat (max_lut_addr_num h) - lo \<le> n"
  shows "\<exists>d. uc_walk n port (of_nat lo) s =
     (Ok (map (\<lambda>a. uc_view h a (the (mem a))) (filter (uc_here mem) [lo..<unat (max_lut_addr_num h)])), s\<lparr>gsw_dev := d\<rparr>)"
  using assms(1,2,7,8)
proof (induction n arbitrary: s lo)
  case 0
  then show ?case by (intro exI [of _ "gsw_dev s"]) simp
next
  case (Suc n)
  let ?max = "unat (max_lut_addr_num h)"
  note max = max_id_bounds [OF m]
  have lo: "unat (of_nat lo :: u32) = lo" using Suc.prems(3) max(2) by (simp add: unat_of_nat)
  show ?case
  proof (cases "lo = ?max")
    case True
    then have "rtk_l2_addr_next_get READMETHOD_NEXT_L2UC port (Some (of_nat lo)) PTR s = (Err RT_ERR_L2_L2UNI_PARAM, s)"
      using p max(1) [of "of_nat lo"] lo
      by (simp add: rtk_l2_addr_next_get_def not_nullE_def chk_then [OF Suc.prems(2)]
          bindE_run [where m = RTK_MAX_LUT_ADDR_ID, OF max_id_run [OF Suc.prems(2)]] errE_def)
    with True show ?thesis by (intro exI [of _ "gsw_dev s"]) simp
  next
    case False
    with Suc.prems(3) lo have "unat (of_nat lo :: u32) < ?max" by simp
    from uc_next_run [OF Suc.prems(1,2) p m this] obtain d where ok: "lut_ok view key mem (s\<lparr>gsw_dev := d\<rparr>)"
      and run: "if \<exists>b\<ge>lo. uc_here mem b
     then \<exists>a e. lo \<le> a \<and> mem a = Some e \<and> lut_uc e \<and> (\<forall>b. lo \<le> b \<longrightarrow> b < a \<longrightarrow> \<not> uc_here mem b) \<and>
       rtk_l2_addr_next_get READMETHOD_NEXT_L2UC port (Some (of_nat lo)) PTR s = (Ok (of_nat a, uc_view h a e), s\<lparr>gsw_dev := d\<rparr>)
     else rtk_l2_addr_next_get READMETHOD_NEXT_L2UC port (Some (of_nat lo)) PTR s = (Err RT_ERR_L2_ENTRY_NOTFOUND, s\<lparr>gsw_dev := d\<rparr>)"
      unfolding lo by blast
    show ?thesis
    proof (cases "\<exists>b\<ge>lo. uc_here mem b")
      case True
      with run obtain a e where a: "lo \<le> a" "mem a = Some e" "lut_uc e" "\<And>b. lo \<le> b \<Longrightarrow> b < a \<Longrightarrow> \<not> uc_here mem b"
        "rtk_l2_addr_next_get READMETHOD_NEXT_L2UC port (Some (of_nat lo)) PTR s = (Ok (of_nat a, uc_view h a e), s\<lparr>gsw_dev := d\<rparr>)"
        by auto
      have less: "a < ?max" by (rule small [OF a(2)])
      have "Suc a \<le> ?max" "?max - Suc a \<le> n" using less a(1) Suc.prems(4) by simp_all
      from Suc.IH [OF ok _ this] Suc.prems(2) obtain d' where
        "uc_walk n port (of_nat (Suc a)) (s\<lparr>gsw_dev := d\<rparr>) =
          (Ok (map (\<lambda>a. uc_view h a (the (mem a))) (filter (uc_here mem) [Suc a..<?max])), s\<lparr>gsw_dev := d'\<rparr>)" by auto
      moreover have "filter (uc_here mem) [lo..<?max] = a # filter (uc_here mem) [Suc a..<?max]"
        by (rule filter_first) (use a less in \<open>auto simp: uc_here_iff\<close>)
      ultimately show ?thesis using a(2,5) by (intro exI [of _ d']) (simp add: bindE_def okE_def add.commute)
    next
      case False
      then have "filter (uc_here mem) [lo..<?max] = []" by (simp add: filter_empty_conv)
      with run False show ?thesis by (intro exI [of _ d]) auto
    qed
  qed
qed

text \<open>
  C26. Calling \<open>rtk_l2_addr_next_get\<close> again and again, each time with the address it returned plus one,
  ends after at most as many calls as the table has addresses and lists every unicast entry once, in the order of
  the addresses, each with its fields, although a read that passes the end starts over.
\<close>

theorem uc_walk_lists:
  assumes "lut_ok view key mem s" and "ready s h" and "valid_port h port"
    and "0 < max_lut_addr_num h" and "max_lut_addr_num h \<le> 0x2000"
    and "\<forall>a. mem a \<noteq> None \<longrightarrow> a < unat (max_lut_addr_num h)"
  shows "\<exists>d. uc_walk (unat (max_lut_addr_num h)) port 0 s =
     (Ok (map (\<lambda>a. uc_view h a (the (mem a))) (filter (uc_here mem) [0..<unat (max_lut_addr_num h)])), s\<lparr>gsw_dev := d\<rparr>)"
proof -
  have "a < unat (max_lut_addr_num h)" if "mem a = Some e" for a e using assms(6) that by auto
  from uc_walk_run [OF assms(1-5) this, where lo = 0] show ?thesis by simp
qed

theorem uc_walk_lists_witness:
  "let e = lut_enc (l2_fill rtl8367c_hal_Ctrl (sample_uc 1) luttb_zero)
   in fst (uc_walk 2112 1 0 (lut_sim [Some e])) = Ok [uc_view rtl8367c_hal_Ctrl 0 e]"
proof -
  let ?h = rtl8367c_hal_Ctrl and ?w = "lut_enc (l2_fill rtl8367c_hal_Ctrl (sample_uc 1) luttb_zero)"
  have m: "max_lut_addr_num ?h = 2112" by code_simp
  have u: "lut_uc ?w" by (rule form_kind(1)) (simp add: sample_uc_def uc_fill_def uc_key_def uc_form_def luttb_zero_def)
  have "[0..<2112 :: nat] = 0 # [Suc 0..<2112]" by (rule upt_conv_Cons) simp
  then have "filter (uc_here (lut_mem [Some ?w])) [0..<2112] = [0]"
    using u by (simp add: uc_here_def one_entry)
  with uc_walk_lists [OF one_entry_ok lut_sim_ready sample_ports(1), of "l2_fill ?h (sample_uc 1) luttb_zero"] m
  have "\<exists>d. uc_walk 2112 1 0 (lut_sim [Some ?w]) = (Ok [uc_view ?h 0 ?w], (lut_sim [Some ?w])\<lparr>gsw_dev := d\<rparr>)"
    by (simp add: one_entry)
  then show ?thesis by (elim exE) (simp add: Let_def)
qed

section \<open>Walking through the IP multicast entries\<close>

lemma lut_next_inj: "lut_next mem P lo a \<Longrightarrow> lut_next mem P lo b \<Longrightarrow> a = b"
  unfolding lut_next_def Let_def by (auto split: if_splits intro: antisym)

lemma lut_next_again: "lut_next mem P lo a \<Longrightarrow> lut_next mem P a a"
  unfolding lut_next_def Let_def by (auto split: if_splits intro: order.trans)

lemma l3_next_run:
  assumes ok: "lut_ok view key mem s" and w: "lt_wait_time l = 0"
    and a: "mem a = Some e" "lut_next mem lut_l3 (unat (lt_address l)) a"
  shows "\<exists>d. rtl8367c_getAsicL2LookupTb LUTREADMETHOD_NEXT_L3MC l s = (Ok (lut_dec l a e), s\<lparr>gsw_dev := d\<rparr>) \<and>
    lut_ok view key mem (s\<lparr>gsw_dev := d\<rparr>)"
proof -
  have wanted: "lut_wanted LUTREADMETHOD_NEXT_L3MC x = lut_l3" for x by (rule ext) (simp add: lut_wanted_def)
  have m: "LUTREADMETHOD_NEXT_L3MC \<in> {LUTREADMETHOD_NEXT_L2UC, LUTREADMETHOD_NEXT_L2MC, LUTREADMETHOD_NEXT_L3MC, LUTREADMETHOD_NEXT_L2UCSPA}" by simp
  from get_next_run [OF ok w m] show ?thesis unfolding wanted
  proof (elim exE conjE disjE)
    fix d r b e' assume get: "rtl8367c_getAsicL2LookupTb LUTREADMETHOD_NEXT_L3MC l s = (r, s\<lparr>gsw_dev := d\<rparr>)"
      "lut_ok view key mem (s\<lparr>gsw_dev := d\<rparr>)"
      and b: "mem b = Some e'" "lut_next mem lut_l3 (unat (lt_address l)) b" "r = Ok (lut_dec l b e')"
    from lut_next_inj [OF b(2) a(2)] a(1) b(1) have "b = a" "e' = e" by simp_all
    with get b(3) show ?thesis by blast
  qed (use a(2) in blast)
qed

text \<open>The flag that the loops test keeps its value when an entry without VLAN is read.\<close>

lemma dec_l3vid:
  assumes "lut_l3 e" and "lut_l3vid e \<or> lt_l3vidlookup l = 0"
  shows "lt_l3vidlookup (lut_dec l a e) = of_bool (lut_l3vid e)"
proof -
  have "(ucast (drop_bit 13 ((w :: u16) AND 0x2000)) :: 1 word) = of_bool (bit w 13)" for w
    by (simp add: field_decide)
  with assms show ?thesis unfolding lut_dec_def fdbStSmi2User_def lut_l3vid_def lut_l3_def by (auto simp: mask_bits)
qed

definition l3_at :: "('d \<Rightarrow> lut_view) \<Rightarrow> (u16 list \<Rightarrow> 'k) \<Rightarrow> (nat \<Rightarrow> u16 list option) \<Rightarrow> nat \<Rightarrow> u16 list \<Rightarrow> rtl8367c_luttb \<Rightarrow> 'd gsw \<Rightarrow> bool" where
  "l3_at view key mem a e l s \<longleftrightarrow> lut_ok view key mem s \<and> lt_wait_time l = 0 \<and> mem a = Some e \<and> lut_l3 e \<and>
     lut_next mem lut_l3 (unat (lt_address l)) a \<and> (lut_l3vid e \<or> lt_l3vidlookup l = 0)"

lemma l3_at_step:
  assumes "l3_at view key mem a e l s"
  shows "\<exists>d. rtl8367c_getAsicL2LookupTb LUTREADMETHOD_NEXT_L3MC l s = (Ok (lut_dec l a e), s\<lparr>gsw_dev := d\<rparr>) \<and>
    l3_at view key mem a e (lut_dec l a e) (s\<lparr>gsw_dev := d\<rparr>)"
proof -
  have l: "lut_ok view key mem s" "lt_wait_time l = 0" "mem a = Some e" "lut_l3 e" "lut_next mem lut_l3 (unat (lt_address l)) a"
    "lut_l3vid e \<or> lt_l3vidlookup l = 0" using assms by (auto simp: l3_at_def)
  from l3_next_run [OF l(1,2,3,5)] show ?thesis
    using l lut_next_again [OF l(5)] address_down [OF lut_okD(2) [OF l(1,3)]] dec_l3vid [OF l(4,6), of a]
    by (auto simp: l3_at_def)
qed

lemma l3_address: "l3_at view key mem a e l s \<Longrightarrow> ucast (lt_address (lut_dec l a e)) < (address :: u32) \<longleftrightarrow> a < unat address"
proof -
  assume "l3_at view key mem a e l s"
  then have "a < 2 ^ 13" using lut_okD(2) by (auto simp: l3_at_def)
  then show ?thesis by (simp add: address_up next_address)
qed

lemma l3_scan_stuck:
  fixes address :: u32
  assumes "l3_at view key mem a e l s" and "unat address \<le> a" and "skip = of_bool (lut_l3vid e)"
  shows "l3mc_scan skip address l s = None"
proof -
  let ?P = "\<lambda>skip (address :: u32) l s x. l3_at view key mem a e l s \<longrightarrow> unat address \<le> a \<longrightarrow> skip = of_bool (lut_l3vid e) \<longrightarrow> False"
  have "l3mc_scan skip address l s = Some x \<Longrightarrow> ?P skip address l s x" for skip and address :: u32 and l s x
  proof (erule l3mc_scan.raw_induct [rotated, where P = ?P], intro impI)
    fix f and skip :: "1 word" and l s x and address :: u32
    assume IH: "\<And>skip address l s x. f skip address l s = Some x \<Longrightarrow> ?P skip address l s x"
      and body: "(case rtl8367c_getAsicL2LookupTb LUTREADMETHOD_NEXT_L3MC l s of (r, s') \<Rightarrow>
         (case r of Ok l2Table \<Rightarrow>
              if ucast (lt_address l2Table) < address then Some (Err RT_ERR_L2_ENTRY_NOTFOUND, s')
              else if lt_l3vidlookup l2Table = skip then f skip address l2Table s'
              else Some (Ok l2Table, s')
          | Err e \<Rightarrow> Some (Err e, s') | Fault \<Rightarrow> Some (Fault, s'))) = Some x"
      and at: "l3_at view key mem a e l s" and lo: "unat address \<le> a" and skip: "skip = of_bool (lut_l3vid e)"
    from l3_at_step [OF at] obtain d where
      get: "rtl8367c_getAsicL2LookupTb LUTREADMETHOD_NEXT_L3MC l s = (Ok (lut_dec l a e), s\<lparr>gsw_dev := d\<rparr>)"
      and at': "l3_at view key mem a e (lut_dec l a e) (s\<lparr>gsw_dev := d\<rparr>)" by blast
    have "\<not> ucast (lt_address (lut_dec l a e)) < address" using l3_address [OF at, of address] lo by simp
    moreover have "lt_l3vidlookup (lut_dec l a e) = skip" using at dec_l3vid skip by (simp add: l3_at_def)
    ultimately have "f skip address (lut_dec l a e) (s\<lparr>gsw_dev := d\<rparr>) = Some x" using body get by simp
    with IH at' lo skip show False by blast
  qed
  with assms show ?thesis by (cases "l3mc_scan skip address l s") blast+
qed

lemma l3_scan_ends:
  assumes at: "l3_at view key mem a e l s" and "a < unat address \<or> skip \<noteq> of_bool (lut_l3vid e)"
  shows "\<exists>d. l3mc_scan skip address l s =
    Some (if a < unat address then Err RT_ERR_L2_ENTRY_NOTFOUND else Ok (lut_dec l a e), s\<lparr>gsw_dev := d\<rparr>)"
proof -
  from l3_at_step [OF at] obtain d where
    "rtl8367c_getAsicL2LookupTb LUTREADMETHOD_NEXT_L3MC l s = (Ok (lut_dec l a e), s\<lparr>gsw_dev := d\<rparr>)" by blast
  moreover have "lt_l3vidlookup (lut_dec l a e) \<noteq> skip" if "\<not> a < unat address"
    using at dec_l3vid assms(2) that by (simp add: l3_at_def)
  ultimately show ?thesis using l3_address [OF at, of address]
    by (intro exI [of _ d]) (auto simp: l3mc_scan.simps [of skip address l s])
qed

lemma l3_start:
  assumes ok: "lut_ok view key mem s" and r: "ready s h" and m: "0 < max_lut_addr_num h" "max_lut_addr_num h \<le> 0x2000"
    and lo: "unat address < unat (max_lut_addr_num h)" and a: "mem a = Some e" "lut_next mem lut_l3 (unat address) a"
  shows "l3_at view key mem a e (luttb_zero\<lparr>lt_address := ucast address\<rparr>) s" and "l3mc_next_checks (Some address) PTR s = (Ok address, s)"
    and "lut_l3 e"
proof -
  have "lut_l3 e" using a by (auto simp: lut_next_def Let_def)
  moreover have "unat (ucast address :: 13 word) = unat address" using lo max_id_bounds(2) [OF m] by (simp add: narrow_address)
  ultimately show "l3_at view key mem a e (luttb_zero\<lparr>lt_address := ucast address\<rparr>) s" "lut_l3 e"
    using ok a by (simp_all add: l3_at_def luttb_zero_def)
  show "l3mc_next_checks (Some address) PTR s = (Ok address, s)"
    using lo max_id_bounds(1) [OF m, of address]
    by (simp add: l3mc_next_checks_def not_nullE_def chk_then [OF r] bindE_run [where m = RTK_MAX_LUT_ADDR_ID, OF max_id_run [OF r]] not_le okE_def)
qed

text \<open>
  C27. The loops of the two functions that walk through IP multicast entries: if the next entry of either sort is of the
  sort that the function skips, the function reads it again and again and does not return; otherwise it returns.
\<close>

theorem l3mc_next_ends:
  assumes "lut_ok view key mem s" and "ready s h" and "0 < max_lut_addr_num h" and "max_lut_addr_num h \<le> 0x2000"
    and "unat address < unat (max_lut_addr_num h)" and "mem a = Some e" and "lut_next mem lut_l3 (unat address) a"
  shows "(rtk_l2_ipMcastAddr_next_get (Some address) PTR s = None \<longleftrightarrow> unat address \<le> a \<and> lut_l3vid e) \<and>
    (rtk_l2_ipVidMcastAddr_next_get (Some address) PTR s = None \<longleftrightarrow> unat address \<le> a \<and> \<not> lut_l3vid e)"
proof -
  note st = l3_start [OF assms]
  have "l3mc_scan skip address (luttb_zero\<lparr>lt_address := ucast address\<rparr>) s = None \<longleftrightarrow> unat address \<le> a \<and> skip = of_bool (lut_l3vid e)" for skip
  proof (cases "unat address \<le> a \<and> skip = of_bool (lut_l3vid e)")
    case True
    with l3_scan_stuck [OF st(1)] show ?thesis by simp
  next
    case False
    then have "a < unat address \<or> skip \<noteq> of_bool (lut_l3vid e)" by auto
    from l3_scan_ends [OF st(1) this] False show ?thesis by auto
  qed
  from this [of 0] this [of 1] show ?thesis
    by (auto simp: rtk_l2_ipMcastAddr_next_get_def rtk_l2_ipVidMcastAddr_next_get_def bindP_def liftP_def st(2)
        split: option.splits outcome.splits prod.splits)
qed

theorem l3mc_next_ends_witness:
  "let e = lut_enc (l2_fill rtl8367c_hal_Ctrl sample_iv luttb_zero)
   in rtk_l2_ipMcastAddr_next_get (Some 0) PTR (lut_sim [Some e]) = None"
proof -
  let ?h = rtl8367c_hal_Ctrl and ?w = "lut_enc (l2_fill rtl8367c_hal_Ctrl sample_iv luttb_zero)"
  have m: "max_lut_addr_num ?h = 2112" by code_simp
  have v: "lut_l3vid ?w" by (subst form_kind(4)) (simp_all add: sample_iv_def ivm_fill_def ivm_key_def)
  then have "lut_l3 ?w" by (simp add: lut_l3vid_def)
  then have "lut_next (lut_mem [Some ?w]) lut_l3 (unat (0 :: u32)) 0" by (auto simp: lut_next_def one_entry split: if_splits)
  with l3mc_next_ends [OF one_entry_ok lut_sim_ready, of 0 "l2_fill ?h sample_iv luttb_zero" 0 ?w] m v
  show ?thesis unfolding Let_def by (simp add: one_entry)
qed

lemma no_group:
  assumes "ready t h"
  shows "ipm_dip z AND 0xF0000000 = 0 \<Longrightarrow> rtk_l2_ipMcastAddr_get (Some z) t = (Err RT_ERR_INPUT, t)"
    and "ipm_dip z AND 0xF0000000 = 0 \<Longrightarrow> rtk_l2_ipMcastAddr_del (Some z) t = (Err RT_ERR_INPUT, t)"
    and "ivm_dip v AND 0xF0000000 = 0 \<Longrightarrow> ivm_vid v \<le> 0xFFF \<Longrightarrow> rtk_l2_ipVidMcastAddr_get (Some v) t = (Err RT_ERR_INPUT, t)"
    and "ivm_dip v AND 0xF0000000 = 0 \<Longrightarrow> ivm_vid v \<le> 0xFFF \<Longrightarrow> rtk_l2_ipVidMcastAddr_del (Some v) t = (Err RT_ERR_INPUT, t)"
  by (simp_all add: rtk_l2_ipMcastAddr_get_def rtk_l2_ipMcastAddr_del_def rtk_l2_ipVidMcastAddr_get_def rtk_l2_ipVidMcastAddr_del_def
      chk_then [OF assms] l2_checks errE_def)

lemma told_vid:
  assumes "(v :: u32) \<le> 0xFFF"
  shows "ucast ((ucast v AND 0xFF) OR drop_bit 8 (ucast v) :: 12 word) = (v AND 0xFF) OR drop_bit 8 v"
proof -
  have w: "ucast v = (w :: 12 word) \<Longrightarrow> (ucast w :: u32) = v" for w using ucast_fields(5) [OF assms] by auto
  obtain w :: "12 word" where v: "ucast v = w" by blast
  have "ucast (drop_bit 8 w) = (drop_bit 8 (ucast w) :: u32)" by (rule bit_word_eqI) (auto simp: bit_simps dest: bit_imp_le_length)
  with w [OF v, symmetric] show ?thesis unfolding v by (simp add: unsigned_or_eq unsigned_and_eq)
qed

text \<open>
  C28. What the two functions tell of an entry that a caller stored cannot be used to look it up or delete it:
  the group address comes back without its first four bits, 1110, and is refused as no group address.  Of
  the VLAN identifier, bits 8 to 11 come back ORed into bits 0 to 3.
\<close>

theorem ip_next_unusable:
  assumes "lut_ok view key mem s" and "ready s h" and "0 < max_lut_addr_num h" and "max_lut_addr_num h \<le> 0x2000"
    and "unat address < unat (max_lut_addr_num h)" and "l2_ok h (Add x)" and "mem a = Some (lut_enc (l2_fill h x l))"
    and "lut_next mem lut_l3 (unat address) a" and "unat address \<le> a" and "ready t h"
  shows "case x of
      Ip d \<Rightarrow> \<exists>d' z. rtk_l2_ipMcastAddr_next_get (Some address) PTR s = Some (Ok (of_nat a, z), s\<lparr>gsw_dev := d'\<rparr>) \<and>
        ipm_sip z = ipm_sip d \<and> ipm_portmask z = ipm_portmask d \<and> ipm_dip z = ipm_dip d AND 0x0FFFFFFF \<and>
        rtk_l2_ipMcastAddr_get (Some z) t = (Err RT_ERR_INPUT, t) \<and> rtk_l2_ipMcastAddr_del (Some z) t = (Err RT_ERR_INPUT, t)
    | Iv d \<Rightarrow> \<exists>d' z. rtk_l2_ipVidMcastAddr_next_get (Some address) PTR s = Some (Ok (of_nat a, z), s\<lparr>gsw_dev := d'\<rparr>) \<and>
        ivm_sip z = ivm_sip d \<and> ivm_portmask z = ivm_portmask d \<and> ivm_dip z = ivm_dip d AND 0x0FFFFFFF \<and>
        ivm_vid z = (ivm_vid d AND 0xFF) OR drop_bit 8 (ivm_vid d) \<and>
        rtk_l2_ipVidMcastAddr_get (Some z) t = (Err RT_ERR_INPUT, t) \<and> rtk_l2_ipVidMcastAddr_del (Some z) t = (Err RT_ERR_INPUT, t)
    | _ \<Rightarrow> True"
proof -
  let ?l = "luttb_zero\<lparr>lt_address := ucast address\<rparr>"
  let ?e = "lut_enc (l2_fill h x l)"
  let ?dec = "lut_dec ?l a ?e"
  note st = l3_start [OF assms(1-5,7,8)] and mask = mask_back [where h = h]
  have h: "hal_wf h" using assms(2) by (simp add: ready_def)
  have at: "ucast (lt_address ?dec) = (of_nat a :: u32)" using address_up [OF lut_okD(2) [OF assms(1,7)]] by simp
  have dip: "(v AND 0x0FFFFFFF) AND 0xF0000000 = (0 :: u32)" for v by (simp add: and.assoc)
  show ?thesis
  proof (cases x)
    case (Ip d)
    have f: "lt_l3lookup (ipm_fill d p l) = 1" "lt_l3vidlookup (ipm_fill d p l) = 0" for p by (simp_all add: ipm_fill_def ipm_key_def)
    have dec: "lt_sip ?dec = ipm_sip d" "lt_dip ?dec = ipm_dip d AND 0x0FFFFFFF" "lt_mbr ?dec = ucast (l2p_mask h (ipm_portmask d))"
      unfolding lut_dec_def Ip l2_fill.simps ip_decode [OF f] by (simp_all add: ipm_fill_def ipm_key_def)
    have "\<not> lut_l3vid ?e" using form_kind(4) [OF f(1)] f(2) Ip by simp
    then obtain d' where scan: "l3mc_scan 1 address ?l s = Some (Ok ?dec, s\<lparr>gsw_dev := d'\<rparr>)"
      using l3_scan_ends [OF st(1), of address 1] assms(9) by auto
    define z where "z = \<lparr>ipm_dip = lt_dip ?dec, ipm_sip = lt_sip ?dec, ipm_portmask = p2l_mask h (ucast (lt_mbr ?dec)),
      ipm_priority = ucast (lt_lut_pri ?dec), ipm_fwd_pri_en = ucast (lt_fwd_en ?dec), ipm_igmp_asic = ucast (lt_igmp_asic ?dec),
      ipm_igmp_index = ucast (lt_igmpidx ?dec), ipm_address = ucast (lt_address ?dec)\<rparr>"
    have "rtk_l2_ipMcastAddr_next_get (Some address) PTR s = Some (Ok (of_nat a, z), s\<lparr>gsw_dev := d'\<rparr>)"
      unfolding rtk_l2_ipMcastAddr_next_get_def bindP_def liftP_def st(2) ipm_of_lut_def at [symmetric] z_def
      by (simp add: scan bindE_assoc bindE_okE P2L_mask_bind [OF assms(2)] okE_def del: lut_dec_address)
    moreover have "ipm_portmask z = ipm_portmask d" using mask_back [OF h, of "ipm_portmask d"] assms(6) Ip
      unfolding z_def rtk_l2_ipMcastAddr_t.simps dec by simp
    moreover have "ipm_dip z = ipm_dip d AND 0x0FFFFFFF" "ipm_sip z = ipm_sip d"
      unfolding z_def rtk_l2_ipMcastAddr_t.simps dec by simp_all
    moreover have "ipm_dip z AND 0xF0000000 = 0" unfolding z_def rtk_l2_ipMcastAddr_t.simps dec by (rule dip)
    ultimately show ?thesis unfolding Ip l2_data.case using no_group(1,2) [OF assms(10), of z] by blast
  next
    case (Iv d)
    have f: "lt_l3lookup (ivm_fill d p l) = 1" "lt_l3vidlookup (ivm_fill d p l) = 1" for p by (simp_all add: ivm_fill_def ivm_key_def)
    have dec: "lt_sip ?dec = ivm_sip d" "lt_dip ?dec = ivm_dip d AND 0x0FFFFFFF" "lt_mbr ?dec = ucast (l2p_mask h (ivm_portmask d))"
      "lt_l3_vid ?dec = (ucast (ivm_vid d) AND 0xFF) OR drop_bit 8 (ucast (ivm_vid d))"
      unfolding lut_dec_def Iv l2_fill.simps iv_decode [OF f] by (simp_all add: ivm_fill_def ivm_key_def)
    have "lut_l3vid ?e" using form_kind(4) [OF f(1)] f(2) Iv by simp
    then obtain d' where scan: "l3mc_scan 0 address ?l s = Some (Ok ?dec, s\<lparr>gsw_dev := d'\<rparr>)"
      using l3_scan_ends [OF st(1), of address 0] assms(9) by auto
    define z where "z = \<lparr>ivm_dip = lt_dip ?dec, ivm_sip = lt_sip ?dec, ivm_vid = ucast (lt_l3_vid ?dec),
      ivm_portmask = p2l_mask h (ucast (lt_mbr ?dec)), ivm_address = ucast (lt_address ?dec)\<rparr>"
    have "rtk_l2_ipVidMcastAddr_next_get (Some address) PTR s = Some (Ok (of_nat a, z), s\<lparr>gsw_dev := d'\<rparr>)"
      unfolding rtk_l2_ipVidMcastAddr_next_get_def bindP_def liftP_def st(2) at [symmetric] z_def
      by (simp add: scan P2L_mask_bind [OF assms(2)] okE_def del: lut_dec_address)
    moreover have "ivm_portmask z = ivm_portmask d" using mask_back [OF h, of "ivm_portmask d"] assms(6) Iv
      unfolding z_def rtk_l2_ipVidMcastAddr_t.simps dec by simp
    moreover have "ivm_vid z = (ivm_vid d AND 0xFF) OR drop_bit 8 (ivm_vid d)"
      using assms(6) Iv unfolding z_def rtk_l2_ipVidMcastAddr_t.simps dec by (simp add: told_vid)
    moreover have "ivm_dip z = ivm_dip d AND 0x0FFFFFFF" "ivm_sip z = ivm_sip d"
      unfolding z_def rtk_l2_ipVidMcastAddr_t.simps dec by simp_all
    moreover have "ivm_dip z AND 0xF0000000 = 0" unfolding z_def rtk_l2_ipVidMcastAddr_t.simps dec by (rule dip)
    moreover have "unat (lt_l3_vid ?dec) < 2 ^ 12" using unsigned_less [of "lt_l3_vid ?dec"] by simp
    then have "ivm_vid z \<le> 0xFFF" by (simp add: z_def word_le_nat_alt unat_ucast_up)
    ultimately show ?thesis unfolding Iv l2_data.case using no_group(3,4) [OF assms(10), of z] by blast
  qed simp_all
qed

theorem ip_next_unusable_witness:
  "let s = lut_sim [Some (lut_enc (l2_fill rtl8367c_hal_Ctrl sample_ip luttb_zero))]
   in \<exists>d z. rtk_l2_ipMcastAddr_next_get (Some 0) PTR s = Some (Ok (0, z), s\<lparr>gsw_dev := d\<rparr>) \<and>
     ipm_dip z = 0x01020304 \<and> rtk_l2_ipMcastAddr_get (Some z) s = (Err RT_ERR_INPUT, s)"
proof -
  let ?h = rtl8367c_hal_Ctrl and ?w = "lut_enc (l2_fill rtl8367c_hal_Ctrl sample_ip luttb_zero)"
  have m: "max_lut_addr_num ?h = 2112" by code_simp
  have "lut_l3 ?w" by (rule form_kind(3)) (simp add: sample_ip_def ipm_fill_def ipm_key_def)
  then have n: "lut_next (lut_mem [Some ?w]) lut_l3 (unat (0 :: u32)) 0" by (auto simp: lut_next_def one_entry split: if_splits)
  have d: "(0xE1020304 :: u32) AND 0x0FFFFFFF = 0x01020304" by simp
  from ip_next_unusable [OF one_entry_ok lut_sim_ready _ _ _ sample_ok(2) _ n _ lut_sim_ready, of luttb_zero] m d
  show ?thesis unfolding sample_ip_def Let_def by (simp add: one_entry) blast
qed

end
