(* ===== verification/Spec2Isabelle.thy ===== *)
theory Spec2Isabelle
  imports Asicdrv_Test Vlan_Safety Sw_Mib Phy Mirror Svlan_Sp2c Meter_Spec Switch_Up L2_Walk
begin

text \<open>
  Verification of the RTL8367C/RTL8367S switch driver of the MediaTek target,
  \<open>src/target/target/mediatek/target/linux/mediatek/files/drivers/net/phy/rtk\<close>: the two board
  files \<open>rtl8367s_mdio.c\<close> and \<open>rtl8367s.c\<close> and the Realtek API in \<open>rtl8367c/\<close>, in the
  configuration its Makefile builds (\<^verbatim>\<open>-DMDC_MDIO_OPERATION\<close>).

  \<^bold>\<open>The program.\<close>  The driver is a stack.  At the bottom \<open>smi.c\<close> reads and writes the 16-bit
  registers of the switch through six accesses of the MDIO bus.  \<open>rtl8367c_asicdrv.c\<close> adds access to
  a bit and to a bit field by read-modify-write.  The \<open>rtl8367c_asicdrv_*.c\<close> files lay structures out
  in registers, or in tables behind a command register that is polled.  The API files (\<open>vlan.c\<close>,
  \<open>svlan.c\<close>, \<open>stat.c\<close>, \<open>mirror.c\<close>, \<open>trunk.c\<close>, \<open>cpu.c\<close>, \<open>rate.c\<close>, \<open>l2.c\<close>, \<open>rtk_switch.c\<close>) check arguments,
  translate the logical ports of the caller into physical ports and keep bookkeeping in file-scope
  arrays.  \<open>rtl8367s.c\<close> offers the swconfig operations of the kernel and \<open>rtl8367s_mdio.c\<close> resets the
  chip, initialises it and divides the ports of the board into a LAN and a WAN.

  \<^bold>\<open>The model.\<close>  A function is a HOL function on the state record \<open>gsw\<close> of \<open>Gsw\<close>: the file-scope
  variables of the driver, the two bus functions and the state of the device behind them, of an
  arbitrary type.  Its result is \<open>Ok\<close>, an error code (\<open>Err\<close>), or \<open>Fault\<close> where the C text has
  undefined behaviour (null dereference, index out of range, shift by the width, use of an
  uninitialised variable).  One kind of undefined behaviour is not a \<open>Fault\<close>: the loops that write a packed
  array to registers (\<open>rtl8367c_setAsicSvlanMC2SConf\<close>, \<open>rtl8367c_setAsicSvlanSP2CConf\<close>, the two of
  \<open>rtl8367c_asicdrv_lut.c\<close>) end by reading one word past the array and never use it.  \<open>Word_Loop\<close> models
  the read with an unspecified value, so that the functional theorems hold whatever it is; the safety
  theorems do not cover it.  The C integers keep their width.  Output pointers are results; whether the caller
  passed one is the argument type \<open>ptr\<close> or an option, since the code tests it.
  Nothing is assumed of the bus or the chip unless a theorem says so.  The contracts are
  named hypotheses and describe the documented behaviour of the device:
    \<^item> \<open>smi_contract\<close> (\<open>Asicdrv\<close>): the addresses of a set \<open>A\<close> hold what was last written;
    \<^item> \<open>table_contract\<close> (\<open>Asic_Table\<close>): in addition a table command moves an entry between the
      data registers and the table, and the busy flag clears after finitely many polls; the code gives up
      after 10, so the theorems about success ask for fewer than 10;
    \<^item> \<open>mib_contract\<close> (\<open>Stat\<close>): writing the counter address latches a row, busy for fewer
      than the 100 polls of the code;
    \<^item> \<open>phy_contract\<close> (\<open>Phy\<close>): the window onto the registers of the PHYs, with the bits that are storage and the
      writes that only store as parameters, since page selects, status and self-clearing bits are neither;
      \<open>sds_contract\<close>: the window onto the registers of the SerDes.  The loop that waits for the SerDes has no bound in the code; it is \<open>sds_wait\<close>, a partial
      function in which not returning is \<open>None\<close>, and the theorems say when it returns;
    \<^item> \<open>lut_contract\<close> (\<open>Lut_Spec\<close>): the table of addresses is a memory that is read and written by commands; where
      the chip puts a new entry, and which learned entry it gives up for it, is left open;
    \<^item> \<open>device_closed\<close> (\<open>Switch_Up\<close>): reading and writing registers stays within a set of device states.
  \<open>Chip_Sim\<close>, \<open>Stat\<close>, \<open>Phy\<close> and \<open>Lut_Sim\<close> define concrete chips that satisfy them; the witnesses run the driver on these.

  \<^bold>\<open>The theories\<close>, from the bottom up.
    \<^item> \<open>Prelude\<close>: error codes of \<open>rtk_error.h\<close>, the monad of the driver, its rules, the notion \<open>safe\<close>
      (no undefined behaviour, an invariant kept) and bit-field lemmas.  \<open>Gsw\<close>: the state.
    \<^item> \<open>Smi\<close>: \<open>smi_read\<close>, \<open>smi_write\<close> and the MDIO accesses below them.  \<open>Asicdrv\<close>: the six register
      accessors, with the locale \<open>reg_interface\<close> for what any implementation of them promises.
      \<open>Asicdrv_Test\<close>: the emulation of the same accessors for driver tests, which the hardware build refines.
    \<^item> \<open>Asic_Table\<close>: the command, poll and fetch protocol of the tables, and a small calculus (\<open>wp\<close>) over the
      abstract content of the chip.  \<open>Chip_Sim\<close>: the simulated chip.
    \<^item> \<open>Switch\<close>: port tables, probing (which chip, which table) and port translation of \<open>rtk_switch.c\<close>; the locale \<open>port_map\<close> holds
      of the four tables; \<open>gsw_inv\<close> is the type invariant of the driver state.
    \<^item> \<open>Port_Field\<close>, \<open>Port_Api\<close>, \<open>Config_Unit\<close>, \<open>Row_Table\<close>: the interfaces that most of the API shares:
      a bit field selected by a port, a checked setting of a port, a unit of global settings refined by
      an abstract configuration, and a table of entries held in consecutive registers.  \<open>Word_Loop\<close>: the
      loop that writes a packed array to registers.
    \<^item> \<open>AsicVlan\<close>, \<open>AsicVlan_Spec\<close> (\<open>rtl8367c_asicdrv_vlan.c\<close>) and \<open>Vlan\<close>, \<open>Vlan_Spec\<close>, \<open>Vlan_Entries\<close>,
      \<open>Vlan_Ports\<close>, \<open>Vlan_Init\<close>, \<open>Vlan_Safety\<close>, \<open>Vlan_Model\<close> (\<open>vlan.c\<close>): the packing of VLAN entries, the
      32 member-configuration entries with their bookkeeping, and the abstract switch of two maps.
    \<^item> \<open>Board\<close> (\<open>rtl8367s_vlan_config\<close>), \<open>Swconfig\<close> (the VLAN operations of \<open>rtl8367s.c\<close>), \<open>Stat\<close>
      (\<open>stat.c\<close> and \<open>rtl8367c_asicdrv_mib.c\<close>, with the memory layout of the counter structure), \<open>Sw_Mib\<close> (its counter report).
    \<^item> \<open>Phy\<close> (\<open>rtl8367c_asicdrv_phy.c\<close>), \<open>Mirror\<close>, \<open>Trunk\<close>, \<open>Cpu\<close>: the unit of the same name with its
      register file.
    \<^item> \<open>AsicSvlan\<close>, \<open>Svlan\<close>, \<open>Svlan_Spec\<close>, \<open>Svlan_Maps\<close>, \<open>Svlan_Sp2c\<close>: service VLANs: registers, API,
      the invariant of the bookkeeping, and the mapping tables as finite maps.
    \<^item> \<open>Rate\<close>, \<open>Rate_Spec\<close>, \<open>Meter_Spec\<close> (\<open>rate.c\<close> with three register files): bandwidth limits and shared
      meters.
    \<^item> \<open>Lut\<close>, \<open>Lut_Spec\<close>, \<open>Lut_Pack\<close> (\<open>rtl8367c_asicdrv_lut.c\<close>) and \<open>L2\<close> (\<open>l2.c\<close>): the table of addresses, its
      commands, what they do on a chip that keeps the contract, and the packing of an entry into six words.
      \<open>Lut_Entry\<close>: adding and deleting an entry, with the locale \<open>lut_entry\<close> for what a kind of entries
      promises and the four kinds as interpretations.  \<open>L2_Spec\<close>: the abstract table as a step relation, refined by
      the driver.  \<open>L2_Props\<close>, \<open>L2_Walk\<close>: what follows for stored entries and for walks through the table, with
      the chip of \<open>Lut_Sim\<close> for the witnesses.
    \<^item> \<open>Switch_Init\<close>, \<open>Switch_Up\<close> (\<open>rtk_switch_init\<close>, \<open>rtl8367s_hw_reset\<close>, \<open>rtl8367s_hw_init\<close>): the start of the
      switch up to the board's VLANs.  As the sequence of the RTL8370B polls without a bound, it lives in
      the driver monad over an option.

  \<^bold>\<open>What is shown.\<close>  Round trips: what a set operation accepts is what the get operation
  returns, and the other ports, entries and VLANs, under the conditions each theorem names, are untouched.  Refinement: sequences of calls return
  what an abstract configuration or a finite map returns; the locales \<open>config_unit\<close>, \<open>readable_unit\<close>
  and \<open>simulated_unit\<close> lift the single call to sequences.  The calls of \<open>l2.c\<close> refine a step relation instead, since
  the chip is free to place entries.  Safety and invariants: no sequence of VLAN calls, whatever the
  bus and the arguments (but for one unchecked result pointer), leaves the well-formed states or runs into
  undefined behaviour; no sequence of service-VLAN calls on a chip that keeps its contract breaks the bookkeeping or
  ends in \<open>Fault\<close>.  Errors: the first failing check determines the code and nothing is
  touched.  Liveness and bounds: initialisation and the bounded polls succeed, texts fit
  their buffers.  Equivalence: the hardware accessors and their emulation agree.  Several properties
  prove a defect of the code on the model; they are worded as such.

  \<^bold>\<open>Not modelled.\<close>  \<open>port.c\<close> and \<open>rtl8367c_asicdrv_port.c\<close>, which \<open>rtl8367s_mdio.c\<close> calls between
  \<open>rtl8367s_hw_init\<close> and \<open>rtl8367s_vlan_config\<close> to set up the two external ports: fixed register
  sequences and firmware tables of the SerDes.  The units the board code does not
  use: access control lists, priority queues, storm filter, IGMP snooping, 802.1X, LEDs, energy
  saving and others, which use the register and table access modelled here.  Delays (\<open>mdelay\<close>)
  have no effect in the model, and the mutex of the bus is omitted, as each register access
  is one step of one caller.  The rest of the repository consists of package recipes, vendored packages, kernel
  patches and drivers written against kernel frameworks that are not in the repository.
\<close>

end
